(* ===== verification/Prelude.thy ===== *)
theory Prelude
  imports Main "HOL-Library.Word"
begin

text \<open>
  Shared vocabulary of the development: how JavaScript strings, numbers, JSON values and
  \<open>undefined\<close> are represented, the few functions of the language's standard library the
  sources use, and the interfaces (locales) several components share.

  Conventions. A JavaScript string is the list of the bytes of its UTF-8 encoding (an
  Isabelle \<open>string\<close>); equality, concatenation and search for ASCII text agree with the
  original. \<open>undefined\<close> and \<open>null\<close> are \<open>None\<close>. A thrown error is the \<open>Inl\<close> of a sum. User
  interface texts in Turkish keep their wording where the code inspects them, and are named
  constructors otherwise.
\<close>

named_theorems model_defs \<open>definitions of straight-line code, unfolded to run the model\<close>

type_synonym byte = "8 word"

text \<open>The Turkish letters outside ASCII that occur in the texts the code builds.\<close>

definition tr_s :: string where "tr_s = [CHR 0xC5, CHR 0x9F]" \<comment> \<open>s with cedilla\<close>
definition tr_i :: string where "tr_i = [CHR 0xC4, CHR 0xB1]" \<comment> \<open>dotless i\<close>
definition tr_c :: string where "tr_c = [CHR 0xC3, CHR 0xA7]" \<comment> \<open>c with cedilla\<close>
definition tr_g :: string where "tr_g = [CHR 0xC4, CHR 0x9F]" \<comment> \<open>g with breve\<close>
definition tr_o :: string where "tr_o = [CHR 0xC3, CHR 0xB6]" \<comment> \<open>o with diaeresis\<close>
definition tr_u :: string where "tr_u = [CHR 0xC3, CHR 0xBC]" \<comment> \<open>u with diaeresis\<close>
definition em_dash :: string where "em_dash = [CHR 0xE2, CHR 0x80, CHR 0x94]"

lemmas text_defs = tr_s_def tr_i_def tr_c_def tr_g_def tr_o_def tr_u_def em_dash_def

subsection \<open>JSON values\<close>

datatype json =
    JNull
  | JBool bool
  | JNum int
  | JStr string
  | JArr "json list"
  | JObj "(string \<times> json) list"

text \<open>\<open>v.k\<close> on a parsed JSON value: \<open>None\<close> is \<open>undefined\<close>; a later duplicate key wins.\<close>

fun json_field :: "json \<Rightarrow> string \<Rightarrow> json option" where
  "json_field (JObj ps) k = map_of (rev ps) k"
| "json_field _ k = None"

text \<open>A string-typed property read through a cast: a value of another type is not expected
  by the code's types and reads as \<open>undefined\<close>.\<close>

definition json_str_field :: "json \<Rightarrow> string \<Rightarrow> string option" where
  "json_str_field j k = (case json_field j k of Some (JStr s) \<Rightarrow> Some s | _ \<Rightarrow> None)"

subsection \<open>Truthiness and the operators \<open>||\<close> and \<open>??\<close> on optional strings\<close>

definition truthy :: "string option \<Rightarrow> bool" where
  "truthy x \<longleftrightarrow> (case x of None \<Rightarrow> False | Some s \<Rightarrow> s \<noteq> [])"

lemma truthy_simps [simp]:
  "\<not> truthy None" "truthy (Some s) \<longleftrightarrow> s \<noteq> []"
  by (simp_all add: truthy_def)

text \<open>\<open>s || undefined\<close>.\<close>

definition or_undefined :: "string \<Rightarrow> string option" where
  "or_undefined s = (if s = [] then None else Some s)"

lemma or_undefined_simps [simp]:
  "or_undefined [] = None" "s \<noteq> [] \<Longrightarrow> or_undefined s = Some s"
  by (simp_all add: or_undefined_def)

text \<open>\<open>a ?? b\<close>.\<close>

definition nullish :: "'a option \<Rightarrow> 'a \<Rightarrow> 'a" where
  "nullish x d = (case x of None \<Rightarrow> d | Some v \<Rightarrow> v)"

lemma nullish_simps [simp]:
  "nullish None d = d" "nullish (Some v) d = v"
  by (simp_all add: nullish_def)

subsection \<open>Numbers as text\<close>

fun show_nat :: "nat \<Rightarrow> string" where
  "show_nat n =
     (if n < 10 then [''0123456789'' ! n]
      else show_nat (n div 10) @ [''0123456789'' ! (n mod 10)])"

declare show_nat.simps [simp del]

definition show_int :: "int \<Rightarrow> string" where
  "show_int i = (if i < 0 then ''-'' @ show_nat (nat (- i)) else show_nat (nat i))"

lemma show_nat_nonempty [simp]: "show_nat n \<noteq> []"
  by (subst show_nat.simps) simp

text \<open>Reading the digits back is the inverse, so two different numbers never print alike.\<close>

definition digit_val :: "char \<Rightarrow> nat" where
  "digit_val c = of_char c - 48"

definition read_nat :: "string \<Rightarrow> nat" where
  "read_nat s = foldl (\<lambda>n c. 10 * n + digit_val c) 0 s"

lemma digit_val_digit: "d < 10 \<Longrightarrow> digit_val (''0123456789'' ! d) = d"
proof -
  assume "d < 10"
  then have "d \<in> {0, 1, 2, 3, 4, 5, 6, 7, 8, 9}" by auto
  then show ?thesis by (auto simp: digit_val_def)
qed

lemma read_show_nat: "read_nat (show_nat n) = n"
proof (induction n rule: show_nat.induct)
  case (1 n)
  show ?case
  proof (cases "n < 10")
    case True
    then show ?thesis
      by (subst show_nat.simps) (simp add: read_nat_def digit_val_digit)
  next
    case False
    with 1 have "read_nat (show_nat (n div 10)) = n div 10" by simp
    with False show ?thesis
      by (subst show_nat.simps) (simp add: read_nat_def digit_val_digit)
  qed
qed

lemma show_nat_inj [simp]: "show_nat a = show_nat b \<longleftrightarrow> a = b"
  by (metis read_show_nat)

subsection \<open>Runs of a state machine\<close>

text \<open>
  A component driven by events is a function \<open>step\<close> from a state and an event to the next
  state. Some events can only happen in some states (a timer that is not armed does not
  fire); \<open>can\<close> says which, and a run is a list of events each possible where it happens.
\<close>

fun possible_run :: "('s \<Rightarrow> 'e \<Rightarrow> bool) \<Rightarrow> ('s \<Rightarrow> 'e \<Rightarrow> 's) \<Rightarrow> 's \<Rightarrow> 'e list \<Rightarrow> bool" where
  "possible_run can step s [] = True"
| "possible_run can step s (e # es) = (can s e \<and> possible_run can step (step s e) es)"

lemma possible_run_append:
  "possible_run can step s (es @ es') \<longleftrightarrow> possible_run can step s es \<and> possible_run can step (foldl step s es) es'"
  by (induction es arbitrary: s) auto

locale machine =
  fixes can :: "'s \<Rightarrow> 'e \<Rightarrow> bool"
    and step :: "'s \<Rightarrow> 'e \<Rightarrow> 's"
    and inv :: "'s \<Rightarrow> bool"
  assumes step_keeps: "inv s \<Longrightarrow> can s e \<Longrightarrow> inv (step s e)"
begin

lemma run_keeps: "inv s \<Longrightarrow> possible_run can step s es \<Longrightarrow> inv (foldl step s es)"
proof (induction es arbitrary: s)
  case Nil
  then show ?case by simp
next
  case (Cons e es)
  from Cons.prems have "inv (step s e)" by (simp add: step_keeps)
  with Cons show ?case by simp
qed

lemma prefix_keeps:
  "inv s \<Longrightarrow> possible_run can step s (es @ es') \<Longrightarrow> inv (foldl step s es)"
proof (induction es arbitrary: s)
  case Nil
  then show ?case by simp
next
  case (Cons e es)
  from Cons.prems have "inv (step s e)" by (simp add: step_keeps)
  with Cons show ?case by simp
qed

end

end
