(* ===== verification/Errors.thy ===== *)
theory Errors
  imports Prelude
begin

text \<open>
  The error values of the API layer (\<open>shared/pkg/src/api/errors.ts\<close>): the typed exception for
  non-2xx responses, the exception for a mutation that went into the offline queue, the
  server's stable codes and the two classifiers the fetch wrappers use.
\<close>

record ApiErrorResponse =
  er_code :: string
  er_message :: string
  er_details :: "json option"

record ApiError =
  status :: nat
  code :: string
  message :: string
  details :: "json option"

definition new_ApiError :: "nat \<Rightarrow> ApiErrorResponse \<Rightarrow> ApiError" where
  "new_ApiError st body =
     \<lparr>status = st, code = er_code body, message = er_message body, details = er_details body\<rparr>"

text \<open>What a rejected promise or a \<open>throw\<close> carries: an \<open>ApiError\<close>, an \<open>OfflineQueuedError\<close> with
  the id of the queued operation, or another \<open>Error\<close> with its message.\<close>

datatype js_error =
    ApiErr ApiError
  | OfflineQueued string
  | OtherError string

datatype ErrCodeName =
    BadRequest | Unauthorized | InvalidCreds | InvalidMFA | InvalidCode | InvalidToken
  | AccountLocked | AccountPendingMFA | MFARequired | RateLimited | Conflict | Internal
  | Forbidden | ReuseDetected | OfflineQueuedCode

fun ErrCode :: "ErrCodeName \<Rightarrow> string" where
  "ErrCode BadRequest = ''bad_request''"
| "ErrCode Unauthorized = ''unauthorized''"
| "ErrCode InvalidCreds = ''invalid_credentials''"
| "ErrCode InvalidMFA = ''invalid_mfa''"
| "ErrCode InvalidCode = ''invalid_code''"
| "ErrCode InvalidToken = ''invalid_token''"
| "ErrCode AccountLocked = ''account_locked''"
| "ErrCode AccountPendingMFA = ''account_pending_totp''"
| "ErrCode MFARequired = ''mfa_required''"
| "ErrCode RateLimited = ''rate_limited''"
| "ErrCode Conflict = ''conflict''"
| "ErrCode Internal = ''internal_error''"
| "ErrCode Forbidden = ''forbidden''"
| "ErrCode ReuseDetected = ''reuse_detected''"
| "ErrCode OfflineQueuedCode = ''offline_queued''"

text \<open>\<open>OfflineQueuedError.code\<close> is the constant \<open>ErrCode.OfflineQueued\<close>.\<close>

fun error_code :: "js_error \<Rightarrow> string option" where
  "error_code (ApiErr e) = Some (code e)"
| "error_code (OfflineQueued opId) = Some (ErrCode OfflineQueuedCode)"
| "error_code (OtherError m) = None"

fun isUnrecoverableAuth :: "js_error \<Rightarrow> bool" where
  "isUnrecoverableAuth (ApiErr e) = (status e = 401 \<or> code e = ErrCode AccountLocked)"
| "isUnrecoverableAuth _ = False"

fun isAccessTokenExpired :: "js_error \<Rightarrow> bool" where
  "isAccessTokenExpired (ApiErr e) =
     (status e = 401 \<and> (code e = ErrCode InvalidToken \<or> code e = ErrCode Unauthorized))"
| "isAccessTokenExpired _ = False"

lemma ErrCode_inj: "inj ErrCode"
proof (rule injI)
  fix a b :: ErrCodeName
  assume "ErrCode a = ErrCode b"
  then show "a = b" by (cases a; cases b; simp)
qed

lemma expired_is_unrecoverable: "isAccessTokenExpired e \<Longrightarrow> isUnrecoverableAuth e"
  by (cases e) auto

lemma new_ApiError_simps [simp]:
  "status (new_ApiError st b) = st" "code (new_ApiError st b) = er_code b"
  "message (new_ApiError st b) = er_message b" "details (new_ApiError st b) = er_details b"
  by (simp_all add: new_ApiError_def)

end
