(* ===== verification/Http.thy ===== *)
theory Http
  imports Errors
begin

text \<open>
  Requests and responses as the two fetch wrappers build and read them
  (\<open>web/src/api/client.ts\<close>, \<open>client/src/api/client.ts\<close>): request options, the URL with its
  query string, and the error body of a non-2xx response.
\<close>

datatype http_method = GET | POST | PUT | PATCH | DELETE

text \<open>A query parameter's value (\<open>string | number | boolean\<close>); \<open>undefined\<close> is \<open>None\<close>.\<close>

datatype query_value = QStr string | QNum int | QBool bool

type_synonym query = "(string \<times> query_value option) list"

text \<open>A request body: a value for \<open>JSON.stringify\<close>, or form entries handed over as they are.\<close>

datatype req_body = JsonBody json | RawBody "(string \<times> string) list"

record RequestOptions =
  ro_method :: "http_method option"
  ro_body :: "json option"
  ro_rawBody :: "(string \<times> string) list option"
  ro_unauthenticated :: bool
  ro_query :: "query option"
  ro_noRetry :: bool

definition no_options :: RequestOptions where
  "no_options = \<lparr>ro_method = None, ro_body = None, ro_rawBody = None, ro_unauthenticated = False,
     ro_query = None, ro_noRetry = False\<rparr>"

record http_request =
  rq_url :: string
  rq_method :: http_method
  rq_headers :: "(string \<times> string) list"
  rq_body :: "req_body option"

text \<open>A settled \<open>fetch\<close>: it rejects with a message, or gives a status and a body. The body is
  \<open>None\<close> when \<open>res.json()\<close> rejects.\<close>

record http_response =
  rs_status :: nat
  rs_json :: "json option"

datatype fetch_result = NetworkFailure string | Response http_response

definition rs_ok :: "http_response \<Rightarrow> bool" where
  "rs_ok r \<longleftrightarrow> 200 \<le> rs_status r \<and> rs_status r < 300"

subsection \<open>Percent encoding\<close>

definition hex_digit :: "nat \<Rightarrow> char" where
  "hex_digit n = ''0123456789ABCDEF'' ! n"

definition percent :: "char \<Rightarrow> string" where
  "percent c = ''%'' @ [hex_digit (of_char c div 16), hex_digit (of_char c mod 16)]"

definition is_alnum :: "char \<Rightarrow> bool" where
  "is_alnum c = (let n = (of_char c :: nat) in
     48 \<le> n \<and> n \<le> 57 \<or> 65 \<le> n \<and> n \<le> 90 \<or> 97 \<le> n \<and> n \<le> 122)"

text \<open>\<open>encodeURIComponent\<close>, on the UTF-8 bytes.\<close>

definition encodeURIComponent :: "string \<Rightarrow> string" where
  "encodeURIComponent s =
     concat (map (\<lambda>c. if is_alnum c \<or> c \<in> set ''-_.!~*()'' \<or> of_char c = (39::nat) then [c] else percent c) s)"

text \<open>The \<open>application/x-www-form-urlencoded\<close> serializer of \<open>URLSearchParams\<close>.\<close>

definition form_char :: "char \<Rightarrow> string" where
  "form_char c =
     (if is_alnum c \<or> c \<in> set ''*-._'' then [c]
      else if c = CHR '' '' then ''+'' else percent c)"

definition form_encode :: "string \<Rightarrow> string" where
  "form_encode s = concat (map form_char s)"

fun join :: "string \<Rightarrow> string list \<Rightarrow> string" where
  "join sep [] = []"
| "join sep [x] = x"
| "join sep (x # y # zs) = x @ sep @ join sep (y # zs)"

definition params_toString :: "(string \<times> string) list \<Rightarrow> string" where
  "params_toString ps = join ''&'' (map (\<lambda>(k, v). form_encode k @ ''='' @ form_encode v) ps)"

text \<open>\<open>params.set(k, v)\<close>: replace the first entry of that name and drop the others, or append.\<close>

fun params_set :: "(string \<times> string) list \<Rightarrow> string \<Rightarrow> string \<Rightarrow> (string \<times> string) list" where
  "params_set [] k v = [(k, v)]"
| "params_set ((k', v') # ps) k v =
     (if k' = k then (k, v) # filter (\<lambda>p. fst p \<noteq> k) ps else (k', v') # params_set ps k v)"

fun query_string :: "query_value \<Rightarrow> string" where
  "query_string (QStr s) = s"
| "query_string (QNum i) = show_int i"
| "query_string (QBool b) = (if b then ''true'' else ''false'')"

subsection \<open>\<open>buildURL\<close>\<close>

definition collect_params :: "query \<Rightarrow> (string \<times> string) list" where
  "collect_params q =
     foldl (\<lambda>ps (k, v). case v of None \<Rightarrow> ps | Some x \<Rightarrow> params_set ps k (query_string x)) [] q"

definition buildURL :: "string \<Rightarrow> query option \<Rightarrow> string" where
  "buildURL path query =
     (case query of
        None \<Rightarrow> path
      | Some q \<Rightarrow>
          (let qs = params_toString (collect_params q)
           in if length qs = 0 then path else path @ ''?'' @ qs))"

definition cl_buildURL :: "string \<Rightarrow> string \<Rightarrow> query option \<Rightarrow> string" where
  "cl_buildURL baseUrl path query =
     (let full = baseUrl @ path in
      case query of
        None \<Rightarrow> full
      | Some q \<Rightarrow>
          (let qs = params_toString (collect_params q)
           in if length qs = 0 then full else full @ ''?'' @ qs))"

lemma cl_buildURL_eq: "cl_buildURL base path q = buildURL (base @ path) q"
  by (simp add: cl_buildURL_def buildURL_def Let_def split: option.splits)

subsection \<open>\<open>parseError\<close>\<close>

text \<open>The synthetic body stands unless the response is a JSON object with a non-empty code
  and message.\<close>

definition parseError :: "http_response \<Rightarrow> ApiError" where
  "parseError res =
     (let synthetic = \<lparr>er_code = ''unknown_error'', er_message = ''HTTP '' @ show_nat (rs_status res),
            er_details = None\<rparr>;
          body = (case rs_json res of
              None \<Rightarrow> synthetic
            | Some parsed \<Rightarrow>
                (case (json_str_field parsed ''code'', json_str_field parsed ''message'') of
                   (Some c, Some m) \<Rightarrow>
                     if c \<noteq> [] \<and> m \<noteq> []
                     then \<lparr>er_code = c, er_message = m, er_details = json_field parsed ''details''\<rparr>
                     else synthetic
                 | _ \<Rightarrow> synthetic))
      in new_ApiError (rs_status res) body)"

lemma parseError_status [simp]: "status (parseError res) = rs_status res"
  by (simp add: parseError_def Let_def)

end
