(* ===== verification/TokenStorage.thy ===== *)
theory TokenStorage
  imports Prelude
begin

text \<open>
  The browser's \<open>localStorage\<close> as the sources use it: a map from keys to strings whose calls
  can throw (storage disabled, private mode, quota), and the contract of a string-keyed store
  the token and session code relies on.

  A stored string is either plain text or the result of \<open>JSON.stringify\<close>; \<open>JSON.parse\<close> is the
  inverse of the latter and throws on plain text (the code never stores plain text that is
  JSON under a key it parses).
\<close>

datatype stored = Text string | Stringified json

record local_storage =
  ls_items :: "string \<Rightarrow> stored option"
  ls_can_read :: bool
  ls_can_write :: bool

definition empty_storage :: local_storage where
  "empty_storage = \<lparr>ls_items = Map.empty, ls_can_read = True, ls_can_write = True\<rparr>"

text \<open>\<open>getItem\<close> throws (\<open>Inl\<close>) when storage cannot be read; the two mutators throw when it
  cannot be written and otherwise return the new storage.\<close>

definition getItem :: "local_storage \<Rightarrow> string \<Rightarrow> unit + stored option" where
  "getItem ls k = (if ls_can_read ls then Inr (ls_items ls k) else Inl ())"

definition setItem :: "local_storage \<Rightarrow> string \<Rightarrow> stored \<Rightarrow> unit + local_storage" where
  "setItem ls k v =
     (if ls_can_write ls then Inr (ls\<lparr>ls_items := (ls_items ls)(k \<mapsto> v)\<rparr>) else Inl ())"

definition removeItem :: "local_storage \<Rightarrow> string \<Rightarrow> unit + local_storage" where
  "removeItem ls k =
     (if ls_can_write ls then Inr (ls\<lparr>ls_items := (ls_items ls)(k := None)\<rparr>) else Inl ())"

fun JSON_parse :: "stored \<Rightarrow> unit + json" where
  "JSON_parse (Stringified j) = Inr j"
| "JSON_parse (Text s) = Inl ()"

fun text_of :: "stored \<Rightarrow> string option" where
  "text_of (Text s) = Some s"
| "text_of (Stringified j) = None"

definition can_store :: "local_storage \<Rightarrow> bool" where
  "can_store ls \<longleftrightarrow> ls_can_read ls \<and> ls_can_write ls"

text \<open>\<open>try { localStorage.setItem(k, v) } catch {}\<close> and its sibling: a failed write leaves the
  storage as it was.\<close>

definition try_set :: "local_storage \<Rightarrow> string \<Rightarrow> stored \<Rightarrow> local_storage" where
  "try_set ls k v = (case setItem ls k v of Inl _ \<Rightarrow> ls | Inr ls' \<Rightarrow> ls')"

definition try_remove :: "local_storage \<Rightarrow> string \<Rightarrow> local_storage" where
  "try_remove ls k = (case removeItem ls k of Inl _ \<Rightarrow> ls | Inr ls' \<Rightarrow> ls')"

definition try_get :: "local_storage \<Rightarrow> string \<Rightarrow> stored option" where
  "try_get ls k = (case getItem ls k of Inl _ \<Rightarrow> None | Inr v \<Rightarrow> v)"

lemmas storage_defs = getItem_def setItem_def removeItem_def try_set_def try_remove_def try_get_def
  can_store_def

text \<open>The contract of a key-value store: what a read returns after a write, and that writes
  keep the store usable.\<close>

locale kv_store =
  fixes ok :: "'st \<Rightarrow> bool"
    and get :: "'st \<Rightarrow> 'k \<Rightarrow> 'v option"
    and put :: "'st \<Rightarrow> 'k \<Rightarrow> 'v \<Rightarrow> 'st"
    and del :: "'st \<Rightarrow> 'k \<Rightarrow> 'st"
  assumes get_put: "ok st \<Longrightarrow> get (put st k v) k' = (if k' = k then Some v else get st k')"
    and get_del: "ok st \<Longrightarrow> get (del st k) k' = (if k' = k then None else get st k')"
    and put_ok: "ok st \<Longrightarrow> ok (put st k v)"
    and del_ok: "ok st \<Longrightarrow> ok (del st k)"
begin

lemma put_same: "ok st \<Longrightarrow> get (put st k v) k = Some v"
  by (simp add: get_put)

lemma put_other: "ok st \<Longrightarrow> k' \<noteq> k \<Longrightarrow> get (put st k v) k' = get st k'"
  by (simp add: get_put)

lemma del_same: "ok st \<Longrightarrow> get (del st k) k = None"
  by (simp add: get_del)

lemma del_other: "ok st \<Longrightarrow> k' \<noteq> k \<Longrightarrow> get (del st k) k' = get st k'"
  by (simp add: get_del)

lemma put_put: "ok st \<Longrightarrow> get (put (put st k v) k v') = get (put st k v')"
  by (rule ext) (simp add: get_put put_ok)

end

interpretation ls: kv_store can_store try_get try_set try_remove
  by unfold_locales (auto simp: storage_defs)

section \<open>The token pair\<close>

text \<open>
  Where the tokens live (\<open>web/src/api/token-storage.ts\<close> and its desktop twin
  \<open>client/src/api/token-storage.ts\<close>): the access token in memory, the refresh token in
  \<open>localStorage\<close>, and in the web application the session metadata a page reload restores.
  The contract \<open>token_store\<close> is what the fetch wrappers rely on; both modules provide it.
\<close>

subsection \<open>State and persisted session\<close>

record SessionUser =
  user_id :: string
  username :: string
  roles :: "string list"

record PersistedSession =
  ps_user :: SessionUser
  ps_mustChangePassword :: "bool option"
  ps_mustSetupTOTP :: "bool option"
  ps_isBootstrap :: "bool option"

text \<open>The module's variables: \<open>accessTokenInMemory\<close> and the browser's storage.\<close>

record token_state =
  accessTokenInMemory :: "string option"
  storage :: local_storage

definition REFRESH_KEY :: string where
  "REFRESH_KEY = ''envanter.refresh_token''"

definition SESSION_KEY :: string where
  "SESSION_KEY = ''envanter.session''"

text \<open>\<open>JSON.stringify\<close> of a session (an undefined property is left out) and the cast back.\<close>

definition opt_field :: "string \<Rightarrow> bool option \<Rightarrow> (string \<times> json) list" where
  "opt_field k v = (case v of None \<Rightarrow> [] | Some b \<Rightarrow> [(k, JBool b)])"

definition user_json :: "SessionUser \<Rightarrow> json" where
  "user_json u = JObj [(''id'', JStr (user_id u)), (''username'', JStr (username u)),
     (''roles'', JArr (map JStr (roles u)))]"

definition session_json :: "PersistedSession \<Rightarrow> json" where
  "session_json s = JObj ([(''user'', user_json (ps_user s))]
     @ opt_field ''mustChangePassword'' (ps_mustChangePassword s)
     @ opt_field ''mustSetupTOTP'' (ps_mustSetupTOTP s)
     @ opt_field ''isBootstrap'' (ps_isBootstrap s))"

definition json_bool_field :: "json \<Rightarrow> string \<Rightarrow> bool option" where
  "json_bool_field j k = (case json_field j k of Some (JBool b) \<Rightarrow> Some b | _ \<Rightarrow> None)"

fun json_strings :: "json option \<Rightarrow> string list" where
  "json_strings (Some (JArr js)) = List.map_filter (\<lambda>j. case j of JStr s \<Rightarrow> Some s | _ \<Rightarrow> None) js"
| "json_strings _ = []"

definition user_of_json :: "json \<Rightarrow> SessionUser" where
  "user_of_json j = \<lparr>user_id = nullish (json_str_field j ''id'') [],
     username = nullish (json_str_field j ''username'') [],
     roles = json_strings (json_field j ''roles'')\<rparr>"

definition session_of_json :: "json \<Rightarrow> PersistedSession" where
  "session_of_json j = \<lparr>ps_user = user_of_json (nullish (json_field j ''user'') JNull),
     ps_mustChangePassword = json_bool_field j ''mustChangePassword'',
     ps_mustSetupTOTP = json_bool_field j ''mustSetupTOTP'',
     ps_isBootstrap = json_bool_field j ''isBootstrap''\<rparr>"

lemma map_filter_JStr [simp]:
  "List.map_filter (\<lambda>j. case j of JStr s \<Rightarrow> Some s | _ \<Rightarrow> None) (map JStr xs) = xs"
  by (induction xs) simp_all

lemma user_of_json_inverse [simp]: "user_of_json (user_json u) = u"
  by (simp add: user_of_json_def user_json_def json_str_field_def)

lemma session_of_json_inverse [simp]: "session_of_json (session_json s) = s"
  by (cases s) (auto simp: session_of_json_def session_json_def opt_field_def json_bool_field_def
      split: option.splits)

subsection \<open>The web module\<close>

definition getAccessToken :: "token_state \<Rightarrow> string option" where
  "getAccessToken ts = accessTokenInMemory ts"

definition setAccessToken :: "string option \<Rightarrow> token_state \<Rightarrow> token_state" where
  "setAccessToken t ts = ts\<lparr>accessTokenInMemory := t\<rparr>"

definition getRefreshToken :: "token_state \<Rightarrow> string option" where
  "getRefreshToken ts =
     (case getItem (storage ts) REFRESH_KEY of
        Inl _ \<Rightarrow> None
      | Inr v \<Rightarrow> Option.bind v text_of)"

definition setRefreshToken :: "string option \<Rightarrow> token_state \<Rightarrow> token_state" where
  "setRefreshToken t ts =
     (case t of
        None \<Rightarrow> ts\<lparr>storage := try_remove (storage ts) REFRESH_KEY\<rparr>
      | Some v \<Rightarrow> ts\<lparr>storage := try_set (storage ts) REFRESH_KEY (Text v)\<rparr>)"

definition getPersistedSession :: "token_state \<Rightarrow> PersistedSession option" where
  "getPersistedSession ts =
     (case getItem (storage ts) SESSION_KEY of
        Inl _ \<Rightarrow> None
      | Inr None \<Rightarrow> None
      | Inr (Some v) \<Rightarrow>
          (case JSON_parse v of Inl _ \<Rightarrow> None | Inr j \<Rightarrow> Some (session_of_json j)))"

definition setPersistedSession :: "PersistedSession option \<Rightarrow> token_state \<Rightarrow> token_state" where
  "setPersistedSession s ts =
     (case s of
        None \<Rightarrow> ts\<lparr>storage := try_remove (storage ts) SESSION_KEY\<rparr>
      | Some p \<Rightarrow> ts\<lparr>storage := try_set (storage ts) SESSION_KEY (Stringified (session_json p))\<rparr>)"

definition clearAllTokens :: "token_state \<Rightarrow> token_state" where
  "clearAllTokens ts =
     setPersistedSession None (setRefreshToken None (setAccessToken None ts))"

subsection \<open>The desktop module: no persisted session\<close>

definition cl_getAccessToken :: "token_state \<Rightarrow> string option" where
  "cl_getAccessToken ts = accessTokenInMemory ts"

definition cl_setAccessToken :: "string option \<Rightarrow> token_state \<Rightarrow> token_state" where
  "cl_setAccessToken t ts = ts\<lparr>accessTokenInMemory := t\<rparr>"

definition cl_getRefreshToken :: "token_state \<Rightarrow> string option" where
  "cl_getRefreshToken ts =
     (case getItem (storage ts) REFRESH_KEY of
        Inl _ \<Rightarrow> None
      | Inr v \<Rightarrow> Option.bind v text_of)"

definition cl_setRefreshToken :: "string option \<Rightarrow> token_state \<Rightarrow> token_state" where
  "cl_setRefreshToken t ts =
     (case t of
        None \<Rightarrow> ts\<lparr>storage := try_remove (storage ts) REFRESH_KEY\<rparr>
      | Some v \<Rightarrow> ts\<lparr>storage := try_set (storage ts) REFRESH_KEY (Text v)\<rparr>)"

definition cl_clearAllTokens :: "token_state \<Rightarrow> token_state" where
  "cl_clearAllTokens ts = cl_setRefreshToken None (cl_setAccessToken None ts)"

lemmas token_defs = getAccessToken_def setAccessToken_def getRefreshToken_def setRefreshToken_def
  getPersistedSession_def setPersistedSession_def clearAllTokens_def
  cl_getAccessToken_def cl_setAccessToken_def cl_getRefreshToken_def cl_setRefreshToken_def
  cl_clearAllTokens_def

definition tokens_storable :: "token_state \<Rightarrow> bool" where
  "tokens_storable ts \<longleftrightarrow> can_store (storage ts)"

subsection \<open>The contract of a token store\<close>

locale token_store =
  fixes usable :: "'t \<Rightarrow> bool"
    and access :: "'t \<Rightarrow> string option"
    and set_access :: "string option \<Rightarrow> 't \<Rightarrow> 't"
    and refresh :: "'t \<Rightarrow> string option"
    and set_refresh :: "string option \<Rightarrow> 't \<Rightarrow> 't"
    and clear :: "'t \<Rightarrow> 't"
  assumes access_set: "access (set_access a t) = a"
    and refresh_set_access: "refresh (set_access a t) = refresh t"
    and access_set_refresh: "access (set_refresh r t) = access t"
    and refresh_set: "usable t \<Longrightarrow> refresh (set_refresh r t) = r"
    and access_clear: "access (clear t) = None"
    and refresh_clear: "usable t \<Longrightarrow> refresh (clear t) = None"
    and usable_set_access: "usable (set_access a t) = usable t"
    and usable_set_refresh: "usable t \<Longrightarrow> usable (set_refresh r t)"
    and usable_clear: "usable t \<Longrightarrow> usable (clear t)"
begin

text \<open>What a refresh rotation leaves behind, and what a logout leaves behind.\<close>

lemma rotate:
  "usable t \<Longrightarrow> access (set_refresh r (set_access a t)) = a
     \<and> refresh (set_refresh r (set_access a t)) = r \<and> usable (set_refresh r (set_access a t))"
  by (simp add: access_set_refresh access_set refresh_set usable_set_access usable_set_refresh)

lemma logout: "usable t \<Longrightarrow> access (clear t) = None \<and> refresh (clear t) = None \<and> usable (clear t)"
  by (simp add: access_clear refresh_clear usable_clear)

lemma rotate_after_logout:
  "usable t \<Longrightarrow> refresh (set_refresh r (set_access a (clear t))) = r"
  using usable_clear rotate by blast

end

interpretation web_tokens: token_store tokens_storable getAccessToken setAccessToken
  getRefreshToken setRefreshToken clearAllTokens
  by unfold_locales
    (auto simp: token_defs storage_defs tokens_storable_def REFRESH_KEY_def SESSION_KEY_def
      split: option.splits)

interpretation cl_tokens: token_store tokens_storable cl_getAccessToken cl_setAccessToken
  cl_getRefreshToken cl_setRefreshToken cl_clearAllTokens
  by unfold_locales
    (auto simp: token_defs storage_defs tokens_storable_def REFRESH_KEY_def split: option.splits)

subsection \<open>The persisted session\<close>

lemma persisted_session_roundtrip:
  "tokens_storable ts \<Longrightarrow> getPersistedSession (setPersistedSession s ts) = s"
  by (auto simp: token_defs storage_defs tokens_storable_def split: option.splits)

lemma persisted_session_frame:
  "getRefreshToken (setPersistedSession s ts) = getRefreshToken ts"
  "getAccessToken (setPersistedSession s ts) = getAccessToken ts"
  "getPersistedSession (setAccessToken a ts) = getPersistedSession ts"
  "getPersistedSession (setRefreshToken r ts) = getPersistedSession ts"
  "tokens_storable (setPersistedSession s ts) = tokens_storable ts"
  by (auto simp: token_defs storage_defs tokens_storable_def REFRESH_KEY_def SESSION_KEY_def
      split: option.splits)

lemma clearAllTokens_session: "tokens_storable ts \<Longrightarrow> getPersistedSession (clearAllTokens ts) = None"
  by (auto simp: token_defs storage_defs tokens_storable_def split: option.splits)

end
