(* ===== verification/ApiClient.thy ===== *)
theory ApiClient
  imports Http TokenStorage
begin

text \<open>
  The web application's fetch wrapper (\<open>web/src/api/client.ts\<close>): building the request, mapping
  the response, and the refresh-and-retry of an expired access token.

  The network is a parameter: a function from the request and the outside world to the settled
  result and the next world. Everything the wrapper changes is in one record: the token
  storage, the world, the log of the requests sent (a log only the model has) and the
  \<open>auth:logout\<close> events dispatched, oldest first.
\<close>

type_synonym 'w net = "http_request \<Rightarrow> 'w \<Rightarrow> fetch_result \<times> 'w"

record 'w web_env =
  we_tokens :: token_state
  we_world :: 'w
  we_sent :: "http_request list"
  we_logouts :: "string list"

definition do_fetch :: "'w net \<Rightarrow> http_request \<Rightarrow> 'w web_env \<Rightarrow> fetch_result \<times> 'w web_env" where
  "do_fetch net rq env =
     (let (r, w') = net rq (we_world env)
      in (r, env\<lparr>we_world := w', we_sent := we_sent env @ [rq]\<rparr>))"

definition emitLogout :: "string \<Rightarrow> 'w web_env \<Rightarrow> 'w web_env" where
  "emitLogout reason env = env\<lparr>we_logouts := we_logouts env @ [reason]\<rparr>"

subsection \<open>The refresh round trip\<close>

definition refresh_request :: "string \<Rightarrow> http_request" where
  "refresh_request token =
     \<lparr>rq_url = ''/api/v1/auth/refresh'', rq_method = POST,
      rq_headers = [(''Content-Type'', ''application/json'')],
      rq_body = Some (JsonBody (JObj [(''refresh_token'', JStr token)]))\<rparr>"

text \<open>What \<open>setRefreshToken(body.refresh_token)\<close> stores: \<open>null\<close> removes the entry, and an
  undefined property is stored as the text \<open>undefined\<close>.\<close>

definition token_arg :: "json option \<Rightarrow> string option" where
  "token_arg v = (case v of Some (JStr s) \<Rightarrow> Some s | Some JNull \<Rightarrow> None | _ \<Rightarrow> Some ''undefined'')"

definition rotate_tokens :: "json \<Rightarrow> token_state \<Rightarrow> token_state" where
  "rotate_tokens body ts =
     setRefreshToken (token_arg (json_field body ''refresh_token''))
       (setAccessToken (json_str_field body ''access_token'') ts)"

definition session_over :: ApiError where
  "session_over = new_ApiError 401
     \<lparr>er_code = ErrCode Unauthorized, er_message = ''Oturum sona erdi.'', er_details = None\<rparr>"

definition refreshOnce :: "'w net \<Rightarrow> 'w web_env \<Rightarrow> (js_error + string option) \<times> 'w web_env" where
  "refreshOnce net env =
     (case getRefreshToken (we_tokens env) of
        None \<Rightarrow> (Inl (ApiErr session_over), env)
      | Some refresh \<Rightarrow>
          if refresh = [] then (Inl (ApiErr session_over), env)
          else (case do_fetch net (refresh_request refresh) env of
              (NetworkFailure m, env1) \<Rightarrow> (Inl (OtherError m), env1)
            | (Response res, env1) \<Rightarrow>
                if \<not> rs_ok res then (Inl (ApiErr (parseError res)), env1)
                else (case rs_json res of
                    None \<Rightarrow> (Inl (OtherError ''invalid json''), env1)
                  | Some body \<Rightarrow>
                      if body = JNull then (Inl (OtherError ''null body''), env1)
                      else (Inr (json_str_field body ''access_token''),
                            env1\<lparr>we_tokens := rotate_tokens body (we_tokens env1)\<rparr>))))"

fun logout_reason :: "js_error \<Rightarrow> string" where
  "logout_reason (ApiErr e) = code e"
| "logout_reason _ = ''refresh_failed''"

text \<open>\<open>ensureRefresh\<close> when no refresh is in flight: a failed refresh clears every token, emits
  the logout event and fails. The sharing of one refresh by concurrent calls is the subject
  of the theory \<open>RefreshFlight\<close>.\<close>

definition ensureRefresh :: "'w net \<Rightarrow> 'w web_env \<Rightarrow> (js_error + string option) \<times> 'w web_env" where
  "ensureRefresh net env =
     (case refreshOnce net env of
        (Inr t, env1) \<Rightarrow> (Inr t, env1)
      | (Inl err, env1) \<Rightarrow>
          (Inl err, emitLogout (logout_reason err) (env1\<lparr>we_tokens := clearAllTokens (we_tokens env1)\<rparr>)))"

subsection \<open>The request of one attempt\<close>

definition request_headers :: "string option \<Rightarrow> RequestOptions \<Rightarrow> (string \<times> string) list" where
  "request_headers token opts =
     (if ro_body opts \<noteq> None then [(''Content-Type'', ''application/json'')] else [])
     @ (if ro_unauthenticated opts then []
        else case token of
            None \<Rightarrow> []
          | Some t \<Rightarrow> if t = [] then [] else [(''Authorization'', ''Bearer '' @ t)])"

definition build_request :: "string option \<Rightarrow> string \<Rightarrow> RequestOptions \<Rightarrow> http_request" where
  "build_request token path opts =
     \<lparr>rq_url = buildURL path (ro_query opts),
      rq_method = nullish (ro_method opts) GET,
      rq_headers = request_headers token opts,
      rq_body = (case ro_rawBody opts of
          Some form \<Rightarrow> Some (RawBody form)
        | None \<Rightarrow> map_option JsonBody (ro_body opts))\<rparr>"

definition network_error :: "string \<Rightarrow> ApiError" where
  "network_error reason = new_ApiError 0
     \<lparr>er_code = ''network_error'', er_message = ''Sunucuya ula'' @ tr_s @ tr_i @ ''lamad'' @ tr_i @ ''.'',
      er_details = Some (JObj [(''reason'', JStr reason)])\<rparr>"

text \<open>The settled result of one attempt: \<open>Inr None\<close> is the \<open>undefined\<close> of a 204.\<close>

definition read_response :: "fetch_result \<Rightarrow> js_error + json option" where
  "read_response r =
     (case r of
        NetworkFailure m \<Rightarrow> Inl (ApiErr (network_error m))
      | Response res \<Rightarrow>
          if rs_ok res then
            if rs_status res = 204 then Inr None
            else (case rs_json res of
                None \<Rightarrow> Inl (OtherError ''invalid json'')
              | Some j \<Rightarrow> Inr (Some j))
          else Inl (ApiErr (parseError res)))"

subsection \<open>\<open>apiFetch\<close>\<close>

function apiFetch ::
    "'w net \<Rightarrow> string \<Rightarrow> RequestOptions \<Rightarrow> 'w web_env \<Rightarrow> (js_error + json option) \<times> 'w web_env" where
  "apiFetch net path opts env =
     (let (r, env1) = do_fetch net (build_request (getAccessToken (we_tokens env)) path opts) env
      in case read_response r of
          Inr v \<Rightarrow> (Inr v, env1)
        | Inl err \<Rightarrow>
            if \<not> ro_noRetry opts \<and> \<not> ro_unauthenticated opts \<and> isAccessTokenExpired err then
              (let (refreshed, env2) = ensureRefresh net env1
               in case refreshed of
                   Inl _ \<Rightarrow> (Inl err, env2)
                 | Inr _ \<Rightarrow> apiFetch net path (opts\<lparr>ro_noRetry := True\<rparr>) env2)
            else (Inl err, env1))"
  by pat_completeness auto
termination
  by (relation "measure (\<lambda>(net, path, opts, env). if ro_noRetry opts then 0 else 1)") auto

declare apiFetch.simps [simp del]

subsection \<open>One attempt\<close>

lemma do_fetch_frame:
  assumes "do_fetch net rq env = (r, env')"
  shows "we_tokens env' = we_tokens env" "we_logouts env' = we_logouts env"
    "we_sent env' = we_sent env @ [rq]" "r = fst (net rq (we_world env))"
  using assms by (auto simp: do_fetch_def split: prod.splits)

lemma network_error_not_expired [simp]: "\<not> isAccessTokenExpired (ApiErr (network_error m))"
  by (simp add: network_error_def)

text \<open>An attempt that may not refresh: exactly one request goes out and nothing else changes.\<close>

lemma apiFetch_single:
  assumes "ro_noRetry opts \<or> ro_unauthenticated opts
     \<or> \<not> (\<exists>err. read_response r = Inl err \<and> isAccessTokenExpired err)"
    and "do_fetch net (build_request (getAccessToken (we_tokens env)) path opts) env = (r, env1)"
  shows "apiFetch net path opts env = (read_response r, env1)"
  using assms by (subst apiFetch.simps) (auto simp: Let_def split: sum.splits)

text \<open>The refreshing case, spelled out.\<close>

lemma apiFetch_refreshing:
  assumes "do_fetch net (build_request (getAccessToken (we_tokens env)) path opts) env = (r, env1)"
    and "read_response r = Inl err" "isAccessTokenExpired err"
    and "\<not> ro_noRetry opts" "\<not> ro_unauthenticated opts"
    and "ensureRefresh net env1 = (refreshed, env2)"
  shows "apiFetch net path opts env =
     (case refreshed of Inl _ \<Rightarrow> (Inl err, env2)
      | Inr _ \<Rightarrow> apiFetch net path (opts\<lparr>ro_noRetry := True\<rparr>) env2)"
  using assms by (subst apiFetch.simps) (simp add: Let_def split: sum.splits)

subsection \<open>The refresh\<close>

text \<open>The four ways a refresh round trip ends.\<close>

lemma refreshOnce_cases:
  assumes "refreshOnce net env = (r, env')"
  obtains (no_token) "\<not> truthy (getRefreshToken (we_tokens env))" "r = Inl (ApiErr session_over)" "env' = env"
  | (rejected) t err fr where "getRefreshToken (we_tokens env) = Some t" "t \<noteq> []"
      "do_fetch net (refresh_request t) env = (fr, env')" "r = Inl err"
  | (rotated) t res env1 body where "getRefreshToken (we_tokens env) = Some t" "t \<noteq> []"
      "do_fetch net (refresh_request t) env = (Response res, env1)" "rs_ok res" "rs_json res = Some body"
      "body \<noteq> JNull" "r = Inr (json_str_field body ''access_token'')"
      "env' = env1\<lparr>we_tokens := rotate_tokens body (we_tokens env1)\<rparr>"
  using assms unfolding refreshOnce_def
  by (fastforce split: option.splits if_splits prod.splits fetch_result.splits)

lemma refreshOnce_sent:
  assumes "refreshOnce net env = (r, env')"
  shows "we_logouts env' = we_logouts env
     \<and> (we_sent env' = we_sent env
        \<or> (\<exists>t. getRefreshToken (we_tokens env) = Some t \<and> we_sent env' = we_sent env @ [refresh_request t]))"
  using assms
proof (cases rule: refreshOnce_cases)
  case no_token
  then show ?thesis by simp
next
  case (rejected t err fr)
  then show ?thesis using do_fetch_frame [of net "refresh_request t" env fr env'] by simp
next
  case (rotated t res env1 body)
  then show ?thesis using do_fetch_frame [of net "refresh_request t" env "Response res" env1] by simp
qed

lemma refreshOnce_fail_tokens:
  assumes "refreshOnce net env = (Inl err, env')"
  shows "we_tokens env' = we_tokens env"
  using assms
proof (cases rule: refreshOnce_cases)
  case (rejected t err' fr)
  then show ?thesis using do_fetch_frame [of net "refresh_request t" env fr env'] by simp
qed simp_all

lemma refreshOnce_ok_tokens:
  assumes "refreshOnce net env = (Inr t, env')"
  obtains body where "we_tokens env' = rotate_tokens body (we_tokens env)"
    "t = json_str_field body ''access_token''" "body \<noteq> JNull"
  using assms
proof (cases rule: refreshOnce_cases)
  case (rotated t' res env1 body)
  then show ?thesis
    using that [of body] do_fetch_frame [of net "refresh_request t'" env "Response res" env1] by simp
qed simp_all

lemma rotate_tokens_access: "getAccessToken (rotate_tokens body ts) = json_str_field body ''access_token''"
  by (simp add: rotate_tokens_def web_tokens.access_set_refresh web_tokens.access_set)

lemma rotate_tokens_refresh:
  "tokens_storable ts \<Longrightarrow> getRefreshToken (rotate_tokens body ts) = token_arg (json_field body ''refresh_token'')"
  by (simp add: rotate_tokens_def web_tokens.refresh_set web_tokens.usable_set_access)

lemma ensureRefresh_fail:
  assumes "ensureRefresh net env = (Inl err, env')"
  shows "we_tokens env' = clearAllTokens (we_tokens env)"
    and "we_logouts env' = we_logouts env @ [logout_reason err]"
proof -
  from assms obtain env1 where r: "refreshOnce net env = (Inl err, env1)"
    and e: "env' = emitLogout (logout_reason err) (env1\<lparr>we_tokens := clearAllTokens (we_tokens env1)\<rparr>)"
    unfolding ensureRefresh_def by (auto split: prod.splits sum.splits)
  from r have "we_tokens env1 = we_tokens env" "we_logouts env1 = we_logouts env"
    using refreshOnce_fail_tokens refreshOnce_sent by blast+
  then show "we_tokens env' = clearAllTokens (we_tokens env)"
    "we_logouts env' = we_logouts env @ [logout_reason err]"
    by (simp_all add: e emitLogout_def)
qed

lemma ensureRefresh_ok:
  assumes "ensureRefresh net env = (Inr t, env')"
  shows "refreshOnce net env = (Inr t, env')" "we_logouts env' = we_logouts env"
    "getAccessToken (we_tokens env') = t"
proof -
  show r: "refreshOnce net env = (Inr t, env')"
    using assms by (auto simp: ensureRefresh_def split: prod.splits sum.splits)
  then show "we_logouts env' = we_logouts env"
    using refreshOnce_sent by blast
  show "getAccessToken (we_tokens env') = t"
    by (rule refreshOnce_ok_tokens [OF r]) (simp add: rotate_tokens_access)
qed

lemma ensureRefresh_sent:
  assumes "ensureRefresh net env = (r, env')"
  shows "we_sent env' = we_sent env
     \<or> (\<exists>t. getRefreshToken (we_tokens env) = Some t \<and> we_sent env' = we_sent env @ [refresh_request t])"
proof -
  obtain r1 env1 where r: "refreshOnce net env = (r1, env1)" by fastforce
  with assms have "we_sent env' = we_sent env1"
    by (cases r1) (auto simp: ensureRefresh_def emitLogout_def)
  with refreshOnce_sent [OF r] show ?thesis by simp
qed

subsection \<open>Properties of \<open>apiFetch\<close>\<close>

lemma build_request_noRetry [simp]:
  "build_request tok path (opts\<lparr>ro_noRetry := b\<rparr>) = build_request tok path opts"
  by (cases "ro_rawBody opts") (simp_all add: build_request_def request_headers_def)

lemma build_request_no_auth:
  "ro_unauthenticated opts \<Longrightarrow> ''Authorization'' \<notin> fst ` set (rq_headers (build_request tok path opts))"
  by (auto simp: build_request_def request_headers_def)

text \<open>The first attempt of a call, and what can follow it.\<close>

lemma apiFetch_cases:
  assumes "apiFetch net path opts env = (res, env')"
  obtains (direct) r where
      "do_fetch net (build_request (getAccessToken (we_tokens env)) path opts) env = (r, env')"
      "res = read_response r"
  | (gave_up) r env1 err err' where
      "do_fetch net (build_request (getAccessToken (we_tokens env)) path opts) env = (r, env1)"
      "read_response r = Inl err" "isAccessTokenExpired err" "\<not> ro_noRetry opts" "\<not> ro_unauthenticated opts"
      "ensureRefresh net env1 = (Inl err', env')" "res = Inl err"
  | (retried) r env1 err t env2 r2 where
      "do_fetch net (build_request (getAccessToken (we_tokens env)) path opts) env = (r, env1)"
      "read_response r = Inl err" "isAccessTokenExpired err" "\<not> ro_noRetry opts" "\<not> ro_unauthenticated opts"
      "ensureRefresh net env1 = (Inr t, env2)"
      "do_fetch net (build_request t path opts) env2 = (r2, env')" "res = read_response r2"
proof -
  obtain r env1 where f: "do_fetch net (build_request (getAccessToken (we_tokens env)) path opts) env = (r, env1)"
    by fastforce
  show ?thesis
  proof (cases "\<exists>err. read_response r = Inl err \<and> isAccessTokenExpired err
      \<and> \<not> ro_noRetry opts \<and> \<not> ro_unauthenticated opts")
    case False
    then have "apiFetch net path opts env = (read_response r, env1)"
      using f by (intro apiFetch_single) auto
    with assms f direct show ?thesis by simp
  next
    case True
    then obtain err where e: "read_response r = Inl err" "isAccessTokenExpired err"
      "\<not> ro_noRetry opts" "\<not> ro_unauthenticated opts" by blast
    obtain refreshed env2 where g: "ensureRefresh net env1 = (refreshed, env2)" by fastforce
    note step = apiFetch_refreshing [OF f e(1,2,3,4) g]
    show ?thesis
    proof (cases refreshed)
      case (Inl err')
      with step assms f e g gave_up show ?thesis by simp
    next
      case (Inr t)
      obtain r2 env3 where h: "do_fetch net (build_request t path opts) env2 = (r2, env3)" by fastforce
      have "getAccessToken (we_tokens env2) = t"
        using g Inr ensureRefresh_ok(3) by blast
      with h have "apiFetch net path (opts\<lparr>ro_noRetry := True\<rparr>) env2 = (read_response r2, env3)"
        by (intro apiFetch_single) simp_all
      with step assms f e g h Inr retried show ?thesis by simp
    qed
  qed
qed

text \<open>
  A request marked \<open>unauthenticated\<close> (login, recovery, public share links) is sent exactly
  once, without an Authorization header, whatever the server answers; it never refreshes,
  never changes a stored token and never logs the user out.
\<close>
theorem apiFetch_unauthenticated_isolated:
  assumes "ro_unauthenticated opts" and "apiFetch net path opts env = (res, env')"
  shows "we_tokens env' = we_tokens env \<and> we_logouts env' = we_logouts env
    \<and> (\<exists>rq. we_sent env' = we_sent env @ [rq] \<and> rq_url rq = buildURL path (ro_query opts)
          \<and> ''Authorization'' \<notin> fst ` set (rq_headers rq))"
  using assms(2)
proof (cases rule: apiFetch_cases)
  case (direct r)
  then show ?thesis
    using do_fetch_frame [OF direct(1)] build_request_no_auth [OF assms(1)]
    by (auto simp: build_request_def)
qed (use assms(1) in simp_all)

text \<open>
  One call of \<open>apiFetch\<close> sends its own request at most twice and the refresh request at
  most once: the log grows by the request alone, by request and refresh, or by request,
  refresh and the request again under the rotated access token.
\<close>
theorem apiFetch_requests:
  assumes "apiFetch net path opts env = (res, env')"
  shows "\<exists>rqs first. we_sent env' = we_sent env @ rqs
    \<and> first = build_request (getAccessToken (we_tokens env)) path opts
    \<and> (rqs = [first]
       \<or> (\<exists>t. getRefreshToken (we_tokens env) = Some t \<and> rqs = [first, refresh_request t])
       \<or> (\<exists>t. getRefreshToken (we_tokens env) = Some t
            \<and> rqs = [first, refresh_request t, build_request (getAccessToken (we_tokens env')) path opts]))"
  using assms
proof (cases rule: apiFetch_cases)
  case (direct r)
  then show ?thesis using do_fetch_frame(3) by fastforce
next
  case (gave_up r env1 err err')
  then show ?thesis
    using do_fetch_frame(1,3) [OF gave_up(1)] ensureRefresh_sent [OF gave_up(6)] by auto
next
  case (retried r env1 err t env2 r2)
  note ok = ensureRefresh_ok [OF retried(6)]
  obtain tok where "getRefreshToken (we_tokens env1) = Some tok"
    "we_sent env2 = we_sent env1 @ [refresh_request tok]"
    using ok(1)
  proof (cases rule: refreshOnce_cases)
    case (rotated t' res env3 body)
    then show ?thesis
      using that [of t'] do_fetch_frame(3) [OF rotated(3)] by simp
  qed simp_all
  then show ?thesis
    using do_fetch_frame(1,3) [OF retried(1)] do_fetch_frame(1,3) [OF retried(7)] ok(3) by auto
qed

text \<open>
  C26: When the first answer is an expired-token 401 and the refresh fails (no refresh token,
  refused, unreachable or unreadable), the caller gets the original 401, exactly one logout
  event is emitted and no token and no persisted session is left behind.
\<close>
theorem apiFetch_refresh_failure_logs_out:
  assumes "do_fetch net (build_request (getAccessToken (we_tokens env)) path opts) env = (r, env1)"
    and "read_response r = Inl err" and "isAccessTokenExpired err"
    and "\<not> ro_noRetry opts" and "\<not> ro_unauthenticated opts"
    and "refreshOnce net env1 = (Inl err', env2)"
    and "tokens_storable (we_tokens env)"
  shows "\<exists>env'. apiFetch net path opts env = (Inl err, env')
    \<and> we_logouts env' = we_logouts env @ [logout_reason err']
    \<and> getAccessToken (we_tokens env') = None \<and> getRefreshToken (we_tokens env') = None
    \<and> getPersistedSession (we_tokens env') = None"
proof -
  obtain env' where g: "ensureRefresh net env1 = (Inl err', env')"
    using assms(6) by (simp add: ensureRefresh_def)
  have "apiFetch net path opts env = (Inl err, env')"
    using apiFetch_refreshing [OF assms(1-5) g] by simp
  moreover have "we_tokens env' = clearAllTokens (we_tokens env)"
    "we_logouts env' = we_logouts env @ [logout_reason err']"
    using ensureRefresh_fail [OF g] do_fetch_frame [OF assms(1)] by simp_all
  ultimately show ?thesis
    using web_tokens.logout [OF assms(7)] clearAllTokens_session [OF assms(7)] by auto
qed


subsection \<open>Concrete runs\<close>

text \<open>A network that answers from a script, and an environment with a token pair whose first
  answer is an expired-token 401.\<close>

fun scripted :: "fetch_result list net" where
  "scripted rq [] = (NetworkFailure ''no route'', [])"
| "scripted rq (r # rs) = (r, rs)"

definition expired_401 :: http_response where
  "expired_401 = \<lparr>rs_status = 401,
     rs_json = Some (JObj [(''code'', JStr ''invalid_token''), (''message'', JStr ''expired'')])\<rparr>"

definition fresh_pair :: http_response where
  "fresh_pair = \<lparr>rs_status = 200,
     rs_json = Some (JObj [(''access_token'', JStr ''A2''), (''refresh_token'', JStr ''R2'')])\<rparr>"

definition demo_tokens :: token_state where
  "demo_tokens = setRefreshToken (Some ''R1'')
     (setAccessToken (Some ''A1'') \<lparr>accessTokenInMemory = None, storage = empty_storage\<rparr>)"

definition demo_env :: "fetch_result list \<Rightarrow> fetch_result list web_env" where
  "demo_env script = \<lparr>we_tokens = demo_tokens, we_world = script, we_sent = [], we_logouts = []\<rparr>"

lemma demo_tokens_simps [simp]:
  "tokens_storable demo_tokens" "getRefreshToken demo_tokens = Some ''R1''"
  "getAccessToken demo_tokens = Some ''A1''"
  by (simp_all add: demo_tokens_def token_defs tokens_storable_def storage_defs empty_storage_def)

lemma read_expired_401:
  "read_response (Response expired_401) = Inl (ApiErr (parseError expired_401))"
  "isAccessTokenExpired (ApiErr (parseError expired_401))"
  by (simp_all add: read_response_def rs_ok_def expired_401_def parseError_def json_str_field_def)

lemma apiFetch_unauthenticated_isolated_witness:
  "\<exists>rq. we_sent (snd (apiFetch scripted ''/login'' (no_options\<lparr>ro_unauthenticated := True\<rparr>)
          (demo_env [Response expired_401]))) = [rq]
     \<and> rq_url rq = ''/login'' \<and> ''Authorization'' \<notin> fst ` set (rq_headers rq)"
proof -
  let ?opts = "no_options\<lparr>ro_unauthenticated := True\<rparr>"
  obtain res env' where e: "apiFetch scripted ''/login'' ?opts (demo_env [Response expired_401]) = (res, env')"
    by fastforce
  show ?thesis
    using apiFetch_unauthenticated_isolated [OF _ e] e
    by (simp add: demo_env_def no_options_def buildURL_def)
qed

lemma apiFetch_requests_witness:
  "\<exists>rqs. we_sent (snd (apiFetch scripted ''/items'' no_options (demo_env []))) = rqs \<and> length rqs \<le> 3"
proof -
  obtain res env' where e: "apiFetch scripted ''/items'' no_options (demo_env []) = (res, env')"
    by fastforce
  show ?thesis
    using apiFetch_requests [OF e] e by (auto simp: demo_env_def)
qed

lemma apiFetch_refresh_failure_logs_out_witness:
  "\<exists>env'. apiFetch scripted ''/items'' no_options (demo_env [Response expired_401])
       = (Inl (ApiErr (parseError expired_401)), env')
     \<and> we_logouts env' = [''refresh_failed''] \<and> getAccessToken (we_tokens env') = None"
proof -
  let ?env = "demo_env [Response expired_401]"
  let ?rq = "build_request (getAccessToken (we_tokens ?env)) ''/items'' no_options"
  let ?env1 = "?env\<lparr>we_world := [], we_sent := [?rq]\<rparr>"
  have f: "do_fetch scripted ?rq ?env = (Response expired_401, ?env1)"
    by (simp add: do_fetch_def demo_env_def)
  have g: "refreshOnce scripted ?env1 = (Inl (OtherError ''no route''),
      ?env1\<lparr>we_sent := [?rq, refresh_request ''R1'']\<rparr>)"
    by (simp add: refreshOnce_def do_fetch_def demo_env_def)
  show ?thesis
    using apiFetch_refresh_failure_logs_out [OF f read_expired_401 _ _ g]
    by (auto simp: demo_env_def no_options_def)
qed


end
