(* ===== verification/RefreshFlight.thy ===== *)
theory RefreshFlight
  imports ApiClient
begin

text \<open>
  Concurrent calls of \<open>apiFetch\<close> sharing one refresh (\<open>inflightRefresh\<close> and \<open>ensureRefresh\<close> in
  \<open>web/src/api/client.ts\<close>; the desktop wrapper has the same code). JavaScript runs one step at
  a time between two \<open>await\<close>s, so an execution is an interleaving of three kinds of event: a
  call starts, the answer to a call's request arrives, the shared refresh promise settles.
\<close>

text \<open>Where a call stands: its request is out (with the call's \<open>unauthenticated\<close> and
  \<open>noRetry\<close>), it awaits the refresh and keeps its 401, or it is settled.\<close>

datatype call_phase =
    Sending bool bool
  | AwaitingRefresh js_error
  | Settled "js_error + json option"

record flight =
  fl_tokens :: token_state
  fl_inflight :: bool
  fl_refreshOut :: nat
  fl_calls :: "nat \<Rightarrow> call_phase option"
  fl_sends :: "nat \<Rightarrow> nat"
  fl_logouts :: "string list"

datatype flight_event =
    CallStarts nat bool
  | AnswerArrives nat "js_error + json option"
  | RefreshSettles "js_error + json"

definition flight_init :: "token_state \<Rightarrow> flight" where
  "flight_init ts = \<lparr>fl_tokens = ts, fl_inflight = False, fl_refreshOut = 0,
     fl_calls = Map.empty, fl_sends = (\<lambda>_. 0), fl_logouts = []\<rparr>"

text \<open>\<open>ensureRefresh\<close>: join the refresh in flight, or start one; without a refresh token the
  new promise rejects before any request is sent.\<close>

definition join_refresh :: "flight \<Rightarrow> flight" where
  "join_refresh s =
     (if fl_inflight s then s
      else s\<lparr>fl_inflight := True,
             fl_refreshOut := fl_refreshOut s
               + (if truthy (getRefreshToken (fl_tokens s)) then 1 else 0)\<rparr>)"

text \<open>The continuation of a waiting call: retry once, or rethrow its own 401.\<close>

fun resume :: "bool \<Rightarrow> call_phase option \<Rightarrow> call_phase option" where
  "resume True (Some (AwaitingRefresh err)) = Some (Sending False True)"
| "resume False (Some (AwaitingRefresh err)) = Some (Settled (Inl err))"
| "resume _ c = c"

definition waiting :: "call_phase option \<Rightarrow> bool" where
  "waiting c \<longleftrightarrow> (case c of Some (AwaitingRefresh _) \<Rightarrow> True | _ \<Rightarrow> False)"

fun flight_step :: "flight \<Rightarrow> flight_event \<Rightarrow> flight" where
  "flight_step s (CallStarts i unauth) =
     s\<lparr>fl_calls := (fl_calls s)(i \<mapsto> Sending unauth False),
       fl_sends := (fl_sends s)(i := Suc (fl_sends s i))\<rparr>"
| "flight_step s (AnswerArrives i r) =
     (case fl_calls s i of
        Some (Sending unauth noRetry) \<Rightarrow>
          (case r of
             Inr v \<Rightarrow> s\<lparr>fl_calls := (fl_calls s)(i \<mapsto> Settled (Inr v))\<rparr>
           | Inl err \<Rightarrow>
               if \<not> noRetry \<and> \<not> unauth \<and> isAccessTokenExpired err
               then (join_refresh s)\<lparr>fl_calls := (fl_calls s)(i \<mapsto> AwaitingRefresh err)\<rparr>
               else s\<lparr>fl_calls := (fl_calls s)(i \<mapsto> Settled (Inl err))\<rparr>)
      | _ \<Rightarrow> s)"
| "flight_step s (RefreshSettles r) =
     (case r of
        Inr body \<Rightarrow>
          s\<lparr>fl_tokens := rotate_tokens body (fl_tokens s),
            fl_inflight := False, fl_refreshOut := 0,
            fl_calls := (\<lambda>i. resume True (fl_calls s i)),
            fl_sends := (\<lambda>i. if waiting (fl_calls s i) then Suc (fl_sends s i) else fl_sends s i)\<rparr>
      | Inl err \<Rightarrow>
          s\<lparr>fl_tokens := clearAllTokens (fl_tokens s),
            fl_inflight := False, fl_refreshOut := 0,
            fl_calls := (\<lambda>i. resume False (fl_calls s i)),
            fl_logouts := fl_logouts s @ [logout_reason err]\<rparr>)"

text \<open>Which events can happen: a call starts once, an answer needs a request on the wire, and
  the promise settles only while it is in flight; it resolves only if a request went out.\<close>

fun flight_can :: "flight \<Rightarrow> flight_event \<Rightarrow> bool" where
  "flight_can s (CallStarts i unauth) = (fl_calls s i = None)"
| "flight_can s (AnswerArrives i r) = (case fl_calls s i of Some (Sending u n) \<Rightarrow> True | _ \<Rightarrow> False)"
| "flight_can s (RefreshSettles r) = (fl_inflight s \<and> (fl_refreshOut s = 1 \<or> r = Inl (ApiErr session_over)))"

text \<open>What holds between the fields: at most one refresh request is out, only while the promise
  is in flight; a call waits only for a refresh in flight; the number of times a call's
  request went out follows its phase.\<close>

fun sends_of :: "call_phase option \<Rightarrow> nat \<Rightarrow> bool" where
  "sends_of None n = (n = 0)"
| "sends_of (Some (Sending u noRetry)) n = (n = (if noRetry then 2 else 1) \<and> (noRetry \<longrightarrow> \<not> u))"
| "sends_of (Some (AwaitingRefresh err)) n = (n = 1 \<and> isAccessTokenExpired err)"
| "sends_of (Some (Settled r)) n = (n = 1 \<or> n = 2)"

definition flight_inv :: "flight \<Rightarrow> bool" where
  "flight_inv s \<longleftrightarrow> fl_refreshOut s \<le> 1 \<and> (\<not> fl_inflight s \<longrightarrow> fl_refreshOut s = 0)
     \<and> (\<forall>i. sends_of (fl_calls s i) (fl_sends s i))
     \<and> (\<forall>i. waiting (fl_calls s i) \<longrightarrow> fl_inflight s)"

lemma flight_init_inv: "flight_inv (flight_init ts)"
  by (simp add: flight_inv_def flight_init_def waiting_def)

lemma join_refresh_simps [simp]:
  "fl_calls (join_refresh s) = fl_calls s" "fl_sends (join_refresh s) = fl_sends s"
  "fl_inflight (join_refresh s)" "fl_logouts (join_refresh s) = fl_logouts s"
  by (simp_all add: join_refresh_def)

lemma join_refresh_out: "flight_inv s \<Longrightarrow> fl_refreshOut (join_refresh s) \<le> 1"
  by (simp add: flight_inv_def join_refresh_def)

lemma resume_sends:
  "sends_of c n \<Longrightarrow> sends_of (resume True c) (if waiting c then Suc n else n)"
  "sends_of c n \<Longrightarrow> sends_of (resume False c) n"
  "\<not> waiting (resume b c)"
proof -
  show "sends_of c n \<Longrightarrow> sends_of (resume True c) (if waiting c then Suc n else n)"
    by (cases c; simp add: waiting_def; rename_tac p; case_tac p; simp)
  show "sends_of c n \<Longrightarrow> sends_of (resume False c) n"
    by (cases c; simp; rename_tac p; case_tac p; simp)
  show "\<not> waiting (resume b c)"
    by (cases c; cases b; simp add: waiting_def; rename_tac p; case_tac p; simp)
qed

lemma flight_step_inv:
  assumes "flight_inv s" and "flight_can s e"
  shows "flight_inv (flight_step s e)"
proof (cases e)
  case (CallStarts i unauth)
  with assms show ?thesis
    by (auto simp: flight_inv_def waiting_def dest: spec [where x = i])
next
  case (AnswerArrives i r)
  with assms(2) obtain u n where c: "fl_calls s i = Some (Sending u n)" by (auto split: option.splits call_phase.splits)
  with assms(1) have "sends_of (Some (Sending u n)) (fl_sends s i)"
    unfolding flight_inv_def by metis
  with AnswerArrives assms(1) c join_refresh_out [OF assms(1)] show ?thesis
    by (auto simp: flight_inv_def waiting_def split: sum.splits if_splits)
next
  case (RefreshSettles r)
  with assms show ?thesis
    by (cases r) (auto simp: flight_inv_def resume_sends)
qed

interpretation flight: machine flight_can flight_step flight_inv
  by unfold_locales (rule flight_step_inv)

text \<open>
  C8: However calls interleave, at most one refresh request is on the wire, a call waits only
  while the shared refresh is in flight, and no call's own request is sent more than twice.
\<close>
theorem refresh_single_flight:
  assumes "possible_run flight_can flight_step (flight_init ts) es"
    and "s = foldl flight_step (flight_init ts) es"
  shows "fl_refreshOut s \<le> 1 \<and> (waiting (fl_calls s i) \<longrightarrow> fl_inflight s) \<and> fl_sends s i \<le> 2"
proof -
  have inv: "flight_inv s"
    using flight.run_keeps [OF flight_init_inv assms(1)] assms(2) by simp
  then have "sends_of (fl_calls s i) (fl_sends s i)" by (simp add: flight_inv_def)
  then have "fl_sends s i \<le> 2"
    by (cases "(fl_calls s i, fl_sends s i)" rule: sends_of.cases) auto
  moreover have "waiting (fl_calls s i) \<longrightarrow> fl_inflight s"
    using inv by (auto simp: flight_inv_def)
  moreover have "fl_refreshOut s \<le> 1" using inv by (simp add: flight_inv_def)
  ultimately show ?thesis by simp
qed

text \<open>
  When the shared refresh settles every waiting call moves on and none is left waiting:
  after a success each goes out once more marked \<open>noRetry\<close>, after a failure each fails with
  its own 401, and a failure emits one logout event however many calls were waiting.
\<close>
theorem refresh_settles_all_waiters:
  assumes "fl_calls s i = Some (AwaitingRefresh err)"
  shows "fl_calls (flight_step s (RefreshSettles (Inr body))) i = Some (Sending False True)
    \<and> fl_calls (flight_step s (RefreshSettles (Inl e))) i = Some (Settled (Inl err))
    \<and> fl_logouts (flight_step s (RefreshSettles (Inl e))) = fl_logouts s @ [logout_reason e]
    \<and> fl_logouts (flight_step s (RefreshSettles (Inr body))) = fl_logouts s
    \<and> (\<forall>j. \<not> waiting (fl_calls (flight_step s (RefreshSettles r)) j))"
  using assms by (cases r) (simp_all add: resume_sends)

text \<open>Two calls, both answered 401 with an expired token, share one refresh.\<close>

definition expired_error :: js_error where
  "expired_error = ApiErr (parseError expired_401)"

lemma expired_error_expired [simp]: "isAccessTokenExpired expired_error"
  unfolding expired_error_def by (rule read_expired_401(2))

definition two_calls :: "flight_event list" where
  "two_calls = [CallStarts 0 False, CallStarts 1 False,
     AnswerArrives 0 (Inl expired_error), AnswerArrives 1 (Inl expired_error)]"

lemma refresh_single_flight_witness:
  "fl_refreshOut (foldl flight_step (flight_init demo_tokens) two_calls) \<le> 1
   \<and> waiting (fl_calls (foldl flight_step (flight_init demo_tokens) two_calls) 1)
   \<and> fl_sends (foldl flight_step (flight_init demo_tokens) two_calls) 1 \<le> 2"
proof -
  have run: "possible_run flight_can flight_step (flight_init demo_tokens) two_calls"
    by (simp add: two_calls_def flight_init_def join_refresh_def)
  have "waiting (fl_calls (foldl flight_step (flight_init demo_tokens) two_calls) 1)"
    by (simp add: two_calls_def flight_init_def join_refresh_def waiting_def)
  with refresh_single_flight [OF run refl, of 1] show ?thesis by simp
qed

lemma refresh_settles_all_waiters_witness:
  "fl_calls (flight_step (foldl flight_step (flight_init demo_tokens) two_calls)
      (RefreshSettles (Inl (OtherError ''down'')))) 1 = Some (Settled (Inl expired_error))"
proof -
  let ?s = "foldl flight_step (flight_init demo_tokens) two_calls"
  have "fl_calls ?s 1 = Some (AwaitingRefresh expired_error)"
    by (simp add: two_calls_def flight_init_def join_refresh_def)
  from refresh_settles_all_waiters [OF this] show ?thesis by blast
qed

end
