(* ===== verification/PendingOps.thy ===== *)
theory PendingOps
  imports Http
begin

text \<open>
  The queue of mutations made while offline (\<open>client/src/lib/pending-ops.ts\<close>), kept in a slot
  of the desktop shell's disk cache, and its mirror for the user interface
  (\<open>client/src/store/pending-ops.ts\<close>). Both provide the contract \<open>op_queue\<close>.
\<close>

subsection \<open>Operations and the disk slot\<close>

record PendingOp =
  op_id :: string
  op_method :: http_method
  op_path :: string
  op_body :: "json option"
  op_createdAt :: int
  op_retryCount :: int
  op_label :: "string option"

text \<open>What the slot's text parses to: a file with its version and operations, or anything else
  (not JSON, or no array of operations).\<close>

datatype slot_file = OpsFile int "PendingOp list" | NotOps

text \<open>The desktop shell's cache commands: absent in a plain browser, and each can fail.\<close>

record tauri_disk =
  td_isTauri :: bool
  td_read_ok :: bool
  td_write_ok :: bool
  td_slot :: "slot_file option"

definition cache_read :: "tauri_disk \<Rightarrow> unit + slot_file option" where
  "cache_read d = (if td_read_ok d then Inr (td_slot d) else Inl ())"

definition cache_write :: "slot_file \<Rightarrow> tauri_disk \<Rightarrow> unit + tauri_disk" where
  "cache_write f d = (if td_write_ok d then Inr (d\<lparr>td_slot := Some f\<rparr>) else Inl ())"

definition loadPendingOps :: "tauri_disk \<Rightarrow> PendingOp list" where
  "loadPendingOps d =
     (if \<not> td_isTauri d then []
      else case cache_read d of
          Inl _ \<Rightarrow> []
        | Inr None \<Rightarrow> []
        | Inr (Some NotOps) \<Rightarrow> []
        | Inr (Some (OpsFile v ops)) \<Rightarrow> if v \<noteq> 1 then [] else ops)"

definition savePendingOps :: "PendingOp list \<Rightarrow> tauri_disk \<Rightarrow> tauri_disk" where
  "savePendingOps ops d =
     (if \<not> td_isTauri d then d
      else case cache_write (OpsFile 1 ops) d of Inl _ \<Rightarrow> d | Inr d' \<Rightarrow> d')"

text \<open>The id joins the clock and six base-36 digits of a random number; the clock is read a
  second time for \<open>createdAt\<close>.\<close>

definition new_pending_op ::
    "http_method \<Rightarrow> string \<Rightarrow> json option \<Rightarrow> string option \<Rightarrow> int \<Rightarrow> string \<Rightarrow> int \<Rightarrow> PendingOp" where
  "new_pending_op meth path body label now1 rand now2 =
     \<lparr>op_id = show_int now1 @ ''-'' @ rand, op_method = meth, op_path = path, op_body = body,
      op_createdAt = now2, op_retryCount = 0, op_label = label\<rparr>"

definition pushPendingOp :: "PendingOp \<Rightarrow> tauri_disk \<Rightarrow> PendingOp \<times> tauri_disk" where
  "pushPendingOp newOp d = (newOp, savePendingOps (loadPendingOps d @ [newOp]) d)"

definition removePendingOp :: "string \<Rightarrow> tauri_disk \<Rightarrow> tauri_disk" where
  "removePendingOp i d = savePendingOps (filter (\<lambda>op. op_id op \<noteq> i) (loadPendingOps d)) d"

fun findIndex :: "('a \<Rightarrow> bool) \<Rightarrow> 'a list \<Rightarrow> nat option" where
  "findIndex P [] = None"
| "findIndex P (x # xs) = (if P x then Some 0 else map_option Suc (findIndex P xs))"

definition bump_op :: "PendingOp \<Rightarrow> PendingOp" where
  "bump_op op = op\<lparr>op_retryCount := op_retryCount op + 1\<rparr>"

definition incrementRetryCount :: "string \<Rightarrow> tauri_disk \<Rightarrow> PendingOp option \<times> tauri_disk" where
  "incrementRetryCount i d =
     (let ops = loadPendingOps d
      in case findIndex (\<lambda>op. op_id op = i) ops of
          None \<Rightarrow> (None, d)
        | Some idx \<Rightarrow>
            (let ops' = ops[idx := bump_op (ops ! idx)]
             in (Some (ops' ! idx), savePendingOps ops' d)))"

definition clearPendingOps :: "tauri_disk \<Rightarrow> tauri_disk" where
  "clearPendingOps d =
     (if \<not> td_isTauri d then d
      else case cache_write (OpsFile 1 []) d of Inl _ \<Rightarrow> d | Inr d' \<Rightarrow> d')"

subsection \<open>The store of the user interface\<close>

record ops_store =
  st_ops :: "PendingOp list"
  st_hydrated :: bool

definition empty_ops_store :: ops_store where
  "empty_ops_store = \<lparr>st_ops = [], st_hydrated = False\<rparr>"

definition setOps :: "PendingOp list \<Rightarrow> ops_store \<Rightarrow> ops_store" where
  "setOps ops s = s\<lparr>st_ops := ops\<rparr>"

definition addOp :: "PendingOp \<Rightarrow> ops_store \<Rightarrow> ops_store" where
  "addOp op s = s\<lparr>st_ops := st_ops s @ [op]\<rparr>"

definition removeOp :: "string \<Rightarrow> ops_store \<Rightarrow> ops_store" where
  "removeOp i s = s\<lparr>st_ops := filter (\<lambda>op. op_id op \<noteq> i) (st_ops s)\<rparr>"

definition updateOp :: "PendingOp \<Rightarrow> ops_store \<Rightarrow> ops_store" where
  "updateOp op s = s\<lparr>st_ops := map (\<lambda>op'. if op_id op' = op_id op then op else op') (st_ops s)\<rparr>"

definition setHydrated :: "bool \<Rightarrow> ops_store \<Rightarrow> ops_store" where
  "setHydrated b s = s\<lparr>st_hydrated := b\<rparr>"

lemmas store_defs = setOps_def addOp_def removeOp_def updateOp_def setHydrated_def

subsection \<open>The contract\<close>

definition ids :: "PendingOp list \<Rightarrow> string list" where
  "ids ops = map op_id ops"

lemma ids_simps [simp]:
  "ids [] = []" "ids (op # ops) = op_id op # ids ops" "ids (xs @ ys) = ids xs @ ids ys"
  by (simp_all add: ids_def)

lemma ids_filter: "set (ids (filter P ops)) \<subseteq> set (ids ops)" "distinct (ids ops) \<Longrightarrow> distinct (ids (filter P ops))"
  by (auto simp: ids_def distinct_map inj_on_def)

lemma filter_id_absent [simp]: "i \<notin> set (ids ops) \<Longrightarrow> filter (\<lambda>op. op_id op \<noteq> i) ops = ops"
  by (induction ops) auto

lemma filter_bumped [simp]:
  "filter (\<lambda>op. op_id op \<noteq> i) (map (\<lambda>op. if op_id op = i then bump_op op else op) ops)
     = filter (\<lambda>op. op_id op \<noteq> i) ops"
  by (induction ops) (auto simp: bump_op_def)

locale op_queue =
  fixes ok :: "'s \<Rightarrow> bool"
    and ops :: "'s \<Rightarrow> PendingOp list"
    and add :: "PendingOp \<Rightarrow> 's \<Rightarrow> 's"
    and drop_op :: "string \<Rightarrow> 's \<Rightarrow> 's"
  assumes ops_add: "ok s \<Longrightarrow> ops (add op s) = ops s @ [op]"
    and ops_drop: "ok s \<Longrightarrow> ops (drop_op i s) = filter (\<lambda>op. op_id op \<noteq> i) (ops s)"
    and ok_add: "ok s \<Longrightarrow> ok (add op s)"
    and ok_drop: "ok s \<Longrightarrow> ok (drop_op i s)"
begin

lemma drop_absent: "ok s \<Longrightarrow> i \<notin> set (ids (ops s)) \<Longrightarrow> ops (drop_op i s) = ops s"
  by (simp add: ops_drop)

lemma drop_head:
  "ok s \<Longrightarrow> ops s = op # rest \<Longrightarrow> distinct (ids (ops s)) \<Longrightarrow> ops (drop_op (op_id op) s) = rest"
  by (simp add: ops_drop)

lemma drop_added: "ok s \<Longrightarrow> op_id op \<notin> set (ids (ops s)) \<Longrightarrow> ops (drop_op (op_id op) (add op s)) = ops s"
  by (simp add: ops_drop ops_add ok_add)

lemma add_distinct:
  "ok s \<Longrightarrow> distinct (ids (ops s)) \<Longrightarrow> op_id op \<notin> set (ids (ops s)) \<Longrightarrow> distinct (ids (ops (add op s)))"
  by (simp add: ops_add)

lemma drop_distinct: "ok s \<Longrightarrow> distinct (ids (ops s)) \<Longrightarrow> distinct (ids (ops (drop_op i s)))"
  by (simp add: ops_drop ids_filter)

end

text \<open>A queue that also counts the attempts of an operation.\<close>

locale retry_queue = op_queue +
  fixes bump :: "string \<Rightarrow> 's \<Rightarrow> 's"
  assumes ops_bump: "ok s \<Longrightarrow> distinct (ids (ops s)) \<Longrightarrow>
      ops (bump i s) = map (\<lambda>op. if op_id op = i then bump_op op else op) (ops s)"
    and ok_bump: "ok s \<Longrightarrow> ok (bump i s)"
begin

lemma bump_ids: "ok s \<Longrightarrow> distinct (ids (ops s)) \<Longrightarrow> ids (ops (bump i s)) = ids (ops s)"
  by (simp add: ops_bump ids_def bump_op_def)

lemma bump_then_drop:
  "ok s \<Longrightarrow> distinct (ids (ops s)) \<Longrightarrow> ops (drop_op i (bump i s)) = ops (drop_op i s)"
  by (simp add: ops_bump ops_drop ok_bump)

end

subsection \<open>The disk provides it\<close>

definition disk_ok :: "tauri_disk \<Rightarrow> bool" where
  "disk_ok d \<longleftrightarrow> td_isTauri d \<and> td_read_ok d \<and> td_write_ok d"

lemma load_save [simp]: "disk_ok d \<Longrightarrow> loadPendingOps (savePendingOps ops d) = ops"
  by (simp add: loadPendingOps_def savePendingOps_def disk_ok_def cache_read_def cache_write_def)

lemma save_ok [simp]: "disk_ok (savePendingOps ops d) = disk_ok d"
  by (simp add: savePendingOps_def disk_ok_def cache_write_def)

lemma save_frame [simp]: "td_isTauri (savePendingOps ops d) = td_isTauri d"
  by (simp add: savePendingOps_def cache_write_def)

lemma findIndex_None: "findIndex P xs = None \<longleftrightarrow> (\<forall>x\<in>set xs. \<not> P x)"
  by (induction xs) auto

lemma findIndex_Some:
  "findIndex P xs = Some k \<Longrightarrow> k < length xs \<and> P (xs ! k) \<and> (\<forall>j<k. \<not> P (xs ! j))"
proof (induction xs arbitrary: k)
  case (Cons x xs)
  then show ?case
    by (cases k) (auto split: if_splits simp: nth_Cons split: nat.splits)
qed simp

lemma bump_first_is_map:
  assumes "distinct (ids ops)" and "findIndex (\<lambda>op. op_id op = i) ops = Some k"
  shows "ops[k := bump_op (ops ! k)] = map (\<lambda>op. if op_id op = i then bump_op op else op) ops"
proof (rule nth_equalityI)
  fix j assume "j < length (ops[k := bump_op (ops ! k)])"
  moreover have "k < length ops" "op_id (ops ! k) = i"
    using findIndex_Some [OF assms(2)] by auto
  ultimately show "ops[k := bump_op (ops ! k)] ! j
      = map (\<lambda>op. if op_id op = i then bump_op op else op) ops ! j"
    using assms(1) by (auto simp: nth_list_update ids_def distinct_conv_nth)
qed simp

lemma increment_load:
  assumes "disk_ok d" and "distinct (ids (loadPendingOps d))"
  shows "loadPendingOps (snd (incrementRetryCount i d))
     = map (\<lambda>op. if op_id op = i then bump_op op else op) (loadPendingOps d)"
proof (cases "findIndex (\<lambda>op. op_id op = i) (loadPendingOps d)")
  case None
  then have "\<forall>op\<in>set (loadPendingOps d). op_id op \<noteq> i" by (simp add: findIndex_None)
  with None show ?thesis
    by (simp add: incrementRetryCount_def map_idI)
next
  case (Some k)
  with assms bump_first_is_map [OF assms(2) Some] show ?thesis
    by (simp add: incrementRetryCount_def Let_def)
qed

lemma increment_result:
  assumes "distinct (ids (loadPendingOps d))" and "op \<in> set (loadPendingOps d)"
  shows "fst (incrementRetryCount (op_id op) d) = Some (bump_op op)"
proof -
  obtain k where k: "findIndex (\<lambda>op'. op_id op' = op_id op) (loadPendingOps d) = Some k"
    using assms(2) by (cases "findIndex (\<lambda>op'. op_id op' = op_id op) (loadPendingOps d)")
      (auto simp: findIndex_None)
  note at = findIndex_Some [OF k]
  then have "loadPendingOps d ! k \<in> set (loadPendingOps d)" "op_id (loadPendingOps d ! k) = op_id op"
    by auto
  moreover have "inj_on op_id (set (loadPendingOps d))"
    using assms(1) by (simp add: ids_def distinct_map)
  ultimately have "loadPendingOps d ! k = op"
    using assms(2) by (simp add: inj_on_eq_iff)
  with k at show ?thesis
    by (simp add: incrementRetryCount_def Let_def)
qed

interpretation disk_q: retry_queue disk_ok loadPendingOps "\<lambda>op d. snd (pushPendingOp op d)"
  removePendingOp "\<lambda>i d. snd (incrementRetryCount i d)"
proof unfold_locales
  fix d i
  show "disk_ok d \<Longrightarrow> disk_ok (snd (incrementRetryCount i d))"
    by (auto simp: incrementRetryCount_def Let_def split: option.splits)
qed (simp_all add: pushPendingOp_def removePendingOp_def increment_load)

interpretation store_q: op_queue "\<lambda>_. True" st_ops addOp removeOp
  by unfold_locales (auto simp: store_defs)

lemma updateOp_bump:
  assumes "distinct (ids (st_ops s))" and "op \<in> set (st_ops s)"
  shows "st_ops (updateOp (bump_op op) s)
     = map (\<lambda>op'. if op_id op' = op_id op then bump_op op' else op') (st_ops s)"
  using assms by (auto simp: updateOp_def bump_op_def ids_def distinct_map inj_on_def)

subsection \<open>Two pushes, one after the other and overlapping\<close>

text \<open>
  \<open>pushPendingOp\<close> awaits between reading the slot and writing it, so another call can run in
  the gap. A call's two halves as separate steps, over the disk and each call's local array:
\<close>

datatype push_phase = PushLoads nat | PushSaves nat

record push_race =
  pr_disk :: tauri_disk
  pr_local :: "nat \<Rightarrow> PendingOp list"

fun push_phase_step :: "(nat \<Rightarrow> PendingOp) \<Rightarrow> push_race \<Rightarrow> push_phase \<Rightarrow> push_race" where
  "push_phase_step new r (PushLoads i) =
     r\<lparr>pr_local := (pr_local r)(i := loadPendingOps (pr_disk r) @ [new i])\<rparr>"
| "push_phase_step new r (PushSaves i) =
     r\<lparr>pr_disk := savePendingOps (pr_local r i) (pr_disk r)\<rparr>"

lemma push_phases_are_push:
  "pr_disk (foldl (push_phase_step new) r [PushLoads i, PushSaves i]) = snd (pushPendingOp (new i) (pr_disk r))"
  by (simp add: pushPendingOp_def)

text \<open>
  Pushed one after the other, any number of operations are all on disk, in order, behind
  what was there.
\<close>
theorem sequential_pushes_keep_all:
  assumes "disk_ok d"
  shows "loadPendingOps (foldl (\<lambda>d op. snd (pushPendingOp op d)) d ops) = loadPendingOps d @ ops"
  using assms by (induction ops arbitrary: d) (simp_all add: disk_q.ops_add disk_q.ok_add)

text \<open>
  Two overlapping pushes lose one of the operations: when both read the slot before either
  writes it, the last writer's operation is kept and the other one, whose caller was told it is
  queued, is gone.
\<close>
theorem overlapping_pushes_lose_op:
  assumes "disk_ok (pr_disk r)" and "i \<noteq> j"
  shows "loadPendingOps (pr_disk (foldl (push_phase_step new) r
      [PushLoads i, PushLoads j, PushSaves i, PushSaves j])) = loadPendingOps (pr_disk r) @ [new j]"
  using assms by simp

definition demo_disk :: tauri_disk where
  "demo_disk = \<lparr>td_isTauri = True, td_read_ok = True, td_write_ok = True, td_slot = None\<rparr>"

definition demo_op :: "nat \<Rightarrow> PendingOp" where
  "demo_op n = new_pending_op POST (''/api/v1/items/'' @ show_nat n) None None (int n) ''abc123'' (int n)"

lemma demo_disk_ok [simp]: "disk_ok demo_disk" "loadPendingOps demo_disk = []"
  by (simp_all add: demo_disk_def disk_ok_def loadPendingOps_def cache_read_def)

lemma sequential_pushes_keep_all_witness:
  "loadPendingOps (foldl (\<lambda>d op. snd (pushPendingOp op d)) demo_disk [demo_op 1, demo_op 2])
     = [demo_op 1, demo_op 2]"
  by (subst sequential_pushes_keep_all) simp_all

lemma overlapping_pushes_lose_op_witness:
  "loadPendingOps (pr_disk (foldl (push_phase_step demo_op) \<lparr>pr_disk = demo_disk, pr_local = (\<lambda>_. [])\<rparr>
      [PushLoads 1, PushLoads 2, PushSaves 1, PushSaves 2])) = [demo_op 2]"
  by (subst overlapping_pushes_lose_op) simp_all

end
