(* ===== verification/DesktopClient.thy ===== *)
theory DesktopClient
  imports ApiClient PendingOps
begin

text \<open>
  The desktop application's fetch wrapper (\<open>client/src/api/client.ts\<close>): a configurable server
  address, a choice of transport (the browser's \<open>fetch\<close> or the shell's \<open>tls_fetch\<close> command for
  self-signed servers and client certificates), and the offline queue for mutations that fail
  on the network. The refresh and retry are the web wrapper's, and the last section proves it.
\<close>

subsection \<open>State\<close>

text \<open>The module variables \<open>_baseUrl\<close>, \<open>_tlsSkipVerify\<close>, \<open>_clientCertP12Base64\<close>,
  \<open>_clientCertPassword\<close> and \<open>_offlineModeEnabled\<close>.\<close>

record client_config =
  cc_baseUrl :: string
  cc_tlsSkipVerify :: bool
  cc_clientCertP12Base64 :: string
  cc_clientCertPassword :: string
  cc_offlineModeEnabled :: bool

datatype transport = BrowserFetch | TlsFetch bool "string option" "string option"

record 'w desktop =
  dk_config :: client_config
  dk_tokens :: token_state
  dk_world :: 'w
  dk_sent :: "(transport \<times> http_request) list"
  dk_logouts :: "string list"
  dk_disk :: tauri_disk
  dk_ops :: ops_store
  dk_isSyncing :: bool
  dk_discarded :: "PendingOp list"

text \<open>What \<open>tls_fetch\<close> answers: the command fails, or gives a status and a body, empty or not,
  with what it parses to.\<close>

datatype tls_reply = TlsFails string | TlsReply nat bool "json option"

text \<open>The outside of the application, a parameter: both transports, the clock, and the random
  base-36 digits, each reading and changing the world.\<close>

record 'w shell =
  sh_fetch :: "http_request \<Rightarrow> 'w \<Rightarrow> fetch_result \<times> 'w"
  sh_tls_fetch :: "bool \<Rightarrow> string option \<Rightarrow> string option \<Rightarrow> http_request \<Rightarrow> 'w \<Rightarrow> tls_reply \<times> 'w"
  sh_now :: "'w \<Rightarrow> int \<times> 'w"
  sh_random :: "'w \<Rightarrow> string \<times> 'w"

subsection \<open>Configuration\<close>

text \<open>\<open>url.replace(/\/$/, '')\<close>.\<close>

definition strip_trailing_slash :: "string \<Rightarrow> string" where
  "strip_trailing_slash url = (if url \<noteq> [] \<and> last url = CHR ''/'' then butlast url else url)"

definition setBaseUrl :: "string \<Rightarrow> client_config \<Rightarrow> client_config" where
  "setBaseUrl url c = c\<lparr>cc_baseUrl := strip_trailing_slash url\<rparr>"

definition getBaseUrl :: "client_config \<Rightarrow> string" where
  "getBaseUrl c = cc_baseUrl c"

definition setTlsSkipVerify :: "bool \<Rightarrow> client_config \<Rightarrow> client_config" where
  "setTlsSkipVerify b c = c\<lparr>cc_tlsSkipVerify := b\<rparr>"

definition setClientCert :: "string \<Rightarrow> string \<Rightarrow> client_config \<Rightarrow> client_config" where
  "setClientCert p12 password c =
     c\<lparr>cc_clientCertP12Base64 := p12, cc_clientCertPassword := password\<rparr>"

definition hasClientCert :: "client_config \<Rightarrow> bool" where
  "hasClientCert c \<longleftrightarrow> length (cc_clientCertP12Base64 c) > 0"

definition setOfflineModeEnabled :: "bool \<Rightarrow> client_config \<Rightarrow> client_config" where
  "setOfflineModeEnabled b c = c\<lparr>cc_offlineModeEnabled := b\<rparr>"

definition getOfflineModeEnabled :: "client_config \<Rightarrow> bool" where
  "getOfflineModeEnabled c = cc_offlineModeEnabled c"

definition initial_config :: client_config where
  "initial_config = \<lparr>cc_baseUrl = '''', cc_tlsSkipVerify = False, cc_clientCertP12Base64 = '''',
     cc_clientCertPassword = '''', cc_offlineModeEnabled = False\<rparr>"

lemmas config_defs = setBaseUrl_def getBaseUrl_def setTlsSkipVerify_def setClientCert_def
  hasClientCert_def setOfflineModeEnabled_def getOfflineModeEnabled_def

subsection \<open>\<open>rawFetch\<close>\<close>

definition choose_transport :: "bool \<Rightarrow> client_config \<Rightarrow> transport" where
  "choose_transport isTauri c =
     (let needsRust = isTauri \<and> (cc_tlsSkipVerify c \<or> length (cc_clientCertP12Base64 c) > 0)
      in if needsRust
         then TlsFetch (cc_tlsSkipVerify c) (or_undefined (cc_clientCertP12Base64 c))
                (or_undefined (cc_clientCertPassword c))
         else BrowserFetch)"

text \<open>\<open>new Response(body || null, { status })\<close> throws outside 200..599, and for a body under a
  status that has none.\<close>

fun make_response :: "tls_reply \<Rightarrow> fetch_result" where
  "make_response (TlsFails m) = NetworkFailure m"
| "make_response (TlsReply st nonempty j) =
     (if st < 200 \<or> 599 < st then NetworkFailure ''invalid status''
      else if nonempty \<and> st \<in> {204, 205, 304} then NetworkFailure ''null body status''
      else Response \<lparr>rs_status = st, rs_json = (if nonempty then j else None)\<rparr>)"

definition transmit :: "'w shell \<Rightarrow> transport \<Rightarrow> http_request \<Rightarrow> 'w \<Rightarrow> fetch_result \<times> 'w" where
  "transmit sh t rq w =
     (case t of
        BrowserFetch \<Rightarrow> sh_fetch sh rq w
      | TlsFetch skip p12 pw \<Rightarrow> (let (r, w') = sh_tls_fetch sh skip p12 pw rq w in (make_response r, w')))"

definition transport_of :: "'w desktop \<Rightarrow> transport" where
  "transport_of d = choose_transport (td_isTauri (dk_disk d)) (dk_config d)"

definition rawFetch :: "'w shell \<Rightarrow> http_request \<Rightarrow> 'w desktop \<Rightarrow> fetch_result \<times> 'w desktop" where
  "rawFetch sh rq d =
     (let (r, w') = transmit sh (transport_of d) rq (dk_world d)
      in (r, d\<lparr>dk_world := w', dk_sent := dk_sent d @ [(transport_of d, rq)]\<rparr>))"

subsection \<open>Refresh\<close>

definition cl_emitLogout :: "string \<Rightarrow> 'w desktop \<Rightarrow> 'w desktop" where
  "cl_emitLogout reason d = d\<lparr>dk_logouts := dk_logouts d @ [reason]\<rparr>"

definition cl_refresh_request :: "string \<Rightarrow> string \<Rightarrow> http_request" where
  "cl_refresh_request baseUrl token =
     \<lparr>rq_url = baseUrl @ ''/api/v1/auth/refresh'', rq_method = POST,
      rq_headers = [(''Content-Type'', ''application/json'')],
      rq_body = Some (JsonBody (JObj [(''refresh_token'', JStr token)]))\<rparr>"

definition cl_rotate_tokens :: "json \<Rightarrow> token_state \<Rightarrow> token_state" where
  "cl_rotate_tokens body ts =
     cl_setRefreshToken (token_arg (json_field body ''refresh_token''))
       (cl_setAccessToken (json_str_field body ''access_token'') ts)"

definition cl_refreshOnce :: "'w shell \<Rightarrow> 'w desktop \<Rightarrow> (js_error + string option) \<times> 'w desktop" where
  "cl_refreshOnce sh d =
     (case cl_getRefreshToken (dk_tokens d) of
        None \<Rightarrow> (Inl (ApiErr session_over), d)
      | Some refresh \<Rightarrow>
          if refresh = [] then (Inl (ApiErr session_over), d)
          else (case rawFetch sh (cl_refresh_request (cc_baseUrl (dk_config d)) refresh) d of
              (NetworkFailure m, d1) \<Rightarrow> (Inl (OtherError m), d1)
            | (Response res, d1) \<Rightarrow>
                if \<not> rs_ok res then (Inl (ApiErr (parseError res)), d1)
                else (case rs_json res of
                    None \<Rightarrow> (Inl (OtherError ''invalid json''), d1)
                  | Some body \<Rightarrow>
                      if body = JNull then (Inl (OtherError ''null body''), d1)
                      else (Inr (json_str_field body ''access_token''),
                            d1\<lparr>dk_tokens := cl_rotate_tokens body (dk_tokens d1)\<rparr>))))"

definition cl_ensureRefresh :: "'w shell \<Rightarrow> 'w desktop \<Rightarrow> (js_error + string option) \<times> 'w desktop" where
  "cl_ensureRefresh sh d =
     (case cl_refreshOnce sh d of
        (Inr t, d1) \<Rightarrow> (Inr t, d1)
      | (Inl err, d1) \<Rightarrow>
          (Inl err, cl_emitLogout (logout_reason err) (d1\<lparr>dk_tokens := cl_clearAllTokens (dk_tokens d1)\<rparr>)))"

subsection \<open>The offline queue\<close>

text \<open>The branch taken when the transport rejects a mutation in offline mode: build the
  operation (clock, random digits, clock), append it to the disk and to the store.\<close>

definition enqueue_offline ::
    "'w shell \<Rightarrow> http_method \<Rightarrow> string \<Rightarrow> json option \<Rightarrow> 'w desktop \<Rightarrow> PendingOp \<times> 'w desktop" where
  "enqueue_offline sh meth path body d =
     (let (now1, w1) = sh_now sh (dk_world d);
          (rand, w2) = sh_random sh w1;
          (now2, w3) = sh_now sh w2;
          (newOp, disk) = pushPendingOp (new_pending_op meth path body None now1 rand now2) (dk_disk d)
      in (newOp, d\<lparr>dk_world := w3, dk_disk := disk, dk_ops := addOp newOp (dk_ops d)\<rparr>))"

definition is_mutation :: "http_method \<Rightarrow> bool" where
  "is_mutation meth \<longleftrightarrow> meth = POST \<or> meth = PUT \<or> meth = PATCH \<or> meth = DELETE"

definition queues_offline :: "RequestOptions \<Rightarrow> 'w desktop \<Rightarrow> bool" where
  "queues_offline opts d \<longleftrightarrow> cc_offlineModeEnabled (dk_config d)
     \<and> is_mutation (nullish (ro_method opts) GET) \<and> \<not> ro_unauthenticated opts"

subsection \<open>\<open>apiFetch\<close>\<close>

definition cl_build_request :: "string \<Rightarrow> string option \<Rightarrow> string \<Rightarrow> RequestOptions \<Rightarrow> http_request" where
  "cl_build_request baseUrl token path opts =
     \<lparr>rq_url = cl_buildURL baseUrl path (ro_query opts),
      rq_method = nullish (ro_method opts) GET,
      rq_headers = request_headers token opts,
      rq_body = map_option JsonBody (ro_body opts)\<rparr>"

definition no_server_error :: ApiError where
  "no_server_error = new_ApiError 0
     \<lparr>er_code = ''network_error'', er_message = ''Sunucu adresi ayarlanmam'' @ tr_i @ tr_s @ ''.'',
      er_details = None\<rparr>"

function cl_apiFetch ::
    "'w shell \<Rightarrow> string \<Rightarrow> RequestOptions \<Rightarrow> 'w desktop \<Rightarrow> (js_error + json option) \<times> 'w desktop" where
  "cl_apiFetch sh path opts d =
     (if cc_baseUrl (dk_config d) = [] then (Inl (ApiErr no_server_error), d)
      else
        (let (r, d1) = rawFetch sh (cl_build_request (cc_baseUrl (dk_config d))
               (cl_getAccessToken (dk_tokens d)) path opts) d
         in case r of
             NetworkFailure m \<Rightarrow>
               if queues_offline opts d1 then
                 (let (newOp, d2) = enqueue_offline sh (nullish (ro_method opts) GET) path (ro_body opts) d1
                  in (Inl (OfflineQueued (op_id newOp)), d2))
               else (Inl (ApiErr (network_error m)), d1)
           | Response res \<Rightarrow>
               (case read_response r of
                  Inr v \<Rightarrow> (Inr v, d1)
                | Inl err \<Rightarrow>
                    if \<not> ro_noRetry opts \<and> \<not> ro_unauthenticated opts \<and> isAccessTokenExpired err then
                      (let (refreshed, d2) = cl_ensureRefresh sh d1
                       in case refreshed of
                           Inl _ \<Rightarrow> (Inl err, d2)
                         | Inr _ \<Rightarrow> cl_apiFetch sh path (opts\<lparr>ro_noRetry := True\<rparr>) d2)
                    else (Inl err, d1))))"
  by pat_completeness auto
termination
  by (relation "measure (\<lambda>(sh, path, opts, d). if ro_noRetry opts then 0 else 1)") auto

declare cl_apiFetch.simps [simp del]

subsection \<open>The desktop wrapper refines the web wrapper\<close>

text \<open>With a server address set and offline mode off, the desktop wrapper is the web wrapper on
  a network that prefixes every URL with that address and uses the chosen transport.\<close>

definition with_base :: "string \<Rightarrow> http_request \<Rightarrow> http_request" where
  "with_base base rq = rq\<lparr>rq_url := base @ rq_url rq\<rparr>"

definition web_net :: "'w shell \<Rightarrow> transport \<Rightarrow> string \<Rightarrow> 'w net" where
  "web_net sh t base rq w = transmit sh t (with_base base rq) w"

definition web_view :: "http_request list \<Rightarrow> 'w desktop \<Rightarrow> 'w web_env" where
  "web_view sent d = \<lparr>we_tokens = dk_tokens d, we_world = dk_world d, we_sent = sent,
     we_logouts = dk_logouts d\<rparr>"

definition no_web_session :: "token_state \<Rightarrow> bool" where
  "no_web_session ts \<longleftrightarrow> ls_items (storage ts) SESSION_KEY = None"

lemma same_token_operations:
  "cl_getAccessToken = getAccessToken" "cl_setAccessToken = setAccessToken"
  "cl_getRefreshToken = getRefreshToken" "cl_setRefreshToken = setRefreshToken"
  by (intro ext, simp add: token_defs)+

lemma same_rotation: "cl_rotate_tokens = rotate_tokens"
  by (intro ext) (simp add: cl_rotate_tokens_def rotate_tokens_def same_token_operations)

lemma no_web_session_kept:
  "no_web_session ts \<Longrightarrow> no_web_session (cl_clearAllTokens ts)"
  "no_web_session ts \<Longrightarrow> no_web_session (rotate_tokens body ts)"
  by (auto simp: no_web_session_def rotate_tokens_def token_defs storage_defs REFRESH_KEY_def
      SESSION_KEY_def split: option.splits)

lemma same_clear: "no_web_session ts \<Longrightarrow> cl_clearAllTokens ts = clearAllTokens ts"
  by (auto simp: no_web_session_def token_defs storage_defs REFRESH_KEY_def SESSION_KEY_def
      intro!: token_state.equality local_storage.equality ext)

lemma no_web_session_clear: "no_web_session ts \<Longrightarrow> no_web_session (clearAllTokens ts)"
  using no_web_session_kept(1) same_clear by metis

lemma same_request:
  "ro_rawBody opts = None \<Longrightarrow> cl_build_request base tok path opts = with_base base (build_request tok path opts)"
  "cl_refresh_request base t = with_base base (refresh_request t)"
  by (simp_all add: cl_build_request_def build_request_def with_base_def cl_buildURL_def buildURL_def
      cl_refresh_request_def refresh_request_def Let_def split: option.splits)

definition simulates :: "'w desktop \<Rightarrow> 'w desktop \<Rightarrow> 'w web_env \<Rightarrow> bool" where
  "simulates d0 d e \<longleftrightarrow> e = web_view (we_sent e) d
     \<and> dk_sent d = dk_sent d0 @ map (\<lambda>rq. (transport_of d0, with_base (cc_baseUrl (dk_config d0)) rq)) (we_sent e)
     \<and> dk_config d = dk_config d0 \<and> dk_disk d = dk_disk d0 \<and> dk_ops d = dk_ops d0
     \<and> no_web_session (dk_tokens d)"

abbreviation (input) net_of :: "'w shell \<Rightarrow> 'w desktop \<Rightarrow> 'w net" where
  "net_of sh d0 \<equiv> web_net sh (transport_of d0) (cc_baseUrl (dk_config d0))"

lemma simulates_fetch:
  assumes "simulates d0 d e"
    and "rawFetch sh (with_base (cc_baseUrl (dk_config d0)) rq) d = (r, d1)"
  shows "\<exists>e1. do_fetch (net_of sh d0) rq e = (r, e1) \<and> simulates d0 d1 e1"
  using assms unfolding simulates_def
  by (cases e) (auto simp: rawFetch_def do_fetch_def web_net_def web_view_def transport_of_def
      split: prod.splits)

lemma simulates_tokens: "simulates d0 d e \<Longrightarrow> we_tokens e = dk_tokens d"
  unfolding simulates_def web_view_def by (metis web_env.select_convs(1))

lemma simulates_rotate:
  "simulates d0 d e \<Longrightarrow> simulates d0 (d\<lparr>dk_tokens := rotate_tokens body (dk_tokens d)\<rparr>)
     (e\<lparr>we_tokens := rotate_tokens body (we_tokens e)\<rparr>)"
  by (cases e) (auto simp: simulates_def web_view_def no_web_session_kept)

lemma simulates_clear:
  "simulates d0 d e \<Longrightarrow> simulates d0 (cl_emitLogout m (d\<lparr>dk_tokens := cl_clearAllTokens (dk_tokens d)\<rparr>))
     (emitLogout m (e\<lparr>we_tokens := clearAllTokens (we_tokens e)\<rparr>))"
  by (cases e) (auto simp: simulates_def web_view_def no_web_session_clear same_clear
      cl_emitLogout_def emitLogout_def)

lemma simulates_refresh:
  assumes "simulates d0 d e" and "cl_refreshOnce sh d = (r, d1)"
  shows "\<exists>e1. refreshOnce (net_of sh d0) e = (r, e1) \<and> simulates d0 d1 e1"
proof -
  have base: "cc_baseUrl (dk_config d) = cc_baseUrl (dk_config d0)"
    using assms(1) by (simp add: simulates_def)
  show ?thesis
  proof (cases "truthy (getRefreshToken (dk_tokens d))")
    case False
    with assms show ?thesis
      by (auto simp: cl_refreshOnce_def refreshOnce_def simulates_tokens [OF assms(1)]
          same_token_operations truthy_def split: option.splits)
  next
    case True
    then obtain t where t: "getRefreshToken (dk_tokens d) = Some t" "t \<noteq> []"
      by (auto simp: truthy_def split: option.splits)
    obtain fr d2 where f: "rawFetch sh (with_base (cc_baseUrl (dk_config d0)) (refresh_request t)) d = (fr, d2)"
      by fastforce
    obtain e2 where g: "do_fetch (net_of sh d0) (refresh_request t) e = (fr, e2)" "simulates d0 d2 e2"
      using simulates_fetch [OF assms(1) f] by blast
    show ?thesis
      using assms(2) t f g simulates_rotate [OF g(2)]
      by (auto simp: cl_refreshOnce_def refreshOnce_def simulates_tokens [OF assms(1)] base
          same_token_operations same_request same_rotation
          split: option.splits fetch_result.splits if_splits)
  qed
qed

lemma simulates_ensure:
  assumes "simulates d0 d e" and "cl_ensureRefresh sh d = (r, d1)"
  shows "\<exists>e1. ensureRefresh (net_of sh d0) e = (r, e1) \<and> simulates d0 d1 e1"
proof -
  obtain r' d2 where f: "cl_refreshOnce sh d = (r', d2)" by fastforce
  obtain e2 where g: "refreshOnce (net_of sh d0) e = (r', e2)" "simulates d0 d2 e2"
    using simulates_refresh [OF assms(1) f] by blast
  show ?thesis
    using assms(2) f g simulates_clear [OF g(2)]
    by (auto simp: cl_ensureRefresh_def ensureRefresh_def split: sum.splits)
qed

lemma simulates_apiFetch:
  assumes "simulates d0 d e" and "cl_apiFetch sh path opts d = (r, d')"
    and "cc_baseUrl (dk_config d0) \<noteq> []" and "\<not> cc_offlineModeEnabled (dk_config d0)"
    and "ro_rawBody opts = None"
  shows "\<exists>e'. apiFetch (net_of sh d0) path opts e = (r, e') \<and> simulates d0 d' e'"
  using assms
proof (induction sh path opts d arbitrary: e rule: cl_apiFetch.induct)
  case (1 sh path opts d)
  have cfg: "dk_config d = dk_config d0" using "1.prems"(1) by (simp add: simulates_def)
  let ?rq = "build_request (getAccessToken (dk_tokens d)) path opts"
  obtain fr d1 where f: "rawFetch sh (with_base (cc_baseUrl (dk_config d0)) ?rq) d = (fr, d1)"
    by fastforce
  obtain e1 where g: "do_fetch (net_of sh d0) ?rq e = (fr, e1)" "simulates d0 d1 e1"
    using simulates_fetch [OF "1.prems"(1) f] by blast
  have off: "\<not> queues_offline opts d1"
    using g(2) "1.prems"(4) by (simp add: queues_offline_def simulates_def)
  have f': "rawFetch sh (cl_build_request (cc_baseUrl (dk_config d))
      (cl_getAccessToken (dk_tokens d)) path opts) d = (fr, d1)"
    using f "1.prems"(5) by (simp add: cfg same_request same_token_operations)
  have g': "do_fetch (net_of sh d0) (build_request (getAccessToken (we_tokens e)) path opts) e = (fr, e1)"
    using g(1) simulates_tokens [OF "1.prems"(1)] by simp
  show ?case
  proof (cases "\<exists>res err. fr = Response res \<and> read_response fr = Inl err \<and> isAccessTokenExpired err
      \<and> \<not> ro_noRetry opts \<and> \<not> ro_unauthenticated opts")
    case False
    then have web: "apiFetch (net_of sh d0) path opts e = (read_response fr, e1)"
      using g' by (intro apiFetch_single) (auto simp: read_response_def
          simp del: isAccessTokenExpired.simps split: fetch_result.splits)
    have "cl_apiFetch sh path opts d = (read_response fr, d1)"
      using False f' off "1.prems"(3)
      by (subst cl_apiFetch.simps)
        (auto simp: cfg Let_def read_response_def simp del: isAccessTokenExpired.simps
          split: fetch_result.splits sum.splits)
    with web g(2) "1.prems"(2) show ?thesis by auto
  next
    case True
    then obtain res err where e: "fr = Response res" "read_response fr = Inl err"
      "isAccessTokenExpired err" "\<not> ro_noRetry opts" "\<not> ro_unauthenticated opts" by blast
    obtain refreshed d2 where h: "cl_ensureRefresh sh d1 = (refreshed, d2)" by fastforce
    obtain e2 where k: "ensureRefresh (net_of sh d0) e1 = (refreshed, e2)" "simulates d0 d2 e2"
      using simulates_ensure [OF g(2) h] by blast
    note web = apiFetch_refreshing [OF g' e(2-5) k(1)]
    have desk: "cl_apiFetch sh path opts d = (case refreshed of Inl _ \<Rightarrow> (Inl err, d2)
        | Inr _ \<Rightarrow> cl_apiFetch sh path (opts\<lparr>ro_noRetry := True\<rparr>) d2)"
      using f' e h "1.prems"(3) by (subst cl_apiFetch.simps) (simp add: cfg Let_def)
    show ?thesis
    proof (cases refreshed)
      case (Inl err')
      with web desk k(2) "1.prems"(2) show ?thesis by auto
    next
      case (Inr t)
      have "\<exists>e'. apiFetch (net_of sh d0) path (opts\<lparr>ro_noRetry := True\<rparr>) e2 = (r, e') \<and> simulates d0 d' e'"
        using "1.IH" [OF _ f' [symmetric] _ e(1) _ _ h [symmetric] _ Inr k(2)] e desk Inr "1.prems" cfg
        by simp
      with web Inr show ?thesis by simp
    qed
  qed
qed

subsection \<open>Where requests go\<close>

definition sends_to_server :: "'w desktop \<Rightarrow> 'w desktop \<Rightarrow> bool" where
  "sends_to_server d d' \<longleftrightarrow> dk_config d' = dk_config d \<and> td_isTauri (dk_disk d') = td_isTauri (dk_disk d)
     \<and> (\<exists>rqs. dk_sent d' = dk_sent d @ map (Pair (transport_of d)) rqs
          \<and> (\<forall>rq\<in>set rqs. \<exists>rest. rq_url rq = cc_baseUrl (dk_config d) @ rest))"

lemma sends_refl [simp]: "sends_to_server d d"
  by (auto simp: sends_to_server_def intro: exI [where x = "[]"])

lemma sends_trans: "sends_to_server d d1 \<Longrightarrow> sends_to_server d1 d2 \<Longrightarrow> sends_to_server d d2"
proof -
  assume a: "sends_to_server d d1" and b: "sends_to_server d1 d2"
  then have t: "transport_of d1 = transport_of d" "cc_baseUrl (dk_config d1) = cc_baseUrl (dk_config d)"
    by (simp_all add: sends_to_server_def transport_of_def)
  obtain xs where "dk_sent d1 = dk_sent d @ map (Pair (transport_of d)) xs"
    "\<forall>rq\<in>set xs. \<exists>rest. rq_url rq = cc_baseUrl (dk_config d) @ rest"
    using a by (auto simp: sends_to_server_def)
  moreover obtain ys where "dk_sent d2 = dk_sent d1 @ map (Pair (transport_of d)) ys"
    "\<forall>rq\<in>set ys. \<exists>rest. rq_url rq = cc_baseUrl (dk_config d) @ rest"
    using b by (auto simp: sends_to_server_def t)
  ultimately have "dk_sent d2 = dk_sent d @ map (Pair (transport_of d)) (xs @ ys)
      \<and> (\<forall>rq\<in>set (xs @ ys). \<exists>rest. rq_url rq = cc_baseUrl (dk_config d) @ rest)" by auto
  with a b show ?thesis unfolding sends_to_server_def by (metis t)
qed

lemma sends_same_log:
  "dk_config d' = dk_config d \<Longrightarrow> td_isTauri (dk_disk d') = td_isTauri (dk_disk d)
     \<Longrightarrow> dk_sent d' = dk_sent d \<Longrightarrow> sends_to_server d d'"
  by (auto simp: sends_to_server_def intro: exI [where x = "[]"])

lemma sends_fetch:
  "rawFetch sh (with_base (cc_baseUrl (dk_config d)) rq) d = (r, d1) \<Longrightarrow> sends_to_server d d1"
  by (auto simp: rawFetch_def sends_to_server_def with_base_def split: prod.splits
      intro: exI [where x = "[with_base (cc_baseUrl (dk_config d)) rq]"])

lemma sends_request:
  assumes "rawFetch sh (cl_build_request (cc_baseUrl (dk_config d)) tok path opts) d = (r, d1)"
  shows "sends_to_server d d1"
proof -
  have "cl_build_request (cc_baseUrl (dk_config d)) tok path opts
      = with_base (cc_baseUrl (dk_config d)) (build_request tok path (opts\<lparr>ro_rawBody := None\<rparr>))"
    by (simp add: cl_build_request_def build_request_def with_base_def cl_buildURL_def buildURL_def
        request_headers_def Let_def split: option.splits)
  with assms show ?thesis using sends_fetch by metis
qed

lemma sends_refresh: "cl_ensureRefresh sh d = (r, d1) \<Longrightarrow> sends_to_server d d1"
proof -
  have *: "sends_to_server d d2" if "cl_refreshOnce sh d = (r', d2)" for r' d2
  proof -
    have "sends_to_server d d3 \<Longrightarrow> sends_to_server d (d3\<lparr>dk_tokens := ts\<rparr>)" for d3 ts
      by (simp add: sends_to_server_def)
    with that show ?thesis
      by (auto simp: cl_refreshOnce_def same_request dest: sends_fetch
          split: option.splits if_splits prod.splits fetch_result.splits)
  qed
  assume "cl_ensureRefresh sh d = (r, d1)"
  moreover obtain r' d2 where f: "cl_refreshOnce sh d = (r', d2)" by fastforce
  moreover have "sends_to_server d2 (cl_emitLogout m (d2\<lparr>dk_tokens := ts\<rparr>))" for m ts
    by (rule sends_same_log) (simp_all add: cl_emitLogout_def)
  ultimately show ?thesis
    using * [OF f] sends_trans by (fastforce simp: cl_ensureRefresh_def split: sum.splits)
qed

lemma enqueue_frame:
  assumes "enqueue_offline sh meth path body d = (op, d')"
  shows "dk_config d' = dk_config d" "dk_sent d' = dk_sent d" "dk_tokens d' = dk_tokens d"
    "dk_logouts d' = dk_logouts d" "td_isTauri (dk_disk d') = td_isTauri (dk_disk d)"
    "dk_disk d' = snd (pushPendingOp op (dk_disk d))" "dk_ops d' = addOp op (dk_ops d)"
    "op_method op = meth" "op_path op = path" "op_body op = body" "op_retryCount op = 0"
    "dk_isSyncing d' = dk_isSyncing d" "dk_discarded d' = dk_discarded d"
  using assms by (auto simp: enqueue_offline_def pushPendingOp_def new_pending_op_def split: prod.splits)

lemma sends_apiFetch:
  assumes "cl_apiFetch sh path opts d = (r, d')" shows "sends_to_server d d'"
  using assms
proof (induction sh path opts d arbitrary: d' r rule: cl_apiFetch.induct)
  case (1 sh path opts d)
  obtain fr d1 where f: "rawFetch sh (cl_build_request (cc_baseUrl (dk_config d))
      (cl_getAccessToken (dk_tokens d)) path opts) d = (fr, d1)" by fastforce
  note s1 = sends_request [OF f]
  show ?case
  proof (cases "cc_baseUrl (dk_config d) = []")
    case True
    with "1.prems" show ?thesis by (subst (asm) cl_apiFetch.simps) simp
  next
    case base: False
    show ?thesis
    proof (cases "\<exists>res err. fr = Response res \<and> read_response fr = Inl err \<and> isAccessTokenExpired err
        \<and> \<not> ro_noRetry opts \<and> \<not> ro_unauthenticated opts")
      case True
      then obtain res err where e: "fr = Response res" "read_response fr = Inl err"
        "isAccessTokenExpired err" "\<not> ro_noRetry opts" "\<not> ro_unauthenticated opts" by blast
      obtain refreshed d2 where h: "cl_ensureRefresh sh d1 = (refreshed, d2)" by fastforce
      have s2: "sends_to_server d d2" using sends_trans [OF s1 sends_refresh [OF h]] .
      have desk: "cl_apiFetch sh path opts d = (case refreshed of Inl _ \<Rightarrow> (Inl err, d2)
          | Inr _ \<Rightarrow> cl_apiFetch sh path (opts\<lparr>ro_noRetry := True\<rparr>) d2)"
        using f e h base by (subst cl_apiFetch.simps) (simp add: Let_def)
      show ?thesis
      proof (cases refreshed)
        case (Inl err')
        with desk s2 "1.prems" show ?thesis by simp
      next
        case (Inr t)
        then have "cl_apiFetch sh path (opts\<lparr>ro_noRetry := True\<rparr>) d2 = (r, d')"
          using desk "1.prems" by simp
        from "1.IH" [OF base f [symmetric] refl e(1,2) _ h [symmetric] refl Inr this] e s2
        show ?thesis using sends_trans by blast
      qed
    next
      case False
      have q: "sends_to_server d d2" if "enqueue_offline sh meth path body d1 = (op, d2)" for meth body op d2
        using sends_trans [OF s1] sends_same_log enqueue_frame(1,2,5) [OF that] by blast
      from False base f s1 "1.prems" show ?thesis
        by (subst (asm) cl_apiFetch.simps)
          (auto simp: Let_def simp del: isAccessTokenExpired.simps dest: q
            split: fetch_result.splits sum.splits prod.splits if_splits)
    qed
  qed
qed

subsection \<open>Properties\<close>

text \<open>
  C11: With a server address set and offline mode off, a desktop call returns what the web
  wrapper returns on the prefixed network, with the same tokens and logout events afterwards,
  and the requests it sends are the web wrapper's under the server's address.
\<close>
theorem desktop_refines_web:
  assumes "cc_baseUrl (dk_config d) \<noteq> []" and "\<not> cc_offlineModeEnabled (dk_config d)"
    and "ro_rawBody opts = None" and "no_web_session (dk_tokens d)"
    and "cl_apiFetch sh path opts d = (r, d')"
  shows "\<exists>sent. apiFetch (web_net sh (transport_of d) (cc_baseUrl (dk_config d))) path opts (web_view [] d)
        = (r, web_view sent d')
      \<and> dk_sent d' = dk_sent d @ map (\<lambda>rq. (transport_of d, with_base (cc_baseUrl (dk_config d)) rq)) sent
      \<and> dk_disk d' = dk_disk d \<and> dk_ops d' = dk_ops d"
proof -
  have "simulates d d (web_view [] d)"
    using assms(4) by (simp add: simulates_def web_view_def)
  from simulates_apiFetch [OF this assms(5,1,2,3)] obtain e' where
    "apiFetch (net_of sh d) path opts (web_view [] d) = (r, e')" "simulates d d' e'" by blast
  then show ?thesis unfolding simulates_def by metis
qed

text \<open>
  Every request of a call goes to the configured server over the one transport the
  configuration selects: the shell's TLS command exactly when running in the shell with
  certificate checks off or a client certificate set, with that certificate; and a call does not
  change the configuration.
\<close>
theorem desktop_requests_use_configured_transport:
  assumes "cl_apiFetch sh path opts d = (r, d')"
  shows "dk_config d' = dk_config d
    \<and> (\<exists>sent. dk_sent d' = dk_sent d @ sent
        \<and> (\<forall>(t, rq)\<in>set sent. (\<exists>rest. rq_url rq = cc_baseUrl (dk_config d) @ rest)
             \<and> (if td_isTauri (dk_disk d) \<and> (cc_tlsSkipVerify (dk_config d) \<or> hasClientCert (dk_config d))
                then t = TlsFetch (cc_tlsSkipVerify (dk_config d))
                       (or_undefined (cc_clientCertP12Base64 (dk_config d)))
                       (or_undefined (cc_clientCertPassword (dk_config d)))
                else t = BrowserFetch)))"
proof -
  have "sends_to_server d d'" using sends_apiFetch [OF assms] .
  then obtain rqs where cfg: "dk_config d' = dk_config d"
    and log: "dk_sent d' = dk_sent d @ map (Pair (transport_of d)) rqs"
    and url: "\<forall>rq\<in>set rqs. \<exists>rest. rq_url rq = cc_baseUrl (dk_config d) @ rest"
    unfolding sends_to_server_def by blast
  have "transport_of d = (if td_isTauri (dk_disk d) \<and> (cc_tlsSkipVerify (dk_config d) \<or> hasClientCert (dk_config d))
      then TlsFetch (cc_tlsSkipVerify (dk_config d)) (or_undefined (cc_clientCertP12Base64 (dk_config d)))
             (or_undefined (cc_clientCertPassword (dk_config d)))
      else BrowserFetch)"
    by (simp add: transport_of_def choose_transport_def hasClientCert_def Let_def)
  with url have "\<forall>(t, rq)\<in>set (map (Pair (transport_of d)) rqs).
      (\<exists>rest. rq_url rq = cc_baseUrl (dk_config d) @ rest)
      \<and> (if td_isTauri (dk_disk d) \<and> (cc_tlsSkipVerify (dk_config d) \<or> hasClientCert (dk_config d))
         then t = TlsFetch (cc_tlsSkipVerify (dk_config d)) (or_undefined (cc_clientCertP12Base64 (dk_config d)))
                (or_undefined (cc_clientCertPassword (dk_config d)))
         else t = BrowserFetch)" by auto
  with cfg log show ?thesis by blast
qed

text \<open>The outcome of a call whose first request fails on the network.\<close>

lemma cl_apiFetch_network_failure:
  assumes "cc_baseUrl (dk_config d) \<noteq> []"
    and "rawFetch sh (cl_build_request (cc_baseUrl (dk_config d)) (cl_getAccessToken (dk_tokens d)) path opts) d
       = (NetworkFailure m, d1)"
  shows "cl_apiFetch sh path opts d =
     (if queues_offline opts d
      then (let (op, d2) = enqueue_offline sh (nullish (ro_method opts) GET) path (ro_body opts) d1
            in (Inl (OfflineQueued (op_id op)), d2))
      else (Inl (ApiErr (network_error m)), d1))"
proof -
  have "dk_config d1 = dk_config d"
    using sends_request [OF assms(2)] by (simp add: sends_to_server_def)
  with assms show ?thesis
    by (subst cl_apiFetch.simps) (simp add: queues_offline_def Let_def)
qed

text \<open>
  A mutation that fails on the network in offline mode is appended, with its method, path
  and body and no attempt counted, to the queue on disk and to the store, and the caller gets
  the queued operation's id; tokens and session are untouched. A read, an unauthenticated call,
  or any call with offline mode off instead fails with status 0 and queues nothing.
\<close>
theorem network_failure_queues_mutations_only:
  assumes "cc_baseUrl (dk_config d) \<noteq> []"
    and "rawFetch sh (cl_build_request (cc_baseUrl (dk_config d)) (cl_getAccessToken (dk_tokens d)) path opts) d
       = (NetworkFailure m, d1)"
    and "disk_ok (dk_disk d)" and "cl_apiFetch sh path opts d = (r, d')"
  shows "dk_tokens d' = dk_tokens d \<and> dk_logouts d' = dk_logouts d
    \<and> (if cc_offlineModeEnabled (dk_config d) \<and> \<not> ro_unauthenticated opts
           \<and> nullish (ro_method opts) GET \<noteq> GET
       then (\<exists>op. r = Inl (OfflineQueued (op_id op)) \<and> op_method op = nullish (ro_method opts) GET
               \<and> op_path op = path \<and> op_body op = ro_body opts \<and> op_retryCount op = 0
               \<and> loadPendingOps (dk_disk d') = loadPendingOps (dk_disk d) @ [op]
               \<and> st_ops (dk_ops d') = st_ops (dk_ops d) @ [op])
       else r = Inl (ApiErr (network_error m)) \<and> dk_disk d' = dk_disk d \<and> dk_ops d' = dk_ops d)"
proof -
  have frame: "dk_tokens d1 = dk_tokens d" "dk_logouts d1 = dk_logouts d" "dk_disk d1 = dk_disk d"
    "dk_ops d1 = dk_ops d"
    using assms(2) by (auto simp: rawFetch_def split: prod.splits)
  have mut: "is_mutation me \<longleftrightarrow> me \<noteq> GET" for me
    by (cases me) (simp_all add: is_mutation_def)
  obtain op d2 where q: "enqueue_offline sh (nullish (ro_method opts) GET) path (ro_body opts) d1 = (op, d2)"
    by fastforce
  have disk: "loadPendingOps (dk_disk d2) = loadPendingOps (dk_disk d) @ [op]"
    using enqueue_frame(6) [OF q] disk_q.ops_add assms(3) frame(3) by simp
  have store: "st_ops (dk_ops d2) = st_ops (dk_ops d) @ [op]"
    using enqueue_frame(7) [OF q] frame(4) by (simp add: store_q.ops_add)
  show ?thesis
    using cl_apiFetch_network_failure [OF assms(1,2)] assms(4) frame q disk store enqueue_frame(3,4,8-11) [OF q]
    by (auto simp: queues_offline_def mut)
qed

subsection \<open>Concrete runs\<close>

text \<open>A shell that answers from a script, then is offline, and whose clock ticks.\<close>

type_synonym demo_world = "fetch_result list \<times> int"

definition demo_shell :: "demo_world shell" where
  "demo_shell = \<lparr>sh_fetch = (\<lambda>rq (rs, t). let (r, rs') = scripted rq rs in (r, (rs', t))),
     sh_tls_fetch = (\<lambda>_ _ _ _ w. (TlsReply 200 True (Some (JBool True)), w)),
     sh_now = (\<lambda>(rs, t). (t, (rs, t + 1))), sh_random = (\<lambda>w. (''k3x9qa'', w))\<rparr>"

definition demo_desktop :: "bool \<Rightarrow> fetch_result list \<Rightarrow> demo_world desktop" where
  "demo_desktop offline script =
     \<lparr>dk_config = setOfflineModeEnabled offline (setBaseUrl ''https://h/'' initial_config),
      dk_tokens = demo_tokens, dk_world = (script, 1000), dk_sent = [], dk_logouts = [],
      dk_disk = demo_disk, dk_ops = empty_ops_store, dk_isSyncing = False, dk_discarded = []\<rparr>"

lemma demo_desktop_simps [simp]:
  "cc_baseUrl (dk_config (demo_desktop offl script)) = ''https://h''"
  "cc_offlineModeEnabled (dk_config (demo_desktop offl script)) = offl"
  "dk_disk (demo_desktop offl script) = demo_disk"
  "dk_tokens (demo_desktop offl script) = demo_tokens"
  "dk_world (demo_desktop offl script) = (script, 1000)"
  "transport_of (demo_desktop offl script) = BrowserFetch"
  by (simp_all add: demo_desktop_def config_defs initial_config_def strip_trailing_slash_def
      transport_of_def choose_transport_def)

lemma desktop_refines_web_witness:
  "\<exists>sent. fst (apiFetch (web_net demo_shell BrowserFetch ''https://h'') ''/api/v1/items'' no_options
        (web_view [] (demo_desktop False [Response fresh_pair])))
      = fst (cl_apiFetch demo_shell ''/api/v1/items'' no_options (demo_desktop False [Response fresh_pair]))
    \<and> dk_sent (snd (cl_apiFetch demo_shell ''/api/v1/items'' no_options (demo_desktop False [Response fresh_pair])))
      = map (\<lambda>rq. (BrowserFetch, with_base ''https://h'' rq)) sent"
proof -
  let ?d = "demo_desktop False [Response fresh_pair]"
  obtain r d' where e: "cl_apiFetch demo_shell ''/api/v1/items'' no_options ?d = (r, d')" by fastforce
  have "no_web_session (dk_tokens ?d)"
    by (simp add: no_web_session_def demo_tokens_def token_defs storage_defs empty_storage_def
        REFRESH_KEY_def SESSION_KEY_def)
  from desktop_refines_web [OF _ _ _ this e] obtain sent where
    "apiFetch (web_net demo_shell BrowserFetch ''https://h'') ''/api/v1/items'' no_options (web_view [] ?d)
       = (r, web_view sent d')"
    "dk_sent d' = dk_sent ?d @ map (\<lambda>rq. (BrowserFetch, with_base ''https://h'' rq)) sent"
    by (auto simp: no_options_def)
  with e show ?thesis by (auto simp: demo_desktop_def)
qed

lemma desktop_requests_use_configured_transport_witness:
  "\<exists>sent. dk_sent (snd (cl_apiFetch demo_shell ''/api/v1/items'' no_options (demo_desktop False [])))
      = dk_sent (demo_desktop False []) @ sent \<and> (\<forall>(t, rq)\<in>set sent. t = BrowserFetch)"
proof -
  obtain r d' where e: "cl_apiFetch demo_shell ''/api/v1/items'' no_options (demo_desktop False []) = (r, d')"
    by fastforce
  have "\<not> (td_isTauri (dk_disk (demo_desktop False []))
     \<and> (cc_tlsSkipVerify (dk_config (demo_desktop False [])) \<or> hasClientCert (dk_config (demo_desktop False []))))"
    by (simp add: demo_desktop_def config_defs initial_config_def)
  with desktop_requests_use_configured_transport [OF e] e show ?thesis by auto
qed

lemma network_failure_queues_mutations_only_witness:
  "\<exists>op. loadPendingOps (dk_disk (snd (cl_apiFetch demo_shell ''/api/v1/items''
        (no_options\<lparr>ro_method := Some POST, ro_body := Some (JStr ''x'')\<rparr>) (demo_desktop True [])))) = [op]
     \<and> op_method op = POST \<and> op_path op = ''/api/v1/items'' \<and> op_body op = Some (JStr ''x'')"
proof -
  let ?opts = "no_options\<lparr>ro_method := Some POST, ro_body := Some (JStr ''x'')\<rparr>"
  let ?d = "demo_desktop True []"
  obtain r d' where e: "cl_apiFetch demo_shell ''/api/v1/items'' ?opts ?d = (r, d')" by fastforce
  have f: "rawFetch demo_shell (cl_build_request (cc_baseUrl (dk_config ?d)) (cl_getAccessToken (dk_tokens ?d))
      ''/api/v1/items'' ?opts) ?d = (NetworkFailure ''no route'', snd (rawFetch demo_shell
      (cl_build_request (cc_baseUrl (dk_config ?d)) (cl_getAccessToken (dk_tokens ?d)) ''/api/v1/items'' ?opts) ?d))"
    by (simp add: rawFetch_def transmit_def demo_shell_def)
  show ?thesis
    using network_failure_queues_mutations_only [OF _ f _ e] e by (auto simp: no_options_def)
qed

end
