(* ===== verification/OfflineSync.thy ===== *)
theory OfflineSync
  imports DesktopClient
begin

text \<open>
  The engine that replays the queued mutations (\<open>client/src/lib/offline-sync.ts\<close>) and the hook
  that drives it (\<open>client/src/hooks/use-offline-sync.ts\<close>), over the desktop state of
  \<open>DesktopClient\<close>: the disk queue, its mirror in the store, the concurrency flag and the
  \<open>offline-sync:discarded\<close> events.
\<close>

subsection \<open>The engine\<close>

definition MAX_RETRIES :: int where
  "MAX_RETRIES = 3"

record SyncResult =
  sr_replayed :: nat
  sr_discarded :: nat
  sr_stillOffline :: bool

definition no_sync :: SyncResult where
  "no_sync = \<lparr>sr_replayed = 0, sr_discarded = 0, sr_stillOffline = False\<rparr>"

definition dispatchDiscardedEvent :: "PendingOp \<Rightarrow> 'w desktop \<Rightarrow> 'w desktop" where
  "dispatchDiscardedEvent op d = d\<lparr>dk_discarded := dk_discarded d @ [op]\<rparr>"

text \<open>\<open>await removePendingOp(op.id); store.removeOp(op.id)\<close>.\<close>

definition remove_everywhere :: "string \<Rightarrow> 'w desktop \<Rightarrow> 'w desktop" where
  "remove_everywhere i d =
     d\<lparr>dk_disk := removePendingOp i (dk_disk d), dk_ops := removeOp i (dk_ops d)\<rparr>"

definition replay_options :: "PendingOp \<Rightarrow> RequestOptions" where
  "replay_options op = no_options\<lparr>ro_method := Some (op_method op), ro_body := op_body op\<rparr>"

fun is_offline_error :: "js_error \<Rightarrow> bool" where
  "is_offline_error (ApiErr e) = (status e = 0)"
| "is_offline_error _ = False"

text \<open>The loop's body: the first component is \<open>True\<close> for a \<open>break\<close>.\<close>

definition replay_one ::
    "'w shell \<Rightarrow> PendingOp \<Rightarrow> SyncResult \<Rightarrow> 'w desktop \<Rightarrow> bool \<times> SyncResult \<times> 'w desktop" where
  "replay_one sh op res d =
     (case cl_apiFetch sh (op_path op) (replay_options op) d of
        (Inr _, d1) \<Rightarrow>
          (False, res\<lparr>sr_replayed := sr_replayed res + 1\<rparr>, remove_everywhere (op_id op) d1)
      | (Inl err, d1) \<Rightarrow>
          if is_offline_error err then (True, res\<lparr>sr_stillOffline := True\<rparr>, d1)
          else
            (let (updated, disk) = incrementRetryCount (op_id op) (dk_disk d1);
                 d2 = d1\<lparr>dk_disk := disk\<rparr>
             in case updated of
                 None \<Rightarrow> (False, res, d2)
               | Some u \<Rightarrow>
                   (let d3 = d2\<lparr>dk_ops := updateOp u (dk_ops d2)\<rparr>
                    in if op_retryCount u \<ge> MAX_RETRIES
                       then (False, res\<lparr>sr_discarded := sr_discarded res + 1\<rparr>,
                             dispatchDiscardedEvent op (remove_everywhere (op_id op) d3))
                       else (False, res, d3))))"

fun sync_loop :: "'w shell \<Rightarrow> PendingOp list \<Rightarrow> SyncResult \<Rightarrow> 'w desktop \<Rightarrow> SyncResult \<times> 'w desktop" where
  "sync_loop sh [] res d = (res, d)"
| "sync_loop sh (op # ops) res d =
     (let (stop, res', d') = replay_one sh op res d
      in if stop then (res', d') else sync_loop sh ops res' d')"

definition syncPendingOps :: "'w shell \<Rightarrow> 'w desktop \<Rightarrow> SyncResult \<times> 'w desktop" where
  "syncPendingOps sh d =
     (if dk_isSyncing d then (no_sync, d)
      else
        (let d1 = d\<lparr>dk_isSyncing := True\<rparr>;
             ops = loadPendingOps (dk_disk d1);
             (res, d2) = sync_loop sh ops no_sync (d1\<lparr>dk_ops := setOps ops (dk_ops d1)\<rparr>)
         in (res, d2\<lparr>dk_isSyncing := False\<rparr>)))"

subsection \<open>The hook\<close>

text \<open>Toasts as the hook shows them: a title, a description, and whether it is destructive.\<close>

datatype sync_toast =
    SyncedToast nat
  | NotSentToast nat
  | DiscardedToast http_method string int

text \<open>On mount, and on every change of the mode: hydrate the store from disk.\<close>

definition hydrate_queue :: "'w desktop \<Rightarrow> 'w desktop" where
  "hydrate_queue d =
     (if \<not> cc_offlineModeEnabled (dk_config d) then d\<lparr>dk_ops := setHydrated True (dk_ops d)\<rparr>
      else d\<lparr>dk_ops := setHydrated True (setOps (loadPendingOps (dk_disk d)) (dk_ops d))\<rparr>)"

definition discarded_toast :: "PendingOp \<Rightarrow> sync_toast" where
  "discarded_toast op = DiscardedToast (op_method op) (op_path op) (op_retryCount op)"

text \<open>The \<open>online\<close> listener: the toasts of the events dispatched during the run come first.\<close>

definition handleOnline :: "'w shell \<Rightarrow> 'w desktop \<Rightarrow> sync_toast list \<times> 'w desktop" where
  "handleOnline sh d =
     (if \<not> cc_offlineModeEnabled (dk_config d) then ([], d)
      else
        (let (res, d') = syncPendingOps sh d
         in (map discarded_toast (drop (length (dk_discarded d)) (dk_discarded d'))
             @ (if sr_replayed res > 0 then [SyncedToast (sr_replayed res)] else [])
             @ (if sr_discarded res > 0 then [NotSentToast (sr_discarded res)] else []), d')))"

subsection \<open>What a call does to the queue\<close>

definition queue_effect :: "string \<Rightarrow> RequestOptions \<Rightarrow> js_error + json option \<Rightarrow> 'w desktop \<Rightarrow> 'w desktop \<Rightarrow> bool" where
  "queue_effect path opts r d d' \<longleftrightarrow>
     dk_isSyncing d' = dk_isSyncing d \<and> dk_discarded d' = dk_discarded d
     \<and> (if \<exists>i. r = Inl (OfflineQueued i)
        then cc_offlineModeEnabled (dk_config d)
          \<and> (\<exists>op. r = Inl (OfflineQueued (op_id op)) \<and> op_method op = nullish (ro_method opts) GET
             \<and> op_path op = path \<and> op_body op = ro_body opts \<and> op_retryCount op = 0
             \<and> dk_disk d' = snd (pushPendingOp op (dk_disk d)) \<and> dk_ops d' = addOp op (dk_ops d))
        else dk_disk d' = dk_disk d \<and> dk_ops d' = dk_ops d)"

definition same_queue :: "'w desktop \<Rightarrow> 'w desktop \<Rightarrow> bool" where
  "same_queue d d' \<longleftrightarrow> dk_isSyncing d' = dk_isSyncing d \<and> dk_discarded d' = dk_discarded d
     \<and> dk_disk d' = dk_disk d \<and> dk_ops d' = dk_ops d \<and> dk_config d' = dk_config d"

lemma same_queue_rawFetch: "rawFetch sh rq d = (r, d') \<Longrightarrow> same_queue d d'"
  by (auto simp: rawFetch_def same_queue_def split: prod.splits)

lemma same_queue_ensure: "cl_ensureRefresh sh d = (r, d') \<Longrightarrow> same_queue d d'"
proof -
  assume e: "cl_ensureRefresh sh d = (r, d')"
  obtain r1 d1 where f: "cl_refreshOnce sh d = (r1, d1)" by fastforce
  then have "same_queue d d1"
    unfolding cl_refreshOnce_def
    by (auto dest!: same_queue_rawFetch split: option.splits if_splits prod.splits fetch_result.splits)
      (auto simp: same_queue_def)
  with e f show ?thesis
    by (auto simp: cl_ensureRefresh_def cl_emitLogout_def same_queue_def split: sum.splits)
qed

lemma queue_effect_same: "same_queue d d' \<Longrightarrow> (\<And>i. r \<noteq> Inl (OfflineQueued i)) \<Longrightarrow> queue_effect path opts r d d'"
  by (auto simp: queue_effect_def same_queue_def)

lemma queue_effect_after: "same_queue d d1 \<Longrightarrow> queue_effect path opts r d1 d' \<Longrightarrow> queue_effect path opts r d d'"
  by (auto simp: queue_effect_def same_queue_def split: if_splits)

lemma read_response_not_queued: "read_response fr \<noteq> Inl (OfflineQueued i)"
  by (auto simp: read_response_def split: fetch_result.splits option.splits)

lemma queue_effect_apiFetch:
  assumes "cl_apiFetch sh path opts d = (r, d')" shows "queue_effect path opts r d d'"
  using assms
proof (induction sh path opts d arbitrary: d' r rule: cl_apiFetch.induct)
  case (1 sh path opts d)
  obtain fr d1 where f: "rawFetch sh (cl_build_request (cc_baseUrl (dk_config d))
      (cl_getAccessToken (dk_tokens d)) path opts) d = (fr, d1)" by fastforce
  note s1 = same_queue_rawFetch [OF f]
  show ?case
  proof (cases "cc_baseUrl (dk_config d) = []")
    case True
    with "1.prems" show ?thesis
      by (subst (asm) cl_apiFetch.simps) (auto simp: queue_effect_def)
  next
    case base: False
    show ?thesis
    proof (cases fr)
      case (NetworkFailure m)
      obtain op d2 where q: "enqueue_offline sh (nullish (ro_method opts) GET) path (ro_body opts) d1 = (op, d2)"
        by fastforce
      from cl_apiFetch_network_failure [OF base] f NetworkFailure "1.prems" q enqueue_frame [OF q] s1
      show ?thesis
        by (auto simp: queue_effect_def same_queue_def queues_offline_def split: if_splits)
    next
      case (Response res)
      show ?thesis
      proof (cases "\<exists>err. read_response fr = Inl err \<and> isAccessTokenExpired err
          \<and> \<not> ro_noRetry opts \<and> \<not> ro_unauthenticated opts")
        case True
        then obtain err where e: "read_response fr = Inl err"
          "isAccessTokenExpired err" "\<not> ro_noRetry opts" "\<not> ro_unauthenticated opts" by blast
        obtain refreshed d2 where h: "cl_ensureRefresh sh d1 = (refreshed, d2)" by fastforce
        have s2: "same_queue d d2"
          using s1 same_queue_ensure [OF h] by (simp add: same_queue_def)
        have desk: "cl_apiFetch sh path opts d = (case refreshed of Inl _ \<Rightarrow> (Inl err, d2)
            | Inr _ \<Rightarrow> cl_apiFetch sh path (opts\<lparr>ro_noRetry := True\<rparr>) d2)"
          using f e h base Response by (subst cl_apiFetch.simps) (simp add: Let_def)
        show ?thesis
        proof (cases refreshed)
          case (Inl err')
          with desk "1.prems" e(1) s2 read_response_not_queued [of fr] show ?thesis
            by (intro queue_effect_same) auto
        next
          case (Inr t)
          then have "cl_apiFetch sh path (opts\<lparr>ro_noRetry := True\<rparr>) d2 = (r, d')"
            using desk "1.prems" by simp
          from "1.IH" [OF base f [symmetric] refl Response e(1) _ h [symmetric] refl Inr this] e s2
          have "queue_effect path (opts\<lparr>ro_noRetry := True\<rparr>) r d d'"
            using queue_effect_after by blast
          then show ?thesis by (simp add: queue_effect_def cong: if_cong)
        qed
      next
        case False
        then have "cl_apiFetch sh path opts d = (read_response fr, d1)"
          using base f Response
          by (subst cl_apiFetch.simps)
            (auto simp: Let_def simp del: isAccessTokenExpired.simps split: sum.splits)
        with "1.prems" s1 read_response_not_queued show ?thesis
          by (intro queue_effect_same) auto
      qed
    qed
  qed
qed

lemma cl_apiFetch_config: "cl_apiFetch sh path opts d = (r, d') \<Longrightarrow> dk_config d' = dk_config d"
  by (drule sends_apiFetch) (simp add: sends_to_server_def)

subsection \<open>One replay, by outcome\<close>

text \<open>The queue on disk, mirrored by the store, holds exactly these operations.\<close>

definition queue_is :: "PendingOp list \<Rightarrow> 'w desktop \<Rightarrow> bool" where
  "queue_is ops d \<longleftrightarrow> disk_ok (dk_disk d) \<and> distinct (ids ops)
     \<and> loadPendingOps (dk_disk d) = ops \<and> st_ops (dk_ops d) = ops"

lemma queue_is_remove:
  "queue_is ops d \<Longrightarrow> queue_is (filter (\<lambda>op. op_id op \<noteq> i) ops) (remove_everywhere i d)"
  by (simp add: queue_is_def remove_everywhere_def disk_q.ops_drop disk_q.ok_drop store_q.ops_drop ids_filter)

lemma filter_out_middle:
  "distinct (ids (kept @ op # rest)) \<Longrightarrow> filter (\<lambda>op'. op_id op' \<noteq> op_id op) (kept @ op # rest) = kept @ rest"
  by simp

lemma map_bump_middle:
  assumes "distinct (ids (kept @ op # rest))"
  shows "map (\<lambda>op'. if op_id op' = op_id op then bump_op op' else op') (kept @ op # rest) = kept @ bump_op op # rest"
proof -
  have "op_id op' \<noteq> op_id op" if "op' \<in> set kept \<union> set rest" for op'
    using assms that by (auto simp: ids_def) (metis image_eqI)+
  then show ?thesis by (auto intro: map_idI)
qed

lemma replay_success:
  assumes "cl_apiFetch sh (op_path op) (replay_options op) d = (Inr v, d1)"
    and "queue_is (kept @ op # rest) d"
  shows "\<exists>d'. replay_one sh op res d = (False, res\<lparr>sr_replayed := sr_replayed res + 1\<rparr>, d')
    \<and> queue_is (kept @ rest) d' \<and> dk_config d' = dk_config d \<and> dk_discarded d' = dk_discarded d"
proof -
  have "queue_effect (op_path op) (replay_options op) (Inr v) d d1"
    using queue_effect_apiFetch [OF assms(1)] .
  with assms(2) have "queue_is (kept @ op # rest) d1" "dk_discarded d1 = dk_discarded d"
    by (simp_all add: queue_effect_def queue_is_def)
  moreover from this(1) have "filter (\<lambda>op'. op_id op' \<noteq> op_id op) (kept @ op # rest) = kept @ rest"
    by (intro filter_out_middle) (simp add: queue_is_def)
  ultimately have "queue_is (kept @ rest) (remove_everywhere (op_id op) d1)"
    using queue_is_remove by metis
  with assms(1) cl_apiFetch_config [OF assms(1)] \<open>dk_discarded d1 = dk_discarded d\<close> show ?thesis
    by (simp add: replay_one_def remove_everywhere_def)
qed

lemma replay_offline:
  assumes "cl_apiFetch sh (op_path op) (replay_options op) d = (Inl err, d1)"
    and "is_offline_error err" and "queue_is ops d"
  shows "replay_one sh op res d = (True, res\<lparr>sr_stillOffline := True\<rparr>, d1) \<and> queue_is ops d1
    \<and> dk_discarded d1 = dk_discarded d"
proof -
  have "queue_effect (op_path op) (replay_options op) (Inl err) d d1"
    using queue_effect_apiFetch [OF assms(1)] .
  moreover have "err \<noteq> OfflineQueued i" for i using assms(2) by (cases err) auto
  ultimately show ?thesis
    using assms by (simp add: queue_effect_def queue_is_def replay_one_def)
qed

lemma replay_rejected:
  assumes "cl_apiFetch sh (op_path op) (replay_options op) d = (Inl err, d1)"
    and "\<not> is_offline_error err" and "\<And>i. err \<noteq> OfflineQueued i"
    and "queue_is (kept @ op # rest) d"
  shows "\<exists>d'. (if op_retryCount op + 1 < MAX_RETRIES
       then replay_one sh op res d = (False, res, d') \<and> queue_is (kept @ bump_op op # rest) d'
          \<and> dk_discarded d' = dk_discarded d
       else replay_one sh op res d = (False, res\<lparr>sr_discarded := sr_discarded res + 1\<rparr>, d')
          \<and> queue_is (kept @ rest) d' \<and> dk_discarded d' = dk_discarded d @ [op])
     \<and> dk_config d' = dk_config d"
proof -
  let ?all = "kept @ op # rest"
  have "queue_effect (op_path op) (replay_options op) (Inl err) d d1"
    using queue_effect_apiFetch [OF assms(1)] .
  with assms(3,4) have q1: "queue_is ?all d1" and dis: "dk_discarded d1 = dk_discarded d"
    by (simp_all add: queue_effect_def queue_is_def)
  then have dst: "distinct (ids ?all)" and ok: "disk_ok (dk_disk d1)"
    and ld: "loadPendingOps (dk_disk d1) = ?all" and st: "st_ops (dk_ops d1) = ?all"
    by (simp_all only: queue_is_def)
  obtain disk where inc: "incrementRetryCount (op_id op) (dk_disk d1) = (Some (bump_op op), disk)"
    using increment_result [of "dk_disk d1" op] dst ld by (cases "incrementRetryCount (op_id op) (dk_disk d1)") auto
  have mid: "map (\<lambda>op'. if op_id op' = op_id op then bump_op op' else op') ?all = kept @ bump_op op # rest"
    by (rule map_bump_middle [OF dst])
  have load: "loadPendingOps disk = kept @ bump_op op # rest" "disk_ok disk"
    using disk_q.ops_bump [OF ok, of "op_id op"] disk_q.ok_bump [OF ok, of "op_id op"] dst inc
    by (simp_all add: ld mid del: map_append list.map)
  have store: "st_ops (updateOp (bump_op op) (dk_ops d1)) = kept @ bump_op op # rest"
    using updateOp_bump [of "dk_ops d1" op] dst by (simp add: st mid del: map_append list.map)
  let ?d3 = "d1\<lparr>dk_disk := disk, dk_ops := updateOp (bump_op op) (dk_ops d1)\<rparr>"
  have q3: "queue_is (kept @ bump_op op # rest) ?d3"
    using load store dst by (simp add: queue_is_def bump_op_def)
  have q4: "queue_is (kept @ rest) (remove_everywhere (op_id op) ?d3)"
    using queue_is_remove [OF q3, of "op_id op"] filter_out_middle [of kept "bump_op op" rest] dst
    by (simp add: bump_op_def)
  show ?thesis
  proof (cases "op_retryCount op + 1 < MAX_RETRIES")
    case True
    then have "replay_one sh op res d = (False, res, ?d3)"
      using assms(1,2) inc by (simp add: replay_one_def Let_def bump_op_def)
    with True q3 dis cl_apiFetch_config [OF assms(1)] show ?thesis by auto
  next
    case False
    then have "replay_one sh op res d = (False, res\<lparr>sr_discarded := sr_discarded res + 1\<rparr>,
        dispatchDiscardedEvent op (remove_everywhere (op_id op) ?d3))"
      using assms(1,2) inc by (simp add: replay_one_def Let_def bump_op_def)
    with False q4 dis cl_apiFetch_config [OF assms(1)] show ?thesis
      by (auto simp: dispatchDiscardedEvent_def queue_is_def remove_everywhere_def)
  qed
qed

subsection \<open>The whole run\<close>

text \<open>What the server and the network answered to each operation the engine tried, in order; a
  network error is the last answer, the loop ends there.\<close>

fun is_network_error :: "js_error + json option \<Rightarrow> bool" where
  "is_network_error (Inl err) = is_offline_error err"
| "is_network_error (Inr _) = False"

fun answers :: "'w shell \<Rightarrow> PendingOp list \<Rightarrow> 'w desktop \<Rightarrow> (js_error + json option) list" where
  "answers sh [] d = []"
| "answers sh (op # ops) d =
     (let r = fst (cl_apiFetch sh (op_path op) (replay_options op) d)
      in r # (if is_network_error r then [] else answers sh ops (snd (snd (replay_one sh op no_sync d)))))"

definition run_answers :: "'w shell \<Rightarrow> 'w desktop \<Rightarrow> (js_error + json option) list" where
  "run_answers sh d = answers sh (loadPendingOps (dk_disk d))
     (d\<lparr>dk_isSyncing := True, dk_ops := setOps (loadPendingOps (dk_disk d)) (dk_ops d)\<rparr>)"

text \<open>What the queue should hold after those answers, and which operations should be reported as
  given up: an operation leaves when it was accepted, or refused for the third time.\<close>

fun left_of :: "PendingOp list \<Rightarrow> (js_error + json option) list \<Rightarrow> PendingOp list" where
  "left_of (op # ops) (r # rs) =
     (if is_network_error r then op # ops
      else if \<not> isl r then left_of ops rs
      else if op_retryCount op < 2 then op\<lparr>op_retryCount := op_retryCount op + 1\<rparr> # left_of ops rs
      else left_of ops rs)"
| "left_of ops _ = ops"

fun given_up :: "PendingOp list \<Rightarrow> (js_error + json option) list \<Rightarrow> PendingOp list" where
  "given_up (op # ops) (r # rs) =
     (if isl r \<and> \<not> is_network_error r \<and> op_retryCount op \<ge> 2 then op # given_up ops rs else given_up ops rs)"
| "given_up _ _ = []"

lemma left_of_Nil [simp]: "left_of ops [] = ops"
  by (cases ops) simp_all

lemma given_up_Nil [simp]: "given_up ops [] = []"
  by (cases ops) simp_all

text \<open>The counters of the result do not steer the loop.\<close>

lemma replay_one_counters: "fst (replay_one sh op res d) = fst (replay_one sh op res2 d)
  \<and> snd (snd (replay_one sh op res d)) = snd (snd (replay_one sh op res2 d))"
  by (simp add: replay_one_def Let_def split: prod.split sum.split option.split)

lemma left_of_keeps:
  assumes "k < length ops" and "op_id (ops ! k) \<notin> set (ids (left_of ops rs))"
  shows "k < length rs \<and> (\<not> isl (rs ! k) \<or> op_retryCount (ops ! k) \<ge> 2 \<and> \<not> is_network_error (rs ! k))"
  using assms
proof (induction ops rs arbitrary: k rule: left_of.induct)
  case (1 op ops r rs)
  then show ?case
    by (cases k) (auto simp: ids_def split: if_splits)
qed (auto simp: ids_def)

lemma sync_loop_exact:
  assumes "queue_is (kept @ ops) d" and "\<And>i. Inl (OfflineQueued i) \<notin> set (answers sh ops d)"
    and "sync_loop sh ops res d = (res', d')"
  shows "queue_is (kept @ left_of ops (answers sh ops d)) d'
    \<and> dk_discarded d' = dk_discarded d @ given_up ops (answers sh ops d)
    \<and> res' = \<lparr>sr_replayed = sr_replayed res + length (filter (\<lambda>r. \<not> isl r) (answers sh ops d)),
         sr_discarded = sr_discarded res + length (given_up ops (answers sh ops d)),
         sr_stillOffline = (sr_stillOffline res \<or> (\<exists>r\<in>set (answers sh ops d). is_network_error r))\<rparr>
    \<and> (length (answers sh ops d) = length ops \<or> (\<exists>r\<in>set (answers sh ops d). is_network_error r))"
  using assms
proof (induction ops arbitrary: kept res d)
  case Nil
  then show ?case by simp
next
  case (Cons op ops)
  obtain r d1 where call: "cl_apiFetch sh (op_path op) (replay_options op) d = (r, d1)" by fastforce
  note counters = replay_one_counters [of sh op res d no_sync]
  consider (sent) v where "r = Inr v" | (offline) err where "r = Inl err" "is_offline_error err"
    | (again) err where "r = Inl err" "\<not> is_offline_error err" "op_retryCount op + 1 < MAX_RETRIES"
    | (last) err where "r = Inl err" "\<not> is_offline_error err" "\<not> op_retryCount op + 1 < MAX_RETRIES"
    by (cases r) auto
  then show ?case
  proof cases
    case sent
    obtain d2 where one: "replay_one sh op res d = (False, res\<lparr>sr_replayed := sr_replayed res + 1\<rparr>, d2)"
      "queue_is (kept @ ops) d2" "dk_discarded d2 = dk_discarded d"
      using replay_success [OF call [unfolded sent] Cons.prems(1), of res] by blast
    have a: "answers sh (op # ops) d = Inr v # answers sh ops d2"
      using call sent counters one(1) by simp
    from Cons.IH [OF one(2), of "res\<lparr>sr_replayed := sr_replayed res + 1\<rparr>"] Cons.prems(2,3) one a
    show ?thesis by simp
  next
    case offline
    from replay_offline [OF call [unfolded offline(1)] offline(2) Cons.prems(1), of res] Cons.prems(3)
    have "res' = res\<lparr>sr_stillOffline := True\<rparr>" "queue_is (kept @ op # ops) d'" "dk_discarded d' = dk_discarded d"
      by auto
    moreover have "answers sh (op # ops) d = [r]"
      using call offline by simp
    ultimately show ?thesis using offline by simp
  next
    case again
    have nq: "err \<noteq> OfflineQueued i" for i
      using Cons.prems(2) [of i] call again by (auto simp: Let_def)
    obtain d2 where one: "replay_one sh op res d = (False, res, d2)" "queue_is ((kept @ [bump_op op]) @ ops) d2"
      "dk_discarded d2 = dk_discarded d"
      using replay_rejected [OF call [unfolded again(1)] again(2) nq Cons.prems(1), of res] again(3) by auto
    have a: "answers sh (op # ops) d = r # answers sh ops d2"
      using call again counters one(1) by simp
    from Cons.IH [OF one(2), of res] Cons.prems(2,3) one a again
    show ?thesis by (simp add: MAX_RETRIES_def bump_op_def)
  next
    case last
    have nq: "err \<noteq> OfflineQueued i" for i
      using Cons.prems(2) [of i] call last by (auto simp: Let_def)
    obtain d2 where one: "replay_one sh op res d = (False, res\<lparr>sr_discarded := sr_discarded res + 1\<rparr>, d2)"
      "queue_is (kept @ ops) d2" "dk_discarded d2 = dk_discarded d @ [op]"
      using replay_rejected [OF call [unfolded last(1)] last(2) nq Cons.prems(1), of res] last(3) by auto
    have a: "answers sh (op # ops) d = r # answers sh ops d2"
      using call last counters one(1) by simp
    from Cons.IH [OF one(2), of "res\<lparr>sr_discarded := sr_discarded res + 1\<rparr>"] Cons.prems(2,3) one a last
    show ?thesis by (simp add: MAX_RETRIES_def)
  qed
qed

text \<open>
  C9: Whatever the network and the server answer, as long as no replay is itself put back on the
  queue (which happens on a network failure with offline mode on, see
  \<open>offline_mode_sync_duplicates_queue\<close>), a run leaves on disk and in the store exactly the
  operations that must stay, in their order: an operation is gone only if its own request was
  accepted, or if it was refused now after two earlier refusals; one refused for the first or second time stays
  with its counter raised by one, one not sent stays as it was. Exactly the operations given
  up are reported, the counts are those of the answers, and every operation was tried unless a
  network error ended the run.
\<close>
theorem sync_drops_only_sent_or_given_up:
  assumes "disk_ok (dk_disk d)" and "distinct (ids (loadPendingOps (dk_disk d)))"
    and "\<not> dk_isSyncing d" and "\<forall>i. Inl (OfflineQueued i) \<notin> set (run_answers sh d)"
    and "syncPendingOps sh d = (res, d')"
  shows "loadPendingOps (dk_disk d') = left_of (loadPendingOps (dk_disk d)) (run_answers sh d)
    \<and> st_ops (dk_ops d') = loadPendingOps (dk_disk d')
    \<and> (\<forall>k<length (loadPendingOps (dk_disk d)).
         op_id (loadPendingOps (dk_disk d) ! k) \<notin> set (ids (loadPendingOps (dk_disk d'))) \<longrightarrow>
         k < length (run_answers sh d) \<and> (\<not> isl (run_answers sh d ! k)
           \<or> op_retryCount (loadPendingOps (dk_disk d) ! k) \<ge> 2 \<and> \<not> is_network_error (run_answers sh d ! k)))
    \<and> dk_discarded d' = dk_discarded d @ given_up (loadPendingOps (dk_disk d)) (run_answers sh d)
    \<and> res = \<lparr>sr_replayed = length (filter (\<lambda>r. \<not> isl r) (run_answers sh d)),
         sr_discarded = length (given_up (loadPendingOps (dk_disk d)) (run_answers sh d)),
         sr_stillOffline = (\<exists>r\<in>set (run_answers sh d). is_network_error r)\<rparr>
    \<and> (length (run_answers sh d) = length (loadPendingOps (dk_disk d)) \<or> sr_stillOffline res)
    \<and> \<not> dk_isSyncing d'"
proof -
  let ?ops = "loadPendingOps (dk_disk d)"
  let ?d1 = "d\<lparr>dk_isSyncing := True, dk_ops := setOps ?ops (dk_ops d)\<rparr>"
  obtain d2 where loop: "sync_loop sh ?ops no_sync ?d1 = (res, d2)" and d': "d' = d2\<lparr>dk_isSyncing := False\<rparr>"
    using assms(3,5) by (auto simp: syncPendingOps_def Let_def split: prod.splits)
  have "queue_is ([] @ ?ops) ?d1"
    using assms(1,2) by (simp add: queue_is_def setOps_def)
  from sync_loop_exact [OF this _ loop] assms(4)
  have *: "queue_is (left_of ?ops (run_answers sh d)) d2"
    "dk_discarded d2 = dk_discarded d @ given_up ?ops (run_answers sh d)"
    "res = \<lparr>sr_replayed = length (filter (\<lambda>r. \<not> isl r) (run_answers sh d)),
         sr_discarded = length (given_up ?ops (run_answers sh d)),
         sr_stillOffline = (\<exists>r\<in>set (run_answers sh d). is_network_error r)\<rparr>"
    "length (run_answers sh d) = length ?ops \<or> (\<exists>r\<in>set (run_answers sh d). is_network_error r)"
    by (simp_all add: run_answers_def no_sync_def)
  then have "loadPendingOps (dk_disk d') = left_of ?ops (run_answers sh d)"
    "st_ops (dk_ops d') = left_of ?ops (run_answers sh d)"
    by (simp_all add: d' queue_is_def)
  with * left_of_keeps [of _ ?ops "run_answers sh d"] show ?thesis by (simp add: d')
qed

subsection \<open>Server reachable, network down\<close>

text \<open>Two conditions on the outside: the server accepts everything, nothing gets through.\<close>

definition accepts_all :: "'w shell \<Rightarrow> transport \<Rightarrow> bool" where
  "accepts_all sh t \<longleftrightarrow> (\<forall>rq w. \<exists>res. fst (transmit sh t rq w) = Response res \<and> rs_ok res
     \<and> (rs_status res = 204 \<or> rs_json res \<noteq> None))"

definition network_down :: "'w shell \<Rightarrow> transport \<Rightarrow> bool" where
  "network_down sh t \<longleftrightarrow> (\<forall>rq w. \<exists>m. fst (transmit sh t rq w) = NetworkFailure m)"

definition replay_request :: "'w desktop \<Rightarrow> PendingOp \<Rightarrow> http_request" where
  "replay_request d op = cl_build_request (cc_baseUrl (dk_config d)) (cl_getAccessToken (dk_tokens d))
     (op_path op) (replay_options op)"

definition same_session :: "'w desktop \<Rightarrow> 'w desktop \<Rightarrow> bool" where
  "same_session d d' \<longleftrightarrow> dk_config d' = dk_config d \<and> dk_tokens d' = dk_tokens d
     \<and> td_isTauri (dk_disk d') = td_isTauri (dk_disk d)"

lemma same_session_request:
  "same_session d d' \<Longrightarrow> replay_request d' = replay_request d \<and> transport_of d' = transport_of d"
  by (simp add: same_session_def replay_request_def transport_of_def fun_eq_iff)

lemma accepted_call:
  assumes "accepts_all sh (transport_of d)" and "cc_baseUrl (dk_config d) \<noteq> []"
  shows "\<exists>v d1. cl_apiFetch sh (op_path op) (replay_options op) d = (Inr v, d1)
     \<and> dk_sent d1 = dk_sent d @ [(transport_of d, replay_request d op)] \<and> same_session d d1"
proof -
  obtain res where res: "fst (transmit sh (transport_of d) (replay_request d op) (dk_world d)) = Response res"
    "rs_ok res" "rs_status res = 204 \<or> rs_json res \<noteq> None"
    using assms(1) unfolding accepts_all_def by blast
  obtain d1 where f: "rawFetch sh (replay_request d op) d = (Response res, d1)"
    using res(1) by (cases "transmit sh (transport_of d) (replay_request d op) (dk_world d)")
      (simp add: rawFetch_def)
  obtain v where v: "read_response (Response res) = Inr v"
    using res(2,3) that by (cases "rs_status res = 204"; cases "rs_json res") (auto simp: read_response_def)
  have "cl_apiFetch sh (op_path op) (replay_options op) d = (Inr v, d1)"
    using assms(2) f v by (subst cl_apiFetch.simps) (simp add: replay_request_def Let_def)
  moreover have "dk_sent d1 = dk_sent d @ [(transport_of d, replay_request d op)]" "same_session d d1"
    using f by (auto simp: rawFetch_def same_session_def split: prod.splits)
  ultimately show ?thesis by blast
qed

lemma remove_everywhere_frame:
  "dk_sent (remove_everywhere i d) = dk_sent d" "same_session d1 (remove_everywhere i d) = same_session d1 d"
  by (simp_all add: remove_everywhere_def same_session_def removePendingOp_def)

lemma sync_loop_drains:
  assumes "accepts_all sh (transport_of d)" and "cc_baseUrl (dk_config d) \<noteq> []" and "queue_is ops d"
  shows "\<exists>d'. sync_loop sh ops res d = (res\<lparr>sr_replayed := sr_replayed res + length ops\<rparr>, d')
     \<and> queue_is [] d' \<and> dk_sent d' = dk_sent d @ map (\<lambda>op. (transport_of d, replay_request d op)) ops"
  using assms
proof (induction ops arbitrary: res d)
  case Nil
  then show ?case by simp
next
  case (Cons op ops)
  obtain v d1 where call: "cl_apiFetch sh (op_path op) (replay_options op) d = (Inr v, d1)"
    and log: "dk_sent d1 = dk_sent d @ [(transport_of d, replay_request d op)]" and ses: "same_session d d1"
    using accepted_call [OF Cons.prems(1,2)] by blast
  let ?d2 = "remove_everywhere (op_id op) d1"
  have one: "replay_one sh op res d = (False, res\<lparr>sr_replayed := sr_replayed res + 1\<rparr>, ?d2)"
    using call by (simp add: replay_one_def)
  have q: "queue_is ops ?d2"
    using replay_success [OF call, of "[]" ops res] Cons.prems(3) one by auto
  have ses2: "same_session d ?d2" and log2: "dk_sent ?d2 = dk_sent d1"
    using ses by (simp_all add: remove_everywhere_frame)
  note rq = same_session_request [OF ses2]
  have "accepts_all sh (transport_of ?d2)" "cc_baseUrl (dk_config ?d2) \<noteq> []"
    using Cons.prems(1,2) rq ses2 by (simp_all add: same_session_def)
  from Cons.IH [OF this q, of "res\<lparr>sr_replayed := sr_replayed res + 1\<rparr>"] one log log2 rq
  show ?case by auto
qed

lemma sync_drains:
  assumes "accepts_all sh (transport_of d)" and "cc_baseUrl (dk_config d) \<noteq> []"
    and "disk_ok (dk_disk d)" and "distinct (ids (loadPendingOps (dk_disk d)))" and "\<not> dk_isSyncing d"
  shows "\<exists>d'. syncPendingOps sh d = (no_sync\<lparr>sr_replayed := length (loadPendingOps (dk_disk d))\<rparr>, d')
    \<and> loadPendingOps (dk_disk d') = [] \<and> st_ops (dk_ops d') = []
    \<and> dk_sent d' = dk_sent d @ map (\<lambda>op. (transport_of d, replay_request d op)) (loadPendingOps (dk_disk d))"
proof -
  let ?ops = "loadPendingOps (dk_disk d)"
  let ?d1 = "d\<lparr>dk_isSyncing := True, dk_ops := setOps ?ops (dk_ops d)\<rparr>"
  have "queue_is ?ops ?d1" using assms(3,4) by (simp add: queue_is_def setOps_def)
  moreover have "same_session d ?d1" by (simp add: same_session_def)
  note rq = same_session_request [OF this]
  ultimately obtain d2 where "sync_loop sh ?ops no_sync ?d1 = (no_sync\<lparr>sr_replayed := length ?ops\<rparr>, d2)"
    "queue_is [] d2" "dk_sent d2 = dk_sent d @ map (\<lambda>op. (transport_of d, replay_request d op)) ?ops"
    using sync_loop_drains [of sh ?d1 ?ops no_sync] assms(1,2) by (auto simp: no_sync_def rq)
  with assms(5) show ?thesis by (simp add: syncPendingOps_def queue_is_def)
qed

text \<open>
  C29: When the server accepts everything, one run of the engine empties the queue on disk and
  in the store and sends every queued operation exactly once, in queue order, with its own
  method, path and body.
\<close>
theorem sync_drains_in_order:
  assumes "accepts_all sh (transport_of d)" and "cc_baseUrl (dk_config d) \<noteq> []"
    and "disk_ok (dk_disk d)" and "distinct (ids (loadPendingOps (dk_disk d)))" and "\<not> dk_isSyncing d"
  shows "\<exists>d'. syncPendingOps sh d = (no_sync\<lparr>sr_replayed := length (loadPendingOps (dk_disk d))\<rparr>, d')
    \<and> loadPendingOps (dk_disk d') = [] \<and> st_ops (dk_ops d') = []
    \<and> dk_sent d' = dk_sent d @ map (\<lambda>op. (transport_of d, replay_request d op)) (loadPendingOps (dk_disk d))"
  by (rule sync_drains [OF assms])

text \<open>A call over a dead network.\<close>

lemma dead_call:
  assumes "network_down sh (transport_of d)" and "cc_baseUrl (dk_config d) \<noteq> []"
  obtains m d1 where "rawFetch sh (replay_request d op) d = (NetworkFailure m, d1)"
    "same_queue d d1" "cl_apiFetch sh (op_path op) (replay_options op) d =
       (if queues_offline (replay_options op) d
        then (let (op', d2) = enqueue_offline sh (op_method op) (op_path op) (op_body op) d1
              in (Inl (OfflineQueued (op_id op')), d2))
        else (Inl (ApiErr (network_error m)), d1))"
proof -
  obtain m where "fst (transmit sh (transport_of d) (replay_request d op) (dk_world d)) = NetworkFailure m"
    using assms(1) unfolding network_down_def by blast
  then obtain d1 where f: "rawFetch sh (replay_request d op) d = (NetworkFailure m, d1)"
    by (cases "transmit sh (transport_of d) (replay_request d op) (dk_world d)") (simp add: rawFetch_def)
  from cl_apiFetch_network_failure [OF assms(2) f [unfolded replay_request_def]]
    same_queue_rawFetch [OF f] f that show ?thesis
    by (simp add: replay_options_def)
qed

text \<open>
  With offline mode off and the network down, the engine stops at the first operation,
  reports \<open>stillOffline\<close> and leaves the queue as it was.
\<close>
theorem sync_stops_when_offline:
  assumes "network_down sh (transport_of d)" and "cc_baseUrl (dk_config d) \<noteq> []"
    and "\<not> cc_offlineModeEnabled (dk_config d)" and "\<not> dk_isSyncing d"
    and "loadPendingOps (dk_disk d) = op # ops" and "syncPendingOps sh d = (res, d')"
  shows "res = no_sync\<lparr>sr_stillOffline := True\<rparr> \<and> dk_disk d' = dk_disk d
    \<and> st_ops (dk_ops d') = op # ops \<and> dk_discarded d' = dk_discarded d"
proof -
  let ?d1 = "d\<lparr>dk_isSyncing := True, dk_ops := setOps (op # ops) (dk_ops d)\<rparr>"
  have t: "transport_of ?d1 = transport_of d" by (simp add: transport_of_def)
  have pre: "network_down sh (transport_of ?d1)" "cc_baseUrl (dk_config ?d1) \<noteq> []"
    using assms(1,2) t by simp_all
  obtain m d2 where "rawFetch sh (replay_request ?d1 op) ?d1 = (NetworkFailure m, d2)" "same_queue ?d1 d2"
    and call: "cl_apiFetch sh (op_path op) (replay_options op) ?d1 =
       (if queues_offline (replay_options op) ?d1
        then (let (op', d2) = enqueue_offline sh (op_method op) (op_path op) (op_body op) d2
              in (Inl (OfflineQueued (op_id op')), d2))
        else (Inl (ApiErr (network_error m)), d2))"
    by (rule dead_call [OF pre])
  from call have "cl_apiFetch sh (op_path op) (replay_options op) ?d1 = (Inl (ApiErr (network_error m)), d2)"
    using assms(3) by (simp add: queues_offline_def)
  then have "replay_one sh op no_sync ?d1 = (True, no_sync\<lparr>sr_stillOffline := True\<rparr>, d2)"
    by (simp add: replay_one_def network_error_def)
  with assms(4-6) \<open>same_queue ?d1 d2\<close> show ?thesis
    by (auto simp: syncPendingOps_def same_queue_def setOps_def)
qed

text \<open>With offline mode on, the wrapper queues the replayed request again.\<close>

lemma findIndex_append:
  "findIndex P (xs @ ys) = (case findIndex P xs of Some k \<Rightarrow> Some k | None \<Rightarrow> map_option ((+) (length xs)) (findIndex P ys))"
  by (induction xs; cases "findIndex P ys") (auto split: option.splits)

lemma increment_first:
  assumes "loadPendingOps d = pre @ op # post" and "op_id op \<notin> set (ids pre)"
  shows "incrementRetryCount (op_id op) d = (Some (bump_op op), savePendingOps (pre @ bump_op op # post) d)"
proof -
  have "findIndex (\<lambda>op'. op_id op' = op_id op) pre = None"
    using assms(2) by (auto simp: findIndex_None ids_def) (metis image_eqI)
  then show ?thesis
    using assms(1) by (simp add: incrementRetryCount_def Let_def findIndex_append)
qed

definition op_request :: "PendingOp \<Rightarrow> http_method \<times> string \<times> json option" where
  "op_request op = (op_method op, op_path op, op_body op)"

lemma offline_replay_requeues:
  assumes "network_down sh (transport_of d)" and "cc_baseUrl (dk_config d) \<noteq> []"
    and "cc_offlineModeEnabled (dk_config d)" and "disk_ok (dk_disk d)" and "op_method op \<noteq> GET"
    and "op_retryCount op + 1 < MAX_RETRIES"
    and "loadPendingOps (dk_disk d) = pre @ op # post" and "op_id op \<notin> set (ids pre)"
  shows "\<exists>dup d'. replay_one sh op res d = (False, res, d') \<and> op_request dup = op_request op
     \<and> loadPendingOps (dk_disk d') = pre @ bump_op op # post @ [dup] \<and> disk_ok (dk_disk d')
     \<and> dk_config d' = dk_config d \<and> transport_of d' = transport_of d"
proof -
  obtain m d1 where "rawFetch sh (replay_request d op) d = (NetworkFailure m, d1)" and q: "same_queue d d1"
    and call: "cl_apiFetch sh (op_path op) (replay_options op) d =
       (if queues_offline (replay_options op) d
        then (let (op', d2) = enqueue_offline sh (op_method op) (op_path op) (op_body op) d1
              in (Inl (OfflineQueued (op_id op')), d2))
        else (Inl (ApiErr (network_error m)), d1))"
    by (rule dead_call [OF assms(1,2)])
  obtain dup d2 where e: "enqueue_offline sh (op_method op) (op_path op) (op_body op) d1 = (dup, d2)" by fastforce
  note fr = enqueue_frame [OF e]
  have "queues_offline (replay_options op) d"
    using assms(3,5) by (cases "op_method op") (auto simp: queues_offline_def replay_options_def
        no_options_def is_mutation_def)
  with call e have c: "cl_apiFetch sh (op_path op) (replay_options op) d = (Inl (OfflineQueued (op_id dup)), d2)"
    by simp
  have ok: "disk_ok (dk_disk d2)" and ld: "loadPendingOps (dk_disk d2) = pre @ op # (post @ [dup])"
    using fr(6) q assms(4,7) by (simp_all add: same_queue_def disk_q.ops_add disk_q.ok_add)
  note inc = increment_first [OF ld assms(8)]
  let ?d' = "d2\<lparr>dk_disk := savePendingOps (pre @ bump_op op # post @ [dup]) (dk_disk d2),
     dk_ops := updateOp (bump_op op) (dk_ops d2)\<rparr>"
  have "replay_one sh op res d = (False, res, ?d')"
    using c inc assms(6) by (simp add: replay_one_def Let_def bump_op_def)
  moreover have "dk_config ?d' = dk_config d" "transport_of ?d' = transport_of d"
    using fr(1,5) q by (simp_all add: same_queue_def transport_of_def)
  moreover have "op_request dup = op_request op"
    using fr(8-10) by (simp add: op_request_def)
  ultimately show ?thesis using ok by fastforce
qed

lemma offline_loop_requeues:
  assumes "network_down sh (transport_of d)" and "cc_baseUrl (dk_config d) \<noteq> []"
    and "cc_offlineModeEnabled (dk_config d)" and "disk_ok (dk_disk d)"
    and "\<forall>op\<in>set ops. op_method op \<noteq> GET \<and> op_retryCount op + 1 < MAX_RETRIES"
    and "loadPendingOps (dk_disk d) = kept @ ops @ dups" and "distinct (ids (kept @ ops))"
  shows "\<exists>dups' d'. sync_loop sh ops res d = (res, d')
     \<and> loadPendingOps (dk_disk d') = kept @ map bump_op ops @ dups @ dups'
     \<and> map op_request dups' = map op_request ops"
  using assms
proof (induction ops arbitrary: kept dups d)
  case Nil
  then show ?case by simp
next
  case (Cons op ops)
  have *: "op_method op \<noteq> GET" "op_retryCount op + 1 < MAX_RETRIES"
    "loadPendingOps (dk_disk d) = kept @ op # (ops @ dups)" "op_id op \<notin> set (ids kept)"
    using Cons.prems by simp_all
  from offline_replay_requeues [OF Cons.prems(1-4) *, of res] obtain dup d1 where
    one: "replay_one sh op res d = (False, res, d1)" "op_request dup = op_request op"
    "loadPendingOps (dk_disk d1) = (kept @ [bump_op op]) @ ops @ (dups @ [dup])" "disk_ok (dk_disk d1)"
    "dk_config d1 = dk_config d" "transport_of d1 = transport_of d" by auto
  have "distinct (ids ((kept @ [bump_op op]) @ ops))"
    using Cons.prems(7) by (simp add: bump_op_def)
  from Cons.IH [OF _ _ _ one(4) _ one(3) this] Cons.prems(1-3,5) one(1,2,5,6) obtain dups' d' where
    "sync_loop sh ops res d1 = (res, d')"
    "loadPendingOps (dk_disk d') = kept @ bump_op op # map bump_op ops @ dups @ dup # dups'"
    "map op_request dups' = map op_request ops" by auto
  with one(1,2) show ?case by (intro exI [where x = "dup # dups'"] exI [where x = d']) simp
qed

text \<open>
  With offline mode on, which is when the engine runs, a dead network is not noticed: the
  run goes through the whole queue, counts an attempt for every operation, appends a second
  copy of each, and reports neither \<open>stillOffline\<close> nor any replay. So three runs while offline
  discard operations no server ever refused.
\<close>
theorem offline_mode_sync_duplicates_queue:
  assumes "network_down sh (transport_of d)" and "cc_baseUrl (dk_config d) \<noteq> []"
    and "cc_offlineModeEnabled (dk_config d)" and "disk_ok (dk_disk d)" and "\<not> dk_isSyncing d"
    and "distinct (ids (loadPendingOps (dk_disk d)))"
    and "\<forall>op\<in>set (loadPendingOps (dk_disk d)). op_method op \<noteq> GET \<and> op_retryCount op + 1 < MAX_RETRIES"
    and "syncPendingOps sh d = (res, d')"
  shows "res = no_sync \<and> (\<exists>copies. map op_request copies = map op_request (loadPendingOps (dk_disk d))
    \<and> loadPendingOps (dk_disk d') = map bump_op (loadPendingOps (dk_disk d)) @ copies)"
proof -
  let ?ops = "loadPendingOps (dk_disk d)"
  let ?d1 = "d\<lparr>dk_isSyncing := True, dk_ops := setOps ?ops (dk_ops d)\<rparr>"
  have "transport_of ?d1 = transport_of d" by (simp add: transport_of_def)
  with offline_loop_requeues [of sh ?d1 ?ops "[]" "[]" no_sync] assms(1-4,6,7) obtain copies d2 where
    "sync_loop sh ?ops no_sync ?d1 = (no_sync, d2)"
    "loadPendingOps (dk_disk d2) = map bump_op ?ops @ copies"
    "map op_request copies = map op_request ?ops" by auto
  with assms(5,8) show ?thesis by (auto simp: syncPendingOps_def)
qed

text \<open>
  An operation the server keeps refusing is discarded at its third attempt, and the event
  that reports it carries the entry as it was loaded, so the toast names one attempt fewer
  than were made.
\<close>
theorem discarded_event_is_stale:
  assumes "cl_apiFetch sh (op_path op) (replay_options op) d = (Inl (ApiErr e), d1)" and "status e \<noteq> 0"
    and "queue_is (kept @ op # rest) d" and "op_retryCount op = 2"
  shows "\<exists>d'. replay_one sh op res d = (False, res\<lparr>sr_discarded := sr_discarded res + 1\<rparr>, d')
    \<and> loadPendingOps (dk_disk d') = kept @ rest \<and> dk_discarded d' = dk_discarded d @ [op]
    \<and> discarded_toast (last (dk_discarded d')) = DiscardedToast (op_method op) (op_path op) 2"
proof -
  have n: "\<not> is_offline_error (ApiErr e)" "\<And>i. ApiErr e \<noteq> OfflineQueued i" using assms(2) by simp_all
  from replay_rejected [OF assms(1) n assms(3), of res] assms(4) show ?thesis
    by (auto simp: MAX_RETRIES_def queue_is_def discarded_toast_def)
qed

subsection \<open>Concrete runs\<close>

definition fixed_shell :: "fetch_result \<Rightarrow> demo_world shell" where
  "fixed_shell r = demo_shell\<lparr>sh_fetch := (\<lambda>rq w. (r, w))\<rparr>"

definition no_content :: http_response where
  "no_content = \<lparr>rs_status = 204, rs_json = None\<rparr>"

definition refusal :: http_response where
  "refusal = \<lparr>rs_status = 409, rs_json = Some (JObj [(''code'', JStr ''conflict''), (''message'', JStr ''stale'')])\<rparr>"

definition queued_desktop :: "bool \<Rightarrow> PendingOp list \<Rightarrow> demo_world desktop" where
  "queued_desktop offl ops = (demo_desktop offl [])\<lparr>dk_disk := savePendingOps ops demo_disk,
     dk_ops := setOps ops empty_ops_store\<rparr>"

lemma queued_desktop_simps [simp]:
  "loadPendingOps (dk_disk (queued_desktop offl ops)) = ops" "disk_ok (dk_disk (queued_desktop offl ops))"
  "cc_baseUrl (dk_config (queued_desktop offl ops)) = ''https://h''"
  "cc_offlineModeEnabled (dk_config (queued_desktop offl ops)) = offl"
  "\<not> dk_isSyncing (queued_desktop offl ops)" "dk_discarded (queued_desktop offl ops) = []"
  "dk_sent (queued_desktop offl ops) = []" "st_ops (dk_ops (queued_desktop offl ops)) = ops"
  "transport_of (queued_desktop offl ops) = BrowserFetch"
  by (simp_all add: queued_desktop_def setOps_def)
    (simp_all add: demo_desktop_def transport_of_def choose_transport_def config_defs initial_config_def)

lemma fixed_shell_transmit [simp]: "transmit (fixed_shell r) BrowserFetch rq w = (r, w)"
  by (simp add: transmit_def fixed_shell_def)

lemma demo_op_simps [simp]:
  "op_id (demo_op n) = show_nat n @ ''-abc123''" "op_method (demo_op n) = POST" "op_retryCount (demo_op n) = 0"
  by (simp_all add: demo_op_def new_pending_op_def show_int_def)

definition demo_queue :: "PendingOp list" where
  "demo_queue = [demo_op 1, demo_op 2]"

lemma demo_queue_distinct [simp]: "distinct (ids demo_queue)"
  by (simp add: demo_queue_def)

lemma sync_drops_only_sent_or_given_up_witness:
  "loadPendingOps (dk_disk (snd (syncPendingOps (fixed_shell (Response refusal))
     (queued_desktop True [(demo_op 1)\<lparr>op_retryCount := 1\<rparr>])))) = [(demo_op 1)\<lparr>op_retryCount := 2\<rparr>]"
proof -
  let ?sh = "fixed_shell (Response refusal)"
  let ?op = "(demo_op 1)\<lparr>op_retryCount := 1\<rparr>"
  let ?d = "queued_desktop True [?op]"
  obtain res d' where e: "syncPendingOps ?sh ?d = (res, d')" by fastforce
  have "fst (cl_apiFetch ?sh p (replay_options op) d) = Inl (ApiErr (parseError refusal))"
    if "transport_of d = BrowserFetch" "cc_baseUrl (dk_config d) \<noteq> []" for p op and d :: "demo_world desktop"
    using that by (subst cl_apiFetch.simps)
      (simp add: rawFetch_def Let_def read_response_def rs_ok_def refusal_def split: prod.split)
  moreover have "transport_of (?d\<lparr>dk_isSyncing := True, dk_ops := x\<rparr>) = BrowserFetch" for x
    using queued_desktop_simps(9) by (simp add: transport_of_def)
  ultimately have "run_answers ?sh ?d = [Inl (ApiErr (parseError refusal))]"
    by (simp add: run_answers_def Let_def)
  with sync_drops_only_sent_or_given_up [of ?d ?sh, OF _ _ _ _ e] e show ?thesis
    by (simp add: refusal_def)
qed

lemma sync_drains_in_order_witness:
  "loadPendingOps (dk_disk (snd (syncPendingOps (fixed_shell (Response no_content)) (queued_desktop True demo_queue)))) = []"
proof -
  have "accepts_all (fixed_shell (Response no_content)) BrowserFetch"
    by (simp add: accepts_all_def no_content_def rs_ok_def)
  then show ?thesis
    using sync_drains_in_order [of "fixed_shell (Response no_content)" "queued_desktop True demo_queue"] by auto
qed

lemma dead_network: "network_down (fixed_shell (NetworkFailure m)) BrowserFetch"
  by (simp add: network_down_def)

lemma sync_stops_when_offline_witness:
  "fst (syncPendingOps (fixed_shell (NetworkFailure ''offline'')) (queued_desktop False demo_queue))
     = no_sync\<lparr>sr_stillOffline := True\<rparr>"
proof -
  obtain res d' where e: "syncPendingOps (fixed_shell (NetworkFailure ''offline'')) (queued_desktop False demo_queue) = (res, d')"
    by fastforce
  have "res = no_sync\<lparr>sr_stillOffline := True\<rparr>"
    using sync_stops_when_offline [of "fixed_shell (NetworkFailure ''offline'')" "queued_desktop False demo_queue"
      "demo_op 1" "[demo_op 2]" res d'] e dead_network by (simp add: demo_queue_def)
  with e show ?thesis by simp
qed

lemma offline_mode_sync_duplicates_queue_witness:
  "length (loadPendingOps (dk_disk (snd (syncPendingOps (fixed_shell (NetworkFailure ''offline''))
      (queued_desktop True demo_queue))))) = 4"
proof -
  obtain res d' where e: "syncPendingOps (fixed_shell (NetworkFailure ''offline'')) (queued_desktop True demo_queue) = (res, d')"
    by fastforce
  have r: "\<forall>op\<in>set demo_queue. op_method op \<noteq> GET \<and> op_retryCount op + 1 < MAX_RETRIES"
    by (simp add: demo_queue_def MAX_RETRIES_def)
  obtain copies where "map op_request copies = map op_request demo_queue"
    "loadPendingOps (dk_disk d') = map bump_op demo_queue @ copies"
    using offline_mode_sync_duplicates_queue [OF _ _ _ _ _ _ _ e] dead_network r by auto
  moreover from this(1) have "length copies = length demo_queue" by (metis length_map)
  ultimately show ?thesis using e by (simp add: demo_queue_def)
qed

lemma discarded_event_is_stale_witness:
  "\<exists>d'. replay_one (fixed_shell (Response refusal)) ((demo_op 1)\<lparr>op_retryCount := 2\<rparr>) no_sync
      (queued_desktop True [(demo_op 1)\<lparr>op_retryCount := 2\<rparr>]) = (False, no_sync\<lparr>sr_discarded := 1\<rparr>, d')
     \<and> loadPendingOps (dk_disk d') = []"
proof -
  let ?op = "(demo_op 1)\<lparr>op_retryCount := 2\<rparr>"
  let ?d = "queued_desktop True [?op]"
  let ?sh = "fixed_shell (Response refusal)"
  obtain d1 where f: "rawFetch ?sh (cl_build_request (cc_baseUrl (dk_config ?d)) (cl_getAccessToken (dk_tokens ?d))
      (op_path ?op) (replay_options ?op)) ?d = (Response refusal, d1)"
    by (simp add: rawFetch_def)
  have "cl_apiFetch ?sh (op_path ?op) (replay_options ?op) ?d = (Inl (ApiErr (parseError refusal)), d1)"
    using f by (subst cl_apiFetch.simps)
      (simp add: Let_def read_response_def rs_ok_def refusal_def)
  from discarded_event_is_stale [OF this, of "[]" "[]" no_sync] show ?thesis
    by (auto simp: refusal_def queue_is_def no_sync_def)
qed

end
