(* ===== verification/Connection.thy ===== *)
theory Connection
  imports DesktopClient
begin

text \<open>
  The desktop's connection settings (\<open>client/src/store/connection.ts\<close>): a persisted store whose
  actions also set the module variables of the fetch wrapper, and the rehydration that restores
  those variables after a restart.
\<close>

record ConnectionState =
  serverUrl :: string
  tlsSkipVerify :: bool
  clientCertP12Base64 :: string
  clientCertPassword :: string
  offlineModeEnabled :: bool
  contentProtectionEnabled :: bool

definition initial_connection :: ConnectionState where
  "initial_connection = \<lparr>serverUrl = '''', tlsSkipVerify = False, clientCertP12Base64 = '''',
     clientCertPassword = '''', offlineModeEnabled = False, contentProtectionEnabled = True\<rparr>"

text \<open>Everything an action touches: the store, the wrapper's variables, the copy \<open>persist\<close> keeps
  in \<open>localStorage\<close> (written after every \<open>set\<close>, all six fields), and whether the shell hides the
  window from screen capture.\<close>

record connection_world =
  cw_store :: ConnectionState
  cw_config :: client_config
  cw_saved :: "ConnectionState option"
  cw_hidden :: bool

definition persist_set :: "ConnectionState \<Rightarrow> connection_world \<Rightarrow> connection_world" where
  "persist_set s w = w\<lparr>cw_store := s, cw_saved := Some s\<rparr>"

definition native_content_protection :: "bool \<Rightarrow> bool \<Rightarrow> connection_world \<Rightarrow> connection_world" where
  "native_content_protection isTauri b w = (if \<not> isTauri then w else w\<lparr>cw_hidden := b\<rparr>)"

definition cn_setConnection :: "string \<Rightarrow> bool \<Rightarrow> connection_world \<Rightarrow> connection_world" where
  "cn_setConnection server skip w =
     (let url = strip_trailing_slash server;
          w1 = w\<lparr>cw_config := setTlsSkipVerify skip (setBaseUrl url (cw_config w))\<rparr>
      in persist_set ((cw_store w1)\<lparr>serverUrl := url, tlsSkipVerify := skip\<rparr>) w1)"

definition cn_setClientCert :: "string \<Rightarrow> string \<Rightarrow> connection_world \<Rightarrow> connection_world" where
  "cn_setClientCert p12 password w =
     (let w1 = w\<lparr>cw_config := setClientCert p12 password (cw_config w)\<rparr>
      in persist_set ((cw_store w1)\<lparr>clientCertP12Base64 := p12, clientCertPassword := password\<rparr>) w1)"

definition cn_clearClientCert :: "connection_world \<Rightarrow> connection_world" where
  "cn_clearClientCert w =
     (let w1 = w\<lparr>cw_config := setClientCert '''' '''' (cw_config w)\<rparr>
      in persist_set ((cw_store w1)\<lparr>clientCertP12Base64 := '''', clientCertPassword := ''''\<rparr>) w1)"

definition cn_setOfflineMode :: "bool \<Rightarrow> connection_world \<Rightarrow> connection_world" where
  "cn_setOfflineMode b w =
     (let w1 = w\<lparr>cw_config := setOfflineModeEnabled b (cw_config w)\<rparr>
      in persist_set ((cw_store w1)\<lparr>offlineModeEnabled := b\<rparr>) w1)"

definition cn_setContentProtection :: "bool \<Rightarrow> bool \<Rightarrow> connection_world \<Rightarrow> connection_world" where
  "cn_setContentProtection isTauri b w =
     (let w1 = native_content_protection isTauri b w
      in persist_set ((cw_store w1)\<lparr>contentProtectionEnabled := b\<rparr>) w1)"

definition cn_clearConnection :: "connection_world \<Rightarrow> connection_world" where
  "cn_clearConnection w =
     (let w1 = w\<lparr>cw_config := setOfflineModeEnabled False (setClientCert '''' ''''
            (setTlsSkipVerify False (setBaseUrl '''' (cw_config w))))\<rparr>
      in persist_set ((cw_store w1)\<lparr>serverUrl := '''', tlsSkipVerify := False, clientCertP12Base64 := '''',
            clientCertPassword := '''', offlineModeEnabled := False\<rparr>) w1)"

text \<open>\<open>onRehydrateStorage\<close>: only truthy values reach the module, and the shell is told only of an
  explicit \<open>false\<close>.\<close>

definition onRehydrateStorage :: "bool \<Rightarrow> ConnectionState \<Rightarrow> connection_world \<Rightarrow> connection_world" where
  "onRehydrateStorage isTauri s w =
     (let c0 = cw_config w;
          c1 = (if serverUrl s \<noteq> '''' then setBaseUrl (serverUrl s) c0 else c0);
          c2 = (if tlsSkipVerify s then setTlsSkipVerify (tlsSkipVerify s) c1 else c1);
          c3 = (if clientCertP12Base64 s \<noteq> ''''
                then setClientCert (clientCertP12Base64 s) (clientCertPassword s) c2 else c2);
          c4 = (if offlineModeEnabled s then setOfflineModeEnabled (offlineModeEnabled s) c3 else c3);
          w1 = w\<lparr>cw_config := c4\<rparr>
      in if contentProtectionEnabled s = False then native_content_protection isTauri False w1 else w1)"

definition fresh_connection :: connection_world where
  "fresh_connection = \<lparr>cw_store = initial_connection, cw_config = initial_config, cw_saved = None,
     cw_hidden = True\<rparr>"

text \<open>A restart of the application: module variables and store start fresh, the window hidden, and
  the saved copy is merged in and rehydrated.\<close>

definition restart_connection :: "bool \<Rightarrow> connection_world \<Rightarrow> connection_world" where
  "restart_connection isTauri w =
     (let s = nullish (cw_saved w) initial_connection
      in onRehydrateStorage isTauri s (fresh_connection\<lparr>cw_store := s, cw_saved := cw_saved w\<rparr>))"

lemmas connection_defs = cn_setConnection_def cn_setClientCert_def cn_clearClientCert_def
  cn_setOfflineMode_def cn_setContentProtection_def cn_clearConnection_def persist_set_def
  native_content_protection_def

subsection \<open>Runs of actions\<close>

datatype connection_action =
    SetConnection string bool
  | SetClientCert string string
  | ClearClientCert
  | SetOfflineMode bool
  | SetContentProtection bool
  | ClearConnection
  | Restart

fun connection_step :: "bool \<Rightarrow> connection_world \<Rightarrow> connection_action \<Rightarrow> connection_world" where
  "connection_step t w (SetConnection url skip) = cn_setConnection url skip w"
| "connection_step t w (SetClientCert p12 pw) = cn_setClientCert p12 pw w"
| "connection_step t w ClearClientCert = cn_clearClientCert w"
| "connection_step t w (SetOfflineMode b) = cn_setOfflineMode b w"
| "connection_step t w (SetContentProtection b) = cn_setContentProtection t b w"
| "connection_step t w ClearConnection = cn_clearConnection w"
| "connection_step t w Restart = restart_connection t w"

text \<open>The store, the saved copy, the module variables and the window agree; a password without a
  certificate may be forgotten by a restart.\<close>

definition in_step :: "bool \<Rightarrow> connection_world \<Rightarrow> bool" where
  "in_step t w \<longleftrightarrow> (let s = cw_store w; c = cw_config w in
     nullish (cw_saved w) initial_connection = s
     \<and> cc_baseUrl c = strip_trailing_slash (serverUrl s)
     \<and> cc_tlsSkipVerify c = tlsSkipVerify s
     \<and> cc_clientCertP12Base64 c = clientCertP12Base64 s
     \<and> (clientCertP12Base64 s \<noteq> '''' \<longrightarrow> cc_clientCertPassword c = clientCertPassword s)
     \<and> cc_offlineModeEnabled c = offlineModeEnabled s
     \<and> (t \<longrightarrow> cw_hidden w = contentProtectionEnabled s))"

lemma strip_empty [simp]: "strip_trailing_slash [] = []"
  by (simp add: strip_trailing_slash_def)

lemma fresh_in_step: "in_step t fresh_connection"
  by (simp add: in_step_def fresh_connection_def initial_connection_def initial_config_def)

lemma restart_in_step: "in_step t (restart_connection t w)"
  by (simp add: in_step_def restart_connection_def onRehydrateStorage_def fresh_connection_def
      config_defs initial_config_def initial_connection_def native_content_protection_def Let_def)

lemma connection_step_in_step: "in_step t w \<Longrightarrow> in_step t (connection_step t w a)"
proof (cases a)
  case Restart
  then show ?thesis by (simp add: restart_in_step)
qed (simp_all add: in_step_def connection_defs config_defs Let_def)

interpretation connection: machine "\<lambda>_ _. True" "connection_step t" "in_step t" for t
  by unfold_locales (rule connection_step_in_step)

lemma any_run_possible: "possible_run (\<lambda>_ _. True) f s es"
  by (induction es arbitrary: s) simp_all

text \<open>
  After any sequence of settings changes and restarts, restarting the application restores
  the same store, server address, certificate check, client certificate with its password,
  offline mode and screen protection: later requests use the same address and transport.
\<close>
theorem restart_restores_connection:
  assumes "w = foldl (connection_step t) fresh_connection actions"
  shows "cw_store (restart_connection t w) = cw_store w
    \<and> cc_baseUrl (cw_config (restart_connection t w)) = cc_baseUrl (cw_config w)
    \<and> cc_tlsSkipVerify (cw_config (restart_connection t w)) = cc_tlsSkipVerify (cw_config w)
    \<and> cc_clientCertP12Base64 (cw_config (restart_connection t w)) = cc_clientCertP12Base64 (cw_config w)
    \<and> (hasClientCert (cw_config w) \<longrightarrow>
         cc_clientCertPassword (cw_config (restart_connection t w)) = cc_clientCertPassword (cw_config w))
    \<and> cc_offlineModeEnabled (cw_config (restart_connection t w)) = cc_offlineModeEnabled (cw_config w)
    \<and> (t \<longrightarrow> cw_hidden (restart_connection t w) = cw_hidden w)"
proof -
  have a: "in_step t w"
    using connection.run_keeps [OF fresh_in_step any_run_possible] assms by simp
  have b: "in_step t (restart_connection t w)" by (rule restart_in_step)
  have c: "cw_store (restart_connection t w) = cw_store w"
    using a by (simp add: in_step_def restart_connection_def onRehydrateStorage_def
        native_content_protection_def Let_def)
  from a b c show ?thesis by (simp add: in_step_def hasClientCert_def Let_def)
qed

lemma restart_restores_connection_witness:
  "cc_baseUrl (cw_config (restart_connection True (foldl (connection_step True) fresh_connection
     [SetConnection ''https://h/'' True, SetOfflineMode True, SetContentProtection False]))) = ''https://h''"
proof -
  have "cc_baseUrl (cw_config (foldl (connection_step True) fresh_connection
     [SetConnection ''https://h/'' True, SetOfflineMode True, SetContentProtection False])) = ''https://h''"
    by (simp add: connection_defs config_defs strip_trailing_slash_def Let_def fresh_connection_def)
  with restart_restores_connection [OF refl, of True
      "[SetConnection ''https://h/'' True, SetOfflineMode True, SetContentProtection False]"]
  show ?thesis by presburger
qed

end
