(* ===== verification/OfflineCache.thy ===== *)
theory OfflineCache
  imports Prelude
begin

text \<open>
  The snapshot of the query cache the desktop keeps on disk (\<open>client/src/lib/offline-cache.ts\<close>):
  what is saved, what a start restores, the debounced save and the clearing at logout
  (\<open>OfflineCacheManager\<close> in \<open>client/src/App.tsx\<close>).

  The query client is a third-party library: it is a parameter, with the operations the module
  calls. What the module relies on is stated in \<open>query_client_laws\<close>.
\<close>

subsection \<open>Data\<close>

datatype query_status = QPending | QError | QSuccess

record live_query =
  lq_key :: "json list"
  lq_status :: query_status
  lq_data :: "json option"
  lq_updatedAt :: int

record CachedQuery =
  cq_queryKey :: "json list"
  cq_data :: json
  cq_dataUpdatedAt :: int

record CacheFile =
  cf_version :: int
  cf_savedAt :: int
  cf_queries :: "CachedQuery list"

datatype cache_slot = CacheSlot CacheFile | BadCache

definition MAX_CACHE_AGE_MS :: int where
  "MAX_CACHE_AGE_MS = 7 * 24 * 60 * 60000"

text \<open>\<open>getQueryCache().getAll()\<close>, \<open>getQueryState(key)?.dataUpdatedAt\<close>, the data under a key, and
  \<open>setQueryData(key, data, { updatedAt })\<close>.\<close>

record 'q query_client =
  qc_getAll :: "'q \<Rightarrow> live_query list"
  qc_updatedAt :: "'q \<Rightarrow> json list \<Rightarrow> int option"
  qc_data :: "'q \<Rightarrow> json list \<Rightarrow> json option"
  qc_setData :: "json list \<Rightarrow> json \<Rightarrow> int \<Rightarrow> 'q \<Rightarrow> 'q"

definition query_client_laws :: "'q query_client \<Rightarrow> bool" where
  "query_client_laws qc \<longleftrightarrow> (\<forall>q k v t k'.
     qc_updatedAt qc (qc_setData qc k v t q) k' = (if k' = k then Some t else qc_updatedAt qc q k')
     \<and> qc_data qc (qc_setData qc k v t q) k' = (if k' = k then Some v else qc_data qc q k'))"

subsection \<open>Serialization\<close>

definition serializeCache :: "'q query_client \<Rightarrow> int \<Rightarrow> 'q \<Rightarrow> CacheFile" where
  "serializeCache qc now q =
     \<lparr>cf_version = 1, cf_savedAt = now,
      cf_queries = List.map_filter (\<lambda>x.
        if lq_status x \<noteq> QSuccess then None
        else (case lq_data x of
            None \<Rightarrow> None
          | Some v \<Rightarrow> Some \<lparr>cq_queryKey = lq_key x, cq_data = v, cq_dataUpdatedAt = lq_updatedAt x\<rparr>))
        (qc_getAll qc q)\<rparr>"

text \<open>One entry: too old, or not newer than the live data (a \<open>dataUpdatedAt\<close> of 0 is no data).\<close>

definition hydrate_entry :: "'q query_client \<Rightarrow> int \<Rightarrow> CachedQuery \<Rightarrow> nat \<times> 'q \<Rightarrow> nat \<times> 'q" where
  "hydrate_entry qc now e st =
     (case st of (restored, q) \<Rightarrow>
        if now - cq_dataUpdatedAt e > MAX_CACHE_AGE_MS then (restored, q)
        else if (case qc_updatedAt qc q (cq_queryKey e) of
             None \<Rightarrow> False
           | Some t \<Rightarrow> t \<noteq> 0 \<and> t \<ge> cq_dataUpdatedAt e) then (restored, q)
        else (restored + 1, qc_setData qc (cq_queryKey e) (cq_data e) (cq_dataUpdatedAt e) q))"

definition hydrateCache :: "'q query_client \<Rightarrow> int \<Rightarrow> CacheFile \<Rightarrow> 'q \<Rightarrow> nat \<times> 'q" where
  "hydrateCache qc now file q = fold (hydrate_entry qc now) (cf_queries file) (0, q)"

subsection \<open>Disk\<close>

record 'q cache_env =
  ce_isTauri :: bool
  ce_io_ok :: bool
  ce_slot :: "cache_slot option"
  ce_saveTimer :: bool
  ce_client :: 'q
  ce_now :: int

definition loadCacheFromDisk :: "'q query_client \<Rightarrow> 'q cache_env \<Rightarrow> 'q cache_env" where
  "loadCacheFromDisk qc e =
     (if \<not> ce_isTauri e \<or> \<not> ce_io_ok e then e
      else case ce_slot e of
          None \<Rightarrow> e
        | Some BadCache \<Rightarrow> e
        | Some (CacheSlot file) \<Rightarrow>
            if cf_version file \<noteq> 1 then e
            else if ce_now e - cf_savedAt file > MAX_CACHE_AGE_MS then e
            else e\<lparr>ce_client := snd (hydrateCache qc (ce_now e) file (ce_client e))\<rparr>)"

definition scheduleSaveCache :: "'q cache_env \<Rightarrow> 'q cache_env" where
  "scheduleSaveCache e = (if \<not> ce_isTauri e then e else e\<lparr>ce_saveTimer := True\<rparr>)"

definition saveNow :: "'q query_client \<Rightarrow> 'q cache_env \<Rightarrow> 'q cache_env" where
  "saveNow qc e =
     (if ce_io_ok e then e\<lparr>ce_slot := Some (CacheSlot (serializeCache qc (ce_now e) (ce_client e)))\<rparr> else e)"

text \<open>Clearing cancels an armed save first, so it cannot write the old snapshot back.\<close>

definition clearDiskCache :: "'q cache_env \<Rightarrow> 'q cache_env" where
  "clearDiskCache e =
     (if \<not> ce_isTauri e then e
      else
        (let e1 = e\<lparr>ce_saveTimer := False\<rparr>
         in if ce_io_ok e1 then e1\<lparr>ce_slot := None\<rparr> else e1))"

text \<open>The events of a running application: the query cache changes (to a new client state, with
  or without the \<open>success\<close> action the subscription looks for), the save timer fires, logout.\<close>

datatype 'q cache_event = QueryUpdated 'q bool | SaveTimerFires | UserGone

fun cache_step :: "'q query_client \<Rightarrow> 'q cache_env \<Rightarrow> 'q cache_event \<Rightarrow> 'q cache_env" where
  "cache_step qc e (QueryUpdated q success) =
     (let e1 = e\<lparr>ce_client := q\<rparr> in if success then scheduleSaveCache e1 else e1)"
| "cache_step qc e SaveTimerFires = saveNow qc (e\<lparr>ce_saveTimer := False\<rparr>)"
| "cache_step qc e UserGone = clearDiskCache e"

fun cache_can :: "'q cache_env \<Rightarrow> 'q cache_event \<Rightarrow> bool" where
  "cache_can e SaveTimerFires = ce_saveTimer e"
| "cache_can e _ = True"

subsection \<open>Hydration\<close>

lemma client_laws:
  assumes "query_client_laws qc"
  shows "qc_updatedAt qc (qc_setData qc k v t q) k' = (if k' = k then Some t else qc_updatedAt qc q k')"
    "qc_data qc (qc_setData qc k v t q) k' = (if k' = k then Some v else qc_data qc q k')"
  using assms by (simp_all add: query_client_laws_def)

lemma hydrate_entry_other:
  assumes "query_client_laws qc" and "cq_queryKey e \<noteq> k"
  shows "qc_updatedAt qc (snd (hydrate_entry qc now e st)) k = qc_updatedAt qc (snd st) k
    \<and> qc_data qc (snd (hydrate_entry qc now e st)) k = qc_data qc (snd st) k"
  using assms(2) by (auto simp: hydrate_entry_def client_laws [OF assms(1)] split: prod.splits)

lemma hydrate_other:
  assumes "query_client_laws qc" and "k \<notin> cq_queryKey ` set es"
  shows "qc_updatedAt qc (snd (fold (hydrate_entry qc now) es st)) k = qc_updatedAt qc (snd st) k
    \<and> qc_data qc (snd (fold (hydrate_entry qc now) es st)) k = qc_data qc (snd st) k"
  using assms(2)
proof (induction es arbitrary: st)
  case (Cons e es)
  then show ?case using hydrate_entry_other [OF assms(1), of e k now st] by auto
qed simp

lemma hydrate_positive:
  assumes "query_client_laws qc" and "qc_updatedAt qc (snd st) k = Some t" and "0 < t"
  shows "\<exists>t'\<ge>t. qc_updatedAt qc (snd (fold (hydrate_entry qc now) es st)) k = Some t'
     \<and> (t' = t \<longrightarrow> qc_data qc (snd (fold (hydrate_entry qc now) es st)) k = qc_data qc (snd st) k)"
  using assms(2,3)
proof (induction es arbitrary: st t)
  case Nil
  then show ?case by auto
next
  case (Cons e es)
  let ?st = "hydrate_entry qc now e st"
  have "\<exists>t1\<ge>t. qc_updatedAt qc (snd ?st) k = Some t1 \<and> (t1 = t \<longrightarrow> qc_data qc (snd ?st) k = qc_data qc (snd st) k)"
    using Cons.prems by (cases "cq_queryKey e = k") (auto simp: hydrate_entry_def
        client_laws [OF assms(1)] split: prod.splits)
  then obtain t1 where t1: "t1 \<ge> t" "qc_updatedAt qc (snd ?st) k = Some t1"
    "t1 = t \<longrightarrow> qc_data qc (snd ?st) k = qc_data qc (snd st) k" by blast
  from Cons.IH [OF t1(2)] t1(1) Cons.prems(2) obtain t' where
    "t' \<ge> t1" "qc_updatedAt qc (snd (fold (hydrate_entry qc now) es ?st)) k = Some t'"
    "t' = t1 \<longrightarrow> qc_data qc (snd (fold (hydrate_entry qc now) es ?st)) k = qc_data qc (snd ?st) k" by auto
  with t1 show ?case by (intro exI [where x = t']) auto
qed

text \<open>
  Restoring a snapshot never replaces live data by older data: a query that has data keeps
  its time or gets a later one, and unless its time moved forward its data are unchanged.
\<close>
theorem hydrate_never_replaces_newer:
  assumes "query_client_laws qc" and "qc_updatedAt qc q k = Some t" and "0 < t"
  shows "\<exists>t'\<ge>t. qc_updatedAt qc (snd (hydrateCache qc now file q)) k = Some t'
     \<and> (t' = t \<longrightarrow> qc_data qc (snd (hydrateCache qc now file q)) k = qc_data qc q k)"
  using hydrate_positive [OF assms(1), of "(0, q)" k t now "cf_queries file"] assms(2,3)
  by (simp add: hydrateCache_def)

lemma hydrate_all:
  assumes "query_client_laws qc" and "distinct (map cq_queryKey es)" and "e \<in> set es"
    and "\<forall>e\<in>set es. qc_updatedAt qc (snd st) (cq_queryKey e) = None"
    and "now - cq_dataUpdatedAt e \<le> MAX_CACHE_AGE_MS"
  shows "qc_data qc (snd (fold (hydrate_entry qc now) es st)) (cq_queryKey e) = Some (cq_data e)
    \<and> qc_updatedAt qc (snd (fold (hydrate_entry qc now) es st)) (cq_queryKey e) = Some (cq_dataUpdatedAt e)"
  using assms(2-4)
proof (induction es arbitrary: st)
  case (Cons e1 es)
  show ?case
  proof (cases "e1 = e")
    case True
    have "cq_queryKey e \<notin> cq_queryKey ` set es" using Cons.prems(1) True by simp
    moreover have "qc_data qc (snd (hydrate_entry qc now e st)) (cq_queryKey e) = Some (cq_data e)"
      "qc_updatedAt qc (snd (hydrate_entry qc now e st)) (cq_queryKey e) = Some (cq_dataUpdatedAt e)"
      using Cons.prems(3) assms(5) True
      by (auto simp: hydrate_entry_def client_laws [OF assms(1)] split: prod.splits)
    ultimately show ?thesis
      using True hydrate_other [OF assms(1), of "cq_queryKey e" es now "hydrate_entry qc now e st"] by simp
  next
    case False
    with Cons.prems(2) have m: "e \<in> set es" by simp
    have "\<forall>e'\<in>set es. qc_updatedAt qc (snd (hydrate_entry qc now e1 st)) (cq_queryKey e') = None"
    proof
      fix e' assume e': "e' \<in> set es"
      then have "cq_queryKey e1 \<noteq> cq_queryKey e'" using Cons.prems(1) by (auto simp: image_iff)
      with e' Cons.prems(3) show "qc_updatedAt qc (snd (hydrate_entry qc now e1 st)) (cq_queryKey e') = None"
        using hydrate_entry_other [OF assms(1)] by simp
    qed
    from Cons.IH [OF _ m this] Cons.prems(1) show ?thesis by simp
  qed
qed simp

subsection \<open>Save, restart, load\<close>

lemma serialized_entry:
  assumes "x \<in> set (qc_getAll qc q)" and "lq_status x = QSuccess" and "lq_data x = Some v"
  shows "\<lparr>cq_queryKey = lq_key x, cq_data = v, cq_dataUpdatedAt = lq_updatedAt x\<rparr>
     \<in> set (cf_queries (serializeCache qc now q))"
  using assms by (force simp: serializeCache_def List.map_filter_def)

lemma serialized_keys:
  "distinct (map lq_key (qc_getAll qc q)) \<Longrightarrow> distinct (map cq_queryKey (cf_queries (serializeCache qc now q)))"
proof -
  have "set (map cq_queryKey (cf_queries (serializeCache qc now q))) \<subseteq> set (map lq_key (qc_getAll qc q))"
    by (auto simp: serializeCache_def List.map_filter_def split: if_splits option.splits)
  moreover have "distinct (map cq_queryKey (List.map_filter (\<lambda>x. if lq_status x \<noteq> QSuccess then None
      else (case lq_data x of None \<Rightarrow> None
        | Some v \<Rightarrow> Some \<lparr>cq_queryKey = lq_key x, cq_data = v, cq_dataUpdatedAt = lq_updatedAt x\<rparr>)) xs))
      \<and> set (map cq_queryKey (List.map_filter (\<lambda>x. if lq_status x \<noteq> QSuccess then None
      else (case lq_data x of None \<Rightarrow> None
        | Some v \<Rightarrow> Some \<lparr>cq_queryKey = lq_key x, cq_data = v, cq_dataUpdatedAt = lq_updatedAt x\<rparr>)) xs))
        \<subseteq> lq_key ` set xs" if "distinct (map lq_key xs)" for xs :: "live_query list"
    using that by (induction xs) (auto split: option.splits)
  ultimately show "distinct (map lq_key (qc_getAll qc q)) \<Longrightarrow> ?thesis"
    by (simp add: serializeCache_def)
qed

text \<open>
  What the cache held when it was saved is there again after a restart within seven days:
  every successful query with data no older than seven days has its data and its time back.
\<close>
theorem saved_cache_is_restored:
  assumes "query_client_laws qc" and "ce_isTauri e" and "ce_io_ok e"
    and "distinct (map lq_key (qc_getAll qc (ce_client e)))"
    and "x \<in> set (qc_getAll qc (ce_client e))" and "lq_status x = QSuccess" and "lq_data x = Some v"
    and "now - ce_now e \<le> MAX_CACHE_AGE_MS" and "now - lq_updatedAt x \<le> MAX_CACHE_AGE_MS"
    and "\<forall>k. qc_updatedAt qc fresh k = None"
    and "e' = loadCacheFromDisk qc ((saveNow qc e)\<lparr>ce_client := fresh, ce_now := now\<rparr>)"
  shows "qc_data qc (ce_client e') (lq_key x) = Some v
    \<and> qc_updatedAt qc (ce_client e') (lq_key x) = Some (lq_updatedAt x)"
proof -
  let ?file = "serializeCache qc (ce_now e) (ce_client e)"
  have "ce_client e' = snd (hydrateCache qc now ?file fresh)"
    using assms(2,3,8,11) by (simp add: loadCacheFromDisk_def saveNow_def serializeCache_def)
  moreover have "now - cq_dataUpdatedAt \<lparr>cq_queryKey = lq_key x, cq_data = v, cq_dataUpdatedAt = lq_updatedAt x\<rparr>
      \<le> MAX_CACHE_AGE_MS" using assms(9) by simp
  ultimately show ?thesis
    using hydrate_all [OF assms(1) serialized_keys [OF assms(4), of "ce_now e"]
        serialized_entry [OF assms(5-7), of "ce_now e"], of "(0, fresh)" now] assms(10)
    by (simp add: hydrateCache_def)
qed

subsection \<open>Logout\<close>

lemma quiet_run_keeps_clear:
  assumes "possible_run cache_can (cache_step qc) e es" and "\<not> ce_saveTimer e" and "ce_slot e = None"
    and "ce_isTauri e" and "\<forall>q. QueryUpdated q True \<notin> set es"
  shows "ce_slot (foldl (cache_step qc) e es) = None"
  using assms
proof (induction es arbitrary: e)
  case Nil
  then show ?case by simp
next
  case (Cons ev es)
  show ?case
  proof (cases ev)
    case (QueryUpdated q success)
    with Cons.prems(5) have "\<not> success" by (cases success) auto
    with Cons QueryUpdated show ?thesis by simp
  next
    case SaveTimerFires
    with Cons.prems show ?thesis by simp
  next
    case UserGone
    with Cons show ?thesis by (simp add: clearDiskCache_def Let_def)
  qed
qed

text \<open>
  After a logout the snapshot is gone from disk and a save that was pending does not bring
  it back: until a query succeeds again nothing is written.
\<close>
theorem logout_clears_cache_for_good:
  assumes "ce_isTauri e" and "ce_io_ok e"
    and "possible_run cache_can (cache_step qc) (cache_step qc e UserGone) es"
    and "\<forall>q. QueryUpdated q True \<notin> set es"
  shows "ce_slot (foldl (cache_step qc) (cache_step qc e UserGone) es) = None"
  using quiet_run_keeps_clear [OF assms(3) _ _ _ assms(4)] assms(1,2)
  by (simp add: clearDiskCache_def Let_def)

text \<open>
  But logout does not empty the query client itself. If it stays as it is and then one
  query succeeds, the next save puts every successful entry of the previous session's cache
  back on disk.
\<close>
theorem next_session_saves_previous_cache:
  assumes "ce_isTauri e" and "ce_io_ok e"
    and "x \<in> set (qc_getAll qc (ce_client e))" and "lq_status x = QSuccess" and "lq_data x = Some v"
    and "set (qc_getAll qc (ce_client e)) \<subseteq> set (qc_getAll qc q')"
  shows "\<exists>file. ce_slot (foldl (cache_step qc) e [UserGone, QueryUpdated q' True, SaveTimerFires]) = Some (CacheSlot file)
    \<and> \<lparr>cq_queryKey = lq_key x, cq_data = v, cq_dataUpdatedAt = lq_updatedAt x\<rparr> \<in> set (cf_queries file)"
  using assms(1,2) serialized_entry [of x qc q' v "ce_now e"] assms(3-6)
  by (auto simp: clearDiskCache_def scheduleSaveCache_def saveNow_def Let_def)

subsection \<open>A query client and concrete runs\<close>

definition list_client :: "(json list \<times> json \<times> int) list query_client" where
  "list_client = \<lparr>qc_getAll = map (\<lambda>(k, v, t). \<lparr>lq_key = k, lq_status = QSuccess, lq_data = Some v, lq_updatedAt = t\<rparr>),
     qc_updatedAt = (\<lambda>q k. map_option snd (map_of q k)), qc_data = (\<lambda>q k. map_option fst (map_of q k)),
     qc_setData = (\<lambda>k v t q. (k, v, t) # filter (\<lambda>p. fst p \<noteq> k) q)\<rparr>"

lemma map_of_filter_other: "k' \<noteq> k \<Longrightarrow> map_of (filter (\<lambda>p. fst p \<noteq> k) q) k' = map_of q k'"
  by (induction q) auto

lemma list_client_laws: "query_client_laws list_client"
  by (auto simp: query_client_laws_def list_client_def map_of_filter_other)

definition demo_cache :: "(json list \<times> json \<times> int) list cache_env" where
  "demo_cache = \<lparr>ce_isTauri = True, ce_io_ok = True, ce_slot = None, ce_saveTimer = True,
     ce_client = [([JStr ''items''], JNum 1, 50)], ce_now = 60\<rparr>"

lemma hydrate_never_replaces_newer_witness:
  "\<exists>t'\<ge>50. qc_updatedAt list_client (snd (hydrateCache list_client 60
      \<lparr>cf_version = 1, cf_savedAt = 20, cf_queries = [\<lparr>cq_queryKey = [JStr ''items''], cq_data = JNum 0, cq_dataUpdatedAt = 10\<rparr>]\<rparr>
      (ce_client demo_cache))) [JStr ''items''] = Some t'"
  using hydrate_never_replaces_newer [OF list_client_laws, of "ce_client demo_cache" "[JStr ''items'']" 50]
  by (simp add: demo_cache_def list_client_def) blast

lemma saved_cache_is_restored_witness:
  "qc_data list_client (ce_client (loadCacheFromDisk list_client
      ((saveNow list_client demo_cache)\<lparr>ce_client := [], ce_now := 100\<rparr>))) [JStr ''items''] = Some (JNum 1)"
  using saved_cache_is_restored [OF list_client_laws, of demo_cache
      "\<lparr>lq_key = [JStr ''items''], lq_status = QSuccess, lq_data = Some (JNum 1), lq_updatedAt = 50\<rparr>"
      "JNum 1" 100 "[]" _, OF _ _ _ _ _ _ _ _ _ refl]
  by (simp add: demo_cache_def list_client_def MAX_CACHE_AGE_MS_def)

lemma logout_clears_cache_for_good_witness:
  "ce_slot (foldl (cache_step list_client) (cache_step list_client demo_cache UserGone) [QueryUpdated [] False]) = None"
  by (rule logout_clears_cache_for_good) (simp_all add: demo_cache_def)

lemma next_session_saves_previous_cache_witness:
  "ce_slot (foldl (cache_step list_client) demo_cache
      [UserGone, QueryUpdated (([JStr ''me''], JNum 2, 70) # ce_client demo_cache) True, SaveTimerFires]) \<noteq> None"
  using next_session_saves_previous_cache [of demo_cache
      "\<lparr>lq_key = [JStr ''items''], lq_status = QSuccess, lq_data = Some (JNum 1), lq_updatedAt = 50\<rparr>"
      list_client "JNum 1" "([JStr ''me''], JNum 2, 70) # ce_client demo_cache"]
  by (simp add: demo_cache_def list_client_def) blast

end
