(* ===== verification/Base64.thy ===== *)
theory Base64
  imports Prelude
begin

text \<open>
  Byte arrays as text: the base64 helpers of \<open>shared/pkg/src/crypto.ts\<close>, the URL-safe variant
  that carries a share link's key in the URL fragment (\<open>toBase64url\<close>, \<open>buildShareURL\<close> in
  \<open>share-link-dialog.tsx\<close>, \<open>fromBase64url\<close>, \<open>readLinkKey\<close> in \<open>pages/share.tsx\<close>), and the
  browser's \<open>btoa\<close> and \<open>atob\<close> they rest on.
\<close>

subsection \<open>\<open>btoa\<close> and \<open>atob\<close>\<close>

definition b64_alphabet :: string where
  "b64_alphabet = ''ABCDEFGHIJKLMNOPQRSTUVWXYZabcdefghijklmnopqrstuvwxyz0123456789+/''"

definition b64_char :: "nat \<Rightarrow> char" where
  "b64_char n = b64_alphabet ! n"

text \<open>The sextet of a character, \<open>None\<close> outside the alphabet.\<close>

definition b64_val :: "char \<Rightarrow> nat option" where
  "b64_val c = (let n = (of_char c :: nat) in
     if 65 \<le> n \<and> n \<le> 90 then Some (n - 65)
     else if 97 \<le> n \<and> n \<le> 122 then Some (n - 71)
     else if 48 \<le> n \<and> n \<le> 57 then Some (n + 4)
     else if n = 43 then Some 62
     else if n = 47 then Some 63
     else None)"

fun btoa :: "byte list \<Rightarrow> string" where
  "btoa [] = []"
| "btoa [a] = [b64_char (unat a div 4), b64_char ((unat a mod 4) * 16), CHR ''='', CHR ''='']"
| "btoa [a, b] = [b64_char (unat a div 4), b64_char ((unat a mod 4) * 16 + unat b div 16),
     b64_char ((unat b mod 16) * 4), CHR ''='']"
| "btoa (a # b # c # rest) =
     [b64_char (unat a div 4), b64_char ((unat a mod 4) * 16 + unat b div 16),
      b64_char ((unat b mod 16) * 4 + unat c div 64), b64_char (unat c mod 64)] @ btoa rest"

text \<open>Sextets to bytes; the bits left over at the end are dropped.\<close>

fun sextets_to_bytes :: "nat list \<Rightarrow> byte list" where
  "sextets_to_bytes (a # b # c # d # rest) =
     of_nat (a * 4 + b div 16) # of_nat ((b mod 16) * 16 + c div 4) # of_nat ((c mod 4) * 64 + d)
     # sextets_to_bytes rest"
| "sextets_to_bytes [a, b, c] = [of_nat (a * 4 + b div 16), of_nat ((b mod 16) * 16 + c div 4)]"
| "sextets_to_bytes [a, b] = [of_nat (a * 4 + b div 16)]"
| "sextets_to_bytes _ = []"

definition is_ascii_space :: "char \<Rightarrow> bool" where
  "is_ascii_space c \<longleftrightarrow> (of_char c :: nat) \<in> {9, 10, 12, 13, 32}"

definition drop_padding :: "string \<Rightarrow> string" where
  "drop_padding s =
     (if length s mod 4 \<noteq> 0 then s
      else if length s \<ge> 2 \<and> drop (length s - 2) s = ''=='' then take (length s - 2) s
      else if length s \<ge> 1 \<and> drop (length s - 1) s = ''='' then take (length s - 1) s
      else s)"

text \<open>\<open>atob\<close> skips white space, drops the padding of a full last group, and throws on a
  remainder of one or a character outside the alphabet.\<close>

definition atob :: "string \<Rightarrow> unit + byte list" where
  "atob s =
     (let t = drop_padding (filter (\<lambda>c. \<not> is_ascii_space c) s)
      in if length t mod 4 = 1 then Inl ()
         else if list_ex (\<lambda>c. b64_val c = None) t then Inl ()
         else Inr (sextets_to_bytes (map (\<lambda>c. the (b64_val c)) t)))"

subsection \<open>The helpers\<close>

definition toBase64 :: "byte list \<Rightarrow> string" where
  "toBase64 bytes = btoa bytes"

definition fromBase64 :: "string \<Rightarrow> unit + byte list" where
  "fromBase64 b64 = atob b64"

definition replace_all :: "char \<Rightarrow> char \<Rightarrow> string \<Rightarrow> string" where
  "replace_all x y s = map (\<lambda>c. if c = x then y else c) s"

text \<open>\<open>s.replace(/=+$/, '')\<close>.\<close>

definition strip_equals :: "string \<Rightarrow> string" where
  "strip_equals s = rev (dropWhile (\<lambda>c. c = CHR ''='') (rev s))"

definition toBase64url :: "byte list \<Rightarrow> string" where
  "toBase64url bytes =
     strip_equals (replace_all (CHR ''/'') (CHR ''_'') (replace_all (CHR ''+'') (CHR ''-'') (toBase64 bytes)))"

definition padEnd :: "string \<Rightarrow> nat \<Rightarrow> char \<Rightarrow> string" where
  "padEnd s n c = s @ replicate (n - length s) c"

definition fromBase64url :: "string \<Rightarrow> unit + byte list" where
  "fromBase64url b64url =
     (let b64 = padEnd (replace_all (CHR ''_'') (CHR ''/'') (replace_all (CHR ''-'') (CHR ''+'') b64url))
            (length b64url + (4 - length b64url mod 4) mod 4) (CHR ''='')
      in fromBase64 b64)"

definition buildShareURL :: "string \<Rightarrow> string \<Rightarrow> byte list \<Rightarrow> string" where
  "buildShareURL origin token linkKey =
     (let base = origin @ ''/share/'' @ token; fragment = toBase64url linkKey
      in base @ ''#'' @ fragment)"

text \<open>\<open>window.location.hash\<close> of a URL: from the first \<open>#\<close> on, empty when nothing follows it.\<close>

definition location_hash :: "string \<Rightarrow> string" where
  "location_hash url = (let h = dropWhile (\<lambda>c. c \<noteq> CHR ''#'') url in if length h \<le> 1 then [] else h)"

definition readLinkKey :: "string \<Rightarrow> byte list option" where
  "readLinkKey location_hash_value =
     (let hash = drop 1 location_hash_value
      in if hash = [] then None
         else (case fromBase64url hash of
             Inl _ \<Rightarrow> None
           | Inr bytes \<Rightarrow> if length bytes \<noteq> 32 then None else Some bytes))"

subsection \<open>Sextets\<close>

lemma less_64_cases:
  fixes n :: nat
  assumes "n < 64" obtains i where "n = nat i" "i \<in> {0..63}"
  using assms by (intro that [of "int n"]) auto

lemma b64_table: "\<forall>n\<in>set [0..<64]. b64_val (b64_char n) = Some n \<and> \<not> is_ascii_space (b64_char n)
    \<and> b64_char n \<noteq> CHR ''='' \<and> b64_char n \<noteq> CHR ''-'' \<and> b64_char n \<noteq> CHR ''_'' \<and> b64_char n \<noteq> CHR ''#''"
  by (simp add: b64_char_def b64_alphabet_def b64_val_def is_ascii_space_def Let_def upt_conv_Cons)

lemma b64_char_facts:
  assumes "n < 64"
  shows "b64_val (b64_char n) = Some n" "\<not> is_ascii_space (b64_char n)" "b64_char n \<noteq> CHR ''=''"
    "b64_char n \<noteq> CHR ''-''" "b64_char n \<noteq> CHR ''_''" "b64_char n \<noteq> CHR ''#''"
  using b64_table assms by simp_all

lemma byte_bounds [simp]:
  fixes a :: byte
  shows "unat a div 4 < 64" "unat a mod 64 < 64" "unat a < 256" "unat a div 16 < 16" "unat a div 64 < 4"
proof -
  have "unat a < 2 ^ 8" using unsigned_less [of a] by simp
  then show "unat a div 4 < 64" "unat a mod 64 < 64" "unat a < 256" "unat a div 16 < 16" "unat a div 64 < 4"
    by auto
qed

lemma sextet_bounds [simp]:
  fixes a b c :: byte
  shows "(unat a mod 4) * 16 + unat b div 16 < 64" "(unat b mod 16) * 4 + unat c div 64 < 64"
    "(unat a mod 4) * 16 < 64" "(unat b mod 16) * 4 < 64"
proof -
  have "unat a mod 4 \<le> 3" "unat b mod 16 \<le> 15" using mod_less_divisor [of 4 "unat a"] mod_less_divisor [of 16 "unat b"]
    by simp_all
  moreover have "unat b div 16 < 16" "unat c div 64 < 4" by (rule byte_bounds)+
  ultimately show "(unat a mod 4) * 16 + unat b div 16 < 64" "(unat b mod 16) * 4 + unat c div 64 < 64"
    "(unat a mod 4) * 16 < 64" "(unat b mod 16) * 4 < 64" by linarith+
qed

text \<open>The sextets of an encoding, without the padding.\<close>

fun sextets :: "byte list \<Rightarrow> nat list" where
  "sextets [] = []"
| "sextets [a] = [unat a div 4, (unat a mod 4) * 16]"
| "sextets [a, b] = [unat a div 4, (unat a mod 4) * 16 + unat b div 16, (unat b mod 16) * 4]"
| "sextets (a # b # c # rest) =
     [unat a div 4, (unat a mod 4) * 16 + unat b div 16, (unat b mod 16) * 4 + unat c div 64, unat c mod 64]
     @ sextets rest"

definition pad_count :: "byte list \<Rightarrow> nat" where
  "pad_count bs = (3 - length bs mod 3) mod 3"

lemma btoa_sextets: "btoa bs = map b64_char (sextets bs) @ replicate (pad_count bs) (CHR ''='')"
  by (induction bs rule: sextets.induct) (simp_all add: pad_count_def numeral_2_eq_2)

lemma sextets_less: "n \<in> set (sextets bs) \<Longrightarrow> n < 64"
  by (induction bs rule: sextets.induct) auto

lemma length_sextets: "(length (sextets bs) + pad_count bs) mod 4 = 0" "length (sextets bs) mod 4 \<noteq> 1"
  "pad_count bs \<le> 2"
  "pad_count bs = (4 - length (sextets bs) mod 4) mod 4"
  by (induction bs rule: sextets.induct) (simp_all add: pad_count_def)

lemma byte_join:
  fixes a b c :: byte
  shows "of_nat (unat a div 4 * 4 + ((unat a mod 4) * 16 + unat b div 16) div 16) = a"
    "of_nat (((unat a mod 4) * 16 + unat b div 16) mod 16 * 16 + ((unat b mod 16) * 4 + unat c div 64) div 4) = b"
    "of_nat (((unat b mod 16) * 4 + unat c div 64) mod 4 * 64 + unat c mod 64) = c"
    "of_nat (unat a div 4 * 4 + ((unat a mod 4) * 16) div 16) = a"
    "of_nat (((unat a mod 4) * 16 + unat b div 16) mod 16 * 16 + ((unat b mod 16) * 4) div 4) = b"
proof -
  have ha: "((unat a mod 4) * 16 + unat b div 16) div 16 = unat a mod 4"
    "((unat a mod 4) * 16 + unat b div 16) mod 16 = unat b div 16" by simp_all
  have hb: "((unat b mod 16) * 4 + unat c div 64) div 4 = unat b mod 16"
    "((unat b mod 16) * 4 + unat c div 64) mod 4 = unat c div 64" by simp_all
  have "unat a div 4 * 4 + unat a mod 4 = unat a" "unat b div 16 * 16 + unat b mod 16 = unat b"
    "unat c div 64 * 64 + unat c mod 64 = unat c" by simp_all
  then show "of_nat (unat a div 4 * 4 + ((unat a mod 4) * 16 + unat b div 16) div 16) = a"
    "of_nat (((unat a mod 4) * 16 + unat b div 16) mod 16 * 16 + ((unat b mod 16) * 4 + unat c div 64) div 4) = b"
    "of_nat (((unat b mod 16) * 4 + unat c div 64) mod 4 * 64 + unat c mod 64) = c"
    "of_nat (unat a div 4 * 4 + ((unat a mod 4) * 16) div 16) = a"
    "of_nat (((unat a mod 4) * 16 + unat b div 16) mod 16 * 16 + ((unat b mod 16) * 4) div 4) = b"
    unfolding ha hb by (simp_all del: of_nat_add of_nat_mult)
qed

lemma sextets_to_bytes_inverse: "sextets_to_bytes (sextets bs) = bs"
  by (induction bs rule: sextets.induct) (simp_all add: byte_join del: of_nat_add of_nat_mult)

subsection \<open>Decoding an encoding\<close>

lemma drop_padding_pad:
  assumes "(length s + n) mod 4 = 0" and "n \<le> 2" and "\<forall>c\<in>set s. c \<noteq> CHR ''=''"
  shows "drop_padding (s @ replicate n (CHR ''='')) = s"
proof -
  consider "n = 0" | "n = 1" | "n = 2" using assms(2) by linarith
  then show ?thesis
  proof cases
    case 1
    have "s = [] \<or> last s \<noteq> CHR ''=''" using assms(3) last_in_set by blast
    then have "length s \<ge> 1 \<longrightarrow> drop (length s - 1) s \<noteq> ''=''"
      by (cases s rule: rev_cases) simp_all
    moreover have "length s \<ge> 2 \<longrightarrow> drop (length s - 2) s \<noteq> ''==''"
      using assms(3) by (metis in_set_dropD list.set_intros(1))
    ultimately show ?thesis using 1 by (simp only: drop_padding_def replicate_0 append_Nil2 simp_thms if_False)
        (cases "length s mod 4 \<noteq> 0"; cases "length s \<ge> 2"; cases "length s \<ge> 1"; simp)
  next
    case 2
    have "drop (length s - 1) (s @ ''='') \<noteq> ''==''"
    proof (cases s rule: rev_cases)
      case (snoc ys y)
      with assms(3) show ?thesis by simp
    qed simp
    with 2 assms(1) show ?thesis by (simp add: drop_padding_def)
  next
    case 3
    with assms(1) show ?thesis by (simp add: drop_padding_def numeral_2_eq_2)
  qed
qed

lemma atob_sextets:
  "atob (map b64_char (sextets bs) @ replicate (pad_count bs) (CHR ''='')) = Inr bs"
proof -
  let ?s = "map b64_char (sextets bs)"
  have ok: "b64_val c \<noteq> None \<and> \<not> is_ascii_space c \<and> c \<noteq> CHR ''=''" if "c \<in> set ?s" for c
  proof -
    obtain n where "n < 64" "c = b64_char n" using \<open>c \<in> set ?s\<close> sextets_less by auto
    then show ?thesis by (simp add: b64_char_facts)
  qed
  have "filter (\<lambda>c. \<not> is_ascii_space c) (?s @ replicate (pad_count bs) (CHR ''=''))
      = ?s @ replicate (pad_count bs) (CHR ''='')"
    using ok by (subst filter_True) (auto simp: is_ascii_space_def)
  moreover have "drop_padding (?s @ replicate (pad_count bs) (CHR ''='')) = ?s"
    using length_sextets [of bs] ok by (intro drop_padding_pad) auto
  moreover have "map (\<lambda>c. the (b64_val c)) ?s = sextets bs"
    by (simp add: map_idI b64_char_facts sextets_less)
  moreover have "\<not> list_ex (\<lambda>c. b64_val c = None) ?s"
    using ok unfolding list_ex_iff by blast
  ultimately show ?thesis
    using length_sextets(2) [of bs] by (simp only: atob_def Let_def sextets_to_bytes_inverse length_map if_False)
qed

text \<open>
  Every byte array survives base64: decoding the encoding gives the bytes back.
\<close>
theorem base64_roundtrip: "fromBase64 (toBase64 bytes) = Inr bytes"
  by (simp add: fromBase64_def toBase64_def btoa_sextets atob_sextets)

subsection \<open>The key in the URL fragment\<close>

definition url_char :: "char \<Rightarrow> char" where
  "url_char c = (if c = CHR ''+'' then CHR ''-'' else if c = CHR ''/'' then CHR ''_'' else c)"

definition std_char :: "char \<Rightarrow> char" where
  "std_char c = (if c = CHR ''-'' then CHR ''+'' else if c = CHR ''_'' then CHR ''/'' else c)"

lemma replace_all_url:
  "replace_all (CHR ''/'') (CHR ''_'') (replace_all (CHR ''+'') (CHR ''-'') s) = map url_char s"
  "replace_all (CHR ''_'') (CHR ''/'') (replace_all (CHR ''-'') (CHR ''+'') s) = map std_char s"
  by (simp_all add: replace_all_def url_char_def std_char_def)

lemma b64_url_char:
  assumes "n < 64"
  shows "std_char (url_char (b64_char n)) = b64_char n" "url_char (b64_char n) \<noteq> CHR ''=''"
    "url_char (b64_char n) \<noteq> CHR ''#''"
  using b64_char_facts [OF assms] by (simp_all add: url_char_def std_char_def)

lemma strip_equals_pad:
  assumes "\<forall>c\<in>set s. c \<noteq> CHR ''=''"
  shows "strip_equals (s @ replicate n (CHR ''='')) = s"
proof -
  have "dropWhile (\<lambda>c. c = CHR ''='') (rev s) = rev s"
    using assms by (cases "rev s") (auto simp: dropWhile_eq_self_iff)
  then have "dropWhile (\<lambda>c. c = CHR ''='') (replicate n (CHR ''='') @ rev s) = rev s"
    by (induction n) simp_all
  then show ?thesis by (simp add: strip_equals_def rev_replicate)
qed

lemma toBase64url_sextets: "toBase64url bs = map (\<lambda>n. url_char (b64_char n)) (sextets bs)"
proof -
  have "url_char (CHR ''='') = CHR ''=''" by (simp add: url_char_def)
  then have "toBase64url bs = strip_equals (map (\<lambda>n. url_char (b64_char n)) (sextets bs) @ replicate (pad_count bs) (CHR ''=''))"
    by (simp add: toBase64url_def toBase64_def btoa_sextets replace_all_url o_def)
  also have "\<dots> = map (\<lambda>n. url_char (b64_char n)) (sextets bs)"
    using b64_url_char(2) sextets_less by (intro strip_equals_pad) auto
  finally show ?thesis .
qed

lemma fromBase64url_inverse: "fromBase64url (toBase64url bs) = Inr bs"
proof -
  have "map (\<lambda>n. std_char (url_char (b64_char n))) (sextets bs) = map b64_char (sextets bs)"
    using b64_url_char(1) sextets_less by (intro map_cong) auto
  then have "padEnd (map std_char (toBase64url bs)) (length (toBase64url bs) + (4 - length (toBase64url bs) mod 4) mod 4) (CHR ''='')
      = map b64_char (sextets bs) @ replicate (pad_count bs) (CHR ''='')"
    using length_sextets(4) [of bs] by (simp add: padEnd_def toBase64url_sextets o_def)
  then show ?thesis
    by (simp only: fromBase64url_def replace_all_url Let_def fromBase64_def atob_sextets)
qed

lemma dropWhile_to_hash:
  "CHR ''#'' \<notin> set xs \<Longrightarrow> dropWhile (\<lambda>c. c \<noteq> CHR ''#'') (xs @ CHR ''#'' # ys) = CHR ''#'' # ys"
  by (induction xs) auto

lemma url_from_hash:
  assumes "CHR ''#'' \<notin> set origin" and "CHR ''#'' \<notin> set token"
  shows "dropWhile (\<lambda>c. c \<noteq> CHR ''#'') (buildShareURL origin token key) = CHR ''#'' # toBase64url key"
proof -
  have "CHR ''#'' \<notin> set (origin @ ''/share/'' @ token)" using assms by simp
  from dropWhile_to_hash [OF this, of "toBase64url key"] show ?thesis
    by (simp add: buildShareURL_def Let_def)
qed

lemma fragment_of_url:
  assumes "CHR ''#'' \<notin> set origin" and "CHR ''#'' \<notin> set token" and "toBase64url key \<noteq> []"
  shows "location_hash (buildShareURL origin token key) = ''#'' @ toBase64url key"
  using assms(3) by (simp add: location_hash_def Let_def url_from_hash [OF assms(1,2)] Suc_le_eq)

text \<open>The viewer reads back the key of the link, and accepts keys of 32 bytes only.\<close>

lemma share_link_key_roundtrip:
  assumes "CHR ''#'' \<notin> set origin" and "CHR ''#'' \<notin> set token"
  shows "readLinkKey (location_hash (buildShareURL origin token key)) = (if length key = 32 then Some key else None)"
proof (cases "toBase64url key = []")
  case True
  then have "key = []"
    by (cases key rule: sextets.cases) (simp_all add: toBase64url_sextets)
  with True show ?thesis
    by (simp add: location_hash_def readLinkKey_def Let_def url_from_hash [OF assms])
next
  case False
  then show ?thesis
    by (simp add: fragment_of_url assms readLinkKey_def fromBase64url_inverse)
qed

end
