(* ===== verification/Utf8.thy ===== *)
theory Utf8
  imports Prelude
begin

text \<open>
  \<open>TextEncoder\<close> and \<open>TextDecoder\<close> as the field encryption uses them. A string of the model is
  the UTF-8 encoding of the JavaScript string, so encoding is reading the bytes; decoding runs
  the standard's byte-at-a-time decoder, which drops a leading byte order mark and replaces
  each malformed sequence by U+FFFD.
\<close>

definition bytes_of :: "string \<Rightarrow> byte list" where
  "bytes_of s = map of_char s"

definition string_of :: "byte list \<Rightarrow> string" where
  "string_of bs = map (\<lambda>b. char_of (unat b)) bs"

definition TextEncoder_encode :: "string \<Rightarrow> byte list" where
  "TextEncoder_encode s = bytes_of s"

definition replacement :: "nat list" where
  "replacement = [0xEF, 0xBF, 0xBD]"

text \<open>The decoder's state: continuation bytes still needed, the bounds of the next one, and the
  bytes of the sequence so far. It emits the UTF-8 of what it decodes.\<close>

function utf8_decode :: "nat \<Rightarrow> nat \<Rightarrow> nat \<Rightarrow> nat list \<Rightarrow> nat list \<Rightarrow> nat list" where
  "utf8_decode needed lo hi acc [] = (if needed = 0 then [] else replacement)"
| "utf8_decode needed lo hi acc (b # bs) =
     (if needed = 0 then
        (if b \<le> 0x7F then b # utf8_decode 0 0x80 0xBF [] bs
         else if 0xC2 \<le> b \<and> b \<le> 0xDF then utf8_decode 1 0x80 0xBF [b] bs
         else if 0xE0 \<le> b \<and> b \<le> 0xEF then
           utf8_decode 2 (if b = 0xE0 then 0xA0 else 0x80) (if b = 0xED then 0x9F else 0xBF) [b] bs
         else if 0xF0 \<le> b \<and> b \<le> 0xF4 then
           utf8_decode 3 (if b = 0xF0 then 0x90 else 0x80) (if b = 0xF4 then 0x8F else 0xBF) [b] bs
         else replacement @ utf8_decode 0 0x80 0xBF [] bs)
      else if lo \<le> b \<and> b \<le> hi then
        (if needed = 1 then (acc @ [b]) @ utf8_decode 0 0x80 0xBF [] bs
         else utf8_decode (needed - 1) 0x80 0xBF (acc @ [b]) bs)
      else replacement @ utf8_decode 0 0x80 0xBF [] (b # bs))"
  by pat_completeness auto
termination
  by (relation "measures [\<lambda>(needed, lo, hi, acc, bs). length bs, \<lambda>(needed, lo, hi, acc, bs). needed]") auto

declare utf8_decode.simps [simp del]

definition strip_bom :: "nat list \<Rightarrow> nat list" where
  "strip_bom ns = (if take 3 ns = [0xEF, 0xBB, 0xBF] then drop 3 ns else ns)"

definition TextDecoder_decode :: "byte list \<Rightarrow> string" where
  "TextDecoder_decode bs = map char_of (utf8_decode 0 0x80 0xBF [] (strip_bom (map unat bs)))"

subsection \<open>Well-formed text\<close>

text \<open>The UTF-8 of a scalar value.\<close>

definition utf8_char :: "nat \<Rightarrow> nat list" where
  "utf8_char c =
     (if c < 0x80 then [c]
      else if c < 0x800 then [0xC0 + c div 64, 0x80 + c mod 64]
      else if c < 0x10000 then [0xE0 + c div 4096, 0x80 + c div 64 mod 64, 0x80 + c mod 64]
      else [0xF0 + c div 262144, 0x80 + c div 4096 mod 64, 0x80 + c div 64 mod 64, 0x80 + c mod 64])"

definition is_scalar :: "nat \<Rightarrow> bool" where
  "is_scalar c \<longleftrightarrow> c < 0xD800 \<or> 0xE000 \<le> c \<and> c < 0x110000"

definition utf8_text :: "nat list \<Rightarrow> string" where
  "utf8_text cs = map char_of (concat (map utf8_char cs))"

lemma utf8_char_bytes: "is_scalar c \<Longrightarrow> b \<in> set (utf8_char c) \<Longrightarrow> b < 256"
  by (auto simp: utf8_char_def is_scalar_def split: if_splits)

lemma decode_one:
  assumes "b < 0x80"
  shows "utf8_decode 0 lo hi acc (b # bs) = b # utf8_decode 0 0x80 0xBF [] bs"
  using assms by (simp add: utf8_decode.simps)

lemma decode_char:
  assumes "is_scalar c"
  shows "utf8_decode 0 lo hi acc (utf8_char c @ bs) = utf8_char c @ utf8_decode 0 0x80 0xBF [] bs"
proof -
  have m: "c mod 64 \<le> 63" "c div 64 mod 64 \<le> 63" "c div 4096 mod 64 \<le> 63" by simp_all
  consider (one) "c < 0x80" | (two) "0x80 \<le> c" "c < 0x800" | (three) "0x800 \<le> c" "c < 0x10000"
    | (four) "0x10000 \<le> c" "c < 0x110000"
    using assms by (fastforce simp: is_scalar_def)
  then show ?thesis
  proof cases
    case one
    then show ?thesis by (simp add: utf8_char_def decode_one)
  next
    case two
    then have "2 \<le> c div 64" "c div 64 \<le> 31" by linarith+
    with two m show ?thesis by (simp add: utf8_char_def utf8_decode.simps)
  next
    case three
    have d: "c div 4096 \<le> 15" using three by linarith
    have e: "c div 4096 = 0 \<Longrightarrow> 32 \<le> c div 64 mod 64"
    proof -
      assume "c div 4096 = 0"
      then have "c div 64 < 64" by linarith
      moreover have "32 \<le> c div 64" using three by linarith
      ultimately show "32 \<le> c div 64 mod 64" by simp
    qed
    have f: "c div 4096 = 13 \<Longrightarrow> c div 64 mod 64 \<le> 31"
    proof -
      assume h: "c div 4096 = 13"
      then have "c < 0xD800" using assms by (auto simp: is_scalar_def)
      then have "c div 64 < 864" by linarith
      moreover have "832 \<le> c div 64" using h by linarith
      ultimately have "c div 64 mod 64 = c div 64 - 832" by (simp add: mod_if le_mod_geq)
      with \<open>c div 64 < 864\<close> show "c div 64 mod 64 \<le> 31" by simp
    qed
    from three m d e f show ?thesis by (auto simp: utf8_char_def utf8_decode.simps)
  next
    case four
    have d: "c div 262144 \<le> 4" using four by linarith
    have e: "c div 262144 = 0 \<Longrightarrow> 16 \<le> c div 4096 mod 64"
    proof -
      assume "c div 262144 = 0"
      then have "c div 4096 < 64" by linarith
      moreover have "16 \<le> c div 4096" using four by linarith
      ultimately show "16 \<le> c div 4096 mod 64" by simp
    qed
    have f: "c div 262144 = 4 \<Longrightarrow> c div 4096 mod 64 \<le> 15"
    proof -
      assume h: "c div 262144 = 4"
      have "c div 4096 < 272" using four by linarith
      moreover have "256 \<le> c div 4096" using h by linarith
      ultimately have "c div 4096 mod 64 = c div 4096 - 256" by (simp add: mod_if le_mod_geq)
      with \<open>c div 4096 < 272\<close> show "c div 4096 mod 64 \<le> 15" by simp
    qed
    from four m d e f show ?thesis by (auto simp: utf8_char_def utf8_decode.simps)
  qed
qed

lemma decode_text:
  "\<forall>c\<in>set cs. is_scalar c \<Longrightarrow> utf8_decode 0 0x80 0xBF [] (concat (map utf8_char cs)) = concat (map utf8_char cs)"
  by (induction cs) (simp_all add: decode_char utf8_decode.simps)

lemma byte_of_char_of: "b < 256 \<Longrightarrow> unat (of_char (char_of b) :: byte) = b"
proof -
  assume "b < 256"
  have "(of_char (char_of b) :: byte) = of_nat (of_char (char_of b :: char) :: nat)"
    by (simp only: of_nat_of_char)
  also have "\<dots> = of_nat b" using \<open>b < 256\<close> by simp
  finally show ?thesis using \<open>b < 256\<close> by (simp add: unsigned_of_nat take_bit_nat_eq_self)
qed

lemma utf8_text_bytes: "\<forall>c\<in>set cs. is_scalar c \<Longrightarrow> map unat (bytes_of (utf8_text cs)) = concat (map utf8_char cs)"
proof -
  assume "\<forall>c\<in>set cs. is_scalar c"
  then have "\<forall>b\<in>set (concat (map utf8_char cs)). b < 256" by (auto dest: utf8_char_bytes)
  then have "map (\<lambda>b. unat (of_char (char_of b) :: byte)) (concat (map utf8_char cs)) = concat (map utf8_char cs)"
    by (intro map_idI byte_of_char_of) blast
  then show ?thesis by (simp add: utf8_text_def bytes_of_def o_def)
qed

lemma bom_char: "utf8_char 0xFEFF = [0xEF, 0xBB, 0xBF]"
  by (simp add: utf8_char_def)

lemma utf8_char_nonempty: "utf8_char c \<noteq> []"
  by (simp add: utf8_char_def)

lemma bom_only_from_bom:
  assumes "is_scalar c" and "take 3 (utf8_char c @ rest) = [0xEF, 0xBB, 0xBF]"
  shows "c = 0xFEFF"
proof -
  consider (one) "c < 0x80" | (two) "0x80 \<le> c" "c < 0x800" | (three) "0x800 \<le> c" "c < 0x10000"
    | (four) "0x10000 \<le> c" by linarith
  then show ?thesis
  proof cases
    case one
    with assms(2) show ?thesis by (simp add: utf8_char_def)
  next
    case two
    then have "c div 64 \<le> 31" by linarith
    with two assms(2) show ?thesis by (simp add: utf8_char_def numeral_3_eq_3)
  next
    case three
    with assms(2) have "c div 4096 = 15" "c div 64 mod 64 = 59" "c mod 64 = 63"
      by (simp_all add: utf8_char_def)
    moreover have "c = c div 4096 * 4096 + c div 64 mod 64 * 64 + c mod 64"
    proof -
      have "c = c div 64 * 64 + c mod 64" "c div 64 = c div 64 div 64 * 64 + c div 64 mod 64" by simp_all
      moreover have "c div 64 div 64 = c div 4096" by (simp add: div_mult2_eq [symmetric])
      ultimately show ?thesis by linarith
    qed
    ultimately show ?thesis by simp
  next
    case four
    with assms(2) show ?thesis by (simp add: utf8_char_def numeral_3_eq_3)
  qed
qed

text \<open>Decoding the encoding of well-formed text gives it back, less one leading byte order mark.\<close>

lemma decode_encode:
  assumes "\<forall>c\<in>set cs. is_scalar c"
  shows "TextDecoder_decode (TextEncoder_encode (utf8_text cs))
    = utf8_text (case cs of c # cs' \<Rightarrow> if c = 0xFEFF then cs' else cs | [] \<Rightarrow> [])"
proof (cases cs)
  case Nil
  then show ?thesis
    by (simp add: TextDecoder_decode_def TextEncoder_encode_def utf8_text_def bytes_of_def strip_bom_def utf8_decode.simps)
next
  case (Cons c cs')
  have b: "map unat (TextEncoder_encode (utf8_text cs)) = utf8_char c @ concat (map utf8_char cs')"
    using utf8_text_bytes [OF assms] Cons by (simp add: TextEncoder_encode_def)
  show ?thesis
  proof (cases "c = 0xFEFF")
    case True
    then have "strip_bom (utf8_char c @ concat (map utf8_char cs')) = concat (map utf8_char cs')"
      by (simp add: bom_char strip_bom_def)
    then show ?thesis
      using b True Cons assms decode_text [of cs'] by (simp add: TextDecoder_decode_def utf8_text_def)
  next
    case False
    then have "strip_bom (utf8_char c @ concat (map utf8_char cs')) = concat (map utf8_char cs)"
      using bom_only_from_bom [of c "concat (map utf8_char cs')"] assms Cons by (auto simp: strip_bom_def)
    then show ?thesis
      using b False Cons decode_text [OF assms] by (simp add: TextDecoder_decode_def utf8_text_def)
  qed
qed

end
