(* ===== verification/Crypto.thy ===== *)
theory Crypto
  imports Base64 Utf8
begin

text \<open>
  The client-side cryptography (\<open>shared/pkg/src/crypto.ts\<close>, \<open>client/src/lib/crypto.ts\<close> and the
  copies of \<open>sealDEKWithKEK\<close> in the web forms): blob layouts, the order of operations and every
  error branch. The primitives (AES-GCM, X25519, SHA-256, Argon2id, the random source) are a
  parameter; \<open>webcrypto_laws\<close> states what the code relies on.
\<close>

type_synonym bytes = "byte list"

subsection \<open>Primitives\<close>

text \<open>\<open>wc_seal key iv plaintext\<close> and \<open>wc_open key iv ciphertext_with_tag\<close> are AES-GCM without
  additional data; \<open>wc_pub\<close> and \<open>wc_dh\<close> are X25519 on raw keys; \<open>wc_random n\<close> draws \<open>n\<close> bytes.\<close>

record 'r webcrypto =
  wc_seal :: "bytes \<Rightarrow> bytes \<Rightarrow> bytes \<Rightarrow> bytes"
  wc_open :: "bytes \<Rightarrow> bytes \<Rightarrow> bytes \<Rightarrow> bytes option"
  wc_sha256 :: "bytes \<Rightarrow> bytes"
  wc_pub :: "bytes \<Rightarrow> bytes"
  wc_dh :: "bytes \<Rightarrow> bytes \<Rightarrow> bytes"
  wc_argon2id :: "string \<Rightarrow> bytes \<Rightarrow> nat \<Rightarrow> nat \<Rightarrow> nat \<Rightarrow> nat \<Rightarrow> bytes"
  wc_random :: "nat \<Rightarrow> 'r \<Rightarrow> bytes \<times> 'r"

definition webcrypto_laws :: "'r webcrypto \<Rightarrow> bool" where
  "webcrypto_laws wc \<longleftrightarrow>
     (\<forall>k n p. wc_open wc k n (wc_seal wc k n p) = Some p)
     \<and> (\<forall>k n c p. wc_open wc k n c = Some p \<longrightarrow> c = wc_seal wc k n p)
     \<and> (\<forall>k n p. length (wc_seal wc k n p) = length p + 16)
     \<and> (\<forall>a b. wc_dh wc a (wc_pub wc b) = wc_dh wc b (wc_pub wc a))
     \<and> (\<forall>a. length (wc_pub wc a) = 32) \<and> (\<forall>a b. length (wc_dh wc a b) = 32)
     \<and> (\<forall>b. length (wc_sha256 wc b) = 32)
     \<and> (\<forall>n r. length (fst (wc_random wc n r)) = n)"

text \<open>The errors a helper throws: its own messages, and the rejections of WebCrypto.\<close>

datatype crypto_error =
    BlobTooShort | UnexpectedVersion byte | UnexpectedAlgorithm byte | WrappedTooShort
  | DataError | OperationError

text \<open>\<open>importKey('raw', key, 'AES-GCM')\<close> accepts the AES key lengths only; \<open>decrypt\<close> rejects a
  wrong tag; \<open>deriveBits\<close> rejects an all-zero secret; a raw X25519 public key has 32 bytes.\<close>

definition import_aes :: "bytes \<Rightarrow> crypto_error + bytes" where
  "import_aes k = (if length k \<in> {16, 24, 32} then Inr k else Inl DataError)"

definition aes_gcm_encrypt :: "'r webcrypto \<Rightarrow> bytes \<Rightarrow> bytes \<Rightarrow> bytes \<Rightarrow> crypto_error + bytes" where
  "aes_gcm_encrypt wc k iv p = (case import_aes k of Inl e \<Rightarrow> Inl e | Inr key \<Rightarrow> Inr (wc_seal wc key iv p))"

definition aes_gcm_decrypt :: "'r webcrypto \<Rightarrow> bytes \<Rightarrow> bytes \<Rightarrow> bytes \<Rightarrow> crypto_error + bytes" where
  "aes_gcm_decrypt wc k iv c =
     (case import_aes k of
        Inl e \<Rightarrow> Inl e
      | Inr key \<Rightarrow> (case wc_open wc key iv c of None \<Rightarrow> Inl OperationError | Some p \<Rightarrow> Inr p))"

definition derive_bits :: "'r webcrypto \<Rightarrow> bytes \<Rightarrow> bytes \<Rightarrow> crypto_error + bytes" where
  "derive_bits wc priv pub =
     (if length pub \<noteq> 32 then Inl DataError
      else (let s = wc_dh wc priv pub in if s = replicate 32 0 then Inl OperationError else Inr s))"

subsection \<open>Key derivation\<close>

record KEKParams =
  kp_t :: nat
  kp_m :: nat
  kp_p :: nat
  kp_v :: "nat option"

definition DEFAULT_KEK_PARAMS :: KEKParams where
  "DEFAULT_KEK_PARAMS = \<lparr>kp_t = 3, kp_m = 65536, kp_p = 4, kp_v = Some 19\<rparr>"

definition KEK_LEN :: nat where "KEK_LEN = 32"

definition deriveKEK :: "'r webcrypto \<Rightarrow> string \<Rightarrow> bytes \<Rightarrow> KEKParams \<Rightarrow> bytes" where
  "deriveKEK wc masterPassword salt params =
     wc_argon2id wc masterPassword salt (kp_t params) (kp_m params) (kp_p params) KEK_LEN"

subsection \<open>The versioned blob of the private key\<close>

definition HEADER_LEN :: nat where "HEADER_LEN = 2"
definition NONCE_LEN :: nat where "NONCE_LEN = 12"
definition ALG_AES_GCM :: byte where "ALG_AES_GCM = 1"
definition FORMAT_VERSION :: byte where "FORMAT_VERSION = 1"

definition subarray :: "bytes \<Rightarrow> nat \<Rightarrow> nat \<Rightarrow> bytes" where
  "subarray xs i j = drop i (take j xs)"

definition decryptPrivateKey :: "'r webcrypto \<Rightarrow> bytes \<Rightarrow> bytes \<Rightarrow> crypto_error + bytes" where
  "decryptPrivateKey wc privateKeyEnc kek =
     (if length privateKeyEnc < HEADER_LEN + NONCE_LEN + 16 then Inl BlobTooShort
      else
        (let version = privateKeyEnc ! 0; alg = privateKeyEnc ! 1
         in if version \<noteq> FORMAT_VERSION then Inl (UnexpectedVersion version)
            else if alg \<noteq> ALG_AES_GCM then Inl (UnexpectedAlgorithm alg)
            else
              (let nonce = subarray privateKeyEnc HEADER_LEN (HEADER_LEN + NONCE_LEN);
                   cipherWithTag = drop (HEADER_LEN + NONCE_LEN) privateKeyEnc
               in aes_gcm_decrypt wc kek nonce cipherWithTag)))"

definition encryptPrivateKey ::
    "'r webcrypto \<Rightarrow> bytes \<Rightarrow> bytes \<Rightarrow> 'r \<Rightarrow> (crypto_error + bytes) \<times> 'r" where
  "encryptPrivateKey wc plaintext kek r =
     (let (nonce, r1) = wc_random wc NONCE_LEN r
      in case aes_gcm_encrypt wc kek nonce plaintext of
          Inl e \<Rightarrow> (Inl e, r1)
        | Inr cipherWithTag \<Rightarrow> (Inr ([FORMAT_VERSION, ALG_AES_GCM] @ nonce @ cipherWithTag), r1))"

subsection \<open>Item keys: the X25519 sealed box\<close>

definition X25519_PKCS8_PREFIX :: bytes where
  "X25519_PKCS8_PREFIX = [0x30, 0x2e, 0x02, 0x01, 0x00, 0x30, 0x05, 0x06, 0x03, 0x2b, 0x65, 0x6e,
     0x04, 0x22, 0x04, 0x20]"

definition rawX25519PrivToPkcs8 :: "bytes \<Rightarrow> bytes" where
  "rawX25519PrivToPkcs8 rawKey = X25519_PKCS8_PREFIX @ rawKey"

text \<open>\<open>importKey('pkcs8', ...)\<close>: the fixed header and 32 bytes of key; its export is the inverse.\<close>

definition import_pkcs8 :: "bytes \<Rightarrow> crypto_error + bytes" where
  "import_pkcs8 der =
     (if length der = 48 \<and> take 16 der = X25519_PKCS8_PREFIX then Inr (drop 16 der) else Inl DataError)"

definition generateDEK :: "'r webcrypto \<Rightarrow> 'r \<Rightarrow> bytes \<times> 'r" where
  "generateDEK wc r = wc_random wc 32 r"

definition sealDEK :: "'r webcrypto \<Rightarrow> bytes \<Rightarrow> bytes \<Rightarrow> 'r \<Rightarrow> (crypto_error + bytes \<times> bytes) \<times> 'r" where
  "sealDEK wc dek recipientPublicKey r =
     (let (ephPriv, r1) = wc_random wc 32 r;
          ephPubRaw = wc_pub wc ephPriv
      in case derive_bits wc ephPriv recipientPublicKey of
          Inl e \<Rightarrow> (Inl e, r1)
        | Inr sharedBits \<Rightarrow>
            (let (nonce, r2) = wc_random wc NONCE_LEN r1
             in case aes_gcm_encrypt wc sharedBits nonce dek of
                 Inl e \<Rightarrow> (Inl e, r2)
               | Inr ctWithTag \<Rightarrow> (Inr (ephPubRaw @ ctWithTag, nonce), r2)))"

definition openDEK :: "'r webcrypto \<Rightarrow> bytes \<Rightarrow> bytes \<Rightarrow> bytes \<Rightarrow> crypto_error + bytes" where
  "openDEK wc wrapped nonce privateKey =
     (let ephPubRaw = take 32 wrapped; ctWithTag = drop 32 wrapped
      in if length ephPubRaw \<noteq> 32 then Inl DataError
         else case import_pkcs8 (rawX25519PrivToPkcs8 privateKey) of
             Inl e \<Rightarrow> Inl e
           | Inr priv \<Rightarrow>
               (case derive_bits wc priv ephPubRaw of
                  Inl e \<Rightarrow> Inl e
                | Inr sharedBits \<Rightarrow> aes_gcm_decrypt wc sharedBits nonce ctWithTag))"

definition generateX25519Keypair :: "'r webcrypto \<Rightarrow> 'r \<Rightarrow> (bytes \<times> bytes) \<times> 'r" where
  "generateX25519Keypair wc r =
     (let (priv, r1) = wc_random wc 32 r;
          pkcs8 = X25519_PKCS8_PREFIX @ priv
      in ((wc_pub wc priv, drop (length pkcs8 - 32) pkcs8), r1))"

definition randomKEKSalt :: "'r webcrypto \<Rightarrow> 'r \<Rightarrow> bytes \<times> 'r" where
  "randomKEKSalt wc r = wc_random wc 16 r"

subsection \<open>Item keys: the interim scheme\<close>

text \<open>The wrap key is SHA-256 of the private key, and 32 random bytes stand where the sealed box
  has its ephemeral public key.\<close>

definition sealDEKWithKEK :: "'r webcrypto \<Rightarrow> bytes \<Rightarrow> bytes \<Rightarrow> 'r \<Rightarrow> (crypto_error + bytes \<times> bytes) \<times> 'r" where
  "sealDEKWithKEK wc dek privateKey r =
     (let wrapKeyBits = wc_sha256 wc privateKey;
          (nonce, r1) = wc_random wc 12 r
      in case aes_gcm_encrypt wc wrapKeyBits nonce dek of
          Inl e \<Rightarrow> (Inl e, r1)
        | Inr ctWithTag \<Rightarrow>
            (let (ephPub, r2) = wc_random wc 32 r1 in (Inr (ephPub @ ctWithTag, nonce), r2)))"

definition openDEKWithKEK :: "'r webcrypto \<Rightarrow> bytes \<Rightarrow> bytes \<Rightarrow> bytes \<Rightarrow> crypto_error + bytes" where
  "openDEKWithKEK wc wrapped nonce privateKey =
     (if length wrapped < 32 + 16 then Inl WrappedTooShort
      else
        (let ctWithTag = drop 32 wrapped; wrapKeyBits = wc_sha256 wc privateKey
         in aes_gcm_decrypt wc wrapKeyBits nonce ctWithTag))"

text \<open>The desktop's own pair has no length check.\<close>

definition cl_deriveWrapKey :: "'r webcrypto \<Rightarrow> bytes \<Rightarrow> bytes" where
  "cl_deriveWrapKey wc privateKey = wc_sha256 wc privateKey"

definition cl_sealDEKWithKEK :: "'r webcrypto \<Rightarrow> bytes \<Rightarrow> bytes \<Rightarrow> 'r \<Rightarrow> (crypto_error + bytes \<times> bytes) \<times> 'r" where
  "cl_sealDEKWithKEK wc dek privateKey r =
     (let (nonce, r1) = wc_random wc 12 r
      in case aes_gcm_encrypt wc (cl_deriveWrapKey wc privateKey) nonce dek of
          Inl e \<Rightarrow> (Inl e, r1)
        | Inr ctWithTag \<Rightarrow>
            (let (ephPub, r2) = wc_random wc 32 r1 in (Inr (ephPub @ ctWithTag, nonce), r2)))"

definition cl_openDEKWithKEK :: "'r webcrypto \<Rightarrow> bytes \<Rightarrow> bytes \<Rightarrow> bytes \<Rightarrow> crypto_error + bytes" where
  "cl_openDEKWithKEK wc wrapped nonce privateKey =
     aes_gcm_decrypt wc (cl_deriveWrapKey wc privateKey) nonce (drop 32 wrapped)"

subsection \<open>Field values\<close>

definition encryptField :: "'r webcrypto \<Rightarrow> string \<Rightarrow> bytes \<Rightarrow> 'r \<Rightarrow> (crypto_error + bytes \<times> bytes) \<times> 'r" where
  "encryptField wc v dek r =
     (let (nonce, r1) = wc_random wc NONCE_LEN r
      in case aes_gcm_encrypt wc dek nonce (TextEncoder_encode v) of
          Inl e \<Rightarrow> (Inl e, r1)
        | Inr ct \<Rightarrow> (Inr (ct, nonce), r1))"

definition decryptField :: "'r webcrypto \<Rightarrow> bytes \<Rightarrow> bytes \<Rightarrow> bytes \<Rightarrow> crypto_error + string" where
  "decryptField wc valueEnc valueNonce dek =
     (case aes_gcm_decrypt wc dek valueNonce valueEnc of
        Inl e \<Rightarrow> Inl e
      | Inr pt \<Rightarrow> Inr (TextDecoder_decode pt))"

lemmas crypto_defs = import_aes_def aes_gcm_encrypt_def aes_gcm_decrypt_def derive_bits_def Let_def

lemma laws:
  assumes "webcrypto_laws wc"
  shows "wc_open wc k n (wc_seal wc k n p) = Some p"
    "wc_open wc k n c = Some q \<Longrightarrow> c = wc_seal wc k n q"
    "length (wc_seal wc k n p) = length p + 16"
    "wc_dh wc a (wc_pub wc b) = wc_dh wc b (wc_pub wc a)"
    "length (wc_pub wc a) = 32" "length (wc_dh wc a c) = 32" "length (wc_sha256 wc c) = 32"
    "length (fst (wc_random wc m r)) = m"
    "wc_random wc m r = (bs, r') \<Longrightarrow> length bs = m"
  using assms by (auto simp: webcrypto_laws_def) (metis fst_conv)+

subsection \<open>The contract of a key box\<close>

locale dek_box =
  fixes ok :: "'e \<Rightarrow> bool"
    and lock_key :: "'e \<Rightarrow> bytes \<Rightarrow> bytes"
    and seal :: "'e \<Rightarrow> bytes \<Rightarrow> bytes \<Rightarrow> 'r \<Rightarrow> (crypto_error + bytes \<times> bytes) \<times> 'r"
    and unseal :: "'e \<Rightarrow> bytes \<Rightarrow> bytes \<Rightarrow> bytes \<Rightarrow> crypto_error + bytes"
  assumes unseal_sealed:
      "ok e \<Longrightarrow> length sk = 32 \<Longrightarrow> seal e dek (lock_key e sk) r = (Inr (w, n), r') \<Longrightarrow> unseal e w n sk = Inr dek"
    and sealed_length:
      "ok e \<Longrightarrow> seal e dek k r = (Inr (w, n), r') \<Longrightarrow> length w = length dek + 48 \<and> length n = 12"
begin

text \<open>On the wire both parts travel as base64.\<close>

lemma unseal_from_wire:
  assumes "ok e" and "length sk = 32" and "seal e dek (lock_key e sk) r = (Inr (w, n), r')"
    and "fromBase64 (toBase64 w) = Inr w'" and "fromBase64 (toBase64 n) = Inr n'"
  shows "unseal e w' n' sk = Inr dek"
  using assms(4,5) unseal_sealed [OF assms(1-3)]
  by (simp add: fromBase64_def toBase64_def btoa_sextets atob_sextets)

lemma item_key_is_80_bytes:
  "ok e \<Longrightarrow> length dek = 32 \<Longrightarrow> seal e dek k r = (Inr (w, n), r') \<Longrightarrow> length w = 80 \<and> length n = 12"
  by (drule (1) sealed_length) simp

end

lemma openDEK_sealDEK:
  assumes "webcrypto_laws wc" and "length sk = 32" and "sealDEK wc dek (wc_pub wc sk) r = (Inr (w, n), r')"
  shows "openDEK wc w n sk = Inr dek"
proof -
  obtain eph r1 where e: "wc_random wc 32 r = (eph, r1)" by fastforce
  let ?s = "wc_dh wc eph (wc_pub wc sk)"
  have nz: "?s \<noteq> replicate 32 0"
    using assms(3) e by (auto simp: sealDEK_def derive_bits_def laws(5) [OF assms(1)] Let_def)
  with assms e have w: "w = wc_pub wc eph @ wc_seal wc ?s n dek"
    by (auto simp: sealDEK_def crypto_defs laws(5,6) [OF assms(1)] split: prod.splits)
  have "?s = wc_dh wc sk (wc_pub wc eph)" by (rule laws(4) [OF assms(1)])
  with nz w show ?thesis
    by (simp add: openDEK_def import_pkcs8_def rawX25519PrivToPkcs8_def X25519_PKCS8_PREFIX_def assms(2)
        crypto_defs laws(1,5,6) [OF assms(1)])
qed

lemma sealDEK_length:
  assumes "webcrypto_laws wc" and "sealDEK wc dek k r = (Inr (w, n), r')"
  shows "length w = length dek + 48 \<and> length n = 12"
  using assms(2) laws(9) [OF assms(1)]
  by (auto simp: sealDEK_def crypto_defs laws(3,5) [OF assms(1)] NONCE_LEN_def
      split: prod.splits if_splits)

interpretation x25519_box: dek_box webcrypto_laws wc_pub sealDEK openDEK
  by unfold_locales (fact openDEK_sealDEK, fact sealDEK_length)

lemma sealDEKWithKEK_result:
  assumes "webcrypto_laws wc" and "sealDEKWithKEK wc dek sk r = (Inr (w, n), r')"
  shows "\<exists>eph. length eph = 32 \<and> length n = 12 \<and> w = eph @ wc_seal wc (wc_sha256 wc sk) n dek"
  using assms(2) laws(9) [OF assms(1)]
  by (auto simp: sealDEKWithKEK_def crypto_defs laws(7) [OF assms(1)] split: prod.splits)

lemma cl_sealDEKWithKEK_eq: "cl_sealDEKWithKEK = sealDEKWithKEK"
  by (intro ext) (simp add: cl_sealDEKWithKEK_def sealDEKWithKEK_def cl_deriveWrapKey_def Let_def)

lemma cl_openDEKWithKEK_eq: "48 \<le> length w \<Longrightarrow> cl_openDEKWithKEK wc w n sk = openDEKWithKEK wc w n sk"
  by (simp add: cl_openDEKWithKEK_def openDEKWithKEK_def cl_deriveWrapKey_def Let_def)

interpretation kek_box: dek_box webcrypto_laws "\<lambda>_ sk. sk" sealDEKWithKEK openDEKWithKEK
proof unfold_locales
  fix wc :: "'r webcrypto" and sk dek w n :: bytes and r r' :: 'r
  assume l: "webcrypto_laws wc" and s: "sealDEKWithKEK wc dek sk r = (Inr (w, n), r')"
  obtain eph where "length eph = 32" "length n = 12" "w = eph @ wc_seal wc (wc_sha256 wc sk) n dek"
    using sealDEKWithKEK_result [OF l s] by blast
  then show "openDEKWithKEK wc w n sk = Inr dek" "length w = length dek + 48 \<and> length n = 12"
    by (simp_all add: openDEKWithKEK_def crypto_defs laws(1,3,7) [OF l])
qed

interpretation cl_kek_box: dek_box webcrypto_laws "\<lambda>_ sk. sk" cl_sealDEKWithKEK cl_openDEKWithKEK
proof unfold_locales
  fix wc :: "'r webcrypto" and sk dek w n :: bytes and r r' :: 'r
  assume l: "webcrypto_laws wc" and s: "cl_sealDEKWithKEK wc dek sk r = (Inr (w, n), r')"
  then have s': "sealDEKWithKEK wc dek sk r = (Inr (w, n), r')" by (simp add: cl_sealDEKWithKEK_eq)
  note len = kek_box.sealed_length [OF l s']
  then show "length w = length dek + 48 \<and> length n = 12" .
  assume "length sk = 32"
  from kek_box.unseal_sealed [OF l this s'] len show "cl_openDEKWithKEK wc w n sk = Inr dek"
    by (simp add: cl_openDEKWithKEK_eq)
qed

subsection \<open>Properties\<close>

lemma blob_parts:
  assumes "30 \<le> length b"
  shows "b = [b ! 0, b ! 1] @ subarray b 2 14 @ drop 14 b" "length (subarray b 2 14) = 12"
proof -
  obtain x y zs where "b = x # y # zs"
    using assms by (cases b; cases "tl b") auto
  with assms show "b = [b ! 0, b ! 1] @ subarray b 2 14 @ drop 14 b" "length (subarray b 2 14) = 12"
    by (simp_all add: subarray_def numeral_eq_Suc)
qed

text \<open>
  C19: A private key blob opens exactly when it is one the format describes for that key: version
  1, algorithm 1, a 12 byte nonce and the AES-GCM encryption of the plaintext under the key;
  every other input is an error.
\<close>
theorem decryptPrivateKey_iff:
  assumes "webcrypto_laws wc"
  shows "decryptPrivateKey wc blob kek = Inr p \<longleftrightarrow> length kek \<in> {16, 24, 32}
    \<and> (\<exists>nonce. length nonce = 12 \<and> blob = [FORMAT_VERSION, ALG_AES_GCM] @ nonce @ wc_seal wc kek nonce p)"
proof
  assume d: "decryptPrivateKey wc blob kek = Inr p"
  then have len: "30 \<le> length blob" and h: "blob ! 0 = FORMAT_VERSION" "blob ! 1 = ALG_AES_GCM"
    and k: "length kek \<in> {16, 24, 32}" and o: "wc_open wc kek (subarray blob 2 14) (drop 14 blob) = Some p"
    by (auto simp: decryptPrivateKey_def crypto_defs HEADER_LEN_def NONCE_LEN_def
        split: if_splits option.splits)
  have "drop 14 blob = wc_seal wc kek (subarray blob 2 14) p" by (rule laws(2) [OF assms o])
  with blob_parts [OF len] h k show "length kek \<in> {16, 24, 32}
    \<and> (\<exists>nonce. length nonce = 12 \<and> blob = [FORMAT_VERSION, ALG_AES_GCM] @ nonce @ wc_seal wc kek nonce p)"
    by metis
next
  assume "length kek \<in> {16, 24, 32}
    \<and> (\<exists>nonce. length nonce = 12 \<and> blob = [FORMAT_VERSION, ALG_AES_GCM] @ nonce @ wc_seal wc kek nonce p)"
  then obtain nonce where "length kek \<in> {16, 24, 32}" "length nonce = 12"
    "blob = [FORMAT_VERSION, ALG_AES_GCM] @ nonce @ wc_seal wc kek nonce p" by blast
  then show "decryptPrivateKey wc blob kek = Inr p"
    by (auto simp: decryptPrivateKey_def crypto_defs HEADER_LEN_def NONCE_LEN_def subarray_def
        laws(1,3) [OF assms])
qed

lemma encryptPrivateKey_shape:
  assumes "webcrypto_laws wc" and "encryptPrivateKey wc p kek r = (Inr blob, r')"
  shows "length kek \<in> {16, 24, 32} \<and> (\<exists>nonce. length nonce = 12
     \<and> blob = [FORMAT_VERSION, ALG_AES_GCM] @ nonce @ wc_seal wc kek nonce p)"
proof -
  obtain nonce r1 where "wc_random wc 12 r = (nonce, r1)" by fastforce
  moreover from this have "length nonce = 12" by (rule laws(9) [OF assms(1)])
  ultimately show ?thesis
    using assms(2) by (auto simp: encryptPrivateKey_def crypto_defs NONCE_LEN_def split: if_splits)
qed

text \<open>
  C14: An item key sealed for a public key opens with the matching private key, and one sealed
  with the interim scheme opens with the same private key, in the web and in the desktop
  implementation alike; both wrap a 32 byte key into 80 bytes and a 12 byte nonce.
\<close>
theorem sealed_item_key_opens:
  assumes "webcrypto_laws wc" and "length privateKey = 32" and "length dek = 32"
    and "sealDEK wc dek (wc_pub wc privateKey) r = (Inr (boxed, boxNonce), r1)"
    and "sealDEKWithKEK wc dek privateKey r = (Inr (wrapped, wrapNonce), r2)"
  shows "openDEK wc boxed boxNonce privateKey = Inr dek
    \<and> openDEKWithKEK wc wrapped wrapNonce privateKey = Inr dek
    \<and> cl_openDEKWithKEK wc wrapped wrapNonce privateKey = Inr dek
    \<and> cl_sealDEKWithKEK wc dek privateKey r = (Inr (wrapped, wrapNonce), r2)
    \<and> length boxed = 80 \<and> length wrapped = 80 \<and> length boxNonce = 12 \<and> length wrapNonce = 12"
proof -
  have c: "cl_sealDEKWithKEK wc dek privateKey r = (Inr (wrapped, wrapNonce), r2)"
    using assms(5) by (simp add: cl_sealDEKWithKEK_eq)
  show ?thesis
    using x25519_box.unseal_sealed [OF assms(1,2,4)] kek_box.unseal_sealed [OF assms(1,2,5)]
      cl_kek_box.unseal_sealed [OF assms(1,2) c] c x25519_box.item_key_is_80_bytes [OF assms(1,3,4)]
      kek_box.item_key_is_80_bytes [OF assms(1,3,5)] by blast
qed

text \<open>
  The two schemes do not mix: a key sealed with \<open>sealDEK\<close>, as the import page and the share
  dialog do, does not open with \<open>openDEKWithKEK\<close>, which the item pages use, unless the two wrap
  keys happen to encrypt to the same bytes.
\<close>
theorem boxed_key_fails_on_item_pages:
  assumes "webcrypto_laws wc" and "wc_random wc 32 r = (eph, r1)"
    and "sealDEK wc dek (wc_pub wc privateKey) r = (Inr (wrapped, nonce), r')"
    and "\<forall>p. wc_seal wc (wc_sha256 wc privateKey) nonce p
           \<noteq> wc_seal wc (wc_dh wc eph (wc_pub wc privateKey)) nonce dek"
  shows "openDEKWithKEK wc wrapped nonce privateKey = Inl OperationError"
proof -
  have w: "wrapped = wc_pub wc eph @ wc_seal wc (wc_dh wc eph (wc_pub wc privateKey)) nonce dek"
    using assms(2,3) by (auto simp: sealDEK_def crypto_defs split: prod.splits if_splits)
  have "wc_open wc (wc_sha256 wc privateKey) nonce (wc_seal wc (wc_dh wc eph (wc_pub wc privateKey)) nonce dek) = None"
    using laws(2) [OF assms(1)] assms(4) by (metis not_Some_eq)
  with w show ?thesis
    by (simp add: openDEKWithKEK_def crypto_defs laws(3,5,7) [OF assms(1)])
qed

text \<open>
  A field value comes back from encryption under the item's key unchanged, whatever
  characters it holds, except that a leading byte order mark is lost.
\<close>
theorem field_value_roundtrip:
  assumes "webcrypto_laws wc" and "length dek = 32" and "\<forall>c\<in>set cs. is_scalar c"
  shows "\<exists>ct nonce r'. encryptField wc (utf8_text cs) dek r = (Inr (ct, nonce), r') \<and> length nonce = 12
    \<and> decryptField wc ct nonce dek
        = Inr (utf8_text (case cs of c # cs' \<Rightarrow> if c = 0xFEFF then cs' else cs | [] \<Rightarrow> []))"
proof -
  obtain nonce r1 where n: "wc_random wc 12 r = (nonce, r1)" by fastforce
  then have "length nonce = 12" by (rule laws(9) [OF assms(1)])
  with n assms(2) show ?thesis
    by (simp add: encryptField_def decryptField_def crypto_defs NONCE_LEN_def laws(1) [OF assms(1)]
        decode_encode [OF assms(3)])
qed

subsection \<open>A concrete instance\<close>

text \<open>A checksum in place of the tag and byte-wise addition in place of the curve satisfy the laws
  and let every operation run.\<close>

definition pad_to :: "nat \<Rightarrow> bytes \<Rightarrow> bytes" where
  "pad_to n bs = take n (bs @ replicate n 0)"

definition toy_crypto :: "nat webcrypto" where
  "toy_crypto = \<lparr>wc_seal = (\<lambda>k n p. p @ pad_to 16 k),
     wc_open = (\<lambda>k n c. if 16 \<le> length c \<and> drop (length c - 16) c = pad_to 16 k
        then Some (take (length c - 16) c) else None),
     wc_sha256 = (\<lambda>b. pad_to 32 (1 # b)), wc_pub = pad_to 32,
     wc_dh = (\<lambda>a b. map2 (+) (pad_to 32 a) (pad_to 32 b)),
     wc_argon2id = (\<lambda>pw s t m p n. pad_to n (s @ bytes_of pw)),
     wc_random = (\<lambda>n r. (replicate n (of_nat r), Suc r))\<rparr>"

lemma length_pad_to [simp]: "length (pad_to n bs) = n"
  by (simp add: pad_to_def)

lemma pad_to_pad_to [simp]: "pad_to n (pad_to n bs) = pad_to n bs"
  by (simp add: pad_to_def)

lemma pad_to_full [simp]: "length bs = n \<Longrightarrow> pad_to n bs = bs"
  by (simp add: pad_to_def)

lemma toy_laws: "webcrypto_laws toy_crypto"
proof -
  have a: "map2 (+) a b = map2 (+) b a" if "length a = length b" for a b :: bytes
    using that by (induction a b rule: list_induct2) (simp_all add: add.commute)
  have b: "take (length c - 16) c @ pad_to 16 k = c" if "16 \<le> length c" "drop (length c - 16) c = pad_to 16 k"
    for c k :: bytes
    using that by (metis append_take_drop_id)
  show ?thesis
    unfolding webcrypto_laws_def toy_crypto_def
    by (auto intro!: a b simp: b split: if_splits)
qed

lemma toy_random [simp]: "wc_random toy_crypto n r = (replicate n (of_nat r), Suc r)"
  by (simp add: toy_crypto_def)

lemma decryptPrivateKey_iff_witness:
  "decryptPrivateKey toy_crypto ([FORMAT_VERSION, ALG_AES_GCM] @ replicate 12 5 @ wc_seal toy_crypto (replicate 32 9) (replicate 12 5) [1, 2])
     (replicate 32 9) = Inr [1, 2]"
  by (subst decryptPrivateKey_iff [OF toy_laws]) (auto intro: exI [where x = "replicate 12 5"])

lemma toy_shared: "wc_dh toy_crypto (replicate 32 1) (wc_pub toy_crypto (replicate 32 7)) = replicate 32 8"
  by (simp add: toy_crypto_def)

lemma toy_box:
  "sealDEK toy_crypto (replicate 32 3) (wc_pub toy_crypto (replicate 32 7)) 1
     = (Inr (replicate 32 1 @ replicate 32 3 @ replicate 16 8, replicate 12 2), 3)"
proof -
  have "(replicate 32 8 :: bytes) \<noteq> replicate 32 0" by simp
  then show ?thesis
    using toy_shared by (simp add: sealDEK_def crypto_defs laws(5) [OF toy_laws] NONCE_LEN_def)
      (simp add: toy_crypto_def pad_to_def numeral_eq_Suc)
qed

lemma sealed_item_key_opens_witness:
  "\<exists>w n. fst (sealDEKWithKEK toy_crypto (replicate 32 3) (replicate 32 7) 1) = Inr (w, n)
     \<and> openDEKWithKEK toy_crypto w n (replicate 32 7) = Inr (replicate 32 3)"
proof -
  obtain w n r2 where e: "sealDEKWithKEK toy_crypto (replicate 32 3) (replicate 32 7) 1 = (Inr (w, n), r2)"
    by (simp add: sealDEKWithKEK_def crypto_defs laws(7) [OF toy_laws])
  from sealed_item_key_opens [OF toy_laws _ _ toy_box e] e show ?thesis by simp
qed

lemma boxed_key_fails_on_item_pages_witness:
  "openDEKWithKEK toy_crypto (replicate 32 1 @ replicate 32 3 @ replicate 16 8) (replicate 12 2) (replicate 32 7)
     = Inl OperationError"
proof (rule boxed_key_fails_on_item_pages [OF toy_laws _ toy_box])
  show "wc_random toy_crypto 32 1 = (replicate 32 1, 2)" by simp
  have "pad_to 16 (pad_to 32 (1 # replicate 32 7)) \<noteq> pad_to 16 (replicate 32 8 :: bytes)"
    by (simp add: pad_to_def numeral_eq_Suc)
  then show "\<forall>p. wc_seal toy_crypto (wc_sha256 toy_crypto (replicate 32 7)) (replicate 12 2) p
      \<noteq> wc_seal toy_crypto (wc_dh toy_crypto (replicate 32 1) (wc_pub toy_crypto (replicate 32 7))) (replicate 12 2) (replicate 32 3)"
    unfolding toy_shared by (auto simp: toy_crypto_def)
qed

lemma field_value_roundtrip_witness:
  "\<exists>ct nonce r'. encryptField toy_crypto (utf8_text [0x15F, 0x1F511]) (replicate 32 9) 5 = (Inr (ct, nonce), r')
     \<and> decryptField toy_crypto ct nonce (replicate 32 9) = Inr (utf8_text [0x15F, 0x1F511])"
  using field_value_roundtrip [OF toy_laws, of "replicate 32 9" "[0x15F, 0x1F511]" 5]
  by (auto simp: is_scalar_def)

end
