(* ===== verification/AuthStore.thy ===== *)
theory AuthStore
  imports Crypto ApiClient
begin

text \<open>
  The session of the web application: the auth store (\<open>web/src/store/auth.ts\<close>), the silent
  restore at boot and the logout listener (\<open>HydrateBoot\<close> and \<open>AuthEventBridge\<close> in
  \<open>web/src/App.tsx\<close>) and the route gates (\<open>web/src/routes/auth-gate.tsx\<close>).

  Key material lives in byte arrays that other code may share, so the store holds references
  into an explicit heap: \<open>clear()\<close> overwrites the arrays themselves.
\<close>

subsection \<open>Byte arrays\<close>

record 'r buffers =
  bf_heap :: "nat \<Rightarrow> bytes option"
  bf_next :: nat
  bf_rng :: 'r

definition no_buffers :: "'r \<Rightarrow> 'r buffers" where
  "no_buffers rng = \<lparr>bf_heap = Map.empty, bf_next = 0, bf_rng = rng\<rparr>"

definition alloc :: "bytes \<Rightarrow> 'r buffers \<Rightarrow> nat \<times> 'r buffers" where
  "alloc bs b = (bf_next b, b\<lparr>bf_heap := (bf_heap b)(bf_next b \<mapsto> bs), bf_next := bf_next b + 1\<rparr>)"

text \<open>\<open>if (buf) buf.fill(0)\<close>.\<close>

definition fill_zero :: "nat option \<Rightarrow> 'r buffers \<Rightarrow> 'r buffers" where
  "fill_zero r b =
     (case r of
        None \<Rightarrow> b
      | Some i \<Rightarrow> (case bf_heap b i of
            None \<Rightarrow> b
          | Some bs \<Rightarrow> b\<lparr>bf_heap := (bf_heap b)(i \<mapsto> replicate (length bs) 0)\<rparr>))"

definition all_zero :: "bytes \<Rightarrow> bool" where
  "all_zero bs \<longleftrightarrow> list_all (\<lambda>x. x = 0) bs"

subsection \<open>The store\<close>

record auth_state =
  au_user :: "SessionUser option"
  au_accessToken :: "string option"
  au_kek :: "nat option"
  au_privateKey :: "nat option"
  au_hydrating :: bool
  au_isBootstrap :: bool
  au_mustChangePassword :: bool
  au_mustSetupTOTP :: bool

definition initial_auth :: auth_state where
  "initial_auth = \<lparr>au_user = None, au_accessToken = None, au_kek = None, au_privateKey = None,
     au_hydrating = True, au_isBootstrap = False, au_mustChangePassword = False, au_mustSetupTOTP = False\<rparr>"

text \<open>The application: tokens, network and log of the fetch wrapper, the store, the byte arrays.\<close>

record ('w, 'r) web_app =
  ap_env :: "'w web_env"
  ap_auth :: auth_state
  ap_buf :: "'r buffers"

definition on_tokens :: "(token_state \<Rightarrow> token_state) \<Rightarrow> ('w, 'r) web_app \<Rightarrow> ('w, 'r) web_app" where
  "on_tokens f app = app\<lparr>ap_env := (ap_env app)\<lparr>we_tokens := f (we_tokens (ap_env app))\<rparr>\<rparr>"

abbreviation (input) app_tokens :: "('w, 'r) web_app \<Rightarrow> token_state" where
  "app_tokens app \<equiv> we_tokens (ap_env app)"

record SessionInput =
  si_user :: SessionUser
  si_accessToken :: string
  si_refreshToken :: string
  si_mustChangePassword :: "bool option"
  si_mustSetupTOTP :: "bool option"

definition sync_session :: "SessionInput \<Rightarrow> bool \<Rightarrow> token_state \<Rightarrow> token_state" where
  "sync_session si bootstrap ts =
     setPersistedSession
       (Some \<lparr>ps_user = si_user si, ps_mustChangePassword = Some (nullish (si_mustChangePassword si) False),
              ps_mustSetupTOTP = Some (nullish (si_mustSetupTOTP si) False), ps_isBootstrap = Some bootstrap\<rparr>)
       (setRefreshToken (Some (si_refreshToken si)) (setAccessToken (Some (si_accessToken si)) ts))"

definition setSession :: "SessionInput \<Rightarrow> nat \<Rightarrow> nat \<Rightarrow> ('w, 'r) web_app \<Rightarrow> ('w, 'r) web_app" where
  "setSession si kek privateKey app =
     (on_tokens (sync_session si False) app)
       \<lparr>ap_auth := \<lparr>au_user = Some (si_user si), au_accessToken = Some (si_accessToken si),
          au_kek = Some kek, au_privateKey = Some privateKey, au_hydrating = False, au_isBootstrap = False,
          au_mustChangePassword = nullish (si_mustChangePassword si) False,
          au_mustSetupTOTP = nullish (si_mustSetupTOTP si) False\<rparr>\<rparr>"

subsection \<open>The per-user key of bootstrap sessions\<close>

definition bootstrap_storage_key :: "SessionUser \<Rightarrow> string" where
  "bootstrap_storage_key u = ''envanter-bootstrap-pk:'' @ user_id u"

text \<open>A new random key is stored as base64; \<open>setItem\<close> is not guarded, so it can throw.\<close>

definition mint_bootstrap_key ::
    "('r \<Rightarrow> bytes \<times> 'r) \<Rightarrow> string \<Rightarrow> local_storage \<Rightarrow> 'r \<Rightarrow> (unit + bytes \<times> local_storage) \<times> 'r" where
  "mint_bootstrap_key random32 k ls rng =
     (let (key, rng') = random32 rng
      in (case setItem ls k (Text (btoa key)) of Inl e \<Rightarrow> Inl e | Inr ls' \<Rightarrow> Inr (key, ls'), rng'))"

definition bootstrap_key ::
    "('r \<Rightarrow> bytes \<times> 'r) \<Rightarrow> string \<Rightarrow> local_storage \<Rightarrow> 'r \<Rightarrow> (unit + bytes \<times> local_storage) \<times> 'r" where
  "bootstrap_key random32 k ls rng =
     (case getItem ls k of
        Inl e \<Rightarrow> (Inl e, rng)
      | Inr v \<Rightarrow>
          (let stored = Option.bind v text_of
           in if truthy stored then
                (case atob (the stored) of
                   Inr key \<Rightarrow> (Inr (key, ls), rng)
                 | Inl _ \<Rightarrow> mint_bootstrap_key random32 k ls rng)
              else mint_bootstrap_key random32 k ls rng))"

text \<open>\<open>Inl\<close> is a call that throws: the tokens are already written, the store is not.\<close>

definition setBootstrapSession ::
    "('r \<Rightarrow> bytes \<times> 'r) \<Rightarrow> SessionInput \<Rightarrow> ('w, 'r) web_app \<Rightarrow> (unit + unit) \<times> ('w, 'r) web_app" where
  "setBootstrapSession random32 si app =
     (let app1 = on_tokens (sync_session si True) app;
          (r, rng) = bootstrap_key random32 (bootstrap_storage_key (si_user si))
                       (storage (app_tokens app1)) (bf_rng (ap_buf app1));
          app2 = app1\<lparr>ap_buf := (ap_buf app1)\<lparr>bf_rng := rng\<rparr>\<rparr>
      in case r of
          Inl e \<Rightarrow> (Inl e, app2)
        | Inr (key, ls) \<Rightarrow>
            (let (i, buf) = alloc key (ap_buf app2)
             in (Inr (), (on_tokens (\<lambda>ts. ts\<lparr>storage := ls\<rparr>) app2)
                  \<lparr>ap_buf := buf,
                   ap_auth := \<lparr>au_user = Some (si_user si), au_accessToken = Some (si_accessToken si),
                     au_kek = None, au_privateKey = Some i, au_hydrating = False, au_isBootstrap = True,
                     au_mustChangePassword = nullish (si_mustChangePassword si) False,
                     au_mustSetupTOTP = nullish (si_mustSetupTOTP si) False\<rparr>\<rparr>)))"

text \<open>The key a restored bootstrap session finds: none when absent or corrupt.\<close>

definition stored_bootstrap_key :: "bool option \<Rightarrow> string \<Rightarrow> local_storage \<Rightarrow> unit + bytes option" where
  "stored_bootstrap_key isBootstrap k ls =
     (if isBootstrap \<noteq> Some True then Inr None
      else case getItem ls k of
          Inl e \<Rightarrow> Inl e
        | Inr v \<Rightarrow>
            (let stored = Option.bind v text_of
             in if truthy stored then Inr (case atob (the stored) of Inl _ \<Rightarrow> None | Inr key \<Rightarrow> Some key)
                else Inr None))"

definition restoreSession ::
    "PersistedSession \<Rightarrow> string option \<Rightarrow> ('w, 'r) web_app \<Rightarrow> (unit + unit) \<times> ('w, 'r) web_app" where
  "restoreSession s accessToken app =
     (let app1 = on_tokens (setAccessToken accessToken) app
      in case stored_bootstrap_key (ps_isBootstrap s) (bootstrap_storage_key (ps_user s))
                (storage (app_tokens app1)) of
          Inl e \<Rightarrow> (Inl e, app1)
        | Inr found \<Rightarrow>
            (let (privateKey, buf) =
                   (case found of
                      None \<Rightarrow> (None, ap_buf app1)
                    | Some key \<Rightarrow> (let (i, b) = alloc key (ap_buf app1) in (Some i, b)))
             in (Inr (), app1
                  \<lparr>ap_buf := buf,
                   ap_auth := \<lparr>au_user = Some (ps_user s), au_accessToken = accessToken,
                     au_kek = None, au_privateKey = privateKey, au_hydrating = False,
                     au_isBootstrap = nullish (ps_isBootstrap s) False,
                     au_mustChangePassword = nullish (ps_mustChangePassword s) False,
                     au_mustSetupTOTP = nullish (ps_mustSetupTOTP s) False\<rparr>\<rparr>)))"

subsection \<open>The remaining actions and the selectors\<close>

definition clearMustChangePassword :: "('w, 'r) web_app \<Rightarrow> ('w, 'r) web_app" where
  "clearMustChangePassword app = app\<lparr>ap_auth := (ap_auth app)\<lparr>au_mustChangePassword := False\<rparr>\<rparr>"

definition clearMustSetupTOTP :: "('w, 'r) web_app \<Rightarrow> ('w, 'r) web_app" where
  "clearMustSetupTOTP app = app\<lparr>ap_auth := (ap_auth app)\<lparr>au_mustSetupTOTP := False\<rparr>\<rparr>"

definition store_setAccessToken :: "string \<Rightarrow> string \<Rightarrow> ('w, 'r) web_app \<Rightarrow> ('w, 'r) web_app" where
  "store_setAccessToken token refreshToken app =
     (let app1 = on_tokens (\<lambda>ts. setRefreshToken (Some refreshToken) (setAccessToken (Some token) ts)) app
      in app1\<lparr>ap_auth := (ap_auth app1)\<lparr>au_accessToken := Some token\<rparr>\<rparr>)"

definition setHydrating :: "bool \<Rightarrow> ('w, 'r) web_app \<Rightarrow> ('w, 'r) web_app" where
  "setHydrating v app = app\<lparr>ap_auth := (ap_auth app)\<lparr>au_hydrating := v\<rparr>\<rparr>"

definition clear_session :: "('w, 'r) web_app \<Rightarrow> ('w, 'r) web_app" where
  "clear_session app =
     (on_tokens clearAllTokens app)
       \<lparr>ap_buf := fill_zero (au_privateKey (ap_auth app)) (fill_zero (au_kek (ap_auth app)) (ap_buf app)),
        ap_auth := \<lparr>au_user = None, au_accessToken = None, au_kek = None, au_privateKey = None,
          au_hydrating = False, au_isBootstrap = False, au_mustChangePassword = False,
          au_mustSetupTOTP = False\<rparr>\<rparr>"

definition selectIsAuthenticated :: "auth_state \<Rightarrow> bool" where
  "selectIsAuthenticated s \<longleftrightarrow> au_user s \<noteq> None \<and> au_accessToken s \<noteq> None"

definition selectHasRole :: "string \<Rightarrow> auth_state \<Rightarrow> bool" where
  "selectHasRole role s \<longleftrightarrow> (case au_user s of None \<Rightarrow> False | Some u \<Rightarrow> role \<in> set (roles u))"

definition selectIsAdmin :: "auth_state \<Rightarrow> bool" where
  "selectIsAdmin s \<longleftrightarrow> (case au_user s of None \<Rightarrow> False | Some u \<Rightarrow> ''admin'' \<in> set (roles u))"

definition selectIsBootstrap :: "auth_state \<Rightarrow> bool" where
  "selectIsBootstrap s \<longleftrightarrow> au_isBootstrap s"

subsection \<open>Boot and logout (\<open>App.tsx\<close>)\<close>

fun falsy :: "json \<Rightarrow> bool" where
  "falsy JNull = True"
| "falsy (JBool b) = (\<not> b)"
| "falsy (JNum n) = (n = 0)"
| "falsy (JStr s) = (s = [])"
| "falsy _ = False"

definition stop_splash :: "bool \<Rightarrow> ('w, 'r) web_app \<Rightarrow> ('w, 'r) web_app" where
  "stop_splash cancelled app = (if cancelled then app else setHydrating False app)"

definition HydrateBoot :: "'w net \<Rightarrow> bool \<Rightarrow> ('w, 'r) web_app \<Rightarrow> ('w, 'r) web_app" where
  "HydrateBoot net cancelled app =
     (case (getRefreshToken (app_tokens app), getPersistedSession (app_tokens app)) of
        (Some refreshToken, Some session) \<Rightarrow>
          if refreshToken = [] then setHydrating False app
          else
            (case do_fetch net (refresh_request refreshToken) (ap_env app) of
               (NetworkFailure m, env1) \<Rightarrow> stop_splash cancelled (app\<lparr>ap_env := env1\<rparr>)
             | (Response res, env1) \<Rightarrow>
                 (let app1 = app\<lparr>ap_env := env1\<rparr>
                  in if \<not> rs_ok res then stop_splash cancelled (on_tokens clearAllTokens app1)
                     else case rs_json res of
                         None \<Rightarrow> stop_splash cancelled app1
                       | Some body \<Rightarrow>
                           if falsy body \<or> cancelled then app1
                           else (case restoreSession session (json_str_field body ''access_token'')
                                        (on_tokens (rotate_tokens body) app1) of
                               (Inr _, app2) \<Rightarrow> app2
                             | (Inl _, app2) \<Rightarrow> stop_splash cancelled app2)))
      | _ \<Rightarrow> setHydrating False app)"

text \<open>A page load: the module state is fresh, \<open>localStorage\<close> stays.\<close>

definition reload :: "('w, 'r) web_app \<Rightarrow> ('w, 'r) web_app" where
  "reload app = (on_tokens (\<lambda>ts. ts\<lparr>accessTokenInMemory := None\<rparr>) app)
     \<lparr>ap_auth := initial_auth, ap_buf := no_buffers (bf_rng (ap_buf app))\<rparr>"

text \<open>The listener on \<open>auth:logout\<close>: the new application state and where it navigates.\<close>

definition AuthEventBridge_handler :: "('w, 'r) web_app \<Rightarrow> ('w, 'r) web_app \<times> string" where
  "AuthEventBridge_handler app = (clear_session app, ''/login'')"

subsection \<open>Gates and routes\<close>

datatype gate = Splash | NavigateTo string | Outlet

definition AuthGate :: "auth_state \<Rightarrow> gate" where
  "AuthGate s = (if au_hydrating s then Splash
     else if \<not> selectIsAuthenticated s then NavigateTo ''/login'' else Outlet)"

definition MustChangePasswordGate :: "auth_state \<Rightarrow> gate" where
  "MustChangePasswordGate s = (if au_mustChangePassword s then NavigateTo ''/change-password'' else Outlet)"

definition MustSetupTOTPGate :: "auth_state \<Rightarrow> gate" where
  "MustSetupTOTPGate s = (if au_mustSetupTOTP s then NavigateTo ''/totp/setup'' else Outlet)"

definition RoleGate :: "string \<Rightarrow> auth_state \<Rightarrow> gate" where
  "RoleGate role s = (if \<not> selectHasRole role s then NavigateTo ''/inventory'' else Outlet)"

text \<open>A nested route shows the first gate that does not let it through.\<close>

fun through :: "gate list \<Rightarrow> gate" where
  "through [] = Outlet"
| "through (g # gs) = (if g = Outlet then through gs else g)"

datatype route = PublicRoute | ChangePasswordRoute | AppRoute | AdminRoute

fun app_routes :: "route \<Rightarrow> auth_state \<Rightarrow> gate" where
  "app_routes PublicRoute s = Outlet"
| "app_routes ChangePasswordRoute s = through [AuthGate s]"
| "app_routes AppRoute s = through [AuthGate s, MustChangePasswordGate s, MustSetupTOTPGate s]"
| "app_routes AdminRoute s =
     through [AuthGate s, MustChangePasswordGate s, MustSetupTOTPGate s, RoleGate ''admin'' s]"

lemmas gate_defs = AuthGate_def MustChangePasswordGate_def MustSetupTOTPGate_def RoleGate_def
  selectIsAuthenticated_def selectHasRole_def

lemmas store_defs = setSession_def setBootstrapSession_def restoreSession_def clear_session_def
  clearMustChangePassword_def clearMustSetupTOTP_def store_setAccessToken_def setHydrating_def
  on_tokens_def stop_splash_def

subsection \<open>Storage facts\<close>

lemma bootstrap_key_other [simp]:
  "bootstrap_storage_key u \<noteq> REFRESH_KEY" "bootstrap_storage_key u \<noteq> SESSION_KEY"
  "REFRESH_KEY \<noteq> bootstrap_storage_key u" "SESSION_KEY \<noteq> bootstrap_storage_key u"
  by (simp_all add: bootstrap_storage_key_def REFRESH_KEY_def SESSION_KEY_def)

lemma sync_session_facts:
  assumes "tokens_storable ts"
  shows "getAccessToken (sync_session si b ts) = Some (si_accessToken si)"
    "getRefreshToken (sync_session si b ts) = Some (si_refreshToken si)"
    "getPersistedSession (sync_session si b ts) = Some \<lparr>ps_user = si_user si,
       ps_mustChangePassword = Some (nullish (si_mustChangePassword si) False),
       ps_mustSetupTOTP = Some (nullish (si_mustSetupTOTP si) False), ps_isBootstrap = Some b\<rparr>"
    "tokens_storable (sync_session si b ts)"
  using assms web_tokens.rotate [OF assms]
  by (simp_all add: sync_session_def persisted_session_frame persisted_session_roundtrip)

lemma reload_tokens:
  "getRefreshToken (ts\<lparr>accessTokenInMemory := a\<rparr>) = getRefreshToken ts"
  "getPersistedSession (ts\<lparr>accessTokenInMemory := a\<rparr>) = getPersistedSession ts"
  "tokens_storable (ts\<lparr>accessTokenInMemory := a\<rparr>) = tokens_storable ts"
  "storage (ts\<lparr>accessTokenInMemory := a\<rparr>) = storage ts"
  by (simp_all add: token_defs tokens_storable_def)

lemma sync_session_other_keys:
  "k \<noteq> REFRESH_KEY \<Longrightarrow> k \<noteq> SESSION_KEY \<Longrightarrow>
     ls_items (storage (sync_session si b ts)) k = ls_items (storage ts) k"
  "ls_can_read (storage (sync_session si b ts)) = ls_can_read (storage ts)"
  "ls_can_write (storage (sync_session si b ts)) = ls_can_write (storage ts)"
  by (auto simp: sync_session_def token_defs storage_defs)

lemma clearAllTokens_other_keys:
  "k \<noteq> REFRESH_KEY \<Longrightarrow> k \<noteq> SESSION_KEY \<Longrightarrow>
     ls_items (storage (clearAllTokens ts)) k = ls_items (storage ts) k"
  "ls_can_read (storage (clearAllTokens ts)) = ls_can_read (storage ts)"
  "ls_can_write (storage (clearAllTokens ts)) = ls_can_write (storage ts)"
  by (auto simp: token_defs storage_defs)

lemma HydrateBoot_idle:
  assumes "getRefreshToken (app_tokens app) = None \<or> getPersistedSession (app_tokens app) = None"
  shows "HydrateBoot net c app = setHydrating False app"
  using assms by (auto simp: HydrateBoot_def split: option.splits)

lemma fill_zero_zeroes:
  "bf_heap (fill_zero (Some i) b) i = Some bs \<Longrightarrow> all_zero bs"
  "bf_heap (fill_zero r b) j = Some bs \<Longrightarrow> bf_heap b j = Some bs \<or> all_zero bs"
  by (auto simp: fill_zero_def all_zero_def list_all_iff split: option.splits if_splits)

lemma fill_zero_keeps_zero:
  "bf_heap (fill_zero r (fill_zero (Some i) b)) i = Some bs \<Longrightarrow> all_zero bs"
  using fill_zero_zeroes by blast

subsection \<open>Properties\<close>

text \<open>
  C6: A logout, as the \<open>auth:logout\<close> listener does it, ends the session completely: the user is
  sent to the login page by every gate, the tokens and the persisted session are gone, the
  arrays that held the key encryption key and the private key are overwritten with zeros for
  everybody who still shares them, and the next page load sends nothing and stays logged out.
\<close>
theorem logout_wipes_session:
  assumes "tokens_storable (app_tokens app)" and "AuthEventBridge_handler app = (app', target)"
  shows "target = ''/login'' \<and> \<not> selectIsAuthenticated (ap_auth app')
    \<and> (r \<noteq> PublicRoute \<longrightarrow> app_routes r (ap_auth app') = NavigateTo ''/login'')
    \<and> getAccessToken (app_tokens app') = None \<and> getRefreshToken (app_tokens app') = None
    \<and> getPersistedSession (app_tokens app') = None
    \<and> (\<forall>i bs. Some i \<in> {au_kek (ap_auth app), au_privateKey (ap_auth app)}
          \<longrightarrow> bf_heap (ap_buf app') i = Some bs \<longrightarrow> all_zero bs)
    \<and> HydrateBoot net c (reload app') = setHydrating False (reload app')
    \<and> (r \<noteq> PublicRoute \<longrightarrow> app_routes r (ap_auth (HydrateBoot net c (reload app'))) = NavigateTo ''/login'')"
proof -
  have app': "app' = clear_session app" and t: "target = ''/login''"
    using assms(2) by (auto simp: AuthEventBridge_handler_def)
  have tok: "getAccessToken (app_tokens app') = None" "getRefreshToken (app_tokens app') = None"
    "getPersistedSession (app_tokens app') = None"
    using web_tokens.logout [OF assms(1)] clearAllTokens_session [OF assms(1)]
    by (simp_all add: app' clear_session_def on_tokens_def)
  have zero: "all_zero bs" if "Some i \<in> {au_kek (ap_auth app), au_privateKey (ap_auth app)}"
    "bf_heap (ap_buf app') i = Some bs" for i bs
  proof (cases "au_privateKey (ap_auth app) = Some i")
    case True
    with that show ?thesis by (auto simp: app' clear_session_def dest: fill_zero_zeroes(1))
  next
    case False
    with that(1) have "au_kek (ap_auth app) = Some i" by auto
    with that(2) show ?thesis by (auto simp: app' clear_session_def dest: fill_zero_keeps_zero)
  qed
  have boot: "HydrateBoot net c (reload app') = setHydrating False (reload app')"
    using tok by (intro HydrateBoot_idle) (simp add: reload_def on_tokens_def reload_tokens)
  have gates: "r \<noteq> PublicRoute \<longrightarrow> app_routes r (ap_auth app') = NavigateTo ''/login''"
    "r \<noteq> PublicRoute \<longrightarrow> app_routes r (ap_auth (setHydrating False (reload app'))) = NavigateTo ''/login''"
    by (cases r; simp add: app' store_defs gate_defs reload_def initial_auth_def)+
  show ?thesis
    using t tok zero boot gates by (auto simp: app' store_defs gate_defs)
qed

lemma stored_bootstrap_key_readable:
  "ls_can_read ls \<Longrightarrow> \<exists>found. stored_bootstrap_key b k ls = Inr found \<and> (b \<noteq> Some True \<longrightarrow> found = None)"
  by (cases "b = Some True"; cases "truthy (Option.bind (ls_items ls k) text_of)")
    (simp_all add: stored_bootstrap_key_def getItem_def Let_def)

lemma restoreSession_readable:
  assumes "ls_can_read (storage (app_tokens app))"
  shows "\<exists>app2. restoreSession s a app = (Inr (), app2)
    \<and> (\<exists>pk. ap_auth app2 = \<lparr>au_user = Some (ps_user s), au_accessToken = a, au_kek = None,
          au_privateKey = pk, au_hydrating = False, au_isBootstrap = nullish (ps_isBootstrap s) False,
          au_mustChangePassword = nullish (ps_mustChangePassword s) False,
          au_mustSetupTOTP = nullish (ps_mustSetupTOTP s) False\<rparr>
        \<and> (ps_isBootstrap s \<noteq> Some True \<longrightarrow> pk = None))
    \<and> app_tokens app2 = setAccessToken a (app_tokens app)"
proof -
  have r: "ls_can_read (storage (setAccessToken a (app_tokens app)))"
    using assms by (simp add: token_defs)
  then obtain found where f: "stored_bootstrap_key (ps_isBootstrap s) (bootstrap_storage_key (ps_user s))
      (storage (setAccessToken a (app_tokens app))) = Inr found"
    "ps_isBootstrap s \<noteq> Some True \<longrightarrow> found = None"
    using stored_bootstrap_key_readable by blast
  then show ?thesis
    by (auto simp: restoreSession_def on_tokens_def Let_def split: prod.splits option.splits)
qed

lemma HydrateBoot_restores:
  assumes "ls_can_read (storage (app_tokens app))"
    and "getRefreshToken (app_tokens app) = Some t" and "t \<noteq> []"
    and "getPersistedSession (app_tokens app) = Some s"
    and "net (refresh_request t) (we_world (ap_env app)) = (Response res, w)" and "rs_ok res"
    and "rs_json res = Some body" and "json_str_field body ''access_token'' = Some a"
  shows "\<exists>pk. ap_auth (HydrateBoot net False app) =
      \<lparr>au_user = Some (ps_user s), au_accessToken = Some a, au_kek = None,
          au_privateKey = pk, au_hydrating = False, au_isBootstrap = nullish (ps_isBootstrap s) False,
          au_mustChangePassword = nullish (ps_mustChangePassword s) False,
          au_mustSetupTOTP = nullish (ps_mustSetupTOTP s) False\<rparr>
      \<and> (ps_isBootstrap s \<noteq> Some True \<longrightarrow> pk = None)
      \<and> app_tokens (HydrateBoot net False app)
          = setAccessToken (Some a) (rotate_tokens body (app_tokens app))"
proof -
  define env1 where "env1 = (ap_env app)\<lparr>we_world := w, we_sent := we_sent (ap_env app) @ [refresh_request t]\<rparr>"
  have f: "do_fetch net (refresh_request t) (ap_env app) = (Response res, env1)"
    using assms(5) by (simp add: do_fetch_def env1_def)
  have nf: "\<not> falsy body" using assms(8) by (cases body) (auto simp: json_str_field_def)
  define app1 where "app1 = on_tokens (rotate_tokens body) (app\<lparr>ap_env := env1\<rparr>)"
  have tok: "app_tokens app1 = rotate_tokens body (app_tokens app)"
    by (simp add: app1_def on_tokens_def env1_def)
  have "ls_can_read (storage (app_tokens app1))"
    using assms(1) by (auto simp: tok rotate_tokens_def token_defs storage_defs split: option.splits)
  from restoreSession_readable [OF this, of s "Some a"] obtain app2 pk
    where r: "restoreSession s (Some a) app1 = (Inr (), app2)"
      "ap_auth app2 = \<lparr>au_user = Some (ps_user s), au_accessToken = Some a, au_kek = None,
          au_privateKey = pk, au_hydrating = False, au_isBootstrap = nullish (ps_isBootstrap s) False,
          au_mustChangePassword = nullish (ps_mustChangePassword s) False,
          au_mustSetupTOTP = nullish (ps_mustSetupTOTP s) False\<rparr>"
      "ps_isBootstrap s \<noteq> Some True \<longrightarrow> pk = None"
      "app_tokens app2 = setAccessToken (Some a) (app_tokens app1)" by blast
  have "HydrateBoot net False app = app2"
    using assms(2-4,6-8) f nf r(1) by (simp add: HydrateBoot_def app1_def)
  with r tok show ?thesis by simp
qed

text \<open>What a page load finds after a login.\<close>

lemma reload_after_setSession:
  assumes "tokens_storable (app_tokens app)"
  shows "getRefreshToken (app_tokens (reload (setSession si k p app))) = Some (si_refreshToken si)"
    "getPersistedSession (app_tokens (reload (setSession si k p app))) = Some \<lparr>ps_user = si_user si,
       ps_mustChangePassword = Some (nullish (si_mustChangePassword si) False),
       ps_mustSetupTOTP = Some (nullish (si_mustSetupTOTP si) False), ps_isBootstrap = Some False\<rparr>"
    "tokens_storable (app_tokens (reload (setSession si k p app)))"
    "we_world (ap_env (reload (setSession si k p app))) = we_world (ap_env app)"
  using sync_session_facts [OF assms, of si False]
  by (simp_all add: reload_def setSession_def on_tokens_def reload_tokens)

text \<open>
  A page load restores the session of a login: when the server accepts the stored refresh
  token, the same user comes back with the new token pair, every route decides as before, and
  neither the key encryption key nor the private key has survived.
\<close>
theorem reload_restores_session:
  assumes "tokens_storable (app_tokens app)" and "app1 = setSession si k p app"
    and "si_refreshToken si \<noteq> []"
    and "net (refresh_request (si_refreshToken si)) (we_world (ap_env app)) = (Response res, w)" and "rs_ok res"
    and "rs_json res = Some body" and "json_str_field body ''access_token'' = Some a"
    and "json_field body ''refresh_token'' = Some (JStr t)"
    and "app2 = HydrateBoot net False (reload app1)"
  shows "au_user (ap_auth app2) = Some (si_user si) \<and> au_accessToken (ap_auth app2) = Some a
    \<and> getAccessToken (app_tokens app2) = Some a \<and> getRefreshToken (app_tokens app2) = Some t
    \<and> au_kek (ap_auth app2) = None \<and> au_privateKey (ap_auth app2) = None
    \<and> app_routes r (ap_auth app2) = app_routes r (ap_auth app1)"
proof -
  note l = reload_after_setSession [OF assms(1), of si k p, folded assms(2)]
  have read: "ls_can_read (storage (app_tokens (reload app1)))"
    using l(3) by (simp add: tokens_storable_def can_store_def)
  obtain pk where h: "ap_auth app2 = \<lparr>au_user = Some (si_user si), au_accessToken = Some a, au_kek = None,
          au_privateKey = None, au_hydrating = False, au_isBootstrap = False,
          au_mustChangePassword = nullish (si_mustChangePassword si) False,
          au_mustSetupTOTP = nullish (si_mustSetupTOTP si) False\<rparr>"
      "app_tokens app2 = setAccessToken (Some a) (rotate_tokens body (app_tokens (reload app1)))"
    using HydrateBoot_restores [OF read l(1) assms(3) l(2) _ assms(5-7), of net w] assms(4,9) l(4)
    by auto
  have "getRefreshToken (rotate_tokens body (app_tokens (reload app1))) = Some t"
    using web_tokens.rotate [OF l(3)] assms(8) by (simp add: rotate_tokens_def token_arg_def)
  then have "getRefreshToken (app_tokens app2) = Some t"
    by (simp add: h(2) web_tokens.refresh_set_access)
  then show ?thesis
    using h by (cases r) (simp_all add: assms(2) setSession_def gate_defs web_tokens.access_set)
qed

text \<open>
  Lifting the enrolment gate does not last: after the gate flow has cleared
  \<open>mustSetupTOTP\<close> the application's pages open, but the persisted session still has the flag,
  so the next page load sends the enrolled user back to \<open>/totp/setup\<close>.
\<close>
theorem totp_gate_returns_on_reload:
  assumes "tokens_storable (app_tokens app)" and "si_mustSetupTOTP si = Some True"
    and "si_mustChangePassword si \<noteq> Some True" and "si_refreshToken si \<noteq> []"
    and "app1 = clearMustSetupTOTP (setSession si k p app)"
    and "net (refresh_request (si_refreshToken si)) (we_world (ap_env app)) = (Response res, w)" and "rs_ok res"
    and "rs_json res = Some body" and "json_str_field body ''access_token'' = Some a"
  shows "app_routes AppRoute (ap_auth app1) = Outlet
    \<and> app_routes AppRoute (ap_auth (HydrateBoot net False (reload app1))) = NavigateTo ''/totp/setup''"
proof -
  have same: "reload app1 = reload (setSession si k p app)"
    by (simp add: assms(5) reload_def clearMustSetupTOTP_def on_tokens_def)
  note l = reload_after_setSession [OF assms(1), of si k p]
  have read: "ls_can_read (storage (app_tokens (reload app1)))"
    using l(3) by (simp add: same tokens_storable_def can_store_def)
  have "nullish (si_mustChangePassword si) False = False"
    using assms(3) by (cases "si_mustChangePassword si") auto
  moreover obtain pk where "ap_auth (HydrateBoot net False (reload app1)) =
      \<lparr>au_user = Some (si_user si), au_accessToken = Some a, au_kek = None, au_privateKey = pk,
        au_hydrating = False, au_isBootstrap = False,
        au_mustChangePassword = nullish (si_mustChangePassword si) False, au_mustSetupTOTP = True\<rparr>"
    using HydrateBoot_restores [OF read [unfolded same] l(1) assms(4) l(2) _ assms(7-9), of net w]
      assms(2,6) l(4) by (auto simp: same)
  ultimately show ?thesis
    by (simp add: assms(5) clearMustSetupTOTP_def setSession_def gate_defs)
qed

text \<open>
  How a silent restore that does not succeed ends, with one refresh request in every case:
  the splash goes away and nobody is logged in; the stored session is kept when the server is
  not reached or sends no JSON, and dropped on every status that is not a success, a server
  error included. Only a success whose JSON body is falsy leaves the splash on for good.
\<close>
theorem failed_boot_outcomes:
  assumes "tokens_storable (app_tokens app)" and "getRefreshToken (app_tokens app) = Some t" and "t \<noteq> []"
    and "getPersistedSession (app_tokens app) = Some s"
    and "net (refresh_request t) (we_world (ap_env app)) = (reply, w)"
    and "app' = HydrateBoot net False app"
    and "\<not> (\<exists>res body. reply = Response res \<and> rs_ok res \<and> rs_json res = Some body \<and> \<not> falsy body)"
  shows "we_sent (ap_env app') = we_sent (ap_env app) @ [refresh_request t]
    \<and> (let kept = app_tokens app' = app_tokens app;
           dropped = getRefreshToken (app_tokens app') = None \<and> getPersistedSession (app_tokens app') = None;
           stopped = ap_auth app' = (ap_auth app)\<lparr>au_hydrating := False\<rparr>
       in case reply of
           NetworkFailure m \<Rightarrow> stopped \<and> kept
         | Response res \<Rightarrow> if \<not> rs_ok res then stopped \<and> dropped
             else if rs_json res = None then stopped \<and> kept
             else ap_auth app' = ap_auth app \<and> kept)"
proof -
  define env1 where "env1 = (ap_env app)\<lparr>we_world := w, we_sent := we_sent (ap_env app) @ [refresh_request t]\<rparr>"
  have f: "do_fetch net (refresh_request t) (ap_env app) = (reply, env1)"
    using assms(5) by (simp add: do_fetch_def env1_def)
  note clear = web_tokens.logout [OF assms(1)] clearAllTokens_session [OF assms(1)]
  show ?thesis
  proof (cases reply)
    case (NetworkFailure m)
    then show ?thesis
      using f by (simp add: assms(2-4,6) HydrateBoot_def stop_splash_def setHydrating_def env1_def Let_def)
  next
    case (Response res)
    then show ?thesis
      using f assms(7) clear
      by (auto simp: assms(2-4,6) HydrateBoot_def stop_splash_def setHydrating_def env1_def Let_def
          on_tokens_def split: option.splits)
  qed
qed

subsection \<open>The bootstrap key\<close>

definition session_private_key :: "('w, 'r) web_app \<Rightarrow> bytes option" where
  "session_private_key app = Option.bind (au_privateKey (ap_auth app)) (bf_heap (ap_buf app))"

lemma bootstrap_key_found:
  assumes "ls_can_read ls" and "ls_items ls k = Some (Text s)" and "s \<noteq> []" and "atob s = Inr key"
  shows "bootstrap_key random32 k ls rng = (Inr (key, ls), rng)"
    "stored_bootstrap_key (Some True) k ls = Inr (Some key)"
  using assms by (simp_all add: bootstrap_key_def stored_bootstrap_key_def getItem_def)

lemma btoa_nonempty: "bs \<noteq> [] \<Longrightarrow> btoa bs \<noteq> []"
  by (cases bs rule: btoa.cases) auto

lemma atob_btoa: "atob (btoa bs) = Inr bs"
  by (simp add: btoa_sextets atob_sextets)

lemma bind_text_of: "Option.bind v text_of = Some x \<longleftrightarrow> v = Some (Text x)"
  by (cases v; cases "the v") auto

lemma bootstrap_key_stores:
  assumes "bootstrap_key random32 k ls rng = (Inr (key, ls'), rng')" and "\<forall>r. fst (random32 r) \<noteq> []"
  shows "\<exists>s. ls_items ls' k = Some (Text s) \<and> s \<noteq> [] \<and> atob s = Inr key"
    "ls_can_read ls' = ls_can_read ls" "ls_can_write ls' = ls_can_write ls"
    "k' \<noteq> k \<Longrightarrow> ls_items ls' k' = ls_items ls k'"
proof -
  have mint: "(\<exists>s. ls_items ls' k = Some (Text s) \<and> s \<noteq> [] \<and> atob s = Inr key)
      \<and> ls_can_read ls' = ls_can_read ls \<and> ls_can_write ls' = ls_can_write ls
      \<and> (k' \<noteq> k \<longrightarrow> ls_items ls' k' = ls_items ls k')"
    if "mint_bootstrap_key random32 k ls rng = (Inr (key, ls'), rng')"
  proof -
    obtain key' rng2 where r: "random32 rng = (key', rng2)" by fastforce
    with assms(2) have "key' \<noteq> []" by (metis fst_conv)
    with that r show ?thesis
      by (auto simp: mint_bootstrap_key_def setItem_def btoa_nonempty atob_btoa split: if_splits)
  qed
  have "(\<exists>s. ls_items ls' k = Some (Text s) \<and> s \<noteq> [] \<and> atob s = Inr key)
      \<and> ls_can_read ls' = ls_can_read ls \<and> ls_can_write ls' = ls_can_write ls
      \<and> (k' \<noteq> k \<longrightarrow> ls_items ls' k' = ls_items ls k')"
  proof (cases "mint_bootstrap_key random32 k ls rng = (Inr (key, ls'), rng')")
    case False
    with assms(1) show ?thesis
      by (auto simp: bootstrap_key_def getItem_def Let_def truthy_def bind_text_of
          split: if_splits option.splits sum.splits)
  qed (rule mint)
  then show "\<exists>s. ls_items ls' k = Some (Text s) \<and> s \<noteq> [] \<and> atob s = Inr key"
    "ls_can_read ls' = ls_can_read ls" "ls_can_write ls' = ls_can_write ls"
    "k' \<noteq> k \<Longrightarrow> ls_items ls' k' = ls_items ls k'" by auto
qed

lemma setBootstrapSession_key:
  assumes "setBootstrapSession random32 si app = (Inr (), app1)" and "tokens_storable (app_tokens app)"
    and "\<forall>r. fst (random32 r) \<noteq> []"
  shows "\<exists>key s. session_private_key app1 = Some key \<and> tokens_storable (app_tokens app1)
    \<and> ls_items (storage (app_tokens app1)) (bootstrap_storage_key (si_user si)) = Some (Text s)
    \<and> s \<noteq> [] \<and> atob s = Inr key \<and> au_isBootstrap (ap_auth app1)"
proof -
  let ?k = "bootstrap_storage_key (si_user si)" and ?ls = "storage (sync_session si True (app_tokens app))"
  obtain key ls rng where b: "bootstrap_key random32 ?k ?ls (bf_rng (ap_buf app)) = (Inr (key, ls), rng)"
    using assms(1) by (auto simp: setBootstrapSession_def on_tokens_def Let_def split: prod.splits sum.splits)
  note st = bootstrap_key_stores [OF b assms(3)]
  have "can_store ?ls"
    using sync_session_facts(4) [OF assms(2)] by (simp add: tokens_storable_def)
  with st(1-3) obtain s where s: "ls_items ls ?k = Some (Text s)" "s \<noteq> []" "atob s = Inr key" "can_store ls"
    by (auto simp: can_store_def)
  have "session_private_key app1 = Some key \<and> storage (app_tokens app1) = ls \<and> au_isBootstrap (ap_auth app1)"
    using assms(1) b by (auto simp: setBootstrapSession_def on_tokens_def Let_def alloc_def session_private_key_def)
  with s show ?thesis by (auto simp: tokens_storable_def)
qed

lemma setBootstrapSession_finds:
  assumes "tokens_storable (app_tokens app)"
    and "ls_items (storage (app_tokens app)) (bootstrap_storage_key (si_user si)) = Some (Text s)"
    and "s \<noteq> []" and "atob s = Inr key"
  shows "\<exists>app1. setBootstrapSession random32 si app = (Inr (), app1) \<and> session_private_key app1 = Some key"
proof -
  let ?k = "bootstrap_storage_key (si_user si)" and ?ls = "storage (sync_session si True (app_tokens app))"
  have "ls_can_read ?ls" "ls_items ?ls ?k = Some (Text s)"
    using assms(1,2) by (simp_all add: sync_session_other_keys tokens_storable_def can_store_def)
  then have "bootstrap_key random32 ?k ?ls (bf_rng (ap_buf app)) = (Inr (key, ?ls), bf_rng (ap_buf app))"
    using assms(3,4) by (rule bootstrap_key_found)
  then show ?thesis
    by (simp add: setBootstrapSession_def on_tokens_def Let_def alloc_def session_private_key_def)
qed

text \<open>
  The key of a bootstrap account is the same in every session on the same browser: after a
  logout, which zeroes the array, the next bootstrap login of that user id gets the key of the
  first session back from \<open>localStorage\<close> without drawing a new one.
\<close>
theorem bootstrap_key_survives_logout:
  assumes "tokens_storable (app_tokens app)" and "\<forall>r. fst (random32 r) \<noteq> []"
    and "setBootstrapSession random32 si app = (Inr (), app1)"
    and "user_id (si_user si') = user_id (si_user si)"
    and "setBootstrapSession random32 si' (clear_session app1) = (r, app2)"
  shows "r = Inr () \<and> session_private_key app2 = session_private_key app1
    \<and> session_private_key app1 \<noteq> None \<and> session_private_key (clear_session app1) = None"
proof -
  obtain key s where k: "session_private_key app1 = Some key" "tokens_storable (app_tokens app1)"
    "ls_items (storage (app_tokens app1)) (bootstrap_storage_key (si_user si)) = Some (Text s)"
    "s \<noteq> []" "atob s = Inr key"
    using setBootstrapSession_key [OF assms(3,1,2)] by blast
  have "bootstrap_storage_key (si_user si') = bootstrap_storage_key (si_user si)"
    using assms(4) by (simp add: bootstrap_storage_key_def)
  moreover have "tokens_storable (app_tokens (clear_session app1))"
    using web_tokens.logout [OF k(2)] by (simp add: clear_session_def on_tokens_def)
  moreover have "ls_items (storage (app_tokens (clear_session app1))) (bootstrap_storage_key (si_user si)) = Some (Text s)"
    using k(3) by (simp add: clear_session_def on_tokens_def clearAllTokens_other_keys)
  ultimately show ?thesis
    using setBootstrapSession_finds [of "clear_session app1" si' s key random32] k assms(5)
    by (auto simp: session_private_key_def clear_session_def)
qed

subsection \<open>A concrete session\<close>

definition demo_user :: SessionUser where
  "demo_user = \<lparr>user_id = ''u1'', username = ''ada'', roles = [''admin'']\<rparr>"

definition demo_input :: SessionInput where
  "demo_input = \<lparr>si_user = demo_user, si_accessToken = ''A1'', si_refreshToken = ''R1'',
     si_mustChangePassword = None, si_mustSetupTOTP = Some True\<rparr>"

definition demo_app :: "(fetch_result list, nat) web_app" where
  "demo_app = \<lparr>ap_env = demo_env [Response fresh_pair], ap_auth = initial_auth,
     ap_buf = \<lparr>bf_heap = Map.empty(0 \<mapsto> [1, 2], 1 \<mapsto> [3]), bf_next = 2, bf_rng = 7\<rparr>\<rparr>"

definition demo_session :: "(fetch_result list, nat) web_app" where
  "demo_session = setSession demo_input 0 1 demo_app"

lemma demo_app_tokens: "tokens_storable (app_tokens demo_app)" "tokens_storable (app_tokens demo_session)"
  by (simp_all add: demo_app_def demo_env_def demo_session_def setSession_def on_tokens_def sync_session_facts)

lemma demo_reply:
  "scripted (refresh_request ''R1'') (we_world (ap_env demo_app)) = (Response fresh_pair, [])"
  by (simp add: demo_app_def demo_env_def)

lemma fresh_pair_simps:
  "rs_ok fresh_pair"
  "rs_json fresh_pair = Some (JObj [(''access_token'', JStr ''A2''), (''refresh_token'', JStr ''R2'')])"
  by (simp_all add: fresh_pair_def rs_ok_def)

lemma logout_wipes_session_witness:
  "\<exists>app' target. AuthEventBridge_handler demo_session = (app', target)
     \<and> app_routes AdminRoute (ap_auth demo_session) = NavigateTo ''/totp/setup''
     \<and> app_routes AdminRoute (ap_auth app') = NavigateTo ''/login''
     \<and> bf_heap (ap_buf demo_session) 0 = Some [1, 2] \<and> bf_heap (ap_buf app') 0 = Some [0, 0]"
proof -
  have h: "AuthEventBridge_handler demo_session = (clear_session demo_session, ''/login'')"
    by (simp add: AuthEventBridge_handler_def)
  have "app_routes AdminRoute (ap_auth (clear_session demo_session)) = NavigateTo ''/login''"
    using logout_wipes_session [OF demo_app_tokens(2) h, of AdminRoute] by blast
  with h show ?thesis
    by (simp add: demo_session_def demo_app_def setSession_def on_tokens_def clear_session_def fill_zero_def
        demo_input_def gate_defs numeral_2_eq_2)
qed

lemma reload_restores_session_witness:
  "au_user (ap_auth (HydrateBoot scripted False (reload demo_session))) = Some demo_user
     \<and> au_accessToken (ap_auth (HydrateBoot scripted False (reload demo_session))) = Some ''A2''
     \<and> au_privateKey (ap_auth demo_session) = Some 1
     \<and> au_privateKey (ap_auth (HydrateBoot scripted False (reload demo_session))) = None"
  using reload_restores_session [OF demo_app_tokens(1) demo_session_def, where res = fresh_pair and w = "[]"
      and a = "''A2''" and t = "''R2''" and net = scripted and r = AppRoute] demo_reply
  by (simp add: fresh_pair_simps json_str_field_def demo_input_def demo_session_def setSession_def)

lemma totp_gate_returns_on_reload_witness:
  "app_routes AppRoute (ap_auth (clearMustSetupTOTP demo_session)) = Outlet
     \<and> app_routes AppRoute (ap_auth (HydrateBoot scripted False (reload (clearMustSetupTOTP demo_session))))
         = NavigateTo ''/totp/setup''"
  using totp_gate_returns_on_reload [OF demo_app_tokens(1), of demo_input
      "clearMustSetupTOTP demo_session" 0 1 scripted fresh_pair "[]" _ "''A2''"] demo_reply
  by (simp add: fresh_pair_simps json_str_field_def demo_input_def demo_session_def)

definition down_net :: "'w net" where
  "down_net rq w = (Response \<lparr>rs_status = 503, rs_json = None\<rparr>, w)"

lemma failed_boot_outcomes_witness:
  "getRefreshToken (app_tokens demo_session) = Some ''R1''
   \<and> getRefreshToken (app_tokens (HydrateBoot down_net False (reload demo_session))) = None
   \<and> au_hydrating (ap_auth (HydrateBoot down_net False (reload demo_session))) = False"
proof -
  note l = reload_after_setSession [OF demo_app_tokens(1), of demo_input 0 1, folded demo_session_def]
  have r: "down_net (refresh_request ''R1'') (we_world (ap_env (reload demo_session)))
      = (Response \<lparr>rs_status = 503, rs_json = None\<rparr>, we_world (ap_env (reload demo_session)))"
    by (simp add: down_net_def)
  have t: "getRefreshToken (app_tokens (reload demo_session)) = Some ''R1''"
    using l(1) by (simp add: demo_input_def)
  then have "getRefreshToken (app_tokens demo_session) = Some ''R1''"
    by (simp add: reload_def on_tokens_def reload_tokens)
  then show ?thesis
    using failed_boot_outcomes [where net = down_net and app = "reload demo_session", OF l(3) t _ l(2) r refl] by (simp add: rs_ok_def Let_def)
qed

lemma bootstrap_key_survives_logout_witness:
  "\<exists>app1 app2. setBootstrapSession (\<lambda>n. ([of_nat n, 5], n + 1)) demo_input demo_app = (Inr (), app1)
     \<and> setBootstrapSession (\<lambda>n. ([of_nat n, 5], n + 1)) demo_input (clear_session app1) = (Inr (), app2)
     \<and> session_private_key app2 = session_private_key app1"
proof -
  let ?r = "\<lambda>n. ([of_nat n :: byte, 5], n + 1 :: nat)"
  have n: "bootstrap_storage_key demo_user \<notin> {REFRESH_KEY, SESSION_KEY}" by simp
  have i: "ls_items (storage (app_tokens demo_app)) (bootstrap_storage_key demo_user) = None"
    using n by (simp add: demo_app_def demo_env_def demo_tokens_def token_defs storage_defs empty_storage_def)
  have u: "si_user demo_input = demo_user" by (simp add: demo_input_def)
  have c: "ls_can_read (storage (app_tokens demo_app))" "ls_can_write (storage (app_tokens demo_app))"
    using demo_app_tokens(1) by (simp_all add: tokens_storable_def can_store_def)
  obtain app1 where a: "setBootstrapSession ?r demo_input demo_app = (Inr (), app1)"
    using i c n by (simp add: setBootstrapSession_def on_tokens_def Let_def u bootstrap_key_def getItem_def
        mint_bootstrap_key_def setItem_def sync_session_other_keys alloc_def)
  obtain r app2 where b: "setBootstrapSession ?r demo_input (clear_session app1) = (r, app2)"
    by fastforce
  show ?thesis
    using bootstrap_key_survives_logout [OF demo_app_tokens(1) _ a refl b] a b by auto
qed

end
