(* ===== verification/JsText.thy ===== *)
theory JsText
  imports Prelude
begin

text \<open>
  The string methods of JavaScript the sources use, on the UTF-8 representation of strings:
  \<open>length\<close> in UTF-16 code units and \<open>trim\<close> over the Unicode white space.
\<close>

text \<open>A continuation byte counts nothing, a lead byte of a four byte sequence counts two.\<close>

definition units :: "char \<Rightarrow> nat" where
  "units c = (let b = (of_char c :: nat) in if 0x80 \<le> b \<and> b < 0xC0 then 0 else if 0xF0 \<le> b then 2 else 1)"

definition js_length :: "string \<Rightarrow> nat" where
  "js_length s = sum_list (map units s)"

text \<open>\<open>slice(0, n)\<close>, in code units.\<close>

fun js_prefix :: "nat \<Rightarrow> string \<Rightarrow> string" where
  "js_prefix n [] = []"
| "js_prefix n (c # cs) = (if units c \<le> n then c # js_prefix (n - units c) cs else [])"

text \<open>The code points \<open>trim\<close> removes, in UTF-8.\<close>

definition white_space :: "string list" where
  "white_space =
     map (\<lambda>n. [char_of n]) [9::nat, 10, 11, 12, 13, 32]
     @ [[CHR 0xC2, CHR 0xA0], [CHR 0xE1, CHR 0x9A, CHR 0x80]]
     @ map (\<lambda>n. [CHR 0xE2, CHR 0x80, char_of n]) [0x80::nat, 0x81, 0x82, 0x83, 0x84, 0x85, 0x86, 0x87, 0x88,
          0x89, 0x8A, 0xA8, 0xA9, 0xAF]
     @ [[CHR 0xE2, CHR 0x81, CHR 0x9F], [CHR 0xE3, CHR 0x80, CHR 0x80], [CHR 0xEF, CHR 0xBB, CHR 0xBF]]"

text \<open>Removing prefixes out of a list of non-empty strings; every round shortens the text, so its
  length is enough fuel.\<close>

fun strip_prefixes :: "nat \<Rightarrow> string list \<Rightarrow> string \<Rightarrow> string" where
  "strip_prefixes 0 ws s = s"
| "strip_prefixes (Suc n) ws s =
     (case find (\<lambda>w. w \<noteq> [] \<and> take (length w) s = w) ws of
        None \<Rightarrow> s
      | Some w \<Rightarrow> strip_prefixes n ws (drop (length w) s))"

definition trimStart :: "string \<Rightarrow> string" where
  "trimStart s = strip_prefixes (length s) white_space s"

definition trimEnd :: "string \<Rightarrow> string" where
  "trimEnd s = rev (strip_prefixes (length s) (map rev white_space) (rev s))"

definition trim :: "string \<Rightarrow> string" where
  "trim s = trimEnd (trimStart s)"

lemma strip_prefixes_done:
  "length s \<le> n \<Longrightarrow> w \<in> set ws \<Longrightarrow> w \<noteq> [] \<Longrightarrow> take (length w) (strip_prefixes n ws s) \<noteq> w"
proof (induction n arbitrary: s)
  case 0
  then show ?case by auto
next
  case (Suc n)
  show ?case
  proof (cases "find (\<lambda>w. w \<noteq> [] \<and> take (length w) s = w) ws")
    case None
    then have "strip_prefixes (Suc n) ws s = s" by simp
    moreover from None have "\<forall>w\<in>set ws. w = [] \<or> take (length w) s \<noteq> w" by (auto simp: find_None_iff)
    ultimately show ?thesis using Suc.prems by auto
  next
    case (Some v)
    then have "v \<noteq> []" "take (length v) s = v" by (auto simp: find_Some_iff)
    then have "0 < length v" "length v \<le> length s"
      by (metis length_greater_0_conv, metis length_take min.cobounded1)
    with Suc.prems(1) have "length (drop (length v) s) \<le> n" unfolding length_drop by linarith
    from Suc.IH [OF this Suc.prems(2,3)] Some show ?thesis by simp
  qed
qed

text \<open>No white space is left in front.\<close>

lemma trimStart_done: "w \<in> set white_space \<Longrightarrow> w \<noteq> [] \<Longrightarrow> take (length w) (trimStart s) \<noteq> w"
  unfolding trimStart_def by (rule strip_prefixes_done) simp_all

lemma strip_prefixes_suffix: "\<exists>p. s = p @ strip_prefixes n ws s"
proof (induction n arbitrary: s)
  case (Suc n)
  show ?case
  proof (cases "find (\<lambda>w. w \<noteq> [] \<and> take (length w) s = w) ws")
    case (Some w)
    obtain p where "drop (length w) s = p @ strip_prefixes n ws (drop (length w) s)" using Suc by blast
    then have "s = (take (length w) s @ p) @ strip_prefixes n ws (drop (length w) s)"
      by (metis append.assoc append_take_drop_id)
    then have "s = (take (length w) s @ p) @ strip_prefixes (Suc n) ws s" using Some by simp
    then show ?thesis by blast
  qed simp
qed simp

end
