(* ===== verification/ApiHooks.thy ===== *)
theory ApiHooks
  imports ApiClient JsText
begin

text \<open>
  How the API modules under \<open>web/src/api\<close> and \<open>client/src/api\<close> use the fetch wrapper: each hook
  is a query (its cache key, the request it sends, when it is enabled, how long its result stays
  fresh) or a mutation (the request, and the keys it invalidates when the request succeeds).
  The definitions of the following theories carry the names of the hooks, with the arguments of
  the hook and of \<open>mutate\<close>; a request body is the JSON value passed.
\<close>

datatype staleness = ClientDefault | StaleFor nat | NeverStale

record query_hook =
  q_key :: "json list"
  q_path :: string
  q_options :: RequestOptions
  q_enabled :: bool
  q_stale :: staleness
  q_poll :: "nat option"
  q_noRetry :: bool

record mutation_hook =
  m_path :: string
  m_options :: RequestOptions
  m_invalidates :: "json list list"

text \<open>\<open>useQuery\<close> with a plain GET; \<open>query\<close> parameters, polling and \<open>retry: false\<close> are set by update.\<close>

definition get_query :: "json list \<Rightarrow> string \<Rightarrow> bool \<Rightarrow> staleness \<Rightarrow> query_hook" where
  "get_query key path enabled stale =
     \<lparr>q_key = key, q_path = path, q_options = no_options, q_enabled = enabled, q_stale = stale,
      q_poll = None, q_noRetry = False\<rparr>"

definition with_query :: "query \<Rightarrow> query_hook \<Rightarrow> query_hook" where
  "with_query q h = h\<lparr>q_options := (q_options h)\<lparr>ro_query := Some q\<rparr>\<rparr>"

definition explicit_get :: "query_hook \<Rightarrow> query_hook" where
  "explicit_get h = h\<lparr>q_options := (q_options h)\<lparr>ro_method := Some GET\<rparr>\<rparr>"

definition mutation :: "http_method \<Rightarrow> string \<Rightarrow> json option \<Rightarrow> json list list \<Rightarrow> mutation_hook" where
  "mutation meth path body keys =
     \<lparr>m_path = path, m_options = no_options\<lparr>ro_method := Some meth, ro_body := body\<rparr>, m_invalidates = keys\<rparr>"

definition public_mutation :: "http_method \<Rightarrow> string \<Rightarrow> json option \<Rightarrow> mutation_hook" where
  "public_mutation meth path body =
     \<lparr>m_path = path,
      m_options = no_options\<lparr>ro_method := Some meth, ro_body := body, ro_unauthenticated := True\<rparr>,
      m_invalidates = []\<rparr>"

text \<open>A nullable argument in a template string, in a key after \<open>?? ''\<close>, and in a key as it is.\<close>

definition tpl :: "string option \<Rightarrow> string" where
  "tpl x = nullish x ''null''"

definition key_or_empty :: "string option \<Rightarrow> json" where
  "key_or_empty x = JStr (nullish x '''')"

definition key_opt :: "string option \<Rightarrow> json" where
  "key_opt x = (case x of None \<Rightarrow> JNull | Some s \<Rightarrow> JStr s)"

text \<open>A property that is left out when undefined, and the value of a query parameter.\<close>

definition opt_str :: "string \<Rightarrow> string option \<Rightarrow> (string \<times> json) list" where
  "opt_str k v = (case v of None \<Rightarrow> [] | Some s \<Rightarrow> [(k, JStr s)])"

definition qstr :: "string option \<Rightarrow> query_value option" where
  "qstr v = map_option QStr v"

text \<open>\<open>x || undefined\<close> and \<open>Boolean(x)\<close> on an optional string.\<close>

definition or_undef :: "string option \<Rightarrow> string option" where
  "or_undef x = (if truthy x then x else None)"

lemmas hook_defs = get_query_def with_query_def explicit_get_def mutation_def public_mutation_def
  tpl_def key_or_empty_def key_opt_def opt_str_def qstr_def or_undef_def

subsection \<open>Running a hook\<close>

definition run_query :: "'w net \<Rightarrow> query_hook \<Rightarrow> 'w web_env \<Rightarrow> (js_error + json option) option \<times> 'w web_env" where
  "run_query net h env =
     (if \<not> q_enabled h then (None, env)
      else (let (r, env') = apiFetch net (q_path h) (q_options h) env in (Some r, env')))"

text \<open>The result, the keys invalidated (\<open>onSuccess\<close> runs on success only), and the environment.\<close>

definition run_mutation ::
    "'w net \<Rightarrow> mutation_hook \<Rightarrow> 'w web_env \<Rightarrow> (js_error + json option) \<times> json list list \<times> 'w web_env" where
  "run_mutation net h env =
     (let (r, env') = apiFetch net (m_path h) (m_options h) env
      in case r of Inl e \<Rightarrow> (Inl e, [], env') | Inr v \<Rightarrow> (Inr v, m_invalidates h, env'))"

text \<open>Which cached queries an invalidation reaches is decided by the query library's key match,
  a parameter. It reaches every key that extends the filter, and of two keys only those that
  agree where both have a string or where both have an object with the same string property; a
  string matches no object.\<close>

definition key_match_laws :: "(json list \<Rightarrow> json list \<Rightarrow> bool) \<Rightarrow> bool" where
  "key_match_laws km \<longleftrightarrow>
     (\<forall>f rest. km f (f @ rest))
     \<and> (\<forall>f key i a b. km f key \<longrightarrow> i < length f \<longrightarrow> f ! i = JStr a \<longrightarrow> i < length key \<longrightarrow> key ! i = JStr b \<longrightarrow> a = b)
     \<and> (\<forall>f key i k a b. km f key \<longrightarrow> i < length f \<longrightarrow> f ! i = JObj [(k, key_opt a)] \<longrightarrow> i < length key
          \<longrightarrow> key ! i = JObj [(k, key_opt b)] \<longrightarrow> a = b)
     \<and> (\<forall>f key i a ps. km f key \<longrightarrow> i < length f \<longrightarrow> f ! i = JStr a \<longrightarrow> i < length key \<longrightarrow> key ! i \<noteq> JObj ps)
     \<and> (\<forall>f key. km f key \<longrightarrow> length f \<le> length key)"

definition reached :: "(json list \<Rightarrow> json list \<Rightarrow> bool) \<Rightarrow> json list list \<Rightarrow> json list \<Rightarrow> bool" where
  "reached km filters key \<longleftrightarrow> (\<exists>f\<in>set filters. km f key)"

lemma key_match_D:
  assumes "key_match_laws km" and "km f key" and "i < length f" and "i < length key"
  shows "f ! i = JStr a \<Longrightarrow> key ! i = JStr b \<Longrightarrow> a = b"
    "f ! i = JObj [(k, key_opt x)] \<Longrightarrow> key ! i = JObj [(k, key_opt y)] \<Longrightarrow> x = y"
    "f ! i = JStr a \<Longrightarrow> key ! i \<noteq> JObj ps"
  using assms unfolding key_match_laws_def by blast+

lemma reached_prefix: "key_match_laws km \<Longrightarrow> f \<in> set fs \<Longrightarrow> reached km fs (f @ rest)"
  by (auto simp: key_match_laws_def reached_def)

text \<open>The retry rule of the shared query client (\<open>query.ts\<close>).\<close>

fun query_retry :: "nat \<Rightarrow> js_error \<Rightarrow> bool" where
  "query_retry failureCount (ApiErr e) = (if status e > 0 then False else failureCount < 2)"
| "query_retry failureCount _ = (failureCount < 2)"

subsection \<open>Query keys (\<open>query.ts\<close>)\<close>

definition key_me_keypair :: "json list" where "key_me_keypair = [JStr ''me'', JStr ''keypair'']"
definition key_folders_all :: "json list" where "key_folders_all = [JStr ''folders'']"
definition key_folders_byParent :: "string option \<Rightarrow> json list" where
  "key_folders_byParent parentId = [JStr ''folders'', JObj [(''parentId'', key_opt parentId)]]"
definition key_folders_detail :: "string \<Rightarrow> json list" where
  "key_folders_detail i = [JStr ''folders'', JStr i]"
definition key_items_all :: "json list" where "key_items_all = [JStr ''items'']"
definition key_items_byFolder :: "string \<Rightarrow> string option \<Rightarrow> json list" where
  "key_items_byFolder folderId q = [JStr ''items'', JObj ([(''folderId'', JStr folderId)] @ opt_str ''q'' q)]"
definition key_items_detail :: "string \<Rightarrow> json list" where
  "key_items_detail i = [JStr ''items'', JStr i]"
definition key_fieldDefinitions :: "json list" where
  "key_fieldDefinitions = [JStr ''catalog'', JStr ''field-definitions'']"
definition key_itemTypes :: "json list" where "key_itemTypes = [JStr ''catalog'', JStr ''item-types'']"
definition key_userPublicKey :: "string \<Rightarrow> json list" where
  "key_userPublicKey i = [JStr ''catalog'', JStr ''users'', JStr i, JStr ''public-key'']"
definition key_admin_users :: "int \<Rightarrow> int \<Rightarrow> json list" where
  "key_admin_users limit offset =
     [JStr ''admin'', JStr ''users'', JObj [(''limit'', JNum limit), (''offset'', JNum offset)]]"
definition key_admin_auditLog :: "json \<Rightarrow> json list" where
  "key_admin_auditLog filters = [JStr ''admin'', JStr ''audit-log'', filters]"
definition key_attachments_byItem :: "string \<Rightarrow> json list" where
  "key_attachments_byItem itemId = [JStr ''attachments'', JObj [(''itemId'', JStr itemId)]]"
definition key_notifications_all :: "json list" where "key_notifications_all = [JStr ''notifications'']"

lemmas key_defs = key_me_keypair_def key_folders_all_def key_folders_byParent_def key_folders_detail_def
  key_items_all_def key_items_byFolder_def key_items_detail_def key_fieldDefinitions_def
  key_itemTypes_def key_userPublicKey_def key_admin_users_def key_admin_auditLog_def
  key_attachments_byItem_def key_notifications_all_def

subsection \<open>Running hooks, in general\<close>

lemma run_mutation_failure: "fst (run_mutation net h env) = Inl e \<Longrightarrow> fst (snd (run_mutation net h env)) = []"
  by (auto simp: run_mutation_def split: prod.splits sum.splits)

lemma run_mutation_success:
  "fst (run_mutation net h env) = Inr v \<Longrightarrow> fst (snd (run_mutation net h env)) = m_invalidates h"
  by (auto simp: run_mutation_def split: prod.splits sum.splits)

text \<open>Prefixes of keys satisfy the laws.\<close>

definition prefix_match :: "json list \<Rightarrow> json list \<Rightarrow> bool" where
  "prefix_match f key \<longleftrightarrow> take (length f) key = f"

lemma prefix_match_laws: "key_match_laws prefix_match"
proof -
  have n: "key ! i = f ! i" if "prefix_match f key" "i < length f" for f key i
    using that unfolding prefix_match_def by (metis nth_take)
  have o: "a = b" if "key_opt a = key_opt b" for a b
    using that by (auto simp: key_opt_def split: option.splits)
  show ?thesis
    unfolding key_match_laws_def
  proof (intro conjI allI impI)
    show "prefix_match f (f @ rest)" for f rest by (simp add: prefix_match_def)
    show "a = b" if "prefix_match f key" "i < length f" "f ! i = JStr a" "i < length key" "key ! i = JStr b"
      for f key i a b using n [OF that(1,2)] that(3,5) by simp
    show "a = b" if "prefix_match f key" "i < length f" "f ! i = JObj [(k, key_opt a)]" "i < length key"
      "key ! i = JObj [(k, key_opt b)]" for f key i k a b using n [OF that(1,2)] that(3,5) o by simp
    show "key ! i \<noteq> JObj ps" if "prefix_match f key" "i < length f" "f ! i = JStr a" "i < length key"
      for f key i a ps using n [OF that(1,2)] that(3) by simp
    show "length f \<le> length key" if "prefix_match f key" for f key
      using that unfolding prefix_match_def by (metis length_take min.cobounded1 min_def)
  qed
qed

end
