(* ===== verification/AccountHooks.thy ===== *)
theory AccountHooks
  imports ApiHooks
begin

text \<open>
  The hooks of the web application on the own account (under \<open>web/src/api\<close>): \<open>auth.ts\<close>,
  \<open>bootstrap.ts\<close>, \<open>me.ts\<close>, \<open>webauthn.ts\<close>, \<open>notifications.ts\<close>, \<open>api-tokens.ts\<close>. Some of them
  call \<open>fetch\<close> directly, with a token of their own and without the refresh of \<open>apiFetch\<close>.
\<close>

subsection \<open>Calls that bypass \<open>apiFetch\<close>\<close>

text \<open>An error is reported by its message: the body's \<open>message\<close>, a default when the body is not
  JSON, a fallback when it has none.\<close>

definition body_message :: "http_response \<Rightarrow> string \<Rightarrow> string \<Rightarrow> string" where
  "body_message res default_body fallback =
     (case rs_json res of
        None \<Rightarrow> default_body
      | Some body \<Rightarrow> nullish (json_str_field body ''message'') fallback)"

definition raw_call ::
    "'w net \<Rightarrow> http_request \<Rightarrow> (http_response \<Rightarrow> string) \<Rightarrow> 'w web_env \<Rightarrow> (string + json) \<times> 'w web_env" where
  "raw_call net rq failure env =
     (case do_fetch net rq env of
        (NetworkFailure m, env1) \<Rightarrow> (Inl m, env1)
      | (Response res, env1) \<Rightarrow>
          if \<not> rs_ok res then (Inl (failure res), env1)
          else (case rs_json res of None \<Rightarrow> (Inl ''invalid json'', env1) | Some j \<Rightarrow> (Inr j, env1)))"

definition bearer :: "string \<Rightarrow> string \<times> string" where
  "bearer token = (''Authorization'', ''Bearer '' @ token)"

definition json_content :: "string \<times> string" where
  "json_content = (''Content-Type'', ''application/json'')"

definition post_request :: "string \<Rightarrow> (string \<times> string) list \<Rightarrow> json option \<Rightarrow> http_request" where
  "post_request url headers body =
     \<lparr>rq_url = url, rq_method = POST, rq_headers = headers, rq_body = map_option JsonBody body\<rparr>"

subsection \<open>\<open>auth.ts\<close>\<close>

definition useLoginMutation :: "json \<Rightarrow> mutation_hook" where
  "useLoginMutation input = public_mutation POST ''/api/v1/auth/login'' (Some input)"

definition useLogoutMutation :: mutation_hook where
  "useLogoutMutation = mutation POST ''/api/v1/auth/logout'' None []"

definition useLogoutAllMutation :: mutation_hook where
  "useLogoutAllMutation = mutation POST ''/api/v1/auth/logout-all'' None []"

definition useChangePasswordMutation :: "json \<Rightarrow> mutation_hook" where
  "useChangePasswordMutation input = mutation POST ''/api/v1/auth/change-password'' (Some input) []"

definition useTOTPInitMutation :: "'w net \<Rightarrow> string \<Rightarrow> 'w web_env \<Rightarrow> (string + json) \<times> 'w web_env" where
  "useTOTPInitMutation net token =
     raw_call net (post_request ''/api/v1/auth/totp/init'' [bearer token] None)
       (\<lambda>res. body_message res (''TOTP init hatas'' @ tr_i) (''TOTP init: '' @ show_nat (rs_status res)))"

definition useTOTPVerifyMutation ::
    "'w net \<Rightarrow> string \<Rightarrow> string \<Rightarrow> 'w web_env \<Rightarrow> (string + json) \<times> 'w web_env" where
  "useTOTPVerifyMutation net token totpCode =
     raw_call net (post_request ''/api/v1/auth/totp/verify'' [bearer token, json_content]
         (Some (JObj [(''code'', JStr totpCode)])))
       (\<lambda>res. body_message res (''TOTP do'' @ tr_g @ ''rulama hatas'' @ tr_i)
          (''TOTP verify: '' @ show_nat (rs_status res)))"

definition useRecoverInitMutation :: "json \<Rightarrow> mutation_hook" where
  "useRecoverInitMutation input = public_mutation POST ''/api/v1/auth/recover/init'' (Some input)"

definition totpStatusQueryKey :: "json list" where "totpStatusQueryKey = [JStr ''totp'', JStr ''status'']"

definition useTOTPStatusQuery :: query_hook where
  "useTOTPStatusQuery = get_query totpStatusQueryKey ''/api/v1/auth/totp/status'' True (StaleFor 30000)"

definition useTOTPDisableMutation :: "json \<Rightarrow> mutation_hook" where
  "useTOTPDisableMutation input = mutation DELETE ''/api/v1/auth/totp'' (Some input) []"

definition useTOTPRegenerateBackupMutation :: "json \<Rightarrow> mutation_hook" where
  "useTOTPRegenerateBackupMutation input =
     mutation POST ''/api/v1/auth/totp/backup-codes/regenerate'' (Some input) []"

definition useRecoverCompleteMutation ::
    "'w net \<Rightarrow> string \<Rightarrow> json \<Rightarrow> 'w web_env \<Rightarrow> (string + json) \<times> 'w web_env" where
  "useRecoverCompleteMutation net tmpToken body =
     raw_call net (post_request ''/api/v1/auth/recover/complete'' [bearer tmpToken, json_content] (Some body))
       (\<lambda>res. body_message res (''Recovery complete hatas'' @ tr_i)
          (''Recover complete: '' @ show_nat (rs_status res)))"

definition trustedDevicesQueryKey :: "json list" where "trustedDevicesQueryKey = [JStr ''trusted-devices'']"

definition useTrustedDevicesQuery :: query_hook where
  "useTrustedDevicesQuery =
     get_query trustedDevicesQueryKey ''/api/v1/auth/trusted-devices'' True (StaleFor 60000)"

definition useRevokeTrustedDeviceMutation :: "string \<Rightarrow> mutation_hook" where
  "useRevokeTrustedDeviceMutation i =
     mutation DELETE (''/api/v1/auth/trusted-devices/'' @ i) None [trustedDevicesQueryKey]"

definition useRevokeAllTrustedDevicesMutation :: mutation_hook where
  "useRevokeAllTrustedDevicesMutation =
     mutation DELETE ''/api/v1/auth/trusted-devices'' None [trustedDevicesQueryKey]"

definition useForgotPasswordMutation :: "string \<Rightarrow> mutation_hook" where
  "useForgotPasswordMutation email =
     public_mutation POST ''/api/v1/auth/forgot-password'' (Some (JObj [(''email'', JStr email)]))"

text \<open>Byte arrays are sent as arrays of numbers here.\<close>

record ResetPasswordRequest =
  rp_token :: string
  rp_new_password :: string
  rp_public_key :: "byte list"
  rp_private_key_enc :: "byte list"
  rp_kek_salt :: "byte list"
  rp_kek_params :: json

definition array_from :: "byte list \<Rightarrow> json" where
  "array_from bs = JArr (map (\<lambda>b. JNum (uint b)) bs)"

definition useResetPasswordMutation :: "ResetPasswordRequest \<Rightarrow> mutation_hook" where
  "useResetPasswordMutation input =
     public_mutation POST ''/api/v1/auth/reset-password''
       (Some (JObj [(''token'', JStr (rp_token input)), (''new_password'', JStr (rp_new_password input)),
          (''public_key'', array_from (rp_public_key input)),
          (''private_key_enc'', array_from (rp_private_key_enc input)),
          (''kek_salt'', array_from (rp_kek_salt input)), (''kek_params'', rp_kek_params input)]))"

subsection \<open>\<open>bootstrap.ts\<close>\<close>

definition bootstrap_BASE :: string where "bootstrap_BASE = ''/api/v1/auth/bootstrap''"

definition handleResponse_message :: "http_response \<Rightarrow> string" where
  "handleResponse_message res =
     (let fallback = ''HTTP '' @ show_nat (rs_status res)
      in case rs_json res of
          None \<Rightarrow> fallback
        | Some body \<Rightarrow>
            (let msg = json_str_field body ''message'' in if truthy msg then the msg else fallback))"

definition bootstrapStatus :: "'w net \<Rightarrow> 'w web_env \<Rightarrow> (string + json) \<times> 'w web_env" where
  "bootstrapStatus net =
     raw_call net \<lparr>rq_url = bootstrap_BASE @ ''/status'', rq_method = GET, rq_headers = [], rq_body = None\<rparr>
       handleResponse_message"

definition bootstrap_credentials :: "string \<Rightarrow> string \<Rightarrow> json" where
  "bootstrap_credentials user password = JObj [(''username'', JStr user), (''password'', JStr password)]"

definition bootstrapSetup ::
    "'w net \<Rightarrow> string \<Rightarrow> string \<Rightarrow> 'w web_env \<Rightarrow> (string + json) \<times> 'w web_env" where
  "bootstrapSetup net user password =
     raw_call net (post_request (bootstrap_BASE @ ''/setup'') [json_content]
       (Some (bootstrap_credentials user password))) handleResponse_message"

definition bootstrapLogin ::
    "'w net \<Rightarrow> string \<Rightarrow> string \<Rightarrow> 'w web_env \<Rightarrow> (string + json) \<times> 'w web_env" where
  "bootstrapLogin net user password =
     raw_call net (post_request (bootstrap_BASE @ ''/login'') [json_content]
       (Some (bootstrap_credentials user password))) handleResponse_message"

subsection \<open>\<open>me.ts\<close>\<close>

definition fetchMyKeypair :: "'w net \<Rightarrow> string \<Rightarrow> 'w web_env \<Rightarrow> (string + json) \<times> 'w web_env" where
  "fetchMyKeypair net accessToken =
     raw_call net \<lparr>rq_url = ''/api/v1/users/me/keypair'', rq_method = GET, rq_headers = [bearer accessToken],
         rq_body = None\<rparr>
       (\<lambda>res. body_message res (''Keypair okunamad'' @ tr_i @ ''.'')
          (''Keypair fetch: '' @ show_nat (rs_status res)))"

definition useMyKeypairMutation :: mutation_hook where
  "useMyKeypairMutation =
     \<lparr>m_path = ''/api/v1/users/me/keypair'', m_options = no_options, m_invalidates = []\<rparr>"

subsection \<open>\<open>webauthn.ts\<close>\<close>

definition waKeys_credentials :: "json list" where
  "waKeys_credentials = [JStr ''webauthn'', JStr ''credentials'']"

definition useWebAuthnCredentials :: query_hook where
  "useWebAuthnCredentials =
     get_query waKeys_credentials ''/api/v1/auth/webauthn/credentials'' True ClientDefault"

definition useWebAuthnRegisterBeginMutation :: mutation_hook where
  "useWebAuthnRegisterBeginMutation =
     mutation POST ''/api/v1/auth/webauthn/register/begin'' (Some (JObj [])) []"

definition useWebAuthnRegisterFinishMutation :: "json \<Rightarrow> mutation_hook" where
  "useWebAuthnRegisterFinishMutation payload =
     mutation POST ''/api/v1/auth/webauthn/register/finish'' (Some payload) [waKeys_credentials]"

definition useWebAuthnLoginBeginMutation :: "string \<Rightarrow> mutation_hook" where
  "useWebAuthnLoginBeginMutation user =
     public_mutation POST ''/api/v1/auth/webauthn/login/begin'' (Some (JObj [(''username'', JStr user)]))"

definition useWebAuthnLoginFinishMutation :: "json \<Rightarrow> mutation_hook" where
  "useWebAuthnLoginFinishMutation payload =
     public_mutation POST ''/api/v1/auth/webauthn/login/finish'' (Some payload)"

definition useWebAuthnUpdateCredentialMutation :: "string \<Rightarrow> string \<Rightarrow> mutation_hook" where
  "useWebAuthnUpdateCredentialMutation i label =
     mutation PUT (''/api/v1/auth/webauthn/credentials/'' @ i) (Some (JObj [(''label'', JStr label)]))
       [waKeys_credentials]"

definition useWebAuthnDeleteCredentialMutation :: "string \<Rightarrow> mutation_hook" where
  "useWebAuthnDeleteCredentialMutation i =
     mutation DELETE (''/api/v1/auth/webauthn/credentials/'' @ i) None [waKeys_credentials]"

subsection \<open>\<open>notifications.ts\<close>\<close>

definition notificationsKey :: "json list" where "notificationsKey = key_notifications_all"
definition unreadCountKey :: "json list" where "unreadCountKey = key_notifications_all @ [JStr ''unread-count'']"

definition useNotificationsQuery :: query_hook where
  "useNotificationsQuery =
     (explicit_get (get_query notificationsKey ''/api/v1/notifications'' True (StaleFor 30000)))\<lparr>q_poll := Some 60000\<rparr>"

definition useUnreadCountQuery :: query_hook where
  "useUnreadCountQuery =
     (explicit_get (get_query unreadCountKey ''/api/v1/notifications/unread-count'' True (StaleFor 15000)))
       \<lparr>q_poll := Some 60000\<rparr>"

definition useMarkReadMutation :: "string \<Rightarrow> mutation_hook" where
  "useMarkReadMutation i = mutation POST (''/api/v1/notifications/'' @ i @ ''/read'') None [notificationsKey]"

definition useMarkAllReadMutation :: mutation_hook where
  "useMarkAllReadMutation = mutation POST ''/api/v1/notifications/read-all'' None [notificationsKey]"

definition notificationPrefsQueryKey :: "json list" where
  "notificationPrefsQueryKey = [JStr ''notification-prefs'']"

definition useNotificationPrefsQuery :: query_hook where
  "useNotificationPrefsQuery =
     get_query notificationPrefsQueryKey ''/api/v1/users/me/notification-prefs'' True (StaleFor 60000)"

text \<open>A preference: the notification type and its channels, by their wire names.\<close>

record NotificationPref =
  np_type :: string
  np_channels :: "string list"

definition pref_json :: "NotificationPref \<Rightarrow> json" where
  "pref_json p = JObj [(''notification_type'', JStr (np_type p)), (''channels'', JArr (map JStr (np_channels p)))]"

definition useUpdateNotificationPrefsMutation :: "NotificationPref list \<Rightarrow> mutation_hook" where
  "useUpdateNotificationPrefsMutation prefs =
     mutation PUT ''/api/v1/users/me/notification-prefs'' (Some (JObj [(''prefs'', JArr (map pref_json prefs))]))
       [notificationPrefsQueryKey]"

definition externalChannelsQueryKey :: "json list" where
  "externalChannelsQueryKey = [JStr ''external-channels'']"

definition useExternalChannelsQuery :: query_hook where
  "useExternalChannelsQuery = get_query externalChannelsQueryKey ''/api/v1/users/me/channels'' True (StaleFor 30000)"

definition useAddExternalChannelMutation :: "json \<Rightarrow> mutation_hook" where
  "useAddExternalChannelMutation input =
     mutation POST ''/api/v1/users/me/channels'' (Some input) [externalChannelsQueryKey]"

definition useDeleteExternalChannelMutation :: "string \<Rightarrow> mutation_hook" where
  "useDeleteExternalChannelMutation i =
     mutation DELETE (''/api/v1/users/me/channels/'' @ i) None [externalChannelsQueryKey]"

definition useTestExternalChannelMutation :: "string \<Rightarrow> mutation_hook" where
  "useTestExternalChannelMutation i = mutation POST (''/api/v1/users/me/channels/'' @ i @ ''/test'') None []"

subsection \<open>\<open>api-tokens.ts\<close>\<close>

definition api_tokens_key :: "json list" where "api_tokens_key = [JStr ''api-tokens'']"

definition useAPITokensQuery :: query_hook where
  "useAPITokensQuery = get_query api_tokens_key ''/api/v1/users/me/api-tokens'' True (StaleFor 60000)"

definition useCreateAPITokenMutation :: "json \<Rightarrow> mutation_hook" where
  "useCreateAPITokenMutation req = mutation POST ''/api/v1/users/me/api-tokens'' (Some req) [api_tokens_key]"

definition useDeleteAPITokenMutation :: "string \<Rightarrow> mutation_hook" where
  "useDeleteAPITokenMutation i = mutation DELETE (''/api/v1/users/me/api-tokens/'' @ i) None [api_tokens_key]"

subsection \<open>What a direct call does\<close>

lemma raw_call_frame:
  assumes "raw_call net rq failure env = (r, env')"
  shows "we_tokens env' = we_tokens env" "we_logouts env' = we_logouts env" "we_sent env' = we_sent env @ [rq]"
  using assms do_fetch_frame [of net rq env]
  by (auto simp: raw_call_def split: prod.splits fetch_result.splits if_splits option.splits)

end
