(* ===== verification/AuthFlows.thy ===== *)
theory AuthFlows
  imports AuthStore AccountHooks
begin

text \<open>
  The flows that start or change an account's credentials: signing in
  (\<open>runLogin\<close>, \<open>onSubmit\<close>, \<open>onTotpSubmit\<close> in \<open>web/src/pages/login.tsx\<close>), changing the master
  password (\<open>change-password.tsx\<close>), recovering an account (\<open>recover.tsx\<close>), resetting the password
  (\<open>reset-password.tsx\<close>) and registering (\<open>register.tsx\<close>). Toasts and spinners are left out;
  each handler gives its outcome and the new state of the application. \<open>toLowerCase\<close> is the
  parameter \<open>lower\<close>.
\<close>

subsection \<open>Errors of a flow\<close>

datatype flow_error =
    Api js_error              \<comment> \<open>rejected by the fetch wrapper\<close>
  | CallFailed string         \<comment> \<open>a direct call failed with this message\<close>
  | CryptoFailed crypto_error
  | BadBase64
  | BadKEKParams              \<comment> \<open>Argon2 parameters missing or not positive\<close>
  | StorageThrows
  | NoBody                    \<comment> \<open>a property of an absent response body is read\<close>

text \<open>
  A property that is missing from a reply is the text \<open>undefined\<close> wherever it is put into a URL, a
  header or the storage of the browser; the model takes that text from the start.
\<close>

definition str_or_undefined :: "json \<Rightarrow> string \<Rightarrow> string" where
  "str_or_undefined j k = nullish (json_str_field j k) ''undefined''"

text \<open>The Argon2 parameters a server sends back; the derivation rejects any other value.\<close>

definition json_positive :: "json \<Rightarrow> string \<Rightarrow> nat option" where
  "json_positive j k = (case json_field j k of Some (JNum n) \<Rightarrow> if 0 < n then Some (nat n) else None | _ \<Rightarrow> None)"

definition kek_params_of_json :: "json \<Rightarrow> KEKParams option" where
  "kek_params_of_json j =
     (case (json_positive j ''t'', json_positive j ''m'', json_positive j ''p'') of
        (Some t, Some mem, Some p) \<Rightarrow> Some \<lparr>kp_t = t, kp_m = mem, kp_p = p, kp_v = json_positive j ''v''\<rparr>
      | _ \<Rightarrow> None)"

text \<open>\<open>{ ...kekParams, salt_b64: toBase64(kekSalt) }\<close>.\<close>

definition kek_params_json :: "KEKParams \<Rightarrow> bytes \<Rightarrow> json" where
  "kek_params_json kp salt = JObj ([(''t'', JNum (int (kp_t kp))), (''m'', JNum (int (kp_m kp))),
       (''p'', JNum (int (kp_p kp)))]
     @ (case kp_v kp of None \<Rightarrow> [] | Some v \<Rightarrow> [(''v'', JNum (int v))])
     @ [(''salt_b64'', JStr (toBase64 salt))])"

subsection \<open>Signing in (\<open>login.tsx\<close>)\<close>

record login_form =
  lf_username :: string
  lf_password :: string
  lf_totp :: "string option"
  lf_remember :: "bool option"

definition login_request :: "(string \<Rightarrow> string) \<Rightarrow> login_form \<Rightarrow> json" where
  "login_request lower f = JObj ([(''username'', JStr (lower (lf_username f))), (''master_password'', JStr (lf_password f))]
     @ opt_str ''totp_code'' (or_undef (lf_totp f))
     @ (if lf_remember f = Some True then [(''remember_device'', JBool True)] else []))"

definition session_user :: "login_form \<Rightarrow> json \<Rightarrow> SessionUser" where
  "session_user f loginRes = \<lparr>user_id = str_or_undefined loginRes ''user_id'', username = lf_username f,
     roles = json_strings (json_field loginRes ''roles'')\<rparr>"

definition login_input :: "login_form \<Rightarrow> json \<Rightarrow> SessionInput" where
  "login_input f loginRes = \<lparr>si_user = session_user f loginRes,
     si_accessToken = str_or_undefined loginRes ''access_token'',
     si_refreshToken = str_or_undefined loginRes ''refresh_token'',
     si_mustChangePassword = json_bool_field loginRes ''must_change_password'',
     si_mustSetupTOTP = json_bool_field loginRes ''must_setup_totp''\<rparr>"

text \<open>\<open>!keypair || keypair.kek_params?.alg === 'none'\<close>; a failed fetch leaves \<open>null\<close>.\<close>

definition no_keypair :: "json option \<Rightarrow> bool" where
  "no_keypair keypair = (case keypair of
     None \<Rightarrow> True
   | Some kp \<Rightarrow> falsy kp
       \<or> Option.bind (json_field kp ''kek_params'') (\<lambda>p. json_str_field p ''alg'') = Some ''none'')"

text \<open>
  Deriving the key encryption key and opening the private key with it. Parameters that are absent
  take the default of \<open>deriveKEK\<close>.
\<close>

definition keypair_params :: "json \<Rightarrow> KEKParams option" where
  "keypair_params keypair = (case json_field keypair ''kek_params'' of
     None \<Rightarrow> Some DEFAULT_KEK_PARAMS | Some params \<Rightarrow> kek_params_of_json params)"

definition unlock_keypair :: "'r webcrypto \<Rightarrow> string \<Rightarrow> json \<Rightarrow> flow_error + bytes \<times> bytes" where
  "unlock_keypair wc password keypair =
     (case fromBase64 (str_or_undefined keypair ''kek_salt'') of
        Inl _ \<Rightarrow> Inl BadBase64
      | Inr kekSalt \<Rightarrow>
          (case keypair_params keypair of
             None \<Rightarrow> Inl BadKEKParams
           | Some kekParams \<Rightarrow>
               (let kek = deriveKEK wc password kekSalt kekParams
                in case fromBase64 (str_or_undefined keypair ''private_key_enc'') of
                    Inl _ \<Rightarrow> Inl BadBase64
                  | Inr privateKeyEnc \<Rightarrow>
                      (case decryptPrivateKey wc privateKeyEnc kek of
                         Inl e \<Rightarrow> Inl (CryptoFailed e)
                       | Inr privateKey \<Rightarrow> Inr (kek, privateKey)))))"

definition start_session :: "SessionInput \<Rightarrow> bytes \<Rightarrow> bytes \<Rightarrow> ('w, 'r) web_app \<Rightarrow> ('w, 'r) web_app" where
  "start_session si kek privateKey app =
     (let (k, buf1) = alloc kek (ap_buf app); (p, buf2) = alloc privateKey buf1
      in setSession si k p (app\<lparr>ap_buf := buf2\<rparr>))"

definition finish_login ::
    "'r webcrypto \<Rightarrow> login_form \<Rightarrow> json \<Rightarrow> json option \<Rightarrow> ('w, 'r) web_app \<Rightarrow> (flow_error + unit) \<times> ('w, 'r) web_app" where
  "finish_login wc f loginRes keypair app =
     (if no_keypair keypair then
        (case setBootstrapSession (wc_random wc 32) (login_input f loginRes) app of
           (Inl _, app1) \<Rightarrow> (Inl StorageThrows, app1)
         | (Inr _, app1) \<Rightarrow> (Inr (), app1))
      else
        (case unlock_keypair wc (lf_password f) (the keypair) of
           Inl e \<Rightarrow> (Inl e, app)
         | Inr (kek, privateKey) \<Rightarrow> (Inr (), start_session (login_input f loginRes) kek privateKey app)))"

definition runLogin ::
    "'r webcrypto \<Rightarrow> (string \<Rightarrow> string) \<Rightarrow> 'w net \<Rightarrow> login_form \<Rightarrow> ('w, 'r) web_app
       \<Rightarrow> (flow_error + unit) \<times> ('w, 'r) web_app" where
  "runLogin wc lower net f app =
     (let h = useLoginMutation (login_request lower f);
          (r, _, env1) = run_mutation net h (ap_env app)
      in case r of
          Inl e \<Rightarrow> (Inl (Api e), app\<lparr>ap_env := env1\<rparr>)
        | Inr body \<Rightarrow>
            (case body of
               None \<Rightarrow> (Inl NoBody, app\<lparr>ap_env := env1\<rparr>)
             | Some loginRes \<Rightarrow>
                 if loginRes = JNull then (Inl NoBody, app\<lparr>ap_env := env1\<rparr>)
                 else
                   (let (kr, env2) = fetchMyKeypair net (str_or_undefined loginRes ''access_token'') env1;
                        keypair = (case kr of Inl _ \<Rightarrow> None | Inr kp \<Rightarrow> Some kp)
                    in finish_login wc f loginRes keypair (app\<lparr>ap_env := env2\<rparr>))))"

text \<open>Where the page goes after a login: back where the user came from.\<close>

definition after_login :: "string option \<Rightarrow> string" where
  "after_login rawFrom =
     (if truthy rawFrom \<and> rawFrom \<noteq> Some ''/change-password'' then the rawFrom else ''/inventory'')"

datatype login_outcome =
  Ignored | MissingField | LoggedIn string | AskTotp | LoginFailed flow_error

definition login_onSubmit ::
    "'r webcrypto \<Rightarrow> (string \<Rightarrow> string) \<Rightarrow> 'w net \<Rightarrow> string option \<Rightarrow> bool \<Rightarrow> login_form \<Rightarrow> ('w, 'r) web_app
       \<Rightarrow> login_outcome \<times> ('w, 'r) web_app" where
  "login_onSubmit wc lower net rawFrom busy f app =
     (if busy then (Ignored, app)
      else if lf_username f = [] \<or> lf_password f = [] then (MissingField, app)
      else
        (case runLogin wc lower net (f\<lparr>lf_totp := None, lf_remember := None\<rparr>) app of
           (Inr _, app1) \<Rightarrow> (LoggedIn (after_login rawFrom), app1)
         | (Inl err, app1) \<Rightarrow>
             (case err of
                Api (ApiErr e) \<Rightarrow>
                  if code e = ErrCode MFARequired then (AskTotp, app1) else (LoginFailed err, app1)
              | _ \<Rightarrow> (LoginFailed err, app1))))"

definition onTotpSubmit ::
    "'r webcrypto \<Rightarrow> (string \<Rightarrow> string) \<Rightarrow> 'w net \<Rightarrow> string option \<Rightarrow> bool \<Rightarrow> login_form \<Rightarrow> string \<Rightarrow> bool
       \<Rightarrow> ('w, 'r) web_app \<Rightarrow> login_outcome \<times> ('w, 'r) web_app" where
  "onTotpSubmit wc lower net rawFrom busy f totpCode rememberDevice app =
     (if busy then (Ignored, app)
      else if js_length totpCode < 6 then (MissingField, app)
      else
        (case runLogin wc lower net (f\<lparr>lf_totp := Some totpCode, lf_remember := Some rememberDevice\<rparr>) app of
           (Inr _, app1) \<Rightarrow> (LoggedIn (after_login rawFrom), app1)
         | (Inl err, app1) \<Rightarrow> (LoginFailed err, app1)))"

subsection \<open>New credentials\<close>

text \<open>Salt, key encryption key and encrypted private key, drawn in the order the three pages
  draw them.\<close>

definition new_credentials ::
    "'r webcrypto \<Rightarrow> string \<Rightarrow> bytes \<Rightarrow> 'r \<Rightarrow> (crypto_error + bytes \<times> bytes) \<times> 'r" where
  "new_credentials wc newPassword privateKey r =
     (let (kekSalt, r1) = randomKEKSalt wc r;
          newKEK = deriveKEK wc newPassword kekSalt DEFAULT_KEK_PARAMS;
          (enc, r2) = encryptPrivateKey wc privateKey newKEK r1
      in (case enc of Inl e \<Rightarrow> Inl e | Inr blob \<Rightarrow> Inr (kekSalt, blob), r2))"

definition change_password_body :: "string \<Rightarrow> string \<Rightarrow> bytes \<Rightarrow> bytes \<Rightarrow> json" where
  "change_password_body currentPassword newPassword kekSalt blob =
     JObj [(''current_master_password'', JStr currentPassword), (''new_master_password'', JStr newPassword),
       (''new_private_key_enc'', JStr (toBase64 blob)), (''new_kek_salt'', JStr (toBase64 kekSalt)),
       (''new_kek_params'', kek_params_json DEFAULT_KEK_PARAMS kekSalt)]"

datatype change_outcome =
    ChangeIgnored | NotRequired | NoPrivateKey | PasswordTooShort | PasswordsDiffer | SamePassword
  | PasswordChanged | ChangeFailed flow_error

definition with_rng :: "'r \<Rightarrow> ('w, 'r) web_app \<Rightarrow> ('w, 'r) web_app" where
  "with_rng r app = app\<lparr>ap_buf := (ap_buf app)\<lparr>bf_rng := r\<rparr>\<rparr>"

text \<open>\<open>change-password.tsx\<close>: the handler of the form, which is shown while the session has
  \<open>mustChangePassword\<close> only. Removing the bootstrap key is not guarded against an exception.\<close>

definition change_password ::
    "'r webcrypto \<Rightarrow> 'w net \<Rightarrow> bool \<Rightarrow> string \<Rightarrow> string \<Rightarrow> string \<Rightarrow> ('w, 'r) web_app
       \<Rightarrow> change_outcome \<times> ('w, 'r) web_app" where
  "change_password wc net busy currentPassword newPassword newPasswordConfirm app =
     (let auth = ap_auth app
      in if \<not> au_mustChangePassword auth then (NotRequired, app)
         else if busy then (ChangeIgnored, app)
         else case session_private_key app of
           None \<Rightarrow> (NoPrivateKey, app)
         | Some privateKey \<Rightarrow>
             if js_length newPassword < 12 then (PasswordTooShort, app)
             else if newPassword \<noteq> newPasswordConfirm then (PasswordsDiffer, app)
             else if currentPassword = newPassword then (SamePassword, app)
             else
               (let (creds, r) = new_credentials wc newPassword privateKey (bf_rng (ap_buf app));
                    app1 = with_rng r app
                in case creds of
                    Inl e \<Rightarrow> (ChangeFailed (CryptoFailed e), app1)
                  | Inr (kekSalt, blob) \<Rightarrow>
                      (case run_mutation net (useChangePasswordMutation
                               (change_password_body currentPassword newPassword kekSalt blob)) (ap_env app1) of
                         (Inl e, _, env1) \<Rightarrow> (ChangeFailed (Api e), app1\<lparr>ap_env := env1\<rparr>)
                       | (Inr _, _, env1) \<Rightarrow>
                           (let app2 = app1\<lparr>ap_env := env1\<rparr>
                            in case (au_isBootstrap auth, au_user auth) of
                                (True, Some user) \<Rightarrow>
                                  (case removeItem (storage (app_tokens app2)) (bootstrap_storage_key user) of
                                     Inl _ \<Rightarrow> (ChangeFailed StorageThrows, app2)
                                   | Inr ls \<Rightarrow> (PasswordChanged,
                                       clear_session (on_tokens (\<lambda>ts. ts\<lparr>storage := ls\<rparr>) app2)))
                              | _ \<Rightarrow> (PasswordChanged, clear_session app2)))))"

text \<open>\<open>recover.tsx\<close> and \<open>reset-password.tsx\<close>: a fresh key pair under a fresh password. The
  recovery sends base64, the reset arrays of numbers.\<close>

definition recover_body :: "string \<Rightarrow> bytes \<Rightarrow> bytes \<Rightarrow> bytes \<Rightarrow> json" where
  "recover_body newPassword publicKey kekSalt blob =
     JObj [(''new_master_password'', JStr newPassword), (''public_key'', JStr (toBase64 publicKey)),
       (''new_private_key_enc'', JStr (toBase64 blob)), (''new_kek_salt'', JStr (toBase64 kekSalt)),
       (''new_kek_params'', kek_params_json DEFAULT_KEK_PARAMS kekSalt)]"

datatype recover_outcome =
  RecoverTooShort | RecoverDiffer | RecoveryCodes json | RecoverFailed flow_error

definition recover_onComplete ::
    "'r webcrypto \<Rightarrow> 'w net \<Rightarrow> string \<Rightarrow> string \<Rightarrow> string \<Rightarrow> 'w web_env \<times> 'r \<Rightarrow> recover_outcome \<times> 'w web_env \<times> 'r" where
  "recover_onComplete wc net tmpToken newPassword newPasswordConfirm s =
     (let (env, r) = s
      in if js_length newPassword < 12 then (RecoverTooShort, s)
         else if newPassword \<noteq> newPasswordConfirm then (RecoverDiffer, s)
         else
           (let ((publicKey, privateKey), r1) = generateX25519Keypair wc r;
                (creds, r2) = new_credentials wc newPassword privateKey r1
            in case creds of
                Inl e \<Rightarrow> (RecoverFailed (CryptoFailed e), env, r2)
              | Inr (kekSalt, blob) \<Rightarrow>
                  (case useRecoverCompleteMutation net tmpToken (recover_body newPassword publicKey kekSalt blob) env of
                     (Inl m, env1) \<Rightarrow> (RecoverFailed (CallFailed m), env1, r2)
                   | (Inr res, env1) \<Rightarrow>
                       if res = JNull then (RecoverFailed NoBody, env1, r2)
                       else (RecoveryCodes (nullish (json_field res ''recovery_codes'') JNull), env1, r2))))"

datatype reset_outcome = ResetTooShort | ResetDiffer | ResetDone | ResetFailed flow_error

definition handleReset ::
    "'r webcrypto \<Rightarrow> 'w net \<Rightarrow> string \<Rightarrow> string \<Rightarrow> string \<Rightarrow> 'w web_env \<times> 'r \<Rightarrow> reset_outcome \<times> 'w web_env \<times> 'r" where
  "handleReset wc net token newPassword newPasswordConfirm s =
     (let (env, r) = s
      in if js_length newPassword < 12 then (ResetTooShort, s)
         else if newPassword \<noteq> newPasswordConfirm then (ResetDiffer, s)
         else
           (let ((publicKey, privateKey), r1) = generateX25519Keypair wc r;
                (creds, r2) = new_credentials wc newPassword privateKey r1
            in case creds of
                Inl e \<Rightarrow> (ResetFailed (CryptoFailed e), env, r2)
              | Inr (kekSalt, blob) \<Rightarrow>
                  (case run_mutation net (useResetPasswordMutation
                           \<lparr>rp_token = token, rp_new_password = newPassword, rp_public_key = publicKey,
                            rp_private_key_enc = blob, rp_kek_salt = kekSalt,
                            rp_kek_params = kek_params_json DEFAULT_KEK_PARAMS kekSalt\<rparr>) env of
                     (Inl e, _, env1) \<Rightarrow> (ResetFailed (Api e), env1, r2)
                   | (Inr _, _, env1) \<Rightarrow> (ResetDone, env1, r2))))"

text \<open>\<open>register.tsx\<close> sends random bytes for the key pair and parameters of another scheme.\<close>

definition register_body :: "'r webcrypto \<Rightarrow> (string \<Rightarrow> string) \<Rightarrow> string \<Rightarrow> string \<Rightarrow> 'r \<Rightarrow> json \<times> 'r" where
  "register_body wc lower user password r =
     (let (pub, r1) = wc_random wc 32 r; (enc, r2) = wc_random wc 64 r1; (salt, r3) = wc_random wc 16 r2
      in (JObj [(''username'', JStr (lower user)), (''email'', JStr (user @ ''@test.local'')),
            (''master_password'', JStr password), (''public_key'', array_from pub),
            (''private_key_enc'', array_from enc), (''kek_salt'', array_from salt),
            (''kek_params'', JObj [(''alg'', JStr ''pbkdf2-sha256''), (''iterations'', JNum 210000)])], r3))"

subsection \<open>Lemmas\<close>

lemma run_public_frame:
  assumes "run_mutation net (public_mutation meth path body) env = (r, ks, env1)"
  shows "we_tokens env1 = we_tokens env" "we_logouts env1 = we_logouts env"
proof -
  let ?h = "public_mutation meth path body"
  obtain fr env2 where f: "do_fetch net (build_request (getAccessToken (we_tokens env)) (m_path ?h) (m_options ?h)) env = (fr, env2)"
    by fastforce
  have "apiFetch net (m_path ?h) (m_options ?h) env = (read_response fr, env2)"
    by (rule apiFetch_single [OF _ f]) (simp add: public_mutation_def)
  then have "env1 = env2"
    using assms by (auto simp: run_mutation_def split: prod.splits sum.splits)
  with do_fetch_frame [OF f] show "we_tokens env1 = we_tokens env" "we_logouts env1 = we_logouts env" by simp_all
qed

text \<open>What a server holding the credentials of a flow sends back as key pair.\<close>

definition stored_credentials :: "bytes \<Rightarrow> bytes \<Rightarrow> json \<Rightarrow> bool" where
  "stored_credentials salt blob kp \<longleftrightarrow> json_str_field kp ''private_key_enc'' = Some (toBase64 blob)
     \<and> json_str_field kp ''kek_salt'' = Some (toBase64 salt)
     \<and> json_field kp ''kek_params'' = Some (kek_params_json DEFAULT_KEK_PARAMS salt)"

lemma kek_params_back:
  "kek_params_of_json (kek_params_json DEFAULT_KEK_PARAMS salt) = Some DEFAULT_KEK_PARAMS"
  "json_str_field (kek_params_json DEFAULT_KEK_PARAMS salt) ''alg'' = None"
  by (simp_all add: kek_params_of_json_def kek_params_json_def json_positive_def DEFAULT_KEK_PARAMS_def
      json_str_field_def)

lemma base64_back: "fromBase64 (toBase64 bs) = Inr bs"
  by (simp add: fromBase64_def toBase64_def btoa_sextets atob_sextets)

lemma new_credentials_shape:
  assumes "webcrypto_laws wc" and "new_credentials wc pw p r = (Inr (salt, blob), r')"
  shows "decryptPrivateKey wc blob (deriveKEK wc pw salt DEFAULT_KEK_PARAMS) = Inr p" "length salt = 16"
proof -
  let ?kek = "deriveKEK wc pw salt DEFAULT_KEK_PARAMS"
  obtain r1 where s: "randomKEKSalt wc r = (salt, r1)" and e: "encryptPrivateKey wc p ?kek r1 = (Inr blob, r')"
    using assms(2) by (auto simp: new_credentials_def split: prod.splits sum.splits)
  obtain nonce where n: "length ?kek \<in> {16, 24, 32}" "length nonce = 12"
    "blob = [FORMAT_VERSION, ALG_AES_GCM] @ nonce @ wc_seal wc ?kek nonce p"
    using encryptPrivateKey_shape [OF assms(1) e] by blast
  then show "decryptPrivateKey wc blob ?kek = Inr p"
    by (auto simp: decryptPrivateKey_def crypto_defs HEADER_LEN_def NONCE_LEN_def subarray_def
        laws(1,3) [OF assms(1)])
  show "length salt = 16"
    using s laws(9) [OF assms(1)] by (simp add: randomKEKSalt_def)
qed

lemma stored_credentials_unlock:
  assumes "webcrypto_laws wc" and "new_credentials wc pw p r = (Inr (salt, blob), r')"
    and "stored_credentials salt blob kp"
  shows "unlock_keypair wc pw kp = Inr (deriveKEK wc pw salt DEFAULT_KEK_PARAMS, p)" "\<not> no_keypair (Some kp)"
proof -
  show "unlock_keypair wc pw kp = Inr (deriveKEK wc pw salt DEFAULT_KEK_PARAMS, p)"
    using assms(3) new_credentials_shape(1) [OF assms(1,2)]
    by (simp add: unlock_keypair_def keypair_params_def stored_credentials_def str_or_undefined_def base64_back kek_params_back)
  have "\<not> falsy kp" using assms(3) by (cases kp) (auto simp: stored_credentials_def json_str_field_def)
  with assms(3) show "\<not> no_keypair (Some kp)"
    by (simp add: no_keypair_def stored_credentials_def kek_params_back)
qed

lemma start_session_key:
  "session_private_key (start_session si kek privateKey app) = Some privateKey"
  "ap_auth (start_session si kek privateKey app) = ap_auth (setSession si (bf_next (ap_buf app)) (Suc (bf_next (ap_buf app))) app)"
  by (simp_all add: start_session_def alloc_def setSession_def session_private_key_def on_tokens_def)

text \<open>A login against a server that holds the credentials of a flow.\<close>

definition login_opens :: "'r webcrypto \<Rightarrow> string \<Rightarrow> bytes \<Rightarrow> bytes \<Rightarrow> bytes \<Rightarrow> ('w, 'r) web_app \<Rightarrow> bool" where
  "login_opens wc pw salt blob key app \<longleftrightarrow>
     (\<forall>f loginRes kp. lf_password f = pw \<longrightarrow> stored_credentials salt blob kp \<longrightarrow>
        (\<exists>app'. finish_login wc f loginRes (Some kp) app = (Inr (), app')
           \<and> session_private_key app' = Some key \<and> selectIsAuthenticated (ap_auth app')
           \<and> \<not> selectIsBootstrap (ap_auth app')))"

lemma credentials_login_opens:
  assumes "webcrypto_laws wc" and "new_credentials wc pw p r = (Inr (salt, blob), r')"
  shows "login_opens wc pw salt blob p app"
proof -
  have "finish_login wc f loginRes (Some kp) app
      = (Inr (), start_session (login_input f loginRes) (deriveKEK wc pw salt DEFAULT_KEK_PARAMS) p app)"
    if "lf_password f = pw" "stored_credentials salt blob kp" for f loginRes kp
    using stored_credentials_unlock [OF assms that(2)] that(1) by (simp add: finish_login_def)
  then show ?thesis
    by (simp add: login_opens_def start_session_key setSession_def selectIsAuthenticated_def selectIsBootstrap_def)
qed

subsection \<open>Properties\<close>

text \<open>
  C2: Changing the master password keeps the private key. The page has sent a blob and a salt
  with which a later login under the new password opens exactly the private key of the old
  session; the session itself is over, its tokens gone and its key arrays unreachable.
\<close>
theorem changed_password_opens_same_key:
  assumes "webcrypto_laws wc" and "tokens_storable (app_tokens app)"
    and "change_password wc net False cur new conf app = (PasswordChanged, app1)"
  shows "\<exists>key salt blob env v ks. session_private_key app = Some key
    \<and> new \<noteq> cur \<and> js_length new \<ge> 12
    \<and> run_mutation net (useChangePasswordMutation (change_password_body cur new salt blob))
        (ap_env app) = (Inr v, ks, env)
    \<and> login_opens wc new salt blob key (app2 :: ('w2, 'r) web_app)
    \<and> \<not> selectIsAuthenticated (ap_auth app1) \<and> session_private_key app1 = None
    \<and> app_routes AppRoute (ap_auth app1) = NavigateTo ''/login''"
proof -
  obtain key where k: "session_private_key app = Some key" "new \<noteq> cur" "js_length new \<ge> 12"
    using assms(3) by (auto simp: change_password_def Let_def split: if_splits option.splits)
  obtain c r where c: "new_credentials wc new key (bf_rng (ap_buf app)) = (c, r)" by fastforce
  obtain salt blob where sb: "c = Inr (salt, blob)"
    using assms(3) k c by (cases c) (auto simp: change_password_def Let_def split: if_splits)
  obtain m ks env where m: "run_mutation net (useChangePasswordMutation (change_password_body cur new salt blob))
      (ap_env app) = (m, ks, env)" using prod_cases3 by blast
  obtain v where v: "m = Inr v"
    using assms(3) k c m sb by (cases m) (auto simp: change_password_def with_rng_def Let_def split: if_splits)
  have "\<exists>app0. app1 = clear_session app0"
    using assms(3) k c m sb v
    by (auto simp: change_password_def with_rng_def Let_def split: if_splits option.splits sum.splits bool.splits)
  then have over: "\<not> selectIsAuthenticated (ap_auth app1)" "session_private_key app1 = None"
    "app_routes AppRoute (ap_auth app1) = NavigateTo ''/login''"
    by (auto simp: clear_session_def gate_defs session_private_key_def)
  have "login_opens wc new salt blob key app2"
    using credentials_login_opens [OF assms(1)] c sb by blast
  with k m v over show ?thesis by blast
qed

lemma generated_keypair:
  assumes "webcrypto_laws wc"
  obtains priv ra where "generateX25519Keypair wc r = ((wc_pub wc priv, priv), ra)"
proof -
  obtain priv ra where r: "wc_random wc 32 r = (priv, ra)" by fastforce
  have "length X25519_PKCS8_PREFIX = 16" by (simp add: X25519_PKCS8_PREFIX_def)
  moreover from laws(9) [OF assms r] have "length priv = 32" .
  ultimately have "generateX25519Keypair wc r = ((wc_pub wc priv, priv), ra)"
    using r by (simp add: generateX25519Keypair_def)
  then show thesis by (rule that)
qed

lemma recover_credentials:
  assumes "webcrypto_laws wc"
    and "recover_onComplete wc net tok new conf (env, r) = (RecoveryCodes codes, env1, r1)"
  obtains priv salt blob j ra rb where "js_length new \<ge> 12" "new_credentials wc new priv ra = (Inr (salt, blob), rb)"
    "useRecoverCompleteMutation net tok (recover_body new (wc_pub wc priv) salt blob) env = (Inr j, env1)"
proof -
  obtain priv ra where g: "generateX25519Keypair wc r = ((wc_pub wc priv, priv), ra)"
    using generated_keypair [OF assms(1)] .
  obtain c rb where c: "new_credentials wc new priv ra = (c, rb)" by fastforce
  obtain salt blob where sb: "c = Inr (salt, blob)"
    using assms(2) g c by (cases c) (auto simp: recover_onComplete_def Let_def split: if_splits)
  obtain m env2 where m: "useRecoverCompleteMutation net tok (recover_body new (wc_pub wc priv) salt blob) env = (m, env2)"
    by fastforce
  have "js_length new \<ge> 12" "\<exists>j. m = Inr j" "env2 = env1"
    using assms(2) g c sb m by (cases m; auto simp: recover_onComplete_def Let_def split: if_splits)+
  with that [of priv ra salt blob rb] c sb m show thesis by auto
qed

lemma reset_credentials:
  assumes "webcrypto_laws wc" and "handleReset wc net tok new conf (env, r) = (ResetDone, env1, r1)"
  obtains priv salt blob v ks ra rb where "js_length new \<ge> 12"
    "new_credentials wc new priv ra = (Inr (salt, blob), rb)"
    "run_mutation net (useResetPasswordMutation \<lparr>rp_token = tok, rp_new_password = new,
        rp_public_key = wc_pub wc priv, rp_private_key_enc = blob, rp_kek_salt = salt,
        rp_kek_params = kek_params_json DEFAULT_KEK_PARAMS salt\<rparr>) env = (Inr v, ks, env1)"
proof -
  obtain priv ra where g: "generateX25519Keypair wc r = ((wc_pub wc priv, priv), ra)"
    using generated_keypair [OF assms(1)] .
  obtain c rb where c: "new_credentials wc new priv ra = (c, rb)" by fastforce
  obtain salt blob where sb: "c = Inr (salt, blob)"
    using assms(2) g c by (cases c) (auto simp: handleReset_def Let_def split: if_splits)
  obtain m ks env2 where m: "run_mutation net (useResetPasswordMutation \<lparr>rp_token = tok, rp_new_password = new,
        rp_public_key = wc_pub wc priv, rp_private_key_enc = blob, rp_kek_salt = salt,
        rp_kek_params = kek_params_json DEFAULT_KEK_PARAMS salt\<rparr>) env = (m, ks, env2)" using prod_cases3 by blast
  have "js_length new \<ge> 12" "\<exists>v. m = Inr v" "env2 = env1"
    using assms(2) g c sb m by (cases m; auto simp: handleReset_def Let_def split: if_splits)+
  with that [of priv ra salt blob rb] c sb m show thesis by auto
qed

text \<open>
  C20: Recovering an account and resetting a password replace the key pair: on success the page
  has sent a public key and credentials with which a login under the new password opens the
  private key of that public key.
\<close>
theorem new_keypair_opens_after_recovery:
  assumes "webcrypto_laws wc"
    and "recover_onComplete wc net tok new conf (env, r) = (RecoveryCodes codes, env1, r1)"
    and "handleReset wc net' tok' new' conf' (env', r') = (ResetDone, env1', r1')"
  shows "(\<exists>priv salt blob j. js_length new \<ge> 12
      \<and> useRecoverCompleteMutation net tok (recover_body new (wc_pub wc priv) salt blob) env = (Inr j, env1)
      \<and> login_opens wc new salt blob priv (app :: ('w2, 'r) web_app))
    \<and> (\<exists>priv salt blob v ks. js_length new' \<ge> 12
      \<and> run_mutation net' (useResetPasswordMutation \<lparr>rp_token = tok', rp_new_password = new',
            rp_public_key = wc_pub wc priv, rp_private_key_enc = blob, rp_kek_salt = salt,
            rp_kek_params = kek_params_json DEFAULT_KEK_PARAMS salt\<rparr>) env' = (Inr v, ks, env1')
      \<and> login_opens wc new' salt blob priv app)"
proof -
  obtain priv salt blob j ra rb where 1: "js_length new \<ge> 12"
    "new_credentials wc new priv ra = (Inr (salt, blob), rb)"
    "useRecoverCompleteMutation net tok (recover_body new (wc_pub wc priv) salt blob) env = (Inr j, env1)"
    using recover_credentials [OF assms(1,2)] .
  obtain priv' salt' blob' v ks ra' rb' where 2: "js_length new' \<ge> 12"
    "new_credentials wc new' priv' ra' = (Inr (salt', blob'), rb')"
    "run_mutation net' (useResetPasswordMutation \<lparr>rp_token = tok', rp_new_password = new',
        rp_public_key = wc_pub wc priv', rp_private_key_enc = blob', rp_kek_salt = salt',
        rp_kek_params = kek_params_json DEFAULT_KEK_PARAMS salt'\<rparr>) env' = (Inr v, ks, env1')"
    using reset_credentials [OF assms(1,3)] .
  have o: "login_opens wc new salt blob priv app" "login_opens wc new' salt' blob' priv' app"
    by (rule credentials_login_opens [OF assms(1)], fact)+
  from 1(1,3) o(1) have "\<exists>priv salt blob j. js_length new \<ge> 12
      \<and> useRecoverCompleteMutation net tok (recover_body new (wc_pub wc priv) salt blob) env = (Inr j, env1)
      \<and> login_opens wc new salt blob priv app" by blast
  moreover from 2(1,3) o(2) have "\<exists>priv salt blob v ks. js_length new' \<ge> 12
      \<and> run_mutation net' (useResetPasswordMutation \<lparr>rp_token = tok', rp_new_password = new',
            rp_public_key = wc_pub wc priv, rp_private_key_enc = blob, rp_kek_salt = salt,
            rp_kek_params = kek_params_json DEFAULT_KEK_PARAMS salt\<rparr>) env' = (Inr v, ks, env1')
      \<and> login_opens wc new' salt blob priv app" by blast
  ultimately show ?thesis by blast
qed

lemma setBootstrapSession_tokens:
  assumes "setBootstrapSession random32 si app = (Inr (), app1)" and "tokens_storable (app_tokens app)"
    and "\<forall>r. fst (random32 r) \<noteq> []"
  shows "getAccessToken (app_tokens app1) = Some (si_accessToken si)"
    "getRefreshToken (app_tokens app1) = Some (si_refreshToken si)"
    "ap_auth app1 = \<lparr>au_user = Some (si_user si), au_accessToken = Some (si_accessToken si), au_kek = None,
       au_privateKey = Some (bf_next (ap_buf app)), au_hydrating = False, au_isBootstrap = True,
       au_mustChangePassword = nullish (si_mustChangePassword si) False,
       au_mustSetupTOTP = nullish (si_mustSetupTOTP si) False\<rparr>"
proof -
  let ?k = "bootstrap_storage_key (si_user si)" and ?ts = "sync_session si True (app_tokens app)"
  obtain key ls rng where b: "bootstrap_key random32 ?k (storage ?ts) (bf_rng (ap_buf app)) = (Inr (key, ls), rng)"
    using assms(1) by (auto simp: setBootstrapSession_def on_tokens_def Let_def split: prod.splits sum.splits)
  have a: "app_tokens app1 = ?ts\<lparr>storage := ls\<rparr>"
    using assms(1) b by (auto simp: setBootstrapSession_def on_tokens_def Let_def alloc_def)
  note st = bootstrap_key_stores [OF b assms(3)]
  have "getItem ls REFRESH_KEY = getItem (storage ?ts) REFRESH_KEY"
    using st(2,4) by (simp add: getItem_def)
  then have "getRefreshToken (?ts\<lparr>storage := ls\<rparr>) = getRefreshToken ?ts"
    by (simp add: getRefreshToken_def)
  moreover have "getAccessToken (?ts\<lparr>storage := ls\<rparr>) = getAccessToken ?ts"
    by (simp add: getAccessToken_def)
  ultimately show "getAccessToken (app_tokens app1) = Some (si_accessToken si)"
    "getRefreshToken (app_tokens app1) = Some (si_refreshToken si)"
    using sync_session_facts [OF assms(2), of si True] by (simp_all add: a)
  show "ap_auth app1 = \<lparr>au_user = Some (si_user si), au_accessToken = Some (si_accessToken si), au_kek = None,
       au_privateKey = Some (bf_next (ap_buf app)), au_hydrating = False, au_isBootstrap = True,
       au_mustChangePassword = nullish (si_mustChangePassword si) False,
       au_mustSetupTOTP = nullish (si_mustSetupTOTP si) False\<rparr>"
    using assms(1) b by (auto simp: setBootstrapSession_def on_tokens_def Let_def alloc_def)
qed

lemma start_session_tokens:
  assumes "tokens_storable (app_tokens app)"
  shows "getAccessToken (app_tokens (start_session si kek key app)) = Some (si_accessToken si)"
    "getRefreshToken (app_tokens (start_session si kek key app)) = Some (si_refreshToken si)"
  using sync_session_facts [OF assms, of si False]
  by (simp_all add: start_session_def alloc_def setSession_def on_tokens_def)

text \<open>What the store holds after a login with the response \<open>loginRes\<close>.\<close>

definition logged_in :: "login_form \<Rightarrow> json \<Rightarrow> ('w, 'r) web_app \<Rightarrow> bool" where
  "logged_in f loginRes app \<longleftrightarrow>
     au_user (ap_auth app) = Some (session_user f loginRes)
     \<and> au_accessToken (ap_auth app) = Some (str_or_undefined loginRes ''access_token'')
     \<and> getAccessToken (app_tokens app) = Some (str_or_undefined loginRes ''access_token'')
     \<and> getRefreshToken (app_tokens app) = Some (str_or_undefined loginRes ''refresh_token'')
     \<and> session_private_key app \<noteq> None \<and> \<not> au_hydrating (ap_auth app)
     \<and> au_mustChangePassword (ap_auth app) = (json_bool_field loginRes ''must_change_password'' = Some True)
     \<and> au_mustSetupTOTP (ap_auth app) = (json_bool_field loginRes ''must_setup_totp'' = Some True)"

lemma nullish_False: "nullish b False \<longleftrightarrow> b = Some True"
  by (cases b) auto

lemma finish_login_result:
  assumes "webcrypto_laws wc" and "tokens_storable (app_tokens app)"
    and "finish_login wc f loginRes keypair app = (r, app1)" and "r \<noteq> Inl StorageThrows"
  shows "case r of Inl e \<Rightarrow> app1 = app | Inr _ \<Rightarrow> logged_in f loginRes app1"
proof (cases "no_keypair keypair")
  case True
  have ne: "\<forall>r. fst (wc_random wc 32 r) \<noteq> []"
    using laws(9) [OF assms(1)] by (metis length_0_conv prod.collapse zero_neq_numeral)
  from True assms(3,4) obtain b: "setBootstrapSession (wc_random wc 32) (login_input f loginRes) app = (Inr (), app1)"
    and r: "r = Inr ()"
    by (auto simp: finish_login_def split: prod.splits sum.splits)
  then show ?thesis
    using setBootstrapSession_tokens [OF b assms(2) ne] setBootstrapSession_key [OF b assms(2) ne]
    by (auto simp: logged_in_def login_input_def nullish_False)
next
  case False
  with assms(3,4) show ?thesis
    using start_session_tokens [OF assms(2)]
    by (auto simp: finish_login_def logged_in_def login_input_def nullish_False start_session_key setSession_def
        split: sum.splits)
qed

text \<open>
  C12: A login is all or nothing. When it fails, at the server, in deriving the key or in opening
  the private key, the session, the tokens and the key arrays are what they were before; when
  it succeeds, the tokens, the user and the gate flags are those of the server's response and
  the session has a private key. The one exception is a bootstrap login on a browser whose
  storage throws.
\<close>
theorem login_all_or_nothing:
  assumes "webcrypto_laws wc" and "tokens_storable (app_tokens app)"
    and "runLogin wc lower net f app = (r, app1)" and "r \<noteq> Inl StorageThrows"
  shows "case r of
      Inl e \<Rightarrow> ap_auth app1 = ap_auth app \<and> ap_buf app1 = ap_buf app \<and> app_tokens app1 = app_tokens app
        \<and> we_logouts (ap_env app1) = we_logouts (ap_env app)
    | Inr _ \<Rightarrow> (\<exists>loginRes ks env. run_mutation net (useLoginMutation (login_request lower f)) (ap_env app)
          = (Inr (Some loginRes), ks, env) \<and> logged_in f loginRes app1)"
proof -
  obtain m ks env1 where m: "run_mutation net (useLoginMutation (login_request lower f)) (ap_env app) = (m, ks, env1)"
    using prod_cases3 by blast
  note t1 = run_public_frame [OF m [unfolded useLoginMutation_def]]
  consider (failed) "\<not> (\<exists>loginRes. m = Inr (Some loginRes) \<and> loginRes \<noteq> JNull)"
    | (answered) loginRes where "m = Inr (Some loginRes)" "loginRes \<noteq> JNull" by blast
  then show ?thesis
  proof cases
    case failed
    then have "\<exists>e. r = Inl e \<and> app1 = app\<lparr>ap_env := env1\<rparr>"
      using assms(3) m by (cases m) (auto simp: runLogin_def Let_def split: option.splits if_splits)
    then show ?thesis using t1 by auto
  next
    case (answered loginRes)
    obtain kr env2 where k: "fetchMyKeypair net (str_or_undefined loginRes ''access_token'') env1 = (kr, env2)"
      by fastforce
    note t2 = raw_call_frame [OF k [unfolded fetchMyKeypair_def]]
    let ?app = "app\<lparr>ap_env := env2\<rparr>" and ?kp = "case kr of Inl _ \<Rightarrow> None | Inr kp \<Rightarrow> Some kp"
    have f: "finish_login wc f loginRes ?kp ?app = (r, app1)"
      using assms(3) m answered k by (simp add: runLogin_def Let_def)
    have st: "tokens_storable (app_tokens ?app)" using assms(2) t1 t2 by simp
    show ?thesis
      using finish_login_result [OF assms(1) st f assms(4)] m answered t1 t2 by (auto split: sum.splits)
  qed
qed

text \<open>
  An account made by the registration page cannot be entered: the page registers parameters
  of another key derivation than the login page uses, so once the server accepts the password
  and returns the key pair as registered, the login fails and no session starts.
\<close>
theorem registered_account_cannot_log_in:
  assumes "register_body wc lower user password rng = (body, rng')"
    and "json_field kp ''kek_params'' = json_field body ''kek_params''"
    and "run_mutation net (useLoginMutation (login_request lower f)) (ap_env app) = (Inr (Some loginRes), ks, env1)"
    and "loginRes \<noteq> JNull"
    and "fetchMyKeypair net (str_or_undefined loginRes ''access_token'') env1 = (Inr kp, env2)"
  shows "\<exists>e. e \<in> {BadBase64, BadKEKParams} \<and> runLogin wc lower net f app = (Inl e, app\<lparr>ap_env := env2\<rparr>)"
proof -
  have k: "json_field kp ''kek_params'' = Some (JObj [(''alg'', JStr ''pbkdf2-sha256''), (''iterations'', JNum 210000)])"
    using assms(1,2) by (auto simp: register_body_def Let_def split: prod.splits)
  have "\<not> falsy kp" using k by (cases kp) auto
  with k have n: "\<not> no_keypair (Some kp)" by (simp add: no_keypair_def json_str_field_def)
  have "\<exists>e. e \<in> {BadBase64, BadKEKParams} \<and> unlock_keypair wc (lf_password f) kp = Inl e"
    using k by (auto simp: unlock_keypair_def keypair_params_def kek_params_of_json_def json_positive_def split: sum.splits)
  with n show ?thesis
    using assms(3-5) by (auto simp: runLogin_def finish_login_def Let_def)
qed

text \<open>
  When only the request for the key pair fails, an ordinary account is signed in as a
  bootstrap session: whatever private key the server keeps for it, the session works with the
  key of this browser, drawn at random if there is none.
\<close>
theorem keypair_outage_signs_in_as_bootstrap:
  assumes "webcrypto_laws wc" and "tokens_storable (app_tokens app)"
    and "run_mutation net (useLoginMutation (login_request lower f)) (ap_env app) = (Inr (Some loginRes), ks, env1)"
    and "loginRes \<noteq> JNull"
    and "fetchMyKeypair net (str_or_undefined loginRes ''access_token'') env1 = (Inl m, env2)"
    and "ls_items (storage (app_tokens app)) (bootstrap_storage_key (session_user f loginRes)) = None"
    and "runLogin wc lower net f app = (r, app1)"
  shows "r = Inr () \<and> selectIsBootstrap (ap_auth app1) \<and> selectIsAuthenticated (ap_auth app1)
    \<and> session_private_key app1 = Some (fst (wc_random wc 32 (bf_rng (ap_buf app))))"
proof -
  note t1 = run_public_frame [OF assms(3) [unfolded useLoginMutation_def]]
  note t2 = raw_call_frame [OF assms(5) [unfolded fetchMyKeypair_def]]
  let ?app = "app\<lparr>ap_env := env2\<rparr>" and ?si = "login_input f loginRes"
  have st: "tokens_storable (app_tokens ?app)" using assms(2) t1 t2 by simp
  have f: "finish_login wc f loginRes None ?app = (r, app1)"
    using assms(3-5,7) by (simp add: runLogin_def Let_def)
  let ?ls = "storage (sync_session ?si True (app_tokens app))"
  have u: "si_user ?si = session_user f loginRes" by (simp add: login_input_def)
  have ls: "ls_can_read ?ls" "ls_can_write ?ls" "ls_items ?ls (bootstrap_storage_key (session_user f loginRes)) = None"
    using assms(2,6) by (simp_all add: sync_session_other_keys tokens_storable_def can_store_def)
  obtain key rng where r: "wc_random wc 32 (bf_rng (ap_buf app)) = (key, rng)" by fastforce
  have tk: "we_tokens env2 = app_tokens app" using t1 t2 by simp
  show ?thesis
    using f ls r
    by (auto simp: finish_login_def no_keypair_def setBootstrapSession_def on_tokens_def Let_def tk u bootstrap_key_def
        getItem_def mint_bootstrap_key_def setItem_def alloc_def session_private_key_def selectIsBootstrap_def
        selectIsAuthenticated_def)
qed

subsection \<open>Concrete runs\<close>

definition json_reply :: "json \<Rightarrow> fetch_result" where
  "json_reply j = Response \<lparr>rs_status = 200, rs_json = Some j\<rparr>"

lemma scripted_mutation:
  assumes "we_world env = json_reply j # ws"
  shows "\<exists>rq. run_mutation scripted h env
    = (Inr (Some j), m_invalidates h, env\<lparr>we_world := ws, we_sent := we_sent env @ [rq]\<rparr>)"
proof -
  let ?rq = "build_request (getAccessToken (we_tokens env)) (m_path h) (m_options h)"
  have f: "do_fetch scripted ?rq env = (json_reply j, env\<lparr>we_world := ws, we_sent := we_sent env @ [?rq]\<rparr>)"
    using assms by (simp add: do_fetch_def)
  have r: "read_response (json_reply j) = Inr (Some j)"
    by (simp add: json_reply_def read_response_def rs_ok_def)
  from apiFetch_single [OF _ f] r show ?thesis by (auto simp: run_mutation_def)
qed

lemma scripted_raw_call:
  "we_world env = json_reply j # ws \<Longrightarrow>
     raw_call scripted rq fl env = (Inr j, env\<lparr>we_world := ws, we_sent := we_sent env @ [rq]\<rparr>)"
  "we_world env = [] \<Longrightarrow> \<exists>m. raw_call scripted rq fl env = (Inl m, env\<lparr>we_sent := we_sent env @ [rq]\<rparr>)"
  by (simp_all add: raw_call_def do_fetch_def json_reply_def rs_ok_def)

definition flow_app :: "fetch_result list \<Rightarrow> (fetch_result list, nat) web_app" where
  "flow_app script = \<lparr>ap_env = demo_env script, ap_auth = initial_auth\<lparr>au_user := Some demo_user,
       au_privateKey := Some 0, au_mustChangePassword := True\<rparr>,
     ap_buf = \<lparr>bf_heap = Map.empty(0 \<mapsto> replicate 32 7), bf_next = 1, bf_rng = 1\<rparr>\<rparr>"

lemma flow_app_simps [simp]:
  "tokens_storable (app_tokens (flow_app script))" "we_world (ap_env (flow_app script)) = script"
  "session_private_key (flow_app script) = Some (replicate 32 7)"
  "bf_rng (ap_buf (flow_app script)) = 1" "au_mustChangePassword (ap_auth (flow_app script))"
  "\<not> au_isBootstrap (ap_auth (flow_app script))"
  by (simp_all add: flow_app_def demo_env_def session_private_key_def initial_auth_def)

definition new_password :: string where "new_password = ''correct horse battery''"

lemma new_password_facts: "js_length new_password \<ge> 12" "new_password \<noteq> ''old''"
  by (simp_all add: new_password_def js_length_def units_def)

lemma toy_credentials:
  "\<exists>salt blob r. new_credentials toy_crypto pw p n = (Inr (salt, blob), r)"
  by (simp add: new_credentials_def randomKEKSalt_def encryptPrivateKey_def crypto_defs deriveKEK_def
      KEK_LEN_def) (simp add: toy_crypto_def)

lemma changed_password_opens_same_key_witness:
  "\<exists>app1 salt blob. change_password toy_crypto scripted False ''old'' new_password new_password
        (flow_app [json_reply JNull]) = (PasswordChanged, app1)
     \<and> login_opens toy_crypto new_password salt blob (replicate 32 7) demo_app"
proof -
  let ?app = "flow_app [json_reply JNull]"
  obtain salt blob r where c: "new_credentials toy_crypto new_password (replicate 32 7) 1 = (Inr (salt, blob), r)"
    using toy_credentials by blast
  have w: "we_world (ap_env (with_rng r ?app)) = [json_reply JNull]" by (simp add: with_rng_def)
  obtain rq where "run_mutation scripted (useChangePasswordMutation (change_password_body ''old'' new_password salt blob))
      (ap_env (with_rng r ?app)) = (Inr (Some JNull), m_invalidates (useChangePasswordMutation
         (change_password_body ''old'' new_password salt blob)),
         (ap_env (with_rng r ?app))\<lparr>we_world := [], we_sent := we_sent (ap_env (with_rng r ?app)) @ [rq]\<rparr>)"
    using scripted_mutation [OF w] by blast
  then obtain app1 where a: "change_password toy_crypto scripted False ''old'' new_password new_password ?app
      = (PasswordChanged, app1)"
    using new_password_facts c by (simp add: change_password_def Let_def)
  have st: "tokens_storable (app_tokens ?app)" by simp
  from changed_password_opens_same_key [OF toy_laws st a, where ?app2.0 = demo_app] obtain key salt' blob'
    where "session_private_key ?app = Some key" "login_opens toy_crypto new_password salt' blob' key demo_app" by (elim exE conjE) (rule that)
  with a show ?thesis by auto
qed

lemma new_keypair_opens_after_recovery_witness:
  "\<exists>priv salt blob. login_opens toy_crypto new_password salt blob priv demo_app
     \<and> fst (recover_onComplete toy_crypto scripted ''tmp'' new_password new_password
          (demo_env [json_reply (JObj [(''recovery_codes'', JArr [])])], 1)) = RecoveryCodes (JArr [])"
proof -
  let ?j = "JObj [(''recovery_codes'', JArr [])]"
  obtain priv ra where g: "generateX25519Keypair toy_crypto 1 = ((wc_pub toy_crypto priv, priv), ra)"
    using generated_keypair [OF toy_laws] .
  obtain salt blob r where c: "new_credentials toy_crypto new_password priv ra = (Inr (salt, blob), r)"
    using toy_credentials by blast
  have w: "we_world (demo_env [json_reply j]) = [json_reply j]" for j by (simp add: demo_env_def)
  obtain env1 where "recover_onComplete toy_crypto scripted ''tmp'' new_password new_password
      (demo_env [json_reply ?j], 1) = (RecoveryCodes (JArr []), env1, r)"
    using new_password_facts g c scripted_raw_call(1) [OF w]
    by (simp add: recover_onComplete_def useRecoverCompleteMutation_def)
  moreover obtain env2 where "handleReset toy_crypto scripted ''tok'' new_password new_password
      (demo_env [json_reply JNull], 1) = (ResetDone, env2, r)"
  proof -
    let ?rp = "\<lparr>rp_token = ''tok'', rp_new_password = new_password, rp_public_key = wc_pub toy_crypto priv,
        rp_private_key_enc = blob, rp_kek_salt = salt,
        rp_kek_params = kek_params_json DEFAULT_KEK_PARAMS salt\<rparr>"
    obtain rq where "run_mutation scripted (useResetPasswordMutation ?rp) (demo_env [json_reply JNull])
        = (Inr (Some JNull), m_invalidates (useResetPasswordMutation ?rp),
           (demo_env [json_reply JNull])\<lparr>we_world := [], we_sent := we_sent (demo_env [json_reply JNull]) @ [rq]\<rparr>)"
      using scripted_mutation [OF w] by blast
    with that new_password_facts g c show thesis by (simp add: handleReset_def)
  qed
  ultimately show ?thesis
    using new_keypair_opens_after_recovery [OF toy_laws, where app = demo_app] by fastforce
qed

definition demo_form :: login_form where
  "demo_form = \<lparr>lf_username = ''ada'', lf_password = new_password, lf_totp = None, lf_remember = None\<rparr>"

definition demo_login_json :: json where
  "demo_login_json = JObj [(''user_id'', JStr ''u1''), (''access_token'', JStr ''A9''),
     (''refresh_token'', JStr ''R9'')]"

lemma demo_login:
  assumes "we_world (ap_env app) = json_reply demo_login_json # ws"
  obtains env1 ks where "run_mutation scripted (useLoginMutation (login_request id demo_form)) (ap_env app)
      = (Inr (Some demo_login_json), ks, env1)" "we_world env1 = ws"
  using scripted_mutation [OF assms, of "useLoginMutation (login_request id demo_form)"] by fastforce

lemma login_all_or_nothing_witness:
  "\<exists>app1. runLogin toy_crypto id scripted demo_form (flow_app []) = (Inl (Api (ApiErr (network_error ''no route''))), app1)
     \<and> ap_auth app1 = ap_auth (flow_app [])"
proof -
  let ?h = "useLoginMutation (login_request id demo_form)"
  obtain env1 where "do_fetch scripted (build_request (getAccessToken (app_tokens (flow_app []))) (m_path ?h) (m_options ?h))
      (ap_env (flow_app [])) = (NetworkFailure ''no route'', env1)" by (simp add: do_fetch_def)
  then have "run_mutation scripted ?h (ap_env (flow_app [])) = (Inl (ApiErr (network_error ''no route'')), [], env1)"
    using apiFetch_single [of "m_options ?h" "NetworkFailure ''no route''" scripted "ap_env (flow_app [])"]
    by (simp add: run_mutation_def useLoginMutation_def public_mutation_def read_response_def)
  then obtain app1 where r: "runLogin toy_crypto id scripted demo_form (flow_app [])
      = (Inl (Api (ApiErr (network_error ''no route''))), app1)"
    by (simp add: runLogin_def)
  show ?thesis using login_all_or_nothing [OF toy_laws _ r] r by simp
qed

lemma registered_account_cannot_log_in_witness:
  "\<exists>kp e app1. kp = fst (register_body toy_crypto id ''ada'' new_password 1)
     \<and> runLogin toy_crypto id scripted demo_form (flow_app [json_reply demo_login_json, json_reply kp]) = (Inl e, app1)
     \<and> e \<in> {BadBase64, BadKEKParams}"
proof -
  obtain kp rng where b: "register_body toy_crypto id ''ada'' new_password 1 = (kp, rng)" by fastforce
  have w: "we_world (ap_env (flow_app [json_reply demo_login_json, json_reply kp]))
      = json_reply demo_login_json # [json_reply kp]" by simp
  obtain env1 ks where l: "run_mutation scripted (useLoginMutation (login_request id demo_form))
      (ap_env (flow_app [json_reply demo_login_json, json_reply kp])) = (Inr (Some demo_login_json), ks, env1)"
    "we_world env1 = [json_reply kp]"
    using demo_login [OF w] .
  obtain env2 where k: "fetchMyKeypair scripted (str_or_undefined demo_login_json ''access_token'') env1 = (Inr kp, env2)"
    using l(2) by (simp add: fetchMyKeypair_def scripted_raw_call)
  show ?thesis
    using registered_account_cannot_log_in [OF b refl l(1) _ k] b
    by (fastforce simp: demo_login_json_def)
qed

lemma keypair_outage_signs_in_as_bootstrap_witness:
  "\<exists>app1. runLogin toy_crypto id scripted demo_form (flow_app [json_reply demo_login_json]) = (Inr (), app1)
     \<and> session_private_key app1 = Some (replicate 32 1)"
proof -
  let ?app = "flow_app [json_reply demo_login_json]"
  have w: "we_world (ap_env ?app) = json_reply demo_login_json # []" by simp
  obtain env1 ks where l: "run_mutation scripted (useLoginMutation (login_request id demo_form)) (ap_env ?app)
      = (Inr (Some demo_login_json), ks, env1)" "we_world env1 = []"
    using demo_login [OF w] .
  obtain m env2 where k: "fetchMyKeypair scripted (str_or_undefined demo_login_json ''access_token'') env1 = (Inl m, env2)"
    using scripted_raw_call(2) [OF l(2)] unfolding fetchMyKeypair_def by blast
  obtain r app1 where r: "runLogin toy_crypto id scripted demo_form ?app = (r, app1)" by fastforce
  have "bootstrap_storage_key (session_user demo_form demo_login_json) \<notin> {REFRESH_KEY, SESSION_KEY}" by simp
  then have "ls_items (storage (app_tokens ?app)) (bootstrap_storage_key (session_user demo_form demo_login_json)) = None"
    by (simp add: flow_app_def demo_env_def demo_tokens_def token_defs storage_defs empty_storage_def)
  from keypair_outage_signs_in_as_bootstrap [OF toy_laws _ l(1) _ k this r] r show ?thesis
    by (simp add: demo_login_json_def)
qed

end
