(* ===== verification/ItemHooks.thy ===== *)
theory ItemHooks
  imports ApiHooks
begin

text \<open>
  The hooks of the web application on the inventory (under \<open>web/src/api\<close>): \<open>items.ts\<close>,
  \<open>folders.ts\<close>, \<open>tags.ts\<close>, \<open>share-links.ts\<close>, \<open>access-requests.ts\<close>, \<open>item-links.ts\<close>,
  \<open>attachments.ts\<close>, \<open>vault.ts\<close>, \<open>annotations.ts\<close>, \<open>ai-suggestions.ts\<close>, \<open>health.ts\<close>, \<open>lifecycle.ts\<close>
  and \<open>graph.ts\<close>.
\<close>

abbreviation (input) "items_path \<equiv> ''/api/v1/items''"

definition item_path :: "string \<Rightarrow> string \<Rightarrow> string" where
  "item_path itemId rest = ''/api/v1/items/'' @ itemId @ rest"

subsection \<open>\<open>items.ts\<close>\<close>

definition useItems :: "string option \<Rightarrow> string option \<Rightarrow> query_hook" where
  "useItems folderId q =
     with_query [(''folder_id'', qstr folderId), (''q'', qstr (or_undef q))]
       (get_query (key_items_byFolder (nullish folderId '''') q) items_path (truthy folderId) ClientDefault)"

definition useItem :: "string option \<Rightarrow> query_hook" where
  "useItem i = get_query (key_items_detail (nullish i '''')) (item_path (tpl i) '''') (truthy i) ClientDefault"

definition useCreateItemMutation :: "string \<Rightarrow> json \<Rightarrow> mutation_hook" where
  "useCreateItemMutation folderId req = mutation POST items_path (Some req) [key_items_all]"

definition useUpdateItemMutation :: "string \<Rightarrow> string \<Rightarrow> json \<Rightarrow> mutation_hook" where
  "useUpdateItemMutation i folderId req =
     mutation PUT (item_path i '''') (Some req) [key_items_detail i, key_items_all]"

definition useDeleteItemMutation :: "string \<Rightarrow> string \<Rightarrow> mutation_hook" where
  "useDeleteItemMutation folderId i = mutation DELETE (item_path i '''') None [key_items_all]"

definition key_item_shares :: "string option \<Rightarrow> json list" where
  "key_item_shares itemId = [JStr ''item-shares'', key_opt itemId]"

definition useShareItemMutation :: "string \<Rightarrow> json \<Rightarrow> mutation_hook" where
  "useShareItemMutation itemId req =
     mutation POST (item_path itemId ''/shares'') (Some req) [key_item_shares (Some itemId)]"

definition useUnshareItemMutation :: "string \<Rightarrow> string \<Rightarrow> mutation_hook" where
  "useUnshareItemMutation itemId userId =
     mutation DELETE (item_path itemId (''/shares/'' @ userId)) None [key_item_shares (Some itemId)]"

definition useItemSharesQuery :: "string option \<Rightarrow> query_hook" where
  "useItemSharesQuery itemId =
     get_query (key_item_shares itemId) (item_path (tpl itemId) ''/shares'') (truthy itemId) (StaleFor 15000)"

definition useShareGroupMutation :: "string \<Rightarrow> json \<Rightarrow> mutation_hook" where
  "useShareGroupMutation itemId req =
     mutation POST (item_path itemId ''/group-shares'') (Some req) [key_item_shares (Some itemId)]"

definition useUnshareGroupMutation :: "string \<Rightarrow> string \<Rightarrow> mutation_hook" where
  "useUnshareGroupMutation itemId groupId =
     mutation DELETE (item_path itemId (''/group-shares/'' @ groupId)) None [key_item_shares (Some itemId)]"

definition useFieldVersionsQuery :: "string option \<Rightarrow> int option \<Rightarrow> query_hook" where
  "useFieldVersionsQuery itemId fieldDefId =
     get_query [JStr ''field-versions'', key_opt itemId, (case fieldDefId of None \<Rightarrow> JNull | Some n \<Rightarrow> JNum n)]
       (item_path (tpl itemId) (''/fields/'' @ tpl (map_option show_int fieldDefId) @ ''/versions''))
       (itemId \<noteq> None \<and> fieldDefId \<noteq> None) (StaleFor 30000)"

definition useGlobalItemSearch :: "string \<Rightarrow> bool \<Rightarrow> query_hook" where
  "useGlobalItemSearch q fuzzy =
     (let trimmed = trim q
      in with_query ([(''q'', qstr (Some trimmed))] @ (if fuzzy then [(''fuzzy'', qstr (Some ''true''))] else []))
           (get_query [JStr ''items'', JStr ''global-search'', JStr trimmed, JBool fuzzy]
             ''/api/v1/items/search'' (js_length trimmed \<ge> 2) (StaleFor 10000)))"

definition useItemDuplicatesQuery :: "string \<Rightarrow> string option \<Rightarrow> query_hook" where
  "useItemDuplicatesQuery name excludeId =
     (let trimmed = trim name
      in with_query ([(''name'', qstr (Some trimmed))]
             @ (if truthy excludeId then [(''exclude_id'', qstr excludeId)] else [])
             @ [(''limit'', qstr (Some ''5''))])
           (get_query [JStr ''items'', JStr ''duplicates'', JStr trimmed, key_or_empty excludeId]
             ''/api/v1/items/duplicates'' (js_length trimmed \<ge> 1) (StaleFor 5000)))"

definition useRecordRotationMutation :: "string \<Rightarrow> mutation_hook" where
  "useRecordRotationMutation itemId =
     mutation POST (item_path itemId ''/rotate'') None [key_items_detail itemId, key_items_all]"

subsection \<open>\<open>folders.ts\<close>\<close>

definition useRootFolders :: query_hook where
  "useRootFolders = get_query (key_folders_byParent None) ''/api/v1/folders'' True ClientDefault"

definition useChildFolders :: "string option \<Rightarrow> bool \<Rightarrow> query_hook" where
  "useChildFolders parentId enabled =
     with_query (if truthy parentId then [(''parent_id'', qstr parentId)] else [])
       (get_query (key_folders_byParent parentId) ''/api/v1/folders'' (enabled \<and> parentId \<noteq> None) ClientDefault)"

definition useFolder :: "string option \<Rightarrow> query_hook" where
  "useFolder i = get_query (key_folders_detail (nullish i '''')) (''/api/v1/folders/'' @ tpl i) (i \<noteq> None) ClientDefault"

text \<open>\<open>req.parent_id ?? null\<close>.\<close>

definition useCreateFolderMutation :: "json \<Rightarrow> mutation_hook" where
  "useCreateFolderMutation req =
     mutation POST ''/api/v1/folders'' (Some req) [key_folders_byParent (json_str_field req ''parent_id'')]"

definition useUpdateFolderMutation :: "string \<Rightarrow> json \<Rightarrow> mutation_hook" where
  "useUpdateFolderMutation i req =
     mutation PUT (''/api/v1/folders/'' @ i) (Some req)
       [key_folders_byParent (json_str_field req ''parent_id''), key_folders_detail i]"

definition useDeleteFolderMutation :: "string \<Rightarrow> string option \<Rightarrow> mutation_hook" where
  "useDeleteFolderMutation i parentId =
     mutation DELETE (''/api/v1/folders/'' @ i) None [key_folders_byParent parentId]"

subsection \<open>\<open>tags.ts\<close>\<close>

definition tagsKey :: "json list" where "tagsKey = [JStr ''tags'']"
definition itemTagsKey :: "string \<Rightarrow> json list" where "itemTagsKey itemId = [JStr ''item-tags'', JStr itemId]"
definition favoritesKey :: "json list" where "favoritesKey = [JStr ''favorites'']"
definition favoriteStatusKey :: "string \<Rightarrow> json list" where
  "favoriteStatusKey itemId = [JStr ''favorite-status'', JStr itemId]"

definition useTagsQuery :: query_hook where
  "useTagsQuery = get_query tagsKey ''/api/v1/tags'' True (StaleFor 60000)"

definition useCreateTagMutation :: "json \<Rightarrow> mutation_hook" where
  "useCreateTagMutation req = mutation POST ''/api/v1/tags'' (Some req) [tagsKey]"

definition useDeleteTagMutation :: "string \<Rightarrow> mutation_hook" where
  "useDeleteTagMutation tagId =
     mutation DELETE (''/api/v1/tags/'' @ tagId) None [tagsKey, [JStr ''item-tags'']]"

definition useItemTagsQuery :: "string option \<Rightarrow> query_hook" where
  "useItemTagsQuery itemId =
     get_query (itemTagsKey (nullish itemId '''')) (item_path (tpl itemId) ''/tags'') (truthy itemId) (StaleFor 30000)"

definition useAddItemTagMutation :: "string \<Rightarrow> json \<Rightarrow> mutation_hook" where
  "useAddItemTagMutation itemId req = mutation POST (item_path itemId ''/tags'') (Some req) [itemTagsKey itemId]"

definition useRemoveItemTagMutation :: "string \<Rightarrow> string \<Rightarrow> mutation_hook" where
  "useRemoveItemTagMutation itemId tagId =
     mutation DELETE (item_path itemId (''/tags/'' @ tagId)) None [itemTagsKey itemId]"

definition useFavoritesQuery :: query_hook where
  "useFavoritesQuery = get_query favoritesKey ''/api/v1/favorites'' True (StaleFor 30000)"

definition useFavoriteStatusQuery :: "string option \<Rightarrow> query_hook" where
  "useFavoriteStatusQuery itemId =
     get_query (favoriteStatusKey (nullish itemId '''')) (item_path (tpl itemId) ''/favorite'') (truthy itemId)
       (StaleFor 30000)"

text \<open>The query's own result: whether the request succeeded.\<close>

definition favorite_status :: "js_error + json option \<Rightarrow> bool" where
  "favorite_status r = (case r of Inl _ \<Rightarrow> False | Inr _ \<Rightarrow> True)"

definition useAddFavoriteMutation :: "string \<Rightarrow> mutation_hook" where
  "useAddFavoriteMutation itemId =
     mutation POST (item_path itemId ''/favorite'') None [favoritesKey, favoriteStatusKey itemId]"

definition useRemoveFavoriteMutation :: "string \<Rightarrow> mutation_hook" where
  "useRemoveFavoriteMutation itemId =
     mutation DELETE (item_path itemId ''/favorite'') None [favoritesKey, favoriteStatusKey itemId]"

subsection \<open>\<open>share-links.ts\<close>\<close>

definition shareLinksKey :: "string \<Rightarrow> json list" where
  "shareLinksKey itemId = [JStr ''share-links'', JStr itemId]"

definition useShareLinksQuery :: "string option \<Rightarrow> query_hook" where
  "useShareLinksQuery itemId =
     get_query (shareLinksKey (nullish itemId '''')) (item_path (tpl itemId) ''/share-links'') (truthy itemId)
       (StaleFor 15000)"

definition useCreateShareLinkMutation :: "string \<Rightarrow> json \<Rightarrow> mutation_hook" where
  "useCreateShareLinkMutation itemId req =
     mutation POST (item_path itemId ''/share-links'') (Some req) [shareLinksKey itemId]"

definition useRevokeShareLinkMutation :: "string \<Rightarrow> string \<Rightarrow> mutation_hook" where
  "useRevokeShareLinkMutation itemId linkId =
     mutation DELETE (item_path itemId (''/share-links/'' @ linkId)) None [shareLinksKey itemId]"

definition useShareLinkViewQuery :: "string option \<Rightarrow> query_hook" where
  "useShareLinkViewQuery token =
     (get_query [JStr ''share-view'', key_opt token] (''/api/v1/share/'' @ tpl token) (truthy token) NeverStale)
       \<lparr>q_options := no_options\<lparr>ro_unauthenticated := True\<rparr>, q_noRetry := True\<rparr>"

subsection \<open>\<open>access-requests.ts\<close>\<close>

definition access_requests_key :: "json list" where "access_requests_key = [JStr ''access-requests'']"

definition useAccessRequestsQuery :: "(string option \<times> string option) option \<Rightarrow> query_hook" where
  "useAccessRequestsQuery params =
     (let st = Option.bind params fst; item = Option.bind params snd
      in with_query [(''status'', qstr st), (''item_id'', qstr item)]
           (get_query [JStr ''access-requests'', (case params of None \<Rightarrow> JNull
                | Some _ \<Rightarrow> JObj (opt_str ''status'' st @ opt_str ''item_id'' item))]
             ''/api/v1/access-requests'' True (StaleFor 15000)))"

definition useCreateAccessRequestMutation :: "string \<Rightarrow> json \<Rightarrow> mutation_hook" where
  "useCreateAccessRequestMutation itemId req =
     mutation POST (item_path itemId ''/access-requests'') (Some req)
       [access_requests_key, [JStr ''item'', JStr itemId]]"

definition useApproveAccessRequestMutation :: "string \<Rightarrow> json option \<Rightarrow> mutation_hook" where
  "useApproveAccessRequestMutation reqId body =
     mutation POST (''/api/v1/access-requests/'' @ reqId @ ''/approve'') (Some (nullish body (JObj [])))
       [access_requests_key]"

definition useDenyAccessRequestMutation :: "string \<Rightarrow> json \<Rightarrow> mutation_hook" where
  "useDenyAccessRequestMutation reqId body =
     mutation POST (''/api/v1/access-requests/'' @ reqId @ ''/deny'') (Some body) [access_requests_key]"

definition useCancelAccessRequestMutation :: "string option \<Rightarrow> string \<Rightarrow> mutation_hook" where
  "useCancelAccessRequestMutation itemId reqId =
     mutation DELETE (''/api/v1/access-requests/'' @ reqId) None
       ([access_requests_key] @ (if truthy itemId then [[JStr ''item'', key_opt itemId]] else []))"

definition useToggleApprovalRequiredMutation :: "string \<Rightarrow> bool \<Rightarrow> mutation_hook" where
  "useToggleApprovalRequiredMutation itemId required =
     mutation PATCH (item_path itemId ''/approval-required'') (Some (JObj [(''required'', JBool required)]))
       [[JStr ''item'', JStr itemId], [JStr ''items'']]"

subsection \<open>\<open>item-links.ts\<close>\<close>

definition item_links_key :: "string \<Rightarrow> json list" where
  "item_links_key itemId = [JStr ''items'', JStr itemId, JStr ''links'']"

definition useItemLinksQuery :: "string \<Rightarrow> query_hook" where
  "useItemLinksQuery itemId =
     get_query (item_links_key itemId) (item_path itemId ''/links'') (itemId \<noteq> '''') ClientDefault"

definition useCreateLinkMutation :: "string \<Rightarrow> json \<Rightarrow> mutation_hook" where
  "useCreateLinkMutation itemId req = mutation POST (item_path itemId ''/links'') (Some req) [item_links_key itemId]"

definition useDeleteLinkMutation :: "string \<Rightarrow> string \<Rightarrow> mutation_hook" where
  "useDeleteLinkMutation itemId linkId =
     mutation DELETE (item_path itemId (''/links/'' @ linkId)) None [item_links_key itemId]"

subsection \<open>\<open>attachments.ts\<close>\<close>

definition useAttachments :: "string option \<Rightarrow> query_hook" where
  "useAttachments itemId =
     get_query (key_attachments_byItem (nullish itemId '''')) (item_path (tpl itemId) ''/attachments'') (truthy itemId)
       ClientDefault"

definition useInitUploadMutation :: "string \<Rightarrow> json \<Rightarrow> mutation_hook" where
  "useInitUploadMutation itemId req =
     mutation POST (item_path itemId ''/attachments'') (Some req) [key_attachments_byItem itemId]"

definition useConfirmUploadMutation :: "string \<Rightarrow> string \<Rightarrow> mutation_hook" where
  "useConfirmUploadMutation itemId attId =
     mutation POST (item_path itemId (''/attachments/'' @ attId @ ''/confirm'')) None [key_attachments_byItem itemId]"

definition useDownloadURLMutation :: "string \<Rightarrow> string \<Rightarrow> mutation_hook" where
  "useDownloadURLMutation itemId attId =
     \<lparr>m_path = item_path itemId (''/attachments/'' @ attId @ ''/url''), m_options = no_options, m_invalidates = []\<rparr>"

definition useDeleteAttachmentMutation :: "string \<Rightarrow> string \<Rightarrow> mutation_hook" where
  "useDeleteAttachmentMutation itemId attId =
     mutation DELETE (item_path itemId (''/attachments/'' @ attId)) None [key_attachments_byItem itemId]"

subsection \<open>\<open>vault.ts\<close>\<close>

definition useVaultFetchMutation :: "string \<Rightarrow> mutation_hook" where
  "useVaultFetchMutation itemId = mutation POST (item_path itemId ''/vault-fetch'') None []"

definition useIssueDynamicCredMutation :: "string \<Rightarrow> mutation_hook" where
  "useIssueDynamicCredMutation itemId = mutation POST (item_path itemId ''/dynamic-cred'') None []"

definition useRevokeDynamicCredMutation :: "string \<Rightarrow> string \<Rightarrow> mutation_hook" where
  "useRevokeDynamicCredMutation itemId leaseId =
     mutation DELETE (item_path itemId (''/dynamic-cred/'' @ encodeURIComponent leaseId)) None []"

definition useVaultPathsQuery :: "string \<Rightarrow> string \<Rightarrow> query_hook" where
  "useVaultPathsQuery mount prefix =
     with_query [(''mount'', qstr (Some mount)), (''path'', qstr (Some prefix))]
       (get_query [JStr ''vault'', JStr ''paths'', JStr mount, JStr prefix] ''/api/v1/vault/paths''
         (length mount > 0) (StaleFor 30000))"

subsection \<open>\<open>annotations.ts\<close>\<close>

definition annotationsKey :: "string \<Rightarrow> json list" where
  "annotationsKey itemId = [JStr ''item-annotations'', JStr itemId]"

definition useItemAnnotationsQuery :: "string option \<Rightarrow> query_hook" where
  "useItemAnnotationsQuery itemId =
     get_query (annotationsKey (nullish itemId '''')) (item_path (tpl itemId) ''/annotations'') (truthy itemId)
       (StaleFor 30000)"

definition useUpsertAnnotationMutation :: "string \<Rightarrow> string \<Rightarrow> string \<Rightarrow> mutation_hook" where
  "useUpsertAnnotationMutation itemId key v =
     mutation PUT (item_path itemId (''/annotations/'' @ encodeURIComponent key))
       (Some (JObj [(''value'', JStr v)])) [annotationsKey itemId]"

definition useDeleteAnnotationMutation :: "string \<Rightarrow> string \<Rightarrow> mutation_hook" where
  "useDeleteAnnotationMutation itemId key =
     mutation DELETE (item_path itemId (''/annotations/'' @ encodeURIComponent key)) None [annotationsKey itemId]"

subsection \<open>\<open>ai-suggestions.ts\<close>\<close>

definition suggestions_key :: "string \<Rightarrow> json list" where
  "suggestions_key itemId = [JStr ''items'', JStr itemId, JStr ''suggestions'']"

definition useSuggestMutation :: "string \<Rightarrow> mutation_hook" where
  "useSuggestMutation itemId = mutation POST (item_path itemId ''/suggest'') None [suggestions_key itemId]"

definition useSuggestionsQuery :: "string \<Rightarrow> query_hook" where
  "useSuggestionsQuery itemId =
     get_query (suggestions_key itemId) (item_path itemId ''/suggestions'') (length itemId > 0) (StaleFor 30000)"

definition useAcceptSuggestionMutation :: "string \<Rightarrow> string \<Rightarrow> mutation_hook" where
  "useAcceptSuggestionMutation itemId sid =
     mutation POST (item_path itemId (''/suggestions/'' @ sid @ ''/accept'')) None
       [suggestions_key itemId, key_items_detail itemId]"

definition useRejectSuggestionMutation :: "string \<Rightarrow> string \<Rightarrow> mutation_hook" where
  "useRejectSuggestionMutation itemId sid =
     mutation POST (item_path itemId (''/suggestions/'' @ sid @ ''/reject'')) None [suggestions_key itemId]"

subsection \<open>\<open>health.ts\<close>\<close>

definition useItemHealthQuery :: "string \<Rightarrow> query_hook" where
  "useItemHealthQuery itemId =
     get_query [JStr ''items'', JStr itemId, JStr ''health''] (item_path itemId ''/health'') (length itemId > 0)
       (StaleFor 60000)"

definition useHealthReportQuery :: "int \<Rightarrow> int \<Rightarrow> query_hook" where
  "useHealthReportQuery threshold limit =
     with_query [(''threshold'', qstr (Some (show_int threshold))), (''limit'', qstr (Some (show_int limit)))]
       (get_query [JStr ''items'', JStr ''health-report'', JNum threshold, JNum limit]
         ''/api/v1/items/health-report'' True (StaleFor 120000))"

subsection \<open>\<open>lifecycle.ts\<close>\<close>

definition lifecycleStagesKey :: "json list" where "lifecycleStagesKey = [JStr ''lifecycle-stages'']"
definition itemLifecycleStagesKey :: "string \<Rightarrow> json list" where
  "itemLifecycleStagesKey itemId = [JStr ''items'', JStr itemId, JStr ''lifecycle-stages'']"

definition useLifecycleStagesQuery :: query_hook where
  "useLifecycleStagesQuery =
     explicit_get (get_query lifecycleStagesKey ''/api/v1/lifecycle-stages'' True (StaleFor (5 * 60000)))"

definition useItemLifecycleStagesQuery :: "string option \<Rightarrow> query_hook" where
  "useItemLifecycleStagesQuery itemId =
     explicit_get (get_query (itemLifecycleStagesKey (nullish itemId '''')) (item_path (tpl itemId) ''/lifecycle-stages'')
       (truthy itemId) (StaleFor 30000))"

definition useSetItemLifecycleStagesMutation :: "string \<Rightarrow> json \<Rightarrow> mutation_hook" where
  "useSetItemLifecycleStagesMutation itemId req =
     mutation POST (item_path itemId ''/lifecycle-stages'') (Some req) [itemLifecycleStagesKey itemId]"

subsection \<open>\<open>graph.ts\<close>\<close>

definition graphKey :: "json list" where "graphKey = [JStr ''graph'']"

definition useGraphQuery :: query_hook where
  "useGraphQuery = explicit_get (get_query graphKey ''/api/v1/graph'' True (StaleFor 30000))"

definition useAddRelationshipMutation :: "string \<Rightarrow> json \<Rightarrow> mutation_hook" where
  "useAddRelationshipMutation itemId req = mutation POST (item_path itemId ''/relationships'') (Some req) [graphKey]"

definition useDeleteRelationshipMutation :: "string \<Rightarrow> string \<Rightarrow> string \<Rightarrow> mutation_hook" where
  "useDeleteRelationshipMutation itemId targetId rel =
     mutation DELETE (item_path itemId (''/relationships/'' @ targetId @ ''/'' @ rel)) None [graphKey]"

end
