(* ===== verification/ShareLink.thy ===== *)
theory ShareLink
  imports AuthFlows ItemHooks
begin

text \<open>
  One-time share links from end to end: the dialog that makes a link
  (\<open>handleCreate\<close> in \<open>web/src/components/inventory/share-link-dialog.tsx\<close>) and the public page that
  opens it (\<open>web/src/pages/share.tsx\<close>). The key of the link is in the fragment of the URL only.
\<close>

subsection \<open>Making a link\<close>

record shared_item =
  sh_id :: string
  sh_owner_dek_wrapped :: "string option"
  sh_owner_wrap_nonce :: "string option"

datatype share_outcome = NoSessionKey | NoItemKey | LinkCreated string | LinkFailed flow_error

text \<open>The item's key, opened with the private key of the session.\<close>

definition open_item_key :: "'r webcrypto \<Rightarrow> shared_item \<Rightarrow> bytes \<Rightarrow> flow_error + bytes" where
  "open_item_key wc item privateKey =
     (case fromBase64 (nullish (sh_owner_dek_wrapped item) '''') of
        Inl _ \<Rightarrow> Inl BadBase64
      | Inr wrapped \<Rightarrow>
          (case fromBase64 (nullish (sh_owner_wrap_nonce item) '''') of
             Inl _ \<Rightarrow> Inl BadBase64
           | Inr wrapNonce \<Rightarrow>
               (case openDEKWithKEK wc wrapped wrapNonce privateKey of
                  Inl e \<Rightarrow> Inl (CryptoFailed e) | Inr dek \<Rightarrow> Inr dek)))"

definition share_body :: "bytes \<Rightarrow> string \<Rightarrow> int \<Rightarrow> json" where
  "share_body blob expiresIn viewLimit =
     JObj [(''dek_wrapped'', JStr (toBase64 blob)), (''expires_in'', JStr expiresIn), (''view_limit'', JNum viewLimit)]"

definition share_handleCreate ::
    "'r webcrypto \<Rightarrow> 'w net \<Rightarrow> string \<Rightarrow> shared_item \<Rightarrow> string \<Rightarrow> int \<Rightarrow> bytes option \<Rightarrow> 'w web_env \<times> 'r
       \<Rightarrow> share_outcome \<times> 'w web_env \<times> 'r" where
  "share_handleCreate wc net origin item expiresIn viewLimit sessionKey s =
     (let (env, r) = s
      in case sessionKey of
          None \<Rightarrow> (NoSessionKey, s)
        | Some privateKey \<Rightarrow>
            if \<not> truthy (sh_owner_dek_wrapped item) \<or> \<not> truthy (sh_owner_wrap_nonce item) then (NoItemKey, s)
            else
              (case open_item_key wc item privateKey of
                 Inl e \<Rightarrow> (LinkFailed e, s)
               | Inr dek \<Rightarrow>
                   (let (linkKey, r1) = wc_random wc 32 r;
                        (enc, r2) = encryptPrivateKey wc dek linkKey r1
                    in case enc of
                        Inl e \<Rightarrow> (LinkFailed (CryptoFailed e), env, r2)
                      | Inr blob \<Rightarrow>
                          (case run_mutation net (useCreateShareLinkMutation (sh_id item)
                                   (share_body blob expiresIn viewLimit)) env of
                             (Inl e, _, env1) \<Rightarrow> (LinkFailed (Api e), env1, r2)
                           | (Inr result, _, env1) \<Rightarrow>
                               (case result of
                                  None \<Rightarrow> (LinkFailed NoBody, env1, r2)
                                | Some j \<Rightarrow>
                                    if j = JNull then (LinkFailed NoBody, env1, r2)
                                    else (LinkCreated (buildShareURL origin (str_or_undefined j ''token'') linkKey),
                                          env1, r2))))))"

subsection \<open>Opening a link\<close>

datatype share_screen =
  NoToken | NoLinkKey | LinkError js_error | KeyError flow_error | ShowFields bytes

text \<open>What the page shows once the public query has settled: \<open>payload\<close> is its result.\<close>

definition share_dek :: "'r webcrypto \<Rightarrow> json \<Rightarrow> bytes \<Rightarrow> flow_error + bytes" where
  "share_dek wc payload linkKey =
     (case fromBase64 (str_or_undefined payload ''dek_wrapped'') of
        Inl _ \<Rightarrow> Inl BadBase64
      | Inr dekWrapped \<Rightarrow>
          (case decryptPrivateKey wc dekWrapped linkKey of Inl e \<Rightarrow> Inl (CryptoFailed e) | Inr dek \<Rightarrow> Inr dek))"

definition SharePage :: "'r webcrypto \<Rightarrow> string option \<Rightarrow> string \<Rightarrow> js_error + json \<Rightarrow> share_screen" where
  "SharePage wc token url payload =
     (if \<not> truthy token then NoToken
      else case readLinkKey (location_hash url) of
          None \<Rightarrow> NoLinkKey
        | Some linkKey \<Rightarrow>
            (case payload of
               Inl e \<Rightarrow> LinkError e
             | Inr p \<Rightarrow> (case share_dek wc p linkKey of Inl e \<Rightarrow> KeyError e | Inr dek \<Rightarrow> ShowFields dek)))"

record share_field =
  sf_is_secret :: bool
  sf_value_enc :: "string option"
  sf_value_nonce :: "string option"

datatype field_view = NotStored | Decrypting | DecryptError | Plain string

definition DecryptedFieldRow :: "'r webcrypto \<Rightarrow> share_field \<Rightarrow> bytes option \<Rightarrow> field_view" where
  "DecryptedFieldRow wc field dek =
     (if \<not> sf_is_secret field then NotStored
      else case dek of
          None \<Rightarrow> Decrypting
        | Some k \<Rightarrow>
            if \<not> truthy (sf_value_enc field) \<or> \<not> truthy (sf_value_nonce field) then Decrypting
            else (case (fromBase64 (the (sf_value_enc field)), fromBase64 (the (sf_value_nonce field))) of
                (Inr enc, Inr nonce) \<Rightarrow>
                  (case decryptField wc enc nonce k of Inl _ \<Rightarrow> DecryptError | Inr plain \<Rightarrow> Plain plain)
              | _ \<Rightarrow> DecryptError))"

subsection \<open>Lemmas\<close>

lemma blob_opens:
  assumes "webcrypto_laws wc" and "encryptPrivateKey wc p k r = (Inr blob, r')"
  shows "decryptPrivateKey wc blob k = Inr p"
  using encryptPrivateKey_shape [OF assms]
  by (auto simp: decryptPrivateKey_def crypto_defs HEADER_LEN_def NONCE_LEN_def subarray_def
      laws(1,3) [OF assms(1)])

lemma share_handleCreate_ok:
  assumes "share_handleCreate wc net origin item ex lim (Some sk) (env, r) = (LinkCreated url, env1, r1)"
  obtains dek linkKey blob ra result ks where "open_item_key wc item sk = Inr dek"
    "wc_random wc 32 r = (linkKey, ra)" "encryptPrivateKey wc dek linkKey ra = (Inr blob, r1)"
    "run_mutation net (useCreateShareLinkMutation (sh_id item) (share_body blob ex lim)) env
       = (Inr (Some result), ks, env1)"
    "url = buildShareURL origin (str_or_undefined result ''token'') linkKey"
proof -
  obtain dek where d: "open_item_key wc item sk = Inr dek"
    using assms by (auto simp: share_handleCreate_def split: if_splits sum.splits)
  obtain linkKey ra where k: "wc_random wc 32 r = (linkKey, ra)" by fastforce
  obtain enc r2 where e: "encryptPrivateKey wc dek linkKey ra = (enc, r2)" by fastforce
  obtain blob where b: "enc = Inr blob"
    using assms d k e by (cases enc) (auto simp: share_handleCreate_def split: if_splits)
  obtain m ks env2 where m: "run_mutation net (useCreateShareLinkMutation (sh_id item) (share_body blob ex lim)) env
      = (m, ks, env2)" using prod_cases3 by blast
  obtain result where "m = Inr (Some result)" "env2 = env1" "r2 = r1"
    "url = buildShareURL origin (str_or_undefined result ''token'') linkKey"
    using assms d k e b m
    by (cases m) (auto simp: share_handleCreate_def split: if_splits option.splits)
  with that d k e b m show thesis by blast
qed

lemma toBase64_nonempty: "bs \<noteq> [] \<Longrightarrow> toBase64 bs \<noteq> []"
  by (simp add: toBase64_def btoa_nonempty)

lemma shared_field_shows:
  assumes "webcrypto_laws wc" and "encryptField wc (utf8_text cs) dek r = (Inr (ct, nonce), r')"
    and "length dek = 32" and "\<forall>c\<in>set cs. is_scalar c" and "cs = [] \<or> hd cs \<noteq> 0xFEFF"
  shows "DecryptedFieldRow wc \<lparr>sf_is_secret = True, sf_value_enc = Some (toBase64 ct),
     sf_value_nonce = Some (toBase64 nonce)\<rparr> (Some dek) = Plain (utf8_text cs)"
proof -
  obtain n rn where n: "wc_random wc 12 r = (n, rn)" by fastforce
  then have "length n = 12" by (rule laws(9) [OF assms(1)])
  with n assms(2,3) have c: "ct = wc_seal wc dek nonce (TextEncoder_encode (utf8_text cs))" "length nonce = 12"
    by (auto simp: encryptField_def crypto_defs NONCE_LEN_def)
  then have "ct \<noteq> []" "nonce \<noteq> []" using laws(3) [OF assms(1)] by (metis add_is_0 length_0_conv zero_neq_numeral)+
  moreover have "decryptField wc ct nonce dek = Inr (utf8_text cs)"
    using c assms(3,5) decode_encode [OF assms(4)]
    by (cases cs) (auto simp: decryptField_def crypto_defs laws(1) [OF assms(1)])
  ultimately show ?thesis
    by (simp add: DecryptedFieldRow_def base64_back toBase64_nonempty)
qed

subsection \<open>Property\<close>

text \<open>
  C1: A share link works for its holder and for nobody else's server. Whenever the dialog shows a
  URL, the server has been sent the item's key under a fresh link key and nothing else of
  it; and whoever opens that URL and gets the stored blob back sees the item's key opened and
  every secret field as it was entered.
\<close>
theorem share_link_opens_item:
  assumes "webcrypto_laws wc" and "CHR ''#'' \<notin> set origin"
    and "share_handleCreate wc net origin item ex lim (Some sk) (env, r) = (LinkCreated url, env1, r1)"
  shows "\<exists>dek linkKey blob ra result ks. open_item_key wc item sk = Inr dek
    \<and> wc_random wc 32 r = (linkKey, ra) \<and> encryptPrivateKey wc dek linkKey ra = (Inr blob, r1)
    \<and> run_mutation net (useCreateShareLinkMutation (sh_id item) (share_body blob ex lim)) env
        = (Inr (Some result), ks, env1)
    \<and> (\<forall>token payload. json_str_field result ''token'' = Some token \<longrightarrow> token \<noteq> [] \<longrightarrow> CHR ''#'' \<notin> set token
        \<longrightarrow> json_str_field payload ''dek_wrapped'' = Some (toBase64 blob)
        \<longrightarrow> SharePage wc (Some token) url (Inr payload) = ShowFields dek)
    \<and> (\<forall>cs rf ct nonce rf'. encryptField wc (utf8_text cs) dek rf = (Inr (ct, nonce), rf') \<longrightarrow> length dek = 32
        \<longrightarrow> (\<forall>c\<in>set cs. is_scalar c) \<longrightarrow> cs = [] \<or> hd cs \<noteq> 0xFEFF
        \<longrightarrow> DecryptedFieldRow wc \<lparr>sf_is_secret = True, sf_value_enc = Some (toBase64 ct),
              sf_value_nonce = Some (toBase64 nonce)\<rparr> (Some dek) = Plain (utf8_text cs))"
proof -
  obtain dek linkKey blob ra result ks where h: "open_item_key wc item sk = Inr dek"
    "wc_random wc 32 r = (linkKey, ra)" "encryptPrivateKey wc dek linkKey ra = (Inr blob, r1)"
    "run_mutation net (useCreateShareLinkMutation (sh_id item) (share_body blob ex lim)) env
       = (Inr (Some result), ks, env1)"
    "url = buildShareURL origin (str_or_undefined result ''token'') linkKey"
    using share_handleCreate_ok [OF assms(3)] .
  have l: "length linkKey = 32" by (rule laws(9) [OF assms(1) h(2)])
  have s: "SharePage wc (Some token) url (Inr payload) = ShowFields dek"
    if "json_str_field result ''token'' = Some token" "token \<noteq> []" "CHR ''#'' \<notin> set token"
      "json_str_field payload ''dek_wrapped'' = Some (toBase64 blob)" for token payload
    using that l blob_opens [OF assms(1) h(3)]
    by (simp add: SharePage_def h(5) str_or_undefined_def share_link_key_roundtrip [OF assms(2)] share_dek_def base64_back)
  show ?thesis
    using h(1-4) s shared_field_shows [OF assms(1)] by blast
qed

lemma share_link_opens_item_witness:
  "\<exists>url env1 r1. share_handleCreate toy_crypto scripted ''https://h''
      \<lparr>sh_id = ''i1'', sh_owner_dek_wrapped = Some (toBase64 (replicate 32 9 @ wc_seal toy_crypto (wc_sha256 toy_crypto (replicate 32 7)) (replicate 12 5) (replicate 32 3))),
        sh_owner_wrap_nonce = Some (toBase64 (replicate 12 5))\<rparr>
      ''1d'' 1 (Some (replicate 32 7)) (demo_env [json_reply (JObj [(''token'', JStr ''tok'')])], 1) = (LinkCreated url, env1, r1)
     \<and> (\<exists>blob. SharePage toy_crypto (Some ''tok'') url (Inr (JObj [(''dek_wrapped'', JStr (toBase64 blob))])) = ShowFields (replicate 32 3))"
proof -
  let ?w = "replicate 32 9 @ wc_seal toy_crypto (wc_sha256 toy_crypto (replicate 32 7)) (replicate 12 5) (replicate 32 3)"
  let ?item = "\<lparr>sh_id = ''i1'', sh_owner_dek_wrapped = Some (toBase64 ?w), sh_owner_wrap_nonce = Some (toBase64 (replicate 12 5))\<rparr>"
  let ?env = "demo_env [json_reply (JObj [(''token'', JStr ''tok'')])]"
  have o: "open_item_key toy_crypto ?item (replicate 32 7) = Inr (replicate 32 3)"
    by (simp add: open_item_key_def base64_back openDEKWithKEK_def crypto_defs laws(1,3,7) [OF toy_laws])
  have t: "truthy (Some (toBase64 ?w))" "truthy (Some (toBase64 (replicate 12 5)))"
    by (simp_all add: toBase64_nonempty)
  obtain blob r2 where e: "encryptPrivateKey toy_crypto (replicate 32 3) (replicate 32 1) (Suc (Suc 0)) = (Inr blob, r2)"
    by (simp add: encryptPrivateKey_def crypto_defs)
  have w: "we_world ?env = json_reply (JObj [(''token'', JStr ''tok'')]) # []" by (simp add: demo_env_def)
  obtain ks env1 where m: "run_mutation scripted (useCreateShareLinkMutation ''i1'' (share_body blob ''1d'' 1)) ?env
      = (Inr (Some (JObj [(''token'', JStr ''tok'')])), ks, env1)"
    using scripted_mutation [OF w] by blast
  obtain url where c: "share_handleCreate toy_crypto scripted ''https://h'' ?item ''1d'' 1 (Some (replicate 32 7)) (?env, 1)
      = (LinkCreated url, env1, r2)"
    using o t e m by (simp add: share_handleCreate_def numeral_2_eq_2)
  have h: "CHR ''#'' \<notin> set ''https://h''" by simp
  obtain blob' where p: "\<forall>payload. json_str_field payload ''dek_wrapped'' = Some (toBase64 blob')
      \<longrightarrow> SharePage toy_crypto (Some ''tok'') url (Inr payload) = ShowFields (replicate 32 3)"
    using share_link_opens_item [OF toy_laws h c] o m e by (auto simp: json_str_field_def)
  have "json_str_field (JObj [(''dek_wrapped'', JStr (toBase64 blob'))]) ''dek_wrapped'' = Some (toBase64 blob')"
    by (simp add: json_str_field_def)
  with p have "\<exists>blob. SharePage toy_crypto (Some ''tok'') url (Inr (JObj [(''dek_wrapped'', JStr (toBase64 blob))]))
      = ShowFields (replicate 32 3)" by blast
  with c show ?thesis by blast
qed

end
