(* ===== verification/AdminHooks.thy ===== *)
theory AdminHooks
  imports AccountHooks
begin

text \<open>
  The administration hooks of the web application (under \<open>web/src/api\<close>): \<open>admin.ts\<close>,
  \<open>groups.ts\<close>, \<open>admin-client-certs.ts\<close>, \<open>admin-k8s.ts\<close>, \<open>admin-ip-restrictions.ts\<close>,
  \<open>admin-log-forwarding.ts\<close>, \<open>admin-sso.ts\<close>, \<open>reports.ts\<close> and \<open>import.ts\<close>.
\<close>

definition user_path :: "string \<Rightarrow> string \<Rightarrow> string" where
  "user_path userId rest = ''/api/v1/admin/users/'' @ userId @ rest"

definition required_body :: "bool \<Rightarrow> json option" where
  "required_body required = Some (JObj [(''required'', JBool required)])"

subsection \<open>\<open>admin.ts\<close>\<close>

text \<open>\<open>invalidateAllUserPages\<close>.\<close>

definition all_user_pages :: "json list list" where
  "all_user_pages = [[JStr ''admin'', JStr ''users'']]"

definition useCreateUserMutation :: "json \<Rightarrow> mutation_hook" where
  "useCreateUserMutation input = mutation POST ''/api/v1/admin/users'' (Some input) all_user_pages"

definition useUsers :: "int \<Rightarrow> int \<Rightarrow> query_hook" where
  "useUsers limit offset =
     with_query [(''limit'', Some (QNum limit)), (''offset'', Some (QNum offset))]
       (get_query (key_admin_users limit offset) ''/api/v1/admin/users'' True ClientDefault)"

definition useGrantRoleMutation :: "string \<Rightarrow> json \<Rightarrow> mutation_hook" where
  "useGrantRoleMutation userId input = mutation POST (user_path userId ''/roles'') (Some input) all_user_pages"

definition useRevokeRoleMutation :: "string \<Rightarrow> string \<Rightarrow> mutation_hook" where
  "useRevokeRoleMutation userId roleName =
     mutation DELETE (user_path userId (''/roles/'' @ roleName)) None all_user_pages"

definition useDisableUserMutation :: "string \<Rightarrow> mutation_hook" where
  "useDisableUserMutation userId = mutation POST (user_path userId ''/disable'') None all_user_pages"

definition useEnableUserMutation :: "string \<Rightarrow> mutation_hook" where
  "useEnableUserMutation userId = mutation POST (user_path userId ''/enable'') None all_user_pages"

definition useResetTOTPMutation :: "string \<Rightarrow> mutation_hook" where
  "useResetTOTPMutation userId = mutation POST (user_path userId ''/totp/reset'') None all_user_pages"

definition useUpdateTOTPRequirementMutation :: "string \<Rightarrow> bool \<Rightarrow> mutation_hook" where
  "useUpdateTOTPRequirementMutation userId required =
     mutation PATCH (user_path userId ''/totp-required'') (required_body required) all_user_pages"

definition useUpdateWebAuthnRequirementMutation :: "string \<Rightarrow> bool \<Rightarrow> mutation_hook" where
  "useUpdateWebAuthnRequirementMutation userId required =
     mutation PATCH (user_path userId ''/webauthn-required'') (required_body required) all_user_pages"

definition useSetBreakGlassMutation :: "string \<Rightarrow> bool \<Rightarrow> mutation_hook" where
  "useSetBreakGlassMutation userId enabled =
     mutation POST (user_path userId ''/break-glass'') (Some (JObj [(''enabled'', JBool enabled)])) all_user_pages"

record AuditLogFilters =
  af_action :: "string option"
  af_actor_user_id :: "string option"
  af_resource_type :: "string option"
  af_resource_id :: "string option"
  af_from :: "string option"
  af_to :: "string option"
  af_limit :: "int option"
  af_offset :: "int option"

definition buildAuditQuery :: "AuditLogFilters \<Rightarrow> query" where
  "buildAuditQuery f =
     [(''action'', qstr (or_undef (af_action f))),
      (''actor_user_id'', qstr (or_undef (af_actor_user_id f))),
      (''resource_type'', qstr (or_undef (af_resource_type f))),
      (''resource_id'', qstr (or_undef (af_resource_id f))),
      (''from'', qstr (or_undef (af_from f))),
      (''to'', qstr (or_undef (af_to f))),
      (''limit'', map_option QNum (af_limit f)),
      (''offset'', map_option QNum (af_offset f))]"

definition opt_num :: "string \<Rightarrow> int option \<Rightarrow> (string \<times> json) list" where
  "opt_num k v = (case v of None \<Rightarrow> [] | Some n \<Rightarrow> [(k, JNum n)])"

definition audit_filters_json :: "AuditLogFilters \<Rightarrow> json" where
  "audit_filters_json f = JObj (opt_str ''action'' (af_action f) @ opt_str ''actor_user_id'' (af_actor_user_id f)
     @ opt_str ''resource_type'' (af_resource_type f) @ opt_str ''resource_id'' (af_resource_id f)
     @ opt_str ''from'' (af_from f) @ opt_str ''to'' (af_to f) @ opt_num ''limit'' (af_limit f)
     @ opt_num ''offset'' (af_offset f))"

definition useAuditLog :: "AuditLogFilters \<Rightarrow> query_hook" where
  "useAuditLog filters =
     with_query (buildAuditQuery filters)
       (get_query (key_admin_auditLog (audit_filters_json filters)) ''/api/v1/admin/audit-log'' True ClientDefault)"

datatype ExportFormat = ExportJSON | ExportCSV

fun export_ext :: "ExportFormat \<Rightarrow> string" where
  "export_ext ExportJSON = ''json''"
| "export_ext ExportCSV = ''csv''"

text \<open>A download: the error's message, or the name of the file offered to the user. The date is
  the day in ISO form.\<close>

definition download ::
    "'w net \<Rightarrow> http_request \<Rightarrow> (http_response \<Rightarrow> string) \<Rightarrow> string \<Rightarrow> 'w web_env \<Rightarrow> (string + string) \<times> 'w web_env" where
  "download net rq failure filename env =
     (case do_fetch net rq env of
        (NetworkFailure m, env1) \<Rightarrow> (Inl m, env1)
      | (Response res, env1) \<Rightarrow> if \<not> rs_ok res then (Inl (failure res), env1) else (Inr filename, env1))"

definition export_message :: "string \<Rightarrow> http_response \<Rightarrow> string" where
  "export_message what res =
     (let fallback = what @ '' ba'' @ tr_s @ ''ar'' @ tr_i @ ''s'' @ tr_i @ ''z ('' @ show_nat (rs_status res) @ '')''
      in body_message res fallback fallback)"

definition token_header :: "string option \<Rightarrow> (string \<times> string) list" where
  "token_header token = (case token of None \<Rightarrow> [] | Some t \<Rightarrow> if t = [] then [] else [bearer t])"

definition downloadAdminExport ::
    "'w net \<Rightarrow> ExportFormat \<Rightarrow> string \<Rightarrow> 'w web_env \<Rightarrow> (string + string) \<times> 'w web_env" where
  "downloadAdminExport net fmt date env =
     download net
       \<lparr>rq_url = ''/api/v1/admin/export?format='' @ export_ext fmt, rq_method = GET,
        rq_headers = token_header (getAccessToken (we_tokens env)), rq_body = None\<rparr>
       (export_message ''Export'') (''ironstock-export-'' @ date @ ''.'' @ export_ext fmt) env"

definition downloadEncryptedExport ::
    "'w net \<Rightarrow> json \<Rightarrow> string \<Rightarrow> 'w web_env \<Rightarrow> (string + string) \<times> 'w web_env" where
  "downloadEncryptedExport net req date env =
     download net
       (post_request ''/api/v1/admin/export/encrypted''
          ([json_content] @ token_header (getAccessToken (we_tokens env))) (Some req))
       (export_message ([CHR 0xC5, CHR 0x9E] @ ''ifreli export''))
       (''ironstock-encrypted-export-'' @ date @ ''.zip'') env"

subsection \<open>\<open>groups.ts\<close>\<close>

definition groupsQueryKey :: "json list" where "groupsQueryKey = [JStr ''admin'', JStr ''groups'']"
definition groupQueryKey :: "string \<Rightarrow> json list" where
  "groupQueryKey i = [JStr ''admin'', JStr ''groups'', JStr i]"
definition groupMembersQueryKey :: "string \<Rightarrow> json list" where
  "groupMembersQueryKey i = [JStr ''admin'', JStr ''groups'', JStr i, JStr ''members'']"
definition groupFolderPermsQueryKey :: "string \<Rightarrow> json list" where
  "groupFolderPermsQueryKey i = [JStr ''admin'', JStr ''groups'', JStr i, JStr ''folder-permissions'']"

definition group_path :: "string \<Rightarrow> string \<Rightarrow> string" where
  "group_path groupId rest = ''/api/v1/admin/groups/'' @ groupId @ rest"

definition useGroupsQuery :: query_hook where
  "useGroupsQuery = get_query groupsQueryKey ''/api/v1/admin/groups'' True (StaleFor 30000)"

definition useGroupQuery :: "string \<Rightarrow> query_hook" where
  "useGroupQuery i = get_query (groupQueryKey i) (group_path i '''') (i \<noteq> '''') (StaleFor 30000)"

definition useGroupMembersQuery :: "string \<Rightarrow> query_hook" where
  "useGroupMembersQuery groupId =
     get_query (groupMembersQueryKey groupId) (group_path groupId ''/members'') (groupId \<noteq> '''') (StaleFor 15000)"

definition useGroupFolderPermissionsQuery :: "string \<Rightarrow> query_hook" where
  "useGroupFolderPermissionsQuery groupId =
     get_query (groupFolderPermsQueryKey groupId) (group_path groupId ''/folder-permissions'') (groupId \<noteq> '''')
       (StaleFor 15000)"

definition useCreateGroupMutation :: "json \<Rightarrow> mutation_hook" where
  "useCreateGroupMutation input = mutation POST ''/api/v1/admin/groups'' (Some input) [groupsQueryKey]"

definition useDeleteGroupMutation :: "string \<Rightarrow> mutation_hook" where
  "useDeleteGroupMutation i = mutation DELETE (group_path i '''') None [groupsQueryKey]"

definition useUpdateGroupRoleMutation :: "string \<Rightarrow> json \<Rightarrow> mutation_hook" where
  "useUpdateGroupRoleMutation groupId input =
     mutation PATCH (group_path groupId ''/role'') (Some input) [groupsQueryKey, groupQueryKey groupId]"

definition useAddGroupMemberMutation :: "string \<Rightarrow> json \<Rightarrow> mutation_hook" where
  "useAddGroupMemberMutation groupId input =
     mutation POST (group_path groupId ''/members'') (Some input)
       [groupMembersQueryKey groupId, groupQueryKey groupId]"

definition useRemoveGroupMemberMutation :: "string \<Rightarrow> string \<Rightarrow> mutation_hook" where
  "useRemoveGroupMemberMutation groupId userId =
     mutation DELETE (group_path groupId (''/members/'' @ userId)) None
       [groupMembersQueryKey groupId, groupQueryKey groupId]"

definition useGrantFolderGroupPermissionMutation :: "string \<Rightarrow> json \<Rightarrow> mutation_hook" where
  "useGrantFolderGroupPermissionMutation groupId input =
     mutation POST (group_path groupId ''/folder-permissions'') (Some input) [groupFolderPermsQueryKey groupId]"

definition useRevokeFolderGroupPermissionMutation :: "string \<Rightarrow> string \<Rightarrow> mutation_hook" where
  "useRevokeFolderGroupPermissionMutation groupId folderId =
     mutation DELETE (group_path groupId (''/folder-permissions/'' @ folderId)) None
       [groupFolderPermsQueryKey groupId]"

subsection \<open>\<open>admin-client-certs.ts\<close>\<close>

definition certKeys_cas :: "json list" where "certKeys_cas = [JStr ''admin'', JStr ''client-cert-cas'']"
definition certKeys_userCerts :: "string \<Rightarrow> json list" where
  "certKeys_userCerts userId = [JStr ''admin'', JStr ''client-certs'', JStr userId]"

definition useClientCertCAsQuery :: query_hook where
  "useClientCertCAsQuery = get_query certKeys_cas ''/api/v1/admin/client-cert-cas'' True ClientDefault"

definition useUploadCACertMutation :: "json \<Rightarrow> mutation_hook" where
  "useUploadCACertMutation input = mutation POST ''/api/v1/admin/client-cert-cas'' (Some input) [certKeys_cas]"

definition useDeleteCACertMutation :: "string \<Rightarrow> mutation_hook" where
  "useDeleteCACertMutation caId = mutation DELETE (''/api/v1/admin/client-cert-cas/'' @ caId) None [certKeys_cas]"

definition useUserClientCertsQuery :: "string \<Rightarrow> query_hook" where
  "useUserClientCertsQuery userId =
     get_query (certKeys_userCerts userId) (user_path userId ''/client-certs'') (userId \<noteq> '''') ClientDefault"

definition useIssueClientCertMutation :: "string \<Rightarrow> json option \<Rightarrow> mutation_hook" where
  "useIssueClientCertMutation userId input =
     mutation POST (user_path userId ''/client-certs/issue'') (Some (nullish input (JObj [])))
       [certKeys_userCerts userId]"

definition useRegisterClientCertMutation :: "string \<Rightarrow> json \<Rightarrow> mutation_hook" where
  "useRegisterClientCertMutation userId input =
     mutation POST (user_path userId ''/client-certs/register'') (Some input) [certKeys_userCerts userId]"

definition useRevokeClientCertMutation :: "string \<Rightarrow> string \<Rightarrow> mutation_hook" where
  "useRevokeClientCertMutation userId certId =
     mutation DELETE (user_path userId (''/client-certs/'' @ certId)) None [certKeys_userCerts userId]"

definition useUpdateClientCertRequirementMutation :: "string \<Rightarrow> json \<Rightarrow> mutation_hook" where
  "useUpdateClientCertRequirementMutation userId input =
     mutation PATCH (user_path userId ''/cert-required'') (Some input) [[JStr ''admin'', JStr ''users'']]"

subsection \<open>\<open>admin-k8s.ts\<close>, \<open>admin-ip-restrictions.ts\<close>, \<open>admin-log-forwarding.ts\<close>\<close>

definition k8s_key :: "json list" where "k8s_key = [JStr ''k8s-clusters'']"

definition useAdminK8sClustersQuery :: query_hook where
  "useAdminK8sClustersQuery = get_query k8s_key ''/api/v1/admin/k8s/clusters'' True ClientDefault"

definition useCreateK8sClusterMutation :: "json \<Rightarrow> mutation_hook" where
  "useCreateK8sClusterMutation req = mutation POST ''/api/v1/admin/k8s/clusters'' (Some req) [k8s_key]"

text \<open>The body is the request without its \<open>id\<close>.\<close>

definition useUpdateK8sClusterMutation :: "string \<Rightarrow> json \<Rightarrow> mutation_hook" where
  "useUpdateK8sClusterMutation i req = mutation PUT (''/api/v1/admin/k8s/clusters/'' @ i) (Some req) [k8s_key]"

definition useDeleteK8sClusterMutation :: "string \<Rightarrow> mutation_hook" where
  "useDeleteK8sClusterMutation i = mutation DELETE (''/api/v1/admin/k8s/clusters/'' @ i) None [k8s_key]"

definition useTestK8sClusterMutation :: "string \<Rightarrow> mutation_hook" where
  "useTestK8sClusterMutation i = mutation POST (''/api/v1/admin/k8s/clusters/'' @ i @ ''/test'') None []"

definition ip_key :: "string \<Rightarrow> json list" where
  "ip_key userId = [JStr ''admin'', JStr ''ip-restrictions'', JStr userId]"

definition useIPRestrictionsQuery :: "string \<Rightarrow> query_hook" where
  "useIPRestrictionsQuery userId =
     get_query (ip_key userId) (user_path userId ''/ip-restrictions'') (userId \<noteq> '''') ClientDefault"

definition useUpdateIPRestrictionsMutation :: "string \<Rightarrow> json \<Rightarrow> mutation_hook" where
  "useUpdateIPRestrictionsMutation userId restrictions =
     mutation PATCH (user_path userId ''/ip-restrictions'') (Some restrictions) [ip_key userId]"

definition log_key :: "json list" where "log_key = [JStr ''log-forwarding-configs'']"

definition useLogForwardingConfigsQuery :: query_hook where
  "useLogForwardingConfigsQuery = get_query log_key ''/api/v1/admin/log-forwarding'' True ClientDefault"

definition useCreateLogForwardingMutation :: "json \<Rightarrow> mutation_hook" where
  "useCreateLogForwardingMutation req = mutation POST ''/api/v1/admin/log-forwarding'' (Some req) [log_key]"

definition useUpdateLogForwardingMutation :: "string \<Rightarrow> json \<Rightarrow> mutation_hook" where
  "useUpdateLogForwardingMutation i req =
     mutation PUT (''/api/v1/admin/log-forwarding/'' @ i) (Some req) [log_key]"

definition useDeleteLogForwardingMutation :: "string \<Rightarrow> mutation_hook" where
  "useDeleteLogForwardingMutation i = mutation DELETE (''/api/v1/admin/log-forwarding/'' @ i) None [log_key]"

definition useTestLogForwardingMutation :: "string \<Rightarrow> mutation_hook" where
  "useTestLogForwardingMutation i = mutation POST (''/api/v1/admin/log-forwarding/'' @ i @ ''/test'') None []"

subsection \<open>\<open>admin-sso.ts\<close>\<close>

definition sso_key :: "json list" where "sso_key = [JStr ''admin'', JStr ''sso-providers'']"

definition useAdminSSOProvidersQuery :: query_hook where
  "useAdminSSOProvidersQuery = get_query sso_key ''/api/v1/admin/sso/providers'' True (StaleFor 30000)"

definition usePublicSSOProvidersQuery :: query_hook where
  "usePublicSSOProvidersQuery =
     get_query [JStr ''sso-providers'', JStr ''public''] ''/api/v1/auth/sso/providers'' True (StaleFor 60000)"

definition useCreateSSOProviderMutation :: "json \<Rightarrow> mutation_hook" where
  "useCreateSSOProviderMutation req = mutation POST ''/api/v1/admin/sso/providers'' (Some req) [sso_key]"

definition useUpdateSSOProviderMutation :: "string \<Rightarrow> json \<Rightarrow> mutation_hook" where
  "useUpdateSSOProviderMutation i req = mutation PUT (''/api/v1/admin/sso/providers/'' @ i) (Some req) [sso_key]"

definition useDeleteSSOProviderMutation :: "string \<Rightarrow> mutation_hook" where
  "useDeleteSSOProviderMutation i = mutation DELETE (''/api/v1/admin/sso/providers/'' @ i) None [sso_key]"

definition useTestLDAPConnectionMutation :: "string \<Rightarrow> mutation_hook" where
  "useTestLDAPConnectionMutation i = mutation POST (''/api/v1/admin/sso/providers/'' @ i @ ''/test'') None []"

subsection \<open>\<open>reports.ts\<close> and \<open>import.ts\<close>\<close>

text \<open>The base URL is \<open>window.__ENVANTER_API_BASE__ ?? ''\<close>; without a token the header carries an
  empty one.\<close>

definition useGenerateReportMutation ::
    "'w net \<Rightarrow> string option \<Rightarrow> json \<Rightarrow> string \<Rightarrow> 'w web_env \<Rightarrow> (string + string) \<times> 'w web_env" where
  "useGenerateReportMutation net apiBase req date env =
     (let failed = ''Rapor '' @ tr_u @ ''retilemedi.''
      in download net
           (post_request (nullish apiBase '''' @ ''/api/v1/admin/reports/generate'')
              [json_content, bearer (nullish (getAccessToken (we_tokens env)) '''')] (Some req))
           (\<lambda>res. body_message res failed failed) (''ironstock-report-'' @ date @ ''.html'') env)"

definition useK8sBindingQuery :: "string \<Rightarrow> query_hook" where
  "useK8sBindingQuery itemId =
     get_query [JStr ''k8s-binding'', JStr itemId] (''/api/v1/items/'' @ itemId @ ''/k8s/binding'') True ClientDefault"

definition useSetK8sBindingMutation :: "string \<Rightarrow> string \<Rightarrow> string \<Rightarrow> mutation_hook" where
  "useSetK8sBindingMutation itemId clusterId namespaceName =
     mutation POST (''/api/v1/items/'' @ itemId @ ''/k8s/bind'')
       (Some (JObj [(''cluster_id'', JStr clusterId), (''namespace_name'', JStr namespaceName)])) []"

definition useCSVPreviewMutation :: "string \<Rightarrow> mutation_hook" where
  "useCSVPreviewMutation file =
     \<lparr>m_path = ''/api/v1/import/csv/preview'',
      m_options = no_options\<lparr>ro_method := Some POST, ro_rawBody := Some [(''file'', file)]\<rparr>, m_invalidates = []\<rparr>"

definition useBatchImportMutation :: "json \<Rightarrow> mutation_hook" where
  "useBatchImportMutation req = mutation POST ''/api/v1/import/batch'' (Some req) []"

end
