(* ===== verification/CatalogHooks.thy ===== *)
theory CatalogHooks
  imports ApiHooks Utf8
begin

text \<open>
  The portal and catalog hooks of the web application (under \<open>web/src/api\<close>): \<open>catalog.ts\<close>,
  \<open>catalog-browse.ts\<close>, \<open>catalog-browser.ts\<close>, \<open>portal-home.ts\<close>, \<open>portal-templates.ts\<close>,
  \<open>templates.ts\<close>, \<open>pipeline.ts\<close> and \<open>system-info.ts\<close>, with the computations they do on results.
\<close>

subsection \<open>\<open>catalog.ts\<close>\<close>

definition useFieldDefinitions :: query_hook where
  "useFieldDefinitions = get_query key_fieldDefinitions ''/api/v1/field-definitions'' True NeverStale"

definition useItemTypes :: query_hook where
  "useItemTypes = get_query key_itemTypes ''/api/v1/item-types'' True NeverStale"

definition useUserPublicKey :: "string option \<Rightarrow> query_hook" where
  "useUserPublicKey userId =
     get_query (key_userPublicKey (nullish userId '''')) (''/api/v1/users/'' @ tpl userId @ ''/public-key'')
       (truthy userId) NeverStale"

text \<open>One query per user; the map is there only when all of them succeeded.\<close>

record key_result =
  kr_isLoading :: bool
  kr_data :: "string option"

definition kr_isSuccess :: "key_result \<Rightarrow> bool" where
  "kr_isSuccess r \<longleftrightarrow> kr_data r \<noteq> None"

definition userPublicKey_queries :: "string list \<Rightarrow> query_hook list" where
  "userPublicKey_queries userIds =
     map (\<lambda>i. get_query (key_userPublicKey i) (''/api/v1/users/'' @ i @ ''/public-key'') (i \<noteq> '''') NeverStale) userIds"

definition useUserPublicKeys :: "string list \<Rightarrow> key_result list \<Rightarrow> (string \<Rightarrow> string option) option \<times> bool" where
  "useUserPublicKeys userIds results =
     (let isLoading = list_ex kr_isLoading results;
          allLoaded = results \<noteq> [] \<and> list_all kr_isSuccess results
      in if \<not> allLoaded \<or> userIds = [] then (None, isLoading)
         else (Some (foldl (\<lambda>m (i, r). case kr_data r of None \<Rightarrow> m | Some k \<Rightarrow> m(i \<mapsto> k)) Map.empty
                (zip userIds results)), False))"

subsection \<open>\<open>catalog-browse.ts\<close>\<close>

record CatalogBrowseParams =
  cb_type_id :: "int option"
  cb_q :: "string option"
  cb_severity :: "string option"
  cb_tag :: "string option"
  cb_limit :: "int option"
  cb_offset :: "int option"

definition opt_field_num :: "string \<Rightarrow> int option \<Rightarrow> (string \<times> json) list" where
  "opt_field_num k v = (case v of None \<Rightarrow> [] | Some n \<Rightarrow> [(k, JNum n)])"

definition catalogBrowseKey :: "CatalogBrowseParams \<Rightarrow> json list" where
  "catalogBrowseKey p = [JStr ''catalog'', JStr ''browse'',
     JObj (opt_field_num ''type_id'' (cb_type_id p) @ opt_str ''q'' (cb_q p) @ opt_str ''severity'' (cb_severity p)
       @ opt_str ''tag'' (cb_tag p) @ opt_field_num ''limit'' (cb_limit p) @ opt_field_num ''offset'' (cb_offset p))]"

definition query_num :: "string \<Rightarrow> int option \<Rightarrow> query" where
  "query_num k v = (case v of None \<Rightarrow> [] | Some n \<Rightarrow> [(k, Some (QStr (show_int n)))])"

definition query_text :: "string \<Rightarrow> string option \<Rightarrow> query" where
  "query_text k v = (if truthy v then [(k, qstr v)] else [])"

definition useCatalogBrowseQuery :: "CatalogBrowseParams \<Rightarrow> query_hook" where
  "useCatalogBrowseQuery p =
     with_query (query_num ''type_id'' (cb_type_id p) @ query_text ''q'' (cb_q p)
         @ query_text ''severity'' (cb_severity p) @ query_text ''tag'' (cb_tag p)
         @ query_num ''limit'' (cb_limit p) @ query_num ''offset'' (cb_offset p))
       (get_query (catalogBrowseKey p) ''/api/v1/catalog/items'' True (StaleFor 30000))"

subsection \<open>\<open>catalog-browser.ts\<close>\<close>

text \<open>\<open>decodeURIComponent\<close>: \<open>None\<close> is the \<open>URIError\<close> for a bad escape or bytes that are not
  UTF-8.\<close>

definition hex_value :: "char \<Rightarrow> nat option" where
  "hex_value c = (let n = (of_char c :: nat) in
     if 48 \<le> n \<and> n \<le> 57 then Some (n - 48)
     else if 65 \<le> n \<and> n \<le> 70 then Some (n - 55)
     else if 97 \<le> n \<and> n \<le> 102 then Some (n - 87) else None)"

fun percent_decode :: "string \<Rightarrow> string option" where
  "percent_decode [] = Some []"
| "percent_decode (c # cs) =
     (if c = CHR ''%'' then
        (case cs of
           h # l # rest \<Rightarrow>
             (case (hex_value h, hex_value l) of
                (Some a, Some b) \<Rightarrow> map_option ((#) (char_of (16 * a + b))) (percent_decode rest)
              | _ \<Rightarrow> None)
         | _ \<Rightarrow> None)
      else map_option ((#) c) (percent_decode cs))"

definition valid_utf8 :: "string \<Rightarrow> bool" where
  "valid_utf8 s \<longleftrightarrow> utf8_decode 0 0x80 0xBF [] (map of_char s) = map of_char s"

definition decodeURIComponent :: "string \<Rightarrow> string option" where
  "decodeURIComponent s =
     (case percent_decode s of None \<Rightarrow> None | Some t \<Rightarrow> if valid_utf8 t then Some t else None)"

record catalog_hit =
  ch_id :: string
  ch_kind :: "string option"
  ch_name :: string

text \<open>The search and the exact match on its result; \<open>toLowerCase\<close> is a parameter, and the inner
  \<open>None\<close> is the error \<open>not-found\<close>.\<close>

definition find_item_query :: "string \<Rightarrow> string \<Rightarrow> query_hook option" where
  "find_item_query kind name =
     map_option (\<lambda>decoded.
       (with_query [(''q'', qstr (Some decoded)), (''kind'', qstr (Some kind))]
         (get_query [JStr ''catalog'', JStr ''by-kind-name'', JStr kind, JStr decoded] ''/api/v1/items/search''
           (js_length decoded \<ge> 2) (StaleFor 15000)))\<lparr>q_noRetry := True\<rparr>)
       (decodeURIComponent name)"

definition useFindItemByKindAndName ::
    "(string \<Rightarrow> string) \<Rightarrow> string \<Rightarrow> string \<Rightarrow> catalog_hit list \<Rightarrow> catalog_hit option" where
  "useFindItemByKindAndName lower kind decodedName items =
     find (\<lambda>item. ch_kind item = Some kind \<and> lower (ch_name item) = lower decodedName) items"

definition useCatalogEntityQuery :: "string \<Rightarrow> string \<Rightarrow> query_hook" where
  "useCatalogEntityQuery kind name =
     get_query [JStr ''catalog'', JStr ''entity'', JStr kind, JStr name]
       (''/api/v1/catalog/'' @ encodeURIComponent kind @ ''/'' @ encodeURIComponent name)
       (length kind > 0 \<and> length name > 0) (StaleFor 15000)"

record CatalogFilters =
  cf_q :: string
  cf_kind :: "string option"
  cf_fuzzy :: "bool option"

definition useCatalogQuery :: "CatalogFilters \<Rightarrow> query_hook" where
  "useCatalogQuery f =
     (let trimmed = trim (cf_q f); fuzzy = nullish (cf_fuzzy f) False
      in with_query ([(''q'', qstr (Some trimmed))] @ query_text ''kind'' (cf_kind f)
             @ (if fuzzy then [(''fuzzy'', qstr (Some ''true''))] else []))
           (get_query [JStr ''catalog-browser'', JStr trimmed, key_opt (cf_kind f), JBool fuzzy]
             ''/api/v1/items/search'' (js_length trimmed \<ge> 2) (StaleFor 15000)))"

subsection \<open>\<open>portal-home.ts\<close>\<close>

text \<open>An item as the statistics read it: times in milliseconds.\<close>

record stat_item =
  si_id :: string
  si_kind :: "string option"
  si_expires :: "int option"
  si_updated :: int

record PortalStats =
  pt_total :: nat
  pt_by_kind :: "(string \<times> nat) list"
  pt_expiring_soon :: "stat_item list"
  pt_recent :: "stat_item list"

definition portal_query :: query_hook where
  "portal_query =
     with_query [(''q'', qstr (Some '''')), (''fuzzy'', qstr (Some ''true'')), (''limit'', qstr (Some ''500''))]
       (get_query [JStr ''portal-home'', JStr ''all''] ''/api/v1/items/search'' True (StaleFor 60000))"

text \<open>A \<open>Map\<close> keeps the order of first insertion.\<close>

fun count_kind :: "string \<Rightarrow> (string \<times> nat) list \<Rightarrow> (string \<times> nat) list" where
  "count_kind k [] = [(k, 1)]"
| "count_kind k ((k', n) # xs) = (if k' = k then (k', n + 1) # xs else (k', n) # count_kind k xs)"

definition byKindMap :: "stat_item list \<Rightarrow> (string \<times> nat) list" where
  "byKindMap items =
     foldl (\<lambda>m item. if truthy (si_kind item) then count_kind (the (si_kind item)) m else m) [] items"

definition thirtyDays :: int where "thirtyDays = 30 * 24 * 60 * 60 * 1000"

definition usePortalStatsQuery :: "int \<Rightarrow> stat_item list \<Rightarrow> PortalStats" where
  "usePortalStatsQuery now items =
     \<lparr>pt_total = length items,
      pt_by_kind = sort_key (\<lambda>(k, n). - int n) (byKindMap items),
      pt_expiring_soon = take 5 (filter (\<lambda>item. case si_expires item of None \<Rightarrow> False
          | Some e \<Rightarrow> e > now \<and> e \<le> now + thirtyDays) items),
      pt_recent = take 8 (sort_key (\<lambda>item. - si_updated item) items)\<rparr>"

subsection \<open>\<open>portal-templates.ts\<close> and \<open>templates.ts\<close>\<close>

definition portalTemplatesKey :: "string option \<Rightarrow> json list" where
  "portalTemplatesKey kindKey =
     (if truthy kindKey then [JStr ''portal-templates'', JObj (opt_str ''kind_key'' kindKey)]
      else [JStr ''portal-templates''])"

definition usePortalTemplatesQuery :: "string option \<Rightarrow> bool \<Rightarrow> query_hook" where
  "usePortalTemplatesQuery kindKey every =
     with_query (query_text ''kind_key'' kindKey @ (if every then [(''all'', qstr (Some ''true''))] else []))
       (get_query (portalTemplatesKey kindKey @ [JStr (if every then ''all'' else ''active'')])
         ''/api/v1/portal-templates'' True (StaleFor 60000))"

definition usePortalTemplateQuery :: "string option \<Rightarrow> query_hook" where
  "usePortalTemplateQuery i =
     get_query [JStr ''portal-templates'', key_opt i] (''/api/v1/portal-templates/'' @ tpl i) (truthy i) (StaleFor 60000)"

definition useCreatePortalTemplateMutation :: "json \<Rightarrow> mutation_hook" where
  "useCreatePortalTemplateMutation req =
     mutation POST ''/api/v1/portal-templates'' (Some req) [[JStr ''portal-templates'']]"

definition useUpdatePortalTemplateMutation :: "string \<Rightarrow> json \<Rightarrow> mutation_hook" where
  "useUpdatePortalTemplateMutation i body =
     mutation PUT (''/api/v1/portal-templates/'' @ i) (Some body) [[JStr ''portal-templates'']]"

definition useDeletePortalTemplateMutation :: "string \<Rightarrow> mutation_hook" where
  "useDeletePortalTemplateMutation i =
     mutation DELETE (''/api/v1/portal-templates/'' @ i) None [[JStr ''portal-templates'']]"

definition templates_key :: "json list" where "templates_key = [JStr ''templates'']"

definition useTemplatesQuery :: "string \<Rightarrow> query_hook" where
  "useTemplatesQuery scope =
     with_query [(''scope'', qstr (Some scope))]
       (get_query [JStr ''templates'', JStr scope] ''/api/v1/templates'' True (StaleFor 30000))"

definition useCreateTemplateMutation :: "json \<Rightarrow> mutation_hook" where
  "useCreateTemplateMutation req = mutation POST ''/api/v1/templates'' (Some req) [templates_key]"

definition useUpdateTemplateMutation :: "string \<Rightarrow> json \<Rightarrow> mutation_hook" where
  "useUpdateTemplateMutation templateId req =
     mutation PUT (''/api/v1/templates/'' @ templateId) (Some req) [templates_key]"

definition useDeleteTemplateMutation :: "string \<Rightarrow> mutation_hook" where
  "useDeleteTemplateMutation templateId = mutation DELETE (''/api/v1/templates/'' @ templateId) None [templates_key]"

subsection \<open>\<open>pipeline.ts\<close>\<close>

definition pipelineDiagramsKey :: "json list" where "pipelineDiagramsKey = [JStr ''pipeline-diagrams'']"
definition pipelineDiagramKey :: "string \<Rightarrow> json list" where
  "pipelineDiagramKey i = [JStr ''pipeline-diagrams'', JStr i]"
definition diagramGraphKey :: "string \<Rightarrow> json list" where
  "diagramGraphKey i = [JStr ''pipeline-diagrams'', JStr i, JStr ''graph'']"

definition diagram_path :: "string \<Rightarrow> string \<Rightarrow> string" where
  "diagram_path i rest = ''/api/v1/pipeline-diagrams/'' @ i @ rest"

definition usePipelineDiagramsQuery :: query_hook where
  "usePipelineDiagramsQuery =
     explicit_get (get_query pipelineDiagramsKey ''/api/v1/pipeline-diagrams'' True (StaleFor 30000))"

definition usePipelineDiagramQuery :: "string option \<Rightarrow> query_hook" where
  "usePipelineDiagramQuery i =
     explicit_get (get_query (pipelineDiagramKey (nullish i '''')) (diagram_path (tpl i) '''') (truthy i) (StaleFor 30000))"

definition useDiagramGraphQuery :: "string option \<Rightarrow> query_hook" where
  "useDiagramGraphQuery i =
     explicit_get (get_query (diagramGraphKey (nullish i '''')) (diagram_path (tpl i) ''/graph'') (truthy i) (StaleFor 15000))"

definition useCreatePipelineDiagramMutation :: "json \<Rightarrow> mutation_hook" where
  "useCreatePipelineDiagramMutation req =
     mutation POST ''/api/v1/pipeline-diagrams'' (Some req) [pipelineDiagramsKey]"

definition useUpdatePipelineDiagramMutation :: "string \<Rightarrow> json \<Rightarrow> mutation_hook" where
  "useUpdatePipelineDiagramMutation i req =
     mutation PUT (diagram_path i '''') (Some req) [pipelineDiagramKey i, pipelineDiagramsKey]"

definition useDeletePipelineDiagramMutation :: "string \<Rightarrow> mutation_hook" where
  "useDeletePipelineDiagramMutation i = mutation DELETE (diagram_path i '''') None [pipelineDiagramsKey]"

definition useAddDiagramNodesMutation :: "string \<Rightarrow> json \<Rightarrow> mutation_hook" where
  "useAddDiagramNodesMutation diagramId req =
     mutation POST (diagram_path diagramId ''/nodes'') (Some req)
       [pipelineDiagramKey diagramId, diagramGraphKey diagramId]"

definition useRemoveDiagramNodeMutation :: "string \<Rightarrow> string \<Rightarrow> mutation_hook" where
  "useRemoveDiagramNodeMutation diagramId itemId =
     mutation DELETE (diagram_path diagramId (''/nodes/'' @ itemId)) None
       [pipelineDiagramKey diagramId, diagramGraphKey diagramId]"

definition useSaveDiagramLayoutMutation :: "string \<Rightarrow> json \<Rightarrow> mutation_hook" where
  "useSaveDiagramLayoutMutation diagramId req =
     mutation PUT (diagram_path diagramId ''/layout'') (Some req) [pipelineDiagramKey diagramId]"

subsection \<open>\<open>system-info.ts\<close>\<close>

definition useSystemInfoQuery :: query_hook where
  "useSystemInfoQuery =
     (get_query [JStr ''system'', JStr ''info''] ''/api/v1/system/info'' True (StaleFor 30000))\<lparr>q_poll := Some 30000\<rparr>"

end
