(* ===== verification/PageKit.thy ===== *)
theory PageKit
  imports ApiHooks
begin

text \<open>
  A JavaScript \<open>Set\<close> as the code uses it: the list of its elements in the order of their insertion.
  Also \<open>Math.round\<close> of a percentage, and the first element found by a test.
\<close>

definition js_set :: "'a list \<Rightarrow> 'a list" where
  "js_set xs = rev (remdups (rev xs))"

definition set_add :: "'a \<Rightarrow> 'a list \<Rightarrow> 'a list" where
  "set_add x s = (if x \<in> set s then s else s @ [x])"

definition set_delete :: "'a \<Rightarrow> 'a list \<Rightarrow> 'a list" where
  "set_delete x s = filter (\<lambda>y. y \<noteq> x) s"

text \<open>\<open>if (next.has(x)) next.delete(x); else next.add(x)\<close>.\<close>

definition set_toggle :: "'a \<Rightarrow> 'a list \<Rightarrow> 'a list" where
  "set_toggle x s = (if x \<in> set s then set_delete x s else set_add x s)"

lemma js_set_facts [simp]: "set (js_set xs) = set xs" "distinct (js_set xs)"
  by (simp_all add: js_set_def)

lemma js_set_id [simp]: "distinct xs \<Longrightarrow> js_set xs = xs"
  by (simp add: js_set_def distinct_remdups_id)

lemma set_of_set_ops [simp]:
  "set (set_add x s) = insert x (set s)" "set (set_delete x s) = set s - {x}"
  "set (set_toggle x s) = (if x \<in> set s then set s - {x} else insert x (set s))"
  by (auto simp: set_add_def set_delete_def set_toggle_def)

lemma distinct_set_ops [simp]:
  assumes "distinct s"
  shows "distinct (set_add x s)" "distinct (set_delete x s)" "distinct (set_toggle x s)"
  using assms by (auto simp: set_add_def set_delete_def set_toggle_def)

lemma toggle_twice: "set (set_toggle x (set_toggle x s)) = set s"
  by auto

text \<open>\<open>Math.round((a / b) * 100)\<close> for \<open>b > 0\<close>, over exact fractions.\<close>

definition percent :: "nat \<Rightarrow> nat \<Rightarrow> nat" where
  "percent a b = (200 * a + b) div (2 * b)"

lemma percent_bounds:
  assumes "a \<le> b" and "0 < b"
  shows "percent a b \<le> 100"
proof -
  have "200 * a + b \<le> 100 * (2 * b) + b" using assms by simp
  then have "percent a b \<le> (100 * (2 * b) + b) div (2 * b)" unfolding percent_def by (rule div_le_mono)
  also have "\<dots> = 100" using assms(2) by simp
  finally show ?thesis .
qed

lemma percent_full: "0 < b \<Longrightarrow> percent b b = 100"
  by (simp add: percent_def)

lemma percent_mono: "a \<le> a' \<Longrightarrow> percent a b \<le> percent a' b"
  by (simp add: percent_def div_le_mono)

definition find_first :: "('a \<Rightarrow> bool) \<Rightarrow> 'a list \<Rightarrow> 'a option" where
  "find_first P xs = (case filter P xs of [] \<Rightarrow> None | x # _ \<Rightarrow> Some x)"

lemma find_first_Some: "find_first P xs = Some x \<Longrightarrow> x \<in> set xs \<and> P x"
  by (auto simp: find_first_def split: list.splits dest!: arg_cong [where f = set])

lemma find_first_None: "find_first P xs = None \<longleftrightarrow> (\<forall>x\<in>set xs. \<not> P x)"
  by (cases "filter P xs") (auto simp: find_first_def filter_empty_conv filter_eq_Cons_iff)

section \<open>Pages\<close>

text \<open>
  What the pages share: the data of a query as a component sees it, running a mutation with what the
  component does on success and on failure, and pages as machines whose steps send requests.
\<close>

text \<open>\<open>isLoading\<close>, \<open>isError\<close> (or no data), \<open>data\<close>.\<close>

datatype 'a query_data = Loading | Failed | Loaded 'a

fun data_or :: "'a \<Rightarrow> 'a query_data \<Rightarrow> 'a" where
  "data_or d (Loaded x) = x"
| "data_or d _ = d"

text \<open>\<open>mutate(vars, { onSuccess, onError })\<close> and \<open>try { await mutateAsync(vars); \<dots> } catch { \<dots> }\<close>.\<close>

definition submit ::
    "'w net \<Rightarrow> mutation_hook \<Rightarrow> (json \<Rightarrow> 'p \<Rightarrow> 'p) \<Rightarrow> (js_error \<Rightarrow> 'p \<Rightarrow> 'p) \<Rightarrow> 'p \<times> 'w web_env \<Rightarrow> 'p \<times> 'w web_env" where
  "submit net h onSuccess onError s =
     (case run_mutation net h (snd s) of
        (Inl e, _, env) \<Rightarrow> (onError e (fst s), env)
      | (Inr body, _, env) \<Rightarrow> (onSuccess (nullish body JNull) (fst s), env))"

lemma submit_cases:
  obtains (ok) b env where "submit net h f g s = (f (nullish b JNull) (fst s), env)" "fst (run_mutation net h (snd s)) = Inr b"
  | (failed) e env where "submit net h f g s = (g e (fst s), env)" "fst (run_mutation net h (snd s)) = Inl e"
proof (cases "run_mutation net h (snd s)")
  case (fields r keys env)
  then show thesis using that by (cases r) (auto simp: submit_def)
qed

lemma submit_keeps:
  assumes "\<And>b. P (f b (fst s))" and "\<And>e. P (g e (fst s))"
  shows "P (fst (submit net h f g s))"
  by (rule submit_cases [of net h f g s]) (use assms in auto)

text \<open>\<open>await\<close> after \<open>await\<close>: requests one after the other, up to the first that fails.\<close>

fun run_all :: "'w net \<Rightarrow> mutation_hook list \<Rightarrow> 'w web_env \<Rightarrow> (js_error + unit) \<times> 'w web_env" where
  "run_all net [] env = (Inr (), env)"
| "run_all net (h # hs) env =
     (case run_mutation net h env of
        (Inl e, _, env1) \<Rightarrow> (Inl e, env1)
      | (Inr _, _, env1) \<Rightarrow> run_all net hs env1)"

lemma run_all_append:
  "run_all net (hs @ hs') env =
     (case run_all net hs env of (Inl e, env1) \<Rightarrow> (Inl e, env1) | (Inr _, env1) \<Rightarrow> run_all net hs' env1)"
  by (induction hs arbitrary: env) (auto split: prod.splits sum.splits)

text \<open>When all went well each of them succeeded where those before it had left off.\<close>

lemma run_all_each:
  assumes "fst (run_all net hs env) = Inr ()" and "i < length hs"
  shows "\<exists>v. fst (run_mutation net (hs ! i) (snd (run_all net (take i hs) env))) = Inr v"
  using assms
proof (induction hs arbitrary: env i)
  case (Cons h hs)
  then obtain v ks env1 where h: "run_mutation net h env = (Inr v, ks, env1)" "fst (run_all net hs env1) = Inr ()"
    by (auto split: prod.splits sum.splits)
  then show ?case using Cons.IH [OF h(2)] Cons.prems(2) by (cases i) auto
qed simp

text \<open>A network that does not answer fails every mutation.\<close>

lemma unanswered_mutation:
  assumes "\<And>rq. fst (net rq (we_world env)) = NetworkFailure m"
  shows "\<exists>e. fst (run_mutation net h env) = Inl e"
proof -
  let ?rq = "build_request (getAccessToken (we_tokens env)) (m_path h) (m_options h)"
  obtain env1 where f: "do_fetch net ?rq env = (NetworkFailure m, env1)"
    using assms [of ?rq] by (cases "net ?rq (we_world env)") (simp add: do_fetch_def)
  have r: "read_response (NetworkFailure m) = Inl (ApiErr (network_error m))" by (simp add: read_response_def)
  have "apiFetch net (m_path h) (m_options h) env = (read_response (NetworkFailure m), env1)"
    by (rule apiFetch_single [OF _ f]) (simp add: r del: isAccessTokenExpired.simps)
  with r show ?thesis by (simp add: run_mutation_def)
qed

subsection \<open>Pages whose steps send requests\<close>

fun sent_by :: "('s \<Rightarrow> 'e \<Rightarrow> 's) \<Rightarrow> ('s \<Rightarrow> 'e \<Rightarrow> 'm list) \<Rightarrow> 's \<Rightarrow> 'e list \<Rightarrow> 'm list" where
  "sent_by step sends s [] = []"
| "sent_by step sends s (e # es) = sends s e @ sent_by step sends (step s e) es"

lemma sent_by_append:
  "sent_by step sends s (es @ es') = sent_by step sends s es @ sent_by step sends (foldl step s es) es'"
  by (induction es arbitrary: s) simp_all

locale sending_page = machine can step inv
  for can :: "'s \<Rightarrow> 'e \<Rightarrow> bool" and step :: "'s \<Rightarrow> 'e \<Rightarrow> 's" and inv :: "'s \<Rightarrow> bool" +
  fixes sends :: "'s \<Rightarrow> 'e \<Rightarrow> 'm list" and ok :: "'m \<Rightarrow> bool"
  assumes sends_ok: "inv s \<Longrightarrow> can s e \<Longrightarrow> m \<in> set (sends s e) \<Longrightarrow> ok m"
begin

lemma run_sends_ok: "inv s \<Longrightarrow> possible_run can step s es \<Longrightarrow> m \<in> set (sent_by step sends s es) \<Longrightarrow> ok m"
proof (induction es arbitrary: s)
  case Nil
  then show ?case by simp
next
  case (Cons e es)
  from Cons.prems have "inv (step s e)" by (simp add: step_keeps)
  with Cons show ?case by (auto dest: sends_ok)
qed

end

subsection \<open>Pages that do what another page does\<close>

text \<open>Every event of a page is a run of another one: a page refined by \<open>abs\<close> with the events \<open>tr\<close>.\<close>

locale page_refinement =
  fixes can :: "'s \<Rightarrow> 'e \<Rightarrow> bool" and step :: "'s \<Rightarrow> 'e \<Rightarrow> 's" and sends :: "'s \<Rightarrow> 'e \<Rightarrow> 'm list"
    and can' :: "'t \<Rightarrow> 'f \<Rightarrow> bool" and step' :: "'t \<Rightarrow> 'f \<Rightarrow> 't" and sends' :: "'t \<Rightarrow> 'f \<Rightarrow> 'm list"
    and abs :: "'s \<Rightarrow> 't" and tr :: "'e \<Rightarrow> 'f list"
  assumes can_tr: "can s e \<Longrightarrow> possible_run can' step' (abs s) (tr e)"
    and step_tr: "can s e \<Longrightarrow> foldl step' (abs s) (tr e) = abs (step s e)"
    and sends_tr: "can s e \<Longrightarrow> sent_by step' sends' (abs s) (tr e) = sends s e"
begin

lemma run_tr:
  "possible_run can step s es \<Longrightarrow>
     possible_run can' step' (abs s) (concat (map tr es))
     \<and> foldl step' (abs s) (concat (map tr es)) = abs (foldl step s es)
     \<and> sent_by step' sends' (abs s) (concat (map tr es)) = sent_by step sends s es"
  by (induction es arbitrary: s) (simp_all add: possible_run_append sent_by_append can_tr step_tr sends_tr)

end

end
