(* ===== verification/TextFacts.thy ===== *)
theory TextFacts
  imports JsText Utf8
begin

text \<open>
  \<open>trim\<close> on well-formed text: it removes whole code points, so what it leaves is well-formed text
  again, and a byte order mark in front, which \<open>TextDecoder\<close> would drop, is among what it removes.
\<close>

definition continuation :: "nat \<Rightarrow> bool" where
  "continuation b \<longleftrightarrow> 0x80 \<le> b \<and> b < 0xC0"

definition sequence_length :: "nat \<Rightarrow> nat" where
  "sequence_length b = (if b < 0x80 then 1 else if b < 0xE0 then 2 else if b < 0xF0 then 3 else 4)"

lemma utf8_char_shape:
  assumes "is_scalar c"
  obtains h t where "utf8_char c = h # t" "\<not> continuation h" "\<forall>b\<in>set t. continuation b"
    "length (utf8_char c) = sequence_length h"
proof -
  consider (one) "c < 0x80" | (two) "0x80 \<le> c" "c < 0x800" | (three) "0x800 \<le> c" "c < 0x10000"
    | (four) "0x10000 \<le> c" "c < 0x110000"
    using assms by (fastforce simp: is_scalar_def)
  moreover have m: "(x :: nat) mod 64 < 64" for x by simp
  ultimately show thesis
  proof cases
    case one
    then show thesis by - (rule that [of c "[]"]; simp add: utf8_char_def continuation_def sequence_length_def m)
  next
    case two
    then have "c div 64 < 32" by linarith
    with two show thesis
      by - (rule that [of "0xC0 + c div 64" "[0x80 + c mod 64]"]; simp add: utf8_char_def continuation_def sequence_length_def m)
  next
    case three
    then have "c div 4096 < 16" by linarith
    with three show thesis
      by - (rule that [of "0xE0 + c div 4096" "[0x80 + c div 64 mod 64, 0x80 + c mod 64]"]; simp add: utf8_char_def continuation_def sequence_length_def m)
  next
    case four
    then show thesis
      by - (rule that [of "0xF0 + c div 262144" "[0x80 + c div 4096 mod 64, 0x80 + c div 64 mod 64, 0x80 + c mod 64]"]; simp add: utf8_char_def continuation_def sequence_length_def m)
  qed
qed

text \<open>No encoding is a proper prefix of another, and the last one of a text is where it ends.\<close>

lemma utf8_prefix_free:
  assumes "is_scalar c" and "is_scalar k" and "utf8_char c @ u = utf8_char k @ v"
  shows "utf8_char c = utf8_char k \<and> u = v"
proof -
  obtain h t where c: "utf8_char c = h # t" "length (utf8_char c) = sequence_length h"
    using utf8_char_shape [OF assms(1)] by metis
  obtain h' t' where k: "utf8_char k = h' # t'" "length (utf8_char k) = sequence_length h'"
    using utf8_char_shape [OF assms(2)] by metis
  from assms(3) c(1) k(1) have "h = h'" by simp
  with c(2) k(2) have "length (utf8_char c) = length (utf8_char k)" by simp
  with assms(3) show ?thesis by simp
qed

lemma last_sequence:
  assumes "x @ h # t = y @ h' # t'" and "\<not> continuation h" "\<not> continuation h'"
    and "\<forall>b\<in>set t. continuation b" "\<forall>b\<in>set t'. continuation b"
  shows "x = y \<and> h # t = h' # t'"
proof -
  from assms(1) have r: "rev t @ h # rev x = rev t' @ h' # rev y"
    by (metis append.assoc append_Cons append_Nil rev.simps(2) rev_append)
  have "rev t = takeWhile continuation (rev t @ h # rev x)" using assms(2,4) by (simp add: takeWhile_append)
  moreover have "rev t' = takeWhile continuation (rev t' @ h' # rev y)" using assms(3,5) by (simp add: takeWhile_append)
  ultimately have "rev t = rev t'" using r by simp
  with r show ?thesis by simp
qed

lemma utf8_suffix_free:
  assumes "is_scalar c" and "is_scalar k" and "u @ utf8_char c = v @ utf8_char k"
  shows "utf8_char c = utf8_char k \<and> u = v"
proof -
  obtain h t where c: "utf8_char c = h # t" "\<not> continuation h" "\<forall>b\<in>set t. continuation b"
    using utf8_char_shape [OF assms(1)] by metis
  obtain h' t' where k: "utf8_char k = h' # t'" "\<not> continuation h'" "\<forall>b\<in>set t'. continuation b"
    using utf8_char_shape [OF assms(2)] by metis
  show ?thesis using last_sequence [of u h t v h' t'] assms(3) c k by simp
qed

lemma char_bytes_inj:
  assumes "\<forall>b\<in>set xs. b < 256" and "\<forall>b\<in>set ys. b < 256" and "map char_of xs = (map char_of ys :: string)"
  shows "xs = (ys :: nat list)"
proof -
  have code: "map of_char (map char_of zs :: string) = zs" if "\<forall>b\<in>set zs. b < 256" for zs :: "nat list"
    using that by (induction zs) (simp_all add: of_char_of)
  show ?thesis using code [OF assms(1)] code [OF assms(2)] assms(3) by metis
qed

lemma utf8_text_append [simp]: "utf8_text (xs @ ys) = utf8_text xs @ utf8_text ys"
  by (simp add: utf8_text_def)

lemma utf8_text_Nil [simp]: "utf8_text [] = []"
  by (simp add: utf8_text_def)

lemma utf8_text_Cons: "utf8_text (c # cs) = utf8_text [c] @ utf8_text cs"
  by (simp add: utf8_text_def)

lemma utf8_text_bound: "\<forall>c\<in>set cs. is_scalar c \<Longrightarrow> \<forall>b\<in>set (concat (map utf8_char cs)). b < 256"
  using utf8_char_bytes by auto

text \<open>A text that starts or ends with an encoded character has that character there.\<close>

lemma text_prefix:
  assumes "\<forall>c\<in>set cs. is_scalar c" and "is_scalar k" and "utf8_text cs = utf8_text [k] @ v"
  shows "\<exists>cs'. cs \<noteq> [] \<and> cs' = tl cs \<and> v = utf8_text cs'"
proof (cases cs)
  case Nil
  with assms(3) utf8_char_nonempty [of k] show ?thesis by (simp add: utf8_text_def)
next
  case (Cons c cs')
  define n :: "nat list" where "n = map of_char v"
  have v: "v = map char_of n" by (simp add: n_def comp_def)
  have "\<forall>b\<in>set n. b < 256" by (auto simp: n_def of_char_def intro: less_le_trans [OF horner_sum_of_bool_2_less])
  then have "\<forall>b\<in>set (utf8_char k @ n). b < 256" using utf8_char_bytes [OF assms(2)] by auto
  moreover have "map char_of (concat (map utf8_char cs)) = (map char_of (utf8_char k @ n) :: string)"
    using assms(3) v by (simp add: utf8_text_def)
  ultimately have "utf8_char c @ concat (map utf8_char cs') = utf8_char k @ n"
    using char_bytes_inj [OF utf8_text_bound [OF assms(1)]] Cons by (metis concat.simps(2) list.simps(9))
  moreover have "is_scalar c" using assms(1) Cons by simp
  ultimately have "n = concat (map utf8_char cs')" using utf8_prefix_free [OF _ assms(2)] by metis
  with v Cons show ?thesis by (simp add: utf8_text_def)
qed

lemma text_suffix:
  assumes "\<forall>c\<in>set cs. is_scalar c" and "is_scalar k" and "utf8_text cs = v @ utf8_text [k]"
  shows "\<exists>cs'. cs \<noteq> [] \<and> cs' = butlast cs \<and> v = utf8_text cs'"
proof (cases cs rule: rev_cases)
  case Nil
  with assms(3) utf8_char_nonempty [of k] show ?thesis by (simp add: utf8_text_def)
next
  case (snoc cs' c)
  define n :: "nat list" where "n = map of_char v"
  have v: "v = map char_of n" by (simp add: n_def comp_def)
  have "\<forall>b\<in>set n. b < 256" by (auto simp: n_def of_char_def intro: less_le_trans [OF horner_sum_of_bool_2_less])
  then have "\<forall>b\<in>set (n @ utf8_char k). b < 256" using utf8_char_bytes [OF assms(2)] by auto
  moreover have "map char_of (concat (map utf8_char cs)) = (map char_of (n @ utf8_char k) :: string)"
    using assms(3) v by (simp add: utf8_text_def)
  ultimately have "concat (map utf8_char cs) = n @ utf8_char k"
    using char_bytes_inj [OF utf8_text_bound [OF assms(1)]] by blast
  then have "concat (map utf8_char cs') @ utf8_char c = n @ utf8_char k" using snoc by simp
  moreover have "is_scalar c" using assms(1) snoc by simp
  ultimately have "n = concat (map utf8_char cs')" using utf8_suffix_free [OF _ assms(2)] by metis
  with v snoc show ?thesis by (simp add: utf8_text_def)
qed

subsection \<open>White space\<close>

lemma white_space_list: "white_space = [[CHR 0x09], [CHR 0x0A], [CHR 0x0B], [CHR 0x0C], [CHR 0x0D], [CHR 0x20], [CHR 0xC2, CHR 0xA0],
  [CHR 0xE1, CHR 0x9A, CHR 0x80], [CHR 0xE2, CHR 0x80, CHR 0x80], [CHR 0xE2, CHR 0x80, CHR 0x81], [CHR 0xE2, CHR 0x80, CHR 0x82],
  [CHR 0xE2, CHR 0x80, CHR 0x83], [CHR 0xE2, CHR 0x80, CHR 0x84], [CHR 0xE2, CHR 0x80, CHR 0x85], [CHR 0xE2, CHR 0x80, CHR 0x86],
  [CHR 0xE2, CHR 0x80, CHR 0x87], [CHR 0xE2, CHR 0x80, CHR 0x88], [CHR 0xE2, CHR 0x80, CHR 0x89], [CHR 0xE2, CHR 0x80, CHR 0x8A],
  [CHR 0xE2, CHR 0x80, CHR 0xA8], [CHR 0xE2, CHR 0x80, CHR 0xA9], [CHR 0xE2, CHR 0x80, CHR 0xAF], [CHR 0xE2, CHR 0x81, CHR 0x9F],
  [CHR 0xE3, CHR 0x80, CHR 0x80], [CHR 0xEF, CHR 0xBB, CHR 0xBF]]"
  by (simp add: white_space_def char_of_def bit_simps)
text \<open>For evaluating \<open>trim\<close> on a literal.\<close>

lemmas trim_eval = trim_def trimStart_def trimEnd_def white_space_list

definition white_points :: "nat list" where
  "white_points = [9, 10, 11, 12, 13, 32, 0xA0, 0x1680, 0x2000, 0x2001, 0x2002, 0x2003, 0x2004, 0x2005,
     0x2006, 0x2007, 0x2008, 0x2009, 0x200A, 0x2028, 0x2029, 0x202F, 0x205F, 0x3000, 0xFEFF]"

lemma white_space_points: "white_space = map (\<lambda>k. utf8_text [k]) white_points"
  by (simp add: white_space_def white_points_def utf8_text_def utf8_char_def char_of_def bit_simps)

lemma white_points_scalar: "k \<in> set white_points \<Longrightarrow> is_scalar k"
  by (auto simp: white_points_def is_scalar_def)

lemma strip_text:
  "\<forall>c\<in>set cs. is_scalar c \<Longrightarrow> \<exists>cs' p. cs = p @ cs' \<and> strip_prefixes n white_space (utf8_text cs) = utf8_text cs'"
proof (induction n arbitrary: cs)
  case 0
  then show ?case by auto
next
  case (Suc n)
  show ?case
  proof (cases "find (\<lambda>w. w \<noteq> [] \<and> take (length w) (utf8_text cs) = w) white_space")
    case None
    then show ?thesis by simp (metis append_Nil append_Nil2)
  next
    case (Some w)
    then have "w \<in> set white_space" and t: "take (length w) (utf8_text cs) = w" by (auto simp: find_Some_iff)
    then obtain k where k: "k \<in> set white_points" "w = utf8_text [k]" by (auto simp: white_space_points)
    have "utf8_text cs = utf8_text [k] @ drop (length w) (utf8_text cs)" using t k(2) by (metis append_take_drop_id)
    from text_prefix [OF Suc.prems white_points_scalar [OF k(1)] this]
    have d: "cs \<noteq> []" "drop (length w) (utf8_text cs) = utf8_text (tl cs)" by auto
    have "\<forall>c\<in>set (tl cs). is_scalar c" using Suc.prems by (meson list.set_sel(2) d(1))
    from Suc.IH [OF this] obtain cs' p where "tl cs = p @ cs'"
      "strip_prefixes n white_space (utf8_text (tl cs)) = utf8_text cs'" by blast
    with d Some show ?thesis by - (rule exI [of _ cs'], rule exI [of _ "hd cs # p"], cases cs; simp)
  qed
qed

lemma strip_text_end:
  "\<forall>c\<in>set cs. is_scalar c \<Longrightarrow>
     \<exists>cs' q. cs = cs' @ q \<and> strip_prefixes n (map rev white_space) (rev (utf8_text cs)) = rev (utf8_text cs')"
proof (induction n arbitrary: cs)
  case 0
  then show ?case by auto
next
  case (Suc n)
  show ?case
  proof (cases "find (\<lambda>w. w \<noteq> [] \<and> take (length w) (rev (utf8_text cs)) = w) (map rev white_space)")
    case None
    then show ?thesis by simp (metis append_Nil append_Nil2)
  next
    case (Some w)
    then have "w \<in> set (map rev white_space)" and t: "take (length w) (rev (utf8_text cs)) = w" by (auto simp: find_Some_iff)
    then obtain k where k: "k \<in> set white_points" "w = rev (utf8_text [k])" by (auto simp: white_space_points)
    have "rev (utf8_text cs) = w @ drop (length w) (rev (utf8_text cs))" using t by (metis append_take_drop_id)
    then have "utf8_text cs = rev (drop (length w) (rev (utf8_text cs))) @ utf8_text [k]"
      using k(2) by (metis rev_append rev_rev_ident)
    from text_suffix [OF Suc.prems white_points_scalar [OF k(1)] this]
    have d: "cs \<noteq> []" "drop (length w) (rev (utf8_text cs)) = rev (utf8_text (butlast cs))" by (auto simp: rev_swap)
    have "\<forall>c\<in>set (butlast cs). is_scalar c" using Suc.prems by (meson in_set_butlastD)
    from Suc.IH [OF this] obtain cs' q where "butlast cs = cs' @ q"
      "strip_prefixes n (map rev white_space) (rev (utf8_text (butlast cs))) = rev (utf8_text cs')" by blast
    with d Some show ?thesis
      by - (rule exI [of _ cs'], rule exI [of _ "q @ [last cs]"], simp, metis append.assoc append_butlast_last_id)
  qed
qed

lemma trim_text:
  assumes "\<forall>c\<in>set cs. is_scalar c"
  shows "\<exists>cs'. set cs' \<subseteq> set cs \<and> trim (utf8_text cs) = utf8_text cs' \<and> (cs' = [] \<or> hd cs' \<noteq> 0xFEFF)"
proof -
  obtain ds p where d: "cs = p @ ds" "trimStart (utf8_text cs) = utf8_text ds"
    using strip_text [OF assms] unfolding trimStart_def by blast
  then have sd: "\<forall>c\<in>set ds. is_scalar c" using assms by auto
  obtain cs' q where c: "ds = cs' @ q" "trimEnd (utf8_text ds) = utf8_text cs'"
    using strip_text_end [OF sd] unfolding trimEnd_def by (metis length_rev rev_rev_ident)
  have "hd cs' \<noteq> 0xFEFF" if "cs' \<noteq> []"
  proof
    assume "hd cs' = 0xFEFF"
    with that c(1) have "utf8_text ds = utf8_text [0xFEFF] @ utf8_text (tl cs' @ q)"
      by (metis append_Cons list.collapse utf8_text_Cons)
    then have "take (length (utf8_text [0xFEFF])) (trimStart (utf8_text cs)) = utf8_text [0xFEFF]" by (simp add: d(2))
    moreover have "utf8_text [0xFEFF] \<in> set white_space" by (simp add: white_space_points white_points_def)
    moreover have "utf8_text [0xFEFF] \<noteq> []" by (simp add: utf8_text_def utf8_char_def)
    ultimately show False using trimStart_done by blast
  qed
  with c d have "set cs' \<subseteq> set cs" "trim (utf8_text cs) = utf8_text cs'" "cs' = [] \<or> hd cs' \<noteq> 0xFEFF"
    by (auto simp: trim_def)
  then show ?thesis by blast
qed

end
