(* ===== verification/Reports.thy ===== *)
theory Reports
  imports PageKit AdminHooks TextFacts
begin

text \<open>
  The reports of the administration (\<open>pages/admin/reports.tsx\<close>): at most fifty items are chosen from the results of a
  search and sent with the options.
\<close>

record report_item =
  ri_id :: string
  ri_name :: string

record report_options =
  include_k8s_live :: bool
  include_relationships :: bool
  include_field_values :: bool
  report_title :: string

definition DEFAULT_OPTIONS :: report_options where
  "DEFAULT_OPTIONS = \<lparr>include_k8s_live = True, include_relationships = True, include_field_values = False, report_title = []\<rparr>"

text \<open>The text of the query is deferred: it may lag behind what is typed.\<close>

definition useItemSearch :: "string \<Rightarrow> query_hook" where
  "useItemSearch dq = with_query [(''q'', qstr (Some dq))]
     (get_query [JStr ''admin-report-item-search'', JStr dq] ''/api/v1/items/search'' (2 \<le> js_length dq) (StaleFor 30000))"

record reports_page =
  rp_searchQuery :: string
  rp_selected :: "report_item list"
  rp_options :: report_options
  rp_optionsOpen :: bool
  rp_generating :: bool

definition reports_mounted :: reports_page where
  "reports_mounted = \<lparr>rp_searchQuery = [], rp_selected = [], rp_options = DEFAULT_OPTIONS, rp_optionsOpen = True, rp_generating = False\<rparr>"

definition toggleItem :: "report_item \<Rightarrow> report_item list \<Rightarrow> report_item list" where
  "toggleItem item prev =
     (if ri_id item \<in> ri_id ` set prev then filter (\<lambda>i. ri_id i \<noteq> ri_id item) prev
      else if 50 \<le> length prev then prev else prev @ [item])"

definition removeSelected :: "string \<Rightarrow> report_item list \<Rightarrow> report_item list" where
  "removeSelected i prev = filter (\<lambda>x. ri_id x \<noteq> i) prev"

definition default_report_title :: string where "default_report_title = ''IronStock Envanter Raporu''"

definition report_json :: "reports_page \<Rightarrow> json" where
  "report_json p =
     (let opts = rp_options p; title = trim (report_title opts)
      in JObj [(''item_ids'', JArr (map (JStr \<circ> ri_id) (rp_selected p))),
          (''options'', JObj [(''include_k8s_live'', JBool (include_k8s_live opts)), (''include_relationships'', JBool (include_relationships opts)),
             (''include_field_values'', JBool (include_field_values opts)),
             (''report_title'', JStr (if title = [] then default_report_title else title))])])"

datatype report_event = TypeSearch string | ToggleItem report_item | RemoveItem string | FoldOptions
  | TypeTitle string | SetK8s bool | SetRelations bool | SetFields bool | PressGenerate | Generated bool

fun reports_step :: "reports_page \<Rightarrow> report_event \<Rightarrow> reports_page" where
  "reports_step p (TypeSearch s) = p\<lparr>rp_searchQuery := s\<rparr>"
| "reports_step p (ToggleItem i) = p\<lparr>rp_selected := toggleItem i (rp_selected p)\<rparr>"
| "reports_step p (RemoveItem i) = p\<lparr>rp_selected := removeSelected i (rp_selected p)\<rparr>"
| "reports_step p FoldOptions = p\<lparr>rp_optionsOpen := \<not> rp_optionsOpen p\<rparr>"
| "reports_step p (TypeTitle s) = p\<lparr>rp_options := (rp_options p)\<lparr>report_title := s\<rparr>\<rparr>"
| "reports_step p (SetK8s b) = p\<lparr>rp_options := (rp_options p)\<lparr>include_k8s_live := b\<rparr>\<rparr>"
| "reports_step p (SetRelations b) = p\<lparr>rp_options := (rp_options p)\<lparr>include_relationships := b\<rparr>\<rparr>"
| "reports_step p (SetFields b) = p\<lparr>rp_options := (rp_options p)\<lparr>include_field_values := b\<rparr>\<rparr>"
| "reports_step p PressGenerate = (if rp_selected p = [] then p else p\<lparr>rp_generating := True\<rparr>)"
| "reports_step p (Generated ok) = p\<lparr>rp_generating := False\<rparr>"

text \<open>The body of the request that \<open>useGenerateReportMutation\<close> makes.\<close>

fun reports_sends :: "reports_page \<Rightarrow> report_event \<Rightarrow> json list" where
  "reports_sends p PressGenerate = (if rp_selected p = [] then [] else [report_json p])"
| "reports_sends p _ = []"

fun reports_can :: "(string \<Rightarrow> report_item list) \<Rightarrow> reports_page \<Rightarrow> report_event \<Rightarrow> bool" where
  "reports_can found p (ToggleItem i) = (\<exists>q. i \<in> set (found q))"
| "reports_can found p (RemoveItem i) = (i \<in> ri_id ` set (rp_selected p))"
| "reports_can found p PressGenerate = (rp_selected p \<noteq> [] \<and> \<not> rp_generating p)"
| "reports_can found p (Generated ok) = rp_generating p"
| "reports_can found p (TypeSearch s) = True"
| "reports_can found p FoldOptions = True"
| "reports_can found p _ = rp_optionsOpen p"

subsection \<open>Properties\<close>

definition selection_ok :: "report_item list \<Rightarrow> bool" where
  "selection_ok xs = (length xs \<le> 50 \<and> distinct (map ri_id xs))"

lemma toggle_ok: "selection_ok xs \<Longrightarrow> selection_ok (toggleItem i xs)"
  by (auto simp: selection_ok_def toggleItem_def distinct_map_filter intro: le_trans [OF length_filter_le])

lemma remove_ok: "selection_ok xs \<Longrightarrow> selection_ok (removeSelected i xs)"
  by (auto simp: selection_ok_def removeSelected_def distinct_map_filter intro: le_trans [OF length_filter_le])

text \<open>Whether a request names between one and fifty items, none of them twice, and has a title.\<close>

definition sound_report :: "json \<Rightarrow> bool" where
  "sound_report j = (\<exists>ids opts title. j = JObj [(''item_ids'', JArr (map JStr ids)), (''options'', JObj (opts @ [(''report_title'', JStr title)]))]
     \<and> 1 \<le> length ids \<and> length ids \<le> 50 \<and> distinct ids \<and> title \<noteq> [])"

lemma report_sound: "selection_ok (rp_selected p) \<Longrightarrow> rp_selected p \<noteq> [] \<Longrightarrow> sound_report (report_json p)"
  unfolding sound_report_def
  by (rule exI [of _ "map ri_id (rp_selected p)"],
      rule exI [of _ "[(''include_k8s_live'', JBool (include_k8s_live (rp_options p))),
        (''include_relationships'', JBool (include_relationships (rp_options p))),
        (''include_field_values'', JBool (include_field_values (rp_options p)))]"],
      rule exI [of _ "if trim (report_title (rp_options p)) = [] then default_report_title else trim (report_title (rp_options p))"])
     (simp add: report_json_def selection_ok_def default_report_title_def Let_def Suc_le_eq)

interpretation reports: sending_page "reports_can found" reports_step "\<lambda>p. selection_ok (rp_selected p)" reports_sends sound_report for found
proof
  fix p e assume "selection_ok (rp_selected p)" "reports_can found p e"
  then show "selection_ok (rp_selected (reports_step p e))" by (cases e) (simp_all add: toggle_ok remove_ok)
next
  fix p e j assume "selection_ok (rp_selected p)" "reports_can found p e" "j \<in> set (reports_sends p e)"
  then show "sound_report j" by (cases e) (simp_all add: report_sound)
qed

text \<open>Every report that is asked for names between one and fifty items, none of them twice, whatever was chosen and
  taken back before, and has a title even when none was typed.\<close>
theorem reports_are_bounded:
  assumes "possible_run (reports_can found) reports_step reports_mounted es"
    and "j \<in> set (sent_by reports_step reports_sends reports_mounted es)"
  shows "sound_report j"
  by (rule reports.run_sends_ok [OF _ assms]) (simp add: selection_ok_def reports_mounted_def)

theorem reports_are_bounded_witness:
  "sound_report (report_json (foldl reports_step reports_mounted
     [ToggleItem \<lparr>ri_id = ''a'', ri_name = ''db''\<rparr>, TypeTitle ''  '']))"
  by (rule reports_are_bounded [where found = "\<lambda>q. [\<lparr>ri_id = ''a'', ri_name = ''db''\<rparr>]"
        and es = "[ToggleItem \<lparr>ri_id = ''a'', ri_name = ''db''\<rparr>, TypeTitle ''  '', PressGenerate]"])
     (simp_all add: reports_mounted_def toggleItem_def)

end
