(* ===== verification/HookProps.thy ===== *)
theory HookProps
  imports ItemHooks AccountHooks AdminHooks CatalogHooks Reports
begin

text \<open>
  What the hooks promise together: which cached queries a mutation refreshes, and that a failing
  mutation refreshes none. The query library's key match is the parameter \<open>km\<close> with the laws
  \<open>key_match_laws\<close>.
\<close>

subsection \<open>The groups of hooks\<close>

text \<open>The mutations of an item's own data.\<close>

definition item_mutations :: "string \<Rightarrow> string \<Rightarrow> json \<Rightarrow> mutation_hook list" where
  "item_mutations i folderId req =
     [useCreateItemMutation folderId req, useUpdateItemMutation i folderId req, useDeleteItemMutation folderId i,
      useRecordRotationMutation i]"

text \<open>
  The queries that show data of items, by the first part of their key: those under \<open>items\<close> (lists,
  details, search, duplicates, links, suggestions, health, stages), and all others (favourites, the
  graphs, the versions of a field, the catalogue and its search, the portal, the report search).
\<close>

definition item_queries ::
    "string option \<Rightarrow> string option \<Rightarrow> string option \<Rightarrow> string \<Rightarrow> bool \<Rightarrow> string \<Rightarrow> query_hook list" where
  "item_queries folderId q itemId text fuzzy j =
     [useItems folderId q, useItem itemId, useGlobalItemSearch text fuzzy, useItemDuplicatesQuery text itemId,
      useItemLinksQuery j, useSuggestionsQuery j, useItemHealthQuery j, useItemLifecycleStagesQuery itemId,
      useHealthReportQuery (int (length text)) (int (length j))]"

definition other_item_queries ::
    "string option \<Rightarrow> int option \<Rightarrow> string \<Rightarrow> string \<Rightarrow> string option \<Rightarrow> CatalogBrowseParams \<Rightarrow> CatalogFilters \<Rightarrow> query_hook list" where
  "other_item_queries itemId field kind name diagram params filters =
     [useFavoritesQuery, useFavoriteStatusQuery itemId, useFieldVersionsQuery itemId field, useGraphQuery,
      useDiagramGraphQuery diagram, useCatalogBrowseQuery params, useCatalogEntityQuery kind name, useCatalogQuery filters,
      portal_query, useItemSearch name]
     @ (case find_item_query kind name of None \<Rightarrow> [] | Some q \<Rightarrow> [q])"

definition user_mutations :: "string \<Rightarrow> json \<Rightarrow> string \<Rightarrow> bool \<Rightarrow> mutation_hook list" where
  "user_mutations userId input role b =
     [useCreateUserMutation input, useGrantRoleMutation userId input, useRevokeRoleMutation userId role,
      useDisableUserMutation userId, useEnableUserMutation userId, useResetTOTPMutation userId,
      useUpdateTOTPRequirementMutation userId b, useUpdateWebAuthnRequirementMutation userId b,
      useSetBreakGlassMutation userId b]"

lemma run_mutation_keys:
  assumes "run_mutation net h env = (r, ks, env')"
  shows "case r of Inl e \<Rightarrow> ks = [] | Inr v \<Rightarrow> ks = m_invalidates h"
  using assms by (auto simp: run_mutation_def split: prod.splits sum.splits)

lemma item_mutations_invalidate:
  "h \<in> set (item_mutations i folderId req) \<Longrightarrow> key_items_all \<in> set (m_invalidates h)"
  by (auto simp: item_mutations_def useCreateItemMutation_def useUpdateItemMutation_def useDeleteItemMutation_def
      useRecordRotationMutation_def hook_defs)

lemma item_query_keys:
  assumes "q \<in> set (item_queries folderId s itemId text fuzzy j)"
  shows "\<exists>rest. q_key q = key_items_all @ rest"
proof -
  have "\<forall>q\<in>set (item_queries folderId s itemId text fuzzy j). take 1 (q_key q) = key_items_all"
    by (simp add: item_queries_def useItems_def useItem_def useGlobalItemSearch_def useItemDuplicatesQuery_def
        useItemLinksQuery_def useSuggestionsQuery_def useItemHealthQuery_def useItemLifecycleStagesQuery_def
        useHealthReportQuery_def itemLifecycleStagesKey_def explicit_get_def hook_defs key_defs
        item_links_key_def suggestions_key_def Let_def)
  with assms show ?thesis by (metis append_take_drop_id)
qed

lemma other_item_query_keys:
  assumes "q \<in> set (other_item_queries itemId field kind name diagram params filters)"
  shows "\<exists>p rest. q_key q = JStr p # rest \<and> p \<noteq> ''items''"
proof -
  have "\<forall>q\<in>set (other_item_queries itemId field kind name diagram params filters).
      take 1 (q_key q) \<in> (\<lambda>p. [JStr p]) ` {''favorites'', ''favorite-status'', ''field-versions'', ''graph'', ''pipeline-diagrams'',
        ''catalog'', ''catalog-browser'', ''portal-home'', ''admin-report-item-search''}"
    by (cases "decodeURIComponent name") (simp_all add: other_item_queries_def useFavoritesQuery_def useFavoriteStatusQuery_def useFieldVersionsQuery_def
        useGraphQuery_def useDiagramGraphQuery_def useCatalogBrowseQuery_def useCatalogEntityQuery_def useCatalogQuery_def
        portal_query_def useItemSearch_def find_item_query_def favoritesKey_def favoriteStatusKey_def graphKey_def
        diagramGraphKey_def catalogBrowseKey_def explicit_get_def hook_defs key_defs Let_def)
  with assms have "take 1 (q_key q) \<in> (\<lambda>p. [JStr p]) ` {''favorites'', ''favorite-status'', ''field-versions'', ''graph'',
      ''pipeline-diagrams'', ''catalog'', ''catalog-browser'', ''portal-home'', ''admin-report-item-search''}" by blast
  then show ?thesis by (cases "q_key q") auto
qed

text \<open>What the item mutations reach, whatever the query.\<close>

lemma item_mutations_reach:
  assumes "key_match_laws km" and "h \<in> set (item_mutations i folderId req)"
  shows "reached km (m_invalidates h) (JStr p # rest) \<longleftrightarrow> p = ''items''"
proof
  assume "p = ''items''"
  then show "reached km (m_invalidates h) (JStr p # rest)"
    using reached_prefix [OF assms(1) item_mutations_invalidate [OF assms(2)], of rest] by (simp add: key_items_all_def)
next
  assume "reached km (m_invalidates h) (JStr p # rest)"
  then obtain f where f: "f \<in> set (m_invalidates h)" "km f (JStr p # rest)" by (auto simp: reached_def)
  have "0 < length f \<and> f ! 0 = JStr ''items''"
    using f(1) assms(2) by (auto simp: item_mutations_def useCreateItemMutation_def useUpdateItemMutation_def
        useDeleteItemMutation_def useRecordRotationMutation_def hook_defs key_items_all_def key_items_detail_def)
  with key_match_D(1) [OF assms(1) f(2), of 0 "''items''" p] show "p = ''items''" by simp
qed

lemma user_mutations_invalidate:
  "h \<in> set (user_mutations userId input role b) \<Longrightarrow> m_invalidates h = [[JStr ''admin'', JStr ''users'']]"
  by (auto simp: user_mutations_def useCreateUserMutation_def useGrantRoleMutation_def useRevokeRoleMutation_def
      useDisableUserMutation_def useEnableUserMutation_def useResetTOTPMutation_def
      useUpdateTOTPRequirementMutation_def useUpdateWebAuthnRequirementMutation_def useSetBreakGlassMutation_def
      all_user_pages_def hook_defs)

subsection \<open>Properties\<close>

text \<open>
  C18: What is refreshed after an item changes. When creating, updating, deleting or rotating an item
  succeeds, exactly the queries whose key starts with \<open>items\<close> are refreshed, whichever folder, search text or item
  they are for: the lists, the detail, the global search, duplicates, links, suggestions, health and
  stages. The other queries that show items are not: favourites, the graphs, the versions of a field,
  the catalogue with its search, the portal and the report search keep what they have. A batch import
  refreshes nothing at all, a user administration call refreshes every page of the user list, and a call that
  fails refreshes nothing.
\<close>
theorem item_changes_refresh_items_keys_only:
  assumes "key_match_laws km" and "run_mutation net h env = (r, ks, env')"
  shows "(h \<in> set (item_mutations i folderId req) \<longrightarrow>
        (case r of Inl e \<Rightarrow> \<forall>key. \<not> reached km ks key
         | Inr v \<Rightarrow> (\<forall>p rest. reached km ks (JStr p # rest) \<longleftrightarrow> p = ''items'')
           \<and> (\<forall>q\<in>set (item_queries f s itemId text fuzzy j). reached km ks (q_key q))
           \<and> (\<forall>q\<in>set (other_item_queries itemId field kind name diagram params filters). \<not> reached km ks (q_key q))))
    \<and> (h = useBatchImportMutation batch \<longrightarrow> (\<forall>key. \<not> reached km ks key))
    \<and> (h \<in> set (user_mutations userId input role b) \<longrightarrow>
        (case r of Inl e \<Rightarrow> \<forall>key. \<not> reached km ks key
         | Inr v \<Rightarrow> \<forall>limit offset. reached km ks (q_key (useUsers limit offset))))"
proof -
  note ks = run_mutation_keys [OF assms(2)]
  have none: "\<not> reached km [] k" for k by (simp add: reached_def)
  have u: "q_key (useUsers limit offset) = [JStr ''admin'', JStr ''users''] @
      [JObj [(''limit'', JNum limit), (''offset'', JNum offset)]]" for limit offset
    by (simp add: useUsers_def hook_defs key_defs)
  have 1: "case r of Inl e \<Rightarrow> \<forall>key. \<not> reached km ks key
         | Inr v \<Rightarrow> (\<forall>p rest. reached km ks (JStr p # rest) \<longleftrightarrow> p = ''items'')
           \<and> (\<forall>q\<in>set (item_queries f s itemId text fuzzy j). reached km ks (q_key q))
           \<and> (\<forall>q\<in>set (other_item_queries itemId field kind name diagram params filters). \<not> reached km ks (q_key q))"
    if h: "h \<in> set (item_mutations i folderId req)"
  proof (cases r)
    case (Inr v)
    with ks item_mutations_reach [OF assms(1) h]
    have all: "reached km ks (JStr p # rest) \<longleftrightarrow> p = ''items''" for p rest by simp
    moreover have "reached km ks (q_key q)" if qs: "q \<in> set (item_queries f s itemId text fuzzy j)" for q
    proof -
      obtain rest where "q_key q = JStr ''items'' # rest" using item_query_keys [OF qs] by (auto simp: key_items_all_def)
      then show ?thesis by (simp only: all)
    qed
    moreover have "\<not> reached km ks (q_key q)"
      if qs: "q \<in> set (other_item_queries itemId field kind name diagram params filters)" for q
    proof -
      obtain p rest where "q_key q = JStr p # rest" "p \<noteq> ''items''" using other_item_query_keys [OF qs] by blast
      then show ?thesis by (simp only: all not_False_eq_True)
    qed
    ultimately show ?thesis unfolding Inr sum.case by (intro conjI ballI allI)
  qed (use ks none in simp)
  have 2: "case r of Inl e \<Rightarrow> \<forall>key. \<not> reached km ks key
      | Inr v \<Rightarrow> \<forall>limit offset. reached km ks (q_key (useUsers limit offset))"
    if "h \<in> set (user_mutations userId input role b)"
    using ks none reached_prefix [OF assms(1), of "[JStr ''admin'', JStr ''users'']" "m_invalidates h"]
      user_mutations_invalidate [OF that] by (auto simp: u split: sum.splits)
  have 3: "\<not> reached km ks key" if "h = useBatchImportMutation batch" for key
    using ks none that by (auto simp: useBatchImportMutation_def mutation_def split: sum.splits)
  show ?thesis by (intro conjI impI, erule 1, rule allI, erule 3, erule 2)
qed

text \<open>
  Two invalidations miss their target. Requesting or cancelling access invalidates the key
  \<open>[item, id]\<close>, which no query uses: neither the item nor any item list is refreshed. Moving a
  folder refreshes the list of the new parent only: the list it has left keeps showing it.
\<close>
theorem invalidations_that_miss:
  assumes "key_match_laws km" and "q \<in> set (item_queries f s itemId text fuzzy j)"
    and "json_str_field req ''parent_id'' \<noteq> oldParent"
  shows "\<not> reached km (m_invalidates (useCreateAccessRequestMutation x req)) (q_key q)
    \<and> \<not> reached km (m_invalidates (useCancelAccessRequestMutation (Some x) reqId)) (q_key q)
    \<and> \<not> reached km (m_invalidates (useUpdateFolderMutation i req)) (q_key (useChildFolders oldParent e))
    \<and> reached km (m_invalidates (useUpdateFolderMutation i req))
        (q_key (useChildFolders (json_str_field req ''parent_id'') e))
    \<and> reached km (m_invalidates (useUpdateFolderMutation i req)) (q_key (useFolder (Some i)))"
proof -
  obtain rest where k: "q_key q = JStr ''items'' # rest"
    using item_query_keys [OF assms(2)] by (auto simp: key_items_all_def)
  have no: "\<not> km (JStr a # g) (JStr b # g')" if "a \<noteq> b" for a b g g'
    using key_match_D(1) [OF assms(1), of "JStr a # g" "JStr b # g'" 0 a b] that by auto
  have par: "\<not> km (key_folders_byParent a) (key_folders_byParent b)" if "a \<noteq> b" for a b
    using key_match_D(2) [OF assms(1), of "key_folders_byParent a" "key_folders_byParent b" 1 "''parentId''" a b] that
    by (auto simp: key_folders_byParent_def)
  have det: "\<not> km (key_folders_detail i) (key_folders_byParent b)" for b
    using key_match_D(3) [OF assms(1), of "key_folders_detail i" "key_folders_byParent b" 1 i]
    by (auto simp: key_folders_detail_def key_folders_byParent_def)
  have refl: "km f f" for f
    using reached_prefix [OF assms(1), of f "[f]" "[]"] by (simp add: reached_def)
  have c: "q_key (useChildFolders p e) = key_folders_byParent p" "q_key (useFolder (Some i)) = key_folders_detail i" for p
    by (simp_all add: useChildFolders_def useFolder_def hook_defs)
  show ?thesis
    using no par [OF assms(3)] det refl
    by (auto simp: c k reached_def useCreateAccessRequestMutation_def useCancelAccessRequestMutation_def
        useUpdateFolderMutation_def access_requests_key_def mutation_def)
qed

subsection \<open>Concrete runs\<close>

lemma item_changes_refresh_items_keys_only_witness:
  "\<exists>r ks env'. run_mutation scripted (useDeleteItemMutation ''f1'' ''i1'') (demo_env [Response fresh_pair]) = (r, ks, env')
     \<and> (\<exists>v. r = Inr v) \<and> reached prefix_match ks (q_key (useItem (Some ''i1'')))
     \<and> \<not> reached prefix_match ks (q_key useFavoritesQuery)"
proof -
  let ?h = "useDeleteItemMutation ''f1'' ''i1''" and ?env = "demo_env [Response fresh_pair]"
  let ?rq = "build_request (getAccessToken (we_tokens ?env)) (m_path ?h) (m_options ?h)"
  obtain env1 where f: "do_fetch scripted ?rq ?env = (Response fresh_pair, env1)"
    by (simp add: do_fetch_def demo_env_def)
  have ok: "read_response (Response fresh_pair)
      = Inr (Some (JObj [(''access_token'', JStr ''A2''), (''refresh_token'', JStr ''R2'')]))"
    by (simp add: read_response_def fresh_pair_def rs_ok_def)
  then obtain v ks env' where r: "run_mutation scripted ?h ?env = (Inr v, ks, env')"
    using apiFetch_single [OF _ f] by (auto simp: run_mutation_def)
  have h: "?h \<in> set (item_mutations ''i1'' ''f1'' JNull)" by (simp add: item_mutations_def)
  have q: "useItem (Some ''i1'') \<in> set (item_queries None None (Some ''i1'') [] False [])"
    by (simp add: item_queries_def)
  have o: "useFavoritesQuery \<in> set (other_item_queries None None [] [] None params filters)" for params filters
    by (simp add: other_item_queries_def)
  from item_changes_refresh_items_keys_only [OF prefix_match_laws r] h q o
  have "reached prefix_match ks (q_key (useItem (Some ''i1''))) \<and> \<not> reached prefix_match ks (q_key useFavoritesQuery)"
    by fastforce
  with r show ?thesis by blast
qed

lemma invalidations_that_miss_witness:
  "\<not> reached prefix_match (m_invalidates (useCreateAccessRequestMutation ''i1'' JNull)) (q_key (useItem (Some ''i1'')))
   \<and> \<not> reached prefix_match (m_invalidates (useUpdateFolderMutation ''f2'' (JObj [(''parent_id'', JStr ''new'')])))
        (q_key (useChildFolders (Some ''old'') True))"
proof -
  have q: "useItem (Some ''i1'') \<in> set (item_queries None None (Some ''i1'') [] False [])"
    by (simp add: item_queries_def)
  have "json_str_field (JObj [(''parent_id'', JStr ''new'')]) ''parent_id'' \<noteq> Some ''old''"
    by (simp add: json_str_field_def)
  from invalidations_that_miss [OF prefix_match_laws q this] show ?thesis
    by (simp add: useCreateAccessRequestMutation_def mutation_def)
qed

end
