(* ===== verification/Ws.thy ===== *)
theory Ws
  imports ApiHooks
begin

text \<open>
  The realtime event bus: the WebSocket client of the web application (\<open>web/src/api/ws.ts\<close>) and
  its desktop twin (\<open>client/src/api/ws.ts\<close>). A client is a state machine over the events of its
  environment: the ticket request settles, the socket opens, closes or delivers a frame, a timer
  fires, the provider destroys the client. \<open>ws_timers\<close> and \<open>ws_intervals\<close> are the armed timeouts
  and intervals, the most recent first, which is the one the field of the class refers to.
\<close>

subsection \<open>Tickets, URLs and delays\<close>

definition BACKOFF_BASE_MS :: nat where "BACKOFF_BASE_MS = 1000"
definition BACKOFF_MAX_MS :: nat where "BACKOFF_MAX_MS = 30000"

definition backoffDelay :: "nat \<Rightarrow> nat" where
  "backoffDelay attempt = min (BACKOFF_BASE_MS * 2 ^ attempt) BACKOFF_MAX_MS"

definition no_session_message :: string where
  "no_session_message = ''Oturum yok '' @ em_dash @ '' ticket al'' @ tr_i @ ''namad'' @ tr_i"

definition ticket_error :: "nat \<Rightarrow> string" where
  "ticket_error st = ''Ticket endpoint hatas'' @ tr_i @ '': '' @ show_nat st"

text \<open>The ticket, or the message of the error; a body without a ticket gives the text
  \<open>undefined\<close> in the URL.\<close>

definition fetchWsTicket :: "'w net \<Rightarrow> 'w web_env \<Rightarrow> (string + string) \<times> 'w web_env" where
  "fetchWsTicket net env =
     (let token = getAccessToken (we_tokens env)
      in if \<not> truthy token then (Inl no_session_message, env)
         else
           (case do_fetch net \<lparr>rq_url = ''/api/v1/ws/ticket'', rq_method = POST,
                  rq_headers = [(''Authorization'', ''Bearer '' @ the token)], rq_body = None\<rparr> env of
              (NetworkFailure m, env1) \<Rightarrow> (Inl m, env1)
            | (Response res, env1) \<Rightarrow>
                if \<not> rs_ok res then (Inl (ticket_error (rs_status res)), env1)
                else (case rs_json res of
                    None \<Rightarrow> (Inl ''invalid json'', env1)
                  | Some body \<Rightarrow>
                      if body = JNull then (Inl ''null body'', env1)
                      else (Inr (nullish (json_str_field body ''ticket'') ''undefined''), env1))))"

definition buildWsUrl :: "string \<Rightarrow> string \<Rightarrow> string \<Rightarrow> string" where
  "buildWsUrl protocol host ticket =
     (let proto = if protocol = ''https:'' then ''wss:'' else ''ws:''
      in proto @ ''//'' @ host @ ''/api/v1/ws?ticket='' @ encodeURIComponent ticket)"

text \<open>\<open>msg.includes(t)\<close>, and the reason shown for a failed ticket request.\<close>

fun js_includes :: "string \<Rightarrow> string \<Rightarrow> bool" where
  "js_includes [] t = (t = [])"
| "js_includes (c # s) t = (take (length t) (c # s) = t \<or> js_includes s t)"

definition ticket_failure_reason :: "string \<Rightarrow> string" where
  "ticket_failure_reason msg =
     (let ticket = em_dash @ '' ticket al'' @ tr_i @ ''namad'' @ tr_i
      in if js_includes msg ''401'' \<or> js_includes msg ''Oturum'' then ''Oturum ge'' @ tr_c @ ''ersiz '' @ ticket @ '' (401)''
         else if js_includes msg ''404'' then ''Ticket endpoint bulunamad'' @ tr_i @ '' (404)''
         else if js_includes msg ''500'' then ''Sunucu hatas'' @ tr_i @ '' '' @ ticket @ '' (500)''
         else ''A'' @ tr_g @ '' hatas'' @ tr_i @ '' '' @ ticket @ '': '' @ msg)"

definition close_reason :: "nat \<Rightarrow> string \<Rightarrow> string" where
  "close_reason c reason =
     (let closed = ''Ba'' @ tr_g @ ''lant'' @ tr_i
      in if reason \<noteq> [] then closed @ '' kapand'' @ tr_i @ '': '' @ reason @ '' (kod: '' @ show_nat c @ '')''
         else if c = 1006 then closed @ '' anormal '' @ tr_s @ ''ekilde kapand'' @ tr_i @ '' (a'' @ tr_g
             @ '' sorunu olabilir)''
         else if c = 4001 then ''Kimlik do'' @ tr_g @ ''rulama hatas'' @ tr_i @ '' '' @ em_dash @ '' ticket ge'' @ tr_c
             @ ''ersiz veya s'' @ tr_u @ ''resi doldu''
         else if c = 4003 then ''Yetkisiz '' @ em_dash @ '' oturumu yenileyin''
         else closed @ '' kapand'' @ tr_i @ '' (kod: '' @ show_nat c @ '')'')"

subsection \<open>Events from the server\<close>

datatype ws_effect = Invalidate "json list" | BreakGlassAlert string

definition ws_type :: "json \<Rightarrow> string option" where
  "ws_type ev = json_str_field ev ''type''"

definition ws_resource :: "json \<Rightarrow> string" where
  "ws_resource ev = nullish (json_str_field ev ''resource_id'') ''''"

definition item_events :: "string list" where
  "item_events = [''item.created'', ''item.updated'', ''item.deleted'', ''item.shared'', ''item.unshared'',
     ''item.field_updated'']"

definition folder_events :: "string list" where
  "folder_events = [''folder.created'', ''folder.updated'', ''folder.deleted'']"

definition handleEvent :: "json \<Rightarrow> ws_effect list" where
  "handleEvent ev =
     (case ws_type ev of
        None \<Rightarrow> []
      | Some t \<Rightarrow>
          if t \<in> set folder_events then
            [Invalidate key_folders_all, Invalidate (key_folders_detail (ws_resource ev))]
          else if t \<in> set item_events \<or> t = ''item.expiry_warning'' then
            [Invalidate key_items_all, Invalidate (key_items_detail (ws_resource ev))]
          else if t = ''notification.created'' then [Invalidate key_notifications_all]
          else if t = ''auth.break_glass'' then [BreakGlassAlert (ws_resource ev)]
          else [])"

definition cl_handleEvent :: "json \<Rightarrow> ws_effect list" where
  "cl_handleEvent ev =
     (case ws_type ev of
        None \<Rightarrow> []
      | Some t \<Rightarrow>
          if t \<in> set folder_events then
            [Invalidate key_folders_all, Invalidate (key_folders_detail (ws_resource ev))]
          else if t \<in> set item_events then
            [Invalidate key_items_all, Invalidate (key_items_detail (ws_resource ev))]
          else [])"

subsection \<open>The client of the web application\<close>

datatype WsStatus = WsConnecting | WsConnected | WsReconnecting | WsOffline

record WsStatusDetail =
  wd_status :: WsStatus
  wd_errorReason :: "string option"
  wd_attempt :: nat
  wd_nextRetryIn :: "nat option"

datatype socket_state = SockConnecting | SockOpen | SockClosing | SockClosed

record ws_client =
  ws_socket :: "socket_state option"
  ws_attempt :: nat
  ws_timers :: "nat list"
  ws_intervals :: "nat list"
  ws_hasCountdown :: bool
  ws_destroyed :: bool
  ws_listeners :: "nat list"
  ws_detail :: WsStatusDetail
  ws_awaiting :: bool
  ws_calls :: "(nat \<times> WsStatusDetail) list"
  ws_effects :: "ws_effect list"

text \<open>What can happen: \<open>TicketArrives (Some m)\<close> is a ticket with which the socket's constructor
  throws \<open>m\<close>; a frame that is no JSON is \<open>None\<close>.\<close>

datatype ws_event =
    TicketFails string | TicketArrives "string option"
  | SocketOpens | SocketCloses nat string | Frame "json option"
  | RetryFires | CountdownTicks | Destroy | Subscribe nat | Unsubscribe nat

definition setDetail :: "(WsStatusDetail \<Rightarrow> WsStatusDetail) \<Rightarrow> ws_client \<Rightarrow> ws_client" where
  "setDetail f c = (let d = f (ws_detail c)
     in c\<lparr>ws_detail := d, ws_calls := ws_calls c @ map (\<lambda>l. (l, d)) (ws_listeners c)\<rparr>)"

definition clearCountdown :: "ws_client \<Rightarrow> ws_client" where
  "clearCountdown c =
     (if ws_hasCountdown c then c\<lparr>ws_intervals := tl (ws_intervals c), ws_hasCountdown := False\<rparr> else c)"

definition scheduleReconnect :: "string \<Rightarrow> ws_client \<Rightarrow> ws_client" where
  "scheduleReconnect reason c =
     (if ws_destroyed c then c
      else
        (let delay = backoffDelay (ws_attempt c);
             nextRetryIn = (delay + 500) div 1000;
             attempt = ws_attempt c + 1;
             c1 = setDetail (\<lambda>d. d\<lparr>wd_status := WsReconnecting, wd_errorReason := Some reason,
                    wd_nextRetryIn := Some nextRetryIn, wd_attempt := attempt\<rparr>) (c\<lparr>ws_attempt := attempt\<rparr>)
         in c1\<lparr>ws_intervals := nextRetryIn # ws_intervals c1, ws_hasCountdown := True,
               ws_timers := delay # ws_timers c1\<rparr>))"

text \<open>\<open>connect\<close> up to the await on the ticket, and what follows it.\<close>

definition ws_connect :: "ws_client \<Rightarrow> ws_client" where
  "ws_connect c =
     (if ws_destroyed c then c
      else
        (let c1 = clearCountdown c
         in (setDetail (\<lambda>d. d\<lparr>wd_status := (if ws_attempt c = 0 then WsConnecting else WsReconnecting),
               wd_nextRetryIn := None, wd_attempt := ws_attempt c\<rparr>) c1)\<lparr>ws_awaiting := True\<rparr>))"

definition ticket_failed :: "string \<Rightarrow> ws_client \<Rightarrow> ws_client" where
  "ticket_failed msg c = scheduleReconnect (ticket_failure_reason msg) (c\<lparr>ws_awaiting := False\<rparr>)"

definition ticket_arrived :: "string option \<Rightarrow> ws_client \<Rightarrow> ws_client" where
  "ticket_arrived thrown c =
     (let c1 = c\<lparr>ws_awaiting := False\<rparr>
      in if ws_destroyed c1 then c1
         else case thrown of
             None \<Rightarrow> c1\<lparr>ws_socket := Some SockConnecting\<rparr>
           | Some m \<Rightarrow> scheduleReconnect (''WebSocket a'' @ tr_c @ tr_i @ ''lamad'' @ tr_i @ '': '' @ m) c1)"

definition ws_onopen :: "ws_client \<Rightarrow> ws_client" where
  "ws_onopen c =
     setDetail (\<lambda>d. d\<lparr>wd_status := WsConnected, wd_errorReason := None, wd_nextRetryIn := None, wd_attempt := 0\<rparr>)
       (clearCountdown (c\<lparr>ws_attempt := 0\<rparr>))"

definition ws_onclose :: "nat \<Rightarrow> string \<Rightarrow> ws_client \<Rightarrow> ws_client" where
  "ws_onclose closeCode reason c =
     (if ws_destroyed c then c else scheduleReconnect (close_reason closeCode reason) c)"

definition ws_onmessage :: "json option \<Rightarrow> ws_client \<Rightarrow> ws_client" where
  "ws_onmessage data c = (case data of None \<Rightarrow> c | Some ev \<Rightarrow> c\<lparr>ws_effects := ws_effects c @ handleEvent ev\<rparr>)"

definition countdown_tick :: "ws_client \<Rightarrow> ws_client" where
  "countdown_tick c =
     (let remaining = hd (ws_intervals c) - 1
      in if remaining \<le> 0 then clearCountdown c
         else setDetail (\<lambda>d. d\<lparr>wd_nextRetryIn := Some remaining\<rparr>)
                (c\<lparr>ws_intervals := remaining # tl (ws_intervals c)\<rparr>))"

definition ws_destroy :: "ws_client \<Rightarrow> ws_client" where
  "ws_destroy c =
     (let c1 = clearCountdown (c\<lparr>ws_destroyed := True\<rparr>);
          c2 = c1\<lparr>ws_timers := tl (ws_timers c1),
                 ws_socket := (case ws_socket c1 of
                     Some SockConnecting \<Rightarrow> Some SockClosing | Some SockOpen \<Rightarrow> Some SockClosing | s \<Rightarrow> s)\<rparr>
      in (setDetail (\<lambda>d. d\<lparr>wd_status := WsOffline, wd_nextRetryIn := None\<rparr>) c2)\<lparr>ws_listeners := []\<rparr>)"

definition onStatus :: "nat \<Rightarrow> ws_client \<Rightarrow> ws_client" where
  "onStatus cb c = (if cb \<in> set (ws_listeners c) then c else c\<lparr>ws_listeners := ws_listeners c @ [cb]\<rparr>)"

definition new_ws :: ws_client where
  "new_ws = ws_connect \<lparr>ws_socket = None, ws_attempt = 0, ws_timers = [], ws_intervals = [], ws_hasCountdown = False,
     ws_destroyed = False, ws_listeners = [],
     ws_detail = \<lparr>wd_status = WsConnecting, wd_errorReason = None, wd_attempt = 0, wd_nextRetryIn = None\<rparr>,
     ws_awaiting = False, ws_calls = [], ws_effects = []\<rparr>"

fun ws_step :: "ws_client \<Rightarrow> ws_event \<Rightarrow> ws_client" where
  "ws_step c (TicketFails msg) = ticket_failed msg c"
| "ws_step c (TicketArrives thrown) = ticket_arrived thrown c"
| "ws_step c SocketOpens = ws_onopen (c\<lparr>ws_socket := Some SockOpen\<rparr>)"
| "ws_step c (SocketCloses closeCode reason) = ws_onclose closeCode reason (c\<lparr>ws_socket := Some SockClosed\<rparr>)"
| "ws_step c (Frame data) = ws_onmessage data c"
| "ws_step c RetryFires = ws_connect (c\<lparr>ws_timers := tl (ws_timers c)\<rparr>)"
| "ws_step c CountdownTicks = countdown_tick c"
| "ws_step c Destroy = ws_destroy c"
| "ws_step c (Subscribe cb) = onStatus cb c"
| "ws_step c (Unsubscribe cb) = c\<lparr>ws_listeners := filter (\<lambda>x. x \<noteq> cb) (ws_listeners c)\<rparr>"

fun ws_can :: "ws_client \<Rightarrow> ws_event \<Rightarrow> bool" where
  "ws_can c (TicketFails msg) = ws_awaiting c"
| "ws_can c (TicketArrives thrown) = ws_awaiting c"
| "ws_can c SocketOpens = (ws_socket c = Some SockConnecting)"
| "ws_can c (SocketCloses closeCode reason) = (ws_socket c \<notin> {None, Some SockClosed})"
| "ws_can c (Frame data) = (ws_socket c = Some SockOpen)"
| "ws_can c RetryFires = (ws_timers c \<noteq> [])"
| "ws_can c CountdownTicks = (ws_intervals c \<noteq> [])"
| "ws_can c Destroy = True"
| "ws_can c (Subscribe cb) = True"
| "ws_can c (Unsubscribe cb) = True"

subsection \<open>The desktop client\<close>

definition cl_fetchWsTicket :: "string \<Rightarrow> 'w net \<Rightarrow> 'w web_env \<Rightarrow> (string + string) \<times> 'w web_env" where
  "cl_fetchWsTicket base net env =
     (if base = [] then (Inl (''Base URL ayarlanmam'' @ tr_i @ tr_s), env)
      else
        (let token = getAccessToken (we_tokens env)
         in if \<not> truthy token then (Inl no_session_message, env)
            else
              (case do_fetch net \<lparr>rq_url = base @ ''/api/v1/ws/ticket'', rq_method = POST,
                     rq_headers = [(''Authorization'', ''Bearer '' @ the token)], rq_body = None\<rparr> env of
                 (NetworkFailure m, env1) \<Rightarrow> (Inl m, env1)
               | (Response res, env1) \<Rightarrow>
                   if \<not> rs_ok res then (Inl (ticket_error (rs_status res)), env1)
                   else (case rs_json res of
                       None \<Rightarrow> (Inl ''invalid json'', env1)
                     | Some body \<Rightarrow>
                         if body = JNull then (Inl ''null body'', env1)
                         else (Inr (nullish (json_str_field body ''ticket'') ''undefined''), env1)))))"

text \<open>\<open>base.startsWith('https://')\<close> and \<open>base.replace(/^https?:\/\//, '')\<close>.\<close>

definition cl_buildWsUrl :: "string \<Rightarrow> string \<Rightarrow> string" where
  "cl_buildWsUrl base ticket =
     (let wsProto = if take 8 base = ''https://'' then ''wss://'' else ''ws://'';
          withoutProto = if take 8 base = ''https://'' then drop 8 base
            else if take 7 base = ''http://'' then drop 7 base else base
      in wsProto @ withoutProto @ ''/api/v1/ws?ticket='' @ encodeURIComponent ticket)"

record cl_ws_client =
  cw_socket :: "socket_state option"
  cw_attempt :: nat
  cw_timers :: "nat list"
  cw_destroyed :: bool
  cw_listeners :: "nat list"
  cw_status :: WsStatus
  cw_awaiting :: bool
  cw_calls :: "(nat \<times> WsStatus) list"
  cw_effects :: "ws_effect list"

definition cl_setStatus :: "WsStatus \<Rightarrow> cl_ws_client \<Rightarrow> cl_ws_client" where
  "cl_setStatus s c = c\<lparr>cw_status := s, cw_calls := cw_calls c @ map (\<lambda>l. (l, s)) (cw_listeners c)\<rparr>"

definition cl_scheduleReconnect :: "cl_ws_client \<Rightarrow> cl_ws_client" where
  "cl_scheduleReconnect c =
     (if cw_destroyed c then c
      else
        (let c1 = cl_setStatus WsReconnecting c; delay = backoffDelay (cw_attempt c1)
         in c1\<lparr>cw_attempt := cw_attempt c1 + 1, cw_timers := delay # cw_timers c1\<rparr>))"

definition cl_ws_connect :: "cl_ws_client \<Rightarrow> cl_ws_client" where
  "cl_ws_connect c =
     (if cw_destroyed c then c
      else (cl_setStatus (if cw_attempt c = 0 then WsConnecting else WsReconnecting) c)\<lparr>cw_awaiting := True\<rparr>)"

definition cl_ticket_arrived :: "string option \<Rightarrow> cl_ws_client \<Rightarrow> cl_ws_client" where
  "cl_ticket_arrived thrown c =
     (let c1 = c\<lparr>cw_awaiting := False\<rparr>
      in if cw_destroyed c1 then c1
         else case thrown of None \<Rightarrow> c1\<lparr>cw_socket := Some SockConnecting\<rparr> | Some m \<Rightarrow> cl_scheduleReconnect c1)"

definition cl_ws_destroy :: "cl_ws_client \<Rightarrow> cl_ws_client" where
  "cl_ws_destroy c =
     (let c1 = c\<lparr>cw_destroyed := True, cw_timers := tl (cw_timers c),
                 cw_socket := (case cw_socket c of
                     Some SockConnecting \<Rightarrow> Some SockClosing | Some SockOpen \<Rightarrow> Some SockClosing | s \<Rightarrow> s)\<rparr>
      in (cl_setStatus WsOffline c1)\<lparr>cw_listeners := []\<rparr>)"

definition new_cl_ws :: cl_ws_client where
  "new_cl_ws = cl_ws_connect \<lparr>cw_socket = None, cw_attempt = 0, cw_timers = [], cw_destroyed = False,
     cw_listeners = [], cw_status = WsConnecting, cw_awaiting = False, cw_calls = [], cw_effects = []\<rparr>"

text \<open>The desktop client has no countdown; that event does nothing.\<close>

fun cl_ws_step :: "cl_ws_client \<Rightarrow> ws_event \<Rightarrow> cl_ws_client" where
  "cl_ws_step c (TicketFails msg) = cl_scheduleReconnect (c\<lparr>cw_awaiting := False\<rparr>)"
| "cl_ws_step c (TicketArrives thrown) = cl_ticket_arrived thrown c"
| "cl_ws_step c SocketOpens = cl_setStatus WsConnected (c\<lparr>cw_socket := Some SockOpen, cw_attempt := 0\<rparr>)"
| "cl_ws_step c (SocketCloses closeCode reason) =
     (let c1 = c\<lparr>cw_socket := Some SockClosed\<rparr> in if cw_destroyed c1 then c1 else cl_scheduleReconnect c1)"
| "cl_ws_step c (Frame data) =
     (case data of None \<Rightarrow> c | Some ev \<Rightarrow> c\<lparr>cw_effects := cw_effects c @ cl_handleEvent ev\<rparr>)"
| "cl_ws_step c RetryFires = cl_ws_connect (c\<lparr>cw_timers := tl (cw_timers c)\<rparr>)"
| "cl_ws_step c CountdownTicks = c"
| "cl_ws_step c Destroy = cl_ws_destroy c"
| "cl_ws_step c (Subscribe cb) =
     (if cb \<in> set (cw_listeners c) then c else c\<lparr>cw_listeners := cw_listeners c @ [cb]\<rparr>)"
| "cl_ws_step c (Unsubscribe cb) = c\<lparr>cw_listeners := filter (\<lambda>x. x \<noteq> cb) (cw_listeners c)\<rparr>"

fun cl_ws_can :: "cl_ws_client \<Rightarrow> ws_event \<Rightarrow> bool" where
  "cl_ws_can c (TicketFails msg) = cw_awaiting c"
| "cl_ws_can c (TicketArrives thrown) = cw_awaiting c"
| "cl_ws_can c SocketOpens = (cw_socket c = Some SockConnecting)"
| "cl_ws_can c (SocketCloses closeCode reason) = (cw_socket c \<notin> {None, Some SockClosed})"
| "cl_ws_can c (Frame data) = (cw_socket c = Some SockOpen)"
| "cl_ws_can c RetryFires = (cw_timers c \<noteq> [])"
| "cl_ws_can c CountdownTicks = False"
| "cl_ws_can c Destroy = True"
| "cl_ws_can c (Subscribe cb) = True"
| "cl_ws_can c (Unsubscribe cb) = True"

lemmas ws_defs = ticket_failed_def ticket_arrived_def ws_onopen_def ws_onclose_def ws_onmessage_def
  countdown_tick_def ws_destroy_def onStatus_def ws_connect_def scheduleReconnect_def setDetail_def
  clearCountdown_def

lemmas cl_ws_defs = cl_setStatus_def cl_scheduleReconnect_def cl_ws_connect_def cl_ticket_arrived_def
  cl_ws_destroy_def

subsection \<open>The invariant\<close>

definition live :: "socket_state option \<Rightarrow> bool" where
  "live s \<longleftrightarrow> s = Some SockConnecting \<or> s = Some SockOpen"

text \<open>An undestroyed client is doing exactly one thing: awaiting a ticket, holding a live socket
  or waiting for its one timer, armed with the delay of the last attempt. A countdown runs only
  while it waits. A destroyed client has nothing armed.\<close>

definition ws_inv :: "ws_client \<Rightarrow> bool" where
  "ws_inv c \<longleftrightarrow>
     ws_hasCountdown c = (ws_intervals c \<noteq> []) \<and> length (ws_intervals c) \<le> 1
     \<and> (if ws_destroyed c then
          ws_timers c = [] \<and> ws_intervals c = [] \<and> \<not> live (ws_socket c) \<and> wd_status (ws_detail c) = WsOffline
        else
          ws_socket c \<noteq> Some SockClosing
          \<and> (wd_status (ws_detail c) = WsConnected) = (ws_socket c = Some SockOpen)
          \<and> wd_status (ws_detail c) \<noteq> WsOffline
          \<and> (ws_intervals c \<noteq> [] \<longrightarrow> ws_timers c \<noteq> [])
          \<and> (if ws_awaiting c then \<not> live (ws_socket c) \<and> ws_timers c = []
             else if live (ws_socket c) then ws_timers c = []
             else 0 < ws_attempt c \<and> ws_timers c = [backoffDelay (ws_attempt c - 1)])
          \<and> wd_attempt (ws_detail c) = ws_attempt c)"

lemma ws_inv_new: "ws_inv new_ws"
  by (simp add: new_ws_def ws_inv_def ws_defs live_def)

lemma closing_left: "y \<noteq> SockClosed \<Longrightarrow> y \<noteq> SockConnecting \<Longrightarrow> y \<noteq> SockOpen \<Longrightarrow> y = SockClosing"
  by (cases y) auto

lemma ws_inv_step: "ws_inv c \<Longrightarrow> ws_can c e \<Longrightarrow> ws_inv (ws_step c e)"
  by (cases e; cases "ws_destroyed c"; cases "ws_intervals c"; cases "ws_awaiting c"; cases "ws_timers c")
    (auto simp: ws_inv_def ws_defs live_def Let_def split: option.splits socket_state.splits if_splits
      dest: closing_left)

interpretation ws_machine: machine ws_can ws_step ws_inv
  by unfold_locales (rule ws_inv_step)

subsection \<open>Lemmas\<close>

lemma backoff_bounds: "1000 \<le> backoffDelay n" "backoffDelay n \<le> 30000"
proof -
  have "(1::nat) \<le> 2 ^ n" by simp
  then show "1000 \<le> backoffDelay n" by (simp add: backoffDelay_def BACKOFF_BASE_MS_def BACKOFF_MAX_MS_def)
  show "backoffDelay n \<le> 30000" by (simp add: backoffDelay_def BACKOFF_MAX_MS_def)
qed

text \<open>A destroyed client stays silent whatever else happens.\<close>

definition silent_from :: "ws_client \<Rightarrow> ws_client \<Rightarrow> bool" where
  "silent_from c0 c \<longleftrightarrow> ws_destroyed c \<and> ws_calls c = ws_calls c0 \<and> ws_effects c = ws_effects c0
     \<and> ws_detail c = ws_detail c0 \<and> ws_timers c = [] \<and> ws_intervals c = [] \<and> \<not> ws_hasCountdown c
     \<and> \<not> live (ws_socket c)"

lemma silent_step: "silent_from c0 c \<Longrightarrow> ws_can c e \<Longrightarrow> e \<noteq> Destroy \<Longrightarrow> silent_from c0 (ws_step c e)"
  by (cases e) (auto simp: silent_from_def ws_defs live_def split: option.splits)

lemma silent_run:
  "silent_from c0 c \<Longrightarrow> possible_run ws_can ws_step c es \<Longrightarrow> Destroy \<notin> set es \<Longrightarrow> silent_from c0 (foldl ws_step c es)"
proof (induction es arbitrary: c)
  case Nil
  then show ?case by simp
next
  case (Cons e es)
  then have "silent_from c0 (ws_step c e)" by (intro silent_step) auto
  with Cons show ?case by simp
qed

text \<open>The desktop client follows the web client, one step for each but the countdown.\<close>

definition same_client :: "ws_client \<Rightarrow> cl_ws_client \<Rightarrow> bool" where
  "same_client c d \<longleftrightarrow> cw_socket d = ws_socket c \<and> cw_attempt d = ws_attempt c \<and> cw_timers d = ws_timers c
     \<and> cw_destroyed d = ws_destroyed c \<and> cw_listeners d = ws_listeners c
     \<and> cw_status d = wd_status (ws_detail c) \<and> cw_awaiting d = ws_awaiting c"

lemma same_client_step:
  assumes "same_client c d" and "ws_can c e"
  shows "same_client (ws_step c e) (cl_ws_step d e)" "e \<noteq> CountdownTicks \<longrightarrow> cl_ws_can d e"
  using assms by (cases e; auto simp: same_client_def ws_defs cl_ws_defs Let_def split: option.splits)+

lemma same_client_run:
  assumes "same_client c d" and "possible_run ws_can ws_step c es"
  shows "same_client (foldl ws_step c es) (foldl cl_ws_step d (filter (\<lambda>e. e \<noteq> CountdownTicks) es))
    \<and> possible_run cl_ws_can cl_ws_step d (filter (\<lambda>e. e \<noteq> CountdownTicks) es)"
  using assms
proof (induction es arbitrary: c d)
  case Nil
  then show ?case by simp
next
  case (Cons e es)
  then have "same_client (ws_step c e) (cl_ws_step d e)" "e \<noteq> CountdownTicks \<longrightarrow> cl_ws_can d e"
    using same_client_step by simp_all
  with Cons.IH [of "ws_step c e" "cl_ws_step d e"] Cons.prems(2) show ?case by auto
qed

subsection \<open>Properties\<close>

text \<open>
  C5: The client never gets stuck and never connects twice. After any run that has not destroyed
  it, it is doing exactly one of three things: waiting for a ticket, holding a connecting or open
  socket, or waiting for its one timer, which is armed with the back-off of the last attempt,
  between one and thirty seconds; and it reports \<open>connected\<close> exactly while the socket is open.
\<close>
theorem ws_always_trying_once:
  assumes "possible_run ws_can ws_step new_ws es" and "c = foldl ws_step new_ws es" and "\<not> ws_destroyed c"
  shows "((ws_awaiting c \<and> \<not> live (ws_socket c) \<and> ws_timers c = [])
      \<or> (\<not> ws_awaiting c \<and> live (ws_socket c) \<and> ws_timers c = [])
      \<or> (\<not> ws_awaiting c \<and> \<not> live (ws_socket c)
          \<and> (\<exists>d. ws_timers c = [d] \<and> d = min (1000 * 2 ^ (ws_attempt c - 1)) 30000 \<and> 1000 \<le> d)))
    \<and> (wd_status (ws_detail c) = WsConnected) = (ws_socket c = Some SockOpen)
    \<and> wd_attempt (ws_detail c) = ws_attempt c \<and> length (ws_intervals c) \<le> 1"
proof -
  have "ws_inv c"
    unfolding assms(2) by (rule ws_machine.run_keeps [OF ws_inv_new assms(1)])
  moreover have "backoffDelay n = min (1000 * 2 ^ n) 30000" for n
    by (simp add: backoffDelay_def BACKOFF_BASE_MS_def BACKOFF_MAX_MS_def)
  ultimately show ?thesis
    using assms(3) backoff_bounds(1) [of "ws_attempt c - 1"] by (auto simp: ws_inv_def split: if_splits)
qed

text \<open>
  C21: Destroying the client is final: whatever settles afterwards, a ticket in flight included,
  no listener is called, no cache is invalidated, no socket is opened and no timer is armed,
  and the status stays \<open>offline\<close>.
\<close>
theorem ws_destroy_is_final:
  assumes "possible_run ws_can ws_step new_ws (es @ Destroy # es')" and "Destroy \<notin> set es'"
    and "c0 = foldl ws_step new_ws (es @ [Destroy])" and "c = foldl ws_step new_ws (es @ Destroy # es')"
  shows "ws_calls c = ws_calls c0 \<and> ws_effects c = ws_effects c0 \<and> wd_status (ws_detail c) = WsOffline
    \<and> ws_timers c = [] \<and> ws_intervals c = [] \<and> \<not> live (ws_socket c)"
proof -
  let ?b = "foldl ws_step new_ws es"
  have r: "possible_run ws_can ws_step new_ws es" "possible_run ws_can ws_step (ws_step ?b Destroy) es'"
    using assms(1) by (simp_all add: possible_run_append)
  have "ws_inv ?b" by (rule ws_machine.run_keeps [OF ws_inv_new r(1)])
  moreover have c0: "c0 = ws_step ?b Destroy" by (simp add: assms(3))
  ultimately have i: "ws_inv c0" by (metis ws_inv_step ws_can.simps(8))
  have d: "ws_destroyed c0" by (simp add: c0 ws_defs Let_def)
  with i have s: "silent_from c0 c0" by (auto simp: silent_from_def ws_inv_def)
  have "c = foldl ws_step c0 es'" by (simp add: assms(4) c0)
  with silent_run [OF s _ assms(2)] r(2) c0 have "silent_from c0 c" by simp
  with i d show ?thesis by (simp add: silent_from_def ws_inv_def)
qed

text \<open>
  The back-off is exponential: from a fresh client, \<open>n\<close> failed attempts and one more arm a
  single timer of \<open>1000 * 2 ^ n\<close> milliseconds, capped at thirty seconds, and a socket that opens
  resets it.
\<close>
theorem ws_backoff_doubles:
  "let es = concat (replicate n [TicketFails m, RetryFires]) @ [TicketFails m];
       c = foldl ws_step new_ws es;
       c' = foldl ws_step c [RetryFires, TicketArrives None, SocketOpens, SocketCloses 1006 []]
   in possible_run ws_can ws_step new_ws (es @ [RetryFires, TicketArrives None, SocketOpens, SocketCloses 1006 []])
      \<and> ws_timers c = [min (1000 * 2 ^ n) 30000] \<and> wd_status (ws_detail c) = WsReconnecting
      \<and> wd_attempt (ws_detail c) = n + 1 \<and> ws_timers c' = [1000]"
proof -
  let ?fails = "\<lambda>n. concat (replicate n [TicketFails m, RetryFires])"
  let ?c = "\<lambda>n. foldl ws_step new_ws (?fails n)"
  have step: "possible_run ws_can ws_step new_ws (?fails n) \<and> ws_awaiting (?c n) \<and> ws_attempt (?c n) = n
      \<and> \<not> ws_destroyed (?c n) \<and> ws_timers (?c n) = []" for n
  proof (induction n)
    case 0
    then show ?case by (simp add: new_ws_def ws_defs)
  next
    case (Suc n)
    have "?fails (Suc n) = ?fails n @ [TicketFails m, RetryFires]"
      by (metis append_Nil2 concat.simps concat_append replicate_append_same replicate_Suc)
    with Suc show ?case
      by (simp add: possible_run_append) (simp add: ws_defs Let_def)
  qed
  have b: "backoffDelay k = min (1000 * 2 ^ k) 30000" for k
    by (simp add: backoffDelay_def BACKOFF_BASE_MS_def BACKOFF_MAX_MS_def)
  from step [of n] show ?thesis
    by (simp add: possible_run_append Let_def) (simp add: ws_defs Let_def b)
qed

text \<open>
  The desktop client refines the web client: driven by the same events, less the countdown
  of the tooltip, it goes through the same states of the connection, with the same status,
  attempts, timers and listeners.
\<close>
theorem desktop_ws_refines_web_ws:
  assumes "possible_run ws_can ws_step new_ws es" and "es' = filter (\<lambda>e. e \<noteq> CountdownTicks) es"
    and "c = foldl ws_step new_ws es" and "d = foldl cl_ws_step new_cl_ws es'"
  shows "possible_run cl_ws_can cl_ws_step new_cl_ws es'
    \<and> cw_status d = wd_status (ws_detail c) \<and> cw_socket d = ws_socket c \<and> cw_attempt d = ws_attempt c
    \<and> cw_timers d = ws_timers c \<and> cw_destroyed d = ws_destroyed c \<and> cw_awaiting d = ws_awaiting c
    \<and> cw_listeners d = ws_listeners c"
proof -
  have "same_client new_ws new_cl_ws"
    by (simp add: same_client_def new_ws_def new_cl_ws_def ws_defs cl_ws_defs)
  from same_client_run [OF this assms(1)] show ?thesis
    by (simp add: assms(2-4) same_client_def)
qed

text \<open>
  A server event refreshes what it concerns: a folder event reaches every folder query and
  an item event every item query, in both applications. The expiry warning reaches the item
  queries of the web application only; the desktop client drops it.
\<close>
theorem server_events_refresh_caches:
  assumes "key_match_laws km" and "ws_type ev = Some t"
  shows "(t \<in> set folder_events \<longrightarrow> cl_handleEvent ev = handleEvent ev
        \<and> (\<exists>f. Invalidate f \<in> set (handleEvent ev) \<and> km f (key_folders_all @ rest)))
    \<and> (t \<in> set item_events \<longrightarrow> cl_handleEvent ev = handleEvent ev
        \<and> (\<exists>f. Invalidate f \<in> set (handleEvent ev) \<and> km f (key_items_all @ rest)))
    \<and> (t = ''item.expiry_warning'' \<longrightarrow> cl_handleEvent ev = []
        \<and> (\<exists>f. Invalidate f \<in> set (handleEvent ev) \<and> km f (key_items_all @ rest)))"
proof -
  have km: "km f (f @ rest)" for f using assms(1) by (simp add: key_match_laws_def)
  have disjoint: "t \<in> set item_events \<Longrightarrow> t \<notin> set folder_events" "''item.expiry_warning'' \<notin> set folder_events"
    "''item.expiry_warning'' \<notin> set item_events"
    by (auto simp: item_events_def folder_events_def)
  with assms(2) show ?thesis
    by (auto simp: handleEvent_def cl_handleEvent_def intro!: exI km)
qed

subsection \<open>Concrete runs\<close>

definition demo_events :: "ws_event list" where
  "demo_events = [Subscribe 1, TicketFails ''no route'', CountdownTicks, RetryFires, TicketArrives None, SocketOpens]"

lemma demo_events_possible: "possible_run ws_can ws_step new_ws demo_events"
  by (simp add: demo_events_def new_ws_def ws_defs Let_def backoffDelay_def BACKOFF_BASE_MS_def BACKOFF_MAX_MS_def)

lemma demo_events_end:
  "ws_socket (foldl ws_step new_ws demo_events) = Some SockOpen" "\<not> ws_destroyed (foldl ws_step new_ws demo_events)"
  by (simp_all add: demo_events_def new_ws_def ws_defs Let_def backoffDelay_def BACKOFF_BASE_MS_def BACKOFF_MAX_MS_def)

lemma ws_always_trying_once_witness:
  "ws_socket (foldl ws_step new_ws demo_events) = Some SockOpen
     \<and> wd_status (ws_detail (foldl ws_step new_ws demo_events)) = WsConnected"
  using ws_always_trying_once [OF demo_events_possible refl demo_events_end(2)] demo_events_end(1) by simp

lemma ws_destroy_is_final_witness:
  "wd_status (ws_detail (foldl ws_step new_ws ([] @ Destroy # [TicketArrives None]))) = WsOffline
     \<and> ws_socket (foldl ws_step new_ws ([] @ Destroy # [TicketArrives None])) = None"
proof -
  have r: "possible_run ws_can ws_step new_ws ([] @ Destroy # [TicketArrives None])"
    by (simp add: new_ws_def ws_defs Let_def)
  show ?thesis
    using ws_destroy_is_final [OF r _ refl refl] by (simp add: new_ws_def ws_defs Let_def)
qed

lemma desktop_ws_refines_web_ws_witness:
  "cw_status (foldl cl_ws_step new_cl_ws (filter (\<lambda>e. e \<noteq> CountdownTicks) demo_events)) = WsConnected
     \<and> length (filter (\<lambda>e. e \<noteq> CountdownTicks) demo_events) = 5"
proof -
  have "wd_status (ws_detail (foldl ws_step new_ws demo_events)) = WsConnected"
    by (simp add: demo_events_def new_ws_def ws_defs Let_def backoffDelay_def BACKOFF_BASE_MS_def BACKOFF_MAX_MS_def)
  with desktop_ws_refines_web_ws [OF demo_events_possible refl refl refl] show ?thesis
    by (simp add: demo_events_def)
qed

lemma server_events_refresh_caches_witness:
  "\<exists>f. Invalidate f \<in> set (handleEvent (JObj [(''type'', JStr ''item.expiry_warning'')]))
     \<and> prefix_match f (key_items_all @ [JStr ''i1''])"
  using server_events_refresh_caches [OF prefix_match_laws,
      of "JObj [(''type'', JStr ''item.expiry_warning'')]" "''item.expiry_warning''" "[JStr ''i1'']"]
  by (simp add: ws_type_def json_str_field_def)

end
