(* ===== verification/DesktopSession.thy ===== *)
theory DesktopSession
  imports AuthFlows DesktopClient
begin

text \<open>
  The session of the desktop application: its auth store (\<open>client/src/store/auth.ts\<close>), the silent
  sign-in with the key encryption key of the operating system's keyring (\<open>KeyringBootstrap\<close> in
  \<open>client/src/App.tsx\<close>, with \<open>client/src/api/me.ts\<close>), the inactivity lock
  (\<open>client/src/hooks/use-inactivity-lock.ts\<close>), what a logout does to the offline data
  (\<open>OfflineCacheManager\<close>) and the gates (\<open>client/src/routes\<close>).
\<close>

subsection \<open>The store\<close>

record cl_auth_state =
  ca_user :: "SessionUser option"
  ca_accessToken :: "string option"
  ca_kek :: "nat option"
  ca_privateKey :: "nat option"
  ca_hydrating :: bool
  ca_isBootstrap :: bool
  ca_mustSetupTOTP :: bool

definition cl_initial_auth :: cl_auth_state where
  "cl_initial_auth = \<lparr>ca_user = None, ca_accessToken = None, ca_kek = None, ca_privateKey = None,
     ca_hydrating = True, ca_isBootstrap = False, ca_mustSetupTOTP = False\<rparr>"

record ('w, 'r) desktop_app =
  da_dk :: "'w desktop"
  da_auth :: cl_auth_state
  da_buf :: "'r buffers"

definition on_dk_tokens :: "(token_state \<Rightarrow> token_state) \<Rightarrow> ('w, 'r) desktop_app \<Rightarrow> ('w, 'r) desktop_app" where
  "on_dk_tokens f app = app\<lparr>da_dk := (da_dk app)\<lparr>dk_tokens := f (dk_tokens (da_dk app))\<rparr>\<rparr>"

text \<open>Of a session's input the desktop store reads everything but \<open>mustChangePassword\<close>.\<close>

definition cl_sync :: "SessionInput \<Rightarrow> token_state \<Rightarrow> token_state" where
  "cl_sync si ts = cl_setRefreshToken (Some (si_refreshToken si)) (cl_setAccessToken (Some (si_accessToken si)) ts)"

definition cl_setSession :: "SessionInput \<Rightarrow> nat \<Rightarrow> nat \<Rightarrow> ('w, 'r) desktop_app \<Rightarrow> ('w, 'r) desktop_app" where
  "cl_setSession si kek privateKey app =
     (on_dk_tokens (cl_sync si) app)
       \<lparr>da_auth := \<lparr>ca_user = Some (si_user si), ca_accessToken = Some (si_accessToken si), ca_kek = Some kek,
          ca_privateKey = Some privateKey, ca_hydrating = False, ca_isBootstrap = False,
          ca_mustSetupTOTP = nullish (si_mustSetupTOTP si) False\<rparr>\<rparr>"

definition cl_setBootstrapSession ::
    "('r \<Rightarrow> bytes \<times> 'r) \<Rightarrow> SessionInput \<Rightarrow> ('w, 'r) desktop_app \<Rightarrow> (unit + unit) \<times> ('w, 'r) desktop_app" where
  "cl_setBootstrapSession random32 si app =
     (let app1 = on_dk_tokens (cl_sync si) app;
          (r, rng) = bootstrap_key random32 (bootstrap_storage_key (si_user si))
                       (storage (dk_tokens (da_dk app1))) (bf_rng (da_buf app1));
          app2 = app1\<lparr>da_buf := (da_buf app1)\<lparr>bf_rng := rng\<rparr>\<rparr>
      in case r of
          Inl e \<Rightarrow> (Inl e, app2)
        | Inr (key, ls) \<Rightarrow>
            (let (i, buf) = alloc key (da_buf app2)
             in (Inr (), (on_dk_tokens (\<lambda>ts. ts\<lparr>storage := ls\<rparr>) app2)
                  \<lparr>da_buf := buf,
                   da_auth := \<lparr>ca_user = Some (si_user si), ca_accessToken = Some (si_accessToken si),
                     ca_kek = None, ca_privateKey = Some i, ca_hydrating = False, ca_isBootstrap = True,
                     ca_mustSetupTOTP = nullish (si_mustSetupTOTP si) False\<rparr>\<rparr>)))"

definition cl_clearMustSetupTOTP :: "('w, 'r) desktop_app \<Rightarrow> ('w, 'r) desktop_app" where
  "cl_clearMustSetupTOTP app = app\<lparr>da_auth := (da_auth app)\<lparr>ca_mustSetupTOTP := False\<rparr>\<rparr>"

definition cl_store_setAccessToken :: "string \<Rightarrow> string \<Rightarrow> ('w, 'r) desktop_app \<Rightarrow> ('w, 'r) desktop_app" where
  "cl_store_setAccessToken token refreshToken app =
     (let app1 = on_dk_tokens (\<lambda>ts. cl_setRefreshToken (Some refreshToken) (cl_setAccessToken (Some token) ts)) app
      in app1\<lparr>da_auth := (da_auth app1)\<lparr>ca_accessToken := Some token\<rparr>\<rparr>)"

definition cl_setHydrating :: "bool \<Rightarrow> ('w, 'r) desktop_app \<Rightarrow> ('w, 'r) desktop_app" where
  "cl_setHydrating v app = app\<lparr>da_auth := (da_auth app)\<lparr>ca_hydrating := v\<rparr>\<rparr>"

definition cl_clear_session :: "('w, 'r) desktop_app \<Rightarrow> ('w, 'r) desktop_app" where
  "cl_clear_session app =
     (on_dk_tokens cl_clearAllTokens app)
       \<lparr>da_buf := fill_zero (ca_privateKey (da_auth app)) (fill_zero (ca_kek (da_auth app)) (da_buf app)),
        da_auth := \<lparr>ca_user = None, ca_accessToken = None, ca_kek = None, ca_privateKey = None,
          ca_hydrating = False, ca_isBootstrap = False, ca_mustSetupTOTP = False\<rparr>\<rparr>"

definition cl_selectIsAuthenticated :: "cl_auth_state \<Rightarrow> bool" where
  "cl_selectIsAuthenticated s \<longleftrightarrow> ca_user s \<noteq> None \<and> ca_accessToken s \<noteq> None"

definition cl_selectIsAdmin :: "cl_auth_state \<Rightarrow> bool" where
  "cl_selectIsAdmin s \<longleftrightarrow> (case ca_user s of None \<Rightarrow> False | Some u \<Rightarrow> ''admin'' \<in> set (roles u))"

definition cl_private_key :: "('w, 'r) desktop_app \<Rightarrow> bytes option" where
  "cl_private_key app = Option.bind (ca_privateKey (da_auth app)) (bf_heap (da_buf app))"

subsection \<open>Gates\<close>

definition ConnectionGate :: "string \<Rightarrow> gate" where
  "ConnectionGate serverUrl = (if serverUrl = [] then NavigateTo ''/config'' else Outlet)"

definition cl_AuthGate :: "cl_auth_state \<Rightarrow> gate" where
  "cl_AuthGate s = (if ca_hydrating s then Splash
     else if \<not> cl_selectIsAuthenticated s then NavigateTo ''/login'' else Outlet)"

definition cl_MustSetupTOTPGate :: "cl_auth_state \<Rightarrow> gate" where
  "cl_MustSetupTOTPGate s = (if ca_mustSetupTOTP s then NavigateTo ''/totp/setup'' else Outlet)"

definition AdminGate :: "cl_auth_state \<Rightarrow> gate" where
  "AdminGate s = (if \<not> cl_selectIsAdmin s then NavigateTo ''/inventory'' else Outlet)"

datatype cl_route = ConfigRoute | LoginRoute | TotpRoute | InventoryRoute | DesktopAdminRoute

fun desktop_routes :: "cl_route \<Rightarrow> string \<Rightarrow> cl_auth_state \<Rightarrow> gate" where
  "desktop_routes ConfigRoute url s = Outlet"
| "desktop_routes LoginRoute url s = through [ConnectionGate url]"
| "desktop_routes TotpRoute url s = through [ConnectionGate url, cl_AuthGate s]"
| "desktop_routes InventoryRoute url s = through [ConnectionGate url, cl_AuthGate s, cl_MustSetupTOTPGate s]"
| "desktop_routes DesktopAdminRoute url s =
     through [ConnectionGate url, cl_AuthGate s, cl_MustSetupTOTPGate s, AdminGate s]"

subsection \<open>Direct calls (\<open>me.ts\<close>)\<close>

definition cl_get_with_token :: "'w shell \<Rightarrow> string \<Rightarrow> string \<Rightarrow> 'w desktop \<Rightarrow> (unit + json) \<times> 'w desktop" where
  "cl_get_with_token sh path token d =
     (case rawFetch sh \<lparr>rq_url = cc_baseUrl (dk_config d) @ path, rq_method = GET, rq_headers = [bearer token],
             rq_body = None\<rparr> d of
        (NetworkFailure m, d1) \<Rightarrow> (Inl (), d1)
      | (Response res, d1) \<Rightarrow>
          if \<not> rs_ok res then (Inl (), d1)
          else (case rs_json res of None \<Rightarrow> (Inl (), d1) | Some j \<Rightarrow> (Inr j, d1)))"

definition cl_fetchMe :: "'w shell \<Rightarrow> string \<Rightarrow> 'w desktop \<Rightarrow> (unit + json) \<times> 'w desktop" where
  "cl_fetchMe sh token d = cl_get_with_token sh ''/api/v1/users/me'' token d"

definition cl_fetchMyKeypair :: "'w shell \<Rightarrow> string \<Rightarrow> 'w desktop \<Rightarrow> (unit + json) \<times> 'w desktop" where
  "cl_fetchMyKeypair sh token d = cl_get_with_token sh ''/api/v1/users/me/keypair'' token d"

subsection \<open>Silent sign-in\<close>

definition LAST_USERNAME_KEY :: string where "LAST_USERNAME_KEY = ''envanter.last_username''"

text \<open>After the refresh: the key encryption key from the keyring (\<open>kekLoad\<close>, a parameter that can
  throw), profile and key pair, and the private key; \<open>None\<close> is the login screen.\<close>

definition keyring_unlock ::
    "'r webcrypto \<Rightarrow> 'w shell \<Rightarrow> (string \<Rightarrow> unit + string option) \<Rightarrow> string \<Rightarrow> string \<Rightarrow> 'w desktop
       \<Rightarrow> (SessionUser \<times> bytes \<times> bytes) option \<times> 'w desktop" where
  "keyring_unlock wc sh kekLoad lastUsername accessToken d =
     (case kekLoad lastUsername of
        Inl _ \<Rightarrow> (None, d)
      | Inr stored \<Rightarrow>
          if \<not> truthy stored then (None, d)
          else (case atob (the stored) of
              Inl _ \<Rightarrow> (None, d)
            | Inr kek \<Rightarrow>
                (let (me, d1) = cl_fetchMe sh accessToken d;
                     (keypair, d2) = cl_fetchMyKeypair sh accessToken d1
                 in case (me, keypair) of
                     (Inr m, Inr kp) \<Rightarrow>
                       (case fromBase64 (str_or_undefined kp ''private_key_enc'') of
                          Inl _ \<Rightarrow> (None, d2)
                        | Inr privateKeyEnc \<Rightarrow>
                            (case decryptPrivateKey wc privateKeyEnc kek of
                               Inl _ \<Rightarrow> (None, d2)
                             | Inr privateKey \<Rightarrow> if m = JNull then (None, d2)
                                 else (Some (user_of_json m, kek, privateKey), d2)))
                   | _ \<Rightarrow> (None, d2))))"

definition desktop_splash_off :: "bool \<Rightarrow> ('w, 'r) desktop_app \<Rightarrow> ('w, 'r) desktop_app" where
  "desktop_splash_off cancelled app = (if cancelled then app else cl_setHydrating False app)"

definition cl_start_session :: "SessionInput \<Rightarrow> bytes \<Rightarrow> bytes \<Rightarrow> ('w, 'r) desktop_app \<Rightarrow> ('w, 'r) desktop_app" where
  "cl_start_session si kek privateKey app =
     (let (k, buf1) = alloc kek (da_buf app); (p, buf2) = alloc privateKey buf1
      in cl_setSession si k p (app\<lparr>da_buf := buf2\<rparr>))"

definition KeyringBootstrap ::
    "'r webcrypto \<Rightarrow> 'w shell \<Rightarrow> (string \<Rightarrow> unit + string option) \<Rightarrow> string \<Rightarrow> bool \<Rightarrow> ('w, 'r) desktop_app
       \<Rightarrow> ('w, 'r) desktop_app" where
  "KeyringBootstrap wc sh kekLoad serverUrl cancelled app =
     (let ts = dk_tokens (da_dk app)
      in if serverUrl = [] then cl_setHydrating False app
         else if \<not> truthy (cl_getRefreshToken ts) then cl_setHydrating False app
         else case getItem (storage ts) LAST_USERNAME_KEY of
             Inl _ \<Rightarrow> desktop_splash_off cancelled app
           | Inr stored \<Rightarrow>
               (let lastUsername = Option.bind stored text_of
                in if \<not> truthy lastUsername then cl_setHydrating False app
                   else
                     (case rawFetch sh (cl_refresh_request serverUrl (the (cl_getRefreshToken ts))) (da_dk app) of
                        (NetworkFailure m, d1) \<Rightarrow> desktop_splash_off cancelled (app\<lparr>da_dk := d1\<rparr>)
                      | (Response res, d1) \<Rightarrow>
                          (let app1 = app\<lparr>da_dk := d1\<rparr>
                           in if \<not> rs_ok res then desktop_splash_off cancelled app1
                              else case rs_json res of
                                  None \<Rightarrow> desktop_splash_off cancelled app1
                                | Some body \<Rightarrow>
                                    if body = JNull then desktop_splash_off cancelled app1
                                    else
                                      (let app2 = on_dk_tokens (cl_rotate_tokens body) app1;
                                           token = str_or_undefined body ''access_token'';
                                           (found, d3) = keyring_unlock wc sh kekLoad (the lastUsername) token (da_dk app2);
                                           app3 = app2\<lparr>da_dk := d3\<rparr>
                                       in case found of
                                           None \<Rightarrow> desktop_splash_off cancelled app3
                                         | Some (user, kek, privateKey) \<Rightarrow>
                                             if cancelled then app3
                                             else cl_start_session \<lparr>si_user = user, si_accessToken = token,
                                                 si_refreshToken = str_or_undefined body ''refresh_token'',
                                                 si_mustChangePassword = None, si_mustSetupTOTP = None\<rparr>
                                               kek privateKey app3)))))"

subsection \<open>Logout, the inactivity lock and the offline data\<close>

text \<open>The effect that follows the user: when the session ends, the disk cache and the queue of
  pending operations are deleted. \<open>clear_cache\<close> stands for \<open>clearDiskCache\<close> (theory OfflineCache).\<close>

definition OfflineCacheManager ::
    "SessionUser option \<Rightarrow> ('w, 'r) desktop_app \<Rightarrow> ('w, 'r) desktop_app" where
  "OfflineCacheManager prevUser app =
     (if prevUser \<noteq> None \<and> ca_user (da_auth app) = None
      then app\<lparr>da_dk := (da_dk app)\<lparr>dk_disk := clearPendingOps (dk_disk (da_dk app))\<rparr>\<rparr>
      else app)"

text \<open>The lock, from the shell's event or the browser's timer: the state and the page to show.\<close>

definition inactivity_lock :: "('w, 'r) desktop_app \<Rightarrow> ('w, 'r) desktop_app \<times> string" where
  "inactivity_lock app = (cl_clear_session app, ''/login'')"

definition INACTIVITY_MS :: nat where "INACTIVITY_MS = 10 * 60 * 1000"

text \<open>The browser fallback: time since the timer was armed, \<open>None\<close> when it is not.\<close>

datatype idle_event = UserActive | Elapse nat | SignedIn | SignedOut

fun idle_step :: "nat option \<Rightarrow> idle_event \<Rightarrow> nat option" where
  "idle_step t UserActive = (case t of None \<Rightarrow> None | Some _ \<Rightarrow> Some 0)"
| "idle_step t (Elapse ms) =
     (case t of None \<Rightarrow> None | Some n \<Rightarrow> if n + ms \<ge> INACTIVITY_MS then None else Some (n + ms))"
| "idle_step t SignedIn = Some 0"
| "idle_step t SignedOut = None"

definition idle_locks :: "nat option \<Rightarrow> idle_event \<Rightarrow> bool" where
  "idle_locks t e = (case (t, e) of (Some n, Elapse ms) \<Rightarrow> n + ms \<ge> INACTIVITY_MS | _ \<Rightarrow> False)"

lemmas desktop_defs = cl_setSession_def cl_setBootstrapSession_def cl_clear_session_def cl_clearMustSetupTOTP_def
  cl_setHydrating_def on_dk_tokens_def desktop_splash_off_def cl_sync_def

lemmas cl_gate_defs = ConnectionGate_def cl_AuthGate_def cl_MustSetupTOTPGate_def AdminGate_def
  cl_selectIsAuthenticated_def cl_selectIsAdmin_def

subsection \<open>Lemmas\<close>

lemma cl_start_session_facts:
  "cl_private_key (cl_start_session si kek key app) = Some key"
  "da_auth (cl_start_session si kek key app) = \<lparr>ca_user = Some (si_user si), ca_accessToken = Some (si_accessToken si),
     ca_kek = Some (bf_next (da_buf app)), ca_privateKey = Some (Suc (bf_next (da_buf app))), ca_hydrating = False,
     ca_isBootstrap = False, ca_mustSetupTOTP = nullish (si_mustSetupTOTP si) False\<rparr>"
  by (simp_all add: cl_start_session_def alloc_def cl_setSession_def cl_private_key_def on_dk_tokens_def)

lemma rawFetch_tokens: "rawFetch sh rq d = (r, d1) \<Longrightarrow> dk_tokens d1 = dk_tokens d"
  by (auto simp: rawFetch_def Let_def split: prod.splits)

lemma cleared_queue: "clearPendingOps d = d \<or> td_slot (clearPendingOps d) = Some (OpsFile 1 [])"
  by (auto simp: clearPendingOps_def cache_write_def split: sum.splits if_splits)

text \<open>What the silent sign-in can end in.\<close>

lemma KeyringBootstrap_cases:
  obtains (login_screen) app1 where "KeyringBootstrap wc sh kekLoad url False app = cl_setHydrating False app1"
      "da_auth app1 = da_auth app"
  | (signed_in) user kek key si app3 where "KeyringBootstrap wc sh kekLoad url False app = cl_start_session si kek key app3"
      "si_user si = user" "si_mustSetupTOTP si = None"
proof (cases "url = [] \<or> \<not> truthy (cl_getRefreshToken (dk_tokens (da_dk app)))")
  case True
  then show thesis using login_screen [of app] by (auto simp: KeyringBootstrap_def Let_def)
next
  case go: False
  show thesis
  proof (cases "getItem (storage (dk_tokens (da_dk app))) LAST_USERNAME_KEY")
    case (Inl e)
    then show thesis using go login_screen [of app] by (simp add: KeyringBootstrap_def desktop_splash_off_def Let_def)
  next
    case (Inr v)
    show thesis
    proof (cases "truthy (Option.bind v text_of)")
      case False
      then show thesis using go Inr login_screen [of app] by (simp add: KeyringBootstrap_def Let_def)
    next
      case name: True
      obtain fr d1 where f: "rawFetch sh (cl_refresh_request url (the (cl_getRefreshToken (dk_tokens (da_dk app))))) (da_dk app)
          = (fr, d1)" by fastforce
      let ?app1 = "app\<lparr>da_dk := d1\<rparr>"
      show thesis
      proof (cases "\<exists>res body. fr = Response res \<and> rs_ok res \<and> rs_json res = Some body \<and> body \<noteq> JNull")
        case False
        then have "KeyringBootstrap wc sh kekLoad url False app = cl_setHydrating False ?app1"
          using go Inr name f
          by (cases fr) (auto simp: KeyringBootstrap_def desktop_splash_off_def Let_def split: option.splits)
        then show thesis by (rule login_screen) simp
      next
        case True
        then obtain res body where ok: "fr = Response res" "rs_ok res" "rs_json res = Some body" "body \<noteq> JNull" by blast
        let ?app2 = "on_dk_tokens (cl_rotate_tokens body) ?app1"
        obtain found d3 where k: "keyring_unlock wc sh kekLoad (the (Option.bind v text_of))
            (str_or_undefined body ''access_token'') (da_dk ?app2) = (found, d3)" by fastforce
        show thesis
        proof (cases found)
          case None
          then have "KeyringBootstrap wc sh kekLoad url False app = cl_setHydrating False (?app2\<lparr>da_dk := d3\<rparr>)"
            using go Inr name f ok k by (simp add: KeyringBootstrap_def desktop_splash_off_def Let_def)
          then show thesis by (rule login_screen) (simp add: on_dk_tokens_def)
        next
          case (Some t)
          obtain user kek key where t: "t = (user, kek, key)" using prod_cases3 by blast
          have "KeyringBootstrap wc sh kekLoad url False app = cl_start_session \<lparr>si_user = user,
              si_accessToken = str_or_undefined body ''access_token'', si_refreshToken = str_or_undefined body ''refresh_token'',
              si_mustChangePassword = None, si_mustSetupTOTP = None\<rparr> kek key (?app2\<lparr>da_dk := d3\<rparr>)"
            using go Inr name f ok k Some t by (simp add: KeyringBootstrap_def Let_def)
          then show thesis by (rule signed_in) simp_all
        qed
      qed
    qed
  qed
qed

subsection \<open>Properties\<close>

text \<open>
  The silent sign-in of the desktop application always takes the splash away, whatever the
  keyring, the network and the server answer: either nobody is signed in and the session is as
  it was, or somebody is, with a private key opened by the stored key encryption key. In the
  second case the enrolment gate is open, even for an account whose server demands enrolment:
  the demand of the last login is not kept.
\<close>
theorem keyring_sign_in_outcomes:
  assumes "app' = KeyringBootstrap wc sh kekLoad url False app"
  shows "\<not> ca_hydrating (da_auth app')
    \<and> (da_auth app' = (da_auth app)\<lparr>ca_hydrating := False\<rparr>
       \<or> (cl_selectIsAuthenticated (da_auth app') \<and> cl_private_key app' \<noteq> None
          \<and> cl_MustSetupTOTPGate (da_auth app') = Outlet
          \<and> (url \<noteq> [] \<longrightarrow> desktop_routes InventoryRoute url (da_auth app') = Outlet)))"
  using KeyringBootstrap_cases [of wc sh kekLoad url app]
proof cases
  case (login_screen app1)
  then show ?thesis by (simp add: assms cl_setHydrating_def)
next
  case (signed_in user kek key si app3)
  then show ?thesis by (simp add: assms cl_start_session_facts cl_gate_defs)
qed

text \<open>
  Locking the screen loses queued work. The inactivity lock ends the session like a logout,
  tokens and key arrays wiped and every page but the login closed, and the effect that follows
  deletes the operations the user queued offline from the disk; the list on screen keeps them.
\<close>
theorem lock_discards_queued_operations:
  assumes "ca_user (da_auth app) = Some u" and "td_isTauri (dk_disk (da_dk app))" and "td_write_ok (dk_disk (da_dk app))"
    and "tokens_storable (dk_tokens (da_dk app))"
    and "inactivity_lock app = (app1, target)" and "app2 = OfflineCacheManager (ca_user (da_auth app)) app1"
    and "url \<noteq> []"
  shows "target = ''/login'' \<and> desktop_routes InventoryRoute url (da_auth app2) = NavigateTo ''/login''
    \<and> cl_private_key app2 = None \<and> cl_getRefreshToken (dk_tokens (da_dk app2)) = None
    \<and> td_slot (dk_disk (da_dk app2)) = Some (OpsFile 1 []) \<and> dk_ops (da_dk app2) = dk_ops (da_dk app)"
proof -
  have a: "app1 = cl_clear_session app" "target = ''/login''"
    using assms(5) by (auto simp: inactivity_lock_def)
  have t: "cl_getRefreshToken (dk_tokens (da_dk app1)) = None"
    using cl_tokens.logout [OF assms(4)] by (simp add: a(1) cl_clear_session_def on_dk_tokens_def)
  have d: "dk_disk (da_dk app1) = dk_disk (da_dk app)" "dk_ops (da_dk app1) = dk_ops (da_dk app)"
    "da_auth app1 = \<lparr>ca_user = None, ca_accessToken = None, ca_kek = None, ca_privateKey = None,
          ca_hydrating = False, ca_isBootstrap = False, ca_mustSetupTOTP = False\<rparr>"
    by (simp_all add: a(1) cl_clear_session_def on_dk_tokens_def)
  have e: "app2 = app1\<lparr>da_dk := (da_dk app1)\<lparr>dk_disk := clearPendingOps (dk_disk (da_dk app1))\<rparr>\<rparr>"
    by (simp add: assms(6,1) OfflineCacheManager_def d(3))
  have "td_slot (clearPendingOps (dk_disk (da_dk app))) = Some (OpsFile 1 [])"
    using assms(2,3) by (simp add: clearPendingOps_def cache_write_def)
  with a(2) t d e assms(7) show ?thesis
    by (simp add: cl_gate_defs cl_private_key_def)
qed

subsection \<open>Concrete runs\<close>

definition demo_desktop :: "(unit, nat) desktop_app" where
  "demo_desktop = \<lparr>da_dk = \<lparr>dk_config = initial_config, dk_tokens = demo_tokens, dk_world = (), dk_sent = [],
       dk_logouts = [], dk_disk = \<lparr>td_isTauri = True, td_read_ok = True, td_write_ok = True, td_slot = None\<rparr>,
       dk_ops = empty_ops_store, dk_isSyncing = False, dk_discarded = []\<rparr>,
     da_auth = cl_initial_auth\<lparr>ca_user := Some demo_user\<rparr>, da_buf = no_buffers 0\<rparr>"

definition silent_shell :: "unit shell" where
  "silent_shell = \<lparr>sh_fetch = (\<lambda>rq w. (NetworkFailure ''off'', w)), sh_tls_fetch = (\<lambda>a b c rq w. (TlsFails ''off'', w)),
     sh_now = (\<lambda>w. (0, w)), sh_random = (\<lambda>w. (''r'', w))\<rparr>"

lemma keyring_sign_in_outcomes_witness:
  "\<not> ca_hydrating (da_auth (KeyringBootstrap toy_crypto silent_shell (\<lambda>u. Inl ()) ''https://h'' False demo_desktop))"
  using keyring_sign_in_outcomes [OF refl, of toy_crypto silent_shell "\<lambda>u. Inl ()" "''https://h''" demo_desktop] by blast

lemma lock_discards_queued_operations_witness:
  "td_slot (dk_disk (da_dk (OfflineCacheManager (Some demo_user) (fst (inactivity_lock demo_desktop))))) = Some (OpsFile 1 [])"
proof -
  obtain app1 target where l: "inactivity_lock demo_desktop = (app1, target)" by fastforce
  have u: "ca_user (da_auth demo_desktop) = Some demo_user" by (simp add: demo_desktop_def)
  have d: "td_isTauri (dk_disk (da_dk demo_desktop))" "td_write_ok (dk_disk (da_dk demo_desktop))"
    "tokens_storable (dk_tokens (da_dk demo_desktop))"
    by (simp_all add: demo_desktop_def)
  from lock_discards_queued_operations [OF u d l refl, of "''h''"] l u show ?thesis by simp
qed

end
