(* ===== verification/ItemForm.thy ===== *)
theory ItemForm
  imports ShareLink TextFacts "HOL-Library.AList"
begin

text \<open>
  The item form and the item page: how the fields a user types become the encrypted fields of a
  request (\<open>web/src/components/inventory/item-form-modal.tsx\<close> and its desktop twin under
  \<open>client/src\<close>) and how the item page of both applications turns them back into text
  (\<open>components/inventory/item-detail.tsx\<close>).
\<close>

subsection \<open>Data\<close>

record FieldDefinition =
  fd_id :: nat
  fd_key :: string
  fd_label :: string
  fd_is_secret :: bool

record ItemType =
  it_id :: nat
  it_key :: string
  it_label :: string
  it_suggested_fields :: "string list"

text \<open>A field of an item on the wire; \<open>undefined\<close> parts are \<open>None\<close>.\<close>

record ItemField =
  if_field_definition_id :: nat
  if_value_enc :: "string option"
  if_value_nonce :: "string option"
  if_position :: nat

record Item =
  i_id :: string
  i_item_type_id :: nat
  i_name :: string
  i_description :: "string option"
  i_fields :: "ItemField list option"
  i_owner_dek_wrapped :: "string option"
  i_owner_wrap_nonce :: "string option"
  i_expires_at :: "string option"
  i_rotation_interval_days :: "nat option"

subsection \<open>The fields of the form\<close>

text \<open>\<open>{ value, visible }\<close>; the spread of a missing entry leaves \<open>value\<close> undefined.\<close>

record FieldState =
  fs_value :: "string option"
  fs_visible :: bool

text \<open>An object keyed by numbers is enumerated in the order of the numbers.\<close>

type_synonym field_map = "(nat \<times> FieldState) list"

fun obj_set :: "nat \<Rightarrow> 'v \<Rightarrow> (nat \<times> 'v) list \<Rightarrow> (nat \<times> 'v) list" where
  "obj_set k v [] = [(k, v)]"
| "obj_set k v ((k', v') # m) =
     (if k < k' then (k, v) # (k', v') # m
      else if k = k' then (k, v) # m
      else (k', v') # obj_set k v m)"

definition empty_field :: FieldState where
  "empty_field = \<lparr>fs_value = Some [], fs_visible = False\<rparr>"

definition buildInitialFields :: "string list \<Rightarrow> FieldDefinition list \<Rightarrow> field_map" where
  "buildInitialFields suggested defs =
     foldl (\<lambda>m key. case find (\<lambda>d. fd_key d = key) defs of
         None \<Rightarrow> m | Some d \<Rightarrow> obj_set (fd_id d) empty_field m) [] suggested"

datatype FieldAction = SetField nat string | ToggleField nat | ResetFields field_map

fun fieldReducer :: "field_map \<Rightarrow> FieldAction \<Rightarrow> field_map" where
  "fieldReducer state (SetField i v) =
     obj_set i \<lparr>fs_value = Some v, fs_visible = (case map_of state i of None \<Rightarrow> False | Some f \<Rightarrow> fs_visible f)\<rparr> state"
| "fieldReducer state (ToggleField i) =
     obj_set i (case map_of state i of
         None \<Rightarrow> \<lparr>fs_value = None, fs_visible = True\<rparr>
       | Some f \<Rightarrow> f\<lparr>fs_visible := \<not> fs_visible f\<rparr>) state"
| "fieldReducer state (ResetFields m) = m"

subsection \<open>The form\<close>

text \<open>\<open>fm_editDek\<close> is the key found when an existing item was loaded. The type id is kept as text.\<close>

record item_form =
  fm_name :: string
  fm_description :: string
  fm_itemTypeId :: string
  fm_fields :: field_map
  fm_expiresAt :: string
  fm_rotationIntervalDays :: string
  fm_editDek :: "bytes option"
  fm_useVault :: bool
  fm_vaultMount :: string
  fm_vaultPath :: string
  fm_vaultKvVersion :: nat
  fm_vaultKeyMapping :: "(string \<times> string) list"

text \<open>What the form asks of the language: \<open>Number(text)\<close> as the JSON value it is sent as, and
  \<open>new Date(text).toISOString()\<close>, which throws on an invalid date.\<close>

record js_values =
  js_Number :: "string \<Rightarrow> json"
  js_iso :: "string \<Rightarrow> string option"

datatype form_error = TypeErr | RangeErr | FormCrypto crypto_error | FormApi js_error | FormBase64

datatype form_outcome = Ignored | NoSessionKeyForForm | Closed | FormFailed form_error

subsection \<open>Loading an existing item\<close>

text \<open>The owner's key of an item: \<open>fromBase64\<close> twice and \<open>openDEKWithKEK\<close> (or its desktop twin).\<close>

type_synonym key_opener = "bytes \<Rightarrow> bytes \<Rightarrow> bytes \<Rightarrow> crypto_error + bytes"

definition open_owner_key :: "key_opener \<Rightarrow> string \<Rightarrow> string \<Rightarrow> bytes \<Rightarrow> form_error + bytes" where
  "open_owner_key opener wrapped nonce privateKey =
     (case fromBase64 wrapped of
        Inl _ \<Rightarrow> Inl FormBase64
      | Inr w \<Rightarrow>
          (case fromBase64 nonce of
             Inl _ \<Rightarrow> Inl FormBase64
           | Inr n \<Rightarrow> (case opener w n privateKey of Inl e \<Rightarrow> Inl (FormCrypto e) | Inr dek \<Rightarrow> Inr dek)))"

text \<open>One stored field: \<open>None\<close> when it is skipped, because a part is missing or does not open.\<close>

definition decrypt_stored :: "'r webcrypto \<Rightarrow> bytes \<Rightarrow> ItemField \<Rightarrow> string option" where
  "decrypt_stored wc dek f =
     (if \<not> truthy (if_value_enc f) \<or> \<not> truthy (if_value_nonce f) then None
      else (case (fromBase64 (the (if_value_enc f)), fromBase64 (the (if_value_nonce f))) of
          (Inr enc, Inr nonce) \<Rightarrow>
            (case decryptField wc enc nonce dek of Inl _ \<Rightarrow> None | Inr plain \<Rightarrow> Some plain)
        | _ \<Rightarrow> None))"

definition initial_for :: "nat \<Rightarrow> ItemType list \<Rightarrow> FieldDefinition list \<Rightarrow> field_map option" where
  "initial_for typeId itemTypes defs =
     map_option (\<lambda>t. buildInitialFields (it_suggested_fields t) defs) (find (\<lambda>t. it_id t = typeId) itemTypes)"

definition load_fields :: "'r webcrypto \<Rightarrow> bytes \<Rightarrow> ItemField list \<Rightarrow> field_map \<Rightarrow> field_map" where
  "load_fields wc dek fs initial =
     foldl (\<lambda>m f. case decrypt_stored wc dek f of
         None \<Rightarrow> m
       | Some plain \<Rightarrow> obj_set (if_field_definition_id f) \<lparr>fs_value = Some plain, fs_visible = False\<rparr> m)
       initial fs"

text \<open>
  The effect that runs when the form opens on an item, with its promise settled. When the wrapped
  key or its nonce is not base64, \<open>fromBase64\<close> throws out of the effect and React takes the dialog down: there is
  no form then, the value given here is the one its state had been set to.
\<close>

definition load_edit ::
    "'r webcrypto \<Rightarrow> ItemType list \<Rightarrow> FieldDefinition list \<Rightarrow> Item \<Rightarrow> bytes option \<Rightarrow> item_form \<Rightarrow> item_form" where
  "load_edit wc itemTypes defs item sessionKey form =
     (let f1 = form\<lparr>fm_name := i_name item, fm_description := nullish (i_description item) [],
            fm_itemTypeId := show_nat (i_item_type_id item),
            fm_expiresAt := (if truthy (i_expires_at item) then take 10 (the (i_expires_at item)) else []),
            fm_rotationIntervalDays := (case i_rotation_interval_days item of None \<Rightarrow> [] | Some n \<Rightarrow> show_nat n),
            fm_editDek := None\<rparr>;
          blank = (case initial_for (i_item_type_id item) itemTypes defs of
              None \<Rightarrow> f1 | Some m \<Rightarrow> f1\<lparr>fm_fields := m\<rparr>)
      in case sessionKey of
          None \<Rightarrow> blank
        | Some privateKey \<Rightarrow>
            if \<not> truthy (i_owner_dek_wrapped item) \<or> \<not> truthy (i_owner_wrap_nonce item) then blank
            else
              (case open_owner_key (openDEKWithKEK wc) (the (i_owner_dek_wrapped item))
                   (the (i_owner_wrap_nonce item)) privateKey of
                 Inl _ \<Rightarrow> blank
               | Inr dek \<Rightarrow>
                   f1\<lparr>fm_editDek := Some dek,
                      fm_fields := load_fields wc dek (nullish (i_fields item) [])
                        (nullish (initial_for (i_item_type_id item) itemTypes defs) [])\<rparr>))"

subsection \<open>Saving\<close>

text \<open>\<open>Object.entries(fields).filter(...)\<close>: reading \<open>value.trim()\<close> of an undefined value throws.\<close>

definition filled_entries :: "field_map \<Rightarrow> form_error + (nat \<times> string) list" where
  "filled_entries fm =
     (if \<exists>(i, f)\<in>set fm. fs_value f = None then Inl TypeErr
      else Inr (filter (\<lambda>(i, v). v \<noteq> []) (map (\<lambda>(i, f). (i, trim (the (fs_value f)))) fm)))"

text \<open>The \<open>map\<close> over the filled entries, \<open>position\<close> being the index; a rejection of one rejects all.\<close>

fun encrypt_entries ::
    "'r webcrypto \<Rightarrow> bytes \<Rightarrow> nat \<Rightarrow> (nat \<times> string) list \<Rightarrow> 'r \<Rightarrow> (crypto_error + ItemField list) \<times> 'r" where
  "encrypt_entries wc dek idx [] r = (Inr [], r)"
| "encrypt_entries wc dek idx ((i, v) # es) r =
     (case encryptField wc v dek r of
        (Inl e, r1) \<Rightarrow> (Inl e, r1)
      | (Inr (ct, nonce), r1) \<Rightarrow>
          (case encrypt_entries wc dek (Suc idx) es r1 of
             (Inl e, r2) \<Rightarrow> (Inl e, r2)
           | (Inr fs, r2) \<Rightarrow>
               (Inr (\<lparr>if_field_definition_id = i, if_value_enc = Some (toBase64 ct),
                      if_value_nonce = Some (toBase64 nonce), if_position = idx\<rparr> # fs), r2)))"

text \<open>The part of a request that carries secrets.\<close>

record sealed_item =
  si_fields :: "ItemField list"
  si_owner_dek_wrapped :: string
  si_owner_wrap_nonce :: string

definition seal_item ::
    "'r webcrypto \<Rightarrow> bytes \<Rightarrow> bytes \<Rightarrow> field_map \<Rightarrow> 'r \<Rightarrow> (form_error + sealed_item) \<times> 'r" where
  "seal_item wc dek privateKey fm r =
     (case sealDEKWithKEK wc dek privateKey r of
        (Inl e, r1) \<Rightarrow> (Inl (FormCrypto e), r1)
      | (Inr (wrapped, wrapNonce), r1) \<Rightarrow>
          (case filled_entries fm of
             Inl e \<Rightarrow> (Inl e, r1)
           | Inr entries \<Rightarrow>
               (case encrypt_entries wc dek 0 entries r1 of
                  (Inl e, r2) \<Rightarrow> (Inl (FormCrypto e), r2)
                | (Inr fs, r2) \<Rightarrow>
                    (Inr \<lparr>si_fields = fs, si_owner_dek_wrapped = toBase64 wrapped,
                          si_owner_wrap_nonce = toBase64 wrapNonce\<rparr>, r2))))"

definition field_json :: "ItemField \<Rightarrow> json" where
  "field_json f =
     JObj ([(''field_definition_id'', JNum (int (if_field_definition_id f)))]
       @ opt_str ''value_enc'' (if_value_enc f) @ opt_str ''value_nonce'' (if_value_nonce f)
       @ [(''position'', JNum (int (if_position f)))])"

definition sealed_json :: "sealed_item \<Rightarrow> (string \<times> json) list" where
  "sealed_json s =
     [(''fields'', JArr (map field_json (si_fields s))), (''owner_dek_wrapped'', JStr (si_owner_dek_wrapped s)),
      (''owner_wrap_nonce'', JStr (si_owner_wrap_nonce s))]"

text \<open>\<open>expiresAt ? new Date(expiresAt).toISOString() : none\<close> and the same for the rotation.\<close>

definition expires_json :: "js_values \<Rightarrow> string \<Rightarrow> form_error + json option" where
  "expires_json js s =
     (if s = [] then Inr None else case js_iso js s of None \<Rightarrow> Inl RangeErr | Some t \<Rightarrow> Inr (Some (JStr t)))"

definition rotation_json :: "js_values \<Rightarrow> string \<Rightarrow> json option" where
  "rotation_json js s = (if s = [] then None else Some (js_Number js s))"

text \<open>An optional property: left out when undefined, or sent as \<open>null\<close>.\<close>

definition or_left_out :: "string \<Rightarrow> json option \<Rightarrow> (string \<times> json) list" where
  "or_left_out k v = (case v of None \<Rightarrow> [] | Some j \<Rightarrow> [(k, j)])"

definition or_null :: "string \<Rightarrow> json option \<Rightarrow> (string \<times> json) list" where
  "or_null k v = [(k, nullish v JNull)]"

definition vault_source :: "item_form \<Rightarrow> json" where
  "vault_source form =
     (if fm_useVault form \<and> fm_vaultMount form \<noteq> [] \<and> fm_vaultPath form \<noteq> []
      then JObj [(''type'', JStr ''vault''), (''mount'', JStr (fm_vaultMount form)), (''path'', JStr (fm_vaultPath form)),
        (''kv_version'', JNum (int (fm_vaultKvVersion form))),
        (''key_mapping'', JObj (foldl (\<lambda>m (fieldKey, vaultKey).
            if trim fieldKey \<noteq> [] \<and> trim vaultKey \<noteq> [] then AList.update (trim fieldKey) (JStr (trim vaultKey)) m else m)
            [] (fm_vaultKeyMapping form)))]
      else JNull)"

text \<open>\<open>crypto.randomUUID()\<close> is the argument \<open>uuid\<close>.\<close>

definition create_json :: "string \<Rightarrow> string \<Rightarrow> item_form \<Rightarrow> json option \<Rightarrow> json option \<Rightarrow> sealed_item \<Rightarrow> json" where
  "create_json uuid folderId form expires rotation s =
     JObj ([(''id'', JStr uuid), (''folder_id'', JStr folderId)]
       @ or_left_out ''expires_at'' expires @ or_left_out ''rotation_interval_days'' rotation
       @ [(''item_type_id'', JNum (int (read_nat (fm_itemTypeId form)))), (''name'', JStr (trim (fm_name form)))]
       @ opt_str ''description'' (or_undefined (trim (fm_description form)))
       @ sealed_json s @ [(''external_source'', vault_source form)])"

definition update_json :: "item_form \<Rightarrow> json option \<Rightarrow> json option \<Rightarrow> sealed_item \<Rightarrow> json" where
  "update_json form expires rotation s =
     JObj ([(''name'', JStr (trim (fm_name form)))]
       @ opt_str ''description'' (or_undefined (trim (fm_description form)))
       @ or_null ''expires_at'' expires @ or_null ''rotation_interval_days'' rotation
       @ sealed_json s)"

definition submit_request ::
    "'w net \<Rightarrow> mutation_hook \<Rightarrow> 'w web_env \<times> 'r \<Rightarrow> form_outcome \<times> 'w web_env \<times> 'r" where
  "submit_request net hook s =
     (let (env, r) = s in
      case run_mutation net hook env of
        (Inl e, _, env1) \<Rightarrow> (FormFailed (FormApi e), env1, r)
      | (Inr _, _, env1) \<Rightarrow> (Closed, env1, r))"

text \<open>\<open>handleSubmit\<close>: \<open>editItem\<close> is the id of the item being edited; \<open>user\<close> tells whether the store has one.\<close>

definition form_handleSubmit ::
    "'r webcrypto \<Rightarrow> js_values \<Rightarrow> 'w net \<Rightarrow> string \<Rightarrow> string \<Rightarrow> string option \<Rightarrow> bool \<Rightarrow> bytes option \<Rightarrow> item_form
       \<Rightarrow> 'w web_env \<times> 'r \<Rightarrow> form_outcome \<times> 'w web_env \<times> 'r" where
  "form_handleSubmit wc js net uuid folderId editItem user sessionKey form s =
     (let (env, r) = s in
      if trim (fm_name form) = [] \<or> fm_itemTypeId form = [] then (Ignored, s)
      else case editItem of
          Some itemId \<Rightarrow>
            (case sessionKey of
               None \<Rightarrow> (NoSessionKeyForForm, s)
             | Some privateKey \<Rightarrow>
                 (let (dek, r1) = (case fm_editDek form of Some k \<Rightarrow> (k, r) | None \<Rightarrow> generateDEK wc r)
                  in case seal_item wc dek privateKey (fm_fields form) r1 of
                      (Inl e, r2) \<Rightarrow> (FormFailed e, env, r2)
                    | (Inr sealed, r2) \<Rightarrow>
                        (case expires_json js (fm_expiresAt form) of
                           Inl e \<Rightarrow> (FormFailed e, env, r2)
                         | Inr expires \<Rightarrow>
                             submit_request net (useUpdateItemMutation itemId folderId
                               (update_json form expires (rotation_json js (fm_rotationIntervalDays form)) sealed)) (env, r2))))
        | None \<Rightarrow>
            (case sessionKey of
               None \<Rightarrow> (NoSessionKeyForForm, s)
             | Some privateKey \<Rightarrow>
                 if \<not> user then (NoSessionKeyForForm, s)
                 else
                   (let (dek, r1) = generateDEK wc r
                    in case seal_item wc dek privateKey (fm_fields form) r1 of
                        (Inl e, r2) \<Rightarrow> (FormFailed e, env, r2)
                      | (Inr sealed, r2) \<Rightarrow>
                          (case expires_json js (fm_expiresAt form) of
                             Inl e \<Rightarrow> (FormFailed e, env, r2)
                           | Inr expires \<Rightarrow>
                               submit_request net (useCreateItemMutation folderId
                                 (create_json uuid folderId form expires (rotation_json js (fm_rotationIntervalDays form)) sealed))
                                 (env, r2)))))"

subsection \<open>The item page\<close>

datatype detail_error = MissingOwnerKey | DetailFailed form_error

datatype DecryptionState = Idle | Pending | DecryptionError detail_error | Decrypted "(nat \<times> string) list"

text \<open>The decryption effect: what the state is as soon as it has run, and what its promise sets.\<close>

definition decrypt_start :: "Item option \<Rightarrow> bytes option \<Rightarrow> DecryptionState" where
  "decrypt_start item sessionKey =
     (case (item, sessionKey) of
        (Some i, Some k) \<Rightarrow>
          if \<not> truthy (i_owner_dek_wrapped i) \<or> \<not> truthy (i_owner_wrap_nonce i) then DecryptionError MissingOwnerKey
          else Pending
      | _ \<Rightarrow> Idle)"

definition decrypt_all :: "'r webcrypto \<Rightarrow> bytes \<Rightarrow> ItemField list \<Rightarrow> (nat \<times> string) list" where
  "decrypt_all wc dek fs =
     foldl (\<lambda>out f. case decrypt_stored wc dek f of
         None \<Rightarrow> out | Some plain \<Rightarrow> AList.update (if_field_definition_id f) plain out) [] fs"

definition decrypt_settled :: "'r webcrypto \<Rightarrow> key_opener \<Rightarrow> Item \<Rightarrow> bytes \<Rightarrow> DecryptionState" where
  "decrypt_settled wc opener item privateKey =
     (case open_owner_key opener (the (i_owner_dek_wrapped item)) (the (i_owner_wrap_nonce item)) privateKey of
        Inl e \<Rightarrow> DecryptionError (DetailFailed e)
      | Inr dek \<Rightarrow> Decrypted (decrypt_all wc dek (nullish (i_fields item) [])))"

definition decrypt_item :: "'r webcrypto \<Rightarrow> key_opener \<Rightarrow> Item option \<Rightarrow> bytes option \<Rightarrow> DecryptionState" where
  "decrypt_item wc opener item sessionKey =
     (case decrypt_start item sessionKey of
        Pending \<Rightarrow> decrypt_settled wc opener (the item) (the sessionKey)
      | st \<Rightarrow> st)"


subsection \<open>The field map\<close>

definition field_map_ok :: "(nat \<times> 'v) list \<Rightarrow> bool" where
  "field_map_ok m \<longleftrightarrow> sorted_wrt (<) (map fst m)"

lemma fst_obj_set: "set (map fst (obj_set k v m)) = insert k (set (map fst m))"
  by (induction k v m rule: obj_set.induct) auto

lemma obj_set_ok [simp, intro]: "field_map_ok m \<Longrightarrow> field_map_ok (obj_set k v m)"
proof (induction k v m rule: obj_set.induct)
  case (2 k v k' v' m)
  then show ?case using fst_obj_set [of k v m] by (auto simp: field_map_ok_def)
qed (simp add: field_map_ok_def)

lemma map_of_obj_set: "field_map_ok m \<Longrightarrow> map_of (obj_set k v m) = (map_of m)(k \<mapsto> v)"
proof (induction k v m rule: obj_set.induct)
  case (2 k v k' v' m)
  then have "k < k' \<Longrightarrow> k \<notin> fst ` set m" by (auto simp: field_map_ok_def)
  with 2 show ?case by (auto simp: field_map_ok_def fun_upd_twist)
qed simp

lemma field_map_distinct: "field_map_ok m \<Longrightarrow> distinct (map fst m)"
  by (simp add: field_map_ok_def strict_sorted_iff)

lemma empty_map_ok [simp]: "field_map_ok []"
  by (simp add: field_map_ok_def)

lemma buildInitialFields_ok [simp, intro]: "field_map_ok (buildInitialFields ks defs)"
proof -
  have "field_map_ok m \<Longrightarrow> field_map_ok (foldl (\<lambda>m key. case find (\<lambda>d. fd_key d = key) defs of
      None \<Rightarrow> m | Some d \<Rightarrow> obj_set (fd_id d) empty_field m) m ks)" for m
    by (induction ks arbitrary: m) (auto split: option.split)
  then show ?thesis by (simp add: buildInitialFields_def)
qed

lemma fieldReducer_ok:
  "field_map_ok m \<Longrightarrow> (\<And>m'. a = ResetFields m' \<Longrightarrow> field_map_ok m') \<Longrightarrow> field_map_ok (fieldReducer m a)"
  by (cases a) auto

lemma load_fields_ok: "field_map_ok m \<Longrightarrow> field_map_ok (load_fields wc dek fs m)"
  unfolding load_fields_def by (induction fs arbitrary: m) (auto split: option.split)

subsection \<open>Encrypting and decrypting the fields\<close>

text \<open>A text that survives the trip through a browser's decoder.\<close>

definition readable :: "string \<Rightarrow> bool" where
  "readable v \<longleftrightarrow> (\<exists>cs. (\<forall>c\<in>set cs. is_scalar c) \<and> v = utf8_text cs \<and> (cs = [] \<or> hd cs \<noteq> 0xFEFF))"

definition well_formed :: "string \<Rightarrow> bool" where
  "well_formed v \<longleftrightarrow> (\<exists>cs. (\<forall>c\<in>set cs. is_scalar c) \<and> v = utf8_text cs)"

lemma trim_readable: "well_formed v \<Longrightarrow> readable (trim v)"
  unfolding well_formed_def readable_def using trim_text by blast

lemma encryptField_readable:
  assumes "webcrypto_laws wc" and "encryptField wc v dek r = (Inr (ct, nonce), r')"
  shows "ct \<noteq> []" "nonce \<noteq> []" "readable v \<Longrightarrow> decryptField wc ct nonce dek = Inr v"
proof -
  obtain n rn where n: "wc_random wc 12 r = (n, rn)" by fastforce
  have l: "length n = 12" by (rule laws(9) [OF assms(1) n])
  from assms(2) n have k: "import_aes dek = Inr dek" and e: "nonce = n" "ct = wc_seal wc dek n (TextEncoder_encode v)"
    by (auto simp: encryptField_def crypto_defs NONCE_LEN_def split: if_splits)
  show "ct \<noteq> []" using laws(3) [OF assms(1), of dek n "TextEncoder_encode v"] e by auto
  show "nonce \<noteq> []" using l e by auto
  assume "readable v"
  then obtain cs where c: "\<forall>c\<in>set cs. is_scalar c" "v = utf8_text cs" "cs = [] \<or> hd cs \<noteq> 0xFEFF"
    unfolding readable_def by blast
  show "decryptField wc ct nonce dek = Inr v"
    using c k decode_encode [OF c(1)]
    by (cases cs) (auto simp: decryptField_def aes_gcm_decrypt_def e laws(1) [OF assms(1)])
qed

text \<open>Every field opens under the key it was encrypted with.\<close>

lemma encrypt_entries_open:
  assumes "webcrypto_laws wc" and "\<forall>(i, v)\<in>set es. readable v"
    and "encrypt_entries wc dek n es r = (Inr fs, r')"
  shows "map (\<lambda>f. (if_field_definition_id f, decrypt_stored wc dek f)) fs = map (\<lambda>(i, v). (i, Some v)) es"
  using assms(2,3)
proof (induction es arbitrary: n r fs)
  case Nil
  then show ?case by simp
next
  case (Cons e es)
  obtain i v where e: "e = (i, v)" by fastforce
  obtain ct nonce r1 where c: "encryptField wc v dek r = (Inr (ct, nonce), r1)"
    using Cons.prems(2) by (auto simp: e split: prod.splits sum.splits)
  obtain fs' where f: "encrypt_entries wc dek (Suc n) es r1 = (Inr fs', r')"
    "fs = \<lparr>if_field_definition_id = i, if_value_enc = Some (toBase64 ct), if_value_nonce = Some (toBase64 nonce),
       if_position = n\<rparr> # fs'"
    using Cons.prems(2) c by (auto simp: e split: prod.splits sum.splits)
  have "readable v" using Cons.prems(1) by (simp add: e)
  note r = encryptField_readable [OF assms(1) c]
  have "map (\<lambda>f. (if_field_definition_id f, decrypt_stored wc dek f)) fs' = map (\<lambda>(i, v). (i, Some v)) es"
    using Cons.IH [OF _ f(1)] Cons.prems(1) by simp
  with r(1,2) r(3) [OF \<open>readable v\<close>] f(2) show ?case
    by (simp add: e decrypt_stored_def base64_back toBase64_nonempty)
qed

lemma foldl_update_fresh:
  "distinct (map fst es) \<Longrightarrow> fst ` set es \<inter> fst ` set acc = {} \<Longrightarrow>
     foldl (\<lambda>out (i, v). AList.update i v out) acc es = acc @ es"
proof (induction es arbitrary: acc)
  case (Cons e es)
  obtain i v where e: "e = (i, v)" by fastforce
  have "AList.update i v acc = acc @ [(i, v)]" if "i \<notin> fst ` set acc"
    using that by (induction acc) auto
  with Cons e show ?case by auto
qed simp

lemma decrypt_all_entries:
  "map (\<lambda>f. (if_field_definition_id f, decrypt_stored wc dek f)) fs = map (\<lambda>(i, v). (i, Some v)) es \<Longrightarrow>
     foldl (\<lambda>out f. case decrypt_stored wc dek f of
         None \<Rightarrow> out | Some plain \<Rightarrow> AList.update (if_field_definition_id f) plain out) acc fs
       = foldl (\<lambda>out (i, v). AList.update i v out) acc es"
proof (induction fs arbitrary: es acc)
  case (Cons f fs)
  then show ?case by (cases es) (auto split: prod.splits)
qed simp

lemma filled_entries_D:
  assumes "filled_entries m = Inr es" and "field_map_ok m" and "\<forall>(i, f)\<in>set m. \<forall>v. fs_value f = Some v \<longrightarrow> well_formed v"
  shows "distinct (map fst es)" "\<forall>(i, v)\<in>set es. readable v"
proof -
  from assms(1) have es: "es = filter (\<lambda>(i, v). v \<noteq> []) (map (\<lambda>(i, f). (i, trim (the (fs_value f)))) m)"
    and v: "\<forall>(i, f)\<in>set m. fs_value f \<noteq> None"
    by (auto simp: filled_entries_def split: if_splits)
  have "map fst (map (\<lambda>(i, f). (i, trim (the (fs_value f)))) m) = map fst m" by (induction m) auto
  then have "distinct (map fst (map (\<lambda>(i, f). (i, trim (the (fs_value f)))) m))"
    using field_map_distinct [OF assms(2)] by (simp only:)
  then show "distinct (map fst es)" unfolding es by (rule distinct_map_filter)
  show "\<forall>(i, v)\<in>set es. readable v"
    using v assms(3) trim_readable unfolding es by fastforce
qed

text \<open>A sealed item opens for whoever has the private key it was sealed with.\<close>

definition holds_sealed :: "sealed_item \<Rightarrow> Item \<Rightarrow> bool" where
  "holds_sealed s item \<longleftrightarrow> i_fields item = Some (si_fields s)
     \<and> i_owner_dek_wrapped item = Some (si_owner_dek_wrapped s)
     \<and> i_owner_wrap_nonce item = Some (si_owner_wrap_nonce s)"

lemma seal_item_parts:
  assumes "seal_item wc dek privateKey m r = (Inr s, r')"
  obtains w n r1 entries fs where "sealDEKWithKEK wc dek privateKey r = (Inr (w, n), r1)"
    "filled_entries m = Inr entries" "encrypt_entries wc dek 0 entries r1 = (Inr fs, r')"
    "s = \<lparr>si_fields = fs, si_owner_dek_wrapped = toBase64 w, si_owner_wrap_nonce = toBase64 n\<rparr>"
proof -
  obtain w n r1 where k: "sealDEKWithKEK wc dek privateKey r = (Inr (w, n), r1)"
    using assms by (auto simp: seal_item_def split: prod.splits sum.splits)
  obtain entries where e: "filled_entries m = Inr entries"
    using assms k by (auto simp: seal_item_def split: sum.splits)
  obtain fs where "encrypt_entries wc dek 0 entries r1 = (Inr fs, r')"
    "s = \<lparr>si_fields = fs, si_owner_dek_wrapped = toBase64 w, si_owner_wrap_nonce = toBase64 n\<rparr>"
    using assms k e by (auto simp: seal_item_def split: prod.splits sum.splits)
  with k e show thesis by (rule that)
qed

text \<open>The fields of a sealed item under any wrapping that opens to the item's key.\<close>

definition opens_to :: "'r webcrypto \<Rightarrow> Item \<Rightarrow> bytes \<Rightarrow> bytes \<Rightarrow> bool" where
  "opens_to wc item privateKey dek \<longleftrightarrow>
     truthy (i_owner_dek_wrapped item) \<and> truthy (i_owner_wrap_nonce item)
     \<and> open_owner_key (openDEKWithKEK wc) (the (i_owner_dek_wrapped item)) (the (i_owner_wrap_nonce item)) privateKey = Inr dek"

lemma sealed_key_opens:
  assumes "webcrypto_laws wc" and "length privateKey = 32"
    and "sealDEKWithKEK wc dek privateKey r = (Inr (w, n), r')"
    and "i_owner_dek_wrapped item = Some (toBase64 w)" "i_owner_wrap_nonce item = Some (toBase64 n)"
  shows "opens_to wc item privateKey dek"
proof -
  have "48 \<le> length w" "length n = 12" using kek_box.sealed_length [OF assms(1,3)] by auto
  then have "toBase64 w \<noteq> []" "toBase64 n \<noteq> []" by (auto intro!: toBase64_nonempty)
  with assms(4,5) kek_box.unseal_sealed [OF assms(1,2,3)] show ?thesis
    by (simp add: opens_to_def open_owner_key_def base64_back)
qed

lemma opens_on_desktop:
  assumes "opens_to wc item privateKey dek"
  shows "open_owner_key (cl_openDEKWithKEK wc) (the (i_owner_dek_wrapped item)) (the (i_owner_wrap_nonce item)) privateKey
    = Inr dek"
  using assms
  by (auto simp: opens_to_def open_owner_key_def openDEKWithKEK_def cl_openDEKWithKEK_def cl_deriveWrapKey_def
      Let_def split: sum.splits if_splits)

lemma opened_item_decrypts:
  assumes "opens_to wc item privateKey dek"
  shows "decrypt_item wc (openDEKWithKEK wc) (Some item) (Some privateKey) = Decrypted (decrypt_all wc dek (nullish (i_fields item) []))"
    "decrypt_item wc (cl_openDEKWithKEK wc) (Some item) (Some privateKey) = Decrypted (decrypt_all wc dek (nullish (i_fields item) []))"
  using assms opens_on_desktop [OF assms]
  by (auto simp: opens_to_def decrypt_item_def decrypt_start_def decrypt_settled_def)

lemma sealed_item_decrypts:
  assumes "webcrypto_laws wc" and "length privateKey = 32" and "seal_item wc dek privateKey m r = (Inr s, r')"
    and "holds_sealed s item"
  shows "decrypt_item wc (openDEKWithKEK wc) (Some item) (Some privateKey) = Decrypted (decrypt_all wc dek (si_fields s))
    \<and> decrypt_item wc (cl_openDEKWithKEK wc) (Some item) (Some privateKey) = Decrypted (decrypt_all wc dek (si_fields s))"
proof -
  obtain w n r1 where "sealDEKWithKEK wc dek privateKey r = (Inr (w, n), r1)"
    "s = \<lparr>si_fields = si_fields s, si_owner_dek_wrapped = toBase64 w, si_owner_wrap_nonce = toBase64 n\<rparr>"
    using seal_item_parts [OF assms(3)] by (metis sealed_item.select_convs(1))
  with assms(4) have "opens_to wc item privateKey dek"
    by (intro sealed_key_opens [OF assms(1,2)]) (auto simp: holds_sealed_def dest: arg_cong [of _ _ si_owner_dek_wrapped] arg_cong [of _ _ si_owner_wrap_nonce])
  from opened_item_decrypts [OF this] assms(4) show ?thesis by (simp add: holds_sealed_def)
qed

lemma sealed_fields_decrypt:
  assumes "webcrypto_laws wc" and "field_map_ok m"
    and "\<forall>(i, f)\<in>set m. \<forall>v. fs_value f = Some v \<longrightarrow> well_formed v"
    and "seal_item wc dek privateKey m r = (Inr s, r')"
  shows "filled_entries m = Inr (decrypt_all wc dek (si_fields s))"
proof -
  obtain w n r1 entries fs where p: "sealDEKWithKEK wc dek privateKey r = (Inr (w, n), r1)"
    "filled_entries m = Inr entries" "encrypt_entries wc dek 0 entries r1 = (Inr fs, r')"
    "s = \<lparr>si_fields = fs, si_owner_dek_wrapped = toBase64 w, si_owner_wrap_nonce = toBase64 n\<rparr>"
    using seal_item_parts [OF assms(4)] .
  note en = filled_entries_D [OF p(2) assms(2,3)]
  have "decrypt_all wc dek fs = entries"
    using decrypt_all_entries [OF encrypt_entries_open [OF assms(1) en(2) p(3)]] foldl_update_fresh [OF en(1)]
    by (simp add: decrypt_all_def)
  with p show ?thesis by simp
qed


subsection \<open>What a saved form has sent\<close>

lemma submit_closed:
  assumes "submit_request net hook (env, r) = (Closed, env', r')"
  shows "r' = r \<and> (\<exists>res ks. run_mutation net hook env = (Inr res, ks, env'))"
  using assms by (auto simp: submit_request_def split: prod.splits sum.splits)

lemma create_closed:
  assumes "form_handleSubmit wc js net uuid folderId None user (Some privateKey) form (env, r) = (Closed, env', r')"
  obtains dek r1 s expires res ks where "generateDEK wc r = (dek, r1)"
    "seal_item wc dek privateKey (fm_fields form) r1 = (Inr s, r')"
    "expires_json js (fm_expiresAt form) = Inr expires"
    "run_mutation net (useCreateItemMutation folderId
       (create_json uuid folderId form expires (rotation_json js (fm_rotationIntervalDays form)) s)) env = (Inr res, ks, env')"
proof -
  obtain dek r1 where g: "generateDEK wc r = (dek, r1)" by fastforce
  obtain x r2 where x: "seal_item wc dek privateKey (fm_fields form) r1 = (x, r2)" by fastforce
  from assms g x obtain s where s: "x = Inr s"
    by (auto simp: form_handleSubmit_def split: if_splits sum.splits)
  from assms g x s obtain expires where e: "expires_json js (fm_expiresAt form) = Inr expires"
    by (auto simp: form_handleSubmit_def split: if_splits sum.splits)
  from assms g x s e have "submit_request net (useCreateItemMutation folderId
      (create_json uuid folderId form expires (rotation_json js (fm_rotationIntervalDays form)) s)) (env, r2) = (Closed, env', r')"
    by (auto simp: form_handleSubmit_def split: if_splits)
  with submit_closed that g x s e show thesis by metis
qed

lemma update_closed:
  assumes "form_handleSubmit wc js net uuid folderId (Some itemId) user (Some privateKey) form (env, r) = (Closed, env', r')"
    and "(case fm_editDek form of Some k \<Rightarrow> (k, r) | None \<Rightarrow> generateDEK wc r) = (dek, r1)"
  obtains s expires res ks where "seal_item wc dek privateKey (fm_fields form) r1 = (Inr s, r')"
    "expires_json js (fm_expiresAt form) = Inr expires"
    "run_mutation net (useUpdateItemMutation itemId folderId
       (update_json form expires (rotation_json js (fm_rotationIntervalDays form)) s)) env = (Inr res, ks, env')"
proof -
  obtain x r2 where x: "seal_item wc dek privateKey (fm_fields form) r1 = (x, r2)" by fastforce
  from assms x obtain s where s: "x = Inr s"
    by (auto simp: form_handleSubmit_def split: if_splits sum.splits)
  from assms x s obtain expires where e: "expires_json js (fm_expiresAt form) = Inr expires"
    by (auto simp: form_handleSubmit_def split: if_splits sum.splits)
  from assms x s e have "submit_request net (useUpdateItemMutation itemId folderId
      (update_json form expires (rotation_json js (fm_rotationIntervalDays form)) s)) (env, r2) = (Closed, env', r')"
    by (auto simp: form_handleSubmit_def split: if_splits)
  with submit_closed that x s e show thesis by metis
qed

text \<open>The values a loaded form starts with are those the item page shows.\<close>

lemma decrypt_all_map_of:
  "map_of (foldl (\<lambda>out f. case decrypt_stored wc dek f of
       None \<Rightarrow> out | Some plain \<Rightarrow> AList.update (if_field_definition_id f) plain out) acc fs) i = vs
   \<Longrightarrow> field_map_ok m \<Longrightarrow> map_of m i = (case map_of acc i of Some v \<Rightarrow> Some \<lparr>fs_value = Some v, fs_visible = False\<rparr> | None \<Rightarrow> m0)
   \<Longrightarrow> map_of (load_fields wc dek fs m) i = (case vs of Some v \<Rightarrow> Some \<lparr>fs_value = Some v, fs_visible = False\<rparr> | None \<Rightarrow> m0)"
proof (induction fs arbitrary: acc m)
  case Nil
  then show ?case by (simp add: load_fields_def)
next
  case (Cons f fs)
  show ?case
  proof (cases "decrypt_stored wc dek f")
    case None
    with Cons show ?thesis by (simp add: load_fields_def)
  next
    case (Some plain)
    let ?m = "obj_set (if_field_definition_id f) \<lparr>fs_value = Some plain, fs_visible = False\<rparr> m"
    have "map_of (load_fields wc dek fs ?m) i
        = (case vs of Some v \<Rightarrow> Some \<lparr>fs_value = Some v, fs_visible = False\<rparr> | None \<Rightarrow> m0)"
      using Cons.prems Some
      by (intro Cons.IH [of "AList.update (if_field_definition_id f) plain acc"])
        (auto simp: map_of_obj_set update_conv)
    with Some show ?thesis by (simp add: load_fields_def)
  qed
qed

lemma initial_values:
  assumes "initial_for t types defs = Some m" and "map_of m i = Some f"
  shows "fs_value f = Some []"
proof -
  have "\<forall>(i, f)\<in>set m. f = empty_field \<Longrightarrow>
      \<forall>(i, f)\<in>set (foldl (\<lambda>m key. case find (\<lambda>d. fd_key d = key) defs of
        None \<Rightarrow> m | Some d \<Rightarrow> obj_set (fd_id d) empty_field m) m ks). f = empty_field" for m ks
  proof (induction ks arbitrary: m)
    case (Cons k ks)
    have "\<forall>(i, f)\<in>set (obj_set j empty_field m). f = empty_field" for j
      using Cons.prems by (induction j "empty_field" m rule: obj_set.induct) auto
    note step = Cons.IH [OF this] Cons.IH [OF Cons.prems]
    show ?case by (cases "find (\<lambda>d. fd_key d = k) defs"; simp only: foldl_Cons option.case; rule step)
  qed simp
  from this [of "[]"] assms have "f = empty_field"
    by (auto simp: initial_for_def buildInitialFields_def dest!: map_of_SomeD)
  then show ?thesis by (simp add: empty_field_def)
qed

lemma initial_for_ok: "initial_for t types defs = Some m \<Longrightarrow> field_map_ok m"
  by (auto simp: initial_for_def)

lemma filled_map_of:
  assumes "filled_entries m = Inr es" and "field_map_ok m"
  shows "map_of es i = (case map_of m i of None \<Rightarrow> None
    | Some f \<Rightarrow> if trim (the (fs_value f)) = [] then None else Some (trim (the (fs_value f))))"
proof -
  have "distinct (map fst m) \<Longrightarrow> map_of (filter (\<lambda>(i, v). v \<noteq> []) (map (\<lambda>(i, f). (i, g f)) m)) i
      = (case map_of m i of None \<Rightarrow> None | Some f \<Rightarrow> if g f = [] then None else Some (g f))" for g :: "FieldState \<Rightarrow> string"
  proof (induction m)
    case (Cons x m)
    then have "i \<notin> fst ` set m \<Longrightarrow> map_of (filter (\<lambda>(i, v). v \<noteq> []) (map (\<lambda>(i, f). (i, g f)) m)) i = None"
      by (simp add: map_of_eq_None_iff [symmetric])
    with Cons show ?case by (cases x) auto
  qed simp
  from this [OF field_map_distinct [OF assms(2)]] assms(1) show ?thesis
    by (auto simp: filled_entries_def split: if_splits)
qed

subsection \<open>Properties\<close>


lemma blank_initial:
  "map_of (nullish (initial_for t types defs) []) i = Some g \<Longrightarrow> fs_value g = Some []"
  using initial_values by (cases "initial_for t types defs") auto

text \<open>An item that opens is loaded with its key, and with what it decrypts to over blank fields.\<close>

lemma loaded_form:
  assumes "opens_to wc item privateKey dek" and "form = load_edit wc types defs item (Some privateKey) form0"
  shows "fm_editDek form = Some dek" and "field_map_ok (fm_fields form)"
    and "map_of (fm_fields form) i = (case map_of (decrypt_all wc dek (nullish (i_fields item) [])) i of
        Some v \<Rightarrow> Some \<lparr>fs_value = Some v, fs_visible = False\<rparr>
      | None \<Rightarrow> map_of (nullish (initial_for (i_item_type_id item) types defs) []) i)"
proof -
  let ?init = "nullish (initial_for (i_item_type_id item) types defs) []"
  have f: "fm_fields form = load_fields wc dek (nullish (i_fields item) []) ?init"
    using assms by (auto simp: load_edit_def opens_to_def Let_def)
  show "fm_editDek form = Some dek" using assms by (auto simp: load_edit_def opens_to_def Let_def)
  have init_ok: "field_map_ok ?init"
    by (cases "initial_for (i_item_type_id item) types defs") (auto dest: initial_for_ok)
  show "field_map_ok (fm_fields form)" unfolding f by (rule load_fields_ok [OF init_ok])
  show "map_of (fm_fields form) i = (case map_of (decrypt_all wc dek (nullish (i_fields item) [])) i of
      Some v \<Rightarrow> Some \<lparr>fs_value = Some v, fs_visible = False\<rparr> | None \<Rightarrow> map_of ?init i)"
    unfolding f by (rule decrypt_all_map_of [where acc = "[]", OF _ init_ok]) (simp_all add: decrypt_all_def)
qed

lemma loaded_form_well_formed:
  assumes "opens_to wc item privateKey dek" and "form = load_edit wc types defs item (Some privateKey) form0"
    and "\<forall>(i, v)\<in>set (decrypt_all wc dek (nullish (i_fields item) [])). well_formed v"
  shows "\<forall>(i, g)\<in>set (fm_fields form). \<forall>v. fs_value g = Some v \<longrightarrow> well_formed v"
proof (safe)
  fix i g v assume "(i, g) \<in> set (fm_fields form)" "fs_value g = Some v"
  then have "map_of (fm_fields form) i = Some g" using field_map_distinct [OF loaded_form(2) [OF assms(1,2)]] by simp
  then consider "map_of (decrypt_all wc dek (nullish (i_fields item) [])) i = Some v" | "v = []"
    using loaded_form(3) [OF assms(1,2), of i] blank_initial \<open>fs_value g = Some v\<close> by (auto split: option.splits)
  then show "well_formed v"
  proof cases
    case 1
    then show ?thesis using assms(3) by (auto dest!: map_of_SomeD)
  next
    case 2
    then show ?thesis unfolding well_formed_def by (intro exI [of _ "[]"]) simp
  qed
qed

text \<open>The key opens with the item as it was sealed, and as it was before when the server kept its wrapping.\<close>

lemma resealed_item_opens:
  assumes "webcrypto_laws wc" and "length privateKey = 32" and "opens_to wc item privateKey dek"
    and "seal_item wc dek privateKey fm r = (Inr s, r')"
    and "holds_sealed s item' \<or> i_owner_dek_wrapped item' = i_owner_dek_wrapped item \<and> i_owner_wrap_nonce item' = i_owner_wrap_nonce item"
  shows "opens_to wc item' privateKey dek"
  using assms(5)
proof
  assume h: "holds_sealed s item'"
  obtain w n r2 where "sealDEKWithKEK wc dek privateKey r = (Inr (w, n), r2)"
    "si_owner_dek_wrapped s = toBase64 w" "si_owner_wrap_nonce s = toBase64 n"
    using seal_item_parts [OF assms(4)] by (metis sealed_item.select_convs(2,3))
  with h show ?thesis by (intro sealed_key_opens [OF assms(1,2)]) (auto simp: holds_sealed_def)
next
  assume "i_owner_dek_wrapped item' = i_owner_dek_wrapped item \<and> i_owner_wrap_nonce item' = i_owner_wrap_nonce item"
  with assms(3) show ?thesis by (simp add: opens_to_def)
qed

text \<open>
  C10: Saving an item in the web form without touching a field changes values by trimming only. If the
  item's key opened when the form was loaded, the new fields are encrypted under that same key, so
  they open through the old wrapping of the key as well as through the new one, and every field shows
  what it showed before without the white space at its ends; a field that was blank is gone. So a
  value that neither starts nor ends with white space is shown unchanged, while the final newline of a
  stored key, for one, is lost.
\<close>
theorem unchanged_edit_only_trims:
  assumes "webcrypto_laws wc" and "length privateKey = 32" and "opens_to wc item privateKey dek"
    and "\<forall>(i, v)\<in>set (decrypt_all wc dek (nullish (i_fields item) [])). well_formed v"
    and "form = load_edit wc types defs item (Some privateKey) form0"
    and "form_handleSubmit wc js net uuid folderId (Some (i_id item)) user (Some privateKey) form (env, r) = (Closed, env', r')"
  shows "\<exists>s expires res ks. run_mutation net (useUpdateItemMutation (i_id item) folderId
        (update_json form expires (rotation_json js (fm_rotationIntervalDays form)) s)) env = (Inr res, ks, env')
    \<and> (\<forall>item'. i_fields item' = Some (si_fields s) \<longrightarrow> holds_sealed s item'
          \<or> i_owner_dek_wrapped item' = i_owner_dek_wrapped item \<and> i_owner_wrap_nonce item' = i_owner_wrap_nonce item
        \<longrightarrow> (\<exists>vs. decrypt_item wc (openDEKWithKEK wc) (Some item') (Some privateKey) = Decrypted vs
          \<and> (\<forall>i. map_of vs i = (case map_of (decrypt_all wc dek (nullish (i_fields item) [])) i of
                None \<Rightarrow> None | Some v \<Rightarrow> if trim v = [] then None else Some (trim v)))))"
proof -
  let ?old = "decrypt_all wc dek (nullish (i_fields item) [])"
  note loaded = loaded_form [OF assms(3,5)]
  have e: "(case fm_editDek form of Some k \<Rightarrow> (k, r) | None \<Rightarrow> generateDEK wc r) = (dek, r)" by (simp add: loaded(1))
  obtain s expires res ks where u: "seal_item wc dek privateKey (fm_fields form) r = (Inr s, r')"
    "run_mutation net (useUpdateItemMutation (i_id item) folderId
       (update_json form expires (rotation_json js (fm_rotationIntervalDays form)) s)) env = (Inr res, ks, env')"
    using update_closed [OF assms(6) e] by metis
  note new = sealed_fields_decrypt [OF assms(1) loaded(2) loaded_form_well_formed [OF assms(3,5,4)] u(1)]
  have same: "map_of (decrypt_all wc dek (si_fields s)) i
      = (case map_of ?old i of None \<Rightarrow> None | Some v \<Rightarrow> if trim v = [] then None else Some (trim v))" for i
  proof -
    have "trim [] = []" by (simp add: trim_def trimStart_def trimEnd_def)
    with filled_map_of [OF new loaded(2), of i] loaded(3) [of i] blank_initial show ?thesis
      by (auto split: option.splits)
  qed
  have opens: "opens_to wc item' privateKey dek"
    if "holds_sealed s item' \<or> i_owner_dek_wrapped item' = i_owner_dek_wrapped item \<and> i_owner_wrap_nonce item' = i_owner_wrap_nonce item"
    for item'
    using resealed_item_opens [OF assms(1-3) u(1) that] .
  show ?thesis
    using u(2) same opened_item_decrypts(1) [OF opens] by (auto intro!: exI [of _ s])
qed


lemma reducer_values:
  assumes "\<forall>(i, f)\<in>set m. \<forall>v. fs_value f = Some v \<longrightarrow> v = [] \<or> SetField i v \<in> A"
    and "set acts \<subseteq> A" and "\<forall>m'. ResetFields m' \<notin> set acts"
  shows "\<forall>(i, f)\<in>set (foldl fieldReducer m acts). \<forall>v. fs_value f = Some v \<longrightarrow> v = [] \<or> SetField i v \<in> A"
  using assms
proof (induction acts arbitrary: m)
  case Nil
  then show ?case by simp
next
  case (Cons a acts)
  have o: "(j, g) \<in> set (obj_set i f m) \<Longrightarrow> (j, g) = (i, f) \<or> (j, g) \<in> set m" for i f j g
    by (induction i f m rule: obj_set.induct) (auto split: if_splits)
  have "\<forall>(i, f)\<in>set (fieldReducer m a). \<forall>v. fs_value f = Some v \<longrightarrow> v = [] \<or> SetField i v \<in> A"
  proof (cases a)
    case (SetField i v)
    with Cons.prems show ?thesis by (auto dest!: o)
  next
    case (ToggleField i)
    with Cons.prems(1) show ?thesis by (fastforce dest!: o dest: map_of_SomeD split: option.splits)
  next
    case (ResetFields m')
    with Cons.prems(3) show ?thesis by auto
  qed
  from Cons.IH [OF this] Cons.prems(2,3) show ?case by simp
qed

lemma encrypt_entries_ids:
  "encrypt_entries wc dek n es r = (Inr fs, r') \<Longrightarrow> map if_field_definition_id fs = map fst es"
  by (induction wc dek n es r arbitrary: fs r' rule: encrypt_entries.induct) (auto split: prod.splits sum.splits)

text \<open>
  Editing an item whose key does not open replaces the item. The form then shows empty inputs,
  draws a new key and sends, in place of all stored fields, only those typed into it: saved
  without a change, the request deletes every field.
\<close>
theorem editing_unreadable_item_drops_fields:
  assumes "\<forall>dek. \<not> opens_to wc item privateKey dek"
    and "initial_for (i_item_type_id item) types defs = Some blank"
    and "fm_editDek form = fm_editDek (load_edit wc types defs item (Some privateKey) form0)"
    and "fm_fields form = foldl fieldReducer (fm_fields (load_edit wc types defs item (Some privateKey) form0)) acts"
    and "\<forall>m. ResetFields m \<notin> set acts"
    and "form_handleSubmit wc js net uuid folderId (Some (i_id item)) user (Some privateKey) form (env, r) = (Closed, env', r')"
  shows "\<exists>dek r1 s expires res ks. generateDEK wc r = (dek, r1)
    \<and> seal_item wc dek privateKey (fm_fields form) r1 = (Inr s, r')
    \<and> run_mutation net (useUpdateItemMutation (i_id item) folderId
        (update_json form expires (rotation_json js (fm_rotationIntervalDays form)) s)) env = (Inr res, ks, env')
    \<and> (\<forall>f\<in>set (si_fields s). \<exists>v. SetField (if_field_definition_id f) v \<in> set acts \<and> trim v \<noteq> [])"
proof -
  have load: "fm_editDek (load_edit wc types defs item (Some privateKey) form0) = None"
    "fm_fields (load_edit wc types defs item (Some privateKey) form0) = blank"
    using assms(1,2) by (auto simp: load_edit_def opens_to_def Let_def split: sum.splits)
  obtain dek r1 where g: "generateDEK wc r = (dek, r1)" by fastforce
  have e: "(case fm_editDek form of Some k \<Rightarrow> (k, r) | None \<Rightarrow> generateDEK wc r) = (dek, r1)"
    using assms(3) load(1) g by simp
  obtain s expires res ks where u: "seal_item wc dek privateKey (fm_fields form) r1 = (Inr s, r')"
    "run_mutation net (useUpdateItemMutation (i_id item) folderId
       (update_json form expires (rotation_json js (fm_rotationIntervalDays form)) s)) env = (Inr res, ks, env')"
    using update_closed [OF assms(6) e] by metis
  have "\<forall>(i, f)\<in>set blank. \<forall>v. fs_value f = Some v \<longrightarrow> v = [] \<or> SetField i v \<in> set acts"
  proof (safe)
    fix i f v assume "(i, f) \<in> set blank" "fs_value f = Some v" "SetField i v \<notin> set acts"
    then show "v = []"
      using initial_values [OF assms(2), of i f] field_map_distinct [OF initial_for_ok [OF assms(2)]] by simp
  qed
  from reducer_values [OF this order.refl assms(5)]
  have vals: "\<forall>(i, f)\<in>set (fm_fields form). \<forall>v. fs_value f = Some v \<longrightarrow> v = [] \<or> SetField i v \<in> set acts"
    by (simp add: assms(4) load(2))
  obtain w n r2 entries fs where p: "filled_entries (fm_fields form) = Inr entries"
    "encrypt_entries wc dek 0 entries r2 = (Inr fs, r')" "si_fields s = fs"
    using seal_item_parts [OF u(1)] by (metis sealed_item.select_convs(1))
  have "trim [] = []" by (simp add: trim_def trimStart_def trimEnd_def)
  with p(1) vals have ent: "\<exists>v. SetField i v \<in> set acts \<and> trim v \<noteq> []" if "(i, x) \<in> set entries" for i x
    using that by (fastforce simp: filled_entries_def split: if_splits)
  have "\<exists>v. SetField (if_field_definition_id f) v \<in> set acts \<and> trim v \<noteq> []" if "f \<in> set fs" for f
  proof -
    have "if_field_definition_id f \<in> set (map fst entries)"
      using that encrypt_entries_ids [OF p(2)] by (metis imageI list.set_map)
    then show ?thesis using ent by auto
  qed
  with g u p(3) show ?thesis by blast
qed


subsection \<open>Concrete runs\<close>

text \<open>With a session key, sealing fails only on an undefined value.\<close>

lemma encrypt_entries_total:
  assumes "webcrypto_laws wc" and "length dek = 32"
  shows "\<exists>fs r'. encrypt_entries wc dek n es r = (Inr fs, r')"
proof (induction es arbitrary: n r)
  case (Cons e es)
  obtain i v where e: "e = (i, v)" by fastforce
  obtain nonce rn where "wc_random wc NONCE_LEN r = (nonce, rn)" by fastforce
  with assms(2) have "encryptField wc v dek r = (Inr (wc_seal wc dek nonce (TextEncoder_encode v), nonce), rn)"
    by (simp add: encryptField_def crypto_defs)
  moreover obtain fs r' where "encrypt_entries wc dek (Suc n) es rn = (Inr fs, r')" using Cons.IH by blast
  ultimately show ?case by (simp add: e)
qed simp

lemma seal_item_total:
  assumes "webcrypto_laws wc" and "length dek = 32" and "filled_entries m = Inr es"
  shows "\<exists>s r'. seal_item wc dek sk m r = (Inr s, r')"
proof -
  obtain w n r1 where "sealDEKWithKEK wc dek sk r = (Inr (w, n), r1)"
    using assms(2) laws(7) [OF assms(1)]
    by (cases "wc_random wc 12 r"; cases "wc_random wc 32 (snd (wc_random wc 12 r))")
      (auto simp: sealDEKWithKEK_def crypto_defs)
  moreover obtain fs r2 where "encrypt_entries wc dek 0 es r1 = (Inr fs, r2)"
    using encrypt_entries_total [OF assms(1,2)] by blast
  ultimately show ?thesis using assms(3) by (simp add: seal_item_def)
qed

lemma toy_dek: "generateDEK toy_crypto r = (replicate 32 (of_nat r), Suc r)"
  by (simp add: generateDEK_def)

definition demo_item_form :: "field_map \<Rightarrow> item_form" where
  "demo_item_form m = \<lparr>fm_name = ''db'', fm_description = [], fm_itemTypeId = ''1'', fm_fields = m, fm_expiresAt = [],
     fm_rotationIntervalDays = [], fm_editDek = None, fm_useVault = False, fm_vaultMount = ''secret'',
     fm_vaultPath = [], fm_vaultKvVersion = 2, fm_vaultKeyMapping = []\<rparr>"

definition demo_js :: js_values where
  "demo_js = \<lparr>js_Number = (\<lambda>s. JNum (int (read_nat s))), js_iso = Some\<rparr>"

lemma demo_trim: "trim ''db'' = ''db''" "trim '' pw '' = ''pw''" "trim ''pw'' = ''pw''" "trim [] = []"
  by (simp_all add: trim_eval)

lemma demo_well_formed: "well_formed '' pw ''" "well_formed ''pw''"
  unfolding well_formed_def
  by (rule exI [of _ "[32, 112, 119, 32]"], simp add: is_scalar_def utf8_text_def utf8_char_def char_of_def bit_simps)
    (rule exI [of _ "[112, 119]"], simp add: is_scalar_def utf8_text_def utf8_char_def char_of_def bit_simps)

lemma form_closes:
  assumes "generateDEK toy_crypto r = (dek, r1)" and "length dek = 32"
    and "filled_entries (fm_fields form) = Inr es"
    and "trim (fm_name form) \<noteq> []" "fm_itemTypeId form \<noteq> []" "fm_expiresAt form = []"
    and "fm_editDek form = None \<or> fm_editDek form = Some k \<and> length k = 32"
  shows "\<exists>env' r'. form_handleSubmit toy_crypto js scripted uuid folderId target True (Some sk) form
      (demo_env [json_reply (JObj [])], r) = (Closed, env', r')"
proof -
  have w: "we_world (demo_env [json_reply (JObj [])]) = json_reply (JObj []) # []" by (simp add: demo_env_def)
  have sub: "\<exists>env'. submit_request scripted h (demo_env [json_reply (JObj [])], q) = (Closed, env', q)"
    for h and q :: nat
    using scripted_mutation [OF w, of h] by (auto simp: submit_request_def)
  have seal: "\<exists>s q'. seal_item toy_crypto k sk (fm_fields form) q = (Inr s, q')" if "length k = 32" for k q
    using seal_item_total [OF toy_laws that assms(3)] .
  have "length (fst (case fm_editDek form of Some k \<Rightarrow> (k, r) | None \<Rightarrow> generateDEK toy_crypto r)) = 32"
    using assms(1,2,7) by auto
  then obtain dek' q where d: "(case fm_editDek form of Some k \<Rightarrow> (k, r) | None \<Rightarrow> generateDEK toy_crypto r) = (dek', q)"
    "length dek' = 32" by (metis prod.collapse)
  obtain s q1 where s: "seal_item toy_crypto dek' sk (fm_fields form) q = (Inr s, q1)" using seal [OF d(2)] by blast
  obtain s' q2 where s': "seal_item toy_crypto dek sk (fm_fields form) r1 = (Inr s', q2)" using seal [OF assms(2)] by blast
  show ?thesis
    using assms(1,4-6) d s s'
    by (cases target) (simp add: form_handleSubmit_def expires_json_def, metis sub)+
qed


definition demo_wrapped :: bytes where
  "demo_wrapped = replicate 32 9 @ wc_seal toy_crypto (wc_sha256 toy_crypto (replicate 32 7)) (replicate 12 5) (replicate 32 3)"

text \<open>An item whose only field holds \<open>pw\<close> under the key of \<open>demo_wrapped\<close>.\<close>

definition demo_item :: "string option \<Rightarrow> Item" where
  "demo_item wrapped = \<lparr>i_id = ''i'', i_item_type_id = 1, i_name = ''db'', i_description = None,
     i_fields = Some [\<lparr>if_field_definition_id = 1,
       if_value_enc = Some (toBase64 (wc_seal toy_crypto (replicate 32 3) (replicate 12 4) (TextEncoder_encode ''pw''))),
       if_value_nonce = Some (toBase64 (replicate 12 4)), if_position = 0\<rparr>],
     i_owner_dek_wrapped = wrapped, i_owner_wrap_nonce = Some (toBase64 (replicate 12 5)), i_expires_at = None,
     i_rotation_interval_days = None\<rparr>"

lemma demo_item_opens: "opens_to toy_crypto (demo_item (Some (toBase64 demo_wrapped))) (replicate 32 7) (replicate 32 3)"
  by (simp add: opens_to_def demo_item_def open_owner_key_def base64_back toBase64_nonempty demo_wrapped_def
      openDEKWithKEK_def crypto_defs laws(1,3,7) [OF toy_laws])

lemma demo_item_values:
  "decrypt_all toy_crypto (replicate 32 3) (nullish (i_fields (demo_item w)) []) = [(1, ''pw'')]"
proof -
  have "TextDecoder_decode (TextEncoder_encode ''pw'') = ''pw''" by code_simp
  moreover have "wc_seal toy_crypto (replicate 32 3) (replicate 12 4) (TextEncoder_encode ''pw'') \<noteq> []"
    by (simp add: toy_crypto_def TextEncoder_encode_def bytes_of_def)
  ultimately show ?thesis
    by (simp add: decrypt_all_def demo_item_def decrypt_stored_def base64_back toBase64_nonempty decryptField_def
        crypto_defs laws(1) [OF toy_laws])
qed

definition demo_types :: "ItemType list" where
  "demo_types = [\<lparr>it_id = 1, it_key = ''db'', it_label = ''DB'', it_suggested_fields = [''password'']\<rparr>]"

definition demo_defs :: "FieldDefinition list" where
  "demo_defs = [\<lparr>fd_id = 1, fd_key = ''password'', fd_label = ''P'', fd_is_secret = True\<rparr>]"

lemma unchanged_edit_only_trims_witness:
  "\<exists>(s :: sealed_item) vs. decrypt_item toy_crypto (openDEKWithKEK toy_crypto)
      (Some (demo_item (Some (toBase64 demo_wrapped))\<lparr>i_fields := Some (si_fields s)\<rparr>)) (Some (replicate 32 7)) = Decrypted vs
    \<and> map_of vs 1 = Some ''pw''"
proof -
  let ?item = "demo_item (Some (toBase64 demo_wrapped))"
  let ?form = "load_edit toy_crypto demo_types demo_defs ?item (Some (replicate 32 7)) (demo_item_form [])"
  have ld: "fm_editDek ?form = Some (replicate 32 3)" "trim (fm_name ?form) = ''db''" "fm_itemTypeId ?form \<noteq> []"
    "fm_expiresAt ?form = []"
    "fm_fields ?form = load_fields toy_crypto (replicate 32 3) (nullish (i_fields ?item) [])
       (nullish (initial_for (i_item_type_id ?item) demo_types demo_defs) [])"
    using demo_item_opens by (simp_all add: load_edit_def opens_to_def demo_trim) (simp_all add: demo_item_def demo_trim)
  have st: "decrypt_stored toy_crypto (replicate 32 3) (hd (nullish (i_fields ?item) [])) = Some ''pw''"
    using demo_item_values [of "Some (toBase64 demo_wrapped)"]
    by (auto simp: decrypt_all_def demo_item_def split: option.splits)
  then have f: "fm_fields ?form = [(1, \<lparr>fs_value = Some ''pw'', fs_visible = False\<rparr>)]"
    unfolding ld(5) by (simp add: demo_item_def load_fields_def initial_for_def demo_types_def demo_defs_def buildInitialFields_def)
  have e: "filled_entries (fm_fields ?form) = Inr [(1, ''pw'')]" by (simp add: f filled_entries_def demo_trim)
  obtain env' r' where c: "form_handleSubmit toy_crypto demo_js scripted ''u'' ''f'' (Some (i_id ?item)) True (Some (replicate 32 7)) ?form
      (demo_env [json_reply (JObj [])], 1) = (Closed, env', r')"
    using form_closes [OF toy_dek _ e] ld by force
  have wf: "\<forall>(i, v)\<in>set (decrypt_all toy_crypto (replicate 32 3) (nullish (i_fields ?item) [])). well_formed v"
    by (simp add: demo_item_values demo_well_formed)
  from unchanged_edit_only_trims [OF toy_laws _ demo_item_opens wf refl c]
  obtain s where s: "\<forall>item'. i_fields item' = Some (si_fields s) \<longrightarrow> holds_sealed s item'
          \<or> i_owner_dek_wrapped item' = i_owner_dek_wrapped ?item \<and> i_owner_wrap_nonce item' = i_owner_wrap_nonce ?item
        \<longrightarrow> (\<exists>vs. decrypt_item toy_crypto (openDEKWithKEK toy_crypto) (Some item') (Some (replicate 32 7)) = Decrypted vs
          \<and> (\<forall>i. map_of vs i = (case map_of (decrypt_all toy_crypto (replicate 32 3) (nullish (i_fields ?item) [])) i of
                None \<Rightarrow> None | Some v \<Rightarrow> if trim v = [] then None else Some (trim v))))"
    by auto
  have "i_fields (?item\<lparr>i_fields := Some (si_fields s)\<rparr>) = Some (si_fields s)" by simp
  with s obtain vs where "decrypt_item toy_crypto (openDEKWithKEK toy_crypto) (Some (?item\<lparr>i_fields := Some (si_fields s)\<rparr>)) (Some (replicate 32 7)) = Decrypted vs"
    "map_of vs 1 = Some ''pw''"
    by (fastforce simp: demo_item_values demo_trim)
  then show ?thesis by blast
qed

lemma editing_unreadable_item_drops_fields_witness:
  "\<exists>s form r r'. seal_item toy_crypto (replicate 32 1) (replicate 32 7) (fm_fields form) r = (Inr s, r') \<and> si_fields s = []
     \<and> form = load_edit toy_crypto demo_types demo_defs (demo_item None) (Some (replicate 32 7)) (demo_item_form [])"
proof -
  let ?item = "demo_item None"
  let ?form = "load_edit toy_crypto demo_types demo_defs ?item (Some (replicate 32 7)) (demo_item_form [])"
  have n: "\<forall>dek. \<not> opens_to toy_crypto ?item (replicate 32 7) dek" by (simp add: opens_to_def demo_item_def)
  have i: "initial_for (i_item_type_id ?item) demo_types demo_defs = Some [(1, empty_field)]"
    by (simp add: demo_item_def initial_for_def demo_types_def demo_defs_def buildInitialFields_def)
  have ld: "fm_editDek ?form = None" "trim (fm_name ?form) = ''db''" "fm_itemTypeId ?form \<noteq> []" "fm_expiresAt ?form = []"
    "fm_fields ?form = [(1, empty_field)]"
    using i by (simp_all add: load_edit_def demo_item_def demo_trim demo_item_form_def)
  have e: "filled_entries (fm_fields ?form) = Inr []" by (simp add: ld filled_entries_def empty_field_def demo_trim)
  obtain env' r' where c: "form_handleSubmit toy_crypto demo_js scripted ''u'' ''f'' (Some (i_id ?item)) True (Some (replicate 32 7)) ?form
      (demo_env [json_reply (JObj [])], 1) = (Closed, env', r')"
    using form_closes [OF toy_dek _ e] ld by force
  have a: "fm_fields ?form = foldl fieldReducer (fm_fields ?form) []" by simp
  from editing_unreadable_item_drops_fields [OF n i refl a _ c]
  obtain dek r1 s where g: "generateDEK toy_crypto 1 = (dek, r1)"
    "seal_item toy_crypto dek (replicate 32 7) (fm_fields ?form) r1 = (Inr s, r')"
    "\<forall>f\<in>set (si_fields s). \<exists>v. SetField (if_field_definition_id f) v \<in> set [] \<and> trim v \<noteq> []" by auto
  then have "si_fields s = []" by (cases "si_fields s") auto
  with g toy_dek [of 1] show ?thesis by (metis One_nat_def of_nat_1 prod.inject)
qed

end
