(* ===== verification/ItemPanel.thy ===== *)
theory ItemPanel
  imports ItemForm
begin

text \<open>
  The item panel while it is open (\<open>item-detail.tsx\<close> of both applications): the decryption effect and its
  cancelled runs, the values fetched from a vault with their thirty-second timer, and the dynamic
  credential with its countdown and lease timer.
\<close>

section \<open>The decryption effect\<close>

text \<open>The effect runs when the item or the session key changes: the run it started before is
  cancelled, and a new one is under way only when both are there and the item carries its key.\<close>

record detail_state =
  ds_item :: "Item option"
  ds_key :: "bytes option"
  ds_decryption :: DecryptionState
  ds_runs :: "(Item \<times> bytes \<times> bool) list"   \<comment> \<open>item, key, \<open>cancelled\<close>\<close>

datatype detail_event =
    ItemChanges "Item option"
  | KeyChanges "bytes option"
  | RunSettles nat

text \<open>
  A change of the item or of the key and the effect it causes are one step: the rendering between
  them shows the old decryption for one frame at most and no event of the panel falls into it.
\<close>

definition detail_effect :: "Item option \<Rightarrow> bytes option \<Rightarrow> detail_state \<Rightarrow> detail_state" where
  "detail_effect item sessionKey s =
     (let cleaned = map (\<lambda>(i, k, _). (i, k, True)) (ds_runs s);
          d = decrypt_start item sessionKey
      in \<lparr>ds_item = item, ds_key = sessionKey, ds_decryption = d,
          ds_runs = (if d = Pending then cleaned @ [(the item, the sessionKey, False)] else cleaned)\<rparr>)"

fun detail_step :: "'r webcrypto \<Rightarrow> key_opener \<Rightarrow> detail_state \<Rightarrow> detail_event \<Rightarrow> detail_state" where
  "detail_step wc opener s (ItemChanges item) = detail_effect item (ds_key s) s"
| "detail_step wc opener s (KeyChanges k) = detail_effect (ds_item s) k s"
| "detail_step wc opener s (RunSettles n) =
     (case ds_runs s ! n of (i, k, cancelled) \<Rightarrow>
        s\<lparr>ds_runs := take n (ds_runs s) @ drop (Suc n) (ds_runs s),
          ds_decryption := (if cancelled then ds_decryption s else decrypt_settled wc opener i k)\<rparr>)"

fun detail_can :: "detail_state \<Rightarrow> detail_event \<Rightarrow> bool" where
  "detail_can s (RunSettles n) = (n < length (ds_runs s))"
| "detail_can s _ = True"

definition detail_closed :: detail_state where
  "detail_closed = \<lparr>ds_item = None, ds_key = None, ds_decryption = Idle, ds_runs = []\<rparr>"

text \<open>At most one run is not cancelled, and that is the one for what is on screen.\<close>

definition live_runs :: "detail_state \<Rightarrow> (Item \<times> bytes \<times> bool) list" where
  "live_runs s = filter (\<lambda>(i, k, c). \<not> c) (ds_runs s)"

definition detail_inv :: "'r webcrypto \<Rightarrow> key_opener \<Rightarrow> detail_state \<Rightarrow> bool" where
  "detail_inv wc opener s \<longleftrightarrow>
     (if live_runs s = [] then ds_decryption s = decrypt_item wc opener (ds_item s) (ds_key s)
      else ds_decryption s = Pending \<and> decrypt_start (ds_item s) (ds_key s) = Pending
        \<and> live_runs s = [(the (ds_item s), the (ds_key s), False)])"

lemma live_of_cleaned [simp]: "filter (\<lambda>(i, k, c). \<not> c) (map (\<lambda>(i, k, _). (i, k, True)) rs) = []"
  by (induction rs) auto

lemma settled_not_pending [simp]: "decrypt_settled wc opener i k \<noteq> Pending"
  by (simp add: decrypt_settled_def split: sum.splits)

lemma detail_effect_inv: "detail_inv wc opener (detail_effect item k s)"
  by (cases "decrypt_start item k") (simp_all add: detail_inv_def detail_effect_def live_runs_def decrypt_item_def)

lemma filter_split_nth:
  assumes "n < length xs"
  shows "filter P xs = filter P (take n xs) @ (if P (xs ! n) then [xs ! n] else []) @ filter P (drop (Suc n) xs)"
proof -
  have "filter P xs = filter P (take n xs @ xs ! n # drop (Suc n) xs)"
    using id_take_nth_drop [OF assms] by simp
  then show ?thesis by simp
qed

lemma detail_step_inv:
  assumes "detail_inv wc opener s" and "detail_can s e"
  shows "detail_inv wc opener (detail_step wc opener s e)"
proof (cases e)
  case (RunSettles n)
  obtain i k c where r: "ds_runs s ! n = (i, k, c)" by (cases "ds_runs s ! n") auto
  from assms(2) RunSettles have n: "n < length (ds_runs s)" by simp
  let ?s = "detail_step wc opener s e"
  have live: "live_runs s = filter (\<lambda>(i, k, c). \<not> c) (take n (ds_runs s)) @ (if c then [] else [(i, k, c)])
      @ filter (\<lambda>(i, k, c). \<not> c) (drop (Suc n) (ds_runs s))"
    using filter_split_nth [OF n, of "\<lambda>(i, k, c). \<not> c"] r by (simp add: live_runs_def)
  have live': "live_runs ?s = filter (\<lambda>(i, k, c). \<not> c) (take n (ds_runs s)) @ filter (\<lambda>(i, k, c). \<not> c) (drop (Suc n) (ds_runs s))"
    by (simp add: RunSettles r live_runs_def)
  have same: "ds_item ?s = ds_item s" "ds_key ?s = ds_key s"
    "ds_decryption ?s = (if c then ds_decryption s else decrypt_settled wc opener i k)"
    by (simp_all add: RunSettles r)
  show ?thesis
  proof (cases c)
    case True
    have "live_runs ?s = live_runs s" using True by (simp add: live live')
    with assms(1) True same show ?thesis by (simp only: detail_inv_def if_True)
  next
    case False
    with live have "live_runs s \<noteq> []" by simp
    with assms(1) have p: "decrypt_start (ds_item s) (ds_key s) = Pending"
      "live_runs s = [(the (ds_item s), the (ds_key s), False)]"
      by (simp_all add: detail_inv_def)
    with live False have ik: "i = the (ds_item s)" "k = the (ds_key s)" "live_runs ?s = []"
      unfolding live' by (auto simp: append_eq_Cons_conv Cons_eq_append_conv)
    with p(1) same False show ?thesis by (simp add: detail_inv_def decrypt_item_def)
  qed
qed (simp_all add: detail_effect_inv)

interpretation detail_machine: machine detail_can "detail_step wc opener" "detail_inv wc opener"
  by unfold_locales (rule detail_step_inv)

text \<open>
  C13: The panel refines the pure decryption. However items and session keys come and go and whichever
  way the runs they started settle, the panel shows either that it is still working, or exactly what
  the item and key now on screen decrypt to; once no run for them is under way it is the latter. Values
  of an item left behind never come back.
\<close>
theorem panel_shows_current_item:
  assumes "possible_run detail_can (detail_step wc opener) detail_closed es"
  defines "s \<equiv> foldl (detail_step wc opener) detail_closed es"
  shows "ds_decryption s \<in> {Pending, decrypt_item wc opener (ds_item s) (ds_key s)}
    \<and> (ds_runs s = [] \<longrightarrow> ds_decryption s = decrypt_item wc opener (ds_item s) (ds_key s))"
proof -
  have "detail_inv wc opener detail_closed"
    by (simp add: detail_inv_def detail_closed_def live_runs_def decrypt_item_def decrypt_start_def)
  then have "detail_inv wc opener s" unfolding s_def by (rule detail_machine.run_keeps [OF _ assms(1)])
  then show ?thesis by (simp add: detail_inv_def live_runs_def split: if_splits)
qed

lemma panel_shows_current_item_witness:
  "let s = foldl (detail_step toy_crypto (openDEKWithKEK toy_crypto)) detail_closed
       [KeyChanges (Some (replicate 32 7)), ItemChanges (Some (demo_item (Some (toBase64 demo_wrapped)))),
        ItemChanges (Some (demo_item None)), RunSettles 0]
   in ds_decryption s = DecryptionError MissingOwnerKey"
proof -
  let ?es = "[KeyChanges (Some (replicate 32 7)), ItemChanges (Some (demo_item (Some (toBase64 demo_wrapped)))),
        ItemChanges (Some (demo_item None)), RunSettles 0]"
  let ?step = "detail_step toy_crypto (openDEKWithKEK toy_crypto)"
  have k: "truthy (i_owner_dek_wrapped (demo_item (Some (toBase64 demo_wrapped))))" "truthy (i_owner_wrap_nonce (demo_item (Some (toBase64 demo_wrapped))))"
    using demo_item_opens by (simp_all add: opens_to_def)
  have r: "possible_run detail_can ?step detail_closed ?es" "ds_runs (foldl ?step detail_closed ?es) = []"
    "ds_item (foldl ?step detail_closed ?es) = Some (demo_item None)" "ds_key (foldl ?step detail_closed ?es) = Some (replicate 32 7)"
    using k by (simp_all add: detail_effect_def detail_closed_def decrypt_start_def Let_def demo_item_def)
  from panel_shows_current_item [OF r(1)] r(2-4) show ?thesis
    unfolding Let_def by (simp only: ) (simp add: decrypt_item_def decrypt_start_def demo_item_def)
qed

end
