(* ===== verification/PanelSecrets.thy ===== *)
theory PanelSecrets
  imports ItemPanel "HOL-Library.Word"
begin

text \<open>
  The secrets the item panel fetches on demand (\<open>item-detail.tsx\<close> of the web application): values read
  from a vault, cleared after thirty seconds, and dynamic credentials, cleared when their lease ends.
  Time is in milliseconds; timers fire when they are due, before time goes on.
\<close>

subsection \<open>State\<close>

record VaultFieldValue =
  vf_field_key :: string
  vf_value :: string

record DynamicCred =
  dc_username :: string
  dc_password :: string
  dc_lease_id :: string
  dc_lease_duration :: int
  dc_expires_at :: string

datatype panel_timer = VaultClear | DynClear | DynTick

text \<open>A timer is its handle, when it is due, and its callback. The three refs hold handles, armed or
  not. Besides the component's state the record remembers which item each secret was asked for and
  when it arrived, which the code does not keep.\<close>

record panel_state =
  pn_now :: nat
  pn_next :: nat
  pn_armed :: "(nat \<times> nat \<times> panel_timer) list"
  pn_item :: "string option"
  pn_vaultFields :: "VaultFieldValue list option"
  pn_vaultVisible :: bool
  pn_vaultClearTimer :: "nat option"
  pn_vaultAsked :: "string option"       \<comment> \<open>the pending mutation's item\<close>
  pn_dynCred :: "DynamicCred option"
  pn_dynCredVisible :: bool
  pn_dynCountdown :: nat
  pn_dynClearTimer :: "nat option"
  pn_dynTickTimer :: "nat option"
  pn_dynAsked :: "string option"
  pn_vaultFor :: string
  pn_vaultAt :: nat
  pn_credFor :: string
  pn_credAt :: nat

text \<open>A browser keeps a timer's delay in 32 bits; a delay that comes out negative is none.\<close>

definition timer_delay :: "nat \<Rightarrow> nat" where
  "timer_delay ms = nat (sint (word_of_nat ms :: 32 word))"

text \<open>\<open>setTimeout\<close> or \<open>setInterval\<close>, its handle kept in the ref of the callback.\<close>

definition arm_timer :: "panel_timer \<Rightarrow> nat \<Rightarrow> panel_state \<Rightarrow> panel_state" where
  "arm_timer w delay s =
     (let t = pn_next s;
          s1 = s\<lparr>pn_next := t + 1, pn_armed := pn_armed s @ [(t, pn_now s + timer_delay delay, w)]\<rparr>
      in case w of
           VaultClear \<Rightarrow> s1\<lparr>pn_vaultClearTimer := Some t\<rparr>
         | DynClear \<Rightarrow> s1\<lparr>pn_dynClearTimer := Some t\<rparr>
         | DynTick \<Rightarrow> s1\<lparr>pn_dynTickTimer := Some t\<rparr>)"

definition clear_timer :: "nat option \<Rightarrow> panel_state \<Rightarrow> panel_state" where
  "clear_timer r s = s\<lparr>pn_armed := filter (\<lambda>(t, _). r \<noteq> Some t) (pn_armed s)\<rparr>"

definition timer_due :: "nat \<Rightarrow> panel_state \<Rightarrow> (nat \<times> panel_timer) option" where
  "timer_due t s = map_of (pn_armed s) t"

subsection \<open>Operations\<close>

text \<open>Both effects on \<open>itemId\<close>.\<close>

definition panel_select :: "string option \<Rightarrow> panel_state \<Rightarrow> panel_state" where
  "panel_select i s =
     (let s1 = clear_timer (pn_vaultClearTimer s) (s\<lparr>pn_item := i, pn_vaultFields := None, pn_vaultVisible := False\<rparr>)
      in clear_timer (pn_dynTickTimer s1) (clear_timer (pn_dynClearTimer s1)
           (s1\<lparr>pn_dynCred := None, pn_dynCredVisible := False, pn_dynCountdown := 0\<rparr>)))"

definition handleVaultFetch :: "panel_state \<Rightarrow> panel_state" where
  "handleVaultFetch s = s\<lparr>pn_vaultAsked := Some (nullish (pn_item s) [])\<rparr>"

definition vault_answer :: "VaultFieldValue list option \<Rightarrow> panel_state \<Rightarrow> panel_state" where
  "vault_answer answer s =
     (let s0 = s\<lparr>pn_vaultAsked := None\<rparr>
      in case answer of
           None \<Rightarrow> s0
         | Some fs \<Rightarrow>
             arm_timer VaultClear 30000
               (clear_timer (pn_vaultClearTimer s0) (s0\<lparr>pn_vaultFields := Some fs, pn_vaultVisible := True,
                        pn_vaultFor := the (pn_vaultAsked s), pn_vaultAt := pn_now s\<rparr>)))"

definition handleIssueDynamic :: "panel_state \<Rightarrow> panel_state" where
  "handleIssueDynamic s =
     (clear_timer (pn_dynTickTimer s) (clear_timer (pn_dynClearTimer s) s))
       \<lparr>pn_dynCred := None, pn_dynAsked := Some (nullish (pn_item s) [])\<rparr>"

definition lease_secs :: "DynamicCred \<Rightarrow> nat" where
  "lease_secs cred = (if dc_lease_duration cred > 0 then nat (dc_lease_duration cred) else 30)"

definition dynamic_answer :: "DynamicCred option \<Rightarrow> panel_state \<Rightarrow> panel_state" where
  "dynamic_answer answer s =
     (let s0 = s\<lparr>pn_dynAsked := None\<rparr>
      in case answer of
           None \<Rightarrow> s0
         | Some cred \<Rightarrow>
             let secs = lease_secs cred
             in arm_timer DynClear (secs * 1000) (arm_timer DynTick 1000
                  (s0\<lparr>pn_dynCred := Some cred, pn_dynCredVisible := False, pn_dynCountdown := secs,
                     pn_credFor := the (pn_dynAsked s), pn_credAt := pn_now s\<rparr>)))"

text \<open>The request to the server is best effort: its failure is a toast.\<close>

definition handleRevokeDynamic :: "panel_state \<Rightarrow> panel_state" where
  "handleRevokeDynamic s =
     (case pn_dynCred s of
        None \<Rightarrow> s
      | Some cred \<Rightarrow> clear_timer (pn_dynTickTimer s) (clear_timer (pn_dynClearTimer s)
          (s\<lparr>pn_dynCred := None, pn_dynCredVisible := False, pn_dynCountdown := 0\<rparr>)))"

definition revoke_request :: "panel_state \<Rightarrow> (string \<times> string) option" where
  "revoke_request s = map_option (\<lambda>cred. (nullish (pn_item s) [], dc_lease_id cred)) (pn_dynCred s)"

fun timer_fires :: "nat \<Rightarrow> panel_timer \<Rightarrow> panel_state \<Rightarrow> panel_state" where
  "timer_fires t VaultClear s = (clear_timer (Some t) s)\<lparr>pn_vaultFields := None, pn_vaultVisible := False\<rparr>"
| "timer_fires t DynClear s =
     (clear_timer (Some t) s)\<lparr>pn_dynCred := None, pn_dynCredVisible := False, pn_dynCountdown := 0\<rparr>"
| "timer_fires t DynTick s =
     (let s1 = s\<lparr>pn_armed := map (\<lambda>(u, due, w). (u, if u = t then due + 1000 else due, w)) (pn_armed s)\<rparr>
      in if pn_dynCountdown s \<le> 1 then (clear_timer (pn_dynTickTimer s1) s1)\<lparr>pn_dynCountdown := 0\<rparr>
         else s1\<lparr>pn_dynCountdown := pn_dynCountdown s - 1\<rparr>)"

datatype panel_event =
    SelectItem "string option"
  | VaultFetchClick
  | VaultAnswer "VaultFieldValue list option"
  | ToggleVault
  | IssueClick
  | DynAnswer "DynamicCred option"
  | ToggleDyn
  | RevokeClick
  | TimerFires nat
  | Wait nat

fun panel_step :: "panel_state \<Rightarrow> panel_event \<Rightarrow> panel_state" where
  "panel_step s (SelectItem i) = panel_select i s"
| "panel_step s VaultFetchClick = handleVaultFetch s"
| "panel_step s (VaultAnswer a) = vault_answer a s"
| "panel_step s ToggleVault = s\<lparr>pn_vaultVisible := \<not> pn_vaultVisible s\<rparr>"
| "panel_step s IssueClick = handleIssueDynamic s"
| "panel_step s (DynAnswer a) = dynamic_answer a s"
| "panel_step s ToggleDyn = s\<lparr>pn_dynCredVisible := \<not> pn_dynCredVisible s\<rparr>"
| "panel_step s RevokeClick = handleRevokeDynamic s"
| "panel_step s (TimerFires t) = timer_fires t (snd (the (timer_due t s))) s"
| "panel_step s (Wait n) = s\<lparr>pn_now := pn_now s + n\<rparr>"

text \<open>The buttons: fetching and issuing are disabled while their mutation is pending.\<close>

fun panel_can :: "panel_state \<Rightarrow> panel_event \<Rightarrow> bool" where
  "panel_can s VaultFetchClick = (pn_vaultAsked s = None)"
| "panel_can s (VaultAnswer a) = (pn_vaultAsked s \<noteq> None)"
| "panel_can s IssueClick = (pn_dynAsked s = None)"
| "panel_can s (DynAnswer a) = (pn_dynAsked s \<noteq> None)"
| "panel_can s (TimerFires t) = (case timer_due t s of Some (due, _) \<Rightarrow> due \<le> pn_now s | None \<Rightarrow> False)"
| "panel_can s (Wait n) = (\<forall>(t, due, _)\<in>set (pn_armed s). pn_now s + n \<le> due)"
| "panel_can s _ = True"

definition panel_mounted :: panel_state where
  "panel_mounted = \<lparr>pn_now = 0, pn_next = 0, pn_armed = [], pn_item = None,
     pn_vaultFields = None, pn_vaultVisible = False, pn_vaultClearTimer = None, pn_vaultAsked = None,
     pn_dynCred = None, pn_dynCredVisible = False, pn_dynCountdown = 0, pn_dynClearTimer = None,
     pn_dynTickTimer = None, pn_dynAsked = None, pn_vaultFor = [], pn_vaultAt = 0, pn_credFor = [], pn_credAt = 0\<rparr>"

subsection \<open>Invariant\<close>

text \<open>Each callback has at most one armed timer, the one its ref holds; a secret on screen has its timer
  armed for the end of its time, and the countdown's next tick is where it should be.\<close>

fun timer_ref :: "panel_state \<Rightarrow> panel_timer \<Rightarrow> nat option" where
  "timer_ref s VaultClear = pn_vaultClearTimer s"
| "timer_ref s DynClear = pn_dynClearTimer s"
| "timer_ref s DynTick = pn_dynTickTimer s"

definition timers_ok :: "panel_state \<Rightarrow> bool" where
  "timers_ok s \<longleftrightarrow> distinct (map fst (pn_armed s))
     \<and> (\<forall>(t, due, w)\<in>set (pn_armed s). t < pn_next s \<and> pn_now s \<le> due
          \<and> (\<forall>v. timer_ref s v = Some t \<longleftrightarrow> v = w) \<and> (w \<noteq> VaultClear \<longrightarrow> pn_dynAsked s = None))
     \<and> (\<forall>v t. timer_ref s v = Some t \<longrightarrow> t < pn_next s)"

definition vault_timed :: "panel_state \<Rightarrow> bool" where
  "vault_timed s \<longleftrightarrow> pn_vaultFields s \<noteq> None \<longrightarrow>
     (\<exists>t. (t, pn_vaultAt s + 30000, VaultClear) \<in> set (pn_armed s))"

definition lease_timed :: "(nat \<times> nat \<times> panel_timer) list \<Rightarrow> nat \<Rightarrow> nat \<Rightarrow> nat \<Rightarrow> nat \<Rightarrow> bool" where
  "lease_timed timers at now secs countdown \<longleftrightarrow>
     (\<exists>t. (t, at + timer_delay (secs * 1000), DynClear) \<in> set timers)
     \<and> countdown \<le> secs \<and> at + (secs - countdown) * 1000 \<le> now
     \<and> (countdown > 0 \<longrightarrow> (\<exists>u. (u, at + (secs - countdown + 1) * 1000, DynTick) \<in> set timers))"

definition cred_timed :: "panel_state \<Rightarrow> bool" where
  "cred_timed s \<longleftrightarrow> (\<forall>cred. pn_dynCred s = Some cred \<longrightarrow>
     lease_timed (pn_armed s) (pn_credAt s) (pn_now s) (lease_secs cred) (pn_dynCountdown s))"

definition panel_inv :: "panel_state \<Rightarrow> bool" where
  "panel_inv s \<longleftrightarrow> timers_ok s \<and> vault_timed s \<and> cred_timed s"

lemma all_timers: "(\<forall>v. P v) \<longleftrightarrow> P VaultClear \<and> P DynClear \<and> P DynTick"
  by (metis panel_timer.exhaust)

lemma clear_timer_simps [simp]:
  "pn_now (clear_timer r s) = pn_now s" "pn_next (clear_timer r s) = pn_next s"
  "pn_armed (clear_timer r s) = filter (\<lambda>(t, _). r \<noteq> Some t) (pn_armed s)"
  "pn_vaultFields (clear_timer r s) = pn_vaultFields s" "pn_vaultClearTimer (clear_timer r s) = pn_vaultClearTimer s"
  "pn_vaultAt (clear_timer r s) = pn_vaultAt s"
  "pn_dynCred (clear_timer r s) = pn_dynCred s" "pn_dynCountdown (clear_timer r s) = pn_dynCountdown s"
  "pn_dynClearTimer (clear_timer r s) = pn_dynClearTimer s" "pn_dynTickTimer (clear_timer r s) = pn_dynTickTimer s"
  "pn_dynAsked (clear_timer r s) = pn_dynAsked s" "pn_credAt (clear_timer r s) = pn_credAt s"
  "pn_item (clear_timer r s) = pn_item s" "pn_vaultVisible (clear_timer r s) = pn_vaultVisible s"
  "pn_vaultFor (clear_timer r s) = pn_vaultFor s" "pn_credFor (clear_timer r s) = pn_credFor s"
  "pn_vaultAsked (clear_timer r s) = pn_vaultAsked s" "pn_dynCredVisible (clear_timer r s) = pn_dynCredVisible s"
  by (simp_all add: clear_timer_def)

lemma timer_ref_clear [simp]: "timer_ref (clear_timer r s) v = timer_ref s v"
  by (cases v) simp_all

lemma clear_timer_ok: "timers_ok s \<Longrightarrow> timers_ok (clear_timer r s)"
  by (auto simp: timers_ok_def distinct_map_filter)

lemma short_delays [simp]: "timer_delay 1000 = 1000" "timer_delay 30000 = 30000"
  by (simp_all add: timer_delay_def)

text \<open>The fields each part of the invariant does not read.\<close>

lemma timers_ok_frame [simp]:
  "timers_ok (s\<lparr>pn_item := x1\<rparr>) \<longleftrightarrow> timers_ok s"
  "timers_ok (s\<lparr>pn_vaultFields := x2\<rparr>) \<longleftrightarrow> timers_ok s"
  "timers_ok (s\<lparr>pn_vaultVisible := x3\<rparr>) \<longleftrightarrow> timers_ok s"
  "timers_ok (s\<lparr>pn_vaultAsked := x4\<rparr>) \<longleftrightarrow> timers_ok s"
  "timers_ok (s\<lparr>pn_dynCred := x5\<rparr>) \<longleftrightarrow> timers_ok s"
  "timers_ok (s\<lparr>pn_dynCredVisible := x6\<rparr>) \<longleftrightarrow> timers_ok s"
  "timers_ok (s\<lparr>pn_dynCountdown := x7\<rparr>) \<longleftrightarrow> timers_ok s"
  "timers_ok (s\<lparr>pn_vaultFor := x8\<rparr>) \<longleftrightarrow> timers_ok s"
  "timers_ok (s\<lparr>pn_vaultAt := x9\<rparr>) \<longleftrightarrow> timers_ok s"
  "timers_ok (s\<lparr>pn_credFor := x10\<rparr>) \<longleftrightarrow> timers_ok s"
  "timers_ok (s\<lparr>pn_credAt := x11\<rparr>) \<longleftrightarrow> timers_ok s"
  by (simp_all add: timers_ok_def all_timers)

lemma vault_timed_frame [simp]:
  "vault_timed (s\<lparr>pn_item := x12\<rparr>) \<longleftrightarrow> vault_timed s"
  "vault_timed (s\<lparr>pn_vaultVisible := x13\<rparr>) \<longleftrightarrow> vault_timed s"
  "vault_timed (s\<lparr>pn_vaultAsked := x14\<rparr>) \<longleftrightarrow> vault_timed s"
  "vault_timed (s\<lparr>pn_dynCred := x15\<rparr>) \<longleftrightarrow> vault_timed s"
  "vault_timed (s\<lparr>pn_dynCredVisible := x16\<rparr>) \<longleftrightarrow> vault_timed s"
  "vault_timed (s\<lparr>pn_dynCountdown := x17\<rparr>) \<longleftrightarrow> vault_timed s"
  "vault_timed (s\<lparr>pn_vaultFor := x18\<rparr>) \<longleftrightarrow> vault_timed s"
  "vault_timed (s\<lparr>pn_credFor := x19\<rparr>) \<longleftrightarrow> vault_timed s"
  "vault_timed (s\<lparr>pn_credAt := x20\<rparr>) \<longleftrightarrow> vault_timed s"
  "vault_timed (s\<lparr>pn_dynAsked := x21\<rparr>) \<longleftrightarrow> vault_timed s"
  by (simp_all add: vault_timed_def all_timers)

lemma cred_timed_frame [simp]:
  "cred_timed (s\<lparr>pn_item := x22\<rparr>) \<longleftrightarrow> cred_timed s"
  "cred_timed (s\<lparr>pn_vaultFields := x23\<rparr>) \<longleftrightarrow> cred_timed s"
  "cred_timed (s\<lparr>pn_vaultVisible := x24\<rparr>) \<longleftrightarrow> cred_timed s"
  "cred_timed (s\<lparr>pn_vaultAsked := x25\<rparr>) \<longleftrightarrow> cred_timed s"
  "cred_timed (s\<lparr>pn_dynCredVisible := x26\<rparr>) \<longleftrightarrow> cred_timed s"
  "cred_timed (s\<lparr>pn_vaultFor := x27\<rparr>) \<longleftrightarrow> cred_timed s"
  "cred_timed (s\<lparr>pn_vaultAt := x28\<rparr>) \<longleftrightarrow> cred_timed s"
  "cred_timed (s\<lparr>pn_credFor := x29\<rparr>) \<longleftrightarrow> cred_timed s"
  "cred_timed (s\<lparr>pn_dynAsked := x30\<rparr>) \<longleftrightarrow> cred_timed s"
  by (simp_all add: cred_timed_def all_timers)

lemma timers_ok_asked:
  assumes "timers_ok s" and "a = None \<or> (\<forall>(t, due, w)\<in>set (pn_armed s). w = VaultClear)"
  shows "timers_ok (s\<lparr>pn_dynAsked := a\<rparr>)"
proof -
  have "timer_ref (s\<lparr>pn_dynAsked := a\<rparr>) v = timer_ref s v" for v by (cases v) simp_all
  with assms show ?thesis by (auto simp: timers_ok_def)
qed

lemma arm_timer_simps [simp]:
  "pn_now (arm_timer w d s) = pn_now s" "pn_next (arm_timer w d s) = pn_next s + 1"
  "pn_armed (arm_timer w d s) = pn_armed s @ [(pn_next s, pn_now s + timer_delay d, w)]"
  "timer_ref (arm_timer w d s) v = (if v = w then Some (pn_next s) else timer_ref s v)"
  "pn_vaultFields (arm_timer w d s) = pn_vaultFields s" "pn_vaultAt (arm_timer w d s) = pn_vaultAt s"
  "pn_dynCred (arm_timer w d s) = pn_dynCred s" "pn_dynCountdown (arm_timer w d s) = pn_dynCountdown s"
  "pn_dynAsked (arm_timer w d s) = pn_dynAsked s" "pn_credAt (arm_timer w d s) = pn_credAt s"
  "pn_item (arm_timer w d s) = pn_item s" "pn_vaultVisible (arm_timer w d s) = pn_vaultVisible s"
  "pn_vaultFor (arm_timer w d s) = pn_vaultFor s" "pn_credFor (arm_timer w d s) = pn_credFor s"
  "pn_dynCredVisible (arm_timer w d s) = pn_dynCredVisible s"
  by (cases w; cases v; simp add: arm_timer_def Let_def; fail)+

lemma arm_timer_ok:
  assumes "timers_ok s" and "\<forall>(t, due, v)\<in>set (pn_armed s). v \<noteq> w" and "w \<noteq> VaultClear \<longrightarrow> pn_dynAsked s = None"
  shows "timers_ok (arm_timer w delay s)"
proof -
  have old: "t < pn_next s" "pn_now s \<le> due" "(timer_ref s v = Some t) = (v = w')" "w' \<noteq> VaultClear \<Longrightarrow> pn_dynAsked s = None"
    "w' \<noteq> w" if "(t, due, w') \<in> set (pn_armed s)" for t due w' v
    using assms(1,2) that by (auto simp: timers_ok_def)
  have refs: "timer_ref s v \<noteq> Some (pn_next s)" for v using assms(1) by (auto simp: timers_ok_def)
  have "pn_next s \<notin> fst ` set (pn_armed s)" using old(1) by force
  then have "distinct (map fst (pn_armed (arm_timer w delay s)))" using assms(1) by (simp add: timers_ok_def)
  moreover have "timer_ref (arm_timer w delay s) v = Some t \<Longrightarrow> t < pn_next (arm_timer w delay s)" for v t
    using assms(1) by (auto simp: timers_ok_def less_Suc_eq split: if_splits)
  moreover have "t < pn_next (arm_timer w delay s) \<and> pn_now (arm_timer w delay s) \<le> due
      \<and> (\<forall>v. (timer_ref (arm_timer w delay s) v = Some t) = (v = w'))
      \<and> (w' \<noteq> VaultClear \<longrightarrow> pn_dynAsked (arm_timer w delay s) = None)"
    if "(t, due, w') \<in> set (pn_armed (arm_timer w delay s))" for t due w'
  proof (cases "(t, due, w') \<in> set (pn_armed s)")
    case True
    from old [OF this] show ?thesis by (auto simp: less_Suc_eq)
  next
    case False
    with that have "t = pn_next s" "due = pn_now s + timer_delay delay" "w' = w" by auto
    with refs assms(3) show ?thesis by simp
  qed
  ultimately show ?thesis unfolding timers_ok_def by blast
qed

lemma arm_timer_keeps [simp]: "(t, due, v) \<in> set (pn_armed s) \<Longrightarrow> (t, due, v) \<in> set (pn_armed (arm_timer w d s))"
  by simp

lemma cleared_gone:
  assumes "timers_ok s" and "(t, due, w) \<in> set (pn_armed (clear_timer (timer_ref s w) s))"
  shows False
  using assms by (auto simp: timers_ok_def)

lemma others_stay:
  assumes "timers_ok s" and "v \<noteq> w"
  shows "(t, due, w) \<in> set (pn_armed (clear_timer (timer_ref s v) s)) \<longleftrightarrow> (t, due, w) \<in> set (pn_armed s)"
  using assms by (auto simp: timers_ok_def)

lemma asked_no_dyn: "timers_ok s \<Longrightarrow> pn_dynAsked s \<noteq> None \<Longrightarrow> (t, due, w) \<in> set (pn_armed s) \<Longrightarrow> w = VaultClear"
  by (cases w) (auto simp: timers_ok_def)

lemma select_ok: "panel_inv s \<Longrightarrow> panel_inv (panel_select i s)"
  by (simp add: panel_inv_def panel_select_def Let_def clear_timer_ok vault_timed_def cred_timed_def)

lemma vault_answer_ok:
  assumes "panel_inv s"
  shows "panel_inv (vault_answer a s)"
proof (cases a)
  case None
  with assms show ?thesis by (simp add: panel_inv_def vault_answer_def)
next
  case (Some fs)
  let ?s0 = "s\<lparr>pn_vaultAsked := None, pn_vaultFields := Some fs, pn_vaultVisible := True,
               pn_vaultFor := the (pn_vaultAsked s), pn_vaultAt := pn_now s\<rparr>"
  have s: "vault_answer a s = arm_timer VaultClear 30000 (clear_timer (timer_ref ?s0 VaultClear) ?s0)"
    by (simp add: Some vault_answer_def)
  have ok: "timers_ok ?s0" "timers_ok (clear_timer (timer_ref ?s0 VaultClear) ?s0)"
    using assms clear_timer_ok by (simp_all add: panel_inv_def del: timer_ref.simps)
  then have "timers_ok (vault_answer a s)"
    unfolding s using cleared_gone [OF ok(1), of _ _ VaultClear] by (intro arm_timer_ok) auto
  moreover have "cred_timed ?s0" using assms by (simp add: panel_inv_def)
  then have "cred_timed (vault_answer a s)"
    unfolding s cred_timed_def lease_timed_def using others_stay [OF ok(1), of VaultClear DynClear] others_stay [OF ok(1), of VaultClear DynTick]
    by (fastforce simp del: timer_ref.simps)
  moreover have "vault_timed (vault_answer a s)" unfolding s vault_timed_def by auto
  ultimately show ?thesis by (simp add: panel_inv_def)
qed

lemma issue_ok:
  assumes "panel_inv s"
  shows "panel_inv (handleIssueDynamic s)"
proof -
  let ?s1 = "clear_timer (timer_ref s DynClear) s"
  let ?s2 = "clear_timer (timer_ref ?s1 DynTick) ?s1"
  have ok: "timers_ok s" "timers_ok ?s1" "timers_ok ?s2" using assms by (simp_all add: panel_inv_def clear_timer_ok)
  have "w = VaultClear" if "(t, due, w) \<in> set (pn_armed ?s2)" for t due w
  proof (cases w)
    case DynClear
    have "(t, due, DynClear) \<in> set (pn_armed ?s1)" using that DynClear by simp
    then show ?thesis using cleared_gone [OF ok(1)] by blast
  next
    case DynTick
    with that cleared_gone [OF ok(2)] show ?thesis by blast
  qed
  then have "timers_ok (?s2\<lparr>pn_dynCred := None, pn_dynAsked := Some (nullish (pn_item s) [])\<rparr>)"
    using ok(3) by (intro timers_ok_asked) auto
  moreover have "vault_timed ?s2"
    using assms others_stay [OF ok(1), of DynClear VaultClear] others_stay [OF ok(2), of DynTick VaultClear]
    by (auto simp: panel_inv_def vault_timed_def)
  ultimately show ?thesis by (simp add: panel_inv_def handleIssueDynamic_def cred_timed_def)
qed

lemma dynamic_answer_ok:
  assumes "panel_inv s" and "pn_dynAsked s \<noteq> None"
  shows "panel_inv (dynamic_answer a s)"
proof -
  let ?s0 = "s\<lparr>pn_dynAsked := None\<rparr>"
  have ok: "timers_ok ?s0" using assms(1) by (simp add: panel_inv_def timers_ok_asked)
  have no: "\<forall>(t, due, w)\<in>set (pn_armed s). w = VaultClear" using assms asked_no_dyn by (auto simp: panel_inv_def)
  show ?thesis
  proof (cases a)
    case None
    with assms(1) ok show ?thesis by (simp add: panel_inv_def dynamic_answer_def)
  next
    case (Some cred)
    let ?s1 = "?s0\<lparr>pn_dynCred := Some cred, pn_dynCredVisible := False, pn_dynCountdown := lease_secs cred,
                     pn_credFor := the (pn_dynAsked s), pn_credAt := pn_now s\<rparr>"
    have s: "dynamic_answer a s = arm_timer DynClear (lease_secs cred * 1000) (arm_timer DynTick 1000 ?s1)"
      by (simp add: Some dynamic_answer_def Let_def)
    have "timers_ok ?s1" using ok by simp
    then have "timers_ok (arm_timer DynTick 1000 ?s1)" by (rule arm_timer_ok) (use no in auto)
    then have "timers_ok (dynamic_answer a s)" unfolding s by (rule arm_timer_ok) (use no in auto)
    moreover have "vault_timed (dynamic_answer a s)"
      using assms(1) unfolding s by (auto simp: panel_inv_def vault_timed_def)
    moreover have "cred_timed (dynamic_answer a s)" unfolding s by (auto simp: cred_timed_def lease_timed_def)
    ultimately show ?thesis by (simp add: panel_inv_def)
  qed
qed

lemma revoke_ok: "panel_inv s \<Longrightarrow> panel_inv (handleRevokeDynamic s)"
proof -
  assume i: "panel_inv s"
  let ?s0 = "s\<lparr>pn_dynCred := None, pn_dynCredVisible := False, pn_dynCountdown := 0\<rparr>"
  let ?s1 = "clear_timer (timer_ref ?s0 DynClear) ?s0"
  have ok: "timers_ok ?s0" "timers_ok ?s1" using i by (simp_all add: panel_inv_def clear_timer_ok)
  have "vault_timed (clear_timer (timer_ref ?s1 DynTick) ?s1)"
    using i others_stay [OF ok(1), of DynClear VaultClear] others_stay [OF ok(2), of DynTick VaultClear]
    by (auto simp: panel_inv_def vault_timed_def)
  with i ok show ?thesis
    by (cases "pn_dynCred s") (simp_all add: handleRevokeDynamic_def panel_inv_def clear_timer_ok cred_timed_def)
qed

lemma wait_ok: "panel_inv s \<Longrightarrow> panel_can s (Wait n) \<Longrightarrow> panel_inv (panel_step s (Wait n))"
proof -
  assume "panel_inv s" "panel_can s (Wait n)"
  moreover have "timer_ref (s\<lparr>pn_now := pn_now s + n\<rparr>) v = timer_ref s v" for v by (cases v) simp_all
  ultimately show ?thesis
    by (auto simp: panel_inv_def timers_ok_def vault_timed_def cred_timed_def lease_timed_def split_beta)
qed

text \<open>A firing timer is the one of its callback's ref.\<close>

lemma due_timer:
  assumes "panel_inv s" and "panel_can s (TimerFires t)"
  obtains w where "(t, pn_now s, w) \<in> set (pn_armed s)" "timer_due t s = Some (pn_now s, w)" "timer_ref s w = Some t"
proof -
  obtain due w where d: "timer_due t s = Some (due, w)" "due \<le> pn_now s"
    using assms(2) by (auto split: option.splits)
  then have m: "(t, due, w) \<in> set (pn_armed s)" by (auto simp: timer_due_def dest: map_of_SomeD)
  with assms(1) have "pn_now s \<le> due" "timer_ref s w = Some t" by (auto simp: panel_inv_def timers_ok_def)
  with d m that show ?thesis by auto
qed

definition ticked :: "nat \<Rightarrow> panel_state \<Rightarrow> panel_state" where
  "ticked t s = s\<lparr>pn_armed := map (\<lambda>(u, due, w). (u, if u = t then due + 1000 else due, w)) (pn_armed s)\<rparr>"

lemma ticked_armed:
  "(u, due, w) \<in> set (pn_armed (ticked t s)) \<longleftrightarrow>
     (if u = t then \<exists>d. due = d + 1000 \<and> (t, d, w) \<in> set (pn_armed s) else (u, due, w) \<in> set (pn_armed s))"
  by (force simp: ticked_def)

lemma ticked_simps [simp]:
  "pn_now (ticked t s) = pn_now s" "pn_next (ticked t s) = pn_next s" "map fst (pn_armed (ticked t s)) = map fst (pn_armed s)"
  "pn_vaultFields (ticked t s) = pn_vaultFields s" "pn_vaultAt (ticked t s) = pn_vaultAt s"
  "pn_dynCred (ticked t s) = pn_dynCred s" "pn_dynCountdown (ticked t s) = pn_dynCountdown s"
  "pn_dynAsked (ticked t s) = pn_dynAsked s" "pn_credAt (ticked t s) = pn_credAt s" "timer_ref (ticked t s) w = timer_ref s w"
  by (cases w; simp add: ticked_def comp_def case_prod_unfold)+

lemma ticked_ok: "timers_ok s \<Longrightarrow> timers_ok (ticked t s)"
  unfolding timers_ok_def split_beta
proof (elim conjE, intro conjI)
  assume a: "\<forall>p\<in>set (pn_armed s). fst p < pn_next s \<and> pn_now s \<le> fst (snd p) \<and>
      (\<forall>v. (timer_ref s v = Some (fst p)) = (v = snd (snd p))) \<and> (snd (snd p) \<noteq> VaultClear \<longrightarrow> pn_dynAsked s = None)"
  show "\<forall>p\<in>set (pn_armed (ticked t s)). fst p < pn_next (ticked t s) \<and> pn_now (ticked t s) \<le> fst (snd p) \<and>
      (\<forall>v. (timer_ref (ticked t s) v = Some (fst p)) = (v = snd (snd p))) \<and>
      (snd (snd p) \<noteq> VaultClear \<longrightarrow> pn_dynAsked (ticked t s) = None)"
  proof (clarify, unfold fst_conv snd_conv)
    fix u due w assume "(u, due, w) \<in> set (pn_armed (ticked t s))"
    then obtain d where "d \<le> due" "(u, d, w) \<in> set (pn_armed s)" by (metis le_add1 order_refl ticked_armed)
    with a show "u < pn_next (ticked t s) \<and> pn_now (ticked t s) \<le> due \<and>
      (\<forall>v. (timer_ref (ticked t s) v = Some u) = (v = w)) \<and> (w \<noteq> VaultClear \<longrightarrow> pn_dynAsked (ticked t s) = None)"
      by fastforce
  qed
qed simp_all

lemma armed_ref: "timers_ok s \<Longrightarrow> (u, due, w) \<in> set (pn_armed s) \<Longrightarrow> timer_ref s v = Some u \<longleftrightarrow> v = w"
  by (auto simp: timers_ok_def simp del: timer_ref.simps)

lemma tick_ok:
  assumes "panel_inv s" and "(t, pn_now s, DynTick) \<in> set (pn_armed s)" and "timer_ref s DynTick = Some t"
  shows "panel_inv (timer_fires t DynTick s)"
proof -
  let ?s1 = "ticked t s"
  let ?s2 = "clear_timer (timer_ref ?s1 DynTick) ?s1"
  have ok: "timers_ok s" "timers_ok ?s1" using assms(1) by (simp_all add: panel_inv_def ticked_ok)
  have tick: "u = t" "due = pn_now s" if m: "(u, due, DynTick) \<in> set (pn_armed s)" for u due
  proof -
    have "timer_ref s DynTick = Some u" using ok(1) m by (auto simp: timers_ok_def simp del: timer_ref.simps)
    with assms(3) show u: "u = t" by simp
    have "distinct (map fst (pn_armed s))" using ok(1) by (simp add: timers_ok_def)
    from eq_key_imp_eq_value [OF this] m assms(2) u show "due = pn_now s" by blast
  qed
  have other: "u \<noteq> t" if "(u, due, v) \<in> set (pn_armed s)" "v \<noteq> DynTick" for u due v
    using armed_ref [OF ok(1) that(1), of DynTick] that(2) assms(3) by auto
  have keep: "(u, due, v) \<in> set (pn_armed ?s1)" if "(u, due, v) \<in> set (pn_armed s)" "v \<noteq> DynTick" for u due v
    using other [OF that] that by (simp add: ticked_armed)
  have vt: "vault_timed ?s1" "vault_timed ?s2"
    using assms(1) keep [of _ _ VaultClear] others_stay [OF ok(2), of DynTick VaultClear]
    by (auto simp: panel_inv_def vault_timed_def simp del: clear_timer_simps(3) timer_ref.simps)
  have ct: "pn_credAt s + lease_secs cred * 1000 = pn_now s + (pn_dynCountdown s - 1) * 1000"
    "pn_dynCountdown s \<le> lease_secs cred"
    if "pn_dynCred s = Some cred" "pn_dynCountdown s > 0" for cred
  proof -
    from assms(1) that obtain u where "(u, pn_credAt s + (lease_secs cred - pn_dynCountdown s + 1) * 1000, DynTick) \<in> set (pn_armed s)"
      and c: "pn_dynCountdown s \<le> lease_secs cred" by (auto simp: panel_inv_def cred_timed_def lease_timed_def)
    from this(1) have "pn_credAt s + (lease_secs cred - pn_dynCountdown s + 1) * 1000 = pn_now s" by (rule tick(2))
    with c that(2) show "pn_credAt s + lease_secs cred * 1000 = pn_now s + (pn_dynCountdown s - 1) * 1000"
      "pn_dynCountdown s \<le> lease_secs cred" by (simp_all add: algebra_simps)
  qed
  have clear: "\<exists>u. (u, pn_credAt s + timer_delay (lease_secs cred * 1000), DynClear) \<in> set (pn_armed ?s1)"
    "pn_credAt s + (lease_secs cred - pn_dynCountdown s) * 1000 \<le> pn_now s" if "pn_dynCred s = Some cred" for cred
    using assms(1) that keep [of _ _ DynClear] by (auto simp: panel_inv_def cred_timed_def lease_timed_def)
  show ?thesis
  proof (cases "pn_dynCountdown s \<le> 1")
    case True
    have s: "timer_fires t DynTick s = ?s2\<lparr>pn_dynCountdown := 0\<rparr>"
      using True by (simp add: ticked_def Let_def)
    have "lease_timed (pn_armed ?s2) (pn_credAt s) (pn_now s) (lease_secs cred) 0" if cred: "pn_dynCred s = Some cred" for cred
    proof -
      have "pn_credAt s + lease_secs cred * 1000 \<le> pn_now s"
        using True ct [OF cred] clear(2) [OF cred] by (cases "pn_dynCountdown s") auto
      moreover have "\<exists>u. (u, pn_credAt s + timer_delay (lease_secs cred * 1000), DynClear) \<in> set (pn_armed ?s2)"
        using clear(1) [OF cred] others_stay [OF ok(2), of DynTick DynClear] by blast
      ultimately show ?thesis by (simp add: lease_timed_def del: clear_timer_simps(3) timer_ref.simps)
    qed
    then have "cred_timed (?s2\<lparr>pn_dynCountdown := 0\<rparr>)" by (simp add: cred_timed_def del: clear_timer_simps(3) timer_ref.simps)
    with vt clear_timer_ok [OF ok(2)] show ?thesis unfolding s panel_inv_def by simp
  next
    case False
    let ?s3 = "?s1\<lparr>pn_dynCountdown := pn_dynCountdown s - 1\<rparr>"
    have s: "timer_fires t DynTick s = ?s3" using False by (simp add: ticked_def Let_def)
    have "lease_timed (pn_armed ?s1) (pn_credAt s) (pn_now s) (lease_secs cred) (pn_dynCountdown s - 1)"
      if cred: "pn_dynCred s = Some cred" for cred
    proof -
      have "(t, pn_now s + 1000, DynTick) \<in> set (pn_armed ?s1)" "pn_now s \<le> pn_now s" using assms(2) by (simp_all add: ticked_armed)
      moreover have eq: "pn_credAt s + (lease_secs cred - (pn_dynCountdown s - 1)) * 1000 = pn_now s"
        using ct [OF cred] False by (simp add: algebra_simps diff_mult_distrib2)
      moreover have next_tick: "pn_credAt s + (lease_secs cred - (pn_dynCountdown s - 1) + 1) * 1000 = pn_now s + 1000"
        using eq by (simp add: algebra_simps)
      moreover have "pn_dynCountdown s - 1 \<le> lease_secs cred" using ct(2) [OF cred] False by simp
      ultimately show ?thesis using clear(1) [OF cred] unfolding lease_timed_def next_tick eq by blast
    qed
    then have "cred_timed ?s3" by (simp add: cred_timed_def)
    with vt ok show ?thesis unfolding s panel_inv_def by simp
  qed
qed

lemma fires_ok:
  assumes "panel_inv s" and "panel_can s (TimerFires t)"
  shows "panel_inv (panel_step s (TimerFires t))"
proof -
  obtain w where w: "(t, pn_now s, w) \<in> set (pn_armed s)" "timer_due t s = Some (pn_now s, w)" "timer_ref s w = Some t"
    using due_timer [OF assms] .
  have ok: "timers_ok s" using assms(1) by (simp add: panel_inv_def)
  have stay: "(u, due, v) \<in> set (pn_armed (clear_timer (Some t) s)) \<longleftrightarrow> (u, due, v) \<in> set (pn_armed s)" if "v \<noteq> w" for u due v
    using others_stay [OF ok, of w v] that w(3) by auto
  have cleared: "timers_ok (clear_timer (Some t) s)" by (rule clear_timer_ok [OF ok])
  have vt: "vault_timed (clear_timer (Some t) s)" if "w \<noteq> VaultClear"
    using assms(1) stay [of VaultClear] that unfolding panel_inv_def vault_timed_def
    by (metis clear_timer_simps(4,6))
  show ?thesis
  proof (cases w)
    case VaultClear
    have "cred_timed (clear_timer (Some t) s)"
      using assms(1) stay [of DynClear] stay [of DynTick] VaultClear unfolding panel_inv_def cred_timed_def lease_timed_def
      by (simp only: clear_timer_simps(1,7,8,12)) (metis panel_timer.distinct(1,3))
    with VaultClear cleared show ?thesis by (simp add: w(2) panel_inv_def vault_timed_def)
  next
    case DynClear
    with cleared vt show ?thesis by (simp add: w(2) panel_inv_def cred_timed_def)
  next
    case DynTick
    with w tick_ok [OF assms(1)] show ?thesis by simp
  qed
qed

lemma panel_step_ok: "panel_inv s \<Longrightarrow> panel_can s e \<Longrightarrow> panel_inv (panel_step s e)"
proof (cases e)
  case (TimerFires t)
  then show "panel_inv s \<Longrightarrow> panel_can s e \<Longrightarrow> ?thesis" using fires_ok by blast
next
  case (Wait n)
  then show "panel_inv s \<Longrightarrow> panel_can s e \<Longrightarrow> ?thesis" using wait_ok by blast
next
  case VaultFetchClick
  then show "panel_inv s \<Longrightarrow> ?thesis" by (simp add: panel_inv_def handleVaultFetch_def)
next
  case ToggleVault
  then show "panel_inv s \<Longrightarrow> ?thesis" by (simp add: panel_inv_def)
next
  case ToggleDyn
  then show "panel_inv s \<Longrightarrow> ?thesis" by (simp add: panel_inv_def)
qed (simp_all add: select_ok vault_answer_ok issue_ok dynamic_answer_ok revoke_ok)

interpretation panel_machine: machine panel_can panel_step panel_inv
  by unfold_locales (rule panel_step_ok)

lemma panel_mounted_ok [simp]: "panel_inv panel_mounted"
proof -
  have "timer_ref panel_mounted v = None" for v by (cases v) (simp_all add: panel_mounted_def)
  then show ?thesis by (simp add: panel_inv_def timers_ok_def vault_timed_def cred_timed_def) (simp add: panel_mounted_def)
qed

subsection \<open>Properties\<close>

text \<open>
  C7: Secrets fetched on demand do not outlive their time. However the panel is used, values read from
  a vault are on screen for at most thirty seconds after they arrived, and a dynamic credential for at
  most the delay its lease makes the browser keep; while it is there the countdown is the time left,
  rounded up to a second, as long as the lease fits a browser's timer.
\<close>
theorem panel_secrets_expire:
  assumes "possible_run panel_can panel_step panel_mounted es"
  defines "s \<equiv> foldl panel_step panel_mounted es"
  shows "(pn_vaultFields s \<noteq> None \<longrightarrow> pn_now s \<le> pn_vaultAt s + 30000)
    \<and> (\<forall>cred. pn_dynCred s = Some cred \<longrightarrow>
        pn_now s \<le> pn_credAt s + timer_delay (lease_secs cred * 1000)
        \<and> pn_credAt s + lease_secs cred * 1000 \<le> pn_now s + pn_dynCountdown s * 1000
        \<and> (pn_dynCountdown s > 0 \<longrightarrow> pn_now s + pn_dynCountdown s * 1000 \<le> pn_credAt s + lease_secs cred * 1000 + 1000))"
proof -
  have inv: "panel_inv s" unfolding s_def by (rule panel_machine.run_keeps [OF panel_mounted_ok assms(1)])
  then have due: "pn_now s \<le> due" if "(t, due, w) \<in> set (pn_armed s)" for t due w
    using that by (auto simp: panel_inv_def timers_ok_def)
  have "pn_now s \<le> pn_credAt s + timer_delay (lease_secs cred * 1000)
        \<and> pn_credAt s + lease_secs cred * 1000 \<le> pn_now s + pn_dynCountdown s * 1000
        \<and> (pn_dynCountdown s > 0 \<longrightarrow> pn_now s + pn_dynCountdown s * 1000 \<le> pn_credAt s + lease_secs cred * 1000 + 1000)"
    if "pn_dynCred s = Some cred" for cred
  proof -
    from inv that have l: "lease_timed (pn_armed s) (pn_credAt s) (pn_now s) (lease_secs cred) (pn_dynCountdown s)"
      by (simp add: panel_inv_def cred_timed_def)
    then have "pn_dynCountdown s > 0 \<Longrightarrow> pn_now s \<le> pn_credAt s + (lease_secs cred - pn_dynCountdown s + 1) * 1000"
      using due by (auto simp: lease_timed_def)
    moreover obtain k where "lease_secs cred = pn_dynCountdown s + k" using l by (auto simp: lease_timed_def le_iff_add)
    ultimately show ?thesis using l due by (auto simp: lease_timed_def algebra_simps)
  qed
  moreover have "pn_now s \<le> pn_vaultAt s + 30000" if "pn_vaultFields s \<noteq> None"
    using inv that due by (auto simp: panel_inv_def vault_timed_def)
  ultimately show ?thesis by blast
qed

text \<open>
  A long lease is cleared as soon as it arrives. A lease of 32 days, which is what a vault gives
  unless told otherwise, is more milliseconds than a browser's timer can hold; the delay wraps to a
  negative number and counts as none, so the credential leaves the screen, hidden as it arrived,
  before any time has passed.
\<close>
theorem long_lease_vanishes:
  assumes "possible_run panel_can panel_step panel_mounted es"
    and "pn_dynCred (foldl panel_step panel_mounted es) = Some cred"
    and "dc_lease_duration cred = 32 * 24 * 3600"
  shows "pn_now (foldl panel_step panel_mounted es) = pn_credAt (foldl panel_step panel_mounted es)"
proof -
  let ?s = "foldl panel_step panel_mounted es"
  have inv: "panel_inv ?s" by (rule panel_machine.run_keeps [OF panel_mounted_ok assms(1)])
  have "timer_delay (lease_secs cred * 1000) = 0" using assms(3) by (simp add: lease_secs_def timer_delay_def)
  moreover from inv assms(2) have "lease_timed (pn_armed ?s) (pn_credAt ?s) (pn_now ?s) (lease_secs cred) (pn_dynCountdown ?s)"
    by (simp add: panel_inv_def cred_timed_def)
  ultimately obtain t where "(t, pn_credAt ?s, DynClear) \<in> set (pn_armed ?s)" "pn_credAt ?s \<le> pn_now ?s"
    by (auto simp: lease_timed_def)
  with inv show ?thesis by (fastforce simp: panel_inv_def timers_ok_def)
qed

text \<open>
  An answer for one item is shown under the next. If the user moves to another item while a vault
  request is under way, the answer that comes back is shown as that other item's values.
\<close>
theorem late_answer_shown_under_other_item:
  assumes "pn_vaultAsked s = None" and "pn_item s = Some a"
  shows "let s' = foldl panel_step s [VaultFetchClick, SelectItem (Some b), VaultAnswer (Some fs)]
    in pn_item s' = Some b \<and> pn_vaultFields s' = Some fs \<and> pn_vaultVisible s' \<and> pn_vaultFor s' = a"
  using assms by (simp add: handleVaultFetch_def panel_select_def vault_answer_def Let_def)

lemmas panel_eval = panel_mounted_def panel_select_def handleVaultFetch_def vault_answer_def handleIssueDynamic_def
  dynamic_answer_def lease_secs_def arm_timer_def clear_timer_def timer_due_def

lemma panel_secrets_expire_witness:
  "let s = foldl panel_step panel_mounted
       [SelectItem (Some ''a''), VaultFetchClick, VaultAnswer (Some [\<lparr>vf_field_key = ''k'', vf_value = ''v''\<rparr>]), Wait 30000]
   in pn_vaultFields s \<noteq> None \<and> pn_now s \<le> pn_vaultAt s + 30000 \<and> \<not> panel_can s (Wait 1)
      \<and> pn_vaultFields (panel_step s (TimerFires 0)) = None"
proof -
  let ?es = "[SelectItem (Some ''a''), VaultFetchClick, VaultAnswer (Some [\<lparr>vf_field_key = ''k'', vf_value = ''v''\<rparr>]), Wait 30000]"
  have r: "possible_run panel_can panel_step panel_mounted ?es" by (simp add: panel_eval)
  have s: "pn_vaultFields (foldl panel_step panel_mounted ?es) \<noteq> None" "\<not> panel_can (foldl panel_step panel_mounted ?es) (Wait 1)"
    "pn_vaultFields (panel_step (foldl panel_step panel_mounted ?es) (TimerFires 0)) = None"
    by (simp_all add: panel_eval)
  with panel_secrets_expire [OF r] show ?thesis unfolding Let_def by blast
qed

lemma long_lease_vanishes_witness:
  "let cred = \<lparr>dc_username = ''u'', dc_password = ''p'', dc_lease_id = ''l'', dc_lease_duration = 2764800, dc_expires_at = ''t''\<rparr>;
       s = foldl panel_step panel_mounted [SelectItem (Some ''a''), Wait 5, IssueClick, DynAnswer (Some cred)]
   in pn_dynCred s = Some cred \<and> pn_now s = pn_credAt s"
proof -
  let ?cred = "\<lparr>dc_username = ''u'', dc_password = ''p'', dc_lease_id = ''l'', dc_lease_duration = 2764800, dc_expires_at = ''t''\<rparr>"
  let ?es = "[SelectItem (Some ''a''), Wait 5, IssueClick, DynAnswer (Some ?cred)]"
  have r: "possible_run panel_can panel_step panel_mounted ?es" by (simp add: panel_eval)
  have c: "pn_dynCred (foldl panel_step panel_mounted ?es) = Some ?cred" by (simp add: panel_eval Let_def)
  from long_lease_vanishes [OF r c] c show ?thesis unfolding Let_def by simp
qed

lemma late_answer_shown_under_other_item_witness:
  "pn_vaultFields (foldl panel_step (panel_select (Some ''a'') panel_mounted) [VaultFetchClick, SelectItem (Some ''b''), VaultAnswer (Some [])]) = Some []
   \<and> pn_vaultFor (foldl panel_step (panel_select (Some ''a'') panel_mounted) [VaultFetchClick, SelectItem (Some ''b''), VaultAnswer (Some [])]) = ''a''"
  using late_answer_shown_under_other_item [of "panel_select (Some ''a'') panel_mounted" "''a''" "''b''" "[]"]
  by (simp add: panel_eval Let_def del: foldl_Cons panel_step.simps)

end
