(* ===== verification/ItemShare.thy ===== *)
theory ItemShare
  imports ItemForm
begin

text \<open>
  Sharing an item with a user or with the members of a group
  (\<open>web/src/components/inventory/item-share-modal.tsx\<close>): the checks in their order, the item's key
  sealed for every recipient, and what the recipients can do with it.
\<close>

subsection \<open>The dialog\<close>

text \<open>\<open>new Date(a) >= new Date(b)\<close> and \<open>new Date(a).toISOString()\<close> on the text of a date input.\<close>

record js_dates =
  js_not_before :: "string \<Rightarrow> string \<Rightarrow> bool"
  js_to_iso :: "string \<Rightarrow> string option"

datatype share_result =
    NoRecipient | WindowReversed | ShareNoSessionKey | ShareNoOwnerKey | NoRecipientKey
  | NoGroup | NoMembers | KeysLoading | KeysMissing nat
  | ShareFailed form_error | Shared

record share_window =
  sw_from :: string
  sw_until :: string

definition window_reversed :: "js_dates \<Rightarrow> share_window \<Rightarrow> bool" where
  "window_reversed js w \<longleftrightarrow> sw_from w \<noteq> [] \<and> sw_until w \<noteq> [] \<and> js_not_before js (sw_from w) (sw_until w)"

text \<open>\<open>from ? new Date(from).toISOString() : null\<close>.\<close>

definition iso_or_null :: "js_dates \<Rightarrow> string \<Rightarrow> form_error + json" where
  "iso_or_null js s =
     (if s = [] then Inr JNull else case js_to_iso js s of None \<Rightarrow> Inl RangeErr | Some t \<Rightarrow> Inr (JStr t))"

definition window_json :: "js_dates \<Rightarrow> share_window \<Rightarrow> form_error + (string \<times> json) list" where
  "window_json js w =
     (case iso_or_null js (sw_from w) of
        Inl e \<Rightarrow> Inl e
      | Inr f \<Rightarrow> (case iso_or_null js (sw_until w) of
            Inl e \<Rightarrow> Inl e | Inr u \<Rightarrow> Inr [(''valid_from'', f), (''valid_until'', u)]))"

text \<open>The item's key sealed for a public key given in base64.\<close>

definition seal_for ::
    "'r webcrypto \<Rightarrow> bytes \<Rightarrow> string \<Rightarrow> 'r \<Rightarrow> (form_error + bytes \<times> bytes) \<times> 'r" where
  "seal_for wc dek publicKey r =
     (case fromBase64 publicKey of
        Inl _ \<Rightarrow> (Inl FormBase64, r)
      | Inr pub \<Rightarrow>
          (case sealDEK wc dek pub r of
             (Inl e, r1) \<Rightarrow> (Inl (FormCrypto e), r1)
           | (Inr box, r1) \<Rightarrow> (Inr box, r1)))"

definition wrap_json :: "bytes \<times> bytes \<Rightarrow> (string \<times> json) list" where
  "wrap_json box =
     [(''dek_wrapped'', JStr (toBase64 (fst box))), (''wrap_nonce'', JStr (toBase64 (snd box)))]"

definition send_share ::
    "'w net \<Rightarrow> mutation_hook \<Rightarrow> 'w web_env \<times> 'r \<Rightarrow> share_result \<times> 'w web_env \<times> 'r" where
  "send_share net hook s =
     (let (env, r) = s in
      case run_mutation net hook env of
        (Inl e, _, env1) \<Rightarrow> (ShareFailed (FormApi e), env1, r)
      | (Inr _, _, env1) \<Rightarrow> (Shared, env1, r))"

definition user_share_json :: "string \<Rightarrow> string \<Rightarrow> bytes \<times> bytes \<Rightarrow> (string \<times> json) list \<Rightarrow> json" where
  "user_share_json recipientId permission box window =
     JObj ([(''user_id'', JStr recipientId), (''permission'', JStr permission)] @ wrap_json box @ window)"

text \<open>\<open>handleUserSubmit\<close>; \<open>pubKey\<close> is the public key of the settled query.\<close>

definition handleUserSubmit ::
    "'r webcrypto \<Rightarrow> js_dates \<Rightarrow> 'w net \<Rightarrow> Item \<Rightarrow> string \<Rightarrow> string \<Rightarrow> share_window \<Rightarrow> bytes option \<Rightarrow> string option
       \<Rightarrow> 'w web_env \<times> 'r \<Rightarrow> share_result \<times> 'w web_env \<times> 'r" where
  "handleUserSubmit wc js net item recipientId permission window sessionKey pubKey s =
     (let (env, r) = s in
      if recipientId = [] then (NoRecipient, s)
      else if window_reversed js window then (WindowReversed, s)
      else case sessionKey of
          None \<Rightarrow> (ShareNoSessionKey, s)
        | Some privateKey \<Rightarrow>
            if \<not> truthy (i_owner_dek_wrapped item) \<or> \<not> truthy (i_owner_wrap_nonce item) then (ShareNoOwnerKey, s)
            else
              (case pubKey of
                 None \<Rightarrow> (NoRecipientKey, s)
               | Some publicKey \<Rightarrow>
                   (case open_owner_key (openDEKWithKEK wc) (the (i_owner_dek_wrapped item))
                        (the (i_owner_wrap_nonce item)) privateKey of
                      Inl e \<Rightarrow> (ShareFailed e, s)
                    | Inr dek \<Rightarrow>
                        (case seal_for wc dek publicKey r of
                           (Inl e, r1) \<Rightarrow> (ShareFailed e, env, r1)
                         | (Inr box, r1) \<Rightarrow>
                             (case window_json js window of
                                Inl e \<Rightarrow> (ShareFailed e, env, r1)
                              | Inr wj \<Rightarrow>
                                  send_share net (useShareItemMutation (i_id item)
                                    (user_share_json recipientId permission box wj)) (env, r1))))))"

text \<open>The members' wraps, one after the other; \<open>Promise.all\<close> rejects when one of them does.\<close>

fun wrap_members ::
    "'r webcrypto \<Rightarrow> bytes \<Rightarrow> (string \<Rightarrow> string option) \<Rightarrow> string list \<Rightarrow> 'r
       \<Rightarrow> (form_error + (string \<times> bytes \<times> bytes) list) \<times> 'r" where
  "wrap_members wc dek keys [] r = (Inr [], r)"
| "wrap_members wc dek keys (u # us) r =
     (case seal_for wc dek (nullish (keys u) []) r of
        (Inl e, r1) \<Rightarrow> (Inl e, r1)
      | (Inr box, r1) \<Rightarrow>
          (case wrap_members wc dek keys us r1 of
             (Inl e, r2) \<Rightarrow> (Inl e, r2)
           | (Inr ws, r2) \<Rightarrow> (Inr ((u, box) # ws), r2)))"

definition member_json :: "string \<times> bytes \<times> bytes \<Rightarrow> json" where
  "member_json m = JObj ((''user_id'', JStr (fst m)) # wrap_json (snd m))"

definition group_share_json ::
    "string \<Rightarrow> string \<Rightarrow> (string \<times> bytes \<times> bytes) list \<Rightarrow> (string \<times> json) list \<Rightarrow> json" where
  "group_share_json groupId permission ms window =
     JObj ([(''group_id'', JStr groupId), (''permission'', JStr permission), (''members'', JArr (map member_json ms))] @ window)"

text \<open>\<open>handleGroupSubmit\<close>; \<open>members\<close> are the ids of the settled members query, \<open>pubKeys\<close> the map of the
  settled key queries.\<close>

definition handleGroupSubmit ::
    "'r webcrypto \<Rightarrow> js_dates \<Rightarrow> 'w net \<Rightarrow> Item \<Rightarrow> string \<Rightarrow> string \<Rightarrow> share_window \<Rightarrow> bytes option
       \<Rightarrow> string list \<Rightarrow> (string \<Rightarrow> string option) option \<Rightarrow> 'w web_env \<times> 'r \<Rightarrow> share_result \<times> 'w web_env \<times> 'r" where
  "handleGroupSubmit wc js net item groupId permission window sessionKey members pubKeys s =
     (let (env, r) = s in
      if groupId = [] then (NoGroup, s)
      else if window_reversed js window then (WindowReversed, s)
      else case sessionKey of
          None \<Rightarrow> (ShareNoSessionKey, s)
        | Some privateKey \<Rightarrow>
            if \<not> truthy (i_owner_dek_wrapped item) \<or> \<not> truthy (i_owner_wrap_nonce item) then (ShareNoOwnerKey, s)
            else if members = [] then (NoMembers, s)
            else
              (case pubKeys of
                 None \<Rightarrow> (KeysLoading, s)
               | Some keys \<Rightarrow>
                   (let missing = filter (\<lambda>u. \<not> truthy (keys u)) members
                    in if missing \<noteq> [] then (KeysMissing (length missing), s)
                       else
                         (case open_owner_key (openDEKWithKEK wc) (the (i_owner_dek_wrapped item))
                              (the (i_owner_wrap_nonce item)) privateKey of
                            Inl e \<Rightarrow> (ShareFailed e, s)
                          | Inr dek \<Rightarrow>
                              (case wrap_members wc dek keys members r of
                                 (Inl e, r1) \<Rightarrow> (ShareFailed e, env, r1)
                               | (Inr ms, r1) \<Rightarrow>
                                   (case window_json js window of
                                      Inl e \<Rightarrow> (ShareFailed e, env, r1)
                                    | Inr wj \<Rightarrow>
                                        send_share net (useShareGroupMutation (i_id item)
                                          (group_share_json groupId permission ms wj)) (env, r1)))))))"

subsection \<open>What a share has sent\<close>

lemma send_share_shared:
  assumes "send_share net hook (env, r) = (Shared, env', r')"
  shows "r' = r \<and> (\<exists>res ks. run_mutation net hook env = (Inr res, ks, env'))"
  using assms by (auto simp: send_share_def split: prod.splits sum.splits)

lemma seal_for_box:
  assumes "seal_for wc dek publicKey r = (Inr box, r')"
  obtains pub where "fromBase64 publicKey = Inr pub" "sealDEK wc dek pub r = (Inr box, r')"
  using assms by (auto simp: seal_for_def split: sum.splits prod.splits)

lemma user_share_sent:
  assumes "handleUserSubmit wc js net item u perm w (Some sk) (Some pk) (env, r) = (Shared, env', r')"
  obtains dek box wj res ks where "opens_to wc item sk dek" "seal_for wc dek pk r = (Inr box, r')"
    "run_mutation net (useShareItemMutation (i_id item) (user_share_json u perm box wj)) env = (Inr res, ks, env')"
proof -
  obtain dek where d: "open_owner_key (openDEKWithKEK wc) (the (i_owner_dek_wrapped item)) (the (i_owner_wrap_nonce item)) sk = Inr dek"
    and t: "truthy (i_owner_dek_wrapped item)" "truthy (i_owner_wrap_nonce item)"
    using assms by (auto simp: handleUserSubmit_def split: if_splits sum.splits)
  obtain x r1 where x: "seal_for wc dek pk r = (x, r1)" by fastforce
  from assms d t x obtain box where b: "x = Inr box"
    by (auto simp: handleUserSubmit_def split: if_splits sum.splits)
  from assms d t x b obtain wj where
    "send_share net (useShareItemMutation (i_id item) (user_share_json u perm box wj)) (env, r1) = (Shared, env', r')"
    by (auto simp: handleUserSubmit_def split: if_splits sum.splits)
  with send_share_shared that d t x b show thesis unfolding opens_to_def by metis
qed

lemma group_share_sent:
  assumes "handleGroupSubmit wc js net item g perm w (Some sk) members (Some keys) (env, r) = (Shared, env', r')"
  obtains dek ms wj res ks where "opens_to wc item sk dek" "wrap_members wc dek keys members r = (Inr ms, r')"
    "\<forall>u\<in>set members. truthy (keys u)"
    "run_mutation net (useShareGroupMutation (i_id item) (group_share_json g perm ms wj)) env = (Inr res, ks, env')"
proof -
  have t: "truthy (i_owner_dek_wrapped item)" "truthy (i_owner_wrap_nonce item)" "\<forall>u\<in>set members. truthy (keys u)"
    using assms by (auto simp: handleGroupSubmit_def Let_def filter_empty_conv split: if_splits)
  then obtain dek where d: "open_owner_key (openDEKWithKEK wc) (the (i_owner_dek_wrapped item)) (the (i_owner_wrap_nonce item)) sk = Inr dek"
    using assms by (auto simp: handleGroupSubmit_def Let_def split: if_splits sum.splits)
  obtain x r1 where x: "wrap_members wc dek keys members r = (x, r1)" by fastforce
  from assms d t x obtain ms where b: "x = Inr ms"
    by (auto simp: handleGroupSubmit_def Let_def split: if_splits sum.splits)
  from assms d t x b obtain wj where
    "send_share net (useShareGroupMutation (i_id item) (group_share_json g perm ms wj)) (env, r1) = (Shared, env', r')"
    by (auto simp: handleGroupSubmit_def Let_def split: if_splits sum.splits)
  with send_share_shared that d t x b show thesis unfolding opens_to_def by metis
qed

text \<open>Every member gets a box made for the member's own key.\<close>

lemma wrap_members_boxes:
  assumes "wrap_members wc dek keys us r = (Inr ms, r')"
  shows "map fst ms = us \<and> (\<forall>(u, w, n)\<in>set ms. \<exists>q q'. seal_for wc dek (nullish (keys u) []) q = (Inr (w, n), q'))"
  using assms
proof (induction us arbitrary: r ms)
  case (Cons u us)
  obtain box r1 where b: "seal_for wc dek (nullish (keys u) []) r = (Inr box, r1)"
    using Cons.prems by (auto split: prod.splits sum.splits)
  obtain ms' where "wrap_members wc dek keys us r1 = (Inr ms', r')" "ms = (u, box) # ms'"
    using Cons.prems b by (auto split: prod.splits sum.splits)
  with Cons.IH b show ?case by (cases box) auto
qed simp

lemma seal_for_opens:
  assumes "webcrypto_laws wc" and "length sk = 32" and "seal_for wc dek (toBase64 (wc_pub wc sk)) r = (Inr (w, n), r')"
  shows "openDEK wc w n sk = Inr dek"
proof -
  obtain pub where "fromBase64 (toBase64 (wc_pub wc sk)) = Inr pub" "sealDEK wc dek pub r = (Inr (w, n), r')"
    using seal_for_box [OF assms(3)] .
  then show ?thesis using x25519_box.unseal_sealed [OF assms(1,2)] by (simp add: base64_back)
qed

subsection \<open>Properties\<close>

text \<open>
  C16: Sharing with a group leaves nobody out. When the dialog reports success, one request has been
  sent that names exactly the members of the group, in their order, and the box of each member whose
  published key is the public key of some private key opens with that private key to the item's own
  key; had any member lacked a key, nothing would have been sent.
\<close>
theorem group_share_reaches_every_member:
  assumes "webcrypto_laws wc"
    and "handleGroupSubmit wc js net item g perm w (Some sk) members (Some keys) (env, r) = (Shared, env', r')"
  shows "\<exists>dek ms wj res ks. opens_to wc item sk dek \<and> map fst ms = members
    \<and> run_mutation net (useShareGroupMutation (i_id item) (group_share_json g perm ms wj)) env = (Inr res, ks, env')
    \<and> (\<forall>(u, box, n)\<in>set ms. \<forall>sku. length sku = 32 \<longrightarrow> keys u = Some (toBase64 (wc_pub wc sku))
        \<longrightarrow> openDEK wc box n sku = Inr dek)
    \<and> (\<forall>u\<in>set members. truthy (keys u))"
proof -
  obtain dek ms wj res ks where s: "opens_to wc item sk dek" "wrap_members wc dek keys members r = (Inr ms, r')"
    "\<forall>u\<in>set members. truthy (keys u)"
    "run_mutation net (useShareGroupMutation (i_id item) (group_share_json g perm ms wj)) env = (Inr res, ks, env')"
    using group_share_sent [OF assms(2)] .
  have "openDEK wc box n sku = Inr dek"
    if m: "(u, box, n) \<in> set ms" "length sku = 32" "keys u = Some (toBase64 (wc_pub wc sku))" for u box n sku
  proof -
    obtain q q' where "seal_for wc dek (nullish (keys u) []) q = (Inr (box, n), q')"
      using bspec [OF conjunct2 [OF wrap_members_boxes [OF s(2)]] m(1)] by auto
    then show ?thesis using seal_for_opens [OF assms(1) m(2)] m(3) by simp
  qed
  then have "\<forall>(u, box, n)\<in>set ms. \<forall>sku. length sku = 32 \<longrightarrow> keys u = Some (toBase64 (wc_pub wc sku))
      \<longrightarrow> openDEK wc box n sku = Inr dek" by blast
  with s wrap_members_boxes [OF s(2)] show ?thesis by blast
qed

text \<open>An item whose key is in a sealed box: both item pages show an error, the edit form has no key.\<close>

lemma boxed_item_unreadable:
  assumes "webcrypto_laws wc" and "wc_random wc 32 r = (eph, r1)" and "sealDEK wc dek (wc_pub wc sk) r = (Inr (box, n), r')"
    and "\<forall>p. wc_seal wc (wc_sha256 wc sk) n p \<noteq> wc_seal wc (wc_dh wc eph (wc_pub wc sk)) n dek"
    and "i_owner_dek_wrapped item = Some (toBase64 box)" and "i_owner_wrap_nonce item = Some (toBase64 n)"
  shows "decrypt_item wc (openDEKWithKEK wc) (Some item) (Some sk) = DecryptionError (DetailFailed (FormCrypto OperationError))"
    and "decrypt_item wc (cl_openDEKWithKEK wc) (Some item) (Some sk) = DecryptionError (DetailFailed (FormCrypto OperationError))"
    and "fm_editDek (load_edit wc types defs item (Some sk) form0) = None"
proof -
  have fail: "openDEKWithKEK wc box n sk = Inl OperationError" by (rule boxed_key_fails_on_item_pages [OF assms(1-4)])
  have len: "48 \<le> length box" "length n = 12" using x25519_box.sealed_length [OF assms(1,3)] by auto
  then have ne: "toBase64 box \<noteq> []" "toBase64 n \<noteq> []" by (auto intro!: toBase64_nonempty)
  have fail': "cl_openDEKWithKEK wc box n sk = Inl OperationError" using fail len by (simp add: cl_openDEKWithKEK_eq)
  note opened = decrypt_item_def decrypt_start_def decrypt_settled_def open_owner_key_def base64_back
  show "decrypt_item wc (openDEKWithKEK wc) (Some item) (Some sk) = DecryptionError (DetailFailed (FormCrypto OperationError))"
    and "decrypt_item wc (cl_openDEKWithKEK wc) (Some item) (Some sk) = DecryptionError (DetailFailed (FormCrypto OperationError))"
    and "fm_editDek (load_edit wc types defs item (Some sk) form0) = None"
    using assms(5,6) ne fail fail' by (simp_all add: opened load_edit_def Let_def split: option.split)
qed

text \<open>
  C35: A shared item cannot be read by its recipient. The box the dialog sends is one that
  \<open>openDEK\<close> opens, but both item pages open keys with \<open>openDEKWithKEK\<close>: unless the two schemes
  encrypt to the same bytes by accident, the recipient's page shows a decryption error, and the
  recipient's edit form starts with empty fields and without a key.
\<close>
theorem shared_item_unreadable_for_recipient:
  assumes "webcrypto_laws wc" and "length skr = 32"
    and "handleUserSubmit wc js net item u perm win (Some sk) (Some (toBase64 (wc_pub wc skr))) (env, r) = (Shared, env', r')"
    and "\<forall>eph r1 dek n p. wc_random wc 32 r = (eph, r1) \<longrightarrow> opens_to wc item sk dek
        \<longrightarrow> wc_seal wc (wc_sha256 wc skr) n p \<noteq> wc_seal wc (wc_dh wc eph (wc_pub wc skr)) n dek"
  shows "\<exists>dek box n wj res ks.
      run_mutation net (useShareItemMutation (i_id item) (user_share_json u perm (box, n) wj)) env = (Inr res, ks, env')
    \<and> opens_to wc item sk dek \<and> openDEK wc box n skr = Inr dek
    \<and> (\<forall>item'. i_owner_dek_wrapped item' = Some (toBase64 box) \<longrightarrow> i_owner_wrap_nonce item' = Some (toBase64 n)
        \<longrightarrow> decrypt_item wc (openDEKWithKEK wc) (Some item') (Some skr)
              = DecryptionError (DetailFailed (FormCrypto OperationError))
          \<and> decrypt_item wc (cl_openDEKWithKEK wc) (Some item') (Some skr)
              = DecryptionError (DetailFailed (FormCrypto OperationError))
          \<and> (\<forall>types defs form0. fm_editDek (load_edit wc types defs item' (Some skr) form0) = None))"
proof -
  obtain dek b wj res ks where s: "opens_to wc item sk dek" "seal_for wc dek (toBase64 (wc_pub wc skr)) r = (Inr b, r')"
    "run_mutation net (useShareItemMutation (i_id item) (user_share_json u perm b wj)) env = (Inr res, ks, env')"
    using user_share_sent [OF assms(3)] .
  obtain box n where b: "b = (box, n)" by fastforce
  have d: "sealDEK wc dek (wc_pub wc skr) r = (Inr (box, n), r')"
    using seal_for_box [OF s(2)] by (metis b base64_back sum.inject(2))
  obtain eph r1 where e: "wc_random wc 32 r = (eph, r1)" by fastforce
  have c: "\<forall>p. wc_seal wc (wc_sha256 wc skr) n p \<noteq> wc_seal wc (wc_dh wc eph (wc_pub wc skr)) n dek"
    using assms(4) e s(1) by blast
  have "openDEK wc box n skr = Inr dek" by (rule x25519_box.unseal_sealed [OF assms(1,2) d])
  moreover note boxed_item_unreadable [OF assms(1) e d c]
  ultimately show ?thesis using s(1,3) b by blast
qed

subsection \<open>Concrete runs\<close>

definition demo_dates :: js_dates where
  "demo_dates = \<lparr>js_not_before = (\<lambda>a b. False), js_to_iso = Some\<rparr>"

definition no_window :: share_window where
  "no_window = \<lparr>sw_from = [], sw_until = []\<rparr>"

text \<open>The path on which nothing stops a share.\<close>

lemma user_submit_steps:
  assumes "u \<noteq> []" "\<not> window_reversed js w" "opens_to wc item sk dek" "seal_for wc dek pk r = (Inr box, r1)"
    "window_json js w = Inr wj"
  shows "handleUserSubmit wc js net item u perm w (Some sk) (Some pk) (env, r)
    = send_share net (useShareItemMutation (i_id item) (user_share_json u perm box wj)) (env, r1)"
  using assms by (simp add: handleUserSubmit_def opens_to_def)

lemma group_submit_steps:
  assumes "g \<noteq> []" "\<not> window_reversed js w" "opens_to wc item sk dek" "members \<noteq> []" "\<forall>u\<in>set members. truthy (keys u)"
    "wrap_members wc dek keys members r = (Inr ms, r1)" "window_json js w = Inr wj"
  shows "handleGroupSubmit wc js net item g perm w (Some sk) members (Some keys) (env, r)
    = send_share net (useShareGroupMutation (i_id item) (group_share_json g perm ms wj)) (env, r1)"
  using assms by (simp add: handleGroupSubmit_def opens_to_def filter_False)

lemma demo_window:
  "\<not> window_reversed demo_dates no_window"
  "window_json demo_dates no_window = Inr [(''valid_from'', JNull), (''valid_until'', JNull)]"
  by (simp_all add: window_reversed_def no_window_def window_json_def iso_or_null_def)

lemma demo_sharing:
  "we_world (demo_env [json_reply (JObj [])]) = json_reply (JObj []) # []"
  "\<exists>env'. send_share scripted h (demo_env [json_reply (JObj [])], q :: nat) = (Shared, env', q)"
proof -
  show w: "we_world (demo_env [json_reply (JObj [])]) = json_reply (JObj []) # []" by (simp add: demo_env_def)
  show "\<exists>env'. send_share scripted h (demo_env [json_reply (JObj [])], q) = (Shared, env', q)"
    using scripted_mutation [OF w, of h] by (auto simp: send_share_def)
qed

lemma toy_pub: "wc_pub toy_crypto (replicate 32 7) = replicate 32 7"
  by (simp add: toy_crypto_def)

lemma toy_seal_for:
  "seal_for toy_crypto (replicate 32 3) (toBase64 (wc_pub toy_crypto (replicate 32 7))) 1
     = (Inr (replicate 32 1 @ replicate 32 3 @ replicate 16 8, replicate 12 2), 3)"
  using toy_box by (simp add: seal_for_def base64_back)

lemma group_share_reaches_every_member_witness:
  "\<exists>ms. map fst ms = [''u''] \<and> (\<forall>(u, box, n)\<in>set ms. openDEK toy_crypto box n (replicate 32 7) = Inr (replicate 32 3))"
proof -
  let ?item = "demo_item (Some (toBase64 demo_wrapped))"
  let ?keys = "\<lambda>u :: string. Some (toBase64 (wc_pub toy_crypto (replicate 32 7)))"
  have t: "\<forall>u\<in>set [''u'']. truthy (?keys u)" by (simp add: toy_pub toBase64_nonempty)
  have w: "wrap_members toy_crypto (replicate 32 3) ?keys [''u''] 1
      = (Inr [(''u'', replicate 32 1 @ replicate 32 3 @ replicate 16 8, replicate 12 2)], 3)"
    using toy_seal_for by simp
  have g: "''g'' \<noteq> []" "[''u''] \<noteq> []" by simp_all
  obtain env' where c: "handleGroupSubmit toy_crypto demo_dates scripted ?item ''g'' ''read'' no_window (Some (replicate 32 7))
      [''u''] (Some ?keys) (demo_env [json_reply (JObj [])], 1) = (Shared, env', 3)"
    using group_submit_steps [OF g(1) demo_window(1) demo_item_opens g(2) t w demo_window(2)] demo_sharing(2) by metis
  from group_share_reaches_every_member [OF toy_laws c]
  obtain dek ms where m: "opens_to toy_crypto ?item (replicate 32 7) dek" "map fst ms = [''u'']"
    "\<forall>(u, box, n)\<in>set ms. \<forall>sku. length sku = 32 \<longrightarrow> ?keys u = Some (toBase64 (wc_pub toy_crypto sku))
        \<longrightarrow> openDEK toy_crypto box n sku = Inr dek"
    by (elim exE conjE) (rule that)
  have "dek = replicate 32 3" using m(1) demo_item_opens by (simp add: opens_to_def)
  with m(2,3) show ?thesis by (intro exI [of _ ms]) auto
qed

lemma shared_item_unreadable_for_recipient_witness:
  "\<exists>box n. openDEK toy_crypto box n (replicate 32 7) = Inr (replicate 32 3)
    \<and> (\<forall>item'. i_owner_dek_wrapped item' = Some (toBase64 box) \<longrightarrow> i_owner_wrap_nonce item' = Some (toBase64 n)
        \<longrightarrow> decrypt_item toy_crypto (openDEKWithKEK toy_crypto) (Some item') (Some (replicate 32 7))
              = DecryptionError (DetailFailed (FormCrypto OperationError)))"
proof -
  let ?item = "demo_item (Some (toBase64 demo_wrapped))"
  obtain env' where c: "handleUserSubmit toy_crypto demo_dates scripted ?item ''u'' ''read'' no_window (Some (replicate 32 7))
      (Some (toBase64 (wc_pub toy_crypto (replicate 32 7)))) (demo_env [json_reply (JObj [])], 1) = (Shared, env', 3)"
    using user_submit_steps [OF _ demo_window(1) demo_item_opens toy_seal_for demo_window(2)] demo_sharing(2)
    by (metis list.distinct(1))
  have "pad_to 16 (pad_to 32 (1 # replicate 32 7)) \<noteq> pad_to 16 (replicate 32 8 :: bytes)"
    by (simp add: pad_to_def numeral_eq_Suc)
  then have no: "\<forall>eph r1 dek n p. wc_random toy_crypto 32 1 = (eph, r1) \<longrightarrow> opens_to toy_crypto ?item (replicate 32 7) dek
        \<longrightarrow> wc_seal toy_crypto (wc_sha256 toy_crypto (replicate 32 7)) n p
          \<noteq> wc_seal toy_crypto (wc_dh toy_crypto eph (wc_pub toy_crypto (replicate 32 7))) n dek"
    using toy_shared by (auto simp: toy_crypto_def)
  have l: "length (replicate 32 7 :: bytes) = 32" by simp
  from shared_item_unreadable_for_recipient [OF toy_laws l c no]
  obtain dek box n where "opens_to toy_crypto ?item (replicate 32 7) dek" "openDEK toy_crypto box n (replicate 32 7) = Inr dek"
    "\<forall>item'. i_owner_dek_wrapped item' = Some (toBase64 box) \<longrightarrow> i_owner_wrap_nonce item' = Some (toBase64 n)
        \<longrightarrow> decrypt_item toy_crypto (openDEKWithKEK toy_crypto) (Some item') (Some (replicate 32 7))
              = DecryptionError (DetailFailed (FormCrypto OperationError))" by blast
  moreover from this(1) have "dek = replicate 32 3" using demo_item_opens by (simp add: opens_to_def)
  ultimately show ?thesis by blast
qed

end
