(* ===== verification/UserError.thy ===== *)
theory UserError
  imports JsText
begin

text \<open>
  Which error messages a user sees (\<open>web/src/lib/user-error.ts\<close>): a list of case-insensitive
  patterns that stand for technical failures, a length limit, and everything else as it is.
\<close>

text \<open>\<open>s.includes(p)\<close>.\<close>

fun contains_text :: "string \<Rightarrow> string \<Rightarrow> bool" where
  "contains_text p [] = (p = [])"
| "contains_text p (c # s) = (take (length p) (c # s) = p \<or> contains_text p s)"

text \<open>The patterns use letters, a few other characters and the dot. With the flag \<open>i\<close> a letter matches
  either case of itself and no character outside ASCII. The dot matches one code unit other than a
  line terminator.\<close>

datatype pattern_char = Lit char | AnyUnit

definition ascii_lower :: "char \<Rightarrow> char" where
  "ascii_lower c = (let n = (of_char c :: nat) in if 65 \<le> n \<and> n \<le> 90 then char_of (n + 32) else c)"

definition after_unit :: "string \<Rightarrow> string option" where
  "after_unit s =
     (case s of
        [] \<Rightarrow> None
      | c # r \<Rightarrow>
          (let b = (of_char c :: nat) in
           if b = 10 \<or> b = 13 then None
           else if b < 0x80 then Some r
           else if take 3 s = [CHR 0xE2, CHR 0x80, CHR 0xA8] \<or> take 3 s = [CHR 0xE2, CHR 0x80, CHR 0xA9] then None
           else if b < 0xE0 then Some (drop 1 r)
           else if b < 0xF0 then Some (drop 2 r)
           else None))"

fun match_here :: "pattern_char list \<Rightarrow> string \<Rightarrow> bool" where
  "match_here [] s = True"
| "match_here (Lit p # ps) [] = False"
| "match_here (Lit p # ps) (c # s) = (ascii_lower c = ascii_lower p \<and> match_here ps s)"
| "match_here (AnyUnit # ps) s = (case after_unit s of None \<Rightarrow> False | Some r \<Rightarrow> match_here ps r)"

fun pattern_test :: "pattern_char list \<Rightarrow> string \<Rightarrow> bool" where
  "pattern_test p [] = match_here p []"
| "pattern_test p (c # s) = (match_here p (c # s) \<or> pattern_test p s)"

definition word :: "string \<Rightarrow> pattern_char list" where
  "word = map Lit"

text \<open>The texts a user can be shown, named by what they say.\<close>

datatype friendly_text =
    UnknownErrorText | BrowserBlockedText | PolicyBlockedText | ServerUnreachableText | TimedOutText
  | BadReplyText | CryptoFailedText | CrossOriginText | LoadFailedText | StorageFullText | CancelledText
  | UnexpectedErrorText | AsIs string

definition TECHNICAL_PATTERNS :: "(pattern_char list list \<times> friendly_text) list" where
  "TECHNICAL_PATTERNS =
     [([word ''WebAssembly''], BrowserBlockedText),
      ([word ''Content'' @ [AnyUnit] @ word ''Security'' @ [AnyUnit] @ word ''Policy''], PolicyBlockedText),
      ([word ''Failed to fetch'', word ''NetworkError'', word ''net::ERR''], ServerUnreachableText),
      ([word ''timeout'', word ''ETIMEDOUT''], TimedOutText),
      ([word ''JSON.parse'', word ''Unexpected token''], BadReplyText),
      ([word ''crypto'', word ''subtle'', word ''digest'', word ''encrypt'', word ''decrypt''], CryptoFailedText),
      ([word ''CORS'', word ''cross-origin''], CrossOriginText),
      ([word ''chunk'', word ''module'', word ''import''], LoadFailedText),
      ([word ''QuotaExceeded'', word ''localStorage'', word ''sessionStorage''], StorageFullText),
      ([word ''AbortError'', word ''aborted''], CancelledText)]"

text \<open>The argument is the message of the error (or its text form); \<open>None\<close> is \<open>null\<close> or \<open>undefined\<close>.\<close>

definition userFriendlyError :: "string option \<Rightarrow> friendly_text" where
  "userFriendlyError err =
     (case err of
        None \<Rightarrow> UnknownErrorText
      | Some raw \<Rightarrow>
          (case find (\<lambda>(alternatives, friendly). \<exists>p\<in>set alternatives. pattern_test p raw) TECHNICAL_PATTERNS of
             Some (_, friendly) \<Rightarrow> friendly
           | None \<Rightarrow> if js_length raw > 200 then UnexpectedErrorText else AsIs raw))"

subsection \<open>What is never shown\<close>

lemma match_word:
  "match_here (word p) s \<longleftrightarrow> map ascii_lower (take (length p) s) = map ascii_lower p"
proof (induction p arbitrary: s)
  case (Cons c p)
  then show ?case by (cases s) (simp_all add: word_def)
qed (simp add: word_def)

lemma test_word: "pattern_test (word p) s \<longleftrightarrow> contains_text (map ascii_lower p) (map ascii_lower s)"
proof (induction s)
  case (Cons c s)
  have "match_here (word p) (c # s) \<longleftrightarrow> take (length p) (map ascii_lower (c # s)) = map ascii_lower p"
    by (simp only: match_word take_map)
  with Cons show ?case by simp
qed (simp add: match_word)

text \<open>A message that reaches the user as it is is short and matches none of the patterns.\<close>

lemma find_in_set: "find P xs = Some x \<Longrightarrow> x \<in> set xs"
  by (auto simp: find_Some_iff)

lemma no_pattern_passes: "(a, f) \<in> set TECHNICAL_PATTERNS \<Longrightarrow> f \<noteq> AsIs t"
  by (auto simp: TECHNICAL_PATTERNS_def)

lemma shown_message_is_clean:
  assumes "userFriendlyError err = AsIs m"
  shows "err = Some m \<and> js_length m \<le> 200 \<and> (\<forall>(a, f)\<in>set TECHNICAL_PATTERNS. \<forall>p\<in>set a. \<not> pattern_test p m)"
proof (cases err)
  case None
  with assms show ?thesis by (simp add: userFriendlyError_def)
next
  case (Some raw)
  define hit where "hit = find (\<lambda>(alternatives, friendly). \<exists>p\<in>set alternatives. pattern_test p raw) TECHNICAL_PATTERNS"
  have u: "userFriendlyError err = (case hit of Some (_, friendly) \<Rightarrow> friendly
      | None \<Rightarrow> if js_length raw > 200 then UnexpectedErrorText else AsIs raw)"
    by (simp add: userFriendlyError_def hit_def Some)
  have "hit = None"
  proof (rule ccontr)
    assume "hit \<noteq> None"
    then obtain a f where h: "hit = Some (a, f)" by auto
    then have "(a, f) \<in> set TECHNICAL_PATTERNS" unfolding hit_def by (rule find_in_set)
    from no_pattern_passes [OF this, of m] h u assms show False by simp
  qed
  moreover from this have "\<forall>(a, f)\<in>set TECHNICAL_PATTERNS. \<forall>p\<in>set a. \<not> pattern_test p raw"
    by (auto simp: hit_def find_None_iff)
  ultimately show ?thesis using u assms Some by (auto split: if_splits)
qed

end
