(* ===== verification/ImportPage.thy ===== *)
theory ImportPage
  imports ItemShare UserError AdminHooks
begin

text \<open>
  Bulk import (\<open>web/src/pages/import.tsx\<close>, \<open>web/src/lib/kdbx-parser.ts\<close>): reading a KeePass
  database, mapping the columns of a CSV file, encrypting every item in the browser and the steps of
  the page.
\<close>

subsection \<open>Reading a KeePass database\<close>

text \<open>What the KeePass library hands over: field values are strings or protected values, groups form
  a tree; an absent list of groups or entries is empty.\<close>

datatype kdbx_value = PlainText string | ProtectedText "string option"

type_synonym kdbx_entry = "(string \<times> kdbx_value) list"

datatype kdbx_group = Group (group_name: "string option") (group_groups: "kdbx_group list") (group_entries: "kdbx_entry list")

record kdbx_db =
  db_root :: kdbx_group
  db_name :: "string option"

record ParsedImportEntry =
  pe_title :: string
  pe_groupPath :: string
  pe_username :: "string option"
  pe_password :: "string option"
  pe_url :: "string option"
  pe_notes :: "string option"
  pe_extra :: "(string \<times> string) list"

fun value_text :: "kdbx_value \<Rightarrow> string" where
  "value_text (PlainText s) = s"
| "value_text (ProtectedText t) = nullish t []"

definition getField :: "kdbx_entry \<Rightarrow> string \<Rightarrow> string" where
  "getField entry key = (case map_of entry key of None \<Rightarrow> [] | Some v \<Rightarrow> value_text v)"

definition known_fields :: "string set" where
  "known_fields = {''Title'', ''UserName'', ''Password'', ''URL'', ''Notes''}"

definition extra_fields :: "kdbx_entry \<Rightarrow> (string \<times> string) list" where
  "extra_fields entry =
     foldl (\<lambda>extra (k, v). if k \<notin> known_fields then AList.update k (value_text v) extra else extra) [] entry"

text \<open>\<open>path || 'Root'\<close> and the path of a child group.\<close>

definition path_or_root :: "string option \<Rightarrow> string" where
  "path_or_root path = (if truthy path then the path else ''Root'')"

definition child_path :: "string option \<Rightarrow> string option \<Rightarrow> string option" where
  "child_path path name = (if truthy path then Some (the path @ ''/'' @ nullish name ''undefined'') else name)"

definition parse_entry :: "string option \<Rightarrow> kdbx_entry \<Rightarrow> ParsedImportEntry" where
  "parse_entry path entry =
     \<lparr>pe_title = (if getField entry ''Title'' = [] then ''Untitled'' else getField entry ''Title''),
      pe_groupPath = path_or_root path,
      pe_username = or_undefined (getField entry ''UserName''),
      pe_password = or_undefined (getField entry ''Password''),
      pe_url = or_undefined (getField entry ''URL''),
      pe_notes = or_undefined (getField entry ''Notes''),
      pe_extra = extra_fields entry\<rparr>"

text \<open>\<open>walkGroup\<close> pushes onto the shared list: first every subgroup, then the entries of the group.\<close>

fun walkGroup :: "kdbx_group \<Rightarrow> string option \<Rightarrow> ParsedImportEntry list \<Rightarrow> ParsedImportEntry list" where
  "walkGroup (Group name groups es) path acc =
     foldl (\<lambda>a e. a @ [parse_entry path e])
       (foldl (\<lambda>a c. walkGroup c (child_path path (group_name c)) a) acc groups) es"

text \<open>\<open>Kdbx.load\<close> is a parameter: it fails with a message or gives the database.\<close>

definition parseKdbx ::
    "(bytes \<Rightarrow> string \<Rightarrow> string + kdbx_db) \<Rightarrow> bytes \<Rightarrow> string \<Rightarrow> string + ParsedImportEntry list \<times> string" where
  "parseKdbx load fileBuffer password =
     (case load fileBuffer password of
        Inl m \<Rightarrow> Inl m
      | Inr db \<Rightarrow> Inr (walkGroup (db_root db) (Some []) [], nullish (db_name db) ''KeePass Database''))"

subsection \<open>Mapping the columns of a CSV file\<close>

record ColumnMapping =
  nameCol :: string
  usernameCol :: string
  passwordCol :: string
  urlCol :: string
  notesCol :: string
  descriptionCol :: string

definition EMPTY_MAPPING :: ColumnMapping where
  "EMPTY_MAPPING = \<lparr>nameCol = [], usernameCol = [], passwordCol = [], urlCol = [], notesCol = [], descriptionCol = []\<rparr>"

definition FIELD_KEY_USERNAME :: string where "FIELD_KEY_USERNAME = ''username''"
definition FIELD_KEY_PASSWORD :: string where "FIELD_KEY_PASSWORD = ''password''"
definition FIELD_KEY_URL :: string where "FIELD_KEY_URL = ''url''"
definition FIELD_KEY_NOTES :: string where "FIELD_KEY_NOTES = ''notes''"

text \<open>\<open>detect\<close>: the first header whose lower case is a candidate; \<open>lower\<close> is \<open>toLowerCase\<close>.\<close>

definition detect :: "(string \<Rightarrow> string) \<Rightarrow> string list \<Rightarrow> string list \<Rightarrow> string" where
  "detect lower headers candidates = nullish (find (\<lambda>h. lower h \<in> set candidates) headers) []"

definition detect_mapping :: "(string \<Rightarrow> string) \<Rightarrow> string list \<Rightarrow> ColumnMapping" where
  "detect_mapping lower headers =
     \<lparr>nameCol = detect lower headers [''name'', ''title'', ''label''],
      usernameCol = detect lower headers [''username'', ''user'', ''login'', ''user name''],
      passwordCol = detect lower headers [''password'', ''pass'', ''pwd'', ''secret''],
      urlCol = detect lower headers [''url'', ''website'', ''link'', ''uri''],
      notesCol = detect lower headers [''notes'', ''note'', ''comment'', ''comments'', ''description''],
      descriptionCol = detect lower headers [''description'', ''desc'']\<rparr>"

subsection \<open>Encrypting the items\<close>

record BatchImportItem =
  bi_id :: string
  bi_folder_id :: string
  bi_item_type_id :: nat
  bi_name :: string
  bi_description :: string
  bi_fields :: "ItemField list"
  bi_owner_dek_wrapped :: string
  bi_owner_wrap_nonce :: string

fun encryptItemFields ::
    "'r webcrypto \<Rightarrow> (nat \<times> string) list \<Rightarrow> bytes \<Rightarrow> 'r \<Rightarrow> (form_error + (nat \<times> string \<times> string) list) \<times> 'r" where
  "encryptItemFields wc [] dek r = (Inr [], r)"
| "encryptItemFields wc ((i, v) # fs) dek r =
     (if v = [] then encryptItemFields wc fs dek r
      else case encryptField wc v dek r of
          (Inl e, r1) \<Rightarrow> (Inl (FormCrypto e), r1)
        | (Inr (ct, nonce), r1) \<Rightarrow>
            (case encryptItemFields wc fs dek r1 of
               (Inl e, r2) \<Rightarrow> (Inl e, r2)
             | (Inr rest, r2) \<Rightarrow> (Inr ((i, toBase64 ct, toBase64 nonce) # rest), r2)))"

definition sealOwnerDEK :: "'r webcrypto \<Rightarrow> bytes \<Rightarrow> bytes \<Rightarrow> 'r \<Rightarrow> (form_error + string \<times> string) \<times> 'r" where
  "sealOwnerDEK wc dek ownerPublicKey r =
     (case sealDEK wc dek ownerPublicKey r of
        (Inl e, r1) \<Rightarrow> (Inl (FormCrypto e), r1)
      | (Inr (wrapped, nonce), r1) \<Rightarrow> (Inr (toBase64 wrapped, toBase64 nonce), r1))"

text \<open>What both loops do for one item; \<open>uuid\<close> stands for \<open>uuidv7\<close>, called once per item.\<close>

definition import_item ::
    "'r webcrypto \<Rightarrow> string \<Rightarrow> nat \<Rightarrow> string \<Rightarrow> bytes \<Rightarrow> string \<Rightarrow> string \<Rightarrow> (nat \<times> string) list \<Rightarrow> 'r
       \<Rightarrow> (form_error + BatchImportItem) \<times> 'r" where
  "import_item wc uuid itemTypeId folderId ownerPublicKey name description rawFields r =
     (let (dek, r1) = generateDEK wc r
      in case sealOwnerDEK wc dek ownerPublicKey r1 of
          (Inl e, r2) \<Rightarrow> (Inl e, r2)
        | (Inr (owner_dek_wrapped, owner_wrap_nonce), r2) \<Rightarrow>
            (case encryptItemFields wc rawFields dek r2 of
               (Inl e, r3) \<Rightarrow> (Inl e, r3)
             | (Inr encFields, r3) \<Rightarrow>
                 (Inr \<lparr>bi_id = uuid, bi_folder_id = folderId, bi_item_type_id = itemTypeId, bi_name = name,
                       bi_description = description,
                       bi_fields = map (\<lambda>(i, enc, nonce). \<lparr>if_field_definition_id = i, if_value_enc = Some enc,
                           if_value_nonce = Some nonce, if_position = 0\<rparr>) encFields,
                       bi_owner_dek_wrapped = owner_dek_wrapped, bi_owner_wrap_nonce = owner_wrap_nonce\<rparr>, r3)))"

type_synonym csv_row = "string \<Rightarrow> string option"

text \<open>A column is used when it is mapped, the row has a value in it, and the field is defined.\<close>

definition raw_field :: "bool \<Rightarrow> string option \<Rightarrow> nat option \<Rightarrow> (nat \<times> string) list" where
  "raw_field mapped v fd =
     (if mapped \<and> truthy v then (case fd of None \<Rightarrow> [] | Some i \<Rightarrow> [(i, the v)]) else [])"

definition csv_fields :: "csv_row \<Rightarrow> ColumnMapping \<Rightarrow> (string \<Rightarrow> nat option) \<Rightarrow> (nat \<times> string) list" where
  "csv_fields row mp findFieldDef =
     raw_field (usernameCol mp \<noteq> []) (row (usernameCol mp)) (findFieldDef FIELD_KEY_USERNAME)
     @ raw_field (passwordCol mp \<noteq> []) (row (passwordCol mp)) (findFieldDef FIELD_KEY_PASSWORD)
     @ raw_field (urlCol mp \<noteq> []) (row (urlCol mp)) (findFieldDef FIELD_KEY_URL)
     @ raw_field (notesCol mp \<noteq> []) (row (notesCol mp)) (findFieldDef FIELD_KEY_NOTES)"

definition csv_description :: "csv_row \<Rightarrow> ColumnMapping \<Rightarrow> string" where
  "csv_description row mp = (if descriptionCol mp \<noteq> [] then nullish (row (descriptionCol mp)) [] else [])"

text \<open>\<open>row[nameCol]?.trim()\<close>; a row without a name is skipped.\<close>

definition csv_name :: "csv_row \<Rightarrow> ColumnMapping \<Rightarrow> string option" where
  "csv_name row mp = or_undef (map_option trim (row (nameCol mp)))"

fun buildCSVItems ::
    "'r webcrypto \<Rightarrow> (nat \<Rightarrow> string) \<Rightarrow> nat \<Rightarrow> csv_row list \<Rightarrow> ColumnMapping \<Rightarrow> nat \<Rightarrow> string \<Rightarrow> bytes
       \<Rightarrow> (string \<Rightarrow> nat option) \<Rightarrow> 'r \<Rightarrow> (form_error + BatchImportItem list) \<times> 'r" where
  "buildCSVItems wc uuid n [] mp itemTypeId folderId pub findFieldDef r = (Inr [], r)"
| "buildCSVItems wc uuid n (row # rows) mp itemTypeId folderId pub findFieldDef r =
     (case csv_name row mp of
        None \<Rightarrow> buildCSVItems wc uuid n rows mp itemTypeId folderId pub findFieldDef r
      | Some name \<Rightarrow>
          (case import_item wc (uuid n) itemTypeId folderId pub name (csv_description row mp)
               (csv_fields row mp findFieldDef) r of
             (Inl e, r1) \<Rightarrow> (Inl e, r1)
           | (Inr item, r1) \<Rightarrow>
               (case buildCSVItems wc uuid (Suc n) rows mp itemTypeId folderId pub findFieldDef r1 of
                  (Inl e, r2) \<Rightarrow> (Inl e, r2)
                | (Inr items, r2) \<Rightarrow> (Inr (item # items), r2))))"

definition kdbx_fields :: "ParsedImportEntry \<Rightarrow> (string \<Rightarrow> nat option) \<Rightarrow> (nat \<times> string) list" where
  "kdbx_fields e findFieldDef =
     raw_field True (pe_username e) (findFieldDef FIELD_KEY_USERNAME)
     @ raw_field True (pe_password e) (findFieldDef FIELD_KEY_PASSWORD)
     @ raw_field True (pe_url e) (findFieldDef FIELD_KEY_URL)
     @ raw_field True (pe_notes e) (findFieldDef FIELD_KEY_NOTES)"

definition kdbx_description :: "ParsedImportEntry \<Rightarrow> string" where
  "kdbx_description e = (if pe_groupPath e \<noteq> [] then ''KeePass grubu: '' @ pe_groupPath e else [])"

fun buildKdbxItems ::
    "'r webcrypto \<Rightarrow> (nat \<Rightarrow> string) \<Rightarrow> nat \<Rightarrow> ParsedImportEntry list \<Rightarrow> nat \<Rightarrow> string \<Rightarrow> bytes
       \<Rightarrow> (string \<Rightarrow> nat option) \<Rightarrow> 'r \<Rightarrow> (form_error + BatchImportItem list) \<times> 'r" where
  "buildKdbxItems wc uuid n [] itemTypeId folderId pub findFieldDef r = (Inr [], r)"
| "buildKdbxItems wc uuid n (e # es) itemTypeId folderId pub findFieldDef r =
     (case import_item wc (uuid n) itemTypeId folderId pub (pe_title e) (kdbx_description e)
          (kdbx_fields e findFieldDef) r of
        (Inl x, r1) \<Rightarrow> (Inl x, r1)
      | (Inr item, r1) \<Rightarrow>
          (case buildKdbxItems wc uuid (Suc n) es itemTypeId folderId pub findFieldDef r1 of
             (Inl x, r2) \<Rightarrow> (Inl x, r2)
           | (Inr items, r2) \<Rightarrow> (Inr (item # items), r2)))"


subsection \<open>The page\<close>

datatype ImportTab = TabCsv | TabKdbx
datatype ImportStep = Select | Preview | Mapping | Importing | Done

datatype import_error = NoEncryptionKey | NoTargetFolder | WrongKdbxPassword | Shown friendly_text | ImportFailed form_error

record csv_preview =
  cp_headers :: "string list"
  cp_rows :: "csv_row list"
  cp_total :: nat

record import_state =
  im_tab :: ImportTab
  im_step :: ImportStep
  im_error :: "import_error option"
  im_csvFile :: "string option"
  im_csvHeaders :: "string list"
  im_csvRows :: "csv_row list"
  im_csvTotal :: nat
  im_mapping :: ColumnMapping
  im_kdbxFile :: "bytes option"
  im_kdbxPassword :: string
  im_kdbxEntries :: "ParsedImportEntry list"
  im_kdbxName :: string
  im_targetFolderId :: string
  im_itemTypeId :: nat
  im_importResult :: "json option"

definition initial_import :: import_state where
  "initial_import = \<lparr>im_tab = TabCsv, im_step = Select, im_error = None, im_csvFile = None, im_csvHeaders = [],
     im_csvRows = [], im_csvTotal = 0, im_mapping = EMPTY_MAPPING, im_kdbxFile = None, im_kdbxPassword = [],
     im_kdbxEntries = [], im_kdbxName = [], im_targetFolderId = [], im_itemTypeId = 1, im_importResult = None\<rparr>"

text \<open>\<open>handleCSVUpload\<close>, the preview request having settled with \<open>result\<close>.\<close>

definition handleCSVUpload :: "(string \<Rightarrow> string) \<Rightarrow> form_error + csv_preview \<Rightarrow> import_state \<Rightarrow> import_state" where
  "handleCSVUpload lower result st =
     (if im_csvFile st = None then st
      else (case result of
          Inl e \<Rightarrow> st\<lparr>im_error := Some (ImportFailed e)\<rparr>
        | Inr p \<Rightarrow> st\<lparr>im_error := None, im_csvHeaders := cp_headers p, im_csvRows := cp_rows p,
            im_csvTotal := cp_total p, im_mapping := detect_mapping lower (cp_headers p), im_step := Preview\<rparr>))"

definition handleKdbxParse :: "(bytes \<Rightarrow> string \<Rightarrow> string + kdbx_db) \<Rightarrow> import_state \<Rightarrow> import_state" where
  "handleKdbxParse load st =
     (case im_kdbxFile st of
        None \<Rightarrow> st
      | Some buffer \<Rightarrow>
          if im_kdbxPassword st = [] then st
          else (case parseKdbx load buffer (im_kdbxPassword st) of
              Inl m \<Rightarrow> st\<lparr>im_error := Some (if contains_text ''Invalid credentials'' m then WrongKdbxPassword
                else Shown (userFriendlyError (Some m)))\<rparr>
            | Inr (entries, dbName) \<Rightarrow>
                st\<lparr>im_error := None, im_kdbxEntries := entries, im_kdbxName := dbName, im_step := Preview\<rparr>))"

definition import_json :: "BatchImportItem \<Rightarrow> json" where
  "import_json i =
     JObj [(''id'', JStr (bi_id i)), (''folder_id'', JStr (bi_folder_id i)),
       (''item_type_id'', JNum (int (bi_item_type_id i))), (''name'', JStr (bi_name i)),
       (''description'', JStr (bi_description i)), (''fields'', JArr (map field_json (bi_fields i))),
       (''owner_dek_wrapped'', JStr (bi_owner_dek_wrapped i)), (''owner_wrap_nonce'', JStr (bi_owner_wrap_nonce i))]"

text \<open>\<open>handleImport\<close>. The public key is decoded before the \<open>try\<close>: when that throws, the page stays on
  its spinner.\<close>

definition build_items ::
    "'r webcrypto \<Rightarrow> (nat \<Rightarrow> string) \<Rightarrow> bytes \<Rightarrow> (string \<Rightarrow> nat option) \<Rightarrow> import_state \<Rightarrow> 'r
       \<Rightarrow> (form_error + BatchImportItem list) \<times> 'r" where
  "build_items wc uuid pub findFieldDef st r =
     (case im_tab st of
        TabCsv \<Rightarrow> buildCSVItems wc uuid 0 (im_csvRows st) (im_mapping st) (im_itemTypeId st) (im_targetFolderId st) pub findFieldDef r
      | TabKdbx \<Rightarrow> buildKdbxItems wc uuid 0 (im_kdbxEntries st) (im_itemTypeId st) (im_targetFolderId st) pub findFieldDef r)"

definition handleImport ::
    "'r webcrypto \<Rightarrow> 'w net \<Rightarrow> (nat \<Rightarrow> string) \<Rightarrow> bytes option \<Rightarrow> string option \<Rightarrow> FieldDefinition list \<Rightarrow> import_state
       \<Rightarrow> 'w web_env \<times> 'r \<Rightarrow> import_state \<times> 'w web_env \<times> 'r" where
  "handleImport wc net uuid privateKey publicKey fieldDefs st s =
     (let (env, r) = s in
      if privateKey = None \<or> \<not> truthy publicKey then (st\<lparr>im_error := Some NoEncryptionKey\<rparr>, s)
      else if im_targetFolderId st = [] then (st\<lparr>im_error := Some NoTargetFolder\<rparr>, s)
      else
        (let st1 = st\<lparr>im_error := None, im_step := Importing\<rparr>;
             findFieldDef = (\<lambda>key. map_option fd_id (find (\<lambda>f. fd_key f = key) fieldDefs))
         in case fromBase64 (the publicKey) of
             Inl _ \<Rightarrow> (st1, s)
           | Inr pubKeyBytes \<Rightarrow>
               (case build_items wc uuid pubKeyBytes findFieldDef st r of
                  (Inl e, r1) \<Rightarrow> (st1\<lparr>im_error := Some (ImportFailed e), im_step := Mapping\<rparr>, env, r1)
                | (Inr items, r1) \<Rightarrow>
                    (case run_mutation net (useBatchImportMutation (JObj [(''items'', JArr (map import_json items))])) env of
                       (Inl e, _, env1) \<Rightarrow> (st1\<lparr>im_error := Some (ImportFailed (FormApi e)), im_step := Mapping\<rparr>, env1, r1)
                     | (Inr result, _, env1) \<Rightarrow> (st1\<lparr>im_importResult := result, im_step := Done\<rparr>, env1, r1)))))"

text \<open>What the page renders below its title, and what a user can do there.\<close>

datatype import_panel = SelectPanel | PreviewPanel | SpinnerPanel | DonePanel

definition import_view :: "import_state \<Rightarrow> import_panel list" where
  "import_view st =
     (if im_step st = Select then [SelectPanel] else [])
     @ (if im_step st = Preview then [PreviewPanel] else [])
     @ (if im_step st = Importing then [SpinnerPanel] else [])
     @ (if im_step st = Done \<and> im_importResult st \<noteq> None then [DonePanel] else [])"

datatype import_action =
    SwitchTab ImportTab | PickCsv string | UploadCsv | PickKdbx bytes | TypeKdbxPassword string | OpenKdbx
  | ChooseFolder string | ChooseType nat | MapColumns "ColumnMapping \<Rightarrow> ColumnMapping" | Back | StartImport | NewImport

fun import_available :: "import_state \<Rightarrow> import_action \<Rightarrow> bool" where
  "import_available st (SwitchTab t) = (SelectPanel \<in> set (import_view st))"
| "import_available st (PickCsv f) = (SelectPanel \<in> set (import_view st) \<and> im_tab st = TabCsv)"
| "import_available st UploadCsv = (SelectPanel \<in> set (import_view st) \<and> im_tab st = TabCsv \<and> im_csvFile st \<noteq> None)"
| "import_available st (PickKdbx f) = (SelectPanel \<in> set (import_view st) \<and> im_tab st = TabKdbx)"
| "import_available st (TypeKdbxPassword p) = (SelectPanel \<in> set (import_view st) \<and> im_tab st = TabKdbx)"
| "import_available st OpenKdbx =
     (SelectPanel \<in> set (import_view st) \<and> im_tab st = TabKdbx \<and> im_kdbxFile st \<noteq> None \<and> im_kdbxPassword st \<noteq> [])"
| "import_available st (ChooseFolder f) = (PreviewPanel \<in> set (import_view st))"
| "import_available st (ChooseType t) = (PreviewPanel \<in> set (import_view st))"
| "import_available st (MapColumns g) = (PreviewPanel \<in> set (import_view st) \<and> im_tab st = TabCsv)"
| "import_available st Back = (PreviewPanel \<in> set (import_view st))"
| "import_available st StartImport =
     (PreviewPanel \<in> set (import_view st) \<and> im_targetFolderId st \<noteq> []
      \<and> \<not> (im_tab st = TabCsv \<and> nameCol (im_mapping st) = []))"
| "import_available st NewImport = (DonePanel \<in> set (import_view st))"

text \<open>The actions that only set state.\<close>

fun import_act :: "import_action \<Rightarrow> import_state \<Rightarrow> import_state" where
  "import_act (SwitchTab t) st = st\<lparr>im_tab := t, im_error := None\<rparr>"
| "import_act (PickCsv f) st = st\<lparr>im_csvFile := Some f\<rparr>"
| "import_act (PickKdbx f) st = st\<lparr>im_kdbxFile := Some f\<rparr>"
| "import_act (TypeKdbxPassword p) st = st\<lparr>im_kdbxPassword := p\<rparr>"
| "import_act (ChooseFolder f) st = st\<lparr>im_targetFolderId := f\<rparr>"
| "import_act (ChooseType t) st = st\<lparr>im_itemTypeId := t\<rparr>"
| "import_act (MapColumns g) st = st\<lparr>im_mapping := g (im_mapping st)\<rparr>"
| "import_act Back st = st\<lparr>im_step := Select, im_error := None\<rparr>"
| "import_act NewImport st = st\<lparr>im_step := Select, im_error := None, im_importResult := None, im_csvFile := None,
     im_kdbxFile := None, im_kdbxPassword := []\<rparr>"
| "import_act _ st = st"

subsection \<open>The walk over the groups\<close>

text \<open>
  The specification: every entry of the tree with the names of the groups it is in below the top
  one, subgroups before the entries of their group. A group without a name directly below the top
  adds nothing, deeper it adds the text \<open>undefined\<close>.
\<close>

definition deeper :: "string list \<Rightarrow> string option \<Rightarrow> string list" where
  "deeper names name = (if names = [] \<and> \<not> truthy name then [] else names @ [nullish name ''undefined''])"

fun located :: "string list \<Rightarrow> kdbx_group \<Rightarrow> (string list \<times> kdbx_entry) list" where
  "located names (Group n gs es) =
     concat (map (\<lambda>c. located (deeper names (group_name c)) c) gs) @ map (\<lambda>e. (names, e)) es"

fun all_entries :: "kdbx_group \<Rightarrow> kdbx_entry list" where
  "all_entries (Group n gs es) = concat (map all_entries gs) @ es"

lemma map_snd_located: "map snd (located names g) = all_entries g"
  by (induction names g rule: located.induct) (simp add: map_concat comp_def, metis (no_types, lifting) map_eq_conv)

lemma join_snoc: "xs \<noteq> [] \<Longrightarrow> join sep (xs @ [y]) = join sep xs @ sep @ y"
  by (induction sep xs rule: join.induct) simp_all

lemma join_nonempty: "xs \<noteq> [] \<Longrightarrow> hd xs \<noteq> [] \<Longrightarrow> join sep xs \<noteq> []"
  by (induction sep xs rule: join.induct) auto

text \<open>The path argument the walk has at a place of the tree.\<close>

definition path_at :: "string list \<Rightarrow> string option \<Rightarrow> bool" where
  "path_at names path \<longleftrightarrow>
     (if names = [] then \<not> truthy path else hd names \<noteq> [] \<and> path = Some (join ''/'' names))"

lemma path_at_child: "path_at names path \<Longrightarrow> path_at (deeper names name) (child_path path name)"
  by (cases "names = []"; cases name) (auto simp: path_at_def deeper_def child_path_def join_nonempty join_snoc)

lemma parse_entry_at: "path_at names path \<Longrightarrow> parse_entry path e = parse_entry (Some (join ''/'' names)) e"
  by (auto simp: path_at_def parse_entry_def path_or_root_def split: if_splits)

lemma push_all: "foldl (\<lambda>a e. a @ [f e]) acc es = acc @ map f es"
  by (induction es arbitrary: acc) simp_all

lemma walkGroup_located:
  assumes "path_at names path"
  shows "walkGroup g path acc = acc @ map (\<lambda>(ns, e). parse_entry (Some (join ''/'' ns)) e) (located names g)"
  using assms
proof (induction g arbitrary: names path acc)
  case (Group n gs es)
  have "foldl (\<lambda>a c. walkGroup c (child_path path (group_name c)) a) acc hs
      = acc @ map (\<lambda>(ns, e). parse_entry (Some (join ''/'' ns)) e)
          (concat (map (\<lambda>c. located (deeper names (group_name c)) c) hs))"
    if "set hs \<subseteq> set gs" for hs acc
    using that
  proof (induction hs arbitrary: acc)
    case (Cons c hs)
    then show ?case using Group.IH [OF _ path_at_child [OF Group.prems]] by simp
  qed simp
  with Group.prems show ?case by (simp add: push_all parse_entry_at comp_def)
qed

lemma located_heads: "(ns, e) \<in> set (located names g) \<Longrightarrow> names = [] \<or> hd names \<noteq> [] \<Longrightarrow> ns = [] \<or> hd ns \<noteq> []"
proof (induction names g rule: located.induct)
  case (1 names n gs es)
  then consider "ns = names" | c where "c \<in> set gs" "(ns, e) \<in> set (located (deeper names (group_name c)) c)" by auto
  then show ?case
  proof cases
    case 2
    have "deeper names (group_name c) = [] \<or> hd (deeper names (group_name c)) \<noteq> []"
      using 1(3) by (cases "group_name c") (auto simp: deeper_def hd_append)
    with 1(1) 2 show ?thesis by blast
  qed (use 1(3) in simp)
qed

lemma located_path:
  assumes "(ns, e) \<in> set (located [] g)"
  shows "pe_groupPath (parse_entry (Some (join ''/'' ns)) e) = (if ns = [] then ''Root'' else join ''/'' ns)"
  using located_heads [OF assms] join_nonempty [of ns "''/''"] by (auto simp: parse_entry_def path_or_root_def)

lemma parseKdbx_located:
  assumes "load buffer password = Inr db"
  shows "parseKdbx load buffer password
      = Inr (map (\<lambda>(ns, e). parse_entry (Some (join ''/'' ns)) e) (located [] (db_root db)),
          nullish (db_name db) ''KeePass Database'')"
  using assms walkGroup_located [of "[]" "Some []"] by (simp add: parseKdbx_def path_at_def)


subsection \<open>Imported items\<close>

lemma encryptItemFields_open:
  assumes "webcrypto_laws wc" and "\<forall>(i, v)\<in>set fs. v \<noteq> [] \<and> readable v"
    and "encryptItemFields wc fs dek r = (Inr es, r')"
  shows "map (\<lambda>(i, enc, nonce). (i, decrypt_stored wc dek \<lparr>if_field_definition_id = i, if_value_enc = Some enc,
      if_value_nonce = Some nonce, if_position = 0\<rparr>)) es = map (\<lambda>(i, v). (i, Some v)) fs"
  using assms(2,3)
proof (induction fs arbitrary: r es)
  case (Cons f fs)
  obtain i v where f: "f = (i, v)" by fastforce
  have v: "v \<noteq> []" "readable v" using Cons.prems(1) by (simp_all add: f)
  obtain ct nonce r1 where c: "encryptField wc v dek r = (Inr (ct, nonce), r1)"
    using Cons.prems(2) v by (auto simp: f split: prod.splits sum.splits)
  obtain rest where e: "encryptItemFields wc fs dek r1 = (Inr rest, r')" "es = (i, toBase64 ct, toBase64 nonce) # rest"
    using Cons.prems(2) v c by (auto simp: f split: prod.splits sum.splits)
  note k = encryptField_readable [OF assms(1) c]
  from Cons.IH [OF _ e(1)] Cons.prems(1) k(1,2) k(3) [OF v(2)] e(2) show ?case
    by (simp add: f decrypt_stored_def base64_back toBase64_nonempty)
qed simp

text \<open>
  What an imported item is to its owner: its key sits in a box that \<open>openDEK\<close> opens, its fields are
  \<open>values\<close> under that key, and yet both item pages, which open keys as wrapped ones, show an error
  for it, unless the two schemes encrypt to the same bytes by accident.
\<close>

definition imported_with :: "'r webcrypto \<Rightarrow> bytes \<Rightarrow> (nat \<times> string) list \<Rightarrow> BatchImportItem \<Rightarrow> bool" where
  "imported_with wc sk values item \<longleftrightarrow>
     (\<exists>dek box n eph. bi_owner_dek_wrapped item = toBase64 box \<and> bi_owner_wrap_nonce item = toBase64 n
       \<and> openDEK wc box n sk = Inr dek
       \<and> map (\<lambda>f. (if_field_definition_id f, decrypt_stored wc dek f)) (bi_fields item)
           = map (\<lambda>(i, v). (i, Some v)) values
       \<and> ((\<forall>p. wc_seal wc (wc_sha256 wc sk) n p \<noteq> wc_seal wc (wc_dh wc eph (wc_pub wc sk)) n dek) \<longrightarrow>
          (\<forall>stored. i_owner_dek_wrapped stored = Some (bi_owner_dek_wrapped item)
             \<and> i_owner_wrap_nonce stored = Some (bi_owner_wrap_nonce item) \<longrightarrow>
             decrypt_item wc (openDEKWithKEK wc) (Some stored) (Some sk)
               = DecryptionError (DetailFailed (FormCrypto OperationError))
             \<and> decrypt_item wc (cl_openDEKWithKEK wc) (Some stored) (Some sk)
               = DecryptionError (DetailFailed (FormCrypto OperationError)))))"

lemma import_item_ok:
  assumes "webcrypto_laws wc" and "length sk = 32" and "\<forall>(i, v)\<in>set raw. v \<noteq> [] \<and> readable v"
    and "import_item wc uuid t fo (wc_pub wc sk) name desc raw r = (Inr item, r')"
  shows "bi_name item = name \<and> bi_description item = desc \<and> bi_id item = uuid \<and> bi_folder_id item = fo
    \<and> bi_item_type_id item = t \<and> imported_with wc sk raw item"
proof -
  obtain dek r1 where g: "generateDEK wc r = (dek, r1)" by fastforce
  obtain eph q where eph: "wc_random wc 32 r1 = (eph, q)" by fastforce
  obtain box n r2 where b: "sealDEK wc dek (wc_pub wc sk) r1 = (Inr (box, n), r2)"
    using assms(4) g by (auto simp: import_item_def sealOwnerDEK_def split: prod.splits sum.splits)
  obtain es where e: "encryptItemFields wc raw dek r2 = (Inr es, r')"
    using assms(4) g b by (auto simp: import_item_def sealOwnerDEK_def split: prod.splits sum.splits)
  have i: "bi_name item = name" "bi_description item = desc" "bi_id item = uuid" "bi_folder_id item = fo"
    "bi_item_type_id item = t" "bi_owner_dek_wrapped item = toBase64 box" "bi_owner_wrap_nonce item = toBase64 n"
    "bi_fields item = map (\<lambda>(i, enc, nonce). \<lparr>if_field_definition_id = i, if_value_enc = Some enc,
        if_value_nonce = Some nonce, if_position = 0\<rparr>) es"
    using assms(4) g b e by (auto simp: import_item_def sealOwnerDEK_def)
  have m: "map (\<lambda>f. (if_field_definition_id f, decrypt_stored wc dek f)) (bi_fields item) = map (\<lambda>(i, v). (i, Some v)) raw"
    using encryptItemFields_open [OF assms(1,3) e] by (simp add: i(8) comp_def case_prod_unfold)
  have "imported_with wc sk raw item"
    unfolding imported_with_def i(6,7)
    by (rule exI [of _ dek], rule exI [of _ box], rule exI [of _ n], rule exI [of _ eph])
      (use m x25519_box.unseal_sealed [OF assms(1,2) b] boxed_item_unreadable(1,2) [OF assms(1) eph b] in blast)
  with i(1-5) show ?thesis by simp
qed

lemma raw_field_cases:
  "raw_field m x fd = [] \<or> (\<exists>i v. x = Some v \<and> v \<noteq> [] \<and> fd = Some i \<and> raw_field m x fd = [(i, v)])"
  by (cases "m \<and> truthy x"; cases x; cases fd) (simp_all add: raw_field_def)

lemma raw_field_values: "(i, v) \<in> set (raw_field m x fd) \<Longrightarrow> v \<noteq> [] \<and> x = Some v"
  using raw_field_cases [of m x fd] by auto

text \<open>
  The specification of the fields: the values that are there and have a field definition, each under
  its definition; the cell of a column, empty when no column is mapped or the row has none.
\<close>

fun defined_fields :: "(string \<Rightarrow> nat option) \<Rightarrow> (string \<times> string) list \<Rightarrow> (nat \<times> string) list" where
  "defined_fields fd [] = []"
| "defined_fields fd ((key, v) # rest) =
     (case fd key of Some i \<Rightarrow> if v = [] then [] else [(i, v)] | None \<Rightarrow> []) @ defined_fields fd rest"

definition cell :: "csv_row \<Rightarrow> string \<Rightarrow> string" where
  "cell row column = (if column = [] then [] else case row column of Some v \<Rightarrow> v | None \<Rightarrow> [])"

definition entry_text :: "kdbx_entry \<Rightarrow> string \<Rightarrow> string" where
  "entry_text e key = (case map_of e key of Some v \<Rightarrow> value_text v | None \<Rightarrow> [])"

lemma raw_field_defined:
  "raw_field m v (fd key) = defined_fields fd [(key, if m then nullish v [] else [])]"
  by (cases v; cases "fd key") (auto simp: raw_field_def)

lemma defined_fields_append: "defined_fields fd (xs @ ys) = defined_fields fd xs @ defined_fields fd ys"
  by (induction fd xs rule: defined_fields.induct) simp_all

lemma csv_fields_defined:
  "csv_fields row mp fd = defined_fields fd
     [(''username'', cell row (usernameCol mp)), (''password'', cell row (passwordCol mp)),
      (''url'', cell row (urlCol mp)), (''notes'', cell row (notesCol mp))]"
proof -
  have c: "(if col \<noteq> [] then nullish (row col) [] else []) = cell row col" for col
    by (cases "row col") (simp_all add: cell_def)
  show ?thesis
    unfolding csv_fields_def raw_field_defined c
    by (simp add: FIELD_KEY_USERNAME_def FIELD_KEY_PASSWORD_def FIELD_KEY_URL_def FIELD_KEY_NOTES_def)
qed

lemma kdbx_fields_defined:
  "kdbx_fields (parse_entry path e) fd = defined_fields fd
     [(''username'', entry_text e ''UserName''), (''password'', entry_text e ''Password''),
      (''url'', entry_text e ''URL''), (''notes'', entry_text e ''Notes'')]"
proof -
  have c: "nullish (or_undefined (getField e k)) [] = entry_text e k" for k
    by (simp add: getField_def entry_text_def or_undefined_def split: option.split)
  show ?thesis
    unfolding kdbx_fields_def raw_field_defined
    by (simp add: FIELD_KEY_USERNAME_def FIELD_KEY_PASSWORD_def FIELD_KEY_URL_def FIELD_KEY_NOTES_def
        parse_entry_def c)
qed

lemma defined_fields_values: "(i, v) \<in> set (defined_fields fd xs) \<Longrightarrow> v \<noteq> [] \<and> v \<in> snd ` set xs"
  by (induction fd xs rule: defined_fields.induct) (auto split: option.splits if_splits)

lemma cell_value: "cell row c \<noteq> [] \<Longrightarrow> row c = Some (cell row c)"
  by (cases "row c") (auto simp: cell_def split: if_splits)

lemma csv_fields_values:
  assumes "(i, v) \<in> set (csv_fields row mp fd)" shows "v \<noteq> [] \<and> (\<exists>c. row c = Some v)"
  using defined_fields_values [OF assms [unfolded csv_fields_defined]] cell_value by auto

lemma kdbx_fields_values:
  "(i, v) \<in> set (kdbx_fields e find') \<Longrightarrow>
     v \<noteq> [] \<and> Some v \<in> {pe_username e, pe_password e, pe_url e, pe_notes e}"
  by (auto simp: kdbx_fields_def dest!: raw_field_values)

lemma csv_name_trim: "csv_name row mp = or_undefined (trim (nullish (row (nameCol mp)) []))"
  by (cases "row (nameCol mp)") (simp_all add: csv_name_def or_undef_def or_undefined_def trim_def trimStart_def trimEnd_def)

lemma kdbx_entry_source:
  assumes "(ns, e) \<in> set (located [] g)"
  shows "pe_title (parse_entry (Some (join ''/'' ns)) e)
      = (if entry_text e ''Title'' = [] then ''Untitled'' else entry_text e ''Title'')"
    and "kdbx_description (parse_entry (Some (join ''/'' ns)) e)
      = ''KeePass grubu: '' @ (if ns = [] then ''Root'' else join ''/'' ns)"
proof -
  show "pe_title (parse_entry (Some (join ''/'' ns)) e)
      = (if entry_text e ''Title'' = [] then ''Untitled'' else entry_text e ''Title'')"
    by (simp add: parse_entry_def getField_def entry_text_def)
  show "kdbx_description (parse_entry (Some (join ''/'' ns)) e)
      = ''KeePass grubu: '' @ (if ns = [] then ''Root'' else join ''/'' ns)"
    using located_path [OF assms] located_heads [OF assms] join_nonempty [of ns "''/''"]
    by (auto simp: kdbx_description_def)
qed

lemma buildCSVItems_ok:
  assumes "webcrypto_laws wc" and "length sk = 32" and "\<forall>row\<in>set rows. \<forall>c v. row c = Some v \<longrightarrow> readable v"
    and "buildCSVItems wc uuid n rows mp t fo (wc_pub wc sk) find' r = (Inr items, r')"
  shows "list_all2 (\<lambda>row item. csv_name row mp = Some (bi_name item)
      \<and> bi_description item = csv_description row mp \<and> bi_folder_id item = fo \<and> bi_item_type_id item = t
      \<and> imported_with wc sk (csv_fields row mp find') item) (filter (\<lambda>row. csv_name row mp \<noteq> None) rows) items"
  using assms(3,4)
proof (induction rows arbitrary: n r items)
  case (Cons row rows)
  have v: "\<forall>(i, v)\<in>set (csv_fields row mp find'). v \<noteq> [] \<and> readable v"
  proof (safe)
    fix i v assume "(i, v) \<in> set (csv_fields row mp find')"
    then obtain c where "row c = Some v" using csv_fields_values by blast
    then show "readable v" using Cons.prems(1) by (meson list.set_intros(1))
  qed (use csv_fields_values in blast)
  show ?case
  proof (cases "csv_name row mp")
    case None
    with Cons show ?thesis by simp
  next
    case (Some name)
    obtain item r1 where a: "import_item wc (uuid n) t fo (wc_pub wc sk) name (csv_description row mp)
        (csv_fields row mp find') r = (Inr item, r1)"
      using Cons.prems(2) Some by (auto split: prod.splits sum.splits)
    obtain items' where b: "buildCSVItems wc uuid (Suc n) rows mp t fo (wc_pub wc sk) find' r1 = (Inr items', r')"
      "items = item # items'"
      using Cons.prems(2) Some a by (auto split: prod.splits sum.splits)
    show ?thesis
      using Cons.IH [OF _ b(1)] Cons.prems(1) import_item_ok [OF assms(1,2) v a] b(2) Some by simp
  qed
qed simp

lemma buildKdbxItems_ok:
  assumes "webcrypto_laws wc" and "length sk = 32"
    and "\<forall>e\<in>set es. \<forall>v. Some v \<in> {pe_username e, pe_password e, pe_url e, pe_notes e} \<longrightarrow> readable v"
    and "buildKdbxItems wc uuid n es t fo (wc_pub wc sk) find' r = (Inr items, r')"
  shows "list_all2 (\<lambda>e item. bi_name item = pe_title e
      \<and> bi_description item = kdbx_description e \<and> bi_folder_id item = fo \<and> bi_item_type_id item = t
      \<and> imported_with wc sk (kdbx_fields e find') item) es items"
  using assms(3,4)
proof (induction es arbitrary: n r items)
  case (Cons e es)
  have v: "\<forall>(i, v)\<in>set (kdbx_fields e find'). v \<noteq> [] \<and> readable v"
  proof (safe)
    fix i v assume "(i, v) \<in> set (kdbx_fields e find')"
    then have "Some v \<in> {pe_username e, pe_password e, pe_url e, pe_notes e}" using kdbx_fields_values by blast
    then show "readable v" using Cons.prems(1) by (meson list.set_intros(1))
  qed (use kdbx_fields_values in blast)
  obtain item r1 where a: "import_item wc (uuid n) t fo (wc_pub wc sk) (pe_title e) (kdbx_description e)
      (kdbx_fields e find') r = (Inr item, r1)"
    using Cons.prems(2) by (auto split: prod.splits sum.splits)
  obtain items' where b: "buildKdbxItems wc uuid (Suc n) es t fo (wc_pub wc sk) find' r1 = (Inr items', r')"
    "items = item # items'"
    using Cons.prems(2) a by (auto split: prod.splits sum.splits)
  show ?case using Cons.IH [OF _ b(1)] Cons.prems(1) import_item_ok [OF assms(1,2) v a] b(2) by simp
qed simp

subsection \<open>Properties\<close>

text \<open>
  C24: Reading a KeePass database equals its specification. The recursive walk with its path
  argument and its shared list gives every entry of the whole tree exactly once, the entries of the
  subgroups before those of their group, each with the names of the groups it is in below the top
  group joined by slashes, and \<open>Root\<close> for the entries of the top group itself. The top group's name is
  never part of a path, unlike in the example of the comment on \<open>groupPath\<close> (\<open>Root/Work/Databases\<close>);
  a group without a name adds nothing directly below the top and the text \<open>undefined\<close> deeper.
\<close>
theorem kdbx_walk_equals_enumeration:
  assumes "load buffer password = Inr db"
  shows "parseKdbx load buffer password
      = Inr (map (\<lambda>(ns, e). parse_entry (Some (join ''/'' ns)) e) (located [] (db_root db)),
          nullish (db_name db) ''KeePass Database'')
    \<and> map snd (located [] (db_root db)) = all_entries (db_root db)
    \<and> (\<forall>(ns, e)\<in>set (located [] (db_root db)).
        pe_groupPath (parse_entry (Some (join ''/'' ns)) e) = (if ns = [] then ''Root'' else join ''/'' ns))"
  using parseKdbx_located [where load = load and buffer = buffer and password = password, OF assms]
    map_snd_located located_path by fastforce

text \<open>
  C15: What an import makes of its source. When the items of a CSV file are built, there is one for
  every row with a name, in order, with the trimmed name, the cell of the description column, the
  chosen folder and type, and as fields exactly the cells of the user name, password, URL and notes
  columns that are not empty and whose field is defined. When those of a KeePass database are built,
  there is one for every entry of the tree, in order, with its title (or \<open>Untitled\<close>), its group path as description and its four
  standard texts as fields; its custom fields are not imported. Each item's key is in a box that
  \<open>openDEK\<close> opens with the importing user's private key, and the fields decrypt under it to those values;
  but both item pages open keys as wrapped ones and show a decryption error for every such item, unless
  the two schemes encrypt to the same bytes by accident.
\<close>
theorem imported_items_hold_their_source:
  assumes "webcrypto_laws wc" and "length sk = 32"
    and "\<forall>row\<in>set rows. \<forall>c v. row c = Some v \<longrightarrow> readable v"
    and "\<forall>e\<in>set (all_entries (db_root db)). \<forall>v\<in>snd ` set e. readable (value_text v)"
    and "buildCSVItems wc uuid n rows mp t fo (wc_pub wc sk) fd r = (Inr csvItems, r1)"
    and "load buffer password = Inr db" and "parseKdbx load buffer password = Inr (parsed, dbName)"
    and "buildKdbxItems wc uuid n parsed t fo (wc_pub wc sk) fd r = (Inr kdbxItems, r2)"
  shows "list_all2 (\<lambda>row item. bi_name item = trim (nullish (row (nameCol mp)) [])
      \<and> bi_description item = cell row (descriptionCol mp) \<and> bi_folder_id item = fo \<and> bi_item_type_id item = t
      \<and> imported_with wc sk (defined_fields fd
          [(''username'', cell row (usernameCol mp)), (''password'', cell row (passwordCol mp)),
           (''url'', cell row (urlCol mp)), (''notes'', cell row (notesCol mp))]) item)
      (filter (\<lambda>row. trim (nullish (row (nameCol mp)) []) \<noteq> []) rows) csvItems
    \<and> list_all2 (\<lambda>(ns, e) item.
        bi_name item = (if entry_text e ''Title'' = [] then ''Untitled'' else entry_text e ''Title'')
      \<and> bi_description item = ''KeePass grubu: '' @ (if ns = [] then ''Root'' else join ''/'' ns)
      \<and> bi_folder_id item = fo \<and> bi_item_type_id item = t
      \<and> imported_with wc sk (defined_fields fd
          [(''username'', entry_text e ''UserName''), (''password'', entry_text e ''Password''),
           (''url'', entry_text e ''URL''), (''notes'', entry_text e ''Notes'')]) item)
      (located [] (db_root db)) kdbxItems"
proof
  have f: "filter (\<lambda>row. trim (nullish (row (nameCol mp)) []) \<noteq> []) rows = filter (\<lambda>row. csv_name row mp \<noteq> None) rows"
    by (simp add: csv_name_trim or_undefined_def)
  have d: "csv_description row mp = cell row (descriptionCol mp)" for row
    by (cases "row (descriptionCol mp)") (simp_all add: csv_description_def cell_def)
  show "list_all2 (\<lambda>row item. bi_name item = trim (nullish (row (nameCol mp)) [])
      \<and> bi_description item = cell row (descriptionCol mp) \<and> bi_folder_id item = fo \<and> bi_item_type_id item = t
      \<and> imported_with wc sk (defined_fields fd
          [(''username'', cell row (usernameCol mp)), (''password'', cell row (passwordCol mp)),
           (''url'', cell row (urlCol mp)), (''notes'', cell row (notesCol mp))]) item)
      (filter (\<lambda>row. trim (nullish (row (nameCol mp)) []) \<noteq> []) rows) csvItems"
    unfolding f using buildCSVItems_ok [OF assms(1,2,3,5)]
    by (rule list.rel_mono_strong)
      (auto simp: csv_fields_defined d csv_name_trim or_undefined_def split: if_splits)
next
  have p: "parsed = map (\<lambda>(ns, e). parse_entry (Some (join ''/'' ns)) e) (located [] (db_root db))"
    using parseKdbx_located [where load = load and buffer = buffer and password = password, OF assms(6)] assms(7) by simp
  have v: "readable v"
    if loc: "(ns, e) \<in> set (located [] (db_root db))"
      and val: "Some v \<in> {pe_username x, pe_password x, pe_url x, pe_notes x}" "x = parse_entry (Some (join ''/'' ns)) e" for ns e v x
  proof -
    have "e \<in> set (all_entries (db_root db))"
      using loc map_snd_located [of "[]" "db_root db"] by (metis image_eqI list.set_map snd_conv)
    moreover obtain k where "getField e k = v" "v \<noteq> []"
      using val by (auto simp: parse_entry_def or_undefined_def split: if_splits)
    then obtain w where "map_of e k = Some w" "v = value_text w" by (auto simp: getField_def split: option.splits)
    ultimately show ?thesis using assms(4) by (metis image_eqI map_of_SomeD snd_conv)
  qed
  have "\<forall>e\<in>set parsed. \<forall>v. Some v \<in> {pe_username e, pe_password e, pe_url e, pe_notes e} \<longrightarrow> readable v"
    using v by (auto simp: p)
  note items = buildKdbxItems_ok [OF assms(1,2) this assms(8), unfolded p list.rel_map]
  show "list_all2 (\<lambda>(ns, e) item.
        bi_name item = (if entry_text e ''Title'' = [] then ''Untitled'' else entry_text e ''Title'')
      \<and> bi_description item = ''KeePass grubu: '' @ (if ns = [] then ''Root'' else join ''/'' ns)
      \<and> bi_folder_id item = fo \<and> bi_item_type_id item = t
      \<and> imported_with wc sk (defined_fields fd
          [(''username'', entry_text e ''UserName''), (''password'', entry_text e ''Password''),
           (''url'', entry_text e ''URL''), (''notes'', entry_text e ''Notes'')]) item)
      (located [] (db_root db)) kdbxItems"
    using items by (rule list.rel_mono_strong) (auto simp: kdbx_entry_source kdbx_fields_defined)
qed

text \<open>
  A failed import strands the user on an empty page. Whenever encryption or the batch request
  fails, the page goes to a step it does not render: the error that was set is not shown, and no
  action is offered, not even going back; nothing but leaving the page helps.
\<close>
theorem failed_import_strands_user:
  assumes "im_step st = Preview" and "im_targetFolderId st \<noteq> []" and "fromBase64 pk = Inr pub" and "pk \<noteq> []"
    and "findFieldDef = (\<lambda>key. map_option fd_id (find (\<lambda>f. fd_key f = key) fieldDefs))"
    and "(\<exists>e r1. build_items wc uuid pub findFieldDef st r = (Inl e, r1))
      \<or> (\<exists>items r1 e ks env1. build_items wc uuid pub findFieldDef st r = (Inr items, r1)
          \<and> run_mutation net (useBatchImportMutation (JObj [(''items'', JArr (map import_json items))])) env = (Inl e, ks, env1))"
  shows "\<exists>st' env' r' err. handleImport wc net uuid (Some privateKey) (Some pk) fieldDefs st (env, r) = (st', env', r')
    \<and> im_error st' = Some err \<and> import_view st' = [] \<and> (\<forall>a. \<not> import_available st' a)"
proof -
  have stuck: "import_view (st1\<lparr>im_error := Some e, im_step := Mapping\<rparr>) = []
      \<and> (\<forall>a. \<not> import_available (st1\<lparr>im_error := Some e, im_step := Mapping\<rparr>) a)" for st1 e
  proof -
    have "import_view (st1\<lparr>im_error := Some e, im_step := Mapping\<rparr>) = []" by (simp add: import_view_def)
    moreover from this have "\<not> import_available (st1\<lparr>im_error := Some e, im_step := Mapping\<rparr>) a" for a by (cases a) simp_all
    ultimately show ?thesis by blast
  qed
  from assms(6) show ?thesis
  proof (elim disjE exE conjE)
    fix e r1 assume "build_items wc uuid pub findFieldDef st r = (Inl e, r1)"
    with assms(2-5) stuck show ?thesis by (simp add: handleImport_def Let_def)
  next
    fix items r1 e ks env1
    assume "build_items wc uuid pub findFieldDef st r = (Inr items, r1)"
      "run_mutation net (useBatchImportMutation (JObj [(''items'', JArr (map import_json items))])) env = (Inl e, ks, env1)"
    with assms(2-5) stuck show ?thesis by (simp add: handleImport_def Let_def)
  qed
qed


subsection \<open>Concrete runs\<close>

lemma scripted_mutation_fails:
  assumes "we_world env = []"
  shows "\<exists>e env1. run_mutation scripted h env = (Inl e, [], env1)"
proof -
  let ?rq = "build_request (getAccessToken (we_tokens env)) (m_path h) (m_options h)"
  obtain env1 where f: "do_fetch scripted ?rq env = (NetworkFailure ''no route'', env1)"
    using assms by (simp add: do_fetch_def)
  have r: "read_response (NetworkFailure ''no route'') = Inl (ApiErr (network_error ''no route''))"
    by (simp add: read_response_def)
  have "apiFetch scripted (m_path h) (m_options h) env = (read_response (NetworkFailure ''no route''), env1)"
    by (rule apiFetch_single [OF _ f]) (simp add: r del: isAccessTokenExpired.simps)
  with r show ?thesis by (simp add: run_mutation_def)
qed

definition demo_kdbx :: kdbx_db where
  "demo_kdbx = \<lparr>db_root = Group (Some ''Top'')
     [Group (Some ''Work'') [Group (Some ''Db'') [] [[(''Title'', PlainText ''pg''), (''Password'', ProtectedText (Some ''pw''))]]] []]
     [[(''Title'', PlainText [])]], db_name = None\<rparr>"

lemma kdbx_walk_equals_enumeration_witness:
  "\<exists>es. parseKdbx (\<lambda>b p. Inr demo_kdbx) [] ''x'' = Inr (es, ''KeePass Database'')
    \<and> map pe_title es = [''pg'', ''Untitled''] \<and> map pe_groupPath es = [''Work/Db'', ''Root'']"
  using kdbx_walk_equals_enumeration [of "\<lambda>b p. Inr demo_kdbx" "[]" "''x''" demo_kdbx]
  by (simp add: demo_kdbx_def parse_entry_def path_or_root_def getField_def deeper_def)

definition demo_mapping :: ColumnMapping where
  "demo_mapping = EMPTY_MAPPING\<lparr>nameCol := ''Name'', passwordCol := ''Secret''\<rparr>"

definition demo_row :: csv_row where
  "demo_row = [''Name'' \<mapsto> ''db'', ''Secret'' \<mapsto> ''pw'']"

definition demo_find :: "string \<Rightarrow> nat option" where
  "demo_find key = map_option fd_id (find (\<lambda>f. fd_key f = key) demo_defs)"

lemma demo_detect: "detect_mapping (\<lambda>s. if s = ''Name'' then ''name'' else if s = ''Secret'' then ''secret'' else s)
    [''Name'', ''Secret''] = demo_mapping"
  by (simp add: detect_mapping_def detect_def demo_mapping_def EMPTY_MAPPING_def)

lemma demo_row_values: "csv_name demo_row demo_mapping = Some ''db''" "csv_fields demo_row demo_mapping demo_find = [(1, ''pw'')]"
  by (simp_all add: csv_name_def demo_row_def demo_mapping_def EMPTY_MAPPING_def or_undef_def demo_trim csv_fields_def
      raw_field_def demo_find_def demo_defs_def FIELD_KEY_PASSWORD_def)

lemma demo_readable: "readable ''db''" "readable ''pw''"
proof -
  have "''db'' = utf8_text [100, 98]" "''pw'' = utf8_text [112, 119]"
    by (simp_all add: utf8_text_def utf8_char_def char_of_def bit_simps)
  then show "readable ''db''" "readable ''pw''"
    unfolding readable_def
    by (intro exI [of _ "[100, 98]"], simp add: is_scalar_def, intro exI [of _ "[112, 119]"], simp add: is_scalar_def)
qed

definition demo_pg :: kdbx_db where
  "demo_pg = \<lparr>db_root = Group (Some ''Top'') []
     [[(''Title'', PlainText ''db''), (''Password'', ProtectedText (Some ''pw''))]], db_name = None\<rparr>"

lemma toy_import_item:
  "\<exists>item r'. import_item toy_crypto u t fo (wc_pub toy_crypto (replicate 32 7)) name desc raw 0 = (Inr item, r')"
proof -
  have nz: "wc_dh toy_crypto (replicate 32 1) (wc_pub toy_crypto (replicate 32 7)) \<noteq> replicate 32 0"
    by (simp add: toy_shared)
  obtain b n q where s: "sealDEK toy_crypto (replicate 32 0) (wc_pub toy_crypto (replicate 32 7)) (Suc 0) = (Inr (b, n), q)"
    using nz by (simp add: sealDEK_def crypto_defs laws(5,6) [OF toy_laws])
  have "\<exists>es r'. encryptItemFields toy_crypto raw (replicate 32 0) q = (Inr es, r')" for q
  proof (induction raw arbitrary: q)
    case (Cons f raw)
    obtain i v where "f = (i, v)" by fastforce
    moreover obtain es r' where "encryptItemFields toy_crypto raw (replicate 32 0) (Suc q) = (Inr es, r')" using Cons by blast
    moreover obtain es' r'' where "encryptItemFields toy_crypto raw (replicate 32 0) q = (Inr es', r'')" using Cons by blast
    ultimately show ?case by (simp add: encryptField_def crypto_defs)
  qed simp
  with s show ?thesis
    by (simp add: import_item_def toy_dek sealOwnerDEK_def) (metis (no_types, lifting) case_prod_conv old.sum.simps(6))
qed

lemma imported_items_hold_their_source_witness:
  "\<exists>a b. imported_with toy_crypto (replicate 32 7) [(1, ''pw'')] a \<and> bi_name a = ''db''
    \<and> imported_with toy_crypto (replicate 32 7) [(1, ''pw'')] b \<and> bi_name b = ''db''"
proof -
  let ?pub = "wc_pub toy_crypto (replicate 32 7)"
  let ?parsed = "map (\<lambda>(ns, e). parse_entry (Some (join ''/'' ns)) e) (located [] (db_root demo_pg))"
  obtain a r1 where a: "import_item toy_crypto ''0'' 1 ''f'' ?pub ''db'' (csv_description demo_row demo_mapping) [(1, ''pw'')] 0 = (Inr a, r1)"
    using toy_import_item by blast
  obtain b r2 where b: "import_item toy_crypto ''0'' 1 ''f'' ?pub ''db'' ''KeePass grubu: Root'' [(1, ''pw'')] 0 = (Inr b, r2)"
    using toy_import_item by blast
  have c1: "buildCSVItems toy_crypto (\<lambda>n. ''0'') 0 [demo_row] demo_mapping 1 ''f'' ?pub demo_find 0 = (Inr [a], r1)"
    using a by (simp add: demo_row_values)
  have c2: "buildKdbxItems toy_crypto (\<lambda>n. ''0'') 0 ?parsed 1 ''f'' ?pub demo_find 0 = (Inr [b], r2)"
    using b by (simp add: demo_pg_def kdbx_fields_defined entry_text_def demo_find_def demo_defs_def
        kdbx_description_def parse_entry_def path_or_root_def getField_def) (simp add: kdbx_fields_def raw_field_def
        FIELD_KEY_PASSWORD_def or_undefined_def demo_find_def demo_defs_def)
  have h1: "\<forall>row\<in>set [demo_row]. \<forall>c v. row c = Some v \<longrightarrow> readable v"
    by (auto simp: demo_row_def demo_readable split: if_splits)
  have h2: "\<forall>e\<in>set (all_entries (db_root demo_pg)). \<forall>v\<in>snd ` set e. readable (value_text v)"
    by (simp add: demo_pg_def demo_readable)
  have l: "length (replicate 32 7 :: bytes) = 32" by simp
  have k: "parseKdbx (\<lambda>b p. Inr demo_pg) [] [] = Inr (?parsed, ''KeePass Database'')"
    using parseKdbx_located [of "\<lambda>b p. Inr demo_pg" "[]" "[]" demo_pg] by (simp add: demo_pg_def)
  from imported_items_hold_their_source [where load = "\<lambda>b p. Inr demo_pg", OF toy_laws l h1 h2 c1 refl k c2]
  show ?thesis
    by (simp add: demo_pg_def entry_text_def demo_find_def demo_defs_def demo_row_def demo_mapping_def EMPTY_MAPPING_def
        cell_def demo_trim) blast
qed

lemma failed_import_strands_user_witness:
  "\<exists>st' env' r' err. handleImport toy_crypto scripted (\<lambda>n. ''0'') (Some (replicate 32 7)) (Some (toBase64 (replicate 32 7))) demo_defs
      (initial_import\<lparr>im_step := Preview, im_targetFolderId := ''f''\<rparr>) (demo_env [], 0) = (st', env', r')
    \<and> im_error st' = Some err \<and> import_view st' = [] \<and> (\<forall>a. \<not> import_available st' a)"
proof (rule failed_import_strands_user [OF _ _ _ _ refl, where pub = "replicate 32 7"], goal_cases)
  case 5
  have w: "we_world (demo_env []) = []" by (simp add: demo_env_def)
  show ?case
    using scripted_mutation_fails [OF w] by (simp add: build_items_def initial_import_def) metis
qed (simp_all add: base64_back toBase64_nonempty)

end
