(* ===== verification/Toasts.thy ===== *)
theory Toasts
  imports Prelude
begin

text \<open>
  The toast queue (\<open>hooks/use-toast.ts\<close> of both applications, which are the same but for layout): the
  reducer, the removal timers and the mounted components that render the queue.
\<close>

subsection \<open>State\<close>

definition TOAST_LIMIT :: nat where "TOAST_LIMIT = 4"
definition MAX_SAFE_INTEGER :: nat where "MAX_SAFE_INTEGER = 9007199254740991"

text \<open>A toast is its id and the other properties of the object, \<open>open\<close> among them.\<close>

record ToasterToast =
  t_id :: string
  t_props :: "string \<rightharpoonup> json"

datatype toast_action =
    ADD_TOAST ToasterToast
  | UPDATE_TOAST string "string \<rightharpoonup> json"
  | DISMISS_TOAST "string option"
  | REMOVE_TOAST "string option"

text \<open>The module's variables: the counter of ids, the queue, the armed timers by toast id, the
  listeners, and the copy of the queue each component shows.\<close>

record toast_state =
  ts_count :: nat
  ts_toasts :: "ToasterToast list"
  ts_timeouts :: "string list"
  ts_listeners :: "nat list"
  ts_shown :: "nat \<Rightarrow> ToasterToast list"

definition genId :: "toast_state \<Rightarrow> string \<times> toast_state" where
  "genId s = (let c = (ts_count s + 1) mod MAX_SAFE_INTEGER in (show_nat c, s\<lparr>ts_count := c\<rparr>))"

definition addToRemoveQueue :: "string list \<Rightarrow> string \<Rightarrow> string list" where
  "addToRemoveQueue timeouts i = (if i \<in> set timeouts then timeouts else timeouts @ [i])"

definition is_open :: "ToasterToast \<Rightarrow> bool" where
  "is_open t \<longleftrightarrow> t_props t ''open'' \<noteq> Some (JBool False)"

definition close_toast :: "ToasterToast \<Rightarrow> ToasterToast" where
  "close_toast t = t\<lparr>t_props := (t_props t)(''open'' \<mapsto> JBool False)\<rparr>"

text \<open>\<open>reducer\<close>, with its side effect on the timers.\<close>

fun toast_reducer :: "ToasterToast list \<times> string list \<Rightarrow> toast_action \<Rightarrow> ToasterToast list \<times> string list" where
  "toast_reducer (ts, tm) (ADD_TOAST t) = (take TOAST_LIMIT (t # ts), tm)"
| "toast_reducer (ts, tm) (UPDATE_TOAST i ps) =
     (map (\<lambda>t. if t_id t = i then t\<lparr>t_props := t_props t ++ ps\<rparr> else t) ts, tm)"
| "toast_reducer (ts, tm) (DISMISS_TOAST i) =
     (map (\<lambda>t. if i = Some (t_id t) \<or> i = None then close_toast t else t) ts,
      if truthy i then addToRemoveQueue tm (the i) else foldl addToRemoveQueue tm (map t_id ts))"
| "toast_reducer (ts, tm) (REMOVE_TOAST None) = ([], tm)"
| "toast_reducer (ts, tm) (REMOVE_TOAST (Some i)) = (filter (\<lambda>t. t_id t \<noteq> i) ts, tm)"

definition toast_dispatch :: "toast_action \<Rightarrow> toast_state \<Rightarrow> toast_state" where
  "toast_dispatch a s =
     (let (ts, tm) = toast_reducer (ts_toasts s, ts_timeouts s) a
      in s\<lparr>ts_toasts := ts, ts_timeouts := tm,
           ts_shown := (\<lambda>c. if c \<in> set (ts_listeners s) then ts else ts_shown s c)\<rparr>)"

subsection \<open>Operations\<close>

definition toast :: "(string \<rightharpoonup> json) \<Rightarrow> toast_state \<Rightarrow> string \<times> toast_state" where
  "toast props s =
     (let (i, s1) = genId s
      in (i, toast_dispatch (ADD_TOAST \<lparr>t_id = i, t_props = props(''open'' \<mapsto> JBool True)\<rparr>) s1))"

text \<open>\<open>listeners.indexOf\<close> and \<open>splice\<close>: the first occurrence goes.\<close>

datatype toast_event =
    ShowToast "string \<rightharpoonup> json"
  | UpdateToast string "string \<rightharpoonup> json"   \<comment> \<open>\<open>update\<close> of a toast's handle\<close>
  | DismissToast "string option"            \<comment> \<open>its \<open>dismiss\<close>, the close button, or \<open>dismiss\<close> of the hook\<close>
  | RemovalTimer string
  | RenderComponent nat                     \<comment> \<open>\<open>useState(memoryState)\<close>\<close>
  | MountComponent nat                      \<comment> \<open>the effect subscribes\<close>
  | UnmountComponent nat

fun toast_step :: "toast_state \<Rightarrow> toast_event \<Rightarrow> toast_state" where
  "toast_step s (ShowToast props) = snd (toast props s)"
| "toast_step s (UpdateToast i props) = toast_dispatch (UPDATE_TOAST i props) s"
| "toast_step s (DismissToast i) = toast_dispatch (DISMISS_TOAST i) s"
| "toast_step s (RemovalTimer i) =
     toast_dispatch (REMOVE_TOAST (Some i)) (s\<lparr>ts_timeouts := remove1 i (ts_timeouts s)\<rparr>)"
| "toast_step s (RenderComponent c) = s\<lparr>ts_shown := (ts_shown s)(c := ts_toasts s)\<rparr>"
| "toast_step s (MountComponent c) = s\<lparr>ts_listeners := ts_listeners s @ [c]\<rparr>"
| "toast_step s (UnmountComponent c) = s\<lparr>ts_listeners := remove1 c (ts_listeners s)\<rparr>"

definition no_toasts :: toast_state where
  "no_toasts = \<lparr>ts_count = 0, ts_toasts = [], ts_timeouts = [], ts_listeners = [], ts_shown = (\<lambda>c. [])\<rparr>"

text \<open>A timer fires only while armed, the counter has not wrapped, an update leaves \<open>open\<close> to
  \<open>dismiss\<close>, and an empty id is never passed.\<close>

fun toast_can :: "toast_state \<Rightarrow> toast_event \<Rightarrow> bool" where
  "toast_can s (ShowToast props) = (ts_count s + 1 < MAX_SAFE_INTEGER)"
| "toast_can s (UpdateToast i props) = (''open'' \<notin> dom props)"
| "toast_can s (DismissToast i) = (i \<noteq> Some [])"
| "toast_can s (RemovalTimer i) = (i \<in> set (ts_timeouts s))"
| "toast_can s _ = True"

subsection \<open>Invariant\<close>

definition toast_inv :: "toast_state \<Rightarrow> bool" where
  "toast_inv s \<longleftrightarrow> length (ts_toasts s) \<le> TOAST_LIMIT
     \<and> distinct (map t_id (ts_toasts s)) \<and> distinct (ts_timeouts s)
     \<and> (\<forall>t\<in>set (ts_toasts s). \<exists>n\<in>{1..ts_count s}. t_id t = show_nat n)
     \<and> (\<forall>t\<in>set (ts_toasts s). \<not> is_open t \<longrightarrow> t_id t \<in> set (ts_timeouts s))"

lemma toast_dispatch_simps:
  "ts_count (toast_dispatch a s) = ts_count s"
  "ts_toasts (toast_dispatch a s) = fst (toast_reducer (ts_toasts s, ts_timeouts s) a)"
  "ts_timeouts (toast_dispatch a s) = snd (toast_reducer (ts_toasts s, ts_timeouts s) a)"
  by (simp_all add: toast_dispatch_def case_prod_beta Let_def)

lemma addToRemoveQueue_facts:
  "set (addToRemoveQueue tm i) = insert i (set tm)" "distinct (addToRemoveQueue tm i) \<longleftrightarrow> distinct tm"
  by (auto simp: addToRemoveQueue_def)

lemma queue_all:
  "set (foldl addToRemoveQueue tm is) = set tm \<union> set is"
  "distinct (foldl addToRemoveQueue tm is) \<longleftrightarrow> distinct tm"
  by (induction "is" arbitrary: tm) (auto simp: addToRemoveQueue_facts)

lemma close_toast_simps [simp]: "t_id (close_toast t) = t_id t" "\<not> is_open (close_toast t)"
  by (simp_all add: close_toast_def is_open_def)

lemma ids_if: "map t_id (map (\<lambda>t. if P t then f t else t) ts) = map t_id ts" if "\<And>t. t_id (f t) = t_id t"
  using that by (induction ts) simp_all

lemma ids_same: "map (t_id \<circ> (\<lambda>t. if P t then f t else t)) ts = map t_id ts" if "\<And>t. t_id (f t) = t_id t"
  using that by (simp add: comp_def if_distrib cong: if_cong)

lemma toast_step_keeps:
  assumes "toast_inv s" and "toast_can s e"
  shows "toast_inv (toast_step s e)"
proof (cases e)
  case (ShowToast props)
  let ?n = "ts_count s + 1"
  have n: "?n mod MAX_SAFE_INTEGER = ?n" using assms(2) ShowToast by simp
  let ?t = "\<lparr>t_id = show_nat ?n, t_props = props(''open'' \<mapsto> JBool True)\<rparr>"
  have s: "ts_toasts (toast_step s e) = take TOAST_LIMIT (?t # ts_toasts s)" "ts_timeouts (toast_step s e) = ts_timeouts s"
    "ts_count (toast_step s e) = ?n"
    using n by (simp_all add: ShowToast toast_def genId_def Let_def toast_dispatch_simps)
  have new: "show_nat ?n \<notin> t_id ` set (ts_toasts s)" using assms(1) by (auto simp: toast_inv_def)
  have sub: "set (take TOAST_LIMIT (?t # ts_toasts s)) \<subseteq> insert ?t (set (ts_toasts s))" by (auto dest: in_set_takeD)
  have "distinct (map t_id (?t # ts_toasts s))" using new assms(1) by (simp add: toast_inv_def)
  then have "distinct (map t_id (take TOAST_LIMIT (?t # ts_toasts s)))" by (metis distinct_take take_map)
  moreover have "is_open ?t" by (simp add: is_open_def)
  ultimately show ?thesis
    using assms(1) sub unfolding toast_inv_def s by (fastforce simp: Bex_def)
next
  case (UpdateToast i props)
  have o: "is_open (t\<lparr>t_props := t_props t ++ props\<rparr>) \<longleftrightarrow> is_open t" for t
    using assms(2) UpdateToast by (auto simp: is_open_def map_add_dom_app_simps)
  show ?thesis
    using assms(1) unfolding toast_inv_def UpdateToast by (auto simp: toast_dispatch_simps ids_same o)
next
  case (DismissToast i)
  show ?thesis
  proof (cases i)
    case None
    with assms(1) DismissToast show ?thesis
      by (auto simp: toast_inv_def toast_dispatch_simps queue_all comp_def)
  next
    case (Some j)
    with assms DismissToast have "truthy i" by simp
    with Some assms(1) DismissToast show ?thesis
      by (auto simp: toast_inv_def toast_dispatch_simps addToRemoveQueue_facts ids_same)
  qed
next
  case (RemovalTimer i)
  with assms(1) show ?thesis
    by (auto simp: toast_inv_def toast_dispatch_simps distinct_map_filter intro: le_trans [OF length_filter_le])
qed (use assms(1) in \<open>simp_all add: toast_inv_def\<close>)

interpretation toast_machine: machine toast_can toast_step toast_inv
  by unfold_locales (rule toast_step_keeps)

subsection \<open>Property\<close>

text \<open>
  The toast queue stays small and empties itself. However toasts are shown, updated, dismissed
  and timed out, at most four are queued, no two have the same id, and every dismissed one has its
  removal timer armed; when that timer fires, the toast and the timer are gone and every other toast
  stays.
\<close>
theorem toasts_bounded_and_removed:
  assumes "possible_run toast_can toast_step no_toasts es"
  defines "s \<equiv> foldl toast_step no_toasts es"
  shows "length (ts_toasts s) \<le> 4 \<and> distinct (map t_id (ts_toasts s))
    \<and> (\<forall>t\<in>set (ts_toasts s). \<not> is_open t \<longrightarrow> t_id t \<in> set (ts_timeouts s)
        \<and> ts_toasts (toast_step s (RemovalTimer (t_id t))) = remove1 t (ts_toasts s)
        \<and> t_id t \<notin> set (ts_timeouts (toast_step s (RemovalTimer (t_id t)))))"
proof -
  have "toast_inv no_toasts" by (simp add: toast_inv_def no_toasts_def)
  then have inv: "toast_inv s" unfolding s_def by (rule toast_machine.run_keeps [OF _ assms(1)])
  have "filter (\<lambda>x. t_id x \<noteq> t_id t) ts = remove1 t ts" if "distinct (map t_id ts)" "t \<in> set ts" for t ts
    using that
  proof (induction ts)
    case (Cons a ts)
    then have "t_id a \<notin> t_id ` set ts" by simp
    then have "filter (\<lambda>x. t_id x \<noteq> t_id a) ts = ts" by (intro filter_True) (metis imageI)
    with Cons show ?case by (cases "a = t") auto
  qed simp
  with inv show ?thesis
    by (auto simp: toast_inv_def TOAST_LIMIT_def toast_dispatch_simps)
qed

lemma toasts_bounded_and_removed_witness:
  "let s = foldl toast_step no_toasts [ShowToast Map.empty, ShowToast Map.empty, DismissToast (Some ''1'')]
   in map t_id (ts_toasts s) = [''2'', ''1''] \<and> ts_timeouts s = [''1'']
      \<and> map t_id (ts_toasts (toast_step s (RemovalTimer ''1''))) = [''2'']"
proof -
  let ?es = "[ShowToast Map.empty, ShowToast Map.empty, DismissToast (Some ''1'')]"
  let ?s = "foldl toast_step no_toasts ?es"
  let ?t1 = "\<lparr>t_id = ''1'', t_props = [''open'' \<mapsto> JBool True]\<rparr>"
  let ?t2 = "\<lparr>t_id = ''2'', t_props = [''open'' \<mapsto> JBool True]\<rparr>"
  have ids: "show_nat 1 = ''1''" "show_nat 2 = ''2''" by (simp_all add: show_nat.simps)
  have small: "(1::nat) < MAX_SAFE_INTEGER" "(2::nat) < MAX_SAFE_INTEGER" by (simp_all add: MAX_SAFE_INTEGER_def)
  have t: "ts_count (toast_step s (ShowToast Map.empty)) = Suc (ts_count s)"
    "ts_toasts (toast_step s (ShowToast Map.empty)) = take TOAST_LIMIT (\<lparr>t_id = show_nat (Suc (ts_count s)), t_props = [''open'' \<mapsto> JBool True]\<rparr> # ts_toasts s)"
    "ts_timeouts (toast_step s (ShowToast Map.empty)) = ts_timeouts s"
    if "Suc (ts_count s) < MAX_SAFE_INTEGER" for s
    using that by (simp_all add: toast_def genId_def Let_def toast_dispatch_simps)
  let ?s1 = "toast_step no_toasts (ShowToast Map.empty)"
  have s1: "ts_count ?s1 = 1" "ts_toasts ?s1 = [?t1]" "ts_timeouts ?s1 = []"
    using t [of no_toasts] small ids by (simp_all add: no_toasts_def TOAST_LIMIT_def del: toast_step.simps)
  have s2: "ts_count (toast_step ?s1 (ShowToast Map.empty)) = 2" "ts_toasts (toast_step ?s1 (ShowToast Map.empty)) = [?t2, ?t1]"
    "ts_timeouts (toast_step ?s1 (ShowToast Map.empty)) = []"
    using t [of ?s1] small ids by (simp_all add: s1 numeral_2_eq_2 TOAST_LIMIT_def del: toast_step.simps)
  have r: "possible_run toast_can toast_step no_toasts ?es"
    using small s1(1) by (simp add: no_toasts_def del: toast_step.simps)
  have s: "ts_toasts ?s = [?t2, close_toast ?t1]" "ts_timeouts ?s = [''1'']"
    using s2 by (simp_all add: toast_dispatch_simps addToRemoveQueue_def)
  from toasts_bounded_and_removed [OF r] have "ts_toasts (toast_step ?s (RemovalTimer ''1'')) = remove1 (close_toast ?t1) (ts_toasts ?s)"
    unfolding s by simp
  with s show ?thesis unfolding Let_def by (simp add: close_toast_def)
qed

end
