(* ===== verification/JsValues.thy ===== *)
theory JsValues
  imports TextFacts Http
begin

text \<open>
  Reading numbers and parts from text as the language does it. First \<open>parseInt\<close> without a radix. Its result is \<open>None\<close> for
  \<open>NaN\<close>. A text of more than fifteen digits reads as the integer it spells here, and as the nearest
  double in a browser.
\<close>

definition dec_digit :: "char \<Rightarrow> bool" where "dec_digit c \<longleftrightarrow> 48 \<le> (of_char c :: nat) \<and> (of_char c :: nat) \<le> 57"

definition hex_val :: "char \<Rightarrow> nat option" where
  "hex_val c = (let n = of_char c in
     if 48 \<le> n \<and> n \<le> 57 then Some (n - 48) else if 65 \<le> n \<and> n \<le> 70 then Some (n - 55)
     else if 97 \<le> n \<and> n \<le> 102 then Some (n - 87) else None)"

definition read_hex :: "string \<Rightarrow> nat" where
  "read_hex s = foldl (\<lambda>n c. 16 * n + the (hex_val c)) 0 s"

definition parse_digits :: "string \<Rightarrow> nat option" where
  "parse_digits s =
     (if take 2 s = ''0x'' \<or> take 2 s = ''0X''
      then let h = takeWhile (\<lambda>c. hex_val c \<noteq> None) (drop 2 s) in if h = [] then None else Some (read_hex h)
      else let d = takeWhile dec_digit s in if d = [] then None else Some (read_nat d))"

definition parse_int :: "string \<Rightarrow> int option" where
  "parse_int text =
     (let s = trimStart text
      in if take 1 s = ''-'' then map_option (\<lambda>n. - int n) (parse_digits (drop 1 s))
         else map_option int (parse_digits (if take 1 s = ''+'' then drop 1 s else s)))"

subsection \<open>Reading back what was printed\<close>

lemma digit_chars: "d < 10 \<Longrightarrow> dec_digit (''0123456789'' ! d)"
proof -
  assume "d < 10"
  then have "d \<in> {0, 1, 2, 3, 4, 5, 6, 7, 8, 9}" by auto
  then show ?thesis by (auto simp: dec_digit_def)
qed

lemma show_nat_digits: "list_all dec_digit (show_nat n)"
proof (induction n rule: show_nat.induct)
  case (1 n)
  then show ?case by (subst show_nat.simps) (simp add: digit_chars)
qed

lemma show_nat_leading_zero: "hd (show_nat n) = CHR ''0'' \<Longrightarrow> show_nat n = ''0''"
proof (induction n rule: show_nat.induct)
  case (1 n)
  show ?case
  proof (cases "n < 10")
    case True
    then have "n \<in> {0, 1, 2, 3, 4, 5, 6, 7, 8, 9}" by auto
    with 1(2) show ?thesis by (auto simp: show_nat.simps)
  next
    case False
    have "hd (show_nat (n div 10)) = CHR ''0''" using 1(2) False by (subst (asm) show_nat.simps) simp
    with 1(1) False have "show_nat (n div 10) = show_nat 0" by (simp add: show_nat.simps)
    with False show ?thesis by simp
  qed
qed

lemma parse_digits_show [simp]: "parse_digits (show_nat n) = Some n"
proof -
  have all: "takeWhile dec_digit (show_nat n) = show_nat n"
    using show_nat_digits [of n] by (simp add: list_all_iff takeWhile_eq_all_conv)
  have "take 2 (show_nat n) \<noteq> ''0'' @ [c]" for c
  proof
    assume t: "take 2 (show_nat n) = ''0'' @ [c]"
    then have "hd (show_nat n) = CHR ''0''" by (cases "show_nat n") auto
    then have "show_nat n = ''0''" by (rule show_nat_leading_zero)
    with t show False by simp
  qed
  from this show ?thesis unfolding parse_digits_def Let_def all by (simp add: read_show_nat)
qed

text \<open>A digit or a minus sign starts no white space.\<close>

lemma trimStart_plain: "trimStart (c # s) = c # s" if "dec_digit c \<or> c = CHR ''-''"
proof -
  have "\<forall>w\<in>set white_space. w = [] \<or> hd w \<noteq> c"
    unfolding white_space_list using that by (auto simp: dec_digit_def)
  then have "find (\<lambda>w. w \<noteq> [] \<and> take (length w) (c # s) = w) white_space = None"
    unfolding find_None_iff by (metis list.sel(1) take_Cons' list.sel(1) hd_take length_greater_0_conv)
  then show ?thesis by (simp add: trimStart_def)
qed

lemma parse_int_show [simp]: "parse_int (show_int n) = Some n"
proof (cases "n < 0")
  case True
  then show ?thesis by (simp add: parse_int_def show_int_def trimStart_plain)
next
  case False
  obtain c s where c: "show_nat (nat n) = c # s" by (cases "show_nat (nat n)") auto
  with show_nat_digits [of "nat n"] have d: "dec_digit c" by simp
  then have "c \<noteq> CHR ''-''" "c \<noteq> CHR ''+''" by (auto simp: dec_digit_def)
  with False d c parse_digits_show [of "nat n"] show ?thesis
    by (simp add: parse_int_def show_int_def trimStart_plain)
qed

section \<open>Texts taken apart\<close>

text \<open>
  \<open>text.split(c)\<close> for a separator of one byte, and what \<open>join\<close> puts together being taken apart again.
\<close>

fun split_on :: "char \<Rightarrow> string \<Rightarrow> string list" where
  "split_on c [] = [[]]"
| "split_on c (d # s) =
     (if d = c then [] # split_on c s
      else case split_on c s of x # xs \<Rightarrow> (d # x) # xs | [] \<Rightarrow> [[d]])"

lemma split_on_nonempty [simp]: "split_on c s \<noteq> []"
  by (induction s) (auto split: list.splits)

lemma split_on_single: "c \<notin> set s \<Longrightarrow> split_on c s = [s]"
  by (induction s) auto

lemma split_on_append:
  "c \<notin> set s \<Longrightarrow> split_on c (s @ c # t) = s # split_on c t"
  by (induction s) auto

lemma split_on_pieces: "x \<in> set (split_on c s) \<Longrightarrow> c \<notin> set x"
proof (induction s arbitrary: x)
  case (Cons d s)
  then show ?case by (cases "split_on c s") (auto split: if_splits)
qed simp

lemma split_join:
  "xs \<noteq> [] \<Longrightarrow> \<forall>x\<in>set xs. c \<notin> set x \<Longrightarrow> split_on c (join [c] xs) = xs"
proof (induction xs rule: induct_list012)
  case (3 x y zs)
  then show ?case by (simp add: split_on_append)
qed (simp_all add: split_on_single)

text \<open>With a space after the separator every piece but the first begins with it.\<close>

lemma split_join_spaced:
  "xs \<noteq> [] \<Longrightarrow> \<forall>x\<in>set xs. c \<notin> set x \<Longrightarrow> c \<noteq> CHR '' '' \<Longrightarrow>
   split_on c (join (c # '' '') xs) = hd xs # map (\<lambda>x. CHR '' '' # x) (tl xs)"
proof (induction xs rule: induct_list012)
  case (3 x y zs)
  then have "split_on c (CHR '' '' # join (c # '' '') (y # zs)) = (CHR '' '' # y) # map (\<lambda>x. CHR '' '' # x) zs"
    by simp
  with 3 show ?case by (simp add: split_on_append)
qed (simp_all add: split_on_single)

text \<open>Trimming takes no character that belongs to no white space.\<close>

lemma strip_keeps_char:
  "\<forall>w\<in>set ws. c \<notin> set w \<Longrightarrow> c \<in> set s \<Longrightarrow> c \<in> set (strip_prefixes n ws s)"
proof (induction n arbitrary: s)
  case (Suc n)
  show ?case
  proof (cases "find (\<lambda>w. w \<noteq> [] \<and> take (length w) s = w) ws")
    case (Some w)
    then have w: "w \<in> set ws" "take (length w) s = w" by (auto simp: find_Some_iff)
    have "set s = set (take (length w) s) \<union> set (drop (length w) s)" by (metis append_take_drop_id set_append)
    then have "c \<in> set (drop (length w) s)" using Suc.prems w by auto
    then show ?thesis using Suc Some by simp
  qed (use Suc in simp)
qed simp

lemma trim_keeps_char: "\<forall>w\<in>set white_space. c \<notin> set w \<Longrightarrow> c \<in> set s \<Longrightarrow> c \<in> set (trim s)"
  unfolding trim_def trimStart_def trimEnd_def by (simp add: strip_keeps_char)

lemma trim_not_blank: "c \<in> set s \<Longrightarrow> c \<in> {CHR ''='', CHR '',''} \<Longrightarrow> trim s \<noteq> []"
  using trim_keeps_char [of c s] by (auto simp: white_space_list)

text \<open>Trimming a piece that starts with the space.\<close>

lemma trimStart_space [simp]: "trimStart (CHR '' '' # s) = trimStart s"
proof -
  have "find (\<lambda>w. w \<noteq> [] \<and> take (length w) (CHR '' '' # s) = w) white_space = Some '' ''"
    unfolding white_space_list by simp
  then show ?thesis
    by (simp add: trimStart_def)
qed

lemma trim_space [simp]: "trim (CHR '' '' # s) = trim s"
  by (simp add: trim_def)

text \<open>\<open>text.split(',').map(s => s.trim()).filter(Boolean)\<close>.\<close>

definition comma_list :: "string \<Rightarrow> string list" where
  "comma_list s = filter (\<lambda>x. x \<noteq> []) (map trim (split_on CHR '','' s))"

lemma comma_list_join:
  assumes "\<forall>x\<in>set xs. CHR '','' \<notin> set x \<and> trim x = x \<and> x \<noteq> []"
  shows "comma_list (join '', '' xs) = xs"
proof (cases xs)
  case Nil
  then show ?thesis by (simp add: comma_list_def trim_eval)
next
  case (Cons x ys)
  then have "split_on CHR '','' (join '', '' xs) = x # map (\<lambda>x. CHR '' '' # x) ys"
    using assms split_join_spaced [of xs "CHR '',''"] by auto
  moreover have "map (trim \<circ> (#) CHR '' '') ys = ys" using assms Cons by (simp add: map_idI)
  moreover have "filter (\<lambda>x. x \<noteq> []) xs = xs" using assms by (simp add: filter_id_conv)
  ultimately show ?thesis using assms Cons by (simp add: comma_list_def)
qed

end
