(* ===== verification/LogForwarding.thy ===== *)
theory LogForwarding
  imports JsValues AdminHooks UserError
begin

text \<open>
  The administrator's log forwarding page (\<open>pages/admin/log-forwarding.tsx\<close>): the dialog's form, its
  reading of a stored target and the configuration it sends back, and the page's actions.
\<close>

subsection \<open>Data\<close>

text \<open>\<open>SyslogConfig\<close>, \<open>SlackConfig\<close>, \<open>SplunkConfig\<close>, \<open>ElasticConfig\<close>: optional properties are options.\<close>

datatype SyslogProtocol = Udp | Tcp

record SyslogConfig =
  sy_protocol :: "SyslogProtocol option"
  sy_host :: "string option"
  sy_port :: "int option"
  sy_app_name :: "string option"

record SlackConfig =
  sl_webhook_url :: "string option"
  sl_channel :: "string option"
  sl_username :: "string option"

record SplunkConfig =
  sp_url :: "string option"
  sp_token :: "string option"
  sp_index :: "string option"
  sp_source :: "string option"
  sp_source_type :: "string option"
  sp_tls_insecure_skip_verify :: "bool option"

record ElasticConfig =
  el_url :: "string option"
  el_index :: "string option"
  el_api_key :: "string option"
  el_username :: "string option"
  el_password :: "string option"
  el_tls_insecure_skip_verify :: "bool option"

datatype LogForwardingTargetType = SyslogTarget | SlackTarget | SplunkTarget | ElasticTarget

datatype AnyForwardingConfig =
    Syslog SyslogConfig
  | Slack SlackConfig
  | Splunk SplunkConfig
  | Elastic ElasticConfig

fun config_target :: "AnyForwardingConfig \<Rightarrow> LogForwardingTargetType" where
  "config_target (Syslog c) = SyslogTarget"
| "config_target (Slack c) = SlackTarget"
| "config_target (Splunk c) = SplunkTarget"
| "config_target (Elastic c) = ElasticTarget"

text \<open>The target's type is that of its configuration.\<close>

record LogForwardingConfig =
  lf_id :: string
  lf_name :: string
  lf_enabled :: bool
  lf_config :: AnyForwardingConfig

record FormState =
  fo_name :: string
  fo_target_type :: LogForwardingTargetType
  fo_enabled :: bool
  fo_protocol :: SyslogProtocol
  fo_host :: string
  fo_port :: string
  fo_app_name :: string
  fo_webhook_url :: string
  fo_channel :: string
  fo_username :: string
  fo_splunk_url :: string
  fo_splunk_token :: string
  fo_splunk_index :: string
  fo_splunk_source_type :: string
  fo_elastic_url :: string
  fo_elastic_api_key :: string
  fo_elastic_username :: string
  fo_elastic_password :: string
  fo_elastic_index :: string

definition emptyForm :: FormState where
  "emptyForm = \<lparr>fo_name = [], fo_target_type = SyslogTarget, fo_enabled = True,
     fo_protocol = Udp, fo_host = [], fo_port = ''514'', fo_app_name = ''ironstock'',
     fo_webhook_url = [], fo_channel = [], fo_username = ''IronStock'',
     fo_splunk_url = [], fo_splunk_token = [], fo_splunk_index = [], fo_splunk_source_type = ''ironstock:audit'',
     fo_elastic_url = [], fo_elastic_api_key = [], fo_elastic_username = [], fo_elastic_password = [],
     fo_elastic_index = ''ironstock-audit''\<rparr>"

subsection \<open>Form and configuration\<close>

definition configToForm :: "LogForwardingConfig \<Rightarrow> FormState" where
  "configToForm cfg =
     (let base = emptyForm\<lparr>fo_name := lf_name cfg, fo_target_type := config_target (lf_config cfg), fo_enabled := lf_enabled cfg\<rparr>
      in case lf_config cfg of
           Syslog c \<Rightarrow> base\<lparr>fo_protocol := nullish (sy_protocol c) Udp, fo_host := nullish (sy_host c) [],
             fo_port := show_int (nullish (sy_port c) 514), fo_app_name := nullish (sy_app_name c) ''ironstock''\<rparr>
         | Slack c \<Rightarrow> base\<lparr>fo_webhook_url := nullish (sl_webhook_url c) [], fo_channel := nullish (sl_channel c) [],
             fo_username := nullish (sl_username c) ''IronStock''\<rparr>
         | Splunk c \<Rightarrow> base\<lparr>fo_splunk_url := nullish (sp_url c) [], fo_splunk_token := nullish (sp_token c) [],
             fo_splunk_index := nullish (sp_index c) [], fo_splunk_source_type := nullish (sp_source_type c) ''ironstock:audit''\<rparr>
         | Elastic c \<Rightarrow> base\<lparr>fo_elastic_url := nullish (el_url c) [], fo_elastic_api_key := nullish (el_api_key c) [],
             fo_elastic_username := nullish (el_username c) [], fo_elastic_password := nullish (el_password c) [],
             fo_elastic_index := nullish (el_index c) ''ironstock-audit''\<rparr>)"

text \<open>\<open>text || undefined\<close>, \<open>text || fallback\<close>, and \<open>parseInt(text) || fallback\<close>.\<close>

definition or_text :: "string \<Rightarrow> string \<Rightarrow> string" where
  "or_text s fallback = (if s = [] then fallback else s)"

definition int_or :: "string \<Rightarrow> int \<Rightarrow> int" where
  "int_or s fallback = (case parse_int s of None \<Rightarrow> fallback | Some n \<Rightarrow> if n = 0 then fallback else n)"

definition formToConfig :: "FormState \<Rightarrow> AnyForwardingConfig" where
  "formToConfig form =
     (case fo_target_type form of
        SyslogTarget \<Rightarrow> Syslog \<lparr>sy_protocol = Some (fo_protocol form), sy_host = Some (fo_host form),
          sy_port = Some (int_or (fo_port form) 514), sy_app_name = or_undefined (fo_app_name form)\<rparr>
      | SplunkTarget \<Rightarrow> Splunk \<lparr>sp_url = Some (fo_splunk_url form), sp_token = Some (fo_splunk_token form),
          sp_index = or_undefined (fo_splunk_index form), sp_source = None,
          sp_source_type = Some (or_text (fo_splunk_source_type form) ''ironstock:audit''), sp_tls_insecure_skip_verify = None\<rparr>
      | ElasticTarget \<Rightarrow> Elastic \<lparr>el_url = Some (fo_elastic_url form),
          el_index = Some (or_text (fo_elastic_index form) ''ironstock-audit''),
          el_api_key = or_undefined (fo_elastic_api_key form), el_username = or_undefined (fo_elastic_username form),
          el_password = (if fo_elastic_username form = [] then None else Some (fo_elastic_password form)),
          el_tls_insecure_skip_verify = None\<rparr>
      | SlackTarget \<Rightarrow> Slack \<lparr>sl_webhook_url = Some (fo_webhook_url form), sl_channel = or_undefined (fo_channel form),
          sl_username = or_undefined (fo_username form)\<rparr>)"

subsection \<open>The page\<close>

text \<open>What is sent: a property that is \<open>undefined\<close> is left out.\<close>

definition text_prop :: "string \<Rightarrow> string option \<Rightarrow> (string \<times> json) list" where
  "text_prop k v = (case v of None \<Rightarrow> [] | Some s \<Rightarrow> [(k, JStr s)])"

definition flag_prop :: "string \<Rightarrow> bool option \<Rightarrow> (string \<times> json) list" where
  "flag_prop k v = (case v of None \<Rightarrow> [] | Some b \<Rightarrow> [(k, JBool b)])"

fun config_json :: "AnyForwardingConfig \<Rightarrow> json" where
  "config_json (Syslog c) = JObj (text_prop ''protocol'' (map_option (\<lambda>p. if p = Udp then ''udp'' else ''tcp'') (sy_protocol c))
     @ text_prop ''host'' (sy_host c) @ (case sy_port c of None \<Rightarrow> [] | Some n \<Rightarrow> [(''port'', JNum n)])
     @ text_prop ''app_name'' (sy_app_name c))"
| "config_json (Slack c) = JObj (text_prop ''webhook_url'' (sl_webhook_url c) @ text_prop ''channel'' (sl_channel c)
     @ text_prop ''username'' (sl_username c))"
| "config_json (Splunk c) = JObj (text_prop ''url'' (sp_url c) @ text_prop ''token'' (sp_token c) @ text_prop ''index'' (sp_index c)
     @ text_prop ''source'' (sp_source c) @ text_prop ''source_type'' (sp_source_type c)
     @ flag_prop ''tls_insecure_skip_verify'' (sp_tls_insecure_skip_verify c))"
| "config_json (Elastic c) = JObj (text_prop ''url'' (el_url c) @ text_prop ''index'' (el_index c)
     @ text_prop ''api_key'' (el_api_key c) @ text_prop ''username'' (el_username c) @ text_prop ''password'' (el_password c)
     @ flag_prop ''tls_insecure_skip_verify'' (el_tls_insecure_skip_verify c))"

definition target_name :: "LogForwardingTargetType \<Rightarrow> string" where
  "target_name t = (case t of SyslogTarget \<Rightarrow> ''syslog'' | SlackTarget \<Rightarrow> ''slack'' | SplunkTarget \<Rightarrow> ''splunk''
     | ElasticTarget \<Rightarrow> ''elastic'')"

record log_page =
  lp_dialogOpen :: bool
  lp_editing :: "LogForwardingConfig option"
  lp_deleteTarget :: "LogForwardingConfig option"
  lp_form :: FormState

definition openCreate :: "log_page \<Rightarrow> log_page" where
  "openCreate p = p\<lparr>lp_editing := None, lp_form := emptyForm, lp_dialogOpen := True\<rparr>"

definition openEdit :: "LogForwardingConfig \<Rightarrow> log_page \<Rightarrow> log_page" where
  "openEdit cfg p = p\<lparr>lp_editing := Some cfg, lp_form := configToForm cfg, lp_dialogOpen := True\<rparr>"

definition submit_hook :: "log_page \<Rightarrow> mutation_hook" where
  "submit_hook p =
     (let form = lp_form p; config = (''config'', config_json (formToConfig form))
      in case lp_editing p of
           Some cfg \<Rightarrow> useUpdateLogForwardingMutation (lf_id cfg)
             (JObj [(''name'', JStr (fo_name form)), (''enabled'', JBool (fo_enabled form)), config])
         | None \<Rightarrow> useCreateLogForwardingMutation
             (JObj [(''name'', JStr (fo_name form)), (''target_type'', JStr (target_name (fo_target_type form))),
                    (''enabled'', JBool (fo_enabled form)), config]))"

definition log_handleSubmit :: "'w net \<Rightarrow> log_page \<Rightarrow> 'w web_env \<Rightarrow> log_page \<times> 'w web_env" where
  "log_handleSubmit net p env =
     (case run_mutation net (submit_hook p) env of
        (Inl e, _, env') \<Rightarrow> (p, env')
      | (Inr _, _, env') \<Rightarrow> (p\<lparr>lp_dialogOpen := False\<rparr>, env'))"

definition log_handleDelete :: "'w net \<Rightarrow> log_page \<Rightarrow> 'w web_env \<Rightarrow> log_page \<times> 'w web_env" where
  "log_handleDelete net p env =
     (case lp_deleteTarget p of
        None \<Rightarrow> (p, env)
      | Some cfg \<Rightarrow>
          (case run_mutation net (useDeleteLogForwardingMutation (lf_id cfg)) env of
             (Inl e, _, env') \<Rightarrow> (p, env')
           | (Inr _, _, env') \<Rightarrow> (p\<lparr>lp_deleteTarget := None\<rparr>, env')))"

definition toggleEnabled_hook :: "LogForwardingConfig \<Rightarrow> mutation_hook" where
  "toggleEnabled_hook cfg = useUpdateLogForwardingMutation (lf_id cfg) (JObj [(''enabled'', JBool (\<not> lf_enabled cfg))])"

subsection \<open>Round trip\<close>

text \<open>The stored configurations an untouched dialog sends back as they are.\<close>

fun form_keeps :: "AnyForwardingConfig \<Rightarrow> bool" where
  "form_keeps (Syslog c) \<longleftrightarrow> sy_protocol c \<noteq> None \<and> sy_host c \<noteq> None \<and> sy_port c \<notin> {None, Some 0} \<and> truthy (sy_app_name c)"
| "form_keeps (Slack c) \<longleftrightarrow> sl_webhook_url c \<noteq> None \<and> sl_channel c \<noteq> Some [] \<and> truthy (sl_username c)"
| "form_keeps (Splunk c) \<longleftrightarrow> sp_url c \<noteq> None \<and> sp_token c \<noteq> None \<and> sp_index c \<noteq> Some [] \<and> sp_source c = None
     \<and> truthy (sp_source_type c) \<and> sp_tls_insecure_skip_verify c = None"
| "form_keeps (Elastic c) \<longleftrightarrow> el_url c \<noteq> None \<and> truthy (el_index c) \<and> el_api_key c \<noteq> Some []
     \<and> (if truthy (el_username c) then el_password c \<noteq> None else el_username c = None \<and> el_password c = None)
     \<and> el_tls_insecure_skip_verify c = None"

lemma int_or_shown [simp]: "int_or (show_int n) d = (if n = 0 then d else n)"
  by (simp add: int_or_def)

lemma kept_config: "formToConfig (configToForm cfg) = lf_config cfg \<longleftrightarrow> form_keeps (lf_config cfg)"
proof (cases "lf_config cfg")
  case (Syslog c)
  then show ?thesis
    by (cases c) (auto simp: formToConfig_def configToForm_def or_undefined_def nullish_def emptyForm_def truthy_def split: option.splits if_splits)
next
  case (Slack c)
  then show ?thesis
    by (cases c) (auto simp: formToConfig_def configToForm_def or_undefined_def nullish_def emptyForm_def truthy_def split: option.splits if_splits)
next
  case (Splunk c)
  then show ?thesis
    by (cases c) (auto simp: formToConfig_def configToForm_def or_undefined_def or_text_def nullish_def emptyForm_def truthy_def split: option.splits if_splits)
next
  case (Elastic c)
  then show ?thesis
    by (cases c) (auto simp: formToConfig_def configToForm_def or_undefined_def or_text_def nullish_def emptyForm_def truthy_def split: option.splits if_splits)
qed

text \<open>
  Which stored targets survive an untouched edit. Opening a target and saving it as it is sends its
  own name, its own switch and the configuration the form reads from it; that is the stored
  configuration exactly when it has a protocol and a port other than 0, a non-empty application or
  user name, a source type or an index, a password with its user name only, and neither a source nor
  a certificate setting.
\<close>
theorem untouched_target_survives_iff:
  "submit_hook (openEdit cfg p) = useUpdateLogForwardingMutation (lf_id cfg)
      (JObj [(''name'', JStr (lf_name cfg)), (''enabled'', JBool (lf_enabled cfg)),
             (''config'', config_json (formToConfig (configToForm cfg)))])
   \<and> (formToConfig (lp_form (openEdit cfg p)) = lf_config cfg \<longleftrightarrow> form_keeps (lf_config cfg))"
proof -
  have "fo_name (configToForm cfg) = lf_name cfg" "fo_enabled (configToForm cfg) = lf_enabled cfg"
    by (simp_all add: configToForm_def Let_def split: AnyForwardingConfig.splits)
  then show ?thesis by (simp add: submit_hook_def openEdit_def kept_config)
qed

end
