(* ===== verification/DesktopHooks.thy ===== *)
theory DesktopHooks
  imports ItemHooks AdminHooks CatalogHooks AccountHooks DesktopSession
begin

text \<open>
  The hooks of the desktop application (\<open>client/src/api\<close>): \<open>items.ts\<close>, \<open>folders.ts\<close>, \<open>tags.ts\<close>,
  \<open>attachments.ts\<close>, \<open>vault.ts\<close>, \<open>lifecycle.ts\<close>, \<open>graph.ts\<close>, \<open>catalog.ts\<close>, \<open>catalog-browser.ts\<close>, \<open>admin.ts\<close>,
  \<open>admin-client-certs.ts\<close>, \<open>auth.ts\<close>, \<open>bootstrap.ts\<close>, \<open>notifications.ts\<close>. They run over the desktop fetch
  wrapper, except the few that call the browser's \<open>fetch\<close> themselves.
\<close>

subsection \<open>Running a hook\<close>

definition cl_run_query :: "'w shell \<Rightarrow> query_hook \<Rightarrow> 'w desktop \<Rightarrow> (js_error + json option) option \<times> 'w desktop" where
  "cl_run_query sh h d =
     (if \<not> q_enabled h then (None, d)
      else (let (r, d') = cl_apiFetch sh (q_path h) (q_options h) d in (Some r, d')))"

definition cl_run_mutation ::
    "'w shell \<Rightarrow> mutation_hook \<Rightarrow> 'w desktop \<Rightarrow> (js_error + json option) \<times> json list list \<times> 'w desktop" where
  "cl_run_mutation sh h d =
     (let (r, d') = cl_apiFetch sh (m_path h) (m_options h) d
      in case r of Inl e \<Rightarrow> (Inl e, [], d') | Inr v \<Rightarrow> (Inr v, m_invalidates h, d'))"

fun cl_query_retry :: "nat \<Rightarrow> js_error \<Rightarrow> bool" where
  "cl_query_retry failureCount (ApiErr e) = (if status e > 0 then False else failureCount < 2)"
| "cl_query_retry failureCount _ = (failureCount < 2)"

definition cl_key_items_tags :: "string \<Rightarrow> json list" where
  "cl_key_items_tags i = [JStr ''items'', JStr i, JStr ''tags'']"

subsection \<open>\<open>items.ts\<close>\<close>

definition cl_useItems :: "string option \<Rightarrow> string option \<Rightarrow> query_hook" where
  "cl_useItems folderId q =
     with_query [(''folder_id'', qstr folderId), (''q'', qstr (or_undef q))]
       (get_query (key_items_byFolder (nullish folderId '''') q) ''/api/v1/items'' (truthy folderId) ClientDefault)"

definition cl_useItem :: "string option \<Rightarrow> query_hook" where
  "cl_useItem i = get_query (key_items_detail (nullish i '''')) (item_path (tpl i) '''') (truthy i) ClientDefault"

definition cl_useCreateItemMutation :: "string \<Rightarrow> json \<Rightarrow> mutation_hook" where
  "cl_useCreateItemMutation folderId req = mutation POST ''/api/v1/items'' (Some req) [key_items_byFolder folderId None]"

definition cl_useUpdateItemMutation :: "string \<Rightarrow> string \<Rightarrow> json \<Rightarrow> mutation_hook" where
  "cl_useUpdateItemMutation i folderId req =
     mutation PUT (item_path i '''') (Some req) [key_items_detail i, key_items_byFolder folderId None]"

definition cl_useDeleteItemMutation :: "string \<Rightarrow> string \<Rightarrow> mutation_hook" where
  "cl_useDeleteItemMutation folderId i = mutation DELETE (item_path i '''') None [key_items_byFolder folderId None]"

definition cl_useFieldVersionsQuery :: "string option \<Rightarrow> int option \<Rightarrow> query_hook" where
  "cl_useFieldVersionsQuery itemId fieldDefId =
     get_query [JStr ''field-versions'', key_opt itemId, (case fieldDefId of None \<Rightarrow> JNull | Some n \<Rightarrow> JNum n)]
       (item_path (tpl itemId) (''/fields/'' @ tpl (map_option show_int fieldDefId) @ ''/versions''))
       (itemId \<noteq> None \<and> fieldDefId \<noteq> None) (StaleFor 30000)"

definition cl_useGlobalItemSearch :: "string \<Rightarrow> query_hook" where
  "cl_useGlobalItemSearch q =
     (let trimmed = trim q
      in with_query [(''q'', qstr (Some trimmed))]
           (get_query [JStr ''items'', JStr ''global-search'', JStr trimmed] ''/api/v1/items/search''
             (js_length trimmed \<ge> 2) (StaleFor 10000)))"

definition cl_useRecordRotationMutation :: "string \<Rightarrow> mutation_hook" where
  "cl_useRecordRotationMutation itemId =
     mutation POST (item_path itemId ''/rotate'') None [key_items_detail itemId, key_items_all]"

subsection \<open>\<open>folders.ts\<close>\<close>

definition cl_useRootFolders :: query_hook where
  "cl_useRootFolders = get_query (key_folders_byParent None) ''/api/v1/folders'' True ClientDefault"

definition cl_useChildFolders :: "string option \<Rightarrow> bool \<Rightarrow> query_hook" where
  "cl_useChildFolders parentId enabled =
     with_query (if truthy parentId then [(''parent_id'', qstr parentId)] else [])
       (get_query (key_folders_byParent parentId) ''/api/v1/folders'' (enabled \<and> parentId \<noteq> None) ClientDefault)"

definition cl_useFolder :: "string option \<Rightarrow> query_hook" where
  "cl_useFolder i = get_query (key_folders_detail (nullish i '''')) (''/api/v1/folders/'' @ tpl i) (i \<noteq> None) ClientDefault"

subsection \<open>\<open>tags.ts\<close>\<close>

definition cl_useTagsQuery :: query_hook where
  "cl_useTagsQuery = get_query tagsKey ''/api/v1/tags'' True (StaleFor 60000)"

definition cl_useCreateTagMutation :: "json \<Rightarrow> mutation_hook" where
  "cl_useCreateTagMutation req = mutation POST ''/api/v1/tags'' (Some req) [tagsKey]"

definition cl_useDeleteTagMutation :: "string \<Rightarrow> mutation_hook" where
  "cl_useDeleteTagMutation tagId =
     mutation DELETE (''/api/v1/tags/'' @ tagId) None [tagsKey, [JStr ''item-tags'']]"

definition cl_useItemTagsQuery :: "string option \<Rightarrow> query_hook" where
  "cl_useItemTagsQuery itemId =
     get_query (cl_key_items_tags (nullish itemId '''')) (item_path (tpl itemId) ''/tags'') (truthy itemId) ClientDefault"

definition cl_useAddItemTagMutation :: "string \<Rightarrow> json \<Rightarrow> mutation_hook" where
  "cl_useAddItemTagMutation itemId req = mutation POST (item_path itemId ''/tags'') (Some req) [itemTagsKey itemId]"

definition cl_useRemoveItemTagMutation :: "string \<Rightarrow> string \<Rightarrow> mutation_hook" where
  "cl_useRemoveItemTagMutation itemId tagId =
     mutation DELETE (item_path itemId (''/tags/'' @ tagId)) None [itemTagsKey itemId]"

definition cl_useFavoritesQuery :: query_hook where
  "cl_useFavoritesQuery = get_query favoritesKey ''/api/v1/favorites'' True (StaleFor 30000)"

definition cl_useFavoriteStatusQuery :: "string option \<Rightarrow> query_hook" where
  "cl_useFavoriteStatusQuery itemId =
     get_query (favoriteStatusKey (nullish itemId '''')) (item_path (tpl itemId) ''/favorite'') (truthy itemId)
       (StaleFor 30000)"

definition cl_useAddFavoriteMutation :: "string \<Rightarrow> mutation_hook" where
  "cl_useAddFavoriteMutation itemId =
     mutation POST (item_path itemId ''/favorite'') None [favoritesKey, favoriteStatusKey itemId]"

definition cl_useRemoveFavoriteMutation :: "string \<Rightarrow> mutation_hook" where
  "cl_useRemoveFavoriteMutation itemId =
     mutation DELETE (item_path itemId ''/favorite'') None [favoritesKey, favoriteStatusKey itemId]"

subsection \<open>\<open>attachments.ts\<close> and \<open>vault.ts\<close>\<close>

definition cl_useAttachments :: "string option \<Rightarrow> query_hook" where
  "cl_useAttachments itemId =
     get_query (key_attachments_byItem (nullish itemId '''')) (item_path (tpl itemId) ''/attachments'') (truthy itemId)
       ClientDefault"

definition cl_useInitUploadMutation :: "string \<Rightarrow> json \<Rightarrow> mutation_hook" where
  "cl_useInitUploadMutation itemId req =
     mutation POST (item_path itemId ''/attachments'') (Some req) [key_attachments_byItem itemId]"

definition cl_useConfirmUploadMutation :: "string \<Rightarrow> string \<Rightarrow> mutation_hook" where
  "cl_useConfirmUploadMutation itemId attId =
     mutation POST (item_path itemId (''/attachments/'' @ attId @ ''/confirm'')) None [key_attachments_byItem itemId]"

definition cl_useDownloadURLMutation :: "string \<Rightarrow> string \<Rightarrow> mutation_hook" where
  "cl_useDownloadURLMutation itemId attId =
     \<lparr>m_path = item_path itemId (''/attachments/'' @ attId @ ''/url''), m_options = no_options, m_invalidates = []\<rparr>"

definition cl_useDeleteAttachmentMutation :: "string \<Rightarrow> string \<Rightarrow> mutation_hook" where
  "cl_useDeleteAttachmentMutation itemId attId =
     mutation DELETE (item_path itemId (''/attachments/'' @ attId)) None [key_attachments_byItem itemId]"

definition cl_useVaultFetchMutation :: "string \<Rightarrow> mutation_hook" where
  "cl_useVaultFetchMutation itemId = mutation POST (item_path itemId ''/vault-fetch'') None []"

definition cl_useVaultPathsQuery :: "string \<Rightarrow> string \<Rightarrow> query_hook" where
  "cl_useVaultPathsQuery mount prefix =
     with_query [(''mount'', qstr (Some mount)), (''path'', qstr (Some prefix))]
       (get_query [JStr ''vault'', JStr ''paths'', JStr mount, JStr prefix] ''/api/v1/vault/paths''
         (length mount > 0) (StaleFor 30000))"

subsection \<open>\<open>lifecycle.ts\<close> and \<open>graph.ts\<close>\<close>

definition cl_useLifecycleStagesQuery :: query_hook where
  "cl_useLifecycleStagesQuery =
     explicit_get (get_query lifecycleStagesKey ''/api/v1/lifecycle-stages'' True (StaleFor (5 * 60000)))"

definition cl_useItemLifecycleStagesQuery :: "string option \<Rightarrow> query_hook" where
  "cl_useItemLifecycleStagesQuery itemId =
     explicit_get (get_query (itemLifecycleStagesKey (nullish itemId '''')) (item_path (tpl itemId) ''/lifecycle-stages'')
       (truthy itemId) (StaleFor 30000))"

definition cl_useSetItemLifecycleStagesMutation :: "string \<Rightarrow> json \<Rightarrow> mutation_hook" where
  "cl_useSetItemLifecycleStagesMutation itemId req =
     mutation POST (item_path itemId ''/lifecycle-stages'') (Some req) [itemLifecycleStagesKey itemId]"

definition cl_useGraphQuery :: query_hook where
  "cl_useGraphQuery = explicit_get (get_query graphKey ''/api/v1/graph'' True (StaleFor 30000))"

definition cl_useAddRelationshipMutation :: "string \<Rightarrow> json \<Rightarrow> mutation_hook" where
  "cl_useAddRelationshipMutation itemId req = mutation POST (item_path itemId ''/relationships'') (Some req) [graphKey]"

definition cl_useDeleteRelationshipMutation :: "string \<Rightarrow> string \<Rightarrow> string \<Rightarrow> mutation_hook" where
  "cl_useDeleteRelationshipMutation itemId targetId rel =
     mutation DELETE (item_path itemId (''/relationships/'' @ targetId @ ''/'' @ rel)) None [graphKey]"

subsection \<open>\<open>catalog.ts\<close> and \<open>catalog-browser.ts\<close>\<close>

definition cl_useFieldDefinitions :: query_hook where
  "cl_useFieldDefinitions = get_query key_fieldDefinitions ''/api/v1/field-definitions'' True NeverStale"

definition cl_useItemTypes :: query_hook where
  "cl_useItemTypes = get_query key_itemTypes ''/api/v1/item-types'' True NeverStale"

definition cl_useCatalogQuery :: "CatalogFilters \<Rightarrow> query_hook" where
  "cl_useCatalogQuery f =
     (let trimmed = trim (cf_q f); fuzzy = nullish (cf_fuzzy f) False
      in with_query ([(''q'', qstr (Some trimmed))] @ query_text ''kind'' (cf_kind f)
             @ (if fuzzy then [(''fuzzy'', qstr (Some ''true''))] else []))
           (get_query [JStr ''catalog-browser'', JStr trimmed, key_opt (cf_kind f), JBool fuzzy]
             ''/api/v1/items/search'' (js_length trimmed \<ge> 2) (StaleFor 15000)))"

definition cl_useCatalogEntityQuery :: "string \<Rightarrow> string \<Rightarrow> query_hook" where
  "cl_useCatalogEntityQuery kind name =
     get_query [JStr ''catalog'', JStr ''entity'', JStr kind, JStr name]
       (''/api/v1/catalog/'' @ encodeURIComponent kind @ ''/'' @ encodeURIComponent name)
       (length kind > 0 \<and> length name > 0) (StaleFor 15000)"

definition cl_find_item_query :: "string \<Rightarrow> string \<Rightarrow> query_hook option" where
  "cl_find_item_query kind name =
     map_option (\<lambda>decoded.
       (with_query [(''q'', qstr (Some decoded)), (''kind'', qstr (Some kind))]
         (get_query [JStr ''catalog'', JStr ''by-kind-name'', JStr kind, JStr decoded] ''/api/v1/items/search''
           (js_length decoded \<ge> 2) (StaleFor 15000)))\<lparr>q_noRetry := True\<rparr>)
       (decodeURIComponent name)"

definition cl_useFindItemByKindAndName ::
    "(string \<Rightarrow> string) \<Rightarrow> string \<Rightarrow> string \<Rightarrow> catalog_hit list \<Rightarrow> catalog_hit option" where
  "cl_useFindItemByKindAndName lower kind decodedName items =
     find (\<lambda>item. ch_kind item = Some kind \<and> lower (ch_name item) = lower decodedName) items"

subsection \<open>\<open>admin.ts\<close>\<close>

definition cl_all_user_pages :: "json list list" where
  "cl_all_user_pages = [[JStr ''admin'', JStr ''users'']]"

definition cl_useCreateUserMutation :: "json \<Rightarrow> mutation_hook" where
  "cl_useCreateUserMutation input = mutation POST ''/api/v1/admin/users'' (Some input) cl_all_user_pages"

definition cl_useUsers :: "int \<Rightarrow> int \<Rightarrow> query_hook" where
  "cl_useUsers limit offset =
     with_query [(''limit'', Some (QNum limit)), (''offset'', Some (QNum offset))]
       (get_query (key_admin_users limit offset) ''/api/v1/admin/users'' True ClientDefault)"

definition cl_useGrantRoleMutation :: "string \<Rightarrow> json \<Rightarrow> mutation_hook" where
  "cl_useGrantRoleMutation userId input = mutation POST (user_path userId ''/roles'') (Some input) cl_all_user_pages"

definition cl_useRevokeRoleMutation :: "string \<Rightarrow> string \<Rightarrow> mutation_hook" where
  "cl_useRevokeRoleMutation userId roleName =
     mutation DELETE (user_path userId (''/roles/'' @ roleName)) None cl_all_user_pages"

definition cl_useDisableUserMutation :: "string \<Rightarrow> mutation_hook" where
  "cl_useDisableUserMutation userId = mutation POST (user_path userId ''/disable'') None cl_all_user_pages"

definition cl_useEnableUserMutation :: "string \<Rightarrow> mutation_hook" where
  "cl_useEnableUserMutation userId = mutation POST (user_path userId ''/enable'') None cl_all_user_pages"

definition cl_useResetTOTPMutation :: "string \<Rightarrow> mutation_hook" where
  "cl_useResetTOTPMutation userId = mutation POST (user_path userId ''/totp/reset'') None cl_all_user_pages"

definition cl_useUpdateTOTPRequirementMutation :: "string \<Rightarrow> bool \<Rightarrow> mutation_hook" where
  "cl_useUpdateTOTPRequirementMutation userId required =
     mutation PATCH (user_path userId ''/totp-required'') (required_body required) cl_all_user_pages"

definition cl_buildAuditQuery :: "AuditLogFilters \<Rightarrow> query" where
  "cl_buildAuditQuery f =
     [(''action'', qstr (or_undef (af_action f))), (''actor_user_id'', qstr (or_undef (af_actor_user_id f))),
      (''resource_type'', qstr (or_undef (af_resource_type f))), (''resource_id'', qstr (or_undef (af_resource_id f))),
      (''from'', qstr (or_undef (af_from f))), (''to'', qstr (or_undef (af_to f))),
      (''limit'', map_option QNum (af_limit f)), (''offset'', map_option QNum (af_offset f))]"

definition cl_useAuditLog :: "AuditLogFilters \<Rightarrow> query_hook" where
  "cl_useAuditLog filters =
     with_query (cl_buildAuditQuery filters)
       (get_query (key_admin_auditLog (audit_filters_json filters)) ''/api/v1/admin/audit-log'' True ClientDefault)"

subsection \<open>\<open>admin-client-certs.ts\<close>\<close>

definition cl_certKeys_cas :: "json list" where "cl_certKeys_cas = [JStr ''admin'', JStr ''client-cert-cas'']"
definition cl_certKeys_userCerts :: "string \<Rightarrow> json list" where
  "cl_certKeys_userCerts userId = [JStr ''admin'', JStr ''client-certs'', JStr userId]"

definition cl_useClientCertCAsQuery :: query_hook where
  "cl_useClientCertCAsQuery = get_query cl_certKeys_cas ''/api/v1/admin/client-cert-cas'' True ClientDefault"

definition cl_useUploadCACertMutation :: "json \<Rightarrow> mutation_hook" where
  "cl_useUploadCACertMutation input = mutation POST ''/api/v1/admin/client-cert-cas'' (Some input) [cl_certKeys_cas]"

definition cl_useDeleteCACertMutation :: "string \<Rightarrow> mutation_hook" where
  "cl_useDeleteCACertMutation caId = mutation DELETE (''/api/v1/admin/client-cert-cas/'' @ caId) None [cl_certKeys_cas]"

definition cl_useUserClientCertsQuery :: "string \<Rightarrow> query_hook" where
  "cl_useUserClientCertsQuery userId =
     get_query (cl_certKeys_userCerts userId) (user_path userId ''/client-certs'') (userId \<noteq> []) ClientDefault"

definition cl_useIssueClientCertMutation :: "string \<Rightarrow> json option \<Rightarrow> mutation_hook" where
  "cl_useIssueClientCertMutation userId input =
     mutation POST (user_path userId ''/client-certs/issue'') (Some (nullish input (JObj [])))
       [cl_certKeys_userCerts userId]"

definition cl_useRegisterClientCertMutation :: "string \<Rightarrow> json \<Rightarrow> mutation_hook" where
  "cl_useRegisterClientCertMutation userId input =
     mutation POST (user_path userId ''/client-certs/register'') (Some input) [cl_certKeys_userCerts userId]"

definition cl_useRevokeClientCertMutation :: "string \<Rightarrow> string \<Rightarrow> mutation_hook" where
  "cl_useRevokeClientCertMutation userId certId =
     mutation DELETE (user_path userId (''/client-certs/'' @ certId)) None [cl_certKeys_userCerts userId]"

definition cl_useUpdateClientCertRequirementMutation :: "string \<Rightarrow> json \<Rightarrow> mutation_hook" where
  "cl_useUpdateClientCertRequirementMutation userId input =
     mutation PATCH (user_path userId ''/cert-required'') (Some input) [[JStr ''admin'', JStr ''users'']]"

subsection \<open>\<open>notifications.ts\<close>\<close>

definition NOTIF_KEYS_list :: "int \<Rightarrow> json list" where
  "NOTIF_KEYS_list limit = [JStr ''notifications'', JObj [(''limit'', JNum limit)]]"
definition NOTIF_KEYS_unread :: "json list" where
  "NOTIF_KEYS_unread = [JStr ''notifications'', JStr ''unread'']"

definition cl_useNotificationsQuery :: "int option \<Rightarrow> query_hook" where
  "cl_useNotificationsQuery limitArg =
     (let limit = nullish limitArg 20
      in (with_query [(''limit'', Some (QNum limit))]
           (get_query (NOTIF_KEYS_list limit) ''/api/v1/notifications'' True ClientDefault))\<lparr>q_poll := Some 60000\<rparr>)"

definition cl_useUnreadCountQuery :: query_hook where
  "cl_useUnreadCountQuery =
     (get_query NOTIF_KEYS_unread ''/api/v1/notifications/unread-count'' True ClientDefault)\<lparr>q_poll := Some 30000\<rparr>"

definition cl_useMarkAllReadMutation :: mutation_hook where
  "cl_useMarkAllReadMutation = mutation POST ''/api/v1/notifications/mark-all-read'' None [[JStr ''notifications'']]"

definition cl_useMarkReadMutation :: "string \<Rightarrow> mutation_hook" where
  "cl_useMarkReadMutation notifId =
     mutation POST (''/api/v1/notifications/'' @ notifId @ ''/read'') None [[JStr ''notifications'']]"

subsection \<open>\<open>auth.ts\<close> and \<open>bootstrap.ts\<close>\<close>

definition cl_useLoginMutation :: "json \<Rightarrow> mutation_hook" where
  "cl_useLoginMutation input = public_mutation POST ''/api/v1/auth/login'' (Some input)"

definition cl_useLogoutMutation :: mutation_hook where
  "cl_useLogoutMutation = mutation POST ''/api/v1/auth/logout'' None []"

text \<open>The browser's \<open>fetch\<close>, called directly: no access token, no refresh, no TLS command.\<close>

definition browser_fetch :: "'w shell \<Rightarrow> http_request \<Rightarrow> 'w desktop \<Rightarrow> fetch_result \<times> 'w desktop" where
  "browser_fetch sh rq d =
     (let (r, w') = transmit sh BrowserFetch rq (dk_world d)
      in (r, d\<lparr>dk_world := w', dk_sent := dk_sent d @ [(BrowserFetch, rq)]\<rparr>))"

definition cl_raw_call ::
    "'w shell \<Rightarrow> http_request \<Rightarrow> (http_response \<Rightarrow> js_error) \<Rightarrow> 'w desktop \<Rightarrow> (js_error + json) \<times> 'w desktop" where
  "cl_raw_call sh rq failure d =
     (case browser_fetch sh rq d of
        (NetworkFailure m, d1) \<Rightarrow> (Inl (OtherError m), d1)
      | (Response res, d1) \<Rightarrow>
          if \<not> rs_ok res then (Inl (failure res), d1)
          else (case rs_json res of None \<Rightarrow> (Inl (OtherError ''invalid json''), d1) | Some j \<Rightarrow> (Inr j, d1)))"

definition cl_useTOTPInitMutation :: "'w shell \<Rightarrow> string \<Rightarrow> 'w desktop \<Rightarrow> (js_error + json) \<times> 'w desktop" where
  "cl_useTOTPInitMutation sh token d =
     cl_raw_call sh (post_request (cc_baseUrl (dk_config d) @ ''/api/v1/auth/totp/init'') [bearer token] None)
       (\<lambda>res. OtherError (body_message res (''TOTP init hatas'' @ tr_i) (''TOTP init: '' @ show_nat (rs_status res)))) d"

definition cl_useTOTPVerifyMutation ::
    "'w shell \<Rightarrow> string \<Rightarrow> string \<Rightarrow> 'w desktop \<Rightarrow> (js_error + json) \<times> 'w desktop" where
  "cl_useTOTPVerifyMutation sh token totpCode d =
     cl_raw_call sh (post_request (cc_baseUrl (dk_config d) @ ''/api/v1/auth/totp/verify'') [bearer token, json_content]
         (Some (JObj [(''code'', JStr totpCode)])))
       (\<lambda>res. OtherError (body_message res (''TOTP do'' @ tr_g @ ''rulama hatas'' @ tr_i)
          (''TOTP verify: '' @ show_nat (rs_status res)))) d"

text \<open>\<open>initKeypair\<close> reads no body on success.\<close>

definition cl_initKeypair :: "'w shell \<Rightarrow> string \<Rightarrow> json \<Rightarrow> 'w desktop \<Rightarrow> (js_error + unit) \<times> 'w desktop" where
  "cl_initKeypair sh accessToken payload d =
     (case browser_fetch sh (post_request (cc_baseUrl (dk_config d) @ ''/api/v1/auth/keypair-init'')
             [bearer accessToken, json_content] (Some payload)) d of
        (NetworkFailure m, d1) \<Rightarrow> (Inl (OtherError m), d1)
      | (Response res, d1) \<Rightarrow>
          if rs_ok res then (Inr (), d1)
          else (let body = nullish (rs_json res) (JObj [])
                in (Inl (ApiErr (new_ApiError (rs_status res)
                     \<lparr>er_code = nullish (json_str_field body ''code'') ''internal'',
                      er_message = nullish (json_str_field body ''message'') (''keypair-init: '' @ show_nat (rs_status res)),
                      er_details = None\<rparr>)), d1)))"

definition no_server_message :: string where
  "no_server_message = ''Sunucu adresi ayarlanmam'' @ tr_i @ tr_s @ ''. /config ekran'' @ tr_i @ ''na gidin.''"

definition cl_bootstrap_call ::
    "'w shell \<Rightarrow> (string \<Rightarrow> http_request) \<Rightarrow> 'w desktop \<Rightarrow> (js_error + json) \<times> 'w desktop" where
  "cl_bootstrap_call sh rq d =
     (if cc_baseUrl (dk_config d) = [] then (Inl (OtherError no_server_message), d)
      else cl_raw_call sh (rq (cc_baseUrl (dk_config d) @ ''/api/v1/auth/bootstrap''))
             (\<lambda>res. OtherError (handleResponse_message res)) d)"

definition cl_bootstrapStatus :: "'w shell \<Rightarrow> 'w desktop \<Rightarrow> (js_error + json) \<times> 'w desktop" where
  "cl_bootstrapStatus sh =
     cl_bootstrap_call sh (\<lambda>base. \<lparr>rq_url = base @ ''/status'', rq_method = GET, rq_headers = [], rq_body = None\<rparr>)"

definition cl_bootstrapSetup :: "'w shell \<Rightarrow> string \<Rightarrow> string \<Rightarrow> 'w desktop \<Rightarrow> (js_error + json) \<times> 'w desktop" where
  "cl_bootstrapSetup sh user password =
     cl_bootstrap_call sh (\<lambda>base. post_request (base @ ''/setup'') [json_content] (Some (bootstrap_credentials user password)))"

definition cl_bootstrapLogin :: "'w shell \<Rightarrow> string \<Rightarrow> string \<Rightarrow> 'w desktop \<Rightarrow> (js_error + json) \<times> 'w desktop" where
  "cl_bootstrapLogin sh user password =
     cl_bootstrap_call sh (\<lambda>base. post_request (base @ ''/login'') [json_content] (Some (bootstrap_credentials user password)))"

subsection \<open>The two applications' hooks\<close>

lemmas cl_hook_defs = cl_useItems_def cl_useItem_def cl_useCreateItemMutation_def cl_useUpdateItemMutation_def
  cl_useDeleteItemMutation_def cl_useFieldVersionsQuery_def cl_useRecordRotationMutation_def cl_useRootFolders_def
  cl_useChildFolders_def cl_useFolder_def cl_useTagsQuery_def cl_useCreateTagMutation_def cl_useDeleteTagMutation_def
  cl_useItemTagsQuery_def cl_useAddItemTagMutation_def cl_useRemoveItemTagMutation_def cl_useFavoritesQuery_def
  cl_useFavoriteStatusQuery_def cl_useAddFavoriteMutation_def cl_useRemoveFavoriteMutation_def

text \<open>What a hook sends, whatever it does to the cache.\<close>

definition sends :: "mutation_hook \<Rightarrow> string \<times> RequestOptions" where
  "sends h = (m_path h, m_options h)"

definition asks :: "query_hook \<Rightarrow> (string \<times> RequestOptions \<times> bool)" where
  "asks h = (q_path h, q_options h, q_enabled h)"

lemma sends_mutation [simp]: "sends (mutation meth path body keys) = (path, no_options\<lparr>ro_method := Some meth, ro_body := body\<rparr>)"
  by (simp add: sends_def mutation_def)

lemma same_item_hooks:
  "cl_useItems = useItems" "cl_useItem = useItem" "cl_useFieldVersionsQuery = useFieldVersionsQuery"
  "cl_useRecordRotationMutation = useRecordRotationMutation"
  "cl_useRootFolders = useRootFolders" "cl_useChildFolders = useChildFolders" "cl_useFolder = useFolder"
  "cl_useTagsQuery = useTagsQuery" "cl_useCreateTagMutation = useCreateTagMutation" "cl_useDeleteTagMutation = useDeleteTagMutation"
  "cl_useAddItemTagMutation = useAddItemTagMutation" "cl_useRemoveItemTagMutation = useRemoveItemTagMutation"
  "cl_useFavoritesQuery = useFavoritesQuery" "cl_useFavoriteStatusQuery = useFavoriteStatusQuery"
  "cl_useAddFavoriteMutation = useAddFavoriteMutation" "cl_useRemoveFavoriteMutation = useRemoveFavoriteMutation"
  by (simp_all add: fun_eq_iff cl_hook_defs useItems_def useItem_def useFieldVersionsQuery_def useRecordRotationMutation_def
      useRootFolders_def useChildFolders_def useFolder_def useTagsQuery_def useCreateTagMutation_def useDeleteTagMutation_def
      useAddItemTagMutation_def useRemoveItemTagMutation_def useFavoritesQuery_def useFavoriteStatusQuery_def
      useAddFavoriteMutation_def useRemoveFavoriteMutation_def)

lemma same_panel_hooks:
  "cl_useAttachments = useAttachments" "cl_useInitUploadMutation = useInitUploadMutation"
  "cl_useConfirmUploadMutation = useConfirmUploadMutation" "cl_useDownloadURLMutation = useDownloadURLMutation"
  "cl_useDeleteAttachmentMutation = useDeleteAttachmentMutation" "cl_useVaultFetchMutation = useVaultFetchMutation"
  "cl_useVaultPathsQuery = useVaultPathsQuery" "cl_useLifecycleStagesQuery = useLifecycleStagesQuery"
  "cl_useItemLifecycleStagesQuery = useItemLifecycleStagesQuery"
  "cl_useSetItemLifecycleStagesMutation = useSetItemLifecycleStagesMutation" "cl_useGraphQuery = useGraphQuery"
  "cl_useAddRelationshipMutation = useAddRelationshipMutation" "cl_useDeleteRelationshipMutation = useDeleteRelationshipMutation"
  "cl_useFieldDefinitions = useFieldDefinitions" "cl_useItemTypes = useItemTypes" "cl_useCatalogQuery = useCatalogQuery"
  "cl_useCatalogEntityQuery = useCatalogEntityQuery" "cl_find_item_query = find_item_query"
  "cl_useFindItemByKindAndName = useFindItemByKindAndName"
  by (simp_all add: fun_eq_iff cl_useAttachments_def useAttachments_def cl_useInitUploadMutation_def useInitUploadMutation_def
      cl_useConfirmUploadMutation_def useConfirmUploadMutation_def cl_useDownloadURLMutation_def useDownloadURLMutation_def
      cl_useDeleteAttachmentMutation_def useDeleteAttachmentMutation_def cl_useVaultFetchMutation_def useVaultFetchMutation_def
      cl_useVaultPathsQuery_def useVaultPathsQuery_def cl_useLifecycleStagesQuery_def useLifecycleStagesQuery_def
      cl_useItemLifecycleStagesQuery_def useItemLifecycleStagesQuery_def cl_useSetItemLifecycleStagesMutation_def
      useSetItemLifecycleStagesMutation_def cl_useGraphQuery_def useGraphQuery_def cl_useAddRelationshipMutation_def
      useAddRelationshipMutation_def cl_useDeleteRelationshipMutation_def useDeleteRelationshipMutation_def
      cl_useFieldDefinitions_def useFieldDefinitions_def cl_useItemTypes_def useItemTypes_def cl_useCatalogQuery_def
      useCatalogQuery_def cl_useCatalogEntityQuery_def useCatalogEntityQuery_def cl_find_item_query_def find_item_query_def
      cl_useFindItemByKindAndName_def useFindItemByKindAndName_def)

lemma same_admin_hooks:
  "cl_useCreateUserMutation = useCreateUserMutation" "cl_useUsers = useUsers" "cl_useGrantRoleMutation = useGrantRoleMutation"
  "cl_useRevokeRoleMutation = useRevokeRoleMutation" "cl_useDisableUserMutation = useDisableUserMutation"
  "cl_useEnableUserMutation = useEnableUserMutation" "cl_useResetTOTPMutation = useResetTOTPMutation"
  "cl_useUpdateTOTPRequirementMutation = useUpdateTOTPRequirementMutation" "cl_useAuditLog = useAuditLog"
  "cl_useClientCertCAsQuery = useClientCertCAsQuery" "cl_useUploadCACertMutation = useUploadCACertMutation"
  "cl_useDeleteCACertMutation = useDeleteCACertMutation" "cl_useUserClientCertsQuery = useUserClientCertsQuery"
  "cl_useIssueClientCertMutation = useIssueClientCertMutation" "cl_useRegisterClientCertMutation = useRegisterClientCertMutation"
  "cl_useRevokeClientCertMutation = useRevokeClientCertMutation"
  "cl_useUpdateClientCertRequirementMutation = useUpdateClientCertRequirementMutation"
  "cl_useLoginMutation = useLoginMutation" "cl_useLogoutMutation = useLogoutMutation"
  by (simp_all add: fun_eq_iff cl_all_user_pages_def all_user_pages_def cl_useCreateUserMutation_def useCreateUserMutation_def
      cl_useUsers_def useUsers_def cl_useGrantRoleMutation_def useGrantRoleMutation_def cl_useRevokeRoleMutation_def
      useRevokeRoleMutation_def cl_useDisableUserMutation_def useDisableUserMutation_def cl_useEnableUserMutation_def
      useEnableUserMutation_def cl_useResetTOTPMutation_def useResetTOTPMutation_def cl_useUpdateTOTPRequirementMutation_def
      useUpdateTOTPRequirementMutation_def cl_buildAuditQuery_def buildAuditQuery_def cl_useAuditLog_def useAuditLog_def
      cl_certKeys_cas_def certKeys_cas_def cl_certKeys_userCerts_def certKeys_userCerts_def cl_useClientCertCAsQuery_def
      useClientCertCAsQuery_def cl_useUploadCACertMutation_def useUploadCACertMutation_def cl_useDeleteCACertMutation_def
      useDeleteCACertMutation_def cl_useUserClientCertsQuery_def useUserClientCertsQuery_def cl_useIssueClientCertMutation_def
      useIssueClientCertMutation_def cl_useRegisterClientCertMutation_def useRegisterClientCertMutation_def
      cl_useRevokeClientCertMutation_def useRevokeClientCertMutation_def cl_useUpdateClientCertRequirementMutation_def
      useUpdateClientCertRequirementMutation_def cl_useLoginMutation_def useLoginMutation_def cl_useLogoutMutation_def
      useLogoutMutation_def)

text \<open>Where the two differ in the cache only.\<close>

lemma same_requests:
  "sends (cl_useCreateItemMutation folder req) = sends (useCreateItemMutation folder req)"
  "sends (cl_useUpdateItemMutation i folder req) = sends (useUpdateItemMutation i folder req)"
  "sends (cl_useDeleteItemMutation folder i) = sends (useDeleteItemMutation folder i)"
  "asks (cl_useItemTagsQuery j) = asks (useItemTagsQuery j)"
  "asks (cl_useGlobalItemSearch text) = asks (useGlobalItemSearch text False)"
  "sends (cl_useMarkReadMutation i) = sends (useMarkReadMutation i)"
  by (simp_all add: cl_hook_defs useCreateItemMutation_def useUpdateItemMutation_def useDeleteItemMutation_def asks_def
      useItemTagsQuery_def cl_useGlobalItemSearch_def useGlobalItemSearch_def Let_def hook_defs sends_def
      cl_useMarkReadMutation_def useMarkReadMutation_def)

lemma cl_run_mutation_simulates:
  assumes "cc_baseUrl (dk_config d) \<noteq> []" and "\<not> cc_offlineModeEnabled (dk_config d)" and "no_web_session (dk_tokens d)"
    and "ro_rawBody (m_options h) = None" and "cl_run_mutation sh h d = (r, ks, d')"
  shows "\<exists>sent. run_mutation (web_net sh (transport_of d) (cc_baseUrl (dk_config d))) h (web_view [] d) = (r, ks, web_view sent d')
    \<and> dk_sent d' = dk_sent d @ map (\<lambda>rq. (transport_of d, with_base (cc_baseUrl (dk_config d)) rq)) sent"
proof -
  obtain q d1 where f: "cl_apiFetch sh (m_path h) (m_options h) d = (q, d1)" by fastforce
  have "simulates d d (web_view [] d)" using assms(3) by (simp add: simulates_def web_view_def)
  from simulates_apiFetch [OF this f assms(1,2,4)] obtain e' where
    e: "apiFetch (net_of sh d) (m_path h) (m_options h) (web_view [] d) = (q, e')" "simulates d d1 e'" by blast
  from e(2) obtain sent where "e' = web_view sent d1"
    "dk_sent d1 = dk_sent d @ map (\<lambda>rq. (transport_of d, with_base (cc_baseUrl (dk_config d)) rq)) sent"
    unfolding simulates_def by blast
  with e(1) f assms(5) show ?thesis by (cases q) (auto simp: cl_run_mutation_def run_mutation_def)
qed

text \<open>
  Every mutation hook of the desktop that goes through its fetch wrapper, beside the web's hook of the
  same name, with the arguments \<open>i\<close>, \<open>j\<close>, \<open>k\<close> and \<open>b\<close> and the body \<open>req\<close>; only
  \<open>useMarkAllReadMutation\<close> is left out, the two applications post it to different paths.
\<close>

definition shared_mutations :: "string \<Rightarrow> string \<Rightarrow> string \<Rightarrow> bool \<Rightarrow> json \<Rightarrow> (mutation_hook \<times> mutation_hook) list" where
  "shared_mutations i j k b req =
     [(cl_useCreateItemMutation i req, useCreateItemMutation i req),
      (cl_useUpdateItemMutation i j req, useUpdateItemMutation i j req),
      (cl_useDeleteItemMutation j i, useDeleteItemMutation j i),
      (cl_useRecordRotationMutation i, useRecordRotationMutation i),
      (cl_useCreateTagMutation req, useCreateTagMutation req), (cl_useDeleteTagMutation i, useDeleteTagMutation i),
      (cl_useAddItemTagMutation i req, useAddItemTagMutation i req),
      (cl_useRemoveItemTagMutation i j, useRemoveItemTagMutation i j),
      (cl_useAddFavoriteMutation i, useAddFavoriteMutation i), (cl_useRemoveFavoriteMutation i, useRemoveFavoriteMutation i),
      (cl_useInitUploadMutation i req, useInitUploadMutation i req),
      (cl_useConfirmUploadMutation i j, useConfirmUploadMutation i j),
      (cl_useDownloadURLMutation i j, useDownloadURLMutation i j),
      (cl_useDeleteAttachmentMutation i j, useDeleteAttachmentMutation i j),
      (cl_useVaultFetchMutation i, useVaultFetchMutation i),
      (cl_useSetItemLifecycleStagesMutation i req, useSetItemLifecycleStagesMutation i req),
      (cl_useAddRelationshipMutation i req, useAddRelationshipMutation i req),
      (cl_useDeleteRelationshipMutation i j k, useDeleteRelationshipMutation i j k),
      (cl_useCreateUserMutation req, useCreateUserMutation req), (cl_useGrantRoleMutation i req, useGrantRoleMutation i req),
      (cl_useRevokeRoleMutation i j, useRevokeRoleMutation i j), (cl_useDisableUserMutation i, useDisableUserMutation i),
      (cl_useEnableUserMutation i, useEnableUserMutation i), (cl_useResetTOTPMutation i, useResetTOTPMutation i),
      (cl_useUpdateTOTPRequirementMutation i b, useUpdateTOTPRequirementMutation i b),
      (cl_useUploadCACertMutation req, useUploadCACertMutation req), (cl_useDeleteCACertMutation i, useDeleteCACertMutation i),
      (cl_useIssueClientCertMutation i (Some req), useIssueClientCertMutation i (Some req)),
      (cl_useRegisterClientCertMutation i req, useRegisterClientCertMutation i req),
      (cl_useRevokeClientCertMutation i j, useRevokeClientCertMutation i j),
      (cl_useUpdateClientCertRequirementMutation i req, useUpdateClientCertRequirementMutation i req),
      (cl_useLoginMutation req, useLoginMutation req), (cl_useLogoutMutation, useLogoutMutation),
      (cl_useMarkReadMutation i, useMarkReadMutation i)]"

lemma shared_send_same:
  assumes "(c, w) \<in> set (shared_mutations i j k b req)"
  shows "sends c = sends w" "ro_rawBody (m_options c) = None"
proof -
  have "\<forall>(c, w)\<in>set (shared_mutations i j k b req). sends c = sends w"
    unfolding shared_mutations_def same_item_hooks same_panel_hooks same_admin_hooks by (simp add: same_requests)
  with assms show "sends c = sends w" by auto
  have "\<forall>h\<in>set (map snd (shared_mutations i j k b req)). ro_rawBody (snd (sends h)) = None"
    unfolding shared_mutations_def
    by (simp add: sends_def useCreateItemMutation_def useUpdateItemMutation_def useDeleteItemMutation_def useRecordRotationMutation_def
        useCreateTagMutation_def useDeleteTagMutation_def useAddItemTagMutation_def useRemoveItemTagMutation_def
        useAddFavoriteMutation_def useRemoveFavoriteMutation_def useInitUploadMutation_def useConfirmUploadMutation_def
        useDownloadURLMutation_def useDeleteAttachmentMutation_def useVaultFetchMutation_def useSetItemLifecycleStagesMutation_def
        useAddRelationshipMutation_def useDeleteRelationshipMutation_def useCreateUserMutation_def useGrantRoleMutation_def
        useRevokeRoleMutation_def useDisableUserMutation_def useEnableUserMutation_def useResetTOTPMutation_def
        useUpdateTOTPRequirementMutation_def useUploadCACertMutation_def useDeleteCACertMutation_def useIssueClientCertMutation_def useRegisterClientCertMutation_def
        useRevokeClientCertMutation_def useUpdateClientCertRequirementMutation_def useLoginMutation_def useLogoutMutation_def
        useMarkReadMutation_def mutation_def public_mutation_def no_options_def)
  moreover have "w \<in> set (map snd (shared_mutations i j k b req))" using assms by force
  ultimately have "ro_rawBody (snd (sends w)) = None" by blast
  with \<open>sends c = sends w\<close> show "ro_rawBody (m_options c) = None" by (metis sends_def snd_conv)
qed

text \<open>
  The calls both applications make with the browser's \<open>fetch\<close>: the desktop's gives the web's outcome,
  errors wrapped, and leaves the web's state, on the network the browser reaches.
\<close>

definition same_direct_call ::
    "'w shell \<Rightarrow> 'w desktop \<Rightarrow> ('w desktop \<Rightarrow> (js_error + json) \<times> 'w desktop)
       \<Rightarrow> ('w net \<Rightarrow> 'w web_env \<Rightarrow> (string + json) \<times> 'w web_env) \<Rightarrow> bool" where
  "same_direct_call sh d c w \<longleftrightarrow>
     (\<exists>sent. map_prod (map_sum OtherError id) id (w (web_net sh BrowserFetch (cc_baseUrl (dk_config d))) (web_view [] d))
        = (fst (c d), web_view sent (snd (c d)))
      \<and> dk_sent (snd (c d)) = dk_sent d @ map (\<lambda>rq. (BrowserFetch, with_base (cc_baseUrl (dk_config d)) rq)) sent)"

lemma same_raw_call:
  "same_direct_call sh d (cl_raw_call sh (with_base (cc_baseUrl (dk_config d)) rq) (\<lambda>res. OtherError (failure res)))
     (\<lambda>net. raw_call net rq failure)"
proof -
  obtain r w' where t: "transmit sh BrowserFetch (with_base (cc_baseUrl (dk_config d)) rq) (dk_world d) = (r, w')" by fastforce
  show ?thesis
  proof (cases r)
    case (NetworkFailure m)
    with t show ?thesis
      by (simp add: same_direct_call_def cl_raw_call_def raw_call_def browser_fetch_def do_fetch_def web_net_def web_view_def)
  next
    case (Response res)
    with t show ?thesis
      by (cases "rs_json res")
        (simp_all add: same_direct_call_def cl_raw_call_def raw_call_def browser_fetch_def do_fetch_def web_net_def web_view_def)
  qed
qed

lemma same_direct_calls:
  assumes "cc_baseUrl (dk_config d) \<noteq> []"
  shows "same_direct_call sh d (cl_useTOTPInitMutation sh token) (\<lambda>net. useTOTPInitMutation net token)"
    and "same_direct_call sh d (cl_useTOTPVerifyMutation sh token totp) (\<lambda>net. useTOTPVerifyMutation net token totp)"
    and "same_direct_call sh d (cl_bootstrapStatus sh) bootstrapStatus"
    and "same_direct_call sh d (cl_bootstrapSetup sh user pw) (\<lambda>net. bootstrapSetup net user pw)"
    and "same_direct_call sh d (cl_bootstrapLogin sh user pw) (\<lambda>net. bootstrapLogin net user pw)"
proof -
  have c: "same_direct_call sh d c w" if "same_direct_call sh d c' w" "c d = c' d" for c c' w
    using that by (simp add: same_direct_call_def)
  show "same_direct_call sh d (cl_useTOTPInitMutation sh token) (\<lambda>net. useTOTPInitMutation net token)"
    unfolding useTOTPInitMutation_def
    by (rule c [OF same_raw_call]) (simp add: cl_useTOTPInitMutation_def with_base_def post_request_def)
  show "same_direct_call sh d (cl_useTOTPVerifyMutation sh token totp) (\<lambda>net. useTOTPVerifyMutation net token totp)"
    unfolding useTOTPVerifyMutation_def
    by (rule c [OF same_raw_call]) (simp add: cl_useTOTPVerifyMutation_def with_base_def post_request_def)
  show "same_direct_call sh d (cl_bootstrapStatus sh) bootstrapStatus"
    unfolding bootstrapStatus_def
    by (rule c [OF same_raw_call])
      (simp add: cl_bootstrapStatus_def cl_bootstrap_call_def with_base_def bootstrap_BASE_def assms)
  show "same_direct_call sh d (cl_bootstrapSetup sh user pw) (\<lambda>net. bootstrapSetup net user pw)"
    unfolding bootstrapSetup_def
    by (rule c [OF same_raw_call])
      (simp add: cl_bootstrapSetup_def cl_bootstrap_call_def with_base_def bootstrap_BASE_def post_request_def assms)
  show "same_direct_call sh d (cl_bootstrapLogin sh user pw) (\<lambda>net. bootstrapLogin net user pw)"
    unfolding bootstrapLogin_def
    by (rule c [OF same_raw_call])
      (simp add: cl_bootstrapLogin_def cl_bootstrap_call_def with_base_def bootstrap_BASE_def post_request_def assms)
qed

lemma shared_mutation_runs:
  assumes "(c, w) \<in> set (shared_mutations i j k b req)"
    and "cc_baseUrl (dk_config d) \<noteq> []" and "\<not> cc_offlineModeEnabled (dk_config d)" and "no_web_session (dk_tokens d)"
    and "cl_run_mutation sh c d = (r, ks, d')"
  shows "\<exists>sent ks'. run_mutation (web_net sh (transport_of d) (cc_baseUrl (dk_config d))) w (web_view [] d) = (r, ks', web_view sent d')
    \<and> dk_sent d' = dk_sent d @ map (\<lambda>rq. (transport_of d, with_base (cc_baseUrl (dk_config d)) rq)) sent"
proof -
  obtain sent where s: "run_mutation (web_net sh (transport_of d) (cc_baseUrl (dk_config d))) c (web_view [] d) = (r, ks, web_view sent d')"
    "dk_sent d' = dk_sent d @ map (\<lambda>rq. (transport_of d, with_base (cc_baseUrl (dk_config d)) rq)) sent"
    using cl_run_mutation_simulates [OF assms(2-4) shared_send_same(2) [OF assms(1)] assms(5)] by blast
  have "m_path c = m_path w" "m_options c = m_options w" using shared_send_same(1) [OF assms(1)] by (simp_all add: sends_def)
  then have "fst (run_mutation net c e) = fst (run_mutation net w e) \<and> snd (snd (run_mutation net c e)) = snd (snd (run_mutation net w e))" for net e
    by (auto simp: run_mutation_def split: prod.splits sum.splits)
  with s show ?thesis by (metis fst_conv prod.collapse snd_conv)
qed

subsection \<open>Properties\<close>

text \<open>
  C23: Where the desktop's mutations do what the web's do, and where not. On a desktop with a
  server address and offline mode off, every mutation hook that goes through the fetch wrapper, except
  \<open>useMarkAllReadMutation\<close>, ends as the web's hook of the same name does on the network of the
  configured transport: the same result, the same requests under the server address, the same
  tokens. That one hook is posted to another path than the
  web's, with the same options. Two-factor enrolment and the bootstrap calls give the web's outcomes on the
  network of the browser's \<open>fetch\<close>, whatever transport is configured. What the hooks
  invalidate is not compared. The remaining call, the making of a key pair, exists on the desktop only.
\<close>
theorem desktop_mutations_agree_with_web:
  assumes "cc_baseUrl (dk_config d) \<noteq> []" and "\<not> cc_offlineModeEnabled (dk_config d)" and "no_web_session (dk_tokens d)"
  shows "(\<forall>(c, w)\<in>set (shared_mutations i j k b req). \<forall>r ks d'. cl_run_mutation sh c d = (r, ks, d') \<longrightarrow>
        (\<exists>sent ks'. run_mutation (web_net sh (transport_of d) (cc_baseUrl (dk_config d))) w (web_view [] d)
            = (r, ks', web_view sent d')
          \<and> dk_sent d' = dk_sent d @ map (\<lambda>rq. (transport_of d, with_base (cc_baseUrl (dk_config d)) rq)) sent))
    \<and> m_path cl_useMarkAllReadMutation = ''/api/v1/notifications/mark-all-read''
    \<and> m_path useMarkAllReadMutation = ''/api/v1/notifications/read-all''
    \<and> m_options cl_useMarkAllReadMutation = m_options useMarkAllReadMutation
    \<and> same_direct_call sh d (cl_useTOTPInitMutation sh token) (\<lambda>net. useTOTPInitMutation net token)
    \<and> same_direct_call sh d (cl_useTOTPVerifyMutation sh token totp) (\<lambda>net. useTOTPVerifyMutation net token totp)
    \<and> same_direct_call sh d (cl_bootstrapStatus sh) bootstrapStatus
    \<and> same_direct_call sh d (cl_bootstrapSetup sh user pw) (\<lambda>net. bootstrapSetup net user pw)
    \<and> same_direct_call sh d (cl_bootstrapLogin sh user pw) (\<lambda>net. bootstrapLogin net user pw)"
proof -
  have "\<forall>(c, w)\<in>set (shared_mutations i j k b req). \<forall>r ks d'. cl_run_mutation sh c d = (r, ks, d') \<longrightarrow>
        (\<exists>sent ks'. run_mutation (web_net sh (transport_of d) (cc_baseUrl (dk_config d))) w (web_view [] d)
            = (r, ks', web_view sent d')
          \<and> dk_sent d' = dk_sent d @ map (\<lambda>rq. (transport_of d, with_base (cc_baseUrl (dk_config d)) rq)) sent)"
    using shared_mutation_runs [OF _ assms] by blast
  then show ?thesis
    using same_direct_calls [OF assms(1)]
    by (simp add: cl_useMarkAllReadMutation_def useMarkAllReadMutation_def mutation_def)
qed

text \<open>
  A tag change does not show on the desktop. Adding or removing an item's tag invalidates the key the
  web's tag list is under, which refreshes it there; the desktop's tag list is under another key, which
  neither reaches.
\<close>
theorem desktop_tag_change_not_shown:
  assumes "key_match_laws km"
  shows "reached km (m_invalidates (useAddItemTagMutation i req)) (q_key (useItemTagsQuery (Some i)))
    \<and> \<not> reached km (m_invalidates (cl_useAddItemTagMutation i req)) (q_key (cl_useItemTagsQuery (Some i)))
    \<and> \<not> reached km (m_invalidates (cl_useRemoveItemTagMutation i t)) (q_key (cl_useItemTagsQuery (Some i)))"
proof -
  have "\<not> km (itemTagsKey i) (cl_key_items_tags i)"
    using key_match_D(1) [OF assms, of "itemTagsKey i" "cl_key_items_tags i" 0 "''item-tags''" "''items''"]
    by (auto simp: itemTagsKey_def cl_key_items_tags_def)
  moreover have "reached km [itemTagsKey i] (itemTagsKey i)"
    using reached_prefix [OF assms, of "itemTagsKey i" "[itemTagsKey i]" "[]"] by simp
  ultimately show ?thesis
    by (simp add: cl_hook_defs useAddItemTagMutation_def useItemTagsQuery_def hook_defs reached_def)
qed

text \<open>
  Enrolment ignores the connection settings. Two-factor enrolment, the making of a key pair and the
  first administrator's set-up call the browser's \<open>fetch\<close>: against a server the browser refuses, one
  with a self-signed certificate or one that wants a client certificate, they all fail, although the
  settings for it are in place and every other request goes through the shell's TLS command.
\<close>
theorem enrolment_ignores_tls_settings:
  assumes "\<And>rq w. \<exists>m w'. sh_fetch sh rq w = (NetworkFailure m, w')"
    and "td_isTauri (dk_disk d)" and "cc_tlsSkipVerify (dk_config d) \<or> hasClientCert (dk_config d)"
  shows "transport_of d \<noteq> BrowserFetch
    \<and> isl (fst (cl_useTOTPInitMutation sh token d)) \<and> isl (fst (cl_useTOTPVerifyMutation sh token c d))
    \<and> isl (fst (cl_initKeypair sh token payload d)) \<and> isl (fst (cl_bootstrapStatus sh d))
    \<and> isl (fst (cl_bootstrapSetup sh user pw d)) \<and> isl (fst (cl_bootstrapLogin sh user pw d))"
proof -
  have "\<exists>m d1. browser_fetch sh rq d = (NetworkFailure m, d1)" for rq
    using assms(1) [of rq "dk_world d"] by (auto simp: browser_fetch_def transmit_def)
  then have b: "\<exists>m d1. browser_fetch sh rq d = (NetworkFailure m, d1)" for rq by blast
  have raw: "isl (fst (cl_raw_call sh rq failure d))" for rq failure
    using b [of rq] by (auto simp: cl_raw_call_def)
  have "isl (fst (cl_initKeypair sh token payload d))"
    using b [of "post_request (cc_baseUrl (dk_config d) @ ''/api/v1/auth/keypair-init'') [bearer token, json_content] (Some payload)"]
    by (auto simp: cl_initKeypair_def)
  moreover have "transport_of d \<noteq> BrowserFetch"
    using assms(2,3) by (auto simp: transport_of_def choose_transport_def hasClientCert_def)
  ultimately show ?thesis
    using raw by (simp add: cl_useTOTPInitMutation_def cl_useTOTPVerifyMutation_def cl_bootstrapStatus_def cl_bootstrapSetup_def
        cl_bootstrapLogin_def cl_bootstrap_call_def)
qed

lemma desktop_mutations_agree_with_web_witness:
  "\<exists>r ks d' sent ks'. cl_run_mutation demo_shell cl_useLogoutMutation (DesktopClient.demo_desktop False [Response fresh_pair]) = (r, ks, d')
     \<and> run_mutation (web_net demo_shell BrowserFetch ''https://h'') useLogoutMutation (web_view [] (DesktopClient.demo_desktop False [Response fresh_pair]))
         = (r, ks', web_view sent d')"
proof -
  let ?d = "DesktopClient.demo_desktop False [Response fresh_pair]"
  obtain r ks d' where e: "cl_run_mutation demo_shell cl_useLogoutMutation ?d = (r, ks, d')" by (metis prod_cases3)
  have m: "(cl_useLogoutMutation, useLogoutMutation) \<in> set (shared_mutations [] [] [] False JNull)" by (simp add: shared_mutations_def)
  have "no_web_session (dk_tokens ?d)"
    by (simp add: no_web_session_def demo_tokens_def token_defs storage_defs empty_storage_def REFRESH_KEY_def SESSION_KEY_def)
  from desktop_mutations_agree_with_web [OF _ _ this, of _ _ _ _ _ demo_shell] m e show ?thesis by fastforce
qed

lemma desktop_tag_change_not_shown_witness:
  "\<not> reached prefix_match (m_invalidates (cl_useAddItemTagMutation ''i'' JNull)) (q_key (cl_useItemTagsQuery (Some ''i'')))"
  using desktop_tag_change_not_shown [OF prefix_match_laws] by blast

lemma enrolment_ignores_tls_settings_witness:
  "let sh = demo_shell\<lparr>sh_fetch := \<lambda>rq w. (NetworkFailure ''certificate'', w)\<rparr>;
       d = (DesktopClient.demo_desktop False [])\<lparr>dk_disk := demo_disk\<lparr>td_isTauri := True\<rparr>,
             dk_config := setTlsSkipVerify True (setBaseUrl ''https://h/'' initial_config)\<rparr>
   in transport_of d = TlsFetch True None None \<and> isl (fst (cl_useTOTPInitMutation sh ''t'' d))"
proof -
  let ?sh = "demo_shell\<lparr>sh_fetch := \<lambda>rq w. (NetworkFailure ''certificate'', w)\<rparr>"
  let ?d = "(DesktopClient.demo_desktop False [])\<lparr>dk_disk := demo_disk\<lparr>td_isTauri := True\<rparr>,
             dk_config := setTlsSkipVerify True (setBaseUrl ''https://h/'' initial_config)\<rparr>"
  have "\<exists>m w'. sh_fetch ?sh rq w = (NetworkFailure m, w')" for rq w by simp
  moreover have "td_isTauri (dk_disk ?d)" "cc_tlsSkipVerify (dk_config ?d) \<or> hasClientCert (dk_config ?d)"
    by (simp_all add: config_defs)
  moreover have "transport_of ?d = TlsFetch True None None"
    by (simp add: transport_of_def choose_transport_def config_defs initial_config_def)
  ultimately show ?thesis unfolding Let_def using enrolment_ignores_tls_settings [of ?sh ?d] by blast
qed

end
