(* ===== verification/InventoryPage.thy ===== *)
theory InventoryPage
  imports ItemForm DesktopHooks "HOL-Library.Char_ord" "HOL-Library.List_Lexorder"
begin

text \<open>
  The inventory pages (\<open>web/src/pages/inventory/index.tsx\<close>, \<open>client/src/pages/inventory.tsx\<close>): the
  selection in the address, the lists and their filters, the toolbar and its dialogs, duplication of an
  item, and how the item form (\<open>item-form-modal.tsx\<close> of both) fills itself when it opens.
\<close>

section \<open>The page\<close>

record inventory_url =
  u_folder :: "string option"
  u_item :: "string option"
  u_q :: "string option"

datatype folder_modal = CreateRoot | CreateSub | RenameFolder | DeleteFolder
datatype item_modal = ModalCreate | ModalEdit | ModalDelete | ModalShare

record duplicate =
  du_name :: string
  du_description :: "string option"
  du_itemTypeId :: nat
  du_fieldValues :: "nat \<rightharpoonup> string"

text \<open>\<open>pg_items\<close> and \<open>pg_found\<close> are what the list query and the global search have at the moment.\<close>

record inventory_page =
  pg_url :: inventory_url
  pg_folderModal :: "folder_modal option"
  pg_itemModal :: "item_modal option"
  pg_activeItem :: "Item option"
  pg_globalSearch :: bool
  pg_fuzzySearch :: bool
  pg_activeTypeIds :: "nat list"
  pg_duplicateFrom :: "duplicate option"
  pg_items :: "Item list option"
  pg_found :: "Item list option"

definition inventory_opened :: "inventory_url \<Rightarrow> inventory_page" where
  "inventory_opened url = \<lparr>pg_url = url, pg_folderModal = None, pg_itemModal = None, pg_activeItem = None, pg_globalSearch = False,
     pg_fuzzySearch = False, pg_activeTypeIds = [], pg_duplicateFrom = None, pg_items = None, pg_found = None\<rparr>"

subsection \<open>Queries and lists\<close>

definition pg_query :: "inventory_page \<Rightarrow> string" where
  "pg_query p = nullish (u_q (pg_url p)) []"

definition itemsQuery :: "inventory_page \<Rightarrow> query_hook" where
  "itemsQuery p = useItems (if pg_globalSearch p then None else u_folder (pg_url p))
     (if pg_globalSearch p then None else Some (pg_query p))"

definition globalSearchQuery :: "inventory_page \<Rightarrow> query_hook" where
  "globalSearchQuery p = useGlobalItemSearch (if pg_globalSearch p then pg_query p else []) (pg_fuzzySearch p)"

definition cl_globalSearchQuery :: "inventory_page \<Rightarrow> query_hook" where
  "cl_globalSearchQuery p = cl_useGlobalItemSearch (if pg_globalSearch p then pg_query p else [])"

definition activeItems :: "inventory_page \<Rightarrow> Item list option" where
  "activeItems p =
     (if pg_globalSearch p
      then (case pg_found p of Some xs \<Rightarrow> Some xs | None \<Rightarrow> if js_length (trim (pg_query p)) \<ge> 2 then None else Some [])
      else pg_items p)"

text \<open>A set of numbers as the language keeps it, in the order they were added.\<close>

definition toggle_id :: "nat \<Rightarrow> nat list \<Rightarrow> nat list" where
  "toggle_id t ts = (if t \<in> set ts then remove1 t ts else ts @ [t])"

definition filteredItems :: "inventory_page \<Rightarrow> Item list option" where
  "filteredItems p = map_option (\<lambda>all. if pg_activeTypeIds p = [] then all
       else filter (\<lambda>i. i_item_type_id i \<in> set (pg_activeTypeIds p)) all) (activeItems p)"

text \<open>The types to choose from; \<open>sort()\<close> puts numbers in the order of their texts.\<close>

definition presentTypeIds :: "inventory_page \<Rightarrow> nat list" where
  "presentTypeIds p = sort_key show_nat (remdups (map i_item_type_id (nullish (activeItems p) [])))"

definition item_in :: "Item list \<Rightarrow> string option \<Rightarrow> Item option" where
  "item_in xs sel = find (\<lambda>i. Some (i_id i) = sel) xs"

definition selectedItem :: "inventory_page \<Rightarrow> Item option" where
  "selectedItem p =
     (case item_in (nullish (activeItems p) []) (u_item (pg_url p)) of
        Some i \<Rightarrow> Some i
      | None \<Rightarrow> pg_activeItem p)"

text \<open>The desktop page keeps no pinned item.\<close>

definition cl_selectedItem :: "inventory_page \<Rightarrow> Item option" where
  "cl_selectedItem p = item_in (nullish (activeItems p) []) (u_item (pg_url p))"

text \<open>The item the edit and the share dialog are given: the detail query's, or the list's while it loads.\<close>

definition modal_item :: "Item option \<Rightarrow> inventory_page \<Rightarrow> Item option" where
  "modal_item fullItem p = (case fullItem of Some i \<Rightarrow> Some i | None \<Rightarrow> selectedItem p)"

subsection \<open>Navigation\<close>

definition handleSelectFolder :: "string \<Rightarrow> inventory_page \<Rightarrow> inventory_page" where
  "handleSelectFolder i p = p\<lparr>pg_url := (pg_url p)\<lparr>u_folder := Some i, u_item := None\<rparr>\<rparr>"

definition handleSelectItem :: "string \<Rightarrow> inventory_page \<Rightarrow> inventory_page" where
  "handleSelectItem i p = p\<lparr>pg_activeItem := None, pg_url := (pg_url p)\<lparr>u_item := Some i\<rparr>\<rparr>"

definition cl_handleSelectItem :: "string \<Rightarrow> inventory_page \<Rightarrow> inventory_page" where
  "cl_handleSelectItem i p = p\<lparr>pg_url := (pg_url p)\<lparr>u_item := Some i\<rparr>\<rparr>"

definition handleSearchCommit :: "string \<Rightarrow> inventory_page \<Rightarrow> inventory_page" where
  "handleSearchCommit v p = p\<lparr>pg_url := (pg_url p)\<lparr>u_q := or_undefined v, u_item := None\<rparr>\<rparr>"

definition toggleGlobalSearch :: "inventory_page \<Rightarrow> inventory_page" where
  "toggleGlobalSearch p = handleSearchCommit [] (p\<lparr>pg_globalSearch := \<not> pg_globalSearch p\<rparr>)"

definition toggleTypeFilter :: "nat \<Rightarrow> inventory_page \<Rightarrow> inventory_page" where
  "toggleTypeFilter t p = p\<lparr>pg_activeTypeIds := toggle_id t (pg_activeTypeIds p)\<rparr>"

definition openItemModal :: "item_modal \<Rightarrow> Item option \<Rightarrow> inventory_page \<Rightarrow> inventory_page" where
  "openItemModal modal item p = p\<lparr>pg_activeItem := item, pg_duplicateFrom := None, pg_itemModal := Some modal\<rparr>"

text \<open>\<open>onDeleted\<close> of the item and of the folder dialog.\<close>

definition item_deleted :: "inventory_page \<Rightarrow> inventory_page" where
  "item_deleted p = p\<lparr>pg_url := (pg_url p)\<lparr>u_item := None\<rparr>\<rparr>"

definition folder_deleted :: "inventory_page \<Rightarrow> inventory_page" where
  "folder_deleted p = p\<lparr>pg_url := (pg_url p)\<lparr>u_folder := None, u_item := None\<rparr>\<rparr>"

text \<open>The toolbar is there for a folder and an item.\<close>

definition toolbar_shown :: "inventory_page \<Rightarrow> bool" where
  "toolbar_shown p \<longleftrightarrow> truthy (u_folder (pg_url p)) \<and> truthy (u_item (pg_url p))"

subsection \<open>Duplication\<close>

datatype dup_outcome = StillLoading | NoSessionKey | OwnerKeyMissing | DupFailed form_error | DupReady duplicate

definition dup_values :: "'r webcrypto \<Rightarrow> bytes \<Rightarrow> ItemField list \<Rightarrow> nat \<rightharpoonup> string" where
  "dup_values wc dek fs =
     foldl (\<lambda>m f. case decrypt_stored wc dek f of None \<Rightarrow> m | Some v \<Rightarrow> m(if_field_definition_id f \<mapsto> v)) Map.empty fs"

definition handleDuplicate :: "'r webcrypto \<Rightarrow> Item option \<Rightarrow> bytes option \<Rightarrow> dup_outcome" where
  "handleDuplicate wc fullItem sessionKey =
     (case fullItem of
        None \<Rightarrow> StillLoading
      | Some item \<Rightarrow>
          (case sessionKey of
             None \<Rightarrow> NoSessionKey
           | Some privateKey \<Rightarrow>
               if \<not> truthy (i_owner_dek_wrapped item) \<or> \<not> truthy (i_owner_wrap_nonce item) then OwnerKeyMissing
               else (case open_owner_key (openDEKWithKEK wc) (the (i_owner_dek_wrapped item)) (the (i_owner_wrap_nonce item)) privateKey of
                  Inl e \<Rightarrow> DupFailed e
                | Inr dek \<Rightarrow> DupReady
                    \<lparr>du_name = i_name item @ '' (kopya)'', du_description = i_description item,
                     du_itemTypeId = i_item_type_id item, du_fieldValues = dup_values wc dek (nullish (i_fields item) [])\<rparr>)))"

definition duplicate_opens :: "dup_outcome \<Rightarrow> inventory_page \<Rightarrow> inventory_page" where
  "duplicate_opens outcome p =
     (case outcome of
        DupReady d \<Rightarrow> p\<lparr>pg_activeItem := None, pg_duplicateFrom := Some d, pg_itemModal := Some ModalCreate\<rparr>
      | _ \<Rightarrow> p)"

subsection \<open>The page as a machine\<close>

text \<open>\<open>HistoryMove\<close> is the browser's back or forward button: the address changes and nothing else.\<close>

datatype page_event =
    SelectFolder string | SelectItemRow string | CommitSearch string | ToggleGlobal | ToggleFuzzy | ToggleType nat | ClearTypes
  | OpenFolderModal folder_modal | CloseFolderModal
  | NewItem | ToolbarButton item_modal | CloseModal | Duplicated dup_outcome | ItemDeleted | FolderDeleted
  | ListArrives "Item list option" | SearchArrives "Item list option" | HistoryMove inventory_url

fun page_step :: "inventory_page \<Rightarrow> page_event \<Rightarrow> inventory_page" where
  "page_step p (SelectFolder i) = handleSelectFolder i p"
| "page_step p (SelectItemRow i) = handleSelectItem i p"
| "page_step p (CommitSearch v) = handleSearchCommit v p"
| "page_step p ToggleGlobal = toggleGlobalSearch p"
| "page_step p ToggleFuzzy = p\<lparr>pg_fuzzySearch := \<not> pg_fuzzySearch p\<rparr>"
| "page_step p (ToggleType t) = toggleTypeFilter t p"
| "page_step p ClearTypes = p\<lparr>pg_activeTypeIds := []\<rparr>"
| "page_step p (OpenFolderModal m) = p\<lparr>pg_folderModal := Some m\<rparr>"
| "page_step p CloseFolderModal = p\<lparr>pg_folderModal := None\<rparr>"
| "page_step p NewItem = openItemModal ModalCreate None p"
| "page_step p (ToolbarButton m) = (case selectedItem p of None \<Rightarrow> p | Some i \<Rightarrow> openItemModal m (Some i) p)"
| "page_step p CloseModal = p\<lparr>pg_itemModal := None, pg_duplicateFrom := (if pg_itemModal p = Some ModalCreate then None else pg_duplicateFrom p)\<rparr>"
| "page_step p (Duplicated outcome) = duplicate_opens outcome p"
| "page_step p ItemDeleted = item_deleted p"
| "page_step p FolderDeleted = folder_deleted p"
| "page_step p (ListArrives xs) = p\<lparr>pg_items := xs\<rparr>"
| "page_step p (SearchArrives xs) = p\<lparr>pg_found := xs\<rparr>"
| "page_step p (HistoryMove url) = p\<lparr>pg_url := url\<rparr>"

fun page_can :: "inventory_page \<Rightarrow> page_event \<Rightarrow> bool" where
  "page_can p (ToolbarButton m) = toolbar_shown p"
| "page_can p (HistoryMove url) = False"
| "page_can p _ = True"

definition page_inv :: "inventory_page \<Rightarrow> bool" where
  "page_inv p \<longleftrightarrow> (\<forall>i. pg_activeItem p = Some i \<longrightarrow> u_item (pg_url p) \<in> {None, Some (i_id i)})"

lemma item_in_id: "item_in xs sel = Some i \<Longrightarrow> sel = Some (i_id i)"
  by (auto simp: item_in_def find_Some_iff)

lemma selected_id: "page_inv p \<Longrightarrow> selectedItem p = Some i \<Longrightarrow> u_item (pg_url p) \<in> {None, Some (i_id i)}"
  by (auto simp: selectedItem_def page_inv_def dest: item_in_id split: option.splits)

lemma page_step_keeps: "page_inv p \<Longrightarrow> page_can p e \<Longrightarrow> page_inv (page_step p e)"
proof (cases e)
  case (ToolbarButton m)
  assume "page_inv p" "page_can p e"
  moreover have "u_item (pg_url p) \<in> {None, Some (i_id i)}" if "selectedItem p = Some i" for i
    using selected_id [OF \<open>page_inv p\<close> that] .
  ultimately show ?thesis using ToolbarButton by (cases "selectedItem p") (auto simp: page_inv_def openItemModal_def)
next
  case (Duplicated outcome)
  assume "page_inv p" "page_can p e"
  with Duplicated show ?thesis by (cases outcome) (auto simp: page_inv_def duplicate_opens_def)
qed (auto simp: page_inv_def handleSelectFolder_def handleSelectItem_def handleSearchCommit_def toggleGlobalSearch_def
      toggleTypeFilter_def openItemModal_def item_deleted_def folder_deleted_def)

interpretation page_machine: machine page_can page_step page_inv
  by unfold_locales (rule page_step_keeps)

section \<open>Filling the form\<close>

text \<open>The reset effect of the web form for a new item, and the effect that rebuilds the fields when the
  form opens or its type changes. A duplicate leaves the expiry date and the rotation alone.\<close>

definition fill_fields :: "ItemType list \<Rightarrow> FieldDefinition list \<Rightarrow> duplicate option \<Rightarrow> item_form \<Rightarrow> item_form" where
  "fill_fields itemTypes defs dup form =
     (case initial_for (read_nat (fm_itemTypeId form)) itemTypes defs of
        None \<Rightarrow> form
      | Some m \<Rightarrow> form\<lparr>fm_fields := (case dup of
            None \<Rightarrow> m
          | Some d \<Rightarrow> map (\<lambda>(i, f). (i, case du_fieldValues d i of None \<Rightarrow> f | Some v \<Rightarrow> \<lparr>fs_value = Some v, fs_visible = False\<rparr>)) m)\<rparr>)"

definition first_type :: "ItemType list \<Rightarrow> string" where
  "first_type itemTypes = (case itemTypes of [] \<Rightarrow> [] | t # _ \<Rightarrow> show_nat (it_id t))"

definition load_create :: "ItemType list \<Rightarrow> FieldDefinition list \<Rightarrow> duplicate option \<Rightarrow> item_form \<Rightarrow> item_form" where
  "load_create itemTypes defs dup form =
     fill_fields itemTypes defs dup
       (case dup of
          Some d \<Rightarrow> form\<lparr>fm_name := du_name d, fm_description := nullish (du_description d) [],
            fm_itemTypeId := show_nat (du_itemTypeId d)\<rparr>
        | None \<Rightarrow> form\<lparr>fm_name := [], fm_description := [], fm_itemTypeId := first_type itemTypes,
            fm_expiresAt := [], fm_rotationIntervalDays := []\<rparr>)"

text \<open>Choosing a type in the open form runs the second effect when the type found is another one.\<close>

definition choose_type :: "string \<Rightarrow> ItemType list \<Rightarrow> FieldDefinition list \<Rightarrow> duplicate option \<Rightarrow> item_form \<Rightarrow> item_form" where
  "choose_type t itemTypes defs dup form =
     (if read_nat t = read_nat (fm_itemTypeId form) then form\<lparr>fm_itemTypeId := t\<rparr>
      else fill_fields itemTypes defs dup (form\<lparr>fm_itemTypeId := t\<rparr>))"

text \<open>The desktop form: its fields are rebuilt when the selected type changes, or when the form was last
  open on an existing item (\<open>wasEdit\<close>), not whenever it opens.\<close>

definition cl_load_create :: "ItemType list \<Rightarrow> FieldDefinition list \<Rightarrow> bool \<Rightarrow> item_form \<Rightarrow> item_form" where
  "cl_load_create itemTypes defs wasEdit form =
     (let form1 = form\<lparr>fm_name := [], fm_description := [], fm_itemTypeId := first_type itemTypes\<rparr>
      in if fm_itemTypeId form1 = fm_itemTypeId form \<and> \<not> wasEdit then form1 else fill_fields itemTypes defs None form1)"

definition cl_load_edit :: "Item \<Rightarrow> item_form \<Rightarrow> item_form" where
  "cl_load_edit item form = form\<lparr>fm_name := i_name item, fm_description := nullish (i_description item) [],
     fm_itemTypeId := show_nat (i_item_type_id item)\<rparr>"

definition cl_create_json :: "string \<Rightarrow> string \<Rightarrow> item_form \<Rightarrow> sealed_item \<Rightarrow> json" where
  "cl_create_json uuid folderId form s =
     JObj ([(''id'', JStr uuid), (''folder_id'', JStr folderId),
        (''item_type_id'', JNum (int (read_nat (fm_itemTypeId form)))), (''name'', JStr (trim (fm_name form)))]
       @ opt_str ''description'' (or_undefined (trim (fm_description form))) @ sealed_json s)"

definition cl_update_json :: "item_form \<Rightarrow> json" where
  "cl_update_json form = JObj ([(''name'', JStr (trim (fm_name form)))]
     @ opt_str ''description'' (or_undefined (trim (fm_description form))))"

definition cl_seal_item ::
    "'r webcrypto \<Rightarrow> bytes \<Rightarrow> bytes \<Rightarrow> field_map \<Rightarrow> 'r \<Rightarrow> (form_error + sealed_item) \<times> 'r" where
  "cl_seal_item wc dek privateKey fm r =
     (case cl_sealDEKWithKEK wc dek privateKey r of
        (Inl e, r1) \<Rightarrow> (Inl (FormCrypto e), r1)
      | (Inr (wrapped, wrapNonce), r1) \<Rightarrow>
          (case filled_entries fm of
             Inl e \<Rightarrow> (Inl e, r1)
           | Inr entries \<Rightarrow>
               (case encrypt_entries wc dek 0 entries r1 of
                  (Inl e, r2) \<Rightarrow> (Inl (FormCrypto e), r2)
                | (Inr fs, r2) \<Rightarrow>
                    (Inr \<lparr>si_fields = fs, si_owner_dek_wrapped = toBase64 wrapped,
                          si_owner_wrap_nonce = toBase64 wrapNonce\<rparr>, r2))))"

definition cl_submit_request ::
    "'w shell \<Rightarrow> mutation_hook \<Rightarrow> 'w desktop \<times> 'r \<Rightarrow> form_outcome \<times> 'w desktop \<times> 'r" where
  "cl_submit_request sh hook s =
     (let (d, r) = s in
      case cl_run_mutation sh hook d of
        (Inl e, _, d1) \<Rightarrow> (FormFailed (FormApi e), d1, r)
      | (Inr _, _, d1) \<Rightarrow> (Closed, d1, r))"

definition cl_form_handleSubmit ::
    "'r webcrypto \<Rightarrow> 'w shell \<Rightarrow> string \<Rightarrow> string \<Rightarrow> string option \<Rightarrow> bytes option \<Rightarrow> item_form
       \<Rightarrow> 'w desktop \<times> 'r \<Rightarrow> form_outcome \<times> 'w desktop \<times> 'r" where
  "cl_form_handleSubmit wc sh uuid folderId editItem sessionKey form s =
     (let (d, r) = s in
      if trim (fm_name form) = [] \<or> fm_itemTypeId form = [] then (Ignored, s)
      else case editItem of
          Some itemId \<Rightarrow> cl_submit_request sh (cl_useUpdateItemMutation itemId folderId (cl_update_json form)) s
        | None \<Rightarrow>
            (case sessionKey of
               None \<Rightarrow> (NoSessionKeyForForm, s)
             | Some privateKey \<Rightarrow>
                 (let (dek, r1) = generateDEK wc r
                  in case cl_seal_item wc dek privateKey (fm_fields form) r1 of
                      (Inl e, r2) \<Rightarrow> (FormFailed e, d, r2)
                    | (Inr sealed, r2) \<Rightarrow>
                        cl_submit_request sh (cl_useCreateItemMutation folderId (cl_create_json uuid folderId form sealed)) (d, r2))))"

section \<open>Properties\<close>

text \<open>
  The toolbar acts on the item in the address. Whatever the user clicks and whatever lists arrive,
  as long as the address changes by clicking only, an item the toolbar would edit, share or delete is
  the one the address names: an item pinned by an earlier dialog never stands in for another.
\<close>
theorem toolbar_acts_on_selected_item:
  assumes "possible_run page_can page_step (inventory_opened url) es"
    and "toolbar_shown (foldl page_step (inventory_opened url) es)"
    and "selectedItem (foldl page_step (inventory_opened url) es) = Some i"
  shows "u_item (pg_url (foldl page_step (inventory_opened url) es)) = Some (i_id i)"
proof -
  have "page_inv (inventory_opened url)" by (simp add: page_inv_def inventory_opened_def)
  then have "page_inv (foldl page_step (inventory_opened url) es)" by (rule page_machine.run_keeps [OF _ assms(1)])
  from selected_id [OF this assms(3)] assms(2) show ?thesis by (auto simp: toolbar_shown_def)
qed

text \<open>
  What is created on the desktop is what every page shows. When the desktop form closes after
  creating an item, the request to create it has succeeded, and an item that holds its
  encrypted fields and wrapped key opens on the web and on the desktop, for the same private key, to
  the fields that were not blank, each with its text trimmed.
\<close>
theorem desktop_created_item_shows_its_fields:
  assumes "webcrypto_laws wc" and "length privateKey = 32" and "field_map_ok (fm_fields form)"
    and "\<forall>(i, f)\<in>set (fm_fields form). \<forall>v. fs_value f = Some v \<longrightarrow> well_formed v"
    and "cl_form_handleSubmit wc sh uuid folderId None (Some privateKey) form (d, r) = (Closed, d', r')"
  shows "\<exists>s res ks entries.
      cl_run_mutation sh (cl_useCreateItemMutation folderId (cl_create_json uuid folderId form s)) d = (Inr res, ks, d')
    \<and> filled_entries (fm_fields form) = Inr entries
    \<and> (\<forall>item. holds_sealed s item \<longrightarrow>
        decrypt_item wc (openDEKWithKEK wc) (Some item) (Some privateKey) = Decrypted entries
        \<and> decrypt_item wc (cl_openDEKWithKEK wc) (Some item) (Some privateKey) = Decrypted entries)"
proof -
  have eq: "cl_seal_item = seal_item"
    by (intro ext) (simp add: cl_seal_item_def seal_item_def cl_sealDEKWithKEK_eq)
  obtain dek r1 where g: "generateDEK wc r = (dek, r1)" by fastforce
  with assms(5) obtain s r2 where c: "seal_item wc dek privateKey (fm_fields form) r1 = (Inr s, r2)"
    and m: "cl_submit_request sh (cl_useCreateItemMutation folderId (cl_create_json uuid folderId form s)) (d, r2) = (Closed, d', r')"
    by (auto simp: cl_form_handleSubmit_def eq split: if_splits prod.splits sum.splits)
  from m obtain res ks where run: "cl_run_mutation sh (cl_useCreateItemMutation folderId (cl_create_json uuid folderId form s)) d = (Inr res, ks, d')"
    by (auto simp: cl_submit_request_def split: prod.splits sum.splits)
  show ?thesis using run sealed_fields_decrypt [OF assms(1,3,4) c] sealed_item_decrypts [OF assms(1,2) c] by metis
qed

lemma dup_values_decrypted:
  "dup_values wc dek fs = map_of (decrypt_all wc dek fs)"
proof -
  have "foldl (\<lambda>m f. case decrypt_stored wc dek f of None \<Rightarrow> m | Some v \<Rightarrow> m(if_field_definition_id f \<mapsto> v)) (map_of acc) fs
      = map_of (foldl (\<lambda>out f. case decrypt_stored wc dek f of
          None \<Rightarrow> out | Some plain \<Rightarrow> AList.update (if_field_definition_id f) plain out) acc fs)" for acc
  proof (induction fs arbitrary: acc)
    case (Cons f fs)
    have "(map_of acc)(k \<mapsto> v) = map_of (AList.update k v acc)" for k v by (simp add: update_conv')
    then show ?case by (cases "decrypt_stored wc dek f") (simp_all only: foldl_Cons option.case Cons)
  qed simp
  from this [of "[]"] show ?thesis by (simp add: dup_values_def decrypt_all_def)
qed

lemma map_of_mapped: "map_of (map (\<lambda>(i, f). (i, g i f)) m) i = map_option (g i) (map_of m i)"
  by (induction m) auto

text \<open>
  What a duplicate offers. The form opened for a duplicate has the name with a suffix, the
  description and the type of the item, and for each field its type suggests the value the item page
  shows, blank where it shows none; fields the type does not suggest are not copied, and the expiry
  date and rotation are those left in the form before, not the item's.
\<close>
theorem duplicate_prefills_form:
  assumes "handleDuplicate wc (Some item) (Some privateKey) = DupReady d"
    and "initial_for (i_item_type_id item) itemTypes defs = Some m"
    and "form' = load_create itemTypes defs (Some d) form"
  shows "\<exists>vs. decrypt_item wc (openDEKWithKEK wc) (Some item) (Some privateKey) = Decrypted vs
    \<and> fm_name form' = i_name item @ '' (kopya)'' \<and> fm_description form' = nullish (i_description item) []
    \<and> read_nat (fm_itemTypeId form') = i_item_type_id item
    \<and> (\<forall>i. map_option fs_value (map_of (fm_fields form') i) = map_option (\<lambda>_. Some (case map_of vs i of None \<Rightarrow> [] | Some v \<Rightarrow> v)) (map_of m i))
    \<and> fm_expiresAt form' = fm_expiresAt form \<and> fm_rotationIntervalDays form' = fm_rotationIntervalDays form"
proof -
  from assms(1) obtain dek where k: "truthy (i_owner_dek_wrapped item)" "truthy (i_owner_wrap_nonce item)"
    "open_owner_key (openDEKWithKEK wc) (the (i_owner_dek_wrapped item)) (the (i_owner_wrap_nonce item)) privateKey = Inr dek"
    and d: "d = \<lparr>du_name = i_name item @ '' (kopya)'', du_description = i_description item, du_itemTypeId = i_item_type_id item,
       du_fieldValues = dup_values wc dek (nullish (i_fields item) [])\<rparr>"
    by (auto simp: handleDuplicate_def split: if_splits sum.splits)
  let ?vs = "decrypt_all wc dek (nullish (i_fields item) [])"
  have v: "decrypt_item wc (openDEKWithKEK wc) (Some item) (Some privateKey) = Decrypted ?vs"
    using k by (simp add: decrypt_item_def decrypt_start_def decrypt_settled_def)
  have fs: "fm_fields form' = map (\<lambda>(i, f). (i, case map_of ?vs i of None \<Rightarrow> f | Some v \<Rightarrow> \<lparr>fs_value = Some v, fs_visible = False\<rparr>)) m"
    using assms(2) by (simp add: assms(3) load_create_def fill_fields_def d read_show_nat dup_values_decrypted)
  have "map_option fs_value (map_of (fm_fields form') i) = map_option (\<lambda>_. Some (case map_of ?vs i of None \<Rightarrow> [] | Some v \<Rightarrow> v)) (map_of m i)" for i
    unfolding fs map_of_mapped using initial_values [OF assms(2)] by (cases "map_of m i") (auto split: option.splits)
  moreover have "fm_name form' = i_name item @ '' (kopya)''" "fm_description form' = nullish (i_description item) []"
    "read_nat (fm_itemTypeId form') = i_item_type_id item" "fm_expiresAt form' = fm_expiresAt form"
    "fm_rotationIntervalDays form' = fm_rotationIntervalDays form"
    using assms(2) by (simp_all add: assms(3) load_create_def fill_fields_def d read_show_nat)
  ultimately show ?thesis using v by blast
qed

text \<open>
  The desktop form opens with the last item's secrets. After an item of the first type has been
  created, opening the desktop form for another one clears its name and leaves every field as it was,
  so that saving it seals the previous item's values; the web form blanks them.
\<close>
theorem desktop_form_keeps_last_secrets:
  assumes "fm_itemTypeId form = first_type (t # ts)" and "initial_for (it_id t) (t # ts) defs = Some m"
  shows "fm_name (cl_load_create (t # ts) defs False form) = []
    \<and> fm_fields (cl_load_create (t # ts) defs False form) = fm_fields form
    \<and> filled_entries (fm_fields (load_create (t # ts) defs None form)) = Inr []"
proof -
  have "fm_fields (load_create (t # ts) defs None form) = m"
    using assms(2) by (simp add: load_create_def fill_fields_def first_type_def read_show_nat)
  moreover have "filled_entries m = Inr []"
  proof -
    have v: "fs_value f = Some []" if "(i, f) \<in> set m" for i f
    proof -
      have "map_of m i = Some f"
        using that field_map_distinct [OF initial_for_ok [OF assms(2)]] by simp
      then show ?thesis by (rule initial_values [OF assms(2)])
    qed
    then have "\<forall>(i, f)\<in>set m. trim (the (fs_value f)) = []" by (auto simp: demo_trim)
    with v show ?thesis by (fastforce simp: filled_entries_def filter_empty_conv)
  qed
  ultimately show ?thesis using assms(1) by (simp add: cl_load_create_def)
qed

subsection \<open>Witnesses\<close>

lemma toolbar_acts_on_selected_item_witness:
  "let p = foldl page_step (inventory_opened \<lparr>u_folder = Some ''f'', u_item = None, u_q = None\<rparr>)
         [ListArrives (Some [demo_item None]), SelectItemRow ''i'', ToolbarButton ModalEdit, CloseModal]
   in selectedItem p = Some (demo_item None) \<and> u_item (pg_url p) = Some (i_id (demo_item None))"
proof -
  let ?p = "inventory_opened \<lparr>u_folder = Some ''f'', u_item = None, u_q = None\<rparr>"
  let ?es = "[ListArrives (Some [demo_item None]), SelectItemRow ''i'', ToolbarButton ModalEdit, CloseModal]"
  have i: "i_id (demo_item None) = ''i''" by (simp add: demo_item_def)
  have r: "possible_run page_can page_step ?p ?es" "toolbar_shown (foldl page_step ?p ?es)"
    "selectedItem (foldl page_step ?p ?es) = Some (demo_item None)"
    by (simp_all add: inventory_opened_def toolbar_shown_def handleSelectItem_def selectedItem_def activeItems_def
        item_in_def i openItemModal_def)
  from toolbar_acts_on_selected_item [OF r] r(3) show ?thesis unfolding Let_def by blast
qed

text \<open>Going back in the history is not clicking: an item pinned by a dialog then stands in for the one
  in the address while its list has not arrived.\<close>

lemma history_misleads_toolbar:
  assumes "pg_activeItem p = Some i" and "\<not> pg_globalSearch p"
  shows "selectedItem (page_step (page_step p (ListArrives None)) (HistoryMove url)) = Some i"
  using assms by (simp add: selectedItem_def activeItems_def item_in_def)

lemma demo_desktop_saves:
  "\<exists>d' r'. cl_form_handleSubmit toy_crypto demo_shell ''u'' ''f'' None (Some (replicate 32 7))
      (demo_item_form [(1, \<lparr>fs_value = Some '' pw '', fs_visible = False\<rparr>)])
      (DesktopClient.demo_desktop False [json_reply (JObj [])], 1) = (Closed, d', r')"
proof -
  let ?f = "demo_item_form [(1, \<lparr>fs_value = Some '' pw '', fs_visible = False\<rparr>)]"
  have e: "filled_entries (fm_fields ?f) = Inr [(1, ''pw'')]" by (simp add: demo_item_form_def filled_entries_def demo_trim)
  have eq: "cl_seal_item = seal_item" by (intro ext) (simp add: cl_seal_item_def seal_item_def cl_sealDEKWithKEK_eq)
  have t: "trim (fm_name ?f) \<noteq> []" "fm_itemTypeId ?f \<noteq> []" by (simp_all add: demo_item_form_def demo_trim)
  let ?d = "DesktopClient.demo_desktop False [json_reply (JObj [])]"
  obtain s r2 where s: "seal_item toy_crypto (replicate 32 1) (replicate 32 7) (fm_fields ?f) 2 = (Inr s, r2)"
    using seal_item_total [OF toy_laws _ e] by (metis length_replicate)
  have g: "generateDEK toy_crypto 1 = (replicate 32 1, 2)" using toy_dek [of 1] by simp
  have f: "fst (rawFetch demo_shell rq ?d) = Response \<lparr>rs_status = 200, rs_json = Some (JObj [])\<rparr>" for rq
    by (simp add: rawFetch_def transmit_def demo_shell_def json_reply_def)
  have ok: "read_response (Response \<lparr>rs_status = 200, rs_json = Some (JObj [])\<rparr>) = Inr (Some (JObj []))"
    by (simp add: read_response_def rs_ok_def)
  have "\<exists>d'. cl_apiFetch demo_shell path opts ?d = (Inr (Some (JObj [])), d')" for path opts
    by (subst cl_apiFetch.simps) (simp add: case_prod_beta Let_def f ok)
  from this [of "m_path h" "m_options h" for h]
  have "\<exists>d'. cl_run_mutation demo_shell h ?d = (Inr (Some (JObj [])), m_invalidates h, d')" for h
    unfolding cl_run_mutation_def by (metis (no_types, lifting) case_prod_conv old.sum.simps(6))
  then obtain d' where run: "cl_run_mutation demo_shell (cl_useCreateItemMutation ''f'' (cl_create_json ''u'' ''f'' ?f s)) ?d
      = (Inr (Some (JObj [])), m_invalidates (cl_useCreateItemMutation ''f'' (cl_create_json ''u'' ''f'' ?f s)), d')" by blast
  have "cl_form_handleSubmit toy_crypto demo_shell ''u'' ''f'' None (Some (replicate 32 7)) ?f (?d, 1) = (Closed, d', r2)"
    unfolding cl_form_handleSubmit_def cl_submit_request_def eq using t by (simp add: g s run del: One_nat_def)
  then show ?thesis by blast
qed

lemma desktop_created_item_shows_its_fields_witness:
  "\<exists>s res ks d'. cl_run_mutation demo_shell (cl_useCreateItemMutation ''f''
        (cl_create_json ''u'' ''f'' (demo_item_form [(1, \<lparr>fs_value = Some '' pw '', fs_visible = False\<rparr>)]) s))
        (DesktopClient.demo_desktop False [json_reply (JObj [])]) = (Inr res, ks, d')
    \<and> (\<forall>item. holds_sealed s item \<longrightarrow>
        decrypt_item toy_crypto (openDEKWithKEK toy_crypto) (Some item) (Some (replicate 32 7)) = Decrypted [(1, ''pw'')])"
proof -
  let ?f = "demo_item_form [(1, \<lparr>fs_value = Some '' pw '', fs_visible = False\<rparr>)]"
  have e: "filled_entries (fm_fields ?f) = Inr [(1, ''pw'')]" by (simp add: demo_item_form_def filled_entries_def demo_trim)
  have ok: "field_map_ok (fm_fields ?f)" "\<forall>(i, g)\<in>set (fm_fields ?f). \<forall>v. fs_value g = Some v \<longrightarrow> well_formed v"
    by (simp_all add: demo_item_form_def field_map_ok_def demo_well_formed)
  obtain d' r' where c: "cl_form_handleSubmit toy_crypto demo_shell ''u'' ''f'' None (Some (replicate 32 7)) ?f
      (DesktopClient.demo_desktop False [json_reply (JObj [])], 1) = (Closed, d', r')"
    using demo_desktop_saves by blast
  show ?thesis using desktop_created_item_shows_its_fields [OF toy_laws _ ok c] e by fastforce
qed

lemma duplicate_prefills_form_witness:
  "\<exists>d. handleDuplicate toy_crypto (Some (demo_item (Some (toBase64 demo_wrapped)))) (Some (replicate 32 7)) = DupReady d
     \<and> map_option fs_value (map_of (fm_fields (load_create demo_types demo_defs (Some d) (demo_item_form []))) 1) = Some (Some ''pw'')"
proof -
  let ?item = "demo_item (Some (toBase64 demo_wrapped))"
  have o: "truthy (i_owner_dek_wrapped ?item)" "truthy (i_owner_wrap_nonce ?item)"
    "open_owner_key (openDEKWithKEK toy_crypto) (the (i_owner_dek_wrapped ?item)) (the (i_owner_wrap_nonce ?item)) (replicate 32 7) = Inr (replicate 32 3)"
    using demo_item_opens by (simp_all add: opens_to_def)
  obtain d where d: "handleDuplicate toy_crypto (Some ?item) (Some (replicate 32 7)) = DupReady d"
    using o by (simp add: handleDuplicate_def)
  have m: "initial_for (i_item_type_id ?item) demo_types demo_defs = Some [(1, empty_field)]"
    by (simp add: demo_item_def initial_for_def demo_types_def demo_defs_def buildInitialFields_def)
  have v: "decrypt_item toy_crypto (openDEKWithKEK toy_crypto) (Some ?item) (Some (replicate 32 7)) = Decrypted [(1, ''pw'')]"
    using o demo_item_values by (simp add: decrypt_item_def decrypt_start_def decrypt_settled_def)
  obtain vs where vs: "decrypt_item toy_crypto (openDEKWithKEK toy_crypto) (Some ?item) (Some (replicate 32 7)) = Decrypted vs"
    and fs: "\<forall>i. map_option fs_value (map_of (fm_fields (load_create demo_types demo_defs (Some d) (demo_item_form []))) i)
       = map_option (\<lambda>_. Some (case map_of vs i of None \<Rightarrow> [] | Some v \<Rightarrow> v)) (map_of [(1, empty_field)] i)"
    using duplicate_prefills_form [OF d m refl, of "demo_item_form []"] by blast
  from vs v have "vs = [(1, ''pw'')]" by simp
  with fs have "map_option fs_value (map_of (fm_fields (load_create demo_types demo_defs (Some d) (demo_item_form []))) 1) = Some (Some ''pw'')"
    by simp
  with d show ?thesis by blast
qed

lemma desktop_form_keeps_last_secrets_witness:
  "filled_entries (fm_fields (cl_load_create demo_types demo_defs False (demo_item_form [(1, \<lparr>fs_value = Some ''pw'', fs_visible = False\<rparr>)]))) = Inr [(1, ''pw'')]
   \<and> filled_entries (fm_fields (load_create demo_types demo_defs None (demo_item_form [(1, \<lparr>fs_value = Some ''pw'', fs_visible = False\<rparr>)]))) = Inr []"
proof -
  let ?f = "demo_item_form [(1, \<lparr>fs_value = Some ''pw'', fs_visible = False\<rparr>)]"
  have t: "demo_types = hd demo_types # []" by (simp add: demo_types_def)
  have a: "fm_itemTypeId ?f = first_type (hd demo_types # [])"
    by (simp add: demo_item_form_def first_type_def demo_types_def show_nat.simps)
  have m: "initial_for (it_id (hd demo_types)) (hd demo_types # []) demo_defs = Some [(1, empty_field)]"
    by (simp add: initial_for_def demo_types_def demo_defs_def buildInitialFields_def)
  from desktop_form_keeps_last_secrets [OF a m] show ?thesis
    unfolding t [symmetric] by (simp add: demo_item_form_def filled_entries_def demo_trim)
qed

end
