(* ===== verification/SignIn.thy ===== *)
theory SignIn
  imports AuthFlows JsValues
begin

text \<open>
  The other ways into the web application: the login page around the password flow with its TOTP and
  security-key dialogs and the LDAP dialog (\<open>web/src/pages/login.tsx\<close>), the landing page of single
  sign-on (\<open>sso-callback.tsx\<close>), the bootstrap administrator (\<open>admin-setup.tsx\<close>, \<open>admin-login.tsx\<close>),
  the enrolment wizard (\<open>totp-setup.tsx\<close>), and what a restore still in flight does to a sign-in.
\<close>

subsection \<open>Sessions without a key pair\<close>

datatype sign_in_outcome =
    SignInIgnored | SignInMissingField | PasswordsNotEqual | PasswordShort
  | SignedInTo string | SignInFailed flow_error

text \<open>What the handlers pass to \<open>setBootstrapSession\<close>; none passes \<open>mustSetupTOTP\<close>.\<close>

definition other_session :: "string \<Rightarrow> json \<Rightarrow> bool option \<Rightarrow> SessionInput" where
  "other_session name reply mustChangePassword =
     \<lparr>si_user = \<lparr>user_id = str_or_undefined reply ''user_id'', username = name, roles = json_strings (json_field reply ''roles'')\<rparr>,
      si_accessToken = str_or_undefined reply ''access_token'', si_refreshToken = str_or_undefined reply ''refresh_token'',
      si_mustChangePassword = mustChangePassword, si_mustSetupTOTP = None\<rparr>"

definition bootstrap_sign_in ::
    "'r webcrypto \<Rightarrow> SessionInput \<Rightarrow> string \<Rightarrow> ('w, 'r) web_app \<Rightarrow> sign_in_outcome \<times> ('w, 'r) web_app" where
  "bootstrap_sign_in wc si page app =
     (case setBootstrapSession (wc_random wc 32) si app of
        (Inl _, app1) \<Rightarrow> (SignInFailed StorageThrows, app1)
      | (Inr _, app1) \<Rightarrow> (SignedInTo page, app1))"

subsection \<open>The LDAP dialog\<close>

definition ldap_failed :: string where
  "ldap_failed = ''LDAP giri'' @ tr_s @ ''i ba'' @ tr_s @ ''ar'' @ tr_i @ ''s'' @ tr_i @ ''z.''"

definition ldap_request :: "string \<Rightarrow> string \<Rightarrow> string \<Rightarrow> http_request" where
  "ldap_request providerId ldapUsername ldapPassword =
     post_request ''/api/v1/auth/ldap/login'' [json_content]
       (Some (JObj [(''provider_id'', JStr providerId), (''username'', JStr ldapUsername), (''password'', JStr ldapPassword)]))"

definition handleLDAPSubmit ::
    "'r webcrypto \<Rightarrow> 'w net \<Rightarrow> string \<Rightarrow> bool \<Rightarrow> string \<Rightarrow> string \<Rightarrow> ('w, 'r) web_app
       \<Rightarrow> sign_in_outcome \<times> ('w, 'r) web_app" where
  "handleLDAPSubmit wc net providerId busy ldapUsername ldapPassword app =
     (if busy \<or> ldapUsername = [] \<or> ldapPassword = [] then (SignInIgnored, app)
      else case raw_call net (ldap_request providerId ldapUsername ldapPassword)
                  (\<lambda>res. body_message res ldap_failed ldap_failed) (ap_env app) of
          (Inl m, env1) \<Rightarrow> (SignInFailed (CallFailed m), app\<lparr>ap_env := env1\<rparr>)
        | (Inr reply, env1) \<Rightarrow>
            if reply = JNull then (SignInFailed NoBody, app\<lparr>ap_env := env1\<rparr>)
            else bootstrap_sign_in wc (other_session ldapUsername reply None) ''/inventory'' (app\<lparr>ap_env := env1\<rparr>))"

subsection \<open>Security keys\<close>

text \<open>\<open>authenticateWithKey\<close> is a parameter: the browser answers the challenge or throws a message.
  \<open>user_id\<close>, \<open>session_key\<close> and the credential go back to the server.\<close>

definition webauthn_finish_body :: "json \<Rightarrow> json \<Rightarrow> json" where
  "webauthn_finish_body beginRes credential =
     JObj ((case json_field beginRes ''user_id'' of None \<Rightarrow> [] | Some j \<Rightarrow> [(''user_id'', j)])
       @ (case json_field beginRes ''session_key'' of None \<Rightarrow> [] | Some j \<Rightarrow> [(''session_key'', j)])
       @ [(''credential'', credential)])"

definition webauthn_sign_in ::
    "'r webcrypto \<Rightarrow> (string \<Rightarrow> string) \<Rightarrow> 'w net \<Rightarrow> (json \<Rightarrow> string + json) \<Rightarrow> string \<Rightarrow> string
       \<Rightarrow> ('w, 'r) web_app \<Rightarrow> sign_in_outcome \<times> ('w, 'r) web_app" where
  "webauthn_sign_in wc lower net authenticateWithKey page waUsername app =
     (case run_mutation net (useWebAuthnLoginBeginMutation (lower (trim waUsername))) (ap_env app) of
        (Inl e, _, env1) \<Rightarrow> (SignInFailed (Api e), app\<lparr>ap_env := env1\<rparr>)
      | (Inr begun, _, env1) \<Rightarrow>
          (let app1 = app\<lparr>ap_env := env1\<rparr>; beginRes = nullish begun JNull
           in if beginRes = JNull then (SignInFailed NoBody, app1)
              else case authenticateWithKey (nullish (json_field beginRes ''options'') JNull) of
                  Inl m \<Rightarrow> (SignInFailed (CallFailed m), app1)
                | Inr credential \<Rightarrow>
                    (case run_mutation net (useWebAuthnLoginFinishMutation (webauthn_finish_body beginRes credential)) env1 of
                       (Inl e, _, env2) \<Rightarrow> (SignInFailed (Api e), app\<lparr>ap_env := env2\<rparr>)
                     | (Inr finished, _, env2) \<Rightarrow>
                         (let app2 = app\<lparr>ap_env := env2\<rparr>; finishRes = nullish finished JNull
                          in if finishRes = JNull then (SignInFailed NoBody, app2)
                             else bootstrap_sign_in wc (other_session (trim waUsername) finishRes None) page app2))))"

subsection \<open>The login page\<close>

record login_page =
  lp_username :: string
  lp_password :: string
  lp_totpDialogOpen :: bool
  lp_totpCode :: string
  lp_rememberDevice :: bool
  lp_busy :: bool
  lp_waUsername :: string
  lp_waDialogOpen :: bool
  lp_waBusy :: bool
  lp_waUnavailable :: bool
  lp_gone :: "string option"   \<comment> \<open>the page it navigated to\<close>

definition page_form :: "login_page \<Rightarrow> login_form" where
  "page_form p = \<lparr>lf_username = lp_username p, lf_password = lp_password p, lf_totp = None, lf_remember = None\<rparr>"

text \<open>After success the page stays busy: it is left.\<close>

definition page_onSubmit ::
    "'r webcrypto \<Rightarrow> (string \<Rightarrow> string) \<Rightarrow> 'w net \<Rightarrow> string option \<Rightarrow> login_page \<times> ('w, 'r) web_app
       \<Rightarrow> login_page \<times> ('w, 'r) web_app" where
  "page_onSubmit wc lower net rawFrom s =
     (let (p, app) = s; (outcome, app1) = login_onSubmit wc lower net rawFrom (lp_busy p) (page_form p) app
      in (case outcome of
            LoggedIn page \<Rightarrow> p\<lparr>lp_busy := True, lp_gone := Some page\<rparr>
          | AskTotp \<Rightarrow> p\<lparr>lp_busy := False, lp_totpCode := [], lp_totpDialogOpen := True\<rparr>
          | LoginFailed _ \<Rightarrow> p\<lparr>lp_busy := False\<rparr>
          | _ \<Rightarrow> p, app1))"

definition page_onTotpSubmit ::
    "'r webcrypto \<Rightarrow> (string \<Rightarrow> string) \<Rightarrow> 'w net \<Rightarrow> string option \<Rightarrow> login_page \<times> ('w, 'r) web_app
       \<Rightarrow> login_page \<times> ('w, 'r) web_app" where
  "page_onTotpSubmit wc lower net rawFrom s =
     (let (p, app) = s;
          (outcome, app1) = onTotpSubmit wc lower net rawFrom (lp_busy p) (page_form p) (lp_totpCode p) (lp_rememberDevice p) app
      in (case outcome of
            LoggedIn page \<Rightarrow> p\<lparr>lp_busy := True, lp_gone := Some page\<rparr>
          | LoginFailed _ \<Rightarrow> p\<lparr>lp_busy := False\<rparr>
          | _ \<Rightarrow> p, app1))"

definition handleTotpCancel :: "login_page \<Rightarrow> login_page" where
  "handleTotpCancel p = p\<lparr>lp_totpDialogOpen := False, lp_totpCode := [], lp_rememberDevice := False, lp_busy := False\<rparr>"

text \<open>A server without security keys hides the option for as long as the page is open.\<close>

definition not_configured :: "flow_error \<Rightarrow> bool" where
  "not_configured e = (case e of
     Api (ApiErr err) \<Rightarrow> status err = 501 \<or> code err = ''not_configured''
   | _ \<Rightarrow> False)"

definition onWebAuthnLogin ::
    "'r webcrypto \<Rightarrow> (string \<Rightarrow> string) \<Rightarrow> 'w net \<Rightarrow> (json \<Rightarrow> string + json) \<Rightarrow> string option
       \<Rightarrow> login_page \<times> ('w, 'r) web_app \<Rightarrow> login_page \<times> ('w, 'r) web_app" where
  "onWebAuthnLogin wc lower net authenticateWithKey rawFrom s =
     (let (p, app) = s
      in if lp_waBusy p \<or> trim (lp_waUsername p) = [] then s
         else (let (outcome, app1) = webauthn_sign_in wc lower net authenticateWithKey (after_login rawFrom) (lp_waUsername p) app
               in (case outcome of
                     SignedInTo page \<Rightarrow> p\<lparr>lp_waBusy := True, lp_gone := Some page\<rparr>
                   | SignInFailed e \<Rightarrow>
                       if not_configured e
                       then p\<lparr>lp_waUnavailable := True, lp_waDialogOpen := False, lp_waUsername := [], lp_waBusy := False\<rparr>
                       else p\<lparr>lp_waBusy := False\<rparr>
                   | _ \<Rightarrow> p, app1)))"

subsection \<open>Single sign-on\<close>

text \<open>\<open>URLSearchParams\<close> of a fragment: pairs between ampersands, \<open>+\<close> a space, percent escapes bytes;
  what is not an escape is kept, what is not UTF-8 is replaced.\<close>

fun form_unescape :: "string \<Rightarrow> string" where
  "form_unescape [] = []"
| "form_unescape (c # cs) =
     (if c = CHR ''+'' then CHR '' '' # form_unescape cs
      else if c = CHR ''%'' then
        (case cs of
           h # l # rest \<Rightarrow>
             (case (hex_val h, hex_val l) of
                (Some a, Some b) \<Rightarrow> char_of (16 * a + b) # form_unescape rest
              | _ \<Rightarrow> c # form_unescape cs)
         | _ \<Rightarrow> c # form_unescape cs)
      else c # form_unescape cs)"

definition form_decode :: "string \<Rightarrow> string" where
  "form_decode s = map char_of (utf8_decode 0 0x80 0xBF [] (map of_char (form_unescape s)))"

fun split_at_char :: "char \<Rightarrow> string \<Rightarrow> string list" where
  "split_at_char d [] = [[]]"
| "split_at_char d (c # cs) =
     (if c = d then [] # split_at_char d cs
      else case split_at_char d cs of [] \<Rightarrow> [[c]] | w # ws \<Rightarrow> (c # w) # ws)"

definition form_pair :: "string \<Rightarrow> string \<times> string" where
  "form_pair s = (form_decode (takeWhile (\<lambda>c. c \<noteq> CHR ''='') s),
     form_decode (drop 1 (dropWhile (\<lambda>c. c \<noteq> CHR ''='') s)))"

definition url_search_params :: "string \<Rightarrow> (string \<times> string) list" where
  "url_search_params s = map form_pair (filter (\<lambda>w. w \<noteq> []) (split_at_char (CHR ''&'') s))"

record sso_hash =
  sh_accessToken :: string
  sh_refreshToken :: string
  sh_userID :: string
  sh_username :: string
  sh_roles :: "string list"

text \<open>\<open>parse\<close> is \<open>JSON.parse\<close>, \<open>None\<close> when it throws.\<close>

definition parseHash :: "(string \<Rightarrow> json option) \<Rightarrow> string \<Rightarrow> sso_hash option" where
  "parseHash parse location_hash_value =
     (let raw = drop 1 location_hash_value
      in if raw = [] then None
         else (let get = map_of (url_search_params raw)
               in if \<not> truthy (get ''access_token'') \<or> \<not> truthy (get ''refresh_token'')
                     \<or> \<not> truthy (get ''user_id'') \<or> \<not> truthy (get ''username'') then None
                  else Some \<lparr>sh_accessToken = the (get ''access_token''), sh_refreshToken = the (get ''refresh_token''),
                     sh_userID = the (get ''user_id''), sh_username = the (get ''username''),
                     sh_roles = (if truthy (get ''roles'') then json_strings (parse (the (get ''roles''))) else [])\<rparr>))"

definition sso_session :: "sso_hash \<Rightarrow> SessionInput" where
  "sso_session h = \<lparr>si_user = \<lparr>user_id = sh_userID h, username = sh_username h, roles = sh_roles h\<rparr>,
     si_accessToken = sh_accessToken h, si_refreshToken = sh_refreshToken h,
     si_mustChangePassword = Some False, si_mustSetupTOTP = Some False\<rparr>"

text \<open>The effect of the page; the second component is the fragment left in the address.\<close>

datatype sso_outcome = SsoError | SsoSignedIn string | SsoThrows

definition SSOCallback ::
    "'r webcrypto \<Rightarrow> (string \<Rightarrow> json option) \<Rightarrow> string \<Rightarrow> ('w, 'r) web_app
       \<Rightarrow> sso_outcome \<times> string \<times> ('w, 'r) web_app" where
  "SSOCallback wc parse url app =
     (case parseHash parse (location_hash url) of
        None \<Rightarrow> (SsoError, location_hash url, app)
      | Some h \<Rightarrow>
          (case setBootstrapSession (wc_random wc 32) (sso_session h) app of
             (Inl _, app1) \<Rightarrow> (SsoThrows, location_hash url, app1)
           | (Inr _, app1) \<Rightarrow> (SsoSignedIn ''/inventory'', [], app1)))"

subsection \<open>The bootstrap administrator\<close>

text \<open>The check on mount: where it navigates, \<open>None\<close> when the form is shown; an error shows it too.\<close>

definition setup_complete :: "json \<Rightarrow> bool" where
  "setup_complete j = (case json_field j ''setup_complete'' of None \<Rightarrow> False | Some v \<Rightarrow> \<not> falsy v)"

definition admin_setup_check :: "'w net \<Rightarrow> 'w web_env \<Rightarrow> string option \<times> 'w web_env" where
  "admin_setup_check net env =
     (case bootstrapStatus net env of
        (Inr j, env1) \<Rightarrow> (if j \<noteq> JNull \<and> setup_complete j then Some ''/login'' else None, env1)
      | (Inl _, env1) \<Rightarrow> (None, env1))"

definition admin_login_check :: "'w net \<Rightarrow> 'w web_env \<Rightarrow> string option \<times> 'w web_env" where
  "admin_login_check net env =
     (case bootstrapStatus net env of
        (Inr j, env1) \<Rightarrow> (if j \<noteq> JNull \<and> \<not> setup_complete j then Some ''/admin-setup'' else None, env1)
      | (Inl _, env1) \<Rightarrow> (None, env1))"

definition admin_setup_submit ::
    "'r webcrypto \<Rightarrow> (string \<Rightarrow> string) \<Rightarrow> 'w net \<Rightarrow> bool \<Rightarrow> string \<Rightarrow> string \<Rightarrow> string \<Rightarrow> ('w, 'r) web_app
       \<Rightarrow> sign_in_outcome \<times> ('w, 'r) web_app" where
  "admin_setup_submit wc lower net loading user password passwordConfirm app =
     (if loading then (SignInIgnored, app)
      else if user = [] \<or> password = [] then (SignInMissingField, app)
      else if password \<noteq> passwordConfirm then (PasswordsNotEqual, app)
      else if js_length password < 12 then (PasswordShort, app)
      else case bootstrapSetup net (trim (lower user)) password (ap_env app) of
          (Inl m, env1) \<Rightarrow> (SignInFailed (CallFailed m), app\<lparr>ap_env := env1\<rparr>)
        | (Inr res, env1) \<Rightarrow>
            if res = JNull then (SignInFailed NoBody, app\<lparr>ap_env := env1\<rparr>)
            else bootstrap_sign_in wc (other_session (trim (lower user)) res None) ''/admin/users'' (app\<lparr>ap_env := env1\<rparr>))"

definition admin_login_submit ::
    "'r webcrypto \<Rightarrow> (string \<Rightarrow> string) \<Rightarrow> 'w net \<Rightarrow> bool \<Rightarrow> string \<Rightarrow> string \<Rightarrow> ('w, 'r) web_app
       \<Rightarrow> sign_in_outcome \<times> ('w, 'r) web_app" where
  "admin_login_submit wc lower net loading user password app =
     (if loading then (SignInIgnored, app)
      else if user = [] \<or> password = [] then (SignInMissingField, app)
      else case bootstrapLogin net (trim (lower user)) password (ap_env app) of
          (Inl m, env1) \<Rightarrow> (SignInFailed (CallFailed m), app\<lparr>ap_env := env1\<rparr>)
        | (Inr res, env1) \<Rightarrow>
            if res = JNull then (SignInFailed NoBody, app\<lparr>ap_env := env1\<rparr>)
            else bootstrap_sign_in wc (other_session (trim (lower user)) res (json_bool_field res ''must_change_password''))
                   ''/admin/users'' (app\<lparr>ap_env := env1\<rparr>))"

subsection \<open>The enrolment wizard\<close>

datatype totp_phase = Enroll | Verify | RecoveryCodes

record totp_page =
  tp_phase :: totp_phase
  tp_otpAuthUrl :: string
  tp_secretBase32 :: string
  tp_code :: string
  tp_recoveryCodes :: "string list"

definition totp_opened :: totp_page where
  "totp_opened = \<lparr>tp_phase = Enroll, tp_otpAuthUrl = [], tp_secretBase32 = [], tp_code = [], tp_recoveryCodes = []\<rparr>"

text \<open>\<open>tmpToken\<close> is the one in the state of the address, if any.\<close>

definition isGateMode :: "string option \<Rightarrow> auth_state \<Rightarrow> bool" where
  "isGateMode tmpToken auth \<longleftrightarrow> au_mustSetupTOTP auth \<and> \<not> truthy tmpToken"

definition totp_token :: "string option \<Rightarrow> auth_state \<Rightarrow> string" where
  "totp_token tmpToken auth = (if isGateMode tmpToken auth then nullish (au_accessToken auth) [] else nullish tmpToken [])"

definition totp_guard :: "string option \<Rightarrow> auth_state \<Rightarrow> gate" where
  "totp_guard tmpToken auth = (if \<not> truthy tmpToken \<and> \<not> isGateMode tmpToken auth then NavigateTo ''/login'' else Outlet)"

definition totp_effect :: "'w net \<Rightarrow> string option \<Rightarrow> totp_page \<times> ('w, 'r) web_app \<Rightarrow> totp_page \<times> ('w, 'r) web_app" where
  "totp_effect net tmpToken s =
     (let (p, app) = s; token = totp_token tmpToken (ap_auth app)
      in if token = [] \<or> tp_phase p \<noteq> Enroll then s
         else case useTOTPInitMutation net token (ap_env app) of
             (Inl m, env1) \<Rightarrow> (p, app\<lparr>ap_env := env1\<rparr>)
           | (Inr res, env1) \<Rightarrow>
               if res = JNull then (p, app\<lparr>ap_env := env1\<rparr>)
               else (p\<lparr>tp_otpAuthUrl := str_or_undefined res ''otpauth_uri'', tp_secretBase32 := str_or_undefined res ''secret_base32'',
                       tp_phase := Verify\<rparr>, app\<lparr>ap_env := env1\<rparr>))"

definition totp_type :: "string \<Rightarrow> totp_page \<Rightarrow> totp_page" where
  "totp_type typed p = p\<lparr>tp_code := filter dec_digit typed\<rparr>"

definition totp_onVerify :: "'w net \<Rightarrow> string option \<Rightarrow> totp_page \<times> ('w, 'r) web_app \<Rightarrow> totp_page \<times> ('w, 'r) web_app" where
  "totp_onVerify net tmpToken s =
     (let (p, app) = s; token = totp_token tmpToken (ap_auth app)
      in if tp_code p = [] \<or> token = [] then s
         else case useTOTPVerifyMutation net token (tp_code p) (ap_env app) of
             (Inl m, env1) \<Rightarrow> (p, app\<lparr>ap_env := env1\<rparr>)
           | (Inr res, env1) \<Rightarrow>
               if res = JNull then (p, app\<lparr>ap_env := env1\<rparr>)
               else (p\<lparr>tp_recoveryCodes := json_strings (json_field res ''recovery_codes''), tp_phase := RecoveryCodes\<rparr>,
                     app\<lparr>ap_env := env1\<rparr>))"

definition onConfirmSavedCodes :: "string option \<Rightarrow> ('w, 'r) web_app \<Rightarrow> ('w, 'r) web_app \<times> string" where
  "onConfirmSavedCodes tmpToken app =
     (if isGateMode tmpToken (ap_auth app) then (clearMustSetupTOTP app, ''/inventory'') else (app, ''/login''))"

subsection \<open>A restore in flight\<close>

text \<open>\<open>HydrateBoot\<close> in two steps: what its effect does at once, and what the reply does later.\<close>

definition boot_begin :: "('w, 'r) web_app \<Rightarrow> (string \<times> PersistedSession) option" where
  "boot_begin app =
     (case (getRefreshToken (app_tokens app), getPersistedSession (app_tokens app)) of
        (Some refreshToken, Some session) \<Rightarrow> if refreshToken = [] then None else Some (refreshToken, session)
      | _ \<Rightarrow> None)"

definition boot_settle :: "PersistedSession \<Rightarrow> bool \<Rightarrow> fetch_result \<Rightarrow> ('w, 'r) web_app \<Rightarrow> ('w, 'r) web_app" where
  "boot_settle session cancelled fr app =
     (case fr of
        NetworkFailure m \<Rightarrow> stop_splash cancelled app
      | Response res \<Rightarrow>
          if \<not> rs_ok res then stop_splash cancelled (on_tokens clearAllTokens app)
          else case rs_json res of
              None \<Rightarrow> stop_splash cancelled app
            | Some body \<Rightarrow>
                if falsy body \<or> cancelled then app
                else (case restoreSession session (json_str_field body ''access_token'') (on_tokens (rotate_tokens body) app) of
                    (Inr _, app2) \<Rightarrow> app2
                  | (Inl _, app2) \<Rightarrow> stop_splash cancelled app2))"

lemma HydrateBoot_in_two_steps:
  "HydrateBoot net cancelled app =
     (case boot_begin app of
        None \<Rightarrow> setHydrating False app
      | Some (refreshToken, session) \<Rightarrow>
          (let (fr, env1) = do_fetch net (refresh_request refreshToken) (ap_env app)
           in boot_settle session cancelled fr (app\<lparr>ap_env := env1\<rparr>)))"
  by (auto simp: HydrateBoot_def boot_begin_def boot_settle_def Let_def split: option.splits fetch_result.splits prod.splits)


subsection \<open>Lemmas\<close>

text \<open>A session whose private key is the one this browser keeps for the user.\<close>

definition bootstrap_session_of :: "SessionInput \<Rightarrow> ('w, 'r) web_app \<Rightarrow> bool" where
  "bootstrap_session_of si app \<longleftrightarrow>
     au_user (ap_auth app) = Some (si_user si) \<and> au_accessToken (ap_auth app) = Some (si_accessToken si)
     \<and> getAccessToken (app_tokens app) = Some (si_accessToken si)
     \<and> getRefreshToken (app_tokens app) = Some (si_refreshToken si)
     \<and> au_isBootstrap (ap_auth app)
     \<and> (\<exists>s key. session_private_key app = Some key \<and> atob s = Inr key
          \<and> ls_items (storage (app_tokens app)) (bootstrap_storage_key (si_user si)) = Some (Text s))
     \<and> au_mustChangePassword (ap_auth app) = (si_mustChangePassword si = Some True)
     \<and> au_mustSetupTOTP (ap_auth app) = (si_mustSetupTOTP si = Some True)"

definition same_session :: "('w, 'r) web_app \<Rightarrow> ('w, 'r) web_app \<Rightarrow> bool" where
  "same_session app1 app \<longleftrightarrow> ap_auth app1 = ap_auth app \<and> ap_buf app1 = ap_buf app
     \<and> app_tokens app1 = app_tokens app \<and> we_logouts (ap_env app1) = we_logouts (ap_env app)"

definition all_or_nothing :: "('w, 'r) web_app \<Rightarrow> sign_in_outcome \<times> ('w, 'r) web_app \<Rightarrow> bool" where
  "all_or_nothing app r \<longleftrightarrow>
     (case r of
        (SignedInTo page, app1) \<Rightarrow> (\<exists>name reply mcp. bootstrap_session_of (other_session name reply mcp) app1)
      | (SignInFailed StorageThrows, app1) \<Rightarrow> True
      | (_, app1) \<Rightarrow> same_session app1 app)"

lemma random_nonempty: "webcrypto_laws wc \<Longrightarrow> \<forall>r. fst (wc_random wc 32 r) \<noteq> []"
  using laws(9) by (metis length_0_conv prod.collapse zero_neq_numeral)

lemma setBootstrapSession_starts:
  assumes "webcrypto_laws wc" and "tokens_storable (app_tokens app)"
    and "setBootstrapSession (wc_random wc 32) si app = (Inr (), app1)"
  shows "bootstrap_session_of si app1"
proof -
  note ne = random_nonempty [OF assms(1)] and b = assms(3)
  show ?thesis
    using setBootstrapSession_tokens [OF b assms(2) ne] setBootstrapSession_key [OF b assms(2) ne]
    by (auto simp: bootstrap_session_of_def nullish_False)
qed

lemma bootstrap_sign_in_result:
  assumes "webcrypto_laws wc" and "app_tokens app1 = app_tokens app" and "tokens_storable (app_tokens app)"
  shows "all_or_nothing app (bootstrap_sign_in wc (other_session name reply mcp) page app1)"
  using setBootstrapSession_starts [OF assms(1), of app1 "other_session name reply mcp"] assms(2,3)
  by (auto simp: all_or_nothing_def bootstrap_sign_in_def split: prod.splits sum.splits)

lemma failed_keeps:
  "we_tokens env1 = we_tokens (ap_env app) \<Longrightarrow> we_logouts env1 = we_logouts (ap_env app)
     \<Longrightarrow> all_or_nothing app (SignInFailed e, app\<lparr>ap_env := env1\<rparr>)"
  by (auto simp: all_or_nothing_def same_session_def split: flow_error.splits)

lemma ignored_keeps:
  "out \<in> {SignInIgnored, SignInMissingField, PasswordsNotEqual, PasswordShort} \<Longrightarrow> all_or_nothing app (out, app)"
  by (auto simp: all_or_nothing_def same_session_def)


lemma ldap_result:
  assumes "webcrypto_laws wc" and "tokens_storable (app_tokens app)"
  shows "all_or_nothing app (handleLDAPSubmit wc net providerId busy u p app)"
proof (cases "busy \<or> u = [] \<or> p = []")
  case True
  then show ?thesis by (simp add: handleLDAPSubmit_def ignored_keeps)
next
  case go: False
  obtain r env1 where c: "raw_call net (ldap_request providerId u p) (\<lambda>res. body_message res ldap_failed ldap_failed) (ap_env app) = (r, env1)"
    by fastforce
  note k = raw_call_frame(1,2) [OF c]
  then show ?thesis
    using go c failed_keeps [OF k] bootstrap_sign_in_result [OF assms(1), of "app\<lparr>ap_env := env1\<rparr>" app] assms(2)
    by (cases r) (auto simp: handleLDAPSubmit_def)
qed

lemma webauthn_result:
  assumes "webcrypto_laws wc" and "tokens_storable (app_tokens app)"
  shows "all_or_nothing app (webauthn_sign_in wc lower net authenticateWithKey page u app)"
proof -
  obtain b ks env1 where b: "run_mutation net (useWebAuthnLoginBeginMutation (lower (trim u))) (ap_env app) = (b, ks, env1)"
    using prod_cases3 by blast
  note k1 = run_public_frame [OF b [unfolded useWebAuthnLoginBeginMutation_def]]
  show ?thesis
  proof (cases b)
    case (Inl e)
    then show ?thesis using b failed_keeps [OF k1] by (simp add: webauthn_sign_in_def)
  next
    case (Inr begun)
    let ?res = "nullish begun JNull"
    show ?thesis
    proof (cases "?res = JNull \<or> (\<exists>m. authenticateWithKey (nullish (json_field ?res ''options'') JNull) = Inl m)")
      case True
      then show ?thesis using b Inr failed_keeps [OF k1] by (auto simp: webauthn_sign_in_def Let_def)
    next
      case False
      then obtain c where c: "authenticateWithKey (nullish (json_field ?res ''options'') JNull) = Inr c"
        by (meson old.sum.exhaust)
      obtain f ks2 env2 where f: "run_mutation net (useWebAuthnLoginFinishMutation (webauthn_finish_body ?res c)) env1 = (f, ks2, env2)"
        using prod_cases3 by blast
      note k2 = run_public_frame [OF f [unfolded useWebAuthnLoginFinishMutation_def]]
      have k: "we_tokens env2 = we_tokens (ap_env app)" "we_logouts env2 = we_logouts (ap_env app)"
        using k1 k2 by simp_all
      show ?thesis
        using b Inr False c f failed_keeps [OF k] bootstrap_sign_in_result [OF assms(1), of "app\<lparr>ap_env := env2\<rparr>" app] assms(2) k
        by (cases f) (auto simp: webauthn_sign_in_def Let_def)
    qed
  qed
qed

lemma admin_result:
  assumes "webcrypto_laws wc" and "tokens_storable (app_tokens app)"
  shows "all_or_nothing app (admin_setup_submit wc lower net busy u p p' app)"
    "all_or_nothing app (admin_login_submit wc lower net busy u p app)"
proof -
  obtain r env1 where c: "bootstrapSetup net (trim (lower u)) p (ap_env app) = (r, env1)" by fastforce
  note k = raw_call_frame(1,2) [OF c [unfolded bootstrapSetup_def]]
  show "all_or_nothing app (admin_setup_submit wc lower net busy u p p' app)"
    using c failed_keeps [OF k] bootstrap_sign_in_result [OF assms(1), of "app\<lparr>ap_env := env1\<rparr>" app] assms(2) k
    by (cases r) (auto simp: admin_setup_submit_def ignored_keeps)
next
  obtain r env1 where c: "bootstrapLogin net (trim (lower u)) p (ap_env app) = (r, env1)" by fastforce
  note k = raw_call_frame(1,2) [OF c [unfolded bootstrapLogin_def]]
  show "all_or_nothing app (admin_login_submit wc lower net busy u p app)"
    using c failed_keeps [OF k] bootstrap_sign_in_result [OF assms(1), of "app\<lparr>ap_env := env1\<rparr>" app] assms(2) k
    by (cases r) (auto simp: admin_login_submit_def ignored_keeps)
qed

lemma bootstrap_key_total:
  "can_store ls \<Longrightarrow> \<exists>key ls' rng'. bootstrap_key random32 k ls rng = (Inr (key, ls'), rng')"
  by (auto simp: bootstrap_key_def mint_bootstrap_key_def getItem_def setItem_def can_store_def Let_def
      split: prod.splits sum.splits)

lemma setBootstrapSession_total:
  assumes "tokens_storable (app_tokens app)"
  shows "\<exists>app1. setBootstrapSession random32 si app = (Inr (), app1) \<and> we_sent (ap_env app1) = we_sent (ap_env app)
     \<and> we_world (ap_env app1) = we_world (ap_env app)"
proof -
  have "can_store (storage (sync_session si True (app_tokens app)))"
    using sync_session_facts(4) [OF assms] by (simp add: tokens_storable_def)
  from bootstrap_key_total [OF this, of random32 "bootstrap_storage_key (si_user si)" "bf_rng (ap_buf app)"]
  show ?thesis by (auto simp: setBootstrapSession_def on_tokens_def Let_def alloc_def)
qed

lemma boot_settle_refused:
  assumes "\<not> rs_ok res"
  shows "ap_auth (boot_settle s False (Response res) app) = (ap_auth app)\<lparr>au_hydrating := False\<rparr>"
    "app_tokens (boot_settle s False (Response res) app) = clearAllTokens (app_tokens app)"
  using assms by (simp_all add: boot_settle_def stop_splash_def setHydrating_def on_tokens_def)

lemma boot_settle_accepted:
  assumes "rs_ok res" and "rs_json res = Some body" and "\<not> falsy body" and "tokens_storable (app_tokens app)"
  shows "au_user (ap_auth (boot_settle s False (Response res) app)) = Some (ps_user s)
     \<and> au_accessToken (ap_auth (boot_settle s False (Response res) app)) = json_str_field body ''access_token''
     \<and> app_tokens (boot_settle s False (Response res) app)
         = setAccessToken (json_str_field body ''access_token'') (rotate_tokens body (app_tokens app))"
proof -
  let ?app = "on_tokens (rotate_tokens body) app"
  have t: "app_tokens ?app = rotate_tokens body (app_tokens app)" by (simp add: on_tokens_def)
  have "ls_can_read (storage (app_tokens ?app))"
    using assms(4) unfolding t by (auto simp: rotate_tokens_def token_defs storage_defs tokens_storable_def can_store_def split: option.splits)
  from restoreSession_readable [OF this, of s "json_str_field body ''access_token''"] obtain app2
    where "restoreSession s (json_str_field body ''access_token'') ?app = (Inr (), app2)"
      "au_user (ap_auth app2) = Some (ps_user s)" "au_accessToken (ap_auth app2) = json_str_field body ''access_token''"
      "app_tokens app2 = setAccessToken (json_str_field body ''access_token'') (app_tokens ?app)" by fastforce
  then show ?thesis using assms t by (simp add: boot_settle_def)
qed


subsection \<open>Properties\<close>

text \<open>
  The other ways to sign in. A sign-in over LDAP, with a security key, or as the bootstrap
  administrator leaves everything as it was when it fails; when it succeeds the tokens and the user
  are those of the reply, the private key is the one this browser keeps for the user whatever key pair
  the account has, and the enrolment gate is open whatever the server demands. The one exception is a
  browser whose storage throws.
\<close>
theorem other_sign_ins_all_or_nothing:
  assumes "webcrypto_laws wc" and "tokens_storable (app_tokens app)"
  shows "all_or_nothing app (handleLDAPSubmit wc net providerId busy user password app)
    \<and> all_or_nothing app (webauthn_sign_in wc lower net authenticateWithKey page user app)
    \<and> all_or_nothing app (admin_setup_submit wc lower net busy user password confirmation app)
    \<and> all_or_nothing app (admin_login_submit wc lower net busy user password app)"
  by (intro conjI ldap_result webauthn_result admin_result assms)

text \<open>
  A link signs anybody in. Opening an address of the single sign-on page with the four values in
  its fragment starts the session they name in place of whatever session there was, without a single
  request and without anything that ties the link to a sign-in this browser began.
\<close>
theorem sso_link_starts_any_session:
  assumes "webcrypto_laws wc" and "tokens_storable (app_tokens app)"
    and "parseHash parse (location_hash url) = Some h"
  shows "\<exists>app1. SSOCallback wc parse url app = (SsoSignedIn ''/inventory'', [], app1)
    \<and> bootstrap_session_of (sso_session h) app1 \<and> we_sent (ap_env app1) = we_sent (ap_env app)"
proof -
  obtain app1 where b: "setBootstrapSession (wc_random wc 32) (sso_session h) app = (Inr (), app1)"
    and e: "we_sent (ap_env app1) = we_sent (ap_env app)"
    using setBootstrapSession_total [OF assms(2)] by blast
  from b e setBootstrapSession_starts [OF assms(1,2) b] assms(3) show ?thesis by (simp add: SSOCallback_def)
qed

text \<open>
  A restore in flight undoes a sign-in. The page load asks to refresh the stored session and shows
  the login page meanwhile; if the user signs in before the reply is there, a refusal deletes the new
  tokens and leaves the new user on screen without any, and an acceptance puts the old user and the
  old tokens in the place of the new ones, under the new user's stored profile.
\<close>
theorem late_restore_undoes_sign_in:
  assumes "tokens_storable (app_tokens app)" and "app1 = start_session si kek key app"
    and "\<not> rs_ok refused" and "rs_ok accepted" and "rs_json accepted = Some body" and "\<not> falsy body"
  shows "(let app2 = boot_settle s False (Response refused) app1
      in au_user (ap_auth app2) = Some (si_user si) \<and> selectIsAuthenticated (ap_auth app2)
        \<and> getAccessToken (app_tokens app2) = None \<and> getRefreshToken (app_tokens app2) = None
        \<and> getPersistedSession (app_tokens app2) = None)
    \<and> (let app2 = boot_settle s False (Response accepted) app1
      in au_user (ap_auth app2) = Some (ps_user s)
        \<and> getAccessToken (app_tokens app2) = json_str_field body ''access_token''
        \<and> getRefreshToken (app_tokens app2) = token_arg (json_field body ''refresh_token'')
        \<and> map_option ps_user (getPersistedSession (app_tokens app2)) = Some (si_user si))"
proof -
  have t: "app_tokens app1 = sync_session si False (app_tokens app)"
    by (simp add: assms(2) start_session_def alloc_def setSession_def on_tokens_def)
  note f = sync_session_facts [OF assms(1), of si False, folded t]
  have a: "au_user (ap_auth app1) = Some (si_user si)" "selectIsAuthenticated (ap_auth app1)"
    by (simp_all add: assms(2) start_session_key setSession_def selectIsAuthenticated_def)
  have r: "getPersistedSession (rotate_tokens body (app_tokens app1)) = getPersistedSession (app_tokens app1)"
    by (simp add: rotate_tokens_def persisted_session_frame)
  show ?thesis
    using a boot_settle_refused [OF assms(3), of s app1] boot_settle_accepted [OF assms(4-6) f(4), of s]
      web_tokens.logout [OF f(4)] clearAllTokens_session [OF f(4)] rotate_tokens_refresh [OF f(4)] r f(3)
    by (simp add: Let_def selectIsAuthenticated_def web_tokens.access_set web_tokens.refresh_set_access persisted_session_frame)
qed

text \<open>
  The enrolment gate is lifted by confirmed recovery codes. In gate mode the wizard enrols with the
  session's own token: the secret it shows and the codes are the server's, for the digits the user
  typed, and confirming the codes opens the inventory; until then the demand stands.
\<close>
theorem enrolment_lifts_gate:
  assumes "isGateMode tmpToken (ap_auth app)" and "selectIsAuthenticated (ap_auth app)"
    and "totp_effect net tmpToken (totp_opened, app) = (p1, app1)" and "tp_phase p1 = Verify"
    and "totp_onVerify net tmpToken (totp_type typed p1, app1) = (p2, app2)" and "tp_phase p2 = RecoveryCodes"
    and "\<not> au_hydrating (ap_auth app)" and "\<not> au_mustChangePassword (ap_auth app)"
  shows "\<exists>token secret codes env1 env2. au_accessToken (ap_auth app) = Some token
    \<and> useTOTPInitMutation net token (ap_env app) = (Inr secret, env1)
    \<and> useTOTPVerifyMutation net token (filter dec_digit typed) env1 = (Inr codes, env2)
    \<and> tp_secretBase32 p2 = str_or_undefined secret ''secret_base32''
    \<and> tp_recoveryCodes p2 = json_strings (json_field codes ''recovery_codes'')
    \<and> app_routes AppRoute (ap_auth app2) = NavigateTo ''/totp/setup''
    \<and> snd (onConfirmSavedCodes tmpToken app2) = ''/inventory''
    \<and> app_routes AppRoute (ap_auth (fst (onConfirmSavedCodes tmpToken app2))) = Outlet"
proof -
  obtain token where tok: "au_accessToken (ap_auth app) = Some token"
    using assms(2) by (auto simp: selectIsAuthenticated_def)
  have tk: "totp_token tmpToken (ap_auth app) = token" using assms(1) tok by (simp add: totp_token_def)
  obtain i env1 where i: "useTOTPInitMutation net token (ap_env app) = (i, env1)" by fastforce
  have ne: "token \<noteq> []" using assms(3,4) tk by (auto simp: totp_effect_def totp_opened_def Let_def)
  have a1: "ap_auth app1 = ap_auth app"
    using assms(3) tk i by (cases i) (auto simp: totp_effect_def Let_def split: if_splits)
  obtain secret where s: "i = Inr secret" "tp_secretBase32 p1 = str_or_undefined secret ''secret_base32''" "ap_env app1 = env1"
    using assms(3,4) tk i by (cases i) (auto simp: totp_effect_def totp_opened_def Let_def split: if_splits)
  obtain c env2 where c: "useTOTPVerifyMutation net token (filter dec_digit typed) env1 = (c, env2)" by fastforce
  have "tp_phase (totp_type typed p1) \<noteq> RecoveryCodes" using assms(4) by (simp add: totp_type_def)
  with assms(5,6) tk a1 c s(3) obtain codes where codes: "c = Inr codes" "ap_auth app2 = ap_auth app"
    "p2 = (totp_type typed p1)\<lparr>tp_recoveryCodes := json_strings (json_field codes ''recovery_codes''), tp_phase := RecoveryCodes\<rparr>"
    by (cases c) (auto simp: totp_onVerify_def totp_type_def Let_def split: if_splits)
  show ?thesis
    using tok i c s codes assms(1,2,7,8)
    by (auto simp: onConfirmSavedCodes_def isGateMode_def totp_type_def gate_defs clearMustSetupTOTP_def)
qed

text \<open>Reloading the wizard in gate mode shows the login page: the flag is back only with the session.\<close>

lemma reload_leaves_wizard: "totp_guard None (ap_auth (reload app)) = NavigateTo ''/login''"
  by (simp add: totp_guard_def isGateMode_def truthy_def reload_def initial_auth_def)


subsection \<open>Concrete runs\<close>

lemma other_sign_ins_all_or_nothing_witness:
  "all_or_nothing demo_app (handleLDAPSubmit toy_crypto scripted ''p'' False ''ada'' ''pw'' demo_app)"
  using other_sign_ins_all_or_nothing [OF toy_laws demo_app_tokens(1), of scripted "''p''" False "''ada''" "''pw''"] by simp

definition demo_sso_url :: string where
  "demo_sso_url = ''https://x/sso-callback#access_token=A&refresh_token=R&user_id=u2&username=eve%20x&roles=''"

lemma demo_sso_hash: "parseHash (\<lambda>_. None) (location_hash demo_sso_url)
    = Some \<lparr>sh_accessToken = ''A'', sh_refreshToken = ''R'', sh_userID = ''u2'', sh_username = ''eve x'', sh_roles = []\<rparr>"
  by code_simp

lemma sso_link_starts_any_session_witness:
  "\<exists>app1. SSOCallback toy_crypto (\<lambda>_. None) demo_sso_url demo_session = (SsoSignedIn ''/inventory'', [], app1)
     \<and> map_option username (au_user (ap_auth app1)) = Some ''eve x''"
proof -
  from sso_link_starts_any_session [OF toy_laws demo_app_tokens(2) demo_sso_hash] obtain app1
    where "SSOCallback toy_crypto (\<lambda>_. None) demo_sso_url demo_session = (SsoSignedIn ''/inventory'', [], app1)"
      "bootstrap_session_of (sso_session \<lparr>sh_accessToken = ''A'', sh_refreshToken = ''R'', sh_userID = ''u2'',
         sh_username = ''eve x'', sh_roles = []\<rparr>) app1" by blast
  then show ?thesis by (auto simp: bootstrap_session_of_def sso_session_def)
qed

lemma late_restore_undoes_sign_in_witness:
  "\<exists>app2. app2 = boot_settle \<lparr>ps_user = demo_user, ps_mustChangePassword = None, ps_mustSetupTOTP = None, ps_isBootstrap = None\<rparr>
       False (Response expired_401) (start_session demo_input [1] [2] demo_app)
     \<and> selectIsAuthenticated (ap_auth app2) \<and> getRefreshToken (app_tokens app2) = None"
proof -
  have "\<not> rs_ok expired_401" by (simp add: expired_401_def rs_ok_def)
  from late_restore_undoes_sign_in [OF demo_app_tokens(1) refl this fresh_pair_simps] show ?thesis
    unfolding Let_def by simp
qed

lemma enrolment_lifts_gate_witness:
  "\<exists>p2 app2. tp_recoveryCodes (p2 :: totp_page) = [''c1''] \<and> snd (onConfirmSavedCodes None app2) = ''/inventory''
     \<and> app_routes AppRoute (ap_auth (fst (onConfirmSavedCodes None (app2 :: (fetch_result list, nat) web_app)))) = Outlet"
proof -
  let ?i = "JObj [(''otpauth_uri'', JStr ''otpauth://x''), (''secret_base32'', JStr ''ABC'')]"
  let ?c = "JObj [(''recovery_codes'', JArr [JStr ''c1''])]"
  let ?app = "demo_session\<lparr>ap_env := (ap_env demo_session)\<lparr>we_world := [json_reply ?i, json_reply ?c]\<rparr>\<rparr>"
  have g: "isGateMode None (ap_auth ?app)" "selectIsAuthenticated (ap_auth ?app)" "\<not> au_hydrating (ap_auth ?app)"
    "\<not> au_mustChangePassword (ap_auth ?app)" "au_accessToken (ap_auth ?app) = Some ''A1''"
    by (simp_all add: isGateMode_def demo_session_def setSession_def demo_input_def selectIsAuthenticated_def)
  have w: "we_world (ap_env ?app) = json_reply ?i # [json_reply ?c]" by simp
  obtain env1 where e1: "useTOTPInitMutation scripted ''A1'' (ap_env ?app) = (Inr ?i, env1)" "we_world env1 = [json_reply ?c]"
    using scripted_raw_call(1) [OF w] by (simp add: useTOTPInitMutation_def)
  have w1: "we_world env1 = json_reply ?c # []" using e1(2) by simp
  obtain env2 where e2: "useTOTPVerifyMutation scripted ''A1'' ''123'' env1 = (Inr ?c, env2)"
    using scripted_raw_call(1) [OF w1] by (simp add: useTOTPVerifyMutation_def)
  have tk: "totp_token None (ap_auth ?app) = ''A1''" using g(1,5) by (simp add: totp_token_def)
  obtain p1 app1 where m: "totp_effect scripted None (totp_opened, ?app) = (p1, app1)" by fastforce
  have p1: "tp_phase p1 = Verify" "app1 = ?app\<lparr>ap_env := env1\<rparr>"
    using m tk e1(1) by (auto simp: totp_effect_def totp_opened_def Let_def)
  have f: "filter dec_digit ''12 3'' = ''123''" by (simp add: dec_digit_def)
  obtain p2 app2 where v: "totp_onVerify scripted None (totp_type ''12 3'' p1, app1) = (p2, app2)" by fastforce
  have p2: "tp_phase p2 = RecoveryCodes" "tp_recoveryCodes p2 = [''c1'']"
    using v p1 tk e2 f by (auto simp: totp_onVerify_def totp_type_def Let_def List.map_filter_def)
  from enrolment_lifts_gate [OF g(1,2) m p1(1) v p2(1) g(3,4)]
  have "snd (onConfirmSavedCodes None app2) = ''/inventory''"
    "app_routes AppRoute (ap_auth (fst (onConfirmSavedCodes None app2))) = Outlet" by blast+
  with p2(2) show ?thesis by blast
qed

end
