(* ===== verification/DesktopSignIn.thy ===== *)
theory DesktopSignIn
  imports SignIn DesktopSession DesktopHooks Connection
begin

text \<open>
  Signing in on the desktop: the login page with the key pair it makes for accounts that have none
  (\<open>client/src/pages/login.tsx\<close>), the enrolment wizard (\<open>totp-setup.tsx\<close>), the bootstrap administrator
  (\<open>admin-setup.tsx\<close>, \<open>admin-login.tsx\<close>), and the page with the connection settings (\<open>config.tsx\<close>).
\<close>

subsection \<open>The login page\<close>

text \<open>\<open>kekStore\<close> and \<open>kekLoad\<close> are the keyring commands of the shell: a text for a user name, or a throw.
  Once the session is set, the key goes into the keyring and the user name into the storage.\<close>

definition cl_enter ::
    "(string \<Rightarrow> string) \<Rightarrow> (string \<Rightarrow> string \<Rightarrow> string + unit) \<Rightarrow> login_form \<Rightarrow> json \<Rightarrow> bytes \<Rightarrow> bytes
       \<Rightarrow> ('w, 'r) desktop_app \<Rightarrow> (flow_error + unit) \<times> ('w, 'r) desktop_app" where
  "cl_enter lower kekStore f loginRes kek privateKey app =
     (let app1 = cl_start_session (login_input f loginRes) kek privateKey app
      in case kekStore (lower (lf_username f)) (toBase64 kek) of
          Inl m \<Rightarrow> (Inl (CallFailed m), app1)
        | Inr _ \<Rightarrow>
            (case setItem (storage (dk_tokens (da_dk app1))) LAST_USERNAME_KEY (Text (lower (lf_username f))) of
               Inl _ \<Rightarrow> (Inl StorageThrows, app1)
             | Inr ls \<Rightarrow> (Inr (), on_dk_tokens (\<lambda>ts. ts\<lparr>storage := ls\<rparr>) app1)))"

definition default_params_json :: json where
  "default_params_json = JObj ([(''t'', JNum (int (kp_t DEFAULT_KEK_PARAMS))), (''m'', JNum (int (kp_m DEFAULT_KEK_PARAMS))),
       (''p'', JNum (int (kp_p DEFAULT_KEK_PARAMS)))]
     @ (case kp_v DEFAULT_KEK_PARAMS of None \<Rightarrow> [] | Some v \<Rightarrow> [(''v'', JNum (int v))]))"

definition keypair_init_body :: "string \<Rightarrow> bytes \<Rightarrow> bytes \<Rightarrow> bytes \<Rightarrow> json" where
  "keypair_init_body password publicKey kekSalt blob =
     JObj [(''current_master_password'', JStr password), (''new_public_key'', JStr (toBase64 publicKey)),
       (''new_private_key_enc'', JStr (toBase64 blob)), (''new_kek_salt'', JStr (toBase64 kekSalt)),
       (''new_kek_params'', default_params_json)]"

text \<open>An account whose key pair is a placeholder gets one under the password just used.\<close>

definition cl_make_keypair ::
    "'r webcrypto \<Rightarrow> (string \<Rightarrow> string) \<Rightarrow> 'w shell \<Rightarrow> (string \<Rightarrow> string \<Rightarrow> string + unit) \<Rightarrow> login_form \<Rightarrow> json
       \<Rightarrow> ('w, 'r) desktop_app \<Rightarrow> (flow_error + unit) \<times> ('w, 'r) desktop_app" where
  "cl_make_keypair wc lower sh kekStore f loginRes app =
     (let ((publicKey, privateKey), r1) = generateX25519Keypair wc (bf_rng (da_buf app));
          (creds, r2) = new_credentials wc (lf_password f) privateKey r1;
          app1 = app\<lparr>da_buf := (da_buf app)\<lparr>bf_rng := r2\<rparr>\<rparr>
      in case creds of
          Inl e \<Rightarrow> (Inl (CryptoFailed e), app1)
        | Inr (kekSalt, blob) \<Rightarrow>
            (case cl_initKeypair sh (str_or_undefined loginRes ''access_token'')
                    (keypair_init_body (lf_password f) publicKey kekSalt blob) (da_dk app1) of
               (Inl e, d1) \<Rightarrow> (Inl (Api e), app1\<lparr>da_dk := d1\<rparr>)
             | (Inr _, d1) \<Rightarrow>
                 cl_enter lower kekStore f loginRes (deriveKEK wc (lf_password f) kekSalt DEFAULT_KEK_PARAMS) privateKey
                   (app1\<lparr>da_dk := d1\<rparr>)))"

definition placeholder_keypair :: "json \<Rightarrow> bool" where
  "placeholder_keypair keypair \<longleftrightarrow>
     Option.bind (json_field keypair ''kek_params'') (\<lambda>p. json_str_field p ''alg'') = Some ''none''"

text \<open>The error of a failed key pair request is its message, which only a toast reads.\<close>

definition cl_runLogin ::
    "'r webcrypto \<Rightarrow> (string \<Rightarrow> string) \<Rightarrow> 'w shell \<Rightarrow> (string \<Rightarrow> string \<Rightarrow> string + unit) \<Rightarrow> login_form
       \<Rightarrow> ('w, 'r) desktop_app \<Rightarrow> (flow_error + unit) \<times> ('w, 'r) desktop_app" where
  "cl_runLogin wc lower sh kekStore f app =
     (let (r, _, d1) = cl_run_mutation sh (cl_useLoginMutation (login_request lower f)) (da_dk app)
      in case r of
          Inl e \<Rightarrow> (Inl (Api e), app\<lparr>da_dk := d1\<rparr>)
        | Inr body \<Rightarrow>
            (let loginRes = nullish body JNull
             in if loginRes = JNull then (Inl NoBody, app\<lparr>da_dk := d1\<rparr>)
                else
                  (let (kr, d2) = cl_fetchMyKeypair sh (str_or_undefined loginRes ''access_token'') d1;
                       app2 = app\<lparr>da_dk := d2\<rparr>
                   in case kr of
                       Inl _ \<Rightarrow> (Inl (CallFailed ''keypair''), app2)
                     | Inr keypair \<Rightarrow>
                         if keypair = JNull then (Inl NoBody, app2)
                         else if placeholder_keypair keypair then cl_make_keypair wc lower sh kekStore f loginRes app2
                         else (case unlock_keypair wc (lf_password f) keypair of
                             Inl e \<Rightarrow> (Inl e, app2)
                           | Inr (kek, privateKey) \<Rightarrow> cl_enter lower kekStore f loginRes kek privateKey app2))))"

definition cl_login_onSubmit ::
    "'r webcrypto \<Rightarrow> (string \<Rightarrow> string) \<Rightarrow> 'w shell \<Rightarrow> (string \<Rightarrow> string \<Rightarrow> string + unit) \<Rightarrow> string option \<Rightarrow> bool
       \<Rightarrow> login_form \<Rightarrow> ('w, 'r) desktop_app \<Rightarrow> login_outcome \<times> ('w, 'r) desktop_app" where
  "cl_login_onSubmit wc lower sh kekStore fromPath busy f app =
     (if busy then (Ignored, app)
      else if lf_username f = [] \<or> lf_password f = [] then (MissingField, app)
      else
        (case cl_runLogin wc lower sh kekStore (f\<lparr>lf_totp := None, lf_remember := None\<rparr>) app of
           (Inr _, app1) \<Rightarrow> (LoggedIn (nullish fromPath ''/inventory''), app1)
         | (Inl err, app1) \<Rightarrow>
             (case err of
                Api (ApiErr e) \<Rightarrow> if code e = ErrCode MFARequired then (AskTotp, app1) else (LoginFailed err, app1)
              | _ \<Rightarrow> (LoginFailed err, app1))))"

definition cl_onTotpSubmit ::
    "'r webcrypto \<Rightarrow> (string \<Rightarrow> string) \<Rightarrow> 'w shell \<Rightarrow> (string \<Rightarrow> string \<Rightarrow> string + unit) \<Rightarrow> string option \<Rightarrow> bool
       \<Rightarrow> login_form \<Rightarrow> string \<Rightarrow> ('w, 'r) desktop_app \<Rightarrow> login_outcome \<times> ('w, 'r) desktop_app" where
  "cl_onTotpSubmit wc lower sh kekStore fromPath busy f totpCode app =
     (if busy then (Ignored, app)
      else if js_length totpCode < 6 then (MissingField, app)
      else
        (case cl_runLogin wc lower sh kekStore (f\<lparr>lf_totp := Some totpCode, lf_remember := None\<rparr>) app of
           (Inr _, app1) \<Rightarrow> (LoggedIn (nullish fromPath ''/inventory''), app1)
         | (Inl err, app1) \<Rightarrow> (LoginFailed err, app1)))"

subsection \<open>The bootstrap administrator\<close>

definition cl_bootstrap_sign_in ::
    "'r webcrypto \<Rightarrow> SessionInput \<Rightarrow> string \<Rightarrow> ('w, 'r) desktop_app \<Rightarrow> sign_in_outcome \<times> ('w, 'r) desktop_app" where
  "cl_bootstrap_sign_in wc si page app =
     (case cl_setBootstrapSession (wc_random wc 32) si app of
        (Inl _, app1) \<Rightarrow> (SignInFailed StorageThrows, app1)
      | (Inr _, app1) \<Rightarrow> (SignedInTo page, app1))"

definition cl_admin_check :: "bool \<Rightarrow> 'w shell \<Rightarrow> 'w desktop \<Rightarrow> string option \<times> 'w desktop" where
  "cl_admin_check setup_page sh d =
     (case cl_bootstrapStatus sh d of
        (Inr j, d1) \<Rightarrow>
          (if j = JNull then None
           else if setup_page then (if setup_complete j then Some ''/admin-login'' else None)
           else (if setup_complete j then None else Some ''/admin-setup''), d1)
      | (Inl _, d1) \<Rightarrow> (None, d1))"

definition cl_admin_setup_submit ::
    "'r webcrypto \<Rightarrow> (string \<Rightarrow> string) \<Rightarrow> 'w shell \<Rightarrow> bool \<Rightarrow> string \<Rightarrow> string \<Rightarrow> string \<Rightarrow> ('w, 'r) desktop_app
       \<Rightarrow> sign_in_outcome \<times> ('w, 'r) desktop_app" where
  "cl_admin_setup_submit wc lower sh loading user password passwordConfirm app =
     (if loading then (SignInIgnored, app)
      else if user = [] \<or> password = [] then (SignInMissingField, app)
      else if password \<noteq> passwordConfirm then (PasswordsNotEqual, app)
      else if js_length password < 12 then (PasswordShort, app)
      else case cl_bootstrapSetup sh (trim (lower user)) password (da_dk app) of
          (Inl e, d1) \<Rightarrow> (SignInFailed (Api e), app\<lparr>da_dk := d1\<rparr>)
        | (Inr res, d1) \<Rightarrow>
            if res = JNull then (SignInFailed NoBody, app\<lparr>da_dk := d1\<rparr>)
            else cl_bootstrap_sign_in wc (other_session (trim (lower user)) res None) ''/inventory'' (app\<lparr>da_dk := d1\<rparr>))"

definition cl_admin_login_submit ::
    "'r webcrypto \<Rightarrow> (string \<Rightarrow> string) \<Rightarrow> 'w shell \<Rightarrow> bool \<Rightarrow> string \<Rightarrow> string \<Rightarrow> ('w, 'r) desktop_app
       \<Rightarrow> sign_in_outcome \<times> ('w, 'r) desktop_app" where
  "cl_admin_login_submit wc lower sh loading user password app =
     (if loading then (SignInIgnored, app)
      else if user = [] \<or> password = [] then (SignInMissingField, app)
      else case cl_bootstrapLogin sh (trim (lower user)) password (da_dk app) of
          (Inl e, d1) \<Rightarrow> (SignInFailed (Api e), app\<lparr>da_dk := d1\<rparr>)
        | (Inr res, d1) \<Rightarrow>
            if res = JNull then (SignInFailed NoBody, app\<lparr>da_dk := d1\<rparr>)
            else cl_bootstrap_sign_in wc (other_session (trim (lower user)) res None) ''/inventory'' (app\<lparr>da_dk := d1\<rparr>))"

subsection \<open>The enrolment wizard\<close>

definition cl_isGateMode :: "string option \<Rightarrow> cl_auth_state \<Rightarrow> bool" where
  "cl_isGateMode tmpToken auth \<longleftrightarrow> ca_mustSetupTOTP auth \<and> \<not> truthy tmpToken"

definition cl_totp_token :: "string option \<Rightarrow> cl_auth_state \<Rightarrow> string" where
  "cl_totp_token tmpToken auth =
     (if cl_isGateMode tmpToken auth then nullish (ca_accessToken auth) [] else nullish tmpToken [])"

definition cl_totp_effect ::
    "'w shell \<Rightarrow> string option \<Rightarrow> totp_page \<times> ('w, 'r) desktop_app \<Rightarrow> totp_page \<times> ('w, 'r) desktop_app" where
  "cl_totp_effect sh tmpToken s =
     (let (p, app) = s; token = cl_totp_token tmpToken (da_auth app)
      in if token = [] \<or> tp_phase p \<noteq> Enroll then s
         else case cl_useTOTPInitMutation sh token (da_dk app) of
             (Inl m, d1) \<Rightarrow> (p, app\<lparr>da_dk := d1\<rparr>)
           | (Inr res, d1) \<Rightarrow>
               if res = JNull then (p, app\<lparr>da_dk := d1\<rparr>)
               else (p\<lparr>tp_otpAuthUrl := str_or_undefined res ''otpauth_uri'', tp_secretBase32 := str_or_undefined res ''secret_base32'',
                       tp_phase := Verify\<rparr>, app\<lparr>da_dk := d1\<rparr>))"

definition cl_totp_onVerify ::
    "'w shell \<Rightarrow> string option \<Rightarrow> totp_page \<times> ('w, 'r) desktop_app \<Rightarrow> totp_page \<times> ('w, 'r) desktop_app" where
  "cl_totp_onVerify sh tmpToken s =
     (let (p, app) = s; token = cl_totp_token tmpToken (da_auth app)
      in if tp_code p = [] \<or> token = [] then s
         else case cl_useTOTPVerifyMutation sh token (tp_code p) (da_dk app) of
             (Inl m, d1) \<Rightarrow> (p, app\<lparr>da_dk := d1\<rparr>)
           | (Inr res, d1) \<Rightarrow>
               if res = JNull then (p, app\<lparr>da_dk := d1\<rparr>)
               else (p\<lparr>tp_recoveryCodes := json_strings (json_field res ''recovery_codes''), tp_phase := RecoveryCodes\<rparr>,
                     app\<lparr>da_dk := d1\<rparr>))"

definition cl_onConfirmSavedCodes :: "string option \<Rightarrow> ('w, 'r) desktop_app \<Rightarrow> ('w, 'r) desktop_app \<times> string" where
  "cl_onConfirmSavedCodes tmpToken app =
     (if cl_isGateMode tmpToken (da_auth app) then (cl_clearMustSetupTOTP app, ''/inventory'') else (app, ''/login''))"

subsection \<open>The connection settings\<close>

datatype test_status = TestIdle | TestOk "string option" | TestInvalid | TestHttp nat | TestUnreachable string

record config_page =
  cf_url :: string
  cf_skipTls :: bool
  cf_offlineMode :: bool
  cf_contentProtection :: bool
  cf_error :: bool
  cf_certFileName :: "string option"
  cf_certP12Base64 :: string
  cf_certPassword :: string
  cf_testStatus :: test_status

definition config_opened :: "ConnectionState \<Rightarrow> config_page" where
  "config_opened s = \<lparr>cf_url = (if serverUrl s = [] then ''https://'' else serverUrl s), cf_skipTls = tlsSkipVerify s,
     cf_offlineMode = offlineModeEnabled s, cf_contentProtection = contentProtectionEnabled s, cf_error = False,
     cf_certFileName = None, cf_certP12Base64 = clientCertP12Base64 s, cf_certPassword = clientCertPassword s,
     cf_testStatus = TestIdle\<rparr>"

definition http_url :: "string \<Rightarrow> bool" where
  "http_url u \<longleftrightarrow> take 7 u = ''http://'' \<or> take 8 u = ''https://''"

text \<open>The test of the address typed; the texts for the failures are left out.\<close>

definition handleTestConnection :: "'w shell \<Rightarrow> config_page \<Rightarrow> 'w desktop \<Rightarrow> config_page \<times> 'w desktop" where
  "handleTestConnection sh p d =
     (let trimmed = strip_trailing_slash (trim (cf_url p))
      in if \<not> http_url trimmed then (p\<lparr>cf_testStatus := TestInvalid\<rparr>, d)
         else case browser_fetch sh \<lparr>rq_url = trimmed @ ''/healthz'', rq_method = GET, rq_headers = [], rq_body = None\<rparr> d of
             (NetworkFailure m, d1) \<Rightarrow> (p\<lparr>cf_testStatus := TestUnreachable m\<rparr>, d1)
           | (Response res, d1) \<Rightarrow>
               (p\<lparr>cf_testStatus := (if rs_ok res then TestOk (Option.bind (rs_json res) (\<lambda>j. json_str_field j ''status''))
                    else TestHttp (rs_status res))\<rparr>, d1))"

text \<open>The file as the browser's data URL: what stands between the first two commas.\<close>

definition handleFileChange :: "string \<Rightarrow> string \<Rightarrow> config_page \<Rightarrow> config_page" where
  "handleFileChange name dataUrl p =
     p\<lparr>cf_certFileName := Some name,
       cf_certP12Base64 := (case split_at_char (CHR '','') dataUrl of _ # b64 # _ \<Rightarrow> b64 | _ \<Rightarrow> [])\<rparr>"

definition handleRemoveCert :: "config_page \<times> connection_world \<Rightarrow> config_page \<times> connection_world" where
  "handleRemoveCert s = ((fst s)\<lparr>cf_certP12Base64 := [], cf_certPassword := [], cf_certFileName := None\<rparr>, cn_clearClientCert (snd s))"

definition config_handleSave :: "bool \<Rightarrow> config_page \<Rightarrow> connection_world \<Rightarrow> (config_page + string) \<times> connection_world" where
  "config_handleSave isTauri p w =
     (let trimmed = trim (cf_url p)
      in if \<not> http_url trimmed then (Inl (p\<lparr>cf_error := True\<rparr>), w)
         else (Inr ''/login'',
           cn_setContentProtection isTauri (cf_contentProtection p)
             (cn_setOfflineMode (cf_offlineMode p)
               (cn_setClientCert (cf_certP12Base64 p) (cf_certPassword p)
                 (cn_setConnection trimmed (cf_skipTls p) w)))))"


subsection \<open>Lemmas\<close>

lemma cl_start_session_frame:
  "bf_heap (da_buf (cl_start_session si kek key app)) (bf_next (da_buf app)) = Some kek"
  "tokens_storable (dk_tokens (da_dk app)) \<Longrightarrow> tokens_storable (dk_tokens (da_dk (cl_start_session si kek key app)))
     \<and> cl_getAccessToken (dk_tokens (da_dk (cl_start_session si kek key app))) = Some (si_accessToken si)
     \<and> cl_getRefreshToken (dk_tokens (da_dk (cl_start_session si kek key app))) = Some (si_refreshToken si)"
  using cl_tokens.rotate [of "dk_tokens (da_dk app)"]
  by (simp_all add: cl_start_session_def alloc_def cl_setSession_def on_dk_tokens_def cl_sync_def)

text \<open>What \<open>cl_enter\<close> leaves: a session, in each of its three outcomes.\<close>

lemma cl_enter_session:
  assumes "cl_enter lower kekStore f loginRes kek key app = (r, app1)"
  shows "da_auth app1 = da_auth (cl_start_session (login_input f loginRes) kek key app)"
    "cl_private_key app1 = Some key"
    "da_buf app1 = da_buf (cl_start_session (login_input f loginRes) kek key app)"
  using assms cl_start_session_facts(1) [of "login_input f loginRes" kek key app]
  by (auto simp: cl_enter_def Let_def on_dk_tokens_def cl_private_key_def split: sum.splits)

lemma LAST_USERNAME_other: "LAST_USERNAME_KEY \<noteq> REFRESH_KEY"
  by (simp add: LAST_USERNAME_KEY_def REFRESH_KEY_def)

lemma setItem_text:
  assumes "setItem ls k (Text v) = Inr ls'" and "can_store ls"
  shows "getItem ls' k = Inr (Some (Text v))" "k' \<noteq> k \<Longrightarrow> getItem ls' k' = getItem ls k'" "can_store ls'"
  using assms by (auto simp: storage_defs split: if_splits)

lemma cl_enter_success:
  assumes "cl_enter lower kekStore f loginRes kek key app = (Inr (), app1)" and "tokens_storable (dk_tokens (da_dk app))"
  shows "getItem (storage (dk_tokens (da_dk app1))) LAST_USERNAME_KEY = Inr (Some (Text (lower (lf_username f))))"
    "cl_getRefreshToken (dk_tokens (da_dk app1)) = Some (str_or_undefined loginRes ''refresh_token'')"
    "tokens_storable (dk_tokens (da_dk app1))"
    "kekStore (lower (lf_username f)) (toBase64 kek) = Inr ()"
proof -
  let ?a = "cl_start_session (login_input f loginRes) kek key app"
  note st = cl_start_session_frame(2) [OF assms(2), of "login_input f loginRes" kek key]
  obtain ls where ls: "setItem (storage (dk_tokens (da_dk ?a))) LAST_USERNAME_KEY (Text (lower (lf_username f))) = Inr ls"
    and a: "app1 = on_dk_tokens (\<lambda>ts. ts\<lparr>storage := ls\<rparr>) ?a"
    and k: "kekStore (lower (lf_username f)) (toBase64 kek) = Inr ()"
    using assms(1) by (auto simp: cl_enter_def Let_def split: sum.splits)
  have can: "can_store (storage (dk_tokens (da_dk ?a)))" using st by (simp add: tokens_storable_def)
  note i = setItem_text [OF ls can]
  have t: "dk_tokens (da_dk app1) = (dk_tokens (da_dk ?a))\<lparr>storage := ls\<rparr>" by (simp add: a on_dk_tokens_def)
  show "getItem (storage (dk_tokens (da_dk app1))) LAST_USERNAME_KEY = Inr (Some (Text (lower (lf_username f))))"
    using i(1) by (simp add: t)
  show "cl_getRefreshToken (dk_tokens (da_dk app1)) = Some (str_or_undefined loginRes ''refresh_token'')"
    using i(2) [OF LAST_USERNAME_other [symmetric]] st by (simp add: t cl_getRefreshToken_def login_input_def)
  show "tokens_storable (dk_tokens (da_dk app1))" using i(3) by (simp add: t tokens_storable_def)
  show "kekStore (lower (lf_username f)) (toBase64 kek) = Inr ()" by (rule k)
qed

text \<open>A server that holds the key pair the desktop sent.\<close>

definition desktop_credentials :: "bytes \<Rightarrow> bytes \<Rightarrow> json \<Rightarrow> bool" where
  "desktop_credentials salt blob kp \<longleftrightarrow> json_str_field kp ''private_key_enc'' = Some (toBase64 blob)
     \<and> json_str_field kp ''kek_salt'' = Some (toBase64 salt) \<and> json_field kp ''kek_params'' = Some default_params_json"

lemma default_params_back:
  "kek_params_of_json default_params_json = Some DEFAULT_KEK_PARAMS" "json_str_field default_params_json ''alg'' = None"
  by (simp_all add: kek_params_of_json_def default_params_json_def json_positive_def DEFAULT_KEK_PARAMS_def json_str_field_def)

lemma desktop_credentials_unlock:
  assumes "webcrypto_laws wc" and "new_credentials wc pw p r = (Inr (salt, blob), r')" and "desktop_credentials salt blob kp"
  shows "unlock_keypair wc pw kp = Inr (deriveKEK wc pw salt DEFAULT_KEK_PARAMS, p)" "\<not> no_keypair (Some kp)"
    "\<not> placeholder_keypair kp" "kp \<noteq> JNull"
proof -
  show "unlock_keypair wc pw kp = Inr (deriveKEK wc pw salt DEFAULT_KEK_PARAMS, p)"
    using assms(3) new_credentials_shape(1) [OF assms(1,2)]
    by (simp add: unlock_keypair_def keypair_params_def desktop_credentials_def str_or_undefined_def base64_back default_params_back)
  have "\<not> falsy kp" using assms(3) by (cases kp) (auto simp: desktop_credentials_def json_str_field_def)
  with assms(3) show "\<not> no_keypair (Some kp)" "\<not> placeholder_keypair kp" "kp \<noteq> JNull"
    by (auto simp: no_keypair_def placeholder_keypair_def desktop_credentials_def default_params_back)
qed

lemma made_keypair:
  assumes "webcrypto_laws wc" and "cl_make_keypair wc lower sh kekStore f loginRes app = (Inr (), app1)"
  obtains priv ra salt blob rb d1 where
    "new_credentials wc (lf_password f) priv ra = (Inr (salt, blob), rb)"
    "cl_initKeypair sh (str_or_undefined loginRes ''access_token'')
        (keypair_init_body (lf_password f) (wc_pub wc priv) salt blob) (da_dk app) = (Inr (), d1)"
    "cl_enter lower kekStore f loginRes (deriveKEK wc (lf_password f) salt DEFAULT_KEK_PARAMS) priv
        (app\<lparr>da_buf := (da_buf app)\<lparr>bf_rng := rb\<rparr>, da_dk := d1\<rparr>) = (Inr (), app1)"
proof -
  obtain priv ra where g: "generateX25519Keypair wc (bf_rng (da_buf app)) = ((wc_pub wc priv, priv), ra)"
    using generated_keypair [OF assms(1)] .
  obtain c rb where c: "new_credentials wc (lf_password f) priv ra = (c, rb)" by fastforce
  obtain salt blob where sb: "c = Inr (salt, blob)"
    using assms(2) g c by (cases c) (auto simp: cl_make_keypair_def Let_def)
  obtain m d1 where i: "cl_initKeypair sh (str_or_undefined loginRes ''access_token'')
      (keypair_init_body (lf_password f) (wc_pub wc priv) salt blob) (da_dk app) = (m, d1)" by fastforce
  have "m = Inr ()" using assms(2) g c sb i by (cases m) (auto simp: cl_make_keypair_def Let_def)
  with that [of priv ra salt blob rb d1] assms(2) g c sb i show thesis by (auto simp: cl_make_keypair_def Let_def)
qed

subsection \<open>Properties\<close>

text \<open>
  A key pair made on the desktop opens everywhere. When the desktop login has replaced a
  placeholder, its session holds a private key whose public key it has sent, and with the credentials
  it has sent a login with the same password opens that same private key on the web and on the desktop.
\<close>
theorem keypair_made_on_desktop_opens_on_web:
  assumes "webcrypto_laws wc"
    and "cl_make_keypair wc lower sh kekStore f loginRes app = (Inr (), app1)"
  shows "\<exists>priv salt blob d1. cl_private_key app1 = Some priv
    \<and> cl_initKeypair sh (str_or_undefined loginRes ''access_token'')
        (keypair_init_body (lf_password f) (wc_pub wc priv) salt blob) (da_dk app) = (Inr (), d1)
    \<and> (\<forall>g kp res (web :: ('w2, 'r) web_app). lf_password g = lf_password f \<longrightarrow> desktop_credentials salt blob kp \<longrightarrow>
        (\<exists>kek app2. finish_login wc g res (Some kp) web = (Inr (), app2) \<and> session_private_key app2 = Some priv
           \<and> unlock_keypair wc (lf_password g) kp = Inr (kek, priv)))"
proof -
  obtain priv ra salt blob rb d1 where
    c: "new_credentials wc (lf_password f) priv ra = (Inr (salt, blob), rb)"
    and i: "cl_initKeypair sh (str_or_undefined loginRes ''access_token'')
        (keypair_init_body (lf_password f) (wc_pub wc priv) salt blob) (da_dk app) = (Inr (), d1)"
    and e: "cl_enter lower kekStore f loginRes (deriveKEK wc (lf_password f) salt DEFAULT_KEK_PARAMS) priv
        (app\<lparr>da_buf := (da_buf app)\<lparr>bf_rng := rb\<rparr>, da_dk := d1\<rparr>) = (Inr (), app1)"
    using made_keypair [OF assms] .
  have w: "\<exists>kek app2. finish_login wc g res (Some kp) web = (Inr (), app2) \<and> session_private_key app2 = Some priv
      \<and> unlock_keypair wc (lf_password g) kp = Inr (kek, priv)"
    if "lf_password g = lf_password f" "desktop_credentials salt blob kp" for g kp res and web :: "('w2, 'r) web_app"
    using desktop_credentials_unlock [OF assms(1) c that(2)] that(1) by (simp add: finish_login_def start_session_key)
  from cl_enter_session(2) [OF e] i w show ?thesis by blast
qed

text \<open>
  A desktop login can fail after it has succeeded. When the keyring refuses the key, the page reports
  a failed login and stays where it is, while the session is installed: the user is signed in, with
  tokens and private key.
\<close>
theorem keyring_failure_reported_as_failed_login:
  assumes "tokens_storable (dk_tokens (da_dk app))" and "kekStore (lower (lf_username f)) (toBase64 kek) = Inl m"
    and "cl_enter lower kekStore f loginRes kek key app = (r, app1)"
  shows "r = Inl (CallFailed m) \<and> cl_selectIsAuthenticated (da_auth app1) \<and> cl_private_key app1 = Some key
    \<and> cl_getAccessToken (dk_tokens (da_dk app1)) = Some (str_or_undefined loginRes ''access_token'')"
proof -
  have "r = Inl (CallFailed m)" "app1 = cl_start_session (login_input f loginRes) kek key app"
    using assms(2,3) by (auto simp: cl_enter_def Let_def)
  then show ?thesis
    using cl_start_session_facts [of "login_input f loginRes" kek key app]
      cl_start_session_frame(2) [OF assms(1), of "login_input f loginRes" kek key]
    by (simp add: cl_selectIsAuthenticated_def login_input_def)
qed


text \<open>A restart: the module variables start fresh, storage and disk stay; the connection settings come
  back as theory Connection shows.\<close>

definition cl_restart :: "'r \<Rightarrow> ('w, 'r) desktop_app \<Rightarrow> ('w, 'r) desktop_app" where
  "cl_restart rng app = (on_dk_tokens (\<lambda>ts. ts\<lparr>accessTokenInMemory := None\<rparr>) app)
     \<lparr>da_auth := cl_initial_auth, da_buf := no_buffers rng\<rparr>"

lemma unlock_keypair_opens:
  assumes "unlock_keypair wc pw kp = Inr (kek, priv)"
  obtains blob where "fromBase64 (str_or_undefined kp ''private_key_enc'') = Inr blob" "decryptPrivateKey wc blob kek = Inr priv"
  using assms by (auto simp: unlock_keypair_def Let_def split: sum.splits option.splits)


text \<open>
  Saved settings are the ones in use and the ones shown again. After a valid address is saved, the
  store and the fetch wrapper have the address without its last slash, the certificate and the flags of
  the form; a restart keeps them, and opening the page again and saving it changes nothing.
\<close>
theorem saved_settings_are_kept:
  assumes "config_handleSave t p w = (Inr page, w1)" and "u = strip_trailing_slash (trim (cf_url p))"
    and "http_url u" and "trim u = u" and "strip_trailing_slash u = u"
  shows "page = ''/login'' \<and> cc_baseUrl (cw_config w1) = u \<and> cc_tlsSkipVerify (cw_config w1) = cf_skipTls p
    \<and> cc_clientCertP12Base64 (cw_config w1) = cf_certP12Base64 p \<and> cc_clientCertPassword (cw_config w1) = cf_certPassword p
    \<and> cc_offlineModeEnabled (cw_config w1) = cf_offlineMode p \<and> (t \<longrightarrow> cw_hidden w1 = cf_contentProtection p)
    \<and> cw_store (restart_connection t w1) = cw_store w1
    \<and> config_handleSave t (config_opened (cw_store w1)) w1 = (Inr ''/login'', w1)"
proof -
  from assms(1) have w1: "page = ''/login''" "w1 = cn_setContentProtection t (cf_contentProtection p)
      (cn_setOfflineMode (cf_offlineMode p) (cn_setClientCert (cf_certP12Base64 p) (cf_certPassword p)
        (cn_setConnection (trim (cf_url p)) (cf_skipTls p) w)))"
    by (auto simp: config_handleSave_def Let_def split: if_splits)
  have ne: "u \<noteq> []" using assms(3) by (auto simp: http_url_def)
  have s: "cw_store w1 = \<lparr>serverUrl = u, tlsSkipVerify = cf_skipTls p, clientCertP12Base64 = cf_certP12Base64 p,
      clientCertPassword = cf_certPassword p, offlineModeEnabled = cf_offlineMode p, contentProtectionEnabled = cf_contentProtection p\<rparr>"
    by (simp add: w1(2) connection_defs Let_def assms(2))
  have again: "config_handleSave t (config_opened (cw_store w1)) w1 = (Inr ''/login'', w1)"
    using assms(3-5) ne
    by (simp add: config_handleSave_def config_opened_def s)
      (simp add: w1(2) connection_defs config_defs Let_def assms(2))
  have "cw_store (restart_connection t w1) = cw_store w1"
    by (simp add: restart_connection_def onRehydrateStorage_def native_content_protection_def Let_def w1(2) connection_defs)
  moreover have "cc_baseUrl (cw_config w1) = u \<and> cc_tlsSkipVerify (cw_config w1) = cf_skipTls p
    \<and> cc_clientCertP12Base64 (cw_config w1) = cf_certP12Base64 p \<and> cc_clientCertPassword (cw_config w1) = cf_certPassword p
    \<and> cc_offlineModeEnabled (cw_config w1) = cf_offlineMode p \<and> (t \<longrightarrow> cw_hidden w1 = cf_contentProtection p)"
    using assms(5) by (simp add: w1(2) connection_defs config_defs Let_def assms(2))
  ultimately show ?thesis using again w1(1) by blast
qed

definition demo_config_page :: config_page where
  "demo_config_page = (config_opened initial_connection)\<lparr>cf_url := '' https://h/ '', cf_skipTls := True\<rparr>"

lemma saved_settings_are_kept_witness:
  "cw_store (restart_connection True (snd (config_handleSave True demo_config_page fresh_connection)))
     = cw_store (snd (config_handleSave True demo_config_page fresh_connection))"
proof -
  have u: "''https://h'' = strip_trailing_slash (trim (cf_url demo_config_page))" by code_simp
  have v: "http_url ''https://h''" "trim ''https://h'' = ''https://h''" "strip_trailing_slash ''https://h'' = ''https://h''"
    by code_simp+
  have "http_url (trim (cf_url demo_config_page))" by code_simp
  then obtain page w1 where w1: "config_handleSave True demo_config_page fresh_connection = (Inr page, w1)"
    by (simp add: config_handleSave_def Let_def)
  from saved_settings_are_kept [OF w1 u v] w1 show ?thesis by simp
qed

text \<open>The connection test goes over the browser's \<open>fetch\<close> whatever transport the settings select.\<close>

lemma test_ignores_settings:
  assumes "handleTestConnection sh p d = (p1, d1)"
  shows "\<exists>sent. dk_sent d1 = dk_sent d @ sent \<and> (\<forall>(tr, rq)\<in>set sent. tr = BrowserFetch)"
  using assms by (auto simp: handleTestConnection_def browser_fetch_def Let_def split: if_splits prod.splits fetch_result.splits)

subsection \<open>Concrete runs\<close>

definition desktop_run :: "fetch_result list \<Rightarrow> (demo_world, nat) desktop_app" where
  "desktop_run script = \<lparr>da_dk = DesktopClient.demo_desktop False script, da_auth = cl_initial_auth, da_buf = no_buffers 0\<rparr>"

lemma served:
  assumes "transport_of d = BrowserFetch" and "dk_world d = (Response res # rs, t)"
  shows "rawFetch demo_shell rq d = (Response res, d\<lparr>dk_world := (rs, t), dk_sent := dk_sent d @ [(BrowserFetch, rq)]\<rparr>)"
    "browser_fetch demo_shell rq d = (Response res, d\<lparr>dk_world := (rs, t), dk_sent := dk_sent d @ [(BrowserFetch, rq)]\<rparr>)"
  using assms by (simp_all add: rawFetch_def browser_fetch_def transmit_def demo_shell_def)

lemma cl_enter_frame:
  assumes "cl_enter lower kekStore f loginRes kek key app = (r, app1)"
  shows "dk_config (da_dk app1) = dk_config (da_dk app)" "dk_world (da_dk app1) = dk_world (da_dk app)"
    "dk_disk (da_dk app1) = dk_disk (da_dk app)"
  using assms by (auto simp: cl_enter_def Let_def on_dk_tokens_def cl_start_session_def alloc_def cl_setSession_def cl_sync_def
      split: sum.splits)

lemma desktop_run_simps [simp]:
  "tokens_storable (dk_tokens (da_dk (desktop_run script)))" "da_buf (desktop_run script) = no_buffers 0"
  "dk_world (da_dk (desktop_run script)) = (script, 1000)" "transport_of (da_dk (desktop_run script)) = BrowserFetch"
  by (simp_all add: desktop_run_def)

lemma enter_runs:
  assumes "tokens_storable (dk_tokens (da_dk app))" and "transport_of (da_dk app) = BrowserFetch"
  obtains app1 where "cl_enter id (\<lambda>u k. Inr ()) demo_form demo_login_json kek key app = (Inr (), app1)"
    "transport_of (da_dk app1) = BrowserFetch" "dk_world (da_dk app1) = dk_world (da_dk app)"
proof -
  let ?a = "cl_start_session (login_input demo_form demo_login_json) kek key app"
  have "can_store (storage (dk_tokens (da_dk ?a)))"
    using cl_start_session_frame(2) [OF assms(1)] by (simp add: tokens_storable_def)
  then obtain ls where "setItem (storage (dk_tokens (da_dk ?a))) LAST_USERNAME_KEY (Text ''ada'') = Inr ls"
    by (auto simp: setItem_def can_store_def)
  then obtain app1 where e: "cl_enter id (\<lambda>u k. Inr ()) demo_form demo_login_json kek key app = (Inr (), app1)"
    by (simp add: cl_enter_def Let_def demo_form_def)
  note f = cl_enter_frame [OF e]
  from f(1,3) have "transport_of (da_dk app1) = BrowserFetch" using assms(2) by (simp add: transport_of_def)
  with that [OF e] f(2) show thesis by simp
qed

lemma keyring_failure_reported_as_failed_login_witness:
  "cl_selectIsAuthenticated (da_auth (snd (cl_enter id (\<lambda>u k. Inl ''locked'') demo_form demo_login_json [1] [2] (desktop_run []))))"
proof -
  obtain r app1 where e: "cl_enter id (\<lambda>u k. Inl ''locked'') demo_form demo_login_json [1] [2] (desktop_run []) = (r, app1)"
    by fastforce
  from keyring_failure_reported_as_failed_login [OF desktop_run_simps(1) refl e] e show ?thesis by simp
qed

lemma served_keypair_init:
  assumes "transport_of d = BrowserFetch" and "dk_world d = (Response \<lparr>rs_status = 200, rs_json = Some (JObj [])\<rparr> # rs, t)"
    and "tokens_storable (dk_tokens d)"
  obtains d1 where "cl_initKeypair demo_shell token body d = (Inr (), d1)" "tokens_storable (dk_tokens d1)" "transport_of d1 = BrowserFetch"
  using served(2) [OF assms(1,2)] assms(1,3) that by (simp add: cl_initKeypair_def rs_ok_def transport_of_def)

lemma keypair_made_on_desktop_opens_on_web_witness:
  "\<exists>app1 priv. cl_make_keypair toy_crypto id demo_shell (\<lambda>u k. Inr ()) demo_form demo_login_json
      (desktop_run [Response \<lparr>rs_status = 200, rs_json = Some (JObj [])\<rparr>]) = (Inr (), app1) \<and> cl_private_key app1 = Some priv"
proof -
  let ?app = "desktop_run [Response \<lparr>rs_status = 200, rs_json = Some (JObj [])\<rparr>]"
  obtain priv ra where g: "generateX25519Keypair toy_crypto 0 = ((wc_pub toy_crypto priv, priv), ra)"
    using generated_keypair [OF toy_laws] .
  obtain salt blob rb where c: "new_credentials toy_crypto (lf_password demo_form) priv ra = (Inr (salt, blob), rb)"
    using toy_credentials by blast
  let ?body = "keypair_init_body (lf_password demo_form) (wc_pub toy_crypto priv) salt blob"
  obtain d1 where i: "cl_initKeypair demo_shell (str_or_undefined demo_login_json ''access_token'') ?body (da_dk ?app) = (Inr (), d1)"
    and d: "tokens_storable (dk_tokens d1)" "transport_of d1 = BrowserFetch"
    by (rule served_keypair_init [of "da_dk ?app"]) simp_all
  have "\<exists>app1. cl_make_keypair toy_crypto id demo_shell (\<lambda>u k. Inr ()) demo_form demo_login_json ?app = (Inr (), app1)"
    using enter_runs [of "?app\<lparr>da_buf := (no_buffers 0)\<lparr>bf_rng := rb\<rparr>, da_dk := d1\<rparr>"
        "deriveKEK toy_crypto (lf_password demo_form) salt DEFAULT_KEK_PARAMS" priv] g c i d
    by (auto simp: cl_make_keypair_def Let_def no_buffers_def)
  then obtain app1 where a: "cl_make_keypair toy_crypto id demo_shell (\<lambda>u k. Inr ()) demo_form demo_login_json ?app = (Inr (), app1)" ..
  from keypair_made_on_desktop_opens_on_web [where ?'w2.0 = unit, OF toy_laws a] a show ?thesis by blast
qed

lemma served_get:
  assumes "transport_of d = BrowserFetch" and "dk_world d = (json_reply j # rs, t)"
  obtains d1 where "cl_get_with_token demo_shell path token d = (Inr j, d1)" "transport_of d1 = BrowserFetch" "dk_world d1 = (rs, t)"
  using served(1) [OF assms(1) assms(2) [unfolded json_reply_def]] assms(1) that
  by (simp add: cl_get_with_token_def rs_ok_def transport_of_def)


end
