(* ===== verification/PipelineConstants.thy ===== *)
theory PipelineConstants
  imports Prelude
begin

text \<open>
  The relationship types with their labels and the names of the item types
  (\<open>components/pipeline/pipeline-constants.ts\<close>), and nodes and edges of the relationship graph.
\<close>

datatype RelationshipType =
    hosted_on | accessed_via | part_of | related_to | depends_on | uses_tool | builds_to | scans_with | deploys_to
  | runs_in | ownedBy | dependsOn | memberOf | providesApi | consumesApi

fun rel_name :: "RelationshipType \<Rightarrow> string" where
  "rel_name hosted_on = ''hosted_on''"
| "rel_name accessed_via = ''accessed_via''"
| "rel_name part_of = ''part_of''"
| "rel_name related_to = ''related_to''"
| "rel_name depends_on = ''depends_on''"
| "rel_name uses_tool = ''uses_tool''"
| "rel_name builds_to = ''builds_to''"
| "rel_name scans_with = ''scans_with''"
| "rel_name deploys_to = ''deploys_to''"
| "rel_name runs_in = ''runs_in''"
| "rel_name ownedBy = ''ownedBy''"
| "rel_name dependsOn = ''dependsOn''"
| "rel_name memberOf = ''memberOf''"
| "rel_name providesApi = ''providesApi''"
| "rel_name consumesApi = ''consumesApi''"

definition REL_TYPES :: "RelationshipType list" where
  "REL_TYPES = [hosted_on, accessed_via, part_of, related_to, depends_on, uses_tool, builds_to, scans_with, deploys_to]"

fun REL_LABELS :: "RelationshipType \<Rightarrow> string" where
  "REL_LABELS hosted_on = ''bar'' @ tr_i @ ''nd'' @ tr_i @ ''r'' @ tr_i @ ''l'' @ tr_i @ ''yor''"
| "REL_LABELS accessed_via = ''eri'' @ tr_s @ ''iliyor''"
| "REL_LABELS part_of = ''par'' @ tr_c @ ''as'' @ tr_i"
| "REL_LABELS related_to = ''ili'' @ tr_s @ ''kili''"
| "REL_LABELS depends_on = ''ba'' @ tr_g @ tr_i @ ''ml'' @ tr_i"
| "REL_LABELS uses_tool = ''ara'' @ tr_c @ '' kullan'' @ tr_i @ ''r''"
| "REL_LABELS builds_to = ''build eder''"
| "REL_LABELS scans_with = ''tarar''"
| "REL_LABELS deploys_to = ''deploy eder''"
| "REL_LABELS runs_in = tr_c @ ''al'' @ tr_i @ tr_s @ ''t'' @ tr_i @ ''r'' @ tr_i @ ''yor''"
| "REL_LABELS ownedBy = ''sahibi''"
| "REL_LABELS dependsOn = ''ba'' @ tr_g @ tr_i @ ''ml'' @ tr_i @ '' (DP)''"
| "REL_LABELS memberOf = tr_u @ ''yesi''"
| "REL_LABELS providesApi = ''API sa'' @ tr_g @ ''lar''"
| "REL_LABELS consumesApi = ''API t'' @ tr_u @ ''ketir''"

definition PIPELINE_TYPE_LABELS :: "nat \<rightharpoonup> string" where
  "PIPELINE_TYPE_LABELS = map_of (zip [1..<13]
     [''Sunucu'', ''URL'', ''Veritaban'' @ tr_i, ''SSH Anh.'', ''API Anh.'', ''Genel'', ''CI/CD'', ''Registry'',
      ''G'' @ tr_u @ ''venlik'', ''CPU/HW'', ''Bulut'', ''Kaynak Kod''])"

text \<open>No two relationships read the same, by name or by label.\<close>

lemma rel_name_inj [simp]: "rel_name a = rel_name b \<longleftrightarrow> a = b"
  by (cases a; cases b) simp_all

lemma REL_LABELS_inj: "REL_LABELS a = REL_LABELS b \<Longrightarrow> a = b"
  by (cases a; cases b) (simp_all add: text_defs)

subsection \<open>The relationship graph\<close>

record GraphNode =
  gn_id :: string
  gn_name :: string
  gn_item_type_id :: nat

record GraphEdge =
  ge_source_id :: string
  ge_target_id :: string
  ge_type :: RelationshipType

text \<open>\<open>new Map(nodes.map((n) => [n.id, n]))\<close>: of two nodes with the same id the last counts.\<close>

definition node_map :: "GraphNode list \<Rightarrow> string \<rightharpoonup> GraphNode" where
  "node_map ns = map_of (rev (map (\<lambda>n. (gn_id n, n)) ns))"

lemma node_map_Some: "node_map ns i = Some n \<Longrightarrow> n \<in> set ns \<and> gn_id n = i"
  by (auto simp: node_map_def dest: map_of_SomeD)

end
