(* ===== verification/ItemTabs.thy ===== *)
theory ItemTabs
  imports ItemForm AuthFlows ItemHooks AdminHooks PageKit PipelineConstants
begin

text \<open>
  The tabs of the item page (\<open>components/inventory/item-detail.tsx\<close> of both applications, with
  \<open>item-field-row.tsx\<close>, \<open>item-tag-picker.tsx\<close>, \<open>linked-items-tab.tsx\<close>, \<open>item-attachment-panel.tsx\<close> and
  \<open>lib/entity-page-registry.tsx\<close>): what they show of an item, which controls they offer to whom, and
  what each control sends. Decryption, Vault values and share dialogs are in other theories.
\<close>

subsection \<open>What the page knows of an item\<close>

record access_request =
  ar_id :: string
  ar_status :: string

record shown_item = Item +
  xi_created_by :: string
  xi_permission :: string
  xi_last_rotated_at :: "string option"
  xi_requires_approval :: bool
  xi_my_access_request :: "access_request option"
  xi_kind :: "string option"

definition canWrite :: "shown_item \<Rightarrow> bool" where
  "canWrite item \<longleftrightarrow> xi_permission item = ''write''"

text \<open>\<open>new Date(text).getTime()\<close> is a parameter; \<open>None\<close> is \<open>NaN\<close>, which compares false.\<close>

definition expDate :: "(string \<Rightarrow> int option) \<Rightarrow> shown_item \<Rightarrow> int option" where
  "expDate getTime item = (if truthy (i_expires_at item) then getTime (the (i_expires_at item)) else None)"

definition isExpired :: "(string \<Rightarrow> int option) \<Rightarrow> int \<Rightarrow> shown_item \<Rightarrow> bool" where
  "isExpired getTime now item \<longleftrightarrow> (case expDate getTime item of None \<Rightarrow> False | Some t \<Rightarrow> t \<le> now)"

definition isWarning :: "(string \<Rightarrow> int option) \<Rightarrow> int \<Rightarrow> shown_item \<Rightarrow> bool" where
  "isWarning getTime now item \<longleftrightarrow>
     (case expDate getTime item of None \<Rightarrow> False | Some t \<Rightarrow> t \<le> now + 7 * 24 * 60 * 60 * 1000)"

definition typeLabel :: "shown_item \<Rightarrow> string" where
  "typeLabel item = nullish (PIPELINE_TYPE_LABELS (i_item_type_id item)) (''tip:'' @ show_nat (i_item_type_id item))"

definition rotation_section :: "shown_item \<Rightarrow> bool" where
  "rotation_section item \<longleftrightarrow> truthy (i_expires_at item) \<or> nullish (i_rotation_interval_days item) 0 \<noteq> 0
     \<or> truthy (xi_last_rotated_at item)"

definition approval_panel :: "shown_item \<Rightarrow> bool" where
  "approval_panel item \<longleftrightarrow> xi_requires_approval item \<and> nullish (i_fields item) [] = []"

definition sorted_fields :: "shown_item \<Rightarrow> ItemField list" where
  "sorted_fields item = sort_key if_position (nullish (i_fields item) [])"

definition buildFieldDefMap :: "FieldDefinition list \<Rightarrow> nat \<rightharpoonup> FieldDefinition" where
  "buildFieldDefMap defs = map_of (rev (map (\<lambda>d. (fd_id d, d)) defs))"

subsection \<open>The rows of the fields\<close>

text \<open>A row is known to React by its key: the field definition and the place in the list.\<close>

definition row_keys :: "shown_item \<Rightarrow> (nat \<times> nat) list" where
  "row_keys item = zip (map if_field_definition_id (sorted_fields item)) [0..<length (sorted_fields item)]"

datatype row_view = RowPending | RowLocked | RowMasked | RowRevealed string | RowPlain string

definition row_hidden :: "FieldDefinition option \<Rightarrow> bool" where
  "row_hidden def \<longleftrightarrow> (case def of None \<Rightarrow> False | Some d \<Rightarrow> fd_is_secret d \<or> fd_key d = ''username'')"

definition decrypted_value :: "DecryptionState \<Rightarrow> nat \<Rightarrow> string option" where
  "decrypted_value d i = (case d of Decrypted values \<Rightarrow> map_of values i | _ \<Rightarrow> None)"

definition ItemFieldRow :: "DecryptionState \<Rightarrow> FieldDefinition option \<Rightarrow> bool \<Rightarrow> string option \<Rightarrow> row_view" where
  "ItemFieldRow dec def visible value =
     (if dec = Pending then RowPending
      else case value of
          None \<Rightarrow> RowLocked
        | Some v \<Rightarrow>
            (case dec of
               Decrypted _ \<Rightarrow> (if row_hidden def then (if visible then RowRevealed v else RowMasked) else RowPlain v)
             | _ \<Rightarrow> RowLocked))"

text \<open>What goes to the clipboard.\<close>

definition row_handleCopy :: "string option \<Rightarrow> string option" where
  "row_handleCopy value = (if truthy value then value else None)"

subsection \<open>Relationships\<close>

definition outgoing :: "string \<Rightarrow> GraphEdge list \<Rightarrow> GraphEdge list" where
  "outgoing itemId es = filter (\<lambda>e. ge_source_id e = itemId) es"

definition incoming :: "string \<Rightarrow> GraphEdge list \<Rightarrow> GraphEdge list" where
  "incoming itemId es = filter (\<lambda>e. ge_target_id e = itemId) es"

definition otherNodes :: "string \<Rightarrow> GraphNode list \<Rightarrow> GraphNode list" where
  "otherNodes itemId ns = filter (\<lambda>n. gn_id n \<noteq> itemId) ns"

text \<open>The name at the other end, or its id when the graph does not hold it.\<close>

definition edge_end :: "GraphNode list \<Rightarrow> string \<Rightarrow> string" where
  "edge_end ns i = (case node_map ns i of Some n \<Rightarrow> gn_name n | None \<Rightarrow> i)"

definition relationship_json :: "string \<Rightarrow> RelationshipType \<Rightarrow> json" where
  "relationship_json target t = JObj [(''target_id'', JStr target), (''type'', JStr (rel_name t))]"

subsection \<open>Lifecycle stages\<close>

record lifecycle_stage =
  ls_id :: int
  ls_key :: string
  ls_label :: string

definition assignedIds :: "int list query_data \<Rightarrow> int list" where
  "assignedIds q = js_set (data_or [] q)"

definition stage_ids_json :: "int list \<Rightarrow> json" where
  "stage_ids_json ids = JObj [(''stage_ids'', JArr (map JNum ids))]"

definition toggleStage :: "bool \<Rightarrow> string \<Rightarrow> int list query_data \<Rightarrow> int \<Rightarrow> mutation_hook option" where
  "toggleStage writable itemId q stageId =
     (if \<not> writable then None
      else Some (useSetItemLifecycleStagesMutation itemId (stage_ids_json (set_toggle stageId (assignedIds q)))))"

definition coveragePct :: "lifecycle_stage list \<Rightarrow> int list query_data \<Rightarrow> nat" where
  "coveragePct stages q = (if 0 < length stages then percent (length (assignedIds q)) (length stages) else 0)"

subsection \<open>Attachments\<close>

definition toFixed1 :: "nat \<Rightarrow> nat \<Rightarrow> string" where
  "toFixed1 a b = (let n = (20 * a + b) div (2 * b) in show_nat (n div 10) @ ''.'' @ show_nat (n mod 10))"

definition formatBytes :: "nat \<Rightarrow> string" where
  "formatBytes n =
     (if n < 1024 then show_nat n @ '' B''
      else if n < 1024 * 1024 then toFixed1 n 1024 @ '' KB''
      else toFixed1 n (1024 * 1024) @ '' MB'')"

record upload_file =
  uf_name :: string
  uf_type :: string
  uf_size :: nat

definition upload_json :: "upload_file \<Rightarrow> json" where
  "upload_json f = JObj [(''file_name'', JStr (uf_name f)),
     (''content_type'', JStr (if uf_type f = [] then ''application/octet-stream'' else uf_type f)),
     (''size_bytes'', JNum (int (uf_size f))), (''is_encrypted'', JBool False)]"

datatype upload_error = UploadApi js_error | UploadRefused nat | UploadNoAnswer string | UploadBadAnswer

text \<open>\<open>put\<close> is the \<open>PUT\<close> of the file to the address the server gave: a status, or a failure. The file goes
  there as it is.\<close>

definition attach_file ::
    "'w net \<Rightarrow> (string \<Rightarrow> upload_file \<Rightarrow> string + nat) \<Rightarrow> string \<Rightarrow> upload_file \<Rightarrow> 'w web_env
       \<Rightarrow> (upload_error + unit) \<times> string list \<times> 'w web_env" where
  "attach_file net put itemId f env =
     (case run_mutation net (useInitUploadMutation itemId (upload_json f)) env of
        (Inl e, _, env1) \<Rightarrow> (Inl (UploadApi e), [], env1)
      | (Inr body, _, env1) \<Rightarrow>
          (let res = nullish body JNull
           in if res = JNull then (Inl UploadBadAnswer, [], env1)
              else (let url = str_or_undefined res ''upload_url''
                    in case put url f of
                        Inl m \<Rightarrow> (Inl (UploadNoAnswer m), [url], env1)
                      | Inr st \<Rightarrow>
                          if \<not> (200 \<le> st \<and> st \<le> 299) then (Inl (UploadRefused st), [url], env1)
                          else (case run_mutation net (useConfirmUploadMutation itemId (str_or_undefined res ''attachment_id'')) env1 of
                              (Inl e, _, env2) \<Rightarrow> (Inl (UploadApi e), [url], env2)
                            | (Inr _, _, env2) \<Rightarrow> (Inr (), [url], env2)))))"

subsection \<open>Shares\<close>

record user_share =
  us_user_id :: string
  us_username :: string
  us_revoked_at :: "string option"

record group_share =
  gs_group_id :: string
  gs_group_name :: string
  gs_revoked_at :: "string option"

definition userShares :: "(user_share list \<times> group_share list) query_data \<Rightarrow> user_share list" where
  "userShares q = filter (\<lambda>s. \<not> truthy (us_revoked_at s)) (fst (data_or ([], []) q))"

definition groupShares :: "(user_share list \<times> group_share list) query_data \<Rightarrow> group_share list" where
  "groupShares q = filter (\<lambda>s. \<not> truthy (gs_revoked_at s)) (snd (data_or ([], []) q))"

definition isOwnerOrAdmin :: "SessionUser option \<Rightarrow> shown_item \<Rightarrow> bool" where
  "isOwnerOrAdmin me item \<longleftrightarrow>
     (case me of None \<Rightarrow> False | Some u \<Rightarrow> user_id u = xi_created_by item \<or> ''admin'' \<in> set (roles u))"

subsection \<open>Tags\<close>

record tag =
  tg_id :: string
  tg_name :: string

definition availableTags :: "tag list \<Rightarrow> tag list \<Rightarrow> tag list" where
  "availableTags assigned all = filter (\<lambda>t. tg_id t \<notin> set (map tg_id assigned)) all"

definition tag_matches :: "(string \<Rightarrow> string) \<Rightarrow> (string \<Rightarrow> string \<Rightarrow> bool) \<Rightarrow> string \<Rightarrow> tag \<Rightarrow> bool" where
  "tag_matches lower includes search t \<longleftrightarrow> includes (lower (tg_name t)) (lower search)"

subsection \<open>The page\<close>

text \<open>What the queries of the page hold, per item.\<close>

record tabs_data =
  td_nodes :: "GraphNode list"
  td_edges :: "GraphEdge list"
  td_stages :: "lifecycle_stage list"
  td_assigned :: "string \<Rightarrow> int list query_data"
  td_shares :: "string \<Rightarrow> (user_share list \<times> group_share list) query_data"
  td_clusters :: "string list"
  td_tags :: "tag list"
  td_item_tags :: "string \<Rightarrow> tag list"
  td_links :: "string \<Rightarrow> string list"
  td_suggestions :: "string \<Rightarrow> string list"
  td_favorite :: "string \<Rightarrow> bool"

record link_form =
  lk_open :: bool
  lk_target :: string
  lk_source_field :: string
  lk_target_field :: string
  lk_type :: string

definition no_link :: link_form where
  "no_link = \<lparr>lk_open = False, lk_target = [], lk_source_field = [], lk_target_field = [], lk_type = ''mirror''\<rparr>"

definition link_complete :: "link_form \<Rightarrow> bool" where
  "link_complete l \<longleftrightarrow> lk_target l \<noteq> [] \<and> lk_source_field l \<noteq> [] \<and> lk_target_field l \<noteq> []"

definition link_json :: "link_form \<Rightarrow> json" where
  "link_json l = JObj [(''target_item_id'', JStr (lk_target l)), (''source_field_def_id'', JStr (lk_source_field l)),
     (''target_field_def_id'', JStr (lk_target_field l)), (''link_type'', JStr (lk_type l))]"

record item_tabs =
  tb_item :: shown_item
  tb_data :: tabs_data
  tb_me :: "SessionUser option"
  tb_revealed :: "(nat \<times> nat) list"
  tb_showAdd :: bool
  tb_targetId :: string
  tb_relType :: RelationshipType
  tb_reason :: string
  tb_duration :: int
  tb_showForm :: bool
  tb_clusterId :: string
  tb_namespace :: string
  tb_link :: link_form

definition tabs_opened :: "shown_item \<Rightarrow> tabs_data \<Rightarrow> SessionUser option \<Rightarrow> item_tabs" where
  "tabs_opened item d me =
     \<lparr>tb_item = item, tb_data = d, tb_me = me, tb_revealed = [], tb_showAdd = False, tb_targetId = [],
      tb_relType = depends_on, tb_reason = [], tb_duration = 60, tb_showForm = False, tb_clusterId = [],
      tb_namespace = [], tb_link = no_link\<rparr>"

abbreviation shown_id :: "item_tabs \<Rightarrow> string" where
  "shown_id s \<equiv> i_id (tb_item s)"

text \<open>Another item comes into the page. While its query loads the tabs are taken down; an item that the
  cache has is put into the same components, which keep their state. Rows that keep their key stay, and
  so does the approval panel when both items show it.\<close>

definition show_item :: "shown_item \<Rightarrow> bool \<Rightarrow> item_tabs \<Rightarrow> item_tabs" where
  "show_item item cached s =
     (if \<not> cached then tabs_opened item (tb_data s) (tb_me s)
      else let s1 = s\<lparr>tb_item := item, tb_revealed := filter (\<lambda>k. k \<in> set (row_keys item)) (tb_revealed s)\<rparr>
           in if approval_panel item \<and> approval_panel (tb_item s) then s1
              else s1\<lparr>tb_reason := [], tb_duration := 60, tb_showForm := False\<rparr>)"

datatype tabs_event =
    ShowItem shown_item bool | DataArrives tabs_data
  | ToggleRow "nat \<times> nat"
  | OpenAddRel | PickRelType RelationshipType | PickRelTarget string | SubmitRel | RelAdded | CancelRel
  | DeleteRel string RelationshipType
  | ToggleStage int
  | Rotate | ToggleFavorite
  | Unshare string | UnshareGroup string | ToggleApproval
  | AskAccess | CloseAccess | TypeReason string | TypeDuration int | SendAccess | AccessSent | CancelAccess
  | PickCluster string | TypeNamespace string | SaveK8s
  | OpenLink | CloseLink | PickLinkType string | PickSourceField string | TypeLinkTarget string | PickTargetField string
  | CreateLink | LinkCreated | DeleteLink string
  | AddTag string | RemoveTag string
  | SuggestTags | AcceptSuggestion string | RejectSuggestion string

text \<open>Each tab has the events of its controls, what they do to its state, what they send (the handlers with
  their guards) and which of them it offers; \<open>isPending\<close> is left out.\<close>

subsection \<open>\<open>RelationshipsTab\<close>\<close>

definition RelationshipsTab_step :: "tabs_event \<Rightarrow> item_tabs \<Rightarrow> item_tabs" where
  [simp]: "RelationshipsTab_step e s = (case e of
     OpenAddRel \<Rightarrow> s\<lparr>tb_showAdd := True\<rparr>
   | PickRelType t \<Rightarrow> s\<lparr>tb_relType := t\<rparr>
   | PickRelTarget i \<Rightarrow> s\<lparr>tb_targetId := i\<rparr>
   | RelAdded \<Rightarrow> s\<lparr>tb_showAdd := False, tb_targetId := []\<rparr>
   | CancelRel \<Rightarrow> s\<lparr>tb_showAdd := False, tb_targetId := []\<rparr>
   | _ \<Rightarrow> s)"

definition RelationshipsTab_handleAdd :: "item_tabs \<Rightarrow> mutation_hook list" where
  [simp]: "RelationshipsTab_handleAdd s =
     (if tb_targetId s = [] then []
      else [useAddRelationshipMutation (shown_id s) (relationship_json (tb_targetId s) (tb_relType s))])"

definition RelationshipsTab_handleDelete :: "item_tabs \<Rightarrow> string \<Rightarrow> RelationshipType \<Rightarrow> mutation_hook list" where
  [simp]: "RelationshipsTab_handleDelete s i t = [useDeleteRelationshipMutation (shown_id s) i (rel_name t)]"

definition RelationshipsTab_sends :: "item_tabs \<Rightarrow> tabs_event \<Rightarrow> mutation_hook list" where
  [simp]: "RelationshipsTab_sends s e = (case e of
     SubmitRel \<Rightarrow> RelationshipsTab_handleAdd s
   | DeleteRel i t \<Rightarrow> RelationshipsTab_handleDelete s i t
   | _ \<Rightarrow> [])"

definition RelationshipsTab_offers :: "item_tabs \<Rightarrow> tabs_event \<Rightarrow> bool" where
  [simp]: "RelationshipsTab_offers s e = (case e of
     OpenAddRel \<Rightarrow> canWrite (tb_item s) \<and> \<not> tb_showAdd s
   | PickRelType t \<Rightarrow> canWrite (tb_item s) \<and> tb_showAdd s \<and> t \<in> set REL_TYPES
   | PickRelTarget i \<Rightarrow> canWrite (tb_item s) \<and> tb_showAdd s \<and> i \<in> set (map gn_id (otherNodes (shown_id s) (td_nodes (tb_data s))))
   | SubmitRel \<Rightarrow> canWrite (tb_item s) \<and> tb_showAdd s \<and> tb_targetId s \<noteq> []
   | CancelRel \<Rightarrow> canWrite (tb_item s) \<and> tb_showAdd s
   | DeleteRel i t \<Rightarrow> canWrite (tb_item s)
       \<and> (\<exists>e\<in>set (outgoing (shown_id s) (td_edges (tb_data s))). ge_target_id e = i \<and> ge_type e = t)
   | RelAdded \<Rightarrow> True
   | _ \<Rightarrow> False)"

subsection \<open>\<open>LifecycleTab\<close>\<close>

definition LifecycleTab_sends :: "item_tabs \<Rightarrow> tabs_event \<Rightarrow> mutation_hook list" where
  [simp]: "LifecycleTab_sends s e = (case e of
     ToggleStage n \<Rightarrow> (case toggleStage (canWrite (tb_item s)) (shown_id s) (td_assigned (tb_data s) (shown_id s)) n of
        None \<Rightarrow> [] | Some m \<Rightarrow> [m])
   | _ \<Rightarrow> [])"

definition LifecycleTab_offers :: "item_tabs \<Rightarrow> tabs_event \<Rightarrow> bool" where
  [simp]: "LifecycleTab_offers s e = (case e of
     ToggleStage n \<Rightarrow> canWrite (tb_item s) \<and> td_assigned (tb_data s) (shown_id s) \<noteq> Loading
       \<and> n \<in> set (map ls_id (td_stages (tb_data s)))
   | _ \<Rightarrow> False)"

subsection \<open>\<open>ApprovalPanel\<close>\<close>

definition ApprovalPanel_step :: "tabs_event \<Rightarrow> item_tabs \<Rightarrow> item_tabs" where
  [simp]: "ApprovalPanel_step e s = (case e of
     AskAccess \<Rightarrow> s\<lparr>tb_showForm := True\<rparr>
   | CloseAccess \<Rightarrow> s\<lparr>tb_showForm := False\<rparr>
   | TypeReason r \<Rightarrow> s\<lparr>tb_reason := r\<rparr>
   | TypeDuration n \<Rightarrow> s\<lparr>tb_duration := n\<rparr>
   | AccessSent \<Rightarrow> s\<lparr>tb_showForm := False\<rparr>
   | _ \<Rightarrow> s)"

definition ApprovalPanel_handleRequest :: "item_tabs \<Rightarrow> mutation_hook list" where
  [simp]: "ApprovalPanel_handleRequest s =
     [useCreateAccessRequestMutation (shown_id s)
        (JObj [(''reason'', JStr (tb_reason s)), (''access_duration_minutes'', JNum (tb_duration s))])]"

definition ApprovalPanel_handleCancel :: "item_tabs \<Rightarrow> mutation_hook list" where
  [simp]: "ApprovalPanel_handleCancel s =
     (case xi_my_access_request (tb_item s) of
        None \<Rightarrow> [] | Some r \<Rightarrow> [useCancelAccessRequestMutation (Some (shown_id s)) (ar_id r)])"

definition ApprovalPanel_sends :: "item_tabs \<Rightarrow> tabs_event \<Rightarrow> mutation_hook list" where
  [simp]: "ApprovalPanel_sends s e = (case e of
     SendAccess \<Rightarrow> ApprovalPanel_handleRequest s
   | CancelAccess \<Rightarrow> ApprovalPanel_handleCancel s
   | _ \<Rightarrow> [])"

definition may_ask :: "shown_item \<Rightarrow> bool" where
  [simp]: "may_ask item \<longleftrightarrow>
     (case xi_my_access_request item of None \<Rightarrow> True | Some r \<Rightarrow> ar_status r \<in> {''denied'', ''cancelled'', ''expired''})"

definition ApprovalPanel_offers :: "item_tabs \<Rightarrow> tabs_event \<Rightarrow> bool" where
  [simp]: "ApprovalPanel_offers s e = (case e of
     AskAccess \<Rightarrow> approval_panel (tb_item s) \<and> may_ask (tb_item s) \<and> \<not> tb_showForm s
   | SendAccess \<Rightarrow> approval_panel (tb_item s) \<and> may_ask (tb_item s) \<and> tb_showForm s
   | TypeReason r \<Rightarrow> approval_panel (tb_item s) \<and> may_ask (tb_item s) \<and> tb_showForm s
   | TypeDuration n \<Rightarrow> approval_panel (tb_item s) \<and> may_ask (tb_item s) \<and> tb_showForm s
   | CloseAccess \<Rightarrow> approval_panel (tb_item s) \<and> may_ask (tb_item s) \<and> tb_showForm s
   | CancelAccess \<Rightarrow> approval_panel (tb_item s)
       \<and> (case xi_my_access_request (tb_item s) of None \<Rightarrow> False | Some r \<Rightarrow> ar_status r = ''pending'')
   | AccessSent \<Rightarrow> True
   | _ \<Rightarrow> False)"

subsection \<open>\<open>K8sBindingTab\<close>\<close>

definition K8sBindingTab_step :: "tabs_event \<Rightarrow> item_tabs \<Rightarrow> item_tabs" where
  [simp]: "K8sBindingTab_step e s = (case e of
     PickCluster c \<Rightarrow> s\<lparr>tb_clusterId := c\<rparr>
   | TypeNamespace n \<Rightarrow> s\<lparr>tb_namespace := n\<rparr>
   | _ \<Rightarrow> s)"

definition K8sBindingTab_handleSave :: "item_tabs \<Rightarrow> mutation_hook list" where
  [simp]: "K8sBindingTab_handleSave s =
     (if tb_clusterId s = [] \<or> trim (tb_namespace s) = [] then []
      else [useSetK8sBindingMutation (shown_id s) (tb_clusterId s) (trim (tb_namespace s))])"

definition K8sBindingTab_sends :: "item_tabs \<Rightarrow> tabs_event \<Rightarrow> mutation_hook list" where
  [simp]: "K8sBindingTab_sends s e = (case e of SaveK8s \<Rightarrow> K8sBindingTab_handleSave s | _ \<Rightarrow> [])"

definition K8sBindingTab_offers :: "item_tabs \<Rightarrow> tabs_event \<Rightarrow> bool" where
  [simp]: "K8sBindingTab_offers s e = (case e of
     PickCluster c \<Rightarrow> canWrite (tb_item s) \<and> (c = [] \<or> c \<in> set (td_clusters (tb_data s)))
   | TypeNamespace n \<Rightarrow> canWrite (tb_item s)
   | SaveK8s \<Rightarrow> canWrite (tb_item s) \<and> tb_clusterId s \<noteq> [] \<and> trim (tb_namespace s) \<noteq> []
   | _ \<Rightarrow> False)"

subsection \<open>\<open>SharesTab\<close>\<close>

definition SharesTab_handleUnshare :: "item_tabs \<Rightarrow> string \<Rightarrow> mutation_hook list" where
  [simp]: "SharesTab_handleUnshare s u = [useUnshareItemMutation (shown_id s) u]"

definition SharesTab_handleUnshareGroup :: "item_tabs \<Rightarrow> string \<Rightarrow> mutation_hook list" where
  [simp]: "SharesTab_handleUnshareGroup s g = [useUnshareGroupMutation (shown_id s) g]"

definition SharesTab_handleToggleApproval :: "item_tabs \<Rightarrow> mutation_hook list" where
  [simp]: "SharesTab_handleToggleApproval s = [useToggleApprovalRequiredMutation (shown_id s) (\<not> xi_requires_approval (tb_item s))]"

definition SharesTab_sends :: "item_tabs \<Rightarrow> tabs_event \<Rightarrow> mutation_hook list" where
  [simp]: "SharesTab_sends s e = (case e of
     Unshare u \<Rightarrow> SharesTab_handleUnshare s u
   | UnshareGroup g \<Rightarrow> SharesTab_handleUnshareGroup s g
   | ToggleApproval \<Rightarrow> SharesTab_handleToggleApproval s
   | _ \<Rightarrow> [])"

definition SharesTab_offers :: "item_tabs \<Rightarrow> tabs_event \<Rightarrow> bool" where
  [simp]: "SharesTab_offers s e = (case e of
     Unshare u \<Rightarrow> canWrite (tb_item s) \<and> u \<in> set (map us_user_id (userShares (td_shares (tb_data s) (shown_id s))))
   | UnshareGroup g \<Rightarrow> canWrite (tb_item s) \<and> g \<in> set (map gs_group_id (groupShares (td_shares (tb_data s) (shown_id s))))
   | ToggleApproval \<Rightarrow> td_shares (tb_data s) (shown_id s) \<noteq> Loading \<and> isOwnerOrAdmin (tb_me s) (tb_item s)
   | _ \<Rightarrow> False)"

subsection \<open>\<open>LinkedItemsTab\<close>\<close>

definition LinkedItemsTab_step :: "tabs_event \<Rightarrow> item_tabs \<Rightarrow> item_tabs" where
  [simp]: "LinkedItemsTab_step e s = (case e of
     OpenLink \<Rightarrow> s\<lparr>tb_link := (tb_link s)\<lparr>lk_open := True\<rparr>\<rparr>
   | CloseLink \<Rightarrow> s\<lparr>tb_link := (tb_link s)\<lparr>lk_open := False\<rparr>\<rparr>
   | PickLinkType t \<Rightarrow> s\<lparr>tb_link := (tb_link s)\<lparr>lk_type := t\<rparr>\<rparr>
   | PickSourceField f \<Rightarrow> s\<lparr>tb_link := (tb_link s)\<lparr>lk_source_field := f\<rparr>\<rparr>
   | TypeLinkTarget i \<Rightarrow> s\<lparr>tb_link := (tb_link s)\<lparr>lk_target := trim i, lk_target_field := []\<rparr>\<rparr>
   | PickTargetField f \<Rightarrow> s\<lparr>tb_link := (tb_link s)\<lparr>lk_target_field := f\<rparr>\<rparr>
   | LinkCreated \<Rightarrow> s\<lparr>tb_link := no_link\<rparr>
   | _ \<Rightarrow> s)"

definition LinkedItemsTab_handleCreate :: "item_tabs \<Rightarrow> mutation_hook list" where
  [simp]: "LinkedItemsTab_handleCreate s =
     (if link_complete (tb_link s) then [useCreateLinkMutation (shown_id s) (link_json (tb_link s))] else [])"

definition LinkedItemsTab_sends :: "item_tabs \<Rightarrow> tabs_event \<Rightarrow> mutation_hook list" where
  [simp]: "LinkedItemsTab_sends s e = (case e of
     CreateLink \<Rightarrow> LinkedItemsTab_handleCreate s
   | DeleteLink i \<Rightarrow> [useDeleteLinkMutation (shown_id s) i]
   | _ \<Rightarrow> [])"

text \<open>The dialog stays open for an item that may not be written, and its fields with it.\<close>

definition LinkedItemsTab_offers :: "item_tabs \<Rightarrow> tabs_event \<Rightarrow> bool" where
  [simp]: "LinkedItemsTab_offers s e = (case e of
     OpenLink \<Rightarrow> canWrite (tb_item s)
   | CloseLink \<Rightarrow> lk_open (tb_link s)
   | PickLinkType t \<Rightarrow> lk_open (tb_link s) \<and> t \<in> {''mirror'', ''reference''}
   | PickSourceField f \<Rightarrow> lk_open (tb_link s)
   | TypeLinkTarget i \<Rightarrow> lk_open (tb_link s)
   | PickTargetField f \<Rightarrow> lk_open (tb_link s)
   | CreateLink \<Rightarrow> lk_open (tb_link s) \<and> link_complete (tb_link s)
   | DeleteLink i \<Rightarrow> canWrite (tb_item s) \<and> i \<in> set (td_links (tb_data s) (shown_id s))
   | LinkCreated \<Rightarrow> True
   | _ \<Rightarrow> False)"

subsection \<open>\<open>ItemTagPicker\<close> and \<open>AISuggestionsTab\<close>\<close>

text \<open>Neither is told whether the item may be written.\<close>

definition ItemTagPicker_sends :: "item_tabs \<Rightarrow> tabs_event \<Rightarrow> mutation_hook list" where
  [simp]: "ItemTagPicker_sends s e = (case e of
     AddTag t \<Rightarrow> [useAddItemTagMutation (shown_id s) (JObj [(''tag_id'', JStr t)])]
   | RemoveTag t \<Rightarrow> [useRemoveItemTagMutation (shown_id s) t]
   | _ \<Rightarrow> [])"

definition ItemTagPicker_offers :: "item_tabs \<Rightarrow> tabs_event \<Rightarrow> bool" where
  [simp]: "ItemTagPicker_offers s e = (case e of
     AddTag t \<Rightarrow> t \<in> set (map tg_id (availableTags (td_item_tags (tb_data s) (shown_id s)) (td_tags (tb_data s))))
   | RemoveTag t \<Rightarrow> t \<in> set (map tg_id (td_item_tags (tb_data s) (shown_id s)))
   | _ \<Rightarrow> False)"

definition AISuggestionsTab_sends :: "item_tabs \<Rightarrow> tabs_event \<Rightarrow> mutation_hook list" where
  [simp]: "AISuggestionsTab_sends s e = (case e of
     SuggestTags \<Rightarrow> [useSuggestMutation (shown_id s)]
   | AcceptSuggestion i \<Rightarrow> [useAcceptSuggestionMutation (shown_id s) i]
   | RejectSuggestion i \<Rightarrow> [useRejectSuggestionMutation (shown_id s) i]
   | _ \<Rightarrow> [])"

definition AISuggestionsTab_offers :: "item_tabs \<Rightarrow> tabs_event \<Rightarrow> bool" where
  [simp]: "AISuggestionsTab_offers s e = (case e of
     SuggestTags \<Rightarrow> True
   | AcceptSuggestion i \<Rightarrow> i \<in> set (td_suggestions (tb_data s) (shown_id s))
   | RejectSuggestion i \<Rightarrow> i \<in> set (td_suggestions (tb_data s) (shown_id s))
   | _ \<Rightarrow> False)"

subsection \<open>The page with its tabs\<close>

definition header_sends :: "item_tabs \<Rightarrow> tabs_event \<Rightarrow> mutation_hook list" where
  [simp]: "header_sends s e = (case e of
     Rotate \<Rightarrow> [useRecordRotationMutation (shown_id s)]
   | ToggleFavorite \<Rightarrow>
       [if td_favorite (tb_data s) (shown_id s) then useRemoveFavoriteMutation (shown_id s) else useAddFavoriteMutation (shown_id s)]
   | _ \<Rightarrow> [])"

definition header_offers :: "item_tabs \<Rightarrow> tabs_event \<Rightarrow> bool" where
  [simp]: "header_offers s e = (case e of
     Rotate \<Rightarrow> rotation_section (tb_item s) \<and> canWrite (tb_item s)
   | ToggleFavorite \<Rightarrow> True
   | ToggleRow k \<Rightarrow> k \<in> set (row_keys (tb_item s))
   | ShowItem item cached \<Rightarrow> True
   | DataArrives d \<Rightarrow> True
   | _ \<Rightarrow> False)"

definition header_step :: "tabs_event \<Rightarrow> item_tabs \<Rightarrow> item_tabs" where
  [simp]: "header_step e s = (case e of
     ShowItem item cached \<Rightarrow> show_item item cached s
   | DataArrives d \<Rightarrow> s\<lparr>tb_data := d\<rparr>
   | ToggleRow k \<Rightarrow> s\<lparr>tb_revealed := set_toggle k (tb_revealed s)\<rparr>
   | _ \<Rightarrow> s)"

definition tabs_step :: "item_tabs \<Rightarrow> tabs_event \<Rightarrow> item_tabs" where
  [simp]: "tabs_step s e =
     LinkedItemsTab_step e (K8sBindingTab_step e (ApprovalPanel_step e (RelationshipsTab_step e (header_step e s))))"

definition tabs_sends :: "item_tabs \<Rightarrow> tabs_event \<Rightarrow> mutation_hook list" where
  [simp]: "tabs_sends s e = header_sends s e @ RelationshipsTab_sends s e @ LifecycleTab_sends s e @ ApprovalPanel_sends s e
     @ K8sBindingTab_sends s e @ SharesTab_sends s e @ LinkedItemsTab_sends s e @ ItemTagPicker_sends s e
     @ AISuggestionsTab_sends s e"

definition tabs_can :: "item_tabs \<Rightarrow> tabs_event \<Rightarrow> bool" where
  [simp]: "tabs_can s e \<longleftrightarrow> header_offers s e \<or> RelationshipsTab_offers s e \<or> LifecycleTab_offers s e \<or> ApprovalPanel_offers s e
     \<or> K8sBindingTab_offers s e \<or> SharesTab_offers s e \<or> LinkedItemsTab_offers s e \<or> ItemTagPicker_offers s e
     \<or> AISuggestionsTab_offers s e"

subsection \<open>Tabs registered by others\<close>

text \<open>\<open>lib/entity-page-registry.tsx\<close> and \<open>lib/default-entity-tabs.tsx\<close>; a tab without a condition is always shown.\<close>

record entity_tab =
  et_id :: string
  et_order :: "int option"
  et_condition :: "shown_item \<Rightarrow> bool"

type_synonym tab_registry = "string \<rightharpoonup> entity_tab list"

definition registerTab :: "string \<Rightarrow> entity_tab \<Rightarrow> tab_registry \<Rightarrow> tab_registry" where
  "registerTab kind tab r =
     (let existing = nullish (r kind) []
      in if et_id tab \<in> et_id ` set existing then r else r(kind \<mapsto> existing @ [tab]))"

definition getTabsForKind :: "string \<Rightarrow> tab_registry \<Rightarrow> entity_tab list" where
  "getTabsForKind kind r =
     sort_key (\<lambda>t. nullish (et_order t) 50)
       (nullish (r ''*'') [] @ (if kind \<noteq> [] then nullish (r kind) [] else []))"

definition extraTabs :: "tab_registry \<Rightarrow> shown_item \<Rightarrow> entity_tab list" where
  "extraTabs r item = filter (\<lambda>t. et_condition t item) (getTabsForKind (nullish (xi_kind item) ''*'') r)"

definition always_tab :: "string \<Rightarrow> int \<Rightarrow> entity_tab" where
  "always_tab i n = \<lparr>et_id = i, et_order = Some n, et_condition = \<lambda>_. True\<rparr>"

definition DefaultTabsRegistrar :: "tab_registry \<Rightarrow> tab_registry" where
  "DefaultTabsRegistrar r =
     registerTab ''*'' (always_tab ''annotations'' 25)
       (registerTab ''Certificate'' (always_tab ''certificate-overview'' 0)
         (registerTab ''Service'' (always_tab ''service-overview'' 0)
           (registerTab ''Database'' (always_tab ''database-overview'' 0)
             (registerTab ''Server'' (always_tab ''server-overview'' 0) r))))"

end
