(* ===== verification/ItemTabFacts.thy ===== *)
theory ItemTabFacts
  imports ItemTabs
begin

text \<open>What the tabs of the item page guarantee, and where they do not: theory ItemTabs has the model.\<close>

subsection \<open>Readers\<close>

text \<open>The requests a user without write access is offered: favourites, access requests, and also tags and
  suggestions, whose controls have no guard.\<close>

definition reader_request :: "mutation_hook \<Rightarrow> bool" where
  "reader_request m \<longleftrightarrow> (\<exists>i x y. m \<in> {useAddFavoriteMutation i, useRemoveFavoriteMutation i,
     useCreateAccessRequestMutation i x, useCancelAccessRequestMutation (Some i) y,
     useAddItemTagMutation i x, useRemoveItemTagMutation i y,
     useSuggestMutation i, useAcceptSuggestionMutation i y, useRejectSuggestionMutation i y})"

fun reader_event :: "SessionUser option \<Rightarrow> tabs_event \<Rightarrow> bool" where
  "reader_event me (ShowItem item c) = (\<not> canWrite item \<and> \<not> isOwnerOrAdmin me item)"
| "reader_event me _ = True"

definition reader_can :: "SessionUser option \<Rightarrow> item_tabs \<Rightarrow> tabs_event \<Rightarrow> bool" where
  "reader_can me s e \<longleftrightarrow> tabs_can s e \<and> reader_event me e"

definition reader_inv :: "SessionUser option \<Rightarrow> item_tabs \<Rightarrow> bool" where
  "reader_inv me s \<longleftrightarrow> tb_me s = me \<and> \<not> canWrite (tb_item s) \<and> \<not> isOwnerOrAdmin me (tb_item s) \<and> \<not> lk_open (tb_link s)"

lemma reader_requests [simp]:
  "reader_request (useAddFavoriteMutation i)" "reader_request (useRemoveFavoriteMutation i)"
  "reader_request (useCreateAccessRequestMutation i x)" "reader_request (useCancelAccessRequestMutation (Some i) y)"
  "reader_request (useAddItemTagMutation i x)" "reader_request (useRemoveItemTagMutation i y)"
  "reader_request (useSuggestMutation i)" "reader_request (useAcceptSuggestionMutation i y)"
  "reader_request (useRejectSuggestionMutation i y)"
  by (auto simp: reader_request_def)

interpretation reader_page: sending_page "reader_can me" tabs_step "reader_inv me" tabs_sends reader_request for me
proof
  fix s e m
  assume inv: "reader_inv me s" and can: "reader_can me s e"
  show "reader_inv me (tabs_step s e)"
    using inv can by (cases e) (auto simp: reader_inv_def reader_can_def show_item_def tabs_opened_def no_link_def Let_def)
  show "reader_request m" if "m \<in> set (tabs_sends s e)"
    using inv can that by (cases e) (auto simp: reader_inv_def reader_can_def toggleStage_def split: if_splits option.splits)
qed

text \<open>
  C37: A reader changes nothing. However a user who may write none of the items shown, and owns none of
  them, works the page, its requests are about favourites, access, tags and suggestions; none of them
  changes relationships, stages, links, rotation, shares, the approval rule or the cluster binding.
\<close>
theorem reader_sends_no_change:
  assumes "\<not> canWrite item" and "\<not> isOwnerOrAdmin me item"
    and "\<forall>e\<in>set es. reader_event me e" and "possible_run tabs_can tabs_step (tabs_opened item d me) es"
    and "m \<in> set (sent_by tabs_step tabs_sends (tabs_opened item d me) es)"
  shows "reader_request m"
proof -
  have "possible_run (reader_can me) tabs_step s es" if "possible_run tabs_can tabs_step s es" "\<forall>e\<in>set es. reader_event me e" for s
    using that by (induction es arbitrary: s) (simp_all add: reader_can_def del: tabs_can_def tabs_step_def)
  moreover have "reader_inv me (tabs_opened item d me)"
    using assms(1,2) by (simp add: reader_inv_def tabs_opened_def no_link_def)
  ultimately show ?thesis using reader_page.run_sends_ok assms(3-5) by blast
qed

subsection \<open>Relationships\<close>

lemma edge_lists:
  "ge_source_id e = i \<or> ge_target_id e = i \<Longrightarrow> e \<in> set es \<Longrightarrow> e \<in> set (outgoing i es) \<union> set (incoming i es)"
  "i \<notin> gn_id ` set (otherNodes i ns)"
  by (auto simp: outgoing_def incoming_def otherNodes_def)

text \<open>
  The target of a new relationship outlives its item. With the form open on one item and a target
  chosen, selecting the target itself, already in the cache, leaves the form as it is; the button then
  sends a relationship from that item to itself, although the list of targets never offers the item.
\<close>
theorem stale_relationship_target:
  assumes "canWrite a" and "canWrite b" and "i_id b \<noteq> i_id a" and "i_id b \<noteq> []" and "i_id b \<in> gn_id ` set (td_nodes d)"
    and "es = [OpenAddRel, PickRelTarget (i_id b), ShowItem b True, SubmitRel]"
  shows "possible_run tabs_can tabs_step (tabs_opened a d me) es
    \<and> sent_by tabs_step tabs_sends (tabs_opened a d me) es
        = [useAddRelationshipMutation (i_id b) (relationship_json (i_id b) depends_on)]
    \<and> i_id b \<notin> gn_id ` set (otherNodes (i_id b) (td_nodes d))"
  using assms by (auto simp: tabs_opened_def show_item_def Let_def otherNodes_def)

subsection \<open>Revealed values\<close>

lemma row_keys_index:
  assumes "k \<in> set (row_keys item)"
  obtains f where "f \<in> set (nullish (i_fields item) [])" "fst k = if_field_definition_id f"
proof -
  obtain i n where k: "k = (i, n)" by fastforce
  with assms have "i \<in> if_field_definition_id ` set (sorted_fields item)"
    by (auto simp: row_keys_def dest: set_zip_leftD)
  with that k show thesis by (auto simp: sorted_fields_def)
qed

text \<open>
  A revealed value reveals the next one. When the user has shown a secret and selects another item
  that the cache has and whose field stands at the same place, the row keeps its state: the secret of the
  other item is on screen unmasked. An item that has to be loaded starts masked.
\<close>
theorem revealed_row_follows_to_next_item:
  assumes "k \<in> set (tb_revealed s)" and "k \<in> set (row_keys b)" and "row_hidden def" and "dec = Decrypted vs" and "map_of vs (fst k) = Some v"
  shows "ItemFieldRow dec def (k \<in> set (tb_revealed (tabs_step s (ShowItem b True)))) (decrypted_value dec (fst k)) = RowRevealed v
    \<and> ItemFieldRow dec def (k \<in> set (tb_revealed (tabs_step s (ShowItem b False)))) (decrypted_value dec (fst k)) = RowMasked"
  using assms by (auto simp: show_item_def tabs_opened_def ItemFieldRow_def decrypted_value_def Let_def)

text \<open>A hidden value is shown only where it was revealed, and nothing is shown unless it was decrypted.\<close>

lemma row_shows_only_revealed:
  "row_hidden def \<Longrightarrow> ItemFieldRow dec def visible value = RowRevealed v \<Longrightarrow> visible"
  "\<nexists>vs. dec = Decrypted vs \<Longrightarrow> ItemFieldRow dec def visible value \<in> {RowPending, RowLocked}"
  by (auto simp: ItemFieldRow_def split: if_splits option.splits DecryptionState.splits)

subsection \<open>Stages\<close>

text \<open>
  A click on a stage changes that stage and no other, when the assignment of the item has arrived: the
  list sent has no stage twice, and a second click sends what was assigned before. When the query of the
  assignment failed, the list sent is the stage clicked alone, so the server drops all others.
\<close>
theorem stage_click_sends_assignment:
  assumes "toggleStage True i q n = Some m"
  shows "\<exists>ids. m = useSetItemLifecycleStagesMutation i (stage_ids_json ids) \<and> distinct ids
    \<and> (\<forall>k. k \<noteq> n \<longrightarrow> (k \<in> set ids \<longleftrightarrow> k \<in> set (data_or [] q))) \<and> (n \<in> set ids \<longleftrightarrow> n \<notin> set (data_or [] q))
    \<and> (\<exists>ids'. toggleStage True i (Loaded ids) n = Some (useSetItemLifecycleStagesMutation i (stage_ids_json ids'))
         \<and> set ids' = set (data_or [] q))
    \<and> (q = Failed \<longrightarrow> ids = [n])"
proof (intro exI conjI)
  let ?ids = "set_toggle n (assignedIds q)"
  show "m = useSetItemLifecycleStagesMutation i (stage_ids_json ?ids)" using assms by (simp add: toggleStage_def)
  show "toggleStage True i (Loaded ?ids) n
      = Some (useSetItemLifecycleStagesMutation i (stage_ids_json (set_toggle n (assignedIds (Loaded ?ids)))))"
    by (simp add: toggleStage_def)
qed (auto simp: assignedIds_def set_toggle_def set_add_def js_set_def)

lemma coverage_bounded:
  assumes "set (data_or [] q) \<subseteq> set (map ls_id stages)"
  shows "coveragePct stages q \<le> 100"
proof -
  have "length (assignedIds q) = card (set (data_or [] q))"
    using distinct_card [of "assignedIds q"] by (simp add: assignedIds_def)
  also have "\<dots> \<le> length stages"
    using card_mono [OF _ assms] card_length [of "map ls_id stages"] by fastforce
  finally show ?thesis by (auto simp: coveragePct_def intro: percent_bounds)
qed

subsection \<open>Sizes and attachments\<close>

lemma rounded_close: "0 < b \<Longrightarrow> \<bar>2 * (int b * int ((20 * a + b) div (2 * b))) - 20 * int a\<bar> \<le> int b" for a b :: nat
proof -
  assume "0 < b"
  let ?q = "(20 * a + b) div (2 * b)" and ?r = "(20 * a + b) mod (2 * b)"
  have "2 * b * ?q + ?r = 20 * a + b" by (rule mult_div_mod_eq)
  then have "2 * (int b * int ?q) + int ?r = 20 * int a + int b" by (metis (no_types, opaque_lifting) mult.assoc of_nat_add of_nat_mult of_nat_numeral)
  moreover have "int ?r < 2 * int b" using \<open>0 < b\<close> mod_less_divisor [of "2 * b" "20 * a + b"] by linarith
  ultimately show ?thesis by linarith
qed

lemma shown_bytes: "n < 1024 \<Longrightarrow> formatBytes n = show_nat n @ '' B''"
  by (simp add: formatBytes_def)

lemma last_kilobyte: "formatBytes 1048575 = ''1024.0 KB''"
  by (simp add: formatBytes_def toFixed1_def show_nat.simps)

text \<open>
  The size shown for an attachment is right to half a tenth of its unit: the number of tenths differs
  from the exact one by at most a half, in kilobytes below a megabyte and in megabytes from there on.
\<close>
theorem shown_size_is_close:
  assumes "1024 \<le> n"
  shows "\<exists>unit tenths b. formatBytes n = show_nat (tenths div 10) @ ''.'' @ show_nat (tenths mod 10) @ unit
        \<and> (unit, b) = (if n < 1048576 then ('' KB'', 1024) else ('' MB'', 1048576))
        \<and> \<bar>2 * (int b * int tenths) - 20 * int n\<bar> \<le> int b"
proof -
  define b :: nat where "b = (if n < 1048576 then 1024 else 1048576)"
  define unit :: string where "unit = (if n < 1048576 then '' KB'' else '' MB'')"
  have "formatBytes n = toFixed1 n b @ unit" using assms by (simp add: formatBytes_def b_def unit_def)
  moreover have "\<bar>2 * (int b * int ((20 * n + b) div (2 * b))) - 20 * int n\<bar> \<le> int b"
    by (rule rounded_close) (simp add: b_def)
  ultimately show ?thesis
    by (intro exI [of _ unit] exI [of _ "(20 * n + b) div (2 * b)"] exI [of _ b])
      (simp add: toFixed1_def Let_def b_def unit_def)
qed

lemma shown_size_is_close_witness: "formatBytes 2048 = ''2.0 KB''"
proof -
  from shown_size_is_close [of 2048] obtain tenths where
    t: "formatBytes 2048 = show_nat (tenths div 10) @ ''.'' @ show_nat (tenths mod 10) @ '' KB''"
      "\<bar>2 * (1024 * int tenths) - 20 * 2048\<bar> \<le> 1024" by auto
  then have "tenths = 20" by linarith
  with t(1) show ?thesis by (simp add: show_nat.simps)
qed

text \<open>An attachment counts as uploaded only when the storage took it, and then its confirmation was sent;
  whatever happens, the file goes to one address at most.\<close>

lemma attachment_confirmed_after_upload:
  assumes "attach_file net put i f env = (Inr (), urls, env')"
  shows "\<exists>url st. urls = [url] \<and> put url f = Inr st \<and> 200 \<le> st \<and> st \<le> 299"
  using assms by (auto simp: attach_file_def Let_def split: prod.splits sum.splits if_splits)

lemma attachment_refused:
  assumes "attach_file net put i f env = (r, urls, env')"
  shows "length urls \<le> 1"
  using assms by (auto simp: attach_file_def Let_def split: prod.splits sum.splits if_splits)

subsection \<open>Registered tabs\<close>

lemma registerTab_facts:
  "et_id tab \<in> et_id ` set (nullish (registerTab kind tab r kind) [])"
  "registerTab kind tab (registerTab kind tab r) = registerTab kind tab r"
  "kind' \<noteq> kind \<Longrightarrow> registerTab kind tab r kind' = r kind'"
  by (auto simp: registerTab_def Let_def nullish_def split: option.splits)

text \<open>
  The registered tabs of a kind come in their order, those for every kind and those for its own; an
  item without a kind, however, gets every tab for all kinds twice, under the same id.
\<close>
theorem registered_tabs_sorted_and_doubled:
  assumes "kind \<noteq> []" and "xi_kind item = None"
  shows "sorted (map (\<lambda>t. nullish (et_order t) 50) (getTabsForKind kind r))
    \<and> set (getTabsForKind kind r) = set (nullish (r ''*'') []) \<union> set (nullish (r kind) [])
    \<and> map et_id (extraTabs (DefaultTabsRegistrar Map.empty) item) = [''annotations'', ''annotations'']"
  using assms by (auto simp: getTabsForKind_def extraTabs_def DefaultTabsRegistrar_def registerTab_def always_tab_def Let_def)

subsection \<open>Concrete runs\<close>

definition tabs_item :: "string \<Rightarrow> string \<Rightarrow> shown_item" where
  "tabs_item i permission = \<lparr>i_id = i, i_item_type_id = 1, i_name = i, i_description = None,
     i_fields = Some [\<lparr>if_field_definition_id = 7, if_value_enc = None, if_value_nonce = None, if_position = 0\<rparr>],
     i_owner_dek_wrapped = None, i_owner_wrap_nonce = None, i_expires_at = None, i_rotation_interval_days = None,
     xi_created_by = ''boss'', xi_permission = permission, xi_last_rotated_at = None, xi_requires_approval = False,
     xi_my_access_request = None, xi_kind = None\<rparr>"

definition tabs_demo_data :: tabs_data where
  "tabs_demo_data = \<lparr>td_nodes = [\<lparr>gn_id = ''a'', gn_name = ''A'', gn_item_type_id = 1\<rparr>, \<lparr>gn_id = ''b'', gn_name = ''B'', gn_item_type_id = 2\<rparr>],
     td_edges = [], td_stages = [], td_assigned = \<lambda>_. Failed, td_shares = \<lambda>_. Failed, td_clusters = [],
     td_tags = [\<lparr>tg_id = ''t'', tg_name = ''prod''\<rparr>], td_item_tags = \<lambda>_. [], td_links = \<lambda>_. [], td_suggestions = \<lambda>_. [],
     td_favorite = \<lambda>_. False\<rparr>"

definition secret_field :: FieldDefinition where
  "secret_field = \<lparr>fd_id = 7, fd_key = ''password'', fd_label = [], fd_is_secret = True\<rparr>"

lemma reader_sends_no_change_witness:
  "reader_request (useAddItemTagMutation ''b'' (JObj [(''tag_id'', JStr ''t'')]))"
proof -
  let ?a = "tabs_item ''a'' ''read''" and ?b = "tabs_item ''b'' ''read''"
  let ?es = "[ToggleFavorite, ShowItem ?b True, AddTag ''t'']"
  have n: "\<not> canWrite (tabs_item i ''read'')" "\<not> isOwnerOrAdmin None (tabs_item i ''read'')" for i
    by (simp_all add: canWrite_def isOwnerOrAdmin_def tabs_item_def)
  have e: "\<forall>e\<in>set ?es. reader_event None e" using n by simp
  have r: "possible_run tabs_can tabs_step (tabs_opened ?a tabs_demo_data None) ?es"
    by (simp add: tabs_opened_def show_item_def Let_def availableTags_def tabs_demo_data_def)
  have m: "useAddItemTagMutation ''b'' (JObj [(''tag_id'', JStr ''t'')])
      \<in> set (sent_by tabs_step tabs_sends (tabs_opened ?a tabs_demo_data None) ?es)"
    by (simp add: tabs_opened_def show_item_def Let_def tabs_item_def)
  show ?thesis by (rule reader_sends_no_change [OF n(1) n(2) e r m])
qed

lemma stale_relationship_target_witness:
  "sent_by tabs_step tabs_sends (tabs_opened (tabs_item ''a'' ''write'') tabs_demo_data None)
     [OpenAddRel, PickRelTarget ''b'', ShowItem (tabs_item ''b'' ''write'') True, SubmitRel]
   = [useAddRelationshipMutation ''b'' (relationship_json ''b'' depends_on)]"
proof -
  have "canWrite (tabs_item i ''write'')" for i by (simp add: canWrite_def tabs_item_def)
  moreover have "i_id (tabs_item i p) = i" for i p by (simp add: tabs_item_def)
  moreover have "''b'' \<in> gn_id ` set (td_nodes tabs_demo_data)" by (simp add: tabs_demo_data_def)
  ultimately show ?thesis
    using stale_relationship_target [of "tabs_item ''a'' ''write''" "tabs_item ''b'' ''write''" tabs_demo_data _ None, OF _ _ _ _ _ refl]
    by auto
qed

lemma revealed_row_follows_to_next_item_witness:
  "ItemFieldRow (Decrypted [(7, ''pw'')]) (Some secret_field)
     ((7, 0) \<in> set (tb_revealed (tabs_step (tabs_step (tabs_opened (tabs_item ''a'' ''read'') tabs_demo_data None) (ToggleRow (7, 0)))
        (ShowItem (tabs_item ''b'' ''read'') True)))) (decrypted_value (Decrypted [(7, ''pw'')]) 7) = RowRevealed ''pw''"
  using revealed_row_follows_to_next_item [of "(7, 0)"
      "tabs_step (tabs_opened (tabs_item ''a'' ''read'') tabs_demo_data None) (ToggleRow (7, 0))" "tabs_item ''b'' ''read''"
      "Some secret_field" "Decrypted [(7, ''pw'')]" "[(7, ''pw'')]" "''pw''"]
  by (simp add: tabs_opened_def row_hidden_def row_keys_def sorted_fields_def tabs_item_def secret_field_def set_toggle_def set_add_def)

lemma stage_click_sends_assignment_witness:
  "\<exists>ids. toggleStage True ''a'' Failed 3 = Some (useSetItemLifecycleStagesMutation ''a'' (stage_ids_json ids)) \<and> ids = [3]"
proof -
  obtain m where m: "toggleStage True ''a'' Failed 3 = Some m" by (simp add: toggleStage_def)
  from stage_click_sends_assignment [OF m] m show ?thesis by blast
qed

lemma registered_tabs_sorted_and_doubled_witness:
  "map et_id (extraTabs (DefaultTabsRegistrar Map.empty) (tabs_item ''a'' ''read'')) = [''annotations'', ''annotations'']"
proof -
  have "xi_kind (tabs_item ''a'' ''read'') = None" by (simp add: tabs_item_def)
  from registered_tabs_sorted_and_doubled [of "''Server''", OF _ this] show ?thesis by simp
qed

end
