(* ===== verification/LifecycleLanes.thy ===== *)
theory LifecycleLanes
  imports ItemTabs
begin

text \<open>
  The page of lifecycle lanes (\<open>pages/pipeline/lifecycle.tsx\<close>, \<open>components/pipeline/lifecycle-lane.tsx\<close>):
  the items of the graph in the lanes of their stages, moving and removing them, and the bridge that
  posts the new assignment while the lanes are blocked.
\<close>

record LaneItem =
  li_id :: string
  li_itemTypeId :: nat
  li_displayLabel :: string
  li_stageIds :: "int list"

definition oge :: string where "oge = [CHR 0xC3, CHR 0x96] @ tr_g @ ''e''" \<comment> \<open>the word for an item\<close>

definition makeLabel :: "nat \<Rightarrow> string \<Rightarrow> string" where
  "makeLabel itemTypeId i =
     nullish (PIPELINE_TYPE_LABELS itemTypeId) oge @ [CHR 0x20, CHR 0xC2, CHR 0xB7, CHR 0x20] @ take 8 i"

definition allItems :: "GraphNode list \<Rightarrow> (string \<Rightarrow> int list) \<Rightarrow> LaneItem list" where
  "allItems ns stageMap =
     map (\<lambda>n. \<lparr>li_id = gn_id n, li_itemTypeId = gn_item_type_id n,
       li_displayLabel = makeLabel (gn_item_type_id n) (gn_id n), li_stageIds = stageMap (gn_id n)\<rparr>) ns"

definition itemsByStage :: "LaneItem list \<Rightarrow> int \<Rightarrow> LaneItem list" where
  "itemsByStage items stage = filter (\<lambda>i. stage \<in> set (li_stageIds i)) items"

definition unassignedItems :: "LaneItem list \<Rightarrow> LaneItem list" where
  "unassignedItems items = filter (\<lambda>i. li_stageIds i = []) items"

definition find_item :: "string \<Rightarrow> LaneItem list \<Rightarrow> LaneItem option" where
  "find_item i items = find_first (\<lambda>x. li_id x = i) items"

text \<open>The assignment that a drop and a click on the cross ask for; \<open>None\<close> sends nothing.\<close>

definition lanes_handleDrop :: "LaneItem list \<Rightarrow> string \<Rightarrow> int \<Rightarrow> int list option" where
  "lanes_handleDrop items itemId stage =
     (case find_item itemId items of
        None \<Rightarrow> None
      | Some item \<Rightarrow> if stage \<in> set (li_stageIds item) then None else Some (li_stageIds item @ [stage]))"

definition lanes_handleRemove :: "LaneItem list \<Rightarrow> string \<Rightarrow> int \<Rightarrow> int list option" where
  "lanes_handleRemove items itemId stage =
     map_option (\<lambda>item. filter (\<lambda>s. s \<noteq> stage) (li_stageIds item)) (find_item itemId items)"

subsection \<open>The page with its server\<close>

text \<open>The page shows the graph as it was last fetched; the server keeps the last assignment posted for an
  item. \<open>pendingSet\<close> holds the items whose request is under way, and while it is not empty the lanes take
  no pointer events.\<close>

record lanes =
  ln_nodes :: "GraphNode list"
  ln_shown :: "string \<Rightarrow> int list"
  ln_pending :: "string list"
  ln_flight :: "(string \<times> int list) list"
  ln_server :: "string \<Rightarrow> int list"

datatype lanes_event = Drop string int | RemoveStage string int | LaneSettles bool | GraphRefetched

definition lane_items :: "lanes \<Rightarrow> LaneItem list" where
  "lane_items s = allItems (ln_nodes s) (ln_shown s)"

text \<open>The event that the page dispatches reaches the bridge of that item.\<close>

definition dispatchSetStages :: "string \<Rightarrow> int list option \<Rightarrow> lanes \<Rightarrow> lanes" where
  "dispatchSetStages itemId ids s =
     (case ids of
        None \<Rightarrow> s
      | Some st \<Rightarrow> s\<lparr>ln_pending := set_add itemId (ln_pending s), ln_flight := ln_flight s @ [(itemId, st)]\<rparr>)"

definition handleSettled :: "string \<Rightarrow> lanes \<Rightarrow> lanes" where
  "handleSettled itemId s = s\<lparr>ln_pending := set_delete itemId (ln_pending s)\<rparr>"

fun lanes_step :: "lanes \<Rightarrow> lanes_event \<Rightarrow> lanes" where
  "lanes_step s (Drop i n) = dispatchSetStages i (lanes_handleDrop (lane_items s) i n) s"
| "lanes_step s (RemoveStage i n) = dispatchSetStages i (lanes_handleRemove (lane_items s) i n) s"
| "lanes_step s (LaneSettles ok) =
     (case ln_flight s of
        [] \<Rightarrow> s
      | (i, st) # rest \<Rightarrow>
          handleSettled i (s\<lparr>ln_flight := rest, ln_server := (if ok then (ln_server s)(i := st) else ln_server s)\<rparr>))"
| "lanes_step s GraphRefetched = s\<lparr>ln_shown := ln_server s\<rparr>"

fun lanes_can :: "lanes \<Rightarrow> lanes_event \<Rightarrow> bool" where
  "lanes_can s (Drop i n) = (ln_pending s = [])"
| "lanes_can s (RemoveStage i n) =
     (ln_pending s = [] \<and> (\<exists>x\<in>set (itemsByStage (lane_items s) n). li_id x = i))"
| "lanes_can s (LaneSettles ok) = (ln_flight s \<noteq> [])"
| "lanes_can s GraphRefetched = True"

definition lanes_post :: "string \<times> int list \<Rightarrow> mutation_hook" where
  "lanes_post p = useSetItemLifecycleStagesMutation (fst p) (stage_ids_json (snd p))"

definition lanes_opened :: "GraphNode list \<Rightarrow> (string \<Rightarrow> int list) \<Rightarrow> lanes" where
  "lanes_opened ns server = \<lparr>ln_nodes = ns, ln_shown = server, ln_pending = [], ln_flight = [], ln_server = server\<rparr>"

text \<open>One request at a time, and the pending set is its item.\<close>

definition lanes_inv :: "lanes \<Rightarrow> bool" where
  "lanes_inv s \<longleftrightarrow> length (ln_flight s) \<le> 1 \<and> ln_pending s = map fst (ln_flight s)"

lemma lanes_inv_opened [simp]: "lanes_inv (lanes_opened ns server)"
  by (simp add: lanes_inv_def lanes_opened_def)

interpretation lanes_machine: machine lanes_can lanes_step lanes_inv
proof
  show "lanes_inv (lanes_step s e)" if "lanes_inv s" "lanes_can s e" for s e
    using that by (cases e; cases "ln_flight s")
      (auto simp: lanes_inv_def dispatchSetStages_def handleSettled_def set_add_def set_delete_def split: option.splits)
qed

subsection \<open>Properties\<close>

lemma find_item_node:
  "find_item i (allItems ns m) = None \<longleftrightarrow> i \<notin> gn_id ` set ns"
  "find_item i (allItems ns m) = Some x \<Longrightarrow> li_id x = i \<and> li_stageIds x = m i"
  by (auto simp: find_item_def find_first_None allItems_def dest!: find_first_Some)

text \<open>An item is on the page exactly when it has no stage or one of the catalogue; with stages that are all
  unknown it is in no lane and not among the unassigned.\<close>

lemma item_on_page:
  assumes "x \<in> set items"
  shows "(x \<in> set (unassignedItems items) \<or> (\<exists>n\<in>set catalogue. x \<in> set (itemsByStage items n)))
    \<longleftrightarrow> li_stageIds x = [] \<or> set (li_stageIds x) \<inter> set catalogue \<noteq> {}"
  using assms by (auto simp: unassignedItems_def itemsByStage_def)

text \<open>What the user asks for, on sets of stages.\<close>

fun asked :: "lanes_event \<Rightarrow> (string \<Rightarrow> int set) \<Rightarrow> (string \<Rightarrow> int set)" where
  "asked (Drop i n) f = f(i := insert n (f i))"
| "asked (RemoveStage i n) f = f(i := f i - {n})"
| "asked _ f = f"

definition shown_stages :: "lanes \<Rightarrow> string \<Rightarrow> int set" where
  "shown_stages s i = set (ln_server s i)"

definition calm :: "lanes \<Rightarrow> bool" where
  "calm s \<longleftrightarrow> ln_flight s = [] \<and> ln_pending s = [] \<and> ln_shown s = ln_server s"

fun change_on :: "GraphNode list \<Rightarrow> lanes_event \<Rightarrow> bool" where
  "change_on ns (Drop i n) \<longleftrightarrow> i \<in> gn_id ` set ns"
| "change_on ns (RemoveStage i n) \<longleftrightarrow> i \<in> gn_id ` set ns"
| "change_on ns _ \<longleftrightarrow> False"

text \<open>One change, its answer (accepted or refused) and the refetch that follows it.\<close>

definition settled_change :: "lanes \<Rightarrow> lanes_event \<times> bool \<Rightarrow> lanes" where
  "settled_change s c = lanes_step (lanes_step (lanes_step s (fst c)) (LaneSettles (snd c))) GraphRefetched"

lemma settled_change_asks:
  assumes "calm s" and "change_on (ln_nodes s) e"
  shows "calm (settled_change s (e, ok)) \<and> ln_nodes (settled_change s (e, ok)) = ln_nodes s
    \<and> shown_stages (settled_change s (e, ok)) = (if ok then asked e (shown_stages s) else shown_stages s)"
proof -
  have found: "\<exists>x. find_item i (lane_items s) = Some x \<and> li_id x = i \<and> li_stageIds x = ln_server s i"
    if "i \<in> gn_id ` set (ln_nodes s)" for i
    using that assms(1) find_item_node [where ns = "ln_nodes s" and m = "ln_shown s"]
    by (fastforce simp: lane_items_def calm_def)
  have post: "calm (lanes_step (lanes_step (dispatchSetStages i (Some st) s) (LaneSettles ok)) GraphRefetched)
      \<and> ln_nodes (lanes_step (lanes_step (dispatchSetStages i (Some st) s) (LaneSettles ok)) GraphRefetched) = ln_nodes s
      \<and> shown_stages (lanes_step (lanes_step (dispatchSetStages i (Some st) s) (LaneSettles ok)) GraphRefetched)
          = (if ok then (shown_stages s)(i := set st) else shown_stages s)" for i st
    using assms(1) by (auto simp: dispatchSetStages_def handleSettled_def calm_def shown_stages_def set_add_def set_delete_def fun_eq_iff)
  have none: "calm (lanes_step (lanes_step (dispatchSetStages i None s) (LaneSettles ok)) GraphRefetched)
      \<and> lanes_step (lanes_step (dispatchSetStages i None s) (LaneSettles ok)) GraphRefetched = s" for i
    using assms(1) by (simp add: dispatchSetStages_def calm_def)
  show ?thesis
  proof (cases e)
    case (Drop i n)
    with assms(2) obtain x where x: "find_item i (lane_items s) = Some x" "li_stageIds x = ln_server s i" using found by auto
    show ?thesis
    proof (cases "n \<in> set (ln_server s i)")
      case True
      then have "lanes_handleDrop (lane_items s) i n = None" using x by (simp add: lanes_handleDrop_def)
      moreover have "asked e (shown_stages s) = shown_stages s" using Drop True by (auto simp: shown_stages_def fun_eq_iff)
      ultimately show ?thesis using none [of i] Drop assms(1) by (simp add: settled_change_def del: lanes_step.simps(3,4))
    next
      case False
      then have "lanes_handleDrop (lane_items s) i n = Some (ln_server s i @ [n])" using x by (simp add: lanes_handleDrop_def)
      moreover have "set (ln_server s i @ [n]) = insert n (shown_stages s i)" by (auto simp: shown_stages_def)
      ultimately show ?thesis using post [of i "ln_server s i @ [n]"] Drop by (simp add: settled_change_def del: lanes_step.simps(3,4))
    qed
  next
    case (RemoveStage i n)
    with assms(2) obtain x where x: "find_item i (lane_items s) = Some x" "li_stageIds x = ln_server s i" using found by auto
    then have "lanes_handleRemove (lane_items s) i n = Some (filter (\<lambda>k. k \<noteq> n) (ln_server s i))"
      by (simp add: lanes_handleRemove_def)
    moreover have "set (filter (\<lambda>k. k \<noteq> n) (ln_server s i)) = shown_stages s i - {n}" by (auto simp: shown_stages_def)
    ultimately show ?thesis using post [of i "filter (\<lambda>k. k \<noteq> n) (ln_server s i)"]
      by (simp add: settled_change_def RemoveStage del: lanes_step.simps(3,4))
  qed (use assms(2) in simp_all)
qed

text \<open>
  C38: Drops and removals do what was asked, under two conditions on their order: each is answered, and
  after the answer the graph is fetched again, before the next one is made. Then the server ends with
  exactly the sets of stages that the accepted additions and removals give, whichever answers were
  refusals, and the page shows them. The second condition is needed: a change made between the answer and the new graph
  takes back the stage added before it (\<open>early_drop_loses_stage\<close>).
\<close>
theorem settled_changes_implement_asked:
  assumes "\<forall>c\<in>set cs. change_on ns (fst c)" and "s = foldl settled_change (lanes_opened ns server) cs"
  shows "shown_stages s = foldl (\<lambda>f (e, ok). if ok then asked e f else f) (\<lambda>i. set (server i)) cs
    \<and> ln_shown s = ln_server s \<and> ln_pending s = [] \<and> ln_flight s = []"
proof -
  have "calm (foldl settled_change s cs)
      \<and> shown_stages (foldl settled_change s cs) = foldl (\<lambda>f (e, ok). if ok then asked e f else f) (shown_stages s) cs"
    if "calm s" "ln_nodes s = ns" "\<forall>c\<in>set cs. change_on ns (fst c)" for s cs
    using that
  proof (induction cs arbitrary: s)
    case Nil
    then show ?case by simp
  next
    case (Cons c cs)
    obtain e ok where c: "c = (e, ok)" by fastforce
    with Cons.prems have "calm (settled_change s c) \<and> ln_nodes (settled_change s c) = ns
        \<and> shown_stages (settled_change s c) = (if ok then asked e (shown_stages s) else shown_stages s)"
      using settled_change_asks [of s e ok] by simp
    with Cons c show ?case by simp
  qed
  moreover have "calm (lanes_opened ns server)" "ln_nodes (lanes_opened ns server) = ns"
    "shown_stages (lanes_opened ns server) = (\<lambda>i. set (server i))"
    by (simp_all add: calm_def lanes_opened_def shown_stages_def fun_eq_iff)
  ultimately show ?thesis using assms by (auto simp: calm_def)
qed

text \<open>
  A change made before the graph is fetched again undoes the one before it. The lanes open as soon as
  the request is answered; a second drop of the same item then starts from the stages on screen, and the
  server loses the stage that the first drop had added.
\<close>
theorem early_drop_loses_stage:
  assumes "i \<in> gn_id ` set ns" and "a \<notin> set (server i)" and "b \<notin> set (server i)" and "a \<noteq> b"
    and "es = [Drop i a, LaneSettles True, Drop i b, LaneSettles True]"
  shows "possible_run lanes_can lanes_step (lanes_opened ns server) es
    \<and> ln_server (foldl lanes_step (lanes_opened ns server) es) i = server i @ [b]
    \<and> a \<notin> set (ln_server (foldl lanes_step (lanes_opened ns server) es) i)"
proof -
  obtain x where x: "find_item i (allItems ns server) = Some x" "li_stageIds x = server i"
    using assms(1) find_item_node [where ns = ns and m = server] by fastforce
  have d: "lanes_handleDrop (allItems ns server) i n = Some (server i @ [n])" if "n \<notin> set (server i)" for n
    using that x by (simp add: lanes_handleDrop_def)
  show ?thesis
    using assms(2-5) d by (simp add: lanes_opened_def dispatchSetStages_def lane_items_def handleSettled_def set_add_def set_delete_def)
qed

text \<open>
  In every run at most one assignment is under way, and while it is the lanes offer nothing: neither a
  drop nor a removal can start.
\<close>
theorem lanes_one_request_at_a_time:
  assumes "possible_run lanes_can lanes_step (lanes_opened ns server) es" and "s = foldl lanes_step (lanes_opened ns server) es"
  shows "length (ln_flight s) \<le> 1 \<and> (ln_flight s \<noteq> [] \<longrightarrow> \<not> lanes_can s (Drop i n) \<and> \<not> lanes_can s (RemoveStage i n))"
proof -
  have "lanes_inv s" using lanes_machine.run_keeps [OF lanes_inv_opened assms(1)] assms(2) by simp
  then show ?thesis by (auto simp: lanes_inv_def)
qed

subsection \<open>Concrete runs\<close>

definition lane_nodes :: "GraphNode list" where
  "lane_nodes = [\<lparr>gn_id = ''a'', gn_name = ''A'', gn_item_type_id = 1\<rparr>]"

lemma settled_changes_implement_asked_witness:
  "shown_stages (foldl settled_change (lanes_opened lane_nodes (\<lambda>_. []))
     [(Drop ''a'' 1, True), (Drop ''a'' 2, True), (Drop ''a'' 3, False), (RemoveStage ''a'' 1, True)]) ''a'' = {2}"
  using settled_changes_implement_asked [of "[(Drop ''a'' 1, True), (Drop ''a'' 2, True), (Drop ''a'' 3, False), (RemoveStage ''a'' 1, True)]"
    lane_nodes, OF _ refl, of "\<lambda>_. []"]
  by (auto simp: lane_nodes_def)

lemma early_drop_loses_stage_witness:
  "ln_server (foldl lanes_step (lanes_opened lane_nodes (\<lambda>_. [])) [Drop ''a'' 1, LaneSettles True, Drop ''a'' 2, LaneSettles True]) ''a'' = [2]"
  using early_drop_loses_stage [of "''a''" lane_nodes 1 "\<lambda>_. []" 2, OF _ _ _ _ refl] by (simp add: lane_nodes_def)

lemma lanes_one_request_at_a_time_witness:
  "length (ln_flight (foldl lanes_step (lanes_opened lane_nodes (\<lambda>_. [])) [Drop ''a'' 1])) \<le> 1"
proof -
  have "possible_run lanes_can lanes_step (lanes_opened lane_nodes (\<lambda>_. [])) [Drop ''a'' 1]" by (simp add: lanes_opened_def)
  from lanes_one_request_at_a_time [OF this refl] show ?thesis by blast
qed

end
