(* ===== verification/Diagrams.thy ===== *)
theory Diagrams
  imports LifecycleLanes CatalogHooks "HOL-Library.List_Lexorder"
begin

text \<open>
  Pipeline diagrams (\<open>components/pipeline/pipeline-canvas.tsx\<close>, \<open>diagram-sidebar.tsx\<close>,
  \<open>pages/pipeline/diagram.tsx\<close>, \<open>pages/pipeline/index.tsx\<close>) and the relationship map (\<open>pages/graph.tsx\<close>).
  The layout of dagre and the canvas of ReactFlow are parameters; positions are whole numbers.
\<close>

subsection \<open>From the server's diagram to the canvas\<close>

record DiagramGraphNode =
  dn_id :: string
  dn_item_type_id :: nat
  dn_position_x :: "int option"
  dn_position_y :: "int option"
  dn_custom_label :: "string option"

record DiagramGraph =
  dg_nodes :: "DiagramGraphNode list"
  dg_edges :: "GraphEdge list"
  dg_stages :: "string \<Rightarrow> int list"

record canvas_node =
  cn_id :: string
  cn_label :: string
  cn_stage :: "lifecycle_stage option"
  cn_pos :: "int \<times> int"

record canvas_edge =
  ce_id :: string
  ce_source :: string
  ce_target :: string

definition NODE_WIDTH :: int where "NODE_WIDTH = 200"
definition NODE_HEIGHT :: int where "NODE_HEIGHT = 80"

text \<open>\<open>dagre\<close> gives each node the middle of its box.\<close>

type_synonym dagre = "string list \<Rightarrow> (string \<times> string) list \<Rightarrow> string \<Rightarrow> int \<times> int"

definition applyDagreLayout :: "dagre \<Rightarrow> canvas_node list \<Rightarrow> canvas_edge list \<Rightarrow> canvas_node list" where
  "applyDagreLayout layout ns es =
     map (\<lambda>n. let (x, y) = layout (map cn_id ns) (map (\<lambda>e. (ce_source e, ce_target e)) es) (cn_id n)
        in n\<lparr>cn_pos := (x - NODE_WIDTH div 2, y - NODE_HEIGHT div 2)\<rparr>) ns"

definition stage_by_id :: "lifecycle_stage list \<Rightarrow> int \<rightharpoonup> lifecycle_stage" where
  "stage_by_id catalog = map_of (rev (map (\<lambda>s. (ls_id s, s)) catalog))"

definition has_position :: "DiagramGraphNode \<Rightarrow> bool" where
  "has_position n \<longleftrightarrow> dn_position_x n \<noteq> None \<and> dn_position_y n \<noteq> None"

definition node_label :: "DiagramGraphNode \<Rightarrow> string" where
  "node_label n = nullish (dn_custom_label n)
     ((if dn_item_type_id n \<noteq> 0 then ''#'' @ show_nat (dn_item_type_id n) else oge)
       @ [CHR 0x20, CHR 0xC2, CHR 0xB7, CHR 0x20] @ take 8 (dn_id n))"

definition buildElements :: "DiagramGraph \<Rightarrow> lifecycle_stage list \<Rightarrow> canvas_node list \<times> canvas_edge list \<times> bool" where
  "buildElements g catalog =
     (map (\<lambda>n. \<lparr>cn_id = dn_id n, cn_label = node_label n,
          cn_stage = (case dg_stages g (dn_id n) of [] \<Rightarrow> None | s # _ \<Rightarrow> stage_by_id catalog s),
          cn_pos = (if has_position n then (the (dn_position_x n), the (dn_position_y n)) else (0, 0))\<rparr>) (dg_nodes g),
      map (\<lambda>e. \<lparr>ce_id = ge_source_id e @ ''-'' @ ge_target_id e @ ''-'' @ rel_name (ge_type e),
          ce_source = ge_source_id e, ce_target = ge_target_id e\<rparr>) (dg_edges g),
      \<exists>n\<in>set (dg_nodes g). \<not> has_position n)"

subsection \<open>The canvas\<close>

text \<open>The timer of the delayed save holds the nodes it will send. The list a finished drag passes is what
  ReactFlow gives the handler; its documentation says the nodes dragged.\<close>

record canvas =
  cv_diagram :: string
  cv_nodes :: "canvas_node list"
  cv_edges :: "canvas_edge list"
  cv_timer :: "canvas_node list option"

datatype canvas_event =
    GraphArrives DiagramGraph
  | DragEnds "canvas_node list"
  | Connects canvas_edge
  | AutoLayout | SaveNow | TimerFires
  | RemoveNode string

definition sync_graph :: "dagre \<Rightarrow> lifecycle_stage list \<Rightarrow> DiagramGraph \<Rightarrow> canvas \<Rightarrow> canvas" where
  "sync_graph layout catalog g s =
     (let (ns, es, needsLayout) = buildElements g catalog
      in s\<lparr>cv_nodes := (if needsLayout then applyDagreLayout layout ns es else ns), cv_edges := es\<rparr>)"

definition moved :: "canvas_node list \<Rightarrow> canvas_node list \<Rightarrow> canvas_node list" where
  "moved dragged ns = map (\<lambda>n. case find_first (\<lambda>d. cn_id d = cn_id n) dragged of None \<Rightarrow> n | Some d \<Rightarrow> n\<lparr>cn_pos := cn_pos d\<rparr>) ns"

fun canvas_step :: "dagre \<Rightarrow> lifecycle_stage list \<Rightarrow> canvas \<Rightarrow> canvas_event \<Rightarrow> canvas" where
  "canvas_step layout catalog s (GraphArrives g) = sync_graph layout catalog g s"
| "canvas_step layout catalog s (DragEnds ns) = s\<lparr>cv_nodes := moved ns (cv_nodes s), cv_timer := Some ns\<rparr>"
| "canvas_step layout catalog s (Connects e) = s\<lparr>cv_edges := cv_edges s @ [e]\<rparr>"
| "canvas_step layout catalog s AutoLayout =
     (let laid = applyDagreLayout layout (cv_nodes s) (cv_edges s) in s\<lparr>cv_nodes := laid, cv_timer := Some laid\<rparr>)"
| "canvas_step layout catalog s SaveNow = s\<lparr>cv_timer := None\<rparr>"
| "canvas_step layout catalog s TimerFires = s\<lparr>cv_timer := None\<rparr>"
| "canvas_step layout catalog s (RemoveNode i) = s"

fun canvas_can :: "canvas \<Rightarrow> canvas_event \<Rightarrow> bool" where
  "canvas_can s TimerFires = (cv_timer s \<noteq> None)"
| "canvas_can s (DragEnds ns) = (ns \<noteq> [] \<and> cn_id ` set ns \<subseteq> cn_id ` set (cv_nodes s))"
| "canvas_can s (RemoveNode i) = (i \<in> cn_id ` set (cv_nodes s))"
| "canvas_can s (GraphArrives g) = True"
| "canvas_can s _ = (cv_nodes s \<noteq> [])"

definition layout_json :: "json \<Rightarrow> canvas_node list \<Rightarrow> json" where
  "layout_json viewport ns = JObj [(''nodes'', JArr (map (\<lambda>n. JObj [(''item_id'', JStr (cn_id n)),
     (''position_x'', JNum (fst (cn_pos n))), (''position_y'', JNum (snd (cn_pos n)))]) ns)), (''viewport'', viewport)]"

fun canvas_sends :: "json \<Rightarrow> canvas \<Rightarrow> canvas_event \<Rightarrow> mutation_hook list" where
  "canvas_sends viewport s TimerFires =
     (case cv_timer s of None \<Rightarrow> [] | Some ns \<Rightarrow> [useSaveDiagramLayoutMutation (cv_diagram s) (layout_json viewport ns)])"
| "canvas_sends viewport s SaveNow = [useSaveDiagramLayoutMutation (cv_diagram s) (layout_json viewport (cv_nodes s))]"
| "canvas_sends viewport s (RemoveNode i) = [useRemoveDiagramNodeMutation (cv_diagram s) i]"
| "canvas_sends viewport s _ = []"

definition export_name :: "string option \<Rightarrow> string \<Rightarrow> string" where
  "export_name diagramName ext = nullish diagramName ''pipeline'' @ ''.'' @ ext"

subsection \<open>The picker beside the canvas\<close>

record sidebar =
  sb_search :: string
  sb_adding :: "string list"

definition sidebar_candidates :: "GraphNode list \<Rightarrow> string list \<Rightarrow> GraphNode list" where
  "sidebar_candidates ns existing = filter (\<lambda>n. gn_id n \<notin> set existing) ns"

definition sidebar_filtered ::
    "(string \<Rightarrow> string) \<Rightarrow> (string \<Rightarrow> string \<Rightarrow> bool) \<Rightarrow> string \<Rightarrow> GraphNode list \<Rightarrow> GraphNode list" where
  "sidebar_filtered lower includes search ns =
     (if trim search = [] then ns
      else filter (\<lambda>n. includes (lower (nullish (PIPELINE_TYPE_LABELS (gn_item_type_id n)) [])) (lower search)
             \<or> includes (lower (gn_id n)) (lower search)) ns)"

definition add_nodes_json :: "string list \<Rightarrow> json" where
  "add_nodes_json ids = JObj [(''item_ids'', JArr (map JStr ids))]"

definition sidebar_handleAdd :: "string \<Rightarrow> string \<Rightarrow> sidebar \<Rightarrow> mutation_hook \<times> sidebar" where
  "sidebar_handleAdd diagram itemId s =
     (useAddDiagramNodesMutation diagram (add_nodes_json [itemId]), s\<lparr>sb_adding := set_add itemId (sb_adding s)\<rparr>)"

definition sidebar_settled :: "string \<Rightarrow> sidebar \<Rightarrow> sidebar" where
  "sidebar_settled itemId s = s\<lparr>sb_adding := set_delete itemId (sb_adding s)\<rparr>"

definition add_all :: "string \<Rightarrow> GraphNode list \<Rightarrow> mutation_hook option" where
  "add_all diagram filtered =
     (if 1 < length filtered then Some (useAddDiagramNodesMutation diagram (add_nodes_json (map gn_id filtered))) else None)"

subsection \<open>Making, renaming and deleting a diagram\<close>

definition diagram_json :: "string \<Rightarrow> string \<Rightarrow> json" where
  "diagram_json name desc = JObj ([(''name'', JStr (trim name))] @ opt_str ''description'' (or_undefined (trim desc)))"

definition create_diagram :: "string \<Rightarrow> string \<Rightarrow> mutation_hook option" where
  "create_diagram name desc = (if trim name = [] then None else Some (useCreatePipelineDiagramMutation (diagram_json name desc)))"

definition rename_diagram :: "string \<Rightarrow> string \<Rightarrow> string \<Rightarrow> mutation_hook option" where
  "rename_diagram i newName newDesc =
     (if trim newName = [] then None else Some (useUpdatePipelineDiagramMutation i (diagram_json newName newDesc)))"

definition delete_target :: "(string \<times> string) option \<Rightarrow> mutation_hook option" where
  "delete_target target = map_option (\<lambda>(i, _). useDeletePipelineDiagramMutation i) target"

subsection \<open>The relationship map\<close>

definition ITEM_TYPE_LABELS :: "nat \<rightharpoonup> string" where
  "ITEM_TYPE_LABELS = map_of (zip [1..<9]
     [''Sunucu'', ''URL'', ''Veritaban'' @ tr_i, ''SSH Anahtar'' @ tr_i, ''API Anahtar'' @ tr_i, ''Genel'', ''Not'',
      ''Di'' @ tr_g @ ''er''])"

record graph_page =
  gp_selectedId :: "string option"
  gp_addingForId :: "string option"
  gp_search :: string
  gp_activeTypes :: "nat list"

definition graph_opened :: graph_page where
  "graph_opened = \<lparr>gp_selectedId = None, gp_addingForId = None, gp_search = [], gp_activeTypes = []\<rparr>"

text \<open>\<open>sort()\<close> without a comparison sorts numbers as texts.\<close>

definition presentTypes :: "GraphNode list \<Rightarrow> nat list" where
  "presentTypes ns = sort_key (\<lambda>t. map of_char (show_nat t) :: nat list) (js_set (map gn_item_type_id ns))"

definition graph_matches :: "(string \<Rightarrow> string) \<Rightarrow> (string \<Rightarrow> string \<Rightarrow> bool) \<Rightarrow> graph_page \<Rightarrow> GraphNode \<Rightarrow> bool" where
  "graph_matches lower includes p n \<longleftrightarrow>
     \<not> (gp_activeTypes p \<noteq> [] \<and> gn_item_type_id n \<notin> set (gp_activeTypes p))
     \<and> (gp_search p = []
        \<or> includes (lower (gn_name n)) (lower (gp_search p))
        \<or> includes (lower (nullish (ITEM_TYPE_LABELS (gn_item_type_id n)) [])) (lower (gp_search p))
        \<or> includes (gn_id n) (lower (gp_search p)))"

definition nodeName :: "GraphNode list \<Rightarrow> string \<Rightarrow> string" where
  "nodeName ns i =
     (case find_first (\<lambda>n. gn_id n = i) ns of
        Some n \<Rightarrow> if gn_name n \<noteq> [] then gn_name n else take 8 i
      | None \<Rightarrow> take 8 i)"

definition click_node :: "string \<Rightarrow> graph_page \<Rightarrow> graph_page" where
  "click_node i p = p\<lparr>gp_selectedId := (if gp_selectedId p = Some i then None else Some i), gp_addingForId := None\<rparr>"

definition toggle_type :: "nat \<Rightarrow> graph_page \<Rightarrow> graph_page" where
  "toggle_type t p = p\<lparr>gp_activeTypes := set_toggle t (gp_activeTypes p)\<rparr>"

text \<open>A card passes only the far end of the edge; the near end is the selected node.\<close>

definition handleDeleteEdge :: "graph_page \<Rightarrow> string \<Rightarrow> RelationshipType \<Rightarrow> mutation_hook option" where
  "handleDeleteEdge p target t =
     (case gp_selectedId p of
        None \<Rightarrow> None
      | Some i \<Rightarrow> if i = [] then None else Some (useDeleteRelationshipMutation i target (rel_name t)))"

definition card_delete :: "graph_page \<Rightarrow> GraphEdge \<Rightarrow> mutation_hook option" where
  "card_delete p e = handleDeleteEdge p (ge_target_id e) (ge_type e)"

definition add_candidates :: "string \<Rightarrow> GraphNode list \<Rightarrow> GraphNode list" where
  "add_candidates source ns = filter (\<lambda>n. gn_id n \<noteq> source) ns"

definition AddRelPanel_submit :: "string \<Rightarrow> string \<Rightarrow> RelationshipType \<Rightarrow> mutation_hook option" where
  "AddRelPanel_submit source target t =
     (if target = [] then None else Some (useAddRelationshipMutation source (relationship_json target t)))"

section \<open>What the canvas and the map keep\<close>

text \<open>Properties of the diagrams and of the relationship map (theory Diagrams).\<close>

subsection \<open>The canvas keeps the diagram\<close>

lemma layout_keeps_ids [simp]: "map cn_id (applyDagreLayout layout ns es) = map cn_id ns"
  by (simp add: applyDagreLayout_def comp_def case_prod_beta)

lemma moved_keeps_ids [simp]: "map cn_id (moved ds ns) = map cn_id ns"
  by (induction ns) (auto simp: moved_def split: option.splits)

lemma sync_shows_graph:
  "map cn_id (cv_nodes (sync_graph layout catalog g s)) = map dn_id (dg_nodes g)"
  "map (\<lambda>e. (ce_source e, ce_target e)) (cv_edges (sync_graph layout catalog g s)) = map (\<lambda>e. (ge_source_id e, ge_target_id e)) (dg_edges g)"
  by (simp_all add: sync_graph_def buildElements_def Let_def comp_def)

text \<open>The ids on the canvas change only when a graph arrives; the pending save is about nodes on the canvas
  as long as none does.\<close>

definition canvas_inv :: "string list \<Rightarrow> canvas \<Rightarrow> bool" where
  "canvas_inv ids s \<longleftrightarrow> map cn_id (cv_nodes s) = ids
     \<and> (case cv_timer s of None \<Rightarrow> True | Some ns \<Rightarrow> ns \<noteq> [] \<and> cn_id ` set ns \<subseteq> set ids)"

fun no_graph :: "canvas_event \<Rightarrow> bool" where
  "no_graph (GraphArrives g) = False"
| "no_graph _ = True"

definition quiet_can :: "canvas \<Rightarrow> canvas_event \<Rightarrow> bool" where
  "quiet_can s e \<longleftrightarrow> canvas_can s e \<and> no_graph e"

text \<open>A request the canvas may send: a layout of nodes of the diagram, or the removal of one.\<close>

definition about_nodes :: "string \<Rightarrow> string list \<Rightarrow> mutation_hook \<Rightarrow> bool" where
  "about_nodes d ids m \<longleftrightarrow> (\<exists>v ns. ns \<noteq> [] \<and> cn_id ` set ns \<subseteq> set ids \<and> m = useSaveDiagramLayoutMutation d (layout_json v ns))
     \<or> (\<exists>i\<in>set ids. m = useRemoveDiagramNodeMutation d i)"

definition canvas_at :: "string \<Rightarrow> string list \<Rightarrow> canvas \<Rightarrow> bool" where
  "canvas_at d ids s \<longleftrightarrow> cv_diagram s = d \<and> canvas_inv ids s"

lemma about_nodesI:
  "ns \<noteq> [] \<Longrightarrow> cn_id ` set ns \<subseteq> set ids \<Longrightarrow> about_nodes d ids (useSaveDiagramLayoutMutation d (layout_json v ns))"
  "i \<in> set ids \<Longrightarrow> about_nodes d ids (useRemoveDiagramNodeMutation d i)"
  by (auto simp only: about_nodes_def)

lemma canvas_at_nodes: "canvas_at d ids s \<Longrightarrow> cn_id ` set (cv_nodes s) = set ids"
  by (metis canvas_at_def canvas_inv_def list.set_map)

lemma canvas_step_stays:
  assumes "canvas_at d ids s" and "quiet_can s e"
  shows "canvas_at d ids (canvas_step layout catalog s e)"
proof (cases e)
  case (DragEnds ns)
  then show ?thesis using assms canvas_at_nodes [OF assms(1)] by (auto simp: canvas_at_def canvas_inv_def quiet_can_def)
next
  case AutoLayout
  have "cn_id ` set (applyDagreLayout layout (cv_nodes s) (cv_edges s)) = set ids"
    using canvas_at_nodes [OF assms(1)] by (metis layout_keeps_ids list.set_map)
  moreover have "applyDagreLayout layout (cv_nodes s) (cv_edges s) \<noteq> []"
    using assms(2) AutoLayout by (auto simp: quiet_can_def applyDagreLayout_def)
  ultimately show ?thesis using assms(1) AutoLayout by (auto simp: canvas_at_def canvas_inv_def Let_def)
qed (use assms in \<open>auto simp: canvas_at_def canvas_inv_def quiet_can_def\<close>)

lemma canvas_sends_stay:
  assumes "canvas_at d ids s" and "quiet_can s e" and "m \<in> set (canvas_sends viewport s e)"
  shows "about_nodes d ids m"
proof -
  have at: "cv_diagram s = d" using assms(1) by (simp add: canvas_at_def)
  note ids = canvas_at_nodes [OF assms(1)]
  show ?thesis
  proof (cases e)
    case TimerFires
    then obtain ns where ns: "cv_timer s = Some ns" using assms(2) by (auto simp: quiet_can_def)
    with assms(1) have "ns \<noteq> []" "cn_id ` set ns \<subseteq> set ids" by (simp_all add: canvas_at_def canvas_inv_def)
    moreover have "m = useSaveDiagramLayoutMutation d (layout_json viewport ns)" using assms(3) TimerFires ns at by simp
    ultimately show ?thesis by (simp add: about_nodesI)
  next
    case SaveNow
    then have "cv_nodes s \<noteq> []" using assms(2) by (simp add: quiet_can_def)
    moreover have "m = useSaveDiagramLayoutMutation d (layout_json viewport (cv_nodes s))" using assms(3) SaveNow at by simp
    ultimately show ?thesis using ids by (simp add: about_nodesI)
  next
    case (RemoveNode i)
    then have "i \<in> set ids" using assms(2) ids by (simp add: quiet_can_def)
    moreover have "m = useRemoveDiagramNodeMutation d i" using assms(3) RemoveNode at by simp
    ultimately show ?thesis by (simp add: about_nodesI)
  qed (use assms(3) in simp_all)
qed

interpretation canvas_machine: sending_page quiet_can "canvas_step layout catalog" "canvas_at d ids" "canvas_sends viewport" "about_nodes d ids"
  for layout catalog d ids viewport
  by unfold_locales (blast intro: canvas_step_stays canvas_sends_stay)+

text \<open>
  What the canvas sends is about the diagram on it. As long as no new graph arrives, every request of
  every run is the removal of one of its nodes or a layout of some of them, and every layout names at
  least one node.
\<close>
theorem canvas_sends_own_nodes:
  assumes "canvas_at d ids s" and "\<forall>e\<in>set es. no_graph e" and "possible_run canvas_can (canvas_step layout catalog) s es"
    and "m \<in> set (sent_by (canvas_step layout catalog) (canvas_sends viewport) s es)"
  shows "about_nodes d ids m"
proof -
  have "possible_run quiet_can (canvas_step layout catalog) s es"
    if "possible_run canvas_can (canvas_step layout catalog) s es" "\<forall>e\<in>set es. no_graph e" for s
    using that by (induction es arbitrary: s) (simp_all add: quiet_can_def)
  then show ?thesis using canvas_machine.run_sends_ok [OF assms(1)] assms(2-4) by blast
qed

definition demo_node :: "string \<Rightarrow> canvas_node" where
  "demo_node i = \<lparr>cn_id = i, cn_label = i, cn_stage = None, cn_pos = (0, 0)\<rparr>"

definition demo_canvas :: canvas where
  "demo_canvas = \<lparr>cv_diagram = ''d'', cv_nodes = [demo_node ''a'', demo_node ''b''], cv_edges = [], cv_timer = None\<rparr>"

theorem canvas_sends_own_nodes_witness:
  "about_nodes ''d'' [''a'', ''b''] (useRemoveDiagramNodeMutation ''d'' ''b'')"
  by (rule canvas_sends_own_nodes [where s = demo_canvas and es = "[AutoLayout, RemoveNode ''b'']" and layout = "\<lambda>_ _ _. (0, 0)"
        and catalog = "[]" and viewport = JNull])
    (simp_all add: demo_canvas_def demo_node_def canvas_at_def canvas_inv_def applyDagreLayout_def Let_def)

text \<open>
  A second drag loses the first. When two nodes are dragged within a second, the timer of the first
  save is replaced; if the canvas hands over the nodes dragged, the only layout sent is that of the
  second node, and the first one's place is never saved.
\<close>
theorem second_drag_loses_first:
  assumes "cn_id a \<in> cn_id ` set (cv_nodes s)" and "cn_id b \<in> cn_id ` set (cv_nodes s)" and "cn_id a \<noteq> cn_id b"
    and "es = [DragEnds [a], DragEnds [b], TimerFires]"
  shows "possible_run canvas_can (canvas_step layout catalog) s es
    \<and> sent_by (canvas_step layout catalog) (canvas_sends viewport) s es
        = [useSaveDiagramLayoutMutation (cv_diagram s) (layout_json viewport [b])]
    \<and> cv_timer (foldl (canvas_step layout catalog) s es) = None"
proof -
  have "cn_id ` set (moved ds (cv_nodes s)) = cn_id ` set (cv_nodes s)" for ds
    by (metis moved_keeps_ids list.set_map)
  with assms show ?thesis by simp
qed

theorem second_drag_loses_first_witness:
  "sent_by (canvas_step (\<lambda>_ _ _. (0, 0)) []) (canvas_sends JNull) demo_canvas
      [DragEnds [(demo_node ''a'')\<lparr>cn_pos := (5, 5)\<rparr>], DragEnds [(demo_node ''b'')\<lparr>cn_pos := (7, 7)\<rparr>], TimerFires]
    = [useSaveDiagramLayoutMutation ''d'' (layout_json JNull [(demo_node ''b'')\<lparr>cn_pos := (7, 7)\<rparr>])]"
  using second_drag_loses_first [where s = demo_canvas and a = "(demo_node ''a'')\<lparr>cn_pos := (5, 5)\<rparr>" and layout = "\<lambda>_ _ _. (0, 0)"
      and b = "(demo_node ''b'')\<lparr>cn_pos := (7, 7)\<rparr>" and catalog = "[]" and viewport = JNull, OF _ _ _ refl]
  by (simp add: demo_canvas_def demo_node_def)

text \<open>
  A node without a place rearranges the whole diagram. When the graph that arrives has a single node
  that was never placed, every node goes where the layout puts it, those with a saved place too; when all
  have a place, each is shown where it was saved.
\<close>
theorem new_node_rearranges_all:
  assumes "n \<in> set (dg_nodes g)" and "has_position n" and "distinct (map dn_id (dg_nodes g))"
  shows "(\<exists>c\<in>set (cv_nodes (sync_graph layout catalog g s)). cn_id c = dn_id n
    \<and> cn_pos c = (if \<forall>k\<in>set (dg_nodes g). has_position k then (the (dn_position_x n), the (dn_position_y n))
        else (let (x, y) = layout (map dn_id (dg_nodes g)) (map (\<lambda>e. (ge_source_id e, ge_target_id e)) (dg_edges g)) (dn_id n)
              in (x - 100, y - 40))))"
proof -
  let ?b = "\<lambda>n. \<lparr>cn_id = dn_id n, cn_label = node_label n,
          cn_stage = (case dg_stages g (dn_id n) of [] \<Rightarrow> None | s # _ \<Rightarrow> stage_by_id catalog s),
          cn_pos = (if has_position n then (the (dn_position_x n), the (dn_position_y n)) else (0, 0))\<rparr>"
  show ?thesis
  proof (cases "\<forall>k\<in>set (dg_nodes g). has_position k")
    case True
    with assms show ?thesis by (auto simp: sync_graph_def buildElements_def Let_def)
  next
    case False
    then show ?thesis using assms(1)
      by (auto simp: sync_graph_def buildElements_def applyDagreLayout_def NODE_WIDTH_def NODE_HEIGHT_def Let_def comp_def split: prod.splits)
  qed
qed

theorem new_node_rearranges_all_witness:
  "\<exists>c\<in>set (cv_nodes (sync_graph (\<lambda>_ _ _. (500, 500)) []
      \<lparr>dg_nodes = [\<lparr>dn_id = ''a'', dn_item_type_id = 1, dn_position_x = Some 5, dn_position_y = Some 6, dn_custom_label = None\<rparr>,
                  \<lparr>dn_id = ''b'', dn_item_type_id = 1, dn_position_x = None, dn_position_y = None, dn_custom_label = None\<rparr>],
       dg_edges = [], dg_stages = (\<lambda>_. [])\<rparr> demo_canvas)). cn_id c = ''a'' \<and> cn_pos c = (400, 460)"
  using new_node_rearranges_all [where s = demo_canvas and layout = "\<lambda>_ _ _. (500, 500)" and catalog = "[]"
      and n = "\<lparr>dn_id = ''a'', dn_item_type_id = 1, dn_position_x = Some 5, dn_position_y = Some 6, dn_custom_label = None\<rparr>"
      and g = "\<lparr>dg_nodes = [\<lparr>dn_id = ''a'', dn_item_type_id = 1, dn_position_x = Some 5, dn_position_y = Some 6, dn_custom_label = None\<rparr>,
                  \<lparr>dn_id = ''b'', dn_item_type_id = 1, dn_position_x = None, dn_position_y = None, dn_custom_label = None\<rparr>],
       dg_edges = [], dg_stages = (\<lambda>_. [])\<rparr>"]
  by (simp add: has_position_def)

subsection \<open>The relationship map\<close>

lemma delete_relationship_inj:
  "useDeleteRelationshipMutation i t r = useDeleteRelationshipMutation j t r \<longleftrightarrow> i = j"
  by (simp add: useDeleteRelationshipMutation_def mutation_def item_path_def)

text \<open>
  Deleting from a card that is not selected deletes another relationship. The button on the card of an
  edge's source sends the right request exactly when that card is the selected one; with another item
  selected it names that item, and with none selected nothing is sent.
\<close>
theorem card_delete_right_iff_selected:
  assumes "ge_source_id e \<noteq> []"
  shows "(card_delete p e = Some (useDeleteRelationshipMutation (ge_source_id e) (ge_target_id e) (rel_name (ge_type e)))
      \<longleftrightarrow> gp_selectedId p = Some (ge_source_id e))
    \<and> (gp_selectedId p = None \<longrightarrow> card_delete p e = None)"
  using assms by (auto simp: card_delete_def handleDeleteEdge_def delete_relationship_inj split: option.splits if_splits)

theorem card_delete_right_iff_selected_witness:
  "card_delete (click_node ''c'' graph_opened) \<lparr>ge_source_id = ''a'', ge_target_id = ''b'', ge_type = depends_on\<rparr>
    \<noteq> Some (useDeleteRelationshipMutation ''a'' ''b'' ''depends_on'')"
  using card_delete_right_iff_selected [of "\<lparr>ge_source_id = ''a'', ge_target_id = ''b'', ge_type = depends_on\<rparr>" "click_node ''c'' graph_opened"]
  by (simp add: click_node_def graph_opened_def)

lemma presentTypes_facts:
  "set (presentTypes ns) = gn_item_type_id ` set ns" "distinct (presentTypes ns)"
  by (simp_all add: presentTypes_def)

end
