(* ===== verification/CreateWizard.thy ===== *)
theory CreateWizard
  imports ItemTabs
begin

text \<open>
  The wizard that makes a catalogue entity (\<open>pages/create/index.tsx\<close> with the steps of
  \<open>components/create\<close>): the five steps and what lets the user go on, and the requests of the last one:
  an item without fields under a fresh key, its relations, its stages and its annotations.
\<close>

record template_type = ItemType +
  tt_kind_key :: "string option"

record PendingRelation =
  pr_targetId :: string
  pr_targetName :: string
  pr_type :: RelationshipType

text \<open>The last two are the state of the relation step, which starts anew whenever the step is shown.\<close>

record wizard =
  wz_step :: nat
  wz_submitting :: bool
  wz_selected :: "template_type option"
  wz_name :: string
  wz_description :: string
  wz_folderId :: string
  wz_kindFields :: "(string \<times> string) list"
  wz_relations :: "PendingRelation list"
  wz_stageIds :: "int list"
  wz_q :: string
  wz_relType :: RelationshipType

definition wizard_opened :: wizard where
  "wizard_opened = \<lparr>wz_step = 1, wz_submitting = False, wz_selected = None, wz_name = [], wz_description = [],
     wz_folderId = [], wz_kindFields = [], wz_relations = [], wz_stageIds = [], wz_q = [], wz_relType = depends_on\<rparr>"

subsection \<open>The steps\<close>

record kind_field =
  kf_key :: string
  kf_required :: bool
  kf_type :: string

definition KIND_FIELD_SCHEMAS :: "string \<rightharpoonup> kind_field list" where
  "KIND_FIELD_SCHEMAS = map_of [
     (''Server'', [\<lparr>kf_key = ''hostname'', kf_required = True, kf_type = ''text''\<rparr>,
        \<lparr>kf_key = ''ip_address'', kf_required = False, kf_type = ''text''\<rparr>, \<lparr>kf_key = ''os'', kf_required = False, kf_type = ''text''\<rparr>]),
     (''Database'', [\<lparr>kf_key = ''engine'', kf_required = True, kf_type = ''text''\<rparr>,
        \<lparr>kf_key = ''version'', kf_required = False, kf_type = ''text''\<rparr>, \<lparr>kf_key = ''port'', kf_required = False, kf_type = ''number''\<rparr>]),
     (''Service'', [\<lparr>kf_key = ''url'', kf_required = True, kf_type = ''text''\<rparr>,
        \<lparr>kf_key = ''api_docs_url'', kf_required = False, kf_type = ''text''\<rparr>]),
     (''Certificate'', [\<lparr>kf_key = ''domain'', kf_required = True, kf_type = ''text''\<rparr>,
        \<lparr>kf_key = ''issuer'', kf_required = False, kf_type = ''text''\<rparr>, \<lparr>kf_key = ''expires_at'', kf_required = False, kf_type = ''date''\<rparr>]),
     (''SSHKey'', [\<lparr>kf_key = ''hostname'', kf_required = False, kf_type = ''text''\<rparr>,
        \<lparr>kf_key = ''username'', kf_required = False, kf_type = ''text''\<rparr>]),
     (''CloudCredential'', [\<lparr>kf_key = ''provider'', kf_required = True, kf_type = ''text''\<rparr>,
        \<lparr>kf_key = ''region'', kf_required = False, kf_type = ''text''\<rparr>])]"

definition kind_schema :: "wizard \<Rightarrow> kind_field list" where
  "kind_schema w =
     (case wz_selected w of
        None \<Rightarrow> []
      | Some t \<Rightarrow> if truthy (tt_kind_key t) then nullish (KIND_FIELD_SCHEMAS (the (tt_kind_key t))) [] else [])"

definition canProceed :: "wizard \<Rightarrow> bool" where
  "canProceed w \<longleftrightarrow>
     (if wz_step w = 1 then wz_selected w \<noteq> None
      else if wz_step w = 2 then trim (wz_name w) \<noteq> [] \<and> wz_folderId w \<noteq> []
      else if wz_step w = 3 \<or> wz_step w = 4 then True
      else if wz_step w = 5 then \<not> wz_submitting w
      else False)"

definition show_step :: "nat \<Rightarrow> wizard \<Rightarrow> wizard" where
  "show_step n w = w\<lparr>wz_step := n, wz_q := [], wz_relType := depends_on\<rparr>"

definition wizard_handleNext :: "wizard \<Rightarrow> wizard" where
  "wizard_handleNext w = (if wz_step w < 5 then show_step (wz_step w + 1) w else w)"

definition wizard_handleBack :: "wizard \<Rightarrow> wizard" where
  "wizard_handleBack w = (if 1 < wz_step w then show_step (wz_step w - 1) w else w)"

definition handleKindFieldChange :: "string \<Rightarrow> string \<Rightarrow> wizard \<Rightarrow> wizard" where
  "handleKindFieldChange k v w = w\<lparr>wz_kindFields := AList.update k v (wz_kindFields w)\<rparr>"

definition addRelation :: "string \<Rightarrow> string \<Rightarrow> wizard \<Rightarrow> wizard" where
  "addRelation i name w =
     (if \<exists>r\<in>set (wz_relations w). pr_targetId r = i \<and> pr_type r = wz_relType w then w
      else w\<lparr>wz_relations := wz_relations w @ [\<lparr>pr_targetId = i, pr_targetName = name, pr_type = wz_relType w\<rparr>], wz_q := []\<rparr>)"

definition removeRelation :: "nat \<Rightarrow> wizard \<Rightarrow> wizard" where
  "removeRelation n w = w\<lparr>wz_relations := take n (wz_relations w) @ drop (Suc n) (wz_relations w)\<rparr>"

definition toggle_stage :: "int \<Rightarrow> wizard \<Rightarrow> wizard" where
  "toggle_stage n w = w\<lparr>wz_stageIds := set_toggle n (wz_stageIds w)\<rparr>"

definition showResults :: "wizard \<Rightarrow> bool" where
  "showResults w \<longleftrightarrow> 2 \<le> js_length (trim (wz_q w))"

record wizard_data =
  wd_types :: "template_type list"
  wd_folders :: "string list"
  wd_results :: "string \<Rightarrow> (string \<times> string) list"
  wd_stages :: "int list"

datatype wizard_event =
    SelectType template_type
  | EditName string | EditDescription string | PickFolder string | EditKindField string string
  | SearchTarget string | PickType RelationshipType | AddRelation string string | RemoveRelation nat
  | ToggleWizardStage int
  | NextStep | PreviousStep

fun wizard_step :: "wizard \<Rightarrow> wizard_event \<Rightarrow> wizard" where
  "wizard_step w (SelectType t) = w\<lparr>wz_selected := Some t\<rparr>"
| "wizard_step w (EditName s) = w\<lparr>wz_name := s\<rparr>"
| "wizard_step w (EditDescription s) = w\<lparr>wz_description := s\<rparr>"
| "wizard_step w (PickFolder f) = w\<lparr>wz_folderId := f\<rparr>"
| "wizard_step w (EditKindField k v) = handleKindFieldChange k v w"
| "wizard_step w (SearchTarget q) = w\<lparr>wz_q := q\<rparr>"
| "wizard_step w (PickType t) = w\<lparr>wz_relType := t\<rparr>"
| "wizard_step w (AddRelation i name) = addRelation i name w"
| "wizard_step w (RemoveRelation n) = removeRelation n w"
| "wizard_step w (ToggleWizardStage n) = toggle_stage n w"
| "wizard_step w NextStep = wizard_handleNext w"
| "wizard_step w PreviousStep = wizard_handleBack w"

text \<open>What each step offers.\<close>

definition wizard_rel_types :: "RelationshipType list" where
  "wizard_rel_types = [depends_on, part_of, hosted_on, related_to, uses_tool, builds_to, deploys_to, accessed_via]"

fun wizard_can :: "wizard_data \<Rightarrow> wizard \<Rightarrow> wizard_event \<Rightarrow> bool" where
  "wizard_can d w (SelectType t) = (wz_step w = 1 \<and> t \<in> set (wd_types d))"
| "wizard_can d w (EditName s) = (wz_step w = 2)"
| "wizard_can d w (EditDescription s) = (wz_step w = 2)"
| "wizard_can d w (PickFolder f) = (wz_step w = 2 \<and> wd_folders d \<noteq> [] \<and> (f = [] \<or> f \<in> set (wd_folders d)))"
| "wizard_can d w (EditKindField k v) = (wz_step w = 2 \<and> k \<in> kf_key ` set (kind_schema w))"
| "wizard_can d w (SearchTarget q) = (wz_step w = 3)"
| "wizard_can d w (PickType t) = (wz_step w = 3 \<and> t \<in> set wizard_rel_types)"
| "wizard_can d w (AddRelation i name) = (wz_step w = 3 \<and> showResults w \<and> (i, name) \<in> set (wd_results d (wz_q w)))"
| "wizard_can d w (RemoveRelation n) = (wz_step w = 3 \<and> n < length (wz_relations w))"
| "wizard_can d w (ToggleWizardStage n) = (wz_step w = 4 \<and> n \<in> set (wd_stages d))"
| "wizard_can d w NextStep = (wz_step w \<noteq> 5 \<and> canProceed w)"
| "wizard_can d w PreviousStep = (wz_step w \<noteq> 1 \<and> \<not> wz_submitting w)"

subsection \<open>Making the entity\<close>

text \<open>\<open>uuid\<close> is chosen when the page is mounted and kept.\<close>

definition wizard_create_json :: "string \<Rightarrow> wizard \<Rightarrow> template_type \<Rightarrow> bytes \<Rightarrow> bytes \<Rightarrow> json" where
  "wizard_create_json uuid w t wrapped nonce =
     JObj ([(''id'', JStr uuid), (''folder_id'', JStr (wz_folderId w)), (''item_type_id'', JNum (int (it_id t))),
         (''name'', JStr (trim (wz_name w)))]
       @ opt_str ''description'' (or_undefined (trim (wz_description w)))
       @ [(''fields'', JArr []), (''owner_dek_wrapped'', JStr (toBase64 wrapped)), (''owner_wrap_nonce'', JStr (toBase64 nonce))])"

definition wizard_extras :: "string \<Rightarrow> wizard \<Rightarrow> mutation_hook list" where
  "wizard_extras uuid w =
     map (\<lambda>r. useAddRelationshipMutation uuid (relationship_json (pr_targetId r) (pr_type r))) (wz_relations w)
     @ (if wz_stageIds w = [] then [] else [useSetItemLifecycleStagesMutation uuid (stage_ids_json (wz_stageIds w))])
     @ map (\<lambda>(k, v). useUpsertAnnotationMutation uuid k v) (filter (\<lambda>(k, v). v \<noteq> []) (wz_kindFields w))"

definition wizard_destination :: "json \<Rightarrow> string" where
  "wizard_destination item =
     (if truthy (json_str_field item ''kind'')
      then ''/catalog/'' @ the (json_str_field item ''kind'') @ ''/default/'' @ encodeURIComponent (str_or_undefined item ''name'')
      else ''/inventory?item='' @ str_or_undefined item ''id'')"

datatype wizard_outcome = WizardNoKey | WizardIgnored | WizardFailed form_error | WizardDone string

definition wizard_handleSubmit ::
    "'w net \<Rightarrow> 'r webcrypto \<Rightarrow> string \<Rightarrow> bytes option \<Rightarrow> wizard \<Rightarrow> 'w web_env \<times> 'r
       \<Rightarrow> wizard_outcome \<times> wizard \<times> 'w web_env \<times> 'r" where
  "wizard_handleSubmit net wc uuid privateKey w s =
     (let (env, r) = s; failed = w\<lparr>wz_submitting := False\<rparr>
      in case (privateKey, wz_selected w) of
           (None, _) \<Rightarrow> (WizardNoKey, w, env, r)
         | (Some key, None) \<Rightarrow> (WizardIgnored, w, env, r)
         | (Some key, Some t) \<Rightarrow>
             if wz_folderId w = [] then (WizardIgnored, w, env, r)
             else
               (let (dek, r1) = generateDEK wc r
                in case sealDEKWithKEK wc dek key r1 of
                     (Inl e, r2) \<Rightarrow> (WizardFailed (FormCrypto e), failed, env, r2)
                   | (Inr (wrapped, nonce), r2) \<Rightarrow>
                       (case run_mutation net (useCreateItemMutation (wz_folderId w) (wizard_create_json uuid w t wrapped nonce)) env of
                          (Inl e, _, env1) \<Rightarrow> (WizardFailed (FormApi e), failed, env1, r2)
                        | (Inr body, _, env1) \<Rightarrow>
                            (case run_all net (wizard_extras uuid w) env1 of
                               (Inl e, env2) \<Rightarrow> (WizardFailed (FormApi e), failed, env2, r2)
                             | (Inr _, env2) \<Rightarrow>
                                 if nullish body JNull = JNull then (WizardFailed TypeErr, failed, env2, r2)
                                 else (WizardDone (wizard_destination (the body)), w\<lparr>wz_submitting := True\<rparr>, env2, r2)))))"

section \<open>What the wizard keeps\<close>

text \<open>Properties of the wizard that makes a catalogue entity (theory CreateWizard).\<close>

subsection \<open>A well-formed wizard\<close>

definition relation_keys :: "wizard \<Rightarrow> (string \<times> RelationshipType) list" where
  "relation_keys w = map (\<lambda>r. (pr_targetId r, pr_type r)) (wz_relations w)"

definition wizard_wf :: "wizard \<Rightarrow> bool" where
  "wizard_wf w \<longleftrightarrow> 1 \<le> wz_step w \<and> wz_step w \<le> 5
     \<and> (2 \<le> wz_step w \<longrightarrow> wz_selected w \<noteq> None)
     \<and> (3 \<le> wz_step w \<longrightarrow> trim (wz_name w) \<noteq> [] \<and> wz_folderId w \<noteq> [])
     \<and> distinct (relation_keys w) \<and> distinct (wz_stageIds w) \<and> distinct (map fst (wz_kindFields w))"

lemma wizard_opened_wf: "wizard_wf wizard_opened"
  by (simp add: wizard_wf_def wizard_opened_def relation_keys_def)

lemma removed_relation_keys: "relation_keys (removeRelation n w) = take n (relation_keys w) @ drop (Suc n) (relation_keys w)"
  by (simp add: relation_keys_def removeRelation_def take_map drop_map)

lemma distinct_without: "distinct xs \<Longrightarrow> distinct (take n xs @ drop (Suc n) xs)"
  using set_take_disj_set_drop_if_distinct [of xs n "Suc n"] by simp

lemma addRelation_wf: "wizard_wf w \<Longrightarrow> wizard_wf (addRelation i name w)"
  by (auto simp: wizard_wf_def addRelation_def relation_keys_def)

lemma removeRelation_wf: "wizard_wf w \<Longrightarrow> wizard_wf (removeRelation n w)"
proof -
  assume wf: "wizard_wf w"
  then have "distinct (relation_keys (removeRelation n w))"
    unfolding removed_relation_keys by (intro distinct_without) (simp add: wizard_wf_def)
  with wf show ?thesis by (simp add: wizard_wf_def removeRelation_def)
qed

lemma next_wf: "wizard_wf w \<Longrightarrow> canProceed w \<Longrightarrow> wizard_wf (wizard_handleNext w)"
  by (auto simp: wizard_wf_def wizard_handleNext_def show_step_def canProceed_def relation_keys_def split: if_splits)

lemma back_wf: "wizard_wf w \<Longrightarrow> wizard_wf (wizard_handleBack w)"
  by (auto simp: wizard_wf_def wizard_handleBack_def show_step_def relation_keys_def)

interpretation wizard_machine: machine "wizard_can d" wizard_step wizard_wf for d
proof
  fix w e
  assume "wizard_wf w" "wizard_can d w e"
  then show "wizard_wf (wizard_step w e)"
    by (cases e) (simp_all add: addRelation_wf removeRelation_wf next_wf back_wf,
        auto simp: wizard_wf_def relation_keys_def handleKindFieldChange_def distinct_update toggle_stage_def)
qed

text \<open>
  C25: The wizard is well formed whatever the user does: the step is one of the five, a step past the first
  has a type, one past the second a name and a folder, and no relation, stage or field is held twice. So
  a submission with a key is never ignored: it fails with an error or makes the entity.
\<close>
theorem wizard_stays_well_formed:
  assumes "possible_run (wizard_can d) wizard_step wizard_opened es" and "w = foldl wizard_step wizard_opened es"
  shows "wizard_wf w \<and> (wz_step w = 5 \<longrightarrow> fst (wizard_handleSubmit net wc uuid (Some key) w s) \<noteq> WizardIgnored)"
proof -
  have wf: "wizard_wf w" using wizard_machine.run_keeps [OF wizard_opened_wf] assms by simp
  moreover have "fst (wizard_handleSubmit net wc uuid (Some key) w s) \<noteq> WizardIgnored" if five: "wz_step w = 5"
  proof -
    obtain t where "wz_selected w = Some t" "wz_folderId w \<noteq> []" using wf five by (force simp: wizard_wf_def)
    then show ?thesis by (auto simp: wizard_handleSubmit_def Let_def split: prod.splits sum.splits)
  qed
  ultimately show ?thesis by blast
qed

subsection \<open>What a submission does\<close>

text \<open>A submission that is done has sent everything the summary shows, and the owner can open the key.\<close>

lemma wizard_done:
  assumes "wizard_handleSubmit net wc uuid (Some key) w (env, r) = (WizardDone dest, w', env', r')"
  obtains t dek wrapped nonce r1 ks env1 body where "wz_selected w = Some t" "generateDEK wc r = (dek, r1)"
    "sealDEKWithKEK wc dek key r1 = (Inr (wrapped, nonce), r')"
    "run_mutation net (useCreateItemMutation (wz_folderId w) (wizard_create_json uuid w t wrapped nonce)) env = (Inr (Some body), ks, env1)"
    "run_all net (wizard_extras uuid w) env1 = (Inr (), env')" "dest = wizard_destination body"
  using assms
  by (auto simp: wizard_handleSubmit_def Let_def nullish_def split: prod.splits sum.splits option.splits if_splits)

text \<open>
  A finished wizard leaves an entity its maker can open. The item was made under a fresh key that is
  sent wrapped and opens with the maker's private key, on the web and on the desktop, and every relation,
  the stages and every annotation that is not empty was accepted, in this order.
\<close>
theorem wizard_makes_openable_entity:
  assumes "webcrypto_laws wc" and "length key = 32"
    and "wizard_handleSubmit net wc uuid (Some key) w (env, r) = (WizardDone dest, w', env', r')"
  shows "\<exists>t dek wrapped nonce body env1. wz_selected w = Some t
    \<and> fst (run_mutation net (useCreateItemMutation (wz_folderId w) (wizard_create_json uuid w t wrapped nonce)) env) = Inr (Some body)
    \<and> env1 = snd (snd (run_mutation net (useCreateItemMutation (wz_folderId w) (wizard_create_json uuid w t wrapped nonce)) env))
    \<and> openDEKWithKEK wc wrapped nonce key = Inr dek \<and> cl_openDEKWithKEK wc wrapped nonce key = Inr dek
    \<and> fst (generateDEK wc r) = dek
    \<and> (\<forall>i<length (wizard_extras uuid w).
         \<exists>v. fst (run_mutation net (wizard_extras uuid w ! i) (snd (run_all net (take i (wizard_extras uuid w)) env1))) = Inr v)
    \<and> dest = wizard_destination body"
proof -
  obtain t dek wrapped nonce r1 ks env1 body where d: "wz_selected w = Some t" "generateDEK wc r = (dek, r1)"
    "sealDEKWithKEK wc dek key r1 = (Inr (wrapped, nonce), r')"
    "run_mutation net (useCreateItemMutation (wz_folderId w) (wizard_create_json uuid w t wrapped nonce)) env = (Inr (Some body), ks, env1)"
    "run_all net (wizard_extras uuid w) env1 = (Inr (), env')" "dest = wizard_destination body"
    using wizard_done [OF assms(3)] by metis
  have o: "openDEKWithKEK wc wrapped nonce key = Inr dek" using kek_box.unseal_sealed [OF assms(1,2) d(3)] .
  moreover have "cl_openDEKWithKEK wc wrapped nonce key = Inr dek"
    using o kek_box.sealed_length [OF assms(1) d(3)] by (simp add: cl_openDEKWithKEK_eq)
  moreover have "\<exists>v. fst (run_mutation net (wizard_extras uuid w ! i) (snd (run_all net (take i (wizard_extras uuid w)) env1))) = Inr v"
    if "i < length (wizard_extras uuid w)" for i
    by (rule run_all_each [OF _ that]) (simp add: d(5))
  ultimately show ?thesis
    by (intro exI [of _ t] exI [of _ dek] exI [of _ wrapped] exI [of _ nonce] exI [of _ body] exI [of _ env1]) (simp add: d)
qed

text \<open>
  A submission that fails after the item was made can not be repeated. The wizard keeps the id it chose
  when it was opened and makes the item anew; a server that refuses an id it has refuses every further
  attempt, whatever the user changes in between.
\<close>
theorem failed_wizard_never_finishes:
  assumes taken: "\<And>folder body env. json_str_field body ''id'' = Some uuid
      \<Longrightarrow> \<exists>e. fst (run_mutation net (useCreateItemMutation folder body) env) = Inl e"
  shows "fst (wizard_handleSubmit net wc uuid privateKey w s) \<noteq> WizardDone dest"
proof
  assume fin: "fst (wizard_handleSubmit net wc uuid privateKey w s) = WizardDone dest"
  obtain env r where s: "s = (env, r)" by fastforce
  from fin obtain key where k: "privateKey = Some key"
    by (cases privateKey) (auto simp: wizard_handleSubmit_def Let_def split: prod.splits)
  obtain w' env' r' where "wizard_handleSubmit net wc uuid (Some key) w (env, r) = (WizardDone dest, w', env', r')"
    using fin by (cases "wizard_handleSubmit net wc uuid (Some key) w (env, r)") (auto simp: s k)
  then obtain t wrapped nonce ks env1 body where
    c: "run_mutation net (useCreateItemMutation (wz_folderId w) (wizard_create_json uuid w t wrapped nonce)) env = (Inr (Some body), ks, env1)"
    by (metis wizard_done)
  have "json_str_field (wizard_create_json uuid w t wrapped nonce) ''id'' = Some uuid"
    by (simp add: wizard_create_json_def json_str_field_def opt_str_def map_add_def split: option.splits)
  from taken [OF this, of "wz_folderId w" env] c show False by simp
qed

text \<open>
  A field of a type that was given up is still sent. The user fills a field of one type, goes back and
  chooses another: the field is no longer in the form, and its value becomes an annotation of the entity.
\<close>
theorem abandoned_field_is_sent:
  assumes "wz_step w = 2" and "k \<in> kf_key ` set (kind_schema w)" and "v \<noteq> []" and "t \<in> set (wd_types d)" and "\<not> wz_submitting w"
    and "w' = foldl wizard_step w [EditKindField k v, PreviousStep, SelectType t, NextStep]"
  shows "possible_run (wizard_can d) wizard_step w [EditKindField k v, PreviousStep, SelectType t, NextStep]
    \<and> wz_step w' = 2 \<and> wz_selected w' = Some t
    \<and> useUpsertAnnotationMutation uuid k v \<in> set (wizard_extras uuid w')"
proof -
  have "(k, v) \<in> set (AList.update k v kvs)" for kvs :: "(string \<times> string) list"
    by (induction kvs) auto
  with assms show ?thesis
    by (force simp: handleKindFieldChange_def wizard_handleBack_def wizard_handleNext_def show_step_def canProceed_def wizard_extras_def)
qed

subsection \<open>Concrete runs\<close>

definition note_type :: template_type where
  "note_type = \<lparr>it_id = 7, it_key = ''note'', it_label = ''Not'', it_suggested_fields = [], tt_kind_key = Some ''Note''\<rparr>"

definition server_type :: template_type where
  "server_type = \<lparr>it_id = 1, it_key = ''server'', it_label = ''Sunucu'', it_suggested_fields = [], tt_kind_key = Some ''Server''\<rparr>"

definition demo_wizard_data :: wizard_data where
  "demo_wizard_data = \<lparr>wd_types = [server_type, note_type], wd_folders = [''f''], wd_results = \<lambda>_. [(''i'', ''web'')], wd_stages = [1, 2]\<rparr>"

definition demo_wizard_run :: "wizard_event list" where
  "demo_wizard_run = [SelectType server_type, NextStep, EditName ''db'', PickFolder ''f'', EditKindField ''os'' ''Linux'', NextStep,
     SearchTarget ''we'', AddRelation ''i'' ''web'', NextStep, ToggleWizardStage 2, NextStep]"

lemma demo_wizard_possible: "possible_run (wizard_can demo_wizard_data) wizard_step wizard_opened demo_wizard_run"
  by (simp add: demo_wizard_run_def demo_wizard_data_def wizard_opened_def wizard_handleNext_def show_step_def canProceed_def
      kind_schema_def server_type_def KIND_FIELD_SCHEMAS_def addRelation_def showResults_def trim_eval js_length_def units_def handleKindFieldChange_def
      wizard_rel_types_def toggle_stage_def)

text \<open>The run up to the summary, and its submission to a server that accepts everything.\<close>

definition demo_wizard :: wizard where
  "demo_wizard = \<lparr>wz_step = 5, wz_submitting = False, wz_selected = Some server_type, wz_name = ''db'', wz_description = [],
     wz_folderId = ''f'', wz_kindFields = [(''os'', ''Linux'')],
     wz_relations = [\<lparr>pr_targetId = ''i'', pr_targetName = ''web'', pr_type = depends_on\<rparr>], wz_stageIds = [2],
     wz_q = [], wz_relType = depends_on\<rparr>"

lemma demo_wizard_reached: "foldl wizard_step wizard_opened demo_wizard_run = demo_wizard"
  by (simp add: demo_wizard_run_def demo_wizard_def wizard_opened_def wizard_handleNext_def show_step_def addRelation_def
      handleKindFieldChange_def toggle_stage_def set_toggle_def set_add_def)

theorem wizard_stays_well_formed_witness:
  "wizard_wf demo_wizard \<and> fst (wizard_handleSubmit scripted toy_crypto ''u'' (Some (replicate 32 7)) demo_wizard (demo_env [], 1)) \<noteq> WizardIgnored"
proof -
  have five: "wz_step demo_wizard = 5" by (simp add: demo_wizard_def)
  show ?thesis
    using wizard_stays_well_formed [OF demo_wizard_possible demo_wizard_reached [symmetric]] five by simp
qed

lemma scripted_all:
  assumes "we_world env = replicate (length hs) (json_reply j) @ ws"
  shows "\<exists>env'. run_all scripted hs env = (Inr (), env') \<and> we_world env' = ws"
  using assms
proof (induction hs arbitrary: env)
  case (Cons h hs)
  then have w: "we_world env = json_reply j # (replicate (length hs) (json_reply j) @ ws)" by simp
  obtain rq where r: "run_mutation scripted h env = (Inr (Some j), m_invalidates h,
      env\<lparr>we_world := replicate (length hs) (json_reply j) @ ws, we_sent := we_sent env @ [rq]\<rparr>)"
    using scripted_mutation [OF w] by blast
  then show ?case using Cons.IH by simp
qed simp

lemma toy_wrapped: "\<exists>w n r2. sealDEKWithKEK toy_crypto (replicate 32 b) sk r = (Inr (w, n), r2)"
  by (simp add: sealDEKWithKEK_def crypto_defs laws(7) [OF toy_laws])

lemma demo_wizard_submits:
  "\<exists>w' env' r'. wizard_handleSubmit scripted toy_crypto ''u'' (Some (replicate 32 7)) demo_wizard
     (demo_env (replicate 4 (json_reply (JObj [(''id'', JStr ''u'')]))), 1) = (WizardDone ''/inventory?item=u'', w', env', r')"
proof -
  let ?j = "JObj [(''id'', JStr ''u'')]"
  obtain wrapped nonce r2 where s: "sealDEKWithKEK toy_crypto (replicate 32 (of_nat 1)) (replicate 32 7) (Suc 1) = (Inr (wrapped, nonce), r2)"
    using toy_wrapped by blast
  have w: "we_world (demo_env (replicate 4 (json_reply ?j))) = json_reply ?j # replicate 3 (json_reply ?j)"
    by (simp add: numeral_eq_Suc demo_env_def)
  let ?h = "useCreateItemMutation ''f'' (wizard_create_json ''u'' demo_wizard server_type wrapped nonce)"
  obtain rq where c: "run_mutation scripted ?h (demo_env (replicate 4 (json_reply ?j))) = (Inr (Some ?j), m_invalidates ?h,
      (demo_env (replicate 4 (json_reply ?j)))\<lparr>we_world := replicate 3 (json_reply ?j),
        we_sent := we_sent (demo_env (replicate 4 (json_reply ?j))) @ [rq]\<rparr>)"
    using scripted_mutation [OF w] by blast
  have "length (wizard_extras ''u'' demo_wizard) = 3" by (simp add: wizard_extras_def demo_wizard_def)
  then have "\<exists>env'. run_all scripted (wizard_extras ''u'' demo_wizard) ((demo_env (replicate 4 (json_reply ?j)))
      \<lparr>we_world := replicate 3 (json_reply ?j), we_sent := we_sent (demo_env (replicate 4 (json_reply ?j))) @ [rq]\<rparr>) = (Inr (), env') \<and> we_world env' = []"
    by (intro scripted_all) simp
  then obtain env' where "run_all scripted (wizard_extras ''u'' demo_wizard) ((demo_env (replicate 4 (json_reply ?j)))
      \<lparr>we_world := replicate 3 (json_reply ?j), we_sent := we_sent (demo_env (replicate 4 (json_reply ?j))) @ [rq]\<rparr>) = (Inr (), env')"
    by blast
  with s c show ?thesis
    by (simp add: toy_dek wizard_handleSubmit_def wizard_destination_def json_str_field_def str_or_undefined_def demo_wizard_def Let_def)
qed

theorem wizard_makes_openable_entity_witness:
  "\<exists>dek wrapped nonce. openDEKWithKEK toy_crypto wrapped nonce (replicate 32 7) = Inr dek \<and> length (wizard_extras ''u'' demo_wizard) = 3"
proof -
  obtain w' env' r' where d: "wizard_handleSubmit scripted toy_crypto ''u'' (Some (replicate 32 7)) demo_wizard
     (demo_env (replicate 4 (json_reply (JObj [(''id'', JStr ''u'')]))), 1) = (WizardDone ''/inventory?item=u'', w', env', r')"
    using demo_wizard_submits by blast
  have "length (wizard_extras ''u'' demo_wizard) = 3" by (simp add: wizard_extras_def demo_wizard_def)
  with wizard_makes_openable_entity [OF toy_laws _ d] show ?thesis by auto
qed

definition no_net :: "'w net" where
  "no_net rq w = (NetworkFailure ''down'', w)"

lemma no_net_mutation: "\<exists>e. fst (run_mutation no_net h env) = Inl e"
  by (rule unanswered_mutation [where m = "''down''"]) (simp add: no_net_def)

theorem failed_wizard_never_finishes_witness:
  "fst (wizard_handleSubmit no_net toy_crypto ''u'' (Some (replicate 32 7)) demo_wizard (demo_env [], 1)) \<noteq> WizardDone ''/inventory?item=u''"
  by (rule failed_wizard_never_finishes) (rule no_net_mutation)

theorem abandoned_field_is_sent_witness:
  "useUpsertAnnotationMutation ''u'' ''os'' ''Linux''
     \<in> set (wizard_extras ''u'' (foldl wizard_step (demo_wizard\<lparr>wz_step := 2, wz_kindFields := []\<rparr>)
          [EditKindField ''os'' ''Linux'', PreviousStep, SelectType note_type, NextStep]))"
  using abandoned_field_is_sent [where w = "demo_wizard\<lparr>wz_step := 2, wz_kindFields := []\<rparr>" and k = "''os''" and v = "''Linux''"
      and t = note_type and d = demo_wizard_data and uuid = "''u''", OF _ _ _ _ _ refl]
  by (simp add: demo_wizard_def demo_wizard_data_def kind_schema_def server_type_def KIND_FIELD_SCHEMAS_def)

end
