(* ===== verification/Profile.thy ===== *)
theory Profile
  imports AuthFlows AccountHooks PageKit UserError TextFacts
begin

text \<open>
  The profile page (\<open>pages/profile.tsx\<close>), card by card: two-factor sign-in, security keys, trusted devices,
  sessions, notification preferences and external channels. The authenticator is a parameter.
\<close>

definition error_text :: "js_error \<Rightarrow> string" where
  "error_text e = (case e of ApiErr a \<Rightarrow> message a | OfflineQueued m \<Rightarrow> m | OtherError m \<Rightarrow> m)"

subsection \<open>Two-factor sign-in\<close>

text \<open>The dialogs tell only their own open flag of being closed; \<open>Cancel\<close> also empties the field.\<close>

record confirm_dialog =
  cd_open :: bool
  cd_text :: string

definition dialog_closed :: confirm_dialog where
  "dialog_closed = \<lparr>cd_open = False, cd_text = []\<rparr>"

datatype dialog_event = OpenChange bool | TypeInto string | CancelDialog

fun dialog_step :: "(string \<Rightarrow> string) \<Rightarrow> confirm_dialog \<Rightarrow> dialog_event \<Rightarrow> confirm_dialog" where
  "dialog_step clean d (OpenChange b) = d\<lparr>cd_open := b\<rparr>"
| "dialog_step clean d (TypeInto s) = d\<lparr>cd_text := clean s\<rparr>"
| "dialog_step clean d CancelDialog = d\<lparr>cd_open := False, cd_text := []\<rparr>"

definition handleDisable :: "'w net \<Rightarrow> confirm_dialog \<times> 'w web_env \<Rightarrow> confirm_dialog \<times> 'w web_env" where
  "handleDisable net s =
     (if cd_text (fst s) = [] then s
      else submit net (useTOTPDisableMutation (JObj [(''master_password'', JStr (cd_text (fst s)))]))
        (\<lambda>_ d. d\<lparr>cd_open := False, cd_text := []\<rparr>) (\<lambda>_ d. d) s)"

text \<open>\<open>replace(/\D/g, '')\<close>.\<close>

definition only_digits :: "string \<Rightarrow> string" where
  "only_digits s = filter (\<lambda>c. 48 \<le> (of_char c :: nat) \<and> (of_char c :: nat) \<le> 57) s"

record backup_section = confirm_dialog +
  bs_newCodes :: "string list"

definition json_strings :: "json \<Rightarrow> string list" where
  "json_strings j = (case j of JArr js \<Rightarrow> List.map_filter (\<lambda>x. case x of JStr s \<Rightarrow> Some s | _ \<Rightarrow> None) js | _ \<Rightarrow> [])"

definition handleRegenerate :: "'w net \<Rightarrow> backup_section \<times> 'w web_env \<Rightarrow> backup_section \<times> 'w web_env" where
  "handleRegenerate net s =
     (if js_length (cd_text (fst s)) < 6 then s
      else submit net (useTOTPRegenerateBackupMutation (JObj [(''totp_code'', JStr (cd_text (fst s)))]))
        (\<lambda>res d. if res = JNull then d
           else d\<lparr>bs_newCodes := json_strings (nullish (json_field res ''recovery_codes'') JNull), cd_text := []\<rparr>)
        (\<lambda>_ d. d) s)"

text \<open>What the card shows once the state of two-factor sign-in is known: whether it is on, how many
  recovery codes are left.\<close>

datatype totp_card = CardLoading | CardFailed | CardOff | CardOn nat bool

definition TOTPManagementCard :: "(bool \<times> nat) query_data \<Rightarrow> totp_card" where
  "TOTPManagementCard q =
     (case q of Loading \<Rightarrow> CardLoading | Failed \<Rightarrow> CardFailed
      | Loaded (enabled, n) \<Rightarrow> if enabled then CardOn n (n \<le> 2) else CardOff)"

subsection \<open>Trusted devices\<close>

definition handleRevoke :: "string \<Rightarrow> mutation_hook" where
  "handleRevoke i = useRevokeTrustedDeviceMutation i"

definition handleRevokeAll :: "string list \<Rightarrow> mutation_hook option" where
  "handleRevokeAll devices = (if 0 < length devices then Some useRevokeAllTrustedDevicesMutation else None)"

subsection \<open>Notification preferences\<close>

definition NOTIFICATION_TYPES :: "string list" where
  "NOTIFICATION_TYPES = [''access_request'', ''share_added'', ''credential_expiring'', ''security_alert'', ''mention'',
     ''system_announcement'', ''break_glass_alert'']"

definition ALL_CHANNELS :: "string list" where
  "ALL_CHANNELS = [''inapp'', ''email'', ''slack'', ''teams'']"

record prefs_card =
  pc_prefs :: "NotificationPref list"
  pc_dirty :: bool

definition prefs_opened :: prefs_card where
  "prefs_opened = \<lparr>pc_prefs = [], pc_dirty = False\<rparr>"

definition find_pref :: "string \<Rightarrow> NotificationPref list \<Rightarrow> NotificationPref option" where
  "find_pref t ps = find_first (\<lambda>p. np_type p = t) ps"

definition isEnabled :: "NotificationPref list \<Rightarrow> string \<Rightarrow> string \<Rightarrow> bool" where
  "isEnabled ps t c = (case find_pref t ps of None \<Rightarrow> c = ''inapp'' | Some p \<Rightarrow> c \<in> set (np_channels p))"

definition toggle_prefs :: "string \<Rightarrow> string \<Rightarrow> NotificationPref list \<Rightarrow> NotificationPref list" where
  "toggle_prefs t c ps =
     (case find_pref t ps of
        None \<Rightarrow> ps @ [\<lparr>np_type = t, np_channels = [c]\<rparr>]
      | Some existing \<Rightarrow>
          (let channels = (if c \<in> set (np_channels existing) then filter (\<lambda>x. x \<noteq> c) (np_channels existing)
                           else np_channels existing @ [c])
           in map (\<lambda>p. if np_type p = t then p\<lparr>np_channels := channels\<rparr> else p) ps))"

definition prefs_arrive :: "NotificationPref list \<Rightarrow> prefs_card \<Rightarrow> prefs_card" where
  "prefs_arrive ps s = s\<lparr>pc_prefs := ps, pc_dirty := False\<rparr>"

definition prefs_toggle :: "string \<Rightarrow> string \<Rightarrow> prefs_card \<Rightarrow> prefs_card" where
  "prefs_toggle t c s = s\<lparr>pc_prefs := toggle_prefs t c (pc_prefs s), pc_dirty := True\<rparr>"

definition prefs_handleSave :: "'w net \<Rightarrow> prefs_card \<times> 'w web_env \<Rightarrow> prefs_card \<times> 'w web_env" where
  "prefs_handleSave net s =
     submit net (useUpdateNotificationPrefsMutation (pc_prefs (fst s))) (\<lambda>_ d. d\<lparr>pc_dirty := False\<rparr>) (\<lambda>_ d. d) s"

subsection \<open>External channels\<close>

record channels_card =
  ch_open :: bool
  ch_type :: string
  ch_webhook :: string
  ch_name :: string

definition channels_opened :: channels_card where
  "channels_opened = \<lparr>ch_open = False, ch_type = ''slack'', ch_webhook = [], ch_name = []\<rparr>"

definition channels_handleAdd :: "'w net \<Rightarrow> channels_card \<times> 'w web_env \<Rightarrow> channels_card \<times> 'w web_env" where
  "channels_handleAdd net s =
     submit net (useAddExternalChannelMutation (JObj [(''channel_type'', JStr (ch_type (fst s))),
         (''webhook_url'', JStr (ch_webhook (fst s))), (''channel_name'', JStr (ch_name (fst s)))]))
       (\<lambda>_ d. d\<lparr>ch_open := False, ch_webhook := [], ch_name := []\<rparr>) (\<lambda>_ d. d) s"

definition channel_buttons :: "string \<Rightarrow> mutation_hook \<times> mutation_hook" where
  "channel_buttons i = (useTestExternalChannelMutation i, useDeleteExternalChannelMutation i)"

subsection \<open>Security keys\<close>

record keys_card =
  kc_addOpen :: bool
  kc_label :: string
  kc_registering :: bool
  kc_editId :: "string option"
  kc_editLabel :: string

definition keys_opened :: keys_card where
  "keys_opened = \<lparr>kc_addOpen = False, kc_label = [], kc_registering = False, kc_editId = None, kc_editLabel = []\<rparr>"

datatype key_outcome = KeyIgnored | KeyAdded string | KeyCancelled | KeyFailed friendly_text | KeyNoReply

text \<open>The page looks for words of the error in the text it shows instead; only a text that is passed on can
  hold them.\<close>

definition user_cancelled :: "friendly_text \<Rightarrow> bool" where
  "user_cancelled t \<longleftrightarrow> (case t of
     AsIs m \<Rightarrow> contains_text ''cancelled'' m \<or> contains_text ''NotAllowed'' m \<or> contains_text ''abort'' m
   | _ \<Rightarrow> False)"

text \<open>A reply without a body fails with a message of the engine.\<close>

definition key_failure :: "string option \<Rightarrow> key_outcome" where
  "key_failure m = (case m of
     None \<Rightarrow> KeyNoReply
   | Some raw \<Rightarrow> (let t = userFriendlyError (Some raw) in if user_cancelled t then KeyCancelled else KeyFailed t))"

definition register_finish_json :: "json \<Rightarrow> string \<Rightarrow> json \<Rightarrow> json" where
  "register_finish_json beginRes label credential =
     JObj ((case json_field beginRes ''session_key'' of None \<Rightarrow> [] | Some j \<Rightarrow> [(''session_key'', j)])
       @ [(''label'', JStr (trim label)), (''credential'', credential)])"

definition register_key ::
    "'w net \<Rightarrow> (json \<Rightarrow> string + json) \<Rightarrow> string \<Rightarrow> 'w web_env \<Rightarrow> (string option + unit) \<times> 'w web_env" where
  "register_key net registerSecurityKey label env =
     (case run_mutation net useWebAuthnRegisterBeginMutation env of
        (Inl e, _, env1) \<Rightarrow> (Inl (Some (error_text e)), env1)
      | (Inr begun, _, env1) \<Rightarrow>
          (let beginRes = nullish begun JNull
           in if beginRes = JNull then (Inl None, env1)
              else case registerSecurityKey (nullish (json_field beginRes ''options'') JNull) of
                  Inl m \<Rightarrow> (Inl (Some m), env1)
                | Inr credential \<Rightarrow>
                    (case run_mutation net (useWebAuthnRegisterFinishMutation (register_finish_json beginRes label credential)) env1 of
                       (Inl e, _, env2) \<Rightarrow> (Inl (Some (error_text e)), env2)
                     | (Inr _, _, env2) \<Rightarrow> (Inr (), env2))))"

definition handleAddKey ::
    "'w net \<Rightarrow> (json \<Rightarrow> string + json) \<Rightarrow> keys_card \<times> 'w web_env \<Rightarrow> key_outcome \<times> keys_card \<times> 'w web_env" where
  "handleAddKey net registerSecurityKey s =
     (let (k, env) = s
      in if trim (kc_label k) = [] \<or> kc_registering k then (KeyIgnored, k, env)
         else case register_key net registerSecurityKey (kc_label k) env of
             (Inl m, env1) \<Rightarrow> (key_failure m, k\<lparr>kc_registering := False\<rparr>, env1)
           | (Inr _, env1) \<Rightarrow>
               (KeyAdded (trim (kc_label k)), k\<lparr>kc_addOpen := False, kc_label := [], kc_registering := False\<rparr>, env1))"

definition startEdit :: "string \<Rightarrow> string \<Rightarrow> keys_card \<Rightarrow> keys_card" where
  "startEdit i label k = k\<lparr>kc_editId := Some i, kc_editLabel := label\<rparr>"

definition keys_handleRename :: "'w net \<Rightarrow> keys_card \<times> 'w web_env \<Rightarrow> keys_card \<times> 'w web_env" where
  "keys_handleRename net s =
     (case kc_editId (fst s) of
        None \<Rightarrow> s
      | Some i \<Rightarrow>
          if i = [] \<or> trim (kc_editLabel (fst s)) = [] then s
          else submit net (useWebAuthnUpdateCredentialMutation i (trim (kc_editLabel (fst s))))
            (\<lambda>_ k. k\<lparr>kc_editId := None\<rparr>) (\<lambda>_ k. k) s)"

definition deleteKey :: "string \<Rightarrow> mutation_hook" where
  "deleteKey i = useWebAuthnDeleteCredentialMutation i"

subsection \<open>Sessions\<close>

definition handleLogoutAll :: "'w net \<Rightarrow> ('w, 'r) web_app \<Rightarrow> ('w, 'r) web_app" where
  "handleLogoutAll net app =
     (case run_mutation net useLogoutAllMutation (ap_env app) of
        (Inl e, _, env1) \<Rightarrow> app\<lparr>ap_env := env1\<rparr>
      | (Inr _, _, env1) \<Rightarrow> clear_session (app\<lparr>ap_env := env1\<rparr>))"

subsection \<open>Properties\<close>

text \<open>The matrix of check boxes; what a click should do to it.\<close>

definition pref_matrix :: "NotificationPref list \<Rightarrow> string \<times> string \<Rightarrow> bool" where
  "pref_matrix ps = (\<lambda>(t, c). isEnabled ps t c)"

definition flip :: "'a \<Rightarrow> ('a \<Rightarrow> bool) \<Rightarrow> 'a \<Rightarrow> bool" where
  "flip x f = f(x := \<not> f x)"

lemma find_pref_map:
  assumes "\<And>p. np_type (f p) = np_type p"
  shows "find_pref t (map f ps) = map_option f (find_pref t ps)"
  using assms by (induction ps) (auto simp: find_pref_def find_first_def split: list.splits)

lemma find_pref_append: "find_pref t (ps @ qs) = (case find_pref t ps of None \<Rightarrow> find_pref t qs | Some p \<Rightarrow> Some p)"
  by (auto simp: find_pref_def find_first_def split: list.splits)

lemma find_pref_type: "find_pref t ps = Some p \<Longrightarrow> np_type p = t"
  by (auto simp: find_pref_def dest: find_first_Some)

lemma toggle_known:
  assumes "find_pref t ps = Some p"
  shows "pref_matrix (toggle_prefs t c ps) = flip (t, c) (pref_matrix ps)"
proof -
  let ?ch = "if c \<in> set (np_channels p) then filter (\<lambda>x. x \<noteq> c) (np_channels p) else np_channels p @ [c]"
  let ?f = "\<lambda>q. if np_type q = t then q\<lparr>np_channels := ?ch\<rparr> else q"
  have "find_pref u (toggle_prefs t c ps) = map_option ?f (find_pref u ps)" for u
    using assms by (simp add: toggle_prefs_def Let_def find_pref_map)
  then show ?thesis
    using assms find_pref_type
    by (auto simp: pref_matrix_def isEnabled_def flip_def fun_eq_iff split: option.splits)
qed

lemma toggle_unknown:
  assumes "find_pref t ps = None"
  shows "isEnabled (toggle_prefs t c ps) t = (\<lambda>x. x = c)" "isEnabled ps t = (\<lambda>x. x = ''inapp'')"
proof -
  have "find_pref t [\<lparr>np_type = t, np_channels = [c]\<rparr>] = Some \<lparr>np_type = t, np_channels = [c]\<rparr>"
    by (simp add: find_pref_def find_first_def)
  with assms show "isEnabled (toggle_prefs t c ps) t = (\<lambda>x. x = c)" "isEnabled ps t = (\<lambda>x. x = ''inapp'')"
    by (simp_all add: isEnabled_def toggle_prefs_def find_pref_append fun_eq_iff)
qed

text \<open>
  A click flips its check box and no other exactly when the server has sent a preference for that type.
  Without one the default is the in-app channel alone: a click on it changes nothing, and a click on
  another channel switches the in-app notices off.
\<close>
theorem toggle_flips_its_box_iff:
  "(pref_matrix (toggle_prefs t c ps) = flip (t, c) (pref_matrix ps)) \<longleftrightarrow> find_pref t ps \<noteq> None"
proof (cases "find_pref t ps")
  case None
  note u = toggle_unknown [OF None]
  have "pref_matrix (toggle_prefs t c ps) (t, ''inapp'') \<noteq> flip (t, c) (pref_matrix ps) (t, ''inapp'')"
    using u by (auto simp: pref_matrix_def flip_def)
  with None show ?thesis by metis
next
  case (Some p)
  then show ?thesis by (simp add: toggle_known)
qed

lemma toggle_keeps_known: "find_pref u ps \<noteq> None \<Longrightarrow> find_pref u (toggle_prefs t c ps) \<noteq> None"
proof (cases "find_pref t ps")
  case (Some p)
  let ?ch = "if c \<in> set (np_channels p) then filter (\<lambda>x. x \<noteq> c) (np_channels p) else np_channels p @ [c]"
  assume "find_pref u ps \<noteq> None"
  with Some show ?thesis
    by (simp add: toggle_prefs_def Let_def find_pref_map [where f = "\<lambda>q. if np_type q = t then q\<lparr>np_channels := ?ch\<rparr> else q"])
qed (auto simp: toggle_prefs_def find_pref_append split: option.splits)

text \<open>
  When the server sends a preference for every type, the card is a matrix of switches. After any
  clicks on its boxes the preferences it would save describe the matrix that was loaded with the clicked
  boxes flipped.
\<close>
theorem complete_preferences_are_switches:
  assumes "\<forall>t\<in>fst ` set clicks. find_pref t ps \<noteq> None"
  shows "pref_matrix (pc_prefs (foldl (\<lambda>s (t, c). prefs_toggle t c s) (prefs_arrive ps s) clicks)) = fold flip clicks (pref_matrix ps)
    \<and> (clicks \<noteq> [] \<longrightarrow> pc_dirty (foldl (\<lambda>s (t, c). prefs_toggle t c s) (prefs_arrive ps s) clicks))"
proof -
  have m: "pref_matrix (pc_prefs (foldl (\<lambda>s (t, c). prefs_toggle t c s) s clicks)) = fold flip clicks (pref_matrix (pc_prefs s))"
    if "\<forall>t\<in>fst ` set clicks. find_pref t (pc_prefs s) \<noteq> None" for s
    using that
  proof (induction clicks arbitrary: s)
    case (Cons e es)
    obtain t c where e: "e = (t, c)" by fastforce
    with Cons.prems obtain p where "find_pref t (pc_prefs s) = Some p" by auto
    then have step: "pref_matrix (pc_prefs (prefs_toggle t c s)) = flip (t, c) (pref_matrix (pc_prefs s))"
      by (simp add: prefs_toggle_def toggle_known)
    have "\<forall>u\<in>fst ` set es. find_pref u (pc_prefs (prefs_toggle t c s)) \<noteq> None"
    proof
      fix u
      assume "u \<in> fst ` set es"
      then have "find_pref u (pc_prefs s) \<noteq> None" using Cons.prems by auto
      then show "find_pref u (pc_prefs (prefs_toggle t c s)) \<noteq> None"
        unfolding prefs_toggle_def using toggle_keeps_known by simp
    qed
    from Cons.IH [OF this] show ?case by (simp add: e step)
  qed simp
  have d: "pc_dirty (foldl (\<lambda>s (t, c). prefs_toggle t c s) s clicks)" if "pc_dirty s \<or> clicks \<noteq> []" for s
    using that by (induction clicks arbitrary: s) (auto simp: prefs_toggle_def)
  show ?thesis using m [of "prefs_arrive ps s"] d assms by (simp add: prefs_arrive_def)
qed

text \<open>
  Ending all sessions ends this one or changes nothing of it. When the server agrees, the user is signed
  out here and the bytes of both keys are overwritten; when it refuses or does not answer, the session
  and its keys are as before.
\<close>
theorem logout_all_ends_session_or_keeps_it:
  "(case fst (run_mutation net useLogoutAllMutation (ap_env app)) of
      Inl _ \<Rightarrow> ap_auth (handleLogoutAll net app) = ap_auth app \<and> ap_buf (handleLogoutAll net app) = ap_buf app
    | Inr _ \<Rightarrow> \<not> selectIsAuthenticated (ap_auth (handleLogoutAll net app))
        \<and> au_privateKey (ap_auth (handleLogoutAll net app)) = None
        \<and> list_all (\<lambda>k. case k of None \<Rightarrow> True | Some i \<Rightarrow> pred_option all_zero (bf_heap (ap_buf (handleLogoutAll net app)) i))
            [au_kek (ap_auth app), au_privateKey (ap_auth app)])"
proof (cases "run_mutation net useLogoutAllMutation (ap_env app)")
  case (fields r ks env1)
  have "pred_option all_zero (bf_heap (fill_zero (au_privateKey (ap_auth app)) (fill_zero (au_kek (ap_auth app)) (ap_buf app))) i)"
    if "Some i \<in> {au_kek (ap_auth app), au_privateKey (ap_auth app)}" for i
  proof (cases "au_privateKey (ap_auth app) = Some i")
    case True
    then show ?thesis by (auto simp: pred_option_def dest: fill_zero_zeroes(1))
  next
    case False
    with that have "au_kek (ap_auth app) = Some i" by auto
    then show ?thesis by (auto simp: pred_option_def dest: fill_zero_keeps_zero)
  qed
  with fields show ?thesis
    by (cases r) (auto simp: handleLogoutAll_def clear_session_def on_tokens_def selectIsAuthenticated_def split: option.splits)
qed

text \<open>
  A security key is added in full or not at all, and the form can be used again after every attempt. A
  key that was added carries the label without its surrounding white space; after a failure label and
  dialog are as they were.
\<close>
theorem security_key_added_or_form_kept:
  assumes "\<not> kc_registering k" and "handleAddKey net reg (k, env) = (outcome, k', env')"
  shows "\<not> kc_registering k'
    \<and> (case outcome of
        KeyAdded l \<Rightarrow> l = trim (kc_label k) \<and> l \<noteq> [] \<and> kc_label k' = [] \<and> \<not> kc_addOpen k'
          \<and> (\<exists>beginRes credential env1 v. reg (nullish (json_field beginRes ''options'') JNull) = Inr credential
              \<and> fst (run_mutation net (useWebAuthnRegisterFinishMutation (register_finish_json beginRes (kc_label k) credential)) env1) = Inr v)
      | _ \<Rightarrow> kc_label k' = kc_label k \<and> kc_addOpen k' = kc_addOpen k)"
proof (cases "trim (kc_label k) = []")
  case True
  with assms show ?thesis by (auto simp: handleAddKey_def)
next
  case False
  obtain r env1 where r: "register_key net reg (kc_label k) env = (r, env1)" by fastforce
  show ?thesis
  proof (cases r)
    case (Inl m)
    then have k: "outcome = key_failure m" "k' = k\<lparr>kc_registering := False\<rparr>"
      using r False assms by (auto simp: handleAddKey_def)
    moreover have "key_failure m \<noteq> KeyAdded l" for l by (auto simp: key_failure_def Let_def split: option.splits)
    ultimately show ?thesis by (simp split: key_outcome.splits)
  next
    case (Inr u)
    then obtain beginRes credential env2 v where
      "reg (nullish (json_field beginRes ''options'') JNull) = Inr credential"
      "fst (run_mutation net (useWebAuthnRegisterFinishMutation (register_finish_json beginRes (kc_label k) credential)) env2) = Inr v"
      using r by (auto simp: register_key_def Let_def split: prod.splits sum.splits if_splits) (metis fst_conv)
    moreover have "outcome = KeyAdded (trim (kc_label k))" "k' = k\<lparr>kc_addOpen := False, kc_label := [], kc_registering := False\<rparr>"
      using Inr r False assms by (auto simp: handleAddKey_def)
    ultimately show ?thesis using False by (auto intro!: exI)
  qed
qed

text \<open>
  A master password that was typed stays. A refused request leaves it in the field, and so does closing
  the dialog in any way but its own cancel button; whoever opens the dialog again finds it filled in.
\<close>
theorem typed_password_outlives_dialog:
  assumes "fst (run_mutation net (useTOTPDisableMutation (JObj [(''master_password'', JStr pw)])) env) = Inl e" and "pw \<noteq> []"
    and "d = dialog_step id (dialog_step id dialog_closed (OpenChange True)) (TypeInto pw)"
  shows "cd_text (dialog_step id (dialog_step id (fst (handleDisable net (d, env))) (OpenChange False)) (OpenChange True)) = pw
    \<and> cd_text (dialog_step id (dialog_step id d (OpenChange False)) (OpenChange True)) = pw
    \<and> cd_text (dialog_step id (dialog_step id d CancelDialog) (OpenChange True)) = []"
  using assms by (auto simp: handleDisable_def submit_def dialog_closed_def split: prod.splits)

subsection \<open>Concrete cards\<close>

theorem complete_preferences_are_switches_witness:
  "pref_matrix (pc_prefs (foldl (\<lambda>s (t, c). prefs_toggle t c s)
       (prefs_arrive [\<lparr>np_type = ''mention'', np_channels = [''inapp'']\<rparr>] prefs_opened) [(''mention'', ''email''), (''mention'', ''inapp'')]))
     (''mention'', ''inapp'') = False"
  using complete_preferences_are_switches [where ps = "[\<lparr>np_type = ''mention'', np_channels = [''inapp'']\<rparr>]" and s = prefs_opened
      and clicks = "[(''mention'', ''email''), (''mention'', ''inapp'')]"]
  by (simp add: find_pref_def find_first_def flip_def pref_matrix_def isEnabled_def)

definition demo_keys :: keys_card where
  "demo_keys = keys_opened\<lparr>kc_addOpen := True, kc_label := ''key''\<rparr>"

theorem security_key_added_or_form_kept_witness:
  "\<exists>outcome k' env'. handleAddKey scripted (\<lambda>_. Inl ''no key'') (demo_keys, demo_env [json_reply (JObj [])]) = (outcome, k', env')
    \<and> \<not> kc_registering k' \<and> kc_label k' = ''key''"
proof -
  have w: "we_world (demo_env [json_reply (JObj [])]) = json_reply (JObj []) # []" by (simp add: demo_env_def)
  obtain rq where r: "run_mutation scripted useWebAuthnRegisterBeginMutation (demo_env [json_reply (JObj [])])
      = (Inr (Some (JObj [])), m_invalidates useWebAuthnRegisterBeginMutation,
         (demo_env [json_reply (JObj [])])\<lparr>we_world := [], we_sent := we_sent (demo_env [json_reply (JObj [])]) @ [rq]\<rparr>)"
    using scripted_mutation [OF w] by blast
  have t: "trim ''key'' = ''key''" by (simp add: trim_eval)
  have idle: "\<not> kc_registering demo_keys" by (simp add: demo_keys_def keys_opened_def)
  obtain k' env' where k: "handleAddKey scripted (\<lambda>_. Inl ''no key'') (demo_keys, demo_env [json_reply (JObj [])]) = (key_failure (Some ''no key''), k', env')"
    using r t by (simp add: handleAddKey_def register_key_def demo_keys_def keys_opened_def)
  have "key_failure (Some ''no key'') = KeyFailed (AsIs ''no key'')"
    by (simp add: key_failure_def userFriendlyError_def TECHNICAL_PATTERNS_def test_word word_def user_cancelled_def js_length_def units_def ascii_lower_def char_of_def)
  with security_key_added_or_form_kept [OF idle k] k show ?thesis by (auto simp: demo_keys_def)
qed

lemma scripted_mutation_down: "\<exists>e. fst (run_mutation scripted h (demo_env [])) = Inl e"
  by (rule unanswered_mutation [where m = "''no route''"]) (simp add: demo_env_def)

theorem typed_password_outlives_dialog_witness:
  "cd_text (dialog_step id (dialog_step id (dialog_step id (dialog_step id dialog_closed (OpenChange True)) (TypeInto ''secret'')) (OpenChange False)) (OpenChange True))
    = ''secret''"
proof -
  obtain e where e: "fst (run_mutation scripted (useTOTPDisableMutation (JObj [(''master_password'', JStr ''secret'')])) (demo_env [])) = Inl e"
    using scripted_mutation_down by metis
  show ?thesis using typed_password_outlives_dialog [OF e _ refl] by simp
qed

end
