(* ===== verification/Paging.thy ===== *)
theory Paging
  imports Complex_Main JsValues Http AdminHooks
begin

text \<open>
  Lists that the server hands out by pages: the bar under them (\<open>components/common/pagination.tsx\<close>), and
  the two admin pages that keep their place in the address, \<open>pages/admin/users.tsx\<close> and
  \<open>pages/admin/audit-log.tsx\<close> with its filters (\<open>components/admin/audit-filters.tsx\<close>). The parameters of
  an address are a list of pairs.
\<close>

subsection \<open>Numbers in an address\<close>

text \<open>\<open>Number(text)\<close>; \<open>None\<close> is \<open>NaN\<close> or an infinity. What a double cannot hold overflows or underflows,
  anything else is kept exactly: the rounding of more than fifteen digits is left out.\<close>

definition dec_prefix :: "string \<Rightarrow> string \<times> string" where
  "dec_prefix s = (takeWhile dec_digit s, dropWhile dec_digit s)"

definition exponent :: "string \<Rightarrow> int option" where
  "exponent s =
     (case s of
        [] \<Rightarrow> Some 0
      | c # t \<Rightarrow>
          (let neg = take 1 t = ''-''; d = (if neg \<or> take 1 t = ''+'' then drop 1 t else t)
           in if (c = CHR ''e'' \<or> c = CHR ''E'') \<and> d \<noteq> [] \<and> list_all dec_digit d
              then Some (if neg then - int (read_nat d) else int (read_nat d)) else None))"

definition ten_to :: "int \<Rightarrow> rat" where
  "ten_to e = (if 0 \<le> e then 10 ^ nat e else 1 / 10 ^ nat (- e))"

definition unsigned_decimal :: "string \<Rightarrow> rat option" where
  "unsigned_decimal s =
     (let (whole, rest) = dec_prefix s;
          (part, rest') = (if take 1 rest = ''.'' then dec_prefix (drop 1 rest) else ([], rest))
      in if whole @ part = [] then None
         else map_option (\<lambda>e. of_nat (read_nat (whole @ part)) * ten_to (e - int (length part))) (exponent rest'))"

definition radix_digits :: "nat \<Rightarrow> string \<Rightarrow> rat option" where
  "radix_digits b d =
     (if d \<noteq> [] \<and> list_all (\<lambda>c. case hex_val c of None \<Rightarrow> False | Some v \<Rightarrow> v < b) d
      then Some (of_nat (foldl (\<lambda>n c. b * n + the (hex_val c)) 0 d)) else None)"

definition as_double :: "rat \<Rightarrow> rat option" where
  "as_double q = (if 2 ^ 1024 - 2 ^ 970 \<le> \<bar>q\<bar> then None else if \<bar>q\<bar> * 2 ^ 1075 \<le> 1 then Some 0 else Some q)"

definition js_number :: "string \<Rightarrow> rat option" where
  "js_number text =
     (let s = trim text; mark = take 2 s
      in Option.bind
           (if s = [] then Some 0
            else if mark = ''0x'' \<or> mark = ''0X'' then radix_digits 16 (drop 2 s)
            else if mark = ''0o'' \<or> mark = ''0O'' then radix_digits 8 (drop 2 s)
            else if mark = ''0b'' \<or> mark = ''0B'' then radix_digits 2 (drop 2 s)
            else if take 1 s = ''-'' then map_option uminus (unsigned_decimal (drop 1 s))
            else unsigned_decimal (if take 1 s = ''+'' then drop 1 s else s))
           as_double)"

text \<open>\<open>Number(params.get(k))\<close>: a missing parameter is \<open>null\<close>, which reads as 0.\<close>

definition param_number :: "(string \<times> string) list \<Rightarrow> string \<Rightarrow> rat option" where
  "param_number ps k = (case map_of ps k of None \<Rightarrow> Some 0 | Some s \<Rightarrow> js_number s)"

definition params_delete :: "(string \<times> string) list \<Rightarrow> string \<Rightarrow> (string \<times> string) list" where
  "params_delete ps k = filter (\<lambda>p. fst p \<noteq> k) ps"

subsection \<open>The place in the list\<close>

definition DEFAULT_LIMIT :: int where "DEFAULT_LIMIT = 50"
definition ALLOWED_LIMITS :: "int list" where "ALLOWED_LIMITS = [25, 50, 100]"

definition parse_limit :: "(string \<times> string) list \<Rightarrow> int" where
  "parse_limit ps =
     (case param_number ps ''size'' of
        None \<Rightarrow> DEFAULT_LIMIT
      | Some q \<Rightarrow> if q \<in> set (map of_int ALLOWED_LIMITS) then \<lfloor>q\<rfloor> else DEFAULT_LIMIT)"

definition parse_page :: "(string \<times> string) list \<Rightarrow> int" where
  "parse_page ps = (case param_number ps ''page'' of None \<Rightarrow> 1 | Some q \<Rightarrow> if 0 < q then \<lfloor>q\<rfloor> else 1)"

definition parsePagination :: "(string \<times> string) list \<Rightarrow> int \<times> int" where
  "parsePagination ps = (parse_limit ps, (parse_page ps - 1) * parse_limit ps)"

definition setPage :: "(string \<times> string) list \<Rightarrow> int \<Rightarrow> (string \<times> string) list" where
  "setPage ps nextOffset =
     (let limit = parse_limit ps
      in params_set (params_set ps ''page'' (show_int (nextOffset div limit + 1))) ''size'' (show_int limit))"

definition setLimit :: "(string \<times> string) list \<Rightarrow> int \<Rightarrow> (string \<times> string) list" where
  "setLimit ps nextLimit = params_set (params_set ps ''size'' (show_int nextLimit)) ''page'' ''1''"

text \<open>The tabs of the users page share its address.\<close>

definition VALID_TABS :: "string list" where "VALID_TABS = [''users'', ''groups'', ''roles'']"

definition activeTab :: "(string \<times> string) list \<Rightarrow> string" where
  "activeTab ps = (let t = nullish (map_of ps ''tab'') ''users'' in if t \<in> set VALID_TABS then t else ''users'')"

definition handleTabChange :: "(string \<times> string) list \<Rightarrow> string \<Rightarrow> (string \<times> string) list" where
  "handleTabChange ps v = params_delete (params_delete (params_set ps ''tab'' v) ''page'') ''size''"

text \<open>The bar shows the page the server answered with; a quotient by 0 is no number.\<close>

record page_bar =
  pb_offset :: int
  pb_limit :: int
  pb_total :: int

definition currentPage :: "page_bar \<Rightarrow> int option" where
  "currentPage b = (if pb_limit b = 0 then None else Some (pb_offset b div pb_limit b + 1))"

definition totalPages :: "page_bar \<Rightarrow> int option" where
  "totalPages b = (if pb_limit b = 0 then None else Some (max 1 (- ((- pb_total b) div pb_limit b))))"

definition canPrev :: "page_bar \<Rightarrow> bool" where "canPrev b \<longleftrightarrow> 0 < pb_offset b"
definition canNext :: "page_bar \<Rightarrow> bool" where "canNext b \<longleftrightarrow> pb_offset b + pb_limit b < pb_total b"
definition prev_offset :: "page_bar \<Rightarrow> int" where "prev_offset b = max 0 (pb_offset b - pb_limit b)"
definition next_offset :: "page_bar \<Rightarrow> int" where "next_offset b = pb_offset b + pb_limit b"

text \<open>Pressing \<open>Next\<close> for as long as the button lets itself be pressed: the rows that come by, page by page, of
  a list of \<open>n\<close> rows out of which the server hands the window it was asked for.\<close>

definition list_window :: "int \<Rightarrow> int \<Rightarrow> int \<Rightarrow> int list" where
  "list_window limit offset n = [offset .. min (offset + limit) n - 1]"

partial_function (option) press_next :: "int \<Rightarrow> (string \<times> string) list \<Rightarrow> int list list option" where
  "press_next n ps =
     (let (limit, offset) = parsePagination ps; b = \<lparr>pb_offset = offset, pb_limit = limit, pb_total = n\<rparr>
      in if canNext b
         then Option.bind (press_next n (setPage ps (next_offset b))) (\<lambda>pages. Some (list_window limit offset n # pages))
         else Some [list_window limit offset n])"

subsection \<open>The filters of the audit log\<close>

record AuditFilterState =
  as_action :: string
  as_actor_user_id :: string
  as_resource_type :: string
  as_from :: string
  as_to :: string

definition EMPTY_FILTERS :: AuditFilterState where
  "EMPTY_FILTERS = \<lparr>as_action = [], as_actor_user_id = [], as_resource_type = [], as_from = [], as_to = []\<rparr>"

definition hasAnyFilter :: "AuditFilterState \<Rightarrow> bool" where
  "hasAnyFilter v \<longleftrightarrow> as_action v \<noteq> [] \<or> as_actor_user_id v \<noteq> [] \<or> as_resource_type v \<noteq> [] \<or> as_from v \<noteq> [] \<or> as_to v \<noteq> []"

definition filter_param :: "(string \<times> string) list \<Rightarrow> string \<Rightarrow> string" where
  "filter_param ps k = nullish (map_of ps k) ''''"

definition filterValue :: "(string \<times> string) list \<Rightarrow> AuditFilterState" where
  "filterValue ps = \<lparr>as_action = filter_param ps ''action'', as_actor_user_id = filter_param ps ''actor_user_id'',
     as_resource_type = filter_param ps ''resource_type'', as_from = filter_param ps ''from'', as_to = filter_param ps ''to''\<rparr>"

definition parseFilters :: "(string \<times> string) list \<Rightarrow> AuditFilterState \<times> int \<times> int" where
  "parseFilters ps = (filterValue ps, parsePagination ps)"

definition set_or_delete :: "(string \<times> string) list \<Rightarrow> string \<Rightarrow> string \<Rightarrow> (string \<times> string) list" where
  "set_or_delete ps k v = (if v \<noteq> [] then params_set ps k v else params_delete ps k)"

definition applyFilters :: "(string \<times> string) list \<Rightarrow> AuditFilterState \<Rightarrow> (string \<times> string) list" where
  "applyFilters ps v =
     (let ps1 = foldl (\<lambda>q (k, x). set_or_delete q k x) ps
                  [(''action'', as_action v), (''actor_user_id'', as_actor_user_id v),
                   (''resource_type'', as_resource_type v), (''from'', as_from v), (''to'', as_to v)];
          ps2 = params_set ps1 ''page'' ''1''
      in if truthy (map_of ps2 ''size'') then ps2 else params_set ps2 ''size'' (show_int (parse_limit ps)))"

text \<open>The request the page makes for its address.\<close>

definition audit_page_query :: "(string \<times> string) list \<Rightarrow> query_hook" where
  "audit_page_query ps =
     (let (f, limit, offset) = parseFilters ps
      in useAuditLog \<lparr>af_action = Some (as_action f), af_actor_user_id = Some (as_actor_user_id f),
           af_resource_type = Some (as_resource_type f), af_resource_id = None, af_from = Some (as_from f),
           af_to = Some (as_to f), af_limit = Some limit, af_offset = Some offset\<rparr>)"

definition ALL_VALUE :: string where "ALL_VALUE = ''__all__''"
definition SYSTEM_VALUE :: string where "SYSTEM_VALUE = ''__system__''"
definition RESOURCE_TYPES :: "string list" where "RESOURCE_TYPES = [''user'', ''session'', ''folder'', ''item'']"

text \<open>Times go through the clock's zone: \<open>new Date(text)\<close> with \<open>None\<close> for an invalid one, \<open>toISOString\<close>,
  and the local fields of a time are parameters.\<close>

definition localToISOZ :: "(string \<Rightarrow> int option) \<Rightarrow> (int \<Rightarrow> string) \<Rightarrow> string \<Rightarrow> string" where
  "localToISOZ date toISOString text =
     (if text = [] then [] else case date text of None \<Rightarrow> [] | Some t \<Rightarrow> toISOString t)"

definition pad2 :: "nat \<Rightarrow> string" where "pad2 n = (if n < 10 then CHR ''0'' # show_nat n else show_nat n)"

record local_fields =
  lf_year :: nat
  lf_month :: nat \<comment> \<open>counted from 0\<close>
  lf_day :: nat
  lf_hours :: nat
  lf_minutes :: nat

definition show_local :: "local_fields \<Rightarrow> string" where
  "show_local f = show_nat (lf_year f) @ ''-'' @ pad2 (lf_month f + 1) @ ''-'' @ pad2 (lf_day f) @ ''T''
     @ pad2 (lf_hours f) @ '':'' @ pad2 (lf_minutes f)"

definition isoZToLocal :: "(string \<Rightarrow> int option) \<Rightarrow> (int \<Rightarrow> local_fields) \<Rightarrow> string \<Rightarrow> string" where
  "isoZToLocal date local text =
     (if text = [] then [] else case date text of None \<Rightarrow> [] | Some t \<Rightarrow> show_local (local t))"

text \<open>The controls: every change goes to \<open>applyFilters\<close>.\<close>

datatype audit_event = ChooseAction string | ChooseActor string | ChooseResource string
  | TypeFrom string | TypeTo string | ClearFilters

fun audit_step :: "(string \<Rightarrow> int option) \<Rightarrow> (int \<Rightarrow> string) \<Rightarrow> AuditFilterState \<Rightarrow> audit_event \<Rightarrow> AuditFilterState" where
  "audit_step date z v (ChooseAction a) = v\<lparr>as_action := if a = ALL_VALUE then [] else a\<rparr>"
| "audit_step date z v (ChooseActor u) =
     v\<lparr>as_actor_user_id := if u = ALL_VALUE then [] else if u = SYSTEM_VALUE then ''null'' else u\<rparr>"
| "audit_step date z v (ChooseResource r) = v\<lparr>as_resource_type := if r = ALL_VALUE then [] else r\<rparr>"
| "audit_step date z v (TypeFrom t) = v\<lparr>as_from := localToISOZ date z t\<rparr>"
| "audit_step date z v (TypeTo t) = v\<lparr>as_to := localToISOZ date z t\<rparr>"
| "audit_step date z v ClearFilters = EMPTY_FILTERS"

text \<open>What the controls offer, given the actions the log knows and the users the list could load.\<close>

fun audit_can :: "string list \<Rightarrow> string list \<Rightarrow> AuditFilterState \<Rightarrow> audit_event \<Rightarrow> bool" where
  "audit_can actions users v (ChooseAction a) = (a \<in> set (ALL_VALUE # actions))"
| "audit_can actions users v (ChooseActor u) = (u \<in> set (ALL_VALUE # users))"
| "audit_can actions users v (ChooseResource r) = (r \<in> set (ALL_VALUE # RESOURCE_TYPES))"
| "audit_can actions users v ClearFilters = hasAnyFilter v"
| "audit_can actions users v _ = True"

section \<open>Reading, writing and walking\<close>

text \<open>
  Lists by pages: what is read from an address, what the buttons write to it, and the walk through a list.
\<close>

subsection \<open>Addresses\<close>

lemma map_of_params_set [simp]: "map_of (params_set ps k v) = (map_of ps)(k \<mapsto> v)"
proof (induction ps k v rule: params_set.induct)
  case (2 k' v' ps k v)
  have "map_of (filter (\<lambda>p. fst p \<noteq> k) qs) x = map_of qs x" if "x \<noteq> k" for qs :: "(string \<times> string) list" and x
    using that by (induction qs) auto
  with 2 show ?case by (auto simp: fun_eq_iff)
qed simp

lemma map_of_params_delete [simp]: "map_of (params_delete ps k) = (map_of ps)(k := None)"
  by (induction ps) (auto simp: params_delete_def fun_eq_iff)

lemma map_of_set_or_delete [simp]:
  "map_of (set_or_delete ps k v) = (map_of ps)(k := or_undefined v)"
  by (simp add: set_or_delete_def or_undefined_def)

subsection \<open>Numbers\<close>

lemma dec_char: "dec_digit c \<Longrightarrow> c \<notin> set ''.eE-+xXoObB ''"
  by (auto simp: dec_digit_def)

lemma takeWhile_show [simp]: "takeWhile dec_digit (show_nat n) = show_nat n" "dropWhile dec_digit (show_nat n) = []"
  using show_nat_digits [of n] by (simp_all add: list_all_iff takeWhile_eq_all_conv)

lemma unsigned_decimal_show [simp]: "unsigned_decimal (show_nat n) = Some (of_nat n)"
  by (simp add: unsigned_decimal_def dec_prefix_def exponent_def ten_to_def read_show_nat)

lemma strip_prefixes_other:
  assumes "\<forall>w\<in>set ws. w = [] \<or> hd w \<notin> set s"
  shows "strip_prefixes n ws s = s"
proof -
  have "\<not> (w \<noteq> [] \<and> take (length w) s = w)" if "w \<in> set ws" for w
    using assms that by (metis hd_in_set in_set_takeD)
  then have "find (\<lambda>w. w \<noteq> [] \<and> take (length w) s = w) ws = None" by (auto simp: find_None_iff)
  then show ?thesis by (cases n) auto
qed

lemma trim_digits [simp]: "list_all dec_digit s \<Longrightarrow> trim s = s"
proof -
  assume s: "list_all dec_digit s"
  have "\<forall>w\<in>set white_space. w = [] \<or> hd w \<notin> set s" "\<forall>w\<in>set (map rev white_space). w = [] \<or> hd w \<notin> set (rev s)"
    using s unfolding white_space_list by (auto simp: list_all_iff dec_digit_def)
  then show ?thesis by (simp add: trim_def trimStart_def trimEnd_def strip_prefixes_other)
qed

lemma digits_no_mark:
  assumes "list_all dec_digit s" and "\<not> dec_digit c"
  shows "take 2 s \<noteq> [b, c]" "take 1 s \<noteq> [c]"
proof -
  have "c \<notin> set s" using assms by (auto simp: list_all_iff)
  then show "take 2 s \<noteq> [b, c]" "take 1 s \<noteq> [c]" by (metis in_set_takeD list.set_intros)+
qed

lemma js_number_show [simp]:
  assumes "n \<le> 2 ^ 53"
  shows "js_number (show_nat n) = Some (of_nat n)"
proof -
  have no: "take 2 (show_nat n) \<noteq> [b, c]" "take 1 (show_nat n) \<noteq> [c]" if "\<not> dec_digit c" for b c
    using that by (rule digits_no_mark [OF show_nat_digits])+
  have "rat_of_nat n \<le> 2 ^ 53" using assms by (metis of_nat_le_iff of_nat_numeral of_nat_power)
  also have "(2::rat) ^ 53 < 2 ^ 1024 - 2 ^ 970" by simp
  finally have "rat_of_nat n < 2 ^ 1024 - 2 ^ 970" .
  moreover have "1 < rat_of_nat n * 2 ^ 1075" if "n \<noteq> 0"
  proof -
    have "(1::rat) < 2 ^ 1075" by simp
    also have "\<dots> \<le> rat_of_nat n * 2 ^ 1075" using that by simp
    finally show ?thesis .
  qed
  ultimately have "as_double (of_nat n) = Some (of_nat n)" by (cases "n = 0") (auto simp: as_double_def)
  then show ?thesis
    by (simp add: js_number_def show_nat_digits no dec_digit_def del: One_nat_def)
qed

lemma js_number_show_int [simp]: "0 \<le> i \<Longrightarrow> i \<le> 2 ^ 53 \<Longrightarrow> js_number (show_int i) = Some (of_int i)"
  using js_number_show [of "nat i"] by (simp add: show_int_def nat_le_iff)

subsection \<open>The place in the list\<close>

lemma parse_limit_cases: "parse_limit ps \<in> {25, 50, 100}"
  by (auto simp: parse_limit_def ALLOWED_LIMITS_def DEFAULT_LIMIT_def split: option.splits)

lemma parse_limit_pos [simp]: "0 < parse_limit ps"
  using parse_limit_cases [of ps] by auto

lemma parse_limit_printed:
  assumes "map_of ps ''size'' = Some (show_int l)" and "l \<in> {25, 50, 100}"
  shows "parse_limit ps = l"
  using assms by (auto simp: parse_limit_def param_number_def ALLOWED_LIMITS_def)

lemma parse_page_printed:
  assumes "map_of ps ''page'' = Some (show_int p)" and "1 \<le> p" and "p \<le> 2 ^ 53"
  shows "parse_page ps = p"
  using assms by (auto simp: parse_page_def param_number_def)

lemma parse_limit_setPage [simp]: "parse_limit (setPage ps i) = parse_limit ps"
  by (rule parse_limit_printed) (use parse_limit_cases [of ps] in \<open>simp_all add: setPage_def Let_def\<close>)

lemma offset_setPage:
  assumes "0 \<le> k" and "k + 1 \<le> 2 ^ 53"
  shows "parsePagination (setPage ps (k * parse_limit ps)) = (parse_limit ps, k * parse_limit ps)"
proof -
  have "parse_page (setPage ps (k * parse_limit ps)) = k + 1"
    by (rule parse_page_printed) (use assms parse_limit_pos [of ps] in \<open>simp_all add: setPage_def Let_def del: parse_limit_pos\<close>)
  then show ?thesis by (simp add: parsePagination_def)
qed

lemma list_window_append:
  "0 \<le> l \<Longrightarrow> i + l < n \<Longrightarrow> list_window l i n @ [i + l .. n - 1] = [i .. n - 1]"
  using upto_split1 [of i "i + l" "n - 1"] by (simp add: list_window_def)

lemma pages_after_next: "0 < l \<Longrightarrow> l < t \<Longrightarrow> max 1 (- ((- t) div l)) = 1 + max 1 (- ((l - t) div l :: int))"
proof -
  assume l: "0 < l" "l < t"
  have "l - t = - t + l" by simp
  then have "(l - t) div l = (- t) div l + 1" using l by (metis div_add_self2 less_irrefl)
  moreover have "(l - t) div l < 0" using l by (simp add: div_neg_pos_less0)
  ultimately show ?thesis by simp
qed

lemma press_next_from:
  assumes "parsePagination ps = (l, k * l)" and "0 \<le> k" and "k * l \<le> n" and "n < 2 ^ 53"
  shows "\<exists>pages. press_next n ps = Some pages \<and> concat pages = [k * l .. n - 1]
     \<and> int (length pages) = max 1 (- ((k * l - n) div l))"
  using assms
proof (induction "nat (n - k * l)" arbitrary: ps k rule: less_induct)
  case less
  have l: "l = parse_limit ps" "0 < l" using less.prems(1) by (auto simp: parsePagination_def)
  let ?b = "\<lparr>pb_offset = k * l, pb_limit = l, pb_total = n\<rparr>"
  show ?case
  proof (cases "canNext ?b")
    case False
    then have le: "n \<le> k * l + l" by (simp add: canNext_def)
    have "(- 1) * l div l = - 1" using l(2) by (subst nonzero_mult_div_cancel_right) auto
    with zdiv_mono1 [of "(- 1) * l" "k * l - n" l] le l(2) have "- 1 \<le> (k * l - n) div l" by linarith
    moreover have "list_window l (k * l) n = [k * l .. n - 1]" using le by (simp add: list_window_def)
    ultimately show ?thesis using False less.prems(1) by (subst press_next.simps) simp
  next
    case True
    then have lt: "k * l + l < n" by (simp add: canNext_def)
    define ps' where "ps' = setPage ps ((k + 1) * l)"
    have "k + 1 \<le> (k + 1) * l" using l(2) less.prems(2) by (simp add: mult_le_cancel_left1)
    also have "\<dots> < 2 ^ 53 - 1" using lt less.prems(4) by (simp add: algebra_simps)
    finally have "parsePagination ps' = (l, (k + 1) * l)"
      unfolding ps'_def l(1) using less.prems(2) by (intro offset_setPage) auto
    moreover have "nat (n - (k + 1) * l) < nat (n - k * l)" using lt l(2) by (simp add: algebra_simps)
    ultimately obtain pages where p: "press_next n ps' = Some pages" "concat pages = [(k + 1) * l .. n - 1]"
      "int (length pages) = max 1 (- (((k + 1) * l - n) div l))"
      using less.hyps [of "k + 1" ps'] less.prems lt by (auto simp: algebra_simps)
    have "press_next n ps = Some (list_window l (k * l) n # pages)"
      using True p(1) less.prems(1) by (subst press_next.simps) (simp add: ps'_def next_offset_def algebra_simps)
    moreover have "list_window l (k * l) n @ [(k + 1) * l .. n - 1] = [k * l .. n - 1]"
      using list_window_append [of l "k * l" n] lt l(2) by (simp add: algebra_simps)
    moreover have "max 1 (- ((k * l - n) div l)) = 1 + int (length pages)"
      using pages_after_next [of l "n - k * l"] l(2) lt p(3) by (simp add: algebra_simps)
    ultimately show ?thesis using p(2) by simp
  qed
qed

text \<open>C28: Choosing a page size and pressing \<open>Next\<close> for as long as the button is enabled comes to an end, shows
  every row of the list once and in order, and turns as many pages as the bar counts.\<close>
theorem next_visits_every_row:
  assumes "0 \<le> n" and "n < 2 ^ 53"
  shows "\<exists>pages. press_next n (setLimit ps m) = Some pages \<and> concat pages = [0 .. n - 1]
     \<and> Some (int (length pages)) = totalPages \<lparr>pb_offset = 0, pb_limit = parse_limit (setLimit ps m), pb_total = n\<rparr>"
proof -
  let ?ps = "setLimit ps m" and ?l = "parse_limit (setLimit ps m)"
  have "parse_page ?ps = 1"
    by (rule parse_page_printed) (simp_all add: setLimit_def show_int_def show_nat.simps)
  then have "parsePagination ?ps = (?l, 0 * ?l)" by (simp add: parsePagination_def)
  from press_next_from [OF this] assms parse_limit_pos [of ?ps] show ?thesis
    by (auto simp: totalPages_def simp del: parse_limit_pos)
qed

theorem next_visits_every_row_witness:
  "\<exists>pages. press_next 60 (setLimit [(''tab'', ''users'')] 25) = Some pages \<and> concat pages = [0 .. 60 - 1]
     \<and> Some (int (length pages)) = totalPages \<lparr>pb_offset = 0, pb_limit = parse_limit (setLimit [(''tab'', ''users'')] 25), pb_total = 60\<rparr>"
  by (rule next_visits_every_row) simp_all

text \<open>A page number between 0 and 1 in the address, and no other, makes the page ask for rows before the first.\<close>
theorem fraction_asks_before_first:
  "snd (parsePagination ps) < 0 \<longleftrightarrow> (\<exists>q. param_number ps ''page'' = Some q \<and> 0 < q \<and> q < 1)"
proof -
  have "snd (parsePagination ps) < 0 \<longleftrightarrow> parse_page ps < 1"
    using parse_limit_pos [of ps] by (simp add: parsePagination_def mult_less_0_iff del: parse_limit_pos)
  also have "\<dots> \<longleftrightarrow> (\<exists>q. param_number ps ''page'' = Some q \<and> 0 < q \<and> q < 1)"
    by (auto simp: parse_page_def floor_less_iff split: option.splits if_splits)
  finally show ?thesis .
qed

subsection \<open>The filters of the audit log\<close>

lemma filters_rest:
  "map_of (applyFilters ps v) ''page'' = Some ''1''"
  "map_of (applyFilters ps v) ''size'' =
     (if truthy (map_of ps ''size'') then map_of ps ''size'' else Some (show_int (parse_limit ps)))"
  by (simp_all add: applyFilters_def Let_def)

lemma parse_limit_kept: "map_of ps' ''size'' = map_of ps ''size'' \<Longrightarrow> parse_limit ps' = parse_limit ps"
  by (simp add: parse_limit_def param_number_def)

text \<open>Filters put into the address are read back from it, at the first page and with the page size
  that was in force.\<close>
theorem filters_survive_address: "parseFilters (applyFilters ps v) = (v, parse_limit ps, 0)"
proof -
  let ?ps = "applyFilters ps v"
  have "filterValue ?ps = v"
    by (simp add: filterValue_def filter_param_def applyFilters_def Let_def or_undefined_def nullish_def)
  moreover have "parse_limit ?ps = parse_limit ps"
  proof (cases "truthy (map_of ps ''size'')")
    case True
    then show ?thesis by (intro parse_limit_kept) (simp add: filters_rest)
  next
    case False
    then show ?thesis
      by (intro parse_limit_printed) (use parse_limit_cases [of ps] in \<open>simp_all add: filters_rest\<close>)
  qed
  moreover have "parse_page ?ps = 1"
    by (rule parse_page_printed) (simp_all add: filters_rest show_int_def show_nat.simps)
  ultimately show ?thesis by (simp add: parseFilters_def parsePagination_def)
qed

text \<open>Nobody can ask for the entries of the system: the actor's control does not offer it.\<close>

lemma system_never_chosen:
  assumes "''null'' \<notin> set users" and "SYSTEM_VALUE \<notin> set users"
  shows "machine (audit_can actions users) (audit_step date z) (\<lambda>v. as_actor_user_id v \<noteq> ''null'')"
proof
  fix v e
  assume "as_actor_user_id v \<noteq> ''null''" and "audit_can actions users v e"
  then show "as_actor_user_id (audit_step date z v e) \<noteq> ''null''"
    using assms by (cases e) (auto simp: EMPTY_FILTERS_def ALL_VALUE_def SYSTEM_VALUE_def)
qed

end
