(* ===== verification/UserAdmin.thy ===== *)
theory UserAdmin
  imports PageKit AdminHooks JsValues
begin

text \<open>
  Administration of users: the menu of a row and its dialogs (\<open>components/admin/user-actions-menu.tsx\<close>,
  \<open>disable-confirm-dialog.tsx\<close>) and the dialog that makes a user (\<open>create-user-modal.tsx\<close>). Case mapping
  beyond a list of letters is the language's: \<open>toUpperCase\<close> and \<open>toLowerCase\<close> are parameters.
\<close>

subsection \<open>The row and its menu\<close>

datatype user_status = PendingTotp | ActiveUser | DisabledUser | LockedUser

record AdminUser =
  au_id :: string
  au_username :: string
  au_email :: string
  au_status :: user_status
  au_roles :: "string list"
  au_is_break_glass :: bool
  au_totp_required :: bool
  au_requires_client_cert :: bool
  au_webauthn_required :: bool

definition ALL_ROLES :: "string list" where "ALL_ROLES = [''admin'', ''write'', ''read'']"

record IPRestrictions =
  allowed_ip_cidrs :: "string list"
  allowed_country_codes :: "string list"
  deny_tor_exit :: bool

text \<open>The row shows the user it was last handed.\<close>

record row_menu =
  rm_user :: AdminUser
  rm_confirmOpen :: bool
  rm_totpResetOpen :: bool
  rm_ipDialogOpen :: bool
  rm_ipCIDRs :: string
  rm_ipCountries :: string
  rm_denyTor :: bool

definition menu_mounted :: "AdminUser \<Rightarrow> row_menu" where
  "menu_mounted u = \<lparr>rm_user = u, rm_confirmOpen = False, rm_totpResetOpen = False, rm_ipDialogOpen = False,
     rm_ipCIDRs = [], rm_ipCountries = [], rm_denyTor = False\<rparr>"

definition isSelf :: "string option \<Rightarrow> row_menu \<Rightarrow> bool" where
  "isSelf me s \<longleftrightarrow> me = Some (au_id (rm_user s))"

definition has_role :: "row_menu \<Rightarrow> string \<Rightarrow> bool" where
  "has_role s role \<longleftrightarrow> role \<in> set (au_roles (rm_user s))"

definition lockedBySelf :: "string option \<Rightarrow> row_menu \<Rightarrow> string \<Rightarrow> bool" where
  "lockedBySelf me s role \<longleftrightarrow> isSelf me s \<and> role = ''admin'' \<and> has_role s role"

text \<open>A step that sends a request is one event, with whether the request succeeded. \<open>Refetched\<close>: the list
  was loaded again, the row keeps its user's id as its key.\<close>

datatype menu_event =
    PickRole string | PickTotpReset | PickTotpRequired | PickCert | PickWebAuthn | PickBreakGlass | PickIP
  | PickEnable | PickDisable
  | OpenConfirm bool | ConfirmDisable bool | OpenTotpReset bool | ConfirmTotpReset bool
  | TypeCidrs string | TypeCountries string | SwitchTor bool | SubmitIP bool | CloseIP
  | Refetched AdminUser

definition modal_open :: "row_menu \<Rightarrow> bool" where
  "modal_open s \<longleftrightarrow> rm_confirmOpen s \<or> rm_totpResetOpen s \<or> rm_ipDialogOpen s"

text \<open>What can be clicked: an item of the menu if no dialog is over it and it is not disabled, a control of
  a dialog that is open.\<close>

fun menu_can :: "string option \<Rightarrow> row_menu \<Rightarrow> menu_event \<Rightarrow> bool" where
  "menu_can me s (PickRole r) = (\<not> modal_open s \<and> r \<in> set ALL_ROLES \<and> \<not> lockedBySelf me s r)"
| "menu_can me s PickTotpReset = (\<not> modal_open s \<and> \<not> isSelf me s)"
| "menu_can me s PickTotpRequired = (\<not> modal_open s \<and> \<not> (isSelf me s \<and> au_totp_required (rm_user s)))"
| "menu_can me s PickCert = (\<not> modal_open s)"
| "menu_can me s PickWebAuthn = (\<not> modal_open s)"
| "menu_can me s PickBreakGlass = (\<not> modal_open s \<and> \<not> isSelf me s)"
| "menu_can me s PickIP = (\<not> modal_open s)"
| "menu_can me s PickEnable = (\<not> modal_open s \<and> au_status (rm_user s) = DisabledUser \<and> \<not> isSelf me s)"
| "menu_can me s PickDisable = (\<not> modal_open s \<and> au_status (rm_user s) \<noteq> DisabledUser \<and> \<not> isSelf me s)"
| "menu_can me s (OpenConfirm b) = (rm_confirmOpen s \<and> \<not> b)"
| "menu_can me s (ConfirmDisable ok) = rm_confirmOpen s"
| "menu_can me s (OpenTotpReset b) = (rm_totpResetOpen s \<and> \<not> b)"
| "menu_can me s (ConfirmTotpReset ok) = rm_totpResetOpen s"
| "menu_can me s (Refetched u) = (au_id u = au_id (rm_user s))"
| "menu_can me s _ = rm_ipDialogOpen s"

text \<open>\<open>text.split(',').map(s => s.trim().toUpperCase()).filter(Boolean)\<close>; the capitals are the browser's.\<close>

definition country_list :: "(string \<Rightarrow> string) \<Rightarrow> string \<Rightarrow> string list" where
  "country_list toUpperCase s = filter (\<lambda>x. x \<noteq> []) (map (\<lambda>x. toUpperCase (trim x)) (split_on CHR '','' s))"

definition restrictions_json :: "IPRestrictions \<Rightarrow> json" where
  "restrictions_json r = JObj [(''allowed_ip_cidrs'', JArr (map JStr (allowed_ip_cidrs r))),
     (''allowed_country_codes'', JArr (map JStr (allowed_country_codes r))), (''deny_tor_exit'', JBool (deny_tor_exit r))]"

definition typed_restrictions :: "(string \<Rightarrow> string) \<Rightarrow> row_menu \<Rightarrow> IPRestrictions" where
  "typed_restrictions toUpperCase s = \<lparr>allowed_ip_cidrs = comma_list (rm_ipCIDRs s),
     allowed_country_codes = country_list toUpperCase (rm_ipCountries s), deny_tor_exit = rm_denyTor s\<rparr>"

text \<open>\<open>toggleRole\<close> has its own guard.\<close>

definition toggleRole :: "string option \<Rightarrow> row_menu \<Rightarrow> string \<Rightarrow> mutation_hook list" where
  "toggleRole me s role =
     (if isSelf me s \<and> role = ''admin'' \<and> has_role s role then []
      else if has_role s role then [useRevokeRoleMutation (au_id (rm_user s)) role]
      else [useGrantRoleMutation (au_id (rm_user s)) (JObj [(''role'', JStr role)])])"

fun menu_sends :: "string option \<Rightarrow> (string \<Rightarrow> string) \<Rightarrow> row_menu \<Rightarrow> menu_event \<Rightarrow> mutation_hook list" where
  "menu_sends me up s (PickRole r) = (if lockedBySelf me s r then [] else toggleRole me s r)"
| "menu_sends me up s PickTotpRequired =
     [useUpdateTOTPRequirementMutation (au_id (rm_user s)) (\<not> au_totp_required (rm_user s))]"
| "menu_sends me up s PickCert =
     [useUpdateClientCertRequirementMutation (au_id (rm_user s))
        (JObj [(''required'', JBool (\<not> au_requires_client_cert (rm_user s)))])]"
| "menu_sends me up s PickWebAuthn =
     [useUpdateWebAuthnRequirementMutation (au_id (rm_user s)) (\<not> au_webauthn_required (rm_user s))]"
| "menu_sends me up s PickBreakGlass =
     [useSetBreakGlassMutation (au_id (rm_user s)) (\<not> au_is_break_glass (rm_user s))]"
| "menu_sends me up s PickEnable = [useEnableUserMutation (au_id (rm_user s))]"
| "menu_sends me up s (ConfirmDisable ok) = [useDisableUserMutation (au_id (rm_user s))]"
| "menu_sends me up s (ConfirmTotpReset ok) = [useResetTOTPMutation (au_id (rm_user s))]"
| "menu_sends me up s (SubmitIP ok) =
     [useUpdateIPRestrictionsMutation (au_id (rm_user s)) (restrictions_json (typed_restrictions up s))]"
| "menu_sends me up s _ = []"

text \<open>The restrictions known to the query client, by user id. The menu asks for those of its user while
  the dialog is open, and for those of the user with the empty id otherwise.\<close>

definition ipQuery :: "(string \<rightharpoonup> IPRestrictions) \<Rightarrow> row_menu \<Rightarrow> IPRestrictions option" where
  "ipQuery cached s = cached (if rm_ipDialogOpen s then au_id (rm_user s) else '''')"

definition prefill :: "IPRestrictions \<Rightarrow> row_menu \<Rightarrow> row_menu" where
  "prefill r s = s\<lparr>rm_ipCIDRs := join '', '' (allowed_ip_cidrs r),
     rm_ipCountries := join '', '' (allowed_country_codes r), rm_denyTor := deny_tor_exit r\<rparr>"

fun menu_step :: "(string \<rightharpoonup> IPRestrictions) \<Rightarrow> row_menu \<Rightarrow> menu_event \<Rightarrow> row_menu" where
  "menu_step cached s PickTotpReset = s\<lparr>rm_totpResetOpen := True\<rparr>"
| "menu_step cached s PickIP =
     (case ipQuery cached s of Some r \<Rightarrow> prefill r s | None \<Rightarrow> s)\<lparr>rm_ipDialogOpen := True\<rparr>"
| "menu_step cached s PickDisable = s\<lparr>rm_confirmOpen := True\<rparr>"
| "menu_step cached s (OpenConfirm b) = s\<lparr>rm_confirmOpen := b\<rparr>"
| "menu_step cached s (ConfirmDisable ok) = (if ok then s\<lparr>rm_confirmOpen := False\<rparr> else s)"
| "menu_step cached s (OpenTotpReset b) = s\<lparr>rm_totpResetOpen := b\<rparr>"
| "menu_step cached s (ConfirmTotpReset ok) = (if ok then s\<lparr>rm_totpResetOpen := False\<rparr> else s)"
| "menu_step cached s (TypeCidrs t) = s\<lparr>rm_ipCIDRs := t\<rparr>"
| "menu_step cached s (TypeCountries t) = s\<lparr>rm_ipCountries := t\<rparr>"
| "menu_step cached s (SwitchTor b) = s\<lparr>rm_denyTor := b\<rparr>"
| "menu_step cached s (SubmitIP ok) = (if ok then s\<lparr>rm_ipDialogOpen := False\<rparr> else s)"
| "menu_step cached s CloseIP = s\<lparr>rm_ipDialogOpen := False\<rparr>"
| "menu_step cached s (Refetched u) = s\<lparr>rm_user := u\<rparr>"
| "menu_step cached s _ = s"

subsection \<open>Making a user\<close>

record create_user_form =
  cu_username :: string
  cu_email :: string
  cu_password :: string
  cu_confirm :: string
  cu_roles :: "string list"
  cu_totpRequired :: bool
  cu_certRequired :: bool

definition create_user_reset :: create_user_form where
  "create_user_reset = \<lparr>cu_username = [], cu_email = [], cu_password = [], cu_confirm = [], cu_roles = [''read''],
     cu_totpRequired = True, cu_certRequired = False\<rparr>"

definition cu_toggleRole :: "create_user_form \<Rightarrow> string \<Rightarrow> create_user_form" where
  "cu_toggleRole f role = f\<lparr>cu_roles := if role \<in> set (cu_roles f) then filter (\<lambda>r. r \<noteq> role) (cu_roles f)
     else cu_roles f @ [role]\<rparr>"

text \<open>The controls of the dialog, with the result of a submission; closing it resets the form.\<close>

datatype create_user_event = TypeUsername string | TypeEmail string | TypePassword string | TypeConfirm string
  | TickRole string | TickTotp bool | CloseCreate | SubmitCreate bool

definition create_user_json :: "create_user_form \<Rightarrow> json" where
  "create_user_json f = JObj [(''username'', JStr (cu_username f)), (''email'', JStr (cu_email f)),
     (''password'', JStr (cu_password f)), (''roles'', JArr (map JStr (cu_roles f))),
     (''totp_required'', JBool (cu_totpRequired f)), (''requires_client_cert'', JBool (cu_certRequired f))]"

datatype create_user_outcome = PasswordsDiffer | NoRoleChosen | SendUser mutation_hook

definition cu_onSubmit :: "create_user_form \<Rightarrow> create_user_outcome" where
  "cu_onSubmit f =
     (if cu_password f \<noteq> cu_confirm f then PasswordsDiffer
      else if cu_roles f = [] then NoRoleChosen
      else SendUser (useCreateUserMutation (create_user_json f)))"

fun create_user_sends :: "create_user_form \<Rightarrow> create_user_event \<Rightarrow> mutation_hook list" where
  "create_user_sends f (SubmitCreate ok) = (case cu_onSubmit f of SendUser m \<Rightarrow> [m] | _ \<Rightarrow> [])"
| "create_user_sends f _ = []"

fun create_user_step :: "(string \<Rightarrow> string) \<Rightarrow> create_user_form \<Rightarrow> create_user_event \<Rightarrow> create_user_form" where
  "create_user_step lower f (TypeUsername t) = f\<lparr>cu_username := lower t\<rparr>"
| "create_user_step lower f (TypeEmail t) = f\<lparr>cu_email := t\<rparr>"
| "create_user_step lower f (TypePassword t) = f\<lparr>cu_password := t\<rparr>"
| "create_user_step lower f (TypeConfirm t) = f\<lparr>cu_confirm := t\<rparr>"
| "create_user_step lower f (TickRole r) = cu_toggleRole f r"
| "create_user_step lower f (TickTotp b) = f\<lparr>cu_totpRequired := b\<rparr>"
| "create_user_step lower f CloseCreate = create_user_reset"
| "create_user_step lower f (SubmitCreate ok) =
     (case cu_onSubmit f of SendUser m \<Rightarrow> if ok then create_user_reset else f | _ \<Rightarrow> f)"

text \<open>The browser submits a form only when its fields meet their constraints: required, at least 3 and 12
  characters, the pattern of the name, an address (a parameter). The boxes are those of the three roles.\<close>

definition username_char :: "char \<Rightarrow> bool" where
  "username_char c \<longleftrightarrow> is_alnum c \<or> c \<in> set ''._-''"

definition create_user_valid :: "(string \<Rightarrow> bool) \<Rightarrow> create_user_form \<Rightarrow> bool" where
  "create_user_valid is_email f \<longleftrightarrow> list_all username_char (cu_username f) \<and> 3 \<le> length (cu_username f)
     \<and> length (cu_username f) \<le> 64 \<and> cu_email f \<noteq> [] \<and> is_email (cu_email f)
     \<and> 12 \<le> js_length (cu_password f) \<and> 12 \<le> js_length (cu_confirm f)"

fun create_user_can :: "(string \<Rightarrow> bool) \<Rightarrow> create_user_form \<Rightarrow> create_user_event \<Rightarrow> bool" where
  "create_user_can is_email f (TickRole r) = (r \<in> set ALL_ROLES)"
| "create_user_can is_email f (SubmitCreate ok) = create_user_valid is_email f"
| "create_user_can is_email f _ = True"

section \<open>What the menu and the dialogs keep\<close>

text \<open>
  Administration of users: what the menu of an administrator's own row can send, what the dialog of the IP
  restrictions saves, and the users the dialog makes.
\<close>

lemmas user_hook_defs = useGrantRoleMutation_def useRevokeRoleMutation_def useDisableUserMutation_def
  useEnableUserMutation_def useResetTOTPMutation_def useUpdateTOTPRequirementMutation_def
  useUpdateWebAuthnRequirementMutation_def useSetBreakGlassMutation_def
  useUpdateClientCertRequirementMutation_def useUpdateIPRestrictionsMutation_def mutation_def user_path_def
  required_body_def no_options_def

subsection \<open>The administrator's own row\<close>

definition locks_out :: "string \<Rightarrow> mutation_hook set" where
  "locks_out i = {useRevokeRoleMutation i ''admin'', useUpdateTOTPRequirementMutation i False, useDisableUserMutation i,
     useResetTOTPMutation i, useSetBreakGlassMutation i True, useSetBreakGlassMutation i False}"

definition own_row :: "string \<Rightarrow> row_menu \<Rightarrow> bool" where
  "own_row i s \<longleftrightarrow> au_id (rm_user s) = i \<and> \<not> rm_confirmOpen s \<and> \<not> rm_totpResetOpen s"

lemma own_row_step: "own_row i s \<Longrightarrow> menu_can (Some i) s e \<Longrightarrow> own_row i (menu_step cached s e)"
  by (cases e) (auto simp: own_row_def isSelf_def prefill_def split: option.splits)

lemma own_row_sends:
  assumes "own_row i s" and "menu_can (Some i) s e" and "m \<in> set (menu_sends (Some i) up s e)"
  shows "m \<notin> locks_out i"
  using assms
  by (cases e) (auto simp: own_row_def isSelf_def toggleRole_def lockedBySelf_def has_role_def ALL_ROLES_def locks_out_def
    user_hook_defs split: if_splits)

interpretation own_row: sending_page "menu_can (Some i)" "menu_step cached" "own_row i" "menu_sends (Some i) up"
    "\<lambda>m. m \<notin> locks_out i" for i cached up
  by unfold_locales (auto intro: own_row_step dest: own_row_sends)

text \<open>Whatever is clicked in the menu of an administrator's own row, and however the list changes meanwhile, no
  request revokes the own admin role, lifts the own duty to use TOTP, disables the account, resets its TOTP
  or switches its break-glass mode.\<close>
theorem own_row_is_protected:
  assumes "possible_run (menu_can (Some (au_id u))) (menu_step cached) (menu_mounted u) es"
    and "m \<in> set (sent_by (menu_step cached) (menu_sends (Some (au_id u)) up) (menu_mounted u) es)"
  shows "m \<notin> locks_out (au_id u)"
proof -
  have "own_row (au_id u) (menu_mounted u)" by (simp add: own_row_def menu_mounted_def)
  from own_row.run_sends_ok [OF this assms] show ?thesis .
qed

definition some_admin :: AdminUser where
  "some_admin = \<lparr>au_id = ''u1'', au_username = ''ayse'', au_email = ''a@b.c'', au_status = ActiveUser,
     au_roles = [''admin'', ''read''], au_is_break_glass = False, au_totp_required = True,
     au_requires_client_cert = False, au_webauthn_required = False\<rparr>"

theorem own_row_is_protected_witness:
  "useUpdateWebAuthnRequirementMutation ''u1'' True \<notin> locks_out ''u1''"
  using own_row_is_protected [of some_admin Map.empty "[PickRole ''write'', PickWebAuthn]"
      "useUpdateWebAuthnRequirementMutation ''u1'' True" id]
  by (simp add: some_admin_def menu_mounted_def modal_open_def ALL_ROLES_def lockedBySelf_def)

subsection \<open>IP restrictions\<close>

fun types_restrictions :: "menu_event \<Rightarrow> bool" where
  "types_restrictions (TypeCidrs t) = True"
| "types_restrictions (TypeCountries t) = True"
| "types_restrictions (SwitchTor b) = True"
| "types_restrictions _ = False"

definition blank_dialog :: "string \<Rightarrow> row_menu \<Rightarrow> bool" where
  "blank_dialog i s \<longleftrightarrow> au_id (rm_user s) = i \<and> rm_ipCIDRs s = [] \<and> rm_ipCountries s = [] \<and> \<not> rm_denyTor s"

lemma blank_dialog_step:
  "cached '''' = None \<Longrightarrow> blank_dialog i s \<Longrightarrow> menu_can me s e \<and> \<not> types_restrictions e \<Longrightarrow> blank_dialog i (menu_step cached s e)"
  by (cases e) (auto simp: blank_dialog_def ipQuery_def modal_open_def)

lemma possible_run_restrict:
  "possible_run can step s es \<Longrightarrow> \<forall>e\<in>set es. P e \<Longrightarrow> possible_run (\<lambda>s e. can s e \<and> P e) step s es"
  by (induction es arbitrary: s) auto

lemma trim_Nil [simp]: "trim [] = []"
  by (simp add: trim_eval)

text \<open>The dialog of the IP restrictions never shows those in force: whatever the query client holds for
  the user, saving it without typing replaces them by no restriction at all. Nothing is ever loaded for
  the empty user id, which is what the menu looks up while the dialog is closed.\<close>
theorem untouched_ip_dialog_erases:
  assumes "cached '''' = None" and "toUpperCase '''' = ''''"
    and "possible_run (menu_can me) (menu_step cached) (menu_mounted u) es" and "\<forall>e\<in>set es. \<not> types_restrictions e"
  shows "menu_sends me toUpperCase (foldl (menu_step cached) (menu_mounted u) es) (SubmitIP ok) =
    [useUpdateIPRestrictionsMutation (au_id u) (restrictions_json
       \<lparr>allowed_ip_cidrs = [], allowed_country_codes = [], deny_tor_exit = False\<rparr>)]"
proof -
  have "machine (\<lambda>s e. menu_can me s e \<and> \<not> types_restrictions e) (menu_step cached) (blank_dialog (au_id u))"
    by unfold_locales (blast intro: blank_dialog_step [where cached = cached] assms(1))
  from machine.run_keeps [OF this _ possible_run_restrict [OF assms(3,4)]]
  have "blank_dialog (au_id u) (foldl (menu_step cached) (menu_mounted u) es)"
    by (simp add: blank_dialog_def menu_mounted_def)
  then show ?thesis
    using assms(2) by (simp add: blank_dialog_def typed_restrictions_def comma_list_def country_list_def)
qed

theorem untouched_ip_dialog_erases_witness:
  "menu_sends None id (foldl (menu_step [''u1'' \<mapsto> \<lparr>allowed_ip_cidrs = [''10.0.0.0/8''], allowed_country_codes = [],
       deny_tor_exit = True\<rparr>]) (menu_mounted some_admin) [PickIP]) (SubmitIP True) =
    [useUpdateIPRestrictionsMutation (au_id some_admin) (restrictions_json
       \<lparr>allowed_ip_cidrs = [], allowed_country_codes = [], deny_tor_exit = False\<rparr>)]"
  by (rule untouched_ip_dialog_erases) (simp_all add: menu_mounted_def modal_open_def)

subsection \<open>The users that are made\<close>

definition create_form_ok :: "create_user_form \<Rightarrow> bool" where
  "create_form_ok f \<longleftrightarrow> \<not> cu_certRequired f \<and> distinct (cu_roles f) \<and> set (cu_roles f) \<subseteq> set ALL_ROLES"

lemma create_form_reset: "create_form_ok create_user_reset"
  by (simp add: create_form_ok_def create_user_reset_def ALL_ROLES_def)

lemma create_form_step:
  "create_form_ok f \<Longrightarrow> create_user_can is_email f e \<Longrightarrow> create_form_ok (create_user_step lower f e)"
  by (cases e) (auto simp: create_form_ok_def cu_toggleRole_def create_form_reset [unfolded create_form_ok_def]
    split: create_user_outcome.splits)

definition sound_user_request :: "mutation_hook \<Rightarrow> bool" where
  "sound_user_request m \<longleftrightarrow> (\<exists>name email password roles totp.
     m = useCreateUserMutation (JObj [(''username'', JStr name), (''email'', JStr email), (''password'', JStr password),
       (''roles'', JArr (map JStr roles)), (''totp_required'', JBool totp), (''requires_client_cert'', JBool False)])
     \<and> 3 \<le> length name \<and> 12 \<le> js_length password \<and> roles \<noteq> [] \<and> distinct roles \<and> set roles \<subseteq> set ALL_ROLES)"

lemma create_form_sends:
  assumes "create_form_ok f" and "create_user_can is_email f e" and "m \<in> set (create_user_sends f e)"
  shows "sound_user_request m"
proof -
  obtain ok where e: "e = SubmitCreate ok" using assms(3) by (cases e) auto
  then have m: "m = useCreateUserMutation (create_user_json f)" "cu_roles f \<noteq> []"
    using assms(3) by (auto simp: cu_onSubmit_def split: if_splits)
  have "\<not> cu_certRequired f" using assms(1) by (simp add: create_form_ok_def)
  then have "m = useCreateUserMutation (JObj [(''username'', JStr (cu_username f)), (''email'', JStr (cu_email f)),
     (''password'', JStr (cu_password f)), (''roles'', JArr (map JStr (cu_roles f))),
     (''totp_required'', JBool (cu_totpRequired f)), (''requires_client_cert'', JBool False)])"
    using m(1) by (simp add: create_user_json_def)
  with assms(1,2) e m(2) show ?thesis unfolding sound_user_request_def
    by (metis create_form_ok_def create_user_can.simps(2) create_user_valid_def)
qed

interpretation create_dialog: sending_page "create_user_can is_email" "create_user_step lower" create_form_ok
    create_user_sends sound_user_request for is_email lower
  by unfold_locales (auto intro: create_form_step create_form_sends)

text \<open>Whatever is typed and ticked in the dialog, a request to make a user has a name of at least three and
  a password of at least twelve characters, one to three distinct roles, and never asks for a client
  certificate: no control sets it.\<close>
theorem made_users_are_sound:
  assumes "possible_run (create_user_can is_email) (create_user_step lower) create_user_reset es"
    and "m \<in> set (sent_by (create_user_step lower) create_user_sends create_user_reset es)"
  shows "sound_user_request m"
  using create_dialog.run_sends_ok [OF create_form_reset assms] .

definition new_user_typed :: "create_user_event list" where
  "new_user_typed = [TypeUsername ''ali'', TypeEmail ''a@b.c'', TypePassword ''0123456789ab'', TypeConfirm ''0123456789ab'',
     TickRole ''write'', SubmitCreate True]"

theorem made_users_are_sound_witness:
  "sound_user_request (useCreateUserMutation (JObj [(''username'', JStr ''ali''), (''email'', JStr ''a@b.c''),
     (''password'', JStr ''0123456789ab''), (''roles'', JArr [JStr ''read'', JStr ''write'']), (''totp_required'', JBool True),
     (''requires_client_cert'', JBool False)]))"
  by (rule made_users_are_sound [of "\<lambda>_. True" id new_user_typed])
    (simp_all add: new_user_typed_def create_user_reset_def cu_toggleRole_def ALL_ROLES_def create_user_valid_def
      username_char_def is_alnum_def js_length_def units_def cu_onSubmit_def create_user_json_def)

end
