(* ===== verification/Shell.thy ===== *)
theory Shell
  imports AuthFlows AccountHooks Ws DesktopSession DesktopHooks OfflineSync
begin

text \<open>
  The frame around the pages (\<open>components/layout/app-shell.tsx\<close> of both applications): theme and sidebar
  (\<open>store/ui.ts\<close>), title and navigation, the state of the live connection, break-glass alerts,
  notifications, the dialog that changes the master password (\<open>components/change-password-dialog.tsx\<close>),
  signing out and locking; the boundary that catches the errors of a page
  (\<open>components/error-boundary.tsx\<close>) and the tour for new users (\<open>components/onboarding\<close>).
\<close>

subsection \<open>Theme and sidebar\<close>

datatype Theme = LightTheme | DarkTheme | SystemTheme

record ui_store =
  ui_theme :: Theme
  ui_sidebarCollapsed :: bool

definition ui_initial :: ui_store where
  "ui_initial = \<lparr>ui_theme = DarkTheme, ui_sidebarCollapsed = False\<rparr>"

definition cl_ui_initial :: ui_store where
  "cl_ui_initial = \<lparr>ui_theme = SystemTheme, ui_sidebarCollapsed = False\<rparr>"

definition setTheme :: "Theme \<Rightarrow> ui_store \<Rightarrow> ui_store" where
  "setTheme t s = s\<lparr>ui_theme := t\<rparr>"

definition toggleSidebar :: "ui_store \<Rightarrow> ui_store" where
  "toggleSidebar s = s\<lparr>ui_sidebarCollapsed := \<not> ui_sidebarCollapsed s\<rparr>"

definition cycle_theme :: "ui_store \<Rightarrow> ui_store" where
  "cycle_theme s = setTheme (case ui_theme s of LightTheme \<Rightarrow> DarkTheme | DarkTheme \<Rightarrow> SystemTheme | SystemTheme \<Rightarrow> LightTheme) s"

subsection \<open>Title and navigation\<close>

definition NAV_LABELS :: "(string \<times> string) list" where
  "NAV_LABELS = [
     (''/catalog'', ''Catalog''),
     (''/create'', ''Entity Olu'' @ [CHR 0xC5, CHR 0x9F] @ ''tur''),
     (''/inventory'', ''Envanter''),
     (''/tags'', ''Etiketlerim''),
     (''/graph'', [CHR 0xC4, CHR 0xB0] @ ''li'' @ [CHR 0xC5, CHR 0x9F] @ ''ki Haritas'' @ [CHR 0xC4, CHR 0xB1]),
     (''/pipeline'', ''Pipeline Diyagramlar'' @ [CHR 0xC4, CHR 0xB1]),
     (''/pipeline/lifecycle'', ''Lifecycle Lanes''),
     (''/import'', ''Toplu '' @ [CHR 0xC4, CHR 0xB0, CHR 0xC3, CHR 0xA7] @ ''e Aktarma''),
     (''/access-requests'', ''Onay '' @ [CHR 0xC4, CHR 0xB0] @ ''stekleri''),
     (''/admin'', ''Admin Paneli''),
     (''/admin/users'', ''Kullan'' @ [CHR 0xC4, CHR 0xB1] @ ''c'' @ [CHR 0xC4, CHR 0xB1] @ '' Y'' @ [CHR 0xC3, CHR 0xB6] @ ''netimi''),
     (''/admin/groups'', ''Gruplar''),
     (''/admin/roles'', ''Roller''),
     (''/admin/audit-log'', ''Audit Log''),
     (''/admin/client-certs'', ''Sertifikalar''),
     (''/admin/log-forwarding'', ''Log Y'' @ [CHR 0xC3, CHR 0xB6] @ ''nlendirme''),
     (''/admin/sso'', ''SSO / LDAP''),
     (''/admin/scim'', ''SCIM Provisioning''),
     (''/admin/secret-scanning'', ''S'' @ [CHR 0xC4, CHR 0xB1] @ ''z'' @ [CHR 0xC4, CHR 0xB1] @ ''nt'' @ [CHR 0xC4, CHR 0xB1] @ '' Taramas'' @ [CHR 0xC4, CHR 0xB1]),
     (''/admin/k8s-clusters'', ''K8s K'' @ [CHR 0xC3, CHR 0xBC] @ ''meleri''),
     (''/admin/reports'', ''Raporlar''),
     (''/admin/portal-templates'', ''Portal '' @ [CHR 0xC5, CHR 0x9E] @ ''ablonlar'' @ [CHR 0xC4, CHR 0xB1]),
     (''/profile'', ''Profil'')]"

definition label_covers :: "string \<Rightarrow> string \<Rightarrow> bool" where
  "label_covers path k \<longleftrightarrow> path = k \<or> take (length k + 1) path = k @ ''/''"

definition matching_labels :: "string \<Rightarrow> string list" where
  "matching_labels path = filter (label_covers path) (map fst NAV_LABELS)"

definition pageTitle :: "string \<Rightarrow> string" where
  "pageTitle path =
     (case sort_key (\<lambda>k. - int (length k)) (matching_labels path) of
        [] \<Rightarrow> ''IronStock''
      | k # _ \<Rightarrow> nullish (map_of NAV_LABELS k) ''IronStock'')"

datatype nav_entry = NavItem "string \<times> string" | NavGroup string "string list" "(string \<times> string) list"

definition main_navigation :: "nav_entry list" where
  "main_navigation = [
     NavGroup (''Catalog'') [''/catalog'', ''/inventory'', ''/tags'', ''/favorites'']
       [(''/catalog'', ''T'' @ [CHR 0xC3, CHR 0xBC] @ ''m Entityler''),
        (''/inventory'', ''Envanter''),
        (''/tags'', ''Etiketlerim''),
        (''/favorites'', ''Favorilerim'')],
     NavItem (''/import'', ''Toplu Aktarma''),
     NavItem (''/access-requests'', ''Onay '' @ [CHR 0xC4, CHR 0xB0] @ ''stekleri''),
     NavGroup (''Explore'') [''/graph'', ''/pipeline'']
       [(''/graph'', [CHR 0xC4, CHR 0xB0] @ ''li'' @ [CHR 0xC5, CHR 0x9F] @ ''ki Haritas'' @ [CHR 0xC4, CHR 0xB1]),
        (''/pipeline'', ''Pipeline''),
        (''/pipeline/lifecycle'', ''Lifecycle Lanes'')],
     NavItem (''/create'', ''Create''),
     NavGroup (''Ara'' @ [CHR 0xC3, CHR 0xA7] @ ''lar'') [''/access-requests'', ''/import'', ''/tags'']
       [(''/access-requests'', ''Onay '' @ [CHR 0xC4, CHR 0xB0] @ ''stekleri''),
        (''/import'', ''Toplu Aktarma''),
        (''/tags'', ''Etiketlerim'')]]"

definition admin_navigation :: "nav_entry list" where
  "admin_navigation = [
     NavGroup (''Kullan'' @ [CHR 0xC4, CHR 0xB1] @ ''c'' @ [CHR 0xC4, CHR 0xB1] @ '' & Eri'' @ [CHR 0xC5, CHR 0x9F] @ ''im'') [''/admin'']
       [(''/admin'', ''Kullan'' @ [CHR 0xC4, CHR 0xB1] @ ''c'' @ [CHR 0xC4, CHR 0xB1] @ '' Y'' @ [CHR 0xC3, CHR 0xB6] @ ''netimi''),
        (''/admin/groups'', ''Gruplar''),
        (''/admin/roles'', ''Roller''),
        (''/admin/sso'', ''SSO / LDAP''),
        (''/admin/scim'', ''SCIM Provisioning''),
        (''/admin/client-certs'', ''Sertifikalar'')],
     NavGroup (''G'' @ [CHR 0xC3, CHR 0xBC] @ ''venlik & '' @ [CHR 0xC4, CHR 0xB0] @ ''zleme'') []
       [(''/admin/audit-log'', ''Audit Log''),
        (''/admin/log-forwarding'', ''Log Y'' @ [CHR 0xC3, CHR 0xB6] @ ''nlendirme''),
        (''/admin/secret-scanning'', ''S'' @ [CHR 0xC4, CHR 0xB1] @ ''z'' @ [CHR 0xC4, CHR 0xB1] @ ''nt'' @ [CHR 0xC4, CHR 0xB1] @ '' Taramas'' @ [CHR 0xC4, CHR 0xB1]),
        (''/admin/reports'', ''Raporlar'')],
     NavGroup (''Altyap'' @ [CHR 0xC4, CHR 0xB1]) []
       [(''/admin/k8s-clusters'', ''K8s K'' @ [CHR 0xC3, CHR 0xBC] @ ''meleri''),
        (''/admin/portal-templates'', ''Portal '' @ [CHR 0xC5, CHR 0x9E] @ ''ablonlar'' @ [CHR 0xC4, CHR 0xB1])]]"

definition navigation :: "bool \<Rightarrow> nav_entry list" where
  "navigation isAdmin = main_navigation @ (if isAdmin then admin_navigation else [])"

fun entry_paths :: "nav_entry \<Rightarrow> string list" where
  "entry_paths (NavItem (to, _)) = [to]"
| "entry_paths (NavGroup _ _ items) = map fst items"

text \<open>A group is highlighted by the path; it opens when it becomes highlighted, and a click opens or closes it.\<close>

fun group_active :: "string \<Rightarrow> nav_entry \<Rightarrow> bool" where
  "group_active path (NavItem _) = False"
| "group_active path (NavGroup _ prefixes items) =
     (list_ex (\<lambda>(p, _). path = p \<or> take (length p + 1) path = p @ ''/'') items \<or> list_ex (\<lambda>p. path = p) prefixes)"

record nav_group =
  ng_entry :: nav_entry
  ng_path :: string
  ng_open :: bool

datatype nav_event = Navigated string | GroupClicked

fun nav_step :: "nav_group \<Rightarrow> nav_event \<Rightarrow> nav_group" where
  "nav_step g (Navigated path) = g\<lparr>ng_path := path, ng_open := ng_open g
     \<or> (group_active path (ng_entry g) \<and> \<not> group_active (ng_path g) (ng_entry g))\<rparr>"
| "nav_step g GroupClicked = g\<lparr>ng_open := \<not> ng_open g\<rparr>"

definition nav_mounted :: "nav_entry \<Rightarrow> string \<Rightarrow> nav_group" where
  "nav_mounted e path = \<lparr>ng_entry = e, ng_path = path, ng_open = group_active path e\<rparr>"

subsection \<open>Connection, system, notifications\<close>

datatype dot_color = Green | Amber | Red

fun dotColor :: "WsStatus \<Rightarrow> dot_color" where
  "dotColor WsConnected = Green"
| "dotColor WsConnecting = Amber"
| "dotColor WsReconnecting = Amber"
| "dotColor WsOffline = Red"

definition retry_line :: "WsStatusDetail \<Rightarrow> nat option" where
  "retry_line d = (case wd_nextRetryIn d of Some n \<Rightarrow> if 0 < n then Some n else None | None \<Rightarrow> None)"

definition formatUptime :: "nat \<Rightarrow> string" where
  "formatUptime seconds =
     (let d = seconds div 86400; h = seconds mod 86400 div 3600; m = seconds mod 3600 div 60
      in if 0 < d then show_nat d @ ''g '' @ show_nat h @ ''s''
         else if 0 < h then show_nat h @ ''s '' @ show_nat m @ ''dk''
         else show_nat m @ ''dk'')"

record notification =
  nt_id :: string
  nt_read_at :: "string option"

definition unread_badge :: "nat \<Rightarrow> string option" where
  "unread_badge n = (if n = 0 then None else if 9 < n then Some ''9+'' else Some (show_nat n))"

definition notification_click :: "notification \<Rightarrow> mutation_hook list" where
  "notification_click n = (if truthy (nt_read_at n) then [] else [useMarkReadMutation (nt_id n)])"

text \<open>The alerts over the page, newest first; the listener is there while the user is an administrator.\<close>

record 't glass_banner =
  bg_isAdmin :: bool
  bg_alerts :: "(string \<times> 't) list"

datatype 't glass_event = GlassAlert string 't | GlassDismiss nat | AdminIs bool

fun glass_step :: "'t glass_banner \<Rightarrow> 't glass_event \<Rightarrow> 't glass_banner" where
  "glass_step b (GlassAlert u t) = (if bg_isAdmin b then b\<lparr>bg_alerts := (u, t) # take 4 (bg_alerts b)\<rparr> else b)"
| "glass_step b (GlassDismiss i) = b\<lparr>bg_alerts := take i (bg_alerts b) @ drop (Suc i) (bg_alerts b)\<rparr>"
| "glass_step b (AdminIs a) = b\<lparr>bg_isAdmin := a\<rparr>"

definition glass_shown :: "'t glass_banner \<Rightarrow> (string \<times> 't) list" where
  "glass_shown b = (if bg_isAdmin b then map (\<lambda>(u, t). (take 8 u, t)) (bg_alerts b) else [])"

subsection \<open>The master password\<close>

text \<open>The dialog of the frame. The page of the same purpose is in AuthFlows; it removes the key of a
  bootstrap session, the dialog does not.\<close>

definition dialog_change_password ::
    "'r webcrypto \<Rightarrow> 'w net \<Rightarrow> string \<Rightarrow> string \<Rightarrow> string \<Rightarrow> ('w, 'r) web_app \<Rightarrow> change_outcome \<times> ('w, 'r) web_app" where
  "dialog_change_password wc net currentPassword newPassword newPasswordConfirm app =
     (case session_private_key app of
        None \<Rightarrow> (NoPrivateKey, app)
      | Some privateKey \<Rightarrow>
          if js_length newPassword < 12 then (PasswordTooShort, app)
          else if newPassword \<noteq> newPasswordConfirm then (AuthFlows.PasswordsDiffer, app)
          else if currentPassword = newPassword then (SamePassword, app)
          else
            (let (creds, r) = new_credentials wc newPassword privateKey (bf_rng (ap_buf app));
                 app1 = with_rng r app
             in case creds of
                 Inl e \<Rightarrow> (ChangeFailed (CryptoFailed e), app1)
               | Inr (kekSalt, blob) \<Rightarrow>
                   (case run_mutation net (useChangePasswordMutation
                            (change_password_body currentPassword newPassword kekSalt blob)) (ap_env app1) of
                      (Inl e, _, env1) \<Rightarrow> (ChangeFailed (Api e), app1\<lparr>ap_env := env1\<rparr>)
                    | (Inr _, _, env1) \<Rightarrow> (PasswordChanged, clear_session (app1\<lparr>ap_env := env1\<rparr>)))))"

subsection \<open>Signing out\<close>

text \<open>The web application tells the server first and ends the session whatever the answer.\<close>

definition handleLogout :: "'w net \<Rightarrow> ('w, 'r) web_app \<Rightarrow> ('w, 'r) web_app \<times> string" where
  "handleLogout net app =
     (let (_, _, env1) = run_mutation net useLogoutMutation (ap_env app)
      in (clear_session (app\<lparr>ap_env := env1\<rparr>), ''/login''))"

text \<open>The desktop application removes the key from the keyring, which can fail and then nothing follows; it
  ends the session and then tells the server. The effect that follows the user runs before the answer.\<close>

definition handleLock ::
    "(string \<Rightarrow> unit + unit) \<Rightarrow> ('w, 'r) desktop_app \<Rightarrow> string option \<times> ('w, 'r) desktop_app" where
  "handleLock kekDelete app =
     (case ca_user (da_auth app) of
        None \<Rightarrow> (Some ''/login'', cl_clear_session app)
      | Some user \<Rightarrow>
          (case kekDelete (username user) of
             Inl _ \<Rightarrow> (None, app)
           | Inr _ \<Rightarrow> (Some ''/login'', OfflineCacheManager (Some user) (cl_clear_session app))))"

definition cl_handleLogout ::
    "'w shell \<Rightarrow> (string \<Rightarrow> unit + unit) \<Rightarrow> ('w, 'r) desktop_app \<Rightarrow> string option \<times> ('w, 'r) desktop_app" where
  "cl_handleLogout sh kekDelete app =
     (case handleLock kekDelete app of
        (None, app1) \<Rightarrow> (None, app1)
      | (Some page, app1) \<Rightarrow>
          (let (_, _, d) = cl_run_mutation sh cl_useLogoutMutation (da_dk app1)
           in (Some page, app1\<lparr>da_dk := d\<rparr>)))"

definition pending_badge :: "('w, 'r) desktop_app \<Rightarrow> nat option" where
  "pending_badge app =
     (let n = length (st_ops (dk_ops (da_dk app)))
      in if cc_offlineModeEnabled (dk_config (da_dk app)) \<and> 0 < n then Some n else None)"

definition cl_navigation :: "bool \<Rightarrow> nav_entry list" where
  "cl_navigation isAdmin =
     [NavItem (''/inventory'', ''Envanter''), NavItem (''/catalog'', ''Catalog'')]
     @ (if isAdmin then [NavItem (''/admin'', ''Kullan'' @ tr_i @ ''c'' @ tr_i @ '' Y'' @ tr_o @ ''netimi''),
          NavItem (''/admin/audit-log'', ''Audit Log''), NavItem (''/admin/client-certs'', ''Sertifikalar'')] else [])"

subsection \<open>Errors of a page\<close>

record error_boundary =
  eb_error :: "string option"
  eb_resetKey :: string

definition getDerivedStateFromError :: "string \<Rightarrow> error_boundary \<Rightarrow> error_boundary" where
  "getDerivedStateFromError e b = b\<lparr>eb_error := Some e\<rparr>"

text \<open>The boundary around the pages has the path for its key.\<close>

definition componentDidUpdate :: "string \<Rightarrow> error_boundary \<Rightarrow> error_boundary" where
  "componentDidUpdate resetKey b =
     b\<lparr>eb_error := if eb_error b \<noteq> None \<and> eb_resetKey b \<noteq> resetKey then None else eb_error b, eb_resetKey := resetKey\<rparr>"

subsection \<open>The tour for new users\<close>

definition LS_KEY :: string where "LS_KEY = ''ironstock_onboarding_dismissed''"
definition tour_length :: nat where "tour_length = 4"

record tour =
  to_open :: bool
  to_step :: nat
  to_storage :: local_storage

text \<open>A stored text counts when it is not empty.\<close>

definition tour_mounted :: "local_storage \<Rightarrow> tour" where
  "tour_mounted ls = \<lparr>to_open = (case getItem ls LS_KEY of Inl _ \<Rightarrow> False | Inr v \<Rightarrow> \<not> truthy (Option.bind v text_of)),
     to_step = 0, to_storage = ls\<rparr>"

datatype tour_event = TourBack | TourNext | TourDismiss | TourReopen

fun tour_step :: "tour \<Rightarrow> tour_event \<Rightarrow> tour" where
  "tour_step t TourBack = t\<lparr>to_step := to_step t - 1\<rparr>"
| "tour_step t TourNext = t\<lparr>to_step := Suc (to_step t)\<rparr>"
| "tour_step t TourDismiss = t\<lparr>to_open := False, to_storage := try_set (to_storage t) LS_KEY (Text ''1'')\<rparr>"
| "tour_step t TourReopen = (if to_open t then t else t\<lparr>to_open := True, to_step := 0\<rparr>)"

text \<open>Back is disabled on the first step; on the last the button of the next step dismisses.\<close>

fun tour_can :: "tour \<Rightarrow> tour_event \<Rightarrow> bool" where
  "tour_can t TourBack = (to_open t \<and> to_step t \<noteq> 0)"
| "tour_can t TourNext = (to_open t \<and> to_step t \<noteq> tour_length - 1)"
| "tour_can t TourDismiss = to_open t"
| "tour_can t TourReopen = True"

end
