(* ===== verification/ShellFacts.thy ===== *)
theory ShellFacts
  imports Shell
begin

text \<open>
  The frame around the pages: the title of a path, the break-glass alerts, and what signing out and
  changing the password leave behind.
\<close>

subsection \<open>Title and navigation\<close>

text \<open>The title a reader would expect: that of the path, or else of the nearest path above that has one.\<close>

definition parent_path :: "string \<Rightarrow> string" where
  "parent_path p = rev (tl (dropWhile (\<lambda>c. c \<noteq> CHR ''/'') (rev p)))"

lemma parent_shorter: "p \<noteq> [] \<Longrightarrow> length (parent_path p) < length p"
proof -
  assume "p \<noteq> []"
  have "length (dropWhile (\<lambda>c. c \<noteq> CHR ''/'') (rev p)) \<le> length p"
    by (metis length_dropWhile_le length_rev)
  moreover have "0 < length p" using \<open>p \<noteq> []\<close> by simp
  ultimately show ?thesis unfolding parent_path_def length_rev length_tl by linarith
qed

function nearest_title :: "string \<Rightarrow> string" where
  "nearest_title p =
     (case map_of NAV_LABELS p of
        Some l \<Rightarrow> l
      | None \<Rightarrow> if p = [] then ''IronStock'' else nearest_title (parent_path p))"
  by pat_completeness auto
termination
  by (relation "measure length") (simp_all add: parent_shorter)

lemma split_at_last:
  "\<exists>rest. CHR ''/'' \<notin> set rest \<and> (p = rest \<and> parent_path p = [] \<or> p = parent_path p @ ''/'' @ rest)"
proof -
  define t d where "t = takeWhile (\<lambda>c. c \<noteq> CHR ''/'') (rev p)" and "d = dropWhile (\<lambda>c. c \<noteq> CHR ''/'') (rev p)"
  then have "rev p = t @ d" by simp
  then have p: "p = rev d @ rev t" by (metis rev_append rev_rev_ident)
  have n: "CHR ''/'' \<notin> set (rev t)" unfolding t_def using set_takeWhileD [of "CHR ''/''"] by (simp only: set_rev) blast
  have q: "parent_path p = rev (tl d)" by (simp add: parent_path_def d_def)
  have hd: "d \<noteq> [] \<Longrightarrow> hd d = CHR ''/''" using hd_dropWhile [of "\<lambda>c. c \<noteq> CHR ''/''" "rev p"] unfolding d_def by blast
  have "d = [] \<or> d = CHR ''/'' # tl d" using hd by (cases d) simp_all
  then have "p = rev t \<and> parent_path p = [] \<or> p = parent_path p @ ''/'' @ rev t"
  proof
    assume "d = []"
    with p q show ?thesis by simp
  next
    assume d: "d = CHR ''/'' # tl d"
    have "p = rev (CHR ''/'' # tl d) @ rev t" using p d by simp
    with q show ?thesis by simp
  qed
  with n show ?thesis by blast
qed

lemma covers_parent:
  assumes "p \<noteq> k" and "k \<noteq> []"
  shows "label_covers p k \<longleftrightarrow> label_covers (parent_path p) k"
proof -
  obtain rest where r: "CHR ''/'' \<notin> set rest" and "p = rest \<and> parent_path p = [] \<or> p = parent_path p @ ''/'' @ rest"
    using split_at_last by blast
  then consider (none) "p = rest" "parent_path p = []" | (some) "p = parent_path p @ ''/'' @ rest" by blast
  then show ?thesis
  proof cases
    case none
    have "take (length k + 1) p \<noteq> k @ ''/''"
      using none r by (metis in_set_takeD list.set_intros(1) set_append Un_iff)
    with none assms show ?thesis by (simp add: label_covers_def)
  next
    case some
    let ?q = "parent_path p"
    have "take (length k + 1) p = k @ ''/'' \<longleftrightarrow> ?q = k \<or> take (length k + 1) ?q = k @ ''/''"
    proof (cases "length k < length ?q")
      case True
      then have "take (length k + 1) p = take (length k + 1) ?q" by (subst some) simp
      with True show ?thesis by auto
    next
      case False
      then have t: "take (length k + 1) p = ?q @ ''/'' @ take (length k - length ?q) rest"
        by (subst some) (simp add: Suc_diff_le)
      have "?q @ ''/'' @ take (length k - length ?q) rest = k @ ''/'' \<longleftrightarrow> ?q = k"
      proof
        assume e: "?q @ ''/'' @ take (length k - length ?q) rest = k @ ''/''"
        show "?q = k"
        proof (cases "take (length k - length ?q) rest")
          case Nil
          with e show ?thesis by simp
        next
          case (Cons c cs)
          with e have "last (take (length k - length ?q) rest) = CHR ''/''"
            by (metis append_is_Nil_conv last_appendR last_snoc list.distinct(1))
          with Cons r show ?thesis by (metis in_set_takeD last_in_set list.distinct(1))
        qed
      qed auto
      moreover have "take (length k + 1) ?q \<noteq> k @ ''/''" using False by (metis Suc_eq_plus1 length_append_singleton length_take lessI min_less_iff_conj not_less_eq)
      ultimately show ?thesis using t by simp
    qed
    with assms show ?thesis by (auto simp: label_covers_def)
  qed
qed

lemma label_keys: "[] \<notin> set (map fst NAV_LABELS)" "distinct (map fst NAV_LABELS)"
  by (simp_all add: NAV_LABELS_def)

lemma matching_parent:
  assumes "map_of NAV_LABELS p = None"
  shows "matching_labels p = matching_labels (parent_path p)"
proof -
  have "p \<notin> set (map fst NAV_LABELS)" using assms by (simp add: map_of_eq_None_iff)
  with label_keys(1) have "label_covers p k \<longleftrightarrow> label_covers (parent_path p) k" if "k \<in> set (map fst NAV_LABELS)" for k
    using that by (intro covers_parent) metis+
  then show ?thesis unfolding matching_labels_def by (intro filter_cong) auto
qed

lemma sort_key_first:
  assumes "x \<in> set xs" and "\<And>y. y \<in> set xs \<Longrightarrow> y \<noteq> x \<Longrightarrow> f x < f y"
  shows "\<exists>ys. sort_key f xs = x # ys"
proof (cases "sort_key f xs")
  case Nil
  with assms(1) show ?thesis by (metis list.set_cases set_sort list.distinct(1))
next
  case (Cons y ys)
  then have "f y \<le> f x" using assms(1) sorted_sort_key [of f xs]
    by (metis (no_types, lifting) list.set_intros(1) set_ConsD set_sort sorted_simps(2) list.simps(9) order_refl image_eqI list.set_map)
  moreover have "y \<in> set xs" using Cons by (metis list.set_intros(1) set_sort)
  ultimately have "y = x" using assms(2) leD by blast
  with Cons show ?thesis by simp
qed

text \<open>The title over a page is that of its path, or of the nearest path above that has one, and
  otherwise the name of the program.\<close>
theorem page_title_is_nearest: "pageTitle p = nearest_title p"
proof (induction p rule: nearest_title.induct)
  case (1 p)
  show ?case
  proof (cases "map_of NAV_LABELS p")
    case None
    show ?thesis
    proof (cases "p = []")
      case True
      then have "matching_labels p = []"
        using label_keys(1) by (auto simp: matching_labels_def label_covers_def filter_empty_conv)
      with True None show ?thesis by (subst nearest_title.simps) (simp add: pageTitle_def)
    next
      case False
      have "pageTitle p = pageTitle (parent_path p)" by (simp add: pageTitle_def matching_parent [OF None])
      with False None 1 show ?thesis by (subst nearest_title.simps) simp
    qed
  next
    case (Some l)
    then have "p \<in> set (matching_labels p)"
      by (force simp: matching_labels_def label_covers_def dest: map_of_SomeD)
    moreover have "- int (length p) < - int (length y)" if "y \<in> set (matching_labels p)" "y \<noteq> p" for y
    proof -
      have "take (length y + 1) p = y @ ''/''" using that by (simp add: matching_labels_def label_covers_def)
      from arg_cong [OF this, of length] show ?thesis by simp
    qed
    ultimately obtain ys where "sort_key (\<lambda>k. - int (length k)) (matching_labels p) = p # ys"
      using sort_key_first [of p "matching_labels p" "\<lambda>k. - int (length k)"] by blast
    with Some show ?thesis by (subst nearest_title.simps) (simp add: pageTitle_def)
  qed
qed

text \<open>Every page of the administration highlights the group of the users, since its first link is the
  path above them all.\<close>

lemma users_group_on_every_admin_page:
  "list_all (\<lambda>p. group_active p (hd admin_navigation)) (concat (map entry_paths admin_navigation))"
  by (simp add: admin_navigation_def)

lemma untitled_page: "pageTitle ''/favorites'' = ''IronStock''"
  by (simp add: page_title_is_nearest nearest_title.simps [of "''/favorites''"] nearest_title.simps [of "[]"]
    NAV_LABELS_def parent_path_def)

subsection \<open>Break-glass alerts\<close>

fun glass_alerts :: "'t glass_event list \<Rightarrow> (string \<times> 't) list" where
  "glass_alerts (GlassAlert u t # es) = (u, t) # glass_alerts es"
| "glass_alerts (_ # es) = glass_alerts es"
| "glass_alerts [] = []"

text \<open>An administrator who closes nothing sees the last five alerts, the newest first.\<close>

lemma last_five_alerts:
  "bg_isAdmin b \<Longrightarrow> length (bg_alerts b) \<le> 5 \<Longrightarrow> \<forall>e\<in>set es. case e of GlassAlert _ _ \<Rightarrow> True | _ \<Rightarrow> False \<Longrightarrow>
   bg_alerts (foldl glass_step b es) = take 5 (rev (glass_alerts es) @ bg_alerts b)"
proof (induction es arbitrary: b)
  case (Cons e es)
  then obtain u t where e: "e = GlassAlert u t" by (cases e) auto
  with Cons.prems have "bg_alerts (foldl glass_step (glass_step b e) es) = take 5 (rev (glass_alerts es) @ (u, t) # take 4 (bg_alerts b))"
    by (subst Cons.IH) auto
  with e show ?case by (simp add: take_Cons' min_def)
qed simp

subsection \<open>Tour and errors\<close>

interpretation tour_steps: machine tour_can tour_step "\<lambda>t. to_step t < tour_length"
  by unfold_locales (auto simp: tour_length_def elim!: tour_can.elims)

lemma dismissed_tour_stays_away:
  "can_store (to_storage t) \<Longrightarrow> \<not> to_open (tour_mounted (to_storage (tour_step t TourDismiss)))"
  by (simp add: tour_mounted_def can_store_def try_set_def setItem_def getItem_def)

text \<open>An error goes away with the path, not with the rest of the address.\<close>

lemma error_needs_new_path:
  "eb_error b \<noteq> None \<Longrightarrow> eb_error (componentDidUpdate path b) = None \<longleftrightarrow> path \<noteq> eb_resetKey b"
  by (auto simp: componentDidUpdate_def)

text \<open>The web application ends the session whatever the server answers.\<close>

lemma logout_ends_session:
  "\<not> selectIsAuthenticated (ap_auth (fst (handleLogout net app)))" "snd (handleLogout net app) = ''/login''"
  by (simp_all add: handleLogout_def clear_session_def on_tokens_def selectIsAuthenticated_def split: prod.splits)

subsection \<open>Signing out of the desktop application\<close>

lemma cl_clear_tokens:
  "cl_getAccessToken (dk_tokens (da_dk (cl_clear_session app))) = None"
  "tokens_storable (dk_tokens (da_dk app)) \<Longrightarrow> cl_getRefreshToken (dk_tokens (da_dk (cl_clear_session app))) = None"
  by (simp_all add: cl_clear_session_def on_dk_tokens_def cl_tokens.access_clear cl_tokens.refresh_clear)

text \<open>What a lock that came through has done to the part of the state that talks to the server.\<close>

lemma locked_desktop:
  assumes "handleLock kekDelete app = (Some page, app1)"
  shows "dk_tokens (da_dk app1) = dk_tokens (da_dk (cl_clear_session app))" "dk_config (da_dk app1) = dk_config (da_dk app)"
    "dk_sent (da_dk app1) = dk_sent (da_dk app)" "td_isTauri (dk_disk (da_dk app1)) = td_isTauri (dk_disk (da_dk app))"
    "dk_isSyncing (da_dk app1) = dk_isSyncing (da_dk app)"
    "ca_user (da_auth app) \<noteq> None \<Longrightarrow> dk_disk (da_dk app1) = clearPendingOps (dk_disk (da_dk app))"
  using assms by (auto simp: handleLock_def OfflineCacheManager_def cl_clear_session_def on_dk_tokens_def clearPendingOps_def
    cache_write_def split: option.splits sum.splits if_splits)

definition logout_request :: "string \<Rightarrow> string option \<Rightarrow> http_request" where
  "logout_request base token = cl_build_request base token ''/api/v1/auth/logout'' (m_options cl_useLogoutMutation)"

lemma refresh_without_token:
  "cl_getRefreshToken (dk_tokens d) = None \<Longrightarrow> cl_ensureRefresh sh d = (r, d') \<Longrightarrow> r = Inl (ApiErr session_over) \<and> dk_sent d' = dk_sent d"
  by (auto simp: cl_ensureRefresh_def cl_refreshOnce_def cl_emitLogout_def)

text \<open>The desktop application forgets its tokens before it tells the server: its logout is one request
  without a token, and whatever the answer no refresh repeats it with one, so the server cannot know
  whose session to end.\<close>
theorem desktop_logout_is_anonymous:
  assumes "cl_handleLogout sh kekDelete app = (Some page, app')" and "cc_baseUrl (dk_config (da_dk app)) \<noteq> []"
    and "tokens_storable (dk_tokens (da_dk app))"
  shows "dk_sent (da_dk app') = dk_sent (da_dk app)
      @ [(transport_of (da_dk app), logout_request (cc_baseUrl (dk_config (da_dk app))) None)]
    \<and> rq_headers (logout_request (cc_baseUrl (dk_config (da_dk app))) None) = []"
proof -
  obtain page' app1 where l: "handleLock kekDelete app = (Some page', app1)"
    using assms(1) by (auto simp: cl_handleLogout_def split: prod.splits option.splits)
  note k = locked_desktop [OF l]
  let ?d = "da_dk app1" and ?rq = "logout_request (cc_baseUrl (dk_config (da_dk app))) None"
  have t: "cl_getAccessToken (dk_tokens ?d) = None" "cl_getRefreshToken (dk_tokens ?d) = None"
    using cl_clear_tokens [of app] assms(3) by (simp_all add: k)
  obtain r d1 where f: "rawFetch sh ?rq ?d = (r, d1)" by fastforce
  then have d1: "dk_sent d1 = dk_sent ?d @ [(transport_of ?d, ?rq)]" "dk_tokens d1 = dk_tokens ?d"
    by (auto simp: rawFetch_def split: prod.splits)
  obtain q d2 where e: "cl_ensureRefresh sh d1 = (q, d2)" by fastforce
  with refresh_without_token [of d1 sh q d2] t(2) d1(2) have q: "q = Inl (ApiErr session_over)" "dk_sent d2 = dk_sent d1" by simp_all
  have f': "rawFetch sh (cl_build_request (cc_baseUrl (dk_config ?d)) (cl_getAccessToken (dk_tokens ?d)) ''/api/v1/auth/logout''
      (m_options cl_useLogoutMutation)) ?d = (r, d1)"
    using f by (simp add: t(1) k(2) logout_request_def)
  have "cc_baseUrl (dk_config ?d) \<noteq> []" using assms(2) by (simp add: k(2))
  with f' e q have "dk_sent (snd (cl_apiFetch sh ''/api/v1/auth/logout'' (m_options cl_useLogoutMutation) ?d)) = dk_sent d1"
    by (subst cl_apiFetch.simps) (auto simp: Let_def enqueue_offline_def split: prod.splits fetch_result.splits sum.splits)
  moreover have "da_dk app' = snd (cl_apiFetch sh ''/api/v1/auth/logout'' (m_options cl_useLogoutMutation) ?d)"
    using assms(1) l by (auto simp: cl_handleLogout_def cl_run_mutation_def cl_useLogoutMutation_def mutation_def split: prod.splits sum.splits)
  moreover have "transport_of ?d = transport_of (da_dk app)" by (simp add: transport_of_def k)
  moreover have "rq_headers ?rq = []"
    by (simp add: logout_request_def cl_build_request_def request_headers_def cl_useLogoutMutation_def mutation_def no_options_def)
  ultimately show ?thesis by (simp add: d1 k)
qed

lemma cleared_disk: "disk_ok disk \<Longrightarrow> loadPendingOps (clearPendingOps disk) = [] \<and> disk_ok (clearPendingOps disk)"
  by (simp add: clearPendingOps_def disk_ok_def cache_write_def loadPendingOps_def cache_read_def)

text \<open>With the network down in offline mode the logout is queued, after the queue was emptied.\<close>

lemma offline_logout_queued:
  assumes "cl_handleLogout sh kekDelete app = (Some page, app1)" and "ca_user (da_auth app) \<noteq> None"
    and "cc_baseUrl (dk_config (da_dk app)) \<noteq> []" and "cc_offlineModeEnabled (dk_config (da_dk app))"
    and "network_down sh (transport_of (da_dk app))" and "disk_ok (dk_disk (da_dk app))"
  shows "\<exists>op. loadPendingOps (dk_disk (da_dk app1)) = [op] \<and> op_method op = POST
      \<and> op_path op = ''/api/v1/auth/logout'' \<and> op_body op = None"
    "disk_ok (dk_disk (da_dk app1))" "dk_config (da_dk app1) = dk_config (da_dk app)"
    "td_isTauri (dk_disk (da_dk app1)) = td_isTauri (dk_disk (da_dk app))" "dk_isSyncing (da_dk app1) = dk_isSyncing (da_dk app)"
proof -
  obtain page' app0 where l: "handleLock kekDelete app = (Some page', app0)"
    using assms(1) by (auto simp: cl_handleLogout_def split: prod.splits option.splits)
  note k = locked_desktop [OF l]
  let ?d = "da_dk app0" and ?o = "m_options cl_useLogoutMutation" and ?p = "''/api/v1/auth/logout''"
  have disk: "loadPendingOps (dk_disk ?d) = []" "disk_ok (dk_disk ?d)" using cleared_disk assms(2,6) by (auto simp: k(6))
  let ?rq = "cl_build_request (cc_baseUrl (dk_config ?d)) (cl_getAccessToken (dk_tokens ?d)) ?p ?o"
  have tr: "transport_of ?d = transport_of (da_dk app)" by (simp add: transport_of_def k)
  obtain m w where "transmit sh (transport_of ?d) ?rq (dk_world ?d) = (NetworkFailure m, w)"
    using assms(5) tr by (metis network_down_def prod.collapse)
  then have f: "rawFetch sh ?rq ?d = (NetworkFailure m, ?d\<lparr>dk_world := w, dk_sent := dk_sent ?d @ [(transport_of ?d, ?rq)]\<rparr>)"
    by (simp add: rawFetch_def)
  have o: "ro_method ?o = Some POST" "ro_body ?o = None" "\<not> ro_unauthenticated ?o"
    by (simp_all add: cl_useLogoutMutation_def mutation_def no_options_def)
  obtain now1 w1 where n1: "sh_now sh w = (now1, w1)" by fastforce
  obtain rand w2 where n2: "sh_random sh w1 = (rand, w2)" by fastforce
  obtain now2 w3 where n3: "sh_now sh w2 = (now2, w3)" by fastforce
  define op where "op = new_pending_op POST ?p None None now1 rand now2"
  have "snd (cl_apiFetch sh ?p ?o ?d) = ?d\<lparr>dk_world := w3, dk_sent := dk_sent ?d @ [(transport_of ?d, ?rq)],
      dk_disk := savePendingOps [op] (dk_disk ?d), dk_ops := addOp op (dk_ops ?d)\<rparr>"
    using assms(3,4) f o n1 n2 n3 by (subst cl_apiFetch.simps)
      (simp add: k(2) queues_offline_def is_mutation_def enqueue_offline_def pushPendingOp_def disk(1) op_def Let_def)
  moreover have "da_dk app1 = snd (cl_apiFetch sh ?p ?o ?d)"
    using assms(1) l by (auto simp: cl_handleLogout_def cl_run_mutation_def cl_useLogoutMutation_def mutation_def split: prod.splits sum.splits)
  ultimately have d: "da_dk app1 = ?d\<lparr>dk_world := w3, dk_sent := dk_sent ?d @ [(transport_of ?d, ?rq)],
      dk_disk := savePendingOps [op] (dk_disk ?d), dk_ops := addOp op (dk_ops ?d)\<rparr>" by simp
  show "\<exists>op. loadPendingOps (dk_disk (da_dk app1)) = [op] \<and> op_method op = POST \<and> op_path op = ?p \<and> op_body op = None"
    using disk(2) by (auto simp: d op_def new_pending_op_def)
  show "disk_ok (dk_disk (da_dk app1))" "dk_config (da_dk app1) = dk_config (da_dk app)" "dk_isSyncing (da_dk app1) = dk_isSyncing (da_dk app)"
    using disk(2) by (simp_all add: d k)
  show "td_isTauri (dk_disk (da_dk app1)) = td_isTauri (dk_disk (da_dk app))"
    using \<open>disk_ok (dk_disk (da_dk app1))\<close> assms(6) by (simp add: disk_ok_def)
qed

text \<open>Signing out of the desktop application while the network is down, in offline mode, queues the logout
  after the queue was emptied. When the next user has signed in and the queue is replayed, the server is
  asked to end the session of that user.\<close>
theorem offline_logout_ends_next_session:
  assumes "cl_handleLogout sh kekDelete app = (Some page, app1)" and "ca_user (da_auth app) \<noteq> None"
    and "cc_baseUrl (dk_config (da_dk app)) \<noteq> []" and "cc_offlineModeEnabled (dk_config (da_dk app))"
    and "network_down sh (transport_of (da_dk app))" and "disk_ok (dk_disk (da_dk app))" and "\<not> dk_isSyncing (da_dk app)"
    and "accepts_all sh' (transport_of (da_dk app))" and "si_accessToken si \<noteq> []"
  shows "dk_sent (snd (syncPendingOps sh' (da_dk (cl_setSession si kek pk app1)))) = dk_sent (da_dk app1)
      @ [(transport_of (da_dk app), logout_request (cc_baseUrl (dk_config (da_dk app))) (Some (si_accessToken si)))]
    \<and> (''Authorization'', ''Bearer '' @ si_accessToken si)
        \<in> set (rq_headers (logout_request (cc_baseUrl (dk_config (da_dk app))) (Some (si_accessToken si))))"
proof -
  note q = offline_logout_queued [OF assms(1-6)]
  obtain op where op: "loadPendingOps (dk_disk (da_dk app1)) = [op]" "op_method op = POST"
    "op_path op = ''/api/v1/auth/logout''" "op_body op = None" using q(1) by blast
  let ?d = "da_dk (cl_setSession si kek pk app1)"
  have d: "dk_config ?d = dk_config (da_dk app)" "dk_disk ?d = dk_disk (da_dk app1)" "dk_sent ?d = dk_sent (da_dk app1)"
    "\<not> dk_isSyncing ?d" "cl_getAccessToken (dk_tokens ?d) = Some (si_accessToken si)"
    using assms(7) by (simp_all add: cl_setSession_def on_dk_tokens_def q cl_sync_def cl_tokens.access_set_refresh cl_tokens.access_set)
  have tr: "transport_of ?d = transport_of (da_dk app)" by (simp add: transport_of_def d q)
  have rq: "replay_request ?d op = logout_request (cc_baseUrl (dk_config (da_dk app))) (Some (si_accessToken si))"
    by (simp add: replay_request_def replay_options_def logout_request_def d op cl_useLogoutMutation_def mutation_def)
  have "\<exists>d'. syncPendingOps sh' ?d = (no_sync\<lparr>sr_replayed := length (loadPendingOps (dk_disk ?d))\<rparr>, d')
    \<and> loadPendingOps (dk_disk d') = [] \<and> st_ops (dk_ops d') = []
    \<and> dk_sent d' = dk_sent ?d @ map (\<lambda>op. (transport_of ?d, replay_request ?d op)) (loadPendingOps (dk_disk ?d))"
    using assms(3,8) q(2) op(1) by (intro sync_drains) (simp_all add: d tr)
  then have "dk_sent (snd (syncPendingOps sh' ?d)) = dk_sent (da_dk app1) @ [(transport_of (da_dk app), replay_request ?d op)]"
    by (auto simp: d tr op(1))
  moreover have "(''Authorization'', ''Bearer '' @ si_accessToken si) \<in> set (rq_headers (replay_request ?d op))"
    using assms(9) by (simp add: rq logout_request_def cl_build_request_def request_headers_def cl_useLogoutMutation_def mutation_def no_options_def)
  ultimately show ?thesis by (simp add: rq)
qed

subsection \<open>Changing the password\<close>

lemma other_keys_kept:
  assumes "k \<noteq> REFRESH_KEY" and "k \<noteq> SESSION_KEY"
  shows "ls_items (storage (rotate_tokens body ts)) k = ls_items (storage ts) k"
    "do_fetch net rq env = (r, env1) \<Longrightarrow> ls_items (storage (we_tokens env1)) k = ls_items (storage (we_tokens env)) k"
    "ensureRefresh net env = (q, env1) \<Longrightarrow> ls_items (storage (we_tokens env1)) k = ls_items (storage (we_tokens env)) k"
proof -
  show rt: "ls_items (storage (rotate_tokens body ts)) k = ls_items (storage ts) k" for body ts
    using assms by (auto simp: rotate_tokens_def token_defs storage_defs split: option.splits)
  show df: "do_fetch net rq env = (r, env1) \<Longrightarrow> ls_items (storage (we_tokens env1)) k = ls_items (storage (we_tokens env)) k" for rq env r env1
    by (auto simp: do_fetch_def split: prod.splits)
  show "ensureRefresh net env = (q, env1) \<Longrightarrow> ls_items (storage (we_tokens env1)) k = ls_items (storage (we_tokens env)) k"
    by (auto simp: ensureRefresh_def refreshOnce_def emitLogout_def clearAllTokens_other_keys(1) [OF assms] rt dest!: df
      split: option.splits if_splits prod.splits fetch_result.splits sum.splits)
qed

lemma mutation_keeps_other_keys:
  assumes "run_mutation net h env = (r, ks, env')" and "k \<noteq> REFRESH_KEY" and "k \<noteq> SESSION_KEY"
  shows "ls_items (storage (we_tokens env')) k = ls_items (storage (we_tokens env)) k"
proof -
  obtain q where "apiFetch net (m_path h) (m_options h) env = (q, env')"
    using assms(1) by (auto simp: run_mutation_def Let_def split: prod.splits sum.splits)
  then show ?thesis
    by (rule apiFetch_cases) (auto dest!: other_keys_kept(2,3) [OF assms(2,3)])
qed

text \<open>Changing the password on the page removes the private key that a bootstrap session keeps in the storage
  of the browser; changing it in the dialog leaves that key where it is.\<close>
theorem dialog_keeps_bootstrap_key:
  assumes "au_isBootstrap (ap_auth app)" and "au_user (ap_auth app) = Some user"
    and "dialog_change_password wc net cur new conf app = (PasswordChanged, app1)"
    and "change_password wc net False cur new conf app = (PasswordChanged, app2)"
  shows "ls_items (storage (app_tokens app1)) (bootstrap_storage_key user)
      = ls_items (storage (app_tokens app)) (bootstrap_storage_key user)
    \<and> ls_items (storage (app_tokens app2)) (bootstrap_storage_key user) = None"
proof -
  note kept = mutation_keeps_other_keys [where k = "bootstrap_storage_key user", simplified]
  have "ls_items (storage (app_tokens app1)) (bootstrap_storage_key user)
      = ls_items (storage (app_tokens app)) (bootstrap_storage_key user)"
    using assms(3) by (auto simp: dialog_change_password_def Let_def with_rng_def clear_session_def on_tokens_def
      clearAllTokens_other_keys dest!: kept split: option.splits if_splits prod.splits sum.splits)
  moreover have "ls_items (storage (app_tokens app2)) (bootstrap_storage_key user) = None"
    using assms(1,2,4) by (auto simp: change_password_def Let_def with_rng_def clear_session_def on_tokens_def removeItem_def
      clearAllTokens_other_keys split: option.splits if_splits prod.splits sum.splits)
  ultimately show ?thesis by simp
qed

subsection \<open>Concrete runs\<close>

definition shell_desktop :: "(demo_world, nat) desktop_app" where
  "shell_desktop = \<lparr>da_dk = DesktopClient.demo_desktop True [], da_auth = cl_initial_auth\<lparr>ca_user := Some demo_user\<rparr>,
     da_buf = no_buffers 0\<rparr>"

lemma shell_desktop_simps [simp]:
  "da_dk shell_desktop = DesktopClient.demo_desktop True []" "ca_user (da_auth shell_desktop) = Some demo_user"
  by (simp_all add: shell_desktop_def)

lemma shell_desktop_logout:
  "\<exists>app1. cl_handleLogout (fixed_shell r) (\<lambda>u. Inr ()) shell_desktop = (Some ''/login'', app1)"
  by (simp add: cl_handleLogout_def handleLock_def split: prod.splits)

theorem desktop_logout_is_anonymous_witness:
  "\<exists>app1. cl_handleLogout (fixed_shell (Response no_content)) (\<lambda>u. Inr ()) shell_desktop = (Some ''/login'', app1)
     \<and> map (rq_headers \<circ> snd) (dk_sent (da_dk app1)) = [[]]"
proof -
  obtain app1 where a: "cl_handleLogout (fixed_shell (Response no_content)) (\<lambda>u. Inr ()) shell_desktop = (Some ''/login'', app1)"
    using shell_desktop_logout by blast
  have "dk_sent (DesktopClient.demo_desktop True []) = []" by (simp add: DesktopClient.demo_desktop_def)
  with desktop_logout_is_anonymous [OF a] a show ?thesis by simp
qed

definition next_user :: SessionInput where
  "next_user = \<lparr>si_user = demo_user, si_accessToken = ''A9'', si_refreshToken = ''R9'', si_mustChangePassword = None,
     si_mustSetupTOTP = None\<rparr>"

theorem offline_logout_ends_next_session_witness:
  "\<exists>app1. cl_handleLogout (fixed_shell (NetworkFailure ''off'')) (\<lambda>u. Inr ()) shell_desktop = (Some ''/login'', app1)
     \<and> (''Authorization'', ''Bearer A9'') \<in> set (rq_headers (snd (last (dk_sent (snd
         (syncPendingOps (fixed_shell (Response no_content)) (da_dk (cl_setSession next_user 0 1 app1))))))))"
proof -
  obtain app1 where a: "cl_handleLogout (fixed_shell (NetworkFailure ''off'')) (\<lambda>u. Inr ()) shell_desktop = (Some ''/login'', app1)"
    using shell_desktop_logout by blast
  have acc: "accepts_all (fixed_shell (Response no_content)) BrowserFetch"
    by (simp add: accepts_all_def no_content_def rs_ok_def)
  have idle: "\<not> dk_isSyncing (DesktopClient.demo_desktop True [])" by (simp add: DesktopClient.demo_desktop_def)
  from offline_logout_ends_next_session [OF a, of "fixed_shell (Response no_content)" next_user 0 1] a acc idle dead_network
  show ?thesis by (simp add: next_user_def)
qed

definition bootstrap_app :: "(fetch_result list, nat) web_app" where
  "bootstrap_app = flow_app [json_reply JNull]\<lparr>ap_auth := (ap_auth (flow_app []))\<lparr>au_isBootstrap := True\<rparr>\<rparr>"

theorem dialog_keeps_bootstrap_key_witness:
  "\<exists>app1 app2. dialog_change_password toy_crypto scripted ''old'' new_password new_password bootstrap_app = (PasswordChanged, app1)
     \<and> change_password toy_crypto scripted False ''old'' new_password new_password bootstrap_app = (PasswordChanged, app2)
     \<and> ls_items (storage (app_tokens app2)) (bootstrap_storage_key demo_user) = None"
proof -
  obtain salt blob r where c: "new_credentials toy_crypto new_password (replicate 32 7) 1 = (Inr (salt, blob), r)"
    using toy_credentials by blast
  have w: "we_world (ap_env (with_rng r bootstrap_app)) = [json_reply JNull]"
    by (simp add: with_rng_def bootstrap_app_def flow_app_def demo_env_def)
  obtain rq where m: "run_mutation scripted (useChangePasswordMutation (change_password_body ''old'' new_password salt blob))
      (ap_env (with_rng r bootstrap_app)) = (Inr (Some JNull), m_invalidates (useChangePasswordMutation
         (change_password_body ''old'' new_password salt blob)),
         (ap_env (with_rng r bootstrap_app))\<lparr>we_world := [], we_sent := we_sent (ap_env (with_rng r bootstrap_app)) @ [rq]\<rparr>)"
    using scripted_mutation [OF w] by blast
  have b: "session_private_key bootstrap_app = Some (replicate 32 7)" "bf_rng (ap_buf bootstrap_app) = 1"
    "au_mustChangePassword (ap_auth bootstrap_app)" "au_isBootstrap (ap_auth bootstrap_app)"
    "au_user (ap_auth bootstrap_app) = Some demo_user" "ls_can_write (storage (app_tokens bootstrap_app))"
    by (simp_all add: bootstrap_app_def flow_app_def session_private_key_def demo_env_def initial_auth_def demo_tokens_def
      token_defs storage_defs empty_storage_def)
  obtain app1 where a1: "dialog_change_password toy_crypto scripted ''old'' new_password new_password bootstrap_app = (PasswordChanged, app1)"
    using new_password_facts c m b by (simp add: dialog_change_password_def Let_def)
  obtain app2 where a2: "change_password toy_crypto scripted False ''old'' new_password new_password bootstrap_app = (PasswordChanged, app2)"
    using new_password_facts c m b by (simp add: change_password_def Let_def removeItem_def with_rng_def)
  from dialog_keeps_bootstrap_key [OF b(4,5) a1 a2] a1 a2 show ?thesis by blast
qed

end
