(* ===== verification/K8sClusters.thy ===== *)
theory K8sClusters
  imports PageKit AdminHooks TextFacts
begin

text \<open>
  The clusters page of the administration (\<open>pages/admin/k8s-clusters.tsx\<close>): one dialog for making and
  editing a cluster, always mounted, one for deleting, and the test of a connection. A dialog tells of
  being closed; nothing in it can open it, so it never tells of being opened.
\<close>

datatype auth_mode = TokenAuth | KubeconfigAuth

fun auth_mode_text :: "auth_mode \<Rightarrow> string" where
  "auth_mode_text TokenAuth = ''token''"
| "auth_mode_text KubeconfigAuth = ''kubeconfig''"

record K8sCluster =
  kc_id :: string
  kc_name :: string
  kc_server_url :: string
  kc_auth_mode :: auth_mode
  kc_ca_cert_pem :: "string option"
  kc_skip_tls_verify :: bool
  kc_enabled :: bool

record cluster_form =
  cf_name :: string
  cf_server_url :: string
  cf_auth_mode :: auth_mode
  cf_token :: string
  cf_kubeconfig_yaml :: string
  cf_ca_cert_pem :: string
  cf_skip_tls_verify :: bool
  cf_enabled :: bool

definition cluster_defaultForm :: cluster_form where
  "cluster_defaultForm = \<lparr>cf_name = [], cf_server_url = [], cf_auth_mode = TokenAuth, cf_token = [], cf_kubeconfig_yaml = [],
     cf_ca_cert_pem = [], cf_skip_tls_verify = False, cf_enabled = True\<rparr>"

definition form_of_cluster :: "K8sCluster \<Rightarrow> cluster_form" where
  "form_of_cluster c = \<lparr>cf_name = kc_name c, cf_server_url = kc_server_url c, cf_auth_mode = kc_auth_mode c, cf_token = [],
     cf_kubeconfig_yaml = [], cf_ca_cert_pem = nullish (kc_ca_cert_pem c) [],
     cf_skip_tls_verify = kc_skip_tls_verify c, cf_enabled = kc_enabled c\<rparr>"

record clusters_page =
  kp_formOpen :: bool
  kp_editTarget :: "K8sCluster option"
  kp_form :: cluster_form
  kp_showToken :: bool
  kp_saving :: nat
  kp_deleteTarget :: "K8sCluster option"
  kp_testingId :: "string option"

definition clusters_mounted :: clusters_page where
  "clusters_mounted = \<lparr>kp_formOpen = False, kp_editTarget = None, kp_form = cluster_defaultForm, kp_showToken = False, kp_saving = 0, kp_deleteTarget = None,
     kp_testingId = None\<rparr>"

datatype cluster_input = InName string | InServerUrl string | InAuthMode auth_mode | InToken string | InKubeconfig string
  | InCaCert string | InSkipTls bool | InEnabled bool

fun set_input :: "cluster_form \<Rightarrow> cluster_input \<Rightarrow> cluster_form" where
  "set_input f (InName s) = f\<lparr>cf_name := s\<rparr>"
| "set_input f (InServerUrl s) = f\<lparr>cf_server_url := s\<rparr>"
| "set_input f (InAuthMode m) = f\<lparr>cf_auth_mode := m\<rparr>"
| "set_input f (InToken s) = f\<lparr>cf_token := s\<rparr>"
| "set_input f (InKubeconfig s) = f\<lparr>cf_kubeconfig_yaml := s\<rparr>"
| "set_input f (InCaCert s) = f\<lparr>cf_ca_cert_pem := s\<rparr>"
| "set_input f (InSkipTls b) = f\<lparr>cf_skip_tls_verify := b\<rparr>"
| "set_input f (InEnabled b) = f\<lparr>cf_enabled := b\<rparr>"

text \<open>The secret fields are shown for their mode only.\<close>

fun input_shown :: "cluster_form \<Rightarrow> cluster_input \<Rightarrow> bool" where
  "input_shown f (InToken s) = (cf_auth_mode f = TokenAuth)"
| "input_shown f (InKubeconfig s) = (cf_auth_mode f = KubeconfigAuth)"
| "input_shown f _ = True"

datatype cluster_refusal = NeedName | NeedServerUrl | NeedToken | NeedKubeconfig

definition cluster_check :: "bool \<Rightarrow> cluster_form \<Rightarrow> cluster_refusal option" where
  "cluster_check isEdit f =
     (if trim (cf_name f) = [] then Some NeedName
      else if trim (cf_server_url f) = [] then Some NeedServerUrl
      else if cf_auth_mode f = TokenAuth \<and> \<not> isEdit \<and> trim (cf_token f) = [] then Some NeedToken
      else if cf_auth_mode f = KubeconfigAuth \<and> \<not> isEdit \<and> trim (cf_kubeconfig_yaml f) = [] then Some NeedKubeconfig
      else None)"

definition cluster_payload :: "cluster_form \<Rightarrow> json" where
  "cluster_payload f = JObj ([(''name'', JStr (trim (cf_name f))), (''server_url'', JStr (trim (cf_server_url f))),
       (''auth_mode'', JStr (auth_mode_text (cf_auth_mode f)))]
     @ opt_str ''ca_cert_pem'' (or_undefined (trim (cf_ca_cert_pem f)))
     @ [(''skip_tls_verify'', JBool (cf_skip_tls_verify f)), (''enabled'', JBool (cf_enabled f))]
     @ opt_str ''token'' (or_undefined (trim (cf_token f)))
     @ opt_str ''kubeconfig_yaml'' (or_undefined (trim (cf_kubeconfig_yaml f))))"

definition cluster_handleSubmit :: "clusters_page \<Rightarrow> cluster_refusal + mutation_hook" where
  "cluster_handleSubmit p =
     (case cluster_check (kp_editTarget p \<noteq> None) (kp_form p) of
        Some r \<Rightarrow> Inl r
      | None \<Rightarrow> Inr (case kp_editTarget p of
          Some c \<Rightarrow> useUpdateK8sClusterMutation (kc_id c) (cluster_payload (kp_form p))
        | None \<Rightarrow> useCreateK8sClusterMutation (cluster_payload (kp_form p))))"

definition closeForm :: "clusters_page \<Rightarrow> clusters_page" where
  "closeForm p = p\<lparr>kp_formOpen := False, kp_editTarget := None\<rparr>"

definition handleOpenChange :: "bool \<Rightarrow> clusters_page \<Rightarrow> clusters_page" where
  "handleOpenChange opened p =
     (if opened then p\<lparr>kp_form := (case kp_editTarget p of Some c \<Rightarrow> form_of_cluster c | None \<Rightarrow> cluster_defaultForm)\<rparr>
      else closeForm p)"

datatype cluster_event = EditCluster K8sCluster | NewCluster | DialogTells bool | InputCluster cluster_input
  | FlipToken | SubmitCluster | ClusterSaved bool
  | CancelCluster | AskDeleteCluster K8sCluster | KeepCluster | DeleteCluster | ClusterDeleted bool
  | TestCluster K8sCluster | TestSettled

fun clusters_step :: "clusters_page \<Rightarrow> cluster_event \<Rightarrow> clusters_page" where
  "clusters_step p (EditCluster c) = p\<lparr>kp_editTarget := Some c, kp_formOpen := True\<rparr>"
| "clusters_step p NewCluster = p\<lparr>kp_editTarget := None, kp_formOpen := True\<rparr>"
| "clusters_step p (DialogTells b) = handleOpenChange b p"
| "clusters_step p (InputCluster i) = p\<lparr>kp_form := set_input (kp_form p) i\<rparr>"
| "clusters_step p FlipToken = p\<lparr>kp_showToken := \<not> kp_showToken p\<rparr>"
| "clusters_step p SubmitCluster = (case cluster_handleSubmit p of Inl _ \<Rightarrow> p | Inr _ \<Rightarrow> p\<lparr>kp_saving := kp_saving p + 1\<rparr>)"
| "clusters_step p (ClusterSaved ok) = (let p' = p\<lparr>kp_saving := kp_saving p - 1\<rparr> in if ok then closeForm p' else p')"
| "clusters_step p CancelCluster = closeForm p"
| "clusters_step p (AskDeleteCluster c) = p\<lparr>kp_deleteTarget := Some c\<rparr>"
| "clusters_step p KeepCluster = p\<lparr>kp_deleteTarget := None\<rparr>"
| "clusters_step p DeleteCluster = p"
| "clusters_step p (ClusterDeleted ok) = (if ok then p\<lparr>kp_deleteTarget := None\<rparr> else p)"
| "clusters_step p (TestCluster c) = p\<lparr>kp_testingId := Some (kc_id c)\<rparr>"
| "clusters_step p TestSettled = p\<lparr>kp_testingId := None\<rparr>"

fun clusters_sends :: "clusters_page \<Rightarrow> cluster_event \<Rightarrow> mutation_hook list" where
  "clusters_sends p SubmitCluster = (case cluster_handleSubmit p of Inr m \<Rightarrow> [m] | Inl _ \<Rightarrow> [])"
| "clusters_sends p DeleteCluster = (case kp_deleteTarget p of Some c \<Rightarrow> [useDeleteK8sClusterMutation (kc_id c)] | None \<Rightarrow> [])"
| "clusters_sends p (TestCluster c) = [useTestK8sClusterMutation (kc_id c)]"
| "clusters_sends p _ = []"

fun clusters_can :: "K8sCluster list \<Rightarrow> clusters_page \<Rightarrow> cluster_event \<Rightarrow> bool" where
  "clusters_can cs p (DialogTells b) = (kp_formOpen p \<and> \<not> b)"
| "clusters_can cs p (InputCluster i) = (kp_formOpen p \<and> input_shown (kp_form p) i)"
| "clusters_can cs p FlipToken = (kp_formOpen p \<and> cf_auth_mode (kp_form p) = TokenAuth)"
| "clusters_can cs p SubmitCluster = (kp_formOpen p \<and> kp_saving p = 0)"
| "clusters_can cs p (ClusterSaved ok) = (0 < kp_saving p)"
| "clusters_can cs p CancelCluster = (kp_formOpen p \<and> kp_saving p = 0)"
| "clusters_can cs p KeepCluster = (kp_deleteTarget p \<noteq> None)"
| "clusters_can cs p DeleteCluster = (kp_deleteTarget p \<noteq> None)"
| "clusters_can cs p (ClusterDeleted ok) = True"
| "clusters_can cs p TestSettled = (kp_testingId p \<noteq> None)"
| "clusters_can cs p NewCluster = (\<not> kp_formOpen p \<and> kp_deleteTarget p = None)"
| "clusters_can cs p (TestCluster c) = (\<not> kp_formOpen p \<and> kp_deleteTarget p = None \<and> c \<in> set cs \<and> kp_testingId p \<noteq> Some (kc_id c))"
| "clusters_can cs p (EditCluster c) = (\<not> kp_formOpen p \<and> kp_deleteTarget p = None \<and> c \<in> set cs)"
| "clusters_can cs p (AskDeleteCluster c) = (\<not> kp_formOpen p \<and> kp_deleteTarget p = None \<and> c \<in> set cs)"

subsection \<open>Properties\<close>

fun typed_inputs :: "cluster_event list \<Rightarrow> cluster_input list" where
  "typed_inputs [] = []"
| "typed_inputs (InputCluster i # es) = i # typed_inputs es"
| "typed_inputs (_ # es) = typed_inputs es"

lemma form_is_typed:
  "possible_run (clusters_can cs) clusters_step p es \<Longrightarrow>
   kp_form (foldl clusters_step p es) = foldl set_input (kp_form p) (typed_inputs es)"
proof (induction es arbitrary: p)
  case (Cons e es)
  then have "kp_form (foldl clusters_step (clusters_step p e) es) = foldl set_input (kp_form (clusters_step p e)) (typed_inputs es)"
    by simp
  moreover have "foldl set_input (kp_form (clusters_step p e)) (typed_inputs es) = foldl set_input (kp_form p) (typed_inputs (e # es))"
    using Cons.prems by (cases e) (auto simp: handleOpenChange_def closeForm_def Let_def split: sum.splits)
  ultimately show ?case by simp
qed simp

text \<open>The form of the clusters is never filled from a cluster nor emptied: whichever clusters were opened,
  saved or left in between, saving a cluster sends what was typed since the page was opened, and so also a
  token that was typed for another one.\<close>
theorem clusters_get_all_that_was_typed:
  assumes "possible_run (clusters_can cs) clusters_step clusters_mounted (es @ [EditCluster c] @ map InputCluster is)"
    and "cluster_check True (foldl set_input cluster_defaultForm (typed_inputs es @ is)) = None"
  shows "clusters_sends (foldl clusters_step clusters_mounted (es @ [EditCluster c] @ map InputCluster is)) SubmitCluster
    = [useUpdateK8sClusterMutation (kc_id c) (cluster_payload (foldl set_input cluster_defaultForm (typed_inputs es @ is)))]"
proof -
  have ty: "typed_inputs (map InputCluster is) = is" for "is" by (induction "is") simp_all
  have ap: "typed_inputs (as @ bs) = typed_inputs as @ typed_inputs bs" for as bs
    by (induction as rule: typed_inputs.induct) simp_all
  let ?p = "foldl clusters_step clusters_mounted (es @ [EditCluster c] @ map InputCluster is)"
  have "kp_form ?p = foldl set_input cluster_defaultForm (typed_inputs es @ is)"
    using form_is_typed [OF assms(1)] by (simp only: ap ty typed_inputs.simps) (simp add: clusters_mounted_def)
  moreover have "kp_editTarget (foldl clusters_step q (map InputCluster is)) = kp_editTarget q" for q "is"
    by (induction "is" arbitrary: q) simp_all
  then have "kp_editTarget ?p = Some c" by simp
  ultimately show ?thesis using assms(2) by (simp add: cluster_handleSubmit_def)
qed

definition demo_cluster :: "string \<Rightarrow> K8sCluster" where
  "demo_cluster i = \<lparr>kc_id = i, kc_name = ''name-'' @ i, kc_server_url = ''https://'' @ i, kc_auth_mode = TokenAuth,
     kc_ca_cert_pem = None, kc_skip_tls_verify = False, kc_enabled = True\<rparr>"

definition first_cluster_saved :: "cluster_event list" where
  "first_cluster_saved = [EditCluster (demo_cluster ''a''), InputCluster (InName ''a''), InputCluster (InServerUrl ''https://a''),
     InputCluster (InToken ''secret''), SubmitCluster, ClusterSaved True]"

theorem clusters_get_all_that_was_typed_witness:
  "clusters_sends (foldl clusters_step clusters_mounted (first_cluster_saved @ [EditCluster (demo_cluster ''b'')])) SubmitCluster
    = [useUpdateK8sClusterMutation ''b'' (JObj [(''name'', JStr ''a''), (''server_url'', JStr ''https://a''), (''auth_mode'', JStr ''token''),
        (''skip_tls_verify'', JBool False), (''enabled'', JBool True), (''token'', JStr ''secret'')])]"
proof -
  have f: "foldl set_input cluster_defaultForm (typed_inputs first_cluster_saved @ []) =
      cluster_defaultForm\<lparr>cf_name := ''a'', cf_server_url := ''https://a'', cf_token := ''secret''\<rparr>"
    by (simp add: first_cluster_saved_def)
  have t: "trim ''a'' = ''a''" "trim ''https://a'' = ''https://a''" "trim ''secret'' = ''secret''" "trim [] = []"
    by (simp_all add: trim_eval)
  have c: "cluster_check b (cluster_defaultForm\<lparr>cf_name := ''a'', cf_server_url := ''https://a'', cf_token := ''secret''\<rparr>) = None" for b
    by (simp add: cluster_check_def cluster_defaultForm_def t)
  have "possible_run (clusters_can [demo_cluster ''a'', demo_cluster ''b'']) clusters_step clusters_mounted
      (first_cluster_saved @ [EditCluster (demo_cluster ''b'')] @ map InputCluster [])"
    using c [of True] by (simp add: first_cluster_saved_def clusters_mounted_def cluster_defaultForm_def closeForm_def cluster_handleSubmit_def)
  from clusters_get_all_that_was_typed [OF this] show ?thesis
    using c [of True] unfolding f by (simp add: cluster_payload_def cluster_defaultForm_def t opt_str_def demo_cluster_def)
qed

end
