(* ===== verification/ApiTokens.thy ===== *)
theory ApiTokens
  imports PageKit AccountHooks TextFacts
begin

text \<open>
  The two pages of the administration that make tokens for other programs: provisioning
  (\<open>pages/admin/scim.tsx\<close>) and the search for leaked secrets (\<open>pages/admin/secret-scanning.tsx\<close>).
  Requests are events of their own, sent by one step and answered by a later one, since the dialogs can be
  left and the Enter key pressed again in between. The messages shown for an outcome are left out.
\<close>

datatype token_scope = ReadScope | AnsibleScope | ScimScope | ScanScope

fun token_scope_text :: "token_scope \<Rightarrow> string" where
  "token_scope_text ReadScope = ''read''"
| "token_scope_text AnsibleScope = ''ansible''"
| "token_scope_text ScimScope = ''scim''"
| "token_scope_text ScanScope = ''scan''"

record APIToken =
  at_id :: string
  at_name :: string
  at_scope :: token_scope
  at_expires_at :: "string option"
  at_last_used_at :: "string option"
  at_created_at :: string
  at_token :: "string option"

definition create_token_request :: "string \<Rightarrow> token_scope \<Rightarrow> json" where
  "create_token_request n scope = JObj [(''name'', JStr n), (''scope'', JStr (token_scope_text scope))]"

definition tokens_listed :: "token_scope \<Rightarrow> APIToken list query_data \<Rightarrow> APIToken list" where
  "tokens_listed scope q = filter (\<lambda>t. at_scope t = scope) (data_or [] q)"

text \<open>What both pages keep. \<open>tp_waiting\<close> and \<open>tp_deleting\<close> count the requests that are not answered yet.\<close>

record tokens_page =
  tp_open :: bool
  tp_name :: string
  tp_value :: "string option"
  tp_show :: bool
  tp_copied :: "string option"
  tp_delete :: "APIToken option"
  tp_waiting :: nat
  tp_deleting :: nat

datatype token_event = OpenCreate | LeaveDialog | PressCancel | PressDone | TypeTokenName string | PressCreate
  | CreateAnswered "js_error + APIToken" | ToggleShow | CopyField string | CopyTimer
  | AskDeleteToken APIToken | KeepToken | PressDeleteToken | TokenDeleted bool

definition shows_token :: "'a tokens_page_scheme \<Rightarrow> bool" where
  "shows_token p = (tp_open p \<and> tp_value p \<noteq> None \<and> tp_value p \<noteq> Some [])"

text \<open>The steps the pages have in common. A blank name is not sent; the Enter key does not ask whether a
  request is still running.\<close>

fun tokens_common :: "'a tokens_page_scheme \<Rightarrow> token_event \<Rightarrow> 'a tokens_page_scheme" where
  "tokens_common p OpenCreate = p\<lparr>tp_open := True\<rparr>"
| "tokens_common p (TypeTokenName s) = p\<lparr>tp_name := s\<rparr>"
| "tokens_common p PressCreate = (if trim (tp_name p) = [] then p else p\<lparr>tp_waiting := tp_waiting p + 1\<rparr>)"
| "tokens_common p ToggleShow = p\<lparr>tp_show := \<not> tp_show p\<rparr>"
| "tokens_common p (CopyField f) = p\<lparr>tp_copied := Some f\<rparr>"
| "tokens_common p CopyTimer = p\<lparr>tp_copied := None\<rparr>"
| "tokens_common p (AskDeleteToken t) = p\<lparr>tp_delete := Some t\<rparr>"
| "tokens_common p KeepToken = p\<lparr>tp_delete := None\<rparr>"
| "tokens_common p PressDeleteToken = (if tp_delete p = None then p else p\<lparr>tp_deleting := tp_deleting p + 1\<rparr>)"
| "tokens_common p (TokenDeleted ok) = p\<lparr>tp_deleting := tp_deleting p - 1, tp_delete := (if ok then None else tp_delete p)\<rparr>"
| "tokens_common p _ = p"

fun tokens_sends :: "token_scope \<Rightarrow> 'a tokens_page_scheme \<Rightarrow> token_event \<Rightarrow> mutation_hook list" where
  "tokens_sends scope p PressCreate =
     (if trim (tp_name p) = [] then [] else [useCreateAPITokenMutation (create_token_request (trim (tp_name p)) scope)])"
| "tokens_sends scope p PressDeleteToken = (case tp_delete p of Some t \<Rightarrow> [useDeleteAPITokenMutation (at_id t)] | None \<Rightarrow> [])"
| "tokens_sends scope p _ = []"

text \<open>What the user, the timers and the answers can do.\<close>

fun tokens_can :: "APIToken list \<Rightarrow> 'a tokens_page_scheme \<Rightarrow> token_event \<Rightarrow> bool" where
  "tokens_can ts p OpenCreate = (\<not> tp_open p \<and> tp_delete p = None)"
| "tokens_can ts p LeaveDialog = tp_open p"
| "tokens_can ts p PressCancel = (tp_open p \<and> \<not> shows_token p)"
| "tokens_can ts p (TypeTokenName s) = (tp_open p \<and> \<not> shows_token p)"
| "tokens_can ts p PressCreate = (tp_open p \<and> \<not> shows_token p)"
| "tokens_can ts p (CreateAnswered r) = (0 < tp_waiting p)"
| "tokens_can ts p ToggleShow = shows_token p"
| "tokens_can ts p PressDone = shows_token p"
| "tokens_can ts p (CopyField f) = (f \<noteq> ''newtoken'' \<or> shows_token p)"
| "tokens_can ts p CopyTimer = True"
| "tokens_can ts p (AskDeleteToken t) = (\<not> tp_open p \<and> tp_delete p = None \<and> t \<in> set ts)"
| "tokens_can ts p KeepToken = (tp_delete p \<noteq> None)"
| "tokens_can ts p PressDeleteToken = (tp_delete p \<noteq> None)"
| "tokens_can ts p (TokenDeleted ok) = (0 < tp_deleting p)"

subsection \<open>Provisioning\<close>

definition scim_mounted :: tokens_page where
  "scim_mounted = \<lparr>tp_open = False, tp_name = [], tp_value = None, tp_show = False, tp_copied = None, tp_delete = None,
     tp_waiting = 0, tp_deleting = 0\<rparr>"

definition handleCreateClose :: "tokens_page \<Rightarrow> tokens_page" where
  "handleCreateClose p = p\<lparr>tp_open := False, tp_name := [], tp_value := None, tp_show := False\<rparr>"

definition scim_created :: "APIToken \<Rightarrow> tokens_page \<Rightarrow> tokens_page" where
  "scim_created t p =
     (if at_token t \<noteq> None \<and> at_token t \<noteq> Some [] then p\<lparr>tp_value := at_token t, tp_show := False\<rparr>
      else p\<lparr>tp_open := False, tp_name := []\<rparr>)"

fun scim_step :: "tokens_page \<Rightarrow> token_event \<Rightarrow> tokens_page" where
  "scim_step p (CreateAnswered r) =
     (case r of Inl _ \<Rightarrow> p\<lparr>tp_waiting := tp_waiting p - 1\<rparr> | Inr t \<Rightarrow> scim_created t (p\<lparr>tp_waiting := tp_waiting p - 1\<rparr>))"
| "scim_step p LeaveDialog = handleCreateClose p"
| "scim_step p PressCancel = handleCreateClose p"
| "scim_step p PressDone = handleCreateClose p"
| "scim_step p e = tokens_common p e"

subsection \<open>The search for leaked secrets\<close>

record ScanDetection =
  sd_id :: string
  sd_fingerprint_id :: string
  sd_source_type :: string
  sd_source_ref :: "string option"
  sd_detected_at :: string
  sd_item_id :: string
  sd_item_name :: string

definition scan_key :: "json list" where "scan_key = [JStr ''scan-detections'']"

definition useScanDetectionsQuery :: query_hook where
  "useScanDetectionsQuery = (get_query scan_key ''/api/v1/security/scan-detections?limit=100'' True ClientDefault)\<lparr>q_poll := Some 30000\<rparr>"

definition useAcknowledgeDetectionMutation :: "string \<Rightarrow> mutation_hook" where
  "useAcknowledgeDetectionMutation i = mutation POST (''/api/v1/security/scan-detections/'' @ i @ ''/acknowledge'') None [scan_key]"

record scan_page = tokens_page +
  sp_ack :: "ScanDetection option"
  sp_acking :: nat

definition scan_mounted :: scan_page where
  "scan_mounted = tokens_page.extend scim_mounted (scan_page.fields None 0)"

datatype scan_event = OnTokens token_event | AskAck ScanDetection | KeepDetection | PressAck | AckAnswered bool

fun scan_tokens_step :: "scan_page \<Rightarrow> token_event \<Rightarrow> scan_page" where
  "scan_tokens_step p (CreateAnswered r) =
     (case r of Inl _ \<Rightarrow> p\<lparr>tp_waiting := tp_waiting p - 1\<rparr>
      | Inr t \<Rightarrow> p\<lparr>tp_waiting := tp_waiting p - 1, tp_value := at_token t, tp_name := []\<rparr>)"
| "scan_tokens_step p LeaveDialog = p\<lparr>tp_open := False, tp_value := None, tp_show := False\<rparr>"
| "scan_tokens_step p PressCancel = p\<lparr>tp_open := False\<rparr>"
| "scan_tokens_step p PressDone = p\<lparr>tp_open := False, tp_value := None\<rparr>"
| "scan_tokens_step p e = tokens_common p e"

fun scan_step :: "scan_page \<Rightarrow> scan_event \<Rightarrow> scan_page" where
  "scan_step p (OnTokens e) = scan_tokens_step p e"
| "scan_step p (AskAck d) = p\<lparr>sp_ack := Some d\<rparr>"
| "scan_step p KeepDetection = p\<lparr>sp_ack := None\<rparr>"
| "scan_step p PressAck = (if sp_ack p = None then p else p\<lparr>sp_acking := sp_acking p + 1\<rparr>)"
| "scan_step p (AckAnswered ok) = p\<lparr>sp_acking := sp_acking p - 1, sp_ack := (if ok then None else sp_ack p)\<rparr>"

fun scan_sends :: "scan_page \<Rightarrow> scan_event \<Rightarrow> mutation_hook list" where
  "scan_sends p (OnTokens e) = tokens_sends ScanScope p e"
| "scan_sends p PressAck = (case sp_ack p of Some d \<Rightarrow> [useAcknowledgeDetectionMutation (sd_id d)] | None \<Rightarrow> [])"
| "scan_sends p _ = []"

fun scan_can :: "APIToken list \<Rightarrow> ScanDetection list \<Rightarrow> scan_page \<Rightarrow> scan_event \<Rightarrow> bool" where
  "scan_can ts ds p (OnTokens e) = ((sp_ack p = None \<or> (case e of OpenCreate \<Rightarrow> False | AskDeleteToken _ \<Rightarrow> False | _ \<Rightarrow> True)) \<and> tokens_can ts p e)"
| "scan_can ts ds p (AskAck d) = (\<not> tp_open p \<and> tp_delete p = None \<and> sp_ack p = None \<and> d \<in> set ds)"
| "scan_can ts ds p KeepDetection = (sp_ack p \<noteq> None)"
| "scan_can ts ds p PressAck = (sp_ack p \<noteq> None)"
| "scan_can ts ds p (AckAnswered ok) = (0 < sp_acking p)"

subsection \<open>Properties\<close>

text \<open>The token stands on the screen in the clear.\<close>

definition in_clear :: "'a tokens_page_scheme \<Rightarrow> bool" where
  "in_clear p = (shows_token p \<and> tp_show p)"

lemma scim_stays_masked:
  "\<not> tp_show p \<Longrightarrow> ToggleShow \<notin> set es \<Longrightarrow> \<not> tp_show (foldl scim_step p es)"
proof (induction es arbitrary: p)
  case (Cons e es)
  then have "\<not> tp_show (scim_step p e)"
    by (cases e) (auto simp: handleCreateClose_def scim_created_def split: sum.splits)
  with Cons show ?case by simp
qed simp

text \<open>Toggles since the dialog was last left by its own means.\<close>

definition count_toggle :: "nat \<Rightarrow> scan_event \<Rightarrow> nat" where
  "count_toggle n e = (if e = OnTokens LeaveDialog then 0 else if e = OnTokens ToggleShow then n + 1 else n)"

lemma scan_show_step: "tp_show p = odd n \<Longrightarrow> tp_show (scan_step p e) = odd (count_toggle n e)"
proof (cases e)
  case (OnTokens te)
  moreover assume "tp_show p = odd n"
  ultimately show ?thesis by (cases te) (auto simp: count_toggle_def split: sum.splits)
qed (auto simp: count_toggle_def)

lemma scan_show: "tp_show p = odd n \<Longrightarrow> tp_show (foldl scan_step p es) = odd (foldl count_toggle n es)"
  by (induction es arbitrary: p n) (simp_all add: scan_show_step)

lemma scan_mounted_simps [simp]:
  "tp_show scan_mounted = False" "tp_open scan_mounted = False" "tp_name scan_mounted = []" "tp_value scan_mounted = None"
  "tp_delete scan_mounted = None" "tp_waiting scan_mounted = 0" "sp_ack scan_mounted = None"
  by (simp_all add: scan_mounted_def scim_mounted_def tokens_page.defs scan_page.defs)

text \<open>A token made for provisioning is never in the clear before the user asks for it: whatever happened
  before it arrived and after, as long as the eye is not pressed again it is masked.\<close>
theorem scim_token_masked_until_asked:
  assumes "ToggleShow \<notin> set es'" and "at_token t = Some tok" and "tok \<noteq> []"
  shows "\<not> in_clear (foldl scim_step scim_mounted (es @ CreateAnswered (Inr t) # es'))"
  using scim_stays_masked [of "scim_step (foldl scim_step scim_mounted es) (CreateAnswered (Inr t))" es'] assms
  by (simp add: scim_created_def in_clear_def)

definition demo_token :: "string \<Rightarrow> APIToken" where
  "demo_token s = \<lparr>at_id = s, at_name = ''ci'', at_scope = ScanScope, at_expires_at = None, at_last_used_at = None,
     at_created_at = ''2026-01-01'', at_token = Some s\<rparr>"

theorem scim_token_masked_until_asked_witness:
  "\<not> in_clear (foldl scim_step scim_mounted ([OpenCreate, TypeTokenName ''a'', PressCreate, CreateAnswered (Inr (demo_token ''k1'')), ToggleShow]
     @ CreateAnswered (Inr (demo_token ''k2'')) # []))"
  by (rule scim_token_masked_until_asked [where tok = "''k2''"]) (simp_all add: demo_token_def)

text \<open>On the page of the leaked secrets the button that closes the dialog leaves the eye as it is: a new
  token appears in the clear exactly when the eye was pressed an odd number of times since the dialog was
  last left by Escape or its cross.\<close>
theorem scan_token_in_clear_iff:
  assumes "tp_open (foldl scan_step scan_mounted es)" and "at_token t = Some tok" and "tok \<noteq> []"
  shows "in_clear (foldl scan_step scan_mounted (es @ [OnTokens (CreateAnswered (Inr t))])) = odd (foldl count_toggle 0 es)"
  using scan_show [of scan_mounted 0 es] assms by (simp add: in_clear_def shows_token_def)

definition first_scan_token :: "scan_event list" where
  "first_scan_token = map OnTokens [OpenCreate, TypeTokenName ''a'', PressCreate, CreateAnswered (Inr (demo_token ''k1'')), ToggleShow, PressDone,
     OpenCreate, TypeTokenName ''b'', PressCreate]"

theorem scan_token_in_clear_iff_witness:
  "possible_run (scan_can [] []) scan_step scan_mounted (first_scan_token @ [OnTokens (CreateAnswered (Inr (demo_token ''k2'')))])
   \<and> in_clear (foldl scan_step scan_mounted (first_scan_token @ [OnTokens (CreateAnswered (Inr (demo_token ''k2'')))]))"
proof
  have "tp_open (foldl scan_step scan_mounted first_scan_token)"
    by (simp add: first_scan_token_def trim_eval)
  from scan_token_in_clear_iff [OF this, of "demo_token ''k2''" "''k2''"]
  show "in_clear (foldl scan_step scan_mounted (first_scan_token @ [OnTokens (CreateAnswered (Inr (demo_token ''k2'')))]))"
    by (simp add: demo_token_def) (simp add: first_scan_token_def count_toggle_def)
qed (simp add: first_scan_token_def demo_token_def trim_eval shows_token_def)

text \<open>The Enter key pressed again before the first answer makes another token under the same name.\<close>

lemma presses_send:
  assumes "trim (tp_name p) \<noteq> []"
  shows "sent_by scim_step (tokens_sends ScimScope) p (replicate n PressCreate)
      = replicate n (useCreateAPITokenMutation (create_token_request (trim (tp_name p)) ScimScope))
    \<and> foldl scim_step p (replicate n PressCreate) = p\<lparr>tp_waiting := tp_waiting p + n\<rparr>"
  using assms by (induction n arbitrary: p) simp_all

lemma answers_keep_last:
  assumes "\<forall>t\<in>set ts. at_token t \<noteq> None \<and> at_token t \<noteq> Some []" and "ts \<noteq> []"
  shows "tp_value (foldl scim_step p (map (CreateAnswered \<circ> Inr) ts)) = at_token (last ts)"
  using assms by (induction ts arbitrary: p rule: rev_induct) (simp_all add: scim_created_def)

text \<open>As many tokens are made as Enter is pressed before the first answer, and only the last of them is
  ever shown: the others exist with nobody knowing them.\<close>
theorem hurried_enter_makes_unseen_tokens:
  assumes "trim (tp_name p) \<noteq> []" and "length ts = n" and "0 < n"
    and "\<forall>t\<in>set ts. at_token t \<noteq> None \<and> at_token t \<noteq> Some []"
  shows "sent_by scim_step (tokens_sends ScimScope) p (replicate n PressCreate @ map (CreateAnswered \<circ> Inr) ts)
      = replicate n (useCreateAPITokenMutation (create_token_request (trim (tp_name p)) ScimScope))
    \<and> tp_value (foldl scim_step p (replicate n PressCreate @ map (CreateAnswered \<circ> Inr) ts)) = at_token (last ts)"
proof -
  have "sent_by scim_step (tokens_sends ScimScope) q (map (CreateAnswered \<circ> Inr) ts) = []" for q ts
    by (induction ts arbitrary: q) simp_all
  moreover have "ts \<noteq> []" using assms(2,3) by auto
  ultimately show ?thesis
    using presses_send [OF assms(1), of n] answers_keep_last [OF assms(4)] by (simp add: sent_by_append)
qed

theorem hurried_enter_makes_unseen_tokens_witness:
  "tp_value (foldl scim_step (scim_mounted\<lparr>tp_open := True, tp_name := ''a''\<rparr>)
     (replicate 2 PressCreate @ map (CreateAnswered \<circ> Inr) [demo_token ''k1'', demo_token ''k2''])) = Some ''k2''"
  using hurried_enter_makes_unseen_tokens [of "scim_mounted\<lparr>tp_open := True, tp_name := ''a''\<rparr>" "[demo_token ''k1'', demo_token ''k2'']" 2]
  by (simp add: trim_eval demo_token_def scim_mounted_def)

end
