(* ===== verification/PortalTemplates.thy ===== *)
theory PortalTemplates
  imports PageKit CatalogHooks JsValues "HOL-Library.AList"
begin

text \<open>
  The templates of the portal (\<open>pages/admin/portal-templates.tsx\<close>): annotations and stages are edited as text,
  one \<open>key=value\<close> a line and a list with commas, and parsed again when the form is sent.
\<close>

record PortalTemplate =
  pt_id :: string
  pt_name :: string
  pt_description :: "string option"
  pt_kind_key :: string
  pt_default_annotations :: "(string \<times> string) list option"
  pt_default_lifecycle_stages :: "string list option"
  pt_is_builtin :: bool
  pt_is_active :: bool

definition KINDS :: "string list" where
  "KINDS = [''Server'', ''Service'', ''Database'', ''SSHKey'', ''Certificate'', ''CloudCredential'', ''Note'', ''Credential'']"

record TemplateFormData =
  tf_name :: string
  tf_description :: string
  tf_kind_key :: string
  tf_default_annotations :: string
  tf_default_lifecycle_stages :: string
  tf_is_active :: bool

definition template_emptyForm :: TemplateFormData where
  "template_emptyForm = \<lparr>tf_name = [], tf_description = [], tf_kind_key = ''Server'', tf_default_annotations = [],
     tf_default_lifecycle_stages = [], tf_is_active = True\<rparr>"

abbreviation newline :: char where "newline \<equiv> CHR 0x0A"

definition annotation_lines :: "(string \<times> string) list \<Rightarrow> string" where
  "annotation_lines kvs = join [newline] (map (\<lambda>(k, v). k @ ''='' @ v) kvs)"

definition formFromTemplate :: "PortalTemplate \<Rightarrow> TemplateFormData" where
  "formFromTemplate t = \<lparr>tf_name = pt_name t, tf_description = nullish (pt_description t) [], tf_kind_key = pt_kind_key t,
     tf_default_annotations = (case pt_default_annotations t of Some kvs \<Rightarrow> annotation_lines kvs | None \<Rightarrow> []),
     tf_default_lifecycle_stages = (case pt_default_lifecycle_stages t of Some ss \<Rightarrow> join '', '' ss | None \<Rightarrow> []),
     tf_is_active = pt_is_active t\<rparr>"

text \<open>\<open>line.indexOf('=')\<close> with the two slices around it; no part when there is none or it is the first.\<close>

definition split_at_equals :: "string \<Rightarrow> (string \<times> string) option" where
  "split_at_equals line =
     (let k = takeWhile (\<lambda>c. c \<noteq> CHR ''='') line
      in if k = [] \<or> k = line then None else Some (k, drop (length k + 1) line))"

text \<open>\<open>result[key] = value\<close> on a plain object: assigning a text to \<open>__proto__\<close> does nothing.\<close>

definition put_property :: "string \<Rightarrow> 'v \<Rightarrow> (string \<times> 'v) list \<Rightarrow> (string \<times> 'v) list" where
  "put_property k v obj = (if k = ''__proto__'' then obj else AList.update k v obj)"

definition parse_annotation :: "(string \<times> string) list \<Rightarrow> string \<Rightarrow> (string \<times> string) list" where
  "parse_annotation obj line =
     (case split_at_equals line of None \<Rightarrow> obj | Some (k, v) \<Rightarrow> put_property (trim k) (trim v) obj)"

definition parseAnnotations :: "string \<Rightarrow> (string \<times> string) list option" where
  "parseAnnotations raw =
     (if trim raw = [] then None
      else let obj = foldl parse_annotation [] (split_on newline raw) in if obj = [] then None else Some obj)"

definition parseStages :: "string \<Rightarrow> string list option" where
  "parseStages raw = (if trim raw = [] then None else Some (comma_list raw))"

definition template_body :: "TemplateFormData \<Rightarrow> json" where
  "template_body f = JObj ([(''name'', JStr (tf_name f))] @ opt_str ''description'' (or_undefined (tf_description f))
     @ [(''kind_key'', JStr (tf_kind_key f)),
        (''default_annotations'', case parseAnnotations (tf_default_annotations f) of
           None \<Rightarrow> JNull | Some kvs \<Rightarrow> JObj (map (\<lambda>(k, v). (k, JStr v)) kvs)),
        (''default_lifecycle_stages'', case parseStages (tf_default_lifecycle_stages f) of
           None \<Rightarrow> JNull | Some ss \<Rightarrow> JArr (map JStr ss))])"

record templates_page =
  tm_dialogOpen :: bool
  tm_editId :: "string option"
  tm_form :: TemplateFormData
  tm_running :: nat

definition templates_mounted :: templates_page where
  "templates_mounted = \<lparr>tm_dialogOpen = False, tm_editId = None, tm_form = template_emptyForm, tm_running = 0\<rparr>"

datatype template_input = TypeName string | TypeDescription string | ChooseKind string | TypeAnnotations string
  | TypeStages string | FlipActive

datatype template_event = OpenCreateTemplate | OpenEditTemplate PortalTemplate | FillTemplate template_input
  | CloseTemplate | SubmitTemplate | TemplateSaved bool | PressDeleteTemplate PortalTemplate

fun fill_template :: "TemplateFormData \<Rightarrow> template_input \<Rightarrow> TemplateFormData" where
  "fill_template f (TypeName s) = f\<lparr>tf_name := s\<rparr>"
| "fill_template f (TypeDescription s) = f\<lparr>tf_description := s\<rparr>"
| "fill_template f (ChooseKind k) = f\<lparr>tf_kind_key := k\<rparr>"
| "fill_template f (TypeAnnotations s) = f\<lparr>tf_default_annotations := s\<rparr>"
| "fill_template f (TypeStages s) = f\<lparr>tf_default_lifecycle_stages := s\<rparr>"
| "fill_template f FlipActive = f\<lparr>tf_is_active := \<not> tf_is_active f\<rparr>"

fun templates_step :: "templates_page \<Rightarrow> template_event \<Rightarrow> templates_page" where
  "templates_step p OpenCreateTemplate = p\<lparr>tm_editId := None, tm_form := template_emptyForm, tm_dialogOpen := True\<rparr>"
| "templates_step p (OpenEditTemplate t) = p\<lparr>tm_editId := Some (pt_id t), tm_form := formFromTemplate t, tm_dialogOpen := True\<rparr>"
| "templates_step p (FillTemplate i) = p\<lparr>tm_form := fill_template (tm_form p) i\<rparr>"
| "templates_step p CloseTemplate = p\<lparr>tm_dialogOpen := False\<rparr>"
| "templates_step p SubmitTemplate = p\<lparr>tm_running := tm_running p + 1\<rparr>"
| "templates_step p (TemplateSaved ok) =
     (let p' = p\<lparr>tm_running := tm_running p - 1\<rparr> in if ok then p'\<lparr>tm_dialogOpen := False\<rparr> else p')"
| "templates_step p (PressDeleteTemplate t) = p"

definition template_submit :: "templates_page \<Rightarrow> mutation_hook" where
  "template_submit p =
     (if truthy (tm_editId p) then useUpdatePortalTemplateMutation (the (tm_editId p)) (template_body (tm_form p))
      else useCreatePortalTemplateMutation (template_body (tm_form p)))"

fun templates_sends :: "templates_page \<Rightarrow> template_event \<Rightarrow> mutation_hook list" where
  "templates_sends p SubmitTemplate = [template_submit p]"
| "templates_sends p (PressDeleteTemplate t) = [useDeletePortalTemplateMutation (pt_id t)]"
| "templates_sends p _ = []"

fun templates_can :: "PortalTemplate list \<Rightarrow> templates_page \<Rightarrow> template_event \<Rightarrow> bool" where
  "templates_can ts p OpenCreateTemplate = (\<not> tm_dialogOpen p)"
| "templates_can ts p (OpenEditTemplate t) = (\<not> tm_dialogOpen p \<and> t \<in> set ts)"
| "templates_can ts p (FillTemplate i) = (tm_dialogOpen p
     \<and> (case i of ChooseKind k \<Rightarrow> k \<in> set KINDS | FlipActive \<Rightarrow> truthy (tm_editId p) | _ \<Rightarrow> True))"
| "templates_can ts p CloseTemplate = tm_dialogOpen p"
| "templates_can ts p SubmitTemplate = (tm_dialogOpen p \<and> trim (tf_name (tm_form p)) \<noteq> [] \<and> tm_running p = 0)"
| "templates_can ts p (TemplateSaved ok) = (0 < tm_running p)"
| "templates_can ts p (PressDeleteTemplate t) = (\<not> tm_dialogOpen p \<and> t \<in> set ts \<and> \<not> pt_is_builtin t)"

subsection \<open>Properties\<close>

text \<open>An annotation that one line can carry, and a stage that a list with commas can.\<close>

definition line_annotation :: "string \<times> string \<Rightarrow> bool" where
  "line_annotation kv = (case kv of (k, v) \<Rightarrow> k \<noteq> [] \<and> CHR ''='' \<notin> set k \<and> newline \<notin> set k \<and> newline \<notin> set v
     \<and> trim k = k \<and> trim v = v \<and> k \<noteq> ''__proto__'')"

definition list_stage :: "string \<Rightarrow> bool" where
  "list_stage s = (CHR '','' \<notin> set s \<and> trim s = s \<and> s \<noteq> [])"

lemma split_at_first_equals: "k \<noteq> [] \<Longrightarrow> CHR ''='' \<notin> set k \<Longrightarrow> split_at_equals (k @ CHR ''='' # v) = Some (k, v)"
proof -
  assume k: "k \<noteq> []" "CHR ''='' \<notin> set k"
  then have "takeWhile (\<lambda>c. c \<noteq> CHR ''='') k = k" by (auto simp: takeWhile_eq_all_conv)
  with k show ?thesis by (auto simp: split_at_equals_def takeWhile_tail)
qed

lemma update_new: "k \<notin> fst ` set kvs \<Longrightarrow> AList.update k v kvs = kvs @ [(k, v)]"
  by (induction kvs) auto

lemma parse_lines:
  "\<forall>kv\<in>set kvs. line_annotation kv \<Longrightarrow> distinct (map fst (acc @ kvs)) \<Longrightarrow>
   foldl parse_annotation acc (map (\<lambda>(k, v). k @ ''='' @ v) kvs) = acc @ kvs"
proof (induction kvs arbitrary: acc)
  case (Cons kv kvs)
  obtain k v where kv: "kv = (k, v)" by (cases kv)
  with Cons.prems have "parse_annotation acc (k @ ''='' @ v) = acc @ [(k, v)]"
    by (auto simp: parse_annotation_def split_at_first_equals line_annotation_def put_property_def update_new)
  moreover have "foldl parse_annotation (acc @ [(k, v)]) (map (\<lambda>(k, v). k @ ''='' @ v) kvs) = (acc @ [(k, v)]) @ kvs"
    using Cons.IH [of "acc @ [(k, v)]"] Cons.prems kv by auto
  ultimately show ?case by (simp add: kv)
qed simp

lemma annotations_come_back:
  assumes "kvs \<noteq> []" "\<forall>kv\<in>set kvs. line_annotation kv" "distinct (map fst kvs)"
  shows "parseAnnotations (annotation_lines kvs) = Some kvs"
proof -
  let ?ls = "map (\<lambda>(k, v). k @ ''='' @ v) kvs"
  have "\<forall>l\<in>set ?ls. newline \<notin> set l" using assms(2) by (fastforce simp: line_annotation_def)
  then have s: "split_on newline (annotation_lines kvs) = ?ls"
    unfolding annotation_lines_def using assms(1) by (intro split_join) simp_all
  have "CHR ''='' \<in> set (annotation_lines kvs)"
    using assms(1) by (cases kvs rule: list.exhaust; cases "tl kvs") (auto simp: annotation_lines_def split: prod.splits)
  then have "trim (annotation_lines kvs) \<noteq> []" using trim_not_blank by blast
  then show ?thesis using s parse_lines [of kvs "[]"] assms by (simp add: parseAnnotations_def)
qed

lemma stages_come_back:
  assumes "ss \<noteq> []" "\<forall>s\<in>set ss. list_stage s"
  shows "parseStages (join '', '' ss) = Some ss"
proof -
  have "trim (join '', '' ss) \<noteq> []"
  proof (cases ss rule: remdups_adj.cases)
    case (3 x y zs)
    then show ?thesis using trim_not_blank [of "CHR '',''" "join '', '' ss"] by simp
  qed (use assms in \<open>simp_all add: list_stage_def\<close>)
  then show ?thesis using comma_list_join [of ss] assms(2) by (simp add: parseStages_def list_stage_def)
qed

text \<open>A template whose annotations and stages the two text fields can hold.\<close>

definition editable_template :: "PortalTemplate \<Rightarrow> bool" where
  "editable_template t =
     ((case pt_default_annotations t of None \<Rightarrow> True
        | Some kvs \<Rightarrow> kvs \<noteq> [] \<and> (\<forall>kv\<in>set kvs. line_annotation kv) \<and> distinct (map fst kvs))
      \<and> (case pt_default_lifecycle_stages t of None \<Rightarrow> True | Some ss \<Rightarrow> ss \<noteq> [] \<and> (\<forall>s\<in>set ss. list_stage s))
      \<and> truthy (Some (pt_id t)))"

lemma flips_keep_the_rest:
  "foldl templates_step p (replicate n (FillTemplate FlipActive)) =
     p\<lparr>tm_form := (tm_form p)\<lparr>tf_is_active := (tf_is_active (tm_form p) = even n)\<rparr>\<rparr>"
proof (induction n arbitrary: p)
  case (Suc n)
  have "foldl templates_step p (replicate (Suc n) (FillTemplate FlipActive)) =
      foldl templates_step (p\<lparr>tm_form := (tm_form p)\<lparr>tf_is_active := \<not> tf_is_active (tm_form p)\<rparr>\<rparr>)
        (replicate n (FillTemplate FlipActive))"
    by simp
  also have "\<dots> = p\<lparr>tm_form := (tm_form p)\<lparr>tf_is_active := (tf_is_active (tm_form p) = even (Suc n))\<rparr>\<rparr>"
    unfolding Suc by (cases "tf_is_active (tm_form p)"; cases "even n") simp_all
  finally show ?case .
qed simp

text \<open>A template that is opened and saved again keeps its name, its kind, its annotations in their order and
  its stages, however often the switch \<open>active\<close> is pressed in between: the request never says whether it is.\<close>
theorem template_edit_keeps_values:
  assumes "editable_template t"
  shows "templates_sends (foldl templates_step p (OpenEditTemplate t # replicate n (FillTemplate FlipActive))) SubmitTemplate
    = [useUpdatePortalTemplateMutation (pt_id t) (JObj ([(''name'', JStr (pt_name t))] @ opt_str ''description'' (or_undef (pt_description t))
        @ [(''kind_key'', JStr (pt_kind_key t)),
           (''default_annotations'', case pt_default_annotations t of None \<Rightarrow> JNull | Some kvs \<Rightarrow> JObj (map (\<lambda>(k, v). (k, JStr v)) kvs)),
           (''default_lifecycle_stages'', case pt_default_lifecycle_stages t of None \<Rightarrow> JNull | Some ss \<Rightarrow> JArr (map JStr ss))]))]"
proof -
  have blank: "parseAnnotations [] = None" "parseStages [] = None" by (simp_all add: parseAnnotations_def parseStages_def trim_eval)
  have "parseAnnotations (tf_default_annotations (formFromTemplate t)) = pt_default_annotations t"
    using assms by (cases "pt_default_annotations t") (simp_all add: editable_template_def formFromTemplate_def blank annotations_come_back)
  moreover have "parseStages (tf_default_lifecycle_stages (formFromTemplate t)) = pt_default_lifecycle_stages t"
    using assms by (cases "pt_default_lifecycle_stages t") (simp_all add: editable_template_def formFromTemplate_def blank stages_come_back)
  moreover have "or_undefined (tf_description (formFromTemplate t)) = or_undef (pt_description t)"
    by (cases "pt_description t") (simp_all add: formFromTemplate_def or_undefined_def or_undef_def)
  moreover have "pt_id t \<noteq> []" using assms by (simp add: editable_template_def)
  ultimately show ?thesis
    by (simp add: flips_keep_the_rest template_submit_def template_body_def) (simp add: formFromTemplate_def)
qed

definition demo_template :: PortalTemplate where
  "demo_template = \<lparr>pt_id = ''t1'', pt_name = ''Server'', pt_description = None, pt_kind_key = ''Server'',
     pt_default_annotations = Some [(''a/b'', ''https://x?y=1''), (''c'', [])], pt_default_lifecycle_stages = Some [''dev'', ''prod''],
     pt_is_builtin = False, pt_is_active = True\<rparr>"

theorem template_edit_keeps_values_witness:
  "templates_sends (foldl templates_step templates_mounted (OpenEditTemplate demo_template # replicate 1 (FillTemplate FlipActive))) SubmitTemplate
    = [useUpdatePortalTemplateMutation ''t1'' (JObj [(''name'', JStr ''Server''), (''kind_key'', JStr ''Server''),
        (''default_annotations'', JObj [(''a/b'', JStr ''https://x?y=1''), (''c'', JStr [])]),
        (''default_lifecycle_stages'', JArr [JStr ''dev'', JStr ''prod''])])]"
proof -
  have "editable_template demo_template"
    by (simp add: editable_template_def demo_template_def line_annotation_def list_stage_def trim_eval)
  from template_edit_keeps_values [OF this, of templates_mounted 1] show ?thesis
    by (simp add: demo_template_def opt_str_def or_undef_def)
qed

end
