(* ===== verification/SsoProviders.thy ===== *)
theory SsoProviders
  imports PageKit AdminHooks JsValues
begin

text \<open>
  The providers of single sign-on (\<open>pages/admin/sso.tsx\<close>): one form for both kinds of provider, sent whole,
  the test of a connection, and the list of scopes, which is parsed and printed again at every key.
\<close>

datatype provider_type = OIDC | LDAP

fun provider_type_text :: "provider_type \<Rightarrow> string" where
  "provider_type_text OIDC = ''oidc''"
| "provider_type_text LDAP = ''ldap''"

record CreateSSOProviderRequest =
  sp_name :: string
  sp_provider_type :: provider_type
  sp_enabled :: bool
  sp_auto_provision :: bool
  sp_default_role :: string
  sp_discovery_url :: string
  sp_client_id :: string
  sp_client_secret :: string
  sp_scopes :: "string list"
  sp_ldap_url :: string
  sp_ldap_bind_dn :: string
  sp_ldap_bind_password :: string
  sp_ldap_user_search_base :: string
  sp_ldap_user_filter :: string
  sp_ldap_attr_username :: string
  sp_ldap_attr_email :: string
  sp_ldap_attr_display_name :: string
  sp_ldap_use_starttls :: bool
  sp_ldap_skip_tls_verify :: bool

definition default_scopes :: "string list" where "default_scopes = [''openid'', ''email'', ''profile'']"

definition sso_defaultForm :: CreateSSOProviderRequest where
  "sso_defaultForm = \<lparr>sp_name = [], sp_provider_type = LDAP, sp_enabled = True, sp_auto_provision = True,
     sp_default_role = ''read'', sp_discovery_url = [], sp_client_id = [], sp_client_secret = [], sp_scopes = default_scopes,
     sp_ldap_url = [], sp_ldap_bind_dn = [], sp_ldap_bind_password = [], sp_ldap_user_search_base = [],
     sp_ldap_user_filter = ''(uid={username})'', sp_ldap_attr_username = ''uid'', sp_ldap_attr_email = ''mail'',
     sp_ldap_attr_display_name = ''cn'', sp_ldap_use_starttls = False, sp_ldap_skip_tls_verify = False\<rparr>"

record SSOProvider =
  so_id :: string
  so_name :: string
  so_provider_type :: provider_type
  so_enabled :: bool
  so_discovery_url :: "string option"
  so_client_id :: "string option"
  so_scopes :: "string list option"
  so_ldap_url :: "string option"
  so_ldap_bind_dn :: "string option"
  so_ldap_user_search_base :: "string option"
  so_ldap_user_filter :: "string option"
  so_ldap_attr_username :: "string option"
  so_ldap_attr_email :: "string option"
  so_ldap_attr_display_name :: "string option"
  so_ldap_use_starttls :: bool
  so_ldap_skip_tls_verify :: bool
  so_auto_provision :: bool
  so_default_role :: string

text \<open>The secrets are never filled in.\<close>

definition form_of_provider :: "SSOProvider \<Rightarrow> CreateSSOProviderRequest" where
  "form_of_provider x = \<lparr>sp_name = so_name x, sp_provider_type = so_provider_type x, sp_enabled = so_enabled x,
     sp_auto_provision = so_auto_provision x, sp_default_role = so_default_role x,
     sp_discovery_url = nullish (so_discovery_url x) [], sp_client_id = nullish (so_client_id x) [], sp_client_secret = [],
     sp_scopes = nullish (so_scopes x) default_scopes, sp_ldap_url = nullish (so_ldap_url x) [],
     sp_ldap_bind_dn = nullish (so_ldap_bind_dn x) [], sp_ldap_bind_password = [],
     sp_ldap_user_search_base = nullish (so_ldap_user_search_base x) [],
     sp_ldap_user_filter = nullish (so_ldap_user_filter x) ''(uid={username})'',
     sp_ldap_attr_username = nullish (so_ldap_attr_username x) ''uid'', sp_ldap_attr_email = nullish (so_ldap_attr_email x) ''mail'',
     sp_ldap_attr_display_name = nullish (so_ldap_attr_display_name x) ''cn'',
     sp_ldap_use_starttls = so_ldap_use_starttls x, sp_ldap_skip_tls_verify = so_ldap_skip_tls_verify x\<rparr>"

definition provider_json :: "CreateSSOProviderRequest \<Rightarrow> json" where
  "provider_json f = JObj [(''name'', JStr (sp_name f)), (''provider_type'', JStr (provider_type_text (sp_provider_type f))),
     (''enabled'', JBool (sp_enabled f)), (''auto_provision'', JBool (sp_auto_provision f)), (''default_role'', JStr (sp_default_role f)),
     (''discovery_url'', JStr (sp_discovery_url f)), (''client_id'', JStr (sp_client_id f)), (''client_secret'', JStr (sp_client_secret f)),
     (''scopes'', JArr (map JStr (sp_scopes f))), (''ldap_url'', JStr (sp_ldap_url f)), (''ldap_bind_dn'', JStr (sp_ldap_bind_dn f)),
     (''ldap_bind_password'', JStr (sp_ldap_bind_password f)), (''ldap_user_search_base'', JStr (sp_ldap_user_search_base f)),
     (''ldap_user_filter'', JStr (sp_ldap_user_filter f)), (''ldap_attr_username'', JStr (sp_ldap_attr_username f)),
     (''ldap_attr_email'', JStr (sp_ldap_attr_email f)), (''ldap_attr_display_name'', JStr (sp_ldap_attr_display_name f)),
     (''ldap_use_starttls'', JBool (sp_ldap_use_starttls f)), (''ldap_skip_tls_verify'', JBool (sp_ldap_skip_tls_verify f))]"

text \<open>What the scopes field shows, and what it makes of a text.\<close>

definition scopes_text :: "string list \<Rightarrow> string" where
  "scopes_text ss = join '' '' ss"

definition scopes_of :: "string \<Rightarrow> string list" where
  "scopes_of s = filter (\<lambda>x. x \<noteq> []) (split_on CHR '' '' s)"

datatype sso_input = SsoName string | SsoType provider_type | SsoEnabled bool | SsoAuto bool | SsoRole string
  | SsoDiscovery string | SsoClientId string | SsoClientSecret string | SsoScopes string
  | SsoLdapUrl string | SsoBindDn string | SsoBindPassword string | SsoSearchBase string | SsoUserFilter string
  | SsoStartTls bool | SsoSkipTls bool | SsoAttrUsername string | SsoAttrEmail string | SsoAttrDisplay string

fun sso_set :: "CreateSSOProviderRequest \<Rightarrow> sso_input \<Rightarrow> CreateSSOProviderRequest" where
  "sso_set f (SsoName s) = f\<lparr>sp_name := s\<rparr>"
| "sso_set f (SsoType t) = f\<lparr>sp_provider_type := t\<rparr>"
| "sso_set f (SsoEnabled b) = f\<lparr>sp_enabled := b\<rparr>"
| "sso_set f (SsoAuto b) = f\<lparr>sp_auto_provision := b\<rparr>"
| "sso_set f (SsoRole s) = f\<lparr>sp_default_role := s\<rparr>"
| "sso_set f (SsoDiscovery s) = f\<lparr>sp_discovery_url := s\<rparr>"
| "sso_set f (SsoClientId s) = f\<lparr>sp_client_id := s\<rparr>"
| "sso_set f (SsoClientSecret s) = f\<lparr>sp_client_secret := s\<rparr>"
| "sso_set f (SsoScopes s) = f\<lparr>sp_scopes := scopes_of s\<rparr>"
| "sso_set f (SsoLdapUrl s) = f\<lparr>sp_ldap_url := s\<rparr>"
| "sso_set f (SsoBindDn s) = f\<lparr>sp_ldap_bind_dn := s\<rparr>"
| "sso_set f (SsoBindPassword s) = f\<lparr>sp_ldap_bind_password := s\<rparr>"
| "sso_set f (SsoSearchBase s) = f\<lparr>sp_ldap_user_search_base := s\<rparr>"
| "sso_set f (SsoUserFilter s) = f\<lparr>sp_ldap_user_filter := s\<rparr>"
| "sso_set f (SsoStartTls b) = f\<lparr>sp_ldap_use_starttls := b\<rparr>"
| "sso_set f (SsoSkipTls b) = f\<lparr>sp_ldap_skip_tls_verify := b\<rparr>"
| "sso_set f (SsoAttrUsername s) = f\<lparr>sp_ldap_attr_username := s\<rparr>"
| "sso_set f (SsoAttrEmail s) = f\<lparr>sp_ldap_attr_email := s\<rparr>"
| "sso_set f (SsoAttrDisplay s) = f\<lparr>sp_ldap_attr_display_name := s\<rparr>"

text \<open>Which inputs the form shows: those of the chosen kind, some of them folded away.\<close>

fun sso_shown :: "bool \<Rightarrow> provider_type \<Rightarrow> sso_input \<Rightarrow> bool" where
  "sso_shown adv t (SsoName s) = True"
| "sso_shown adv t (SsoType t') = True"
| "sso_shown adv t (SsoEnabled b) = True"
| "sso_shown adv t (SsoAuto b) = True"
| "sso_shown adv t (SsoRole s) = (s \<in> {''read'', ''write'', ''admin''})"
| "sso_shown adv t (SsoDiscovery s) = (t = OIDC)"
| "sso_shown adv t (SsoClientId s) = (t = OIDC)"
| "sso_shown adv t (SsoClientSecret s) = (t = OIDC)"
| "sso_shown adv t (SsoScopes s) = (t = OIDC)"
| "sso_shown adv t (SsoAttrUsername s) = (t = LDAP \<and> adv)"
| "sso_shown adv t (SsoAttrEmail s) = (t = LDAP \<and> adv)"
| "sso_shown adv t (SsoAttrDisplay s) = (t = LDAP \<and> adv)"
| "sso_shown adv t _ = (t = LDAP)"

text \<open>The page with its dialog: a dialog is mounted anew each time, with the provider it edits if any.
  \<open>ss_late\<close> holds, for every request whose dialog was left before the answer, whether it was an edit: the
  answer still closes the dialog of that sort.\<close>

record sso_dialog =
  sd_existing :: "SSOProvider option"
  sd_form :: CreateSSOProviderRequest
  sd_showAdvanced :: bool
  sd_isPending :: bool

record test_result =
  tr_id :: string
  tr_ok :: bool
  tr_msg :: string

record sso_page =
  ss_dialog :: "sso_dialog option"
  ss_deleting :: "SSOProvider option"
  ss_testResult :: "test_result option"
  ss_testing :: "SSOProvider option"
  ss_late :: "bool list"

definition sso_mounted :: sso_page where
  "sso_mounted = \<lparr>ss_dialog = None, ss_deleting = None, ss_testResult = None, ss_testing = None, ss_late = []\<rparr>"

definition provider_dialog :: "SSOProvider option \<Rightarrow> sso_dialog" where
  "provider_dialog existing = \<lparr>sd_existing = existing,
     sd_form = (case existing of Some x \<Rightarrow> form_of_provider x | None \<Rightarrow> sso_defaultForm), sd_showAdvanced = False, sd_isPending = False\<rparr>"

definition sso_submit :: "sso_dialog \<Rightarrow> mutation_hook" where
  "sso_submit d =
     (case sd_existing d of
        Some x \<Rightarrow> useUpdateSSOProviderMutation (so_id x) (provider_json (sd_form d))
      | None \<Rightarrow> useCreateSSOProviderMutation (provider_json (sd_form d)))"

datatype sso_event = NewProvider | EditProvider SSOProvider | FillProvider sso_input | FoldAdvanced | CloseProvider
  | SubmitProvider | ProviderSaved bool | AskDeleteProvider SSOProvider | KeepProvider | PressDeleteProvider | ProviderDeleted bool
  | TestProvider SSOProvider | LateSaved bool bool | TestAnswered bool "string option" "string option" | TestFailed string

definition in_dialog :: "(sso_dialog \<Rightarrow> sso_dialog) \<Rightarrow> sso_page \<Rightarrow> sso_page" where
  "in_dialog f p = p\<lparr>ss_dialog := map_option f (ss_dialog p)\<rparr>"

definition test_outcome :: "bool \<Rightarrow> string \<Rightarrow> sso_page \<Rightarrow> sso_page" where
  "test_outcome ok msg p = p\<lparr>ss_testing := None,
     ss_testResult := map_option (\<lambda>x. \<lparr>tr_id = so_id x, tr_ok = ok, tr_msg = msg\<rparr>) (ss_testing p)\<rparr>"

definition leave_dialog :: "sso_page \<Rightarrow> sso_page" where
  "leave_dialog p =
     (case ss_dialog p of None \<Rightarrow> p
      | Some d \<Rightarrow> p\<lparr>ss_dialog := None, ss_late := (if sd_isPending d then (sd_existing d \<noteq> None) # ss_late p else ss_late p)\<rparr>)"

definition late_saved :: "bool \<Rightarrow> sso_page \<Rightarrow> sso_page" where
  "late_saved edit p =
     (case ss_dialog p of None \<Rightarrow> p | Some d \<Rightarrow> if (sd_existing d \<noteq> None) = edit then leave_dialog p else p)"

fun sso_step :: "sso_page \<Rightarrow> sso_event \<Rightarrow> sso_page" where
  "sso_step p NewProvider = p\<lparr>ss_dialog := Some (provider_dialog None)\<rparr>"
| "sso_step p (EditProvider x) = p\<lparr>ss_dialog := Some (provider_dialog (Some x))\<rparr>"
| "sso_step p (FillProvider i) = in_dialog (\<lambda>d. d\<lparr>sd_form := sso_set (sd_form d) i\<rparr>) p"
| "sso_step p FoldAdvanced = in_dialog (\<lambda>d. d\<lparr>sd_showAdvanced := \<not> sd_showAdvanced d\<rparr>) p"
| "sso_step p CloseProvider = leave_dialog p"
| "sso_step p (LateSaved edit b) =
     (let p' = p\<lparr>ss_late := remove1 edit (ss_late p)\<rparr> in if b then late_saved edit p' else p')"
| "sso_step p SubmitProvider = in_dialog (\<lambda>d. d\<lparr>sd_isPending := True\<rparr>) p"
| "sso_step p (ProviderSaved ok) = (if ok then p\<lparr>ss_dialog := None\<rparr> else in_dialog (\<lambda>d. d\<lparr>sd_isPending := False\<rparr>) p)"
| "sso_step p (AskDeleteProvider x) = p\<lparr>ss_deleting := Some x\<rparr>"
| "sso_step p KeepProvider = p\<lparr>ss_deleting := None\<rparr>"
| "sso_step p PressDeleteProvider = p"
| "sso_step p (ProviderDeleted ok) = (if ok then p\<lparr>ss_deleting := None\<rparr> else p)"
| "sso_step p (TestProvider x) = p\<lparr>ss_testResult := None, ss_testing := Some x\<rparr>"
| "sso_step p (TestAnswered b m er) = test_outcome b (nullish m (nullish er [])) p"
| "sso_step p (TestFailed msg) = test_outcome False msg p"

fun sso_sends :: "sso_page \<Rightarrow> sso_event \<Rightarrow> mutation_hook list" where
  "sso_sends p SubmitProvider = (case ss_dialog p of Some d \<Rightarrow> [sso_submit d] | None \<Rightarrow> [])"
| "sso_sends p PressDeleteProvider = (case ss_deleting p of Some x \<Rightarrow> [useDeleteSSOProviderMutation (so_id x)] | None \<Rightarrow> [])"
| "sso_sends p (TestProvider x) = [useTestLDAPConnectionMutation (so_id x)]"
| "sso_sends p _ = []"

definition no_dialog :: "sso_page \<Rightarrow> bool" where
  "no_dialog p = (ss_dialog p = None \<and> ss_deleting p = None)"

fun sso_can :: "SSOProvider list \<Rightarrow> sso_page \<Rightarrow> sso_event \<Rightarrow> bool" where
  "sso_can xs p NewProvider = no_dialog p"
| "sso_can xs p (EditProvider x) = (no_dialog p \<and> x \<in> set xs)"
| "sso_can xs p (FillProvider i) = (case ss_dialog p of None \<Rightarrow> False | Some d \<Rightarrow> sso_shown (sd_showAdvanced d) (sp_provider_type (sd_form d)) i)"
| "sso_can xs p FoldAdvanced = (case ss_dialog p of None \<Rightarrow> False | Some d \<Rightarrow> sp_provider_type (sd_form d) = LDAP)"
| "sso_can xs p CloseProvider = (ss_dialog p \<noteq> None)"
| "sso_can xs p SubmitProvider = (case ss_dialog p of None \<Rightarrow> False | Some d \<Rightarrow> \<not> sd_isPending d \<and> sp_name (sd_form d) \<noteq> [])"
| "sso_can xs p (ProviderSaved ok) = (case ss_dialog p of None \<Rightarrow> False | Some d \<Rightarrow> sd_isPending d)"
| "sso_can xs p (LateSaved edit b) = (edit \<in> set (ss_late p))"
| "sso_can xs p (AskDeleteProvider x) = (no_dialog p \<and> x \<in> set xs)"
| "sso_can xs p KeepProvider = (ss_deleting p \<noteq> None)"
| "sso_can xs p PressDeleteProvider = (ss_deleting p \<noteq> None)"
| "sso_can xs p (ProviderDeleted ok) = True"
| "sso_can xs p (TestProvider x) = (no_dialog p \<and> x \<in> set xs \<and> so_provider_type x = LDAP \<and> ss_testing p = None)"
| "sso_can xs p (TestAnswered b m er) = (ss_testing p \<noteq> None)"
| "sso_can xs p (TestFailed msg) = (ss_testing p \<noteq> None)"

text \<open>What a row shows of a test: the wheel while it runs, and the result.\<close>

definition shows_wheel :: "sso_page \<Rightarrow> SSOProvider \<Rightarrow> bool" where
  "shows_wheel p x = (ss_testing p \<noteq> None \<and> (\<exists>r. ss_testResult p = Some r \<and> tr_id r = so_id x))"

definition shows_result :: "sso_page \<Rightarrow> SSOProvider \<Rightarrow> test_result option" where
  "shows_result p x = (case ss_testResult p of Some r \<Rightarrow> if tr_id r = so_id x then Some r else None | None \<Rightarrow> None)"

subsection \<open>Properties\<close>

definition quiet_test :: "sso_page \<Rightarrow> bool" where
  "quiet_test p = (ss_testing p \<noteq> None \<longrightarrow> ss_testResult p = None)"

interpretation ssop: machine "sso_can xs" sso_step quiet_test for xs
proof
  fix p e assume "quiet_test p" "sso_can xs p e"
  then show "quiet_test (sso_step p e)"
    by (cases e) (auto simp: quiet_test_def test_outcome_def in_dialog_def leave_dialog_def late_saved_def Let_def split: option.splits)
qed

text \<open>No row ever shows that its connection is being tested: the result that the wheel waits for is taken
  away when the test begins and comes when it ends.\<close>
theorem test_wheel_never_shown:
  assumes "possible_run (sso_can xs) sso_step sso_mounted es"
  shows "\<not> shows_wheel (foldl sso_step sso_mounted es) x"
proof -
  have "quiet_test sso_mounted" by (simp add: quiet_test_def sso_mounted_def)
  from ssop.run_keeps [OF this assms] show ?thesis by (auto simp: quiet_test_def shows_wheel_def)
qed

definition demo_provider :: SSOProvider where
  "demo_provider = \<lparr>so_id = ''p1'', so_name = ''corp'', so_provider_type = LDAP, so_enabled = True, so_discovery_url = None,
     so_client_id = None, so_scopes = None, so_ldap_url = Some ''ldap://x'', so_ldap_bind_dn = None, so_ldap_user_search_base = None,
     so_ldap_user_filter = None, so_ldap_attr_username = None, so_ldap_attr_email = None, so_ldap_attr_display_name = None,
     so_ldap_use_starttls = False, so_ldap_skip_tls_verify = False, so_auto_provision = True, so_default_role = ''read''\<rparr>"

theorem test_wheel_never_shown_witness:
  "\<not> shows_wheel (foldl sso_step sso_mounted [TestProvider demo_provider, TestFailed ''no'', TestProvider demo_provider]) demo_provider"
  by (rule test_wheel_never_shown [of "[demo_provider]"])
     (simp add: sso_mounted_def no_dialog_def demo_provider_def test_outcome_def)

text \<open>Scopes as the field holds them, and a key pressed at the end of the field.\<close>

definition scope_word :: "string \<Rightarrow> bool" where
  "scope_word s = (s \<noteq> [] \<and> CHR '' '' \<notin> set s)"

definition type_at_end :: "string list \<Rightarrow> string \<Rightarrow> string list" where
  "type_at_end ss key = scopes_of (scopes_text ss @ key)"

definition extend_last :: "string list \<Rightarrow> string \<Rightarrow> string list" where
  "extend_last ss s = (if s = [] then ss else if ss = [] then [s] else butlast ss @ [last ss @ s])"

lemma join_last: "join sep (xs @ [y]) @ z = join sep (xs @ [y @ z])"
  by (induction xs rule: induct_list012) simp_all

lemma pasted_scopes_come_back: "\<forall>s\<in>set ss. scope_word s \<Longrightarrow> scopes_of (scopes_text ss) = ss"
  by (cases "ss = []") (auto simp: scopes_of_def scopes_text_def scope_word_def split_join filter_id_conv)

lemma type_word:
  assumes "\<forall>s\<in>set ss. scope_word s" and "scope_word k"
  shows "type_at_end ss k = extend_last ss k"
proof (cases ss rule: rev_cases)
  case Nil
  then show ?thesis using assms(2) by (simp add: type_at_end_def scopes_text_def scopes_of_def extend_last_def scope_word_def split_on_single)
next
  case (snoc xs y)
  then have "\<forall>s\<in>set (xs @ [y @ k]). scope_word s" using assms by (auto simp: scope_word_def)
  from pasted_scopes_come_back [OF this] show ?thesis
    using assms(2) snoc by (simp add: type_at_end_def scopes_text_def join_last extend_last_def scope_word_def)
qed

lemma split_trailing: "split_on c (s @ [c]) = split_on c s @ [[]]"
  by (induction s) (auto split: list.splits)

lemma type_blank: "\<forall>s\<in>set ss. scope_word s \<Longrightarrow> type_at_end ss '' '' = ss"
  using pasted_scopes_come_back [of ss] by (simp add: type_at_end_def scopes_of_def split_trailing)

lemma extend_last_words: "\<forall>s\<in>set ss. scope_word s \<Longrightarrow> scope_word k \<Longrightarrow> \<forall>s\<in>set (extend_last ss k). scope_word s"
  by (cases ss rule: rev_cases) (auto simp: extend_last_def scope_word_def)

lemma extend_extend: "k \<noteq> [] \<Longrightarrow> extend_last (extend_last ss k) t = extend_last ss (k @ t)"
  by (auto simp: extend_last_def)

lemma typed_keys:
  assumes "\<forall>s\<in>set ss. scope_word s" and "\<forall>k\<in>set keys. k = '' '' \<or> scope_word k"
  shows "foldl type_at_end ss keys = extend_last ss (concat (filter (\<lambda>k. k \<noteq> '' '') keys))"
  using assms
proof (induction keys arbitrary: ss)
  case (Cons k keys)
  show ?case
  proof (cases "k = '' ''")
    case False
    then have k: "scope_word k" using Cons.prems(2) by auto
    then have "foldl type_at_end (extend_last ss k) keys = extend_last (extend_last ss k) (concat (filter (\<lambda>k. k \<noteq> '' '') keys))"
      using Cons by (intro Cons.IH extend_last_words) auto
    moreover have "k \<noteq> []" using k by (simp add: scope_word_def)
    ultimately show ?thesis using False type_word [OF Cons.prems(1) k] by (simp add: extend_extend)
  qed (use Cons type_blank in auto)
qed (simp add: extend_last_def)

text \<open>The field takes scopes that are pasted, but typing at its end never begins a new one: whatever keys are
  pressed, blanks are swallowed and everything else lengthens the last scope.\<close>
theorem typed_scopes_run_together:
  assumes "\<forall>s\<in>set ss. scope_word s" and "\<forall>k\<in>set keys. k = '' '' \<or> scope_word k"
  shows "scopes_of (scopes_text ss) = ss
    \<and> foldl type_at_end ss keys = extend_last ss (concat (filter (\<lambda>k. k \<noteq> '' '') keys))"
  by (rule conjI [OF pasted_scopes_come_back [OF assms(1)] typed_keys [OF assms]])

theorem typed_scopes_run_together_witness:
  "foldl type_at_end [''openid'', ''email''] ['' '', ''g'', ''r'', ''o'', ''u'', ''p'', ''s''] = [''openid'', ''emailgroups'']"
  using typed_scopes_run_together [of "[''openid'', ''email'']" "['' '', ''g'', ''r'', ''o'', ''u'', ''p'', ''s'']"]
  by (simp add: scope_word_def extend_last_def)

text \<open>Choosing the other kind of provider hides the fields of the first and keeps them: a service password
  typed before is sent with the OpenID provider it does not belong to.\<close>
theorem hidden_secret_is_sent:
  assumes "ss_dialog p = Some d" and "sd_existing d = None"
  shows "sso_sends (foldl sso_step p [FillProvider (SsoBindPassword pw), FillProvider (SsoType OIDC)]) SubmitProvider
    = [useCreateSSOProviderMutation (provider_json ((sd_form d)\<lparr>sp_ldap_bind_password := pw, sp_provider_type := OIDC\<rparr>))]"
  using assms by (simp add: in_dialog_def sso_submit_def)

theorem hidden_secret_is_sent_witness:
  "sso_sends (foldl sso_step (sso_mounted\<lparr>ss_dialog := Some (provider_dialog None)\<rparr>) [FillProvider (SsoBindPassword ''pw''), FillProvider (SsoType OIDC)])
     SubmitProvider = [useCreateSSOProviderMutation (provider_json (sso_defaultForm\<lparr>sp_ldap_bind_password := ''pw'', sp_provider_type := OIDC\<rparr>))]"
  using hidden_secret_is_sent [of "sso_mounted\<lparr>ss_dialog := Some (provider_dialog None)\<rparr>" "provider_dialog None" "''pw''"]
  by (simp add: provider_dialog_def)

end
