(* ===== verification/GroupAdmin.thy ===== *)
theory GroupAdmin
  imports PageKit AdminHooks TextFacts
begin

text \<open>
  The groups of the administration (\<open>pages/admin/groups.tsx\<close>): a list, a dialog for a new group, and one panel
  for the selected one. The panel has no key: it stays mounted, with what was chosen in it, when another group is
  selected. The library behind the role selection takes no option with an empty value; the model follows the page.
\<close>

datatype group_role = RoleAdmin | RoleWrite | RoleRead

fun group_role_json :: "group_role option \<Rightarrow> json" where
  "group_role_json None = JNull"
| "group_role_json (Some RoleAdmin) = JStr ''admin''"
| "group_role_json (Some RoleWrite) = JStr ''write''"
| "group_role_json (Some RoleRead) = JStr ''read''"

record Group =
  gr_id :: string
  gr_name :: string
  gr_description :: "string option"
  gr_role :: "group_role option"
  gr_member_count :: nat

record group_panel =
  gp_pendingRole :: "group_role option"
  gp_changing :: "Group option"
  gp_user :: string
  gp_folder :: string
  gp_write :: bool
  gp_inherit :: bool

definition group_panel_mounted :: "Group \<Rightarrow> group_panel" where
  "group_panel_mounted g = \<lparr>gp_pendingRole = gr_role g, gp_changing = None, gp_user = [], gp_folder = [], gp_write = False, gp_inherit = True\<rparr>"

record groups_page =
  ga_groups :: "Group list"
  ga_selectedId :: "string option"
  ga_panel :: "group_panel option"
  ga_open :: bool
  ga_name :: string
  ga_description :: string

definition groups_mounted :: groups_page where
  "groups_mounted = \<lparr>ga_groups = [], ga_selectedId = None, ga_panel = None, ga_open = False, ga_name = [], ga_description = []\<rparr>"

definition selected_group :: "groups_page \<Rightarrow> Group option" where
  "selected_group p = find (\<lambda>g. Some (gr_id g) = ga_selectedId p) (ga_groups p)"

text \<open>After a change of the list or of the selection: the panel is unmounted, mounted, or kept, and an effect
  copies the role of the group when the group or its role is another one than before.\<close>

definition settle_panel :: "Group option \<Rightarrow> groups_page \<Rightarrow> groups_page" where
  "settle_panel before p =
     p\<lparr>ga_panel := (case selected_group p of
         None \<Rightarrow> None
       | Some g \<Rightarrow> (case ga_panel p of
           None \<Rightarrow> Some (group_panel_mounted g)
         | Some pan \<Rightarrow> Some (if map_option (\<lambda>b. (gr_id b, gr_role b)) before = Some (gr_id g, gr_role g) then pan
                            else pan\<lparr>gp_pendingRole := gr_role g\<rparr>)))\<rparr>"

definition on_panel :: "(group_panel \<Rightarrow> group_panel) \<Rightarrow> groups_page \<Rightarrow> groups_page" where
  "on_panel f p = p\<lparr>ga_panel := map_option f (ga_panel p)\<rparr>"

datatype group_event = GroupsArrive "Group list" | SelectGroup string
  | OpenCreateGroup | LeaveCreateGroup | TypeGroupName string | TypeGroupDescription string | PressCreateGroup | GroupCreated bool
  | ChooseRole "group_role option" | RoleAnswered bool | PressDeleteGroup | GroupDeleted bool
  | ChooseUser string | PressAddMember | MemberAdded bool | PressRemoveMember string
  | ChooseFolder string | ChoosePermission bool | SetInherit bool | PressGrant | Granted bool | PressRevoke string

fun groups_step :: "groups_page \<Rightarrow> group_event \<Rightarrow> groups_page" where
  "groups_step p (GroupsArrive gs) = settle_panel (selected_group p) (p\<lparr>ga_groups := gs\<rparr>)"
| "groups_step p (SelectGroup i) = settle_panel (selected_group p) (p\<lparr>ga_selectedId := Some i\<rparr>)"
| "groups_step p OpenCreateGroup = p\<lparr>ga_open := True\<rparr>"
| "groups_step p LeaveCreateGroup = p\<lparr>ga_open := False\<rparr>"
| "groups_step p (TypeGroupName s) = p\<lparr>ga_name := s\<rparr>"
| "groups_step p (TypeGroupDescription s) = p\<lparr>ga_description := s\<rparr>"
| "groups_step p PressCreateGroup = p"
| "groups_step p (GroupCreated ok) = (if ok then p\<lparr>ga_open := False, ga_name := [], ga_description := []\<rparr> else p)"
| "groups_step p (ChooseRole r) = on_panel (\<lambda>pan. pan\<lparr>gp_pendingRole := r, gp_changing := selected_group p\<rparr>) p"
| "groups_step p (RoleAnswered ok) =
     on_panel (\<lambda>pan. case gp_changing pan of None \<Rightarrow> pan
       | Some g \<Rightarrow> (if ok then pan else pan\<lparr>gp_pendingRole := gr_role g\<rparr>)\<lparr>gp_changing := None\<rparr>) p"
| "groups_step p PressDeleteGroup = p"
| "groups_step p (GroupDeleted ok) = (if ok then settle_panel (selected_group p) (p\<lparr>ga_selectedId := None\<rparr>) else p)"
| "groups_step p (ChooseUser u) = on_panel (\<lambda>pan. pan\<lparr>gp_user := u\<rparr>) p"
| "groups_step p PressAddMember = p"
| "groups_step p (MemberAdded ok) = (if ok then on_panel (\<lambda>pan. pan\<lparr>gp_user := []\<rparr>) p else p)"
| "groups_step p (PressRemoveMember u) = p"
| "groups_step p (ChooseFolder f) = on_panel (\<lambda>pan. pan\<lparr>gp_folder := f\<rparr>) p"
| "groups_step p (ChoosePermission w) = on_panel (\<lambda>pan. pan\<lparr>gp_write := w\<rparr>) p"
| "groups_step p (SetInherit b) = on_panel (\<lambda>pan. pan\<lparr>gp_inherit := b\<rparr>) p"
| "groups_step p PressGrant = p"
| "groups_step p (Granted ok) = (if ok then on_panel (\<lambda>pan. pan\<lparr>gp_folder := []\<rparr>) p else p)"
| "groups_step p (PressRevoke f) = p"

definition create_group_json :: "groups_page \<Rightarrow> json" where
  "create_group_json p = JObj ((''name'', JStr (trim (ga_name p))) # opt_str ''description'' (or_undefined (trim (ga_description p))))"

definition grant_json :: "group_panel \<Rightarrow> json" where
  "grant_json pan = JObj [(''folder_id'', JStr (gp_folder pan)), (''permission'', JStr (if gp_write pan then ''write'' else ''read'')),
     (''inherit_to_children'', JBool (gp_inherit pan))]"

text \<open>The requests of the panel are built with the group that is selected when the button is pressed.\<close>

fun panel_sends :: "Group \<Rightarrow> group_panel \<Rightarrow> group_event \<Rightarrow> mutation_hook list" where
  "panel_sends g pan (ChooseRole r) = [useUpdateGroupRoleMutation (gr_id g) (JObj [(''role'', group_role_json r)])]"
| "panel_sends g pan PressDeleteGroup = [useDeleteGroupMutation (gr_id g)]"
| "panel_sends g pan PressAddMember =
     (if gp_user pan = [] then [] else [useAddGroupMemberMutation (gr_id g) (JObj [(''user_id'', JStr (gp_user pan))])])"
| "panel_sends g pan (PressRemoveMember u) = [useRemoveGroupMemberMutation (gr_id g) u]"
| "panel_sends g pan PressGrant = (if gp_folder pan = [] then [] else [useGrantFolderGroupPermissionMutation (gr_id g) (grant_json pan)])"
| "panel_sends g pan (PressRevoke f) = [useRevokeFolderGroupPermissionMutation (gr_id g) f]"
| "panel_sends g pan _ = []"

definition groups_sends :: "groups_page \<Rightarrow> group_event \<Rightarrow> mutation_hook list" where
  "groups_sends p e =
     (if e = PressCreateGroup then (if trim (ga_name p) = [] then [] else [useCreateGroupMutation (create_group_json p)])
      else case (selected_group p, ga_panel p) of (Some g, Some pan) \<Rightarrow> panel_sends g pan e | _ \<Rightarrow> [])"

text \<open>What the panel offers: the users that are no members of the group shown, and all folders.\<close>

definition available_users :: "string list \<Rightarrow> string list \<Rightarrow> string list" where
  "available_users users members = filter (\<lambda>u. u \<notin> set members) users"

definition groups_can :: "string list \<Rightarrow> (string \<Rightarrow> string list) \<Rightarrow> string list \<Rightarrow> groups_page \<Rightarrow> group_event \<Rightarrow> bool" where
  "groups_can users members folders p e =
     (case e of
        GroupsArrive gs \<Rightarrow> True | GroupCreated ok \<Rightarrow> True | GroupDeleted ok \<Rightarrow> True | MemberAdded ok \<Rightarrow> True | Granted ok \<Rightarrow> True
      | SelectGroup i \<Rightarrow> \<not> ga_open p \<and> i \<in> gr_id ` set (ga_groups p)
      | OpenCreateGroup \<Rightarrow> \<not> ga_open p | LeaveCreateGroup \<Rightarrow> ga_open p | TypeGroupName s \<Rightarrow> ga_open p | TypeGroupDescription s \<Rightarrow> ga_open p
      | PressCreateGroup \<Rightarrow> ga_open p \<and> trim (ga_name p) \<noteq> []
      | RoleAnswered ok \<Rightarrow> (case ga_panel p of Some pan \<Rightarrow> gp_changing pan \<noteq> None | None \<Rightarrow> False)
      | _ \<Rightarrow> \<not> ga_open p \<and> (case (selected_group p, ga_panel p) of
          (Some g, Some pan) \<Rightarrow> (case e of
              ChooseRole r \<Rightarrow> gp_changing pan = None
            | ChooseUser u \<Rightarrow> u \<in> set (available_users users (members (gr_id g)))
            | PressAddMember \<Rightarrow> gp_user pan \<noteq> []
            | PressRemoveMember u \<Rightarrow> u \<in> set (members (gr_id g))
            | ChooseFolder f \<Rightarrow> f \<in> set folders
            | PressGrant \<Rightarrow> gp_folder pan \<noteq> []
            | _ \<Rightarrow> True)
        | _ \<Rightarrow> False))"

subsection \<open>Properties\<close>

text \<open>The panel is mounted exactly while a listed group is selected.\<close>

definition panel_ok :: "groups_page \<Rightarrow> bool" where
  "panel_ok p = ((ga_panel p = None) = (selected_group p = None))"

lemma settled_panel_ok [simp]: "panel_ok (settle_panel before p)"
  by (auto simp: panel_ok_def settle_panel_def selected_group_def split: option.splits)

lemma on_panel_ok [simp]: "panel_ok (on_panel f p) = panel_ok p"
  by (simp add: panel_ok_def on_panel_def selected_group_def)

lemma panel_ok_fields [simp]:
  "panel_ok (p\<lparr>ga_open := b\<rparr>) = panel_ok p" "panel_ok (p\<lparr>ga_name := s\<rparr>) = panel_ok p" "panel_ok (p\<lparr>ga_description := s\<rparr>) = panel_ok p"
  by (simp_all add: panel_ok_def selected_group_def)

interpretation groups: machine "groups_can users members folders" groups_step panel_ok for users members folders
proof
  fix p e assume "panel_ok p"
  then show "panel_ok (groups_step p e)" by (cases e) simp_all
qed

lemma panel_iff_group: "possible_run (groups_can users members folders) groups_step groups_mounted es \<Longrightarrow>
  panel_ok (foldl groups_step groups_mounted es)"
  by (rule groups.run_keeps) (simp_all add: panel_ok_def groups_mounted_def selected_group_def)

text \<open>A user chosen for one group and not yet added is added to whichever group is selected when the button is
  pressed, also when the choice for that group would not have offered them.\<close>
theorem chosen_user_joins_next_group:
  assumes "possible_run (groups_can users members folders) groups_step groups_mounted (es @ [ChooseUser u, SelectGroup h])"
    and "u \<noteq> []"
  shows "groups_sends (foldl groups_step groups_mounted (es @ [ChooseUser u, SelectGroup h])) PressAddMember
    = [useAddGroupMemberMutation h (JObj [(''user_id'', JStr u)])]"
proof -
  define p where "p = foldl groups_step groups_mounted es"
  have can: "groups_can users members folders p (ChooseUser u)" "groups_can users members folders (groups_step p (ChooseUser u)) (SelectGroup h)"
    using assms(1) by (simp_all add: possible_run_append p_def)
  then obtain pan where pan: "ga_panel p = Some pan"
    by (auto simp: groups_can_def split: option.splits prod.splits)
  from can(2) have "h \<in> gr_id ` set (ga_groups p)" by (simp add: groups_can_def on_panel_def)
  then obtain g where g: "find (\<lambda>g. gr_id g = h) (ga_groups p) = Some g" "gr_id g = h"
    by (metis (mono_tags, lifting) find_None_iff find_Some_iff imageE not_None_eq)
  have "selected_group (groups_step (groups_step p (ChooseUser u)) (SelectGroup h)) = Some g"
    using g by (simp add: selected_group_def settle_panel_def on_panel_def split: option.splits)
  moreover have "\<exists>pan'. ga_panel (groups_step (groups_step p (ChooseUser u)) (SelectGroup h)) = Some pan' \<and> gp_user pan' = u"
    using g pan by (auto simp: settle_panel_def on_panel_def selected_group_def)
  ultimately show ?thesis using assms(2) g(2) by (auto simp: groups_sends_def p_def)
qed

definition demo_group :: "string \<Rightarrow> Group" where
  "demo_group i = \<lparr>gr_id = i, gr_name = i, gr_description = None, gr_role = None, gr_member_count = 0\<rparr>"

theorem chosen_user_joins_next_group_witness:
  "groups_sends (foldl groups_step groups_mounted ([GroupsArrive [demo_group ''g'', demo_group ''h''], SelectGroup ''g''] @ [ChooseUser ''u'', SelectGroup ''h''])) PressAddMember
    = [useAddGroupMemberMutation ''h'' (JObj [(''user_id'', JStr ''u'')])]"
  by (rule chosen_user_joins_next_group [of "[''u'']" "\<lambda>g. if g = ''h'' then [''u''] else []" "[]"])
     (simp_all add: groups_mounted_def groups_can_def settle_panel_def selected_group_def demo_group_def available_users_def on_panel_def group_panel_mounted_def)

text \<open>A change of role that fails puts the role of its own group into the selection, even when another group is
  shown by then: the selection then shows a role the shown group does not have.\<close>
theorem failed_role_lands_on_shown_group:
  assumes "selected_group p = Some g" and "ga_panel p = Some pan"
    and "find (\<lambda>x. gr_id x = h) (ga_groups p) = Some x" and "gr_role x \<noteq> gr_role g"
  shows "selected_group (foldl groups_step p [ChooseRole r, SelectGroup h, RoleAnswered False]) = Some x
    \<and> map_option gp_pendingRole (ga_panel (foldl groups_step p [ChooseRole r, SelectGroup h, RoleAnswered False])) = Some (gr_role g)
    \<and> gr_role x \<noteq> gr_role g"
proof -
  define p' where "p' = foldl groups_step p [ChooseRole r, SelectGroup h, RoleAnswered False]"
  have "ga_panel p' = map_option (\<lambda>pan. pan\<lparr>gp_pendingRole := gr_role g, gp_changing := None\<rparr>) (Some pan) \<and> selected_group p' = Some x"
    using assms(1-3) unfolding p'_def by (simp add: settle_panel_def on_panel_def selected_group_def split: option.splits)
  with assms(4) show ?thesis unfolding p'_def [symmetric] by simp
qed

theorem failed_role_lands_on_shown_group_witness:
  "map_option gp_pendingRole (ga_panel (foldl groups_step
      (foldl groups_step groups_mounted [GroupsArrive [demo_group ''g'', (demo_group ''h'')\<lparr>gr_role := Some RoleAdmin\<rparr>], SelectGroup ''g''])
      [ChooseRole (Some RoleRead), SelectGroup ''h'', RoleAnswered False])) = Some None"
proof -
  let ?h = "(demo_group ''h'')\<lparr>gr_role := Some RoleAdmin\<rparr>"
  let ?p = "foldl groups_step groups_mounted [GroupsArrive [demo_group ''g'', ?h], SelectGroup ''g'']"
  have "selected_group ?p = Some (demo_group ''g'')" "ga_panel ?p = Some (group_panel_mounted (demo_group ''g''))"
    "find (\<lambda>x. gr_id x = ''h'') (ga_groups ?p) = Some ?h" "gr_role ?h \<noteq> gr_role (demo_group ''g'')"
    by (simp_all add: groups_mounted_def settle_panel_def selected_group_def demo_group_def)
  from failed_role_lands_on_shown_group [OF this, of "Some RoleRead"] show ?thesis by (simp add: demo_group_def)
qed

end
