(* ===== verification/ClientCerts.thy ===== *)
theory ClientCerts
  imports Paging AdminHooks
begin

text \<open>
  The certificates of the administration (\<open>pages/admin/client-certs.tsx\<close>): the tab of the authorities and the tab
  of one user's certificates. Only the tab in front is mounted: an answer that comes after the tab was left
  changes nothing. A dialog can be left with Escape while its request runs.
\<close>

record ClientCertCA =
  ca_id :: string
  ca_name :: string
  ca_cert_pem :: string
  ca_is_builtin :: bool

record ClientCertificate =
  ct_id :: string
  ct_subject_cn :: string
  ct_revoked_at :: "string option"
  ct_label :: "string option"

record IssueCertResponse = ClientCertificate +
  ic_cert_pem :: string
  ic_key_pem :: string

text \<open>The text of the downloaded file and its name: runs of white space become hyphens.\<close>

definition issued_pem :: "IssueCertResponse \<Rightarrow> string" where
  "issued_pem c = ic_cert_pem c @ [CHR 0x0A] @ ic_key_pem c"

record cas_tab =
  ca_uploadOpen :: bool
  ca_caName :: string
  ca_caPem :: string
  ca_deleteTarget :: "ClientCertCA option"
  ca_uploading :: bool
  ca_deleting :: bool

definition cas_opened :: cas_tab where
  "cas_opened = \<lparr>ca_uploadOpen = False, ca_caName = [], ca_caPem = [], ca_deleteTarget = None, ca_uploading = False, ca_deleting = False\<rparr>"

record certs_tab =
  ut_selectedUserId :: string
  ut_issueOpen :: bool
  ut_issueLabel :: string
  ut_issueDays :: string
  ut_issuedCert :: "IssueCertResponse option"
  ut_registerOpen :: bool
  ut_regPem :: string
  ut_regCaId :: string
  ut_regLabel :: string
  ut_revokeTarget :: "ClientCertificate option"
  ut_issuing :: bool
  ut_registering :: bool
  ut_revoking :: bool

definition certs_opened :: certs_tab where
  "certs_opened = \<lparr>ut_selectedUserId = [], ut_issueOpen = False, ut_issueLabel = [], ut_issueDays = [], ut_issuedCert = None,
     ut_registerOpen = False, ut_regPem = [], ut_regCaId = [], ut_regLabel = [], ut_revokeTarget = None,
     ut_issuing = False, ut_registering = False, ut_revoking = False\<rparr>"

datatype cas_event = OpenUpload | LeaveUpload | TypeCaName string | TypeCaPem string | SubmitUpload | Uploaded bool
  | AskDeleteCa ClientCertCA | KeepCa | PressDeleteCa | CaDeleted bool

fun cas_step :: "cas_tab \<Rightarrow> cas_event \<Rightarrow> cas_tab" where
  "cas_step t OpenUpload = t\<lparr>ca_uploadOpen := True\<rparr>"
| "cas_step t LeaveUpload = t\<lparr>ca_uploadOpen := False\<rparr>"
| "cas_step t (TypeCaName s) = t\<lparr>ca_caName := s\<rparr>"
| "cas_step t (TypeCaPem s) = t\<lparr>ca_caPem := s\<rparr>"
| "cas_step t SubmitUpload = t\<lparr>ca_uploading := True\<rparr>"
| "cas_step t (Uploaded ok) =
     (let t' = t\<lparr>ca_uploading := False\<rparr> in if ok then t'\<lparr>ca_caName := [], ca_caPem := [], ca_uploadOpen := False\<rparr> else t')"
| "cas_step t (AskDeleteCa c) = t\<lparr>ca_deleteTarget := Some c\<rparr>"
| "cas_step t KeepCa = t\<lparr>ca_deleteTarget := None\<rparr>"
| "cas_step t PressDeleteCa = (if ca_deleteTarget t = None then t else t\<lparr>ca_deleting := True\<rparr>)"
| "cas_step t (CaDeleted ok) = (let t' = t\<lparr>ca_deleting := False\<rparr> in if ok then t'\<lparr>ca_deleteTarget := None\<rparr> else t')"

fun cas_sends :: "cas_tab \<Rightarrow> cas_event \<Rightarrow> mutation_hook list" where
  "cas_sends t SubmitUpload = [useUploadCACertMutation (JObj [(''name'', JStr (ca_caName t)), (''cert_pem'', JStr (ca_caPem t))])]"
| "cas_sends t PressDeleteCa = (case ca_deleteTarget t of Some c \<Rightarrow> [useDeleteCACertMutation (ca_id c)] | None \<Rightarrow> [])"
| "cas_sends t _ = []"

fun cas_can :: "ClientCertCA list \<Rightarrow> cas_tab \<Rightarrow> cas_event \<Rightarrow> bool" where
  "cas_can cas t OpenUpload = (\<not> ca_uploadOpen t \<and> ca_deleteTarget t = None)"
| "cas_can cas t LeaveUpload = ca_uploadOpen t"
| "cas_can cas t (TypeCaName s) = (ca_uploadOpen t \<and> \<not> ca_uploading t)"
| "cas_can cas t (TypeCaPem s) = (ca_uploadOpen t \<and> \<not> ca_uploading t)"
| "cas_can cas t SubmitUpload = (ca_uploadOpen t \<and> \<not> ca_uploading t \<and> ca_caName t \<noteq> [] \<and> ca_caPem t \<noteq> [])"
| "cas_can cas t (Uploaded ok) = ca_uploading t"
| "cas_can cas t (AskDeleteCa c) = (\<not> ca_uploadOpen t \<and> ca_deleteTarget t = None \<and> c \<in> set cas \<and> \<not> ca_is_builtin c)"
| "cas_can cas t KeepCa = (ca_deleteTarget t \<noteq> None)"
| "cas_can cas t PressDeleteCa = (ca_deleteTarget t \<noteq> None \<and> \<not> ca_deleting t)"
| "cas_can cas t (CaDeleted ok) = ca_deleting t"

text \<open>The days: \<open>parseInt\<close> of what is in the field, nothing when it is empty. A field of numbers holds nothing or
  a decimal number, and the form is sent when that is a whole one between 1 and 3650.\<close>

definition issue_days :: "string \<Rightarrow> int option" where
  "issue_days s = (if s = [] then None else parse_int s)"

definition days_accepted :: "string \<Rightarrow> bool" where
  "days_accepted s =
     (s = [] \<or> (list_all (\<lambda>c. dec_digit c \<or> c \<in> set ''.eE+-'') s \<and> (case js_number s of
        None \<Rightarrow> False | Some q \<Rightarrow> 1 \<le> q \<and> q \<le> 3650 \<and> q = of_int \<lfloor>q\<rfloor>)))"

text \<open>\<open>{ label: label || undefined, valid_for_days }\<close>; \<open>NaN\<close> is written as \<open>null\<close>.\<close>

definition issue_json :: "certs_tab \<Rightarrow> json" where
  "issue_json t = JObj (opt_str ''label'' (or_undefined (ut_issueLabel t))
     @ (if ut_issueDays t = [] then []
        else [(''valid_for_days'', case issue_days (ut_issueDays t) of Some n \<Rightarrow> JNum n | None \<Rightarrow> JNull)]))"

definition register_json :: "certs_tab \<Rightarrow> json" where
  "register_json t = JObj ([(''cert_pem'', JStr (ut_regPem t)), (''ca_id'', JStr (ut_regCaId t))]
     @ opt_str ''label'' (or_undefined (ut_regLabel t)))"

datatype certs_event = ChooseCertUser string | OpenIssue | LeaveIssue | TypeLabel string | TypeDays string | SubmitIssue
  | Issued "IssueCertResponse option" | CloseIssued
  | OpenRegister | LeaveRegister | ChooseCa string | TypeRegPem string | TypeRegLabel string | SubmitRegister | Registered bool
  | AskRevoke ClientCertificate | KeepCert | PressRevokeCert | Revoked bool

fun certs_step :: "certs_tab \<Rightarrow> certs_event \<Rightarrow> certs_tab" where
  "certs_step t (ChooseCertUser u) = t\<lparr>ut_selectedUserId := u\<rparr>"
| "certs_step t OpenIssue = t\<lparr>ut_issueOpen := True\<rparr>"
| "certs_step t LeaveIssue = t\<lparr>ut_issueOpen := False\<rparr>"
| "certs_step t (TypeLabel s) = t\<lparr>ut_issueLabel := s\<rparr>"
| "certs_step t (TypeDays s) = t\<lparr>ut_issueDays := s\<rparr>"
| "certs_step t SubmitIssue = t\<lparr>ut_issuing := True\<rparr>"
| "certs_step t (Issued r) =
     (let t' = t\<lparr>ut_issuing := False\<rparr> in case r of None \<Rightarrow> t'
      | Some c \<Rightarrow> t'\<lparr>ut_issuedCert := Some c, ut_issueOpen := False, ut_issueLabel := [], ut_issueDays := []\<rparr>)"
| "certs_step t CloseIssued = t\<lparr>ut_issuedCert := None\<rparr>"
| "certs_step t OpenRegister = t\<lparr>ut_registerOpen := True\<rparr>"
| "certs_step t LeaveRegister = t\<lparr>ut_registerOpen := False\<rparr>"
| "certs_step t (ChooseCa c) = t\<lparr>ut_regCaId := c\<rparr>"
| "certs_step t (TypeRegPem s) = t\<lparr>ut_regPem := s\<rparr>"
| "certs_step t (TypeRegLabel s) = t\<lparr>ut_regLabel := s\<rparr>"
| "certs_step t SubmitRegister = t\<lparr>ut_registering := True\<rparr>"
| "certs_step t (Registered ok) =
     (let t' = t\<lparr>ut_registering := False\<rparr>
      in if ok then t'\<lparr>ut_registerOpen := False, ut_regPem := [], ut_regCaId := [], ut_regLabel := []\<rparr> else t')"
| "certs_step t (AskRevoke c) = t\<lparr>ut_revokeTarget := Some c\<rparr>"
| "certs_step t KeepCert = t\<lparr>ut_revokeTarget := None\<rparr>"
| "certs_step t PressRevokeCert = (if ut_revokeTarget t = None then t else t\<lparr>ut_revoking := True\<rparr>)"
| "certs_step t (Revoked ok) = (let t' = t\<lparr>ut_revoking := False\<rparr> in if ok then t'\<lparr>ut_revokeTarget := None\<rparr> else t')"

fun certs_sends :: "certs_tab \<Rightarrow> certs_event \<Rightarrow> mutation_hook list" where
  "certs_sends t SubmitIssue = [useIssueClientCertMutation (ut_selectedUserId t) (Some (issue_json t))]"
| "certs_sends t SubmitRegister = [useRegisterClientCertMutation (ut_selectedUserId t) (register_json t)]"
| "certs_sends t PressRevokeCert =
     (case ut_revokeTarget t of Some c \<Rightarrow> [useRevokeClientCertMutation (ut_selectedUserId t) (ct_id c)] | None \<Rightarrow> [])"
| "certs_sends t _ = []"

definition certs_dialog :: "certs_tab \<Rightarrow> bool" where
  "certs_dialog t = (ut_issueOpen t \<or> ut_registerOpen t \<or> ut_revokeTarget t \<noteq> None \<or> ut_issuedCert t \<noteq> None)"

fun certs_can :: "string list \<Rightarrow> ClientCertCA list \<Rightarrow> (string \<Rightarrow> ClientCertificate list) \<Rightarrow> certs_tab \<Rightarrow> certs_event \<Rightarrow> bool" where
  "certs_can us cas certs t (ChooseCertUser u) = (\<not> certs_dialog t \<and> u \<in> set us)"
| "certs_can us cas certs t OpenIssue = (\<not> certs_dialog t \<and> ut_selectedUserId t \<noteq> [])"
| "certs_can us cas certs t LeaveIssue = ut_issueOpen t"
| "certs_can us cas certs t (TypeLabel s) = (ut_issueOpen t \<and> \<not> ut_issuing t)"
| "certs_can us cas certs t (TypeDays s) = (ut_issueOpen t \<and> \<not> ut_issuing t)"
| "certs_can us cas certs t SubmitIssue = (ut_issueOpen t \<and> \<not> ut_issuing t \<and> days_accepted (ut_issueDays t))"
| "certs_can us cas certs t (Issued r) = ut_issuing t"
| "certs_can us cas certs t CloseIssued = (ut_issuedCert t \<noteq> None)"
| "certs_can us cas certs t OpenRegister = (\<not> certs_dialog t \<and> ut_selectedUserId t \<noteq> [])"
| "certs_can us cas certs t LeaveRegister = ut_registerOpen t"
| "certs_can us cas certs t (ChooseCa c) = (ut_registerOpen t \<and> c \<in> ca_id ` set cas)"
| "certs_can us cas certs t (TypeRegPem s) = (ut_registerOpen t \<and> \<not> ut_registering t)"
| "certs_can us cas certs t (TypeRegLabel s) = (ut_registerOpen t \<and> \<not> ut_registering t)"
| "certs_can us cas certs t SubmitRegister = (ut_registerOpen t \<and> \<not> ut_registering t \<and> ut_regCaId t \<noteq> [] \<and> ut_regPem t \<noteq> [])"
| "certs_can us cas certs t (Registered ok) = ut_registering t"
| "certs_can us cas certs t (AskRevoke c) = (\<not> certs_dialog t \<and> c \<in> set (certs (ut_selectedUserId t)) \<and> \<not> truthy (ct_revoked_at c))"
| "certs_can us cas certs t KeepCert = (ut_revokeTarget t \<noteq> None)"
| "certs_can us cas certs t PressRevokeCert = (ut_revokeTarget t \<noteq> None \<and> \<not> ut_revoking t)"
| "certs_can us cas certs t (Revoked ok) = ut_revoking t"

text \<open>The page: one of the two tabs is mounted. An answer to a tab that is not is dropped.\<close>

datatype certs_page = CasTab cas_tab | UserCertsTab certs_tab
datatype certs_page_event = ShowCas | ShowUserCerts | OnCas cas_event | OnCerts certs_event

fun certs_page_step :: "certs_page \<Rightarrow> certs_page_event \<Rightarrow> certs_page" where
  "certs_page_step (CasTab t) ShowUserCerts = UserCertsTab certs_opened"
| "certs_page_step (UserCertsTab t) ShowCas = CasTab cas_opened"
| "certs_page_step (CasTab t) (OnCas e) = CasTab (cas_step t e)"
| "certs_page_step (UserCertsTab t) (OnCerts e) = UserCertsTab (certs_step t e)"
| "certs_page_step p _ = p"

subsection \<open>Properties\<close>

text \<open>The key of an issued certificate is shown until its dialog is closed, whatever else is done.\<close>

lemma issued_stays: "CloseIssued \<notin> set es \<Longrightarrow> (\<forall>r. Issued r \<notin> set es) \<Longrightarrow> ut_issuedCert (foldl certs_step t es) = ut_issuedCert t"
proof (induction es arbitrary: t)
  case (Cons e es)
  then have "ut_issuedCert (certs_step t e) = ut_issuedCert t" by (cases e) (auto simp: Let_def)
  with Cons show ?case by simp
qed simp

text \<open>The private key of a certificate stays on the screen until its dialog is closed; leaving the tab while
  the certificate is being made loses it for good, although the certificate exists.\<close>
theorem issued_key_shown_unless_tab_left:
  assumes "CloseIssued \<notin> set es" and "\<forall>r. Issued r \<notin> set es"
  shows "foldl certs_page_step (UserCertsTab t) (map OnCerts (Issued (Some c) # es)) = UserCertsTab (foldl certs_step t (Issued (Some c) # es))
    \<and> ut_issuedCert (foldl certs_step t (Issued (Some c) # es)) = Some c
    \<and> foldl certs_page_step (UserCertsTab t) (map OnCerts [SubmitIssue, LeaveIssue] @ [ShowCas, OnCerts (Issued (Some c)), ShowUserCerts])
      = UserCertsTab certs_opened"
proof -
  have "foldl certs_page_step (UserCertsTab t) (map OnCerts es) = UserCertsTab (foldl certs_step t es)" for t es
    by (induction es arbitrary: t) simp_all
  then show ?thesis using issued_stays [OF assms, of "certs_step t (Issued (Some c))"] by simp
qed

definition demo_issued :: IssueCertResponse where
  "demo_issued = \<lparr>ct_id = ''c1'', ct_subject_cn = ''alice'', ct_revoked_at = None, ct_label = None, ic_cert_pem = ''cert'', ic_key_pem = ''key''\<rparr>"

theorem issued_key_shown_unless_tab_left_witness:
  "ut_issuedCert (foldl certs_step certs_opened (Issued (Some demo_issued) # [ChooseCertUser ''bob''])) = Some demo_issued"
  using issued_key_shown_unless_tab_left [of "[ChooseCertUser ''bob'']" certs_opened demo_issued] by simp

text \<open>Days in exponent notation.\<close>

lemma parse_digits_prefix:
  assumes "list_all dec_digit d" and "d \<noteq> []" and "\<not> dec_digit c" and "c \<notin> {CHR ''x'', CHR ''X''}"
  shows "parse_digits (d @ c # s) = Some (read_nat d)"
proof -
  have "takeWhile dec_digit (d @ c # s) = d" using assms(1,3) by (simp add: list_all_iff takeWhile_append2)
  moreover have "take 2 (d @ c # s) \<noteq> ''0x'' \<and> take 2 (d @ c # s) \<noteq> ''0X''"
    using assms(2,4) assms(1) by (cases d; cases "tl d") (auto simp: dec_digit_def)
  ultimately show ?thesis using assms(2) by (simp add: parse_digits_def)
qed

lemma number_text_trim:
  assumes "list_all (\<lambda>c. dec_digit c \<or> c = CHR ''e'') s"
  shows "trim s = s"
proof -
  have "\<forall>w\<in>set white_space. w = [] \<or> hd w \<notin> set s" "\<forall>w\<in>set (map rev white_space). w = [] \<or> hd w \<notin> set (rev s)"
    using assms unfolding white_space_list by (auto simp: list_all_iff dec_digit_def)
  then show ?thesis by (simp add: trim_def trimStart_def trimEnd_def strip_prefixes_other)
qed

lemma exponent_text:
  assumes "1 \<le> n" and "n * 10 ^ m \<le> 3650"
  shows "js_number (show_nat n @ ''e'' @ show_nat m) = Some (of_nat (n * 10 ^ m))
    \<and> parse_int (show_nat n @ ''e'' @ show_nat m) = Some (int n)"
proof -
  define d where "d = show_nat n"
  have d: "list_all dec_digit d" "d \<noteq> []" "read_nat d = n" by (simp_all add: d_def show_nat_digits read_show_nat)
  have k: "list_all dec_digit (show_nat m)" by (rule show_nat_digits)
  let ?s = "d @ CHR ''e'' # show_nat m"
  have ne: "\<not> dec_digit CHR ''e''" by (simp add: dec_digit_def)
  have t: "trim ?s = ?s" using d(1) k by (intro number_text_trim) (auto simp: list_all_iff)
  have m1: "take 1 ?s \<noteq> [c]" if "\<not> dec_digit c" for c using d(1,2) that by (cases d) auto
  have m2: "take 2 ?s \<noteq> [b, c]" if "\<not> dec_digit c" "c \<noteq> CHR ''e''" for b c using d(1,2) that by (cases d; cases "tl d") auto
  have pre: "dec_prefix ?s = (d, CHR ''e'' # show_nat m)"
    using d(1) ne by (simp add: dec_prefix_def list_all_iff takeWhile_append2 dropWhile_append2)
  have h: "take 1 (show_nat m) \<noteq> [c]" if "\<not> dec_digit c" for c using digits_no_mark(2) [OF k that] .
  have e: "exponent (CHR ''e'' # show_nat m) = Some (int m)"
    using k h [of "CHR ''-''"] h [of "CHR ''+''"] by (simp add: exponent_def dec_digit_def read_show_nat del: take_Suc One_nat_def)
  have u: "unsigned_decimal ?s = Some (of_nat (n * 10 ^ m))"
    by (simp add: unsigned_decimal_def pre e d ten_to_def)
  have "rat_of_nat (n * 10 ^ m) \<le> 3650" using assms(2) by (metis of_nat_le_iff of_nat_numeral)
  also have "(3650::rat) < 2 ^ 1024 - 2 ^ 970" by simp
  finally have "rat_of_nat (n * 10 ^ m) < 2 ^ 1024 - 2 ^ 970" .
  moreover have "1 < rat_of_nat (n * 10 ^ m) * 2 ^ 1075"
  proof -
    have "1 \<le> n * 10 ^ m" using assms(1) by simp
    then have "1 \<le> rat_of_nat (n * 10 ^ m)" by (metis of_nat_1 of_nat_le_iff)
    then have "1 * (2::rat) ^ 1075 \<le> rat_of_nat (n * 10 ^ m) * 2 ^ 1075" by (rule mult_right_mono) simp
    moreover have "(1::rat) < 1 * 2 ^ 1075" by simp
    ultimately show ?thesis by (rule less_le_trans [rotated])
  qed
  ultimately have "as_double (of_nat (n * 10 ^ m)) = Some (of_nat (n * 10 ^ m))" by (simp add: as_double_def)
  then have "js_number ?s = Some (of_nat (n * 10 ^ m))"
    using d(2) m1 [of "CHR ''-''"] m1 [of "CHR ''+''"] m2 [of "CHR ''x''" "CHR ''0''"] m2 [of "CHR ''X''" "CHR ''0''"]
      m2 [of "CHR ''o''" "CHR ''0''"] m2 [of "CHR ''O''" "CHR ''0''"] m2 [of "CHR ''b''" "CHR ''0''"] m2 [of "CHR ''B''" "CHR ''0''"]
    by (simp only: js_number_def t u Let_def) (simp add: dec_digit_def u del: take_append One_nat_def)
  moreover have "trimStart ?s = ?s" using d(1,2) by (cases d) (simp_all add: trimStart_plain)
  then have "parse_int ?s = Some (int n)"
    using m1 [of "CHR ''-''"] m1 [of "CHR ''+''"] parse_digits_prefix [OF d(1,2) ne] d(3)
    by (simp only: parse_int_def Let_def) (simp add: dec_digit_def del: take_append One_nat_def)
  ultimately show ?thesis by (simp add: d_def)
qed

text \<open>The field of the days takes a number with an exponent, which \<open>parseInt\<close> reads only up to the exponent: the
  form accepts \<open>2e3\<close> for two thousand days and a certificate for two days is asked for.\<close>
theorem exponent_days_are_lost:
  assumes "1 \<le> n" and "n * 10 ^ m \<le> 3650"
  shows "days_accepted (show_nat n @ ''e'' @ show_nat m)
    \<and> js_number (show_nat n @ ''e'' @ show_nat m) = Some (of_nat (n * 10 ^ m))
    \<and> issue_days (show_nat n @ ''e'' @ show_nat m) = Some (int n)"
proof -
  have "1 \<le> n * 10 ^ m" using assms(1) by simp
  then have "(1::rat) \<le> of_nat (n * 10 ^ m)" by (metis of_nat_1 of_nat_le_iff)
  moreover have "rat_of_nat (n * 10 ^ m) \<le> 3650" using assms(2) by (metis of_nat_le_iff of_nat_numeral)
  moreover have "rat_of_nat (n * 10 ^ m) = of_int \<lfloor>rat_of_nat (n * 10 ^ m)\<rfloor>" by (simp only: floor_of_nat of_int_of_nat_eq)
  moreover have "list_all (\<lambda>c. dec_digit c \<or> c \<in> set ''.eE+-'') (show_nat n @ ''e'' @ show_nat m)"
    using show_nat_digits [of n] show_nat_digits [of m] by (auto simp: list_all_iff)
  ultimately show ?thesis
    using exponent_text [OF assms] by (simp only: days_accepted_def issue_days_def) simp
qed

theorem exponent_days_are_lost_witness:
  "days_accepted ''2e3'' \<and> js_number ''2e3'' = Some 2000 \<and> issue_days ''2e3'' = Some 2"
  using exponent_days_are_lost [of 2 3] by (simp add: show_nat.simps)

end
