(* ===== verification/TagsPage.thy ===== *)
theory TagsPage
  imports PageKit ItemHooks JsValues
begin

text \<open>
  The tags of the user (\<open>pages/tags.tsx\<close>): the palette, the colours as text and as red, green and blue, and the
  form that makes a tag.
\<close>

definition PALETTE :: "string list" where
  "PALETTE = [''#fca5a5'', ''#f87171'', ''#ef4444'', ''#dc2626'', ''#b91c1c'', ''#991b1b'', ''#7f1d1d'', ''#450a0a'',
     ''#fdba74'', ''#fb923c'', ''#f97316'', ''#ea580c'', ''#c2410c'', ''#9a3412'', ''#7c2d12'', ''#431407'',
     ''#fde68a'', ''#fcd34d'', ''#fbbf24'', ''#f59e0b'', ''#d97706'', ''#b45309'', ''#92400e'', ''#451a03'',
     ''#bbf7d0'', ''#86efac'', ''#4ade80'', ''#22c55e'', ''#16a34a'', ''#15803d'', ''#14532d'', ''#052e16'',
     ''#a5f3fc'', ''#67e8f9'', ''#22d3ee'', ''#06b6d4'', ''#0891b2'', ''#0e7490'', ''#155e75'', ''#083344'',
     ''#bfdbfe'', ''#93c5fd'', ''#60a5fa'', ''#3b82f6'', ''#2563eb'', ''#1d4ed8'', ''#1e40af'', ''#172554'',
     ''#e9d5ff'', ''#c4b5fd'', ''#a78bfa'', ''#8b5cf6'', ''#7c3aed'', ''#6d28d9'', ''#5b21b6'', ''#2e1065'',
     ''#fbcfe8'', ''#f9a8d4'', ''#f472b6'', ''#ec4899'', ''#db2777'', ''#be185d'', ''#9d174d'', ''#500724'']"

definition isValidHex :: "string \<Rightarrow> bool" where
  "isValidHex v = (length v = 7 \<and> hd v = CHR ''#'' \<and> list_all (\<lambda>c. hex_val c \<noteq> None) (tl v))"

text \<open>\<open>parseInt(hex.slice(a, a + 2), 16)\<close> of two digits.\<close>

definition hex_pair :: "nat \<Rightarrow> string \<Rightarrow> nat" where
  "hex_pair a hex = read_hex (take 2 (drop a hex))"

definition hexToRgb :: "string \<Rightarrow> (nat \<times> nat \<times> nat) option" where
  "hexToRgb hex = (if isValidHex hex then Some (hex_pair 1 hex, hex_pair 3 hex, hex_pair 5 hex) else None)"

definition preview_color :: "string \<Rightarrow> string" where
  "preview_color v = (if isValidHex v then v else ''#334155'')"

record own_tag =
  ot_id :: string
  ot_name :: string
  ot_color :: "string option"

definition shown_color :: "own_tag \<Rightarrow> string" where
  "shown_color t = (case ot_color t of Some c \<Rightarrow> if isValidHex c then c else ''#64748b'' | None \<Rightarrow> ''#64748b'')"

definition rgba :: "nat \<times> nat \<times> nat \<Rightarrow> string \<Rightarrow> string" where
  "rgba c alpha = (case c of (r, g, b) \<Rightarrow> ''rgba('' @ show_nat r @ '','' @ show_nat g @ '','' @ show_nat b @ '','' @ alpha @ '')'')"

definition tag_gradient :: "own_tag \<Rightarrow> string" where
  "tag_gradient t = (case hexToRgb (shown_color t) of
     Some c \<Rightarrow> ''linear-gradient(90deg, '' @ rgba c ''0.16'' @ '' 0%, '' @ rgba c ''0.03'' @ '' 100%)'' | None \<Rightarrow> ''none'')"

definition tag_address :: "own_tag \<Rightarrow> string" where
  "tag_address t = ''/inventory?tag='' @ ot_id t"

record tags_page =
  tgp_name :: string
  tgp_color :: string
  tgp_palette :: bool
  tgp_creating :: bool

definition tags_mounted :: tags_page where
  "tags_mounted = \<lparr>tgp_name = [], tgp_color = [], tgp_palette = False, tgp_creating = False\<rparr>"

datatype tags_event = TypeTag string | TypeColor string | FlipPalette | ClickOutside | PickColor string | NoColor
  | SubmitTag | TagCreated bool | DeleteTag own_tag

fun tags_step :: "tags_page \<Rightarrow> tags_event \<Rightarrow> tags_page" where
  "tags_step p (TypeTag s) = p\<lparr>tgp_name := s\<rparr>"
| "tags_step p (TypeColor s) = p\<lparr>tgp_color := s\<rparr>"
| "tags_step p FlipPalette = p\<lparr>tgp_palette := \<not> tgp_palette p\<rparr>"
| "tags_step p ClickOutside = p\<lparr>tgp_palette := False\<rparr>"
| "tags_step p (PickColor c) = p\<lparr>tgp_color := c, tgp_palette := False\<rparr>"
| "tags_step p NoColor = p\<lparr>tgp_color := [], tgp_palette := False\<rparr>"
| "tags_step p SubmitTag = (if trim (tgp_name p) = [] then p else p\<lparr>tgp_creating := True\<rparr>)"
| "tags_step p (TagCreated ok) = (let p' = p\<lparr>tgp_creating := False\<rparr> in if ok then p'\<lparr>tgp_name := [], tgp_color := []\<rparr> else p')"
| "tags_step p (DeleteTag t) = p"

definition tag_json :: "tags_page \<Rightarrow> json" where
  "tag_json p = JObj ((''name'', JStr (trim (tgp_name p)))
     # opt_str ''color'' (if isValidHex (tgp_color p) then Some (tgp_color p) else None))"

fun tags_sends :: "tags_page \<Rightarrow> tags_event \<Rightarrow> mutation_hook list" where
  "tags_sends p SubmitTag = (if trim (tgp_name p) = [] then [] else [useCreateTagMutation (tag_json p)])"
| "tags_sends p (DeleteTag t) = [useDeleteTagMutation (ot_id t)]"
| "tags_sends p _ = []"

fun tags_can :: "own_tag list \<Rightarrow> tags_page \<Rightarrow> tags_event \<Rightarrow> bool" where
  "tags_can ts p (PickColor c) = (tgp_palette p \<and> c \<in> set PALETTE)"
| "tags_can ts p NoColor = tgp_palette p"
| "tags_can ts p ClickOutside = tgp_palette p"
| "tags_can ts p (TypeTag s) = (js_length s \<le> 64)"
| "tags_can ts p (TypeColor s) = (js_length s \<le> 7)"
| "tags_can ts p SubmitTag = (trim (tgp_name p) \<noteq> [] \<and> \<not> tgp_creating p)"
| "tags_can ts p (TagCreated ok) = tgp_creating p"
| "tags_can ts p (DeleteTag t) = (t \<in> set ts)"
| "tags_can ts p FlipPalette = True"

subsection \<open>Properties\<close>

lemma hex_val_bound: "hex_val c = Some v \<Longrightarrow> v < 16"
  by (auto simp: hex_val_def Let_def split: if_splits)

text \<open>A byte as two digits.\<close>

definition hex_char :: "nat \<Rightarrow> char" where "hex_char n = ''0123456789abcdef'' ! n"

lemma hex_val_char [simp]: "n < 16 \<Longrightarrow> hex_val (hex_char n) = Some n"
proof -
  assume "n < 16"
  then have "n \<in> {0, 1, 2, 3, 4, 5, 6, 7, 8, 9, 10, 11, 12, 13, 14, 15}" by simp arith
  then show ?thesis by (auto simp: hex_char_def hex_val_def)
qed

definition byte_text :: "nat \<Rightarrow> string" where "byte_text n = [hex_char (n div 16), hex_char (n mod 16)]"

definition rgb_text :: "nat \<Rightarrow> nat \<Rightarrow> nat \<Rightarrow> string" where
  "rgb_text r g b = ''#'' @ byte_text r @ byte_text g @ byte_text b"

lemma read_byte: "n < 256 \<Longrightarrow> read_hex (byte_text n) = n"
  by (simp add: read_hex_def byte_text_def)

lemma byte_digits: "list_all (\<lambda>c. hex_val c \<noteq> None) (byte_text n)" if "n < 256"
  using that by (simp add: byte_text_def)

lemma rgb_read:
  assumes "r < 256" and "g < 256" and "b < 256"
  shows "hexToRgb (rgb_text r g b) = Some (r, g, b)"
proof -
  have l: "length (byte_text n) = 2" for n by (simp add: byte_text_def)
  have "isValidHex (rgb_text r g b)" using assms byte_digits by (simp add: isValidHex_def rgb_text_def l)
  moreover have "hex_pair 1 (rgb_text r g b) = r" "hex_pair 3 (rgb_text r g b) = g" "hex_pair 5 (rgb_text r g b) = b"
    using assms read_byte l by (simp_all add: hex_pair_def rgb_text_def)
  ultimately show ?thesis by (simp add: hexToRgb_def)
qed

lemma palette_valid: "list_all isValidHex PALETTE"
  by (simp add: PALETTE_def isValidHex_def hex_val_def)

lemma hex_pair_bound:
  assumes "isValidHex v" and "a \<in> {1, 3, 5}"
  shows "hex_pair a v < 256"
proof -
  obtain c0 c1 c2 c3 c4 c5 c6 where v: "v = [c0, c1, c2, c3, c4, c5, c6]"
    using assms(1) by (auto simp: isValidHex_def numeral_eq_Suc length_Suc_conv)
  have "\<forall>c\<in>{c1, c2, c3, c4, c5, c6}. \<exists>u. hex_val c = Some u \<and> u < 16"
    using assms(1) v hex_val_bound by (auto simp: isValidHex_def)
  then show ?thesis using assms(2) v by (auto simp: hex_pair_def read_hex_def)
qed

text \<open>A colour that was read has three components below 256, and written with two digits each it is read as the
  same colour again.\<close>
theorem colour_round_trip:
  assumes "hexToRgb v = Some (r, g, b)"
  shows "r < 256 \<and> g < 256 \<and> b < 256 \<and> hexToRgb (rgb_text r g b) = Some (r, g, b)"
proof -
  have "isValidHex v" "r = hex_pair 1 v" "g = hex_pair 3 v" "b = hex_pair 5 v"
    using assms by (auto simp: hexToRgb_def split: if_splits)
  then have "r < 256" "g < 256" "b < 256" using hex_pair_bound by auto
  with rgb_read show ?thesis by simp
qed

theorem colour_round_trip_witness: "hexToRgb (rgb_text 59 130 246) = Some (59, 130, 246)"
proof -
  have "hexToRgb ''#3b82f6'' = Some (59, 130, 246)"
    by (simp add: hexToRgb_def isValidHex_def hex_pair_def read_hex_def hex_val_def)
  from colour_round_trip [OF this] show ?thesis by blast
qed

text \<open>A colour that is not a valid one is not refused: the tag is made without a colour.\<close>
theorem invalid_colour_is_dropped:
  assumes "trim (tgp_name p) \<noteq> []" and "\<not> isValidHex (tgp_color p)"
  shows "tags_sends p SubmitTag = [useCreateTagMutation (JObj [(''name'', JStr (trim (tgp_name p)))])]"
  using assms by (simp add: tag_json_def opt_str_def)

theorem invalid_colour_is_dropped_witness:
  "tags_sends (foldl tags_step tags_mounted [TypeTag ''db'', TypeColor ''#3b82f'']) SubmitTag = [useCreateTagMutation (JObj [(''name'', JStr ''db'')])]"
  using invalid_colour_is_dropped [of "foldl tags_step tags_mounted [TypeTag ''db'', TypeColor ''#3b82f'']"]
  by (simp add: isValidHex_def trim_eval)

end
