(* ===== verification/AccessRequestsPage.thy ===== *)
theory AccessRequestsPage
  imports Paging ItemHooks PageKit
begin

text \<open>
  The page of the requests for access (\<open>pages/access-requests.tsx\<close>): the filter by state, the two sections of the
  list, and the dialogs that grant a request for a time or refuse it.
\<close>

datatype request_status = Pending | Approved | Denied | Expired | Cancelled

fun status_text :: "request_status \<Rightarrow> string" where
  "status_text Pending = ''pending''"
| "status_text Approved = ''approved''"
| "status_text Denied = ''denied''"
| "status_text Expired = ''expired''"
| "status_text Cancelled = ''cancelled''"

record AccessRequest =
  ar_id :: string
  ar_item_id :: string
  ar_item_name :: "string option"
  ar_requester_id :: string
  ar_requester_name :: "string option"
  ar_status :: request_status
  ar_access_duration_minutes :: nat
  ar_expires_at :: "string option"

text \<open>\<open>'all'\<close> stands for no filter.\<close>

definition requests_query :: "request_status option \<Rightarrow> query_hook" where
  "requests_query f = useAccessRequestsQuery (Some (map_option status_text f, None))"

definition pending_section :: "request_status option \<Rightarrow> AccessRequest list \<Rightarrow> AccessRequest list" where
  "pending_section f rs = (if f = None then filter (\<lambda>r. ar_status r = Pending) rs else [])"

definition other_section :: "request_status option \<Rightarrow> AccessRequest list \<Rightarrow> AccessRequest list" where
  "other_section f rs = (if f = None then filter (\<lambda>r. ar_status r \<noteq> Pending) rs else rs)"

definition row_buttons :: "bool \<Rightarrow> AccessRequest \<Rightarrow> bool" where
  "row_buttons isAdmin r = (isAdmin \<and> ar_status r = Pending)"

definition row_names :: "AccessRequest \<Rightarrow> string \<times> string" where
  "row_names r = (if truthy (ar_item_name r) then the (ar_item_name r) else ar_item_id r,
     if truthy (ar_requester_name r) then the (ar_requester_name r) else ar_requester_id r)"

text \<open>A time is shown as a distance when it can be read, and as it is when the library throws.\<close>

definition relTime :: "(string \<Rightarrow> string option) \<Rightarrow> string \<Rightarrow> string" where
  "relTime distance t = nullish (distance t) t"

definition formatExpiry :: "(string \<Rightarrow> string option) \<Rightarrow> string option \<Rightarrow> string" where
  "formatExpiry distance t = (if truthy t then relTime distance (the t) else [CHR 0xE2, CHR 0x80, CHR 0x94])"

text \<open>The dialog that grants: what is in the field is read as a number at every key; \<open>None\<close> is no number. The field
  gives an empty text for what it does not take for a number.\<close>

record approve_dialog =
  ad_request :: AccessRequest
  ad_duration :: "rat option"

record deny_dialog =
  dd_request :: AccessRequest
  dd_reason :: string

record requests_page =
  rq_filter :: "request_status option"
  rq_approving :: "approve_dialog option"
  rq_denying :: "deny_dialog option"
  rq_granting :: nat
  rq_refusing :: nat

definition requests_mounted :: requests_page where
  "requests_mounted = \<lparr>rq_filter = None, rq_approving = None, rq_denying = None, rq_granting = 0, rq_refusing = 0\<rparr>"

datatype request_event = ChooseStatus "request_status option" | OpenApprove AccessRequest | TypeDuration string | LeaveApprove | PressApprove
  | ApproveSettled bool | OpenDeny AccessRequest | TypeReason string | LeaveDeny | PressDeny | DenySettled bool

text \<open>An answer closes the dialog of its sort that is open when it comes; a failure is caught by nobody and leaves
  the dialog as it is, without a word.\<close>

fun requests_step :: "requests_page \<Rightarrow> request_event \<Rightarrow> requests_page" where
  "requests_step p (ChooseStatus f) = p\<lparr>rq_filter := f\<rparr>"
| "requests_step p (OpenApprove r) =
     p\<lparr>rq_approving := Some \<lparr>ad_request = r, ad_duration = Some (of_nat (ar_access_duration_minutes r))\<rparr>\<rparr>"
| "requests_step p (TypeDuration s) = p\<lparr>rq_approving := map_option (\<lambda>d. d\<lparr>ad_duration := js_number s\<rparr>) (rq_approving p)\<rparr>"
| "requests_step p LeaveApprove = p\<lparr>rq_approving := None\<rparr>"
| "requests_step p PressApprove = p\<lparr>rq_granting := rq_granting p + 1\<rparr>"
| "requests_step p (ApproveSettled ok) = p\<lparr>rq_granting := rq_granting p - 1, rq_approving := (if ok then None else rq_approving p)\<rparr>"
| "requests_step p (OpenDeny r) = p\<lparr>rq_denying := Some \<lparr>dd_request = r, dd_reason = []\<rparr>\<rparr>"
| "requests_step p (TypeReason s) = p\<lparr>rq_denying := map_option (\<lambda>d. d\<lparr>dd_reason := s\<rparr>) (rq_denying p)\<rparr>"
| "requests_step p LeaveDeny = p\<lparr>rq_denying := None\<rparr>"
| "requests_step p PressDeny = p\<lparr>rq_refusing := rq_refusing p + 1\<rparr>"
| "requests_step p (DenySettled ok) = p\<lparr>rq_refusing := rq_refusing p - 1, rq_denying := (if ok then None else rq_denying p)\<rparr>"

text \<open>What is sent: the id and the minutes, or the id and the reason.\<close>

definition grants :: "requests_page \<Rightarrow> request_event \<Rightarrow> (string \<times> rat option) list" where
  "grants p e = (case (e, rq_approving p) of (PressApprove, Some d) \<Rightarrow> [(ar_id (ad_request d), ad_duration d)] | _ \<Rightarrow> [])"

definition grant_hook :: "string \<times> int \<Rightarrow> mutation_hook" where
  "grant_hook g = useApproveAccessRequestMutation (fst g) (Some (JObj [(''access_duration_minutes'', JNum (snd g))]))"

definition refusals :: "requests_page \<Rightarrow> request_event \<Rightarrow> mutation_hook list" where
  "refusals p e = (case (e, rq_denying p) of
     (PressDeny, Some d) \<Rightarrow> [useDenyAccessRequestMutation (ar_id (dd_request d)) (JObj [(''reason'', JStr (dd_reason d))])] | _ \<Rightarrow> [])"

text \<open>The button asks only that the number is not below or at zero; what is no number passes. A dialog of its own
  has its own request: the new one does not wait for that of a dialog left before.\<close>

fun requests_can :: "bool \<Rightarrow> AccessRequest list \<Rightarrow> requests_page \<Rightarrow> request_event \<Rightarrow> bool" where
  "requests_can isAdmin rs p (ChooseStatus f) = (rq_approving p = None \<and> rq_denying p = None)"
| "requests_can isAdmin rs p (OpenApprove r) = (rq_approving p = None \<and> rq_denying p = None \<and> row_buttons isAdmin r
     \<and> r \<in> set (pending_section (rq_filter p) rs) \<union> set (other_section (rq_filter p) rs))"
| "requests_can isAdmin rs p (TypeDuration s) = (rq_approving p \<noteq> None)"
| "requests_can isAdmin rs p LeaveApprove = (rq_approving p \<noteq> None)"
| "requests_can isAdmin rs p PressApprove = (case rq_approving p of None \<Rightarrow> False
     | Some d \<Rightarrow> (case ad_duration d of None \<Rightarrow> True | Some q \<Rightarrow> 0 < q))"
| "requests_can isAdmin rs p (ApproveSettled ok) = (0 < rq_granting p)"
| "requests_can isAdmin rs p (OpenDeny r) = (rq_approving p = None \<and> rq_denying p = None \<and> row_buttons isAdmin r
     \<and> r \<in> set (pending_section (rq_filter p) rs) \<union> set (other_section (rq_filter p) rs))"
| "requests_can isAdmin rs p (TypeReason s) = (rq_denying p \<noteq> None)"
| "requests_can isAdmin rs p LeaveDeny = (rq_denying p \<noteq> None)"
| "requests_can isAdmin rs p PressDeny = (rq_denying p \<noteq> None)"
| "requests_can isAdmin rs p (DenySettled ok) = (0 < rq_refusing p)"

subsection \<open>Properties\<close>

definition requests_ok :: "bool \<Rightarrow> AccessRequest list \<Rightarrow> requests_page \<Rightarrow> bool" where
  "requests_ok isAdmin rs p =
     ((\<forall>d. rq_approving p = Some d \<longrightarrow> isAdmin \<and> ad_request d \<in> set rs \<and> ar_status (ad_request d) = Pending)
      \<and> (\<forall>d. rq_denying p = Some d \<longrightarrow> isAdmin \<and> dd_request d \<in> set rs \<and> ar_status (dd_request d) = Pending))"

lemma sections_hold: "set (pending_section f rs) \<union> set (other_section f rs) \<subseteq> set rs"
  by (auto simp: pending_section_def other_section_def)

interpretation requests: machine "requests_can isAdmin rs" requests_step "requests_ok isAdmin rs" for isAdmin rs
proof
  fix p e assume "requests_ok isAdmin rs p" "requests_can isAdmin rs p e"
  then show "requests_ok isAdmin rs (requests_step p e)"
    using sections_hold [of "rq_filter p" rs] by (cases e) (auto simp: requests_ok_def row_buttons_def split: if_splits)
qed

text \<open>Only an administrator grants, only requests of the list that were pending when the dialog was opened, and never
  for a number of minutes that is zero or less.\<close>
theorem only_pending_requests_granted:
  assumes "possible_run (requests_can isAdmin rs) requests_step requests_mounted (es @ [PressApprove])"
    and "(i, q) \<in> set (grants (foldl requests_step requests_mounted es) PressApprove)"
  shows "isAdmin \<and> (\<exists>r\<in>set rs. ar_id r = i \<and> ar_status r = Pending) \<and> (\<forall>x. q = Some x \<longrightarrow> 0 < x)"
proof -
  let ?p = "foldl requests_step requests_mounted es"
  have "requests_ok isAdmin rs requests_mounted" by (simp add: requests_ok_def requests_mounted_def)
  from requests.prefix_keeps [OF this assms(1)] have ok: "requests_ok isAdmin rs ?p" .
  have can: "requests_can isAdmin rs ?p PressApprove"
    using assms(1) by (simp add: possible_run_append)
  show ?thesis using ok can assms(2)
    by (cases "rq_approving ?p") (auto simp: requests_ok_def grants_def split: option.splits)
qed

definition demo_request :: AccessRequest where
  "demo_request = \<lparr>ar_id = ''r1'', ar_item_id = ''i1'', ar_item_name = None, ar_requester_id = ''u1'', ar_requester_name = None,
     ar_status = Pending, ar_access_duration_minutes = 60, ar_expires_at = None\<rparr>"

theorem only_pending_requests_granted_witness:
  "grants (foldl requests_step requests_mounted [OpenApprove demo_request]) PressApprove = [(''r1'', Some 60)]
   \<and> (\<exists>r\<in>set [demo_request]. ar_id r = ''r1'' \<and> ar_status r = Pending)"
proof -
  have g: "grants (foldl requests_step requests_mounted [OpenApprove demo_request]) PressApprove = [(''r1'', Some 60)]"
    by (simp add: grants_def demo_request_def)
  moreover have "possible_run (requests_can True [demo_request]) requests_step requests_mounted ([OpenApprove demo_request] @ [PressApprove])"
    by (simp add: requests_mounted_def row_buttons_def demo_request_def pending_section_def)
  from only_pending_requests_granted [OF this, of "''r1''" "Some 60"] g have "\<exists>r\<in>set [demo_request]. ar_id r = ''r1'' \<and> ar_status r = Pending"
    by simp
  ultimately show ?thesis by blast
qed

text \<open>The day that the dialog promises as the most is not asked for: any whole number of minutes above zero that is
  typed is sent as it is.\<close>
theorem any_duration_is_granted:
  assumes "0 < n" and "n \<le> 2 ^ 53" and "row_buttons True r" and "r \<in> set rs"
  shows "possible_run (requests_can True rs) requests_step requests_mounted [OpenApprove r, TypeDuration (show_nat n), PressApprove]
    \<and> grants (foldl requests_step requests_mounted [OpenApprove r, TypeDuration (show_nat n)]) PressApprove = [(ar_id r, Some (of_nat n))]"
  using assms by (simp add: requests_mounted_def grants_def pending_section_def row_buttons_def)

theorem any_duration_is_granted_witness:
  "grants (foldl requests_step requests_mounted [OpenApprove demo_request, TypeDuration ''525600'']) PressApprove = [(''r1'', Some 525600)]"
  using any_duration_is_granted [of 525600 demo_request "[demo_request]"]
  by (simp add: row_buttons_def demo_request_def show_nat.simps)

end
