(* ===== verification/Overviews.thy ===== *)
theory Overviews
  imports Complex_Main UserAdmin CatalogHooks ItemTabs
begin

text \<open>
  The overviews: the dashboard of the administration (\<open>pages/admin/dashboard.tsx\<close>), and how long an item is still
  good for as the list of items (\<open>components/inventory/item-list.tsx\<close>), the page of the item and the first page of the
  portal (\<open>pages/portal-home/index.tsx\<close>) show it.
\<close>

subsection \<open>The security score\<close>

record user_stats =
  us_total :: nat
  us_active :: nat
  us_noMFA :: nat
  us_disabled :: nat
  us_admins :: nat
  us_score :: int

text \<open>\<open>Math.round\<close> of the score, with the fraction of the active users kept exactly.\<close>

definition security_score :: "nat \<Rightarrow> nat \<Rightarrow> nat \<Rightarrow> int" where
  "security_score allUsers active noMFA =
     (let mfaRate = (if 0 < allUsers then of_nat active / of_nat allUsers else 0) :: rat
      in min 100 \<lfloor>40 + mfaRate * 50 + (if noMFA = 0 then 10 else 0) + 1 / 2\<rfloor>)"

definition userStats :: "AdminUser list \<Rightarrow> nat option \<Rightarrow> user_stats" where
  "userStats users answered =
     (let allUsers = nullish answered (length users);
          active = length (filter (\<lambda>u. au_status u = ActiveUser) users);
          noMFA = length (filter (\<lambda>u. au_status u = PendingTotp) users)
      in \<lparr>us_total = allUsers, us_active = active, us_noMFA = noMFA,
          us_disabled = length (filter (\<lambda>u. au_status u = DisabledUser \<or> au_status u = LockedUser) users),
          us_admins = length (filter (\<lambda>u. ''admin'' \<in> set (au_roles u)) users),
          us_score = security_score allUsers active noMFA\<rparr>)"

datatype gauge_color = GaugeGreen | GaugeAmber | GaugeRed

definition gauge_color :: "int \<Rightarrow> gauge_color" where
  "gauge_color v = (if 80 \<le> v then GaugeGreen else if 50 \<le> v then GaugeAmber else GaugeRed)"

subsection \<open>Exports\<close>

record exports =
  ex_exporting :: "ExportFormat option"
  ex_encExporting :: bool
  ex_custom :: bool
  ex_customScope :: string

definition exports_mounted :: exports where
  "exports_mounted = \<lparr>ex_exporting = None, ex_encExporting = False, ex_custom = False, ex_customScope = []\<rparr>"

definition export_scope :: "exports \<Rightarrow> string" where
  "export_scope x = (if ex_custom x then trim (ex_customScope x) else ''all'')"

datatype export_event = PressExport ExportFormat | ExportSettled | ChooseScope bool | TypeScope string | PressEncrypted | EncryptedSettled

fun exports_step :: "exports \<Rightarrow> export_event \<Rightarrow> exports" where
  "exports_step x (PressExport f) = (if ex_exporting x = None then x\<lparr>ex_exporting := Some f\<rparr> else x)"
| "exports_step x ExportSettled = x\<lparr>ex_exporting := None\<rparr>"
| "exports_step x (ChooseScope b) = x\<lparr>ex_custom := b\<rparr>"
| "exports_step x (TypeScope s) = x\<lparr>ex_customScope := s\<rparr>"
| "exports_step x PressEncrypted = (if ex_encExporting x \<or> export_scope x = [] then x else x\<lparr>ex_encExporting := True\<rparr>)"
| "exports_step x EncryptedSettled = x\<lparr>ex_encExporting := False\<rparr>"

text \<open>What the download of the encrypted export is asked for; the attachments are never taken along.\<close>

fun export_asks :: "exports \<Rightarrow> export_event \<Rightarrow> json list" where
  "export_asks x PressEncrypted = (if ex_encExporting x \<or> export_scope x = [] then []
     else [JObj [(''scope'', JStr (export_scope x)), (''include_attachments'', JBool False)]])"
| "export_asks x _ = []"

definition expiryNotifs :: "(string \<times> 'n) list \<Rightarrow> (string \<times> 'n) list" where
  "expiryNotifs ns = filter (\<lambda>n. take 6 (fst n) = ''expiry'') ns"

subsection \<open>How long an item is good for\<close>

datatype ExpiryStatus = StatusExpired | StatusWarning

definition getExpiryStatus :: "(string \<Rightarrow> int option) \<Rightarrow> int \<Rightarrow> string option \<Rightarrow> ExpiryStatus option" where
  "getExpiryStatus getTime now expiresAt =
     (if \<not> truthy expiresAt then None
      else case getTime (the expiresAt) of
        None \<Rightarrow> None
      | Some e \<Rightarrow> if e \<le> now then Some StatusExpired
                  else if e \<le> now + 7 * 24 * 60 * 60 * 1000 then Some StatusWarning else None)"

text \<open>\<open>Math.ceil((exp - now) / day)\<close>, and the colour of the label.\<close>

definition days_left :: "int \<Rightarrow> int \<Rightarrow> int" where
  "days_left now e = - ((now - e) div (1000 * 60 * 60 * 24))"

datatype days_tone = DaysRed | DaysAmber | DaysMuted

definition ExpiryLabel :: "int \<Rightarrow> int \<Rightarrow> days_tone \<times> string" where
  "ExpiryLabel now e =
     (let d = days_left now e
      in (if d \<le> 7 then DaysRed else if d \<le> 30 then DaysAmber else DaysMuted,
          show_int d @ ''g i'' @ [CHR 0xC3, CHR 0xA7] @ ''inde doluyor''))"

subsection \<open>Properties\<close>

lemma floor_capped: "(min 100 \<lfloor>x :: rat\<rfloor> = 100) = (100 \<le> x)"
proof -
  have "(min 100 \<lfloor>x\<rfloor> = 100) = (100 \<le> \<lfloor>x\<rfloor>)" by linarith
  then show ?thesis by (simp add: le_floor_iff)
qed

lemma security_score_bounds':
  assumes "length users \<le> nullish answered (length users)"
  defines "s \<equiv> userStats users answered"
  shows "40 \<le> us_score s \<and> us_score s \<le> 100
    \<and> (us_score s = 100) = (us_noMFA s = 0 \<and> 0 < us_total s \<and> 99 * us_total s \<le> 100 * us_active s)"
proof -
  define t a m where "t = us_total s" and "a = us_active s" and "m = us_noMFA s"
  have sc: "us_score s = security_score t a m" and at: "a \<le> t"
    using assms(1) le_trans [OF length_filter_le] by (auto simp: s_def userStats_def Let_def t_def a_def m_def)
  define q where "q = (if 0 < t then of_nat a / of_nat t else 0 :: rat)"
  have q: "0 \<le> q" "q \<le> 1" using at by (auto simp: q_def)
  have full: "(99 / 100 \<le> q) = (0 < t \<and> 99 * t \<le> 100 * a)"
  proof (cases "0 < t")
    case True
    then have "(99 / 100 \<le> q) = (99 * rat_of_nat t \<le> 100 * rat_of_nat a)"
      by (simp add: q_def divide_le_eq pos_le_divide_eq mult.commute)
    also have "\<dots> = (99 * t \<le> 100 * a)" by (metis of_nat_le_iff of_nat_mult of_nat_numeral)
    finally show ?thesis using True by simp
  qed (simp add: q_def)
  have sd: "security_score t a m = min 100 \<lfloor>40 + q * 50 + (if m = 0 then 10 else 0) + 1 / 2\<rfloor>"
    by (simp add: security_score_def q_def)
  have "40 \<le> security_score t a m" unfolding sd using q(1) by (simp add: le_floor_iff)
  moreover have "(security_score t a m = 100) = (m = 0 \<and> 99 / 100 \<le> q)"
    unfolding sd floor_capped using q(2) by auto
  ultimately show ?thesis using full by (simp add: sc sd) (simp add: t_def a_def m_def)
qed

text \<open>With the total of the users at least as large as the number of those fetched, the score lies between 40 and 100,
  and it is 100 exactly when nobody lacks the second factor and at least ninety-nine in a hundred are active: some
  disabled accounts do not keep it from being full.\<close>
theorem security_score_bounds:
  assumes "length users \<le> nullish answered (length users)"
  shows "40 \<le> us_score (userStats users answered) \<and> us_score (userStats users answered) \<le> 100
    \<and> (us_score (userStats users answered) = 100)
      = (us_noMFA (userStats users answered) = 0 \<and> 0 < us_total (userStats users answered)
         \<and> 99 * us_total (userStats users answered) \<le> 100 * us_active (userStats users answered))"
  by (rule security_score_bounds' [OF assms])

definition demo_user :: "nat \<Rightarrow> user_status \<Rightarrow> AdminUser" where
  "demo_user n st = \<lparr>au_id = show_nat n, au_username = ''u'', au_email = ''u@x'', au_status = st, au_roles = [], au_is_break_glass = False,
     au_totp_required = True, au_requires_client_cert = False, au_webauthn_required = False\<rparr>"

theorem security_score_bounds_witness:
  "us_score (userStats (demo_user 0 DisabledUser # map (\<lambda>n. demo_user n ActiveUser) [1..<100]) None) = 100"
proof -
  let ?us = "demo_user 0 DisabledUser # map (\<lambda>n. demo_user n ActiveUser) [1..<100]"
  have f: "filter (\<lambda>u. au_status u = ActiveUser) (map (\<lambda>n. demo_user n ActiveUser) ns) = map (\<lambda>n. demo_user n ActiveUser) ns"
    "filter (\<lambda>u. au_status u = PendingTotp) (map (\<lambda>n. demo_user n ActiveUser) ns) = []" for ns
    by (induction ns) (simp_all add: demo_user_def)
  have "us_noMFA (userStats ?us None) = 0" "us_total (userStats ?us None) = 100" "us_active (userStats ?us None) = 99"
    by (simp_all add: userStats_def f Let_def) (simp_all add: demo_user_def)
  then show ?thesis using security_score_bounds [of ?us None] by simp
qed

text \<open>The score compares those of the users that were fetched, at most five hundred, with the total of all: from five
  hundred and six users on it is below 100 although every single one is active.\<close>
theorem many_users_never_full:
  assumes "length users \<le> 500" and "answered = Some n" and "505 < n"
  shows "us_score (userStats users answered) < 100"
proof -
  have a: "us_active (userStats users answered) \<le> 500" "us_total (userStats users answered) = n"
    using assms(1,2) le_trans [OF length_filter_le] by (simp_all add: userStats_def Let_def)
  have "length users \<le> nullish answered (length users)" using assms by simp
  from security_score_bounds' [OF this] a assms(3) show ?thesis by linarith
qed

theorem many_users_never_full_witness:
  "us_score (userStats (map (\<lambda>n. demo_user n ActiveUser) [0..<500]) (Some 506)) < 100"
  by (rule many_users_never_full [of _ _ 506]) simp_all

text \<open>Days counted up and milliseconds compared.\<close>

lemma days_left_le: "days_left now e \<le> n \<longleftrightarrow> e - now \<le> n * 86400000"
proof -
  define q r where "q = (now - e) div 86400000" and "r = (now - e) mod 86400000"
  have "now - e = 86400000 * q + r" "0 \<le> r" "r < 86400000" by (simp_all add: q_def r_def)
  then have "- q \<le> n \<longleftrightarrow> e - now \<le> n * 86400000" by (cases "- q \<le> n"; linarith)
  then show ?thesis by (simp add: days_left_def q_def)
qed

text \<open>C39: The list of items, the page of an item and the label of the portal agree on when an item has expired and when
  it is about to: expired is at most zero days, the warning of the list one to seven days, and the page of the item
  warns exactly when the list shows either.\<close>
theorem expiry_views_agree:
  assumes "i_expires_at item = Some t" and "t \<noteq> []" and "getTime t = Some e"
  shows "(getExpiryStatus getTime now (i_expires_at item) = Some StatusExpired) = (days_left now e \<le> 0)
    \<and> (getExpiryStatus getTime now (i_expires_at item) = Some StatusWarning) = (1 \<le> days_left now e \<and> days_left now e \<le> 7)
    \<and> isExpired getTime now item = (days_left now e \<le> 0)
    \<and> isWarning getTime now item = (getExpiryStatus getTime now (i_expires_at item) \<noteq> None)
    \<and> (fst (ExpiryLabel now e) = DaysRed) = (getExpiryStatus getTime now (i_expires_at item) \<noteq> None)"
proof -
  have d: "days_left now e \<le> 0 \<longleftrightarrow> e \<le> now" "days_left now e \<le> 7 \<longleftrightarrow> e \<le> now + 604800000"
    using days_left_le [of now e 0] days_left_le [of now e 7] by auto
  have "1 \<le> days_left now e \<longleftrightarrow> \<not> days_left now e \<le> 0" by auto
  then show ?thesis
    using assms d by (auto simp: getExpiryStatus_def isExpired_def isWarning_def expDate_def ExpiryLabel_def Let_def)
qed

definition expiring_item :: shown_item where
  "expiring_item = \<lparr>i_id = ''i'', i_item_type_id = 1, i_name = ''i'', i_description = None, i_fields = None, i_owner_dek_wrapped = None,
     i_owner_wrap_nonce = None, i_expires_at = Some ''tomorrow'', i_rotation_interval_days = None, xi_created_by = ''u'',
     xi_permission = ''read'', xi_last_rotated_at = None, xi_requires_approval = False, xi_my_access_request = None, xi_kind = None\<rparr>"

theorem expiry_views_agree_witness:
  "getExpiryStatus (\<lambda>t. if t = ''tomorrow'' then Some 86400000 else None) 0 (i_expires_at expiring_item) = Some StatusWarning
   \<and> isWarning (\<lambda>t. if t = ''tomorrow'' then Some 86400000 else None) 0 expiring_item"
proof -
  have "days_left 0 86400000 = 1" by (simp add: days_left_def)
  then show ?thesis
    using expiry_views_agree [of expiring_item "''tomorrow''" "\<lambda>t. if t = ''tomorrow'' then Some 86400000 else None" 86400000 0]
    by (simp add: expiring_item_def)
qed

end
