(* ===== verification/DesktopItemPage.thy ===== *)
theory DesktopItemPage
  imports ItemTabFacts DesktopHooks
begin

text \<open>
  The item page of the desktop application (\<open>client/src/components/inventory/item-detail.tsx\<close> with its
  \<open>item-tag-picker.tsx\<close>): decryption, the header, and the tabs of fields, relationships, lifecycle and history.
  It is the web page with fewer tabs: every event refines one of the web page. \<open>ItemPages\<close> adds what both pages share
  (attachments, open sections, the tag picker's text, queries) and states the refinement of whole pages.
\<close>

subsection \<open>Decryption\<close>

text \<open>The effect runs whenever the item or the key changes; what it ends with, when nothing overtakes it.\<close>

definition cl_decrypt_fields :: "'r webcrypto \<Rightarrow> bytes \<Rightarrow> ItemField list \<Rightarrow> (nat \<times> string) list" where
  "cl_decrypt_fields wc dek fs =
     foldl (\<lambda>out f. case decrypt_stored wc dek f of
         None \<Rightarrow> out | Some plain \<Rightarrow> AList.update (if_field_definition_id f) plain out) [] fs"

definition cl_decrypt_effect :: "'r webcrypto \<Rightarrow> Item option \<Rightarrow> bytes option \<Rightarrow> DecryptionState" where
  "cl_decrypt_effect wc item privateKey =
     (case (item, privateKey) of
        (Some i, Some k) \<Rightarrow>
          (if \<not> truthy (i_owner_dek_wrapped i) \<or> \<not> truthy (i_owner_wrap_nonce i) then DecryptionError MissingOwnerKey
           else case open_owner_key (cl_openDEKWithKEK wc) (the (i_owner_dek_wrapped i)) (the (i_owner_wrap_nonce i)) k of
               Inl e \<Rightarrow> DecryptionError (DetailFailed e)
             | Inr dek \<Rightarrow> Decrypted (cl_decrypt_fields wc dek (nullish (i_fields i) [])))
      | _ \<Rightarrow> Idle)"

lemma cl_decrypt_fields_eq: "cl_decrypt_fields = decrypt_all"
  by (simp add: fun_eq_iff cl_decrypt_fields_def decrypt_all_def)

lemma cl_decrypt_effect_eq: "cl_decrypt_effect wc item k = decrypt_item wc (cl_openDEKWithKEK wc) item k"
  by (simp add: cl_decrypt_effect_def decrypt_item_def decrypt_start_def decrypt_settled_def cl_decrypt_fields_eq
      split: option.splits sum.splits)

subsection \<open>What the page shows\<close>

datatype detail_view = NothingChosen | DetailLoading | DetailUnreadable | DetailShown shown_item

definition cl_detail_view :: "string option \<Rightarrow> shown_item query_data \<Rightarrow> detail_view" where
  "cl_detail_view itemId q =
     (if \<not> truthy itemId then NothingChosen
      else case q of Loading \<Rightarrow> DetailLoading | Failed \<Rightarrow> DetailUnreadable | Loaded item \<Rightarrow> DetailShown item)"

datatype expiry_badge = NoBadge | ExpiresSoon | Expired_badge

definition cl_expiry_badge :: "(string \<Rightarrow> int option) \<Rightarrow> int \<Rightarrow> shown_item \<Rightarrow> expiry_badge" where
  "cl_expiry_badge getTime now item =
     (let expires = (if truthy (i_expires_at item) then getTime (the (i_expires_at item)) else None);
          past = (case expires of None \<Rightarrow> False | Some t \<Rightarrow> t \<le> now);
          near = (case expires of None \<Rightarrow> False | Some t \<Rightarrow> t \<le> now + 7 * 24 * 60 * 60 * 1000)
      in if past then Expired_badge else if near then ExpiresSoon else NoBadge)"

definition cl_rotation_section :: "shown_item \<Rightarrow> bool" where
  "cl_rotation_section item \<longleftrightarrow> truthy (i_expires_at item) \<or> nullish (i_rotation_interval_days item) 0 \<noteq> 0
     \<or> truthy (xi_last_rotated_at item)"

definition cl_fields :: "shown_item \<Rightarrow> ItemField list" where
  "cl_fields item = sort_key if_position (nullish (i_fields item) [])"

definition cl_row_keys :: "shown_item \<Rightarrow> (nat \<times> nat) list" where
  "cl_row_keys item = zip (map if_field_definition_id (cl_fields item)) [0..<length (cl_fields item)]"

text \<open>The stages assigned, those missing, and the share of them; a stage that no longer exists still counts as assigned.\<close>

definition cl_stage_stats :: "lifecycle_stage list query_data \<Rightarrow> int list query_data \<Rightarrow> nat \<times> int \<times> nat" where
  "cl_stage_stats stages assigned =
     (let n = length (assignedIds assigned); total_stages = length (data_or [] stages)
      in (n, int total_stages - int n, if 0 < total_stages then percent n total_stages else 0))"

subsection \<open>The state of the page\<close>

record detail_data =
  dd_graph :: "(GraphNode list \<times> GraphEdge list) query_data"
  dd_stages :: "lifecycle_stage list query_data"
  dd_assigned :: "string \<Rightarrow> int list query_data"
  dd_tags :: "tag list query_data"
  dd_item_tags :: "string \<Rightarrow> tag list query_data"
  dd_favorite :: "string \<Rightarrow> bool query_data"

record detail_page =
  dp_item :: shown_item
  dp_data :: detail_data
  dp_visible :: "(nat \<times> nat) list"
  dp_showAdd :: bool
  dp_targetId :: string
  dp_relType :: RelationshipType
  dp_history :: "nat list"
  dp_pickerOpen :: bool
  dp_search :: string

definition detail_opened :: "shown_item \<Rightarrow> detail_data \<Rightarrow> detail_page" where
  "detail_opened item d =
     \<lparr>dp_item = item, dp_data = d, dp_visible = [], dp_showAdd = False, dp_targetId = [], dp_relType = depends_on,
      dp_history = [], dp_pickerOpen = False, dp_search = []\<rparr>"

abbreviation detail_id :: "detail_page \<Rightarrow> string" where
  "detail_id s \<equiv> i_id (dp_item s)"

text \<open>The sections of the history are known by the field alone.\<close>

definition detail_show :: "shown_item \<Rightarrow> bool \<Rightarrow> detail_page \<Rightarrow> detail_page" where
  "detail_show item cached s =
     (if \<not> cached then detail_opened item (dp_data s)
      else s\<lparr>dp_item := item, dp_visible := filter (\<lambda>k. k \<in> set (cl_row_keys item)) (dp_visible s),
             dp_history := filter (\<lambda>i. i \<in> set (map if_field_definition_id (cl_fields item))) (dp_history s)\<rparr>)"

datatype dpage_event =
    DetailShow shown_item bool | DetailData detail_data
  | EyePressed "nat \<times> nat"
  | FavoritePressed | RotatePressed
  | AddOpened | TypePicked RelationshipType | TargetPicked string | AddPressed | AddDone | AddCancelled
  | DeletePressed string RelationshipType
  | StagePressed int
  | HistoryPressed nat
  | PickerOpen bool | SearchTyped string | TagPicked string | TagRemoved string

subsection \<open>Relationships\<close>

definition cl_handleAdd :: "detail_page \<Rightarrow> mutation_hook list" where
  "cl_handleAdd s =
     (if dp_targetId s = [] then []
      else [cl_useAddRelationshipMutation (detail_id s) (relationship_json (dp_targetId s) (dp_relType s))])"

definition cl_handleDelete :: "detail_page \<Rightarrow> string \<Rightarrow> RelationshipType \<Rightarrow> mutation_hook list" where
  "cl_handleDelete s tId t = [cl_useDeleteRelationshipMutation (detail_id s) tId (rel_name t)]"

fun relations_step :: "dpage_event \<Rightarrow> detail_page \<Rightarrow> detail_page" where
  "relations_step AddOpened s = s\<lparr>dp_showAdd := True\<rparr>"
| "relations_step (TypePicked t) s = s\<lparr>dp_relType := t\<rparr>"
| "relations_step (TargetPicked i) s = s\<lparr>dp_targetId := i\<rparr>"
| "relations_step AddDone s = s\<lparr>dp_showAdd := False, dp_targetId := []\<rparr>"
| "relations_step AddCancelled s = s\<lparr>dp_showAdd := False, dp_targetId := []\<rparr>"
| "relations_step _ s = s"

text \<open>While the graph loads the tab shows nothing of this.\<close>

definition relations_shown :: "detail_page \<Rightarrow> bool" where
  "relations_shown s \<longleftrightarrow> canWrite (dp_item s) \<and> dd_graph (dp_data s) \<noteq> Loading"

fun relations_offers :: "detail_page \<Rightarrow> dpage_event \<Rightarrow> bool" where
  "relations_offers s AddOpened = (relations_shown s \<and> \<not> dp_showAdd s)"
| "relations_offers s (TypePicked t) = (relations_shown s \<and> dp_showAdd s \<and> t \<in> set REL_TYPES)"
| "relations_offers s (TargetPicked i) = (relations_shown s \<and> dp_showAdd s
     \<and> i \<in> set (map gn_id (otherNodes (detail_id s) (fst (data_or ([], []) (dd_graph (dp_data s)))))))"
| "relations_offers s AddPressed = (relations_shown s \<and> dp_showAdd s \<and> dp_targetId s \<noteq> [])"
| "relations_offers s AddCancelled = (relations_shown s \<and> dp_showAdd s)"
| "relations_offers s (DeletePressed i t) = (relations_shown s
     \<and> (\<exists>e\<in>set (outgoing (detail_id s) (snd (data_or ([], []) (dd_graph (dp_data s))))). ge_target_id e = i \<and> ge_type e = t))"
| "relations_offers s AddDone = True"
| "relations_offers s _ = False"

subsection \<open>Lifecycle\<close>

definition cl_toggleStage :: "detail_page \<Rightarrow> int \<Rightarrow> mutation_hook list" where
  "cl_toggleStage s stageId =
     (if \<not> canWrite (dp_item s) then []
      else [cl_useSetItemLifecycleStagesMutation (detail_id s)
              (stage_ids_json (set_toggle stageId (assignedIds (dd_assigned (dp_data s) (detail_id s)))))])"

definition stage_offered :: "detail_page \<Rightarrow> int \<Rightarrow> bool" where
  "stage_offered s n \<longleftrightarrow> canWrite (dp_item s) \<and> dd_stages (dp_data s) \<noteq> Loading
     \<and> dd_assigned (dp_data s) (detail_id s) \<noteq> Loading \<and> n \<in> set (map ls_id (data_or [] (dd_stages (dp_data s))))"

subsection \<open>History\<close>

text \<open>The queries of the open sections.\<close>

definition history_queries :: "detail_page \<Rightarrow> query_hook list" where
  "history_queries s =
     map (\<lambda>f. let i = if_field_definition_id f; opened = i \<in> set (dp_history s)
              in cl_useFieldVersionsQuery (if opened then Some (detail_id s) else None) (if opened then Some (int i) else None))
       (cl_fields (dp_item s))"

subsection \<open>Tags\<close>

definition picker_tags :: "(string \<Rightarrow> string) \<Rightarrow> (string \<Rightarrow> string \<Rightarrow> bool) \<Rightarrow> detail_page \<Rightarrow> tag list" where
  "picker_tags lower inc s =
     filter (tag_matches lower inc (dp_search s))
       (availableTags (data_or [] (dd_item_tags (dp_data s) (detail_id s))) (data_or [] (dd_tags (dp_data s))))"

fun picker_step :: "dpage_event \<Rightarrow> detail_page \<Rightarrow> detail_page" where
  "picker_step (PickerOpen b) s = s\<lparr>dp_pickerOpen := b\<rparr>"
| "picker_step (SearchTyped t) s = s\<lparr>dp_search := t\<rparr>"
| "picker_step (TagPicked t) s = s\<lparr>dp_search := [], dp_pickerOpen := False\<rparr>"
| "picker_step _ s = s"

subsection \<open>The page\<close>

fun dpage_step :: "dpage_event \<Rightarrow> detail_page \<Rightarrow> detail_page" where
  "dpage_step (DetailShow item cached) s = detail_show item cached s"
| "dpage_step (DetailData d) s = s\<lparr>dp_data := d\<rparr>"
| "dpage_step (EyePressed k) s = s\<lparr>dp_visible := set_toggle k (dp_visible s)\<rparr>"
| "dpage_step (HistoryPressed i) s = s\<lparr>dp_history := set_toggle i (dp_history s)\<rparr>"
| "dpage_step _ s = s"

definition detail_page_step :: "detail_page \<Rightarrow> dpage_event \<Rightarrow> detail_page" where
  "detail_page_step s e = picker_step e (relations_step e (dpage_step e s))"

fun detail_sends :: "detail_page \<Rightarrow> dpage_event \<Rightarrow> mutation_hook list" where
  "detail_sends s FavoritePressed =
     [if data_or False (dd_favorite (dp_data s) (detail_id s)) then cl_useRemoveFavoriteMutation (detail_id s)
      else cl_useAddFavoriteMutation (detail_id s)]"
| "detail_sends s RotatePressed = [cl_useRecordRotationMutation (detail_id s)]"
| "detail_sends s AddPressed = cl_handleAdd s"
| "detail_sends s (DeletePressed i t) = cl_handleDelete s i t"
| "detail_sends s (StagePressed n) = cl_toggleStage s n"
| "detail_sends s (TagPicked t) = [cl_useAddItemTagMutation (detail_id s) (JObj [(''tag_id'', JStr t)])]"
| "detail_sends s (TagRemoved t) = [cl_useRemoveItemTagMutation (detail_id s) t]"
| "detail_sends s _ = []"

text \<open>\<open>lower\<close> and \<open>inc\<close> are \<open>toLowerCase\<close> and \<open>includes\<close>.\<close>

fun dpage_can :: "(string \<Rightarrow> string) \<Rightarrow> (string \<Rightarrow> string \<Rightarrow> bool) \<Rightarrow> detail_page \<Rightarrow> dpage_event \<Rightarrow> bool" where
  "dpage_can lower inc s (DetailShow item cached) = True"
| "dpage_can lower inc s (DetailData d) = True"
| "dpage_can lower inc s (EyePressed k) = (k \<in> set (cl_row_keys (dp_item s)))"
| "dpage_can lower inc s FavoritePressed = True"
| "dpage_can lower inc s RotatePressed = (cl_rotation_section (dp_item s) \<and> canWrite (dp_item s))"
| "dpage_can lower inc s (StagePressed n) = stage_offered s n"
| "dpage_can lower inc s (HistoryPressed i) = (i \<in> if_field_definition_id ` set (cl_fields (dp_item s)))"
| "dpage_can lower inc s (PickerOpen b) = (dp_pickerOpen s \<noteq> b)"
| "dpage_can lower inc s (SearchTyped t) = dp_pickerOpen s"
| "dpage_can lower inc s (TagPicked t) = (dp_pickerOpen s \<and> t \<in> tg_id ` set (picker_tags lower inc s))"
| "dpage_can lower inc s (TagRemoved t) = (t \<in> tg_id ` set (data_or [] (dd_item_tags (dp_data s) (detail_id s))))"
| "dpage_can lower inc s e = relations_offers s e"

subsection \<open>The web page behind it\<close>

text \<open>What the web page would hold: the same item, rows and form, and the tabs the desktop lacks untouched.\<close>

definition web_data :: "tabs_data \<Rightarrow> detail_data \<Rightarrow> tabs_data" where
  "web_data x d = x\<lparr>td_nodes := fst (data_or ([], []) (dd_graph d)), td_edges := snd (data_or ([], []) (dd_graph d)),
     td_stages := data_or [] (dd_stages d), td_assigned := dd_assigned d, td_tags := data_or [] (dd_tags d),
     td_item_tags := (\<lambda>i. data_or [] (dd_item_tags d i)), td_favorite := (\<lambda>i. data_or False (dd_favorite d i))\<rparr>"

definition web_page :: "tabs_data \<Rightarrow> SessionUser option \<Rightarrow> detail_page \<Rightarrow> item_tabs" where
  "web_page x me s = (tabs_opened (dp_item s) (web_data x (dp_data s)) me)\<lparr>tb_revealed := dp_visible s, tb_showAdd := dp_showAdd s,
     tb_targetId := dp_targetId s, tb_relType := dp_relType s\<rparr>"

fun web_events :: "tabs_data \<Rightarrow> dpage_event \<Rightarrow> tabs_event list" where
  "web_events x (DetailShow item cached) = [ShowItem item cached]"
| "web_events x (DetailData d) = [DataArrives (web_data x d)]"
| "web_events x (EyePressed k) = [ToggleRow k]"
| "web_events x FavoritePressed = [ToggleFavorite]"
| "web_events x RotatePressed = [Rotate]"
| "web_events x AddOpened = [OpenAddRel]"
| "web_events x (TypePicked t) = [PickRelType t]"
| "web_events x (TargetPicked i) = [PickRelTarget i]"
| "web_events x AddPressed = [SubmitRel]"
| "web_events x AddDone = [RelAdded]"
| "web_events x AddCancelled = [CancelRel]"
| "web_events x (DeletePressed i t) = [DeleteRel i t]"
| "web_events x (StagePressed n) = [ToggleStage n]"
| "web_events x (TagPicked t) = [AddTag t]"
| "web_events x (TagRemoved t) = [RemoveTag t]"
| "web_events x (HistoryPressed i) = []"
| "web_events x (PickerOpen b) = []"
| "web_events x (SearchTyped t) = []"

lemma cl_same_rows [simp]: "cl_row_keys = row_keys" "cl_rotation_section = rotation_section"
  by (simp_all add: fun_eq_iff cl_row_keys_def row_keys_def cl_fields_def sorted_fields_def cl_rotation_section_def rotation_section_def)

lemma cl_expiry_badge_eq:
  "cl_expiry_badge getTime now item
     = (if isExpired getTime now item then Expired_badge else if isWarning getTime now item then ExpiresSoon else NoBadge)"
  by (simp add: cl_expiry_badge_def isExpired_def isWarning_def expDate_def)

lemmas web_page_defs = web_page_def web_data_def tabs_opened_def no_link_def detail_page_step_def

lemma picked_tag_available:
  "t \<in> set (picker_tags lower inc s) \<Longrightarrow>
     t \<in> set (availableTags (data_or [] (dd_item_tags (dp_data s) (detail_id s))) (data_or [] (dd_tags (dp_data s))))"
  by (simp add: picker_tags_def)

interpretation desktop_detail: page_refinement "dpage_can lower inc" detail_page_step detail_sends tabs_can tabs_step tabs_sends
  "web_page x me" "web_events x" for lower inc x me
proof
  fix s e
  assume can: "dpage_can lower inc s e"
  show "possible_run tabs_can tabs_step (web_page x me s) (web_events x e)"
    using can by (cases e) (auto simp: web_page_defs relations_shown_def stage_offered_def dest: picked_tag_available)
  show "foldl tabs_step (web_page x me s) (web_events x e) = web_page x me (detail_page_step s e)"
    by (cases e) (auto simp: web_page_defs show_item_def detail_show_def detail_opened_def Let_def)
  show "sent_by tabs_step tabs_sends (web_page x me s) (web_events x e) = detail_sends s e"
    by (cases e) (auto simp: web_page_defs cl_handleAdd_def cl_handleDelete_def cl_toggleStage_def toggleStage_def
        same_item_hooks same_panel_hooks)
qed

subsection \<open>Properties\<close>

text \<open>
  A reader changes nothing on the desktop either: however a user who may write none of the items shown
  works the page, its requests are about favourites and tags.
\<close>

definition reader_shows :: "dpage_event \<Rightarrow> bool" where
  "reader_shows e \<longleftrightarrow> (case e of DetailShow item c \<Rightarrow> \<not> canWrite item | _ \<Rightarrow> True)"

definition desktop_reader_request :: "mutation_hook \<Rightarrow> bool" where
  "desktop_reader_request m \<longleftrightarrow> (\<exists>i x y. m \<in> {cl_useAddFavoriteMutation i, cl_useRemoveFavoriteMutation i,
     cl_useAddItemTagMutation i x, cl_useRemoveItemTagMutation i y})"

interpretation desktop_reader: sending_page "\<lambda>s e. dpage_can lower inc s e \<and> reader_shows e" detail_page_step
  "\<lambda>s. \<not> canWrite (dp_item s)" detail_sends desktop_reader_request for lower inc
proof
  fix s e m
  assume inv: "\<not> canWrite (dp_item s)" and can: "dpage_can lower inc s e \<and> reader_shows e"
  show "\<not> canWrite (dp_item (detail_page_step s e))"
    using inv can by (cases e) (auto simp: detail_page_step_def detail_show_def detail_opened_def reader_shows_def)
  show "desktop_reader_request m" if "m \<in> set (detail_sends s e)"
    using inv can that by (cases e) (auto simp: desktop_reader_request_def relations_shown_def stage_offered_def)
qed

theorem desktop_reader_changes_nothing:
  assumes "\<not> canWrite item" and "\<forall>e\<in>set es. reader_shows e"
    and "possible_run (dpage_can lower inc) detail_page_step (detail_opened item d) es"
    and "m \<in> set (sent_by detail_page_step detail_sends (detail_opened item d) es)"
  shows "desktop_reader_request m"
proof -
  have "possible_run (\<lambda>s e. dpage_can lower inc s e \<and> reader_shows e) detail_page_step s es"
    if "possible_run (dpage_can lower inc) detail_page_step s es" for s
    using that assms(2) by (induction es arbitrary: s) (simp_all del: dpage_can.simps)
  moreover have "\<not> canWrite (dp_item (detail_opened item d))" using assms(1) by (simp add: detail_opened_def)
  ultimately show ?thesis using desktop_reader.run_sends_ok assms(3,4) by blast
qed

text \<open>
  The form for a relationship outlives its item here too: with the second item in the cache, the
  target chosen on the first is sent as a relationship of the second to itself.
\<close>
theorem desktop_stale_relationship_target:
  assumes "canWrite a" and "canWrite b" and "i_id b \<noteq> i_id a" and "i_id b \<noteq> []" and "dd_graph d = Loaded (ns, rels)"
    and "i_id b \<in> gn_id ` set ns" and "es = [AddOpened, TargetPicked (i_id b), DetailShow b True, AddPressed]"
  shows "possible_run (dpage_can lower inc) detail_page_step (detail_opened a d) es
    \<and> sent_by detail_page_step detail_sends (detail_opened a d) es
        = [cl_useAddRelationshipMutation (i_id b) (relationship_json (i_id b) depends_on)]"
  using assms by (auto simp: detail_opened_def detail_show_def detail_page_step_def relations_shown_def otherNodes_def cl_handleAdd_def)

text \<open>
  A history that was opened stays open. On an item from the cache with a field of the same definition
  the section is open at once and asks for the versions of that item's field; every section that is
  closed asks for nothing.
\<close>
theorem history_asks_for_open_sections:
  assumes "f \<in> set (cl_fields b)" and "if_field_definition_id f \<in> set (dp_history s)"
  shows "cl_useFieldVersionsQuery (Some (i_id b)) (Some (int (if_field_definition_id f)))
      \<in> set (history_queries (detail_page_step s (DetailShow b True)))
    \<and> (\<forall>q\<in>set (history_queries (detail_page_step s (DetailShow b False))). \<not> q_enabled q)"
  using assms by (force simp: history_queries_def detail_page_step_def detail_show_def detail_opened_def Let_def
      cl_useFieldVersionsQuery_def get_query_def)

subsection \<open>Concrete runs\<close>

definition detail_demo :: detail_data where
  "detail_demo = \<lparr>dd_graph = Loaded (td_nodes tabs_demo_data, []), dd_stages = Loading, dd_assigned = \<lambda>_. Loading,
     dd_tags = Loaded (td_tags tabs_demo_data), dd_item_tags = \<lambda>_. Loaded [], dd_favorite = \<lambda>_. Failed\<rparr>"

lemma desktop_reader_changes_nothing_witness: "desktop_reader_request (cl_useAddItemTagMutation ''a'' (JObj [(''tag_id'', JStr ''t'')]))"
proof -
  let ?a = "tabs_item ''a'' ''read''" and ?es = "[PickerOpen True, TagPicked ''t'']"
  have r: "possible_run (dpage_can (\<lambda>s. s) (\<lambda>_ _. True)) detail_page_step (detail_opened ?a detail_demo) ?es"
    by (simp add: detail_page_step_def detail_opened_def detail_demo_def tabs_demo_data_def picker_tags_def availableTags_def tag_matches_def)
  have n: "\<not> canWrite ?a" by (simp add: canWrite_def tabs_item_def)
  have e: "\<forall>e\<in>set ?es. reader_shows e" by (simp add: reader_shows_def)
  have m: "cl_useAddItemTagMutation ''a'' (JObj [(''tag_id'', JStr ''t'')])
      \<in> set (sent_by detail_page_step detail_sends (detail_opened ?a detail_demo) ?es)"
    by (simp add: detail_page_step_def detail_opened_def tabs_item_def)
  from desktop_reader_changes_nothing [OF n e r m] show ?thesis .
qed

lemma desktop_stale_relationship_target_witness:
  "sent_by detail_page_step detail_sends (detail_opened (tabs_item ''a'' ''write'') detail_demo)
     [AddOpened, TargetPicked ''b'', DetailShow (tabs_item ''b'' ''write'') True, AddPressed]
   = [cl_useAddRelationshipMutation ''b'' (relationship_json ''b'' depends_on)]"
  using desktop_stale_relationship_target [of "tabs_item ''a'' ''write''" "tabs_item ''b'' ''write''" detail_demo "td_nodes tabs_demo_data" "[]"]
  by (simp add: tabs_item_def canWrite_def detail_demo_def tabs_demo_data_def)

lemma history_asks_for_open_sections_witness:
  "cl_useFieldVersionsQuery (Some ''b'') (Some 7)
     \<in> set (history_queries (detail_page_step (detail_page_step (detail_opened (tabs_item ''a'' ''read'') detail_demo) (HistoryPressed 7))
          (DetailShow (tabs_item ''b'' ''read'') True)))"
proof -
  let ?f = "\<lparr>if_field_definition_id = 7, if_value_enc = None, if_value_nonce = None, if_position = 0\<rparr>"
  have "?f \<in> set (cl_fields (tabs_item ''b'' ''read''))" by (simp add: cl_fields_def tabs_item_def)
  moreover have "if_field_definition_id ?f \<in> set (dp_history (detail_page_step (detail_opened (tabs_item ''a'' ''read'') detail_demo) (HistoryPressed 7)))"
    by (simp add: detail_page_step_def detail_opened_def set_toggle_def set_add_def)
  ultimately show ?thesis using history_asks_for_open_sections by (fastforce simp: tabs_item_def)
qed

end
