(* ===== verification/ItemPages.thy ===== *)
theory ItemPages
  imports DesktopItemPage
begin

text \<open>
  The item pages of the two applications as wholes: what \<open>ItemTabs\<close> and \<open>DesktopItemPage\<close> hold, and beside
  it the parts both have alike: the attachment panel with its uploads in flight (\<open>item-attachment-panel.tsx\<close>),
  the open sections of the history, the tag picker (\<open>item-tag-picker.tsx\<close>), and the queries each page asks.
  The two files of the panel differ in the text of an error alone: the state below keeps what was caught.
\<close>

subsection \<open>The attachment panel\<close>

record attachment =
  at_id :: string
  at_file_name :: string
  at_size_bytes :: nat

text \<open>Where \<open>handleFileChange\<close> waits: for the ticket, for the store, for the confirmation.\<close>

datatype upload_phase = Asked | Storing string | Confirming

text \<open>\<open>up_item\<close> is the item the confirmation is sent for, \<open>up_mounted\<close> whether the panel it began in is still there.\<close>

record upload =
  up_file :: upload_file
  up_item :: string
  up_phase :: upload_phase
  up_mounted :: bool

record files_panel =
  fp_attachments :: "string \<Rightarrow> attachment list query_data"
  fp_uploading :: bool
  fp_uploadError :: "upload_error option"
  fp_uploads :: "upload list"
  fp_downloads :: nat

definition files_opened :: "(string \<Rightarrow> attachment list query_data) \<Rightarrow> files_panel" where
  "files_opened d = \<lparr>fp_attachments = d, fp_uploading = False, fp_uploadError = None, fp_uploads = [], fp_downloads = 0\<rparr>"

definition fp_shown :: "files_panel \<Rightarrow> string \<Rightarrow> attachment list" where
  "fp_shown p i = data_or [] (fp_attachments p i)"

text \<open>
  Another item: one the cache has is put into the same panel, which keeps its state; else the panel is
  taken down and a new one made, and what is in flight goes on without it. \<open>live\<close>: whether a mutation that
  is called by an earlier render's handler uses the item of the latest one (TanStack's \<open>mutateAsync\<close>).
\<close>

definition files_show :: "bool \<Rightarrow> string \<Rightarrow> bool \<Rightarrow> files_panel \<Rightarrow> files_panel" where
  "files_show live i cached p =
     (if cached then p\<lparr>fp_uploads := map (\<lambda>u. if live \<and> up_mounted u then u\<lparr>up_item := i\<rparr> else u) (fp_uploads p)\<rparr>
      else p\<lparr>fp_uploading := False, fp_uploadError := None,
             fp_uploads := map (\<lambda>u. u\<lparr>up_mounted := False\<rparr>) (fp_uploads p)\<rparr>)"

text \<open>The answers come with the upload they are for.\<close>

datatype files_event =
    AttachmentsArrive "string \<Rightarrow> attachment list query_data"
  | FileChosen upload_file
  | UploadAnswered nat "js_error + json option" | FileStored nat "string + nat" | UploadConfirmed nat "js_error + unit"
  | DownloadPressed string | DownloadAnswered "js_error + json option"
  | AttachmentDeleted string

text \<open>\<open>const { attachment_id, upload_url } = \<dots>\<close>, which throws on an answer without a body.\<close>

definition upload_ticket :: "json option \<Rightarrow> (string \<times> string) option" where
  "upload_ticket body =
     (let res = nullish body JNull
      in if res = JNull then None else Some (str_or_undefined res ''attachment_id'', str_or_undefined res ''upload_url''))"

definition stored_ok :: "nat \<Rightarrow> bool" where
  "stored_ok st \<longleftrightarrow> 200 \<le> st \<and> st \<le> 299"

text \<open>\<open>catch\<close> and \<open>finally\<close>; the setters of a panel that was taken down do nothing.\<close>

definition upload_ends :: "nat \<Rightarrow> upload_error option \<Rightarrow> files_panel \<Rightarrow> files_panel" where
  "upload_ends n err p =
     (if n < length (fp_uploads p)
      then let q = p\<lparr>fp_uploads := take n (fp_uploads p) @ drop (Suc n) (fp_uploads p)\<rparr>
           in if up_mounted (fp_uploads p ! n)
              then q\<lparr>fp_uploading := False, fp_uploadError := (case err of None \<Rightarrow> fp_uploadError p | Some e \<Rightarrow> Some e)\<rparr>
              else q
      else p)"

definition upload_goes_on :: "nat \<Rightarrow> upload_phase \<Rightarrow> files_panel \<Rightarrow> files_panel" where
  "upload_goes_on n ph p =
     (if n < length (fp_uploads p) then p\<lparr>fp_uploads := (fp_uploads p)[n := (fp_uploads p ! n)\<lparr>up_phase := ph\<rparr>]\<rparr> else p)"

fun files_step :: "string \<Rightarrow> files_event \<Rightarrow> files_panel \<Rightarrow> files_panel" where
  "files_step i (AttachmentsArrive d) p = p\<lparr>fp_attachments := d\<rparr>"
| "files_step i (FileChosen f) p = p\<lparr>fp_uploadError := None, fp_uploading := True,
     fp_uploads := fp_uploads p @ [\<lparr>up_file = f, up_item = i, up_phase = Asked, up_mounted = True\<rparr>]\<rparr>"
| "files_step i (UploadAnswered n r) p = (case r of
     Inl e \<Rightarrow> upload_ends n (Some (UploadApi e)) p
   | Inr body \<Rightarrow> (case upload_ticket body of
       None \<Rightarrow> upload_ends n (Some UploadBadAnswer) p
     | Some (attId, url) \<Rightarrow> upload_goes_on n (Storing attId) p))"
| "files_step i (FileStored n r) p = (case r of
     Inl m \<Rightarrow> upload_ends n (Some (UploadNoAnswer m)) p
   | Inr st \<Rightarrow> if stored_ok st then upload_goes_on n Confirming p else upload_ends n (Some (UploadRefused st)) p)"
| "files_step i (UploadConfirmed n r) p = (case r of
     Inl e \<Rightarrow> upload_ends n (Some (UploadApi e)) p
   | Inr _ \<Rightarrow> upload_ends n None p)"
| "files_step i (DownloadPressed a) p = p\<lparr>fp_downloads := fp_downloads p + 1\<rparr>"
| "files_step i (DownloadAnswered r) p = p\<lparr>fp_downloads := fp_downloads p - 1\<rparr>"
| "files_step i (AttachmentDeleted a) p = p"

definition upload_waits :: "files_panel \<Rightarrow> nat \<Rightarrow> (upload_phase \<Rightarrow> bool) \<Rightarrow> bool" where
  "upload_waits p n ok \<longleftrightarrow> n < length (fp_uploads p) \<and> ok (up_phase (fp_uploads p ! n))"

text \<open>The panel for the item \<open>i\<close>, which may be written or not.\<close>

fun files_can :: "string \<Rightarrow> bool \<Rightarrow> files_panel \<Rightarrow> files_event \<Rightarrow> bool" where
  "files_can i w p (AttachmentsArrive d) = True"
| "files_can i w p (FileChosen f) = (w \<and> \<not> fp_uploading p)"
| "files_can i w p (UploadAnswered n r) = upload_waits p n (\<lambda>ph. ph = Asked)"
| "files_can i w p (FileStored n r) = upload_waits p n (\<lambda>ph. \<exists>a. ph = Storing a)"
| "files_can i w p (UploadConfirmed n r) = upload_waits p n (\<lambda>ph. ph = Confirming)"
| "files_can i w p (DownloadPressed a) = (a \<in> at_id ` set (fp_shown p i))"
| "files_can i w p (DownloadAnswered r) = (0 < fp_downloads p)"
| "files_can i w p (AttachmentDeleted a) = (w \<and> a \<in> at_id ` set (fp_shown p i))"

text \<open>What a page asks of the world: a call of the API, the \<open>PUT\<close> of a file, a window on an address.\<close>

datatype page_request = Calls mutation_hook | Puts string upload_file | Opens string

text \<open>\<open>files_puts\<close>: after the ticket the file goes to the address, whatever application it is.\<close>

definition files_puts :: "files_panel \<Rightarrow> nat \<Rightarrow> js_error + json option \<Rightarrow> page_request list" where
  "files_puts p n r = (case r of Inl e \<Rightarrow> [] | Inr body \<Rightarrow>
     (case upload_ticket body of None \<Rightarrow> [] | Some (attId, url) \<Rightarrow> [Puts url (up_file (fp_uploads p ! n))]))"

definition download_opens :: "js_error + json option \<Rightarrow> page_request list" where
  "download_opens r = (case r of Inl e \<Rightarrow> [] | Inr body \<Rightarrow>
     (let res = nullish body JNull in if res = JNull then [] else [Opens (nullish (json_str_field res ''url'') [])]))"

definition stored_as :: "upload_phase \<Rightarrow> string" where
  "stored_as ph = (case ph of Storing a \<Rightarrow> a | _ \<Rightarrow> [])"

fun files_sends :: "string \<Rightarrow> files_panel \<Rightarrow> files_event \<Rightarrow> page_request list" where
  "files_sends i p (FileChosen f) = [Calls (useInitUploadMutation i (upload_json f))]"
| "files_sends i p (UploadAnswered n r) = files_puts p n r"
| "files_sends i p (FileStored n (Inr st)) =
     (if stored_ok st then let u = fp_uploads p ! n in [Calls (useConfirmUploadMutation (up_item u) (stored_as (up_phase u)))] else [])"
| "files_sends i p (DownloadPressed a) = [Calls (useDownloadURLMutation i a)]"
| "files_sends i p (DownloadAnswered r) = download_opens r"
| "files_sends i p (AttachmentDeleted a) = [Calls (useDeleteAttachmentMutation i a)]"
| "files_sends i p _ = []"

text \<open>The desktop's file of the panel, on the desktop's hooks.\<close>

fun cl_files_sends :: "string \<Rightarrow> files_panel \<Rightarrow> files_event \<Rightarrow> page_request list" where
  "cl_files_sends i p (FileChosen f) = [Calls (cl_useInitUploadMutation i (upload_json f))]"
| "cl_files_sends i p (UploadAnswered n r) = files_puts p n r"
| "cl_files_sends i p (FileStored n (Inr st)) =
     (if stored_ok st then let u = fp_uploads p ! n in [Calls (cl_useConfirmUploadMutation (up_item u) (stored_as (up_phase u)))] else [])"
| "cl_files_sends i p (DownloadPressed a) = [Calls (cl_useDownloadURLMutation i a)]"
| "cl_files_sends i p (DownloadAnswered r) = download_opens r"
| "cl_files_sends i p (AttachmentDeleted a) = [Calls (cl_useDeleteAttachmentMutation i a)]"
| "cl_files_sends i p _ = []"

lemma cl_files_sends_eq: "cl_files_sends i p e = files_sends i p e"
  by (cases "(i, p, e)" rule: files_sends.cases) (simp_all add: same_panel_hooks)

lemma attachments_kept [simp]: "fp_attachments (upload_ends n err p) = fp_attachments p"
  "fp_attachments (upload_goes_on n ph p) = fp_attachments p"
  by (simp_all add: upload_ends_def upload_goes_on_def Let_def)

subsection \<open>The web's page\<close>

record web_item_page =
  wp_tabs :: item_tabs
  wp_history :: "nat list"
  wp_pickerOpen :: bool
  wp_search :: string
  wp_files :: files_panel

abbreviation wp_item :: "web_item_page \<Rightarrow> shown_item" where
  "wp_item p \<equiv> tb_item (wp_tabs p)"

abbreviation wp_id :: "web_item_page \<Rightarrow> string" where
  "wp_id p \<equiv> i_id (wp_item p)"

definition web_item_opened ::
    "shown_item \<Rightarrow> tabs_data \<Rightarrow> SessionUser option \<Rightarrow> (string \<Rightarrow> attachment list query_data) \<Rightarrow> web_item_page" where
  "web_item_opened item d me a = \<lparr>wp_tabs = tabs_opened item d me, wp_history = [], wp_pickerOpen = False, wp_search = [],
     wp_files = files_opened a\<rparr>"

datatype web_item_event = OnTabs tabs_event | OnHistory nat | OnPicker bool | OnSearch string | OnFiles files_event

text \<open>What \<open>HistoryTab\<close> and \<open>ItemTagPicker\<close> do; a section is known by its field alone, the picker has no key.\<close>

fun web_sections_step :: "bool \<Rightarrow> web_item_page \<Rightarrow> web_item_event \<Rightarrow> web_item_page" where
  "web_sections_step live p (OnTabs (ShowItem item cached)) =
     (if cached then p\<lparr>wp_history := filter (\<lambda>i. i \<in> set (map if_field_definition_id (sorted_fields item))) (wp_history p),
                       wp_files := files_show live (i_id item) True (wp_files p)\<rparr>
      else p\<lparr>wp_history := [], wp_pickerOpen := False, wp_search := [], wp_files := files_show live (i_id item) False (wp_files p)\<rparr>)"
| "web_sections_step live p (OnTabs (AddTag t)) = p\<lparr>wp_search := [], wp_pickerOpen := False\<rparr>"
| "web_sections_step live p (OnTabs e) = p"
| "web_sections_step live p (OnHistory i) = p\<lparr>wp_history := set_toggle i (wp_history p)\<rparr>"
| "web_sections_step live p (OnPicker b) = p\<lparr>wp_pickerOpen := b\<rparr>"
| "web_sections_step live p (OnSearch t) = p\<lparr>wp_search := t\<rparr>"
| "web_sections_step live p (OnFiles e) = p\<lparr>wp_files := files_step (wp_id p) e (wp_files p)\<rparr>"

definition web_item_step :: "bool \<Rightarrow> web_item_page \<Rightarrow> web_item_event \<Rightarrow> web_item_page" where
  "web_item_step live p e =
     (let q = web_sections_step live p e in case e of OnTabs f \<Rightarrow> q\<lparr>wp_tabs := tabs_step (wp_tabs p) f\<rparr> | _ \<Rightarrow> q)"

definition web_picker_tags :: "(string \<Rightarrow> string) \<Rightarrow> (string \<Rightarrow> string \<Rightarrow> bool) \<Rightarrow> web_item_page \<Rightarrow> tag list" where
  "web_picker_tags lower inc p =
     filter (tag_matches lower inc (wp_search p))
       (availableTags (td_item_tags (tb_data (wp_tabs p)) (wp_id p)) (td_tags (tb_data (wp_tabs p))))"

fun web_item_can :: "(string \<Rightarrow> string) \<Rightarrow> (string \<Rightarrow> string \<Rightarrow> bool) \<Rightarrow> web_item_page \<Rightarrow> web_item_event \<Rightarrow> bool" where
  "web_item_can lower inc p (OnTabs (AddTag t)) =
     (tabs_can (wp_tabs p) (AddTag t) \<and> wp_pickerOpen p \<and> t \<in> tg_id ` set (web_picker_tags lower inc p))"
| "web_item_can lower inc p (OnTabs e) = tabs_can (wp_tabs p) e"
| "web_item_can lower inc p (OnHistory i) = (i \<in> if_field_definition_id ` set (sorted_fields (wp_item p)))"
| "web_item_can lower inc p (OnPicker b) = (wp_pickerOpen p \<noteq> b)"
| "web_item_can lower inc p (OnSearch t) = wp_pickerOpen p"
| "web_item_can lower inc p (OnFiles e) = files_can (wp_id p) (canWrite (wp_item p)) (wp_files p) e"

definition web_item_sends :: "web_item_page \<Rightarrow> web_item_event \<Rightarrow> page_request list" where
  "web_item_sends p e = (case e of
     OnTabs f \<Rightarrow> map Calls (tabs_sends (wp_tabs p) f)
   | OnFiles f \<Rightarrow> files_sends (wp_id p) (wp_files p) f
   | _ \<Rightarrow> [])"

text \<open>The queries mounted while an item is shown: the header's, the overview's, then tab by tab.\<close>

definition web_history_queries :: "web_item_page \<Rightarrow> query_hook list" where
  "web_history_queries p =
     map (\<lambda>f. let i = if_field_definition_id f; opened = i \<in> set (wp_history p)
              in useFieldVersionsQuery (if opened then Some (wp_id p) else None) (if opened then Some (int i) else None))
       (sorted_fields (wp_item p))"

definition web_item_queries :: "web_item_page \<Rightarrow> query_hook list" where
  "web_item_queries p =
     (let i = wp_id p; target = lk_target (tb_link (wp_tabs p)) in
      [useItem (Some i), useFavoriteStatusQuery (Some i), useTagsQuery, useItemTagsQuery (Some i), useAttachments (Some i),
       useGraphQuery, useItemLinksQuery i, useItem (if target = [] then None else Some target),
       useLifecycleStagesQuery, useItemLifecycleStagesQuery (Some i)]
      @ web_history_queries p
      @ [useItemHealthQuery i, useItemSharesQuery (Some i), useK8sBindingQuery i, useAdminK8sClustersQuery, useSuggestionsQuery i])"

subsection \<open>The desktop's page\<close>

record desktop_item_page =
  kp_page :: detail_page
  kp_files :: files_panel

abbreviation kp_item :: "desktop_item_page \<Rightarrow> shown_item" where
  "kp_item s \<equiv> dp_item (kp_page s)"

definition desktop_item_opened ::
    "shown_item \<Rightarrow> detail_data \<Rightarrow> (string \<Rightarrow> attachment list query_data) \<Rightarrow> desktop_item_page" where
  "desktop_item_opened item d a = \<lparr>kp_page = detail_opened item d, kp_files = files_opened a\<rparr>"

datatype desktop_item_event = OnDetail dpage_event | OnPanel files_event

fun desktop_item_step :: "bool \<Rightarrow> desktop_item_page \<Rightarrow> desktop_item_event \<Rightarrow> desktop_item_page" where
  "desktop_item_step live s (OnDetail (DetailShow item cached)) =
     s\<lparr>kp_page := detail_page_step (kp_page s) (DetailShow item cached), kp_files := files_show live (i_id item) cached (kp_files s)\<rparr>"
| "desktop_item_step live s (OnDetail e) = s\<lparr>kp_page := detail_page_step (kp_page s) e\<rparr>"
| "desktop_item_step live s (OnPanel e) = s\<lparr>kp_files := files_step (i_id (kp_item s)) e (kp_files s)\<rparr>"

fun desktop_item_can :: "(string \<Rightarrow> string) \<Rightarrow> (string \<Rightarrow> string \<Rightarrow> bool) \<Rightarrow> desktop_item_page \<Rightarrow> desktop_item_event \<Rightarrow> bool" where
  "desktop_item_can lower inc s (OnDetail e) = dpage_can lower inc (kp_page s) e"
| "desktop_item_can lower inc s (OnPanel e) = files_can (i_id (kp_item s)) (canWrite (kp_item s)) (kp_files s) e"

fun desktop_item_sends :: "desktop_item_page \<Rightarrow> desktop_item_event \<Rightarrow> page_request list" where
  "desktop_item_sends s (OnDetail e) = map Calls (detail_sends (kp_page s) e)"
| "desktop_item_sends s (OnPanel e) = cl_files_sends (i_id (kp_item s)) (kp_files s) e"

definition desktop_item_queries :: "desktop_item_page \<Rightarrow> query_hook list" where
  "desktop_item_queries s =
     (let i = i_id (kp_item s) in
      [cl_useItem (Some i), cl_useFavoriteStatusQuery (Some i), cl_useTagsQuery, cl_useItemTagsQuery (Some i), cl_useAttachments (Some i),
       cl_useGraphQuery, cl_useLifecycleStagesQuery, cl_useItemLifecycleStagesQuery (Some i)]
      @ history_queries (kp_page s))"

subsection \<open>The desktop's page against the web's\<close>

definition web_behind :: "tabs_data \<Rightarrow> SessionUser option \<Rightarrow> desktop_item_page \<Rightarrow> web_item_page" where
  "web_behind x me s = \<lparr>wp_tabs = web_page x me (kp_page s), wp_history = dp_history (kp_page s),
     wp_pickerOpen = dp_pickerOpen (kp_page s), wp_search = dp_search (kp_page s), wp_files = kp_files s\<rparr>"

fun web_event_of :: "tabs_data \<Rightarrow> desktop_item_event \<Rightarrow> web_item_event list" where
  "web_event_of x (OnDetail (HistoryPressed i)) = [OnHistory i]"
| "web_event_of x (OnDetail (PickerOpen b)) = [OnPicker b]"
| "web_event_of x (OnDetail (SearchTyped t)) = [OnSearch t]"
| "web_event_of x (OnDetail e) = map OnTabs (web_events x e)"
| "web_event_of x (OnPanel e) = [OnFiles e]"

lemma one_web_event: "\<exists>e'. web_event_of x e = [e']"
  by (cases "(x, e)" rule: web_event_of.cases) simp_all

lemmas web_item_page_defs = web_behind_def web_item_step_def web_item_sends_def

text \<open>Where the rest of the page is concerned, \<open>DesktopItemPage\<close> has shown it.\<close>

lemma web_tabs_do_it:
  assumes "dpage_can lower inc s e" and "web_events x e = [f]"
  shows "tabs_can (web_page x me s) f" and "tabs_step (web_page x me s) f = web_page x me (detail_page_step s e)"
    and "tabs_sends (web_page x me s) f = detail_sends s e"
  using desktop_detail.can_tr [OF assms(1), of x me] desktop_detail.step_tr [OF assms(1), of x me]
    desktop_detail.sends_tr [OF assms(1), of x me]
  by (simp_all add: assms(2) del: tabs_can_def tabs_step_def tabs_sends_def)

lemma web_page_behind [simp]: "tb_item (web_page x me s) = dp_item s"
  "td_item_tags (tb_data (web_page x me s)) i = data_or [] (dd_item_tags (dp_data s) i)"
  "td_tags (tb_data (web_page x me s)) = data_or [] (dd_tags (dp_data s))" "tb_link (web_page x me s) = no_link"
  by (simp_all add: web_page_def web_data_def tabs_opened_def)

lemma same_tab_when_not_tabs:
  "web_page x me (s\<lparr>dp_history := h\<rparr>) = web_page x me s"
  "web_page x me (s\<lparr>dp_pickerOpen := b\<rparr>) = web_page x me s"
  "web_page x me (s\<lparr>dp_search := t\<rparr>) = web_page x me s"
  by (simp_all add: web_page_defs)

lemma same_sections: "cl_fields = sorted_fields"
  by (simp add: fun_eq_iff cl_fields_def sorted_fields_def)

lemma same_history_queries: "map asks (history_queries (kp_page s)) = map asks (web_history_queries (web_behind x me s))"
  by (simp add: history_queries_def web_history_queries_def web_behind_def same_sections same_item_hooks Let_def)

lemma same_queries: "set (map asks (desktop_item_queries s)) \<subseteq> set (map asks (web_item_queries (web_behind x me s)))"
  unfolding desktop_item_queries_def web_item_queries_def Let_def map_append set_append
    same_history_queries [of s x me]
  by (auto simp: web_behind_def same_item_hooks same_panel_hooks same_requests)

interpretation desktop_item: page_refinement "desktop_item_can lower inc" "desktop_item_step live" desktop_item_sends
  "web_item_can lower inc" "web_item_step live" web_item_sends "web_behind x me" "web_event_of x" for lower inc live x me
proof
  fix s e
  assume can: "desktop_item_can lower inc s e"
  note tabs = web_tabs_do_it [where x = x and me = me]
  show "possible_run (web_item_can lower inc) (web_item_step live) (web_behind x me s) (web_event_of x e)"
  proof (cases e)
    case (OnDetail d)
    with can have "dpage_can lower inc (kp_page s) d" by simp
    from tabs(1) [OF this] this OnDetail show ?thesis
      by (cases d) (auto simp: web_behind_def same_sections web_picker_tags_def picker_tags_def
          simp del: tabs_can_def tabs_step_def tabs_sends_def)
  qed (use can in \<open>simp add: web_behind_def\<close>)
  show "foldl (web_item_step live) (web_behind x me s) (web_event_of x e) = web_behind x me (desktop_item_step live s e)"
  proof (cases e)
    case (OnDetail d)
    with can have "dpage_can lower inc (kp_page s) d" by simp
    from tabs(2) [OF this] OnDetail show ?thesis
      by (cases d) (auto simp: web_item_page_defs same_sections same_tab_when_not_tabs detail_page_step_def detail_show_def
          detail_opened_def Let_def simp del: tabs_can_def tabs_step_def tabs_sends_def)
  qed (simp add: web_item_page_defs)
  show "sent_by (web_item_step live) web_item_sends (web_behind x me s) (web_event_of x e) = desktop_item_sends s e"
  proof (cases e)
    case (OnDetail d)
    with can have "dpage_can lower inc (kp_page s) d" by simp
    from tabs(3) [OF this] OnDetail show ?thesis
      by (cases d) (auto simp: web_item_page_defs simp del: tabs_can_def tabs_step_def tabs_sends_def)
  qed (simp add: web_item_page_defs cl_files_sends_eq)
qed


subsection \<open>Uploads\<close>

text \<open>The events of an upload nothing interferes with, with the answers that \<open>attach_file\<close> gets.\<close>

definition upload_events ::
    "'w net \<Rightarrow> (string \<Rightarrow> upload_file \<Rightarrow> string + nat) \<Rightarrow> string \<Rightarrow> upload_file \<Rightarrow> 'w web_env \<Rightarrow> files_event list" where
  "upload_events net put i f env = FileChosen f #
     (case run_mutation net (useInitUploadMutation i (upload_json f)) env of
        (Inl e, _, env1) \<Rightarrow> [UploadAnswered 0 (Inl e)]
      | (Inr body, _, env1) \<Rightarrow> UploadAnswered 0 (Inr body) #
          (case upload_ticket body of None \<Rightarrow> [] | Some (attId, url) \<Rightarrow> FileStored 0 (put url f) #
             (case put url f of Inl m \<Rightarrow> [] | Inr st \<Rightarrow>
                if \<not> stored_ok st then []
                else (case run_mutation net (useConfirmUploadMutation i attId) env1 of
                    (Inl e, _, env2) \<Rightarrow> [UploadConfirmed 0 (Inl e)]
                  | (Inr _, _, env2) \<Rightarrow> [UploadConfirmed 0 (Inr ())]))))"

text \<open>
  An upload that is left alone is the whole of \<open>handleFileChange\<close>: it ends with the error
  \<open>attach_file\<close> ends with, or with none, and the panel takes the next file.
\<close>
lemma upload_left_alone:
  assumes "fp_uploads p = []" and "\<not> fp_uploading p" and "q = foldl (\<lambda>p e. files_step i e p) p (upload_events net put i f env)"
  shows "possible_run (files_can i True) (\<lambda>p e. files_step i e p) p (upload_events net put i f env)
    \<and> fp_uploads q = [] \<and> \<not> fp_uploading q
    \<and> fp_uploadError q = (case fst (attach_file net put i f env) of Inl e \<Rightarrow> Some e | Inr _ \<Rightarrow> None)"
  using assms unfolding upload_events_def attach_file_def
  by (auto simp: Let_def upload_ticket_def stored_ok_def upload_waits_def upload_ends_def upload_goes_on_def
      split: sum.splits prod.splits option.splits)

text \<open>
  The panel has no key: what went wrong with a file for one item is shown under the next item from the
  cache, and while a file for one item is on its way the other takes none.
\<close>
theorem upload_outlives_item:
  assumes "canWrite item" and "canWrite b" and "p = desktop_item_opened item d a"
    and "chosen = [OnPanel (FileChosen f), OnDetail (DetailShow b True)]"
    and "failed = [OnPanel (FileChosen f), OnPanel (UploadAnswered 0 (Inl e)), OnDetail (DetailShow b True)]"
  shows "possible_run (desktop_item_can lower inc) (desktop_item_step live) p chosen
    \<and> \<not> desktop_item_can lower inc (foldl (desktop_item_step live) p chosen) (OnPanel (FileChosen g))
    \<and> possible_run (desktop_item_can lower inc) (desktop_item_step live) p failed
    \<and> kp_item (foldl (desktop_item_step live) p failed) = b
    \<and> fp_uploadError (kp_files (foldl (desktop_item_step live) p failed)) = Some (UploadApi e)"
  using assms by (simp add: desktop_item_opened_def files_opened_def files_show_def upload_ends_def detail_page_step_def
      detail_show_def detail_opened_def upload_waits_def)

subsection \<open>Concrete runs\<close>


lemma upload_outlives_item_witness:
  "\<forall>e. fp_uploadError (kp_files (foldl (desktop_item_step False) (desktop_item_opened (tabs_item ''a'' ''write'') detail_demo (\<lambda>_. Loading))
     [OnPanel (FileChosen \<lparr>uf_name = ''f'', uf_type = [], uf_size = 3\<rparr>), OnPanel (UploadAnswered 0 (Inl e)),
      OnDetail (DetailShow (tabs_item ''b'' ''write'') True)])) = Some (UploadApi e)"
  using upload_outlives_item [of "tabs_item ''a'' ''write''" "tabs_item ''b'' ''write''", OF _ _ refl refl refl]
  by (simp add: tabs_item_def canWrite_def del: foldl.simps)

end
