(* ===== verification/DesktopUserAdmin.thy ===== *)
theory DesktopUserAdmin
  imports UserAdmin DesktopHooks
begin

text \<open>
  Administration of users in the desktop application: the menu of a row
  (\<open>client/src/components/admin/user-actions-menu.tsx\<close>) and the dialog that makes a user (\<open>create-user-modal.tsx\<close>).
  The menu is the web's without security keys, break-glass mode and IP restrictions; it refines it, and the web's
  guarantee for the administrator's own row carries over.
\<close>

subsection \<open>The menu\<close>

definition cl_ALL_ROLES :: "string list" where "cl_ALL_ROLES = [''admin'', ''write'', ''read'']"

record cl_row_menu =
  cm_user :: AdminUser
  cm_confirmOpen :: bool
  cm_totpResetOpen :: bool

definition cl_menu_mounted :: "AdminUser \<Rightarrow> cl_row_menu" where
  "cl_menu_mounted u = \<lparr>cm_user = u, cm_confirmOpen = False, cm_totpResetOpen = False\<rparr>"

definition cl_isSelf :: "string option \<Rightarrow> cl_row_menu \<Rightarrow> bool" where
  "cl_isSelf me s \<longleftrightarrow> me = Some (au_id (cm_user s))"

definition cl_has_role :: "cl_row_menu \<Rightarrow> string \<Rightarrow> bool" where
  "cl_has_role s role \<longleftrightarrow> role \<in> set (au_roles (cm_user s))"

definition cl_lockedBySelf :: "string option \<Rightarrow> cl_row_menu \<Rightarrow> string \<Rightarrow> bool" where
  "cl_lockedBySelf me s role \<longleftrightarrow> cl_isSelf me s \<and> role = ''admin'' \<and> cl_has_role s role"

datatype cl_menu_event =
    CPickRole string | CPickTotpReset | CPickTotpRequired | CPickCert | CPickEnable | CPickDisable
  | CConfirmOpen bool | CConfirmDisable bool | CTotpOpen bool | CConfirmTotp bool | CRefetched AdminUser

definition cl_modal_open :: "cl_row_menu \<Rightarrow> bool" where
  "cl_modal_open s \<longleftrightarrow> cm_confirmOpen s \<or> cm_totpResetOpen s"

fun cl_menu_can :: "string option \<Rightarrow> cl_row_menu \<Rightarrow> cl_menu_event \<Rightarrow> bool" where
  "cl_menu_can me s (CPickRole r) = (\<not> cl_modal_open s \<and> r \<in> set cl_ALL_ROLES \<and> \<not> cl_lockedBySelf me s r)"
| "cl_menu_can me s CPickTotpReset = (\<not> cl_modal_open s \<and> \<not> cl_isSelf me s)"
| "cl_menu_can me s CPickTotpRequired = (\<not> cl_modal_open s \<and> \<not> (cl_isSelf me s \<and> au_totp_required (cm_user s)))"
| "cl_menu_can me s CPickCert = (\<not> cl_modal_open s)"
| "cl_menu_can me s CPickEnable = (\<not> cl_modal_open s \<and> au_status (cm_user s) = DisabledUser \<and> \<not> cl_isSelf me s)"
| "cl_menu_can me s CPickDisable = (\<not> cl_modal_open s \<and> au_status (cm_user s) \<noteq> DisabledUser \<and> \<not> cl_isSelf me s)"
| "cl_menu_can me s (CConfirmOpen b) = (cm_confirmOpen s \<and> \<not> b)"
| "cl_menu_can me s (CConfirmDisable ok) = cm_confirmOpen s"
| "cl_menu_can me s (CTotpOpen b) = (cm_totpResetOpen s \<and> \<not> b)"
| "cl_menu_can me s (CConfirmTotp ok) = cm_totpResetOpen s"
| "cl_menu_can me s (CRefetched u) = (au_id u = au_id (cm_user s))"

definition cl_toggleRole :: "string option \<Rightarrow> cl_row_menu \<Rightarrow> string \<Rightarrow> mutation_hook list" where
  "cl_toggleRole me s role =
     (if cl_isSelf me s \<and> role = ''admin'' \<and> cl_has_role s role then []
      else if cl_has_role s role then [cl_useRevokeRoleMutation (au_id (cm_user s)) role]
      else [cl_useGrantRoleMutation (au_id (cm_user s)) (JObj [(''role'', JStr role)])])"

fun cl_menu_sends :: "string option \<Rightarrow> cl_row_menu \<Rightarrow> cl_menu_event \<Rightarrow> mutation_hook list" where
  "cl_menu_sends me s (CPickRole r) = (if cl_lockedBySelf me s r then [] else cl_toggleRole me s r)"
| "cl_menu_sends me s CPickTotpRequired =
     [cl_useUpdateTOTPRequirementMutation (au_id (cm_user s)) (\<not> au_totp_required (cm_user s))]"
| "cl_menu_sends me s CPickCert =
     [cl_useUpdateClientCertRequirementMutation (au_id (cm_user s))
        (JObj [(''required'', JBool (\<not> au_requires_client_cert (cm_user s)))])]"
| "cl_menu_sends me s CPickEnable = [cl_useEnableUserMutation (au_id (cm_user s))]"
| "cl_menu_sends me s (CConfirmDisable ok) = [cl_useDisableUserMutation (au_id (cm_user s))]"
| "cl_menu_sends me s (CConfirmTotp ok) = [cl_useResetTOTPMutation (au_id (cm_user s))]"
| "cl_menu_sends me s _ = []"

fun cl_menu_step :: "cl_row_menu \<Rightarrow> cl_menu_event \<Rightarrow> cl_row_menu" where
  "cl_menu_step s CPickTotpReset = s\<lparr>cm_totpResetOpen := True\<rparr>"
| "cl_menu_step s CPickDisable = s\<lparr>cm_confirmOpen := True\<rparr>"
| "cl_menu_step s (CConfirmOpen b) = s\<lparr>cm_confirmOpen := b\<rparr>"
| "cl_menu_step s (CConfirmDisable ok) = (if ok then s\<lparr>cm_confirmOpen := False\<rparr> else s)"
| "cl_menu_step s (CTotpOpen b) = s\<lparr>cm_totpResetOpen := b\<rparr>"
| "cl_menu_step s (CConfirmTotp ok) = (if ok then s\<lparr>cm_totpResetOpen := False\<rparr> else s)"
| "cl_menu_step s (CRefetched u) = s\<lparr>cm_user := u\<rparr>"
| "cl_menu_step s _ = s"

subsection \<open>The web's menu behind it\<close>

definition web_menu :: "cl_row_menu \<Rightarrow> row_menu" where
  "web_menu s = (menu_mounted (cm_user s))\<lparr>rm_confirmOpen := cm_confirmOpen s, rm_totpResetOpen := cm_totpResetOpen s\<rparr>"

fun web_menu_events :: "cl_menu_event \<Rightarrow> menu_event list" where
  "web_menu_events (CPickRole r) = [PickRole r]"
| "web_menu_events CPickTotpReset = [PickTotpReset]"
| "web_menu_events CPickTotpRequired = [PickTotpRequired]"
| "web_menu_events CPickCert = [PickCert]"
| "web_menu_events CPickEnable = [PickEnable]"
| "web_menu_events CPickDisable = [PickDisable]"
| "web_menu_events (CConfirmOpen b) = [OpenConfirm b]"
| "web_menu_events (CConfirmDisable ok) = [ConfirmDisable ok]"
| "web_menu_events (CTotpOpen b) = [OpenTotpReset b]"
| "web_menu_events (CConfirmTotp ok) = [ConfirmTotpReset ok]"
| "web_menu_events (CRefetched u) = [Refetched u]"

lemmas web_menu_defs = web_menu_def menu_mounted_def isSelf_def has_role_def lockedBySelf_def modal_open_def toggleRole_def
  ALL_ROLES_def cl_isSelf_def cl_has_role_def cl_lockedBySelf_def cl_modal_open_def cl_toggleRole_def cl_ALL_ROLES_def

interpretation desktop_menu: page_refinement "cl_menu_can me" cl_menu_step "cl_menu_sends me" "menu_can me" "menu_step cached"
  "menu_sends me up" web_menu web_menu_events for me cached up
proof
  fix s e
  assume "cl_menu_can me s e"
  then show "possible_run (menu_can me) (menu_step cached) (web_menu s) (web_menu_events e)"
    by (cases e) (auto simp: web_menu_defs)
  show "foldl (menu_step cached) (web_menu s) (web_menu_events e) = web_menu (cl_menu_step s e)"
    by (cases e) (auto simp: web_menu_defs)
  show "sent_by (menu_step cached) (menu_sends me up) (web_menu s) (web_menu_events e) = cl_menu_sends me s e"
    by (cases e) (auto simp: web_menu_defs same_admin_hooks)
qed

text \<open>
  The desktop's menu does what the web's does: what happens on it could happen on the web's menu of the same user,
  which ends showing the same and has sent the same.
\<close>
theorem desktop_menu_refines_web:
  assumes "possible_run (cl_menu_can me) cl_menu_step (cl_menu_mounted u) es" and "fs = concat (map web_menu_events es)"
  shows "possible_run (menu_can me) (menu_step cached) (menu_mounted u) fs
    \<and> foldl (menu_step cached) (menu_mounted u) fs = web_menu (foldl cl_menu_step (cl_menu_mounted u) es)
    \<and> sent_by (menu_step cached) (menu_sends me up) (menu_mounted u) fs
        = sent_by cl_menu_step (cl_menu_sends me) (cl_menu_mounted u) es"
proof -
  have "web_menu (cl_menu_mounted u) = menu_mounted u" by (simp add: web_menu_def cl_menu_mounted_def menu_mounted_def)
  with desktop_menu.run_tr [OF assms(1), of cached up] assms(2) show ?thesis by simp
qed

text \<open>
  So the administrator's own row is protected on the desktop too: no click on it revokes the own admin role, lifts the
  own duty to use TOTP, disables the account or resets its TOTP.
\<close>
theorem desktop_own_row_is_protected:
  assumes "possible_run (cl_menu_can (Some (au_id u))) cl_menu_step (cl_menu_mounted u) es"
    and "m \<in> set (sent_by cl_menu_step (cl_menu_sends (Some (au_id u))) (cl_menu_mounted u) es)"
  shows "m \<notin> locks_out (au_id u)"
proof -
  have w: "web_menu (cl_menu_mounted u) = menu_mounted u" by (simp add: web_menu_def cl_menu_mounted_def menu_mounted_def)
  have "own_row (au_id u) (menu_mounted u)" by (simp add: own_row_def menu_mounted_def)
  with desktop_menu.run_tr [OF assms(1), of Map.empty id] assms(2) own_row.run_sends_ok show ?thesis by (metis w)
qed

subsection \<open>Making a user\<close>

record cl_create_form =
  cf_username :: string
  cf_email :: string
  cf_password :: string
  cf_confirmPassword :: string
  cf_selectedRoles :: "string list"
  cf_totpRequired :: bool

definition cl_resetForm :: cl_create_form where
  "cl_resetForm = \<lparr>cf_username = [], cf_email = [], cf_password = [], cf_confirmPassword = [], cf_selectedRoles = [''read''],
     cf_totpRequired = True\<rparr>"

definition cl_cu_toggleRole :: "cl_create_form \<Rightarrow> string \<Rightarrow> cl_create_form" where
  "cl_cu_toggleRole f role = f\<lparr>cf_selectedRoles := if role \<in> set (cf_selectedRoles f)
     then filter (\<lambda>r. r \<noteq> role) (cf_selectedRoles f) else cf_selectedRoles f @ [role]\<rparr>"

definition cl_cu_json :: "cl_create_form \<Rightarrow> json" where
  "cl_cu_json f = JObj [(''username'', JStr (cf_username f)), (''email'', JStr (cf_email f)),
     (''password'', JStr (cf_password f)), (''roles'', JArr (map JStr (cf_selectedRoles f))),
     (''totp_required'', JBool (cf_totpRequired f))]"

definition cl_cu_onSubmit :: "cl_create_form \<Rightarrow> create_user_outcome" where
  "cl_cu_onSubmit f =
     (if cf_password f \<noteq> cf_confirmPassword f then create_user_outcome.PasswordsDiffer
      else if cf_selectedRoles f = [] then NoRoleChosen
      else SendUser (cl_useCreateUserMutation (cl_cu_json f)))"

fun cl_create_sends :: "cl_create_form \<Rightarrow> create_user_event \<Rightarrow> mutation_hook list" where
  "cl_create_sends f (SubmitCreate ok) = (case cl_cu_onSubmit f of SendUser m \<Rightarrow> [m] | _ \<Rightarrow> [])"
| "cl_create_sends f _ = []"

fun cl_create_step :: "(string \<Rightarrow> string) \<Rightarrow> cl_create_form \<Rightarrow> create_user_event \<Rightarrow> cl_create_form" where
  "cl_create_step lower f (TypeUsername t) = f\<lparr>cf_username := lower t\<rparr>"
| "cl_create_step lower f (TypeEmail t) = f\<lparr>cf_email := t\<rparr>"
| "cl_create_step lower f (TypePassword t) = f\<lparr>cf_password := t\<rparr>"
| "cl_create_step lower f (TypeConfirm t) = f\<lparr>cf_confirmPassword := t\<rparr>"
| "cl_create_step lower f (TickRole r) = cl_cu_toggleRole f r"
| "cl_create_step lower f (TickTotp b) = f\<lparr>cf_totpRequired := b\<rparr>"
| "cl_create_step lower f CloseCreate = cl_resetForm"
| "cl_create_step lower f (SubmitCreate ok) =
     (case cl_cu_onSubmit f of SendUser m \<Rightarrow> if ok then cl_resetForm else f | _ \<Rightarrow> f)"

text \<open>The fields have lengths here and no pattern.\<close>

definition cl_create_valid :: "(string \<Rightarrow> bool) \<Rightarrow> cl_create_form \<Rightarrow> bool" where
  "cl_create_valid is_email f \<longleftrightarrow> 3 \<le> js_length (cf_username f) \<and> js_length (cf_username f) \<le> 64
     \<and> cf_email f \<noteq> [] \<and> is_email (cf_email f) \<and> 12 \<le> js_length (cf_password f) \<and> 12 \<le> js_length (cf_confirmPassword f)"

fun cl_create_can :: "(string \<Rightarrow> bool) \<Rightarrow> cl_create_form \<Rightarrow> create_user_event \<Rightarrow> bool" where
  "cl_create_can is_email f (TickRole r) = (r \<in> set cl_ALL_ROLES)"
| "cl_create_can is_email f (SubmitCreate ok) = cl_create_valid is_email f"
| "cl_create_can is_email f _ = True"

text \<open>
  The desktop's dialog sends names that the web's refuses: a name of at least three characters goes to the server
  with the password typed twice, whatever its characters are, and without the field that asks for a certificate.
\<close>
theorem desktop_sends_any_name:
  assumes "3 \<le> js_length (lower n)" and "js_length (lower n) \<le> 64" and "12 \<le> js_length pw" and "mail \<noteq> []" and "is_email mail"
    and "es = [TypeUsername n, TypeEmail mail, TypePassword pw, TypeConfirm pw, SubmitCreate True]"
  shows "possible_run (cl_create_can is_email) (cl_create_step lower) cl_resetForm es
    \<and> sent_by (cl_create_step lower) cl_create_sends cl_resetForm es
        = [useCreateUserMutation (JObj [(''username'', JStr (lower n)), (''email'', JStr mail), (''password'', JStr pw),
            (''roles'', JArr [JStr ''read'']), (''totp_required'', JBool True)])]
    \<and> foldl (cl_create_step lower) cl_resetForm es = cl_resetForm"
  using assms by (simp add: cl_resetForm_def cl_create_valid_def cl_cu_onSubmit_def cl_cu_json_def same_admin_hooks)

subsection \<open>Concrete runs\<close>

lemma desktop_menu_refines_web_witness:
  "sent_by (menu_step Map.empty) (menu_sends None id) (menu_mounted some_admin) [PickRole ''write'', PickDisable, ConfirmDisable True]
     = [useGrantRoleMutation ''u1'' (JObj [(''role'', JStr ''write'')]), useDisableUserMutation ''u1'']"
proof -
  let ?es = "[CPickRole ''write'', CPickDisable, CConfirmDisable True]"
  have "possible_run (cl_menu_can None) cl_menu_step (cl_menu_mounted some_admin) ?es"
    by (simp add: cl_menu_mounted_def some_admin_def cl_modal_open_def cl_ALL_ROLES_def cl_lockedBySelf_def cl_isSelf_def)
  from desktop_menu_refines_web [OF this refl, of Map.empty id]
  have "sent_by (menu_step Map.empty) (menu_sends None id) (menu_mounted some_admin) [PickRole ''write'', PickDisable, ConfirmDisable True]
      = sent_by cl_menu_step (cl_menu_sends None) (cl_menu_mounted some_admin) ?es"
    by (simp only: list.map concat.simps web_menu_events.simps append.simps)
  also have "\<dots> = [useGrantRoleMutation ''u1'' (JObj [(''role'', JStr ''write'')]), useDisableUserMutation ''u1'']"
    by (simp add: cl_menu_mounted_def some_admin_def web_menu_defs same_admin_hooks)
  finally show ?thesis .
qed

lemma desktop_own_row_is_protected_witness: "cl_useGrantRoleMutation ''u1'' (JObj [(''role'', JStr ''write'')]) \<notin> locks_out ''u1''"
  using desktop_own_row_is_protected [of some_admin "[CPickRole ''write'']" "cl_useGrantRoleMutation ''u1'' (JObj [(''role'', JStr ''write'')])"]
  by (simp add: cl_menu_mounted_def some_admin_def web_menu_defs)

lemma desktop_sends_any_name_witness:
  "sent_by (cl_create_step id) cl_create_sends cl_resetForm
     [TypeUsername ''a b/c'', TypeEmail ''a@b.c'', TypePassword ''0123456789ab'', TypeConfirm ''0123456789ab'', SubmitCreate True]
   = [useCreateUserMutation (JObj [(''username'', JStr ''a b/c''), (''email'', JStr ''a@b.c''), (''password'', JStr ''0123456789ab''),
       (''roles'', JArr [JStr ''read'']), (''totp_required'', JBool True)])]"
  using desktop_sends_any_name [of id "''a b/c''" "''0123456789ab''" "''a@b.c''" "\<lambda>_. True"]
  by (simp add: js_length_def units_def)

end
