(* ===== verification/AuditRows.thy ===== *)
theory AuditRows
  imports Paging DesktopHooks UserAdmin "HOL-Library.AList"
begin

text \<open>
  The rows of the audit log in both applications (\<open>components/admin/audit-row.tsx\<close>, \<open>components/common/relative-time.tsx\<close>),
  and the desktop's own copies of the lists of users and of the log (\<open>client/src/pages/admin/users.tsx\<close>, \<open>audit-log.tsx\<close>,
  \<open>components/admin/audit-filters.tsx\<close>, \<open>components/common/pagination.tsx\<close>). Dates in words are a parameter.
\<close>

subsection \<open>A distance in time\<close>

definition MINUTE :: int where "MINUTE = 60 * 1000"
definition HOUR :: int where "HOUR = 60 * MINUTE"
definition DAY :: int where "DAY = 24 * HOUR"

datatype time_text = InAMoment | JustNow | MinutesAgo int | HoursAgo int | DaysAgo int | OnDate int

definition formatRelative :: "int \<Rightarrow> int \<Rightarrow> time_text" where
  "formatRelative now t =
     (let diff = now - t
      in if diff < 0 then InAMoment
         else if diff < MINUTE then JustNow
         else if diff < HOUR then MinutesAgo (diff div MINUTE)
         else if diff < DAY then HoursAgo (diff div HOUR)
         else if diff < 7 * DAY then DaysAgo (diff div DAY)
         else OnDate t)"

text \<open>\<open>None\<close>: the fallback text.\<close>

definition RelativeTime :: "(string \<Rightarrow> int option) \<Rightarrow> int \<Rightarrow> string option \<Rightarrow> time_text option" where
  "RelativeTime date now stamp =
     (if \<not> truthy stamp then None else case date (the stamp) of None \<Rightarrow> None | Some t \<Rightarrow> Some (formatRelative now t))"

definition cl_formatRelative :: "int \<Rightarrow> int \<Rightarrow> time_text" where
  "cl_formatRelative now t =
     (let diff = now - t
      in if diff < 0 then InAMoment
         else if diff < MINUTE then JustNow
         else if diff < HOUR then MinutesAgo (diff div MINUTE)
         else if diff < DAY then HoursAgo (diff div HOUR)
         else if diff < 7 * DAY then DaysAgo (diff div DAY)
         else OnDate t)"

definition cl_RelativeTime :: "(string \<Rightarrow> int option) \<Rightarrow> int \<Rightarrow> string option \<Rightarrow> time_text option" where
  "cl_RelativeTime date now stamp =
     (if \<not> truthy stamp then None else case date (the stamp) of None \<Rightarrow> None | Some t \<Rightarrow> Some (cl_formatRelative now t))"

lemma cl_relative_eq: "cl_RelativeTime = RelativeTime"
proof -
  have "cl_formatRelative = formatRelative" by (intro ext) (simp only: cl_formatRelative_def formatRelative_def)
  then show ?thesis by (intro ext) (simp only: cl_RelativeTime_def RelativeTime_def)
qed

text \<open>What a text says of the time gone by.\<close>

fun time_span :: "time_text \<Rightarrow> (int \<times> int) option" where
  "time_span JustNow = Some (0, MINUTE)"
| "time_span (MinutesAgo n) = Some (n * MINUTE, (n + 1) * MINUTE)"
| "time_span (HoursAgo n) = Some (n * HOUR, (n + 1) * HOUR)"
| "time_span (DaysAgo n) = Some (n * DAY, (n + 1) * DAY)"
| "time_span _ = None"

fun count_ok :: "time_text \<Rightarrow> bool" where
  "count_ok (MinutesAgo n) = (1 \<le> n \<and> n \<le> 59)"
| "count_ok (HoursAgo n) = (1 \<le> n \<and> n \<le> 23)"
| "count_ok (DaysAgo n) = (1 \<le> n \<and> n \<le> 6)"
| "count_ok _ = True"

text \<open>
  C40: Within the last week the text is right: the time gone by lies in the span of the number and unit shown, and the number is one
  to 59 minutes, one to 23 hours or one to six days.
\<close>
theorem relative_time_is_right:
  assumes "t \<le> now" and "now - t < 7 * DAY"
  shows "count_ok (formatRelative now t)
    \<and> (\<exists>lo hi. time_span (formatRelative now t) = Some (lo, hi) \<and> lo \<le> now - t \<and> now - t < hi)"
proof -
  define d where "d = now - t"
  note units = MINUTE_def HOUR_def DAY_def
  have d: "0 \<le> d" "d < 7 * 24 * 60 * 60 * 1000" using assms by (simp_all add: d_def units)
  consider "d < MINUTE" | "MINUTE \<le> d" "d < HOUR" | "HOUR \<le> d" "d < DAY" | "DAY \<le> d" by linarith
  then show ?thesis
  proof cases
    case 1
    with d show ?thesis by (simp add: formatRelative_def Let_def d_def [symmetric] units)
  next
    case 2
    then show ?thesis by (auto simp: formatRelative_def Let_def d_def [symmetric] units)
  next
    case 3
    then show ?thesis by (auto simp: formatRelative_def Let_def d_def [symmetric] units)
  next
    case 4
    with d show ?thesis by (auto simp: formatRelative_def Let_def d_def [symmetric] units)
  qed
qed

lemma relative_time_is_right_witness:
  "formatRelative 7200000 1000 = HoursAgo 1
    \<and> (\<exists>lo hi. time_span (formatRelative 7200000 1000) = Some (lo, hi) \<and> lo \<le> 7199000 \<and> 7199000 < hi)"
  using relative_time_is_right [of 1000 7200000] by (simp add: formatRelative_def Let_def MINUTE_def HOUR_def DAY_def)

subsection \<open>A row of the log\<close>

record AuditLogEntry =
  ale_actor_user_id :: "string option"
  ale_action :: string
  ale_resource_type :: "string option"
  ale_resource_id :: "string option"
  ale_details :: "(string \<times> json) list option"
  ale_ip_address :: "string option"
  ale_user_agent :: "string option"
  ale_created_at :: string

text \<open>The page asks for the first users, as many as the server gives at once, whatever their number.\<close>

definition USER_LIST_LIMIT :: int where "USER_LIST_LIMIT = 200"

definition audit_users_query :: query_hook where
  "audit_users_query = useUsers USER_LIST_LIMIT 0"

definition userMap :: "AdminUser list query_data \<Rightarrow> string \<Rightarrow> string option" where
  "userMap q = foldl (\<lambda>out u. out(au_id u \<mapsto> au_username u)) Map.empty (data_or [] q)"

datatype actor_label = SystemActor | DeletedActor | ActorNamed string

definition ActorLabel :: "(string \<Rightarrow> string option) \<Rightarrow> string option \<Rightarrow> actor_label" where
  "ActorLabel users actor =
     (if \<not> truthy actor then SystemActor
      else if \<not> truthy (users (the actor)) then DeletedActor else ActorNamed (the (users (the actor))))"

definition ResourceLabel :: "AuditLogEntry \<Rightarrow> string option" where
  "ResourceLabel e =
     (if \<not> truthy (ale_resource_type e) then None
      else if \<not> truthy (ale_resource_id e) then ale_resource_type e
      else Some (the (ale_resource_type e) @ '':'' @
        (let i = the (ale_resource_id e)
         in if 12 < js_length i then js_prefix 8 i @ [CHR 0xE2, CHR 0x80, CHR 0xA6] else i)))"

definition hasDetails :: "AuditLogEntry \<Rightarrow> bool" where
  "hasDetails e \<longleftrightarrow> nullish (ale_details e) [] \<noteq> [] \<or> truthy (ale_ip_address e) \<or> truthy (ale_user_agent e)"

definition buildDetailObject :: "AuditLogEntry \<Rightarrow> (string \<times> json) list" where
  "buildDetailObject e =
     (let out = nullish (ale_details e) [];
          out1 = (if truthy (ale_ip_address e) then AList.update ''ip_address'' (JStr (the (ale_ip_address e))) out else out)
      in if truthy (ale_user_agent e) then AList.update ''user_agent'' (JStr (the (ale_user_agent e))) out1 else out1)"

definition cl_USER_LIST_LIMIT :: int where "cl_USER_LIST_LIMIT = 200"

definition cl_audit_users_query :: query_hook where
  "cl_audit_users_query = cl_useUsers cl_USER_LIST_LIMIT 0"

definition cl_userMap :: "AdminUser list query_data \<Rightarrow> string \<Rightarrow> string option" where
  "cl_userMap q = foldl (\<lambda>out u. out(au_id u \<mapsto> au_username u)) Map.empty (data_or [] q)"

definition cl_ActorLabel :: "(string \<Rightarrow> string option) \<Rightarrow> string option \<Rightarrow> actor_label" where
  "cl_ActorLabel users actor =
     (if \<not> truthy actor then SystemActor
      else if \<not> truthy (users (the actor)) then DeletedActor else ActorNamed (the (users (the actor))))"

definition cl_ResourceLabel :: "AuditLogEntry \<Rightarrow> string option" where
  "cl_ResourceLabel e =
     (if \<not> truthy (ale_resource_type e) then None
      else if \<not> truthy (ale_resource_id e) then ale_resource_type e
      else Some (the (ale_resource_type e) @ '':'' @
        (let i = the (ale_resource_id e)
         in if 12 < js_length i then js_prefix 8 i @ [CHR 0xE2, CHR 0x80, CHR 0xA6] else i)))"

definition cl_hasDetails :: "AuditLogEntry \<Rightarrow> bool" where
  "cl_hasDetails e \<longleftrightarrow> nullish (ale_details e) [] \<noteq> [] \<or> truthy (ale_ip_address e) \<or> truthy (ale_user_agent e)"

definition cl_buildDetailObject :: "AuditLogEntry \<Rightarrow> (string \<times> json) list" where
  "cl_buildDetailObject e =
     (let out = nullish (ale_details e) [];
          out1 = (if truthy (ale_ip_address e) then AList.update ''ip_address'' (JStr (the (ale_ip_address e))) out else out)
      in if truthy (ale_user_agent e) then AList.update ''user_agent'' (JStr (the (ale_user_agent e))) out1 else out1)"

lemma cl_same_rows_of_log:
  "cl_audit_users_query = audit_users_query" "cl_userMap = userMap" "cl_ActorLabel = ActorLabel" "cl_ResourceLabel = ResourceLabel"
  "cl_hasDetails = hasDetails" "cl_buildDetailObject = buildDetailObject"
  by (simp_all add: fun_eq_iff cl_audit_users_query_def audit_users_query_def USER_LIST_LIMIT_def cl_USER_LIST_LIMIT_def same_admin_hooks cl_userMap_def
      userMap_def cl_ActorLabel_def ActorLabel_def cl_ResourceLabel_def ResourceLabel_def cl_hasDetails_def hasDetails_def
      cl_buildDetailObject_def buildDetailObject_def)

lemma userMap_other: "\<forall>u\<in>set us. au_id u \<noteq> i \<Longrightarrow> userMap (Loaded us) i = None"
proof -
  have "\<forall>u\<in>set us. au_id u \<noteq> i \<Longrightarrow> foldl (\<lambda>out u. out(au_id u \<mapsto> au_username u)) m us i = m i" for m
    by (induction us arbitrary: m) auto
  then show "\<forall>u\<in>set us. au_id u \<noteq> i \<Longrightarrow> userMap (Loaded us) i = None" by (simp add: userMap_def)
qed

text \<open>
  With more users than the two hundred the page asks for, the others look deleted: whoever is not among those the server
  answers with, is shown as a deleted user in every entry of the log, in both applications, and so is everyone while the
  list of users loads or when it fails.
\<close>
theorem users_beyond_limit_look_deleted:
  assumes "distinct (map au_id all)" and "200 \<le> i" and "i < length all" and "au_id (all ! i) \<noteq> []"
    and "ale_actor_user_id e = Some (au_id (all ! i))"
  shows "ActorLabel (userMap (Loaded (take (nat USER_LIST_LIMIT) all))) (ale_actor_user_id e) = DeletedActor
    \<and> cl_ActorLabel (cl_userMap (Loaded (take (nat cl_USER_LIST_LIMIT) all))) (ale_actor_user_id e) = DeletedActor
    \<and> ActorLabel (userMap Loading) (ale_actor_user_id e) = DeletedActor"
proof -
  have "au_id u \<noteq> au_id (all ! i)" if u: "u \<in> set (take 200 all)" for u
  proof -
    from u obtain j where "j < 200" "j < length all" "u = all ! j" by (auto simp: in_set_conv_nth)
    with assms(1-3) show ?thesis by (auto simp: distinct_conv_nth)
  qed
  then have "userMap (Loaded (take (nat USER_LIST_LIMIT) all)) (au_id (all ! i)) = None"
    by (simp add: userMap_other USER_LIST_LIMIT_def)
  with assms(4,5) show ?thesis by (simp add: cl_same_rows_of_log cl_USER_LIST_LIMIT_def USER_LIST_LIMIT_def ActorLabel_def) (simp add: userMap_def)
qed

definition many_users :: "AdminUser list" where
  "many_users = map (\<lambda>n. \<lparr>au_id = replicate n CHR ''u'', au_username = ''user'', au_email = [], au_status = ActiveUser, au_roles = [],
     au_is_break_glass = False, au_totp_required = False, au_requires_client_cert = False, au_webauthn_required = False\<rparr>) [1..<202]"

definition entry_of :: "string \<Rightarrow> AuditLogEntry" where
  "entry_of u = \<lparr>ale_actor_user_id = Some u, ale_action = ''item.read'', ale_resource_type = None, ale_resource_id = None,
     ale_details = None, ale_ip_address = None, ale_user_agent = None, ale_created_at = []\<rparr>"

lemma users_beyond_limit_look_deleted_witness:
  "ActorLabel (userMap (Loaded (take (nat USER_LIST_LIMIT) many_users)))
     (ale_actor_user_id (entry_of (au_id (many_users ! 200)))) = DeletedActor"
  using users_beyond_limit_look_deleted [of many_users 200 "entry_of (au_id (many_users ! 200))"]
  by (simp add: many_users_def entry_of_def distinct_map inj_on_def comp_def nth_append USER_LIST_LIMIT_def cl_USER_LIST_LIMIT_def)

text \<open>What a row unfolds has everything the entry recorded, except a detail of the same name as the address or agent.\<close>

lemma details_are_kept:
  assumes "k \<notin> {''ip_address'', ''user_agent''}"
  shows "map_of (buildDetailObject e) k = map_of (nullish (ale_details e) []) k"
  using assms by (simp add: buildDetailObject_def Let_def update_conv')

subsection \<open>The lists of the desktop\<close>

definition cl_DEFAULT_LIMIT :: int where "cl_DEFAULT_LIMIT = 50"
definition cl_ALLOWED_LIMITS :: "int list" where "cl_ALLOWED_LIMITS = [25, 50, 100]"

definition cl_parsePagination :: "(string \<times> string) list \<Rightarrow> int \<times> int" where
  "cl_parsePagination ps =
     (let limit = (case param_number ps ''size'' of
                     None \<Rightarrow> cl_DEFAULT_LIMIT
                   | Some q \<Rightarrow> if q \<in> set (map of_int cl_ALLOWED_LIMITS) then \<lfloor>q\<rfloor> else cl_DEFAULT_LIMIT);
          page = (case param_number ps ''page'' of None \<Rightarrow> 1 | Some q \<Rightarrow> if 0 < q then \<lfloor>q\<rfloor> else 1)
      in (limit, (page - 1) * limit))"

definition cl_setPage :: "(string \<times> string) list \<Rightarrow> int \<Rightarrow> (string \<times> string) list" where
  "cl_setPage ps nextOffset =
     (let limit = fst (cl_parsePagination ps)
      in params_set (params_set ps ''page'' (show_int (nextOffset div limit + 1))) ''size'' (show_int limit))"

definition cl_setLimit :: "(string \<times> string) list \<Rightarrow> int \<Rightarrow> (string \<times> string) list" where
  "cl_setLimit ps nextLimit = params_set (params_set ps ''size'' (show_int nextLimit)) ''page'' ''1''"

definition cl_users_query :: "(string \<times> string) list \<Rightarrow> query_hook" where
  "cl_users_query ps = (let (limit, offset) = cl_parsePagination ps in cl_useUsers limit offset)"

definition cl_currentPage :: "page_bar \<Rightarrow> int option" where
  "cl_currentPage b = (if pb_limit b = 0 then None else Some (pb_offset b div pb_limit b + 1))"

definition cl_totalPages :: "page_bar \<Rightarrow> int option" where
  "cl_totalPages b = (if pb_limit b = 0 then None else Some (max 1 (- ((- pb_total b) div pb_limit b))))"

definition cl_canPrev :: "page_bar \<Rightarrow> bool" where "cl_canPrev b \<longleftrightarrow> 0 < pb_offset b"
definition cl_canNext :: "page_bar \<Rightarrow> bool" where "cl_canNext b \<longleftrightarrow> pb_offset b + pb_limit b < pb_total b"
definition cl_prev_offset :: "page_bar \<Rightarrow> int" where "cl_prev_offset b = max 0 (pb_offset b - pb_limit b)"
definition cl_next_offset :: "page_bar \<Rightarrow> int" where "cl_next_offset b = pb_offset b + pb_limit b"

lemma cl_same_place:
  "cl_parsePagination = parsePagination" "cl_setPage = setPage" "cl_setLimit = setLimit" "cl_currentPage = currentPage"
  "cl_totalPages = totalPages" "cl_canPrev = canPrev" "cl_canNext = canNext" "cl_prev_offset = prev_offset"
  "cl_next_offset = next_offset"
proof -
  show p: "cl_parsePagination = parsePagination"
    unfolding fun_eq_iff cl_parsePagination_def parsePagination_def parse_limit_def parse_page_def cl_DEFAULT_LIMIT_def
        DEFAULT_LIMIT_def cl_ALLOWED_LIMITS_def ALLOWED_LIMITS_def Let_def by (intro allI refl)
  show "cl_setPage = setPage" by (simp add: fun_eq_iff cl_setPage_def setPage_def p parsePagination_def)
qed (simp_all add: fun_eq_iff cl_setLimit_def setLimit_def cl_currentPage_def currentPage_def cl_totalPages_def totalPages_def
    cl_canPrev_def canPrev_def cl_canNext_def canNext_def cl_prev_offset_def prev_offset_def cl_next_offset_def next_offset_def)

definition cl_EMPTY_FILTERS :: AuditFilterState where
  "cl_EMPTY_FILTERS = \<lparr>as_action = [], as_actor_user_id = [], as_resource_type = [], as_from = [], as_to = []\<rparr>"

definition cl_filterValue :: "(string \<times> string) list \<Rightarrow> AuditFilterState" where
  "cl_filterValue ps = \<lparr>as_action = nullish (map_of ps ''action'') '''', as_actor_user_id = nullish (map_of ps ''actor_user_id'') '''',
     as_resource_type = nullish (map_of ps ''resource_type'') '''', as_from = nullish (map_of ps ''from'') '''',
     as_to = nullish (map_of ps ''to'') ''''\<rparr>"

definition cl_parseFilters :: "(string \<times> string) list \<Rightarrow> AuditFilterState \<times> int \<times> int" where
  "cl_parseFilters ps = (cl_filterValue ps, cl_parsePagination ps)"

definition cl_set_or_delete :: "(string \<times> string) list \<Rightarrow> string \<Rightarrow> string \<Rightarrow> (string \<times> string) list" where
  "cl_set_or_delete ps k v = (if v \<noteq> [] then params_set ps k v else params_delete ps k)"

definition cl_applyFilters :: "(string \<times> string) list \<Rightarrow> AuditFilterState \<Rightarrow> (string \<times> string) list" where
  "cl_applyFilters ps v =
     (let ps1 = foldl (\<lambda>q (k, x). cl_set_or_delete q k x) ps
                  [(''action'', as_action v), (''actor_user_id'', as_actor_user_id v),
                   (''resource_type'', as_resource_type v), (''from'', as_from v), (''to'', as_to v)];
          ps2 = params_set ps1 ''page'' ''1''
      in if truthy (map_of ps2 ''size'') then ps2 else params_set ps2 ''size'' (show_int (fst (snd (cl_parseFilters ps)))))"

definition cl_audit_page_query :: "(string \<times> string) list \<Rightarrow> query_hook" where
  "cl_audit_page_query ps =
     (let (f, limit, offset) = cl_parseFilters ps
      in cl_useAuditLog \<lparr>af_action = Some (as_action f), af_actor_user_id = Some (as_actor_user_id f),
           af_resource_type = Some (as_resource_type f), af_resource_id = None, af_from = Some (as_from f),
           af_to = Some (as_to f), af_limit = Some limit, af_offset = Some offset\<rparr>)"

definition cl_localToISOZ :: "(string \<Rightarrow> int option) \<Rightarrow> (int \<Rightarrow> string) \<Rightarrow> string \<Rightarrow> string" where
  "cl_localToISOZ date toISOString text =
     (if text = [] then [] else case date text of None \<Rightarrow> [] | Some t \<Rightarrow> toISOString t)"

definition cl_isoZToLocal :: "(string \<Rightarrow> int option) \<Rightarrow> (int \<Rightarrow> local_fields) \<Rightarrow> string \<Rightarrow> string" where
  "cl_isoZToLocal date local text =
     (if text = [] then [] else case date text of
        None \<Rightarrow> []
      | Some t \<Rightarrow> (let f = local t
          in show_nat (lf_year f) @ ''-'' @ pad2 (lf_month f + 1) @ ''-'' @ pad2 (lf_day f) @ ''T''
             @ pad2 (lf_hours f) @ '':'' @ pad2 (lf_minutes f)))"

definition cl_RESOURCE_TYPES :: "string list" where "cl_RESOURCE_TYPES = [''user'', ''session'', ''folder'', ''item'']"

definition cl_hasAnyFilter :: "AuditFilterState \<Rightarrow> bool" where
  "cl_hasAnyFilter v \<longleftrightarrow>
     as_action v \<noteq> [] \<or> as_actor_user_id v \<noteq> [] \<or> as_resource_type v \<noteq> [] \<or> as_from v \<noteq> [] \<or> as_to v \<noteq> []"

fun cl_audit_step :: "(string \<Rightarrow> int option) \<Rightarrow> (int \<Rightarrow> string) \<Rightarrow> AuditFilterState \<Rightarrow> audit_event \<Rightarrow> AuditFilterState" where
  "cl_audit_step date z v (ChooseAction a) = v\<lparr>as_action := if a = ALL_VALUE then [] else a\<rparr>"
| "cl_audit_step date z v (ChooseActor u) = v\<lparr>as_actor_user_id := if u = ALL_VALUE then [] else u\<rparr>"
| "cl_audit_step date z v (ChooseResource r) = v\<lparr>as_resource_type := if r = ALL_VALUE then [] else r\<rparr>"
| "cl_audit_step date z v (TypeFrom t) = v\<lparr>as_from := cl_localToISOZ date z t\<rparr>"
| "cl_audit_step date z v (TypeTo t) = v\<lparr>as_to := cl_localToISOZ date z t\<rparr>"
| "cl_audit_step date z v ClearFilters = cl_EMPTY_FILTERS"

fun cl_audit_can :: "string list \<Rightarrow> string list \<Rightarrow> AuditFilterState \<Rightarrow> audit_event \<Rightarrow> bool" where
  "cl_audit_can actions users v (ChooseAction a) = (a \<in> set (ALL_VALUE # actions))"
| "cl_audit_can actions users v (ChooseActor u) = (u \<in> set (ALL_VALUE # users))"
| "cl_audit_can actions users v (ChooseResource r) = (r \<in> set (ALL_VALUE # cl_RESOURCE_TYPES))"
| "cl_audit_can actions users v ClearFilters = cl_hasAnyFilter v"
| "cl_audit_can actions users v _ = True"

lemma cl_same_filters:
  "cl_EMPTY_FILTERS = EMPTY_FILTERS" "cl_filterValue = filterValue" "cl_parseFilters = parseFilters"
  "cl_applyFilters = applyFilters" "cl_audit_page_query = audit_page_query" "cl_localToISOZ = localToISOZ"
  "cl_isoZToLocal = isoZToLocal" "cl_hasAnyFilter = hasAnyFilter"
proof -
  show f: "cl_filterValue = filterValue" by (simp add: fun_eq_iff cl_filterValue_def filterValue_def filter_param_def)
  show p: "cl_parseFilters = parseFilters" by (simp add: fun_eq_iff cl_parseFilters_def parseFilters_def f cl_same_place)
  have sd: "cl_set_or_delete = set_or_delete" by (simp add: fun_eq_iff cl_set_or_delete_def set_or_delete_def)
  show "cl_applyFilters = applyFilters"
    unfolding fun_eq_iff cl_applyFilters_def applyFilters_def sd p parseFilters_def parsePagination_def fst_conv snd_conv
    by (intro allI refl)
  show "cl_audit_page_query = audit_page_query"
    by (simp add: fun_eq_iff cl_audit_page_query_def audit_page_query_def p same_admin_hooks)
  show "cl_isoZToLocal = isoZToLocal"
    unfolding fun_eq_iff cl_isoZToLocal_def isoZToLocal_def show_local_def Let_def by (intro allI refl)
qed (simp_all add: fun_eq_iff cl_EMPTY_FILTERS_def EMPTY_FILTERS_def cl_localToISOZ_def localToISOZ_def cl_hasAnyFilter_def
    hasAnyFilter_def)

text \<open>
  The desktop's controls for the log do what the web's do wherever a user can put them, and what they leave in the address makes
  both ask the server for the same.
\<close>
theorem desktop_log_asks_the_same:
  assumes "SYSTEM_VALUE \<notin> set users" and "cl_audit_can actions users (cl_filterValue ps) e"
  shows "audit_can actions users (filterValue ps) e
    \<and> cl_audit_page_query (cl_applyFilters ps (cl_audit_step date z (cl_filterValue ps) e))
      = audit_page_query (applyFilters ps (audit_step date z (filterValue ps) e))"
proof -
  have "audit_can actions users (filterValue ps) e"
    using assms(2) by (cases e) (simp_all add: cl_same_filters cl_RESOURCE_TYPES_def RESOURCE_TYPES_def)
  moreover have "cl_audit_step date z v e = audit_step date z v e" for v
    using assms by (cases e) (auto simp: cl_same_filters ALL_VALUE_def SYSTEM_VALUE_def)
  ultimately show ?thesis by (simp add: cl_same_filters)
qed

lemma desktop_log_asks_the_same_witness:
  "cl_audit_page_query (cl_applyFilters [] (cl_audit_step (\<lambda>_. None) (\<lambda>_. []) (cl_filterValue []) (ChooseActor ''u1'')))
     = audit_page_query (applyFilters [] (audit_step (\<lambda>_. None) (\<lambda>_. []) (filterValue []) (ChooseActor ''u1'')))"
  using desktop_log_asks_the_same [of "[''u1'']" "[]" "[]" "ChooseActor ''u1''" "\<lambda>_. None" "\<lambda>_. []"]
  by (simp add: SYSTEM_VALUE_def)

end
