(* ===== verification/CatalogPages.thy ===== *)
theory CatalogPages
  imports ItemTabFacts CatalogHooks DesktopHooks
begin

text \<open>
  The catalogue of both applications (\<open>pages/catalog/index.tsx\<close>, \<open>entity-detail.tsx\<close>, \<open>entity-card.tsx\<close>): searching,
  the address a card leads to, and which item the page behind that address shows; and the panel of annotations of an
  item (\<open>annotations-panel.tsx\<close>). The router hands a page the part of the address already decoded; case mapping
  and dates are parameters.
\<close>

subsection \<open>The list\<close>

record catalog_page =
  cg_q :: string
  cg_kind :: "string option"
  cg_grid :: bool

definition catalog_opened :: catalog_page where
  "catalog_opened = \<lparr>cg_q = [], cg_kind = None, cg_grid = True\<rparr>"

definition catalog_kinds :: "string option list \<Rightarrow> string list" where
  "catalog_kinds types = map the (filter truthy types)"

definition catalog_filters :: "catalog_page \<Rightarrow> CatalogFilters" where
  "catalog_filters s = \<lparr>cf_q = cg_q s, cf_kind = cg_kind s, cf_fuzzy = None\<rparr>"

definition showEmptySearch :: "catalog_page \<Rightarrow> bool" where
  "showEmptySearch s \<longleftrightarrow> js_length (trim (cg_q s)) < 2"

definition showNoResults :: "catalog_page \<Rightarrow> 'a list query_data \<Rightarrow> bool" where
  "showNoResults s answer \<longleftrightarrow> \<not> showEmptySearch s \<and> answer \<noteq> Loading \<and> data_or [] answer = []"

definition catalog_cards :: "catalog_page \<Rightarrow> 'a list query_data \<Rightarrow> 'a list" where
  "catalog_cards s answer = (if showEmptySearch s then [] else data_or [] answer)"

datatype catalog_event =
    SearchFor string | ClearSearch | AnyKind | KindPressed string | ClearKind | KindSuggested string | ViewGrid bool

fun catalog_step :: "(string \<Rightarrow> string) \<Rightarrow> catalog_page \<Rightarrow> catalog_event \<Rightarrow> catalog_page" where
  "catalog_step lower s (SearchFor t) = s\<lparr>cg_q := t\<rparr>"
| "catalog_step lower s ClearSearch = s\<lparr>cg_q := []\<rparr>"
| "catalog_step lower s AnyKind = s\<lparr>cg_kind := None\<rparr>"
| "catalog_step lower s (KindPressed k) = s\<lparr>cg_kind := if cg_kind s = Some k then None else Some k\<rparr>"
| "catalog_step lower s ClearKind = s\<lparr>cg_kind := None\<rparr>"
| "catalog_step lower s (KindSuggested k) = s\<lparr>cg_kind := Some k, cg_q := js_prefix 3 (lower k)\<rparr>"
| "catalog_step lower s (ViewGrid b) = s\<lparr>cg_grid := b\<rparr>"

fun catalog_can :: "string list \<Rightarrow> catalog_page \<Rightarrow> catalog_event \<Rightarrow> bool" where
  "catalog_can kinds s ClearSearch = (cg_q s \<noteq> [])"
| "catalog_can kinds s (KindPressed k) = (k \<in> set kinds)"
| "catalog_can kinds s ClearKind = truthy (cg_kind s)"
| "catalog_can kinds s (KindSuggested k) = (showEmptySearch s \<and> k \<in> set kinds)"
| "catalog_can kinds s _ = True"

text \<open>Where a card leads.\<close>

definition catalog_handleItemClick :: "string option \<Rightarrow> string \<Rightarrow> string \<Rightarrow> string" where
  "catalog_handleItemClick kind n i =
     (if truthy kind \<and> n \<noteq> [] then ''/catalog/'' @ the kind @ ''/default/'' @ encodeURIComponent n
      else ''/inventory?item='' @ i)"

text \<open>The badges of a card: expired, soon to expire.\<close>

definition card_badges :: "(string \<Rightarrow> int option) \<Rightarrow> int \<Rightarrow> string option \<Rightarrow> bool \<times> bool" where
  "card_badges getTime now expires_at =
     (let t = (if truthy expires_at then getTime (the expires_at) else None);
          expired = (case t of None \<Rightarrow> False | Some x \<Rightarrow> x \<le> now)
      in (expired, \<not> expired \<and> (case t of None \<Rightarrow> False | Some x \<Rightarrow> x - now < 7 * 86400000)))"

definition cl_card_badges :: "(string \<Rightarrow> int option) \<Rightarrow> int \<Rightarrow> string option \<Rightarrow> bool \<times> bool" where
  "cl_card_badges getTime now expires_at =
     (let t = (if truthy expires_at then getTime (the expires_at) else None);
          expired = (case t of None \<Rightarrow> False | Some x \<Rightarrow> x \<le> now)
      in (expired, \<not> expired \<and> (case t of None \<Rightarrow> False | Some x \<Rightarrow> x - now < 7 * 86400000)))"

lemma cl_card_badges_eq: "cl_card_badges = card_badges"
  unfolding fun_eq_iff cl_card_badges_def card_badges_def by (intro allI refl)

subsection \<open>The desktop's list\<close>

record cl_catalog_page =
  cc_q :: string
  cc_kind :: "string option"

datatype cl_catalog_event = CSearchFor string | CClearSearch | CAnyKind | CKindPressed string | CKindSuggested string

definition cl_catalog_opened :: cl_catalog_page where
  "cl_catalog_opened = \<lparr>cc_q = [], cc_kind = None\<rparr>"

definition cl_catalog_filters :: "cl_catalog_page \<Rightarrow> CatalogFilters" where
  "cl_catalog_filters s = \<lparr>cf_q = cc_q s, cf_kind = cc_kind s, cf_fuzzy = None\<rparr>"

definition cl_showEmptySearch :: "cl_catalog_page \<Rightarrow> bool" where
  "cl_showEmptySearch s \<longleftrightarrow> js_length (trim (cc_q s)) < 2"

fun cl_catalog_step :: "(string \<Rightarrow> string) \<Rightarrow> cl_catalog_page \<Rightarrow> cl_catalog_event \<Rightarrow> cl_catalog_page" where
  "cl_catalog_step lower s (CSearchFor t) = s\<lparr>cc_q := t\<rparr>"
| "cl_catalog_step lower s CClearSearch = s\<lparr>cc_q := []\<rparr>"
| "cl_catalog_step lower s CAnyKind = s\<lparr>cc_kind := None\<rparr>"
| "cl_catalog_step lower s (CKindPressed k) = s\<lparr>cc_kind := if cc_kind s = Some k then None else Some k\<rparr>"
| "cl_catalog_step lower s (CKindSuggested k) = s\<lparr>cc_kind := Some k, cc_q := js_prefix 3 (lower k)\<rparr>"

fun cl_catalog_can :: "string list \<Rightarrow> cl_catalog_page \<Rightarrow> cl_catalog_event \<Rightarrow> bool" where
  "cl_catalog_can kinds s CClearSearch = (cc_q s \<noteq> [])"
| "cl_catalog_can kinds s (CKindPressed k) = (k \<in> set kinds)"
| "cl_catalog_can kinds s (CKindSuggested k) = (cl_showEmptySearch s \<and> k \<in> set kinds)"
| "cl_catalog_can kinds s _ = True"

definition cl_catalog_handleItemClick :: "string option \<Rightarrow> string \<Rightarrow> string \<Rightarrow> string" where
  "cl_catalog_handleItemClick kind n i =
     (if truthy kind \<and> n \<noteq> [] then ''/catalog/'' @ the kind @ ''/default/'' @ encodeURIComponent n
      else ''/inventory?item='' @ i)"

lemma cl_catalog_click_eq: "cl_catalog_handleItemClick = catalog_handleItemClick"
  by (simp add: fun_eq_iff cl_catalog_handleItemClick_def catalog_handleItemClick_def)

fun web_catalog_events :: "cl_catalog_event \<Rightarrow> catalog_event list" where
  "web_catalog_events (CSearchFor t) = [SearchFor t]"
| "web_catalog_events CClearSearch = [ClearSearch]"
| "web_catalog_events CAnyKind = [AnyKind]"
| "web_catalog_events (CKindPressed k) = [KindPressed k]"
| "web_catalog_events (CKindSuggested k) = [KindSuggested k]"

definition web_catalog :: "cl_catalog_page \<Rightarrow> catalog_page" where
  "web_catalog s = \<lparr>cg_q = cc_q s, cg_kind = cc_kind s, cg_grid = True\<rparr>"

text \<open>A step asks for the search that the page then shows.\<close>

interpretation desktop_catalog: page_refinement "cl_catalog_can kinds" "cl_catalog_step lower"
  "\<lambda>s e. [cl_useCatalogQuery (cl_catalog_filters (cl_catalog_step lower s e))]" "catalog_can kinds" "catalog_step lower"
  "\<lambda>s e. [useCatalogQuery (catalog_filters (catalog_step lower s e))]" web_catalog web_catalog_events for kinds lower
proof
  fix s e
  note d = web_catalog_def cl_showEmptySearch_def showEmptySearch_def
  assume "cl_catalog_can kinds s e"
  then show "possible_run (catalog_can kinds) (catalog_step lower) (web_catalog s) (web_catalog_events e)"
    by (cases e) (simp_all add: d)
  show "foldl (catalog_step lower) (web_catalog s) (web_catalog_events e) = web_catalog (cl_catalog_step lower s e)"
    by (cases e) (simp_all add: d)
  have "cl_useCatalogQuery f = useCatalogQuery f" for f
    by (simp add: cl_useCatalogQuery_def useCatalogQuery_def)
  then show "sent_by (catalog_step lower) (\<lambda>s e. [useCatalogQuery (catalog_filters (catalog_step lower s e))]) (web_catalog s)
      (web_catalog_events e) = [cl_useCatalogQuery (cl_catalog_filters (cl_catalog_step lower s e))]"
    by (cases e) (simp_all add: d catalog_filters_def cl_catalog_filters_def)
qed

subsection \<open>The page of an item\<close>

datatype 'a entity_view = EntityCrash | EntityLoading | EntityMissing | EntityShown 'a

text \<open>The web page: decoding throws while rendering; without a request there is nothing to load and no item; an error
  leaves no item, and that alone counts as not found.\<close>

definition entity_page :: "(string \<Rightarrow> string) \<Rightarrow> string \<Rightarrow> string \<Rightarrow> catalog_hit list query_data \<Rightarrow> catalog_hit entity_view" where
  "entity_page lower kind n answer =
     (case decodeURIComponent n of
        None \<Rightarrow> EntityCrash
      | Some decoded \<Rightarrow>
          if js_length decoded < 2 then EntityMissing
          else (case answer of
              Loading \<Rightarrow> EntityLoading
            | Failed \<Rightarrow> EntityMissing
            | Loaded hits \<Rightarrow>
                (case useFindItemByKindAndName lower kind decoded hits of None \<Rightarrow> EntityMissing | Some h \<Rightarrow> EntityShown h)))"

definition cl_entity_query :: "string \<Rightarrow> string \<Rightarrow> query_hook option" where
  "cl_entity_query kind n = map_option (cl_useCatalogEntityQuery kind) (decodeURIComponent n)"

definition cl_entity_page :: "string \<Rightarrow> string \<Rightarrow> 'a query_data \<Rightarrow> 'a entity_view" where
  "cl_entity_page kind n answer =
     (case cl_entity_query kind n of
        None \<Rightarrow> EntityCrash
      | Some q \<Rightarrow>
          if \<not> q_enabled q then EntityMissing
          else (case answer of Loading \<Rightarrow> EntityLoading | Failed \<Rightarrow> EntityMissing | Loaded x \<Rightarrow> EntityShown x))"

lemma percent_decode_plain: "CHR ''%'' \<notin> set s \<Longrightarrow> percent_decode s = Some s"
  by (induction s) auto

lemma decode_plain: "CHR ''%'' \<notin> set s \<Longrightarrow> valid_utf8 s \<Longrightarrow> decodeURIComponent s = Some s"
  by (simp add: decodeURIComponent_def percent_decode_plain)

lemma percent_decode_bad:
  assumes "CHR ''%'' \<notin> set a" and "b = [] \<or> hex_value (hd b) = None"
  shows "percent_decode (a @ CHR ''%'' # b) = None"
  using assms by (induction a) (auto split: list.split option.split)

text \<open>
  A card opens its item. If its name has no percent sign and at least two characters, and no other item of its kind in
  the answer has the same name in whatever case, then the address of the card shows it: the web page finds it in the
  answer, the desktop asks for exactly its kind and name.
\<close>
theorem card_opens_its_item:
  assumes "ch_kind h = Some k" and "k \<noteq> []" and "CHR ''%'' \<notin> set (ch_name h)" and "valid_utf8 (ch_name h)" and "2 \<le> js_length (ch_name h)"
    and "h \<in> set hits" and "\<forall>h'\<in>set hits. ch_kind h' = Some k \<and> lower (ch_name h') = lower (ch_name h) \<longrightarrow> h' = h"
    and "param (encodeURIComponent (ch_name h)) = ch_name h"
  shows "catalog_handleItemClick (ch_kind h) (ch_name h) (ch_id h) = ''/catalog/'' @ k @ ''/default/'' @ encodeURIComponent (ch_name h)
    \<and> entity_page lower k (param (encodeURIComponent (ch_name h))) (Loaded hits) = EntityShown h
    \<and> cl_entity_query k (param (encodeURIComponent (ch_name h))) = Some (cl_useCatalogEntityQuery k (ch_name h))"
proof -
  have "ch_name h \<noteq> []" using assms(5) by (auto simp: js_length_def)
  moreover have "find (\<lambda>i. ch_kind i = Some k \<and> lower (ch_name i) = lower (ch_name h)) hits = Some h"
    using assms(1,6,7) by (induction hits) auto
  ultimately show ?thesis
    using assms by (simp add: catalog_handleItemClick_def entity_page_def cl_entity_query_def useFindItemByKindAndName_def
        decode_plain [OF assms(3,4)])
qed

text \<open>
  Of two items of the same kind whose names differ in case at most, say in two folders, the card of either opens the one
  the server lists first.
\<close>
theorem card_opens_homonym:
  assumes "ch_kind a = Some k" and "ch_kind b = Some k" and "k \<noteq> []" and "lower (ch_name a) = lower (ch_name b)"
    and "CHR ''%'' \<notin> set (ch_name b)" and "valid_utf8 (ch_name b)" and "2 \<le> js_length (ch_name b)"
    and "\<forall>h\<in>set before. ch_kind h \<noteq> Some k" and "param (encodeURIComponent (ch_name b)) = ch_name b"
  shows "entity_page lower k (param (encodeURIComponent (ch_name b))) (Loaded (before @ a # b # after)) = EntityShown a"
proof -
  have "find (\<lambda>i. ch_kind i = Some k \<and> lower (ch_name i) = lower (ch_name b)) (before @ a # b # after) = Some a"
    using assms(1,4,8) by (induction before) auto
  with assms show ?thesis by (simp add: entity_page_def useFindItemByKindAndName_def decode_plain [OF assms(5,6)])
qed

text \<open>
  The name is decoded twice. A name with a percent sign that does not begin an escape takes both pages down, whatever
  the server answers.
\<close>
theorem percent_sign_crashes_page:
  assumes "n = a @ CHR ''%'' # b" and "CHR ''%'' \<notin> set a" and "b = [] \<or> hex_value (hd b) = None"
    and "param (encodeURIComponent n) = n"
  shows "entity_page lower k (param (encodeURIComponent n)) answer = EntityCrash
    \<and> cl_entity_page k (param (encodeURIComponent n)) answer' = EntityCrash"
  using assms percent_decode_bad [OF assms(2,3)]
  by (simp add: entity_page_def cl_entity_page_def cl_entity_query_def decodeURIComponent_def)

text \<open>At exactly seven days before its end an item is near its end on its page and not on its card; at every other time
  the two agree.\<close>

lemma card_agrees_with_page:
  "getTime (the (i_expires_at item)) \<noteq> Some (now + 7 * 86400000)
     \<Longrightarrow> card_badges getTime now (i_expires_at item) = (isExpired getTime now item, isWarning getTime now item \<and> \<not> isExpired getTime now item)"
  by (auto simp: card_badges_def isExpired_def isWarning_def expDate_def Let_def split: option.splits)

text \<open>The desktop's list asks for the same searches as the web's.\<close>

theorem desktop_catalog_asks_the_same:
  assumes "possible_run (cl_catalog_can kinds) (cl_catalog_step lower) cl_catalog_opened es" and "fs = concat (map web_catalog_events es)"
  shows "possible_run (catalog_can kinds) (catalog_step lower) catalog_opened fs
    \<and> sent_by (catalog_step lower) (\<lambda>s e. [useCatalogQuery (catalog_filters (catalog_step lower s e))]) catalog_opened fs
        = sent_by (cl_catalog_step lower) (\<lambda>s e. [cl_useCatalogQuery (cl_catalog_filters (cl_catalog_step lower s e))]) cl_catalog_opened es"
proof -
  have "web_catalog cl_catalog_opened = catalog_opened" by (simp add: web_catalog_def cl_catalog_opened_def catalog_opened_def)
  with desktop_catalog.run_tr [OF assms(1)] assms(2) show ?thesis by simp
qed

subsection \<open>The panel of annotations\<close>

record notes_panel =
  np_item :: shown_item
  np_rows :: "string \<Rightarrow> (string \<times> string) list query_data"
  np_editingKey :: "string option"
  np_editValue :: string
  np_addMode :: bool
  np_newKey :: string
  np_newValue :: string

definition notes_opened :: "shown_item \<Rightarrow> (string \<Rightarrow> (string \<times> string) list query_data) \<Rightarrow> notes_panel" where
  "notes_opened item rows = \<lparr>np_item = item, np_rows = rows, np_editingKey = None, np_editValue = [], np_addMode = False,
     np_newKey = [], np_newValue = []\<rparr>"

definition notes_of :: "notes_panel \<Rightarrow> (string \<times> string) list" where
  "notes_of s = data_or [] (np_rows s (i_id (np_item s)))"

text \<open>\<open>NoteShow\<close>: the item page shows another item, which it has in its cache or not; only then is the panel made anew.
  \<open>NoteSaved\<close>, \<open>NoteAdded\<close>: the answer to a change came.\<close>

datatype notes_event =
    NoteShow shown_item bool | NoteRows "string \<Rightarrow> (string \<times> string) list query_data"
  | StartEdit string string | EditTyped string | SaveEdit string | NoteSaved | EditCancelled
  | AddNote | NewKeyTyped string | NewValueTyped string | SubmitNote | NoteAdded | AddNoteCancelled
  | DeleteNote string

fun notes_step :: "notes_panel \<Rightarrow> notes_event \<Rightarrow> notes_panel" where
  "notes_step s (NoteShow item cached) = (if cached then s\<lparr>np_item := item\<rparr> else notes_opened item (np_rows s))"
| "notes_step s (NoteRows rows) = s\<lparr>np_rows := rows\<rparr>"
| "notes_step s (StartEdit k v) = s\<lparr>np_editingKey := Some k, np_editValue := v\<rparr>"
| "notes_step s (EditTyped v) = s\<lparr>np_editValue := v\<rparr>"
| "notes_step s NoteSaved = s\<lparr>np_editingKey := None\<rparr>"
| "notes_step s EditCancelled = s\<lparr>np_editingKey := None\<rparr>"
| "notes_step s AddNote = s\<lparr>np_addMode := True\<rparr>"
| "notes_step s (NewKeyTyped k) = s\<lparr>np_newKey := k\<rparr>"
| "notes_step s (NewValueTyped v) = s\<lparr>np_newValue := v\<rparr>"
| "notes_step s NoteAdded = s\<lparr>np_addMode := False, np_newKey := [], np_newValue := []\<rparr>"
| "notes_step s AddNoteCancelled = s\<lparr>np_addMode := False\<rparr>"
| "notes_step s _ = s"

definition notes_handleAdd :: "notes_panel \<Rightarrow> mutation_hook list" where
  "notes_handleAdd s =
     (if trim (np_newKey s) = [] then []
      else [useUpsertAnnotationMutation (i_id (np_item s)) (trim (np_newKey s)) (np_newValue s)])"

fun notes_sends :: "notes_panel \<Rightarrow> notes_event \<Rightarrow> mutation_hook list" where
  "notes_sends s (SaveEdit k) = [useUpsertAnnotationMutation (i_id (np_item s)) k (np_editValue s)]"
| "notes_sends s SubmitNote = notes_handleAdd s"
| "notes_sends s (DeleteNote k) = [useDeleteAnnotationMutation (i_id (np_item s)) k]"
| "notes_sends s _ = []"

text \<open>The edited row and the form of a new one are shown to whoever sees the panel; the buttons that open them are not.\<close>

definition editing_row :: "notes_panel \<Rightarrow> string \<Rightarrow> bool" where
  "editing_row s k \<longleftrightarrow> np_rows s (i_id (np_item s)) \<noteq> Loading \<and> k \<in> fst ` set (notes_of s) \<and> np_editingKey s = Some k"

definition adding_note :: "notes_panel \<Rightarrow> bool" where
  "adding_note s \<longleftrightarrow> np_rows s (i_id (np_item s)) \<noteq> Loading \<and> np_addMode s"

fun notes_can :: "notes_panel \<Rightarrow> notes_event \<Rightarrow> bool" where
  "notes_can s (NoteShow item cached) = True"
| "notes_can s (NoteRows rows) = True"
| "notes_can s (StartEdit k v) = (np_rows s (i_id (np_item s)) \<noteq> Loading \<and> (k, v) \<in> set (notes_of s) \<and> canWrite (np_item s)
     \<and> np_editingKey s \<noteq> Some k)"
| "notes_can s (EditTyped v) = (\<exists>k\<in>fst ` set (notes_of s). editing_row s k)"
| "notes_can s (SaveEdit k) = editing_row s k"
| "notes_can s EditCancelled = (\<exists>k\<in>fst ` set (notes_of s). editing_row s k)"
| "notes_can s NoteSaved = True"
| "notes_can s AddNote = (np_rows s (i_id (np_item s)) \<noteq> Loading \<and> canWrite (np_item s) \<and> \<not> np_addMode s)"
| "notes_can s (NewKeyTyped k) = adding_note s"
| "notes_can s (NewValueTyped v) = adding_note s"
| "notes_can s SubmitNote = adding_note s"
| "notes_can s NoteAdded = True"
| "notes_can s AddNoteCancelled = adding_note s"
| "notes_can s (DeleteNote k) = (np_rows s (i_id (np_item s)) \<noteq> Loading \<and> k \<in> fst ` set (notes_of s) \<and> canWrite (np_item s)
     \<and> np_editingKey s \<noteq> Some k)"

text \<open>
  C36: An edit outlives its item. When an annotation of one item is being edited and another item, in the cache and with an
  annotation of the same key, is selected, the field stays open with the first item's value; saving writes it to the
  second, also when the user may only read that one.
\<close>
theorem annotation_edit_outlives_item:
  assumes "canWrite a" and "rows (i_id a) = Loaded ra" and "(k, v) \<in> set ra" and "rows (i_id b) = Loaded rb" and "k \<in> fst ` set rb"
    and "es = [StartEdit k v, EditTyped w, NoteShow b True, SaveEdit k]"
  shows "possible_run notes_can notes_step (notes_opened a rows) es
    \<and> sent_by notes_step notes_sends (notes_opened a rows) es = [useUpsertAnnotationMutation (i_id b) k w]"
  using assms by (force simp: notes_opened_def notes_of_def editing_row_def)

text \<open>
  Adding is replacing: for a key that the item has, with white space around it or not, the form of a new annotation sends
  what an edit of the old one would send, and no question is asked.
\<close>
theorem added_annotation_replaces:
  assumes "canWrite a" and "rows (i_id a) = Loaded ra" and "(trim t, v) \<in> set ra" and "trim t \<noteq> []"
    and "es = [AddNote, NewKeyTyped t, NewValueTyped w, SubmitNote]" and "fs = [StartEdit (trim t) v, EditTyped w, SaveEdit (trim t)]"
  shows "possible_run notes_can notes_step (notes_opened a rows) es \<and> possible_run notes_can notes_step (notes_opened a rows) fs
    \<and> sent_by notes_step notes_sends (notes_opened a rows) es = sent_by notes_step notes_sends (notes_opened a rows) fs"
  using assms by (force simp: notes_opened_def notes_of_def editing_row_def adding_note_def notes_handleAdd_def)

subsection \<open>Concrete runs\<close>

definition demo_hit :: "string \<Rightarrow> string \<Rightarrow> catalog_hit" where
  "demo_hit i n = \<lparr>ch_id = i, ch_kind = Some ''Server'', ch_name = n\<rparr>"

lemma valid_demo: "valid_utf8 ''db''"
  by (simp add: valid_utf8_def utf8_decode.simps)

lemma card_opens_its_item_witness:
  "entity_page id ''Server'' ''db'' (Loaded [demo_hit ''1'' ''db'', demo_hit ''2'' ''web'']) = EntityShown (demo_hit ''1'' ''db'')"
  using card_opens_its_item [of "demo_hit ''1'' ''db''" "''Server''" "[demo_hit ''1'' ''db'', demo_hit ''2'' ''web'']" id "\<lambda>_. ''db''"]
    valid_demo by (simp add: demo_hit_def js_length_def units_def)

lemma card_opens_homonym_witness:
  "entity_page id ''Server'' ''db'' (Loaded [demo_hit ''1'' ''db'', demo_hit ''2'' ''db'']) = EntityShown (demo_hit ''1'' ''db'')"
  using card_opens_homonym [of "demo_hit ''1'' ''db''" "''Server''" "demo_hit ''2'' ''db''" id "[]" "\<lambda>_. ''db''" "[]"]
    valid_demo by (simp add: demo_hit_def js_length_def units_def)

lemma percent_sign_crashes_page_witness: "entity_page id ''Server'' ''100%'' (Loaded [demo_hit ''1'' ''100%'']) = EntityCrash"
  using percent_sign_crashes_page [of "''100%''" "''100''" "[]" "\<lambda>_. ''100%''" id "''Server''"
      "Loaded [demo_hit ''1'' ''100%'']" "Failed :: unit query_data"] by simp

lemma desktop_catalog_asks_the_same_witness:
  "sent_by (catalog_step id) (\<lambda>s e. [useCatalogQuery (catalog_filters (catalog_step id s e))]) catalog_opened [KindSuggested ''Server'']
     = [cl_useCatalogQuery \<lparr>cf_q = ''Ser'', cf_kind = Some ''Server'', cf_fuzzy = None\<rparr>]"
proof -
  have "possible_run (cl_catalog_can [''Server'']) (cl_catalog_step id) cl_catalog_opened [CKindSuggested ''Server'']"
    by (simp add: cl_catalog_opened_def cl_showEmptySearch_def trim_eval js_length_def)
  from desktop_catalog_asks_the_same [OF this refl] show ?thesis
    by (simp add: cl_catalog_filters_def units_def)
qed

lemma annotation_edit_outlives_item_witness:
  "sent_by notes_step notes_sends (notes_opened (tabs_item ''a'' ''write'') (\<lambda>_. Loaded [(''k'', ''old'')]))
     [StartEdit ''k'' ''old'', EditTyped ''new'', NoteShow (tabs_item ''b'' ''read'') True, SaveEdit ''k'']
   = [useUpsertAnnotationMutation ''b'' ''k'' ''new'']"
  using annotation_edit_outlives_item [of "tabs_item ''a'' ''write''" "\<lambda>_. Loaded [(''k'', ''old'')]" "[(''k'', ''old'')]" "''k''" "''old''"
      "tabs_item ''b'' ''read''" "[(''k'', ''old'')]"]
  by (simp add: canWrite_def tabs_item_def)

lemma added_annotation_replaces_witness:
  "sent_by notes_step notes_sends (notes_opened (tabs_item ''a'' ''write'') (\<lambda>_. Loaded [(''k'', ''old'')]))
     [AddNote, NewKeyTyped '' k'', NewValueTyped ''new'', SubmitNote]
   = [useUpsertAnnotationMutation ''a'' ''k'' ''new'']"
proof -
  have t: "trim '' k'' = ''k''" by (simp add: trim_eval)
  show ?thesis
    using added_annotation_replaces [of "tabs_item ''a'' ''write''" "\<lambda>_. Loaded [(''k'', ''old'')]" "[(''k'', ''old'')]" "'' k''" "''old''"]
    by (simp add: canWrite_def t) (simp add: tabs_item_def notes_opened_def)
qed

end
