(* ===== verification/ExtensionClient.thy ===== *)
theory ExtensionClient
  imports ApiClient
begin

text \<open>
  The browser extension's client of the server (\<open>browser-extension/src/lib/api-client.js\<close>): its three
  entries of \<open>chrome.storage.local\<close>, requests that renew the session once, sign-in and sign-out. The
  popup and the service worker each have a copy of the module and share the storage.

  An entry set to \<open>undefined\<close> is left as it was, and \<open>null\<close> reads as missing.
\<close>

subsection \<open>The stored session\<close>

record ext_store =
  st_server_url :: "string option"
  st_access_token :: "string option"
  st_refresh_token :: "string option"

record ext_config =
  serverUrl :: string
  accessToken :: string
  refreshToken :: string

definition ext_getConfig :: "ext_store \<Rightarrow> ext_config" where
  "ext_getConfig st = \<lparr>serverUrl = nullish (st_server_url st) [], accessToken = nullish (st_access_token st) [],
     refreshToken = nullish (st_refresh_token st) []\<rparr>"

text \<open>What an entry is set to: a text, \<open>null\<close> (read back as the empty text), or \<open>undefined\<close>.\<close>

definition stored_entry :: "json option \<Rightarrow> string option" where
  "stored_entry v = (case v of Some (JStr s) \<Rightarrow> Some s | Some JNull \<Rightarrow> Some [] | _ \<Rightarrow> None)"

definition set_entry :: "string option \<Rightarrow> string option \<Rightarrow> string option" where
  "set_entry v old = (case v of None \<Rightarrow> old | Some s \<Rightarrow> Some s)"

definition ext_saveConfig :: "string \<Rightarrow> json option \<Rightarrow> json option \<Rightarrow> ext_store \<Rightarrow> ext_store" where
  "ext_saveConfig url access refresh st =
     \<lparr>st_server_url = Some url, st_access_token = set_entry (stored_entry access) (st_access_token st),
      st_refresh_token = set_entry (stored_entry refresh) (st_refresh_token st)\<rparr>"

definition ext_clearConfig :: "ext_store \<Rightarrow> ext_store" where
  "ext_clearConfig st = \<lparr>st_server_url = None, st_access_token = None, st_refresh_token = None\<rparr>"

definition ext_isAuthenticated :: "ext_store \<Rightarrow> bool" where
  "ext_isAuthenticated st \<longleftrightarrow> serverUrl (ext_getConfig st) \<noteq> [] \<and> accessToken (ext_getConfig st) \<noteq> []"

subsection \<open>Requests\<close>

datatype ext_error =
    NotConfigured | SessionEnded | RequestRefused nat | SignInRefused nat | Unreachable string | BadBody

record 'w ext_env =
  ee_store :: ext_store
  ee_world :: 'w
  ee_sent :: "http_request list"

definition ext_fetch :: "'w net \<Rightarrow> http_request \<Rightarrow> 'w ext_env \<Rightarrow> fetch_result \<times> 'w ext_env" where
  "ext_fetch net rq env =
     (let (r, w) = net rq (ee_world env) in (r, env\<lparr>ee_world := w, ee_sent := ee_sent env @ [rq]\<rparr>))"

definition ext_refresh_request :: "ext_config \<Rightarrow> http_request" where
  "ext_refresh_request config =
     \<lparr>rq_url = serverUrl config @ ''/api/v1/auth/refresh'', rq_method = POST,
      rq_headers = [(''Content-Type'', ''application/json'')],
      rq_body = Some (JsonBody (JObj [(''refresh_token'', JStr (refreshToken config))]))\<rparr>"

text \<open>The tokens of an answer: the access token as it is, the refresh token or else the one at hand.\<close>

definition renewed_refresh :: "ext_config \<Rightarrow> json \<Rightarrow> json option" where
  "renewed_refresh config body =
     (if truthy (json_str_field body ''refresh_token'') then json_field body ''refresh_token'' else Some (JStr (refreshToken config)))"

text \<open>\<open>`Bearer ${token}`\<close>.\<close>

definition bearer_text :: "json option \<Rightarrow> string" where
  "bearer_text v = ''Bearer '' @ (case v of Some (JStr s) \<Rightarrow> s | Some JNull \<Rightarrow> ''null'' | _ \<Rightarrow> ''undefined'')"

definition refreshTokens :: "'w net \<Rightarrow> ext_config \<Rightarrow> 'w ext_env \<Rightarrow> (ext_error + json option) \<times> 'w ext_env" where
  "refreshTokens net config env =
     (case ext_fetch net (ext_refresh_request config) env of
        (NetworkFailure m, env1) \<Rightarrow> (Inl (Unreachable m), env1)
      | (Response res, env1) \<Rightarrow>
          if \<not> rs_ok res then (Inl SessionEnded, env1\<lparr>ee_store := ext_clearConfig (ee_store env1)\<rparr>)
          else (case rs_json res of
              None \<Rightarrow> (Inl BadBody, env1)
            | Some body \<Rightarrow>
                if body = JNull then (Inl BadBody, env1)
                else (Inr (json_field body ''access_token''),
                      env1\<lparr>ee_store := ext_saveConfig (serverUrl config) (json_field body ''access_token'')
                              (renewed_refresh config body) (ee_store env1)\<rparr>)))"

definition ext_request :: "ext_config \<Rightarrow> string \<Rightarrow> http_method \<Rightarrow> string \<Rightarrow> json option \<Rightarrow> http_request" where
  "ext_request config authorization meth path body =
     \<lparr>rq_url = serverUrl config @ path, rq_method = meth,
      rq_headers = [(''Authorization'', authorization), (''Content-Type'', ''application/json'')],
      rq_body = map_option JsonBody body\<rparr>"

definition ext_answer :: "fetch_result \<Rightarrow> ext_error + json" where
  "ext_answer r =
     (case r of
        NetworkFailure m \<Rightarrow> Inl (Unreachable m)
      | Response res \<Rightarrow>
          if \<not> rs_ok res then Inl (RequestRefused (rs_status res))
          else (case rs_json res of None \<Rightarrow> Inl BadBody | Some j \<Rightarrow> Inr j))"

definition needs_refresh :: "ext_config \<Rightarrow> fetch_result \<Rightarrow> bool" where
  "needs_refresh config r \<longleftrightarrow> (case r of Response res \<Rightarrow> rs_status res = 401 \<and> refreshToken config \<noteq> [] | _ \<Rightarrow> False)"

definition apiRequest :: "'w net \<Rightarrow> http_method \<Rightarrow> string \<Rightarrow> json option \<Rightarrow> 'w ext_env \<Rightarrow> (ext_error + json) \<times> 'w ext_env" where
  "apiRequest net meth path body env =
     (let config = ext_getConfig (ee_store env)
      in if serverUrl config = [] \<or> accessToken config = [] then (Inl NotConfigured, env)
         else let (r, env1) = ext_fetch net (ext_request config (''Bearer '' @ accessToken config) meth path body) env
              in if needs_refresh config r
                 then (case refreshTokens net config env1 of
                     (Inl e, env2) \<Rightarrow> (Inl e, env2)
                   | (Inr token, env2) \<Rightarrow>
                       (let (r2, env3) = ext_fetch net (ext_request config (bearer_text token) meth path body) env2
                        in (ext_answer r2, env3)))
                 else (ext_answer r, env1))"

subsection \<open>Signing in and out\<close>

text \<open>\<open>if (x)\<close> on a parsed value.\<close>

fun json_truthy :: "json option \<Rightarrow> bool" where
  "json_truthy None = False"
| "json_truthy (Some JNull) = False"
| "json_truthy (Some (JBool b)) = b"
| "json_truthy (Some (JNum n)) = (n \<noteq> 0)"
| "json_truthy (Some (JStr s)) = (s \<noteq> [])"
| "json_truthy (Some _) = True"

datatype login_result = ExtTotpRequired | ExtLoggedIn

definition ext_login_request :: "string \<Rightarrow> string \<Rightarrow> string \<Rightarrow> string option \<Rightarrow> http_request" where
  "ext_login_request url user pw totpCode =
     \<lparr>rq_url = url @ ''/api/v1/auth/login'', rq_method = POST, rq_headers = [(''Content-Type'', ''application/json'')],
      rq_body = Some (JsonBody (JObj ([(''username'', JStr user), (''password'', JStr pw)]
        @ (if truthy totpCode then [(''totp_code'', JStr (the totpCode))] else []))))\<rparr>"

definition ext_login ::
    "'w net \<Rightarrow> string \<Rightarrow> string \<Rightarrow> string \<Rightarrow> string option \<Rightarrow> 'w ext_env \<Rightarrow> (ext_error + login_result) \<times> 'w ext_env" where
  "ext_login net url user pw totpCode env =
     (case ext_fetch net (ext_login_request url user pw totpCode) env of
        (NetworkFailure m, env1) \<Rightarrow> (Inl (Unreachable m), env1)
      | (Response res, env1) \<Rightarrow>
          if \<not> rs_ok res then (Inl (SignInRefused (rs_status res)), env1)
          else (case rs_json res of
              None \<Rightarrow> (Inl BadBody, env1)
            | Some data \<Rightarrow>
                if data = JNull then (Inl BadBody, env1)
                else if json_truthy (json_field data ''totp_required'') then (Inr ExtTotpRequired, env1)
                else (Inr ExtLoggedIn, env1\<lparr>ee_store := ext_saveConfig url (json_field data ''access_token'')
                        (json_field data ''refresh_token'') (ee_store env1)\<rparr>)))"

definition ext_logout :: "'w net \<Rightarrow> 'w ext_env \<Rightarrow> 'w ext_env" where
  "ext_logout net env =
     (let (_, env1) = apiRequest net POST ''/api/v1/auth/logout'' None env
      in env1\<lparr>ee_store := ext_clearConfig (ee_store env1)\<rparr>)"

definition searchItems :: "'w net \<Rightarrow> string \<Rightarrow> 'w ext_env \<Rightarrow> (ext_error + json) \<times> 'w ext_env" where
  "searchItems net q = apiRequest net GET (''/api/v1/items/search?q='' @ encodeURIComponent q) None"

definition getItem :: "'w net \<Rightarrow> string \<Rightarrow> 'w ext_env \<Rightarrow> (ext_error + json) \<times> 'w ext_env" where
  "getItem net i = apiRequest net GET (''/api/v1/items/'' @ i) None"

definition listFolders :: "'w net \<Rightarrow> 'w ext_env \<Rightarrow> (ext_error + json) \<times> 'w ext_env" where
  "listFolders net = apiRequest net GET ''/api/v1/folders'' None"

definition listFolderItems :: "'w net \<Rightarrow> string \<Rightarrow> 'w ext_env \<Rightarrow> (ext_error + json) \<times> 'w ext_env" where
  "listFolderItems net i = apiRequest net GET (''/api/v1/folders/'' @ i @ ''/items'') None"

subsection \<open>One request after the other\<close>

lemma ext_fetch_log: "ext_fetch net rq env = (r, env') \<Longrightarrow> ee_sent env' = ee_sent env @ [rq] \<and> ee_store env' = ee_store env"
  by (auto simp: ext_fetch_def split: prod.splits)

lemma refreshTokens_cases:
  assumes "refreshTokens net config env = (r, env')"
  shows "ee_sent env' = ee_sent env @ [ext_refresh_request config]
    \<and> (case r of
        Inl SessionEnded \<Rightarrow> ee_store env' = ext_clearConfig (ee_store env)
      | Inl _ \<Rightarrow> ee_store env' = ee_store env
      | Inr token \<Rightarrow> \<exists>refresh. ee_store env' = ext_saveConfig (serverUrl config) token refresh (ee_store env))"
  using assms by (auto simp: refreshTokens_def dest!: ext_fetch_log split: prod.splits fetch_result.splits if_splits option.splits)

lemma cleared_config [simp]:
  "ext_getConfig (ext_clearConfig st) = \<lparr>serverUrl = [], accessToken = [], refreshToken = []\<rparr>"
  "\<not> ext_isAuthenticated (ext_clearConfig st)"
  by (simp_all add: ext_getConfig_def ext_clearConfig_def ext_isAuthenticated_def)

lemma unauthenticated_request:
  "\<not> ext_isAuthenticated (ee_store env) \<Longrightarrow> apiRequest net meth path body env = (Inl NotConfigured, env)"
  by (auto simp: apiRequest_def ext_isAuthenticated_def Let_def)

lemma request_sends_first:
  assumes "serverUrl (ext_getConfig (ee_store env)) \<noteq> []" and "accessToken (ext_getConfig (ee_store env)) \<noteq> []"
  shows "\<exists>more. ee_sent (snd (apiRequest net meth path body env)) = ee_sent env
    @ ext_request (ext_getConfig (ee_store env)) (''Bearer '' @ accessToken (ext_getConfig (ee_store env))) meth path body # more"
  using assms
  by (auto simp: apiRequest_def Let_def dest!: ext_fetch_log refreshTokens_cases split: prod.splits sum.splits)

lemma request_renews_once:
  assumes "apiRequest net meth path body env = (r, env')" and "config = ext_getConfig (ee_store env)"
    and "rq = (\<lambda>authorization. ext_request config authorization meth path body)"
  shows "(\<exists>t. ee_sent env' \<in> {ee_sent env, ee_sent env @ [rq (''Bearer '' @ accessToken config)],
           ee_sent env @ [rq (''Bearer '' @ accessToken config), ext_refresh_request config],
           ee_sent env @ [rq (''Bearer '' @ accessToken config), ext_refresh_request config, rq (bearer_text t)]})
    \<and> (r = Inl SessionEnded \<longrightarrow> ee_store env' = ext_clearConfig (ee_store env))
    \<and> (ee_store env' = ee_store env \<or> ee_store env' = ext_clearConfig (ee_store env)
       \<or> (\<exists>t refresh. ee_store env' = ext_saveConfig (serverUrl config) t refresh (ee_store env)
            \<and> ee_sent env' = ee_sent env @ [rq (''Bearer '' @ accessToken config), ext_refresh_request config, rq (bearer_text t)]))"
proof -
  let ?c = "ext_getConfig (ee_store env)"
  obtain r1 env1 where f: "ext_fetch net (ext_request ?c (''Bearer '' @ accessToken ?c) meth path body) env = (r1, env1)" by fastforce
  obtain q env2 where n: "refreshTokens net ?c env1 = (q, env2)" by fastforce
  note logs = ext_fetch_log [OF f] refreshTokens_cases [OF n]
  show ?thesis
  proof (cases "serverUrl ?c = [] \<or> accessToken ?c = [] \<or> \<not> needs_refresh ?c r1")
    case True
    with assms f logs show ?thesis
      by (auto simp: apiRequest_def Let_def ext_answer_def split: if_splits fetch_result.splits option.splits)
  next
    case renewed: False
    show ?thesis
    proof (cases q)
      case (Inl e)
      with assms f n renewed logs show ?thesis by (cases e) (auto simp: apiRequest_def Let_def)
    next
      case (Inr t)
      obtain r2 env3 where g: "ext_fetch net (ext_request ?c (bearer_text t) meth path body) env2 = (r2, env3)" by fastforce
      have "ext_answer r2 \<noteq> Inl SessionEnded"
        by (auto simp: ext_answer_def split: fetch_result.splits if_splits option.splits)
      with assms f n Inr renewed g logs ext_fetch_log [OF g] show ?thesis
        by (auto simp: apiRequest_def Let_def)
    qed
  qed
qed

text \<open>
  A request is sent at most twice, with one renewal between, and only a renewal changes the session:
  when the server refuses it, all three entries are gone.
\<close>
theorem extension_request_renews_once:
  assumes "apiRequest net meth path body env = (r, env')" and "config = ext_getConfig (ee_store env)"
    and "rq = (\<lambda>authorization. ext_request config authorization meth path body)"
  shows "(\<exists>t. ee_sent env' \<in> {ee_sent env, ee_sent env @ [rq (''Bearer '' @ accessToken config)],
           ee_sent env @ [rq (''Bearer '' @ accessToken config), ext_refresh_request config],
           ee_sent env @ [rq (''Bearer '' @ accessToken config), ext_refresh_request config, rq (bearer_text t)]})
    \<and> (r = Inl SessionEnded \<longrightarrow> ee_store env' = ext_clearConfig (ee_store env))
    \<and> (ee_store env' = ee_store env \<or> ee_store env' = ext_clearConfig (ee_store env)
       \<or> (\<exists>t refresh. ee_store env' = ext_saveConfig (serverUrl config) t refresh (ee_store env)
            \<and> ee_sent env' = ee_sent env @ [rq (''Bearer '' @ accessToken config), ext_refresh_request config, rq (bearer_text t)]))"
  by (rule request_renews_once [OF assms])

text \<open>
  Signing out forgets everything, whatever the server answers: no entry is left, and from then on
  requests fail before anything is sent.
\<close>
theorem extension_logout_forgets:
  "ee_store (ext_logout net env) = \<lparr>st_server_url = None, st_access_token = None, st_refresh_token = None\<rparr>
   \<and> \<not> ext_isAuthenticated (ee_store (ext_logout net env))
   \<and> apiRequest net' meth path body (ext_logout net env) = (Inl NotConfigured, ext_logout net env)"
proof -
  have s: "ee_store (ext_logout net env) = ext_clearConfig st" for st
    by (simp add: ext_logout_def ext_clearConfig_def split: prod.split)
  have n: "\<not> ext_isAuthenticated (ee_store (ext_logout net env))" by (subst s) simp
  with unauthenticated_request [OF n] s show ?thesis by (simp add: ext_clearConfig_def)
qed

text \<open>
  After a sign-in the requests go to the server that was signed in to, with the token it gave, and a
  renewal would use the refresh token it gave.
\<close>
theorem extension_login_then_request:
  assumes "ext_login net url user pw totpCode env = (Inr ExtLoggedIn, env')"
    and "net (ext_login_request url user pw totpCode) (ee_world env) = (Response res, w)"
    and "rs_json res = Some data" and "json_field data ''access_token'' = Some (JStr a)"
    and "json_field data ''refresh_token'' = Some (JStr q)" and "url \<noteq> []" and "a \<noteq> []"
  shows "ext_getConfig (ee_store env') = \<lparr>serverUrl = url, accessToken = a, refreshToken = q\<rparr>
    \<and> (\<exists>more. ee_sent (snd (apiRequest net' meth path body env')) = ee_sent env' @ more
        \<and> more \<noteq> [] \<and> hd more = ext_request \<lparr>serverUrl = url, accessToken = a, refreshToken = q\<rparr> (''Bearer '' @ a) meth path body)"
proof -
  have c: "ext_getConfig (ee_store env') = \<lparr>serverUrl = url, accessToken = a, refreshToken = q\<rparr>"
    using assms(1-5) by (auto simp: ext_login_def ext_fetch_def ext_getConfig_def ext_saveConfig_def stored_entry_def set_entry_def
        split: if_splits prod.splits)
  with request_sends_first [of env' net' meth path body] assms(6,7) show ?thesis by auto
qed

subsection \<open>Requests at the same time\<close>

text \<open>
  Between two \<open>await\<close>s the code of one copy of the module runs alone; the popup and the service worker
  are two copies, \<open>context\<close>s here, each with its own \<open>_refreshPromise\<close> over the same storage. A call holds
  the configuration it read when it started.
\<close>

datatype ext_phase = Asking ext_config | AwaitingRenewal ext_config | Retrying "json option" | Finished

record ext_flight =
  xf_store :: ext_store
  xf_renewal :: "nat \<Rightarrow> ext_config option"
  xf_calls :: "nat \<Rightarrow> (nat \<times> ext_phase) option"
  xf_renewals :: "string list"

definition ext_idle :: "ext_store \<Rightarrow> ext_flight" where
  "ext_idle st = \<lparr>xf_store = st, xf_renewal = (\<lambda>_. None), xf_calls = Map.empty, xf_renewals = []\<rparr>"

datatype ext_event =
    ExtCall nat nat | ExtAnswer nat bool
  | RenewalDone nat json | RenewalRefused nat | RenewalLost nat
  | ExtForget | ExtSignedIn string json

text \<open>The calls of a context that wait for its renewal go on, or fail.\<close>

definition resume_calls :: "nat \<Rightarrow> ext_phase \<Rightarrow> (nat \<Rightarrow> (nat \<times> ext_phase) option) \<Rightarrow> nat \<Rightarrow> (nat \<times> ext_phase) option" where
  "resume_calls c p calls = (\<lambda>i. case calls i of
      Some (c', AwaitingRenewal cfg) \<Rightarrow> if c' = c then Some (c, p) else calls i
    | other \<Rightarrow> other)"

fun ext_step :: "ext_flight \<Rightarrow> ext_event \<Rightarrow> ext_flight" where
  "ext_step s (ExtCall c i) =
     (let config = ext_getConfig (xf_store s)
      in s\<lparr>xf_calls := (xf_calls s)(i \<mapsto> (c, if serverUrl config = [] \<or> accessToken config = [] then Finished else Asking config))\<rparr>)"
| "ext_step s (ExtAnswer i unauthorized) =
     (case xf_calls s i of
        Some (c, Asking config) \<Rightarrow>
          if unauthorized \<and> refreshToken config \<noteq> []
          then (case xf_renewal s c of
              Some _ \<Rightarrow> s\<lparr>xf_calls := (xf_calls s)(i \<mapsto> (c, AwaitingRenewal config))\<rparr>
            | None \<Rightarrow> s\<lparr>xf_calls := (xf_calls s)(i \<mapsto> (c, AwaitingRenewal config)),
                        xf_renewal := (xf_renewal s)(c := Some config), xf_renewals := xf_renewals s @ [refreshToken config]\<rparr>)
          else s\<lparr>xf_calls := (xf_calls s)(i \<mapsto> (c, Finished))\<rparr>
      | Some (c, Retrying t) \<Rightarrow> s\<lparr>xf_calls := (xf_calls s)(i \<mapsto> (c, Finished))\<rparr>
      | _ \<Rightarrow> s)"
| "ext_step s (RenewalDone c body) =
     (case xf_renewal s c of
        None \<Rightarrow> s
      | Some config \<Rightarrow>
          s\<lparr>xf_store := ext_saveConfig (serverUrl config) (json_field body ''access_token'') (renewed_refresh config body) (xf_store s),
            xf_renewal := (xf_renewal s)(c := None),
            xf_calls := resume_calls c (Retrying (json_field body ''access_token'')) (xf_calls s)\<rparr>)"
| "ext_step s (RenewalRefused c) =
     s\<lparr>xf_store := ext_clearConfig (xf_store s), xf_renewal := (xf_renewal s)(c := None),
       xf_calls := resume_calls c Finished (xf_calls s)\<rparr>"
| "ext_step s (RenewalLost c) =
     s\<lparr>xf_renewal := (xf_renewal s)(c := None), xf_calls := resume_calls c Finished (xf_calls s)\<rparr>"
| "ext_step s ExtForget = s\<lparr>xf_store := ext_clearConfig (xf_store s)\<rparr>"
| "ext_step s (ExtSignedIn url data) =
     s\<lparr>xf_store := ext_saveConfig url (json_field data ''access_token'') (json_field data ''refresh_token'') (xf_store s)\<rparr>"

fun ext_can :: "ext_flight \<Rightarrow> ext_event \<Rightarrow> bool" where
  "ext_can s (ExtCall c i) = (xf_calls s i = None)"
| "ext_can s (ExtAnswer i b) = (case xf_calls s i of Some (c, Asking cfg) \<Rightarrow> True | Some (c, Retrying t) \<Rightarrow> True | _ \<Rightarrow> False)"
| "ext_can s (RenewalDone c body) = (xf_renewal s c \<noteq> None \<and> body \<noteq> JNull)"
| "ext_can s (RenewalRefused c) = (xf_renewal s c \<noteq> None)"
| "ext_can s (RenewalLost c) = (xf_renewal s c \<noteq> None)"
| "ext_can s ExtForget = True"
| "ext_can s (ExtSignedIn url data) = (data \<noteq> JNull)"

definition ext_waits :: "ext_flight \<Rightarrow> nat \<Rightarrow> nat \<Rightarrow> bool" where
  "ext_waits s c i \<longleftrightarrow> (\<exists>cfg. xf_calls s i = Some (c, AwaitingRenewal cfg))"

definition ext_inv :: "ext_flight \<Rightarrow> bool" where
  "ext_inv s \<longleftrightarrow> (\<forall>c i. ext_waits s c i \<longrightarrow> xf_renewal s c \<noteq> None)
     \<and> (\<forall>c cfg. xf_renewal s c = Some cfg \<longrightarrow> refreshToken cfg \<in> set (xf_renewals s))
     \<and> [] \<notin> set (xf_renewals s)"

lemma resumed_waits:
  "resume_calls c p calls i = Some (c', AwaitingRenewal cfg) \<longleftrightarrow>
    (if c' = c then (\<exists>cfg0. calls i = Some (c, AwaitingRenewal cfg0)) \<and> p = AwaitingRenewal cfg
     else calls i = Some (c', AwaitingRenewal cfg))"
  by (auto simp: resume_calls_def split: option.splits prod.splits ext_phase.splits)

interpretation ext_machine: machine ext_can ext_step ext_inv
proof
  fix s e
  assume "ext_inv s" and "ext_can s e"
  then show "ext_inv (ext_step s e)"
    by (cases e) (auto simp: ext_inv_def ext_waits_def resumed_waits Let_def
        split: option.splits prod.splits ext_phase.splits if_splits)
qed

lemma ext_idle_inv: "ext_inv (ext_idle st)"
  by (simp add: ext_inv_def ext_idle_def ext_waits_def)

text \<open>
  In each copy of the module at most one renewal is out, a call waits only for that one, and when it
  has been answered, one way or the other, no call of the copy waits any more.
\<close>
theorem extension_calls_share_renewal:
  assumes "possible_run ext_can ext_step (ext_idle st) es" and "s = foldl ext_step (ext_idle st) es"
  shows "(ext_waits s c i \<longrightarrow> xf_renewal s c \<noteq> None) \<and> [] \<notin> set (xf_renewals s)
    \<and> (\<forall>e\<in>{RenewalDone c body, RenewalRefused c, RenewalLost c}. ext_can s e \<longrightarrow> \<not> ext_waits (ext_step s e) c i)"
proof -
  have "ext_inv s" using ext_machine.run_keeps [OF ext_idle_inv assms(1)] assms(2) by simp
  moreover have "\<not> ext_waits (ext_step s e) c i" if "e \<in> {RenewalDone c body, RenewalRefused c, RenewalLost c}" "ext_can s e" for e
    using that by (auto simp: ext_waits_def resumed_waits)
  ultimately show ?thesis by (auto simp: ext_inv_def)
qed

text \<open>
  C30: A slow answer ends a session that was just renewed. Two calls start, the first is answered 401 and
  renews the session; then the second is answered 401, and the renewal it starts sends the refresh
  token it read when it started, which the server has already replaced. The server refuses it, and the
  extension forgets the new tokens. The popup and the service worker do the same to each other.
\<close>
theorem stale_renewal_ends_session:
  assumes "ext_isAuthenticated st" and "st_refresh_token st = Some q" and "q \<noteq> []"
    and "json_field body ''access_token'' = Some (JStr a)" and "json_field body ''refresh_token'' = Some (JStr q2)"
    and "a \<noteq> []" and "q2 \<noteq> []" and "body \<noteq> JNull"
    and "es = [ExtCall 0 0, ExtCall c 1, ExtAnswer 0 True, RenewalDone 0 body, ExtAnswer 1 True]"
  shows "possible_run ext_can ext_step (ext_idle st) (es @ [RenewalRefused c])
    \<and> xf_renewals (foldl ext_step (ext_idle st) es) = [q, q]
    \<and> ext_getConfig (xf_store (foldl ext_step (ext_idle st) es))
        = \<lparr>serverUrl = serverUrl (ext_getConfig st), accessToken = a, refreshToken = q2\<rparr>
    \<and> \<not> ext_isAuthenticated (xf_store (foldl ext_step (ext_idle st) (es @ [RenewalRefused c])))"
proof -
  have r: "json_str_field body ''refresh_token'' = Some q2" using assms(5) by (simp add: json_str_field_def)
  have c: "serverUrl (ext_getConfig st) \<noteq> []" "accessToken (ext_getConfig st) \<noteq> []" "refreshToken (ext_getConfig st) = q"
    using assms(1,2) by (simp_all add: ext_isAuthenticated_def ext_getConfig_def)
  show ?thesis
    using assms(3-9) c r
    by (simp add: ext_idle_def Let_def resume_calls_def renewed_refresh_def)
      (auto simp: ext_getConfig_def ext_saveConfig_def stored_entry_def set_entry_def)
qed

text \<open>
  Signing out during a renewal does not last: the answer of the renewal stores a session again.
\<close>
theorem renewal_revives_signed_out_session:
  assumes "ext_isAuthenticated st" and "st_refresh_token st = Some q" and "q \<noteq> []"
    and "json_field body ''access_token'' = Some (JStr a)" and "a \<noteq> []" and "body \<noteq> JNull"
    and "es = [ExtCall c i, ExtAnswer i True, ExtForget]"
  shows "possible_run ext_can ext_step (ext_idle st) (es @ [RenewalDone c body])
    \<and> \<not> ext_isAuthenticated (xf_store (foldl ext_step (ext_idle st) es))
    \<and> ext_isAuthenticated (xf_store (foldl ext_step (ext_idle st) (es @ [RenewalDone c body])))"
proof -
  have c: "serverUrl (ext_getConfig st) \<noteq> []" "accessToken (ext_getConfig st) \<noteq> []" "refreshToken (ext_getConfig st) = q"
    using assms(1,2) by (simp_all add: ext_isAuthenticated_def ext_getConfig_def)
  show ?thesis
    using assms(3-7) c
    by (simp add: ext_idle_def Let_def)
      (auto simp: ext_isAuthenticated_def ext_getConfig_def ext_saveConfig_def stored_entry_def set_entry_def)
qed

text \<open>
  The answers a network gives to requests in turn, and what they are to the machine when the requests
  are those of one call: the start, the answer to the request, that of the renewal, that of the second try.
\<close>

fun replies :: "'w net \<Rightarrow> http_request list \<Rightarrow> 'w \<Rightarrow> fetch_result list" where
  "replies net [] w = []"
| "replies net (rq # rqs) w = (let (r, w') = net rq w in r # replies net rqs w')"

definition unauthorized :: "fetch_result \<Rightarrow> bool" where
  "unauthorized r = (case r of Response res \<Rightarrow> rs_status res = 401 | NetworkFailure m \<Rightarrow> False)"

definition renewal_event :: "fetch_result \<Rightarrow> ext_event" where
  "renewal_event r =
     (case r of
        NetworkFailure m \<Rightarrow> RenewalLost 0
      | Response res \<Rightarrow>
          if \<not> rs_ok res then RenewalRefused 0
          else (case rs_json res of None \<Rightarrow> RenewalLost 0 | Some body \<Rightarrow> if body = JNull then RenewalLost 0 else RenewalDone 0 body))"

fun own_events :: "fetch_result list \<Rightarrow> ext_event list" where
  "own_events (r # q # r2 # _) = [ExtCall 0 0, ExtAnswer 0 (unauthorized r), renewal_event q, ExtAnswer 0 (unauthorized r2)]"
| "own_events [r, q] = [ExtCall 0 0, ExtAnswer 0 (unauthorized r), renewal_event q]"
| "own_events [r] = [ExtCall 0 0, ExtAnswer 0 (unauthorized r)]"
| "own_events [] = [ExtCall 0 0]"

lemma ext_fetch_world: "ext_fetch net rq env = (r, env') \<Longrightarrow> net rq (ee_world env) = (r, ee_world env')"
  by (auto simp: ext_fetch_def split: prod.splits)

lemma refresh_request_differs [simp]: "ext_request c t meth path body \<noteq> ext_refresh_request c'"
  by (simp add: ext_request_def ext_refresh_request_def)

lemma refresh_is_event:
  assumes "refreshTokens net config env = (q, env')" and "ext_fetch net (ext_refresh_request config) env = (x, env1)"
    and "s = \<lparr>xf_store = ee_store env, xf_renewal = [0 \<mapsto> config], xf_calls = [0 \<mapsto> (0, AwaitingRenewal config)],
          xf_renewals = [refreshToken config]\<rparr>"
  shows "ext_can s (renewal_event x) \<and> xf_store (ext_step s (renewal_event x)) = ee_store env'
    \<and> xf_calls (ext_step s (renewal_event x)) 0 = Some (0, case q of Inl e \<Rightarrow> Finished | Inr t \<Rightarrow> Retrying t)
    \<and> xf_renewals (ext_step s (renewal_event x)) = [refreshToken config]
    \<and> ee_world env' = ee_world env1"
  using assms ext_fetch_log [OF assms(2)]
  by (auto simp: refreshTokens_def renewal_event_def resume_calls_def split: fetch_result.splits if_splits option.splits)

text \<open>
  C33: A request made alone is a run of the machine of concurrent requests. The events of that run are
  nothing but its start and the answers of its network to the requests it sends, in their order; at its end the
  machine has the same stored session, the call is finished, and the renewals the machine counts are
  exactly the renewal requests that were sent, with their refresh tokens, at most one.
\<close>
theorem sequential_request_is_a_run:
  assumes "apiRequest net meth path body env = (r, env')"
    and "rqs = drop (length (ee_sent env)) (ee_sent env')"
    and "es = own_events (replies net rqs (ee_world env))"
    and "s = foldl ext_step (ext_idle (ee_store env)) es" and "config = ext_getConfig (ee_store env)"
  shows "ee_sent env' = ee_sent env @ rqs
    \<and> possible_run ext_can ext_step (ext_idle (ee_store env)) es
    \<and> xf_store s = ee_store env'
    \<and> xf_calls s 0 = Some (0, Finished)
    \<and> filter (\<lambda>rq. rq_url rq = serverUrl config @ ''/api/v1/auth/refresh'' \<and> (\<forall>t. (''Authorization'', t) \<notin> set (rq_headers rq))) rqs
        = map (\<lambda>q. ext_refresh_request (config\<lparr>refreshToken := q\<rparr>)) (xf_renewals s)
    \<and> length (xf_renewals s) \<le> 1"
proof -
  have no: "\<not> (\<forall>t. (''Authorization'', t) \<notin> set (rq_headers (ext_request config a meth path body)))" for a
    by (simp add: ext_request_def)
  have ren: "rq_url (ext_refresh_request config) = serverUrl config @ ''/api/v1/auth/refresh''"
    "\<forall>t. (''Authorization'', t) \<notin> set (rq_headers (ext_refresh_request config))"
    by (simp_all add: ext_refresh_request_def)
  obtain r1 env1 where f: "ext_fetch net (ext_request config (''Bearer '' @ accessToken config) meth path body) env = (r1, env1)" by fastforce
  obtain x env0 where g: "ext_fetch net (ext_refresh_request config) env1 = (x, env0)" by fastforce
  obtain q env2 where n: "refreshTokens net config env1 = (q, env2)" by fastforce
  note log = ext_fetch_log [OF f] ext_fetch_world [OF f] ext_fetch_world [OF g]
  have log2: "ee_sent env2 = ee_sent env1 @ [ext_refresh_request config]" using refreshTokens_cases [OF n] by simp
  consider "serverUrl config = [] \<or> accessToken config = []"
    | "serverUrl config \<noteq> []" "accessToken config \<noteq> []" "\<not> needs_refresh config r1"
    | "serverUrl config \<noteq> []" "accessToken config \<noteq> []" "needs_refresh config r1" by blast
  then show ?thesis
  proof cases
    case 1
    then have e: "env' = env" using assms(1,5) by (auto simp: apiRequest_def Let_def)
    then have "rqs = []" using assms(2) by simp
    with 1 e assms(3-5) show ?thesis by (simp add: ext_idle_def Let_def)
  next
    case 2
    then have e: "env' = env1" using assms(1,5) f by (simp add: apiRequest_def Let_def)
    then have rqs: "rqs = [ext_request config (''Bearer '' @ accessToken config) meth path body]" using assms(2) log(1) by simp
    then have es: "es = [ExtCall 0 0, ExtAnswer 0 (unauthorized r1)]" using assms(3) log(2) by simp
    have "\<not> (unauthorized r1 \<and> refreshToken config \<noteq> [])"
      using 2(3) by (auto simp: needs_refresh_def unauthorized_def split: fetch_result.splits)
    with 2 es rqs e assms(4,5) log(1) no show ?thesis by (auto simp: ext_idle_def Let_def)
  next
    case 3
    then have u: "unauthorized r1" "refreshToken config \<noteq> []"
      by (auto simp: needs_refresh_def unauthorized_def split: fetch_result.splits)
    let ?s = "\<lparr>xf_store = ee_store env1, xf_renewal = [0 \<mapsto> config], xf_calls = [0 \<mapsto> (0, AwaitingRenewal config)],
        xf_renewals = [refreshToken config]\<rparr>"
    have two: "foldl ext_step (ext_idle (ee_store env)) [ExtCall 0 0, ExtAnswer 0 (unauthorized r1)] = ?s"
      "possible_run ext_can ext_step (ext_idle (ee_store env)) [ExtCall 0 0, ExtAnswer 0 (unauthorized r1)]"
      using 3 u log(1) assms(5) by (simp_all add: ext_idle_def Let_def fun_eq_iff)
    note ev = refresh_is_event [OF n g refl]
    show ?thesis
    proof (cases q)
      case (Inl e)
      have e': "env' = env2" using assms(1,5) f n 3 Inl by (simp add: apiRequest_def Let_def)
      then have rqs: "rqs = [ext_request config (''Bearer '' @ accessToken config) meth path body, ext_refresh_request config]"
        using assms(2) log(1) log2 by simp
      then have es: "es = [ExtCall 0 0, ExtAnswer 0 (unauthorized r1)] @ [renewal_event x]" using assms(3) log(2,3) by simp
      then have "s = ext_step ?s (renewal_event x)" using assms(4) two(1) by simp
      then show ?thesis
        using ev two Inl e' log log2 es rqs no ren by (simp add: possible_run_append)
    next
      case (Inr token)
      obtain r2 env3 where h: "ext_fetch net (ext_request config (bearer_text token) meth path body) env2 = (r2, env3)" by fastforce
      have e': "env' = env3" using assms(1,5) f n h 3 Inr by (simp add: apiRequest_def Let_def)
      then have rqs: "rqs = [ext_request config (''Bearer '' @ accessToken config) meth path body, ext_refresh_request config,
          ext_request config (bearer_text token) meth path body]"
        using assms(2) log(1) log2 ext_fetch_log [OF h] by simp
      have "ee_world env2 = ee_world env0" using ev by simp
      then have es: "es = [ExtCall 0 0, ExtAnswer 0 (unauthorized r1)] @ [renewal_event x, ExtAnswer 0 (unauthorized r2)]"
        using assms(3) log(2,3) ext_fetch_world [OF h] rqs by simp
      obtain s2 where s2: "s2 = ext_step ?s (renewal_event x)" by blast
      have c2: "xf_calls s2 0 = Some (0, Retrying token)" "xf_store s2 = ee_store env2" "xf_renewals s2 = [refreshToken config]"
        using ev Inr by (simp_all add: s2)
      have fin: "xf_calls s 0 = Some (0, Finished)" "xf_store s = ee_store env2" "xf_renewals s = [refreshToken config]"
        unfolding assms(4) es foldl_append two(1) using c2 by (simp_all add: s2 [symmetric])
      have "possible_run ext_can ext_step (ext_idle (ee_store env)) es"
        unfolding es possible_run_append two(1)
        by (rule conjI [OF two(2)]) (use ev Inr in \<open>simp add: s2 [symmetric]\<close>)
      moreover have "env' = env3" "ee_store env3 = ee_store env2" "ee_sent env' = ee_sent env @ rqs"
        using e' log log2 rqs ext_fetch_log [OF h] by simp_all
      ultimately show ?thesis
        using fin rqs no ren by simp
    qed
  qed
qed

subsection \<open>Concrete runs\<close>

definition ext_demo_store :: ext_store where
  "ext_demo_store = \<lparr>st_server_url = Some ''https://h'', st_access_token = Some ''A1'', st_refresh_token = Some ''R1''\<rparr>"

definition ext_demo :: "fetch_result list \<Rightarrow> fetch_result list ext_env" where
  "ext_demo script = \<lparr>ee_store = ext_demo_store, ee_world = script, ee_sent = []\<rparr>"

lemma ext_demo_config [simp]:
  "ext_getConfig ext_demo_store = \<lparr>serverUrl = ''https://h'', accessToken = ''A1'', refreshToken = ''R1''\<rparr>"
  "ext_isAuthenticated ext_demo_store"
  by (simp_all add: ext_demo_store_def ext_getConfig_def ext_isAuthenticated_def)

definition fresh_body :: json where
  "fresh_body = JObj [(''access_token'', JStr ''A2''), (''refresh_token'', JStr ''R2'')]"

lemma fresh_body_simps [simp]:
  "rs_json fresh_pair = Some fresh_body" "rs_ok fresh_pair" "fresh_body \<noteq> JNull"
  "json_field fresh_body ''access_token'' = Some (JStr ''A2'')" "json_field fresh_body ''refresh_token'' = Some (JStr ''R2'')"
  "json_field fresh_body ''totp_required'' = None"
  by (simp_all add: fresh_pair_def fresh_body_def rs_ok_def)

lemma extension_request_renews_once_witness:
  "ee_store (snd (apiRequest scripted GET ''/api/v1/folders'' None (ext_demo [Response expired_401, Response expired_401])))
     = ext_clearConfig ext_demo_store"
proof -
  let ?env = "ext_demo [Response expired_401, Response expired_401]"
  obtain r env' where e: "apiRequest scripted GET ''/api/v1/folders'' None ?env = (r, env')" by fastforce
  then have "r = Inl SessionEnded"
    by (auto simp: apiRequest_def ext_demo_def ext_fetch_def needs_refresh_def expired_401_def refreshTokens_def rs_ok_def Let_def)
  with extension_request_renews_once [OF e refl refl] e show ?thesis by (simp add: ext_demo_def)
qed

lemma extension_login_then_request_witness:
  "ext_getConfig (ee_store (snd (ext_login scripted ''https://h2'' ''u'' ''p'' None (ext_demo [Response fresh_pair]))))
     = \<lparr>serverUrl = ''https://h2'', accessToken = ''A2'', refreshToken = ''R2''\<rparr>"
proof -
  let ?env = "ext_demo [Response fresh_pair]"
  obtain r env' where e: "ext_login scripted ''https://h2'' ''u'' ''p'' None ?env = (r, env')" by fastforce
  then have l: "r = Inr ExtLoggedIn" by (auto simp: ext_login_def ext_fetch_def ext_demo_def)
  have n: "scripted (ext_login_request ''https://h2'' ''u'' ''p'' None) (ee_world ?env) = (Response fresh_pair, [])"
    by (simp add: ext_demo_def)
  from e l have "ext_login scripted ''https://h2'' ''u'' ''p'' None ?env = (Inr ExtLoggedIn, env')" by simp
  from extension_login_then_request [OF this n] e show ?thesis by simp
qed

lemma extension_calls_share_renewal_witness:
  "ext_waits (foldl ext_step (ext_idle ext_demo_store) [ExtCall 0 0, ExtAnswer 0 True]) 0 0
   \<and> \<not> ext_waits (foldl ext_step (ext_idle ext_demo_store) [ExtCall 0 0, ExtAnswer 0 True, RenewalLost 0]) 0 0"
proof -
  let ?es = "[ExtCall 0 0, ExtAnswer 0 True]" and ?s = "foldl ext_step (ext_idle ext_demo_store) [ExtCall 0 0, ExtAnswer 0 True]"
  have r: "possible_run ext_can ext_step (ext_idle ext_demo_store) ?es" by (simp add: ext_idle_def)
  have "ext_waits ?s 0 0" "ext_can ?s (RenewalLost 0)" by (simp_all add: ext_idle_def ext_waits_def)
  with extension_calls_share_renewal [OF r refl, of 0 0 JNull] show ?thesis by simp
qed

lemma stale_renewal_ends_session_witness:
  "xf_renewals (foldl ext_step (ext_idle ext_demo_store)
     [ExtCall 0 0, ExtCall 1 1, ExtAnswer 0 True, RenewalDone 0 fresh_body, ExtAnswer 1 True]) = [''R1'', ''R1'']"
proof -
  have q: "st_refresh_token ext_demo_store = Some ''R1''" by (simp add: ext_demo_store_def)
  show ?thesis
    using stale_renewal_ends_session [OF ext_demo_config(2) q _ fresh_body_simps(4,5) _ _ fresh_body_simps(3) refl, of 1]
    by (simp del: ext_step.simps)
qed

lemma renewal_revives_signed_out_session_witness:
  "ext_isAuthenticated (xf_store (foldl ext_step (ext_idle ext_demo_store) [ExtCall 0 0, ExtAnswer 0 True, ExtForget, RenewalDone 0 fresh_body]))"
proof -
  have q: "st_refresh_token ext_demo_store = Some ''R1''" by (simp add: ext_demo_store_def)
  show ?thesis
    using renewal_revives_signed_out_session [OF ext_demo_config(2) q _ fresh_body_simps(4) _ fresh_body_simps(3) refl, of 0 0]
    by (simp del: ext_step.simps)
qed

lemma sequential_request_is_a_run_witness:
  "let env' = snd (apiRequest scripted GET ''/api/v1/folders'' None (ext_demo [Response expired_401, Response fresh_pair]));
       rqs = drop 0 (ee_sent env');
       s = foldl ext_step (ext_idle ext_demo_store) (own_events (replies scripted rqs [Response expired_401, Response fresh_pair]))
   in xf_store s = ee_store env' \<and> length (xf_renewals s) \<le> 1"
proof -
  let ?env = "ext_demo [Response expired_401, Response fresh_pair]"
  obtain r env' where e: "apiRequest scripted GET ''/api/v1/folders'' None ?env = (r, env')" by fastforce
  from sequential_request_is_a_run [OF e refl refl refl refl] e show ?thesis by (simp add: ext_demo_def Let_def)
qed

end
