(* ===== verification/ExtensionPages.thy ===== *)
theory ExtensionPages
  imports ExtensionClient UserError ItemForm PageKit
begin

text \<open>
  What the browser extension shows and does (\<open>browser-extension/src\<close>): the popup (\<open>popup/popup.js\<close>), the
  service worker between popup and page (\<open>background/service-worker.js\<close>) and the script in the page that
  fills in sign-in forms (\<open>content/autofill.js\<close>).
\<close>

subsection \<open>Answers of the server as lists\<close>

text \<open>
  The code takes the answer of a search for an array. The server answers with an object whose entry
  \<open>items\<close> is the array (\<open>ItemListResponse\<close>, \<open>httpapi/item_handlers.go\<close>). \<open>None\<close> is a \<open>TypeError\<close>; an answer
  that is a text or a number, which the server never gives, counts as one.
\<close>

definition js_slice :: "nat \<Rightarrow> json \<Rightarrow> json list option" where
  "js_slice n v = (case v of JArr xs \<Rightarrow> Some (take n xs) | _ \<Rightarrow> None)"

definition length_is_zero :: "json \<Rightarrow> bool" where
  "length_is_zero v \<longleftrightarrow> (case v of JArr xs \<Rightarrow> xs = [] | _ \<Rightarrow> json_field v ''length'' = Some (JNum 0))"

datatype result_list = SearchHint | NothingFound | ResultRows "json list" | ResultError

definition renderItems :: "json \<Rightarrow> result_list" where
  "renderItems items =
     (if \<not> json_truthy (Some items) \<or> length_is_zero items then NothingFound
      else case js_slice 20 items of
          None \<Rightarrow> ResultError
        | Some rows \<Rightarrow> if JNull \<in> set rows then ResultError else ResultRows rows)"

definition list_answer :: "json list \<Rightarrow> json" where
  "list_answer items = JObj [(''items'', JArr items)]"

subsection \<open>The popup\<close>

datatype popup_message = NoMessage | FillAllFields | TotpNeeded | LoginFailed ext_error

record popup =
  pu_vault :: bool
  pu_serverUrl :: string
  pu_username :: string
  pu_password :: string
  pu_totp :: string
  pu_totpShown :: bool
  pu_disabled :: bool
  pu_message :: popup_message
  pu_search :: string
  pu_timer :: "string option"
  pu_asked :: "string list"
  pu_list :: result_list

definition popup_opened :: "bool \<Rightarrow> popup" where
  "popup_opened authed =
     \<lparr>pu_vault = authed, pu_serverUrl = [], pu_username = [], pu_password = [], pu_totp = [], pu_totpShown = False,
      pu_disabled = False, pu_message = NoMessage, pu_search = [], pu_timer = None, pu_asked = [], pu_list = SearchHint\<rparr>"

datatype popup_input = InServerUrl | InUsername | InPassword | InTotp

fun popup_set :: "popup_input \<Rightarrow> string \<Rightarrow> popup \<Rightarrow> popup" where
  "popup_set InServerUrl v p = p\<lparr>pu_serverUrl := v\<rparr>"
| "popup_set InUsername v p = p\<lparr>pu_username := v\<rparr>"
| "popup_set InPassword v p = p\<lparr>pu_password := v\<rparr>"
| "popup_set InTotp v p = p\<lparr>pu_totp := v\<rparr>"

text \<open>\<open>replace(/\/$/, '')\<close>: one slash at the end.\<close>

definition drop_slash :: "string \<Rightarrow> string" where
  "drop_slash u = (if u \<noteq> [] \<and> last u = CHR ''/'' then butlast u else u)"

datatype popup_call = CallLogin string string string "string option" | CallLogout | CallSearch string

datatype popup_event =
    Typed popup_input string
  | LoginPressed | LoginAnswered "ext_error + login_result" | LogoutPressed | LoggedOut
  | SearchInput string | TimerFired | SearchAnswered nat "ext_error + json"

definition popup_url :: "popup \<Rightarrow> string" where
  "popup_url p = drop_slash (trim (pu_serverUrl p))"

definition login_filled :: "popup \<Rightarrow> bool" where
  "login_filled p \<longleftrightarrow> popup_url p \<noteq> [] \<and> trim (pu_username p) \<noteq> [] \<and> pu_password p \<noteq> []"

fun popup_login_answer :: "ext_error + login_result \<Rightarrow> popup \<Rightarrow> popup" where
  "popup_login_answer (Inr ExtTotpRequired) p =
     p\<lparr>pu_totpShown := True, pu_message := TotpNeeded, pu_disabled := False\<rparr>"
| "popup_login_answer (Inr ExtLoggedIn) p = p\<lparr>pu_vault := True, pu_disabled := False\<rparr>"
| "popup_login_answer (Inl e) p = p\<lparr>pu_message := LoginFailed e, pu_disabled := False\<rparr>"

fun remove_nth :: "nat \<Rightarrow> 'a list \<Rightarrow> 'a list" where
  "remove_nth n xs = take n xs @ drop (Suc n) xs"

fun popup_step :: "popup \<Rightarrow> popup_event \<Rightarrow> popup" where
  "popup_step p (Typed k v) = popup_set k v p"
| "popup_step p LoginPressed =
     (if \<not> login_filled p then p\<lparr>pu_message := FillAllFields\<rparr> else p\<lparr>pu_disabled := True, pu_message := NoMessage\<rparr>)"
| "popup_step p (LoginAnswered r) = popup_login_answer r p"
| "popup_step p LogoutPressed = p"
| "popup_step p LoggedOut = p\<lparr>pu_vault := False\<rparr>"
| "popup_step p (SearchInput text) =
     (if js_length (trim text) < 2 then p\<lparr>pu_search := text, pu_timer := None, pu_list := SearchHint\<rparr>
      else p\<lparr>pu_search := text, pu_timer := Some (trim text)\<rparr>)"
| "popup_step p TimerFired =
     (case pu_timer p of None \<Rightarrow> p | Some q \<Rightarrow> p\<lparr>pu_timer := None, pu_asked := pu_asked p @ [q]\<rparr>)"
| "popup_step p (SearchAnswered i r) =
     p\<lparr>pu_asked := remove_nth i (pu_asked p), pu_list := (case r of Inl e \<Rightarrow> ResultError | Inr items \<Rightarrow> renderItems items)\<rparr>"

fun popup_sends :: "popup \<Rightarrow> popup_event \<Rightarrow> popup_call list" where
  "popup_sends p LoginPressed =
     (if \<not> login_filled p then []
      else [CallLogin (popup_url p) (trim (pu_username p)) (pu_password p) (or_undefined (trim (pu_totp p)))])"
| "popup_sends p LogoutPressed = [CallLogout]"
| "popup_sends p TimerFired = (case pu_timer p of None \<Rightarrow> [] | Some q \<Rightarrow> [CallSearch q])"
| "popup_sends p _ = []"

text \<open>A button that is disabled takes no click, not even one the Enter key makes.\<close>

fun popup_can :: "popup \<Rightarrow> popup_event \<Rightarrow> bool" where
  "popup_can p (Typed k v) = (\<not> pu_vault p \<and> (k = InTotp \<longrightarrow> pu_totpShown p))"
| "popup_can p LoginPressed = (\<not> pu_vault p \<and> \<not> pu_disabled p)"
| "popup_can p (LoginAnswered r) = pu_disabled p"
| "popup_can p LogoutPressed = pu_vault p"
| "popup_can p LoggedOut = True"
| "popup_can p (SearchInput text) = pu_vault p"
| "popup_can p TimerFired = (pu_timer p \<noteq> None)"
| "popup_can p (SearchAnswered i r) = (i < length (pu_asked p))"

subsection \<open>The service worker\<close>

datatype worker_message = AskSearch string | AskItem string | AskAuth

datatype worker_reply = Results json | TheItem json | Failed_reply ext_error | Authenticated bool

definition worker_onMessage :: "'w net \<Rightarrow> worker_message \<Rightarrow> 'w ext_env \<Rightarrow> worker_reply \<times> 'w ext_env" where
  "worker_onMessage net m env =
     (case m of
        AskSearch q \<Rightarrow> (case searchItems net q env of
            (Inl e, env1) \<Rightarrow> (Failed_reply e, env1) | (Inr items, env1) \<Rightarrow> (Results items, env1))
      | AskItem i \<Rightarrow> (case getItem net i env of
            (Inl e, env1) \<Rightarrow> (Failed_reply e, env1) | (Inr item, env1) \<Rightarrow> (TheItem item, env1))
      | AskAuth \<Rightarrow> (Authenticated (ext_isAuthenticated (ee_store env)), env))"

datatype menu_entry = MenuAutofill | MenuSearch

datatype page_message = ShowAutofill | ShowResults json

datatype menu_outcome = NoTab | OpensPopup | TellsPage "page_message list"

text \<open>A click in the context menu, on the text selected if any.\<close>

definition menu_onClicked ::
    "'w net \<Rightarrow> bool \<Rightarrow> menu_entry \<Rightarrow> string option \<Rightarrow> 'w ext_env \<Rightarrow> menu_outcome \<times> 'w ext_env" where
  "menu_onClicked net tab entry selected env =
     (if \<not> tab then (NoTab, env)
      else if \<not> ext_isAuthenticated (ee_store env) then (OpensPopup, env)
      else case entry of
          MenuAutofill \<Rightarrow> (TellsPage [ShowAutofill], env)
        | MenuSearch \<Rightarrow>
            (let q = trim (nullish selected [])
             in if q = [] then (TellsPage [], env)
                else case searchItems net q env of
                    (Inl e, env1) \<Rightarrow> (TellsPage [], env1)
                  | (Inr results, env1) \<Rightarrow>
                      (TellsPage (case js_slice 10 results of None \<Rightarrow> [] | Some rs \<Rightarrow> [ShowResults (JArr rs)]), env1)))"

text \<open>A click on a result in the popup: what is sent to the page, whatever the page makes of it.\<close>

definition popup_handleItemClick :: "'w net \<Rightarrow> bool \<Rightarrow> string \<Rightarrow> 'w ext_env \<Rightarrow> page_message list \<times> 'w ext_env" where
  "popup_handleItemClick net tab i env =
     (if \<not> tab then ([], env)
      else case worker_onMessage net (AskItem i) env of
          (TheItem item, env1) \<Rightarrow> ([ShowAutofill] @ (if json_truthy (Some item) then [ShowResults (JArr [item])] else []), env1)
        | (_, env1) \<Rightarrow> ([ShowAutofill], env1))"

subsection \<open>The script in the page\<close>

text \<open>
  The pw inputs of the page in document order, each with the input \<open>querySelector\<close> finds in its
  form for the name, if any; inputs are known by a number.
\<close>

type_synonym page_inputs = "(nat \<times> nat option) list"

definition findLoginForms :: "page_inputs \<Rightarrow> (nat \<times> nat) list" where
  "findLoginForms inputs = concat (map (\<lambda>(p, u). case u of None \<Rightarrow> [] | Some n \<Rightarrow> [(n, p)]) inputs)"

record page_script =
  ps_overlay :: "json list option"
  ps_target :: "(nat \<times> nat) option"
  ps_values :: "nat \<Rightarrow> string"

text \<open>\<open>createOverlay\<close> first takes the old overlay away; when the items cannot be listed it ends there.\<close>

definition createOverlay :: "json \<Rightarrow> page_inputs \<Rightarrow> page_script \<Rightarrow> page_script" where
  "createOverlay items inputs s =
     (let s0 = s\<lparr>ps_overlay := None, ps_target := None\<rparr>;
          target = (case findLoginForms inputs of [] \<Rightarrow> None | f # _ \<Rightarrow> Some f)
      in if length_is_zero items then s0\<lparr>ps_overlay := Some [], ps_target := target\<rparr>
         else case items of
             JArr xs \<Rightarrow> if JNull \<in> set xs then s0 else s0\<lparr>ps_overlay := Some xs, ps_target := target\<rparr>
           | _ \<Rightarrow> s0)"

definition text_or :: "json \<Rightarrow> string \<Rightarrow> string \<Rightarrow> string" where
  "text_or field a b =
     (if truthy (json_str_field field a) then the (json_str_field field a)
      else nullish (json_str_field field b) [])"

fun findFieldValue :: "(string \<Rightarrow> string) \<Rightarrow> json list \<Rightarrow> string list \<Rightarrow> string" where
  "findFieldValue lower [] keywords = []"
| "findFieldValue lower (f # fs) keywords =
     (if \<exists>kw\<in>set keywords. contains_text kw (lower (text_or f ''field_name'' ''name'')) then text_or f ''value'' ''decrypted_value''
      else findFieldValue lower fs keywords)"

definition username_words :: "string list" where
  "username_words = [''username'', ''user'', ''email'', ''login'']"

definition password_words :: "string list" where
  "password_words = [''password'', ''pass'', ''secret'', ''key'']"

definition fillCredentials :: "nat \<times> nat \<Rightarrow> string \<Rightarrow> string \<Rightarrow> (nat \<Rightarrow> string) \<Rightarrow> nat \<Rightarrow> string" where
  "fillCredentials target user pw values = (values(fst target := user))(snd target := pw)"

definition item_fields :: "json \<Rightarrow> json list" where
  "item_fields item = (case json_field item ''fields'' of Some (JArr fs) \<Rightarrow> fs | _ \<Rightarrow> [])"

text \<open>A click on a row of the overlay, with the reply of the service worker.\<close>

definition overlay_clicked :: "(string \<Rightarrow> string) \<Rightarrow> worker_reply \<Rightarrow> page_script \<Rightarrow> page_script" where
  "overlay_clicked lower reply s =
     (let filled = (case reply of
          TheItem item \<Rightarrow>
            (let user = findFieldValue lower (item_fields item) username_words;
                 pw = findFieldValue lower (item_fields item) password_words
             in case ps_target s of
                  None \<Rightarrow> ps_values s
                | Some t \<Rightarrow> if user \<noteq> [] \<and> pw \<noteq> [] then fillCredentials t user pw (ps_values s) else ps_values s)
        | _ \<Rightarrow> ps_values s)
      in s\<lparr>ps_values := filled, ps_overlay := None, ps_target := None\<rparr>)"

text \<open>The messages the script listens to; \<open>reply\<close> is the answer of the service worker to the search for the host.\<close>

fun page_onMessage :: "page_inputs \<Rightarrow> worker_reply \<Rightarrow> page_message \<Rightarrow> page_script \<Rightarrow> page_script" where
  "page_onMessage inputs reply ShowAutofill s =
     (case reply of Results items \<Rightarrow> if json_truthy (Some items) then createOverlay items inputs s else s | _ \<Rightarrow> s)"
| "page_onMessage inputs reply (ShowResults items) s =
     createOverlay (if json_truthy (Some items) then items else JArr []) inputs s"

subsection \<open>What the search finds\<close>

text \<open>
  No search of the extension ever lists anything. The server answers with an object and the extension
  takes the answer for the list in it: the popup shows an error, the context menu tells the page
  nothing, and in the page an open overlay is taken away and none is put up.
\<close>
theorem extension_search_lists_nothing:
  assumes "searchItems net (trim text) env = (Inr (list_answer items), env1)"
  shows "renderItems (list_answer items) = ResultError
    \<and> fst (menu_onClicked net tab MenuSearch (Some text) env) \<in> {NoTab, OpensPopup, TellsPage []}
    \<and> ps_overlay (page_onMessage inputs (fst (worker_onMessage net (AskSearch (trim text)) env)) ShowAutofill s) = None"
  using assms by (auto simp: renderItems_def list_answer_def length_is_zero_def js_slice_def createOverlay_def menu_onClicked_def
      worker_onMessage_def Let_def split: if_splits)

subsection \<open>Filling in\<close>

lemma findFieldValue_find:
  "findFieldValue lower fs keywords =
     (case List.find (\<lambda>f. \<exists>kw\<in>set keywords. contains_text kw (lower (text_or f ''field_name'' ''name''))) fs of
        None \<Rightarrow> [] | Some f \<Rightarrow> text_or f ''value'' ''decrypted_value'')"
  by (induction fs) auto

text \<open>
  A click on a row fills the two inputs of the first form, or nothing. It fills exactly when the first
  field with a name for a user and the first with a name for a pw both have a value; no other
  input is touched, and the overlay goes away.
\<close>
theorem overlay_fills_first_form:
  assumes "s' = overlay_clicked lower (TheItem item) s"
    and "user = findFieldValue lower (item_fields item) username_words"
    and "pw = findFieldValue lower (item_fields item) password_words"
  shows "ps_overlay s' = None
    \<and> (\<forall>i. ps_target s \<noteq> None \<and> i \<in> {fst (the (ps_target s)), snd (the (ps_target s))} \<or> ps_values s' i = ps_values s i)
    \<and> (ps_target s = Some (u, p) \<and> u \<noteq> p \<longrightarrow>
        (if user \<noteq> [] \<and> pw \<noteq> [] then ps_values s' u = user \<and> ps_values s' p = pw
         else ps_values s' = ps_values s))"
  using assms by (auto simp: overlay_clicked_def fillCredentials_def Let_def split: option.splits)

text \<open>An item as the server sends it.\<close>

definition server_field :: "ItemField \<Rightarrow> json" where
  "server_field f = JObj ([(''field_definition_id'', JNum (int (if_field_definition_id f)))]
     @ (case if_value_enc f of None \<Rightarrow> [] | Some v \<Rightarrow> [(''value_enc'', JStr v)])
     @ (case if_value_nonce f of None \<Rightarrow> [] | Some v \<Rightarrow> [(''value_nonce'', JStr v)])
     @ [(''position'', JNum (int (if_position f)))])"

lemma server_field_nameless: "text_or (server_field f) a b = []" if "a \<in> {''field_name'', ''value''}" "b \<in> {''name'', ''decrypted_value''}"
  using that by (auto simp: text_or_def server_field_def json_str_field_def split: option.splits)

lemma nameless_fields:
  "\<forall>f\<in>set fs. text_or f ''field_name'' ''name'' = [] \<Longrightarrow> lower [] = [] \<Longrightarrow> [] \<notin> set keywords \<Longrightarrow> findFieldValue lower fs keywords = []"
  by (induction fs) auto

text \<open>
  C34: The extension fills in nothing. The fields the server sends have no names and no values, only
  ciphertexts: a click on the row of any item leaves the page as it was.
\<close>
theorem server_items_fill_nothing:
  assumes "json_field item ''fields'' = Some (JArr (map server_field fs))" and "lower [] = []"
  shows "ps_values (overlay_clicked lower (TheItem item) s) = ps_values s"
proof -
  have "findFieldValue lower (item_fields item) username_words = []"
    using assms by (intro nameless_fields) (auto simp: item_fields_def server_field_nameless username_words_def)
  then show ?thesis by (simp add: overlay_clicked_def Let_def split: option.splits)
qed

subsection \<open>The popup\<close>

definition popup_call_ok :: "popup_call \<Rightarrow> bool" where
  "popup_call_ok c \<longleftrightarrow> (case c of
     CallLogin url u p t \<Rightarrow> url \<noteq> [] \<and> u \<noteq> [] \<and> p \<noteq> [] \<and> t \<noteq> Some []
   | CallLogout \<Rightarrow> True
   | CallSearch q \<Rightarrow> 2 \<le> js_length q)"

definition popup_inv :: "popup \<Rightarrow> bool" where
  "popup_inv p \<longleftrightarrow> (\<forall>q. pu_timer p = Some q \<longrightarrow> q = trim (pu_search p) \<and> 2 \<le> js_length q) \<and> (\<forall>q\<in>set (pu_asked p). 2 \<le> js_length q)"

interpretation popup_page: sending_page popup_can popup_step popup_inv popup_sends popup_call_ok
proof
  fix p e m
  assume inv: "popup_inv p" and can: "popup_can p e"
  show "popup_inv (popup_step p e)"
  proof (cases e)
    case (Typed k v)
    with inv show ?thesis by (cases k) (auto simp: popup_inv_def)
  next
    case (LoginAnswered r)
    with inv show ?thesis by (cases "(r, p)" rule: popup_login_answer.cases) (auto simp: popup_inv_def)
  qed (use inv can in \<open>auto simp: popup_inv_def dest: in_set_takeD in_set_dropD\<close>)
  show "popup_call_ok m" if "m \<in> set (popup_sends p e)"
    using inv that by (cases e) (auto simp: popup_inv_def popup_call_ok_def login_filled_def or_undefined_def split: if_splits)
qed

lemma popup_opened_inv: "popup_inv (popup_opened authed)"
  by (simp add: popup_inv_def popup_opened_def)

text \<open>
  The popup never sends a search of fewer than two characters nor an incomplete sign-in, and a search
  waiting to be sent is the text in the field.
\<close>
theorem popup_sends_complete_calls:
  assumes "possible_run popup_can popup_step (popup_opened authed) es" and "p = foldl popup_step (popup_opened authed) es"
  shows "(\<forall>c\<in>set (sent_by popup_step popup_sends (popup_opened authed) es). popup_call_ok c)
    \<and> (\<forall>q. pu_timer p = Some q \<longrightarrow> q = trim (pu_search p) \<and> 2 \<le> js_length q)"
  using popup_page.run_sends_ok [OF popup_opened_inv assms(1)] popup_page.run_keeps [OF popup_opened_inv assms(1)] assms(2)
  by (auto simp: popup_inv_def)

text \<open>
  The answer that comes last stays. When a second search is sent before the first is answered and the
  answers change places, the list is the first search's while the field has the second.
\<close>
theorem late_search_answer_stays:
  assumes "2 \<le> js_length (trim a)" and "2 \<le> js_length (trim b)"
    and "es = [SearchInput a, TimerFired, SearchInput b, TimerFired, SearchAnswered 1 rb, SearchAnswered 0 (Inr items)]"
  shows "possible_run popup_can popup_step (popup_opened True) es
    \<and> sent_by popup_step popup_sends (popup_opened True) es = [CallSearch (trim a), CallSearch (trim b)]
    \<and> pu_search (foldl popup_step (popup_opened True) es) = b
    \<and> pu_list (foldl popup_step (popup_opened True) es) = renderItems items"
  using assms by (simp add: popup_opened_def)

text \<open>A code is typed only into a field that is shown, and it is shown only when an answer asked for it.\<close>

definition codeless :: "popup \<Rightarrow> bool" where
  "codeless p \<longleftrightarrow> \<not> pu_totpShown p \<and> pu_totp p = []"

definition no_totp_answer :: "popup_event \<Rightarrow> bool" where
  "no_totp_answer e \<longleftrightarrow> e \<noteq> LoginAnswered (Inr ExtTotpRequired)"

definition codeless_call :: "popup_call \<Rightarrow> bool" where
  "codeless_call c \<longleftrightarrow> (case c of CallLogin url u p t \<Rightarrow> t = None | _ \<Rightarrow> True)"

interpretation codeless_page: sending_page "\<lambda>p e. popup_can p e \<and> no_totp_answer e" popup_step codeless popup_sends codeless_call
proof
  fix p e m
  assume inv: "codeless p" and can: "popup_can p e \<and> no_totp_answer e"
  show "codeless (popup_step p e)"
  proof (cases e)
    case (Typed k v)
    with inv can show ?thesis by (cases k) (auto simp: codeless_def)
  next
    case (LoginAnswered r)
    with inv can show ?thesis by (cases "(r, p)" rule: popup_login_answer.cases) (auto simp: codeless_def no_totp_answer_def)
  qed (use inv can in \<open>auto simp: codeless_def split: option.splits\<close>)
  show "codeless_call m" if "m \<in> set (popup_sends p e)"
    using inv that by (cases e) (auto simp: codeless_def codeless_call_def trim_eval split: if_splits option.splits)
qed

lemma refused_login: "rs_status res = 401 \<Longrightarrow> net (ext_login_request url u p t) (ee_world env) = (Response res, w) \<Longrightarrow>
    fst (ext_login net url u p t env) = Inl (SignInRefused 401)"
  by (simp add: ext_login_def ext_fetch_def rs_ok_def)

text \<open>
  An account with a second factor cannot sign in. The server answers a sign-in without a code with 401
  (\<open>mfa_required\<close>), which the extension reports as a refusal: as long as no answer says \<open>totp_required\<close>, the
  field for the code is never shown and every sign-in goes out without one.
\<close>
theorem second_factor_never_asked:
  assumes "possible_run popup_can popup_step (popup_opened authed) es" and "\<forall>e\<in>set es. no_totp_answer e"
    and "rs_status res = 401" and "net (ext_login_request url u p t) (ee_world env) = (Response res, w)"
  shows "no_totp_answer (LoginAnswered (fst (ext_login net url u p t env)))
    \<and> (\<forall>c\<in>set (sent_by popup_step popup_sends (popup_opened authed) es). codeless_call c)
    \<and> \<not> popup_can (foldl popup_step (popup_opened authed) es) (Typed InTotp v)"
proof -
  have "possible_run (\<lambda>p e. popup_can p e \<and> no_totp_answer e) popup_step s es" if "possible_run popup_can popup_step s es" for s
    using that assms(2) by (induction es arbitrary: s) (simp_all del: popup_can.simps popup_step.simps)
  then have r: "possible_run (\<lambda>p e. popup_can p e \<and> no_totp_answer e) popup_step (popup_opened authed) es" using assms(1) by blast
  have i: "codeless (popup_opened authed)" by (simp add: codeless_def popup_opened_def)
  show ?thesis
    using codeless_page.run_sends_ok [OF i r] codeless_page.run_keeps [OF i r] refused_login [of res net url u p t env w] assms(3,4)
    by (simp add: no_totp_answer_def codeless_def)
qed

subsection \<open>Concrete runs\<close>

lemma extension_search_lists_nothing_witness:
  "fst (menu_onClicked scripted True MenuSearch (Some ''db'')
      (ext_demo [Response \<lparr>rs_status = 200, rs_json = Some (list_answer [JObj [(''name'', JStr ''db'')]])\<rparr>])) = TellsPage []"
proof -
  let ?env = "ext_demo [Response \<lparr>rs_status = 200, rs_json = Some (list_answer [JObj [(''name'', JStr ''db'')]])\<rparr>]"
  obtain env1 where "searchItems scripted (trim ''db'') ?env = (Inr (list_answer [JObj [(''name'', JStr ''db'')]]), env1)"
    by (auto simp: searchItems_def apiRequest_def ext_demo_def ext_fetch_def needs_refresh_def ext_answer_def rs_ok_def)
  from extension_search_lists_nothing [OF this, of True] show ?thesis
    by (auto simp: menu_onClicked_def ext_demo_def Let_def trim_eval split: prod.splits sum.splits)
qed

definition plain_item :: json where
  "plain_item = JObj [(''fields'', JArr [JObj [(''name'', JStr ''user''), (''value'', JStr ''bob'')],
     JObj [(''name'', JStr ''pass''), (''decrypted_value'', JStr ''s3'')]])]"

lemma overlay_fills_first_form_witness:
  "ps_values (overlay_clicked (\<lambda>s. s) (TheItem plain_item) \<lparr>ps_overlay = Some [], ps_target = Some (1, 2), ps_values = \<lambda>_. []\<rparr>) 2 = ''s3''"
proof -
  let ?s = "\<lparr>ps_overlay = Some [], ps_target = Some (1, 2), ps_values = \<lambda>_. []\<rparr>"
  have "findFieldValue (\<lambda>s. s) (item_fields plain_item) username_words = ''bob''"
    "findFieldValue (\<lambda>s. s) (item_fields plain_item) password_words = ''s3''"
    by (simp_all add: plain_item_def item_fields_def username_words_def password_words_def text_or_def json_str_field_def)
  with overlay_fills_first_form [OF refl refl refl, of "\<lambda>s. s" plain_item ?s 1 2] show ?thesis by simp
qed

lemma server_items_fill_nothing_witness:
  "ps_values (overlay_clicked (\<lambda>s. s) (TheItem (JObj [(''fields'', JArr [server_field
       \<lparr>if_field_definition_id = 7, if_value_enc = Some ''x'', if_value_nonce = Some ''n'', if_position = 0\<rparr>])]))
     \<lparr>ps_overlay = Some [], ps_target = Some (1, 2), ps_values = \<lambda>_. []\<rparr>) = (\<lambda>_. [])"
proof -
  let ?fs = "[\<lparr>if_field_definition_id = 7, if_value_enc = Some ''x'', if_value_nonce = Some ''n'', if_position = 0\<rparr>]"
  have "json_field (JObj [(''fields'', JArr (map server_field ?fs))]) ''fields'' = Some (JArr (map server_field ?fs))" by simp
  from server_items_fill_nothing [OF this, of "\<lambda>s. s"] show ?thesis by simp
qed

lemma popup_sends_complete_calls_witness:
  "\<forall>c\<in>set (sent_by popup_step popup_sends (popup_opened True) [SearchInput ''db '', TimerFired]). popup_call_ok c"
proof -
  have "possible_run popup_can popup_step (popup_opened True) [SearchInput ''db '', TimerFired]"
    by (simp add: popup_opened_def trim_eval js_length_def units_def)
  from popup_sends_complete_calls [OF this refl] show ?thesis by blast
qed

lemma late_search_answer_stays_witness:
  "pu_list (foldl popup_step (popup_opened True) [SearchInput ''db'', TimerFired, SearchInput ''dbx'', TimerFired,
     SearchAnswered 1 (Inr (JArr [])), SearchAnswered 0 (Inr (JArr [JObj []]))]) = ResultRows [JObj []]"
proof -
  have "2 \<le> js_length (trim ''db'')" "2 \<le> js_length (trim ''dbx'')"
    by (simp_all add: trim_eval js_length_def units_def)
  from late_search_answer_stays [OF this refl, of "Inr (JArr [])" "JArr [JObj []]"]
  show ?thesis by (simp add: renderItems_def length_is_zero_def js_slice_def del: popup_step.simps)
qed

lemma second_factor_never_asked_witness:
  "no_totp_answer (LoginAnswered (fst (ext_login scripted ''https://h'' ''u'' ''p'' None (ext_demo [Response expired_401]))))"
proof -
  have r: "possible_run popup_can popup_step (popup_opened False) []" by simp
  have n: "scripted (ext_login_request ''https://h'' ''u'' ''p'' None) (ee_world (ext_demo [Response expired_401])) = (Response expired_401, [])"
    by (simp add: ext_demo_def)
  have s: "rs_status expired_401 = 401" by (simp add: expired_401_def)
  show ?thesis using second_factor_never_asked [of False "[]" expired_401 scripted "''https://h''" "''u''" "''p''" None] r s n by (simp add: ext_demo_def)
qed

end
