(* ===== verification/ScriptBytes.thy ===== *)
theory ScriptBytes
  imports Prelude
begin

unbundle bit_operations_syntax

text \<open>
  What the scripts work out on bytes: one-time codes, identifiers, and icon files. First the one-time code the seeding script works out for the account it makes (\<open>generateTOTP\<close> in
  \<open>scripts/seed-admin.mjs\<close>), against RFC 4648 and RFC 6238. JavaScript's shifts work on 32 bits; HMAC-SHA1
  is a parameter.
\<close>

subsection \<open>The script\<close>

definition base32_alphabet :: string where
  "base32_alphabet = ''ABCDEFGHIJKLMNOPQRSTUVWXYZ234567''"

text \<open>\<open>indexOf\<close>: \<open>-1\<close> when there is none.\<close>

fun index_of :: "char \<Rightarrow> string \<Rightarrow> int" where
  "index_of c [] = -1"
| "index_of c (x # xs) = (if x = c then 0 else let i = index_of c xs in if i < 0 then -1 else i + 1)"

text \<open>\<open>toUpperCase\<close> on ASCII, and \<open>replace(/=+$/, '')\<close>.\<close>

definition upper_char :: "char \<Rightarrow> char" where
  "upper_char c = (let n = (of_char c :: nat) in if 97 \<le> n \<and> n \<le> 122 then char_of (n - 32) else c)"

definition drop_equals :: "string \<Rightarrow> string" where
  "drop_equals s = rev (dropWhile (\<lambda>c. c = CHR ''='') (rev s))"

record base32_state =
  bs_bits :: nat
  bs_val :: "32 word"
  bs_bytes :: "byte list"

definition base32_step :: "base32_state \<Rightarrow> int \<Rightarrow> base32_state" where
  "base32_step s i =
     (let val = push_bit 5 (bs_val s) OR of_int i; bits = bs_bits s + 5
      in if 8 \<le> bits
         then s\<lparr>bs_val := val, bs_bytes := bs_bytes s @ [ucast (drop_bit (bits - 8) val AND 0xff)], bs_bits := bits - 8\<rparr>
         else s\<lparr>bs_val := val, bs_bits := bits\<rparr>)"

definition base32_decode :: "string \<Rightarrow> byte list" where
  "base32_decode secret =
     bs_bytes (foldl base32_step \<lparr>bs_bits = 0, bs_val = 0, bs_bytes = []\<rparr>
       (map (\<lambda>c. index_of c base32_alphabet) (drop_equals (map upper_char secret))))"

text \<open>The eight bytes of the counter: the last byte first, \<open>c >>>= 8\<close> after each.\<close>

fun counter_bytes :: "nat \<Rightarrow> nat \<Rightarrow> byte list" where
  "counter_bytes 0 c = []"
| "counter_bytes (Suc i) c = counter_bytes i (unat (drop_bit 8 (of_nat c :: 32 word))) @ [of_nat c]"

text \<open>\<open>sig[i]\<close> past the end is \<open>undefined\<close>, which counts as 0; HMAC-SHA1 gives 20 bytes.\<close>

definition sig_at :: "byte list \<Rightarrow> nat \<Rightarrow> 32 word" where
  "sig_at sig i = (if i < length sig then ucast (sig ! i) else 0)"

definition totp_number :: "byte list \<Rightarrow> nat" where
  "totp_number sig =
     (let offset = unat (sig_at sig 19 AND 0xf)
      in unat ((push_bit 24 (sig_at sig offset AND 0x7f) OR push_bit 16 (sig_at sig (offset + 1))
           OR push_bit 8 (sig_at sig (offset + 2)) OR sig_at sig (offset + 3))) mod 1000000)"

definition pad_start :: "nat \<Rightarrow> char \<Rightarrow> string \<Rightarrow> string" where
  "pad_start n c s = replicate (n - length s) c @ s"

definition generateTOTP :: "(byte list \<Rightarrow> byte list \<Rightarrow> byte list) \<Rightarrow> nat \<Rightarrow> string \<Rightarrow> string" where
  "generateTOTP hmac now secret =
     pad_start 6 (CHR ''0'') (show_nat (totp_number (hmac (base32_decode secret) (counter_bytes 8 (now div 1000 div 30)))))"

subsection \<open>The references\<close>

text \<open>RFC 4648: the digits are one number to the base 32; its bits from the left, eight at a time.\<close>

definition base32_value :: "nat list \<Rightarrow> nat" where
  "base32_value ds = foldl (\<lambda>n d. 32 * n + d) 0 ds"

definition rfc_base32 :: "nat list \<Rightarrow> byte list" where
  "rfc_base32 ds = map (\<lambda>k. of_nat (base32_value ds div 2 ^ (5 * length ds - 8 * (k + 1)))) [0..<5 * length ds div 8]"

text \<open>RFC 4226: the counter as eight bytes, and the truncation of the digest to 31 bits.\<close>

definition rfc_counter :: "nat \<Rightarrow> byte list" where
  "rfc_counter c = map (\<lambda>k. of_nat (c div 256 ^ (7 - k))) [0..<8]"

definition rfc_truncate :: "byte list \<Rightarrow> nat" where
  "rfc_truncate sig =
     (let offset = unat (sig ! 19) mod 16
      in (unat (sig ! offset) mod 128) * 2 ^ 24 + unat (sig ! (offset + 1)) * 2 ^ 16
           + unat (sig ! (offset + 2)) * 2 ^ 8 + unat (sig ! (offset + 3)))"

subsection \<open>Decoding\<close>

lemma base32_value_snoc: "base32_value (ds @ [d]) = 32 * base32_value ds + d"
  by (simp add: base32_value_def)

text \<open>While 32-bit words overflow, the part that is read never does.\<close>

lemma shifted_digit:
  assumes "d < 32"
  shows "push_bit 5 (of_nat n :: 32 word) OR of_int (int d) = of_nat (32 * n + d)"
proof -
  have "push_bit 5 (of_nat n :: 32 word) OR of_nat d = push_bit 5 (of_nat n) + of_nat d"
  proof (rule disjunctive_add [symmetric])
    fix k
    have "\<not> bit d k" if "\<not> k < 5"
    proof -
      have "d < 2 ^ k" using assms that power_increasing [of 5 k "2::nat"] by simp
      then show ?thesis by (simp add: bit_iff_odd)
    qed
    then show "\<not> bit (push_bit 5 (of_nat n :: 32 word)) k \<or> \<not> bit (of_nat d :: 32 word) k"
      by (auto simp: bit_simps)
  qed
  then show ?thesis by (simp add: push_bit_eq_mult mult.commute)
qed

lemma read_two_digits:
  assumes "b \<le> 24"
  shows "ucast (drop_bit b (of_nat n :: 32 word) AND 0xff) = (of_nat (n div 2 ^ b) :: byte)"
proof -
  have m: "(0xff :: 32 word) = mask 8" by (simp add: mask_eq_exp_minus_1)
  have d: "n div 2 ^ b = drop_bit b n" by (simp add: drop_bit_eq_div)
  show ?thesis unfolding m d by (rule bit_word_eqI) (use assms in \<open>auto simp: bit_simps\<close>)
qed

lemma five_more_bits:
  fixes n :: nat
  shows "8 \<le> n mod 8 + 5 \<Longrightarrow> (n + 5) div 8 = Suc (n div 8)" "8 \<le> n mod 8 + 5 \<Longrightarrow> (n + 5) mod 8 = n mod 8 + 5 - 8"
    "8 \<le> n mod 8 + 5 \<Longrightarrow> n + 5 - 8 * (n div 8 + 1) = n mod 8 + 5 - 8"
    "\<not> 8 \<le> n mod 8 + 5 \<Longrightarrow> (n + 5) div 8 = n div 8" "\<not> 8 \<le> n mod 8 + 5 \<Longrightarrow> (n + 5) mod 8 = n mod 8 + 5"
proof -
  obtain q m where n: "n = 8 * q + m" "m < 8" and qm: "n div 8 = q" "n mod 8 = m"
    by (metis mod_less_divisor mult_div_mod_eq zero_less_numeral)
  have d: "(n + 5) div 8 = q + (m + 5) div 8" "(n + 5) mod 8 = (m + 5) mod 8" by (simp_all add: n(1) add.assoc)
  have "m \<in> {0, 1, 2, 3, 4, 5, 6, 7}" using n(2) by auto
  then have m: "(m + 5) div 8 = (if 8 \<le> m + 5 then 1 else 0)" "(m + 5) mod 8 = (if 8 \<le> m + 5 then m + 5 - 8 else m + 5)" by auto
  show "8 \<le> n mod 8 + 5 \<Longrightarrow> (n + 5) div 8 = Suc (n div 8)" "8 \<le> n mod 8 + 5 \<Longrightarrow> (n + 5) mod 8 = n mod 8 + 5 - 8"
    "\<not> 8 \<le> n mod 8 + 5 \<Longrightarrow> (n + 5) div 8 = n div 8" "\<not> 8 \<le> n mod 8 + 5 \<Longrightarrow> (n + 5) mod 8 = n mod 8 + 5"
    unfolding d m qm by simp_all
  show "8 \<le> n mod 8 + 5 \<Longrightarrow> n + 5 - 8 * (n div 8 + 1) = n mod 8 + 5 - 8"
    unfolding qm by (simp add: n(1))
qed

text \<open>After \<open>n\<close> digits: the number they make, its whole bytes, and how many bits are left over.\<close>

lemma base32_fold:
  assumes "\<forall>d\<in>set ds. d < 32"
  shows "foldl base32_step \<lparr>bs_bits = 0, bs_val = 0, bs_bytes = []\<rparr> (map int ds)
    = \<lparr>bs_bits = 5 * length ds mod 8, bs_val = of_nat (base32_value ds), bs_bytes = rfc_base32 ds\<rparr>"
  using assms
proof (induction ds rule: rev_induct)
  case Nil
  then show ?case by (simp add: base32_value_def rfc_base32_def)
next
  case (snoc d ds)
  let ?n = "5 * length ds" and ?N = "base32_value ds"
  have less: "d < 32" using snoc.prems by simp
  have old: "(32 * ?N + d) div 2 ^ (?n + 5 - 8 * (k + 1)) = ?N div 2 ^ (?n - 8 * (k + 1))" if "k < ?n div 8" for k
  proof -
    from that have "8 * (k + 1) \<le> ?n" using less_eq_div_iff_mult_less_eq [of 8 "k + 1" ?n] by simp
    then have "?n + 5 - 8 * (k + 1) = 5 + (?n - 8 * (k + 1))" by simp
    then have "(2::nat) ^ (?n + 5 - 8 * (k + 1)) = 32 * 2 ^ (?n - 8 * (k + 1))" by (simp only: power_add) simp
    then show ?thesis using less by (simp add: div_mult2_eq)
  qed
  have keep: "map (\<lambda>k. of_nat ((32 * ?N + d) div 2 ^ (?n + 5 - 8 * (k + 1)))) [0..<?n div 8] = rfc_base32 ds"
    using old by (simp add: rfc_base32_def)
  have l: "5 * length (ds @ [d]) = ?n + 5" by simp
  have v: "base32_value (ds @ [d]) = 32 * ?N + d" by (rule base32_value_snoc)
  have fold: "foldl base32_step \<lparr>bs_bits = 0, bs_val = 0, bs_bytes = []\<rparr> (map int (ds @ [d]))
      = base32_step \<lparr>bs_bits = ?n mod 8, bs_val = of_nat ?N, bs_bytes = rfc_base32 ds\<rparr> (int d)"
    using snoc by simp
  show ?case
  proof (cases "8 \<le> ?n mod 8 + 5")
    case True
    note m = five_more_bits(1-3) [OF True]
    have "rfc_base32 (ds @ [d]) = rfc_base32 ds @ [of_nat ((32 * ?N + d) div 2 ^ (?n mod 8 + 5 - 8))]"
      unfolding rfc_base32_def l v m(1) upt_Suc by (simp only: if_True le0 map_append keep [unfolded rfc_base32_def] list.map m(3))
    moreover have "base32_step \<lparr>bs_bits = ?n mod 8, bs_val = of_nat ?N, bs_bytes = rfc_base32 ds\<rparr> (int d)
        = \<lparr>bs_bits = ?n mod 8 + 5 - 8, bs_val = of_nat (32 * ?N + d),
           bs_bytes = rfc_base32 ds @ [of_nat ((32 * ?N + d) div 2 ^ (?n mod 8 + 5 - 8))]\<rparr>"
      using True read_two_digits [of "?n mod 8 + 5 - 8" "32 * ?N + d"]
      by (simp only: base32_step_def Let_def base32_state.simps shifted_digit [OF less] if_True)
    ultimately show ?thesis unfolding fold v l m(2) by simp
  next
    case False
    note m = five_more_bits(4,5) [OF False]
    have "rfc_base32 (ds @ [d]) = rfc_base32 ds"
      unfolding rfc_base32_def l v m(1) by (rule keep [unfolded rfc_base32_def])
    moreover have "base32_step \<lparr>bs_bits = ?n mod 8, bs_val = of_nat ?N, bs_bytes = rfc_base32 ds\<rparr> (int d)
        = \<lparr>bs_bits = ?n mod 8 + 5, bs_val = of_nat (32 * ?N + d), bs_bytes = rfc_base32 ds\<rparr>"
      using False by (simp only: base32_step_def Let_def base32_state.simps shifted_digit [OF less] if_False)
    ultimately show ?thesis unfolding fold v l m(2) by simp
  qed
qed

lemma index_of_member: "c \<in> set xs \<Longrightarrow> \<exists>d < length xs. index_of c xs = int d"
proof (induction xs)
  case (Cons x xs)
  show ?case
  proof (cases "x = c")
    case False
    with Cons obtain d where "d < length xs" "index_of c xs = int d" by auto
    with False show ?thesis by (intro exI [of _ "Suc d"]) simp
  qed auto
qed simp

definition base32_digits :: "string \<Rightarrow> nat list" where
  "base32_digits secret = map (\<lambda>c. nat (index_of c base32_alphabet)) (drop_equals (map upper_char secret))"

lemma base32_decode_rfc:
  assumes "set (drop_equals (map upper_char secret)) \<subseteq> set base32_alphabet"
  shows "base32_decode secret = rfc_base32 (base32_digits secret)"
proof -
  have d: "index_of c base32_alphabet = int (nat (index_of c base32_alphabet)) \<and> nat (index_of c base32_alphabet) < 32"
    if "c \<in> set (drop_equals (map upper_char secret))" for c
  proof -
    have "length base32_alphabet = 32" by (simp add: base32_alphabet_def)
    with index_of_member [of c base32_alphabet] assms that obtain i where "i < 32" "index_of c base32_alphabet = int i" by auto
    then show ?thesis by simp
  qed
  then have "map (\<lambda>c. index_of c base32_alphabet) (drop_equals (map upper_char secret)) = map int (base32_digits secret)"
    by (simp add: base32_digits_def)
  moreover have "\<forall>d\<in>set (base32_digits secret). d < 32" using d by (auto simp: base32_digits_def)
  ultimately show ?thesis by (simp add: base32_decode_def base32_fold)
qed

subsection \<open>The counter and the digest\<close>

lemma counter_bytes_rfc: "c < 2 ^ 32 \<Longrightarrow> counter_bytes n c = map (\<lambda>k. of_nat (c div 256 ^ (n - 1 - k))) [0..<n]"
proof (induction n arbitrary: c)
  case (Suc n)
  have s: "unat (drop_bit 8 (of_nat c :: 32 word)) = c div 256"
    using Suc.prems by (simp add: drop_bit_eq_div unat_div unat_of_nat)
  have "c div 256 div 256 ^ (n - 1 - k) = c div 256 ^ (n - k)" if "k < n" for k
  proof -
    from that have "n - k = Suc (n - 1 - k)" by simp
    then show ?thesis by (simp add: div_mult2_eq)
  qed
  with Suc show ?case by (simp add: s)
qed simp

lemma or_is_sum:
  fixes x y :: "32 word"
  assumes "unat y < 2 ^ k" and "unat x * 2 ^ k + unat y < 2 ^ 32"
  shows "unat (push_bit k x OR y) = unat x * 2 ^ k + unat y"
proof -
  have "push_bit k x OR y = push_bit k x + y"
  proof (rule disjunctive_add [symmetric])
    fix i
    have "\<not> bit y i" if "k \<le> i"
    proof -
      have "unat y < 2 ^ i" using assms(1) power_increasing [OF that, of "2::nat"] by linarith
      then have "\<not> bit (unat y) i" by (simp add: bit_iff_odd)
      then show ?thesis by (simp add: bit_simps)
    qed
    then show "\<not> bit (push_bit k x) i \<or> \<not> bit y i" by (auto simp: bit_simps)
  qed
  also have "push_bit k x + y = of_nat (unat x * 2 ^ k + unat y)"
    by (simp add: push_bit_eq_mult mult.commute)
  finally have e: "push_bit k x OR y = of_nat (unat x * 2 ^ k + unat y)" .
  show ?thesis unfolding e using assms(2) by (simp only: unat_of_nat) simp
qed

lemma totp_number_rfc:
  assumes "length sig = 20"
  shows "totp_number sig = rfc_truncate sig mod 1000000" "rfc_truncate sig < 2 ^ 31"
proof -
  let ?o = "unat (sig ! 19) mod 16"
  let ?b = "\<lambda>i. unat (sig ! (?o + i))"
  have byte: "?b i < 256" for i using unsigned_less [of "sig ! (?o + i)", where 'a = nat] by simp
  have at: "sig_at sig i = ucast (sig ! i)" if "i < 20" for i using that assms by (simp add: sig_at_def)
  have un: "unat (ucast (x :: byte) :: 32 word) = unat x" for x
    using unsigned_less [of x, where 'a = nat] by (simp add: unsigned_ucast_eq take_bit_eq_mod)
  have o: "unat (sig_at sig 19 AND 0xf) = ?o"
  proof -
    have "(0xf :: 32 word) = mask 4" by (simp add: mask_eq_exp_minus_1)
    then have "sig_at sig 19 AND 0xf = take_bit 4 (ucast (sig ! 19))" by (simp add: at take_bit_eq_mask)
    then show ?thesis by (simp only: unsigned_take_bit_eq un) (simp add: take_bit_eq_mod)
  qed
  have less: "?o < 16" by simp
  have at': "unat (sig_at sig (?o + i)) = ?b i" if "i < 4" for i using that less by (simp add: at un)
  have top: "unat (sig_at sig ?o AND 0x7f) = ?b 0 mod 128"
  proof -
    have "(0x7f :: 32 word) = mask 7" by (simp add: mask_eq_exp_minus_1)
    then have "sig_at sig ?o AND 0x7f = take_bit 7 (ucast (sig ! ?o))" using less by (simp add: at take_bit_eq_mask)
    then show ?thesis by (simp only: unsigned_take_bit_eq un) (simp add: take_bit_eq_mod)
  qed
  have b1: "unat (sig_at sig (?o + 1)) = ?b 1" and b2: "unat (sig_at sig (?o + 2)) = ?b 2" and b3: "unat (sig_at sig (?o + 3)) = ?b 3"
    by (rule at'; simp)+
  let ?r2 = "push_bit 8 (sig_at sig (?o + 2)) OR sig_at sig (?o + 3)"
  let ?r1 = "push_bit 16 (sig_at sig (?o + 1)) OR ?r2"
  have r2: "unat ?r2 = ?b 2 * 2 ^ 8 + ?b 3"
    using or_is_sum [of "sig_at sig (?o + 3)" 8 "sig_at sig (?o + 2)"] byte [of 2] byte [of 3] unfolding b2 b3 by simp
  have r1: "unat ?r1 = ?b 1 * 2 ^ 16 + (?b 2 * 2 ^ 8 + ?b 3)"
    using or_is_sum [of ?r2 16 "sig_at sig (?o + 1)"] byte [of 1] byte [of 2] byte [of 3] unfolding b1 r2 by simp
  have "unat (push_bit 24 (sig_at sig ?o AND 0x7f) OR ?r1) = (?b 0 mod 128) * 2 ^ 24 + (?b 1 * 2 ^ 16 + (?b 2 * 2 ^ 8 + ?b 3))"
    using or_is_sum [of ?r1 24 "sig_at sig ?o AND 0x7f"] byte [of 1] byte [of 2] byte [of 3] mod_less_divisor [of 128 "?b 0"]
    unfolding top r1 by simp
  then show "totp_number sig = rfc_truncate sig mod 1000000"
    by (simp add: totp_number_def rfc_truncate_def Let_def o add.assoc)
  show "rfc_truncate sig < 2 ^ 31"
    using byte [of 1] byte [of 2] byte [of 3] mod_less_divisor [of 128 "?b 0"]
    by (simp add: rfc_truncate_def Let_def)
qed

subsection \<open>The code\<close>

lemma show_nat_length: "n < 10 ^ Suc k \<Longrightarrow> length (show_nat n) \<le> Suc k"
proof (induction k arbitrary: n)
  case (Suc k)
  then have "n div 10 < 10 ^ Suc k" by simp
  with Suc.IH show ?case by (subst show_nat.simps) (auto simp: le_SucI)
qed (subst show_nat.simps, simp)

lemma read_padded: "read_nat (replicate n (CHR ''0'') @ s) = read_nat s"
  by (induction n) (simp_all add: read_nat_def digit_val_def)

lemma rfc_counter_eq: "rfc_counter c = map (\<lambda>k. of_nat (c div 256 ^ (8 - 1 - k))) [0..<8]"
  by (simp add: rfc_counter_def)

text \<open>The six digits of a digest, padded with zeros.\<close>

lemma six_digits:
  assumes "length sig = 20"
  shows "length (pad_start 6 (CHR ''0'') (show_nat (totp_number sig))) = 6"
    and "read_nat (pad_start 6 (CHR ''0'') (show_nat (totp_number sig))) = rfc_truncate sig mod 1000000"
proof -
  have "length (show_nat (rfc_truncate sig mod 1000000)) \<le> 6"
    using show_nat_length [of "rfc_truncate sig mod 1000000" 5] by simp
  then show "length (pad_start 6 (CHR ''0'') (show_nat (totp_number sig))) = 6"
    and "read_nat (pad_start 6 (CHR ''0'') (show_nat (totp_number sig))) = rfc_truncate sig mod 1000000"
    by (simp_all add: totp_number_rfc(1) [OF assms] pad_start_def read_padded read_show_nat)
qed

text \<open>
  C22: The script's code is the one-time code of RFC 6238. For a secret of base-32 characters, in either case
  and with or without padding, and until the counter of half minutes reaches 32 bits, it has six digits
  and is the truncated digest of the decoded secret and the counter, although the decoder's 32-bit
  register overflows after seven characters.
\<close>
theorem seed_code_is_rfc6238:
  assumes "set (drop_equals (map upper_char secret)) \<subseteq> set base32_alphabet" and "now div 30000 < 2 ^ 32"
    and "\<And>k m. length (hmac k m) = 20"
  shows "length (generateTOTP hmac now secret) = 6
    \<and> read_nat (generateTOTP hmac now secret)
        = rfc_truncate (hmac (rfc_base32 (base32_digits secret)) (rfc_counter (now div 30000))) mod 1000000"
proof -
  have "counter_bytes 8 (now div 1000 div 30) = rfc_counter (now div 30000)"
    using assms(2) by (simp add: div_mult2_eq [symmetric] counter_bytes_rfc rfc_counter_eq del: upt_rec_numeral)
  then show ?thesis
    using six_digits [OF assms(3)] by (simp add: generateTOTP_def base32_decode_rfc [OF assms(1)])
qed

text \<open>
  From the year 6053 on, when the counter no longer fits 32 bits, the script's counter differs from
  the standard's: it drops the upper half.
\<close>
theorem seed_counter_wraps:
  assumes "2 ^ 32 \<le> c" and "c < 2 ^ 40"
  shows "counter_bytes 8 c = rfc_counter (c mod 2 ^ 32) \<and> counter_bytes 8 c \<noteq> rfc_counter c"
proof -
  have w: "(of_nat (c mod 2 ^ 32) :: 32 word) = of_nat c" by (simp add: word_unat_eq_iff unat_of_nat)
  have b: "(of_nat (c mod 2 ^ 32) :: byte) = of_nat c" by (simp add: word_unat_eq_iff unat_of_nat mod_mod_cancel)
  have "counter_bytes (Suc 7) (c mod 2 ^ 32) = counter_bytes (Suc 7) c" by (simp only: counter_bytes.simps w b)
  moreover have "counter_bytes 8 (c mod 2 ^ 32) = rfc_counter (c mod 2 ^ 32)"
    by (simp add: counter_bytes_rfc rfc_counter_eq del: upt_rec_numeral)
  ultimately have e: "counter_bytes 8 c = rfc_counter (c mod 2 ^ 32)" by simp
  have "rfc_counter (c mod 2 ^ 32) ! 3 = 0" by (simp add: rfc_counter_def)
  moreover have "0 < c div 2 ^ 32" "c div 2 ^ 32 < 256" using assms by (simp_all add: div_greater_zero_iff less_mult_imp_div_less)
  then have "rfc_counter c ! 3 \<noteq> 0" by (simp add: rfc_counter_def word_unat_eq_iff unat_of_nat)
  ultimately show ?thesis using e by metis
qed

subsection \<open>Concrete runs\<close>

definition zero_hmac :: "byte list \<Rightarrow> byte list \<Rightarrow> byte list" where
  "zero_hmac k m = replicate 16 0 @ take 4 (k @ [0, 0, 0, 0])"

lemma decoded_secret: "base32_decode ''mzxw6===''  = [0x66, 0x6f, 0x6f]"
  by code_simp

lemma seed_code_is_rfc6238_witness: "length (generateTOTP zero_hmac 59000 ''mzxw6==='') = 6"
proof -
  have "set (drop_equals (map upper_char ''mzxw6===''  )) \<subseteq> set base32_alphabet"
    by code_simp
  from seed_code_is_rfc6238 [OF this, of 59000 zero_hmac] show ?thesis by (simp add: zero_hmac_def)
qed

lemma seed_counter_wraps_witness: "counter_bytes 8 4294967301 \<noteq> rfc_counter 4294967301"
proof -
  have "(2::nat) ^ 32 \<le> 4294967301" "(4294967301::nat) < 2 ^ 40" by simp_all
  from seed_counter_wraps [OF this] show ?thesis by blast
qed

section \<open>Identifiers\<close>

text \<open>
  The identifiers the seeding script gives its items: \<open>uuidv7\<close> in \<open>scripts/seed-mock-data.mjs\<close>. A time in
  milliseconds, and 16 random bytes.
\<close>

definition hex_char :: "nat \<Rightarrow> char" where
  "hex_char n = ''0123456789abcdef'' ! n"

text \<open>\<open>b.toString(16).padStart(2, '0')\<close>\<close>

definition hex_byte :: "byte \<Rightarrow> string" where
  "hex_byte b = [hex_char (unat b div 16), hex_char (unat b mod 16)]"

text \<open>\<open>&\<close> takes the whole part of the quotient modulo \<open>2^32\<close>.\<close>

definition uuid_bytes :: "nat \<Rightarrow> byte list \<Rightarrow> byte list" where
  "uuid_bytes now random =
     random[0 := of_nat (now div 2 ^ 40), 1 := of_nat (now div 2 ^ 32), 2 := of_nat (now div 2 ^ 24),
       3 := of_nat (now div 2 ^ 16), 4 := of_nat (now div 2 ^ 8), 5 := of_nat now,
       6 := random ! 6 AND 0x0f OR 0x70, 8 := random ! 8 AND 0x3f OR 0x80]"

definition uuidv7 :: "nat \<Rightarrow> byte list \<Rightarrow> string" where
  "uuidv7 now random =
     (let hex = concat (map hex_byte (uuid_bytes now random))
      in take 8 hex @ ''-'' @ take 4 (drop 8 hex) @ ''-'' @ take 4 (drop 12 hex) @ ''-'' @ take 4 (drop 16 hex) @ ''-'' @ drop 20 hex)"

subsection \<open>Numbers as digits, and their order\<close>

fun hex_digits :: "nat \<Rightarrow> nat \<Rightarrow> nat list" where
  "hex_digits 0 x = []"
| "hex_digits (Suc n) x = hex_digits n (x div 16) @ [x mod 16]"

lemma length_hex_digits [simp]: "length (hex_digits n x) = n"
  by (induction n arbitrary: x) simp_all

lemma hex_digits_less: "d \<in> set (hex_digits n x) \<Longrightarrow> d < 16"
  by (induction n arbitrary: x) auto

lemma hex_digits_lexord:
  "x < y \<Longrightarrow> y < 16 ^ n \<Longrightarrow> (hex_digits n x, hex_digits n y) \<in> lexord {(a, b). a < b}"
proof (induction n arbitrary: x y)
  case (Suc n)
  show ?case
  proof (cases "x div 16 = y div 16")
    case True
    then have "x mod 16 < y mod 16" using Suc.prems(1) by (metis add_less_cancel_left mult_div_mod_eq)
    with True show ?thesis by (simp add: lexord_append_leftI)
  next
    case False
    then have "x div 16 < y div 16" using Suc.prems(1) by (simp add: div_le_mono le_neq_implies_less)
    moreover have "y div 16 < 16 ^ n" using Suc.prems(2) by (simp add: less_mult_imp_div_less mult.commute)
    ultimately show ?thesis using Suc.IH by (simp add: lexord_sufI)
  qed
qed simp

lemma lexord_map_mono:
  "(u, v) \<in> lexord r \<Longrightarrow> (\<And>a b. a \<in> set u \<Longrightarrow> b \<in> set v \<Longrightarrow> (a, b) \<in> r \<Longrightarrow> (f a, f b) \<in> s) \<Longrightarrow> (map f u, map f v) \<in> lexord s"
proof (induction u arbitrary: v)
  case Nil
  then show ?case by (cases v) auto
next
  case (Cons a u)
  then show ?case by (cases v) auto
qed

lemma lexord_insert_same:
  "(u, v) \<in> lexord r \<Longrightarrow> length u = length v \<Longrightarrow> (take k u @ c # drop k u, take k v @ c # drop k v) \<in> lexord r"
proof (induction k arbitrary: u v)
  case (Suc k)
  then show ?case by (cases u; cases v) auto
qed simp

definition char_less :: "(char \<times> char) set" where
  "char_less = {(a, b). (of_char a :: nat) < of_char b}"

lemma hex_char_mono: "a < b \<Longrightarrow> b < 16 \<Longrightarrow> (hex_char a, hex_char b) \<in> char_less"
proof -
  have "list_all (\<lambda>b. list_all (\<lambda>a. (of_char (hex_char a) :: nat) < of_char (hex_char b)) [0..<b]) [0..<16]"
    by code_simp
  then show "a < b \<Longrightarrow> b < 16 \<Longrightarrow> (hex_char a, hex_char b) \<in> char_less" by (simp add: char_less_def list_all_iff)
qed

subsection \<open>The text of an identifier\<close>

lemma hex_byte_of_nat: "hex_byte (of_nat n) = map hex_char [n div 16 mod 16, n mod 16]"
proof -
  have "unat (of_nat n :: byte) = n mod 256" by (simp add: unat_of_nat)
  moreover have "n mod 256 div 16 = n div 16 mod 16" using mod_mult2_eq [of n 16 16] by simp
  moreover have "n mod 256 mod 16 = n mod 16" by (simp add: mod_mod_cancel)
  ultimately show ?thesis by (simp add: hex_byte_def)
qed

lemma version_digit: "unat (b AND 0x0f OR 0x70 :: byte) div 16 = 7"
proof -
  have "drop_bit 4 (b AND 0x0f OR 0x70) = (7 :: byte)" by (simp add: drop_bit_or drop_bit_and)
  then have "unat (drop_bit 4 (b AND 0x0f OR 0x70) :: byte) = 7" by simp
  then show ?thesis by (simp add: drop_bit_eq_div unat_div)
qed

lemma variant_digit: "unat (b AND 0x3f OR 0x80 :: byte) div 16 \<in> {8, 9, 10, 11}"
proof -
  have "drop_bit 6 (b AND 0x3f OR 0x80) = (2 :: byte)" by (simp add: drop_bit_or drop_bit_and)
  then have "unat (drop_bit 6 (b AND 0x3f OR 0x80) :: byte) = 2" by simp
  then have "unat (b AND 0x3f OR 0x80 :: byte) div 64 = 2" by (simp add: drop_bit_eq_div unat_div)
  then have "unat (b AND 0x3f OR 0x80 :: byte) div 16 div 4 = 2" by (simp add: div_mult2_eq [symmetric])
  moreover have four: "k div 4 = 2 \<Longrightarrow> k = 8 \<or> k = 9 \<or> k = 10 \<or> k = 11" for k :: nat by presburger
  ultimately show ?thesis by (simp only: insert_iff simp_thms empty_iff)
qed

lemma hex_digits_byte: "map hex_char (hex_digits (n + 2) x) = map hex_char (hex_digits n (x div 256)) @ hex_byte (of_nat x)"
  by (simp add: hex_byte_of_nat div_mult2_eq [symmetric])

lemma two_hex_digits: "map hex_char (hex_digits 2 x) = hex_byte (of_nat x)"
  by (simp add: numeral_2_eq_2 hex_byte_of_nat)

lemma hex_digits_time:
  "map hex_char (hex_digits 12 now) = hex_byte (of_nat (now div 2 ^ 40)) @ hex_byte (of_nat (now div 2 ^ 32))
     @ hex_byte (of_nat (now div 2 ^ 24)) @ hex_byte (of_nat (now div 2 ^ 16)) @ hex_byte (of_nat (now div 2 ^ 8)) @ hex_byte (of_nat now)"
  using hex_digits_byte [of 10 now] hex_digits_byte [of 8 "now div 256"] hex_digits_byte [of 6 "now div 256 div 256"]
    hex_digits_byte [of 4 "now div 256 div 256 div 256"] hex_digits_byte [of 2 "now div 256 div 256 div 256 div 256"]
  by (simp add: div_mult2_eq [symmetric] two_hex_digits)

lemma nine_updates:
  "([r0, r1, r2, r3, r4, r5, r6, r7, r8] @ rs)[0 := a, 1 := b, 2 := c, 3 := d, 4 := e, 5 := f, 6 := g, 8 := h]
     = [a, b, c, d, e, f, g, r7, h] @ rs"
  by (simp add: numeral_eq_Suc)

lemma uuid_text:
  assumes "length random = 16"
  shows "\<exists>v w x u rest. uuidv7 now random = (let t = map hex_char (hex_digits 12 now) in take 8 t @ CHR ''-'' # drop 8 t)
      @ [CHR ''-'', CHR ''7'', v, w, x, CHR ''-'', u] @ rest \<and> length rest = 16 \<and> u \<in> set ''89ab''"
proof -
  obtain r0 r1 r2 r3 r4 r5 r6 r7 r8 rs where r: "random = [r0, r1, r2, r3, r4, r5, r6, r7, r8] @ rs" "length rs = 7"
    using assms by (auto simp: numeral_eq_Suc length_Suc_conv)
  obtain s1 s2 s3 s4 s5 s6 s7 where rs: "rs = [s1, s2, s3, s4, s5, s6, s7]"
    using r(2) by (auto simp: numeral_eq_Suc length_Suc_conv)
  let ?g = "r6 AND 0x0f OR 0x70" and ?h = "r8 AND 0x3f OR 0x80"
  have b: "uuid_bytes now random = [of_nat (now div 2 ^ 40), of_nat (now div 2 ^ 32), of_nat (now div 2 ^ 24),
       of_nat (now div 2 ^ 16), of_nat (now div 2 ^ 8), of_nat now, ?g, r7, ?h] @ rs"
    unfolding uuid_bytes_def r(1) nine_updates by simp
  define t where "t = map hex_char (hex_digits 12 now)"
  have len: "length t = 12" by (simp add: t_def)
  have g: "hex_byte ?g = [CHR ''7'', hex_char (unat ?g mod 16)]" by (simp add: hex_byte_def version_digit hex_char_def)
  have h: "hex_byte ?h = [hex_char (unat ?h div 16), hex_char (unat ?h mod 16)]" by (simp add: hex_byte_def)
  have hex: "concat (map hex_byte (uuid_bytes now random)) = t @ hex_byte ?g @ hex_byte r7 @ hex_byte ?h @ concat (map hex_byte rs)"
    unfolding b t_def hex_digits_time by (simp del: hex_byte_def)
  have u: "hex_char (unat ?h div 16) \<in> set ''89ab''" using variant_digit [of r8] by (auto simp: hex_char_def)
  have "uuidv7 now random = take 8 t @ ''-'' @ drop 8 t @ ''-'' @ CHR ''7'' # hex_char (unat ?g mod 16) # hex_byte r7 @ ''-''
      @ hex_char (unat ?h div 16) # hex_char (unat ?h mod 16) # hex_byte s1 @ ''-'' @ concat (map hex_byte [s2, s3, s4, s5, s6, s7])"
    unfolding uuidv7_def hex g h rs Let_def by (simp add: len hex_byte_def)
  with u len show ?thesis unfolding t_def [symmetric] by (simp add: Let_def hex_byte_def)
qed

text \<open>
  An identifier is a version 7 UUID in its text form, and identifiers made in different milliseconds are ordered as texts
  the way they were made, whatever the random parts are, until the year 10889.
\<close>
theorem uuids_sort_by_time:
  assumes "t < t'" and "t' < 2 ^ 48" and "length r = 16" and "length r' = 16"
  shows "(uuidv7 t r, uuidv7 t' r') \<in> lexord char_less
    \<and> length (uuidv7 t r) = 36 \<and> uuidv7 t r ! 14 = CHR ''7'' \<and> uuidv7 t r ! 19 \<in> set ''89ab''"
proof -
  let ?p = "\<lambda>t. (let s = map hex_char (hex_digits 12 t) in take 8 s @ CHR ''-'' # drop 8 s)"
  have len: "length (?p t) = 13" for t by (simp add: Let_def)
  have "(2::nat) ^ 48 = 16 ^ 12" by simp
  then have "(hex_digits 12 t, hex_digits 12 t') \<in> lexord {(a, b). a < b}" using assms(1,2) by (simp add: hex_digits_lexord)
  then have "(map hex_char (hex_digits 12 t), map hex_char (hex_digits 12 t')) \<in> lexord char_less"
    by (rule lexord_map_mono) (auto intro: hex_char_mono dest: hex_digits_less)
  then have lt: "(?p t, ?p t') \<in> lexord char_less" unfolding Let_def by (rule lexord_insert_same) simp
  obtain v w x u rest where a: "uuidv7 t r = ?p t @ [CHR ''-'', CHR ''7'', v, w, x, CHR ''-'', u] @ rest" "length rest = 16" "u \<in> set ''89ab''"
    using uuid_text [OF assms(3), of t] by blast
  obtain b where b: "uuidv7 t' r' = ?p t' @ b" using uuid_text [OF assms(4), of t'] by blast
  have "(uuidv7 t r, uuidv7 t' r') \<in> lexord char_less" unfolding a(1) b by (rule lexord_sufI [OF lt]) (simp only: len)
  moreover have "uuidv7 t r ! 14 = CHR ''7''" "uuidv7 t r ! 19 = u" "length (uuidv7 t r) = 36"
    unfolding a(1) using len [of t] a(2) by (simp_all only: nth_append length_append list.size) simp_all
  ultimately show ?thesis using a(3) by blast
qed

lemma uuids_sort_by_time_witness:
  "(uuidv7 1000 (replicate 16 255), uuidv7 1001 (replicate 16 0)) \<in> lexord char_less"
  using uuids_sort_by_time [of 1000 1001 "replicate 16 255" "replicate 16 0"] by simp

section \<open>Icon files\<close>

text \<open>
  The icon files of the applications: \<open>buildIco\<close> in \<open>scripts/generate-icons.js\<close> puts pictures of several sizes into
  one file. \<open>None\<close> is the \<open>RangeError\<close> of Node's \<open>Buffer\<close> for a number that does not fit. A reader of the format
  is the reference.
\<close>

subsection \<open>Writing\<close>

fun le_bytes :: "nat \<Rightarrow> nat \<Rightarrow> byte list" where
  "le_bytes 0 x = []"
| "le_bytes (Suc n) x = of_nat x # le_bytes n (x div 256)"

text \<open>\<open>writeUInt8\<close>, \<open>writeUInt16LE\<close>, \<open>writeUInt32LE\<close>\<close>

definition writeUInt :: "nat \<Rightarrow> nat \<Rightarrow> byte list option" where
  "writeUInt n x = (if x < 256 ^ n then Some (le_bytes n x) else None)"

fun ico_offsets :: "nat \<Rightarrow> (nat \<times> byte list) list \<Rightarrow> (nat \<times> byte list \<times> nat) list" where
  "ico_offsets off [] = []"
| "ico_offsets off ((sz, buf) # es) = (sz, buf, off) # ico_offsets (off + length buf) es"

definition ico_dirEntry :: "nat \<times> byte list \<times> nat \<Rightarrow> byte list option" where
  "ico_dirEntry e =
     (case e of (sz, buf, off) \<Rightarrow>
        (case (writeUInt 1 (if sz = 256 then 0 else sz), writeUInt 4 (length buf), writeUInt 4 off) of
           (Some s, Some n, Some k) \<Rightarrow> Some (s @ s @ [0, 0, 1, 0, 32, 0] @ n @ k)
         | _ \<Rightarrow> None))"

definition buildIco :: "(nat \<times> byte list) list \<Rightarrow> byte list option" where
  "buildIco entries =
     (case (writeUInt 2 (length entries), those (map ico_dirEntry (ico_offsets (6 + length entries * 16) entries))) of
        (Some n, Some dirEntries) \<Rightarrow> Some ([0, 0, 1, 0] @ n @ concat dirEntries @ concat (map snd entries))
      | _ \<Rightarrow> None)"

subsection \<open>Reading\<close>

fun le_value :: "byte list \<Rightarrow> nat" where
  "le_value [] = 0"
| "le_value (b # bs) = unat b + 256 * le_value bs"

definition ico_picture :: "byte list \<Rightarrow> nat \<Rightarrow> nat \<times> byte list" where
  "ico_picture ico i =
     (let d = take 16 (drop (6 + i * 16) ico); sz = unat (d ! 0)
      in (if sz = 0 then 256 else sz, take (le_value (take 4 (drop 8 d))) (drop (le_value (drop 12 d)) ico)))"

definition read_ico :: "byte list \<Rightarrow> (nat \<times> byte list) list" where
  "read_ico ico = map (ico_picture ico) [0..<le_value (take 2 (drop 4 ico))]"

subsection \<open>Lemmas\<close>

lemma length_le_bytes [simp]: "length (le_bytes n x) = n"
  by (induction n arbitrary: x) simp_all

lemma le_value_bytes: "x < 256 ^ n \<Longrightarrow> le_value (le_bytes n x) = x"
proof (induction n arbitrary: x)
  case (Suc n)
  then have "x div 256 < 256 ^ n" by (simp add: less_mult_imp_div_less mult.commute)
  with Suc.IH show ?case by (simp add: unat_of_nat)
qed simp

lemma length_ico_offsets [simp]: "length (ico_offsets off es) = length es"
  by (induction off es rule: ico_offsets.induct) simp_all

lemma ico_offsets_nth:
  "i < length es \<Longrightarrow> \<exists>k. ico_offsets off es ! i = (fst (es ! i), snd (es ! i), off + k)
     \<and> take (length (snd (es ! i))) (drop k (concat (map snd es))) = snd (es ! i)"
proof (induction off es arbitrary: i rule: ico_offsets.induct)
  case (2 off sz buf es)
  show ?case
  proof (cases i)
    case (Suc j)
    with 2 obtain k where "ico_offsets (off + length buf) es ! j = (fst (es ! j), snd (es ! j), off + length buf + k)"
        "take (length (snd (es ! j))) (drop k (concat (map snd es))) = snd (es ! j)" by fastforce
    with Suc show ?thesis by (intro exI [of _ "length buf + k"]) simp
  qed (simp add: exI [of _ 0])
qed simp

lemma those_nth: "those (map f xs) = Some ys \<Longrightarrow> length ys = length xs \<and> (\<forall>i<length xs. f (xs ! i) = Some (ys ! i))"
proof (induction xs arbitrary: ys)
  case (Cons x xs)
  then obtain y zs where "f x = Some y" "those (map f xs) = Some zs" "ys = y # zs" by (auto split: option.splits)
  with Cons.IH show ?case by (auto simp: nth_Cons split: nat.split)
qed simp

lemma block_nth: "\<forall>d\<in>set ds. length d = 16 \<Longrightarrow> i < length ds \<Longrightarrow> take 16 (drop (i * 16) (concat ds)) = ds ! i"
  by (induction ds arbitrary: i) (auto simp: nth_Cons split: nat.split)

lemma length_blocks: "\<forall>d\<in>set ds. length d = 16 \<Longrightarrow> length (concat ds) = length ds * 16"
  by (induction ds) simp_all

text \<open>
  Every picture is found in the file again. Whenever the file can be written and no size is 0, a reader of the format
  gets back exactly the pictures and sizes, in their order, up to the size of 256 that the format writes as 0.
\<close>
theorem icon_file_round_trip:
  assumes "buildIco entries = Some ico" and "\<forall>(sz, buf)\<in>set entries. 0 < sz"
  shows "read_ico ico = entries"
proof -
  let ?n = "length entries"
  obtain n ds where n: "?n < 256 ^ 2" "n = le_bytes 2 ?n" and ds: "those (map ico_dirEntry (ico_offsets (6 + ?n * 16) entries)) = Some ds"
    and ico: "ico = [0, 0, 1, 0] @ n @ concat ds @ concat (map snd entries)"
    using assms(1) by (auto simp: buildIco_def writeUInt_def split: option.splits if_splits)
  have len: "length ds = ?n" and dir: "\<And>i. i < ?n \<Longrightarrow> ico_dirEntry (ico_offsets (6 + ?n * 16) entries ! i) = Some (ds ! i)"
    using those_nth [OF ds] by simp_all
  have sixteen: "\<forall>d\<in>set ds. length d = 16"
  proof
    fix d assume "d \<in> set ds"
    then obtain i where "i < ?n" "ds ! i = d" by (metis in_set_conv_nth len)
    with dir [of i] show "length d = 16"
      by (auto simp: ico_dirEntry_def writeUInt_def split: prod.splits option.splits if_splits)
  qed
  have after: "drop (6 + j) ico = drop j (concat ds @ concat (map snd entries))" for j
  proof -
    obtain h where "ico = h @ concat ds @ concat (map snd entries)" "length h = 6"
      using ico n(2) that [of "[0, 0, 1, 0] @ n"] by simp
    then show ?thesis by simp
  qed
  have "ico_picture ico i = entries ! i" if i: "i < ?n" for i
  proof -
    obtain k where k: "ico_offsets (6 + ?n * 16) entries ! i = (fst (entries ! i), snd (entries ! i), 6 + ?n * 16 + k)"
        "take (length (snd (entries ! i))) (drop k (concat (map snd entries))) = snd (entries ! i)"
      using ico_offsets_nth [OF i] by blast
    let ?size = "fst (entries ! i)" and ?buf = "snd (entries ! i)" and ?off = "6 + ?n * 16 + k"
    let ?s = "if ?size = 256 then 0 else ?size"
    have b: "?s < 256" "length ?buf < 256 ^ 4" "?off < 256 ^ 4"
        "ds ! i = le_bytes 1 ?s @ le_bytes 1 ?s @ [0, 0, 1, 0, 32, 0] @ le_bytes 4 (length ?buf) @ le_bytes 4 ?off"
      using dir [OF i] unfolding k(1) ico_dirEntry_def writeUInt_def by (simp_all split: if_splits)
    have "take 16 (drop (i * 16) (concat ds @ concat (map snd entries))) = ds ! i"
      using block_nth [OF sixteen, of i] length_blocks [OF sixteen] i len by simp
    then have d: "take 16 (drop (6 + i * 16) ico) = ds ! i" by (simp only: after)
    have "drop ?off ico = drop k (concat (map snd entries))"
      by (simp only: add.assoc after) (simp add: length_blocks [OF sixteen] len)
    moreover have "0 < ?size" using assms(2) i nth_mem by fastforce
    ultimately show ?thesis
      using b(1-3) k(2) by (simp add: ico_picture_def d b(4) le_value_bytes unat_of_nat prod_eq_iff)
  qed
  moreover have "le_value (take 2 (drop 4 ico)) = ?n" using n by (simp add: ico le_value_bytes)
  ultimately show ?thesis by (auto simp: read_ico_def intro: nth_equalityI)
qed

text \<open>A picture wider than 256 points cannot be written.\<close>

lemma icon_too_large: "(sz, buf) \<in> set entries \<Longrightarrow> 256 < sz \<Longrightarrow> buildIco entries = None"
proof (rule ccontr)
  assume e: "(sz, buf) \<in> set entries" "256 < sz" and "buildIco entries \<noteq> None"
  then obtain ds where "those (map ico_dirEntry (ico_offsets (6 + length entries * 16) entries)) = Some ds"
    by (auto simp: buildIco_def split: option.splits)
  note d = those_nth [OF this]
  obtain i where i: "i < length entries" "entries ! i = (sz, buf)" using e(1) by (metis in_set_conv_nth)
  with d ico_offsets_nth [OF i(1), of "6 + length entries * 16"] e(2) show False
    by (auto simp: ico_dirEntry_def writeUInt_def)
qed

lemma icon_file_round_trip_witness:
  "\<exists>ico. buildIco [(16, [1, 2, 3]), (256, [4])] = Some ico \<and> read_ico ico = [(16, [1, 2, 3]), (256, [4])]"
proof -
  obtain ico where f: "buildIco [(16, [1, 2, 3]), (256, [4])] = Some ico"
    by (simp add: buildIco_def ico_dirEntry_def writeUInt_def)
  have s: "\<forall>(sz, buf)\<in>set [(16, [1, 2, 3]), (256, [4])]. 0 < (sz :: nat)" by simp
  from icon_file_round_trip [OF f s] f show ?thesis by blast
qed

end
