(* ===== verification/SeedAccounts.thy ===== *)
theory SeedAccounts
  imports ScriptBytes AuthFlows
begin

text \<open>
  The scripts that make the first accounts: \<open>scripts/seed-admin.mjs\<close>, which registers an administrator
  over the server's API, and the key pair \<open>scripts/seed-master-user.mjs\<close> writes into the database.
  PBKDF2 and HMAC are parameters; roles are given by a command outside the script, whose failure only
  prints a warning.
\<close>

subsection \<open>\<open>seed-admin.mjs\<close>\<close>

type_synonym pbkdf2 = "string \<Rightarrow> bytes \<Rightarrow> nat \<Rightarrow> bytes"

text \<open>The private key is exported as a base64url text and read back (\<open>fromBase64url_inverse\<close>).\<close>

definition seed_keypair :: "'r webcrypto \<Rightarrow> 'r \<Rightarrow> (bytes \<times> bytes) \<times> 'r" where
  "seed_keypair wc r = (let (priv, r1) = wc_random wc 32 r in ((wc_pub wc priv, priv), r1))"

definition seed_aesGcmEncrypt :: "'r webcrypto \<Rightarrow> bytes \<Rightarrow> bytes \<Rightarrow> 'r \<Rightarrow> (crypto_error + bytes) \<times> 'r" where
  "seed_aesGcmEncrypt wc plaintext key r =
     (let (nonce, r1) = wc_random wc 12 r
      in case aes_gcm_encrypt wc key nonce plaintext of
          Inl e \<Rightarrow> (Inl e, r1)
        | Inr ct \<Rightarrow> (Inr ([1, 1] @ nonce @ ct), r1))"

record seed_args =
  sa_server :: string
  sa_username :: string
  sa_password :: string

definition default_args :: seed_args where
  "default_args = \<lparr>sa_server = ''http://localhost:8080'', sa_username = ''admin'', sa_password = ''Admin1234567!''\<rparr>"

definition seed_kek_params :: json where
  "seed_kek_params = JObj [(''alg'', JStr ''pbkdf2-sha256''), (''iterations'', JNum 210000)]"

definition seed_register_body :: "seed_args \<Rightarrow> bytes \<Rightarrow> bytes \<Rightarrow> bytes \<Rightarrow> json" where
  "seed_register_body a publicKey privateKeyEnc kekSalt =
     JObj [(''username'', JStr (sa_username a)), (''email'', JStr (sa_username a @ ''@ironstock.local'')),
       (''master_password'', JStr (sa_password a)), (''public_key'', array_from publicKey),
       (''private_key_enc'', array_from privateKeyEnc), (''kek_salt'', array_from kekSalt), (''kek_params'', seed_kek_params)]"

datatype seed_step = Registering | TotpInit | TotpVerify

fun seed_path :: "seed_step \<Rightarrow> string" where
  "seed_path Registering = ''/api/v1/auth/register''"
| "seed_path TotpInit = ''/api/v1/auth/totp/init''"
| "seed_path TotpVerify = ''/api/v1/auth/totp/verify''"

definition seed_request :: "seed_args \<Rightarrow> seed_step \<Rightarrow> (string \<times> string) list \<Rightarrow> json option \<Rightarrow> http_request" where
  "seed_request a step headers body =
     \<lparr>rq_url = sa_server a @ seed_path step, rq_method = POST, rq_headers = headers, rq_body = map_option JsonBody body\<rparr>"

datatype seed_outcome =
    SeedCrypto crypto_error | SeedCrashed | SeedRefused seed_step | SeedDone string bool

text \<open>One request: a failure of the network or of \<open>json()\<close> ends the script, a refusal does after a message.\<close>

definition seed_call :: "'w net \<Rightarrow> seed_step \<Rightarrow> http_request \<Rightarrow> 'w \<times> http_request list \<Rightarrow> (seed_outcome + json option) \<times> 'w \<times> http_request list" where
  "seed_call net step rq s =
     (let (r, w) = net rq (fst s); s1 = (w, snd s @ [rq])
      in case r of
          NetworkFailure m \<Rightarrow> (Inl SeedCrashed, s1)
        | Response res \<Rightarrow> if rs_ok res then (Inr (rs_json res), s1) else (Inl (SeedRefused step), s1))"

definition quoted :: "string \<Rightarrow> string" where
  "quoted s = [CHR 0x27] @ s @ [CHR 0x27]"

definition insert_role :: "string \<Rightarrow> string \<Rightarrow> string" where
  "insert_role user role = ''INSERT INTO user_roles (user_id, role)'' @ [CHR 10] @ ''    SELECT id, '' @ quoted role
     @ '' FROM users WHERE username='' @ quoted user @ [CHR 10] @ ''    ON CONFLICT DO NOTHING;''"

definition roles_sql :: "string \<Rightarrow> string" where
  "roles_sql user = insert_role user ''admin'' @ [CHR 10] @ ''    '' @ insert_role user ''write''"

text \<open>\<open>exec\<close> runs a statement in the database's container and says whether that went well. The parts of
  \<open>main\<close>, from the last to the whole.\<close>

definition seed_verify ::
    "'w net \<Rightarrow> (string \<Rightarrow> bool) \<Rightarrow> seed_args \<Rightarrow> string \<times> string \<Rightarrow> string \<Rightarrow> string \<Rightarrow> 'w \<times> http_request list
       \<Rightarrow> seed_outcome \<times> http_request list" where
  "seed_verify net exec a auth secret digits s =
     (case seed_call net TotpVerify (seed_request a TotpVerify [auth, (''Content-Type'', ''application/json'')]
             (Some (JObj [(''code'', JStr digits)]))) s of
        (Inl out, s1) \<Rightarrow> (out, snd s1)
      | (Inr _, s1) \<Rightarrow> (SeedDone secret (exec (roles_sql (sa_username a))), snd s1))"

definition seed_totp ::
    "(bytes \<Rightarrow> bytes \<Rightarrow> bytes) \<Rightarrow> 'w net \<Rightarrow> (string \<Rightarrow> bool) \<Rightarrow> seed_args \<Rightarrow> nat \<Rightarrow> string \<times> string \<Rightarrow> 'w \<times> http_request list
       \<Rightarrow> seed_outcome \<times> http_request list" where
  "seed_totp hmac net exec a now auth s =
     (case seed_call net TotpInit (seed_request a TotpInit [auth] None) s of
        (Inl out, s1) \<Rightarrow> (out, snd s1)
      | (Inr None, s1) \<Rightarrow> (SeedCrashed, snd s1)
      | (Inr (Some init), s1) \<Rightarrow>
          (case json_str_field init ''secret_base32'' of
             None \<Rightarrow> (SeedCrashed, snd s1)
           | Some secret \<Rightarrow> seed_verify net exec a auth secret (generateTOTP hmac now secret) s1))"

definition seed_register ::
    "(bytes \<Rightarrow> bytes \<Rightarrow> bytes) \<Rightarrow> 'w net \<Rightarrow> (string \<Rightarrow> bool) \<Rightarrow> seed_args \<Rightarrow> nat \<Rightarrow> json \<Rightarrow> 'w \<times> http_request list
       \<Rightarrow> seed_outcome \<times> http_request list" where
  "seed_register hmac net exec a now body s =
     (case seed_call net Registering (seed_request a Registering [(''Content-Type'', ''application/json'')] (Some body)) s of
        (Inl out, s1) \<Rightarrow> (out, snd s1)
      | (Inr None, s1) \<Rightarrow> (SeedCrashed, snd s1)
      | (Inr (Some reg), s1) \<Rightarrow>
          if reg = JNull then (SeedCrashed, snd s1)
          else seed_totp hmac net exec a now (''Authorization'', ''Bearer '' @ str_or_undefined reg ''tmp_token'') s1)"

definition seed_main ::
    "'r webcrypto \<Rightarrow> pbkdf2 \<Rightarrow> (bytes \<Rightarrow> bytes \<Rightarrow> bytes) \<Rightarrow> 'w net \<Rightarrow> (string \<Rightarrow> bool) \<Rightarrow> seed_args \<Rightarrow> nat \<Rightarrow> 'w \<Rightarrow> 'r
       \<Rightarrow> seed_outcome \<times> http_request list" where
  "seed_main wc pbkdf2 hmac net exec a now w r =
     (let (kekSalt, r1) = wc_random wc 16 r;
          kek = pbkdf2 (sa_password a) kekSalt 210000;
          ((publicKey, privateKey), r2) = seed_keypair wc r1;
          (enc, r3) = seed_aesGcmEncrypt wc privateKey kek r2
      in case enc of
          Inl e \<Rightarrow> (SeedCrypto e, [])
        | Inr privateKeyEnc \<Rightarrow>
            seed_register hmac net exec a now (seed_register_body a publicKey privateKeyEnc kekSalt) (w, []))"

subsection \<open>\<open>seed-master-user.mjs\<close>\<close>

text \<open>The row of \<open>user_keypairs\<close>: key pair and salt pass through base64 texts, the salt stays one.\<close>

record keypair_row =
  kr_public_key :: bytes
  kr_private_key_enc :: bytes
  kr_kek_salt :: string
  kr_kek_params :: json

definition master_keypair_row :: "'r webcrypto \<Rightarrow> 'r \<Rightarrow> (unit + keypair_row) \<times> 'r" where
  "master_keypair_row wc r =
     (let ((pub, priv), r1) = seed_keypair wc r; (salt, r2) = wc_random wc 32 r1
      in case (fromBase64 (toBase64 pub), fromBase64 (toBase64 priv)) of
          (Inr publicKey, Inr privateKey) \<Rightarrow>
            (Inr \<lparr>kr_public_key = publicKey, kr_private_key_enc = privateKey, kr_kek_salt = toBase64 salt,
               kr_kek_params = JObj [(''algorithm'', JStr ''argon2id'')]\<rparr>, r2)
        | _ \<Rightarrow> (Inl (), r2))"

subsection \<open>Properties\<close>

lemma seed_aes_eq: "seed_aesGcmEncrypt wc p kek r = encryptPrivateKey wc p kek r"
  by (simp add: seed_aesGcmEncrypt_def encryptPrivateKey_def FORMAT_VERSION_def ALG_AES_GCM_def NONCE_LEN_def
      split: prod.splits sum.splits)

text \<open>
  The seeded administrator's private key is stored in the layout the applications read, and would open
  with the key the script derived; but the applications derive their key with Argon2 from parameters
  the script does not store, so the account's key pair never opens.
\<close>
theorem seeded_admin_cannot_unlock:
  assumes "webcrypto_laws wc" and "seed_aesGcmEncrypt wc privateKey kek r = (Inr blob, r')"
    and "json_field kp ''kek_params'' = json_field (seed_register_body a publicKey blob kekSalt) ''kek_params''"
  shows "decryptPrivateKey wc blob kek = Inr privateKey
    \<and> unlock_keypair wc pw kp \<in> {Inl BadBase64, Inl BadKEKParams} \<and> \<not> no_keypair (Some kp)"
proof -
  have "encryptPrivateKey wc privateKey kek r = (Inr blob, r')" using assms(2) by (simp only: seed_aes_eq)
  from encryptPrivateKey_shape [OF assms(1) this] obtain nonce where n: "length kek \<in> {16, 24, 32}" "length nonce = 12"
    "blob = [FORMAT_VERSION, ALG_AES_GCM] @ nonce @ wc_seal wc kek nonce privateKey" by blast
  then have d: "decryptPrivateKey wc blob kek = Inr privateKey"
    by (auto simp: decryptPrivateKey_def crypto_defs HEADER_LEN_def NONCE_LEN_def subarray_def laws(1,3) [OF assms(1)])
  have k: "json_field kp ''kek_params'' = Some seed_kek_params" using assms(3) by (simp add: seed_register_body_def)
  then have "unlock_keypair wc pw kp \<in> {Inl BadBase64, Inl BadKEKParams}"
    by (auto simp: unlock_keypair_def keypair_params_def kek_params_of_json_def json_positive_def seed_kek_params_def split: sum.splits)
  moreover have "\<not> falsy kp" using k by (cases kp) auto
  ultimately show ?thesis using d k by (simp add: no_keypair_def seed_kek_params_def json_str_field_def)
qed

text \<open>
  The master user's private key is in the database as it is: what anyone seals for that user opens with
  the column that should hold the encrypted key.
\<close>
theorem master_user_key_in_clear:
  assumes "webcrypto_laws wc" and "master_keypair_row wc r = (Inr row, r1)"
    and "length dek = 32" and "sealDEK wc dek (kr_public_key row) r2 = (Inr (wrapped, nonce), r3)"
  shows "kr_public_key row = wc_pub wc (kr_private_key_enc row)
    \<and> openDEK wc wrapped nonce (kr_private_key_enc row) = Inr dek"
proof -
  obtain priv r4 where p: "wc_random wc 32 r = (priv, r4)" by fastforce
  then have len: "length priv = 32" by (rule laws(9) [OF assms(1)])
  have row: "kr_public_key row = wc_pub wc priv" "kr_private_key_enc row = priv"
    using assms(2) p by (auto simp: master_keypair_row_def seed_keypair_def base64_back Let_def split: prod.splits)
  with openDEK_sealDEK [OF assms(1) len] assms(4) show ?thesis by simp
qed

text \<open>
  Nor does the account of the master user open: its parameters are of no use to the applications.
\<close>
theorem master_user_cannot_unlock:
  assumes "master_keypair_row wc r = (Inr row, r1)" and "json_field kp ''kek_params'' = Some (kr_kek_params row)"
  shows "unlock_keypair wc pw kp \<in> {Inl BadBase64, Inl BadKEKParams}"
  using assms by (auto simp: master_keypair_row_def unlock_keypair_def keypair_params_def kek_params_of_json_def json_positive_def Let_def
      split: sum.splits prod.splits)

lemma seed_call_log:
  "seed_call net st rq s = (q, s1) \<Longrightarrow>
     snd s1 = snd s @ [rq] \<and> (\<forall>out. q = Inl out \<longrightarrow> out = SeedCrashed \<or> out = SeedRefused st)"
  by (auto simp: seed_call_def Let_def split: prod.splits fetch_result.splits if_splits)

lemma seed_verify_log:
  "seed_verify net exec a auth secret digits s = (out, sent) \<Longrightarrow>
     \<exists>rq. sent = snd s @ [rq] \<and> rq_url rq = sa_server a @ seed_path TotpVerify
       \<and> rq_body rq = Some (JsonBody (JObj [(''code'', JStr digits)]))
       \<and> (out = SeedCrashed \<or> out = SeedRefused TotpVerify \<or> (\<exists>ok. out = SeedDone secret ok))"
  by (auto simp: seed_verify_def seed_request_def dest!: seed_call_log split: prod.splits sum.splits)

lemma seed_totp_log:
  assumes "seed_totp hmac net exec a now auth s = (out, sent)"
  shows "(\<exists>rq. sent = snd s @ [rq] \<and> rq_url rq = sa_server a @ seed_path TotpInit \<and> (out = SeedCrashed \<or> out = SeedRefused TotpInit))
    \<or> (\<exists>rq rq' secret. sent = snd s @ [rq, rq'] \<and> map rq_url [rq, rq'] = map (\<lambda>p. sa_server a @ seed_path p) [TotpInit, TotpVerify]
         \<and> rq_body rq' = Some (JsonBody (JObj [(''code'', JStr (generateTOTP hmac now secret))]))
         \<and> (out = SeedCrashed \<or> out = SeedRefused TotpVerify \<or> (\<exists>ok. out = SeedDone secret ok)))"
proof -
  obtain q s1 where c: "seed_call net TotpInit (seed_request a TotpInit [auth] None) s = (q, s1)" by (meson surj_pair)
  note log = seed_call_log [OF c]
  show ?thesis
  proof (cases "\<exists>init secret. q = Inr (Some init) \<and> json_str_field init ''secret_base32'' = Some secret")
    case True
    then obtain init secret where i: "q = Inr (Some init)" "json_str_field init ''secret_base32'' = Some secret" by blast
    with assms c have "seed_verify net exec a auth secret (generateTOTP hmac now secret) s1 = (out, sent)" by (simp add: seed_totp_def)
    from seed_verify_log [OF this] log show ?thesis by (fastforce simp: seed_request_def)
  next
    case False
    with assms c log have "sent = snd s @ [seed_request a TotpInit [auth] None]" "out = SeedCrashed \<or> out = SeedRefused TotpInit"
      by (auto simp: seed_totp_def split: sum.splits option.splits)
    then show ?thesis by (intro disjI1 exI [of _ "seed_request a TotpInit [auth] None"]) (simp add: seed_request_def)
  qed
qed

definition in_order :: "(bytes \<Rightarrow> bytes \<Rightarrow> bytes) \<Rightarrow> seed_args \<Rightarrow> nat \<Rightarrow> seed_outcome \<times> http_request list \<Rightarrow> bool" where
  "in_order hmac a now run \<longleftrightarrow> (case run of (out, sent) \<Rightarrow>
     map rq_url sent = map (\<lambda>p. sa_server a @ seed_path p) (take (length sent) [Registering, TotpInit, TotpVerify])
     \<and> (\<forall>secret ok. out = SeedDone secret ok \<longrightarrow> length sent = 3
          \<and> rq_body (sent ! 2) = Some (JsonBody (JObj [(''code'', JStr (generateTOTP hmac now secret))])))
     \<and> (\<forall>p. out = SeedRefused p \<longrightarrow> sent \<noteq> [] \<and> rq_url (last sent) = sa_server a @ seed_path p))"

lemma seed_register_in_order: "in_order hmac a now (seed_register hmac net exec a now body (w, []))"
proof -
  obtain q s1 where c: "seed_call net Registering (seed_request a Registering [(''Content-Type'', ''application/json'')] (Some body)) (w, []) = (q, s1)"
    by (meson surj_pair)
  note log = seed_call_log [OF c]
  show ?thesis
  proof (cases "\<exists>reg. q = Inr (Some reg) \<and> reg \<noteq> JNull")
    case True
    then obtain auth where t: "seed_register hmac net exec a now body (w, []) = seed_totp hmac net exec a now auth s1"
      using c by (auto simp: seed_register_def)
    obtain out sent where o: "seed_totp hmac net exec a now auth s1 = (out, sent)" by (meson surj_pair)
    from seed_totp_log [OF this] log show ?thesis
      by (auto simp: in_order_def t o seed_request_def simp del: seed_path.simps)
  next
    case False
    have "\<exists>out. seed_register hmac net exec a now body (w, []) = (out, snd s1) \<and> (out = SeedCrashed \<or> out = SeedRefused Registering)"
    proof (cases q)
      case (Inr reg)
      with False have "reg = None \<or> reg = Some JNull" by (cases reg) auto
      with c Inr show ?thesis by (auto simp: seed_register_def)
    qed (use c log in \<open>auto simp: seed_register_def\<close>)
    with log show ?thesis by (auto simp: in_order_def seed_request_def simp del: seed_path.simps)
  qed
qed

text \<open>
  The script goes step by step: it sends the registration, the start of the second factor and the code
  in that order, each only when the one before succeeded. When it ends well it has sent all three, and
  the code is that of the secret it prints; when the server refused a step, that step was the last.
\<close>
theorem seed_script_in_order: "in_order hmac a now (seed_main wc pbkdf2 hmac net exec a now w r)"
proof -
  have "in_order hmac a now (SeedCrypto e, [])" for e by (simp add: in_order_def)
  then show ?thesis by (simp add: seed_main_def Let_def seed_register_in_order split: prod.split sum.split)
qed

subsection \<open>Concrete runs\<close>

definition seed_blob :: bytes where
  "seed_blob = [1, 1] @ replicate 12 0 @ wc_seal toy_crypto (replicate 32 9) (replicate 12 0) (replicate 32 7)"

lemma seed_blob_made: "seed_aesGcmEncrypt toy_crypto (replicate 32 7) (replicate 32 9) 0 = (Inr seed_blob, Suc 0)"
  by (simp add: seed_aesGcmEncrypt_def seed_blob_def crypto_defs)

lemma seeded_admin_cannot_unlock_witness:
  "decryptPrivateKey toy_crypto seed_blob (replicate 32 9) = Inr (replicate 32 7)"
  using seeded_admin_cannot_unlock [OF toy_laws seed_blob_made, of "JObj [(''kek_params'', seed_kek_params)]" default_args "[]" "[]"]
  by (simp add: seed_register_body_def)

lemma master_row_made:
  "\<exists>row. master_keypair_row toy_crypto 7 = (Inr row, 9) \<and> kr_public_key row = wc_pub toy_crypto (replicate 32 7)"
  by (simp add: master_keypair_row_def seed_keypair_def base64_back)

lemma master_user_key_in_clear_witness:
  "\<exists>row. master_keypair_row toy_crypto 7 = (Inr row, 9)
     \<and> openDEK toy_crypto (fst (projr (fst (sealDEK toy_crypto (replicate 32 3) (kr_public_key row) 1)))) (replicate 12 2) (kr_private_key_enc row)
         = Inr (replicate 32 3)"
proof -
  obtain row where row: "master_keypair_row toy_crypto 7 = (Inr row, 9)" "kr_public_key row = wc_pub toy_crypto (replicate 32 7)"
    using master_row_made by blast
  have len: "length (replicate 32 (3 :: byte)) = 32" by simp
  obtain w where s: "sealDEK toy_crypto (replicate 32 3) (kr_public_key row) 1 = (Inr (w, replicate 12 2), 3)"
    using row(2) toy_box by auto
  from master_user_key_in_clear [OF toy_laws row(1) len s] row(1) s show ?thesis by (intro exI [of _ row]) simp
qed

lemma master_user_cannot_unlock_witness:
  "\<exists>row :: keypair_row. unlock_keypair toy_crypto ''pw'' (JObj [(''kek_params'', kr_kek_params row)]) \<in> {Inl BadBase64, Inl BadKEKParams}"
proof -
  obtain row where "master_keypair_row toy_crypto 7 = (Inr row, 9)" using master_row_made by blast
  note m = master_user_cannot_unlock [OF this, of "JObj [(''kek_params'', kr_kek_params row)]" "''pw''"]
  show ?thesis by (rule exI, rule m) simp
qed

end
