(* ===== verification/SeedMock.thy ===== *)
theory SeedMock
  imports MockData ScriptBytes SeedAccounts ExtensionClient ItemShare Ws
begin

unbundle bit_operations_syntax

text \<open>
  The script that fills an account with the sample inventory (\<open>scripts/seed-mock-data.mjs\<close>): its one-time code, the
  session it keeps in a file, sealing an item, and the requests of \<open>main\<close> in their order. Reading the file and the
  terminal, the body of an answer as text and the message of a syntax error are parameters.
\<close>

subsection \<open>The one-time code\<close>

text \<open>This script takes the counter apart by division: no upper half is lost.\<close>

fun mock_counter_bytes :: "nat \<Rightarrow> nat \<Rightarrow> byte list" where
  "mock_counter_bytes 0 c = []"
| "mock_counter_bytes (Suc i) c = mock_counter_bytes i (c div 256) @ [of_nat c]"

definition mock_generateTOTP :: "(byte list \<Rightarrow> byte list \<Rightarrow> byte list) \<Rightarrow> nat \<Rightarrow> string \<Rightarrow> string" where
  "mock_generateTOTP hmac now secret =
     pad_start 6 (CHR ''0'') (show_nat (totp_number (hmac (base32_decode secret) (mock_counter_bytes 8 (now div 1000 div 30)))))"

lemma mock_counter_rfc: "mock_counter_bytes n c = map (\<lambda>k. of_nat (c div 256 ^ (n - 1 - k))) [0..<n]"
proof (induction n arbitrary: c)
  case (Suc n)
  have "c div 256 div 256 ^ (n - 1 - k) = c div 256 ^ (n - k)" if "k < n" for k
  proof -
    from that have "n - k = Suc (n - 1 - k)" by simp
    then show ?thesis by (simp add: div_mult2_eq)
  qed
  with Suc.IH show ?case by simp
qed simp

text \<open>
  The sample script's code is the one-time code of RFC 6238 at every time, also past the year 6053, where the other
  script's counter wraps.
\<close>
theorem mock_code_is_rfc6238:
  assumes "set (drop_equals (map upper_char secret)) \<subseteq> set base32_alphabet" and "\<And>k m. length (hmac k m) = 20"
  shows "length (mock_generateTOTP hmac now secret) = 6
    \<and> read_nat (mock_generateTOTP hmac now secret)
        = rfc_truncate (hmac (rfc_base32 (base32_digits secret)) (rfc_counter (now div 30000))) mod 1000000"
proof -
  have "mock_counter_bytes 8 (now div 1000 div 30) = rfc_counter (now div 30000)"
    by (simp add: div_mult2_eq [symmetric] mock_counter_rfc rfc_counter_eq del: upt_rec_numeral)
  then show ?thesis
    using six_digits [OF assms(2)] by (simp add: mock_generateTOTP_def base32_decode_rfc [OF assms(1)])
qed

subsection \<open>Calls\<close>

record 'w mock_cfg =
  mc_net :: "'w net"
  mc_server :: string
  mc_text :: "http_response \<Rightarrow> string"
  mc_unparsed :: "http_response \<Rightarrow> string"
  mc_show :: "json \<Rightarrow> string"
  mc_now :: "nat \<Rightarrow> nat"

text \<open>\<open>ACCESS_TOKEN\<close>, the requests so far, and how many items were made: the clock is read once for each.\<close>

record ('r, 'w) mock_run =
  mr_world :: 'w
  mr_log :: "http_request list"
  mr_rand :: 'r
  mr_token :: string
  mr_made :: nat

datatype mock_error = MockFailure string | NullAnswer | MockCrypto crypto_error | NoMasterPassword

definition mock_text_of :: "'w mock_cfg \<Rightarrow> json option \<Rightarrow> string" where
  "mock_text_of c v = (case v of None \<Rightarrow> ''undefined'' | Some (JStr s) \<Rightarrow> s | Some j \<Rightarrow> mc_show c j)"

definition mock_message :: "'w mock_cfg \<Rightarrow> http_response \<Rightarrow> string" where
  "mock_message c res =
     (case rs_json res of
        None \<Rightarrow> mc_text c res
      | Some j \<Rightarrow>
          if json_truthy (json_field j ''message'') then mock_text_of c (json_field j ''message'')
          else if json_truthy (json_field j ''error'') then mock_text_of c (json_field j ''error'') else mc_text c res)"

fun mock_method :: "http_method \<Rightarrow> string" where
  "mock_method GET = ''GET''"
| "mock_method POST = ''POST''"
| "mock_method PUT = ''PUT''"
| "mock_method PATCH = ''PATCH''"
| "mock_method DELETE = ''DELETE''"

definition mock_api_error :: "'w mock_cfg \<Rightarrow> http_method \<Rightarrow> string \<Rightarrow> http_response \<Rightarrow> string" where
  "mock_api_error c method path res =
     ''API '' @ mock_method method @ '' '' @ path @ '' ['' @ show_nat (rs_status res) @ '']: '' @ mock_message c res"

definition mock_request :: "'w mock_cfg \<Rightarrow> string \<Rightarrow> http_method \<Rightarrow> string \<Rightarrow> json option \<Rightarrow> http_request" where
  "mock_request c token method path body =
     \<lparr>rq_url = mc_server c @ path, rq_method = method,
      rq_headers = (''Content-Type'', ''application/json'') #
        (if token = [] then [] else [(''Authorization'', ''Bearer '' @ token)]),
      rq_body = map_option JsonBody body\<rparr>"

definition mock_api ::
    "'w mock_cfg \<Rightarrow> http_method \<Rightarrow> string \<Rightarrow> json option \<Rightarrow> ('r, 'w) mock_run \<Rightarrow> (mock_error + json) \<times> ('r, 'w) mock_run" where
  "mock_api c method path body s =
     (let rq = mock_request c (mr_token s) method path body; (r, w) = mc_net c rq (mr_world s);
          s1 = s\<lparr>mr_world := w, mr_log := mr_log s @ [rq]\<rparr>
      in (case r of
            NetworkFailure m \<Rightarrow> Inl (MockFailure m)
          | Response res \<Rightarrow>
              if \<not> rs_ok res then Inl (MockFailure (mock_api_error c method path res))
              else if rs_status res = 204 then Inr JNull
              else (case rs_json res of None \<Rightarrow> Inl (MockFailure (mc_unparsed c res)) | Some j \<Rightarrow> Inr j), s1))"

text \<open>\<open>await\<close> after \<open>await\<close>; a loop that stops at the first error; a loop that counts what worked.\<close>

definition and_then :: "('e + 'a) \<times> 's \<Rightarrow> ('a \<Rightarrow> 's \<Rightarrow> ('e + 'b) \<times> 's) \<Rightarrow> ('e + 'b) \<times> 's" where
  "and_then p f = (case p of (Inl e, s) \<Rightarrow> (Inl e, s) | (Inr x, s) \<Rightarrow> f x s)"

fun each :: "('a \<Rightarrow> 's \<Rightarrow> ('e + 'b) \<times> 's) \<Rightarrow> 'a list \<Rightarrow> 's \<Rightarrow> ('e + 'b list) \<times> 's" where
  "each f [] s = (Inr [], s)"
| "each f (x # xs) s = and_then (f x s) (\<lambda>y s1. and_then (each f xs s1) (\<lambda>ys s2. (Inr (y # ys), s2)))"

fun try_each :: "('a \<Rightarrow> 's \<Rightarrow> ('e + 'b) \<times> 's) \<Rightarrow> 'a list \<Rightarrow> 's \<Rightarrow> nat \<times> 's" where
  "try_each f [] s = (0, s)"
| "try_each f (x # xs) s =
     (let (r, s1) = f x s; (n, s2) = try_each f xs s1 in (case r of Inl _ \<Rightarrow> n | Inr _ \<Rightarrow> Suc n, s2))"

text \<open>\<open>res.id\<close> of an answer that may be \<open>null\<close>; a property whose value is \<open>undefined\<close> is not sent.\<close>

definition answer_id :: "json \<Rightarrow> mock_error + json option" where
  "answer_id res = (if res = JNull then Inl NullAnswer else Inr (json_field res ''id''))"

definition sent_if :: "string \<Rightarrow> json option \<Rightarrow> (string \<times> json) list" where
  "sent_if k v = (case v of None \<Rightarrow> [] | Some j \<Rightarrow> [(k, j)])"

subsection \<open>Items\<close>

text \<open>\<open>generateDEK\<close>, \<open>sealDEK\<close> and \<open>encryptField\<close> of the script.\<close>

definition mock_generateDEK :: "'r webcrypto \<Rightarrow> 'r \<Rightarrow> bytes \<times> 'r" where
  "mock_generateDEK wc r = wc_random wc 32 r"

definition mock_sealDEK :: "'r webcrypto \<Rightarrow> bytes \<Rightarrow> bytes \<Rightarrow> 'r \<Rightarrow> (crypto_error + bytes \<times> bytes) \<times> 'r" where
  "mock_sealDEK wc dek recipientPubKeyRaw r =
     (let (ephPriv, r1) = wc_random wc 32 r; ephPubRaw = wc_pub wc ephPriv
      in case derive_bits wc ephPriv recipientPubKeyRaw of
          Inl e \<Rightarrow> (Inl e, r1)
        | Inr sharedBits \<Rightarrow>
            (let (nonce, r2) = wc_random wc 12 r1
             in case aes_gcm_encrypt wc sharedBits nonce dek of
                 Inl e \<Rightarrow> (Inl e, r2)
               | Inr ctWithTag \<Rightarrow> (Inr (ephPubRaw @ ctWithTag, nonce), r2)))"

definition mock_encryptField :: "'r webcrypto \<Rightarrow> string \<Rightarrow> bytes \<Rightarrow> 'r \<Rightarrow> (crypto_error + bytes \<times> bytes) \<times> 'r" where
  "mock_encryptField wc v dek r =
     (let (nonce, r1) = wc_random wc 12 r
      in case aes_gcm_encrypt wc dek nonce (TextEncoder_encode v) of
          Inl e \<Rightarrow> (Inl e, r1)
        | Inr ct \<Rightarrow> (Inr (ct, nonce), r1))"

lemma mock_crypto_eq:
  "mock_generateDEK = generateDEK" "mock_sealDEK = sealDEK" "mock_encryptField = encryptField"
  unfolding mock_generateDEK_def [abs_def] generateDEK_def [abs_def] mock_sealDEK_def [abs_def] sealDEK_def [abs_def]
    mock_encryptField_def [abs_def] encryptField_def [abs_def] NONCE_LEN_def by (rule refl)+

text \<open>One field: \<open>F.name\<close> of a name that is not in the table is \<open>undefined\<close>.\<close>

definition mock_field :: "'r webcrypto \<Rightarrow> bytes \<Rightarrow> nat \<times> string \<times> string \<Rightarrow> 'r \<Rightarrow> (crypto_error + json) \<times> 'r" where
  "mock_field wc dek f r =
     (case mock_encryptField wc (snd (snd f)) dek r of
        (Inl e, r1) \<Rightarrow> (Inl e, r1)
      | (Inr (valueEnc, valueNonce), r1) \<Rightarrow>
          (Inr (JObj (sent_if ''field_definition_id'' (map_option JNum (map_of F_ids (fst (snd f))))
             @ [(''value_enc'', JStr (toBase64 valueEnc)), (''value_nonce'', JStr (toBase64 valueNonce)), (''position'', JNum (int (fst f)))])), r1))"

definition mock_item_json :: "string \<Rightarrow> json option \<Rightarrow> mock_item \<Rightarrow> json list \<Rightarrow> bytes \<times> bytes \<Rightarrow> json" where
  "mock_item_json i folder m encryptedFields box =
     JObj ([(''id'', JStr i)] @ sent_if ''folder_id'' folder @ sent_if ''item_type_id'' (map_option JNum (map_of T_ids (mi_type m)))
       @ [(''name'', JStr (mi_name m)), (''fields'', JArr encryptedFields), (''owner_dek_wrapped'', JStr (toBase64 (fst box))),
          (''owner_wrap_nonce'', JStr (toBase64 (snd box)))] @ mi_opts m)"

definition mock_seal_item ::
    "'r webcrypto \<Rightarrow> bytes \<Rightarrow> (string \<times> string) list \<Rightarrow> 'r \<Rightarrow> (crypto_error + (bytes \<times> bytes) \<times> json list) \<times> 'r" where
  "mock_seal_item wc pubKey fs r =
     (let (dek, r1) = mock_generateDEK wc r
      in and_then (mock_sealDEK wc dek pubKey r1) (\<lambda>box r2.
           and_then (each (mock_field wc dek) (zip [0..<length fs] fs) r2) (\<lambda>js r3. (Inr (box, js), r3))))"

definition mock_createItem ::
    "'r webcrypto \<Rightarrow> 'w mock_cfg \<Rightarrow> bytes \<Rightarrow> json option \<Rightarrow> mock_item \<Rightarrow> ('r, 'w) mock_run \<Rightarrow> (mock_error + string) \<times> ('r, 'w) mock_run" where
  "mock_createItem wc c pubKey folder m s =
     (case mock_seal_item wc pubKey (mi_fields m) (mr_rand s) of
        (Inl e, r1) \<Rightarrow> (Inl (MockCrypto e), s\<lparr>mr_rand := r1\<rparr>)
      | (Inr (box, encryptedFields), r1) \<Rightarrow>
          (let (random, r2) = wc_random wc 16 r1; i = uuidv7 (mc_now c (mr_made s)) random
           in and_then (mock_api c POST ''/api/v1/items'' (Some (mock_item_json i folder m encryptedFields box))
                (s\<lparr>mr_rand := r2, mr_made := Suc (mr_made s)\<rparr>)) (\<lambda>_ s1. (Inr i, s1))))"


subsection \<open>\<open>main\<close>\<close>

record mock_args =
  ma_username :: string
  ma_password :: string
  ma_totp :: string

definition mock_default_args :: mock_args where
  "mock_default_args = \<lparr>ma_username = ''admin'', ma_password = [], ma_totp = []\<rparr>"

text \<open>The file \<open>/tmp/ironstock-seed-token.json\<close>; what the terminal answers to the two prompts, trimmed.\<close>

record mock_cache =
  ca_access_token :: string
  ca_public_key :: string
  ca_ts :: nat

record mock_terminal =
  mt_password :: string
  mt_code :: string

text \<open>\<open>Buffer.from(s, 'base64')\<close>: both alphabets, other characters are skipped, \<open>=\<close> ends the text.\<close>

definition node_b64_val :: "char \<Rightarrow> nat option" where
  "node_b64_val c = (if c = CHR ''-'' then Some 62 else if c = CHR ''_'' then Some 63 else b64_val c)"

definition mock_fromB64 :: "string \<Rightarrow> bytes" where
  "mock_fromB64 s = sextets_to_bytes (List.map_filter node_b64_val (takeWhile (\<lambda>c. c \<noteq> CHR ''='') s))"

definition is_digits :: "string \<Rightarrow> bool" where
  "is_digits s \<longleftrightarrow> 6 \<le> length s \<and> length s \<le> 8 \<and> list_all (\<lambda>c. c \<in> set ''0123456789'') s"

definition mock_totp :: "(bytes \<Rightarrow> bytes \<Rightarrow> bytes) \<Rightarrow> nat \<Rightarrow> mock_args \<Rightarrow> string" where
  "mock_totp hmac now a =
     (if ma_totp a = [] then [] else if is_digits (ma_totp a) then ma_totp a else mock_generateTOTP hmac now (ma_totp a))"

definition mock_login_json :: "mock_args \<Rightarrow> string \<Rightarrow> string option \<Rightarrow> json" where
  "mock_login_json a password digits =
     JObj ([(''username'', JStr (ma_username a)), (''master_password'', JStr password)] @ opt_str ''totp_code'' digits)"

definition asks_for_code :: "mock_error \<Rightarrow> bool" where
  "asks_for_code e \<longleftrightarrow> (case e of MockFailure m \<Rightarrow> js_includes m ''mfa_required'' \<or> js_includes m ''MFA'' | _ \<Rightarrow> False)"

definition mock_signin ::
    "'w mock_cfg \<Rightarrow> mock_args \<Rightarrow> mock_terminal \<Rightarrow> string \<Rightarrow> string \<Rightarrow> ('r, 'w) mock_run \<Rightarrow> (mock_error + json) \<times> ('r, 'w) mock_run" where
  "mock_signin c a term password totpCode s =
     (case mock_api c POST ''/api/v1/auth/login'' (Some (mock_login_json a password (or_undefined totpCode))) s of
        (Inl e, s1) \<Rightarrow>
          if asks_for_code e
          then mock_api c POST ''/api/v1/auth/login''
                 (Some (mock_login_json a password (Some (if totpCode = [] then mt_code term else totpCode)))) s1
          else (Inl e, s1)
      | ok \<Rightarrow> ok)"

text \<open>The session, and what is written to the file. \<open>now\<close> is the time of the start; the server's key is a text.\<close>

definition mock_fresh :: "nat \<Rightarrow> mock_cache option \<Rightarrow> bool" where
  "mock_fresh now cached \<longleftrightarrow> (case cached of None \<Rightarrow> False | Some k \<Rightarrow> now < ca_ts k + 10 * 60 * 1000)"

definition mock_login ::
    "'w mock_cfg \<Rightarrow> (bytes \<Rightarrow> bytes \<Rightarrow> bytes) \<Rightarrow> mock_args \<Rightarrow> mock_terminal \<Rightarrow> nat \<Rightarrow> mock_cache option \<Rightarrow> ('r, 'w) mock_run
       \<Rightarrow> (mock_error + bytes \<times> mock_cache option) \<times> ('r, 'w) mock_run" where
  "mock_login c hmac a term now cached s =
     (let password = (if ma_password a = [] then mt_password term else ma_password a)
      in if password = [] then (Inl NoMasterPassword, s)
         else if mock_fresh now cached
         then (Inr (mock_fromB64 (ca_public_key (the cached)), cached), s\<lparr>mr_token := ca_access_token (the cached)\<rparr>)
         else and_then (mock_signin c a term password (mock_totp hmac now a) s) (\<lambda>loginRes s1.
           if loginRes = JNull then (Inl NullAnswer, s1)
           else and_then (mock_api c GET ''/api/v1/users/me/keypair'' None
                    (s1\<lparr>mr_token := nullish (json_str_field loginRes ''access_token'') []\<rparr>)) (\<lambda>kp s2.
             case json_str_field kp ''public_key'' of
               None \<Rightarrow> (Inl NullAnswer, s2)
             | Some k \<Rightarrow> (Inr (mock_fromB64 k,
                 Some \<lparr>ca_access_token = mr_token s2, ca_public_key = k, ca_ts = now\<rparr>), s2))))"

definition mock_make :: "'w mock_cfg \<Rightarrow> string \<Rightarrow> json \<Rightarrow> ('r, 'w) mock_run \<Rightarrow> (mock_error + json option) \<times> ('r, 'w) mock_run" where
  "mock_make c path body s =
     and_then (mock_api c POST path (Some body) s) (\<lambda>res s1. (answer_id res, s1))"

definition mock_folders :: "'w mock_cfg \<Rightarrow> ('r, 'w) mock_run \<Rightarrow> (mock_error + (string \<times> json option) list) \<times> ('r, 'w) mock_run" where
  "mock_folders c s =
     each (\<lambda>n s. and_then (mock_make c ''/api/v1/folders'' (JObj [(''name'', JStr n), (''parent_id'', JNull)]) s)
            (\<lambda>i s1. (Inr (n, i), s1))) folderNames s"

definition mock_tags :: "'w mock_cfg \<Rightarrow> ('r, 'w) mock_run \<Rightarrow> (mock_error + (string \<times> json option) list) \<times> ('r, 'w) mock_run" where
  "mock_tags c s =
     each (\<lambda>(n, color) s. and_then (mock_make c ''/api/v1/tags'' (JObj [(''name'', JStr n), (''color'', JStr color)]) s)
            (\<lambda>i s1. (Inr (n, i), s1))) tagDefs s"

text \<open>\<open>folders[name]\<close> and \<open>tags[name]\<close>, \<open>items[key]\<close> in a body and in a path.\<close>

definition made_id :: "(string \<times> json option) list \<Rightarrow> string \<Rightarrow> json option" where
  "made_id xs n = (case map_of xs n of None \<Rightarrow> None | Some v \<Rightarrow> v)"

definition item_id :: "(string \<times> string) list \<Rightarrow> string \<Rightarrow> json option" where
  "item_id items k = map_option JStr (map_of items k)"

definition item_links_path :: "(string \<times> string) list \<Rightarrow> string \<Rightarrow> string \<Rightarrow> string" where
  "item_links_path items k tail = ''/api/v1/items/'' @ nullish (map_of items k) ''undefined'' @ tail"

definition mock_mkItems ::
    "'r webcrypto \<Rightarrow> 'w mock_cfg \<Rightarrow> bytes \<Rightarrow> (string \<times> json option) list \<Rightarrow> ('r, 'w) mock_run
       \<Rightarrow> (mock_error + (string \<times> string) list) \<times> ('r, 'w) mock_run" where
  "mock_mkItems wc c publicKey folders s =
     each (\<lambda>m s. and_then (mock_createItem wc c publicKey (made_id folders (mi_folder m)) m s) (\<lambda>i s1. (Inr (mi_key m, i), s1)))
       mock_items s"

definition tag_links :: "(string \<times> json option) list \<Rightarrow> (string \<times> string) list \<Rightarrow> (string \<times> json) list" where
  "tag_links tags items = concat (map (\<lambda>(t, ks). map (\<lambda>k.
     (item_links_path items k ''/tags'', JObj (sent_if ''tag_id'' (made_id tags t)))) ks) mock_tag_items)"

definition relation_links :: "(string \<times> string) list \<Rightarrow> (string \<times> json) list" where
  "relation_links items = map (\<lambda>(a, b, t).
     (item_links_path items a ''/relationships'', JObj (sent_if ''target_id'' (item_id items b) @ [(''type'', JStr t)]))) mock_relations"

definition stage_links :: "(string \<times> string) list \<Rightarrow> (string \<times> json) list" where
  "stage_links items = map (\<lambda>(k, ns).
     (item_links_path items k ''/lifecycle-stages'', JObj [(''stage_ids'', JArr (map JNum ns))])) mock_stages"

definition mock_link :: "'w mock_cfg \<Rightarrow> string \<times> json \<Rightarrow> ('r, 'w) mock_run \<Rightarrow> (mock_error + json) \<times> ('r, 'w) mock_run" where
  "mock_link c l s = mock_api c POST (fst l) (Some (snd l)) s"

text \<open>\<open>items[k]\<close> that is \<open>undefined\<close> becomes \<open>null\<close> in an array.\<close>

definition nodes_json :: "(string \<times> string) list \<Rightarrow> string list \<Rightarrow> json" where
  "nodes_json items ks = JObj [(''item_ids'', JArr (map (\<lambda>k. nullish (item_id items k) JNull) ks))]"

definition mock_layout_json :: "(string \<times> string) list \<Rightarrow> (string \<times> int \<times> int) list \<Rightarrow> json" where
  "mock_layout_json items rows = JObj [
     (''nodes'', JArr (map (\<lambda>(k, x, y). JObj (sent_if ''item_id'' (item_id items k)
        @ [(''position_x'', JNum x), (''position_y'', JNum y)])) rows)),
     (''viewport'', JObj [(''x'', JNum 0), (''y'', JNum 0), (''zoom'', JNum 1)])]"

definition mock_diagram ::
    "'w mock_cfg \<Rightarrow> (string \<times> string) list \<Rightarrow> string \<Rightarrow> string \<Rightarrow> string list \<Rightarrow> (string \<times> int \<times> int) list \<Rightarrow> ('r, 'w) mock_run
       \<Rightarrow> (mock_error + unit) \<times> ('r, 'w) mock_run" where
  "mock_diagram c items n description nodes rows s =
     and_then (mock_make c ''/api/v1/pipeline-diagrams'' (JObj [(''name'', JStr n), (''description'', JStr description)]) s) (\<lambda>i s1.
       let path = ''/api/v1/pipeline-diagrams/'' @ mock_text_of c i
       in and_then (mock_api c POST (path @ ''/nodes'') (Some (nodes_json items nodes)) s1) (\<lambda>_ s2.
            and_then (mock_api c PUT (path @ ''/layout'') (Some (mock_layout_json items rows)) s2) (\<lambda>_ s3. (Inr (), s3))))"

record mock_summary =
  sm_items :: "(string \<times> string) list"
  sm_folders :: "(string \<times> json option) list"
  sm_tags :: "(string \<times> json option) list"
  sm_tagCount :: nat
  sm_relCount :: nat
  sm_lcCount :: nat

definition mock_links ::
    "'w mock_cfg \<Rightarrow> (string \<times> json option) list \<Rightarrow> (string \<times> string) list \<Rightarrow> ('r, 'w) mock_run \<Rightarrow> (nat \<times> nat \<times> nat) \<times> ('r, 'w) mock_run" where
  "mock_links c tags items s =
     (let (t, s1) = try_each (mock_link c) (tag_links tags items) s;
          (l, s2) = try_each (mock_link c) (relation_links items) s1;
          (g, s3) = try_each (mock_link c) (stage_links items) s2
      in ((t, l, g), s3))"

definition mock_fill ::
    "'r webcrypto \<Rightarrow> 'w mock_cfg \<Rightarrow> bytes \<Rightarrow> ('r, 'w) mock_run \<Rightarrow> (mock_error + mock_summary) \<times> ('r, 'w) mock_run" where
  "mock_fill wc c publicKey s =
     and_then (mock_folders c s) (\<lambda>folders s1.
     and_then (mock_tags c s1) (\<lambda>tags s2.
     and_then (mock_mkItems wc c publicKey folders s2) (\<lambda>items s3.
       let ((t, l, g), s4) = mock_links c tags items s3
       in and_then (mock_diagram c items ''CI/CD Deployment Pipeline''
              ''GitLab commit -> SonarQube scan -> Harbor image -> ArgoCD deploy -> K8s production'' cicdNodes cicd_layout s4) (\<lambda>_ s5.
          and_then (mock_diagram c items ''Production Infrastructure''
              ''Cloudflare -> Nginx LB -> API Server -> PostgreSQL + Redis (with monitoring)'' infraNodes infra_layout s5) (\<lambda>_ s6.
            (Inr \<lparr>sm_items = items, sm_folders = folders, sm_tags = tags, sm_tagCount = t, sm_relCount = l, sm_lcCount = g\<rparr>, s6))))))"

definition mock_main ::
    "'r webcrypto \<Rightarrow> 'w mock_cfg \<Rightarrow> (bytes \<Rightarrow> bytes \<Rightarrow> bytes) \<Rightarrow> mock_args \<Rightarrow> mock_terminal \<Rightarrow> nat \<Rightarrow> mock_cache option \<Rightarrow> ('r, 'w) mock_run
       \<Rightarrow> (mock_error + mock_summary) \<times> ('r, 'w) mock_run" where
  "mock_main wc c hmac a term now cached s =
     and_then (mock_login c hmac a term now cached s) (\<lambda>(publicKey, _) s1. mock_fill wc c publicKey s1)"


subsection \<open>What a run sends\<close>

lemma mock_api_run:
  "mr_log (snd (mock_api c method path body s)) = mr_log s @ [mock_request c (mr_token s) method path body]"
  "mr_token (snd (mock_api c method path body s)) = mr_token s"
  by (simp_all add: mock_api_def Let_def split: prod.split)

lemma and_then_assoc: "and_then (and_then p f) g = and_then p (\<lambda>x s. and_then (f x s) g)"
  by (simp add: and_then_def split: prod.split sum.split)

lemma and_then_unit [simp]: "and_then (Inr x, s) f = f x s"
  by (simp add: and_then_def)

text \<open>Later states have the same token and the earlier requests at the front.\<close>

definition further :: "('r, 'w) mock_run \<Rightarrow> ('r, 'w) mock_run \<Rightarrow> bool" where
  "further s s' \<longleftrightarrow> mr_token s' = mr_token s \<and> (\<exists>rqs. mr_log s' = mr_log s @ rqs)"

lemma further_refl: "further s s"
  by (simp add: further_def)

lemma further_trans [trans]: "further s s1 \<Longrightarrow> further s1 s2 \<Longrightarrow> further s s2"
  by (auto simp: further_def)

lemma further_same: "mr_token s' = mr_token s \<Longrightarrow> mr_log s' = mr_log s \<Longrightarrow> further s s'"
  by (simp add: further_def)

lemma further_api: "further s (snd (mock_api c method path body s))"
  by (simp add: further_def mock_api_run)

lemma further_then:
  assumes "further s (snd p)" and "\<And>x s1. p = (Inr x, s1) \<Longrightarrow> further s1 (snd (f x s1))"
  shows "further s (snd (and_then p f))"
  using assms by (cases p) (auto simp: and_then_def split: sum.split intro: further_trans)

lemma then_further:
  assumes "\<And>x s1. p = (Inr x, s1) \<Longrightarrow> further s1 (snd (f x s1))"
  shows "further (snd p) (snd (and_then p f))"
  by (rule further_then [OF further_refl assms])

lemma further_each: "(\<And>x s. further s (snd (f x s))) \<Longrightarrow> further s (snd (each f xs s))"
  by (induction xs arbitrary: s) (auto simp: further_refl intro!: further_then)

lemma further_make: "further s (snd (mock_make c path body s))"
  unfolding mock_make_def by (rule further_then [OF further_api]) (simp add: further_refl)

lemma further_folders: "further s (snd (mock_folders c s))"
  unfolding mock_folders_def by (rule further_each, rule further_then [OF further_make]) (simp add: further_refl)

lemma further_tags: "further s (snd (mock_tags c s))"
  unfolding mock_tags_def by (rule further_each) (auto intro!: further_then further_make simp: further_refl split: prod.split)

lemma further_item: "further s (snd (mock_createItem wc c k folder m s))"
proof -
  have "further s (snd (mock_api c POST ''/api/v1/items'' body (s\<lparr>mr_rand := r, mr_made := n\<rparr>)))" for body r n
    by (rule further_trans [OF further_same further_api]) simp_all
  then show ?thesis unfolding mock_createItem_def
    by (auto simp: further_same Let_def further_refl split: prod.split sum.split intro!: further_then)
qed

lemma further_mkItems: "further s (snd (mock_mkItems wc c k folders s))"
  unfolding mock_mkItems_def by (rule further_each, rule further_then [OF further_item]) (simp add: further_refl)

lemma further_diagram: "further s (snd (mock_diagram c items n d ks rows s))"
  unfolding mock_diagram_def Let_def
  by (rule further_then [OF further_make], rule further_then [OF further_api], rule further_then [OF further_api]) (simp add: further_refl)

text \<open>The links are all sent, whatever becomes of them, and no more are counted than sent.\<close>

abbreviation link_request :: "'w mock_cfg \<Rightarrow> string \<Rightarrow> string \<times> json \<Rightarrow> http_request" where
  "link_request c token l \<equiv> mock_request c token POST (fst l) (Some (snd l))"

lemma try_each_Cons:
  "snd (try_each f (x # xs) s) = snd (try_each f xs (snd (f x s)))"
  "fst (try_each f (x # xs) s) \<le> Suc (fst (try_each f xs (snd (f x s))))"
  by (simp_all add: case_prod_unfold Let_def split: sum.split)

lemma try_each_links:
  "mr_log (snd (try_each (mock_link c) ls s)) = mr_log s @ map (link_request c (mr_token s)) ls"
  "mr_token (snd (try_each (mock_link c) ls s)) = mr_token s"
  by (induction ls arbitrary: s) (simp_all add: try_each_Cons mock_link_def mock_api_run del: try_each.simps(2))

lemma try_each_count: "fst (try_each f xs s) \<le> length xs"
proof (induction xs arbitrary: s)
  case (Cons x xs)
  show ?case using try_each_Cons(2) [of f x xs s] Cons.IH [of "snd (f x s)"] by (simp del: try_each.simps)
qed simp

lemma further_links: "mock_links c tags items s = (n, s') \<Longrightarrow> further s s'"
proof -
  assume n: "mock_links c tags items s = (n, s')"
  have f: "further s1 s2" if "try_each (mock_link c) ls s1 = (k, s2)" for ls s1 s2 k
    using try_each_links [of c ls s1] that by (simp add: further_def)
  obtain t s1 l s2 g where "try_each (mock_link c) (tag_links tags items) s = (t, s1)"
      "try_each (mock_link c) (relation_links items) s1 = (l, s2)" "try_each (mock_link c) (stage_links items) s2 = (g, s')"
    using n by (auto simp: mock_links_def split: prod.splits)
  from this [THEN f] show "further s s'" by (blast intro: further_trans)
qed

lemma further_case_links:
  assumes "\<And>t l g s1. further s1 (snd (f t l g s1))"
  shows "further s (snd ((\<lambda>((t, l, g), s1). f t l g s1) (mock_links c tags items s)))"
proof -
  obtain t l g s1 where m: "mock_links c tags items s = ((t, l, g), s1)" by (metis prod_cases3 surj_pair)
  show ?thesis using further_trans [OF further_links [OF m] assms [of s1 t l g]] by (simp add: m)
qed

lemma link_counts: "length (tag_links tags items) = 34" "length (relation_links items) = 26" "length (stage_links items) = 19"
  by (simp_all add: tag_links_def relation_links_def stage_links_def length_concat mock_tag_items_def mock_relations_def mock_stages_def)

lemma each_fst:
  assumes "\<And>x s y s'. f x s = (Inr y, s') \<Longrightarrow> g y = h x" and "each f xs s = (Inr ys, s')"
  shows "map g ys = map h xs"
  using assms(2)
proof (induction xs arbitrary: s ys)
  case (Cons x xs)
  then obtain y s1 zs where "f x s = (Inr y, s1)" "each f xs s1 = (Inr zs, s')" "ys = y # zs"
    by (auto simp: and_then_def split: prod.splits sum.splits)
  with Cons.IH assms(1) show ?case by auto
qed simp

lemma made_keys:
  assumes "mock_mkItems wc c k folders s = (Inr items, s')"
  shows "map fst items = mock_keys"
  unfolding mock_keys_def
  by (rule each_fst [OF _ assms [unfolded mock_mkItems_def]]) (auto simp: and_then_def split: prod.splits sum.splits)

text \<open>A link that names a made item, in the path and, for a relation, as the target.\<close>

definition names_made :: "(string \<times> string) list \<Rightarrow> string \<times> json \<Rightarrow> bool" where
  "names_made items l \<longleftrightarrow> (\<exists>i\<in>snd ` set items.
     fst l \<in> {''/api/v1/items/'' @ i @ ''/tags'', ''/api/v1/items/'' @ i @ ''/lifecycle-stages''}
     \<or> fst l = ''/api/v1/items/'' @ i @ ''/relationships'' \<and> (\<exists>j\<in>snd ` set items. json_field (snd l) ''target_id'' = Some (JStr j)))"

lemma key_made: "k \<in> set (map fst items) \<Longrightarrow> \<exists>i\<in>snd ` set items. map_of items k = Some i"
  by (metis (no_types, lifting) image_eqI map_of_SomeD map_of_eq_None_iff not_None_eq set_map snd_conv)

lemma links_name_made:
  assumes "map fst items = mock_keys" and "l \<in> set (tag_links tags items @ relation_links items @ stage_links items)"
  shows "names_made items l"
proof -
  have made: "\<exists>i\<in>snd ` set items. map_of items k = Some i" if "k \<in> set mock_keys" for k
    using key_made [of k items] assms(1) that by simp
  consider (tag) t ks k where "(t, ks) \<in> set mock_tag_items" "k \<in> set ks" "fst l = item_links_path items k ''/tags''"
    | (rel) a b t where "(a, b, t) \<in> set mock_relations" "fst l = item_links_path items a ''/relationships''"
        "snd l = JObj (sent_if ''target_id'' (item_id items b) @ [(''type'', JStr t)])"
    | (stage) k ns where "(k, ns) \<in> set mock_stages" "fst l = item_links_path items k ''/lifecycle-stages''"
    using assms(2) by (fastforce simp: tag_links_def relation_links_def stage_links_def)
  then show ?thesis
  proof cases
    case tag
    then have "k \<in> set mock_keys" using mock_tags_closed by fastforce
    then obtain i where "i \<in> snd ` set items" "map_of items k = Some i" using made by blast
    then show ?thesis unfolding names_made_def by (intro bexI [of _ i]) (simp_all add: tag(3) item_links_path_def)
  next
    case rel
    then have "a \<in> set mock_keys" "b \<in> set mock_keys" using mock_relations_closed by fastforce+
    with made obtain i j where "i \<in> snd ` set items" "map_of items a = Some i" "j \<in> snd ` set items" "map_of items b = Some j" by metis
    with rel show ?thesis by (auto simp: names_made_def item_links_path_def item_id_def sent_if_def)
  next
    case stage
    then have "k \<in> set mock_keys" using mock_stages_closed(1) by (metis fst_conv image_eqI set_map)
    then obtain i where "i \<in> snd ` set items" "map_of items k = Some i" using made by blast
    then show ?thesis unfolding names_made_def by (intro bexI [of _ i]) (simp_all add: stage(2) item_links_path_def)
  qed
qed

text \<open>
  The sample is linked completely and to itself only. A run that ends well made one item for each key, and has
  asked for every tag, relation and stage of the tables exactly as they are written down, refused or not, each
  naming items that were made; it reports no more links than it asked for.
\<close>
theorem sample_links_name_made_items:
  assumes "mock_fill wc c publicKey s = (Inr sm, s')"
  shows "map fst (sm_items sm) = mock_keys
    \<and> (\<exists>before after. mr_log s' = before @ map (link_request c (mr_token s))
          (tag_links (sm_tags sm) (sm_items sm) @ relation_links (sm_items sm) @ stage_links (sm_items sm)) @ after)
    \<and> (\<forall>l\<in>set (tag_links (sm_tags sm) (sm_items sm) @ relation_links (sm_items sm) @ stage_links (sm_items sm)).
          names_made (sm_items sm) l)
    \<and> sm_tagCount sm \<le> 34 \<and> sm_relCount sm \<le> 26 \<and> sm_lcCount sm \<le> 19"
proof -
  obtain folders s1 tags s2 items s3 where m: "mock_folders c s = (Inr folders, s1)" "mock_tags c s1 = (Inr tags, s2)"
      "mock_mkItems wc c publicKey folders s2 = (Inr items, s3)"
    using assms by (auto simp: mock_fill_def and_then_def split: prod.splits sum.splits)
  obtain t s4 l s5 g s6 where k: "try_each (mock_link c) (tag_links tags items) s3 = (t, s4)"
      "try_each (mock_link c) (relation_links items) s4 = (l, s5)" "try_each (mock_link c) (stage_links items) s5 = (g, s6)"
    by (metis surj_pair)
  define d1 where "d1 = mock_diagram c items ''CI/CD Deployment Pipeline''
     ''GitLab commit -> SonarQube scan -> Harbor image -> ArgoCD deploy -> K8s production'' cicdNodes cicd_layout s6"
  obtain s7 where d: "d1 = (Inr (), s7)" and e: "sm_items sm = items" "sm_tags sm = tags" "sm_tagCount sm = t" "sm_relCount sm = l"
      "sm_lcCount sm = g" and f: "further s7 s'"
  proof -
    obtain s7 where d: "d1 = (Inr (), s7)"
      using assms by (auto simp: mock_fill_def and_then_def m mock_links_def k d1_def [symmetric] split: prod.splits sum.splits)
    with assms have e: "mock_diagram c items ''Production Infrastructure''
          ''Cloudflare -> Nginx LB -> API Server -> PostgreSQL + Redis (with monitoring)'' infraNodes infra_layout s7 = (Inr (), s')"
        "sm = \<lparr>sm_items = items, sm_folders = folders, sm_tags = tags, sm_tagCount = t, sm_relCount = l, sm_lcCount = g\<rparr>"
      by (auto simp: mock_fill_def and_then_def m mock_links_def k d1_def [symmetric] split: prod.splits sum.splits)
    from further_diagram [of s7 c items] e(1) have "further s7 s'" by (metis snd_conv)
    with d e(2) show thesis using that by simp
  qed
  have "further s s3" using further_folders further_tags further_mkItems m by (metis further_trans snd_conv)
  then have tok: "mr_token s3 = mr_token s" by (simp add: further_def)
  have "further s6 s7" using further_diagram d unfolding d1_def by (metis snd_conv)
  then have "further s6 s'" using f by (rule further_trans)
  then obtain after where "mr_log s' = mr_log s6 @ after" by (auto simp: further_def)
  moreover have "mr_log s6 = mr_log s3 @ map (link_request c (mr_token s)) (tag_links tags items @ relation_links items @ stage_links items)"
    using try_each_links(1,2) [of c "tag_links tags items" s3] try_each_links(1,2) [of c "relation_links items" s4]
      try_each_links(1) [of c "stage_links items" s5] by (simp add: k tok)
  ultimately have log: "\<exists>before after. mr_log s' = before @ map (link_request c (mr_token s))
      (tag_links tags items @ relation_links items @ stage_links items) @ after" by (metis append.assoc)
  have counts: "t \<le> 34" "l \<le> 26" "g \<le> 19"
    using try_each_count [of "mock_link c" "tag_links tags items" s3] try_each_count [of "mock_link c" "relation_links items" s4]
      try_each_count [of "mock_link c" "stage_links items" s5]
    by (simp_all add: k link_counts)
  from log counts made_keys [OF m(3)] links_name_made [OF made_keys [OF m(3)]] show ?thesis by (simp only: e) blast
qed

text \<open>
  The session in the file belongs to nobody in particular: for ten minutes after a login the script uses its token
  and key with any server and any user named on the command line, and asks neither for the password's worth nor for
  a code. The first request already hands the token to that server.
\<close>
theorem cached_session_goes_to_any_server:
  assumes "mock_fresh now (Some k)" and "ma_password a \<noteq> []" and "ca_access_token k \<noteq> []"
  shows "\<exists>rqs. mr_log (snd (mock_main wc c hmac a term now (Some k) s))
    = mr_log s @ \<lparr>rq_url = mc_server c @ ''/api/v1/folders'', rq_method = POST,
        rq_headers = [(''Content-Type'', ''application/json''), (''Authorization'', ''Bearer '' @ ca_access_token k)],
        rq_body = Some (JsonBody (JObj [(''name'', JStr ''Production''), (''parent_id'', JNull)]))\<rparr> # rqs"
proof -
  let ?s = "s\<lparr>mr_token := ca_access_token k\<rparr>"
  let ?k = "mock_fromB64 (ca_public_key k)"
  let ?body = "JObj [(''name'', JStr ''Production''), (''parent_id'', JNull)]"
  let ?api = "mock_api c POST ''/api/v1/folders'' (Some ?body) ?s"
  have main: "mock_main wc c hmac a term now (Some k) s = mock_fill wc c ?k ?s"
    using assms by (simp add: mock_main_def mock_login_def and_then_def)
  have "further (snd ?api) (snd (mock_make c ''/api/v1/folders'' ?body ?s))"
    unfolding mock_make_def by (rule then_further) (simp add: further_refl)
  also have "further (snd (mock_make c ''/api/v1/folders'' ?body ?s)) (snd (mock_folders c ?s))"
    unfolding mock_folders_def folderNames_def each.simps and_then_assoc
    by (rule then_further) (auto simp: further_refl and_then_unit intro!: further_then further_make)
  also have "further (snd (mock_folders c ?s)) (snd (mock_fill wc c ?k ?s))"
    unfolding mock_fill_def Let_def
    by (rule then_further)
      (auto simp: further_refl intro!: further_then further_tags further_mkItems further_case_links further_diagram)
  finally obtain rqs where "mr_log (snd (mock_fill wc c ?k ?s)) = mr_log (snd ?api) @ rqs" by (auto simp: further_def)
  then show ?thesis using assms(3) by (simp add: main mock_api_run mock_request_def)
qed


subsection \<open>Errors\<close>

text \<open>The server's answer to a login that lacks the second factor (\<open>httpapi/auth_login.go\<close>).\<close>

definition mfa_answer :: http_response where
  "mfa_answer = \<lparr>rs_status = 401, rs_json = Some (JObj [(''code'', JStr ''mfa_required''),
     (''message'', JStr (''Bu hesap i'' @ tr_c @ ''in 2FA kodu gerekli.''))])\<rparr>"

text \<open>
  The script never asks for the code of the second factor. It looks for the server's answer in the text of its
  error, which has the message and not the code \<open>mfa_required\<close>: the login ends with the first request.
\<close>
theorem second_factor_never_prompted:
  assumes "rq = mock_request c (mr_token s) POST ''/api/v1/auth/login'' (Some (mock_login_json a password (or_undefined totpCode)))"
    and "mc_net c rq (mr_world s) = (Response mfa_answer, w)"
  shows "\<exists>e. mock_signin c a term password totpCode s = (Inl e, s\<lparr>mr_world := w, mr_log := mr_log s @ [rq]\<rparr>)"
proof -
  let ?e = "mock_api_error c POST ''/api/v1/auth/login'' mfa_answer"
  have "?e = ''API POST /api/v1/auth/login ['' @ show_nat 401 @ '']: Bu hesap i'' @ tr_c @ ''in 2FA kodu gerekli.''"
    by (simp add: mock_api_error_def mock_message_def mfa_answer_def mock_text_of_def)
  then have "\<not> asks_for_code (MockFailure ?e)"
    by (simp add: asks_for_code_def tr_c_def show_nat.simps)
  moreover have "mock_api c POST ''/api/v1/auth/login'' (Some (mock_login_json a password (or_undefined totpCode))) s
      = (Inl (MockFailure ?e), s\<lparr>mr_world := w, mr_log := mr_log s @ [rq]\<rparr>)"
    using assms by (simp add: mock_api_def rs_ok_def mfa_answer_def)
  ultimately show ?thesis by (simp add: mock_signin_def)
qed

text \<open>
  Nobody can read the items of the sample in the applications. The script seals an item's key to the user's public
  key, which \<open>openDEK\<close> would open; both item pages use the other scheme and show a decryption error.
\<close>
theorem sample_items_unreadable:
  assumes "webcrypto_laws wc" and "length sk = 32" and "mock_createItem wc c (wc_pub wc sk) folder m s = (Inr i, s')"
    and "{''owner_dek_wrapped'', ''owner_wrap_nonce''} \<inter> fst ` set (mi_opts m) = {}"
    and "\<forall>dek r1 eph r2 n p. wc_random wc 32 (mr_rand s) = (dek, r1) \<longrightarrow> wc_random wc 32 r1 = (eph, r2)
           \<longrightarrow> wc_seal wc (wc_sha256 wc sk) n p \<noteq> wc_seal wc (wc_dh wc eph (wc_pub wc sk)) n dek"
  shows "\<exists>body dek box n. last (mr_log s') = mock_request c (mr_token s) POST ''/api/v1/items'' (Some body)
    \<and> json_field body ''owner_dek_wrapped'' = Some (JStr (toBase64 box)) \<and> json_field body ''owner_wrap_nonce'' = Some (JStr (toBase64 n))
    \<and> openDEK wc box n sk = Inr dek
    \<and> (\<forall>item. i_owner_dek_wrapped item = Some (toBase64 box) \<longrightarrow> i_owner_wrap_nonce item = Some (toBase64 n)
        \<longrightarrow> decrypt_item wc (openDEKWithKEK wc) (Some item) (Some sk) = DecryptionError (DetailFailed (FormCrypto OperationError))
          \<and> decrypt_item wc (cl_openDEKWithKEK wc) (Some item) (Some sk) = DecryptionError (DetailFailed (FormCrypto OperationError)))"
proof -
  obtain dek r1 where d: "wc_random wc 32 (mr_rand s) = (dek, r1)" by fastforce
  obtain box n js r3 where b: "mock_seal_item wc (wc_pub wc sk) (mi_fields m) (mr_rand s) = (Inr ((box, n), js), r3)"
    using assms(3) by (auto simp: mock_createItem_def split: prod.splits sum.splits)
  then obtain r2 where o: "sealDEK wc dek (wc_pub wc sk) r1 = (Inr (box, n), r2)"
    by (auto simp: mock_seal_item_def mock_crypto_eq generateDEK_def d and_then_def split: prod.splits sum.splits)
  obtain rnd r4 where r: "wc_random wc 16 r3 = (rnd, r4)" by fastforce
  let ?body = "mock_item_json (uuidv7 (mc_now c (mr_made s)) rnd) folder m js (box, n)"
  let ?s = "s\<lparr>mr_rand := r4, mr_made := Suc (mr_made s)\<rparr>"
  have "s' = snd (mock_api c POST ''/api/v1/items'' (Some ?body) ?s)"
    using assms(3) by (auto simp: mock_createItem_def b r Let_def and_then_def split: prod.splits sum.splits)
  then have l: "last (mr_log s') = mock_request c (mr_token s) POST ''/api/v1/items'' (Some ?body)" by (simp add: mock_api_run)
  have opts: "map_of (rev (mi_opts m)) ''owner_dek_wrapped'' = None" "map_of (rev (mi_opts m)) ''owner_wrap_nonce'' = None"
    using assms(4) by (auto simp: map_of_eq_None_iff)
  have f: "json_field ?body ''owner_dek_wrapped'' = Some (JStr (toBase64 box))"
      "json_field ?body ''owner_wrap_nonce'' = Some (JStr (toBase64 n))"
    using opts by (simp_all add: mock_item_json_def map_add_def)
  obtain eph r5 where e: "wc_random wc 32 r1 = (eph, r5)" by fastforce
  have c: "\<forall>p. wc_seal wc (wc_sha256 wc sk) n p \<noteq> wc_seal wc (wc_dh wc eph (wc_pub wc sk)) n dek"
    using assms(5) d e by blast
  have "openDEK wc box n sk = Inr dek" by (rule x25519_box.unseal_sealed [OF assms(1,2) o])
  with l f boxed_item_unreadable(1,2) [OF assms(1) e o c] show ?thesis by blast
qed

subsection \<open>Concrete runs\<close>

lemma mock_code_is_rfc6238_witness: "length (mock_generateTOTP zero_hmac 128849018880059000 ''mzxw6==='') = 6"
proof -
  have "set (drop_equals (map upper_char ''mzxw6===''  )) \<subseteq> set base32_alphabet"
    by code_simp
  from mock_code_is_rfc6238 [OF this, of zero_hmac] show ?thesis by (simp add: zero_hmac_def)
qed

text \<open>A server that makes whatever it is asked for.\<close>

definition obliging :: "unit mock_cfg" where
  "obliging = \<lparr>mc_net = \<lambda>rq w. (Response \<lparr>rs_status = 201, rs_json = Some (JObj [(''id'', JStr ''x'')])\<rparr>, w), mc_server = ''http://s'',
     mc_text = \<lambda>_. [], mc_unparsed = \<lambda>_. [], mc_show = \<lambda>_. [], mc_now = \<lambda>n. 1000 + n\<rparr>"

definition mock_start :: "(nat, unit) mock_run" where
  "mock_start = \<lparr>mr_world = (), mr_log = [], mr_rand = 0, mr_token = ''t'', mr_made = 0\<rparr>"

lemma api_works: "\<exists>j s1. mock_api obliging method path body s = (Inr j, s1)"
  by (simp add: mock_api_def obliging_def rs_ok_def)

lemma then_works: "\<exists>y s1. p = (Inr y, s1) \<Longrightarrow> (\<And>y s1. \<exists>z s2. f y s1 = (Inr z, s2)) \<Longrightarrow> \<exists>z s2. and_then p f = (Inr z, s2)"
  by (auto simp: and_then_def)

lemma each_works: "(\<And>x s. \<exists>y s1. f x s = (Inr y, s1)) \<Longrightarrow> \<exists>ys s1. each f xs s = (Inr ys, s1)"
proof (induction xs arbitrary: s)
  case (Cons x xs)
  then show ?case by (auto intro!: then_works)
qed simp

lemma make_works: "\<exists>y s1. mock_make obliging path body s = (Inr y, s1)"
  by (simp add: mock_make_def answer_id_def and_then_def mock_api_def obliging_def rs_ok_def)

definition mock_sk :: bytes where
  "mock_sk = 0 # replicate 31 1"

lemma toy_sealed: "\<exists>box r1. sealDEK toy_crypto (replicate 32 b) (wc_pub toy_crypto mock_sk) r = (Inr box, r1)"
proof -
  have "wc_dh toy_crypto (replicate 32 (of_nat r)) (wc_pub toy_crypto mock_sk) \<noteq> replicate 32 0"
    by (simp add: toy_crypto_def mock_sk_def pad_to_def numeral_eq_Suc)
  then show ?thesis
    by (simp add: sealDEK_def crypto_defs laws(5,6) [OF toy_laws])
qed

lemma toy_field: "\<exists>j r1. mock_field toy_crypto (replicate 32 b) f r = (Inr j, r1)"
  by (simp add: mock_field_def mock_crypto_eq encryptField_def crypto_defs)

lemma toy_item_sealed: "\<exists>x r1. mock_seal_item toy_crypto (wc_pub toy_crypto mock_sk) fs r = (Inr x, r1)"
  unfolding mock_seal_item_def mock_crypto_eq generateDEK_def toy_random Let_def prod.case
  by (intro then_works toy_sealed each_works toy_field exI) (rule refl)

lemma item_works: "\<exists>i s1. mock_createItem toy_crypto obliging (wc_pub toy_crypto mock_sk) folder m s = (Inr i, s1)"
proof -
  obtain box js r1 where "mock_seal_item toy_crypto (wc_pub toy_crypto mock_sk) (mi_fields m) (mr_rand s) = (Inr (box, js), r1)"
    using toy_item_sealed by (metis surj_pair)
  then show ?thesis by (auto simp: mock_createItem_def Let_def intro!: then_works api_works)
qed

lemma diagram_works: "\<exists>y s1. mock_diagram obliging items n d ks rows s = (Inr y, s1)"
  unfolding mock_diagram_def Let_def by (intro then_works make_works api_works) simp

lemma fill_works: "\<exists>sm s1. mock_fill toy_crypto obliging (wc_pub toy_crypto mock_sk) s = (Inr sm, s1)"
proof -
  have f: "\<exists>y s1. mock_folders obliging s = (Inr y, s1)" for s
    unfolding mock_folders_def by (rule each_works, rule then_works [OF make_works], simp)
  have t: "\<exists>y s1. mock_tags obliging s = (Inr y, s1)" for s
  proof -
    have "\<exists>y s1. and_then (mock_make obliging ''/api/v1/tags'' b s) (\<lambda>i s1. (Inr (n, i), s1)) = (Inr y, s1)" for n :: string and b s
      by (rule then_works [OF make_works], simp)
    then show ?thesis unfolding mock_tags_def by (intro each_works) (simp add: case_prod_unfold)
  qed
  have i: "\<exists>y s1. mock_mkItems toy_crypto obliging (wc_pub toy_crypto mock_sk) folders s = (Inr y, s1)" for folders s
    unfolding mock_mkItems_def by (rule each_works, rule then_works [OF item_works], simp)
  show ?thesis unfolding mock_fill_def
    by (rule then_works [OF f], rule then_works [OF t], rule then_works [OF i])
      (auto simp: Let_def split: prod.split intro!: then_works diagram_works)
qed

lemma sample_links_name_made_items_witness:
  "\<exists>sm s'. mock_fill toy_crypto obliging (wc_pub toy_crypto mock_sk) mock_start = (Inr sm, s')
    \<and> map fst (sm_items sm) = mock_keys"
  using fill_works [of mock_start] sample_links_name_made_items by blast

lemma cached_session_goes_to_any_server_witness:
  "mr_log (snd (mock_main toy_crypto obliging zero_hmac (mock_default_args\<lparr>ma_password := ''p''\<rparr>) \<lparr>mt_password = [], mt_code = []\<rparr> 5000
     (Some \<lparr>ca_access_token = ''other'', ca_public_key = [], ca_ts = 1000\<rparr>) mock_start)) \<noteq> []"
  using cached_session_goes_to_any_server [of 5000 "\<lparr>ca_access_token = ''other'', ca_public_key = [], ca_ts = 1000\<rparr>"
      "mock_default_args\<lparr>ma_password := ''p''\<rparr>" toy_crypto obliging zero_hmac "\<lparr>mt_password = [], mt_code = []\<rparr>" mock_start]
  by (auto simp: mock_fresh_def)

lemma second_factor_never_prompted_witness:
  "\<exists>e s1. mock_signin (obliging\<lparr>mc_net := \<lambda>rq w. (Response mfa_answer, w)\<rparr>) mock_default_args \<lparr>mt_password = [], mt_code = ''123456''\<rparr>
      ''p'' [] mock_start = (Inl e, s1) \<and> length (mr_log s1) = 1"
proof -
  let ?c = "obliging\<lparr>mc_net := \<lambda>rq w. (Response mfa_answer, w)\<rparr>"
  have "mc_net ?c (mock_request ?c (mr_token mock_start) POST ''/api/v1/auth/login''
      (Some (mock_login_json mock_default_args ''p'' (or_undefined [])))) (mr_world mock_start) = (Response mfa_answer, ())" by simp
  from second_factor_never_prompted [OF refl this, of "\<lparr>mt_password = [], mt_code = ''123456''\<rparr>"]
  show ?thesis by (fastforce simp: mock_start_def)
qed

lemma sample_items_unreadable_witness:
  "\<exists>dek box n. openDEK toy_crypto box n mock_sk = Inr dek
    \<and> (\<forall>item. i_owner_dek_wrapped item = Some (toBase64 box) \<longrightarrow> i_owner_wrap_nonce item = Some (toBase64 n)
        \<longrightarrow> decrypt_item toy_crypto (openDEKWithKEK toy_crypto) (Some item) (Some mock_sk)
              = DecryptionError (DetailFailed (FormCrypto OperationError)))"
proof -
  obtain i s' where m: "mock_createItem toy_crypto obliging (wc_pub toy_crypto mock_sk) None mock_nginx_lb mock_start = (Inr i, s')"
    using item_works by blast
  have no: "\<forall>dek r1 eph r2 n p. wc_random toy_crypto 32 (mr_rand mock_start) = (dek, r1) \<longrightarrow> wc_random toy_crypto 32 r1 = (eph, r2)
     \<longrightarrow> wc_seal toy_crypto (wc_sha256 toy_crypto mock_sk) n p \<noteq> wc_seal toy_crypto (wc_dh toy_crypto eph (wc_pub toy_crypto mock_sk)) n dek"
  proof -
    let ?h = "wc_sha256 toy_crypto mock_sk" and ?d = "wc_dh toy_crypto (replicate 32 1) (wc_pub toy_crypto mock_sk)"
    have "pad_to 16 ?h ! 1 = 0" "pad_to 16 ?d ! 1 = 2"
      by (simp_all add: toy_crypto_def mock_sk_def pad_to_def nth_append)
    then have "pad_to 16 ?h \<noteq> pad_to 16 ?d" by auto
    moreover have "wc_seal toy_crypto k n p = p @ pad_to 16 k" for k n p by (simp add: toy_crypto_def)
    ultimately show ?thesis by (simp add: mock_start_def)
  qed
  have "length mock_sk = 32" "{''owner_dek_wrapped'', ''owner_wrap_nonce''} \<inter> fst ` set (mi_opts mock_nginx_lb) = {}"
    by (simp_all add: mock_sk_def mock_nginx_lb_def)
  from sample_items_unreadable [OF toy_laws this(1) m this(2) no] show ?thesis by blast
qed

end
