(* ===== verification/InventoryPanels.thy ===== *)
theory InventoryPanels
  imports InventoryPage PageKit
begin

text \<open>
  The panels of the inventory pages: the folder tree and its lazily loaded nodes (\<open>folder-tree.tsx\<close>,
  \<open>folder-tree-node.tsx\<close>, the same code in both applications), the search field that waits for a pause
  (\<open>item-search.tsx\<close> of both), the folder form and the two delete dialogs (\<open>folder-form-modal.tsx\<close>,
  \<open>folder-delete-dialog.tsx\<close>, \<open>item-delete-dialog.tsx\<close>), and the desktop page around them
  (\<open>client/src/pages/inventory.tsx\<close>).
\<close>

section \<open>The folder tree\<close>

record Folder =
  fo_id :: string
  fo_parent_id :: "string option option"
  fo_name :: string
  fo_position :: int
  fo_created_by :: string
  fo_created_at :: string
  fo_updated_at :: string
  fo_permission :: string

text \<open>What a node reads off its query.\<close>

record folder_query =
  fq_isLoading :: bool
  fq_isError :: bool
  fq_isSuccess :: bool
  fq_data :: "Folder list option"

datatype tree_row =
    FolderRow nat Folder bool bool
  | LoadingRow nat
  | UnreadableRow nat
  | EmptyRow nat

text \<open>A node and, when it is open, its notes and its children's nodes. The fuel bounds the depth: rendering
  a folder that lies below itself does not end.\<close>

definition node_notes :: "nat \<Rightarrow> folder_query \<Rightarrow> tree_row list" where
  "node_notes d q =
     (if fq_isLoading q then [LoadingRow d] else []) @ (if fq_isError q then [UnreadableRow d] else [])
     @ (if fq_isSuccess q \<and> nullish (fq_data q) [] = [] then [EmptyRow d] else [])"

fun FolderTreeNode ::
    "nat \<Rightarrow> (query_hook \<Rightarrow> folder_query) \<Rightarrow> string set \<Rightarrow> string option \<Rightarrow> nat \<Rightarrow> Folder \<Rightarrow> tree_row list option" where
  "FolderTreeNode 0 ask expandedIds selectedId depth folder = None"
| "FolderTreeNode (Suc n) ask expandedIds selectedId depth folder =
     (let isExpanded = fo_id folder \<in> expandedIds;
          row = FolderRow depth folder isExpanded (selectedId = Some (fo_id folder));
          q = ask (useChildFolders (Some (fo_id folder)) isExpanded)
      in if \<not> isExpanded then Some [row]
         else map_option (\<lambda>rs. row # node_notes (depth + 1) q @ concat rs)
                (those (map (FolderTreeNode n ask expandedIds selectedId (depth + 1)) (nullish (fq_data q) []))))"

datatype tree_view = TreeLoading | TreeUnreadable | TreeEmpty | TreeRows "tree_row list"

definition FolderTree ::
    "nat \<Rightarrow> (query_hook \<Rightarrow> folder_query) \<Rightarrow> string set \<Rightarrow> string option \<Rightarrow> tree_view option" where
  "FolderTree n ask expanded selectedId =
     (let q = ask useRootFolders; roots = nullish (fq_data q) []
      in if fq_isLoading q then Some TreeLoading
         else if fq_isError q then Some TreeUnreadable
         else if roots = [] then Some TreeEmpty
         else map_option (\<lambda>rs. TreeRows (concat rs)) (those (map (FolderTreeNode n ask expanded selectedId 0) roots)))"

definition tree_toggle :: "string \<Rightarrow> string set \<Rightarrow> string set" where
  "tree_toggle i expanded = (if i \<in> expanded then expanded - {i} else insert i expanded)"

text \<open>The arrow opens and closes; a click on the rest of the row selects.\<close>

datatype tree_click = ArrowClick string | RowClick string

fun tree_clicked :: "string set \<times> inventory_page \<Rightarrow> tree_click \<Rightarrow> string set \<times> inventory_page" where
  "tree_clicked (expanded, p) (ArrowClick i) = (tree_toggle i expanded, p)"
| "tree_clicked (expanded, p) (RowClick i) = (expanded, handleSelectFolder i p)"

lemma row_click_opens_nothing: "fst (tree_clicked (expanded, p) (RowClick i)) = expanded"
  by simp

text \<open>The desktop application's copies.\<close>

fun cl_FolderTreeNode ::
    "nat \<Rightarrow> (query_hook \<Rightarrow> folder_query) \<Rightarrow> string set \<Rightarrow> string option \<Rightarrow> nat \<Rightarrow> Folder \<Rightarrow> tree_row list option" where
  "cl_FolderTreeNode 0 ask expandedIds selectedId depth folder = None"
| "cl_FolderTreeNode (Suc n) ask expandedIds selectedId depth folder =
     (let isExpanded = fo_id folder \<in> expandedIds;
          row = FolderRow depth folder isExpanded (selectedId = Some (fo_id folder));
          q = ask (cl_useChildFolders (Some (fo_id folder)) isExpanded)
      in if \<not> isExpanded then Some [row]
         else map_option (\<lambda>rs. row # node_notes (depth + 1) q @ concat rs)
                (those (map (cl_FolderTreeNode n ask expandedIds selectedId (depth + 1)) (nullish (fq_data q) []))))"

definition cl_FolderTree ::
    "nat \<Rightarrow> (query_hook \<Rightarrow> folder_query) \<Rightarrow> string set \<Rightarrow> string option \<Rightarrow> tree_view option" where
  "cl_FolderTree n ask expanded selectedId =
     (let q = ask cl_useRootFolders; roots = nullish (fq_data q) []
      in if fq_isLoading q then Some TreeLoading
         else if fq_isError q then Some TreeUnreadable
         else if roots = [] then Some TreeEmpty
         else map_option (\<lambda>rs. TreeRows (concat rs)) (those (map (cl_FolderTreeNode n ask expanded selectedId 0) roots)))"

definition cl_tree_toggle :: "string \<Rightarrow> string set \<Rightarrow> string set" where
  "cl_tree_toggle i expanded = (if i \<in> expanded then expanded - {i} else insert i expanded)"

lemma cl_tree_eq:
  shows "cl_FolderTreeNode = FolderTreeNode" and "cl_FolderTree = FolderTree" and "cl_tree_toggle = tree_toggle"
proof -
  have q: "cl_useChildFolders p e = useChildFolders p e" "cl_useRootFolders = useRootFolders" for p e
    by (simp_all add: cl_useChildFolders_def useChildFolders_def cl_useRootFolders_def useRootFolders_def)
  show node: "cl_FolderTreeNode = FolderTreeNode"
  proof (intro ext)
    fix n ask ex sel d f
    show "cl_FolderTreeNode n ask ex sel d f = FolderTreeNode n ask ex sel d f"
    proof (induction n arbitrary: d f)
      case (Suc n)
      then have "cl_FolderTreeNode n ask ex sel = FolderTreeNode n ask ex sel" by (intro ext)
      then show ?case by (simp only: cl_FolderTreeNode.simps FolderTreeNode.simps q)
    qed simp
  qed
  show "cl_FolderTree = FolderTree" unfolding cl_FolderTree_def FolderTree_def node q ..
  show "cl_tree_toggle = tree_toggle" unfolding cl_tree_toggle_def tree_toggle_def ..
qed

subsection \<open>The folders that are shown\<close>

definition tree_children :: "(query_hook \<Rightarrow> folder_query) \<Rightarrow> string \<Rightarrow> Folder list" where
  "tree_children ask i = nullish (fq_data (ask (useChildFolders (Some i) True))) []"

inductive opened_below :: "(query_hook \<Rightarrow> folder_query) \<Rightarrow> string set \<Rightarrow> nat \<Rightarrow> Folder \<Rightarrow> nat \<Rightarrow> Folder \<Rightarrow> bool"
    for ask and expanded where
  itself: "opened_below ask expanded d f d f"
| child: "fo_id f \<in> expanded \<Longrightarrow> c \<in> set (tree_children ask (fo_id f)) \<Longrightarrow> opened_below ask expanded (Suc d) c d' g
    \<Longrightarrow> opened_below ask expanded d f d' g"

lemma opened_below_iff:
  "opened_below ask ex d f d' g \<longleftrightarrow> (d' = d \<and> g = f)
     \<or> (fo_id f \<in> ex \<and> (\<exists>c\<in>set (tree_children ask (fo_id f)). opened_below ask ex (Suc d) c d' g))"
  by (subst opened_below.simps) auto

lemma those_map_Some: "\<forall>x\<in>set xs. f x = Some (g x) \<Longrightarrow> those (map f xs) = Some (map g xs)"
  by (induction xs) auto

lemma those_None: "x \<in> set xs \<Longrightarrow> f x = None \<Longrightarrow> those (map f xs) = None"
  by (induction xs) (auto split: option.splits)

lemma notes_no_folder [simp]: "FolderRow d f e s \<notin> set (node_notes d' q)"
  by (simp add: node_notes_def)

text \<open>A row for each folder that is reached, with its own state.\<close>

definition rows_of :: "string set \<Rightarrow> string option \<Rightarrow> (nat \<Rightarrow> Folder \<Rightarrow> bool) \<Rightarrow> tree_row list \<Rightarrow> bool" where
  "rows_of ex sel P rs \<longleftrightarrow>
     (\<forall>d f e s. FolderRow d f e s \<in> set rs \<longleftrightarrow> P d f \<and> e = (fo_id f \<in> ex) \<and> s = (sel = Some (fo_id f)))"

lemma node_rows:
  assumes "\<And>i c. c \<in> set (tree_children ask i) \<Longrightarrow> rank (fo_id c) < (rank i :: nat)"
  shows "rank (fo_id f) < n \<Longrightarrow>
    \<exists>rs. FolderTreeNode n ask ex sel d f = Some rs \<and> rows_of ex sel (opened_below ask ex d f) rs"
proof (induction n arbitrary: d f)
  case (Suc n)
  let ?cs = "tree_children ask (fo_id f)"
  have "\<forall>c\<in>set ?cs. \<exists>rs. FolderTreeNode n ask ex sel (Suc d) c = Some rs \<and> rows_of ex sel (opened_below ask ex (Suc d) c) rs"
    using Suc assms by fastforce
  then obtain g where g: "\<forall>c\<in>set ?cs. FolderTreeNode n ask ex sel (Suc d) c = Some (g c)"
    "\<forall>c\<in>set ?cs. rows_of ex sel (opened_below ask ex (Suc d) c) (g c)" by metis
  show ?case
  proof (cases "fo_id f \<in> ex")
    case True
    have "FolderTreeNode (Suc n) ask ex sel d f = Some (FolderRow d f True (sel = Some (fo_id f))
        # node_notes (Suc d) (ask (useChildFolders (Some (fo_id f)) True)) @ concat (map g ?cs))"
      using True those_map_Some [OF g(1)] by (simp add: tree_children_def Let_def)
    moreover have "rows_of ex sel (opened_below ask ex d f) (FolderRow d f True (sel = Some (fo_id f))
        # node_notes (Suc d) (ask (useChildFolders (Some (fo_id f)) True)) @ concat (map g ?cs))"
      using True g(2) unfolding rows_of_def opened_below_iff [of ask ex d f] by auto
    ultimately show ?thesis by blast
  next
    case False
    then show ?thesis unfolding rows_of_def opened_below_iff [of ask ex d f] by (auto simp: Let_def)
  qed
qed simp

lemma node_below_itself:
  assumes "fo_id f \<in> ex" and "f \<in> set (tree_children ask (fo_id f))"
  shows "FolderTreeNode n ask ex sel d f = None"
proof (induction n arbitrary: d)
  case (Suc n)
  have "those (map (FolderTreeNode n ask ex sel (d + 1)) (tree_children ask (fo_id f))) = None"
    using assms(2) Suc by (simp add: those_None)
  then show ?case using assms(1) by (simp add: Let_def tree_children_def)
qed simp

section \<open>The search field\<close>

text \<open>\<open>sb_due\<close> is when the pending timer fires; the text it will commit is the draft.\<close>

record search_box =
  sb_initial :: string
  sb_draft :: string
  sb_lastCommitted :: string
  sb_due :: "int option"

definition DEBOUNCE_MS :: int where "DEBOUNCE_MS = 300"

definition search_mounted :: "string \<Rightarrow> search_box" where
  "search_mounted initial = \<lparr>sb_initial = initial, sb_draft = initial, sb_lastCommitted = initial, sb_due = None\<rparr>"

definition sync_effect :: "string \<Rightarrow> search_box \<Rightarrow> search_box" where
  "sync_effect initial b =
     (if initial = sb_initial b then b
      else if initial \<noteq> sb_lastCommitted b then b\<lparr>sb_initial := initial, sb_draft := initial, sb_lastCommitted := initial\<rparr>
      else b\<lparr>sb_initial := initial\<rparr>)"

definition commit_effect :: "int \<Rightarrow> search_box \<Rightarrow> search_box" where
  "commit_effect now b = b\<lparr>sb_due := (if sb_draft b = sb_lastCommitted b then None else Some (now + DEBOUNCE_MS))\<rparr>"

text \<open>The field and the page around it. A new address is a new \<open>onCommit\<close>: both effects run.\<close>

datatype search_event = Typed string | Fires | OnPage page_event

definition address_effects :: "int \<Rightarrow> inventory_page \<Rightarrow> inventory_page \<Rightarrow> search_box \<Rightarrow> search_box" where
  "address_effects now p p' b = (if pg_url p' = pg_url p then b else commit_effect now (sync_effect (pg_query p') b))"

fun search_step :: "search_box \<times> inventory_page \<Rightarrow> int \<times> search_event \<Rightarrow> search_box \<times> inventory_page" where
  "search_step (b, p) (now, Typed s) = (commit_effect now (b\<lparr>sb_draft := s\<rparr>), p)"
| "search_step (b, p) (now, Fires) =
     (let p' = handleSearchCommit (trim (sb_draft b)) p
      in (address_effects now p p' (b\<lparr>sb_lastCommitted := sb_draft b, sb_due := None\<rparr>), p'))"
| "search_step (b, p) (now, OnPage e) = (let p' = page_step p e in (address_effects now p p' b, p'))"

text \<open>A keystroke changes the text of a field that is enabled; a timer fires when it is due.\<close>

fun search_can :: "search_box \<times> inventory_page \<Rightarrow> int \<times> search_event \<Rightarrow> bool" where
  "search_can (b, p) (now, Typed s) \<longleftrightarrow> s \<noteq> sb_draft b \<and> (truthy (u_folder (pg_url p)) \<or> pg_globalSearch p)"
| "search_can (b, p) (now, Fires) \<longleftrightarrow> (case sb_due b of None \<Rightarrow> False | Some t \<Rightarrow> t \<le> now)"
| "search_can (b, p) (now, OnPage e) = True"

text \<open>The desktop application's copies.\<close>

definition cl_DEBOUNCE_MS :: int where "cl_DEBOUNCE_MS = 300"

definition cl_search_mounted :: "string \<Rightarrow> search_box" where
  "cl_search_mounted initial = \<lparr>sb_initial = initial, sb_draft = initial, sb_lastCommitted = initial, sb_due = None\<rparr>"

definition cl_sync_effect :: "string \<Rightarrow> search_box \<Rightarrow> search_box" where
  "cl_sync_effect initial b =
     (if initial = sb_initial b then b
      else if initial \<noteq> sb_lastCommitted b then b\<lparr>sb_initial := initial, sb_draft := initial, sb_lastCommitted := initial\<rparr>
      else b\<lparr>sb_initial := initial\<rparr>)"

definition cl_commit_effect :: "int \<Rightarrow> search_box \<Rightarrow> search_box" where
  "cl_commit_effect now b =
     b\<lparr>sb_due := (if sb_draft b = sb_lastCommitted b then None else Some (now + cl_DEBOUNCE_MS))\<rparr>"

lemma cl_search_eq:
  shows "cl_DEBOUNCE_MS = DEBOUNCE_MS" and "cl_search_mounted = search_mounted" and "cl_sync_effect = sync_effect"
    and "cl_commit_effect = commit_effect"
  unfolding cl_DEBOUNCE_MS_def DEBOUNCE_MS_def cl_search_mounted_def search_mounted_def cl_sync_effect_def sync_effect_def
    cl_commit_effect_def commit_effect_def by (rule refl)+

subsection \<open>The field follows the address\<close>

text \<open>At rest the field holds what the last commit or the address gave it; the address has it trimmed.\<close>

definition search_inv :: "search_box \<times> inventory_page \<Rightarrow> bool" where
  "search_inv s \<longleftrightarrow> (let (b, p) = s in
     sb_initial b = pg_query p
     \<and> (sb_due b = None \<longleftrightarrow> sb_draft b = sb_lastCommitted b)
     \<and> (sb_lastCommitted b = sb_initial b \<or> trim (sb_lastCommitted b) = sb_initial b))"

lemma pg_query_commit: "pg_query (handleSearchCommit v p) = v"
  by (simp add: pg_query_def handleSearchCommit_def or_undefined_def)

lemma commit_effect_simps [simp]:
  "sb_initial (commit_effect now b) = sb_initial b" "sb_draft (commit_effect now b) = sb_draft b"
  "sb_lastCommitted (commit_effect now b) = sb_lastCommitted b"
  "sb_due (commit_effect now b) = None \<longleftrightarrow> sb_draft b = sb_lastCommitted b"
  by (simp_all add: commit_effect_def)

lemma sync_effect_simps:
  "sb_initial (sync_effect q b) = q"
  "sb_lastCommitted (sync_effect q b) = q \<or> sync_effect q b = b"
  by (simp_all add: sync_effect_def)

lemma address_effects_keep:
  assumes "sb_due b = None \<longleftrightarrow> sb_draft b = sb_lastCommitted b"
    and "pg_url p' = pg_url p \<Longrightarrow> sb_initial b = pg_query p'"
    and "sb_lastCommitted b = sb_initial b \<or> trim (sb_lastCommitted b) = sb_initial b \<or> trim (sb_lastCommitted b) = pg_query p'"
    and "pg_url p' = pg_url p \<Longrightarrow> sb_lastCommitted b = sb_initial b \<or> trim (sb_lastCommitted b) = sb_initial b"
  shows "search_inv (address_effects now p p' b, p')"
  using assms by (auto simp: search_inv_def address_effects_def sync_effect_def)

lemma search_step_keeps: "search_inv s \<Longrightarrow> search_can s e \<Longrightarrow> search_inv (search_step s e)"
proof -
  assume inv: "search_inv s" and can: "search_can s e"
  obtain b p now ev where s: "s = (b, p)" "e = (now, ev)" by (cases s, cases e) auto
  from inv have b: "sb_initial b = pg_query p" "sb_due b = None \<longleftrightarrow> sb_draft b = sb_lastCommitted b"
    "sb_lastCommitted b = sb_initial b \<or> trim (sb_lastCommitted b) = sb_initial b"
    by (auto simp: s search_inv_def)
  show ?thesis
  proof (cases ev)
    case (Typed x)
    then show ?thesis using b by (auto simp: s search_inv_def)
  next
    case Fires
    have "pg_query p = trim (sb_draft b)" if "pg_url (handleSearchCommit (trim (sb_draft b)) p) = pg_url p"
      using pg_query_commit [of "trim (sb_draft b)" p] that by (simp add: pg_query_def)
    then show ?thesis unfolding s Fires search_step.simps Let_def
      by (intro address_effects_keep) (simp_all add: b(1) pg_query_commit)
  next
    case (OnPage pe)
    have "pg_query (page_step p pe) = pg_query p" if "pg_url (page_step p pe) = pg_url p"
      using that by (simp add: pg_query_def)
    then show ?thesis unfolding s OnPage search_step.simps Let_def
      by (intro address_effects_keep) (use b in auto)
  qed
qed

interpretation search_machine: machine search_can search_step search_inv
  by unfold_locales (rule search_step_keeps)

text \<open>Keystrokes, each before the timer the last one started is due; \<open>due\<close> is that time.\<close>

fun typing_burst :: "int \<Rightarrow> (int \<times> search_event) list \<Rightarrow> bool" where
  "typing_burst due [] = True"
| "typing_burst due ((now, Typed s) # es) = (now < due \<and> typing_burst (now + DEBOUNCE_MS) es)"
| "typing_burst due _ = False"

lemma burst_leaves_page:
  "typing_burst due es \<Longrightarrow> snd (foldl search_step s es) = snd s
     \<and> sb_lastCommitted (fst (foldl search_step s es)) = sb_lastCommitted (fst s)"
proof (induction due es arbitrary: s rule: typing_burst.induct)
  case (2 due now x es)
  then show ?case by (cases s) auto
qed auto

text \<open>A space typed before a pause is taken out of the field: the trimmed text comes back from the address.\<close>

lemma search_pause_drops_space:
  assumes "trim s \<noteq> s" and "trim s \<noteq> pg_query p" and "sb_initial b = pg_query p"
  shows "sb_draft (fst (search_step (search_step (b, p) (t, Typed s)) (t', Fires))) = trim s"
proof -
  have "pg_url (handleSearchCommit (trim s) p) \<noteq> pg_url p"
    using assms(2) pg_query_commit [of "trim s" p] by (auto simp: pg_query_def)
  then show ?thesis using assms
    by (simp add: Let_def address_effects_def sync_effect_def pg_query_commit)
qed

section \<open>The folder form\<close>

record folder_target =
  ft_id :: string
  ft_name :: string
  ft_parent_id :: "string option option"

record folder_form =
  ff_open :: bool
  ff_editFolder :: "folder_target option"
  ff_parentId :: "string option"
  ff_isSubFolder :: bool
  ff_name :: string
  ff_error :: "js_error option"

definition folder_target_of :: "Folder \<Rightarrow> folder_target" where
  "folder_target_of f = \<lparr>ft_id = fo_id f, ft_name = fo_name f, ft_parent_id = fo_parent_id f\<rparr>"

text \<open>The three places the page mounts the form: a folder at the root, one inside the folder of the address,
  and the renaming of that folder, whose data may not have arrived.\<close>

fun folder_form_props :: "folder_modal \<Rightarrow> string option \<Rightarrow> Folder option \<Rightarrow> folder_form" where
  "folder_form_props CreateRoot folderId loaded =
     \<lparr>ff_open = False, ff_editFolder = None, ff_parentId = None, ff_isSubFolder = False, ff_name = [], ff_error = None\<rparr>"
| "folder_form_props CreateSub folderId loaded =
     \<lparr>ff_open = False, ff_editFolder = None, ff_parentId = folderId, ff_isSubFolder = True, ff_name = [], ff_error = None\<rparr>"
| "folder_form_props _ folderId loaded =
     \<lparr>ff_open = False, ff_editFolder = map_option folder_target_of loaded, ff_parentId = None, ff_isSubFolder = False,
      ff_name = [], ff_error = None\<rparr>"

definition folder_form_reset :: "folder_form \<Rightarrow> folder_form" where
  "folder_form_reset f =
     (if \<not> ff_open f then f
      else f\<lparr>ff_name := (case ff_editFolder f of None \<Rightarrow> [] | Some t \<Rightarrow> ft_name t), ff_error := None\<rparr>)"

definition folder_form_opened :: "folder_form \<Rightarrow> folder_form" where
  "folder_form_opened f = folder_form_reset (f\<lparr>ff_open := True\<rparr>)"

text \<open>The page renders again with the folder it has: what it passes as \<open>editFolder\<close> is a new object each
  time, so the effect runs; only from nothing to nothing is no change.\<close>

definition folder_form_rerendered :: "Folder option \<Rightarrow> folder_form \<Rightarrow> folder_form" where
  "folder_form_rerendered loaded f =
     (if loaded = None \<and> ff_editFolder f = None then f
      else folder_form_reset (f\<lparr>ff_editFolder := map_option folder_target_of loaded\<rparr>))"

datatype folder_title = RenameTitle | NewSubTitle | NewRootTitle

definition folder_form_title :: "folder_form \<Rightarrow> folder_title" where
  "folder_form_title f = (if ff_editFolder f \<noteq> None then RenameTitle else if ff_isSubFolder f then NewSubTitle else NewRootTitle)"

definition null_or :: "string option \<Rightarrow> json" where
  "null_or v = (case v of None \<Rightarrow> JNull | Some s \<Rightarrow> JStr s)"

definition folder_request :: "folder_form \<Rightarrow> mutation_hook" where
  "folder_request f =
     (case ff_editFolder f of
        Some t \<Rightarrow> useUpdateFolderMutation (ft_id t) (JObj ((''name'', JStr (trim (ff_name f)))
            # (case ft_parent_id t of None \<Rightarrow> [] | Some v \<Rightarrow> [(''parent_id'', null_or v)])))
      | None \<Rightarrow> useCreateFolderMutation (JObj [(''name'', JStr (trim (ff_name f))), (''parent_id'', null_or (ff_parentId f))]))"

definition folder_handleSubmit :: "'w net \<Rightarrow> folder_form \<times> 'w web_env \<Rightarrow> folder_form \<times> 'w web_env" where
  "folder_handleSubmit net s =
     (if trim (ff_name (fst s)) = [] then s
      else submit net (folder_request (fst s)) (\<lambda>_ f. f\<lparr>ff_open := False\<rparr>) (\<lambda>e f. f\<lparr>ff_error := Some e\<rparr>) s)"

lemma rename_keeps_place:
  assumes "ff_editFolder f = Some t"
  shows "m_path (folder_request f) = ''/api/v1/folders/'' @ ft_id t"
    and "m_invalidates (folder_request f) =
      [key_folders_byParent (case ft_parent_id t of None \<Rightarrow> None | Some p \<Rightarrow> p), key_folders_detail (ft_id t)]"
  using assms by (auto simp: folder_request_def useUpdateFolderMutation_def mutation_def json_str_field_def null_or_def split: option.splits)

text \<open>A rename started before the folder has been read makes a new folder at the root.\<close>

lemma early_rename_creates_root:
  assumes "f = folder_form_opened (folder_form_props RenameFolder folderId None)"
  shows "folder_form_title f = NewRootTitle
    \<and> folder_request (f\<lparr>ff_name := s\<rparr>) = useCreateFolderMutation (JObj [(''name'', JStr (trim s)), (''parent_id'', JNull)])"
  by (simp add: assms folder_form_opened_def folder_form_reset_def folder_form_title_def folder_request_def null_or_def)

text \<open>A page that renders again while the form is open puts the old name back.\<close>

lemma rerender_discards_name:
  assumes "ff_open f"
  shows "folder_form_rerendered (Some folder) (f\<lparr>ff_name := s\<rparr>)
    = f\<lparr>ff_editFolder := Some (folder_target_of folder), ff_name := fo_name folder, ff_error := None\<rparr>"
  using assms by (simp add: folder_form_rerendered_def folder_form_reset_def folder_target_of_def)

section \<open>The delete dialogs\<close>

text \<open>\<open>dd_rejected\<close> is the rejection of the handler's promise, which nothing handles. The web's action
  button closes its dialog when it is pressed, the desktop's does not.\<close>

record 'p delete_dialog =
  dd_open :: bool
  dd_rejected :: "js_error option"
  dd_page :: 'p

definition FolderDelete_handleConfirm ::
    "'w net \<Rightarrow> folder_target option \<Rightarrow> ('p \<Rightarrow> 'p) \<Rightarrow> 'p delete_dialog \<times> 'w web_env \<Rightarrow> 'p delete_dialog \<times> 'w web_env" where
  "FolderDelete_handleConfirm net folder onDeleted s =
     (case folder of
        None \<Rightarrow> s
      | Some t \<Rightarrow> submit net (useDeleteFolderMutation (ft_id t) (nullish (ft_parent_id t) None))
          (\<lambda>_ d. d\<lparr>dd_open := False, dd_page := onDeleted (dd_page d)\<rparr>) (\<lambda>e d. d\<lparr>dd_rejected := Some e\<rparr>) s)"

definition ItemDelete_handleConfirm ::
    "'w net \<Rightarrow> (string \<times> string) option \<Rightarrow> string \<Rightarrow> ('p \<Rightarrow> 'p) \<Rightarrow> 'p delete_dialog \<times> 'w web_env \<Rightarrow> 'p delete_dialog \<times> 'w web_env" where
  "ItemDelete_handleConfirm net item folderId onDeleted s =
     (case item of
        None \<Rightarrow> s
      | Some (i, name) \<Rightarrow> submit net (useDeleteItemMutation folderId i)
          (\<lambda>_ d. d\<lparr>dd_open := False, dd_page := onDeleted (dd_page d)\<rparr>) (\<lambda>e d. d\<lparr>dd_rejected := Some e\<rparr>) s)"

definition alert_action :: "('p delete_dialog \<times> 'e \<Rightarrow> 'p delete_dialog \<times> 'e) \<Rightarrow> 'p delete_dialog \<times> 'e \<Rightarrow> 'p delete_dialog \<times> 'e" where
  "alert_action handler s = handler ((fst s)\<lparr>dd_open := False\<rparr>, snd s)"

definition cl_ItemDelete_handleConfirm ::
    "'w shell \<Rightarrow> (string \<times> string) option \<Rightarrow> string \<Rightarrow> ('p \<Rightarrow> 'p) \<Rightarrow> 'p delete_dialog \<times> 'w desktop \<Rightarrow> 'p delete_dialog \<times> 'w desktop" where
  "cl_ItemDelete_handleConfirm sh item folderId onDeleted s =
     (let (dlg, d) = s in
      case item of
        None \<Rightarrow> s
      | Some (i, name) \<Rightarrow>
          (case cl_run_mutation sh (cl_useDeleteItemMutation folderId i) d of
             (Inl e, _, d1) \<Rightarrow> (dlg\<lparr>dd_rejected := Some e\<rparr>, d1)
           | (Inr _, _, d1) \<Rightarrow> (dlg\<lparr>dd_open := False, dd_page := onDeleted (dd_page dlg)\<rparr>, d1)))"

lemma failed_delete_closes_silently:
  assumes "fst (run_mutation net (useDeleteItemMutation folderId i) env) = Inl e"
  shows "fst (alert_action (ItemDelete_handleConfirm net (Some (i, name)) folderId onDeleted) (dlg, env))
    = dlg\<lparr>dd_open := False, dd_rejected := Some e\<rparr>"
  using assms by (auto simp: alert_action_def ItemDelete_handleConfirm_def submit_def split: prod.splits sum.splits)

lemma cl_failed_delete_stays:
  assumes "fst (cl_run_mutation sh (cl_useDeleteItemMutation folderId i) d) = Inl e"
  shows "fst (cl_ItemDelete_handleConfirm sh (Some (i, name)) folderId onDeleted (dlg, d)) = dlg\<lparr>dd_rejected := Some e\<rparr>"
  using assms by (auto simp: cl_ItemDelete_handleConfirm_def split: prod.splits sum.splits)

section \<open>The desktop page\<close>

record desktop_inventory =
  di_page :: inventory_page
  di_formOpen :: bool
  di_editItem :: "Item option"
  di_deleteOpen :: bool
  di_deleteTarget :: "(string \<times> string) option"

definition cl_inventory_opened :: "inventory_url \<Rightarrow> desktop_inventory" where
  "cl_inventory_opened url = \<lparr>di_page = inventory_opened url, di_formOpen = False, di_editItem = None,
     di_deleteOpen = False, di_deleteTarget = None\<rparr>"

definition cl_handleSelectFolder :: "string \<Rightarrow> inventory_page \<Rightarrow> inventory_page" where
  "cl_handleSelectFolder i p = p\<lparr>pg_url := (pg_url p)\<lparr>u_folder := Some i, u_item := None\<rparr>\<rparr>"

definition cl_handleSearchCommit :: "string \<Rightarrow> inventory_page \<Rightarrow> inventory_page" where
  "cl_handleSearchCommit v p = p\<lparr>pg_url := (pg_url p)\<lparr>u_q := or_undefined v, u_item := None\<rparr>\<rparr>"

definition cl_handleNewItem :: "desktop_inventory \<Rightarrow> desktop_inventory" where
  "cl_handleNewItem s = s\<lparr>di_editItem := None, di_formOpen := True\<rparr>"

definition cl_handleEditItem :: "desktop_inventory \<Rightarrow> desktop_inventory" where
  "cl_handleEditItem s =
     (case cl_selectedItem (di_page s) of None \<Rightarrow> s | Some i \<Rightarrow> s\<lparr>di_editItem := Some i, di_formOpen := True\<rparr>)"

definition cl_handleDeleteItem :: "desktop_inventory \<Rightarrow> desktop_inventory" where
  "cl_handleDeleteItem s =
     (case cl_selectedItem (di_page s) of
        None \<Rightarrow> s
      | Some i \<Rightarrow> s\<lparr>di_deleteTarget := Some (i_id i, i_name i), di_deleteOpen := True\<rparr>)"

definition cl_onDeleted :: "desktop_inventory \<Rightarrow> desktop_inventory" where
  "cl_onDeleted s = s\<lparr>di_page := (di_page s)\<lparr>pg_url := (pg_url (di_page s))\<lparr>u_item := None\<rparr>\<rparr>, di_deleteTarget := None\<rparr>"

text \<open>The list's own loading, error and emptiness, by which of the two queries is shown.\<close>

definition cl_list_loading :: "desktop_inventory \<Rightarrow> bool \<times> bool \<Rightarrow> bool \<times> bool \<Rightarrow> bool" where
  "cl_list_loading s itemsQ globalQ =
     (if pg_globalSearch (di_page s) then fst globalQ \<or> snd globalQ else fst itemsQ \<or> snd itemsQ)"

definition cl_folderSelected :: "desktop_inventory \<Rightarrow> bool" where
  "cl_folderSelected s \<longleftrightarrow> (if pg_globalSearch (di_page s) then True else truthy (u_folder (pg_url (di_page s))))"

datatype inv_event =
    DSelectFolder string | DSelectItem string | DCommit string | DToggleGlobal | DNew | DEdit | DDelete
  | DFormOpen bool | DDeleteOpen bool | DDeleted | DListArrives "Item list option" | DSearchArrives "Item list option"
  | DHistory inventory_url

definition di_update :: "(inventory_page \<Rightarrow> inventory_page) \<Rightarrow> desktop_inventory \<Rightarrow> desktop_inventory" where
  "di_update f s = s\<lparr>di_page := f (di_page s)\<rparr>"

fun inv_step :: "desktop_inventory \<Rightarrow> inv_event \<Rightarrow> desktop_inventory" where
  "inv_step s (DSelectFolder i) = di_update (cl_handleSelectFolder i) s"
| "inv_step s (DSelectItem i) = di_update (cl_handleSelectItem i) s"
| "inv_step s (DCommit v) = di_update (cl_handleSearchCommit v) s"
| "inv_step s DToggleGlobal = di_update (\<lambda>p. cl_handleSearchCommit [] (p\<lparr>pg_globalSearch := \<not> pg_globalSearch p\<rparr>)) s"
| "inv_step s DNew = cl_handleNewItem s"
| "inv_step s DEdit = cl_handleEditItem s"
| "inv_step s DDelete = cl_handleDeleteItem s"
| "inv_step s (DFormOpen v) = s\<lparr>di_formOpen := v\<rparr>"
| "inv_step s (DDeleteOpen v) = s\<lparr>di_deleteOpen := v\<rparr>"
| "inv_step s DDeleted = cl_onDeleted (s\<lparr>di_deleteOpen := False\<rparr>)"
| "inv_step s (DListArrives xs) = di_update (\<lambda>p. p\<lparr>pg_items := xs\<rparr>) s"
| "inv_step s (DSearchArrives xs) = di_update (\<lambda>p. p\<lparr>pg_found := xs\<rparr>) s"
| "inv_step s (DHistory url) = di_update (\<lambda>p. p\<lparr>pg_url := url\<rparr>) s"

text \<open>The buttons of the toolbar need no global search and their folder or item; an open dialog covers the
  page, but the search field's timer still fires.\<close>

definition inv_dialog :: "desktop_inventory \<Rightarrow> bool" where
  "inv_dialog s \<longleftrightarrow> (di_formOpen s \<and> truthy (u_folder (pg_url (di_page s)))) \<or> di_deleteOpen s"

fun inv_can :: "desktop_inventory \<Rightarrow> inv_event \<Rightarrow> bool" where
  "inv_can s DNew \<longleftrightarrow> \<not> inv_dialog s \<and> \<not> pg_globalSearch (di_page s) \<and> truthy (u_folder (pg_url (di_page s)))"
| "inv_can s DEdit \<longleftrightarrow> \<not> inv_dialog s \<and> \<not> pg_globalSearch (di_page s) \<and> cl_selectedItem (di_page s) \<noteq> None"
| "inv_can s DDelete \<longleftrightarrow> \<not> inv_dialog s \<and> \<not> pg_globalSearch (di_page s) \<and> cl_selectedItem (di_page s) \<noteq> None"
| "inv_can s (DSelectFolder i) \<longleftrightarrow> \<not> inv_dialog s"
| "inv_can s (DSelectItem i) \<longleftrightarrow> \<not> inv_dialog s"
| "inv_can s DToggleGlobal \<longleftrightarrow> \<not> inv_dialog s"
| "inv_can s (DFormOpen v) \<longleftrightarrow> \<not> v"
| "inv_can s (DDeleteOpen v) \<longleftrightarrow> \<not> v"
| "inv_can s DDeleted \<longleftrightarrow> di_deleteTarget s \<noteq> None"
| "inv_can s (DHistory url) \<longleftrightarrow> False"
| "inv_can s _ \<longleftrightarrow> True"

lemma cl_inventory_eq:
  shows "cl_handleSelectFolder = handleSelectFolder" and "cl_handleSearchCommit = handleSearchCommit"
  unfolding cl_handleSelectFolder_def handleSelectFolder_def cl_handleSearchCommit_def handleSearchCommit_def by (rule refl)+

text \<open>A dialog that is open belongs to the item of the address, the delete dialog's name included.\<close>

definition dialog_inv :: "desktop_inventory \<Rightarrow> bool" where
  "dialog_inv s \<longleftrightarrow>
     (di_deleteOpen s \<longrightarrow> (\<exists>i n. di_deleteTarget s = Some (i, n) \<and> u_item (pg_url (di_page s)) \<in> {None, Some i}))
     \<and> (di_formOpen s \<and> truthy (u_folder (pg_url (di_page s)))
        \<longrightarrow> (\<forall>i. di_editItem s = Some i \<longrightarrow> u_item (pg_url (di_page s)) \<in> {None, Some (i_id i)}))"

lemma cl_selected_id: "cl_selectedItem p = Some i \<Longrightarrow> u_item (pg_url p) = Some (i_id i)"
  unfolding cl_selectedItem_def by (rule item_in_id)

lemma inv_step_keeps: "dialog_inv s \<Longrightarrow> inv_can s e \<Longrightarrow> dialog_inv (inv_step s e)"
proof (cases e)
  case DEdit
  assume "dialog_inv s" "inv_can s e"
  with DEdit show ?thesis
    by (auto simp: dialog_inv_def inv_dialog_def cl_handleEditItem_def dest: cl_selected_id split: option.splits)
next
  case DDelete
  assume "dialog_inv s" "inv_can s e"
  with DDelete show ?thesis
    by (auto simp: dialog_inv_def inv_dialog_def cl_handleDeleteItem_def dest: cl_selected_id split: option.splits)
qed (auto simp: dialog_inv_def inv_dialog_def di_update_def cl_handleSelectFolder_def cl_handleSelectItem_def
      cl_handleSearchCommit_def cl_handleNewItem_def cl_onDeleted_def)

interpretation desktop_inventory: machine inv_can inv_step dialog_inv
  by unfold_locales (rule inv_step_keeps)

section \<open>Properties\<close>

text \<open>
  C31: The tree shows the folders that are open. When no folder lies below itself, so that some rank drops
  from a folder to those the server lists in it, enough fuel draws the tree, and its folder rows are exactly
  the roots and, below every open folder shown, the folders listed in it, at their depth, each with its own
  open and selected state. The desktop's tree is the same.
\<close>
theorem tree_shows_open_folders:
  assumes "\<And>i c. c \<in> set (tree_children ask i) \<Longrightarrow> rank (fo_id c) < (rank i :: nat)"
    and "\<not> fq_isLoading (ask useRootFolders)" and "\<not> fq_isError (ask useRootFolders)"
    and "fq_data (ask useRootFolders) = Some roots" and "roots \<noteq> []"
  shows "\<exists>n rs. FolderTree n ask ex sel = Some (TreeRows rs) \<and> cl_FolderTree n ask ex sel = Some (TreeRows rs)
    \<and> rows_of ex sel (\<lambda>d f. \<exists>r\<in>set roots. opened_below ask ex 0 r d f) rs"
proof -
  define n where "n = Suc (Max (set (map (\<lambda>r. rank (fo_id r)) roots)))"
  have "rank (fo_id r) < n" if "r \<in> set roots" for r using that by (simp add: n_def less_Suc_eq_le)
  then have "\<forall>r\<in>set roots. \<exists>rs. FolderTreeNode n ask ex sel 0 r = Some rs \<and> rows_of ex sel (opened_below ask ex 0 r) rs"
    using node_rows [where ask = ask and rank = rank, OF assms(1)] by blast
  then obtain g where g: "\<forall>r\<in>set roots. FolderTreeNode n ask ex sel 0 r = Some (g r)"
    "\<forall>r\<in>set roots. rows_of ex sel (opened_below ask ex 0 r) (g r)" by metis
  have "FolderTree n ask ex sel = Some (TreeRows (concat (map g roots)))"
    using assms(2-5) those_map_Some [OF g(1)] by (simp add: FolderTree_def)
  moreover have "rows_of ex sel (\<lambda>d f. \<exists>r\<in>set roots. opened_below ask ex 0 r d f) (concat (map g roots))"
    using g(2) unfolding rows_of_def by auto
  ultimately show ?thesis by (auto simp: cl_tree_eq)
qed

text \<open>A tree of two folders: \<open>a\<close> at the root, \<open>b\<close> inside it.\<close>

definition demo_folder :: "string \<Rightarrow> Folder" where
  "demo_folder i = \<lparr>fo_id = i, fo_parent_id = None, fo_name = i, fo_position = 0, fo_created_by = [], fo_created_at = [],
     fo_updated_at = [], fo_permission = ''read''\<rparr>"

definition demo_ask :: "query_hook \<Rightarrow> folder_query" where
  "demo_ask q = \<lparr>fq_isLoading = False, fq_isError = False, fq_isSuccess = True,
     fq_data = Some (if q_key q = key_folders_byParent None then [demo_folder ''a'']
       else if q_key q = key_folders_byParent (Some ''a'') then [demo_folder ''b''] else [])\<rparr>"

lemma demo_children:
  "tree_children demo_ask i = (if i = ''a'' then [demo_folder ''b''] else [])"
  by (simp add: tree_children_def demo_ask_def useChildFolders_def hook_defs key_folders_byParent_def key_opt_def)

lemma tree_shows_open_folders_witness:
  "\<exists>n rs. FolderTree n demo_ask {''a''} None = Some (TreeRows rs) \<and> cl_FolderTree n demo_ask {''a''} None = Some (TreeRows rs)
    \<and> rows_of {''a''} None (\<lambda>d f. \<exists>r\<in>set [demo_folder ''a'']. opened_below demo_ask {''a''} 0 r d f) rs"
proof (rule tree_shows_open_folders [where rank = "\<lambda>i. if i = ''a'' then 1 else 0"])
  show "c \<in> set (tree_children demo_ask i) \<Longrightarrow> (if fo_id c = ''a'' then 1 else 0) < (if i = ''a'' then 1 else (0::nat))" for i c
    by (simp add: demo_children demo_folder_def split: if_splits)
qed (simp_all add: demo_ask_def useRootFolders_def hook_defs)

text \<open>
  C32: The search field waits for a pause and then follows the address. After any events, a burst of
  keystrokes leaves the page alone, and once the timer of the last one is due the page searches for its
  text, trimmed. At rest the field shows what the address searches for, up to the white space around it.
\<close>
theorem search_waits_for_a_pause:
  assumes "possible_run search_can search_step (search_mounted (pg_query p0), p0) (es @ typed @ [(t, Typed s)])"
    and "typing_burst due (typed @ [(t, Typed s)])"
    and "foldl search_step (search_mounted (pg_query p0), p0) es = (b, p)" and "s \<noteq> sb_lastCommitted b"
    and "foldl search_step (b, p) (typed @ [(t, Typed s)]) = (b1, p1)" and "search_step (b1, p1) (t', Fires) = (b2, p2)"
  shows "p1 = p \<and> sb_due b1 = Some (t + DEBOUNCE_MS) \<and> p2 = handleSearchCommit (trim s) p
    \<and> sb_due b2 = None \<and> (sb_draft b2 = s \<or> sb_draft b2 = trim s) \<and> pg_query p2 = trim s"
proof -
  have p1: "p1 = p" "sb_lastCommitted b1 = sb_lastCommitted b"
    using burst_leaves_page [OF assms(2), of "(b, p)"] assms(5) by simp_all
  from assms(5) have b1: "sb_draft b1 = s" "sb_due b1 = (if s = sb_lastCommitted b1 then None else Some (t + DEBOUNCE_MS))"
    by (cases "foldl search_step (b, p) typed"; auto simp: commit_effect_def)+
  from assms(6) b1(1) have p2: "p2 = handleSearchCommit (trim s) p"
    and b2: "b2 = address_effects t' p p2 (b1\<lparr>sb_lastCommitted := s, sb_due := None\<rparr>)"
    by (auto simp: Let_def p1(1))
  have "sb_due b2 = None \<and> (sb_draft b2 = s \<or> sb_draft b2 = trim s)"
    unfolding b2 address_effects_def using b1(1) by (auto simp: sync_effect_def p2 pg_query_commit commit_effect_def)
  then show ?thesis using p1 b1(2) p2 assms(4) by (simp add: pg_query_commit)
qed

lemma search_waits_for_a_pause_witness:
  defines "p0 \<equiv> inventory_opened \<lparr>u_folder = Some ''f'', u_item = None, u_q = None\<rparr>"
  shows "snd (search_step (foldl search_step (search_mounted (pg_query p0), p0) [(0, Typed ''a''), (100, Typed ''ab '')]) (400, Fires))
    = handleSearchCommit (trim ''ab '') p0"
proof -
  obtain b1 p1 where 1: "foldl search_step (search_mounted (pg_query p0), p0) ([(0, Typed ''a'')] @ [(100, Typed ''ab '')]) = (b1, p1)" by fastforce
  obtain b2 p2 where 2: "search_step (b1, p1) (400, Fires) = (b2, p2)" by fastforce
  have "p2 = handleSearchCommit (trim ''ab '') p0"
    using search_waits_for_a_pause [of p0 "[]" "[(0, Typed ''a'')]" 100 "''ab ''" 1 "search_mounted (pg_query p0)" p0 b1 p1 400 b2 p2] 1 2
    by (simp add: p0_def search_mounted_def inventory_opened_def pg_query_def commit_effect_def DEBOUNCE_MS_def)
  then show ?thesis using 1 2 by (simp del: search_step.simps)
qed

text \<open>
  A desktop dialog is about the item of the address. Whatever is clicked and whatever arrives, as long as
  the address changes by clicking only, an open delete dialog names, and an open form edits, the item the
  address names or, when a search committed meanwhile has cleared it, no other.
\<close>
theorem desktop_dialog_acts_on_selected_item:
  assumes "possible_run inv_can inv_step (cl_inventory_opened url) es"
    and "s = foldl inv_step (cl_inventory_opened url) es" and "u_item (pg_url (di_page s)) = Some j"
  shows "(di_deleteOpen s \<longrightarrow> map_option fst (di_deleteTarget s) = Some j)
    \<and> (di_formOpen s \<and> truthy (u_folder (pg_url (di_page s))) \<longrightarrow> di_editItem s = None \<or> map_option i_id (di_editItem s) = Some j)"
proof -
  have "dialog_inv (cl_inventory_opened url)" by (simp add: dialog_inv_def cl_inventory_opened_def)
  from desktop_inventory.run_keeps [OF this assms(1)] assms(2,3) show ?thesis by (auto simp: dialog_inv_def)
qed

lemma desktop_dialog_acts_on_selected_item_witness:
  "map_option fst (di_deleteTarget (foldl inv_step (cl_inventory_opened \<lparr>u_folder = Some ''f'', u_item = None, u_q = None\<rparr>)
     [DListArrives (Some [(demo_item None)]), DSelectItem (i_id (demo_item None)), DDelete])) = Some (i_id (demo_item None))"
  (is "map_option fst (di_deleteTarget (foldl inv_step ?s ?es)) = _")
proof -
  have "u_item (pg_url (di_page (foldl inv_step ?s ?es))) = Some (i_id (demo_item None))" "possible_run inv_can inv_step ?s ?es"
    "di_deleteOpen (foldl inv_step ?s ?es)"
    by (simp_all add: cl_inventory_opened_def inventory_opened_def di_update_def cl_handleSelectItem_def cl_handleDeleteItem_def
        cl_selectedItem_def activeItems_def item_in_def inv_dialog_def)
  then show ?thesis using desktop_dialog_acts_on_selected_item [OF _ refl] by blast
qed

end
