(* ===== verification/SmallPages.thy ===== *)
theory SmallPages
  imports InventoryPage Overviews AuditRows
begin

text \<open>
  Smaller pages and parts: the templates of the item form (\<open>item-form-template-data.ts\<close>, \<open>item-form-modal.tsx\<close>),
  the gallery of the user's own templates (\<open>template-gallery.tsx\<close>), the rows of the item lists (\<open>item-list.tsx\<close> of both
  applications), the favourites, the forgotten password, the roles of the administration and the rest of its dashboard.
\<close>

section \<open>The templates of the item form\<close>

record item_template =
  tm_id :: string
  tm_typeKey :: string
  tm_defaults :: "(string \<times> string) list"

definition ITEM_TEMPLATES :: "item_template list" where
  "ITEM_TEMPLATES = map (\<lambda>(i, t, ds). \<lparr>tm_id = i, tm_typeKey = t, tm_defaults = ds\<rparr>)
    [(''mysql'', ''database'', [(''db_type'', ''mysql''), (''port'', ''3306''), (''ssl_mode'', ''prefer'')]),
     (''postgres'', ''database'', [(''db_type'', ''postgres''), (''port'', ''5432''), (''ssl_mode'', ''require'')]),
     (''linux-server'', ''server'', [(''ssh_port'', ''22''), (''os'', ''Ubuntu 22.04''), (''environment'', ''prod''), (''criticality'', ''high'')]),
     (''ssh-key'', ''ssh_key'', [(''ssh_port'', ''22'')]),
     (''aws'', ''cloud_credential'', [(''provider'', ''aws''), (''region'', ''eu-central-1'')]),
     (''gcp'', ''cloud_credential'', [(''provider'', ''gcp''), (''region'', ''europe-west1'')]),
     (''certificate'', ''certificate'', []),
     (''api-key'', ''url'', [(''environment'', ''prod'')]),
     (''web-url'', ''url'', [(''environment'', ''prod'')]),
     (''note'', ''note'', []),
     (''generic'', ''generic'', [])]"

text \<open>The defaults are set when the effect that rebuilds the fields has run.\<close>

definition template_values :: "FieldDefinition list \<Rightarrow> (string \<times> string) list \<Rightarrow> (nat \<times> string) list" where
  "template_values defs ds = List.map_filter (\<lambda>(k, v). map_option (\<lambda>d. (fd_id d, v)) (find (\<lambda>d. fd_key d = k) defs)) ds"

definition set_values :: "(nat \<times> string) list \<Rightarrow> field_map \<Rightarrow> field_map" where
  "set_values vs m = foldl (\<lambda>m (i, v). fieldReducer m (SetField i v)) m vs"

definition handleTemplateSelect ::
    "item_template \<Rightarrow> ItemType list \<Rightarrow> FieldDefinition list \<Rightarrow> item_form \<Rightarrow> item_form" where
  "handleTemplateSelect tmpl itemTypes defs form =
     (case find (\<lambda>t. it_key t = tm_typeKey tmpl) itemTypes of
        None \<Rightarrow> form
      | Some matched \<Rightarrow>
          (let form1 = choose_type (show_nat (it_id matched)) itemTypes defs None form
           in form1\<lparr>fm_fields := set_values (template_values defs (tm_defaults tmpl)) (fm_fields form1)\<rparr>))"

text \<open>Templates of one type set the same fields.\<close>

lemma templates_of_a_type:
  "\<forall>a\<in>set ITEM_TEMPLATES. \<forall>b\<in>set ITEM_TEMPLATES. tm_typeKey a = tm_typeKey b \<longrightarrow> map fst (tm_defaults a) = map fst (tm_defaults b)"
  by (simp add: ITEM_TEMPLATES_def)

lemma template_values_ids:
  "map fst ds = map fst ds' \<Longrightarrow> map fst (template_values defs ds) = map fst (template_values defs ds')"
proof (induction ds arbitrary: ds')
  case (Cons x ds)
  then obtain k v v' es where x: "x = (k, v)" "ds' = (k, v') # es" "map fst ds = map fst es"
    by (cases x; cases ds') auto
  show ?case using Cons.IH [OF x(3)]
    by (simp add: x template_values_def List.map_filter_simps split: option.split)
qed (simp add: template_values_def)

lemma set_values_ok [simp, intro]: "field_map_ok m \<Longrightarrow> field_map_ok (set_values vs m)"
  unfolding set_values_def by (induction vs arbitrary: m) auto

lemma set_values_map_of:
  "field_map_ok m \<Longrightarrow> map_of (set_values vs m) i = (case map_of (rev vs) i of
       None \<Rightarrow> map_of m i
     | Some v \<Rightarrow> Some \<lparr>fs_value = Some v, fs_visible = (case map_of m i of None \<Rightarrow> False | Some f \<Rightarrow> fs_visible f)\<rparr>)"
proof (induction vs arbitrary: m)
  case (Cons x vs)
  obtain j v where x: "x = (j, v)" by (cases x)
  have "set_values (x # vs) m = set_values vs (fieldReducer m (SetField j v))" by (simp add: set_values_def x)
  moreover have "field_map_ok (fieldReducer m (SetField j v))" using Cons.prems by auto
  ultimately show ?case using Cons.IH [of "fieldReducer m (SetField j v)"] Cons.prems
    by (auto simp: x map_of_obj_set map_add_def split: option.splits)
qed (simp add: set_values_def)

lemma set_values_again:
  assumes "map fst vs = map fst ws" and "field_map_ok m"
  shows "map_of (set_values ws (set_values vs m)) i = map_of (set_values ws m) i"
proof -
  have "map_of (rev vs) i = None \<longleftrightarrow> map_of (rev ws) i = None"
    using assms(1) by (simp add: map_of_eq_None_iff flip: set_map)
  then show ?thesis using assms(2) by (auto simp: set_values_map_of split: option.splits)
qed

section \<open>The user's own templates\<close>

record own_template =
  ow_id :: string
  ow_name :: string
  ow_description :: "string option"
  ow_fields :: json
  ow_tags :: "string list"
  ow_is_public :: bool
  ow_created_by :: string

record gallery =
  ga_search :: string
  ga_showCreateForm :: bool
  ga_newName :: string
  ga_newIsPublic :: bool
  ga_editing :: "own_template option"
  ga_editName :: string
  ga_editDesc :: string
  ga_editIsPublic :: bool

definition gallery_mounted :: gallery where
  "gallery_mounted = \<lparr>ga_search = [], ga_showCreateForm = False, ga_newName = [], ga_newIsPublic = False, ga_editing = None,
     ga_editName = [], ga_editDesc = [], ga_editIsPublic = False\<rparr>"

text \<open>\<open>a.includes(b)\<close> on texts; lower case is a parameter.\<close>

fun text_includes :: "string \<Rightarrow> string \<Rightarrow> bool" where
  "text_includes s p \<longleftrightarrow> take (length p) s = p \<or> (case s of [] \<Rightarrow> False | _ # s' \<Rightarrow> text_includes s' p)"

definition gallery_filtered :: "(string \<Rightarrow> string) \<Rightarrow> string \<Rightarrow> own_template list option \<Rightarrow> own_template list" where
  "gallery_filtered lower search templates =
     filter (\<lambda>t. search = [] \<or> text_includes (lower (ow_name t)) (lower search)
       \<or> text_includes (lower (nullish (ow_description t) [])) (lower search)) (nullish templates [])"

definition gallery_tags :: "own_template \<Rightarrow> string list" where
  "gallery_tags t = take 3 (ow_tags t)"

definition gallery_own :: "string option \<Rightarrow> own_template \<Rightarrow> bool" where
  "gallery_own userId t \<longleftrightarrow> Some (ow_created_by t) = userId"

datatype gallery_event =
    SearchTemplates string | OpenTemplateForm | CancelTemplateForm | TypeNewName string | SetNewPublic bool | CreateTemplate | TemplateCreated
  | EditTemplate own_template | CloseTemplateEdit | TypeEditName string | TypeEditDesc string | SetEditPublic bool
  | SaveTemplate | TemplateSaved | DeleteTemplate own_template

definition template_json :: "gallery \<Rightarrow> json" where
  "template_json g = JObj [(''name'', JStr (trim (ga_newName g))), (''item_type_id'', JNum 1), (''fields'', JArr []),
     (''tags'', JArr []), (''is_public'', JBool (ga_newIsPublic g))]"

definition template_edit_json :: "gallery \<Rightarrow> json" where
  "template_edit_json g = JObj ([(''name'', JStr (trim (ga_editName g)))]
     @ opt_str ''description'' (or_undefined (trim (ga_editDesc g)))
     @ [(''fields'', case ga_editing g of None \<Rightarrow> JArr [] | Some t \<Rightarrow> ow_fields t),
        (''tags'', JArr (map JStr (case ga_editing g of None \<Rightarrow> [] | Some t \<Rightarrow> ow_tags t))),
        (''is_public'', JBool (ga_editIsPublic g))])"

fun gallery_sends :: "gallery \<Rightarrow> gallery_event \<Rightarrow> mutation_hook list" where
  "gallery_sends g CreateTemplate = (if trim (ga_newName g) = [] then [] else [useCreateTemplateMutation (template_json g)])"
| "gallery_sends g SaveTemplate = (if trim (ga_editName g) = [] then []
     else [useUpdateTemplateMutation (case ga_editing g of None \<Rightarrow> [] | Some t \<Rightarrow> ow_id t) (template_edit_json g)])"
| "gallery_sends g (DeleteTemplate t) = [useDeleteTemplateMutation (ow_id t)]"
| "gallery_sends g _ = []"

fun gallery_step :: "gallery \<Rightarrow> gallery_event \<Rightarrow> gallery" where
  "gallery_step g (SearchTemplates s) = g\<lparr>ga_search := s\<rparr>"
| "gallery_step g OpenTemplateForm = g\<lparr>ga_showCreateForm := True\<rparr>"
| "gallery_step g CancelTemplateForm = g\<lparr>ga_showCreateForm := False\<rparr>"
| "gallery_step g (TypeNewName s) = g\<lparr>ga_newName := s\<rparr>"
| "gallery_step g (SetNewPublic b) = g\<lparr>ga_newIsPublic := b\<rparr>"
| "gallery_step g TemplateCreated = g\<lparr>ga_newName := [], ga_showCreateForm := False\<rparr>"
| "gallery_step g (EditTemplate t) = g\<lparr>ga_editName := ow_name t, ga_editDesc := nullish (ow_description t) [],
     ga_editIsPublic := ow_is_public t, ga_editing := Some t\<rparr>"
| "gallery_step g CloseTemplateEdit = g\<lparr>ga_editing := None\<rparr>"
| "gallery_step g (TypeEditName s) = g\<lparr>ga_editName := s\<rparr>"
| "gallery_step g (TypeEditDesc s) = g\<lparr>ga_editDesc := s\<rparr>"
| "gallery_step g (SetEditPublic b) = g\<lparr>ga_editIsPublic := b\<rparr>"
| "gallery_step g TemplateSaved = g\<lparr>ga_editing := None\<rparr>"
| "gallery_step g _ = g"

text \<open>The next template is public because the last one was: only the name is cleared.\<close>

lemma next_template_stays_public:
  "ga_newIsPublic (foldl gallery_step g [SetNewPublic True, CreateTemplate, TemplateCreated, OpenTemplateForm])"
  by simp

text \<open>An edit left as it is sends what the template has, but for the white space around its texts and an empty description.\<close>

lemma untouched_template_edit:
  assumes "trim (ow_name t) = ow_name t" and "ow_description t \<noteq> Some []"
    and "\<forall>d. ow_description t = Some d \<longrightarrow> trim d = d" and "trim [] = []" and "ow_name t \<noteq> []"
  shows "gallery_sends (gallery_step g (EditTemplate t)) SaveTemplate = [useUpdateTemplateMutation (ow_id t)
    (JObj ([(''name'', JStr (ow_name t))] @ opt_str ''description'' (ow_description t)
      @ [(''fields'', ow_fields t), (''tags'', JArr (map JStr (ow_tags t))), (''is_public'', JBool (ow_is_public t))]))]"
  using assms by (cases "ow_description t") (auto simp: template_edit_json_def or_undefined_def)

section \<open>The item lists\<close>

datatype item_list_view = ChooseFolder | ListUnreadable | ListSkeleton | ListEmpty bool | ListRows "(string \<times> string \<times> bool) list"

text \<open>The web's rows name their type from a table of the program, the desktop's from the types of the server.\<close>

definition row_typeLabel :: "nat \<Rightarrow> string" where
  "row_typeLabel t = nullish (PIPELINE_TYPE_LABELS t) (''tip:'' @ show_nat t)"

definition cl_itemTypeLabel :: "ItemType list \<Rightarrow> nat \<Rightarrow> string" where
  "cl_itemTypeLabel types t = (case find (\<lambda>x. it_id x = t) types of None \<Rightarrow> ''tip:'' @ show_nat t | Some x \<Rightarrow> it_label x)"

definition ItemList ::
    "Item list option \<Rightarrow> bool \<Rightarrow> bool \<Rightarrow> bool \<Rightarrow> string \<Rightarrow> string option \<Rightarrow> item_list_view" where
  "ItemList items isLoading isError folderSelected searchQuery selectedItemId =
     (if \<not> folderSelected then ChooseFolder
      else if isError then ListUnreadable
      else case items of
        None \<Rightarrow> if isLoading then ListSkeleton else ListEmpty (searchQuery \<noteq> [])
      | Some xs \<Rightarrow> if xs = [] then ListEmpty (searchQuery \<noteq> [])
          else ListRows (map (\<lambda>i. (i_name i, row_typeLabel (i_item_type_id i), selectedItemId = Some (i_id i))) xs))"

definition cl_ItemList ::
    "ItemType list \<Rightarrow> Item list option \<Rightarrow> bool \<Rightarrow> bool \<Rightarrow> bool \<Rightarrow> string \<Rightarrow> string option \<Rightarrow> item_list_view" where
  "cl_ItemList itemTypes items isLoading isError folderSelected searchQuery selectedItemId =
     (if \<not> folderSelected then ChooseFolder
      else if isError then ListUnreadable
      else case items of
        None \<Rightarrow> if isLoading then ListSkeleton else ListRows []
      | Some xs \<Rightarrow> if xs = [] then ListEmpty (searchQuery \<noteq> [])
          else ListRows (map (\<lambda>i. (i_name i, cl_itemTypeLabel itemTypes (i_item_type_id i), selectedItemId = Some (i_id i))) xs))"

section \<open>Favourites and the forgotten password\<close>

record favorite_item =
  fv_id :: string
  fv_folder_id :: string
  fv_name :: string
  fv_description :: "string option"
  fv_pinned_at :: string

definition favorite_handleOpen :: "string \<Rightarrow> string \<Rightarrow> string" where
  "favorite_handleOpen itemId folderId = ''/inventory?folder='' @ folderId @ ''&item='' @ itemId"

text \<open>The row and the page each announce the removal.\<close>

definition favorite_handleRemove :: "'w net \<Rightarrow> favorite_item \<Rightarrow> string list \<times> 'w web_env \<Rightarrow> string list \<times> 'w web_env" where
  "favorite_handleRemove net item s =
     submit net (useRemoveFavoriteMutation (fv_id item)) (\<lambda>_ toasts. toasts @ [fv_name item] @ [fv_name item]) (\<lambda>_ toasts. toasts) s"

lemma favorite_removed_twice_announced:
  assumes "fst (run_mutation net (useRemoveFavoriteMutation (fv_id item)) env) = Inr v"
  shows "fst (favorite_handleRemove net item ([], env)) = [fv_name item, fv_name item]"
  using assms by (auto simp: favorite_handleRemove_def submit_def split: prod.splits)

record forgot_page =
  fg_email :: string
  fg_sent :: bool

definition forgot_mounted :: forgot_page where
  "forgot_mounted = \<lparr>fg_email = [], fg_sent = False\<rparr>"

definition forgot_handleSubmit :: "(string \<Rightarrow> string) \<Rightarrow> 'w net \<Rightarrow> forgot_page \<times> 'w web_env \<Rightarrow> forgot_page \<times> 'w web_env" where
  "forgot_handleSubmit lower net s =
     (if trim (fg_email (fst s)) = [] then s
      else submit net (useForgotPasswordMutation (lower (trim (fg_email (fst s)))))
             (\<lambda>_ p. p\<lparr>fg_sent := True\<rparr>) (\<lambda>_ p. p\<lparr>fg_sent := True\<rparr>) s)"

text \<open>Whoever answers whatever: the page shows the same.\<close>

lemma forgot_page_reveals_nothing:
  "fst (forgot_handleSubmit lower net (p, env)) = fst (forgot_handleSubmit lower' net' (p, env'))"
  by (simp add: forgot_handleSubmit_def submit_def split: prod.split sum.split)

section \<open>Roles\<close>

definition ROLE_DEFS :: "(string \<times> string) list" where
  "ROLE_DEFS = [(''admin'', ''Admin''), (''write'', ''Yazma''), (''read'', ''Okuma'')]"

definition roles_query :: query_hook where
  "roles_query = useUsers 200 0"

definition role_cards :: "AdminUser list option \<Rightarrow> (string \<times> AdminUser list) list" where
  "role_cards users = map (\<lambda>(name, label). (name, filter (\<lambda>u. name \<in> set (au_roles u)) (nullish users []))) ROLE_DEFS"

text \<open>The hook is made for the row that is pending; which render's hook the query library runs is its business:
  \<open>seen\<close> is the pending row of that render.\<close>

definition revoke_hook :: "string option \<Rightarrow> string \<Rightarrow> mutation_hook" where
  "revoke_hook pendingId role = useRevokeRoleMutation (nullish pendingId ''noop'') role"

datatype role_toast = RoleRemoved string | RoleNotRemoved js_error

record role_card =
  rk_pendingId :: "string option"
  rk_toasts :: "role_toast list"
  rk_refetches :: nat

definition role_handleRevoke ::
    "'w net \<Rightarrow> (string option \<Rightarrow> string option) \<Rightarrow> string \<times> string \<Rightarrow> string \<Rightarrow> role_card \<times> 'w web_env \<Rightarrow> role_card \<times> 'w web_env" where
  "role_handleRevoke net seen role userId s =
     (let s1 = ((fst s)\<lparr>rk_pendingId := Some userId\<rparr>, snd s);
          s2 = submit net (revoke_hook (seen (Some userId)) (fst role))
                 (\<lambda>_ c. c\<lparr>rk_toasts := rk_toasts c @ [RoleRemoved (snd role)], rk_refetches := rk_refetches c + 1\<rparr>)
                 (\<lambda>e c. c\<lparr>rk_toasts := rk_toasts c @ [RoleNotRemoved e]\<rparr>) s1
      in ((fst s2)\<lparr>rk_pendingId := None\<rparr>, snd s2))"

text \<open>With the hook of the render after the click the request names the user of the row.\<close>

lemma revoke_names_the_row: "m_path (revoke_hook (Some userId) role) = m_path (useRevokeRoleMutation userId role)"
  by (simp add: revoke_hook_def)

lemma role_revoked_once_or_reported:
  "let s' = fst (role_handleRevoke net seen role userId (c, env)) in
     rk_pendingId s' = None \<and> (rk_toasts s' = rk_toasts c @ [RoleRemoved (snd role)] \<and> rk_refetches s' = rk_refetches c + 1
       \<or> (\<exists>e. rk_toasts s' = rk_toasts c @ [RoleNotRemoved e]) \<and> rk_refetches s' = rk_refetches c)"
  by (rule submit_cases [of net "revoke_hook (seen (Some userId)) (fst role)"
        "\<lambda>_ c. c\<lparr>rk_toasts := rk_toasts c @ [RoleRemoved (snd role)], rk_refetches := rk_refetches c + 1\<rparr>"
        "\<lambda>e c. c\<lparr>rk_toasts := rk_toasts c @ [RoleNotRemoved e]\<rparr>" "(c\<lparr>rk_pendingId := Some userId\<rparr>, env)"])
    (simp_all add: role_handleRevoke_def Let_def)

text \<open>Every user the server gave is on the card of each of its roles.\<close>

lemma role_cards_complete:
  assumes "u \<in> set users" and "r \<in> set (au_roles u)" and "r \<in> set (map fst ROLE_DEFS)"
  shows "\<exists>us. (r, us) \<in> set (role_cards (Some users)) \<and> u \<in> set us"
proof -
  let ?card = "\<lambda>(name, label). (name, filter (\<lambda>u. name \<in> set (au_roles u)) (nullish (Some users) []))"
  from assms(3) obtain d where d: "d \<in> set ROLE_DEFS" "r = fst d" by (auto simp only: set_map elim: imageE)
  from d(1) have "?card d \<in> set (role_cards (Some users))" unfolding role_cards_def set_map by (rule imageI)
  then have "(r, filter (\<lambda>u. r \<in> set (au_roles u)) users) \<in> set (role_cards (Some users))"
    by (simp add: d(2) case_prod_beta)
  with assms(1,2) show ?thesis by (intro exI [of _ "filter (\<lambda>u. r \<in> set (au_roles u)) users"]) (simp only: set_filter mem_Collect_eq simp_thms)
qed

section \<open>The rest of the dashboard\<close>

definition dashboard_queries :: "query_hook list" where
  "dashboard_queries = [useUsers 500 0,
     useAuditLog \<lparr>af_action = None, af_actor_user_id = None, af_resource_type = None, af_resource_id = None,
       af_from = None, af_to = None, af_limit = Some 5, af_offset = Some 0\<rparr>,
     useNotificationsQuery, useHealthReportQuery 70 10]"

definition tr_Cc :: string where "tr_Cc = [CHR 0xC3, CHR 0x87]"
definition tr_Ss :: string where "tr_Ss = [CHR 0xC5, CHR 0x9E]"

definition ACTION_LABELS :: "(string \<times> string) list" where
  "ACTION_LABELS =
     [(''login'', ''Giri'' @ tr_s), (''logout'', tr_Cc @ tr_i @ ''k'' @ tr_i @ tr_s), (''login_failed'', ''Hatal'' @ tr_i @ '' giri'' @ tr_s),
      (''item_create'', ''Item olu'' @ tr_s @ ''turma''), (''item_update'', ''Item g'' @ tr_u @ ''ncelleme''),
      (''item_delete'', ''Item silme''), (''item_view'', ''Item g'' @ tr_o @ ''r'' @ tr_u @ ''nt'' @ tr_u @ ''leme''),
      (''folder_create'', ''Klas'' @ tr_o @ ''r olu'' @ tr_s @ ''turma''), (''folder_delete'', ''Klas'' @ tr_o @ ''r silme''),
      (''user_create'', ''Kullan'' @ tr_i @ ''c'' @ tr_i @ '' olu'' @ tr_s @ ''turma''), (''role_grant'', ''Rol verildi''),
      (''role_revoke'', ''Rol al'' @ tr_i @ ''nd'' @ tr_i), (''totp_enable'', ''TOTP etkinle'' @ tr_s @ ''tirildi''),
      (''totp_disable'', ''TOTP devre d'' @ tr_i @ tr_s @ tr_i), (''password_change'', tr_Ss @ ''ifre de'' @ tr_g @ ''i'' @ tr_s @ ''ikli'' @ tr_g @ ''i''),
      (''share_create'', ''Payla'' @ tr_s @ tr_i @ ''m olu'' @ tr_s @ ''turma''), (''share_revoke'', ''Payla'' @ tr_s @ tr_i @ ''m iptal'')]"

definition action_label :: "string \<Rightarrow> string" where
  "action_label a = nullish (map_of ACTION_LABELS a) a"

text \<open>The first eight units of the actor's id, the label and the kind of the resource.\<close>

definition dashboard_row :: "AuditLogEntry \<Rightarrow> string \<times> string \<times> string option" where
  "dashboard_row e = ((if truthy (ale_actor_user_id e) then js_prefix 8 (the (ale_actor_user_id e)) else ''sistem''),
     action_label (ale_action e), (if truthy (ale_resource_type e) then ale_resource_type e else None))"

datatype notif_icon = ClockIcon | AlertIcon | ShieldIcon | BellIcon

definition notifIcon :: "string \<Rightarrow> notif_icon" where
  "notifIcon t = (if t = ''expiry_warning'' then ClockIcon else if t = ''expiry_critical'' then AlertIcon
     else if t = ''break_glass'' then ShieldIcon else BellIcon)"

definition RadialGauge_share :: "int \<Rightarrow> rat" where
  "RadialGauge_share v = of_int v / 100"

record health_row =
  hr_item_id :: string
  hr_name :: string
  hr_severity :: string
  hr_health_score :: int

definition unhealthy_row :: "health_row \<Rightarrow> string \<times> int" where
  "unhealthy_row h = ((if hr_name h = [] then hr_item_id h else hr_name h), hr_health_score h)"

text \<open>The server names its events in two parts joined by a dot; none of them has a label.\<close>

lemma no_event_has_a_label:
  assumes "CHR ''.'' \<in> set a"
  shows "action_label a = a"
proof -
  have "list_all (\<lambda>k. CHR ''.'' \<notin> set k) (map fst ACTION_LABELS)"
    unfolding ACTION_LABELS_def list.map fst_conv by simp
  with assms have "a \<notin> set (map fst ACTION_LABELS)" by (auto simp: list_all_iff simp del: set_map)
  then have "map_of ACTION_LABELS a = None" by (simp add: map_of_eq_None_iff)
  then show ?thesis by (simp add: action_label_def)
qed

section \<open>Properties\<close>

lemma initial_found:
  "k \<in> it_id ` set itemTypes \<Longrightarrow> \<exists>m. initial_for k itemTypes defs = Some m"
  by (cases "find (\<lambda>t. it_id t = k) itemTypes") (auto simp: initial_for_def find_None_iff)

text \<open>The form has a type and the blank fields of that type.\<close>

definition fresh_form :: "ItemType list \<Rightarrow> FieldDefinition list \<Rightarrow> nat \<Rightarrow> item_form \<Rightarrow> bool" where
  "fresh_form itemTypes defs k f \<longleftrightarrow> k \<in> it_id ` set itemTypes \<and> fm_itemTypeId f = show_nat k
     \<and> initial_for k itemTypes defs = Some (fm_fields f)"

lemma fresh_create:
  assumes "itemTypes \<noteq> []"
  shows "fresh_form itemTypes defs (it_id (hd itemTypes)) (load_create itemTypes defs None form)"
proof -
  have "it_id (hd itemTypes) \<in> it_id ` set itemTypes" using assms by simp
  moreover from initial_found [OF this, of defs] obtain m where "initial_for (it_id (hd itemTypes)) itemTypes defs = Some m" ..
  ultimately show ?thesis using assms
    by (cases itemTypes) (auto simp: fresh_form_def load_create_def fill_fields_def first_type_def read_show_nat)
qed

lemma choose_rebuilds:
  assumes "k \<in> it_id ` set itemTypes" and "fm_itemTypeId f = show_nat j" and "j \<noteq> k"
  shows "fresh_form itemTypes defs k (choose_type (show_nat k) itemTypes defs None f)"
  using assms initial_found [OF assms(1), of defs]
  by (auto simp: fresh_form_def choose_type_def fill_fields_def read_show_nat)

lemma choose_fresh:
  assumes "fresh_form itemTypes defs j f" and "k \<in> it_id ` set itemTypes"
  shows "fresh_form itemTypes defs k (choose_type (show_nat k) itemTypes defs None f)"
proof (cases "j = k")
  case True
  then show ?thesis using assms by (simp add: fresh_form_def choose_type_def read_show_nat)
next
  case False
  then show ?thesis using assms by (intro choose_rebuilds [of k itemTypes f j]) (simp_all add: fresh_form_def)
qed

lemma select_found:
  assumes "find (\<lambda>t. it_key t = tm_typeKey tmpl) itemTypes = Some t" and "fresh_form itemTypes defs j f"
    and "initial_for (it_id t) itemTypes defs = Some m"
  shows "fm_itemTypeId (handleTemplateSelect tmpl itemTypes defs f) = show_nat (it_id t)"
    and "fm_fields (handleTemplateSelect tmpl itemTypes defs f) = set_values (template_values defs (tm_defaults tmpl)) m"
proof -
  have "it_id t \<in> it_id ` set itemTypes" using assms(1) by (auto simp: find_Some_iff)
  from choose_fresh [OF assms(2) this] assms(3)
  have "fm_itemTypeId (choose_type (show_nat (it_id t)) itemTypes defs None f) = show_nat (it_id t)"
    "fm_fields (choose_type (show_nat (it_id t)) itemTypes defs None f) = m" by (simp_all add: fresh_form_def)
  then show "fm_itemTypeId (handleTemplateSelect tmpl itemTypes defs f) = show_nat (it_id t)"
    "fm_fields (handleTemplateSelect tmpl itemTypes defs f) = set_values (template_values defs (tm_defaults tmpl)) m"
    using assms(1) by (simp_all add: handleTemplateSelect_def Let_def)
qed

text \<open>
  The last template counts. After two templates have been chosen in a form opened for a new item, its
  type and its fields are those the second one gives alone: nothing of the first one is left.
\<close>
theorem last_template_wins:
  assumes "distinct (map it_id itemTypes)" and "a \<in> set ITEM_TEMPLATES" and "b \<in> set ITEM_TEMPLATES"
    and "\<exists>t\<in>set itemTypes. it_key t = tm_typeKey b" and "form0 = load_create itemTypes defs None form"
    and "two = handleTemplateSelect b itemTypes defs (handleTemplateSelect a itemTypes defs form0)"
    and "one = handleTemplateSelect b itemTypes defs form0"
  shows "fm_itemTypeId two = fm_itemTypeId one \<and> (\<forall>i. map_of (fm_fields two) i = map_of (fm_fields one) i)"
proof (cases "find (\<lambda>t. it_key t = tm_typeKey a) itemTypes")
  case None
  then show ?thesis by (simp add: assms(6,7) handleTemplateSelect_def)
next
  case (Some ta)
  let ?va = "template_values defs (tm_defaults a)" and ?vb = "template_values defs (tm_defaults b)"
  from assms(4) obtain tb where tb: "find (\<lambda>t. it_key t = tm_typeKey b) itemTypes = Some tb"
    by (cases "find (\<lambda>t. it_key t = tm_typeKey b) itemTypes") (auto simp: find_None_iff)
  have mem: "ta \<in> set itemTypes" "tb \<in> set itemTypes" "it_key ta = tm_typeKey a" "it_key tb = tm_typeKey b"
    using Some tb by (auto simp: find_Some_iff)
  from mem(1,2) have ids: "it_id ta \<in> it_id ` set itemTypes" "it_id tb \<in> it_id ` set itemTypes" by simp_all
  obtain ma where ma: "initial_for (it_id ta) itemTypes defs = Some ma" using initial_found [OF ids(1)] ..
  obtain mb where mb: "initial_for (it_id tb) itemTypes defs = Some mb" using initial_found [OF ids(2)] ..
  note m = ma mb
  have fresh: "fresh_form itemTypes defs (it_id (hd itemTypes)) form0"
    unfolding assms(5) by (rule fresh_create) (use mem(1) in auto)
  note a = select_found [OF Some fresh m(1)] and one = select_found [OF tb fresh m(2), folded assms(7)]
  have ok: "field_map_ok mb" using m(2) by (rule initial_for_ok)
  show ?thesis
  proof (cases "it_id ta = it_id tb")
    case True
    have "inj_on it_id (set itemTypes)" using assms(1) by (simp add: distinct_map)
    from inj_onD [OF this True mem(1,2)] have "ta = tb" .
    with mem(3,4) have "tm_typeKey a = tm_typeKey b" by simp
    then have "map fst (tm_defaults a) = map fst (tm_defaults b)"
      by (rule templates_of_a_type [THEN bspec, OF assms(2), THEN bspec, OF assms(3), THEN mp])
    then have same: "map fst ?va = map fst ?vb" by (rule template_values_ids)
    let ?f = "handleTemplateSelect a itemTypes defs form0"
    from True m have "ma = mb" by simp
    have "choose_type (show_nat (it_id tb)) itemTypes defs None ?f = ?f\<lparr>fm_itemTypeId := show_nat (it_id tb)\<rparr>"
      using a(1) True by (simp add: choose_type_def)
    then have two: "fm_itemTypeId two = show_nat (it_id tb)" "fm_fields two = set_values ?vb (set_values ?va mb)"
      unfolding assms(6) handleTemplateSelect_def [of b] tb option.case Let_def by (simp_all add: a(2) \<open>ma = mb\<close>)
    show ?thesis using one two set_values_again [OF same ok] by simp
  next
    case False
    have "fresh_form itemTypes defs (it_id tb) (choose_type (show_nat (it_id tb)) itemTypes defs None (handleTemplateSelect a itemTypes defs form0))"
      by (rule choose_rebuilds [OF ids(2) a(1) False])
    then have "fm_itemTypeId two = show_nat (it_id tb)" "fm_fields two = set_values ?vb mb"
      using m(2) tb by (simp_all add: assms(6) handleTemplateSelect_def [of b] fresh_form_def Let_def)
    then show ?thesis using one by simp
  qed
qed

text \<open>
  The two lists agree but for the names of the types: for the same items, states and selection, they show
  rows for the same items with the same one selected, or the same notice, unless nothing has been read and nothing
  is on its way, where the web says that there are none and the desktop shows a table without rows.
\<close>
theorem item_lists_agree:
  assumes "items \<noteq> None \<or> isLoading"
  shows "(case ItemList items isLoading isError folderSelected q sel of
      ListRows xs \<Rightarrow> (\<exists>ys. cl_ItemList types items isLoading isError folderSelected q sel = ListRows ys
        \<and> map (\<lambda>(n, t, s). (n, s)) ys = map (\<lambda>(n, t, s). (n, s)) xs)
    | v \<Rightarrow> cl_ItemList types items isLoading isError folderSelected q sel = v)"
  using assms by (auto simp: ItemList_def cl_ItemList_def split: option.split)

text \<open>With the types the server starts with, the web names a certificate a key for an API.\<close>

lemma certificate_named_otherwise:
  assumes "\<lparr>it_id = 5, it_key = ''certificate'', it_label = ''Sertifika'', it_suggested_fields = fs\<rparr> \<in> set types"
    and "distinct (map it_id types)"
  shows "row_typeLabel 5 = ''API Anh.'' \<and> cl_itemTypeLabel types 5 = ''Sertifika''"
proof -
  let ?t = "\<lparr>it_id = 5, it_key = ''certificate'', it_label = ''Sertifika'', it_suggested_fields = fs\<rparr> :: ItemType"
  have "find (\<lambda>x. it_id x = 5) types = Some ?t"
  proof (cases "find (\<lambda>x. it_id x = 5) types")
    case None
    then show ?thesis using assms(1) by (auto simp: find_None_iff)
  next
    case (Some u)
    then have "u \<in> set types" "it_id u = it_id ?t" by (auto simp: find_Some_iff)
    then have "u = ?t" using assms by (metis distinct_map inj_onD)
    then show ?thesis using Some by simp
  qed
  then show ?thesis by (simp add: cl_itemTypeLabel_def row_typeLabel_def PIPELINE_TYPE_LABELS_def upt_rec)
qed

end
