(* ===== verification/Spec2Isabelle.thy ===== *)
theory Spec2Isabelle
  imports RefreshFlight OfflineSync Connection OfflineCache ShareLink HookProps Ws CatalogHooks DesktopSession
    ItemPanel PanelSecrets ItemShare ImportPage Toasts LogForwarding InventoryPage DesktopSignIn
    ItemTabFacts Diagrams CreateWizard Profile Paging UserAdmin ShellFacts
    K8sClusters ApiTokens PortalTemplates SsoProviders GroupAdmin ClientCerts TagsPage AccessRequestsPage
    Overviews Reports
    ItemPages DesktopUserAdmin AuditRows CatalogPages ExtensionPages SeedAccounts SeedMock ScriptBytes
    InventoryPanels SmallPages
begin

text \<open>
  IronStock is an inventory of credentials and other secrets with end-to-end encryption: a Go
  server stores opaque ciphertext, and two TypeScript clients, the web application (\<open>web/src\<close>)
  and the Tauri desktop application (\<open>client/src\<close>), hold the keys. This development models the
  logic of the clients and of the package they share (\<open>shared/pkg/src\<close>).

  \<^bold>\<open>How the program is modelled.\<close> A JavaScript string is the list of its UTF-8 bytes, \<open>null\<close> and
  \<open>undefined\<close> are \<open>None\<close>, JSON is a datatype, a thrown error the \<open>Inl\<close> of a sum, a byte array a
  list of 8-bit words. Module variables and stores are records, passed explicitly and returned
  updated. Asynchronous code between two awaits is one step; where the order of steps matters
  (shared refresh, overlapping queue writes, timers, sockets) the component is a step function over
  events with a predicate that says which events are possible, and the locale \<open>machine\<close> of the
  prelude carries an invariant along every run. Code outside the repository is a parameter with
  its documented behaviour as a named hypothesis: the network (a function of request and world),
  WebCrypto and Argon2 (\<open>webcrypto_laws\<close>), the key match of the query library
  (\<open>key_match_laws\<close>), the Tauri commands, the clock and the random source.

  \<^bold>\<open>Theories and components.\<close>
  \<^item> Prelude, JsText, Utf8, Base64: JSON, truthiness, numbers as text, \<open>trim\<close> and \<open>length\<close>,
    \<open>TextEncoder\<close> and \<open>TextDecoder\<close>, \<open>btoa\<close> and \<open>atob\<close>, the URL-safe alphabet of share links.
  \<^item> Errors (\<open>shared/pkg/src/api/errors.ts\<close>), TokenStorage (\<open>api/token-storage.ts\<close> of
    both applications): error values, a storage whose calls can throw, the token pair. The
    locale \<open>token_store\<close> is the contract of both token modules.
  \<^item> Http, ApiClient (\<open>web/src/api/client.ts\<close>): request building, response mapping, refresh and
    one retry; RefreshFlight: any number of calls sharing one refresh.
  \<^item> PendingOps, DesktopClient, OfflineSync, Connection, OfflineCache (\<open>client/src/lib\<close>,
    \<open>client/src/store\<close>, \<open>client/src/api/client.ts\<close>, \<open>client/src/hooks/use-offline-sync.ts\<close>): the
    desktop wrapper with its transports and offline queue, the replay of the queue, the connection
    settings and the query cache on disk. The desktop wrapper refines the web wrapper; the disk
    queue and its mirror are interpretations of \<open>op_queue\<close> and \<open>retry_queue\<close>.
  \<^item> Crypto (\<open>shared/pkg/src/crypto.ts\<close>, \<open>client/src/lib/crypto.ts\<close>): blobs, item keys, field values;
    the three ways to wrap an item key are interpretations of \<open>dek_box\<close>.
  \<^item> ApiHooks, ItemHooks, AccountHooks, AdminHooks, CatalogHooks, HookProps (\<open>web/src/api/*.ts\<close>):
    every query and mutation hook with its cache key, request and invalidations, and which queries
    a mutation refreshes.
  \<^item> AuthStore (\<open>web/src/store/auth.ts\<close>, \<open>App.tsx\<close>, \<open>routes/auth-gate.tsx\<close>), AuthFlows (the pages
    that sign in or change credentials), DesktopSession (their desktop counterparts with the
    keyring and the inactivity lock): sessions, key material in a heap of byte arrays, gates.
  \<^item> SignIn, DesktopSignIn (\<open>web/src/pages\<close>, \<open>client/src/pages\<close>): LDAP, security key, single sign-on, the
    bootstrap administrator and the enrolment wizard, a restore in flight; the desktop's login with the
    key pair it makes, and its page of settings.
  \<^item> ShareLink (\<open>share-link-dialog.tsx\<close>, \<open>pages/share.tsx\<close>): a share link from its making to its
    opening.
  \<^item> ItemForm, ItemPanel, PanelSecrets, ItemShare, InventoryPage (\<open>components/inventory\<close> and
    \<open>pages/inventory\<close> of both applications): what the item form sends and what the item page makes
    of it, the panel of the selected item with its pending decryptions and its timers, sharing with
    users and groups, the page around them with its address, lists, toolbar and duplication.
  \<^item> InventoryPanels (\<open>folder-tree.tsx\<close>, \<open>folder-tree-node.tsx\<close>, \<open>item-search.tsx\<close>, the folder form and the
    delete dialogs, \<open>client/src/pages/inventory.tsx\<close>): the folder tree, drawn with fuel for its depth, which
    is enough when no folder lies below itself; the search field that waits for a pause, together with the page whose
    address it follows; the dialogs; the desktop page as a machine.
  \<^item> SmallPages (\<open>item-form-template-data.ts\<close>, \<open>template-gallery.tsx\<close>, \<open>item-list.tsx\<close>, the pages of favourites, of
    the forgotten password and of the roles, and what Overviews leaves of the dashboard).
  \<^item> ImportPage, UserError (\<open>pages/import.tsx\<close>, \<open>lib/kdbx-parser.ts\<close>, \<open>lib/user-error.ts\<close>): KeePass
    and CSV import and the texts that errors are shown as.
  \<^item> LogForwarding (\<open>pages/admin/log-forwarding.tsx\<close>): the form of a log target.
  \<^item> PageKit: sets in their order of insertion; the data of a query as a page sees it and the locale
    \<open>sending_page\<close>, a machine whose steps send requests.
  \<^item> PipelineConstants, ItemTabs, ItemTabFacts (\<open>components/inventory/item-detail.tsx\<close> and the tabs beside
    it, \<open>lib/entity-page-registry.tsx\<close>): per tab its state, what its handlers send and which controls
    it offers, and the page composed of them, with another item coming into it.
  \<^item> LifecycleLanes, Diagrams (\<open>pages/pipeline\<close>, \<open>components/pipeline\<close>, \<open>pages/graph.tsx\<close>):
    the lanes with their server, the canvas with its delayed save, and the relationship map.
  \<^item> CreateWizard (\<open>pages/create\<close>, \<open>components/create\<close>): the wizard that makes an
    entity, what each step asks for and the requests of the last.
  \<^item> Profile (\<open>pages/profile.tsx\<close>): second factors, security keys, notification preferences, signing
    out everywhere.
  \<^item> Paging (\<open>components/common/pagination.tsx\<close>, \<open>pages/admin/users.tsx\<close>,
    \<open>pages/admin/audit-log.tsx\<close>): the place in a list and the filters kept in the address, \<open>Number(text)\<close>.
  \<^item> UserAdmin (\<open>components/admin\<close>): the menu of a user, restrictions, new users.
  \<^item> Shell, ShellFacts (\<open>components/layout/app-shell.tsx\<close> of both applications, \<open>store/ui.ts\<close>): titles,
    navigation, banners, signing out and locking.
  \<^item> JsValues: \<open>parseInt\<close>, \<open>split\<close>, and texts that are taken apart again after \<open>join\<close>.
  \<^item> K8sClusters, ApiTokens, PortalTemplates, SsoProviders, GroupAdmin, ClientCerts, Reports
    (\<open>pages/admin\<close>), TagsPage, AccessRequestsPage (\<open>pages\<close>): one page each, as a state, the events that
    users and answers cause, what a step sends and when it can happen.
  \<^item> Overviews (\<open>pages/admin/dashboard.tsx\<close>, \<open>components/inventory/item-list.tsx\<close>,
    \<open>pages/portal-home/index.tsx\<close>): the security score, exports, and how long an item is good for.
  \<^item> Toasts (\<open>hooks/use-toast.ts\<close>): the store of the notices on screen.
  \<^item> DesktopHooks (\<open>client/src/api/*.ts\<close>): the desktop's hooks, most of them equal to the web's.
  \<^item> DesktopItemPage, DesktopUserAdmin, AuditRows (\<open>client/src/components/inventory/item-detail.tsx\<close>,
    \<open>client/src/components/admin\<close>, \<open>client/src/pages/admin\<close>, \<open>audit-row.tsx\<close> and \<open>relative-time.tsx\<close> of both
    applications): the desktop's item page, menu of a user, lists and filters, each against the web's: the first two are
    interpretations of \<open>page_refinement\<close>, the lists are equal to the web's; rows of the audit log.
  \<^item> ItemPages (\<open>item-detail.tsx\<close>, \<open>item-attachment-panel.tsx\<close> and \<open>item-tag-picker.tsx\<close> of both applications): the
    two item pages as wholes, with the attachment panel and its uploads in flight, the open sections of the history,
    the tag picker and the queries of each page; the desktop's page refines the web's, event for event.
  \<^item> CatalogPages (\<open>pages/catalog\<close> of both applications, \<open>components/catalog/entity-card.tsx\<close>,
    \<open>components/inventory/annotations-panel.tsx\<close>): searching the catalogue, the page behind a card, annotations.
  \<^item> ExtensionClient, ExtensionPages (\<open>browser-extension/src\<close>): the browser extension's session with its shared
    renewal, as a machine over overlapping calls and as one call after the other; popup, context menu and the
    script that fills forms.
  \<^item> ScriptBytes, SeedAccounts, MockData, SeedMock (\<open>scripts\<close>): the one-time codes against RFC 6238,
    the accounts and the sample inventory the scripts make, sortable identifiers, and the writer of icon files.
  \<^item> Ws (\<open>api/ws.ts\<close> of both applications): the WebSocket clients with tickets, back-off, countdown
    and destruction.

  \<^bold>\<open>What the properties show.\<close> Secrets survive their journeys: share links, password changes,
  recovery, item keys and field values come back as they went in, created and imported items as the form or the file
  gives them, trimmed and without what is blank; the offline queue drops an operation only when it was sent or
  its retries were used up, and a panel shows the secrets of the item it is on, for as long as
  it may. Sessions end completely and start all or nothing. Requests are bounded, carry
  tokens only where they should, and share one refresh. The clients keep trying to connect, once
  at a time, and fall silent when destroyed. Which queries a change of an item or a user refreshes, and which not,
  is stated exactly. Pages keep
  their state well formed, lists are shown to their end, forms give back what they were filled with,
  and views of the same fact agree. A last
  group states where the code does not do what it means to; each of those theorems describes
  the behaviour of the code as it is.

  \<^bold>\<open>Bounds.\<close> The retry of the fetch wrappers is a terminating recursion on its own flag, the decoder
  and the replay loop recur on their input; trimming has the length of the text as its fuel, which no
  run uses up. Pressing \<open>Next\<close> to the end of a list is a \<open>partial_function\<close> that is proved to return. The
  retry limit, the cache age, the
  back-off and the idle time are the constants of the code.

  \<^bold>\<open>Not modelled.\<close> The Go server, the Rust shell, the command line tool and the deployment files (other
  languages); of the scripts the one that writes a master user except for its key pair, and the conversion of pictures; React rendering, tables, the wording of
  messages, dialogs that call one hook, and styling; the order in which the query library runs the
  callbacks of overlapping requests beyond what an event for each answer says; request cancellation by \<open>AbortSignal\<close>.
\<close>

end
